(* ===== verification/Prelude.thy ===== *)
theory Prelude
  imports Main "HOL-Library.AList" "HOL-Library.Multiset" "HOL-Library.Sublist"
begin

text \<open>
  The vocabulary the component theories share: Go maps as association lists, decimal printing,
  counted loops over index ranges, and the theorem collections that carry the proofs.

  \<^item> \<open>frame\<close> collects the equations \<open>field (operation g) = field g\<close> that say which fields of the
    game an operation leaves alone;
  \<^item> \<open>flow_defs\<close> collects the definitions of the tail-called functions of the engine;
  \<^item> \<open>kept\<close> collects the facts that an operation keeps an invariant.
\<close>

named_theorems frame \<open>fields an operation leaves unchanged\<close>
named_theorems flow_defs \<open>definitions of the functions the engine tail-calls\<close>
named_theorems kept \<open>an operation keeps an invariant\<close>

subsection \<open>Go maps\<close>

text \<open>
  A Go map is an association list with distinct keys, so that \<open>len\<close> and the iterations of the
  code are computable. Reading a missing key of a \<open>map[string]bool\<close> gives \<open>false\<close>.
\<close>

definition mget :: "('k \<times> bool) list \<Rightarrow> 'k \<Rightarrow> bool" where
  "mget m k = (case map_of m k of None \<Rightarrow> False | Some b \<Rightarrow> b)"

definition mput :: "'k \<Rightarrow> 'v \<Rightarrow> ('k \<times> 'v) list \<Rightarrow> ('k \<times> 'v) list" where
  "mput k v m = AList.update k v m"

definition mdel :: "'k \<Rightarrow> ('k \<times> 'v) list \<Rightarrow> ('k \<times> 'v) list" where
  "mdel k m = AList.delete k m"

lemma map_of_mput [simp]: "map_of (mput k v m) = (map_of m)(k \<mapsto> v)"
  by (simp add: mput_def update_conv')

lemma mget_mput [simp]: "mget (mput k b m) k' = (if k' = k then b else mget m k')"
  by (simp add: mget_def)

lemma mget_Nil [simp]: "\<not> mget [] k"
  by (simp add: mget_def)

lemma mget_mdel [simp]: "mget (mdel k m) k' \<longleftrightarrow> k' \<noteq> k \<and> mget m k'"
  by (simp add: mget_def mdel_def delete_conv')

lemma distinct_keys_mput [simp]: "distinct (map fst m) \<Longrightarrow> distinct (map fst (mput k v m))"
  by (simp add: mput_def distinct_update)

lemma set_keys_mput [simp]: "fst ` set (mput k v m) = insert k (fst ` set m)"
  by (simp add: mput_def dom_update)

subsection \<open>Decimal printing\<close>

definition digit_char :: "nat \<Rightarrow> char" where
  "digit_char d = char_of (48 + d)"

fun show_nat :: "nat \<Rightarrow> string" where
  "show_nat n = (if n < 10 then [digit_char n] else show_nat (n div 10) @ [digit_char (n mod 10)])"

declare show_nat.simps [simp del]

lemma of_char_digit_char: "d < 10 \<Longrightarrow> of_char (digit_char d) = (48 + d :: nat)"
  by (simp add: digit_char_def of_char_of take_bit_eq_mod)

lemma digit_char_inject: "a < 10 \<Longrightarrow> b < 10 \<Longrightarrow> digit_char a = digit_char b \<longleftrightarrow> a = b"
  by (metis add_left_cancel of_char_digit_char)

lemma digit_char_not_dash: "d < 10 \<Longrightarrow> digit_char d \<noteq> CHR ''-''"
proof
  assume "d < 10" and "digit_char d = CHR ''-''"
  then have "of_char (digit_char d) = (of_char (CHR ''-'') :: nat)" by simp
  with \<open>d < 10\<close> show False by (simp add: of_char_digit_char)
qed

lemma show_nat_not_dash: "CHR ''-'' \<notin> set (show_nat n)"
proof (induction n rule: show_nat.induct)
  case (1 n)
  show ?case
  proof (cases "n < 10")
    case True
    then show ?thesis using digit_char_not_dash [of n] by (subst show_nat.simps) auto
  next
    case False
    then show ?thesis using "1" digit_char_not_dash [of "n mod 10"] by (subst show_nat.simps) auto
  qed
qed

lemma show_nat_nonempty [simp]: "show_nat n \<noteq> []"
  by (subst show_nat.simps) simp

lemma show_nat_small: "n < 10 \<Longrightarrow> show_nat n = [digit_char n]"
  by (subst show_nat.simps) simp

lemma show_nat_large: "\<not> n < 10 \<Longrightarrow> show_nat n = show_nat (n div 10) @ [digit_char (n mod 10)]"
  by (subst show_nat.simps) simp

lemma length_show_nat: "length (show_nat n) = 1 \<longleftrightarrow> n < 10"
  by (cases "n < 10") (simp_all add: show_nat_small show_nat_large)

lemma show_nat_inject [simp]: "show_nat m = show_nat n \<longleftrightarrow> m = n"
proof
  show "show_nat m = show_nat n \<Longrightarrow> m = n"
  proof (induction m arbitrary: n rule: show_nat.induct)
    case (1 m)
    show ?case
    proof (cases "m < 10")
      case True
      with "1.prems" have "n < 10" by (metis length_show_nat)
      with True "1.prems" show ?thesis by (simp add: show_nat_small digit_char_inject)
    next
      case False
      with "1.prems" have n: "\<not> n < 10" by (metis length_show_nat)
      with False "1.prems" have "show_nat (m div 10) = show_nat (n div 10)"
        and last: "digit_char (m mod 10) = digit_char (n mod 10)"
        by (simp_all add: show_nat_large)
      then have "m div 10 = n div 10" using "1.IH" False by blast
      moreover have "m mod 10 = n mod 10" using last by (simp add: digit_char_inject)
      ultimately show ?thesis by (metis div_mult_mod_eq)
    qed
  qed
qed simp

text \<open>A name, a dash and a number: the number is read back after the last dash.\<close>

lemma dash_number_inject:
  assumes "k @ CHR ''-'' # show_nat m = k' @ CHR ''-'' # show_nat n"
  shows "m = n"
proof -
  have "takeWhile (\<lambda>c. c \<noteq> CHR ''-'') (rev (k @ CHR ''-'' # show_nat m)) = rev (show_nat m)"
    for k m
  proof -
    have "\<And>c. c \<in> set (rev (show_nat m)) \<Longrightarrow> c \<noteq> CHR ''-''"
      using show_nat_not_dash [of m] by auto
    then show ?thesis by (simp, subst takeWhile_append2) auto
  qed
  with assms have "rev (show_nat m) = rev (show_nat n)" by metis
  then show ?thesis by simp
qed

subsection \<open>Integer division\<close>

text \<open>Go's \<open>/\<close> and \<open>%\<close> truncate towards zero.\<close>

definition go_div :: "int \<Rightarrow> int \<Rightarrow> int" where
  "go_div a b = sgn a * sgn b * (\<bar>a\<bar> div \<bar>b\<bar>)"

definition go_mod :: "int \<Rightarrow> int \<Rightarrow> int" where
  "go_mod a b = a - b * go_div a b"

lemma go_div_nonneg: "0 \<le> a \<Longrightarrow> 0 < b \<Longrightarrow> go_div a b = a div b"
  by (cases "a = 0") (simp_all add: go_div_def)

lemma go_mod_nonneg: "0 \<le> a \<Longrightarrow> 0 < b \<Longrightarrow> go_mod a b = a mod b"
  by (simp add: go_mod_def go_div_nonneg minus_mult_div_eq_mod)

subsection \<open>The 64-bit \<open>int\<close>\<close>

text \<open>
  Go's \<open>int\<close> has 64 bits on the platforms the server is built for, and its arithmetic wraps around.
  Integers are unbounded in the model; \<open>int64\<close> is the wrap-around, written where the code's behaviour
  depends on it: the loops over prices, and the bids derived from them.
\<close>

definition int64 :: "int \<Rightarrow> int" where
  "int64 x = (x + 2 ^ 63) mod 2 ^ 64 - 2 ^ 63"

lemma int64_signed: "int64 x = signed_take_bit 63 x"
  by (simp add: int64_def signed_take_bit_eq_take_bit_shift take_bit_eq_mod)

lemma int64_range: "- (2 ^ 63) \<le> int64 x" "int64 x < 2 ^ 63"
  by (simp_all add: int64_signed signed_take_bit_int_greater_eq_minus_exp signed_take_bit_int_less_exp
      del: power_numeral)

lemma int64_le_max: "int64 x \<le> 2 ^ 63 - 1"
  using int64_range(2) [of x] by linarith

lemma int64_id: "- (2 ^ 63) \<le> x \<Longrightarrow> x < 2 ^ 63 \<Longrightarrow> int64 x = x"
  by (simp add: int64_signed signed_take_bit_int_eq_self del: power_numeral)

text \<open>For evaluation: most values need no division.\<close>

lemma int64_code [code]:
  "int64 x = (if - 9223372036854775808 \<le> x \<and> x < 9223372036854775808 then x
     else (x + 9223372036854775808) mod 18446744073709551616 - 9223372036854775808)"
  using int64_id [of x] by (simp add: int64_def)

subsection \<open>Lists and options\<close>

text \<open>The first index with a property, as the early-returning loops of the code find it.\<close>

fun find_index :: "('a \<Rightarrow> bool) \<Rightarrow> 'a list \<Rightarrow> nat option" where
  "find_index P [] = None"
| "find_index P (x # xs) = (if P x then Some 0 else map_option Suc (find_index P xs))"

lemma find_index_Some: "find_index P xs = Some i \<Longrightarrow> i < length xs \<and> P (xs ! i)"
  by (induction xs arbitrary: i) (auto split: if_splits)

lemma find_index_None: "find_index P xs = None \<longleftrightarrow> (\<forall>x \<in> set xs. \<not> P x)"
  by (induction xs) auto

text \<open>The last index with a property, as the loops that run from the end find it.\<close>

fun find_last_from :: "('a \<Rightarrow> bool) \<Rightarrow> nat \<Rightarrow> 'a list \<Rightarrow> nat option" where
  "find_last_from P i [] = None"
| "find_last_from P i (x # xs) =
     (case find_last_from P (Suc i) xs of
        Some j \<Rightarrow> Some j
      | None \<Rightarrow> if P x then Some i else None)"

definition find_last :: "('a \<Rightarrow> bool) \<Rightarrow> 'a list \<Rightarrow> nat option" where
  "find_last P xs = find_last_from P 0 xs"

lemma find_last_from_Some:
  "find_last_from P i xs = Some j \<Longrightarrow> i \<le> j \<and> j < i + length xs \<and> P (xs ! (j - i))"
proof (induction xs arbitrary: i)
  case (Cons x xs)
  show ?case
  proof (cases "find_last_from P (Suc i) xs")
    case None
    with Cons.prems show ?thesis by (auto split: if_splits)
  next
    case (Some k)
    with Cons.prems have "k = j" by simp
    with Some Cons.IH [of "Suc i"]
    have *: "Suc i \<le> j" "j < Suc i + length xs" "P (xs ! (j - Suc i))" by auto
    then have "j - i = Suc (j - Suc i)" by simp
    with * show ?thesis by simp
  qed
qed simp

lemma find_last_Some: "find_last P xs = Some j \<Longrightarrow> j < length xs \<and> P (xs ! j)"
  unfolding find_last_def using find_last_from_Some [of P 0 xs j] by simp

lemma sum_list_update_at:
  fixes f :: "'a \<Rightarrow> int"
  assumes "i < length xs"
  shows "sum_list (map f (xs[i := y])) = sum_list (map f xs) - f (xs ! i) + f y"
  using assms by (induction xs arbitrary: i) (auto split: nat.splits)

lemma sum_list_nat_update_at:
  fixes f :: "'a \<Rightarrow> nat"
  assumes "i < length xs"
  shows "sum_list (map f (xs[i := y])) + f (xs ! i) = sum_list (map f xs) + f y"
  using assms
proof (induction xs arbitrary: i)
  case (Cons x xs)
  then show ?case by (cases i) auto
qed simp

lemma in_set_update_nth:
  "y \<in> set (xs[i := v]) \<Longrightarrow> y = v \<or> y \<in> set xs"
  by (meson insertE set_update_subset_insert subsetD)

end
