(* ===== verification/Float64.thy ===== *)
theory Float64
  imports Complex_Main Prelude
begin

text \<open>
  The float64 arithmetic the engine uses for score factors and reading times. A finite float64 is
  the rational number it denotes; each operation computes exactly and rounds the result to the
  nearest float64 (53 significant bits, ties to even, subnormal quantum \<open>2 ^ -1074\<close>), as IEEE 754
  and the Go specification have it. Overflow to infinity (results of \<open>2 ^ 1024\<close> and more) is
  outside the model: the factors arrive in JSON, which has no infinities, and prices are small.
\<close>

type_synonym f64 = rat

fun bit_len :: "nat \<Rightarrow> nat" where
  "bit_len n = (if n = 0 then 0 else Suc (bit_len (n div 2)))"

declare bit_len.simps [simp del]

definition pow2 :: "int \<Rightarrow> rat" where
  "pow2 k = (if 0 \<le> k then 2 ^ nat k else 1 / 2 ^ nat (- k))"

text \<open>The binary exponent: \<open>2 ^ e \<le> x < 2 ^ (e + 1)\<close> for positive \<open>x\<close>.\<close>

definition f64_exponent :: "rat \<Rightarrow> int" where
  "f64_exponent x =
     (let (a, b) = quotient_of x; k = int (bit_len (nat a)) - int (bit_len (nat b))
      in if pow2 k \<le> x then k else k - 1)"

definition round_half_even :: "rat \<Rightarrow> int" where
  "round_half_even x =
     (let f = \<lfloor>x\<rfloor>; d = x - of_int f
      in if d < 1/2 then f else if 1/2 < d then f + 1 else if even f then f else f + 1)"

definition f64_round :: "rat \<Rightarrow> f64" where
  "f64_round x =
     (if x = 0 then 0
      else let q = pow2 (max (f64_exponent \<bar>x\<bar> - 52) (-1074))
           in of_int (round_half_even (x / q)) * q)"

definition f64_of_int :: "int \<Rightarrow> f64" where
  "f64_of_int n = f64_round (of_int n)"

definition f64_mul :: "f64 \<Rightarrow> f64 \<Rightarrow> f64" where
  "f64_mul x y = f64_round (x * y)"

definition f64_div :: "f64 \<Rightarrow> f64 \<Rightarrow> f64" where
  "f64_div x y = f64_round (x / y)"

definition f64_sub :: "f64 \<Rightarrow> f64 \<Rightarrow> f64" where
  "f64_sub x y = f64_round (x - y)"

text \<open>\<open>math.Round\<close> rounds half away from zero; \<open>math.Ceil\<close> is the ceiling.\<close>

definition math_round :: "f64 \<Rightarrow> int" where
  "math_round x = (if x < 0 then - \<lfloor>1/2 - x\<rfloor> else \<lfloor>x + 1/2\<rfloor>)"

definition math_ceil :: "f64 \<Rightarrow> int" where
  "math_ceil x = \<lceil>x\<rceil>"

subsection \<open>Integers below 2 ^ 53 are exact\<close>

lemma bit_len_bounds: "0 < n \<Longrightarrow> 2 ^ (bit_len n - 1) \<le> n \<and> n < 2 ^ bit_len n \<and> 0 < bit_len n"
proof (induction n rule: bit_len.induct)
  case (1 n)
  show ?case
  proof (cases "n = 1")
    case True
    have "bit_len 0 = 0" by (subst bit_len.simps) simp
    then have "bit_len 1 = 1" by (subst bit_len.simps) simp
    with True show ?thesis by simp
  next
    case False
    with "1.prems" have pos: "0 < n div 2" by auto
    with "1" have IH: "2 ^ (bit_len (n div 2) - 1) \<le> n div 2"
      "n div 2 < 2 ^ bit_len (n div 2)" "0 < bit_len (n div 2)" by auto
    have eq: "bit_len n = Suc (bit_len (n div 2))"
      using "1.prems" by (subst bit_len.simps) simp
    have "(2::nat) ^ bit_len (n div 2) = 2 * 2 ^ (bit_len (n div 2) - 1)"
      using IH(3) by (cases "bit_len (n div 2)") auto
    with IH have "2 ^ bit_len (n div 2) \<le> n" and "n < 2 * 2 ^ bit_len (n div 2)" by linarith+
    with eq show ?thesis by simp
  qed
qed

lemma pow2_pos [simp]: "0 < pow2 k"
  by (simp add: pow2_def)

lemma f64_exponent_int:
  assumes "0 < n" and "n < 2 ^ 53"
  shows "f64_exponent (of_int n) \<le> 52"
proof -
  have n: "0 < nat n" using assms by simp
  have "bit_len 0 = 0" by (subst bit_len.simps) simp
  then have one: "bit_len (Suc 0) = 1" by (subst bit_len.simps) simp
  have "2 ^ (bit_len (nat n) - 1) \<le> nat n" using bit_len_bounds [OF n] by blast
  also have "\<dots> < 2 ^ 53" using assms by (simp add: nat_less_iff)
  finally have "bit_len (nat n) - 1 < 53" by (rule power_less_imp_less_exp [rotated]) simp
  then have "int (bit_len (nat n)) - 1 \<le> 52" by linarith
  then show ?thesis
    by (simp add: f64_exponent_def Let_def quotient_of_int one)
qed

lemma round_half_even_of_int [simp]: "round_half_even (of_int n) = n"
  by (simp add: round_half_even_def)

lemma f64_round_int:
  assumes "\<bar>n\<bar> < 2 ^ 53"
  shows "f64_round (of_int n) = of_int n"
proof (cases "n = 0")
  case True
  then show ?thesis by (simp add: f64_round_def)
next
  case False
  let ?e = "max (f64_exponent (of_int \<bar>n\<bar>) - 52) (-1074)"
  have "?e \<le> 0" using f64_exponent_int [of "\<bar>n\<bar>"] assms False by simp
  then have q: "pow2 ?e = 1 / 2 ^ nat (- ?e)" by (auto simp: pow2_def)
  have quot: "of_int n / pow2 ?e = (of_int (n * 2 ^ nat (- ?e)) :: rat)" unfolding q by simp
  have "f64_round (of_int n) = of_int (round_half_even (of_int n / pow2 ?e)) * pow2 ?e"
    using False by (simp add: f64_round_def Let_def flip: of_int_abs)
  also have "\<dots> = of_int (n * 2 ^ nat (- ?e)) * pow2 ?e"
    unfolding quot round_half_even_of_int by (rule refl)
  also have "\<dots> = of_int n" unfolding q by simp
  finally show ?thesis .
qed

lemma math_round_of_int [simp]: "math_round (of_int n) = n"
proof -
  have "\<lfloor>1/2 - (of_int n :: rat)\<rfloor> = - n" by linarith
  moreover have "\<lfloor>of_int n + (1/2 :: rat)\<rfloor> = n" by linarith
  ultimately show ?thesis by (simp add: math_round_def)
qed

lemma f64_mul_one:
  assumes "\<bar>n\<bar> < 2 ^ 53"
  shows "f64_mul (f64_of_int n) 1 = of_int n"
  using assms by (simp add: f64_mul_def f64_of_int_def f64_round_int)

end
