(* ===== verification/Pack_Model.thy ===== *)
theory Pack_Model
  imports Float64
begin

text \<open>
  The question packs (\<open>internal/packs/model.go\<close>): the data every other part of the program reads.
  String-typed enums of the source that are not validated where the engine reads them keep a
  constructor for any other value; the empty string is the constructor ending in \<open>Unset\<close>. A nil
  slice and an empty one are the same list: they differ in JSON only.
\<close>

datatype round_type = RoundUnset | RoundStandard | RoundFinal | RoundOther string

datatype question_type =
    QUnset | QSimple | QStake | QStakeAll | QSecret | QSecretPublicPrice | QSecretNoQuestion
  | QNoRisk | QForAll | QCustom | QOther string

definition KnownQuestionTypes :: "question_type list" where
  "KnownQuestionTypes =
     [QSimple, QStake, QStakeAll, QSecret, QSecretPublicPrice, QSecretNoQuestion, QNoRisk, QForAll]"

definition IsKnown :: "question_type \<Rightarrow> bool" where
  "IsKnown t \<longleftrightarrow> t \<in> set KnownQuestionTypes"

datatype selection_mode = SelectUnset | SelectAny | SelectExceptCurrent | SelectOther string

datatype answer_type =
    AnswerUnset | AnswerText | AnswerSelect | AnswerNumber | AnswerPoint | AnswerClient
  | AnswerOther string

datatype content_type =
    ContentText | ContentImage | ContentAudio | ContentVideo | ContentHTML | ContentOther string

datatype placement = PlaceUnset | PlaceScreen | PlaceReplic | PlaceBackground | PlaceOther string

record content_item =
  ci_Type :: content_type
  ci_Text :: string
  ci_MediaID :: string
  ci_URL :: string
  ci_Placement :: placement
  ci_DurationMs :: int
  ci_NoWait :: bool

definition EffectivePlacement :: "content_item \<Rightarrow> placement" where
  "EffectivePlacement c =
     (if ci_Placement c \<noteq> PlaceUnset then ci_Placement c
      else if ci_Type c = ContentAudio then PlaceBackground
      else PlaceScreen)"

definition IsMedia :: "content_item \<Rightarrow> bool" where
  "IsMedia c \<longleftrightarrow> ci_Type c \<noteq> ContentText"

record number_set =
  ns_Min :: int
  ns_Max :: int
  ns_Step :: int

record answer_option =
  ao_Label :: string
  ao_Content :: "content_item list"

record info =
  in_Authors :: "string list"
  in_Sources :: "string list"
  in_Comments :: string
  in_ShowmanComments :: string

record question_params =
  qp_Question :: "content_item list"
  qp_Answer :: "content_item list"
  qp_Theme :: string
  qp_Price :: "number_set option"
  qp_SelectionMode :: selection_mode
  qp_AnswerType :: answer_type
  qp_AnswerOptions :: "answer_option list"
  qp_AnswerDeviation :: f64
  qp_AnswerDurationMs :: int

text \<open>A SIQ parameter nests: name, type, IsRef, value, items, params, number set.\<close>

datatype param =
  Param string string bool string "content_item list" "param list" "number_set option"

record script_step =
  ss_Type :: string
  ss_Params :: "param list"

record pack_question =
  pq_ID :: string
  pq_Price :: int
  pq_Type :: question_type
  pq_Params :: question_params
  pq_Right :: "string list"
  pq_Wrong :: "string list"
  pq_Info :: info
  pq_Script :: "script_step list"
  pq_Extra :: "param list"

record pack_theme =
  pt_ID :: string
  pt_Name :: string
  pt_Info :: info
  pt_Questions :: "pack_question list"

record pack_round =
  pr_ID :: string
  pr_Name :: string
  pr_Type :: round_type
  pr_Info :: info
  pr_Themes :: "pack_theme list"

text \<open>The authors and sources a SIQ package carries without a place of their own.\<close>

record author_record =
  au_ID :: string
  au_Name :: string
  au_SecondName :: string
  au_Surname :: string
  au_Country :: string
  au_City :: string

record source_record =
  sr_ID :: string
  sr_Author :: string
  sr_Title :: string
  sr_Year :: string
  sr_Publish :: string
  sr_City :: string

record pack_extra =
  px_GlobalAuthors :: "author_record list"
  px_GlobalSources :: "source_record list"

record pack =
  pk_ID :: string
  pk_Version :: int
  pk_Name :: string
  pk_Language :: string
  pk_Difficulty :: int
  pk_Restriction :: string
  pk_Date :: string
  pk_Publisher :: string
  pk_ContactURI :: string
  pk_LogoMediaID :: string
  pk_LogoURL :: string
  pk_Tags :: "string list"
  pk_Info :: info
  pk_Rounds :: "pack_round list"
  pk_Extra :: "pack_extra option"
  pk_SIQID :: string
  pk_CreatedAt :: int
  pk_UpdatedAt :: int

definition EffectiveType :: "pack_question \<Rightarrow> question_type" where
  "EffectiveType q = (if pq_Type q = QUnset then QSimple else pq_Type q)"

definition IsEmpty :: "pack_question \<Rightarrow> bool" where
  "IsEmpty q \<longleftrightarrow> pq_Price q < 0"

subsection \<open>The media a pack refers to\<close>

text \<open>
  \<open>Pack.MediaIDs\<close>: \<open>add\<close> appends an identifier that is neither empty nor seen; the list of the
  identifiers found so far is also the set of the seen ones.
\<close>

definition add_media :: "string \<Rightarrow> string list \<Rightarrow> string list" where
  "add_media x out = (if x = [] \<or> x \<in> set out then out else out @ [x])"

definition walk_items :: "content_item list \<Rightarrow> string list \<Rightarrow> string list" where
  "walk_items items out = fold (\<lambda>it. add_media (ci_MediaID it)) items out"

primrec walk_param :: "param \<Rightarrow> string list \<Rightarrow> string list" where
  "walk_param (Param nm ty ref val items params ns) out =
     fold (\<lambda>f. f) (map walk_param params) (walk_items items out)"

definition walk_params :: "param list \<Rightarrow> string list \<Rightarrow> string list" where
  "walk_params ps out = fold walk_param ps out"

definition walk_question :: "pack_question \<Rightarrow> string list \<Rightarrow> string list" where
  "walk_question q out =
     fold (\<lambda>s. walk_params (ss_Params s)) (pq_Script q)
       (walk_params (pq_Extra q)
         (fold (\<lambda>o'. walk_items (ao_Content o')) (qp_AnswerOptions (pq_Params q))
           (walk_items (qp_Answer (pq_Params q)) (walk_items (qp_Question (pq_Params q)) out))))"

definition MediaIDs :: "pack \<Rightarrow> string list" where
  "MediaIDs p =
     fold (\<lambda>r. fold (\<lambda>t. fold walk_question (pt_Questions t)) (pr_Themes r)) (pk_Rounds p)
       (add_media (pk_LogoMediaID p) [])"

text \<open>Every walk only ever appends new, non-empty identifiers.\<close>

definition media_ok :: "string list \<Rightarrow> bool" where
  "media_ok xs \<longleftrightarrow> distinct xs \<and> [] \<notin> set xs"

lemma media_ok_add [kept]: "media_ok xs \<Longrightarrow> media_ok (add_media x xs)"
  by (auto simp: add_media_def media_ok_def)

lemma fold_keeps: "(\<And>x s. x \<in> set xs \<Longrightarrow> P s \<Longrightarrow> P (f x s)) \<Longrightarrow> P s \<Longrightarrow> P (fold f xs s)"
  by (induction xs arbitrary: s) auto

lemmas media_ok_fold = fold_keeps [where P = media_ok]

lemma media_ok_items [kept]: "media_ok xs \<Longrightarrow> media_ok (walk_items items xs)"
  unfolding walk_items_def by (rule media_ok_fold) (auto intro: kept)

lemma media_ok_param [kept]: "media_ok xs \<Longrightarrow> media_ok (walk_param p xs)"
proof (induction p arbitrary: xs)
  case (Param nm ty ref val items params ns)
  have "media_ok (fold (\<lambda>p. walk_param p) params (walk_items items xs))"
    by (rule media_ok_fold) (auto intro: Param.IH media_ok_items Param.prems)
  then show ?case by (simp add: fold_map comp_def)
qed

lemma media_ok_params [kept]: "media_ok xs \<Longrightarrow> media_ok (walk_params ps xs)"
  unfolding walk_params_def by (rule media_ok_fold) (auto intro: kept)

lemma media_ok_question [kept]: "media_ok xs \<Longrightarrow> media_ok (walk_question q xs)"
  unfolding walk_question_def by (intro media_ok_fold media_ok_params media_ok_items)

lemma media_ok_MediaIDs: "media_ok (MediaIDs p)"
proof -
  have "media_ok (add_media (pk_LogoMediaID p) [])"
    by (auto simp: media_ok_def add_media_def)
  then show ?thesis unfolding MediaIDs_def by (intro media_ok_fold media_ok_question)
qed

end
