(* ===== verification/Engine_State.thy ===== *)
theory Engine_State
  imports Pack_Model
begin

text \<open>
  The data of the game engine (\<open>internal/engine/state.go\<close>, \<open>rules.go\<close>, \<open>command.go\<close>,
  \<open>event.go\<close>): rules and timings, players, table, timers, question and auction state, appeals,
  commands and events. Record fields carry a prefix naming their Go struct (\<open>p_\<close> for \<open>Player\<close>,
  \<open>q_\<close> for \<open>QuestionState\<close>, \<open>st_\<close> for \<open>State\<close>, and so on). Pointers to players are player
  identifiers; a nil pointer is \<open>None\<close>. Go \<open>int\<close> and \<open>int64\<close> are \<open>int\<close>: scores, prices and
  milliseconds stay far below the 64-bit range.
\<close>

subsection \<open>Rules and timings\<close>

datatype game_mode = ModeUnset | ModeClassic | ModeSimple | ModeQuiz | ModeTurnTaking | ModeOther string

datatype penalty = PenaltyUnset | PenaltySubtract | PenaltyNone | PenaltyOther string

record rules =
  r_Mode :: game_mode
  r_FalseStart :: bool
  r_Oral :: bool
  r_IgnoreWrong :: bool
  r_ButtonPenalty :: penalty
  r_ForYourselfPenalty :: penalty
  r_ForAllPenalty :: penalty
  r_ForYourselfFactor :: int
  r_ReadingSpeed :: int
  r_PartialText :: bool
  r_HintShowman :: bool
  r_Managed :: bool
  r_PlayAllQuestionsInFinal :: bool
  r_AllowEveryoneToPlayHiddenStakes :: bool
  r_UseAppellations :: bool
  r_DisplayAnswerOptionsLabels :: bool
  r_DisplayAnswerOptionsOneByOne :: bool
  r_PrependThemeCommentsToQuestion :: bool

definition DefaultRules :: rules where
  "DefaultRules = \<lparr>
     r_Mode = ModeClassic, r_FalseStart = True, r_Oral = False, r_IgnoreWrong = False,
     r_ButtonPenalty = PenaltySubtract, r_ForYourselfPenalty = PenaltyNone,
     r_ForAllPenalty = PenaltySubtract, r_ForYourselfFactor = 2, r_ReadingSpeed = 20,
     r_PartialText = False, r_HintShowman = False, r_Managed = False,
     r_PlayAllQuestionsInFinal = False, r_AllowEveryoneToPlayHiddenStakes = True,
     r_UseAppellations = True, r_DisplayAnswerOptionsLabels = True,
     r_DisplayAnswerOptionsOneByOne = True, r_PrependThemeCommentsToQuestion = True\<rparr>"

record time_settings =
  tm_QuestionSelectionMs :: int
  tm_ThemeSelectionMs :: int
  tm_PlayerSelectionMs :: int
  tm_ButtonPressingMs :: int
  tm_AnsweringMs :: int
  tm_SoloAnsweringMs :: int
  tm_HiddenAnsweringMs :: int
  tm_StakeMakingMs :: int
  tm_ShowmanDecisionMs :: int
  tm_RoundMs :: int
  tm_ButtonBlockingMs :: int
  tm_ReflectionMs :: int
  tm_ImageMs :: int
  tm_PartialImageMs :: int
  tm_AppellationMs :: int

definition DefaultTimeSettings :: time_settings where
  "DefaultTimeSettings = \<lparr>
     tm_QuestionSelectionMs = 30000, tm_ThemeSelectionMs = 30000, tm_PlayerSelectionMs = 30000,
     tm_ButtonPressingMs = 5000, tm_AnsweringMs = 25000, tm_SoloAnsweringMs = 25000,
     tm_HiddenAnsweringMs = 45000, tm_StakeMakingMs = 30000, tm_ShowmanDecisionMs = 30000,
     tm_RoundMs = 3600000, tm_ButtonBlockingMs = 3000, tm_ReflectionMs = 2000, tm_ImageMs = 5000,
     tm_PartialImageMs = 3000, tm_AppellationMs = 30000\<rparr>"

record rules_patch =
  rp_Oral :: "bool option"
  rp_Managed :: "bool option"
  rp_DisplayAnswerOptionsLabels :: "bool option"
  rp_FalseStart :: "bool option"
  rp_ReadingSpeed :: "int option"
  rp_PartialText :: "bool option"
  rp_UseAppellations :: "bool option"
  rp_ButtonBlockingMs :: "int option"
  rp_PartialImageMs :: "int option"

subsection \<open>Stages and players\<close>

datatype stage =
    StageLobby | StageRoundIntro | StageSelecting | StageQuestion | StageRoundEnd
  | StageFinalThemes | StageGameEnd

datatype qsub =
    SubAnnouncing | SubSecretTransfer | SubPriceSelect | SubStakes | SubContent | SubButtonWait
  | SubAnswering | SubValidating | SubHiddenAnswering | SubReveal | SubEnd

datatype player_state =
  PStateNone | PStateAnswering | PStateLost | PStateRight | PStateWrong | PStateHasAnswered | PStatePass

record player_init =
  pi_ID :: string
  pi_Name :: string

record answer_view =
  av_Text :: string
  av_OptionLabel :: string
  av_Number :: "f64 option"
  av_Point :: "(f64 \<times> f64) option"
  av_ClientRight :: "bool option"

definition no_answer :: answer_view where
  "no_answer = \<lparr>av_Text = [], av_OptionLabel = [], av_Number = None, av_Point = None, av_ClientRight = None\<rparr>"

record player =
  p_ID :: string
  p_Name :: string
  p_Score :: int
  p_Connected :: bool
  p_Kicked :: bool
  p_Ready :: bool
  p_CanPress :: bool
  p_State :: player_state
  p_InGame :: bool
  p_FinalInGame :: bool
  p_StakeMade :: bool
  p_Stake :: int
  p_StakeAllIn :: bool
  p_StakePassed :: bool
  p_Answered :: bool
  p_Answer :: answer_view
  p_MediaDone :: bool
  p_AppealUsed :: bool
  p_Right :: int
  p_Wrong :: int
  p_AcceptedAnswers :: "string list"
  p_RejectedAnswers :: "string list"
  p_Appeals :: int

text \<open>The literal \<open>&Player{ID: id, Name: name, Connected: true, State: PStateNone}\<close>.\<close>

definition new_player :: "string \<Rightarrow> string \<Rightarrow> player" where
  "new_player i n = \<lparr>p_ID = i, p_Name = n, p_Score = 0, p_Connected = True, p_Kicked = False,
     p_Ready = False, p_CanPress = False, p_State = PStateNone, p_InGame = False,
     p_FinalInGame = False, p_StakeMade = False, p_Stake = 0, p_StakeAllIn = False,
     p_StakePassed = False, p_Answered = False, p_Answer = no_answer, p_MediaDone = False,
     p_AppealUsed = False, p_Right = 0, p_Wrong = 0, p_AcceptedAnswers = [],
     p_RejectedAnswers = [], p_Appeals = 0\<rparr>"

definition p_Active :: "player \<Rightarrow> bool" where
  "p_Active p \<longleftrightarrow> p_Connected p \<and> \<not> p_Kicked p"

subsection \<open>Table and timers\<close>

record cell_state =
  c_Price :: int
  c_Played :: bool
  c_Removed :: bool

record theme_state =
  th_Name :: string
  th_Removed :: bool
  th_Questions :: "cell_state list"

datatype timer_kind =
    TimerQuestionSelection | TimerThemeSelection | TimerPlayerSelection | TimerButtonPressing
  | TimerAnswering | TimerSoloAnswering | TimerHiddenAnswering | TimerStakeMaking
  | TimerShowmanDecision | TimerRound | TimerReflection | TimerContent | TimerMediaFallback
  | TimerAppellation

record timer =
  t_ID :: string
  t_Kind :: timer_kind
  t_DurationMs :: int
  t_StartedAtMs :: int
  t_Paused :: bool
  t_Frozen :: bool
  t_RemainingMs :: int
  t_PersonID :: string

primrec kind_name :: "timer_kind \<Rightarrow> string" where
  "kind_name TimerQuestionSelection = ''questionSelection''"
| "kind_name TimerThemeSelection = ''themeSelection''"
| "kind_name TimerPlayerSelection = ''playerSelection''"
| "kind_name TimerButtonPressing = ''buttonPressing''"
| "kind_name TimerAnswering = ''answering''"
| "kind_name TimerSoloAnswering = ''soloAnswering''"
| "kind_name TimerHiddenAnswering = ''hiddenAnswering''"
| "kind_name TimerStakeMaking = ''stakeMaking''"
| "kind_name TimerShowmanDecision = ''showmanDecision''"
| "kind_name TimerRound = ''round''"
| "kind_name TimerReflection = ''reflection''"
| "kind_name TimerContent = ''content''"
| "kind_name TimerMediaFallback = ''mediaFallback''"
| "kind_name TimerAppellation = ''appellation''"

subsection \<open>Question, auction and appeal state\<close>

record outcome =
  o_PersonID :: string
  o_Answer :: string
  o_Right :: bool
  o_Factor :: f64
  o_Delta :: int
  o_Pass :: bool
  o_Reverted :: bool

datatype pending_kind = PendingChooser | PendingStaker | PendingDeleter | PendingSecretTransfer

record pending =
  pd_Kind :: pending_kind
  pd_DeciderID :: string
  pd_Candidates :: "string list"

datatype stake_mode = StakeUnset | StakeNominal | StakeStake | StakeAllIn | StakePass | StakeOther string

record stake_state =
  ss_Step :: int
  ss_Nominal :: int
  ss_Participants :: "string list"
  ss_Active :: "(string \<times> bool) list"
  ss_Bids :: "(string \<times> int) list"
  ss_HasBid :: "(string \<times> bool) list"
  ss_AllIn :: "(string \<times> bool) list"
  ss_Order :: "string list"
  ss_Current :: string
  ss_Stake :: int
  ss_Leader :: string
  ss_AnyAllIn :: bool
  ss_AllowedModes :: "stake_mode list"
  ss_Min :: int
  ss_Max :: int

record content_group =
  cg_Items :: "content_item list"
  cg_WaitMs :: int
  cg_MediaWait :: bool
  cg_MediaID :: string
  cg_MediaURL :: string

definition empty_group :: content_group where
  "empty_group = \<lparr>cg_Items = [], cg_WaitMs = 0, cg_MediaWait = False, cg_MediaID = [], cg_MediaURL = []\<rparr>"

datatype appeal_kind = AppealFor | AppealAgainst

record appeal_request =
  ar_Kind :: appeal_kind
  ar_AppellantID :: string
  ar_AnswererID :: string
  ar_OutcomeIdx :: nat

record appeal =
  a_Request :: appeal_request
  a_Voters :: "string list"
  a_Votes :: "(string \<times> bool) list"
  a_Total :: nat
  a_Pending :: "string list"

record validation =
  v_right :: bool
  v_factor :: f64

record question_state =
  q_ThemeIndex :: nat
  q_QuestionIndex :: nat
  q_ID :: string
  q_Type :: question_type
  q_IsDefault :: bool
  q_Known :: bool
  q_AnswerType :: answer_type
  q_Price :: int
  q_CurPriceRight :: int
  q_CurPriceWrong :: int
  q_Sub :: qsub
  q_Caption :: string
  q_IsFinal :: bool
  q_Button :: bool
  q_Armed :: bool
  q_Direct :: bool
  q_Hidden :: bool
  q_HiddenAll :: bool
  q_SecretPublic :: bool
  q_NoQuestion :: bool
  q_OptionsShown :: bool
  q_AnswererID :: string
  q_Answerers :: "string list"
  q_RevealIdx :: nat
  q_Groups :: "content_group list"
  q_Cursor :: nat
  q_Phase :: string
  q_ContentDone :: bool
  q_WaitNext :: bool
  q_ThinkingRemain :: int
  q_Stakes :: "stake_state option"
  q_Options :: "answer_option list"
  q_ExcludedOptions :: "(string \<times> bool) list"
  q_ValidationCache :: "(string \<times> validation) list"
  q_PendingAnswerID :: string
  q_PendingAnswer :: string
  q_PreVerdicts :: "(string \<times> validation) list"
  q_History :: "outcome list"
  q_AppealQueue :: "appeal_request list"
  q_AgainstUsed :: bool
  q_Rights :: "string list"
  q_Wrongs :: "string list"
  q_AnswerItems :: "content_item list"
  q_Comments :: string
  q_PriceChoices :: "int list"
  q_AwaitingMediaIDs :: bool

text \<open>
  The complete engine state. \<open>FinalGroups\<close> lists player identifiers; \<open>DeleterUsed\<close> is \<open>None\<close>
  while the Go map is nil. \<open>QuestionState.StakeAllMissing\<close> and \<open>ContentGroup.PartialImg\<close> are never
  written or read by the program and are left out.
\<close>

record game_state =
  st_Stage :: stage
  st_RoundIndex :: int
  st_RoundName :: string
  st_RoundType :: round_type
  st_Table :: "theme_state list"
  st_ChooserID :: string
  st_Players :: "player list"
  st_ShowmanID :: string
  st_Rules :: rules
  st_Times :: time_settings
  st_Question :: "question_state option"
  st_Pending :: "pending option"
  st_Timers :: "timer list"
  st_Paused :: bool
  st_Appeal :: "appeal option"
  st_RoundTimedOut :: bool
  st_WaitNext :: bool
  st_FinalGroups :: "string list list"
  st_FinalOffset :: nat
  st_DeleteStep :: nat
  st_DeleterID :: string
  st_DeleterUsed :: "(string \<times> bool) list option"
  st_Winner :: string
  st_QuestionsPlayed :: int
  st_Ended :: bool

subsection \<open>Commands\<close>

datatype role = RoleShowman | RolePlayer | RoleViewer | RoleSystem | RoleOther string

record actor =
  ac_PersonID :: string
  ac_Role :: role
  ac_IsHost :: bool

datatype cmd_type =
    CmdStart | CmdPlayerReady | CmdChooseQuestion | CmdButtonResult | CmdPass | CmdAnswer
  | CmdAnswerDraft | CmdValidate | CmdSelectPlayer | CmdSetStake | CmdDeleteTheme | CmdAppellate
  | CmdVoteAppeal | CmdTimeout | CmdMediaCompleted | CmdMediaLoaded | CmdShowmanPause | CmdMove
  | CmdToggle | CmdChangeScore | CmdSetChooser | CmdPlayerLeft | CmdPlayerJoined | CmdKickPlayer
  | CmdSetOptions | CmdNext | CmdAISuggestion | CmdOther string

record command =
  cmd_Type :: cmd_type
  cmd_Actor :: actor
  cmd_AtMs :: int
  cmd_Theme :: int
  cmd_Q :: int
  cmd_WinnerID :: string
  cmd_Nobody :: bool
  cmd_Text :: string
  cmd_OptionLabel :: string
  cmd_Number :: "f64 option"
  cmd_Point :: "(f64 \<times> f64) option"
  cmd_Right :: bool
  cmd_RightSet :: bool
  cmd_Factor :: f64
  cmd_FactorZero :: bool
  cmd_Source :: string
  cmd_Reason :: string
  cmd_PersonID :: string
  cmd_Name :: string
  cmd_StakeMode :: stake_mode
  cmd_Amount :: int
  cmd_For :: bool
  cmd_TimerID :: string
  cmd_On :: bool
  cmd_Dir :: int
  cmd_Round :: int
  cmd_NewSum :: int
  cmd_Options :: "rules_patch option"

text \<open>The sentinel errors. The detail text the code wraps around them is not modelled.\<close>

datatype engine_error = ErrNotAllowed | ErrBadState | ErrBadArgument

subsection \<open>Events\<close>

datatype audience =
  AudienceAll | AudienceRole role | AudiencePerson string | AudienceExcept string | AudienceRoom

definition IsRoomOnly :: "audience \<Rightarrow> bool" where
  "IsRoomOnly a \<longleftrightarrow> a = AudienceRoom"

record player_info =
  pin_ID :: string
  pin_Name :: string
  pin_Score :: int
  pin_Connected :: bool
  pin_Ready :: bool
  pin_Kicked :: bool
  pin_State :: player_state
  pin_CanPress :: bool
  pin_InGame :: bool

record content_item_view =
  cv_Type :: content_type
  cv_Text :: string
  cv_MediaID :: string
  cv_URL :: string
  cv_Placement :: placement
  cv_DurationMs :: int

record player_stats =
  ps_PersonID :: string
  ps_RightAnswers :: int
  ps_WrongAnswers :: int
  ps_AcceptedAnswers :: "string list"
  ps_RejectedAnswers :: "string list"
  ps_Appeals :: int

type_synonym score_entry = "string \<times> int"
type_synonym table_view = "(string \<times> bool \<times> (int \<times> bool \<times> bool) list) list"

record ask_stake =
  as_PersonID :: string
  as_Modes :: "stake_mode list"
  as_Min :: int
  as_Max :: int
  as_Step :: int
  as_Reason :: string
  as_DurationMs :: int

record ask_validate =
  vl_PersonID :: string
  vl_Answer :: string
  vl_Rights :: "string list"
  vl_Wrongs :: "string list"
  vl_AllowFactor :: bool
  vl_Oral :: bool
  vl_AutoAfterMs :: int
  vl_Preview :: bool

text \<open>
  An event: one constructor per event type, with the fields of its payload struct in the order of
  the struct. \<open>USER_ERROR\<close> is declared by the code and emitted nowhere in the engine.
\<close>

datatype (plugins only: code) event =
    EvStage stage "qsub option" int
  | EvPlayers "player_info list"
  | EvOptions rules time_settings
  | EvRoundStart int string round_type "string list"
  | EvRoundContent "string list" "string list"
  | EvTable table_view
  | EvSums "score_entry list"
  | EvSetChooser string string
  | EvAskChoose string int
  | EvAskSelectPlayer pending_kind "string list" string int
  | EvQuestionStart string nat nat string int question_type bool answer_type
  | EvQuestionCaption string int
  | EvShowmanHint "string list" "string list" string string
  | EvContent string nat "content_item_view list" int
  | EvContentState string
  | EvAnswerOptions "(string \<times> content_item_view list) list" bool bool
  | EvMediaWait string string
  | EvAskAnswer string answer_type int bool bool
  | EvAnswerDraft string string
  | EvPlayerAnswer string answer_view
  | EvAskValidate ask_validate
  | EvValidation string string bool f64 string string
  | EvAISuggestion string bool f64 string
  | EvPersonScore string int int string
  | EvPlayerState string player_state
  | EvPass string
  | EvRightAnswer string "content_item_view list" string
  | EvQuestionEnd nat nat
  | EvAskStake ask_stake
  | EvPersonStake string stake_mode int bool
  | EvAskDeleteTheme string "nat list" int
  | EvThemeDeleted nat string
  | EvFinalThink int
  | EvTimerStart string timer_kind int string
  | EvTimerStop string
  | EvTimerPause string timer_kind int
  | EvTimerResume string timer_kind int
  | EvPause bool
  | EvToggle nat nat bool
  | EvRoundEnd int string
  | EvWinner string
  | EvGameEnd "score_entry list" string int "player_stats list"
  | EvAppealStart appeal_kind string string string "string list" int
  | EvAskAppealVote appeal_kind string string "string list"
  | EvAppealVote string bool
  | EvAppealResult appeal_kind string bool int int
  | EvButtonArmRequest string "string list" int bool
  | EvButtonDisarm string
  | EvValidationTimeout string string "string list" "string list"

definition IsTimer :: "event \<Rightarrow> bool" where
  "IsTimer e = (case e of
       EvTimerStart _ _ _ _ \<Rightarrow> True
     | EvTimerStop _ \<Rightarrow> True
     | EvTimerPause _ _ _ \<Rightarrow> True
     | EvTimerResume _ _ _ \<Rightarrow> True
     | _ \<Rightarrow> False)"

subsection \<open>The game\<close>

text \<open>
  Library functions whose results rest on tables or algorithms the repository only calls: Unicode
  case mapping and folding, space trimming, number parsing and printing, \<open>math.Hypot\<close>. They are
  parameters of a game, fixed for its lifetime.
\<close>

record golib =
  lib_ToLower :: "string \<Rightarrow> string"
  lib_TrimSpace :: "string \<Rightarrow> string"
  lib_EqualFold :: "string \<Rightarrow> string \<Rightarrow> bool"
  lib_ParseFloat :: "string \<Rightarrow> f64 option"
  lib_FormatFloat :: "f64 \<Rightarrow> string"
  lib_FormatPoint :: "f64 \<Rightarrow> f64 \<Rightarrow> string"
  lib_Hypot :: "f64 \<Rightarrow> f64 \<Rightarrow> f64"

text \<open>
  \<open>Game\<close>: the state is owned by the game alone, so its fields are the game's. The seeded generator
  is the parameter \<open>g_rng\<close>: the value \<open>IntN(n)\<close> returns after the calls with the bounds in
  \<open>g_rngLog\<close>. \<open>g_ev\<close> holds the events of the command being applied.
\<close>

record game = game_state +
  g_pack :: pack
  g_lib :: golib
  g_rng :: "nat list \<Rightarrow> nat \<Rightarrow> nat"
  g_rngLog :: "nat list"
  g_now :: int
  g_ev :: "(audience \<times> event) list"
  g_timerSeq :: nat

text \<open>What \<open>rand.IntN\<close> documents: a value below the bound.\<close>

definition rng_ok :: "game \<Rightarrow> bool" where
  "rng_ok g \<longleftrightarrow> (\<forall>l n. 0 < n \<longrightarrow> g_rng g l n < n)"

end
