(* ===== verification/Engine_Core.thy ===== *)
theory Engine_Core
  imports Engine_State
begin

text \<open>
  The helpers every engine operation uses (\<open>engine.go\<close>, \<open>state.go\<close>): emitting events, finding and
  updating players, scores and the chooser, permissions, prices of the round. Each operation is a
  function from game to game; the \<open>frame\<close> lemmas after it list the fields it leaves alone.
\<close>

subsection \<open>Emitting events\<close>

definition emit :: "audience \<Rightarrow> event \<Rightarrow> game \<Rightarrow> game" where
  "emit aud e g = g\<lparr>g_ev := g_ev g @ [(aud, e)]\<rparr>"

abbreviation ev_all :: "event \<Rightarrow> game \<Rightarrow> game" where "ev_all \<equiv> emit AudienceAll"
abbreviation ev_to :: "string \<Rightarrow> event \<Rightarrow> game \<Rightarrow> game" where "ev_to i \<equiv> emit (AudiencePerson i)"
abbreviation ev_showman :: "event \<Rightarrow> game \<Rightarrow> game" where "ev_showman \<equiv> emit (AudienceRole RoleShowman)"
abbreviation ev_room :: "event \<Rightarrow> game \<Rightarrow> game" where "ev_room \<equiv> emit AudienceRoom"

lemma emit_frame [simp, frame]:
  "st_Stage (emit aud e g) = st_Stage g" "st_RoundIndex (emit aud e g) = st_RoundIndex g"
  "st_RoundName (emit aud e g) = st_RoundName g" "st_RoundType (emit aud e g) = st_RoundType g"
  "st_Table (emit aud e g) = st_Table g" "st_ChooserID (emit aud e g) = st_ChooserID g"
  "st_Players (emit aud e g) = st_Players g" "st_ShowmanID (emit aud e g) = st_ShowmanID g"
  "st_Rules (emit aud e g) = st_Rules g" "st_Times (emit aud e g) = st_Times g"
  "st_Question (emit aud e g) = st_Question g" "st_Pending (emit aud e g) = st_Pending g"
  "st_Timers (emit aud e g) = st_Timers g" "st_Paused (emit aud e g) = st_Paused g"
  "st_Appeal (emit aud e g) = st_Appeal g" "st_RoundTimedOut (emit aud e g) = st_RoundTimedOut g"
  "st_WaitNext (emit aud e g) = st_WaitNext g" "st_FinalGroups (emit aud e g) = st_FinalGroups g"
  "st_FinalOffset (emit aud e g) = st_FinalOffset g"
  "st_DeleteStep (emit aud e g) = st_DeleteStep g" "st_DeleterID (emit aud e g) = st_DeleterID g"
  "st_DeleterUsed (emit aud e g) = st_DeleterUsed g" "st_Winner (emit aud e g) = st_Winner g"
  "st_QuestionsPlayed (emit aud e g) = st_QuestionsPlayed g"
  "st_Ended (emit aud e g) = st_Ended g" "g_pack (emit aud e g) = g_pack g"
  "g_lib (emit aud e g) = g_lib g" "g_rng (emit aud e g) = g_rng g"
  "g_rngLog (emit aud e g) = g_rngLog g" "g_now (emit aud e g) = g_now g"
  "g_timerSeq (emit aud e g) = g_timerSeq g"
  by (simp_all add: emit_def)


lemma emit_ev [simp]: "g_ev (emit aud e g) = g_ev g @ [(aud, e)]"
  by (simp add: emit_def)

text \<open>Oral mode: the same event goes to the showman too.\<close>

definition ev_oral :: "event \<Rightarrow> game \<Rightarrow> game" where
  "ev_oral e g = (if r_Oral (st_Rules g) then ev_showman e g else g)"

lemma ev_oral_frame [simp, frame]:
  "st_Stage (ev_oral e g) = st_Stage g" "st_RoundIndex (ev_oral e g) = st_RoundIndex g"
  "st_RoundName (ev_oral e g) = st_RoundName g" "st_RoundType (ev_oral e g) = st_RoundType g"
  "st_Table (ev_oral e g) = st_Table g" "st_ChooserID (ev_oral e g) = st_ChooserID g"
  "st_Players (ev_oral e g) = st_Players g" "st_ShowmanID (ev_oral e g) = st_ShowmanID g"
  "st_Rules (ev_oral e g) = st_Rules g" "st_Times (ev_oral e g) = st_Times g"
  "st_Question (ev_oral e g) = st_Question g" "st_Pending (ev_oral e g) = st_Pending g"
  "st_Timers (ev_oral e g) = st_Timers g" "st_Paused (ev_oral e g) = st_Paused g"
  "st_Appeal (ev_oral e g) = st_Appeal g" "st_RoundTimedOut (ev_oral e g) = st_RoundTimedOut g"
  "st_WaitNext (ev_oral e g) = st_WaitNext g" "st_FinalGroups (ev_oral e g) = st_FinalGroups g"
  "st_FinalOffset (ev_oral e g) = st_FinalOffset g"
  "st_DeleteStep (ev_oral e g) = st_DeleteStep g" "st_DeleterID (ev_oral e g) = st_DeleterID g"
  "st_DeleterUsed (ev_oral e g) = st_DeleterUsed g" "st_Winner (ev_oral e g) = st_Winner g"
  "st_QuestionsPlayed (ev_oral e g) = st_QuestionsPlayed g" "st_Ended (ev_oral e g) = st_Ended g"
  "g_pack (ev_oral e g) = g_pack g" "g_lib (ev_oral e g) = g_lib g"
  "g_rng (ev_oral e g) = g_rng g" "g_rngLog (ev_oral e g) = g_rngLog g"
  "g_now (ev_oral e g) = g_now g" "g_timerSeq (ev_oral e g) = g_timerSeq g"
  by (simp_all add: ev_oral_def)


subsection \<open>Players\<close>

definition player :: "game \<Rightarrow> string \<Rightarrow> player option" where
  "player g i = find (\<lambda>p. p_ID p = i) (st_Players g)"

text \<open>A write through a player pointer.\<close>

definition upd_player :: "string \<Rightarrow> (player \<Rightarrow> player) \<Rightarrow> game \<Rightarrow> game" where
  "upd_player i f g = g\<lparr>st_Players := map (\<lambda>p. if p_ID p = i then f p else p) (st_Players g)\<rparr>"

definition upd_players :: "(player \<Rightarrow> player) \<Rightarrow> game \<Rightarrow> game" where
  "upd_players f g = g\<lparr>st_Players := map f (st_Players g)\<rparr>"

lemma upd_player_frame [simp, frame]:
  "st_Stage (upd_player i f g) = st_Stage g" "st_RoundIndex (upd_player i f g) = st_RoundIndex g"
  "st_RoundName (upd_player i f g) = st_RoundName g"
  "st_RoundType (upd_player i f g) = st_RoundType g" "st_Table (upd_player i f g) = st_Table g"
  "st_ChooserID (upd_player i f g) = st_ChooserID g"
  "st_ShowmanID (upd_player i f g) = st_ShowmanID g" "st_Rules (upd_player i f g) = st_Rules g"
  "st_Times (upd_player i f g) = st_Times g" "st_Question (upd_player i f g) = st_Question g"
  "st_Pending (upd_player i f g) = st_Pending g" "st_Timers (upd_player i f g) = st_Timers g"
  "st_Paused (upd_player i f g) = st_Paused g" "st_Appeal (upd_player i f g) = st_Appeal g"
  "st_RoundTimedOut (upd_player i f g) = st_RoundTimedOut g"
  "st_WaitNext (upd_player i f g) = st_WaitNext g"
  "st_FinalGroups (upd_player i f g) = st_FinalGroups g"
  "st_FinalOffset (upd_player i f g) = st_FinalOffset g"
  "st_DeleteStep (upd_player i f g) = st_DeleteStep g"
  "st_DeleterID (upd_player i f g) = st_DeleterID g"
  "st_DeleterUsed (upd_player i f g) = st_DeleterUsed g"
  "st_Winner (upd_player i f g) = st_Winner g"
  "st_QuestionsPlayed (upd_player i f g) = st_QuestionsPlayed g"
  "st_Ended (upd_player i f g) = st_Ended g" "g_pack (upd_player i f g) = g_pack g"
  "g_lib (upd_player i f g) = g_lib g" "g_rng (upd_player i f g) = g_rng g"
  "g_rngLog (upd_player i f g) = g_rngLog g" "g_now (upd_player i f g) = g_now g"
  "g_ev (upd_player i f g) = g_ev g" "g_timerSeq (upd_player i f g) = g_timerSeq g"
  by (simp_all add: upd_player_def)

lemma upd_players_frame [simp, frame]:
  "st_Stage (upd_players f g) = st_Stage g" "st_RoundIndex (upd_players f g) = st_RoundIndex g"
  "st_RoundName (upd_players f g) = st_RoundName g"
  "st_RoundType (upd_players f g) = st_RoundType g" "st_Table (upd_players f g) = st_Table g"
  "st_ChooserID (upd_players f g) = st_ChooserID g"
  "st_ShowmanID (upd_players f g) = st_ShowmanID g" "st_Rules (upd_players f g) = st_Rules g"
  "st_Times (upd_players f g) = st_Times g" "st_Question (upd_players f g) = st_Question g"
  "st_Pending (upd_players f g) = st_Pending g" "st_Timers (upd_players f g) = st_Timers g"
  "st_Paused (upd_players f g) = st_Paused g" "st_Appeal (upd_players f g) = st_Appeal g"
  "st_RoundTimedOut (upd_players f g) = st_RoundTimedOut g"
  "st_WaitNext (upd_players f g) = st_WaitNext g"
  "st_FinalGroups (upd_players f g) = st_FinalGroups g"
  "st_FinalOffset (upd_players f g) = st_FinalOffset g"
  "st_DeleteStep (upd_players f g) = st_DeleteStep g"
  "st_DeleterID (upd_players f g) = st_DeleterID g"
  "st_DeleterUsed (upd_players f g) = st_DeleterUsed g"
  "st_Winner (upd_players f g) = st_Winner g"
  "st_QuestionsPlayed (upd_players f g) = st_QuestionsPlayed g"
  "st_Ended (upd_players f g) = st_Ended g" "g_pack (upd_players f g) = g_pack g"
  "g_lib (upd_players f g) = g_lib g" "g_rng (upd_players f g) = g_rng g"
  "g_rngLog (upd_players f g) = g_rngLog g" "g_now (upd_players f g) = g_now g"
  "g_ev (upd_players f g) = g_ev g" "g_timerSeq (upd_players f g) = g_timerSeq g"
  by (simp_all add: upd_players_def)


text \<open>Lookups after writes. A write through a pointer never changes the identifier.\<close>

lemma find_map_if:
  assumes "\<And>p. p_ID (h p) = p_ID p"
  shows "find (\<lambda>p. p_ID p = j) (map h ps) = map_option h (find (\<lambda>p. p_ID p = j) ps)"
  using assms by (induction ps) auto

lemma player_ID: "player g i = Some p \<Longrightarrow> p_ID p = i"
  by (auto simp: player_def find_Some_iff)

lemma player_upd_player:
  assumes "\<And>p. p_ID (f p) = p_ID p"
  shows "player (upd_player i f g) j = (if j = i then map_option f (player g j) else player g j)"
proof -
  have "player (upd_player i f g) j = map_option (\<lambda>p. if p_ID p = i then f p else p) (player g j)"
    unfolding player_def upd_player_def using assms by (simp add: find_map_if)
  then show ?thesis by (cases "player g j") (auto dest: player_ID)
qed

lemma player_upd_players:
  assumes "\<And>p. p_ID (f p) = p_ID p"
  shows "player (upd_players f g) j = map_option f (player g j)"
  unfolding player_def upd_players_def using assms by (simp add: find_map_if)

lemma player_cong: "st_Players g' = st_Players g \<Longrightarrow> player g' i = player g i"
  by (simp add: player_def)

lemma player_emit [simp]: "player (emit aud e g) i = player g i"
  by (simp add: player_def)

lemma player_upd_q [simp]: "player (g\<lparr>st_Question := x\<rparr>) i = player g i"
  by (simp add: player_def)

definition activePlayers :: "game \<Rightarrow> player list" where
  "activePlayers g = filter p_Active (st_Players g)"

definition ids :: "player list \<Rightarrow> string list" where
  "ids ps = map p_ID ps"

definition player_score :: "game \<Rightarrow> string \<Rightarrow> int" where
  "player_score g i = (case player g i of Some p \<Rightarrow> p_Score p | None \<Rightarrow> 0)"

definition isActive :: "game \<Rightarrow> string \<Rightarrow> bool" where
  "isActive g i = (case player g i of Some p \<Rightarrow> p_Active p | None \<Rightarrow> False)"

text \<open>A write through the pointer to the current question.\<close>

definition upd_q :: "(question_state \<Rightarrow> question_state) \<Rightarrow> game \<Rightarrow> game" where
  "upd_q f g = g\<lparr>st_Question := map_option f (st_Question g)\<rparr>"

lemma upd_q_frame [simp, frame]:
  "st_Stage (upd_q f g) = st_Stage g" "st_RoundIndex (upd_q f g) = st_RoundIndex g"
  "st_RoundName (upd_q f g) = st_RoundName g" "st_RoundType (upd_q f g) = st_RoundType g"
  "st_Table (upd_q f g) = st_Table g" "st_ChooserID (upd_q f g) = st_ChooserID g"
  "st_Players (upd_q f g) = st_Players g" "st_ShowmanID (upd_q f g) = st_ShowmanID g"
  "st_Rules (upd_q f g) = st_Rules g" "st_Times (upd_q f g) = st_Times g"
  "st_Pending (upd_q f g) = st_Pending g" "st_Timers (upd_q f g) = st_Timers g"
  "st_Paused (upd_q f g) = st_Paused g" "st_Appeal (upd_q f g) = st_Appeal g"
  "st_RoundTimedOut (upd_q f g) = st_RoundTimedOut g" "st_WaitNext (upd_q f g) = st_WaitNext g"
  "st_FinalGroups (upd_q f g) = st_FinalGroups g" "st_FinalOffset (upd_q f g) = st_FinalOffset g"
  "st_DeleteStep (upd_q f g) = st_DeleteStep g" "st_DeleterID (upd_q f g) = st_DeleterID g"
  "st_DeleterUsed (upd_q f g) = st_DeleterUsed g" "st_Winner (upd_q f g) = st_Winner g"
  "st_QuestionsPlayed (upd_q f g) = st_QuestionsPlayed g" "st_Ended (upd_q f g) = st_Ended g"
  "g_pack (upd_q f g) = g_pack g" "g_lib (upd_q f g) = g_lib g" "g_rng (upd_q f g) = g_rng g"
  "g_rngLog (upd_q f g) = g_rngLog g" "g_now (upd_q f g) = g_now g" "g_ev (upd_q f g) = g_ev g"
  "g_timerSeq (upd_q f g) = g_timerSeq g"
  by (simp_all add: upd_q_def)


lemma upd_q_question [simp]: "st_Question (upd_q f g) = map_option f (st_Question g)"
  by (simp add: upd_q_def)

subsection \<open>Stage, scores, table\<close>

definition emitStage :: "game \<Rightarrow> game" where
  "emitStage g = ev_all (EvStage (st_Stage g)
     (if st_Stage g = StageQuestion then map_option q_Sub (st_Question g) else None)
     (st_RoundIndex g)) g"

definition setSub :: "qsub \<Rightarrow> game \<Rightarrow> game" where
  "setSub sub g = emitStage (upd_q (\<lambda>q. q\<lparr>q_Sub := sub\<rparr>) g)"

definition scores :: "game \<Rightarrow> score_entry list" where
  "scores g = map (\<lambda>p. (p_ID p, p_Score p)) (filter (\<lambda>p. \<not> p_Kicked p) (st_Players g))"

definition emitSums :: "game \<Rightarrow> game" where
  "emitSums g = ev_all (EvSums (scores g)) g"

definition playerInfos :: "game \<Rightarrow> player_info list" where
  "playerInfos g = map (\<lambda>p. \<lparr>pin_ID = p_ID p, pin_Name = p_Name p, pin_Score = p_Score p,
     pin_Connected = p_Connected p, pin_Ready = p_Ready p, pin_Kicked = p_Kicked p,
     pin_State = p_State p, pin_CanPress = p_CanPress p, pin_InGame = p_InGame p\<rparr>) (st_Players g)"

definition emitPlayers :: "game \<Rightarrow> game" where
  "emitPlayers g = ev_all (EvPlayers (playerInfos g)) g"

definition tablePayload :: "game \<Rightarrow> table_view" where
  "tablePayload g = map (\<lambda>t. (th_Name t, th_Removed t,
     map (\<lambda>c. (c_Price c, c_Played c, c_Removed c)) (th_Questions t))) (st_Table g)"

definition emitTable :: "game \<Rightarrow> game" where
  "emitTable g = ev_all (EvTable (tablePayload g)) g"

lemma emitStage_frame [simp, frame]:
  "st_Stage (emitStage g) = st_Stage g" "st_RoundIndex (emitStage g) = st_RoundIndex g"
  "st_RoundName (emitStage g) = st_RoundName g" "st_RoundType (emitStage g) = st_RoundType g"
  "st_Table (emitStage g) = st_Table g" "st_ChooserID (emitStage g) = st_ChooserID g"
  "st_Players (emitStage g) = st_Players g" "st_ShowmanID (emitStage g) = st_ShowmanID g"
  "st_Rules (emitStage g) = st_Rules g" "st_Times (emitStage g) = st_Times g"
  "st_Question (emitStage g) = st_Question g" "st_Pending (emitStage g) = st_Pending g"
  "st_Timers (emitStage g) = st_Timers g" "st_Paused (emitStage g) = st_Paused g"
  "st_Appeal (emitStage g) = st_Appeal g" "st_RoundTimedOut (emitStage g) = st_RoundTimedOut g"
  "st_WaitNext (emitStage g) = st_WaitNext g" "st_FinalGroups (emitStage g) = st_FinalGroups g"
  "st_FinalOffset (emitStage g) = st_FinalOffset g"
  "st_DeleteStep (emitStage g) = st_DeleteStep g" "st_DeleterID (emitStage g) = st_DeleterID g"
  "st_DeleterUsed (emitStage g) = st_DeleterUsed g" "st_Winner (emitStage g) = st_Winner g"
  "st_QuestionsPlayed (emitStage g) = st_QuestionsPlayed g" "st_Ended (emitStage g) = st_Ended g"
  "g_pack (emitStage g) = g_pack g" "g_lib (emitStage g) = g_lib g"
  "g_rng (emitStage g) = g_rng g" "g_rngLog (emitStage g) = g_rngLog g"
  "g_now (emitStage g) = g_now g" "g_timerSeq (emitStage g) = g_timerSeq g"
  by (simp_all add: emitStage_def)

lemma setSub_frame [simp, frame]:
  "st_Stage (setSub sub g) = st_Stage g" "st_RoundIndex (setSub sub g) = st_RoundIndex g"
  "st_RoundName (setSub sub g) = st_RoundName g" "st_RoundType (setSub sub g) = st_RoundType g"
  "st_Table (setSub sub g) = st_Table g" "st_ChooserID (setSub sub g) = st_ChooserID g"
  "st_Players (setSub sub g) = st_Players g" "st_ShowmanID (setSub sub g) = st_ShowmanID g"
  "st_Rules (setSub sub g) = st_Rules g" "st_Times (setSub sub g) = st_Times g"
  "st_Pending (setSub sub g) = st_Pending g" "st_Timers (setSub sub g) = st_Timers g"
  "st_Paused (setSub sub g) = st_Paused g" "st_Appeal (setSub sub g) = st_Appeal g"
  "st_RoundTimedOut (setSub sub g) = st_RoundTimedOut g"
  "st_WaitNext (setSub sub g) = st_WaitNext g" "st_FinalGroups (setSub sub g) = st_FinalGroups g"
  "st_FinalOffset (setSub sub g) = st_FinalOffset g"
  "st_DeleteStep (setSub sub g) = st_DeleteStep g" "st_DeleterID (setSub sub g) = st_DeleterID g"
  "st_DeleterUsed (setSub sub g) = st_DeleterUsed g" "st_Winner (setSub sub g) = st_Winner g"
  "st_QuestionsPlayed (setSub sub g) = st_QuestionsPlayed g"
  "st_Ended (setSub sub g) = st_Ended g" "g_pack (setSub sub g) = g_pack g"
  "g_lib (setSub sub g) = g_lib g" "g_rng (setSub sub g) = g_rng g"
  "g_rngLog (setSub sub g) = g_rngLog g" "g_now (setSub sub g) = g_now g"
  "g_timerSeq (setSub sub g) = g_timerSeq g"
  by (simp_all add: setSub_def)

lemma emitSums_frame [simp, frame]:
  "st_Stage (emitSums g) = st_Stage g" "st_RoundIndex (emitSums g) = st_RoundIndex g"
  "st_RoundName (emitSums g) = st_RoundName g" "st_RoundType (emitSums g) = st_RoundType g"
  "st_Table (emitSums g) = st_Table g" "st_ChooserID (emitSums g) = st_ChooserID g"
  "st_Players (emitSums g) = st_Players g" "st_ShowmanID (emitSums g) = st_ShowmanID g"
  "st_Rules (emitSums g) = st_Rules g" "st_Times (emitSums g) = st_Times g"
  "st_Question (emitSums g) = st_Question g" "st_Pending (emitSums g) = st_Pending g"
  "st_Timers (emitSums g) = st_Timers g" "st_Paused (emitSums g) = st_Paused g"
  "st_Appeal (emitSums g) = st_Appeal g" "st_RoundTimedOut (emitSums g) = st_RoundTimedOut g"
  "st_WaitNext (emitSums g) = st_WaitNext g" "st_FinalGroups (emitSums g) = st_FinalGroups g"
  "st_FinalOffset (emitSums g) = st_FinalOffset g" "st_DeleteStep (emitSums g) = st_DeleteStep g"
  "st_DeleterID (emitSums g) = st_DeleterID g" "st_DeleterUsed (emitSums g) = st_DeleterUsed g"
  "st_Winner (emitSums g) = st_Winner g" "st_QuestionsPlayed (emitSums g) = st_QuestionsPlayed g"
  "st_Ended (emitSums g) = st_Ended g" "g_pack (emitSums g) = g_pack g"
  "g_lib (emitSums g) = g_lib g" "g_rng (emitSums g) = g_rng g"
  "g_rngLog (emitSums g) = g_rngLog g" "g_now (emitSums g) = g_now g"
  "g_timerSeq (emitSums g) = g_timerSeq g"
  by (simp_all add: emitSums_def)

lemma emitPlayers_frame [simp, frame]:
  "st_Stage (emitPlayers g) = st_Stage g" "st_RoundIndex (emitPlayers g) = st_RoundIndex g"
  "st_RoundName (emitPlayers g) = st_RoundName g" "st_RoundType (emitPlayers g) = st_RoundType g"
  "st_Table (emitPlayers g) = st_Table g" "st_ChooserID (emitPlayers g) = st_ChooserID g"
  "st_Players (emitPlayers g) = st_Players g" "st_ShowmanID (emitPlayers g) = st_ShowmanID g"
  "st_Rules (emitPlayers g) = st_Rules g" "st_Times (emitPlayers g) = st_Times g"
  "st_Question (emitPlayers g) = st_Question g" "st_Pending (emitPlayers g) = st_Pending g"
  "st_Timers (emitPlayers g) = st_Timers g" "st_Paused (emitPlayers g) = st_Paused g"
  "st_Appeal (emitPlayers g) = st_Appeal g"
  "st_RoundTimedOut (emitPlayers g) = st_RoundTimedOut g"
  "st_WaitNext (emitPlayers g) = st_WaitNext g"
  "st_FinalGroups (emitPlayers g) = st_FinalGroups g"
  "st_FinalOffset (emitPlayers g) = st_FinalOffset g"
  "st_DeleteStep (emitPlayers g) = st_DeleteStep g"
  "st_DeleterID (emitPlayers g) = st_DeleterID g"
  "st_DeleterUsed (emitPlayers g) = st_DeleterUsed g" "st_Winner (emitPlayers g) = st_Winner g"
  "st_QuestionsPlayed (emitPlayers g) = st_QuestionsPlayed g"
  "st_Ended (emitPlayers g) = st_Ended g" "g_pack (emitPlayers g) = g_pack g"
  "g_lib (emitPlayers g) = g_lib g" "g_rng (emitPlayers g) = g_rng g"
  "g_rngLog (emitPlayers g) = g_rngLog g" "g_now (emitPlayers g) = g_now g"
  "g_timerSeq (emitPlayers g) = g_timerSeq g"
  by (simp_all add: emitPlayers_def)

lemma emitTable_frame [simp, frame]:
  "st_Stage (emitTable g) = st_Stage g" "st_RoundIndex (emitTable g) = st_RoundIndex g"
  "st_RoundName (emitTable g) = st_RoundName g" "st_RoundType (emitTable g) = st_RoundType g"
  "st_Table (emitTable g) = st_Table g" "st_ChooserID (emitTable g) = st_ChooserID g"
  "st_Players (emitTable g) = st_Players g" "st_ShowmanID (emitTable g) = st_ShowmanID g"
  "st_Rules (emitTable g) = st_Rules g" "st_Times (emitTable g) = st_Times g"
  "st_Question (emitTable g) = st_Question g" "st_Pending (emitTable g) = st_Pending g"
  "st_Timers (emitTable g) = st_Timers g" "st_Paused (emitTable g) = st_Paused g"
  "st_Appeal (emitTable g) = st_Appeal g" "st_RoundTimedOut (emitTable g) = st_RoundTimedOut g"
  "st_WaitNext (emitTable g) = st_WaitNext g" "st_FinalGroups (emitTable g) = st_FinalGroups g"
  "st_FinalOffset (emitTable g) = st_FinalOffset g"
  "st_DeleteStep (emitTable g) = st_DeleteStep g" "st_DeleterID (emitTable g) = st_DeleterID g"
  "st_DeleterUsed (emitTable g) = st_DeleterUsed g" "st_Winner (emitTable g) = st_Winner g"
  "st_QuestionsPlayed (emitTable g) = st_QuestionsPlayed g" "st_Ended (emitTable g) = st_Ended g"
  "g_pack (emitTable g) = g_pack g" "g_lib (emitTable g) = g_lib g"
  "g_rng (emitTable g) = g_rng g" "g_rngLog (emitTable g) = g_rngLog g"
  "g_now (emitTable g) = g_now g" "g_timerSeq (emitTable g) = g_timerSeq g"
  by (simp_all add: emitTable_def)


lemma setSub_question [simp]:
  "st_Question (setSub sub g) = map_option (\<lambda>q. q\<lparr>q_Sub := sub\<rparr>) (st_Question g)"
  by (simp add: setSub_def)

definition setPlayerState :: "string \<Rightarrow> player_state \<Rightarrow> game \<Rightarrow> game" where
  "setPlayerState i s g = ev_all (EvPlayerState i s) (upd_player i (\<lambda>p. p\<lparr>p_State := s\<rparr>) g)"

lemma player_setPlayerState:
  "player (setPlayerState i s g) j =
     (if j = i then map_option (\<lambda>p. p\<lparr>p_State := s\<rparr>) (player g j) else player g j)"
  by (simp add: setPlayerState_def player_upd_player)

definition addScore :: "string \<Rightarrow> int \<Rightarrow> string \<Rightarrow> game \<Rightarrow> game" where
  "addScore i delta reason g =
     (if delta = 0 \<and> reason \<noteq> ''correction'' then g
      else let g = upd_player i (\<lambda>p. p\<lparr>p_Score := p_Score p + delta\<rparr>) g
           in ev_all (EvPersonScore i delta (player_score g i) reason) g)"

definition setChooser :: "string \<Rightarrow> string \<Rightarrow> game \<Rightarrow> game" where
  "setChooser i reason g = ev_all (EvSetChooser i reason) (g\<lparr>st_ChooserID := i\<rparr>)"

lemma setPlayerState_frame [simp, frame]:
  "st_Stage (setPlayerState i s g) = st_Stage g"
  "st_RoundIndex (setPlayerState i s g) = st_RoundIndex g"
  "st_RoundName (setPlayerState i s g) = st_RoundName g"
  "st_RoundType (setPlayerState i s g) = st_RoundType g"
  "st_Table (setPlayerState i s g) = st_Table g"
  "st_ChooserID (setPlayerState i s g) = st_ChooserID g"
  "st_ShowmanID (setPlayerState i s g) = st_ShowmanID g"
  "st_Rules (setPlayerState i s g) = st_Rules g" "st_Times (setPlayerState i s g) = st_Times g"
  "st_Question (setPlayerState i s g) = st_Question g"
  "st_Pending (setPlayerState i s g) = st_Pending g"
  "st_Timers (setPlayerState i s g) = st_Timers g"
  "st_Paused (setPlayerState i s g) = st_Paused g"
  "st_Appeal (setPlayerState i s g) = st_Appeal g"
  "st_RoundTimedOut (setPlayerState i s g) = st_RoundTimedOut g"
  "st_WaitNext (setPlayerState i s g) = st_WaitNext g"
  "st_FinalGroups (setPlayerState i s g) = st_FinalGroups g"
  "st_FinalOffset (setPlayerState i s g) = st_FinalOffset g"
  "st_DeleteStep (setPlayerState i s g) = st_DeleteStep g"
  "st_DeleterID (setPlayerState i s g) = st_DeleterID g"
  "st_DeleterUsed (setPlayerState i s g) = st_DeleterUsed g"
  "st_Winner (setPlayerState i s g) = st_Winner g"
  "st_QuestionsPlayed (setPlayerState i s g) = st_QuestionsPlayed g"
  "st_Ended (setPlayerState i s g) = st_Ended g" "g_pack (setPlayerState i s g) = g_pack g"
  "g_lib (setPlayerState i s g) = g_lib g" "g_rng (setPlayerState i s g) = g_rng g"
  "g_rngLog (setPlayerState i s g) = g_rngLog g" "g_now (setPlayerState i s g) = g_now g"
  "g_timerSeq (setPlayerState i s g) = g_timerSeq g"
  by (simp_all add: setPlayerState_def)

lemma addScore_frame [simp, frame]:
  "st_Stage (addScore i d r g) = st_Stage g" "st_RoundIndex (addScore i d r g) = st_RoundIndex g"
  "st_RoundName (addScore i d r g) = st_RoundName g"
  "st_RoundType (addScore i d r g) = st_RoundType g" "st_Table (addScore i d r g) = st_Table g"
  "st_ChooserID (addScore i d r g) = st_ChooserID g"
  "st_ShowmanID (addScore i d r g) = st_ShowmanID g" "st_Rules (addScore i d r g) = st_Rules g"
  "st_Times (addScore i d r g) = st_Times g" "st_Question (addScore i d r g) = st_Question g"
  "st_Pending (addScore i d r g) = st_Pending g" "st_Timers (addScore i d r g) = st_Timers g"
  "st_Paused (addScore i d r g) = st_Paused g" "st_Appeal (addScore i d r g) = st_Appeal g"
  "st_RoundTimedOut (addScore i d r g) = st_RoundTimedOut g"
  "st_WaitNext (addScore i d r g) = st_WaitNext g"
  "st_FinalGroups (addScore i d r g) = st_FinalGroups g"
  "st_FinalOffset (addScore i d r g) = st_FinalOffset g"
  "st_DeleteStep (addScore i d r g) = st_DeleteStep g"
  "st_DeleterID (addScore i d r g) = st_DeleterID g"
  "st_DeleterUsed (addScore i d r g) = st_DeleterUsed g"
  "st_Winner (addScore i d r g) = st_Winner g"
  "st_QuestionsPlayed (addScore i d r g) = st_QuestionsPlayed g"
  "st_Ended (addScore i d r g) = st_Ended g" "g_pack (addScore i d r g) = g_pack g"
  "g_lib (addScore i d r g) = g_lib g" "g_rng (addScore i d r g) = g_rng g"
  "g_rngLog (addScore i d r g) = g_rngLog g" "g_now (addScore i d r g) = g_now g"
  "g_timerSeq (addScore i d r g) = g_timerSeq g"
  by (simp_all add: addScore_def Let_def)

lemma setChooser_frame [simp, frame]:
  "st_Stage (setChooser i r g) = st_Stage g" "st_RoundIndex (setChooser i r g) = st_RoundIndex g"
  "st_RoundName (setChooser i r g) = st_RoundName g"
  "st_RoundType (setChooser i r g) = st_RoundType g" "st_Table (setChooser i r g) = st_Table g"
  "st_Players (setChooser i r g) = st_Players g"
  "st_ShowmanID (setChooser i r g) = st_ShowmanID g" "st_Rules (setChooser i r g) = st_Rules g"
  "st_Times (setChooser i r g) = st_Times g" "st_Question (setChooser i r g) = st_Question g"
  "st_Pending (setChooser i r g) = st_Pending g" "st_Timers (setChooser i r g) = st_Timers g"
  "st_Paused (setChooser i r g) = st_Paused g" "st_Appeal (setChooser i r g) = st_Appeal g"
  "st_RoundTimedOut (setChooser i r g) = st_RoundTimedOut g"
  "st_WaitNext (setChooser i r g) = st_WaitNext g"
  "st_FinalGroups (setChooser i r g) = st_FinalGroups g"
  "st_FinalOffset (setChooser i r g) = st_FinalOffset g"
  "st_DeleteStep (setChooser i r g) = st_DeleteStep g"
  "st_DeleterID (setChooser i r g) = st_DeleterID g"
  "st_DeleterUsed (setChooser i r g) = st_DeleterUsed g"
  "st_Winner (setChooser i r g) = st_Winner g"
  "st_QuestionsPlayed (setChooser i r g) = st_QuestionsPlayed g"
  "st_Ended (setChooser i r g) = st_Ended g" "g_pack (setChooser i r g) = g_pack g"
  "g_lib (setChooser i r g) = g_lib g" "g_rng (setChooser i r g) = g_rng g"
  "g_rngLog (setChooser i r g) = g_rngLog g" "g_now (setChooser i r g) = g_now g"
  "g_timerSeq (setChooser i r g) = g_timerSeq g"
  by (simp_all add: setChooser_def)


lemma player_addScore:
  "player (addScore i d r g) j =
     (if j = i then map_option (\<lambda>p. p\<lparr>p_Score := p_Score p + d\<rparr>) (player g j) else player g j)"
  by (cases "player g j") (auto simp: addScore_def player_upd_player Let_def)

lemma setChooser_chooser [simp]: "st_ChooserID (setChooser i r g) = i"
  by (simp add: setChooser_def)

definition resetPlayerQuestion :: "player \<Rightarrow> player" where
  "resetPlayerQuestion p = p\<lparr>p_StakeMade := False, p_Stake := 0, p_StakeAllIn := False,
     p_StakePassed := False, p_Answered := False, p_Answer := no_answer, p_MediaDone := False,
     p_AppealUsed := False\<rparr>"

subsection \<open>Permissions\<close>

definition requireShowman :: "actor \<Rightarrow> bool" where
  "requireShowman a \<longleftrightarrow> ac_Role a = RoleShowman \<or> ac_IsHost a"

definition requireSystem :: "actor \<Rightarrow> bool" where
  "requireSystem a \<longleftrightarrow> ac_Role a = RoleSystem"

definition playerActor :: "game \<Rightarrow> actor \<Rightarrow> engine_error + player" where
  "playerActor g a =
     (if ac_Role a \<noteq> RolePlayer then Inl ErrNotAllowed
      else case player g (ac_PersonID a) of
          None \<Rightarrow> Inl ErrNotAllowed
        | Some p \<Rightarrow> if p_Kicked p then Inl ErrNotAllowed else Inr p)"

definition actingPlayer :: "game \<Rightarrow> command \<Rightarrow> string \<Rightarrow> engine_error + player" where
  "actingPlayer g cmd expected =
     (if ac_Role (cmd_Actor cmd) = RoleShowman \<and> r_Oral (st_Rules g) then
        (case player g (if cmd_PersonID cmd = [] then expected else cmd_PersonID cmd) of
           None \<Rightarrow> Inl ErrBadArgument
         | Some p \<Rightarrow> Inr p)
      else playerActor g (cmd_Actor cmd))"

subsection \<open>Pack and price helpers\<close>

definition round :: "game \<Rightarrow> pack_round option" where
  "round g = (if st_RoundIndex g < 0 \<or> int (length (pk_Rounds (g_pack g))) \<le> st_RoundIndex g then None
              else Some (pk_Rounds (g_pack g) ! nat (st_RoundIndex g)))"

definition packQuestion :: "game \<Rightarrow> nat \<Rightarrow> nat \<Rightarrow> pack_question option" where
  "packQuestion g t q = (case round g of
       None \<Rightarrow> None
     | Some r \<Rightarrow>
         if length (pr_Themes r) \<le> t \<or> length (pt_Questions (pr_Themes r ! t)) \<le> q then None
         else Some (pt_Questions (pr_Themes r ! t) ! q))"

definition table_cells :: "game \<Rightarrow> cell_state list" where
  "table_cells g = concat (map th_Questions (st_Table g))"

text \<open>One step of the nested loops of \<open>roundMinMax\<close>.\<close>

definition min_max_step :: "cell_state \<Rightarrow> int \<times> int \<Rightarrow> int \<times> int" where
  "min_max_step c m = (case m of (minP, maxP) \<Rightarrow>
     if c_Price c \<le> 0 then (minP, maxP)
     else (if minP = 0 \<or> c_Price c < minP then c_Price c else minP,
           if maxP < c_Price c then c_Price c else maxP))"

definition roundMinMax :: "game \<Rightarrow> int \<times> int" where
  "roundMinMax g = fold min_max_step (table_cells g) (0, 0)"

text \<open>
  \<open>for step*10 <= minP\<close>. The product wraps around, so the loop need not end: \<open>None\<close> is a loop for ever.
\<close>

partial_function (option) step_loop :: "int \<Rightarrow> int \<Rightarrow> int option" where
  "step_loop minP step =
     (if int64 (step * 10) \<le> minP then step_loop minP (int64 (step * 10)) else Some step)"

declare step_loop.simps [code]

definition stakeStep :: "game \<Rightarrow> int option" where
  "stakeStep g = (let minP = fst (roundMinMax g) in if minP < 10 then Some 1 else step_loop minP 1)"

text \<open>Below \<open>10 ^ 18\<close> nothing wraps and the loop finds the largest power of ten.\<close>

lemma step_loop_power:
  assumes "10 ^ k \<le> m" and "m < 10 ^ 18"
  shows "\<exists>n \<ge> k. step_loop m (10 ^ k) = Some (10 ^ n) \<and> 10 ^ n \<le> m \<and> m < 10 ^ Suc n"
  using assms(1)
proof (induction "nat (m - 10 ^ k)" arbitrary: k rule: less_induct)
  case less
  have fits: "int64 (10 ^ k * 10) = 10 ^ Suc k"
  proof -
    have "(10::int) ^ k < 10 ^ 18" using less(2) assms(2) by (rule le_less_trans)
    then have "k < 18" by (rule power_less_imp_less_exp [rotated]) simp
    then have "(10::int) ^ Suc k \<le> 10 ^ 18" by (intro power_increasing) simp_all
    also have "(10::int) ^ 18 < 2 ^ 63" by simp
    finally have "(10::int) ^ Suc k < 2 ^ 63" .
    moreover have "- (2 ^ 63) \<le> (10::int) ^ Suc k" by (rule order_trans [of _ 0]) simp_all
    ultimately have "int64 (10 ^ Suc k) = 10 ^ Suc k" by (rule int64_id [rotated])
    then show ?thesis by (simp only: power_Suc mult.commute)
  qed
  show ?case
  proof (cases "(10::int) ^ Suc k \<le> m")
    case True
    have "(10::int) ^ k < 10 ^ Suc k" by simp
    with True have "nat (m - 10 ^ Suc k) < nat (m - 10 ^ k)" by linarith
    from less(1) [OF this True] obtain n where "n \<ge> Suc k" "step_loop m (10 ^ Suc k) = Some (10 ^ n)"
      "10 ^ n \<le> m" "m < 10 ^ Suc n"
      by blast
    moreover have "step_loop m (10 ^ k) = step_loop m (10 ^ Suc k)"
      using True by (subst step_loop.simps) (simp only: fits if_True)
    ultimately show ?thesis by (auto intro: exI [of _ n])
  next
    case False
    then have "step_loop m (10 ^ k) = Some (10 ^ k)" by (subst step_loop.simps) (simp only: fits if_False)
    with False less(2) show ?thesis by auto
  qed
qed

text \<open>For the greatest integer the guard never fails.\<close>

lemma step_loop_hangs: "step_loop (2 ^ 63 - 1) s = None"
proof -
  have "step_loop m s = Some r \<Longrightarrow> m \<noteq> 2 ^ 63 - 1" for m s r
  proof (rule step_loop.raw_induct [where P = "\<lambda>m s r. m \<noteq> 2 ^ 63 - 1"])
    fix f m s r
    assume "\<And>m s r. f m s = Some r \<Longrightarrow> m \<noteq> 2 ^ 63 - 1"
      and "(if int64 (s * 10) \<le> m then f m (int64 (s * 10)) else Some s) = Some r"
    then show "m \<noteq> 2 ^ 63 - 1"
      using int64_le_max [of "s * 10"] by (auto split: if_splits)
  qed
  then show ?thesis by (cases "step_loop (2 ^ 63 - 1) s") auto
qed

definition defaultQuestionType :: "game \<Rightarrow> question_type" where
  "defaultQuestionType g =
     (if st_RoundType g = RoundFinal then QStakeAll
      else case r_Mode (st_Rules g) of
          ModeQuiz \<Rightarrow> QForAll
        | ModeTurnTaking \<Rightarrow> QNoRisk
        | _ \<Rightarrow> QSimple)"

definition sequential :: "game \<Rightarrow> bool" where
  "sequential g \<longleftrightarrow> r_Mode (st_Rules g) = ModeSimple \<or> r_Mode (st_Rules g) = ModeQuiz"

text \<open>\<open>randomIndex\<close>: the index and the game with the generator advanced.\<close>

definition randomIndex :: "nat \<Rightarrow> game \<Rightarrow> nat \<times> game" where
  "randomIndex n g =
     (if n \<le> 1 then (0, g)
      else (g_rng g (g_rngLog g) n, g\<lparr>g_rngLog := g_rngLog g @ [n]\<rparr>))"

definition scaled :: "int \<Rightarrow> f64 \<Rightarrow> int" where
  "scaled price factor = math_round (f64_mul (f64_of_int price) factor)"

lemma scaled_one: "\<bar>p\<bar> < 2 ^ 53 \<Longrightarrow> scaled p 1 = p"
  by (simp add: scaled_def f64_mul_one)

text \<open>For evaluation, the factor 1 needs no rational arithmetic.\<close>

lemma scaled_code [code]:
  "scaled p f = (if f = 1 \<and> \<bar>p\<bar> < 2 ^ 53 then p else math_round (f64_mul (f64_of_int p) f))"
  using scaled_one [of p] by (auto simp: scaled_def)

definition wrongPrice :: "game \<Rightarrow> penalty \<Rightarrow> int \<Rightarrow> int" where
  "wrongPrice g class price =
     (if r_IgnoreWrong (st_Rules g) \<or> class = PenaltyNone then 0 else price)"

text \<open>
  \<open>lowestScorePlayers\<close>: the loop keeps the players with the least score seen so far, in seat order.
\<close>

fun lowest_loop :: "player list \<Rightarrow> player list \<Rightarrow> player list" where
  "lowest_loop out [] = out"
| "lowest_loop [] (p # ps) = lowest_loop [p] ps"
| "lowest_loop (o1 # out) (p # ps) =
     (if p_Score p < p_Score o1 then lowest_loop [p] ps
      else if p_Score p = p_Score o1 then lowest_loop (o1 # out @ [p]) ps
      else lowest_loop (o1 # out) ps)"

definition lowestScorePlayers :: "game \<Rightarrow> player list" where
  "lowestScorePlayers g = lowest_loop [] (activePlayers g)"

definition currentChooser :: "game \<Rightarrow> string" where
  "currentChooser g =
     (case player g (st_ChooserID g) of
        Some p \<Rightarrow> if p_Active p then p_ID p
                 else (case lowestScorePlayers g of [] \<Rightarrow> [] | q # _ \<Rightarrow> p_ID q)
      | None \<Rightarrow> (case lowestScorePlayers g of [] \<Rightarrow> [] | q # _ \<Rightarrow> p_ID q))"

end
