(* ===== verification/Engine_Timers.thy ===== *)
theory Engine_Timers
  imports Engine_Core
begin

text \<open>
  Timers (\<open>engine.go\<close>, section ``timers''): started, stopped, paused and resumed timers and the
  requests they emit to the room. The properties: at most one timer of a kind, identifiers that are
  never reused, and a pause that keeps the remaining time.
\<close>

subsection \<open>Operations\<close>

definition findTimer :: "game \<Rightarrow> string \<Rightarrow> timer option" where
  "findTimer g i = find (\<lambda>t. t_ID t = i) (st_Timers g)"

definition timerOfKind :: "game \<Rightarrow> timer_kind \<Rightarrow> timer option" where
  "timerOfKind g k = find (\<lambda>t. t_Kind t = k) (st_Timers g)"

fun remove_timer :: "string \<Rightarrow> timer list \<Rightarrow> timer list" where
  "remove_timer i [] = []"
| "remove_timer i (t # ts) = (if t_ID t = i then ts else t # remove_timer i ts)"

definition removeTimer :: "string \<Rightarrow> game \<Rightarrow> game" where
  "removeTimer i g = g\<lparr>st_Timers := remove_timer i (st_Timers g)\<rparr>"

definition stopTimer :: "string \<Rightarrow> game \<Rightarrow> game" where
  "stopTimer i g = (case findTimer g i of
       None \<Rightarrow> g
     | Some t \<Rightarrow> ev_all (EvTimerStop (t_ID t)) (removeTimer i g))"

definition stopKind :: "timer_kind \<Rightarrow> game \<Rightarrow> game" where
  "stopKind k g = (case timerOfKind g k of None \<Rightarrow> g | Some t \<Rightarrow> stopTimer (t_ID t) g)"

definition stopAllExcept :: "timer_kind list \<Rightarrow> game \<Rightarrow> game" where
  "stopAllExcept keep g =
     fold (\<lambda>t g. if t_Kind t \<in> set keep then g else stopTimer (t_ID t) g) (st_Timers g) g"

definition timer_id :: "timer_kind \<Rightarrow> nat \<Rightarrow> string" where
  "timer_id k n = kind_name k @ CHR ''-'' # show_nat n"

definition startTimer :: "timer_kind \<Rightarrow> int \<Rightarrow> string \<Rightarrow> game \<Rightarrow> game" where
  "startTimer kind dur personID g =
     (let g = stopKind kind g;
          seq = Suc (g_timerSeq g);
          i = timer_id kind seq;
          t = \<lparr>t_ID = i, t_Kind = kind, t_DurationMs = dur, t_StartedAtMs = g_now g,
               t_Paused = st_Paused g, t_Frozen = False,
               t_RemainingMs = (if st_Paused g then dur else 0), t_PersonID = personID\<rparr>;
          g = ev_all (EvTimerStart i kind dur personID)
                (g\<lparr>g_timerSeq := seq, st_Timers := st_Timers g @ [t]\<rparr>)
      in if st_Paused g then ev_all (EvTimerPause i kind dur) g else g)"

definition remaining :: "int \<Rightarrow> timer \<Rightarrow> int" where
  "remaining now t =
     (if t_Paused t then t_RemainingMs t
      else let r = t_DurationMs t - (now - t_StartedAtMs t) in if r < 0 then 0 else r)"

text \<open>A write through a timer pointer.\<close>

definition upd_timer :: "string \<Rightarrow> (timer \<Rightarrow> timer) \<Rightarrow> game \<Rightarrow> game" where
  "upd_timer i f g = g\<lparr>st_Timers := map (\<lambda>t. if t_ID t = i then f t else t) (st_Timers g)\<rparr>"

definition freeze :: "int \<Rightarrow> timer \<Rightarrow> timer" where
  "freeze now t =
     (if t_Paused t then t\<lparr>t_Frozen := True\<rparr>
      else t\<lparr>t_RemainingMs := remaining now t, t_Paused := True, t_Frozen := True\<rparr>)"

definition pauseTimer :: "timer \<Rightarrow> game \<Rightarrow> game" where
  "pauseTimer t g =
     (if t_Paused t then upd_timer (t_ID t) (freeze (g_now g)) g
      else ev_all (EvTimerPause (t_ID t) (t_Kind t) (remaining (g_now g) t))
             (upd_timer (t_ID t) (freeze (g_now g)) g))"

definition unpause :: "int \<Rightarrow> timer \<Rightarrow> timer" where
  "unpause now t = t\<lparr>t_Paused := False, t_Frozen := False, t_DurationMs := t_RemainingMs t,
     t_StartedAtMs := now\<rparr>"

definition resumeTimer :: "timer \<Rightarrow> game \<Rightarrow> game" where
  "resumeTimer t g =
     (if \<not> t_Paused t then g
      else ev_all (EvTimerResume (t_ID t) (t_Kind t) (t_RemainingMs t))
             (upd_timer (t_ID t) (unpause (g_now g)) g))"

definition pauseAllTimers :: "game \<Rightarrow> game" where
  "pauseAllTimers g = fold (\<lambda>t g.
     if t_Paused t then g
     else ev_all (EvTimerPause (t_ID t) (t_Kind t) (remaining (g_now g) t))
            (upd_timer (t_ID t) (\<lambda>t. t\<lparr>t_RemainingMs := remaining (g_now g) t, t_Paused := True\<rparr>) g))
     (st_Timers g) g"

definition resumeAllTimers :: "game \<Rightarrow> game" where
  "resumeAllTimers g =
     fold (\<lambda>t g. if t_Frozen t then g else resumeTimer t g) (st_Timers g) g"

subsection \<open>Frames\<close>

lemma fold_frame: "(\<And>x g. F (f x g) = F g) \<Longrightarrow> F (fold f xs g) = F g"
  by (induction xs arbitrary: g) auto

lemmas fold_frames =
  fold_frame [where F = st_Stage]  fold_frame [where F = st_RoundIndex]  fold_frame [where F = st_RoundName]
  fold_frame [where F = st_RoundType]  fold_frame [where F = st_Table]  fold_frame [where F = st_ChooserID]
  fold_frame [where F = st_Players]  fold_frame [where F = st_ShowmanID]  fold_frame [where F = st_Rules]
  fold_frame [where F = st_Times]  fold_frame [where F = st_Question]  fold_frame [where F = st_Pending]
  fold_frame [where F = st_Timers]  fold_frame [where F = st_Paused]  fold_frame [where F = st_Appeal]
  fold_frame [where F = st_RoundTimedOut]  fold_frame [where F = st_WaitNext]  fold_frame [where F = st_FinalGroups]
  fold_frame [where F = st_FinalOffset]  fold_frame [where F = st_DeleteStep]  fold_frame [where F = st_DeleterID]
  fold_frame [where F = st_DeleterUsed]  fold_frame [where F = st_Winner]  fold_frame [where F = st_QuestionsPlayed]
  fold_frame [where F = st_Ended]  fold_frame [where F = g_pack]  fold_frame [where F = g_lib]
  fold_frame [where F = g_rng]  fold_frame [where F = g_rngLog]  fold_frame [where F = g_now]
  fold_frame [where F = g_ev]  fold_frame [where F = g_timerSeq]

lemma removeTimer_frame [simp, frame]:
  "st_Stage (removeTimer i g) = st_Stage g" "st_RoundIndex (removeTimer i g) = st_RoundIndex g"
  "st_RoundName (removeTimer i g) = st_RoundName g"
  "st_RoundType (removeTimer i g) = st_RoundType g" "st_Table (removeTimer i g) = st_Table g"
  "st_ChooserID (removeTimer i g) = st_ChooserID g" "st_Players (removeTimer i g) = st_Players g"
  "st_ShowmanID (removeTimer i g) = st_ShowmanID g" "st_Rules (removeTimer i g) = st_Rules g"
  "st_Times (removeTimer i g) = st_Times g" "st_Question (removeTimer i g) = st_Question g"
  "st_Pending (removeTimer i g) = st_Pending g" "st_Paused (removeTimer i g) = st_Paused g"
  "st_Appeal (removeTimer i g) = st_Appeal g"
  "st_RoundTimedOut (removeTimer i g) = st_RoundTimedOut g"
  "st_WaitNext (removeTimer i g) = st_WaitNext g"
  "st_FinalGroups (removeTimer i g) = st_FinalGroups g"
  "st_FinalOffset (removeTimer i g) = st_FinalOffset g"
  "st_DeleteStep (removeTimer i g) = st_DeleteStep g"
  "st_DeleterID (removeTimer i g) = st_DeleterID g"
  "st_DeleterUsed (removeTimer i g) = st_DeleterUsed g"
  "st_Winner (removeTimer i g) = st_Winner g"
  "st_QuestionsPlayed (removeTimer i g) = st_QuestionsPlayed g"
  "st_Ended (removeTimer i g) = st_Ended g" "g_pack (removeTimer i g) = g_pack g"
  "g_lib (removeTimer i g) = g_lib g" "g_rng (removeTimer i g) = g_rng g"
  "g_rngLog (removeTimer i g) = g_rngLog g" "g_now (removeTimer i g) = g_now g"
  "g_ev (removeTimer i g) = g_ev g" "g_timerSeq (removeTimer i g) = g_timerSeq g"
  by (simp_all add: removeTimer_def)

lemma stopTimer_frame [simp, frame]:
  "st_Stage (stopTimer i g) = st_Stage g" "st_RoundIndex (stopTimer i g) = st_RoundIndex g"
  "st_RoundName (stopTimer i g) = st_RoundName g" "st_RoundType (stopTimer i g) = st_RoundType g"
  "st_Table (stopTimer i g) = st_Table g" "st_ChooserID (stopTimer i g) = st_ChooserID g"
  "st_Players (stopTimer i g) = st_Players g" "st_ShowmanID (stopTimer i g) = st_ShowmanID g"
  "st_Rules (stopTimer i g) = st_Rules g" "st_Times (stopTimer i g) = st_Times g"
  "st_Question (stopTimer i g) = st_Question g" "st_Pending (stopTimer i g) = st_Pending g"
  "st_Paused (stopTimer i g) = st_Paused g" "st_Appeal (stopTimer i g) = st_Appeal g"
  "st_RoundTimedOut (stopTimer i g) = st_RoundTimedOut g"
  "st_WaitNext (stopTimer i g) = st_WaitNext g"
  "st_FinalGroups (stopTimer i g) = st_FinalGroups g"
  "st_FinalOffset (stopTimer i g) = st_FinalOffset g"
  "st_DeleteStep (stopTimer i g) = st_DeleteStep g"
  "st_DeleterID (stopTimer i g) = st_DeleterID g"
  "st_DeleterUsed (stopTimer i g) = st_DeleterUsed g" "st_Winner (stopTimer i g) = st_Winner g"
  "st_QuestionsPlayed (stopTimer i g) = st_QuestionsPlayed g"
  "st_Ended (stopTimer i g) = st_Ended g" "g_pack (stopTimer i g) = g_pack g"
  "g_lib (stopTimer i g) = g_lib g" "g_rng (stopTimer i g) = g_rng g"
  "g_rngLog (stopTimer i g) = g_rngLog g" "g_now (stopTimer i g) = g_now g"
  "g_timerSeq (stopTimer i g) = g_timerSeq g"
  by (simp_all add: stopTimer_def split: option.split)

lemma stopKind_frame [simp, frame]:
  "st_Stage (stopKind k g) = st_Stage g" "st_RoundIndex (stopKind k g) = st_RoundIndex g"
  "st_RoundName (stopKind k g) = st_RoundName g" "st_RoundType (stopKind k g) = st_RoundType g"
  "st_Table (stopKind k g) = st_Table g" "st_ChooserID (stopKind k g) = st_ChooserID g"
  "st_Players (stopKind k g) = st_Players g" "st_ShowmanID (stopKind k g) = st_ShowmanID g"
  "st_Rules (stopKind k g) = st_Rules g" "st_Times (stopKind k g) = st_Times g"
  "st_Question (stopKind k g) = st_Question g" "st_Pending (stopKind k g) = st_Pending g"
  "st_Paused (stopKind k g) = st_Paused g" "st_Appeal (stopKind k g) = st_Appeal g"
  "st_RoundTimedOut (stopKind k g) = st_RoundTimedOut g"
  "st_WaitNext (stopKind k g) = st_WaitNext g" "st_FinalGroups (stopKind k g) = st_FinalGroups g"
  "st_FinalOffset (stopKind k g) = st_FinalOffset g"
  "st_DeleteStep (stopKind k g) = st_DeleteStep g" "st_DeleterID (stopKind k g) = st_DeleterID g"
  "st_DeleterUsed (stopKind k g) = st_DeleterUsed g" "st_Winner (stopKind k g) = st_Winner g"
  "st_QuestionsPlayed (stopKind k g) = st_QuestionsPlayed g"
  "st_Ended (stopKind k g) = st_Ended g" "g_pack (stopKind k g) = g_pack g"
  "g_lib (stopKind k g) = g_lib g" "g_rng (stopKind k g) = g_rng g"
  "g_rngLog (stopKind k g) = g_rngLog g" "g_now (stopKind k g) = g_now g"
  "g_timerSeq (stopKind k g) = g_timerSeq g"
  by (simp_all add: stopKind_def split: option.split)

lemma stopAllExcept_frame [simp, frame]:
  "st_Stage (stopAllExcept ks g) = st_Stage g"
  "st_RoundIndex (stopAllExcept ks g) = st_RoundIndex g"
  "st_RoundName (stopAllExcept ks g) = st_RoundName g"
  "st_RoundType (stopAllExcept ks g) = st_RoundType g"
  "st_Table (stopAllExcept ks g) = st_Table g"
  "st_ChooserID (stopAllExcept ks g) = st_ChooserID g"
  "st_Players (stopAllExcept ks g) = st_Players g"
  "st_ShowmanID (stopAllExcept ks g) = st_ShowmanID g"
  "st_Rules (stopAllExcept ks g) = st_Rules g" "st_Times (stopAllExcept ks g) = st_Times g"
  "st_Question (stopAllExcept ks g) = st_Question g"
  "st_Pending (stopAllExcept ks g) = st_Pending g" "st_Paused (stopAllExcept ks g) = st_Paused g"
  "st_Appeal (stopAllExcept ks g) = st_Appeal g"
  "st_RoundTimedOut (stopAllExcept ks g) = st_RoundTimedOut g"
  "st_WaitNext (stopAllExcept ks g) = st_WaitNext g"
  "st_FinalGroups (stopAllExcept ks g) = st_FinalGroups g"
  "st_FinalOffset (stopAllExcept ks g) = st_FinalOffset g"
  "st_DeleteStep (stopAllExcept ks g) = st_DeleteStep g"
  "st_DeleterID (stopAllExcept ks g) = st_DeleterID g"
  "st_DeleterUsed (stopAllExcept ks g) = st_DeleterUsed g"
  "st_Winner (stopAllExcept ks g) = st_Winner g"
  "st_QuestionsPlayed (stopAllExcept ks g) = st_QuestionsPlayed g"
  "st_Ended (stopAllExcept ks g) = st_Ended g" "g_pack (stopAllExcept ks g) = g_pack g"
  "g_lib (stopAllExcept ks g) = g_lib g" "g_rng (stopAllExcept ks g) = g_rng g"
  "g_rngLog (stopAllExcept ks g) = g_rngLog g" "g_now (stopAllExcept ks g) = g_now g"
  "g_timerSeq (stopAllExcept ks g) = g_timerSeq g"
  by (simp_all add: stopAllExcept_def fold_frames)

lemma startTimer_frame [simp, frame]:
  "st_Stage (startTimer k d p g) = st_Stage g"
  "st_RoundIndex (startTimer k d p g) = st_RoundIndex g"
  "st_RoundName (startTimer k d p g) = st_RoundName g"
  "st_RoundType (startTimer k d p g) = st_RoundType g"
  "st_Table (startTimer k d p g) = st_Table g"
  "st_ChooserID (startTimer k d p g) = st_ChooserID g"
  "st_Players (startTimer k d p g) = st_Players g"
  "st_ShowmanID (startTimer k d p g) = st_ShowmanID g"
  "st_Rules (startTimer k d p g) = st_Rules g" "st_Times (startTimer k d p g) = st_Times g"
  "st_Question (startTimer k d p g) = st_Question g"
  "st_Pending (startTimer k d p g) = st_Pending g" "st_Paused (startTimer k d p g) = st_Paused g"
  "st_Appeal (startTimer k d p g) = st_Appeal g"
  "st_RoundTimedOut (startTimer k d p g) = st_RoundTimedOut g"
  "st_WaitNext (startTimer k d p g) = st_WaitNext g"
  "st_FinalGroups (startTimer k d p g) = st_FinalGroups g"
  "st_FinalOffset (startTimer k d p g) = st_FinalOffset g"
  "st_DeleteStep (startTimer k d p g) = st_DeleteStep g"
  "st_DeleterID (startTimer k d p g) = st_DeleterID g"
  "st_DeleterUsed (startTimer k d p g) = st_DeleterUsed g"
  "st_Winner (startTimer k d p g) = st_Winner g"
  "st_QuestionsPlayed (startTimer k d p g) = st_QuestionsPlayed g"
  "st_Ended (startTimer k d p g) = st_Ended g" "g_pack (startTimer k d p g) = g_pack g"
  "g_lib (startTimer k d p g) = g_lib g" "g_rng (startTimer k d p g) = g_rng g"
  "g_rngLog (startTimer k d p g) = g_rngLog g" "g_now (startTimer k d p g) = g_now g"
  by (simp_all add: startTimer_def Let_def)

lemma upd_timer_frame [simp, frame]:
  "st_Stage (upd_timer i f g) = st_Stage g" "st_RoundIndex (upd_timer i f g) = st_RoundIndex g"
  "st_RoundName (upd_timer i f g) = st_RoundName g"
  "st_RoundType (upd_timer i f g) = st_RoundType g" "st_Table (upd_timer i f g) = st_Table g"
  "st_ChooserID (upd_timer i f g) = st_ChooserID g" "st_Players (upd_timer i f g) = st_Players g"
  "st_ShowmanID (upd_timer i f g) = st_ShowmanID g" "st_Rules (upd_timer i f g) = st_Rules g"
  "st_Times (upd_timer i f g) = st_Times g" "st_Question (upd_timer i f g) = st_Question g"
  "st_Pending (upd_timer i f g) = st_Pending g" "st_Paused (upd_timer i f g) = st_Paused g"
  "st_Appeal (upd_timer i f g) = st_Appeal g"
  "st_RoundTimedOut (upd_timer i f g) = st_RoundTimedOut g"
  "st_WaitNext (upd_timer i f g) = st_WaitNext g"
  "st_FinalGroups (upd_timer i f g) = st_FinalGroups g"
  "st_FinalOffset (upd_timer i f g) = st_FinalOffset g"
  "st_DeleteStep (upd_timer i f g) = st_DeleteStep g"
  "st_DeleterID (upd_timer i f g) = st_DeleterID g"
  "st_DeleterUsed (upd_timer i f g) = st_DeleterUsed g"
  "st_Winner (upd_timer i f g) = st_Winner g"
  "st_QuestionsPlayed (upd_timer i f g) = st_QuestionsPlayed g"
  "st_Ended (upd_timer i f g) = st_Ended g" "g_pack (upd_timer i f g) = g_pack g"
  "g_lib (upd_timer i f g) = g_lib g" "g_rng (upd_timer i f g) = g_rng g"
  "g_rngLog (upd_timer i f g) = g_rngLog g" "g_now (upd_timer i f g) = g_now g"
  "g_ev (upd_timer i f g) = g_ev g" "g_timerSeq (upd_timer i f g) = g_timerSeq g"
  by (simp_all add: upd_timer_def)

lemma pauseTimer_frame [simp, frame]:
  "st_Stage (pauseTimer t g) = st_Stage g" "st_RoundIndex (pauseTimer t g) = st_RoundIndex g"
  "st_RoundName (pauseTimer t g) = st_RoundName g"
  "st_RoundType (pauseTimer t g) = st_RoundType g" "st_Table (pauseTimer t g) = st_Table g"
  "st_ChooserID (pauseTimer t g) = st_ChooserID g" "st_Players (pauseTimer t g) = st_Players g"
  "st_ShowmanID (pauseTimer t g) = st_ShowmanID g" "st_Rules (pauseTimer t g) = st_Rules g"
  "st_Times (pauseTimer t g) = st_Times g" "st_Question (pauseTimer t g) = st_Question g"
  "st_Pending (pauseTimer t g) = st_Pending g" "st_Paused (pauseTimer t g) = st_Paused g"
  "st_Appeal (pauseTimer t g) = st_Appeal g"
  "st_RoundTimedOut (pauseTimer t g) = st_RoundTimedOut g"
  "st_WaitNext (pauseTimer t g) = st_WaitNext g"
  "st_FinalGroups (pauseTimer t g) = st_FinalGroups g"
  "st_FinalOffset (pauseTimer t g) = st_FinalOffset g"
  "st_DeleteStep (pauseTimer t g) = st_DeleteStep g"
  "st_DeleterID (pauseTimer t g) = st_DeleterID g"
  "st_DeleterUsed (pauseTimer t g) = st_DeleterUsed g" "st_Winner (pauseTimer t g) = st_Winner g"
  "st_QuestionsPlayed (pauseTimer t g) = st_QuestionsPlayed g"
  "st_Ended (pauseTimer t g) = st_Ended g" "g_pack (pauseTimer t g) = g_pack g"
  "g_lib (pauseTimer t g) = g_lib g" "g_rng (pauseTimer t g) = g_rng g"
  "g_rngLog (pauseTimer t g) = g_rngLog g" "g_now (pauseTimer t g) = g_now g"
  "g_timerSeq (pauseTimer t g) = g_timerSeq g"
  by (simp_all add: pauseTimer_def)

lemma resumeTimer_frame [simp, frame]:
  "st_Stage (resumeTimer t g) = st_Stage g" "st_RoundIndex (resumeTimer t g) = st_RoundIndex g"
  "st_RoundName (resumeTimer t g) = st_RoundName g"
  "st_RoundType (resumeTimer t g) = st_RoundType g" "st_Table (resumeTimer t g) = st_Table g"
  "st_ChooserID (resumeTimer t g) = st_ChooserID g" "st_Players (resumeTimer t g) = st_Players g"
  "st_ShowmanID (resumeTimer t g) = st_ShowmanID g" "st_Rules (resumeTimer t g) = st_Rules g"
  "st_Times (resumeTimer t g) = st_Times g" "st_Question (resumeTimer t g) = st_Question g"
  "st_Pending (resumeTimer t g) = st_Pending g" "st_Paused (resumeTimer t g) = st_Paused g"
  "st_Appeal (resumeTimer t g) = st_Appeal g"
  "st_RoundTimedOut (resumeTimer t g) = st_RoundTimedOut g"
  "st_WaitNext (resumeTimer t g) = st_WaitNext g"
  "st_FinalGroups (resumeTimer t g) = st_FinalGroups g"
  "st_FinalOffset (resumeTimer t g) = st_FinalOffset g"
  "st_DeleteStep (resumeTimer t g) = st_DeleteStep g"
  "st_DeleterID (resumeTimer t g) = st_DeleterID g"
  "st_DeleterUsed (resumeTimer t g) = st_DeleterUsed g"
  "st_Winner (resumeTimer t g) = st_Winner g"
  "st_QuestionsPlayed (resumeTimer t g) = st_QuestionsPlayed g"
  "st_Ended (resumeTimer t g) = st_Ended g" "g_pack (resumeTimer t g) = g_pack g"
  "g_lib (resumeTimer t g) = g_lib g" "g_rng (resumeTimer t g) = g_rng g"
  "g_rngLog (resumeTimer t g) = g_rngLog g" "g_now (resumeTimer t g) = g_now g"
  "g_timerSeq (resumeTimer t g) = g_timerSeq g"
  by (simp_all add: resumeTimer_def)

lemma pauseAllTimers_frame [simp, frame]:
  "st_Stage (pauseAllTimers g) = st_Stage g" "st_RoundIndex (pauseAllTimers g) = st_RoundIndex g"
  "st_RoundName (pauseAllTimers g) = st_RoundName g"
  "st_RoundType (pauseAllTimers g) = st_RoundType g" "st_Table (pauseAllTimers g) = st_Table g"
  "st_ChooserID (pauseAllTimers g) = st_ChooserID g"
  "st_Players (pauseAllTimers g) = st_Players g"
  "st_ShowmanID (pauseAllTimers g) = st_ShowmanID g" "st_Rules (pauseAllTimers g) = st_Rules g"
  "st_Times (pauseAllTimers g) = st_Times g" "st_Question (pauseAllTimers g) = st_Question g"
  "st_Pending (pauseAllTimers g) = st_Pending g" "st_Paused (pauseAllTimers g) = st_Paused g"
  "st_Appeal (pauseAllTimers g) = st_Appeal g"
  "st_RoundTimedOut (pauseAllTimers g) = st_RoundTimedOut g"
  "st_WaitNext (pauseAllTimers g) = st_WaitNext g"
  "st_FinalGroups (pauseAllTimers g) = st_FinalGroups g"
  "st_FinalOffset (pauseAllTimers g) = st_FinalOffset g"
  "st_DeleteStep (pauseAllTimers g) = st_DeleteStep g"
  "st_DeleterID (pauseAllTimers g) = st_DeleterID g"
  "st_DeleterUsed (pauseAllTimers g) = st_DeleterUsed g"
  "st_Winner (pauseAllTimers g) = st_Winner g"
  "st_QuestionsPlayed (pauseAllTimers g) = st_QuestionsPlayed g"
  "st_Ended (pauseAllTimers g) = st_Ended g" "g_pack (pauseAllTimers g) = g_pack g"
  "g_lib (pauseAllTimers g) = g_lib g" "g_rng (pauseAllTimers g) = g_rng g"
  "g_rngLog (pauseAllTimers g) = g_rngLog g" "g_now (pauseAllTimers g) = g_now g"
  "g_timerSeq (pauseAllTimers g) = g_timerSeq g"
  by (simp_all add: pauseAllTimers_def fold_frames)

lemma resumeAllTimers_frame [simp, frame]:
  "st_Stage (resumeAllTimers g) = st_Stage g"
  "st_RoundIndex (resumeAllTimers g) = st_RoundIndex g"
  "st_RoundName (resumeAllTimers g) = st_RoundName g"
  "st_RoundType (resumeAllTimers g) = st_RoundType g" "st_Table (resumeAllTimers g) = st_Table g"
  "st_ChooserID (resumeAllTimers g) = st_ChooserID g"
  "st_Players (resumeAllTimers g) = st_Players g"
  "st_ShowmanID (resumeAllTimers g) = st_ShowmanID g" "st_Rules (resumeAllTimers g) = st_Rules g"
  "st_Times (resumeAllTimers g) = st_Times g" "st_Question (resumeAllTimers g) = st_Question g"
  "st_Pending (resumeAllTimers g) = st_Pending g" "st_Paused (resumeAllTimers g) = st_Paused g"
  "st_Appeal (resumeAllTimers g) = st_Appeal g"
  "st_RoundTimedOut (resumeAllTimers g) = st_RoundTimedOut g"
  "st_WaitNext (resumeAllTimers g) = st_WaitNext g"
  "st_FinalGroups (resumeAllTimers g) = st_FinalGroups g"
  "st_FinalOffset (resumeAllTimers g) = st_FinalOffset g"
  "st_DeleteStep (resumeAllTimers g) = st_DeleteStep g"
  "st_DeleterID (resumeAllTimers g) = st_DeleterID g"
  "st_DeleterUsed (resumeAllTimers g) = st_DeleterUsed g"
  "st_Winner (resumeAllTimers g) = st_Winner g"
  "st_QuestionsPlayed (resumeAllTimers g) = st_QuestionsPlayed g"
  "st_Ended (resumeAllTimers g) = st_Ended g" "g_pack (resumeAllTimers g) = g_pack g"
  "g_lib (resumeAllTimers g) = g_lib g" "g_rng (resumeAllTimers g) = g_rng g"
  "g_rngLog (resumeAllTimers g) = g_rngLog g" "g_now (resumeAllTimers g) = g_now g"
  "g_timerSeq (resumeAllTimers g) = g_timerSeq g"
  by (simp_all add: resumeAllTimers_def fold_frames)


subsection \<open>At most one timer of a kind, identifiers never reused\<close>

text \<open>
  The invariant of the timer list: kinds are distinct, and every identifier is the kind's name
  with a sequence number already handed out.
\<close>

definition issued :: "nat \<Rightarrow> timer \<Rightarrow> bool" where
  "issued n t \<longleftrightarrow> (\<exists>m \<le> n. t_ID t = timer_id (t_Kind t) m)"

definition timers_ok :: "game \<Rightarrow> bool" where
  "timers_ok g \<longleftrightarrow> distinct (map t_Kind (st_Timers g)) \<and> distinct (map t_ID (st_Timers g)) \<and>
     list_all (issued (g_timerSeq g)) (st_Timers g)"

lemma issued_mono: "issued m t \<Longrightarrow> m \<le> n \<Longrightarrow> issued n t"
  unfolding issued_def by (meson le_trans)

lemma timer_id_inject: "timer_id k m = timer_id k' n \<Longrightarrow> m = n"
  unfolding timer_id_def by (rule dash_number_inject)

lemma timers_ok_cong [simp]:
  "timers_ok (emit aud e g) = timers_ok g"
  "timers_ok (upd_q f g) = timers_ok g"
  "timers_ok (upd_player i f' g) = timers_ok g"
  "timers_ok (upd_players f' g) = timers_ok g"
  by (simp_all add: timers_ok_def)

lemma set_remove_timer: "set (remove_timer i ts) \<subseteq> set ts"
  by (induction ts) auto

lemma remove_timer_subseq: "subseq (remove_timer i ts) ts"
  by (induction ts) auto

lemma remove_timer_filter:
  "distinct (map t_ID ts) \<Longrightarrow> remove_timer i ts = filter (\<lambda>t. t_ID t \<noteq> i) ts"
proof (induction ts)
  case (Cons t ts)
  show ?case
  proof (cases "t_ID t = i")
    case True
    with Cons.prems have "\<forall>u \<in> set ts. t_ID u \<noteq> i" by (auto simp: image_iff)
    with True show ?thesis by simp
  next
    case False
    with Cons show ?thesis by simp
  qed
qed simp

lemma distinct_map_subseq: "subseq xs ys \<Longrightarrow> distinct (map f ys) \<Longrightarrow> distinct (map f xs)"
  by (induction rule: list_emb.induct) (auto dest: list_emb_set)

lemma timers_ok_removeTimer [kept]: "timers_ok g \<Longrightarrow> timers_ok (removeTimer i g)"
  unfolding timers_ok_def removeTimer_def
  by (auto intro: distinct_map_subseq [OF remove_timer_subseq]
      simp: list_all_iff dest: subsetD [OF set_remove_timer])

lemma timers_ok_stopTimer [kept]: "timers_ok g \<Longrightarrow> timers_ok (stopTimer i g)"
  by (auto simp: stopTimer_def split: option.split intro: kept)

lemma timers_ok_stopKind [kept]: "timers_ok g \<Longrightarrow> timers_ok (stopKind k g)"
  by (auto simp: stopKind_def split: option.split intro: kept)

lemma timers_ok_stopAllExcept [kept]: "timers_ok g \<Longrightarrow> timers_ok (stopAllExcept ks g)"
  unfolding stopAllExcept_def by (rule fold_keeps) (auto intro: kept)

lemma stopTimer_timers:
  assumes "timers_ok g"
  shows "st_Timers (stopTimer i g) = filter (\<lambda>t. t_ID t \<noteq> i) (st_Timers g)"
proof (cases "findTimer g i")
  case None
  then have "\<forall>t \<in> set (st_Timers g). t_ID t \<noteq> i" by (simp add: findTimer_def find_None_iff)
  with None show ?thesis by (simp add: stopTimer_def)
next
  case (Some t)
  with assms show ?thesis
    by (simp add: stopTimer_def removeTimer_def remove_timer_filter timers_ok_def)
qed

lemma same_kind_same_timer:
  "\<lbrakk>timers_ok g; t \<in> set (st_Timers g); u \<in> set (st_Timers g)\<rbrakk> \<Longrightarrow> t_ID t = t_ID u \<longleftrightarrow> t_Kind t = t_Kind u"
  by (auto simp: timers_ok_def dest: inj_onD [OF distinct_map [THEN iffD1, THEN conjunct2]])

lemma stopKind_timers:
  assumes ok: "timers_ok g"
  shows "st_Timers (stopKind k g) = filter (\<lambda>t. t_Kind t \<noteq> k) (st_Timers g)"
proof (cases "timerOfKind g k")
  case None
  then have "\<forall>t \<in> set (st_Timers g). t_Kind t \<noteq> k" by (simp add: timerOfKind_def find_None_iff)
  with None show ?thesis by (simp add: stopKind_def)
next
  case (Some t)
  then have t: "t \<in> set (st_Timers g)" "t_Kind t = k"
    by (auto simp: timerOfKind_def find_Some_iff)
  with Some ok show ?thesis
    by (auto simp: stopKind_def stopTimer_timers same_kind_same_timer intro!: filter_cong)
qed

lemma timers_ok_startTimer [kept]:
  assumes "timers_ok g"
  shows "timers_ok (startTimer k d p g)"
proof -
  let ?g = "stopKind k g" and ?n = "g_timerSeq g"
  have ok: "timers_ok ?g" using assms by (rule kept)
  have kinds: "k \<notin> t_Kind ` set (st_Timers ?g)" by (auto simp: stopKind_timers [OF assms])
  have fresh: "timer_id k (Suc ?n) \<notin> t_ID ` set (st_Timers ?g)"
  proof
    assume "timer_id k (Suc ?n) \<in> t_ID ` set (st_Timers ?g)"
    then obtain t where t: "t \<in> set (st_Timers ?g)" "t_ID t = timer_id k (Suc ?n)" by auto
    with ok obtain m where "m \<le> ?n" "t_ID t = timer_id (t_Kind t) m"
      by (auto simp: timers_ok_def list_all_iff issued_def)
    with t(2) have "m = Suc ?n" by (metis timer_id_inject)
    with \<open>m \<le> ?n\<close> show False by simp
  qed
  have old: "list_all (issued (Suc ?n)) (st_Timers ?g)"
    using ok by (auto simp: timers_ok_def elim!: list.pred_mono_strong intro: issued_mono)
  show ?thesis
    using ok kinds fresh old
    by (auto simp: timers_ok_def startTimer_def Let_def issued_def)
qed

lemma timers_ok_upd_timer:
  assumes "timers_ok g" and "\<And>t. t_ID (f t) = t_ID t" and "\<And>t. t_Kind (f t) = t_Kind t"
  shows "timers_ok (upd_timer i f g)"
proof -
  let ?h = "\<lambda>t. if t_ID t = i then f t else t"
  have "t_ID \<circ> ?h = t_ID" "t_Kind \<circ> ?h = t_Kind" using assms(2,3) by auto
  then show ?thesis
    using assms by (auto simp: timers_ok_def upd_timer_def list_all_iff issued_def)
qed

lemma timers_ok_pauseTimer [kept]: "timers_ok g \<Longrightarrow> timers_ok (pauseTimer t g)"
  by (auto simp: pauseTimer_def freeze_def intro!: timers_ok_upd_timer)

lemma timers_ok_resumeTimer [kept]: "timers_ok g \<Longrightarrow> timers_ok (resumeTimer t g)"
  by (auto simp: resumeTimer_def unpause_def intro!: timers_ok_upd_timer)

lemma timers_ok_pauseAll [kept]: "timers_ok g \<Longrightarrow> timers_ok (pauseAllTimers g)"
  unfolding pauseAllTimers_def by (rule fold_keeps) (auto intro!: timers_ok_upd_timer)

lemma timers_ok_resumeAll [kept]: "timers_ok g \<Longrightarrow> timers_ok (resumeAllTimers g)"
  unfolding resumeAllTimers_def by (rule fold_keeps) (auto intro: kept)

subsection \<open>Pausing keeps the remaining time\<close>

lemma remaining_freeze: "remaining now' (freeze now t) = remaining now t"
  by (simp add: freeze_def remaining_def)

text \<open>
  A timer frozen at \<open>t1\<close> and resumed at \<open>t2\<close> has, at \<open>t2 + d\<close>, exactly the time it had left at
  \<open>t1\<close> less \<open>d\<close>: the pause costs nothing.
\<close>

lemma freeze_unpause_remaining:
  assumes "0 \<le> d" and "0 \<le> remaining t1 t"
  shows "remaining (t2 + d) (unpause t2 (freeze t1 t)) = max 0 (remaining t1 t - d)"
  using assms by (auto simp: freeze_def unpause_def remaining_def Let_def)

end
