(* ===== verification/Engine_Rounds.thy ===== *)
theory Engine_Rounds
  imports Engine_Timers
begin

text \<open>
  The round flow (\<open>engine.go\<close>, section ``lobby / game flow''): starting and ending rounds, choosing
  the next cell, the end of the game.

  The engine's functions call each other in a large cycle (a question that nobody has to wait for
  ends at once, which selects the next cell, which starts the next question, ...), always in tail
  position. A function of that cycle is modelled as a step: it returns the game and the call it ends
  with, a value of \<open>jump\<close>. \<open>Ret\<close> is the return to \<open>Apply\<close>; \<open>Crash\<close> is a runtime panic (a nil
  pointer, an index out of range, a write to a nil map); \<open>Spin\<close> is a loop inside a function that never
  ends. Theory \<open>Engine_Machine\<close> runs the steps.
\<close>

subsection \<open>Tail calls\<close>

datatype (plugins only: code) jump =
    Ret
  | Crash
  | Spin
  | JStartRound int
  | JEnterRound
  | JBeginSelection bool
  | JEndRound string
  | JStartQuestion nat nat
  | JPlayContent
  | JShowGroup
  | JContentGroupDone
  | JContentFinished
  | JNobodyAnswered
  | JRearm
  | JShowAnswer
  | JEndQuestion
  | JAfterQuestion
  | JApplyVerdict string string bool f64 string
  | JSecretRecipientChosen string
  | JSecretPriceSelect
  | JSecretAfterPrice int
  | JHiddenStakesDone
  | JHiddenAnsweringBegin
  | JHiddenAnsweringDone
  | JHiddenRevealNext
  | JStakeAskBid string
  | JStakeApply string stake_mode int
  | JStakeSetPass string
  | JStakeAdvance
  | JStakeWinner string
  | JStartFinalRound
  | JFinalContinue
  | JFinalNextDeleter
  | JFinalDeleteTimeout
  | JFinalDelete nat string
  | JFinalPlayLastTheme
  | JFinalAskDelete string
  | JProcessAppeals
  | JAppealStart appeal_request
  | JAppealFinish
  | JResolvePending string

type_synonym flow = "game \<times> jump"

text \<open>A command handler fails with an error or goes on with a tail call.\<close>

datatype result = Fail engine_error game | Go game jump

subsection \<open>Cells\<close>

definition avail :: "cell_state \<Rightarrow> bool" where
  "avail c \<longleftrightarrow> \<not> c_Played c \<and> \<not> c_Removed c"

text \<open>The available cells in the order of the nested loops over themes and questions.\<close>

definition theme_cells :: "nat \<times> theme_state \<Rightarrow> (nat \<times> nat) list" where
  "theme_cells x = (case x of (t, th) \<Rightarrow>
     if th_Removed th then []
     else map (\<lambda>(q, c). (t, q)) (filter (\<lambda>(q, c). avail c) (enumerate 0 (th_Questions th))))"

definition open_cells :: "theme_state list \<Rightarrow> (nat \<times> nat) list" where
  "open_cells table = concat (map theme_cells (enumerate 0 table))"

definition hasPlayableCells :: "game \<Rightarrow> bool" where
  "hasPlayableCells g \<longleftrightarrow>
     list_ex (\<lambda>t. \<not> th_Removed t \<and> list_ex avail (th_Questions t)) (st_Table g)"

text \<open>\<open>nextSequentialCell\<close> returns from the loops at the first available cell.\<close>

definition nextSequentialCell :: "game \<Rightarrow> (nat \<times> nat) option" where
  "nextSequentialCell g = (case open_cells (st_Table g) of [] \<Rightarrow> None | c # _ \<Rightarrow> Some c)"

text \<open>\<open>randomCell\<close>: \<open>None\<close> is the index panic on an empty slice.\<close>

definition randomCell :: "game \<Rightarrow> ((nat \<times> nat) \<times> game) option" where
  "randomCell g =
     (let cells = open_cells (st_Table g); (i, g) = randomIndex (length cells) g
      in if i < length cells then Some (cells ! i, g) else None)"

definition upd_cell :: "nat \<Rightarrow> nat \<Rightarrow> (cell_state \<Rightarrow> cell_state) \<Rightarrow> game \<Rightarrow> game" where
  "upd_cell t q f g = g\<lparr>st_Table := (st_Table g)[t := (st_Table g ! t)\<lparr>th_Questions :=
     (th_Questions (st_Table g ! t))[q := f (th_Questions (st_Table g ! t) ! q)]\<rparr>]\<rparr>"

definition cell_in_table :: "game \<Rightarrow> nat \<Rightarrow> nat \<Rightarrow> bool" where
  "cell_in_table g t q \<longleftrightarrow> t < length (st_Table g) \<and> q < length (th_Questions (st_Table g ! t))"

lemma upd_cell_frame [simp, frame]:
  "st_Stage (upd_cell t q f g) = st_Stage g" "st_RoundIndex (upd_cell t q f g) = st_RoundIndex g"
  "st_RoundName (upd_cell t q f g) = st_RoundName g"
  "st_RoundType (upd_cell t q f g) = st_RoundType g"
  "st_ChooserID (upd_cell t q f g) = st_ChooserID g"
  "st_Players (upd_cell t q f g) = st_Players g"
  "st_ShowmanID (upd_cell t q f g) = st_ShowmanID g" "st_Rules (upd_cell t q f g) = st_Rules g"
  "st_Times (upd_cell t q f g) = st_Times g" "st_Question (upd_cell t q f g) = st_Question g"
  "st_Pending (upd_cell t q f g) = st_Pending g" "st_Timers (upd_cell t q f g) = st_Timers g"
  "st_Paused (upd_cell t q f g) = st_Paused g" "st_Appeal (upd_cell t q f g) = st_Appeal g"
  "st_RoundTimedOut (upd_cell t q f g) = st_RoundTimedOut g"
  "st_WaitNext (upd_cell t q f g) = st_WaitNext g"
  "st_FinalGroups (upd_cell t q f g) = st_FinalGroups g"
  "st_FinalOffset (upd_cell t q f g) = st_FinalOffset g"
  "st_DeleteStep (upd_cell t q f g) = st_DeleteStep g"
  "st_DeleterID (upd_cell t q f g) = st_DeleterID g"
  "st_DeleterUsed (upd_cell t q f g) = st_DeleterUsed g"
  "st_Winner (upd_cell t q f g) = st_Winner g"
  "st_QuestionsPlayed (upd_cell t q f g) = st_QuestionsPlayed g"
  "st_Ended (upd_cell t q f g) = st_Ended g" "g_pack (upd_cell t q f g) = g_pack g"
  "g_lib (upd_cell t q f g) = g_lib g" "g_rng (upd_cell t q f g) = g_rng g"
  "g_rngLog (upd_cell t q f g) = g_rngLog g" "g_now (upd_cell t q f g) = g_now g"
  "g_ev (upd_cell t q f g) = g_ev g" "g_timerSeq (upd_cell t q f g) = g_timerSeq g"
  by (simp_all add: upd_cell_def)


subsection \<open>Asking for a cell or a player\<close>

definition askChoose :: "game \<Rightarrow> game" where
  "askChoose g =
     (let dur = tm_QuestionSelectionMs (st_Times g);
          e = EvAskChoose (st_ChooserID g) dur
      in startTimer TimerQuestionSelection dur (st_ChooserID g)
           (ev_oral e (ev_to (st_ChooserID g) e g)))"

definition askSelectPlayer :: "pending_kind \<Rightarrow> string \<Rightarrow> string list \<Rightarrow> game \<Rightarrow> game" where
  "askSelectPlayer kind decider cands g =
     (let g = g\<lparr>st_Pending := Some \<lparr>pd_Kind = kind, pd_DeciderID = decider, pd_Candidates = cands\<rparr>\<rparr>;
          secret = (kind = PendingSecretTransfer);
          dur = (if secret then tm_PlayerSelectionMs (st_Times g)
                 else tm_ShowmanDecisionMs (st_Times g));
          timerKind = (if secret then TimerPlayerSelection else TimerShowmanDecision);
          e = EvAskSelectPlayer kind cands decider dur;
          g = ev_to decider e g;
          g = (if secret then ev_oral e g else g)
      in startTimer timerKind dur decider g)"

lemma askChoose_frame [simp, frame]:
  "st_Stage (askChoose g) = st_Stage g" "st_RoundIndex (askChoose g) = st_RoundIndex g"
  "st_RoundName (askChoose g) = st_RoundName g" "st_RoundType (askChoose g) = st_RoundType g"
  "st_Table (askChoose g) = st_Table g" "st_ChooserID (askChoose g) = st_ChooserID g"
  "st_Players (askChoose g) = st_Players g" "st_ShowmanID (askChoose g) = st_ShowmanID g"
  "st_Rules (askChoose g) = st_Rules g" "st_Times (askChoose g) = st_Times g"
  "st_Question (askChoose g) = st_Question g" "st_Pending (askChoose g) = st_Pending g"
  "st_Paused (askChoose g) = st_Paused g" "st_Appeal (askChoose g) = st_Appeal g"
  "st_RoundTimedOut (askChoose g) = st_RoundTimedOut g"
  "st_WaitNext (askChoose g) = st_WaitNext g" "st_FinalGroups (askChoose g) = st_FinalGroups g"
  "st_FinalOffset (askChoose g) = st_FinalOffset g"
  "st_DeleteStep (askChoose g) = st_DeleteStep g" "st_DeleterID (askChoose g) = st_DeleterID g"
  "st_DeleterUsed (askChoose g) = st_DeleterUsed g" "st_Winner (askChoose g) = st_Winner g"
  "st_QuestionsPlayed (askChoose g) = st_QuestionsPlayed g" "st_Ended (askChoose g) = st_Ended g"
  "g_pack (askChoose g) = g_pack g" "g_lib (askChoose g) = g_lib g"
  "g_rng (askChoose g) = g_rng g" "g_rngLog (askChoose g) = g_rngLog g"
  "g_now (askChoose g) = g_now g"
  by (simp_all add: askChoose_def Let_def)

lemma askSelectPlayer_frame [simp, frame]:
  "st_Stage (askSelectPlayer k d c g) = st_Stage g"
  "st_RoundIndex (askSelectPlayer k d c g) = st_RoundIndex g"
  "st_RoundName (askSelectPlayer k d c g) = st_RoundName g"
  "st_RoundType (askSelectPlayer k d c g) = st_RoundType g"
  "st_Table (askSelectPlayer k d c g) = st_Table g"
  "st_ChooserID (askSelectPlayer k d c g) = st_ChooserID g"
  "st_Players (askSelectPlayer k d c g) = st_Players g"
  "st_ShowmanID (askSelectPlayer k d c g) = st_ShowmanID g"
  "st_Rules (askSelectPlayer k d c g) = st_Rules g"
  "st_Times (askSelectPlayer k d c g) = st_Times g"
  "st_Question (askSelectPlayer k d c g) = st_Question g"
  "st_Paused (askSelectPlayer k d c g) = st_Paused g"
  "st_Appeal (askSelectPlayer k d c g) = st_Appeal g"
  "st_RoundTimedOut (askSelectPlayer k d c g) = st_RoundTimedOut g"
  "st_WaitNext (askSelectPlayer k d c g) = st_WaitNext g"
  "st_FinalGroups (askSelectPlayer k d c g) = st_FinalGroups g"
  "st_FinalOffset (askSelectPlayer k d c g) = st_FinalOffset g"
  "st_DeleteStep (askSelectPlayer k d c g) = st_DeleteStep g"
  "st_DeleterID (askSelectPlayer k d c g) = st_DeleterID g"
  "st_DeleterUsed (askSelectPlayer k d c g) = st_DeleterUsed g"
  "st_Winner (askSelectPlayer k d c g) = st_Winner g"
  "st_QuestionsPlayed (askSelectPlayer k d c g) = st_QuestionsPlayed g"
  "st_Ended (askSelectPlayer k d c g) = st_Ended g" "g_pack (askSelectPlayer k d c g) = g_pack g"
  "g_lib (askSelectPlayer k d c g) = g_lib g" "g_rng (askSelectPlayer k d c g) = g_rng g"
  "g_rngLog (askSelectPlayer k d c g) = g_rngLog g" "g_now (askSelectPlayer k d c g) = g_now g"
  by (simp_all add: askSelectPlayer_def Let_def)


lemma askSelectPlayer_pending [simp]:
  "st_Pending (askSelectPlayer k d c g) = Some \<lparr>pd_Kind = k, pd_DeciderID = d, pd_Candidates = c\<rparr>"
  by (simp add: askSelectPlayer_def Let_def)

subsection \<open>The end of the game\<close>

definition statistics :: "game \<Rightarrow> player_stats list" where
  "statistics g = map (\<lambda>p. \<lparr>ps_PersonID = p_ID p, ps_RightAnswers = p_Right p,
     ps_WrongAnswers = p_Wrong p, ps_AcceptedAnswers = p_AcceptedAnswers p,
     ps_RejectedAnswers = p_RejectedAnswers p, ps_Appeals = p_Appeals p\<rparr>) (st_Players g)"

text \<open>The winner loop of \<open>endGame\<close> over (best, winner, first, tie).\<close>

definition winner_step :: "player \<Rightarrow> int \<times> string \<times> bool \<times> bool \<Rightarrow> int \<times> string \<times> bool \<times> bool" where
  "winner_step p acc = (case acc of (best, winner, first, tie) \<Rightarrow>
     if p_Kicked p then acc
     else if first \<or> best < p_Score p then (p_Score p, p_ID p, False, False)
     else if p_Score p = best then (best, winner, first, True)
     else acc)"

definition winner_of :: "player list \<Rightarrow> string" where
  "winner_of ps = (case fold winner_step ps (0, [], True, False) of
     (best, winner, first, tie) \<Rightarrow> if tie then [] else winner)"

definition endGame :: "game \<Rightarrow> game" where
  "endGame g =
     (let g = emitStage ((stopAllExcept [] g)\<lparr>st_Stage := StageGameEnd, st_Ended := True\<rparr>);
          w = winner_of (st_Players g);
          g = ev_all (EvWinner w) (g\<lparr>st_Winner := w\<rparr>)
      in ev_all (EvGameEnd (scores g) w (st_QuestionsPlayed g) (statistics g)) g)"

subsection \<open>Rounds\<close>

definition add_content_ids :: "content_item \<Rightarrow> string list \<times> string list \<Rightarrow> string list \<times> string list" where
  "add_content_ids it out = (case out of (ms, us) \<Rightarrow>
     (if ci_MediaID it \<noteq> [] \<and> ci_MediaID it \<notin> set ms then ms @ [ci_MediaID it] else ms,
      if ci_URL it \<noteq> [] \<and> ci_URL it \<notin> set us then us @ [ci_URL it] else us))"

definition roundContent :: "pack_round \<Rightarrow> string list \<times> string list" where
  "roundContent r = fold (\<lambda>t. fold (\<lambda>q out.
       fold (\<lambda>o'. fold add_content_ids (ao_Content o')) (qp_AnswerOptions (pq_Params q))
         (fold add_content_ids (qp_Question (pq_Params q)) out)) (pt_Questions t))
     (pr_Themes r) ([], [])"

definition new_table :: "pack_round \<Rightarrow> theme_state list" where
  "new_table r = map (\<lambda>t. \<lparr>th_Name = pt_Name t, th_Removed = False,
     th_Questions = map (\<lambda>q. \<lparr>c_Price = pq_Price q, c_Played = False, c_Removed = IsEmpty q\<rparr>)
       (pt_Questions t)\<rparr>) (pr_Themes r)"

definition reset_for_round :: "player \<Rightarrow> player" where
  "reset_for_round p =
     resetPlayerQuestion (p\<lparr>p_State := PStateNone, p_CanPress := False, p_InGame := False\<rparr>)"

text \<open>The fields \<open>startRound\<close> clears before it looks at the round index.\<close>

definition clear_round :: "game \<Rightarrow> game" where
  "clear_round g = (stopAllExcept [] g)\<lparr>st_Question := None, st_Pending := None, st_Appeal := None,
     st_RoundTimedOut := False, st_WaitNext := False, st_FinalGroups := [], st_FinalOffset := 0,
     st_DeleteStep := 0, st_DeleterID := [], st_DeleterUsed := None\<rparr>"

definition startRound :: "int \<Rightarrow> game \<Rightarrow> flow" where
  "startRound idx g =
     (let g = clear_round g in
      if int (length (pk_Rounds (g_pack g))) \<le> idx then (endGame g, Ret)
      else let i = nat idx in
      if length (pk_Rounds (g_pack g)) \<le> i then (g, Crash)
      else
        let r = pk_Rounds (g_pack g) ! i;
            g = g\<lparr>st_RoundIndex := int i, st_RoundName := pr_Name r,
                  st_RoundType := (if pr_Type r = RoundUnset then RoundStandard else pr_Type r),
                  st_Table := new_table r,
                  st_Players := map reset_for_round (st_Players g),
                  st_Stage := StageRoundIntro\<rparr>;
            g = emitStage g;
            g = ev_all (EvRoundStart (int i) (pr_Name r) (st_RoundType g) (map pt_Name (pr_Themes r))) g;
            g = ev_all (EvRoundContent (fst (roundContent r)) (snd (roundContent r))) g;
            g = emitSums (emitTable g);
            g = (if 0 < tm_RoundMs (st_Times g) then startTimer TimerRound (tm_RoundMs (st_Times g)) [] g
                 else g)
        in if r_Managed (st_Rules g) then (g\<lparr>st_WaitNext := True\<rparr>, Ret)
           else (g, JEnterRound))"

definition enterRound :: "game \<Rightarrow> flow" where
  "enterRound g =
     (let g = g\<lparr>st_WaitNext := False\<rparr> in
      if st_RoundType g = RoundFinal then (g, JStartFinalRound) else (g, JBeginSelection True))"

definition endRound :: "string \<Rightarrow> game \<Rightarrow> flow" where
  "endRound reason g =
     (let g = emitStage ((stopAllExcept [] g)\<lparr>st_Pending := None, st_Stage := StageRoundEnd\<rparr>);
          g = emitSums (ev_all (EvRoundEnd (st_RoundIndex g) reason) g)
      in if r_Managed (st_Rules g) then (g\<lparr>st_WaitNext := True\<rparr>, Ret)
         else (g, JStartRound (st_RoundIndex g + 1)))"

definition beginSelection :: "bool \<Rightarrow> game \<Rightarrow> flow" where
  "beginSelection roundStart g =
     (if st_RoundTimedOut g then (g, JEndRound ''timeout'')
      else if \<not> hasPlayableCells g then (g, JEndRound ''empty'')
      else
        let g = emitStage (g\<lparr>st_Stage := StageSelecting, st_Pending := None\<rparr>) in
        if sequential g then
          (case nextSequentialCell g of
             None \<Rightarrow> (g, JEndRound ''empty'')
           | Some (t, q) \<Rightarrow> (g, JStartQuestion t q))
        else if roundStart \<or> \<not> isActive g (st_ChooserID g) then
          (case lowestScorePlayers g of
             [] \<Rightarrow> (g, JEndRound ''noPlayers'')
           | [p] \<Rightarrow> (askChoose (setChooser (p_ID p) ''roundStart'' g), Ret)
           | low \<Rightarrow> (askSelectPlayer PendingChooser (st_ShowmanID g) (ids low) g, Ret))
        else (askChoose g, Ret))"

definition resolvePending :: "string \<Rightarrow> game \<Rightarrow> flow" where
  "resolvePending i g =
     (case st_Pending g of
        None \<Rightarrow> (g, Crash)
      | Some pd \<Rightarrow>
          let g = stopKind TimerPlayerSelection (stopKind TimerShowmanDecision (g\<lparr>st_Pending := None\<rparr>))
          in case pd_Kind pd of
              PendingChooser \<Rightarrow> (askChoose (setChooser i ''roundStart'' g), Ret)
            | PendingStaker \<Rightarrow> (g, JStakeAskBid i)
            | PendingDeleter \<Rightarrow> (g, JFinalAskDelete i)
            | PendingSecretTransfer \<Rightarrow> (g, JSecretRecipientChosen i))"

lemmas round_defs [flow_defs] =
  startRound_def enterRound_def endRound_def beginSelection_def resolvePending_def

end
