(* ===== verification/Engine_Content.thy ===== *)
theory Engine_Content
  imports Engine_Rounds
begin

text \<open>
  Question content and the button (\<open>question.go\<close>, sections ``content'' and ``simple''): the grouping
  of content items, their planned durations, the display of one group after another, and what
  happens when the last one was shown.
\<close>

subsection \<open>Durations and groups\<close>

text \<open>
  \<open>utf8.RuneCountInString\<close> on valid UTF-8 (all text reaches the engine through JSON decoding, which
  replaces invalid bytes): the bytes that do not continue a rune.
\<close>

definition rune_count :: "string \<Rightarrow> nat" where
  "rune_count s = length (filter (\<lambda>c. (of_char c :: nat) div 64 \<noteq> 2) s)"

definition itemDuration :: "game \<Rightarrow> content_item \<Rightarrow> int" where
  "itemDuration g it =
     (if 0 < ci_DurationMs it then ci_DurationMs it
      else case ci_Type it of
          ContentText \<Rightarrow>
            if r_ReadingSpeed (st_Rules g) \<le> 0 then 0
            else math_ceil (f64_div (f64_mul (f64_of_int (int (rune_count (ci_Text it)))) 1000)
                   (f64_of_int (r_ReadingSpeed (st_Rules g)))) + tm_ReflectionMs (st_Times g)
        | ContentImage \<Rightarrow> tm_ImageMs (st_Times g)
        | ContentHTML \<Rightarrow> tm_ImageMs (st_Times g)
        | _ \<Rightarrow> - 1)"

fun group_loop :: "content_item list list \<Rightarrow> bool \<Rightarrow> content_item list \<Rightarrow> content_item list list" where
  "group_loop groups is_open [] = groups"
| "group_loop groups is_open (it # items) =
     (let groups = (if is_open then groups else groups @ [[]]);
          groups = butlast groups @ [last groups @ [it]]
      in group_loop groups (ci_NoWait it) items)"

definition group_time :: "game \<Rightarrow> content_item \<Rightarrow> content_group \<Rightarrow> content_group" where
  "group_time g it grp =
     (let d = itemDuration g it in
      if d < 0 then grp\<lparr>cg_MediaWait := True, cg_MediaID := ci_MediaID it, cg_MediaURL := ci_URL it\<rparr>
      else if cg_WaitMs grp < d then grp\<lparr>cg_WaitMs := d\<rparr>
      else grp)"

definition buildGroups :: "game \<Rightarrow> content_item list \<Rightarrow> content_group list" where
  "buildGroups g items =
     map (\<lambda>its. fold (group_time g) its (empty_group\<lparr>cg_Items := its\<rparr>)) (group_loop [] False items)"

definition viewItems :: "content_item list \<Rightarrow> content_item_view list" where
  "viewItems items = map (\<lambda>it. \<lparr>cv_Type = ci_Type it, cv_Text = ci_Text it, cv_MediaID = ci_MediaID it,
     cv_URL = ci_URL it, cv_Placement = EffectivePlacement it, cv_DurationMs = ci_DurationMs it\<rparr>) items"

subsection \<open>Showing content\<close>

definition playContent :: "game \<Rightarrow> flow" where
  "playContent g =
     (case st_Question g of
        None \<Rightarrow> (g, Crash)
      | Some q \<Rightarrow>
          (setSub SubContent (upd_q (\<lambda>q. q\<lparr>q_Cursor := 0, q_ContentDone := False\<rparr>) g), JShowGroup))"

definition showGroup :: "game \<Rightarrow> flow" where
  "showGroup g =
     (case st_Question g of
        None \<Rightarrow> (g, Crash)
      | Some q \<Rightarrow>
          if length (q_Groups q) \<le> q_Cursor q then (g, JContentFinished)
          else
            let grp = q_Groups q ! q_Cursor q;
                g = ev_all (EvContent (q_Phase q) (q_Cursor q) (viewItems (cg_Items grp)) (cg_WaitMs grp)) g
            in if r_Managed (st_Rules g) then (upd_q (\<lambda>q. q\<lparr>q_WaitNext := True\<rparr>) g, Ret)
               else if cg_MediaWait grp then
                 let g = upd_q (\<lambda>q. q\<lparr>q_AwaitingMediaIDs := True\<rparr>) g;
                     g = upd_players (\<lambda>p. p\<lparr>p_MediaDone := False\<rparr>) g;
                     g = ev_all (EvMediaWait (cg_MediaID grp) (cg_MediaURL grp)) g
                 in (startTimer TimerMediaFallback (cg_WaitMs grp) [] g, Ret)
               else if cg_WaitMs grp \<le> 0 then (upd_q (\<lambda>q. q\<lparr>q_WaitNext := True\<rparr>) g, Ret)
               else (startTimer TimerContent (cg_WaitMs grp) [] g, Ret))"

definition contentGroupDone :: "game \<Rightarrow> flow" where
  "contentGroupDone g =
     (case st_Question g of
        None \<Rightarrow> (g, Ret)
      | Some q \<Rightarrow>
          if q_Sub q \<noteq> SubContent then (g, Ret)
          else (upd_q (\<lambda>q. q\<lparr>q_WaitNext := False, q_AwaitingMediaIDs := False,
                             q_Cursor := Suc (q_Cursor q)\<rparr>) g, JShowGroup))"

definition allMediaDone :: "game \<Rightarrow> bool" where
  "allMediaDone g \<longleftrightarrow> list_all p_MediaDone (activePlayers g)"

subsection \<open>The button\<close>

definition eligibleIDs :: "game \<Rightarrow> string list" where
  "eligibleIDs g = map p_ID (filter p_CanPress (activePlayers g))"

definition anyCanPress :: "game \<Rightarrow> bool" where
  "anyCanPress g \<longleftrightarrow> eligibleIDs g \<noteq> []"

definition simpleBegin :: "game \<Rightarrow> flow" where
  "simpleBegin g =
     (let g = upd_q (\<lambda>q. q\<lparr>q_Button := True,
                q_CurPriceWrong := wrongPrice g (r_ButtonPenalty (st_Rules g)) (q_Price q),
                q_ThinkingRemain := tm_ButtonPressingMs (st_Times g)\<rparr>) g;
          g = upd_players (\<lambda>p. if p_Active p then p\<lparr>p_CanPress := True\<rparr> else p) g
      in case st_Question g of
          None \<Rightarrow> (g, Crash)
        | Some q \<Rightarrow>
            if r_FalseStart (st_Rules g) then (g, JPlayContent)
            else
              (ev_room (EvButtonArmRequest (q_ID q) (eligibleIDs g) (- 1) False)
                 (upd_q (\<lambda>q. q\<lparr>q_Armed := True\<rparr>) g), JPlayContent))"

text \<open>\<open>armButton\<close>: the frozen thinking timer goes on, or a new one starts.\<close>

definition armButton :: "bool \<Rightarrow> question_state \<Rightarrow> game \<Rightarrow> game" where
  "armButton rearm q g =
     (let g = setSub SubButtonWait (upd_q (\<lambda>q. q\<lparr>q_Armed := True\<rparr>) g);
          g = ev_room (EvButtonArmRequest (q_ID q) (eligibleIDs g) (q_ThinkingRemain q) rearm) g
      in case timerOfKind g TimerButtonPressing of
          Some t \<Rightarrow> if t_Paused t then resumeTimer t g
                    else startTimer TimerButtonPressing (q_ThinkingRemain q) [] g
        | None \<Rightarrow> startTimer TimerButtonPressing (q_ThinkingRemain q) [] g)"

definition disarm :: "game \<Rightarrow> game" where
  "disarm g =
     (case st_Question g of
        None \<Rightarrow> g
      | Some q \<Rightarrow>
          if q_Armed q then ev_room (EvButtonDisarm (q_ID q)) (upd_q (\<lambda>q. q\<lparr>q_Armed := False\<rparr>) g)
          else g)"

definition nobodyAnswered :: "game \<Rightarrow> flow" where
  "nobodyAnswered g =
     (case st_Question g of None \<Rightarrow> (g, Crash) | Some q \<Rightarrow> (disarm g, JShowAnswer))"

definition pause_kind :: "timer_kind \<Rightarrow> game \<Rightarrow> game" where
  "pause_kind k g = (case timerOfKind g k of None \<Rightarrow> g | Some t \<Rightarrow> pauseTimer t g)"

definition resume_kind :: "timer_kind \<Rightarrow> game \<Rightarrow> game" where
  "resume_kind k g = (case timerOfKind g k of None \<Rightarrow> g | Some t \<Rightarrow> resumeTimer t g)"

definition rearm :: "game \<Rightarrow> flow" where
  "rearm g =
     (case st_Question g of
        None \<Rightarrow> (g, Crash)
      | Some q \<Rightarrow>
          if q_ContentDone q then (armButton True q g, Ret)
          else
            let g = setSub SubContent (upd_q (\<lambda>q. q\<lparr>q_Armed := True\<rparr>) g);
                g = ev_all (EvContentState ''resumed'') g;
                g = resume_kind TimerMediaFallback (resume_kind TimerContent g);
                g = ev_room (EvButtonArmRequest (q_ID q) (eligibleIDs g) (- 1) True) g
            in if q_WaitNext q \<or> q_AwaitingMediaIDs q then (g, Ret)
               else if timerOfKind g TimerContent = None \<and> timerOfKind g TimerMediaFallback = None
               then (g, JContentGroupDone)
               else (g, Ret))"

lemma armButton_frame [simp, frame]:
  "st_Stage (armButton r q g) = st_Stage g" "st_RoundIndex (armButton r q g) = st_RoundIndex g"
  "st_RoundName (armButton r q g) = st_RoundName g"
  "st_RoundType (armButton r q g) = st_RoundType g" "st_Table (armButton r q g) = st_Table g"
  "st_ChooserID (armButton r q g) = st_ChooserID g" "st_Players (armButton r q g) = st_Players g"
  "st_ShowmanID (armButton r q g) = st_ShowmanID g" "st_Rules (armButton r q g) = st_Rules g"
  "st_Times (armButton r q g) = st_Times g" "st_Pending (armButton r q g) = st_Pending g"
  "st_Paused (armButton r q g) = st_Paused g" "st_Appeal (armButton r q g) = st_Appeal g"
  "st_RoundTimedOut (armButton r q g) = st_RoundTimedOut g"
  "st_WaitNext (armButton r q g) = st_WaitNext g"
  "st_FinalGroups (armButton r q g) = st_FinalGroups g"
  "st_FinalOffset (armButton r q g) = st_FinalOffset g"
  "st_DeleteStep (armButton r q g) = st_DeleteStep g"
  "st_DeleterID (armButton r q g) = st_DeleterID g"
  "st_DeleterUsed (armButton r q g) = st_DeleterUsed g"
  "st_Winner (armButton r q g) = st_Winner g"
  "st_QuestionsPlayed (armButton r q g) = st_QuestionsPlayed g"
  "st_Ended (armButton r q g) = st_Ended g" "g_pack (armButton r q g) = g_pack g"
  "g_lib (armButton r q g) = g_lib g" "g_rng (armButton r q g) = g_rng g"
  "g_rngLog (armButton r q g) = g_rngLog g" "g_now (armButton r q g) = g_now g"
  by (simp_all add: armButton_def Let_def split: option.split)

lemma disarm_frame [simp, frame]:
  "st_Stage (disarm g) = st_Stage g" "st_RoundIndex (disarm g) = st_RoundIndex g"
  "st_RoundName (disarm g) = st_RoundName g" "st_RoundType (disarm g) = st_RoundType g"
  "st_Table (disarm g) = st_Table g" "st_ChooserID (disarm g) = st_ChooserID g"
  "st_Players (disarm g) = st_Players g" "st_ShowmanID (disarm g) = st_ShowmanID g"
  "st_Rules (disarm g) = st_Rules g" "st_Times (disarm g) = st_Times g"
  "st_Pending (disarm g) = st_Pending g" "st_Timers (disarm g) = st_Timers g"
  "st_Paused (disarm g) = st_Paused g" "st_Appeal (disarm g) = st_Appeal g"
  "st_RoundTimedOut (disarm g) = st_RoundTimedOut g" "st_WaitNext (disarm g) = st_WaitNext g"
  "st_FinalGroups (disarm g) = st_FinalGroups g" "st_FinalOffset (disarm g) = st_FinalOffset g"
  "st_DeleteStep (disarm g) = st_DeleteStep g" "st_DeleterID (disarm g) = st_DeleterID g"
  "st_DeleterUsed (disarm g) = st_DeleterUsed g" "st_Winner (disarm g) = st_Winner g"
  "st_QuestionsPlayed (disarm g) = st_QuestionsPlayed g" "st_Ended (disarm g) = st_Ended g"
  "g_pack (disarm g) = g_pack g" "g_lib (disarm g) = g_lib g" "g_rng (disarm g) = g_rng g"
  "g_rngLog (disarm g) = g_rngLog g" "g_now (disarm g) = g_now g"
  "g_timerSeq (disarm g) = g_timerSeq g"
  by (simp_all add: disarm_def split: option.split)

lemma pause_kind_frame [simp, frame]:
  "st_Stage (pause_kind k g) = st_Stage g" "st_RoundIndex (pause_kind k g) = st_RoundIndex g"
  "st_RoundName (pause_kind k g) = st_RoundName g"
  "st_RoundType (pause_kind k g) = st_RoundType g" "st_Table (pause_kind k g) = st_Table g"
  "st_ChooserID (pause_kind k g) = st_ChooserID g" "st_Players (pause_kind k g) = st_Players g"
  "st_ShowmanID (pause_kind k g) = st_ShowmanID g" "st_Rules (pause_kind k g) = st_Rules g"
  "st_Times (pause_kind k g) = st_Times g" "st_Question (pause_kind k g) = st_Question g"
  "st_Pending (pause_kind k g) = st_Pending g" "st_Paused (pause_kind k g) = st_Paused g"
  "st_Appeal (pause_kind k g) = st_Appeal g"
  "st_RoundTimedOut (pause_kind k g) = st_RoundTimedOut g"
  "st_WaitNext (pause_kind k g) = st_WaitNext g"
  "st_FinalGroups (pause_kind k g) = st_FinalGroups g"
  "st_FinalOffset (pause_kind k g) = st_FinalOffset g"
  "st_DeleteStep (pause_kind k g) = st_DeleteStep g"
  "st_DeleterID (pause_kind k g) = st_DeleterID g"
  "st_DeleterUsed (pause_kind k g) = st_DeleterUsed g" "st_Winner (pause_kind k g) = st_Winner g"
  "st_QuestionsPlayed (pause_kind k g) = st_QuestionsPlayed g"
  "st_Ended (pause_kind k g) = st_Ended g" "g_pack (pause_kind k g) = g_pack g"
  "g_lib (pause_kind k g) = g_lib g" "g_rng (pause_kind k g) = g_rng g"
  "g_rngLog (pause_kind k g) = g_rngLog g" "g_now (pause_kind k g) = g_now g"
  "g_timerSeq (pause_kind k g) = g_timerSeq g"
  by (simp_all add: pause_kind_def split: option.split)

lemma resume_kind_frame [simp, frame]:
  "st_Stage (resume_kind k g) = st_Stage g" "st_RoundIndex (resume_kind k g) = st_RoundIndex g"
  "st_RoundName (resume_kind k g) = st_RoundName g"
  "st_RoundType (resume_kind k g) = st_RoundType g" "st_Table (resume_kind k g) = st_Table g"
  "st_ChooserID (resume_kind k g) = st_ChooserID g" "st_Players (resume_kind k g) = st_Players g"
  "st_ShowmanID (resume_kind k g) = st_ShowmanID g" "st_Rules (resume_kind k g) = st_Rules g"
  "st_Times (resume_kind k g) = st_Times g" "st_Question (resume_kind k g) = st_Question g"
  "st_Pending (resume_kind k g) = st_Pending g" "st_Paused (resume_kind k g) = st_Paused g"
  "st_Appeal (resume_kind k g) = st_Appeal g"
  "st_RoundTimedOut (resume_kind k g) = st_RoundTimedOut g"
  "st_WaitNext (resume_kind k g) = st_WaitNext g"
  "st_FinalGroups (resume_kind k g) = st_FinalGroups g"
  "st_FinalOffset (resume_kind k g) = st_FinalOffset g"
  "st_DeleteStep (resume_kind k g) = st_DeleteStep g"
  "st_DeleterID (resume_kind k g) = st_DeleterID g"
  "st_DeleterUsed (resume_kind k g) = st_DeleterUsed g"
  "st_Winner (resume_kind k g) = st_Winner g"
  "st_QuestionsPlayed (resume_kind k g) = st_QuestionsPlayed g"
  "st_Ended (resume_kind k g) = st_Ended g" "g_pack (resume_kind k g) = g_pack g"
  "g_lib (resume_kind k g) = g_lib g" "g_rng (resume_kind k g) = g_rng g"
  "g_rngLog (resume_kind k g) = g_rngLog g" "g_now (resume_kind k g) = g_now g"
  "g_timerSeq (resume_kind k g) = g_timerSeq g"
  by (simp_all add: resume_kind_def split: option.split)


lemma armButton_question [simp]:
  "st_Question (armButton r q g) =
     map_option (\<lambda>q. q\<lparr>q_Armed := True, q_Sub := SubButtonWait\<rparr>) (st_Question g)"
  by (simp add: armButton_def Let_def map_option.compositionality comp_def split: option.split)

subsection \<open>Asking a player to answer\<close>

definition answerDuration :: "game \<Rightarrow> int \<Rightarrow> int" where
  "answerDuration g def =
     (case st_Question g of
        None \<Rightarrow> def
      | Some q \<Rightarrow> (case packQuestion g (q_ThemeIndex q) (q_QuestionIndex q) of
            None \<Rightarrow> def
          | Some pq \<Rightarrow> if 0 < qp_AnswerDurationMs (pq_Params pq) then qp_AnswerDurationMs (pq_Params pq)
                       else def))"

definition askAnswer :: "string \<Rightarrow> timer_kind \<Rightarrow> int \<Rightarrow> question_state \<Rightarrow> game \<Rightarrow> game" where
  "askAnswer i timerKind def q g =
     (let g = setSub SubAnswering (upd_q (\<lambda>q. q\<lparr>q_AnswererID := i\<rparr>) g);
          g = setPlayerState i PStateAnswering g;
          dur = answerDuration g def;
          oral = (r_Oral (st_Rules g) \<and> q_AnswerType q = AnswerText);
          g = ev_to i (EvAskAnswer i (q_AnswerType q) dur False oral) g;
          g = (if oral then
                 ev_showman (EvAskValidate \<lparr>vl_PersonID = i, vl_Answer = [], vl_Rights = q_Rights q,
                     vl_Wrongs = q_Wrongs q, vl_AllowFactor = True, vl_Oral = True,
                     vl_AutoAfterMs = 0, vl_Preview = False\<rparr>)
                   (upd_q (\<lambda>q. q\<lparr>q_PendingAnswerID := i, q_PendingAnswer := []\<rparr>) g)
               else g)
      in startTimer timerKind dur i g)"

lemma askAnswer_frame [simp, frame]:
  "st_Stage (askAnswer i k d q g) = st_Stage g"
  "st_RoundIndex (askAnswer i k d q g) = st_RoundIndex g"
  "st_RoundName (askAnswer i k d q g) = st_RoundName g"
  "st_RoundType (askAnswer i k d q g) = st_RoundType g"
  "st_Table (askAnswer i k d q g) = st_Table g"
  "st_ChooserID (askAnswer i k d q g) = st_ChooserID g"
  "st_ShowmanID (askAnswer i k d q g) = st_ShowmanID g"
  "st_Rules (askAnswer i k d q g) = st_Rules g" "st_Times (askAnswer i k d q g) = st_Times g"
  "st_Pending (askAnswer i k d q g) = st_Pending g"
  "st_Paused (askAnswer i k d q g) = st_Paused g" "st_Appeal (askAnswer i k d q g) = st_Appeal g"
  "st_RoundTimedOut (askAnswer i k d q g) = st_RoundTimedOut g"
  "st_WaitNext (askAnswer i k d q g) = st_WaitNext g"
  "st_FinalGroups (askAnswer i k d q g) = st_FinalGroups g"
  "st_FinalOffset (askAnswer i k d q g) = st_FinalOffset g"
  "st_DeleteStep (askAnswer i k d q g) = st_DeleteStep g"
  "st_DeleterID (askAnswer i k d q g) = st_DeleterID g"
  "st_DeleterUsed (askAnswer i k d q g) = st_DeleterUsed g"
  "st_Winner (askAnswer i k d q g) = st_Winner g"
  "st_QuestionsPlayed (askAnswer i k d q g) = st_QuestionsPlayed g"
  "st_Ended (askAnswer i k d q g) = st_Ended g" "g_pack (askAnswer i k d q g) = g_pack g"
  "g_lib (askAnswer i k d q g) = g_lib g" "g_rng (askAnswer i k d q g) = g_rng g"
  "g_rngLog (askAnswer i k d q g) = g_rngLog g" "g_now (askAnswer i k d q g) = g_now g"
  by (simp_all add: askAnswer_def Let_def)


definition askDirectAnswer :: "question_state \<Rightarrow> game \<Rightarrow> flow" where
  "askDirectAnswer q g =
     (case player g (q_AnswererID q) of
        None \<Rightarrow> (g, JShowAnswer)
      | Some p \<Rightarrow> (askAnswer (p_ID p) TimerSoloAnswering (tm_SoloAnsweringMs (st_Times g)) q g, Ret))"

definition showOptions :: "question_state \<Rightarrow> game \<Rightarrow> game" where
  "showOptions q g =
     (if q_AnswerType q = AnswerSelect \<and> \<not> q_OptionsShown q then
        ev_all (EvAnswerOptions (map (\<lambda>o'. (ao_Label o', viewItems (ao_Content o'))) (q_Options q))
            (r_DisplayAnswerOptionsLabels (st_Rules g)) (r_DisplayAnswerOptionsOneByOne (st_Rules g)))
          (upd_q (\<lambda>q. q\<lparr>q_OptionsShown := True\<rparr>) g)
      else g)"

lemma showOptions_frame [simp, frame]:
  "st_Stage (showOptions q g) = st_Stage g" "st_RoundIndex (showOptions q g) = st_RoundIndex g"
  "st_RoundName (showOptions q g) = st_RoundName g"
  "st_RoundType (showOptions q g) = st_RoundType g" "st_Table (showOptions q g) = st_Table g"
  "st_ChooserID (showOptions q g) = st_ChooserID g" "st_Players (showOptions q g) = st_Players g"
  "st_ShowmanID (showOptions q g) = st_ShowmanID g" "st_Rules (showOptions q g) = st_Rules g"
  "st_Times (showOptions q g) = st_Times g" "st_Pending (showOptions q g) = st_Pending g"
  "st_Timers (showOptions q g) = st_Timers g" "st_Paused (showOptions q g) = st_Paused g"
  "st_Appeal (showOptions q g) = st_Appeal g"
  "st_RoundTimedOut (showOptions q g) = st_RoundTimedOut g"
  "st_WaitNext (showOptions q g) = st_WaitNext g"
  "st_FinalGroups (showOptions q g) = st_FinalGroups g"
  "st_FinalOffset (showOptions q g) = st_FinalOffset g"
  "st_DeleteStep (showOptions q g) = st_DeleteStep g"
  "st_DeleterID (showOptions q g) = st_DeleterID g"
  "st_DeleterUsed (showOptions q g) = st_DeleterUsed g"
  "st_Winner (showOptions q g) = st_Winner g"
  "st_QuestionsPlayed (showOptions q g) = st_QuestionsPlayed g"
  "st_Ended (showOptions q g) = st_Ended g" "g_pack (showOptions q g) = g_pack g"
  "g_lib (showOptions q g) = g_lib g" "g_rng (showOptions q g) = g_rng g"
  "g_rngLog (showOptions q g) = g_rngLog g" "g_now (showOptions q g) = g_now g"
  "g_timerSeq (showOptions q g) = g_timerSeq g"
  by (simp_all add: showOptions_def)


definition contentFinished :: "game \<Rightarrow> flow" where
  "contentFinished g =
     (case st_Question g of
        None \<Rightarrow> (g, Crash)
      | Some q \<Rightarrow>
          let g = showOptions q (upd_q (\<lambda>q. q\<lparr>q_ContentDone := True\<rparr>) g) in
          if q_Button q then
            (if \<not> anyCanPress g then (g, JShowAnswer)
             else if q_Armed q then
               (startTimer TimerButtonPressing (q_ThinkingRemain q) [] (setSub SubButtonWait g), Ret)
             else (armButton False q g, Ret))
          else if q_Hidden q then (g, JHiddenAnsweringBegin)
          else if q_Direct q then askDirectAnswer q g
          else (setSub SubAnswering g, Ret))"

lemmas content_defs [flow_defs] =
  playContent_def showGroup_def contentGroupDone_def contentFinished_def askDirectAnswer_def
  nobodyAnswered_def rearm_def simpleBegin_def

subsection \<open>Grouping keeps the items and their order\<close>

text \<open>
  The groups are the items cut after every item that is waited for: concatenated they are the
  items, none is empty, and inside a group every item but the last chains to the next.
\<close>

definition chained :: "content_item list \<Rightarrow> bool" where
  "chained its \<longleftrightarrow> its \<noteq> [] \<and> list_all ci_NoWait (butlast its)"

lemma group_loop_concat:
  "(is_open \<longrightarrow> groups \<noteq> []) \<Longrightarrow> concat (group_loop groups is_open items) = concat groups @ items"
proof (induction items arbitrary: groups is_open)
  case (Cons it items)
  let ?gs = "if is_open then groups else groups @ [[]]"
  have ne: "?gs \<noteq> []" using Cons.prems by auto
  have "concat ?gs = concat (butlast ?gs @ [last ?gs])"
    unfolding append_butlast_last_id [OF ne] by (rule refl)
  then have "concat ?gs = concat (butlast ?gs) @ last ?gs" by (simp only: concat_append concat.simps append_Nil2)
  moreover have "concat ?gs = concat groups" by simp
  ultimately show ?case using Cons.IH [of "ci_NoWait it" "butlast ?gs @ [last ?gs @ [it]]"]
    by (simp add: Let_def)
qed simp

lemma group_loop_chained:
  assumes "is_open \<longrightarrow> groups \<noteq> [] \<and> list_all ci_NoWait (last groups)"
    and "list_all chained groups"
  shows "list_all chained (group_loop groups is_open items)"
  using assms
proof (induction items arbitrary: groups is_open)
  case (Cons it items)
  let ?gs = "if is_open then groups else groups @ [[]]"
  let ?new = "butlast ?gs @ [last ?gs @ [it]]"
  have "list_all chained ?new"
    using Cons.prems by (auto simp: chained_def list_all_iff dest: in_set_butlastD)
  moreover have "ci_NoWait it \<longrightarrow> ?new \<noteq> [] \<and> list_all ci_NoWait (last ?new)"
    using Cons.prems by auto
  ultimately show ?case using Cons.IH by (simp add: Let_def)
qed simp

lemma group_time_items [simp]: "cg_Items (fold (group_time g) its grp) = cg_Items grp"
  by (induction its arbitrary: grp) (auto simp: group_time_def Let_def)

lemma buildGroups_items: "concat (map cg_Items (buildGroups g items)) = items"
  using group_loop_concat [of False "[]" items] by (simp add: buildGroups_def comp_def)

end
