(* ===== verification/Engine_Answers.thy ===== *)
theory Engine_Answers
  imports Engine_Content
begin

text \<open>
  Answers and verdicts (\<open>question.go\<close>, sections ``answering'' and ``reveal / end''): automatic checks,
  the validation cache, scoring, re-arming after a wrong answer, the reveal and the end of a question.
\<close>

subsection \<open>Answers\<close>

definition answerText :: "game \<Rightarrow> answer_view \<Rightarrow> string" where
  "answerText g av =
     (if av_OptionLabel av \<noteq> [] then av_OptionLabel av
      else case av_Number av of
          Some n \<Rightarrow> lib_FormatFloat (g_lib g) n
        | None \<Rightarrow> (case av_Point av of
              Some (x, y) \<Rightarrow> lib_FormatPoint (g_lib g) x y
            | None \<Rightarrow> av_Text av))"

definition answerFromCmd :: "command \<Rightarrow> answer_view" where
  "answerFromCmd cmd = \<lparr>av_Text = cmd_Text cmd, av_OptionLabel = cmd_OptionLabel cmd,
     av_Number = cmd_Number cmd, av_Point = cmd_Point cmd,
     av_ClientRight = (if cmd_RightSet cmd then Some (cmd_Right cmd) else None)\<rparr>"

definition isAnswerer :: "question_state \<Rightarrow> string \<Rightarrow> bool" where
  "isAnswerer q i \<longleftrightarrow> i \<in> set (q_Answerers q)"

definition normAnswer :: "game \<Rightarrow> string \<Rightarrow> string" where
  "normAnswer g s = lib_ToLower (g_lib g) (lib_TrimSpace (g_lib g) s)"

text \<open>\<open>strings.Split(s, ",")\<close>.\<close>

fun split_comma :: "string \<Rightarrow> string list" where
  "split_comma [] = [[]]"
| "split_comma (c # s) =
     (if c = CHR '','' then [] # split_comma s
      else case split_comma s of [] \<Rightarrow> [[c]] | w # ws \<Rightarrow> (c # w) # ws)"

text \<open>
  The deviation of the question being played. The pack question exists: \<open>startQuestion\<close> read it, and
  neither the pack nor the round changes while a question is played.
\<close>

definition answerDeviation :: "game \<Rightarrow> question_state \<Rightarrow> f64" where
  "answerDeviation g q =
     (case packQuestion g (q_ThemeIndex q) (q_QuestionIndex q) of
        None \<Rightarrow> 0
      | Some pq \<Rightarrow> qp_AnswerDeviation (pq_Params pq))"

definition checkNumber :: "game \<Rightarrow> question_state \<Rightarrow> answer_view \<Rightarrow> bool" where
  "checkNumber g q av =
     (case av_Number av of
        None \<Rightarrow> False
      | Some n \<Rightarrow> (case q_Rights q of
            [] \<Rightarrow> False
          | r # _ \<Rightarrow> (case lib_ParseFloat (g_lib g) (lib_TrimSpace (g_lib g) r) of
                None \<Rightarrow> False
              | Some want \<Rightarrow> \<bar>f64_sub n want\<bar> \<le> answerDeviation g q)))"

definition checkPoint :: "game \<Rightarrow> question_state \<Rightarrow> answer_view \<Rightarrow> bool" where
  "checkPoint g q av =
     (case (av_Point av, q_Rights q) of
        (Some (px, py), r # _) \<Rightarrow>
          (let trim = lib_TrimSpace (g_lib g);
               parse = (\<lambda>s. lib_ParseFloat (g_lib g) (trim s));
               parts = split_comma (trim r)
           in if length parts < 2 then False
              else case (parse (parts ! 0), parse (parts ! 1)) of
                  (Some x, Some y) \<Rightarrow>
                    (let tol = max (answerDeviation g q) (f64_round (2 / 100));
                         tol = (if 2 < length parts then
                                  (case parse (parts ! 2) of
                                     Some r \<Rightarrow> if tol < r then r else tol
                                   | None \<Rightarrow> tol)
                                else tol)
                     in lib_Hypot (g_lib g) (f64_sub px x) (f64_sub py y) \<le> tol)
                | _ \<Rightarrow> False)
      | _ \<Rightarrow> False)"

text \<open>\<open>autoCheck\<close>: the verdict of the engine itself, \<open>None\<close> where the showman decides.\<close>

definition autoCheck :: "game \<Rightarrow> question_state \<Rightarrow> answer_view \<Rightarrow> bool option" where
  "autoCheck g q av =
     (case q_AnswerType q of
        AnswerSelect \<Rightarrow> Some (case q_Rights q of
            [] \<Rightarrow> False
          | r # _ \<Rightarrow> lib_EqualFold (g_lib g) (lib_TrimSpace (g_lib g) (av_OptionLabel av))
                       (lib_TrimSpace (g_lib g) r))
      | AnswerNumber \<Rightarrow> Some (checkNumber g q av)
      | AnswerPoint \<Rightarrow> Some (checkPoint g q av)
      | AnswerClient \<Rightarrow> Some (av_ClientRight av = Some True)
      | _ \<Rightarrow> None)"

subsection \<open>Verdicts\<close>

definition askValidate :: "string \<Rightarrow> string \<Rightarrow> question_state \<Rightarrow> game \<Rightarrow> game" where
  "askValidate i text q g =
     (let dur = tm_ShowmanDecisionMs (st_Times g);
          g = setSub SubValidating (upd_q (\<lambda>q. q\<lparr>q_PendingAnswerID := i, q_PendingAnswer := text\<rparr>) g);
          g = ev_showman (EvAskValidate \<lparr>vl_PersonID = i, vl_Answer = text, vl_Rights = q_Rights q,
                vl_Wrongs = q_Wrongs q, vl_AllowFactor = True, vl_Oral = False,
                vl_AutoAfterMs = dur, vl_Preview = False\<rparr>) g
      in startTimer TimerShowmanDecision dur (st_ShowmanID g) g)"

lemma askValidate_frame [simp, frame]:
  "st_Stage (askValidate i x q g) = st_Stage g"
  "st_RoundIndex (askValidate i x q g) = st_RoundIndex g"
  "st_RoundName (askValidate i x q g) = st_RoundName g"
  "st_RoundType (askValidate i x q g) = st_RoundType g"
  "st_Table (askValidate i x q g) = st_Table g"
  "st_ChooserID (askValidate i x q g) = st_ChooserID g"
  "st_Players (askValidate i x q g) = st_Players g"
  "st_ShowmanID (askValidate i x q g) = st_ShowmanID g"
  "st_Rules (askValidate i x q g) = st_Rules g" "st_Times (askValidate i x q g) = st_Times g"
  "st_Pending (askValidate i x q g) = st_Pending g"
  "st_Paused (askValidate i x q g) = st_Paused g" "st_Appeal (askValidate i x q g) = st_Appeal g"
  "st_RoundTimedOut (askValidate i x q g) = st_RoundTimedOut g"
  "st_WaitNext (askValidate i x q g) = st_WaitNext g"
  "st_FinalGroups (askValidate i x q g) = st_FinalGroups g"
  "st_FinalOffset (askValidate i x q g) = st_FinalOffset g"
  "st_DeleteStep (askValidate i x q g) = st_DeleteStep g"
  "st_DeleterID (askValidate i x q g) = st_DeleterID g"
  "st_DeleterUsed (askValidate i x q g) = st_DeleterUsed g"
  "st_Winner (askValidate i x q g) = st_Winner g"
  "st_QuestionsPlayed (askValidate i x q g) = st_QuestionsPlayed g"
  "st_Ended (askValidate i x q g) = st_Ended g" "g_pack (askValidate i x q g) = g_pack g"
  "g_lib (askValidate i x q g) = g_lib g" "g_rng (askValidate i x q g) = g_rng g"
  "g_rngLog (askValidate i x q g) = g_rngLog g" "g_now (askValidate i x q g) = g_now g"
  by (simp_all add: askValidate_def Let_def)


text \<open>
  \<open>applyOutcome\<close> scores one answer and appends it to the history of the question. A right answer
  earns the scaled price, factor 0 is a pass, anything else costs the scaled price.
\<close>

definition cache_verdict :: "game \<Rightarrow> string \<Rightarrow> bool \<Rightarrow> f64 \<Rightarrow> question_state \<Rightarrow> question_state" where
  "cache_verdict g answer right factor q =
     (if q_AnswerType q = AnswerText \<and> answer \<noteq> [] \<and> answer \<noteq> ''-'' then
        q\<lparr>q_ValidationCache := mput (normAnswer g answer) \<lparr>v_right = right, v_factor = factor\<rparr>
           (q_ValidationCache q)\<rparr>
      else q)"

definition outcome_delta :: "bool \<Rightarrow> f64 \<Rightarrow> int \<Rightarrow> int \<Rightarrow> int" where
  "outcome_delta right factor priceRight priceWrong =
     (if right then scaled priceRight factor
      else if factor = 0 then 0
      else - scaled priceWrong factor)"

definition record_outcome :: "outcome \<Rightarrow> game \<Rightarrow> game" where
  "record_outcome o' g = upd_q (\<lambda>q. q\<lparr>q_History := q_History q @ [o']\<rparr>) g"

definition applyOutcome ::
  "string \<Rightarrow> string \<Rightarrow> bool \<Rightarrow> f64 \<Rightarrow> string \<Rightarrow> int \<Rightarrow> int \<Rightarrow> game \<Rightarrow> game" where
  "applyOutcome i answer right factor source priceRight priceWrong g =
     (let g = upd_q (cache_verdict g answer right factor) g;
          delta = outcome_delta right factor priceRight priceWrong;
          o' = \<lparr>o_PersonID = i, o_Answer = answer, o_Right = right, o_Factor = factor,
               o_Delta = delta, o_Pass = (\<not> right \<and> factor = 0), o_Reverted = False\<rparr>;
          g = (if right then
                 let g = ev_all (EvValidation i answer True factor source []) g;
                     g = setPlayerState i PStateRight (addScore i delta ''answer'' g)
                 in upd_player i (\<lambda>p. p\<lparr>p_Right := p_Right p + 1,
                      p_AcceptedAnswers := p_AcceptedAnswers p @ [answer]\<rparr>) g
               else if factor = 0 then
                 setPlayerState i PStatePass (ev_all (EvValidation i answer False 0 source []) g)
               else
                 let ex = (case st_Question g of
                             Some q \<Rightarrow> if q_AnswerType q = AnswerSelect then answer else []
                           | None \<Rightarrow> []);
                     g = (if ex \<noteq> [] then
                            upd_q (\<lambda>q. q\<lparr>q_ExcludedOptions := mput answer True (q_ExcludedOptions q)\<rparr>) g
                          else g);
                     g = ev_all (EvValidation i answer False factor source ex) g;
                     g = setPlayerState i PStateWrong (addScore i delta ''penalty'' g)
                 in upd_player i (\<lambda>p. p\<lparr>p_Wrong := p_Wrong p + 1,
                      p_RejectedAnswers := p_RejectedAnswers p @ [answer]\<rparr>) g)
      in record_outcome o' g)"

lemma record_outcome_frame [simp, frame]:
  "st_Stage (record_outcome o' g) = st_Stage g"
  "st_RoundIndex (record_outcome o' g) = st_RoundIndex g"
  "st_RoundName (record_outcome o' g) = st_RoundName g"
  "st_RoundType (record_outcome o' g) = st_RoundType g"
  "st_Table (record_outcome o' g) = st_Table g"
  "st_ChooserID (record_outcome o' g) = st_ChooserID g"
  "st_Players (record_outcome o' g) = st_Players g"
  "st_ShowmanID (record_outcome o' g) = st_ShowmanID g"
  "st_Rules (record_outcome o' g) = st_Rules g" "st_Times (record_outcome o' g) = st_Times g"
  "st_Pending (record_outcome o' g) = st_Pending g"
  "st_Timers (record_outcome o' g) = st_Timers g" "st_Paused (record_outcome o' g) = st_Paused g"
  "st_Appeal (record_outcome o' g) = st_Appeal g"
  "st_RoundTimedOut (record_outcome o' g) = st_RoundTimedOut g"
  "st_WaitNext (record_outcome o' g) = st_WaitNext g"
  "st_FinalGroups (record_outcome o' g) = st_FinalGroups g"
  "st_FinalOffset (record_outcome o' g) = st_FinalOffset g"
  "st_DeleteStep (record_outcome o' g) = st_DeleteStep g"
  "st_DeleterID (record_outcome o' g) = st_DeleterID g"
  "st_DeleterUsed (record_outcome o' g) = st_DeleterUsed g"
  "st_Winner (record_outcome o' g) = st_Winner g"
  "st_QuestionsPlayed (record_outcome o' g) = st_QuestionsPlayed g"
  "st_Ended (record_outcome o' g) = st_Ended g" "g_pack (record_outcome o' g) = g_pack g"
  "g_lib (record_outcome o' g) = g_lib g" "g_rng (record_outcome o' g) = g_rng g"
  "g_rngLog (record_outcome o' g) = g_rngLog g" "g_now (record_outcome o' g) = g_now g"
  "g_ev (record_outcome o' g) = g_ev g" "g_timerSeq (record_outcome o' g) = g_timerSeq g"
  by (simp_all add: record_outcome_def)

lemma applyOutcome_frame [simp, frame]:
  "st_Stage (applyOutcome i x r f s a b g) = st_Stage g"
  "st_RoundIndex (applyOutcome i x r f s a b g) = st_RoundIndex g"
  "st_RoundName (applyOutcome i x r f s a b g) = st_RoundName g"
  "st_RoundType (applyOutcome i x r f s a b g) = st_RoundType g"
  "st_Table (applyOutcome i x r f s a b g) = st_Table g"
  "st_ChooserID (applyOutcome i x r f s a b g) = st_ChooserID g"
  "st_ShowmanID (applyOutcome i x r f s a b g) = st_ShowmanID g"
  "st_Rules (applyOutcome i x r f s a b g) = st_Rules g"
  "st_Times (applyOutcome i x r f s a b g) = st_Times g"
  "st_Pending (applyOutcome i x r f s a b g) = st_Pending g"
  "st_Timers (applyOutcome i x r f s a b g) = st_Timers g"
  "st_Paused (applyOutcome i x r f s a b g) = st_Paused g"
  "st_Appeal (applyOutcome i x r f s a b g) = st_Appeal g"
  "st_RoundTimedOut (applyOutcome i x r f s a b g) = st_RoundTimedOut g"
  "st_WaitNext (applyOutcome i x r f s a b g) = st_WaitNext g"
  "st_FinalGroups (applyOutcome i x r f s a b g) = st_FinalGroups g"
  "st_FinalOffset (applyOutcome i x r f s a b g) = st_FinalOffset g"
  "st_DeleteStep (applyOutcome i x r f s a b g) = st_DeleteStep g"
  "st_DeleterID (applyOutcome i x r f s a b g) = st_DeleterID g"
  "st_DeleterUsed (applyOutcome i x r f s a b g) = st_DeleterUsed g"
  "st_Winner (applyOutcome i x r f s a b g) = st_Winner g"
  "st_QuestionsPlayed (applyOutcome i x r f s a b g) = st_QuestionsPlayed g"
  "st_Ended (applyOutcome i x r f s a b g) = st_Ended g"
  "g_pack (applyOutcome i x r f s a b g) = g_pack g"
  "g_lib (applyOutcome i x r f s a b g) = g_lib g"
  "g_rng (applyOutcome i x r f s a b g) = g_rng g"
  "g_rngLog (applyOutcome i x r f s a b g) = g_rngLog g"
  "g_now (applyOutcome i x r f s a b g) = g_now g"
  "g_timerSeq (applyOutcome i x r f s a b g) = g_timerSeq g"
  by (simp_all add: applyOutcome_def Let_def)


definition applyVerdict :: "string \<Rightarrow> string \<Rightarrow> bool \<Rightarrow> f64 \<Rightarrow> string \<Rightarrow> game \<Rightarrow> flow" where
  "applyVerdict i answer right factor source g =
     (case st_Question g of
        None \<Rightarrow> (g, Crash)
      | Some q \<Rightarrow>
          let g = upd_q (\<lambda>q. q\<lparr>q_PendingAnswerID := [], q_PendingAnswer := []\<rparr>) g;
              g = applyOutcome i answer right factor source (q_CurPriceRight q) (q_CurPriceWrong q) g
          in if right then
               (if r_Mode (st_Rules g) = ModeClassic \<and> q_Button q then setChooser i ''rightAnswer'' g
                else g, JShowAnswer)
             else if q_AnswerType q = AnswerSelect \<and>
                 int (length (q_Options q)) -
                   int (length (case st_Question g of Some q \<Rightarrow> q_ExcludedOptions q | None \<Rightarrow> [])) \<le> 1
               then (g, JShowAnswer)
             else if q_Button q then
               (let g = upd_player i (\<lambda>p. p\<lparr>p_CanPress := False\<rparr>) g
                in if anyCanPress g then (g, JRearm) else (g, JShowAnswer))
             else (g, JShowAnswer))"

definition processSingleAnswer :: "string \<Rightarrow> answer_view \<Rightarrow> game \<Rightarrow> flow" where
  "processSingleAnswer i av g =
     (case st_Question g of
        None \<Rightarrow> (g, Crash)
      | Some q \<Rightarrow>
          let text = answerText g av;
              g = upd_player i (\<lambda>p. p\<lparr>p_Answer := av\<rparr>) g;
              g = ev_all (EvPlayerAnswer i av) g
          in case autoCheck g q av of
              Some right \<Rightarrow> (g, JApplyVerdict i text right 1 ''auto'')
            | None \<Rightarrow> (case map_of (q_ValidationCache q) (normAnswer g text) of
                  Some v \<Rightarrow> (g, JApplyVerdict i text (v_right v) (v_factor v) ''auto'')
                | None \<Rightarrow> (askValidate i text q g, Ret)))"

definition answerTimeout :: "game \<Rightarrow> flow" where
  "answerTimeout g =
     (case st_Question g of
        None \<Rightarrow> (g, Ret)
      | Some q \<Rightarrow>
          if q_Sub q \<noteq> SubAnswering \<or> q_PendingAnswerID q \<noteq> [] then (g, Ret)
          else case player g (q_AnswererID q) of
              None \<Rightarrow> (g, JShowAnswer)
            | Some p \<Rightarrow>
                (ev_all (EvPlayerAnswer (p_ID p) (no_answer\<lparr>av_Text := ''-''\<rparr>)) g,
                 JApplyVerdict (p_ID p) ''-'' False 1 ''auto''))"

subsection \<open>Reveal and end\<close>

definition reveal_wait :: "game \<Rightarrow> question_state \<Rightarrow> int" where
  "reveal_wait g q = fold (\<lambda>it wait. let d = itemDuration g it in if wait < d then d else wait)
     (q_AnswerItems q) (tm_ReflectionMs (st_Times g))"

definition showAnswer :: "game \<Rightarrow> flow" where
  "showAnswer g =
     (case st_Question g of
        None \<Rightarrow> (g, Crash)
      | Some q \<Rightarrow>
          let g = (stopAllExcept [TimerRound] g)\<lparr>st_Pending := None\<rparr>;
              g = disarm g;
              g = upd_q (\<lambda>q. q\<lparr>q_PendingAnswerID := [], q_PendingAnswer := []\<rparr>) g;
              g = setSub SubReveal g;
              text = (case q_Rights q of [] \<Rightarrow> [] | r # _ \<Rightarrow> r);
              g = ev_all (EvRightAnswer text (viewItems (q_AnswerItems q)) (q_Comments q)) g
          in if r_Managed (st_Rules g) then (upd_q (\<lambda>q. q\<lparr>q_WaitNext := True\<rparr>) g, Ret)
             else if reveal_wait g q \<le> 0 then (g, JEndQuestion)
             else (startTimer TimerReflection (reveal_wait g q) [] g, Ret))"

definition endQuestion :: "game \<Rightarrow> flow" where
  "endQuestion g =
     (case st_Question g of
        None \<Rightarrow> (g, Ret)
      | Some q \<Rightarrow>
          if q_Sub q = SubEnd then (g, Ret)
          else
            let g = upd_q (\<lambda>q. q\<lparr>q_WaitNext := False\<rparr>) g;
                g = setSub SubEnd (stopAllExcept [TimerRound] g);
                g = ev_all (EvQuestionEnd (q_ThemeIndex q) (q_QuestionIndex q)) g;
                g = emitSums (g\<lparr>st_QuestionsPlayed := st_QuestionsPlayed g + 1\<rparr>)
            in if q_AppealQueue q \<noteq> [] then (g, JProcessAppeals) else (g, JAfterQuestion))"

text \<open>Turn taking: the chooser moves to the next active player.\<close>

definition rotateChooser :: "game \<Rightarrow> game" where
  "rotateChooser g =
     (let ps = activePlayers g in
      if ps = [] then g
      else
        let next = (case find_last (\<lambda>p. p_ID p = st_ChooserID g) ps of
                      None \<Rightarrow> 0 | Some i \<Rightarrow> Suc i mod length ps)
        in setChooser (p_ID (ps ! next)) ''rotation'' g)"

lemma rotateChooser_frame [simp, frame]:
  "st_Stage (rotateChooser g) = st_Stage g" "st_RoundIndex (rotateChooser g) = st_RoundIndex g"
  "st_RoundName (rotateChooser g) = st_RoundName g"
  "st_RoundType (rotateChooser g) = st_RoundType g" "st_Table (rotateChooser g) = st_Table g"
  "st_Players (rotateChooser g) = st_Players g" "st_ShowmanID (rotateChooser g) = st_ShowmanID g"
  "st_Rules (rotateChooser g) = st_Rules g" "st_Times (rotateChooser g) = st_Times g"
  "st_Question (rotateChooser g) = st_Question g" "st_Pending (rotateChooser g) = st_Pending g"
  "st_Timers (rotateChooser g) = st_Timers g" "st_Paused (rotateChooser g) = st_Paused g"
  "st_Appeal (rotateChooser g) = st_Appeal g"
  "st_RoundTimedOut (rotateChooser g) = st_RoundTimedOut g"
  "st_WaitNext (rotateChooser g) = st_WaitNext g"
  "st_FinalGroups (rotateChooser g) = st_FinalGroups g"
  "st_FinalOffset (rotateChooser g) = st_FinalOffset g"
  "st_DeleteStep (rotateChooser g) = st_DeleteStep g"
  "st_DeleterID (rotateChooser g) = st_DeleterID g"
  "st_DeleterUsed (rotateChooser g) = st_DeleterUsed g"
  "st_Winner (rotateChooser g) = st_Winner g"
  "st_QuestionsPlayed (rotateChooser g) = st_QuestionsPlayed g"
  "st_Ended (rotateChooser g) = st_Ended g" "g_pack (rotateChooser g) = g_pack g"
  "g_lib (rotateChooser g) = g_lib g" "g_rng (rotateChooser g) = g_rng g"
  "g_rngLog (rotateChooser g) = g_rngLog g" "g_now (rotateChooser g) = g_now g"
  "g_timerSeq (rotateChooser g) = g_timerSeq g"
  by (simp_all add: rotateChooser_def Let_def)


definition afterQuestion :: "game \<Rightarrow> flow" where
  "afterQuestion g =
     (if st_Appeal g \<noteq> None then (g, Ret)
      else
        let g = (if r_Mode (st_Rules g) = ModeTurnTaking then rotateChooser g else g);
            g = upd_players (\<lambda>p. p\<lparr>p_CanPress := False\<rparr>) g
        in if st_RoundType g = RoundFinal then (g, JFinalContinue) else (g, JBeginSelection False))"

lemmas answer_defs [flow_defs] =
  applyVerdict_def processSingleAnswer_def answerTimeout_def showAnswer_def endQuestion_def
  afterQuestion_def

end
