(* ===== verification/Engine_Secret.thy ===== *)
theory Engine_Secret
  imports Engine_Answers
begin

text \<open>
  Secret questions, questions without risk and custom questions (\<open>question.go\<close>, sections ``secret''
  and ``noRisk / custom''): the transfer to a recipient, the choice of the price, the question
  that is only a gift.
\<close>

text \<open>
  \<open>for v := lo; v <= hi; v += step\<close>, appending to \<open>out\<close>. The sum wraps around, so the loop need not
  end: \<open>None\<close> is a loop for ever.
\<close>

partial_function (option) price_loop :: "int \<Rightarrow> int \<Rightarrow> int \<Rightarrow> int list \<Rightarrow> int list option" where
  "price_loop v hi step out =
     (if v \<le> hi then price_loop (int64 (v + step)) hi step (out @ [v]) else Some out)"

declare price_loop.simps [code]

definition secretPriceChoices :: "game \<Rightarrow> question_state \<Rightarrow> number_set option \<Rightarrow> int list option" where
  "secretPriceChoices g q ns =
     (case ns of
        None \<Rightarrow> Some [q_Price q]
      | Some ns \<Rightarrow>
          if ns_Min ns = ns_Max ns then
            (if ns_Min ns = 0 then
               (case roundMinMax g of (lo, hi) \<Rightarrow> Some (if lo = hi then [lo] else [lo, hi]))
             else Some [ns_Min ns])
          else
            let lo = min (ns_Min ns) (ns_Max ns);
                hi = max (ns_Min ns) (ns_Max ns)
            in if ns_Step ns \<le> 0 \<or> int64 (hi - lo) \<le> ns_Step ns then Some [lo, hi]
               else price_loop lo hi (ns_Step ns) [])"

text \<open>\<open>announceSecretPrice\<close>, given the choices its caller obtains from \<open>secretPriceChoices\<close>.\<close>

definition announceSecretPrice :: "int list \<Rightarrow> question_state \<Rightarrow> game \<Rightarrow> game" where
  "announceSecretPrice choices q g =
     ev_all (EvQuestionCaption (q_Caption q) (case choices of [c] \<Rightarrow> c | _ \<Rightarrow> 0)) g"

lemma announceSecretPrice_frame [simp, frame]:
  "st_Stage (announceSecretPrice cs q g) = st_Stage g"
  "st_RoundIndex (announceSecretPrice cs q g) = st_RoundIndex g"
  "st_RoundName (announceSecretPrice cs q g) = st_RoundName g"
  "st_RoundType (announceSecretPrice cs q g) = st_RoundType g"
  "st_Table (announceSecretPrice cs q g) = st_Table g"
  "st_ChooserID (announceSecretPrice cs q g) = st_ChooserID g"
  "st_Players (announceSecretPrice cs q g) = st_Players g"
  "st_ShowmanID (announceSecretPrice cs q g) = st_ShowmanID g"
  "st_Rules (announceSecretPrice cs q g) = st_Rules g"
  "st_Times (announceSecretPrice cs q g) = st_Times g"
  "st_Question (announceSecretPrice cs q g) = st_Question g"
  "st_Pending (announceSecretPrice cs q g) = st_Pending g"
  "st_Timers (announceSecretPrice cs q g) = st_Timers g"
  "st_Paused (announceSecretPrice cs q g) = st_Paused g"
  "st_Appeal (announceSecretPrice cs q g) = st_Appeal g"
  "st_RoundTimedOut (announceSecretPrice cs q g) = st_RoundTimedOut g"
  "st_WaitNext (announceSecretPrice cs q g) = st_WaitNext g"
  "st_FinalGroups (announceSecretPrice cs q g) = st_FinalGroups g"
  "st_FinalOffset (announceSecretPrice cs q g) = st_FinalOffset g"
  "st_DeleteStep (announceSecretPrice cs q g) = st_DeleteStep g"
  "st_DeleterID (announceSecretPrice cs q g) = st_DeleterID g"
  "st_DeleterUsed (announceSecretPrice cs q g) = st_DeleterUsed g"
  "st_Winner (announceSecretPrice cs q g) = st_Winner g"
  "st_QuestionsPlayed (announceSecretPrice cs q g) = st_QuestionsPlayed g"
  "st_Ended (announceSecretPrice cs q g) = st_Ended g"
  "g_pack (announceSecretPrice cs q g) = g_pack g" "g_lib (announceSecretPrice cs q g) = g_lib g"
  "g_rng (announceSecretPrice cs q g) = g_rng g"
  "g_rngLog (announceSecretPrice cs q g) = g_rngLog g"
  "g_now (announceSecretPrice cs q g) = g_now g"
  "g_timerSeq (announceSecretPrice cs q g) = g_timerSeq g"
  by (simp_all add: announceSecretPrice_def)


definition secretTransfer :: "selection_mode \<Rightarrow> game \<Rightarrow> flow" where
  "secretTransfer mode g =
     (let chooser = currentChooser g;
          cands = map p_ID (filter (\<lambda>p. \<not> (mode = SelectExceptCurrent \<and> p_ID p = chooser)) (activePlayers g));
          cands = (if cands = [] then [chooser] else cands)
      in case cands of
          [c] \<Rightarrow> (g, JSecretRecipientChosen c)
        | _ \<Rightarrow> (askSelectPlayer PendingSecretTransfer chooser cands (setSub SubSecretTransfer g), Ret))"

definition secretBegin :: "bool \<Rightarrow> bool \<Rightarrow> game \<Rightarrow> flow" where
  "secretBegin public noQuestion g =
     (case st_Question g of
        None \<Rightarrow> (g, Crash)
      | Some q \<Rightarrow> (case packQuestion g (q_ThemeIndex q) (q_QuestionIndex q) of
            None \<Rightarrow> (g, Crash)
          | Some pq \<Rightarrow>
              let caption = (if qp_Theme (pq_Params pq) \<noteq> [] then qp_Theme (pq_Params pq) else q_Caption q);
                  upd = (\<lambda>q. q\<lparr>q_Direct := True, q_SecretPublic := public, q_NoQuestion := noQuestion,
                               q_Caption := caption\<rparr>);
                  g = upd_q upd g
              in if public then
                   (case secretPriceChoices g (upd q) (qp_Price (pq_Params pq)) of
                      None \<Rightarrow> (g, Spin)
                    | Some cs \<Rightarrow>
                        secretTransfer (qp_SelectionMode (pq_Params pq)) (announceSecretPrice cs (upd q) g))
                 else secretTransfer (qp_SelectionMode (pq_Params pq)) g))"

definition secretRecipientChosen :: "string \<Rightarrow> game \<Rightarrow> flow" where
  "secretRecipientChosen i g =
     (case st_Question g of
        None \<Rightarrow> (g, Crash)
      | Some q \<Rightarrow>
          let g = setChooser i ''secretRecipient'' (upd_q (\<lambda>q. q\<lparr>q_AnswererID := i\<rparr>) g)
          in if q_SecretPublic q then (g, JSecretPriceSelect)
             else case packQuestion g (q_ThemeIndex q) (q_QuestionIndex q) of
                 None \<Rightarrow> (g, Crash)
               | Some pq \<Rightarrow> (case secretPriceChoices g q (qp_Price (pq_Params pq)) of
                     None \<Rightarrow> (g, Spin)
                   | Some cs \<Rightarrow> (announceSecretPrice cs q g, JSecretPriceSelect)))"

definition secretPriceSelect :: "game \<Rightarrow> flow" where
  "secretPriceSelect g =
     (case st_Question g of
        None \<Rightarrow> (g, Crash)
      | Some q \<Rightarrow> (case packQuestion g (q_ThemeIndex q) (q_QuestionIndex q) of
            None \<Rightarrow> (g, Crash)
          | Some pq \<Rightarrow> (case secretPriceChoices g q (qp_Price (pq_Params pq)) of
                None \<Rightarrow> (g, Spin)
              | Some [] \<Rightarrow> (g, Crash)
              | Some [c] \<Rightarrow> (g, JSecretAfterPrice c)
              | Some (c0 # c1 # cs) \<Rightarrow>
                  let g = setSub SubPriceSelect (upd_q (\<lambda>q. q\<lparr>q_PriceChoices := c0 # c1 # cs\<rparr>) g);
                      dur = tm_StakeMakingMs (st_Times g);
                      e = EvAskStake \<lparr>as_PersonID = q_AnswererID q, as_Modes = [StakeStake], as_Min = c0,
                            as_Max = last (c1 # cs), as_Step = int64 (c1 - c0), as_Reason = ''secretPrice'',
                            as_DurationMs = dur\<rparr>
                  in (startTimer TimerStakeMaking dur (q_AnswererID q)
                        (ev_oral e (ev_to (q_AnswererID q) e g)), Ret))))"

text \<open>
  \<open>secretAfterPrice\<close>: with \<open>NoQuestion\<close> the recipient is paid at once; a recipient that does not exist
  is a nil pointer.
\<close>

definition secretAfterPrice :: "int \<Rightarrow> game \<Rightarrow> flow" where
  "secretAfterPrice price g =
     (case st_Question g of
        None \<Rightarrow> (g, Crash)
      | Some q \<Rightarrow>
          let g = upd_q (\<lambda>q. q\<lparr>q_PriceChoices := [], q_CurPriceRight := price,
                    q_CurPriceWrong := wrongPrice g PenaltySubtract price\<rparr>) g;
              g = ev_all (EvQuestionCaption (q_Caption q) price) g
          in if q_NoQuestion q then
               (case player g (q_AnswererID q) of
                  None \<Rightarrow> (g, Crash)
                | Some p \<Rightarrow>
                    let g = setPlayerState (p_ID p) PStateRight (addScore (p_ID p) price ''secret'' g);
                        g = record_outcome \<lparr>o_PersonID = p_ID p, o_Answer = [], o_Right = True, o_Factor = 1,
                              o_Delta = price, o_Pass = False, o_Reverted = False\<rparr> g
                    in (setSub SubReveal g, JEndQuestion))
             else (g, JPlayContent))"

definition noRiskBegin :: "game \<Rightarrow> flow" where
  "noRiskBegin g =
     (case st_Question g of
        None \<Rightarrow> (g, Crash)
      | Some q \<Rightarrow>
          let price = q_Price q * r_ForYourselfFactor (st_Rules g);
              chooser = currentChooser g;
              g = upd_q (\<lambda>q. q\<lparr>q_Direct := True, q_AnswererID := chooser, q_CurPriceRight := price,
                    q_CurPriceWrong := wrongPrice g (r_ForYourselfPenalty (st_Rules g)) price\<rparr>) g
          in (ev_all (EvQuestionCaption (q_Caption q) price) g, JPlayContent))"

definition customBegin :: "game \<Rightarrow> flow" where
  "customBegin g = (g, JPlayContent)"

lemmas secret_defs [flow_defs] =
  secretTransfer_def secretBegin_def secretRecipientChosen_def secretPriceSelect_def
  secretAfterPrice_def noRiskBegin_def customBegin_def

subsection \<open>The price choices\<close>

text \<open>Where the last step does not wrap, the loop yields the arithmetic progression up to \<open>hi\<close>.\<close>

lemma price_loop_closed:
  assumes "0 < s" and "- (2 ^ 63) \<le> v" and "hi + s < 2 ^ 63"
  shows "price_loop v hi s out =
    Some (out @ map (\<lambda>k. v + int k * s) [0 ..< nat ((hi - v) div s + 1)])"
  using assms(2)
proof (induction "nat (hi + 1 - v)" arbitrary: v out rule: less_induct)
  case less
  show ?case
  proof (cases "v \<le> hi")
    case True
    have "(hi - v) div s = ((hi - (v + s)) + s) div s" by simp
    also have "\<dots> = (hi - (v + s)) div s + 1" using assms(1) by (subst div_add_self2) simp_all
    finally have "(hi - (v + s)) div s = (hi - v) div s - 1" by simp
    moreover have "0 \<le> (hi - v) div s" using True assms(1) by (simp add: pos_imp_zdiv_nonneg_iff)
    ultimately have n: "nat ((hi - v) div s + 1) = Suc (nat ((hi - (v + s)) div s + 1))" by linarith
    have wrap: "int64 (v + s) = v + s" using True less(2) assms by (intro int64_id) simp_all
    have "price_loop v hi s out = price_loop (v + s) hi s (out @ [v])"
      using True wrap by (subst price_loop.simps) simp
    also have "\<dots> = Some ((out @ [v]) @ map (\<lambda>k. v + s + int k * s) [0 ..< nat ((hi - (v + s)) div s + 1)])"
      using less(1) [of "v + s"] less(2) True assms(1) by simp
    also have "\<dots> = Some (out @ map (\<lambda>k. v + int k * s) [0 ..< nat ((hi - v) div s + 1)])"
      unfolding n upt_conv_Cons [OF zero_less_Suc] map_Suc_upt [symmetric] by (simp add: algebra_simps del: upt_Suc)
    finally show ?thesis .
  next
    case False
    then have "(hi - v) div s < 0" using assms(1) by (simp add: div_neg_pos_less0)
    then show ?thesis using False by (subst price_loop.simps) simp
  qed
qed

text \<open>For the greatest integer as upper bound the guard never fails.\<close>

lemma price_loop_hangs:
  assumes "v \<le> 2 ^ 63 - 1"
  shows "price_loop v (2 ^ 63 - 1) s out = None"
proof -
  have "price_loop v hi s out = Some r \<Longrightarrow> \<not> (hi = 2 ^ 63 - 1 \<and> v \<le> hi)" for v hi s out r
  proof (rule price_loop.raw_induct [where P = "\<lambda>v hi s out r. \<not> (hi = 2 ^ 63 - 1 \<and> v \<le> hi)"])
    fix f v hi s out r
    assume IH: "\<And>v hi s out r. f v hi s out = Some r \<Longrightarrow> \<not> (hi = 2 ^ 63 - 1 \<and> v \<le> hi)"
      and eq: "(if v \<le> hi then f (int64 (v + s)) hi s (out @ [v]) else Some out) = Some r"
    show "\<not> (hi = 2 ^ 63 - 1 \<and> v \<le> hi)"
    proof
      assume h: "hi = 2 ^ 63 - 1 \<and> v \<le> hi"
      with eq have "f (int64 (v + s)) hi s (out @ [v]) = Some r" by simp
      from IH [OF this] h int64_le_max [of "v + s"] show False by simp
    qed
  qed
  with assms show ?thesis by (cases "price_loop v (2 ^ 63 - 1) s out") auto
qed

end
