(* ===== verification/Engine_Stakes.thy ===== *)
theory Engine_Stakes
  imports Engine_Secret
begin

text \<open>
  Stake (auction) questions (\<open>stake.go\<close>): who bids, forced bids and passes, the order of the turns,
  the winner. The state is \<open>stake_state\<close> inside the question.
\<close>

subsection \<open>Operations\<close>

definition stakes :: "game \<Rightarrow> stake_state option" where
  "stakes g = Option.bind (st_Question g) q_Stakes"

definition upd_ss :: "(stake_state \<Rightarrow> stake_state) \<Rightarrow> game \<Rightarrow> game" where
  "upd_ss f g = upd_q (\<lambda>q. q\<lparr>q_Stakes := map_option f (q_Stakes q)\<rparr>) g"

lemma upd_ss_frame [simp, frame]:
  "st_Stage (upd_ss f g) = st_Stage g" "st_RoundIndex (upd_ss f g) = st_RoundIndex g"
  "st_RoundName (upd_ss f g) = st_RoundName g" "st_RoundType (upd_ss f g) = st_RoundType g"
  "st_Table (upd_ss f g) = st_Table g" "st_ChooserID (upd_ss f g) = st_ChooserID g"
  "st_Players (upd_ss f g) = st_Players g" "st_ShowmanID (upd_ss f g) = st_ShowmanID g"
  "st_Rules (upd_ss f g) = st_Rules g" "st_Times (upd_ss f g) = st_Times g"
  "st_Pending (upd_ss f g) = st_Pending g" "st_Timers (upd_ss f g) = st_Timers g"
  "st_Paused (upd_ss f g) = st_Paused g" "st_Appeal (upd_ss f g) = st_Appeal g"
  "st_RoundTimedOut (upd_ss f g) = st_RoundTimedOut g" "st_WaitNext (upd_ss f g) = st_WaitNext g"
  "st_FinalGroups (upd_ss f g) = st_FinalGroups g"
  "st_FinalOffset (upd_ss f g) = st_FinalOffset g" "st_DeleteStep (upd_ss f g) = st_DeleteStep g"
  "st_DeleterID (upd_ss f g) = st_DeleterID g" "st_DeleterUsed (upd_ss f g) = st_DeleterUsed g"
  "st_Winner (upd_ss f g) = st_Winner g" "st_QuestionsPlayed (upd_ss f g) = st_QuestionsPlayed g"
  "st_Ended (upd_ss f g) = st_Ended g" "g_pack (upd_ss f g) = g_pack g"
  "g_lib (upd_ss f g) = g_lib g" "g_rng (upd_ss f g) = g_rng g"
  "g_rngLog (upd_ss f g) = g_rngLog g" "g_now (upd_ss f g) = g_now g" "g_ev (upd_ss f g) = g_ev g"
  "g_timerSeq (upd_ss f g) = g_timerSeq g"
  by (simp_all add: upd_ss_def)


definition roundUp :: "int \<Rightarrow> int \<Rightarrow> int" where
  "roundUp v step = (if step \<le> 1 \<or> go_mod v step = 0 then v else int64 ((go_div v step + 1) * step))"

definition stakeModeAllowed :: "stake_state \<Rightarrow> stake_mode \<Rightarrow> bool" where
  "stakeModeAllowed ss mode \<longleftrightarrow> mode \<in> set (ss_AllowedModes ss)"

definition stakeMarkPass :: "string \<Rightarrow> game \<Rightarrow> game" where
  "stakeMarkPass i g =
     setPlayerState i PStatePass
       (ev_all (EvPersonStake i StakePass 0 False)
         (upd_ss (\<lambda>ss. ss\<lparr>ss_Active := mput i False (ss_Active ss), ss_HasBid := mput i True (ss_HasBid ss)\<rparr>) g))"

lemma stakeMarkPass_frame [simp, frame]:
  "st_Stage (stakeMarkPass i g) = st_Stage g"
  "st_RoundIndex (stakeMarkPass i g) = st_RoundIndex g"
  "st_RoundName (stakeMarkPass i g) = st_RoundName g"
  "st_RoundType (stakeMarkPass i g) = st_RoundType g" "st_Table (stakeMarkPass i g) = st_Table g"
  "st_ChooserID (stakeMarkPass i g) = st_ChooserID g"
  "st_ShowmanID (stakeMarkPass i g) = st_ShowmanID g" "st_Rules (stakeMarkPass i g) = st_Rules g"
  "st_Times (stakeMarkPass i g) = st_Times g" "st_Pending (stakeMarkPass i g) = st_Pending g"
  "st_Timers (stakeMarkPass i g) = st_Timers g" "st_Paused (stakeMarkPass i g) = st_Paused g"
  "st_Appeal (stakeMarkPass i g) = st_Appeal g"
  "st_RoundTimedOut (stakeMarkPass i g) = st_RoundTimedOut g"
  "st_WaitNext (stakeMarkPass i g) = st_WaitNext g"
  "st_FinalGroups (stakeMarkPass i g) = st_FinalGroups g"
  "st_FinalOffset (stakeMarkPass i g) = st_FinalOffset g"
  "st_DeleteStep (stakeMarkPass i g) = st_DeleteStep g"
  "st_DeleterID (stakeMarkPass i g) = st_DeleterID g"
  "st_DeleterUsed (stakeMarkPass i g) = st_DeleterUsed g"
  "st_Winner (stakeMarkPass i g) = st_Winner g"
  "st_QuestionsPlayed (stakeMarkPass i g) = st_QuestionsPlayed g"
  "st_Ended (stakeMarkPass i g) = st_Ended g" "g_pack (stakeMarkPass i g) = g_pack g"
  "g_lib (stakeMarkPass i g) = g_lib g" "g_rng (stakeMarkPass i g) = g_rng g"
  "g_rngLog (stakeMarkPass i g) = g_rngLog g" "g_now (stakeMarkPass i g) = g_now g"
  "g_timerSeq (stakeMarkPass i g) = g_timerSeq g"
  by (simp_all add: stakeMarkPass_def)


definition stakeActiveIDs :: "stake_state \<Rightarrow> string list" where
  "stakeActiveIDs ss = filter (mget (ss_Active ss)) (ss_Participants ss)"

text \<open>\<open>stakeBegin\<close> up to the first question to a bidder, with the step of the round.\<close>

definition open_auction :: "int \<Rightarrow> question_state \<Rightarrow> game \<Rightarrow> flow" where
  "open_auction stp q g =
     (let g = upd_q (\<lambda>q. q\<lparr>q_Direct := True\<rparr>) g;
          chooser = currentChooser g;
          bids = (\<lambda>p. p_ID p = chooser \<or> q_Price q < p_Score p);
          parts = map p_ID (filter bids (activePlayers g));
          ss = \<lparr>ss_Step = stp, ss_Nominal = q_Price q, ss_Participants = parts,
               ss_Active = fold (\<lambda>i. mput i True) parts [], ss_Bids = [], ss_HasBid = [],
               ss_AllIn = [], ss_Order = [], ss_Current = [], ss_Stake = 0, ss_Leader = [],
               ss_AnyAllIn = False, ss_AllowedModes = [], ss_Min = 0, ss_Max = 0\<rparr>;
          g = fold (\<lambda>p g. setPlayerState (p_ID p) PStatePass
                (ev_all (EvPersonStake (p_ID p) StakePass 0 False) g))
              (filter (\<lambda>p. \<not> bids p) (activePlayers g)) g;
          g = setSub SubStakes (upd_q (\<lambda>q. q\<lparr>q_Stakes := Some ss\<rparr>) g)
      in if chooser = [] then (g, JShowAnswer) else (g, JStakeAskBid chooser))"

definition stakeBegin :: "game \<Rightarrow> flow" where
  "stakeBegin g =
     (case st_Question g of
        None \<Rightarrow> (g, Crash)
      | Some q \<Rightarrow> (case stakeStep g of
            None \<Rightarrow> (g, Spin)
          | Some stp \<Rightarrow> open_auction stp q g))"

text \<open>\<open>stakeAskBid\<close>: the modes and bounds offered to a bidder who has a choice.\<close>

definition bid_offer :: "stake_state \<Rightarrow> int \<Rightarrow> stake_mode list \<times> int \<times> int" where
  "bid_offer ss score =
     (if ss_Stake ss = 0 then
        ([StakeNominal] @ (if ss_Nominal ss < score then [StakeStake] else []) @ [StakeAllIn],
         ss_Nominal ss, score)
      else
        let minB = roundUp (int64 (ss_Stake ss + ss_Step ss)) (ss_Step ss)
        in ([StakePass] @ (if \<not> ss_AnyAllIn ss \<and> minB \<le> score then [StakeStake] else []) @ [StakeAllIn],
            minB, score))"

definition stakeAskBid :: "string \<Rightarrow> game \<Rightarrow> flow" where
  "stakeAskBid i g =
     (case (stakes g, player g i) of
        (Some ss, Some p) \<Rightarrow>
          let g = g\<lparr>st_Pending := None\<rparr>;
              g = upd_ss (\<lambda>ss. ss\<lparr>ss_Current := i,
                    ss_Order := (if \<not> mget (ss_HasBid ss) i \<and> i \<notin> set (ss_Order ss)
                                 then ss_Order ss @ [i] else ss_Order ss)\<rparr>) g
          in if 0 < ss_Stake ss \<and> p_Score p \<le> ss_Stake ss then (g, JStakeSetPass i)
             else if ss_Stake ss = 0 \<and> (p_Score p < ss_Nominal ss \<or> length (ss_Participants ss) = 1)
             then (g, JStakeApply i StakeNominal (ss_Nominal ss))
             else
               (case bid_offer ss (p_Score p) of (modes, minB, maxB) \<Rightarrow>
                 let g = upd_ss (\<lambda>ss. ss\<lparr>ss_AllowedModes := modes, ss_Min := minB, ss_Max := maxB\<rparr>) g;
                     dur = tm_StakeMakingMs (st_Times g);
                     e = EvAskStake \<lparr>as_PersonID = i, as_Modes = modes, as_Min = minB, as_Max = maxB,
                           as_Step = ss_Step ss, as_Reason = ''stake'', as_DurationMs = dur\<rparr>
                 in (startTimer TimerStakeMaking dur i (ev_oral e (ev_to i e g)), Ret))
      | _ \<Rightarrow> (g, Crash))"

definition bid_amount :: "stake_state \<Rightarrow> int \<Rightarrow> stake_mode \<Rightarrow> int \<Rightarrow> int" where
  "bid_amount ss score mode amount =
     (if mode = StakeNominal then ss_Nominal ss else if mode = StakeAllIn then score else amount)"

text \<open>The bid is entered; then everybody else who cannot beat it passes.\<close>

definition enter_bid :: "string \<Rightarrow> stake_mode \<Rightarrow> int \<Rightarrow> stake_state \<Rightarrow> stake_state" where
  "enter_bid i mode amt ss = ss\<lparr>
     ss_HasBid := mput i True (ss_HasBid ss),
     ss_AllIn := (if mode = StakeAllIn then mput i True (ss_AllIn ss) else ss_AllIn ss),
     ss_AnyAllIn := (mode = StakeAllIn \<or> ss_AnyAllIn ss),
     ss_Bids := mput i amt (ss_Bids ss),
     ss_Stake := amt,
     ss_Leader := i\<rparr>"

definition stakeApply :: "string \<Rightarrow> stake_mode \<Rightarrow> int \<Rightarrow> game \<Rightarrow> flow" where
  "stakeApply i mode amount g =
     (case (stakes g, player g i) of
        (Some ss, Some p) \<Rightarrow>
          let g = stopKind TimerStakeMaking g;
              amt = bid_amount ss (p_Score p) mode amount;
              g = upd_ss (enter_bid i mode amt) g;
              g = ev_all (EvPersonStake i mode amt False) g;
              beaten = filter (\<lambda>j. j \<noteq> i \<and> mget (ss_Active ss) j \<and> player_score g j \<le> amt)
                         (ss_Participants ss)
          in (fold stakeMarkPass beaten g, JStakeAdvance)
      | _ \<Rightarrow> (g, Crash))"

definition stakeSetPass :: "string \<Rightarrow> game \<Rightarrow> flow" where
  "stakeSetPass i g =
     (case stakes g of
        None \<Rightarrow> (g, Crash)
      | Some ss \<Rightarrow>
          if \<not> mget (ss_Active ss) i then (g, Ret)
          else
            let g = stakeMarkPass i g in
            if ss_Current ss = i then (stopKind TimerStakeMaking g, JStakeAdvance)
            else if map_option stakeActiveIDs (stakes g) = Some [ss_Leader ss] then (g, JStakeWinner (ss_Leader ss))
            else (g, Ret))"

text \<open>The next bidder after the current one in the order of first bids.\<close>

definition next_in_order :: "stake_state \<Rightarrow> string option" where
  "next_in_order ss =
     (let n = length (ss_Order ss);
          start = (case find_last (\<lambda>j. j = ss_Current ss) (ss_Order ss) of None \<Rightarrow> 0 | Some i \<Rightarrow> i);
          turn = map (\<lambda>i. ss_Order ss ! ((start + i) mod n)) [1..<Suc n]
      in find (\<lambda>j. mget (ss_Active ss) j \<and> j \<noteq> ss_Leader ss) turn)"

text \<open>The players with the least score among those who have not bid, as the loop keeps them.\<close>

definition lowest_unbid :: "game \<Rightarrow> stake_state \<Rightarrow> player list" where
  "lowest_unbid g ss =
     lowest_loop [] (List.map_filter (player g)
       (filter (\<lambda>j. \<not> mget (ss_HasBid ss) j) (stakeActiveIDs ss)))"

definition stakeAdvance :: "game \<Rightarrow> flow" where
  "stakeAdvance g =
     (case stakes g of
        None \<Rightarrow> (g, Crash)
      | Some ss \<Rightarrow>
          let active = stakeActiveIDs ss in
          if active = [] then
            (if ss_Leader ss = [] then (g, JShowAnswer) else (g, JStakeWinner (ss_Leader ss)))
          else if active = [ss_Leader ss] then (g, JStakeWinner (ss_Leader ss))
          else (case lowest_unbid g ss of
              [p] \<Rightarrow> (g, JStakeAskBid (p_ID p))
            | p # q # ps \<Rightarrow> (askSelectPlayer PendingStaker (st_ShowmanID g) (ids (p # q # ps)) g, Ret)
            | [] \<Rightarrow> (case next_in_order ss of
                  Some j \<Rightarrow> (g, JStakeAskBid j)
                | None \<Rightarrow> (g, JStakeWinner (ss_Leader ss)))))"

definition stakeWinner :: "string \<Rightarrow> game \<Rightarrow> flow" where
  "stakeWinner i g =
     (case (st_Question g, stakes g) of
        (Some q, Some ss) \<Rightarrow>
          let g = (stopKind TimerStakeMaking g)\<lparr>st_Pending := None\<rparr>;
              g = upd_q (\<lambda>q. q\<lparr>q_AnswererID := i, q_CurPriceRight := ss_Stake ss,
                    q_CurPriceWrong := wrongPrice g PenaltySubtract (ss_Stake ss)\<rparr>) g;
              g = setChooser i ''stakeWinner'' g
          in (ev_all (EvQuestionCaption (q_Caption q) (ss_Stake ss)) g, JPlayContent)
      | _ \<Rightarrow> (g, Crash))"

lemmas stake_defs [flow_defs] =
  stakeBegin_def open_auction_def stakeAskBid_def stakeApply_def stakeSetPass_def stakeAdvance_def stakeWinner_def

end
