(* ===== verification/Engine_Hidden.thy ===== *)
theory Engine_Hidden
  imports Engine_Stakes
begin

text \<open>
  Written answers (\<open>hidden.go\<close>): questions for all and questions with hidden stakes. Everybody who
  takes part answers in writing; the answers are revealed and scored one by one in seat order.
\<close>

definition forAllBegin :: "game \<Rightarrow> flow" where
  "forAllBegin g =
     (case st_Question g of
        None \<Rightarrow> (g, Crash)
      | Some q \<Rightarrow>
          let g = upd_q (\<lambda>q. q\<lparr>q_Hidden := True,
                    q_CurPriceWrong := wrongPrice g (r_ForAllPenalty (st_Rules g)) (q_Price q),
                    q_Answerers := q_Answerers q @ map p_ID (activePlayers g)\<rparr>) g
          in (upd_players (\<lambda>p. if p_Active p then p\<lparr>p_InGame := True\<rparr> else p) g, JPlayContent))"

definition stakeAllParticipants :: "game \<Rightarrow> player list" where
  "stakeAllParticipants g = filter (\<lambda>p.
     if st_RoundType g = RoundFinal then p_FinalInGame p
     else 0 < p_Score p \<or> r_AllowEveryoneToPlayHiddenStakes (st_Rules g)) (activePlayers g)"

definition hiddenStakeSet :: "string \<Rightarrow> int \<Rightarrow> game \<Rightarrow> game" where
  "hiddenStakeSet i amount g =
     (let g = upd_player i (\<lambda>p. p\<lparr>p_StakeMade := True, p_Stake := amount,
                p_StakeAllIn := (amount = p_Score p \<and> 0 < p_Score p)\<rparr>) g;
          g = emit (AudienceExcept (st_ShowmanID g)) (EvPersonStake i StakeStake 0 True) g
      in ev_showman (EvPersonStake i StakeStake amount True) g)"

lemma hiddenStakeSet_frame [simp, frame]:
  "st_Stage (hiddenStakeSet i a g) = st_Stage g"
  "st_RoundIndex (hiddenStakeSet i a g) = st_RoundIndex g"
  "st_RoundName (hiddenStakeSet i a g) = st_RoundName g"
  "st_RoundType (hiddenStakeSet i a g) = st_RoundType g"
  "st_Table (hiddenStakeSet i a g) = st_Table g"
  "st_ChooserID (hiddenStakeSet i a g) = st_ChooserID g"
  "st_ShowmanID (hiddenStakeSet i a g) = st_ShowmanID g"
  "st_Rules (hiddenStakeSet i a g) = st_Rules g" "st_Times (hiddenStakeSet i a g) = st_Times g"
  "st_Question (hiddenStakeSet i a g) = st_Question g"
  "st_Pending (hiddenStakeSet i a g) = st_Pending g"
  "st_Timers (hiddenStakeSet i a g) = st_Timers g"
  "st_Paused (hiddenStakeSet i a g) = st_Paused g"
  "st_Appeal (hiddenStakeSet i a g) = st_Appeal g"
  "st_RoundTimedOut (hiddenStakeSet i a g) = st_RoundTimedOut g"
  "st_WaitNext (hiddenStakeSet i a g) = st_WaitNext g"
  "st_FinalGroups (hiddenStakeSet i a g) = st_FinalGroups g"
  "st_FinalOffset (hiddenStakeSet i a g) = st_FinalOffset g"
  "st_DeleteStep (hiddenStakeSet i a g) = st_DeleteStep g"
  "st_DeleterID (hiddenStakeSet i a g) = st_DeleterID g"
  "st_DeleterUsed (hiddenStakeSet i a g) = st_DeleterUsed g"
  "st_Winner (hiddenStakeSet i a g) = st_Winner g"
  "st_QuestionsPlayed (hiddenStakeSet i a g) = st_QuestionsPlayed g"
  "st_Ended (hiddenStakeSet i a g) = st_Ended g" "g_pack (hiddenStakeSet i a g) = g_pack g"
  "g_lib (hiddenStakeSet i a g) = g_lib g" "g_rng (hiddenStakeSet i a g) = g_rng g"
  "g_rngLog (hiddenStakeSet i a g) = g_rngLog g" "g_now (hiddenStakeSet i a g) = g_now g"
  "g_timerSeq (hiddenStakeSet i a g) = g_timerSeq g"
  by (simp_all add: hiddenStakeSet_def Let_def)


definition askHiddenStake :: "player \<Rightarrow> game \<Rightarrow> game" where
  "askHiddenStake p g =
     (let e = EvAskStake \<lparr>as_PersonID = p_ID p, as_Modes = [StakeStake, StakeAllIn], as_Min = 1,
            as_Max = p_Score p, as_Step = 1, as_Reason = ''hiddenStake'',
            as_DurationMs = tm_StakeMakingMs (st_Times g)\<rparr>
      in ev_oral e (ev_to (p_ID p) e g))"

lemma askHiddenStake_frame [simp, frame]:
  "st_Stage (askHiddenStake p g) = st_Stage g"
  "st_RoundIndex (askHiddenStake p g) = st_RoundIndex g"
  "st_RoundName (askHiddenStake p g) = st_RoundName g"
  "st_RoundType (askHiddenStake p g) = st_RoundType g"
  "st_Table (askHiddenStake p g) = st_Table g"
  "st_ChooserID (askHiddenStake p g) = st_ChooserID g"
  "st_Players (askHiddenStake p g) = st_Players g"
  "st_ShowmanID (askHiddenStake p g) = st_ShowmanID g"
  "st_Rules (askHiddenStake p g) = st_Rules g" "st_Times (askHiddenStake p g) = st_Times g"
  "st_Question (askHiddenStake p g) = st_Question g"
  "st_Pending (askHiddenStake p g) = st_Pending g" "st_Timers (askHiddenStake p g) = st_Timers g"
  "st_Paused (askHiddenStake p g) = st_Paused g" "st_Appeal (askHiddenStake p g) = st_Appeal g"
  "st_RoundTimedOut (askHiddenStake p g) = st_RoundTimedOut g"
  "st_WaitNext (askHiddenStake p g) = st_WaitNext g"
  "st_FinalGroups (askHiddenStake p g) = st_FinalGroups g"
  "st_FinalOffset (askHiddenStake p g) = st_FinalOffset g"
  "st_DeleteStep (askHiddenStake p g) = st_DeleteStep g"
  "st_DeleterID (askHiddenStake p g) = st_DeleterID g"
  "st_DeleterUsed (askHiddenStake p g) = st_DeleterUsed g"
  "st_Winner (askHiddenStake p g) = st_Winner g"
  "st_QuestionsPlayed (askHiddenStake p g) = st_QuestionsPlayed g"
  "st_Ended (askHiddenStake p g) = st_Ended g" "g_pack (askHiddenStake p g) = g_pack g"
  "g_lib (askHiddenStake p g) = g_lib g" "g_rng (askHiddenStake p g) = g_rng g"
  "g_rngLog (askHiddenStake p g) = g_rngLog g" "g_now (askHiddenStake p g) = g_now g"
  "g_timerSeq (askHiddenStake p g) = g_timerSeq g"
  by (simp_all add: askHiddenStake_def Let_def)


definition stakeAllBegin :: "game \<Rightarrow> flow" where
  "stakeAllBegin g =
     (case st_Question g of
        None \<Rightarrow> (g, Crash)
      | Some q \<Rightarrow>
          let g = upd_q (\<lambda>q. q\<lparr>q_Hidden := True, q_HiddenAll := True\<rparr>) g;
              parts = stakeAllParticipants g;
              part_ids = map p_ID parts
          in if parts = [] then (g, JShowAnswer)
             else
               let g = upd_players (\<lambda>p. if p_ID p \<in> set part_ids then p\<lparr>p_InGame := True\<rparr> else p) g;
                   g = upd_q (\<lambda>q. q\<lparr>q_Answerers := q_Answerers q @ part_ids\<rparr>) g;
                   g = fold (\<lambda>p. setPlayerState (p_ID p) PStatePass)
                         (filter (\<lambda>p. p_ID p \<notin> set part_ids) (activePlayers g)) g;
                   g = setSub SubStakes g;
                   g = fold (\<lambda>p g. if p_Score p \<le> 1 then hiddenStakeSet (p_ID p) 1 g
                                    else askHiddenStake p g) parts g
               in if list_all (\<lambda>p. p_Score p \<le> 1) parts then (g, JHiddenStakesDone)
                  else (startTimer TimerStakeMaking (tm_StakeMakingMs (st_Times g)) [] g, Ret))"

definition allHiddenStakesMade :: "game \<Rightarrow> question_state \<Rightarrow> bool" where
  "allHiddenStakesMade g q \<longleftrightarrow> list_all (\<lambda>i. case player g i of
       None \<Rightarrow> True
     | Some p \<Rightarrow> \<not> (p_Active p \<and> p_InGame p \<and> \<not> p_StakeMade p)) (q_Answerers q)"

text \<open>A hidden stake of 1 for the answerers selected by a test on the player.\<close>

definition default_stakes :: "(player \<Rightarrow> bool) \<Rightarrow> question_state \<Rightarrow> game \<Rightarrow> game" where
  "default_stakes test q g = fold (\<lambda>i g. case player g i of
       None \<Rightarrow> g
     | Some p \<Rightarrow> if test p then hiddenStakeSet i 1 g else g) (q_Answerers q) g"

lemma default_stakes_frames [simp, frame]:
  "st_Question (default_stakes t q g) = st_Question g"
  "st_Timers (default_stakes t q g) = st_Timers g"
  "g_timerSeq (default_stakes t q g) = g_timerSeq g"
  "st_RoundIndex (default_stakes t q g) = st_RoundIndex g"
  "st_Table (default_stakes t q g) = st_Table g"
  "st_Stage (default_stakes t q g) = st_Stage g"
  "st_Pending (default_stakes t q g) = st_Pending g"
  "st_Appeal (default_stakes t q g) = st_Appeal g"
  "st_ShowmanID (default_stakes t q g) = st_ShowmanID g"
  "g_pack (default_stakes t q g) = g_pack g"
  by (simp_all add: default_stakes_def fold_frames split: option.split)

definition hiddenStakesTimeout :: "game \<Rightarrow> flow" where
  "hiddenStakesTimeout g =
     (case st_Question g of
        None \<Rightarrow> (g, Crash)
      | Some q \<Rightarrow> (default_stakes (\<lambda>p. p_InGame p \<and> \<not> p_StakeMade p) q g, JHiddenStakesDone))"

definition hiddenStakesDone :: "game \<Rightarrow> flow" where
  "hiddenStakesDone g =
     (case st_Question g of
        None \<Rightarrow> (g, Ret)
      | Some q \<Rightarrow>
          if q_Sub q \<noteq> SubStakes then (g, Ret)
          else (default_stakes (\<lambda>p. \<not> p_StakeMade p) q g, JPlayContent))"

definition hiddenAnsweringBegin :: "game \<Rightarrow> flow" where
  "hiddenAnsweringBegin g =
     (case st_Question g of
        None \<Rightarrow> (g, Crash)
      | Some q \<Rightarrow>
          let dur = answerDuration g (tm_HiddenAnsweringMs (st_Times g));
              asked = filter (isActive g) (q_Answerers q);
              g = fold (\<lambda>i g. ev_to i (EvAskAnswer i (q_AnswerType q) dur True False)
                     (setPlayerState i PStateAnswering g)) asked g
          in if asked = [] then (g, JShowAnswer)
             else
               let g = setSub SubHiddenAnswering g;
                   g = ev_all (EvFinalThink dur) g
               in (startTimer TimerHiddenAnswering dur [] g, Ret))"

definition allHiddenAnswered :: "game \<Rightarrow> question_state \<Rightarrow> bool" where
  "allHiddenAnswered g q \<longleftrightarrow> list_all (\<lambda>i. case player g i of
       None \<Rightarrow> True
     | Some p \<Rightarrow> \<not> (p_Active p \<and> p_InGame p \<and> \<not> p_Answered p)) (q_Answerers q)"

definition hiddenAnsweringDone :: "game \<Rightarrow> flow" where
  "hiddenAnsweringDone g =
     (case st_Question g of
        None \<Rightarrow> (g, Ret)
      | Some q \<Rightarrow>
          if q_Sub q \<noteq> SubHiddenAnswering then (g, Ret)
          else (upd_q (\<lambda>q. q\<lparr>q_RevealIdx := 0\<rparr>) g, JHiddenRevealNext))"

text \<open>\<open>hiddenScore\<close>: one revealed verdict, for the price or for the player's own stake.\<close>

definition hiddenScore :: "player \<Rightarrow> string \<Rightarrow> bool \<Rightarrow> f64 \<Rightarrow> string \<Rightarrow> question_state \<Rightarrow> game \<Rightarrow> game" where
  "hiddenScore p answer right factor source q g =
     (let g = upd_q (\<lambda>q. q\<lparr>q_PendingAnswerID := [], q_PendingAnswer := []\<rparr>) g;
          g = (if q_HiddenAll q then ev_all (EvPersonStake (p_ID p) StakeStake (p_Stake p) False) g else g);
          priceR = (if q_HiddenAll q then p_Stake p else q_CurPriceRight q);
          priceW = (if q_HiddenAll q then wrongPrice g PenaltySubtract (p_Stake p) else q_CurPriceWrong q)
      in applyOutcome (p_ID p) answer right factor source priceR priceW g)"

lemma hiddenScore_frame [simp, frame]:
  "st_Stage (hiddenScore p a r f s q g) = st_Stage g"
  "st_RoundIndex (hiddenScore p a r f s q g) = st_RoundIndex g"
  "st_RoundName (hiddenScore p a r f s q g) = st_RoundName g"
  "st_RoundType (hiddenScore p a r f s q g) = st_RoundType g"
  "st_Table (hiddenScore p a r f s q g) = st_Table g"
  "st_ChooserID (hiddenScore p a r f s q g) = st_ChooserID g"
  "st_ShowmanID (hiddenScore p a r f s q g) = st_ShowmanID g"
  "st_Rules (hiddenScore p a r f s q g) = st_Rules g"
  "st_Times (hiddenScore p a r f s q g) = st_Times g"
  "st_Pending (hiddenScore p a r f s q g) = st_Pending g"
  "st_Timers (hiddenScore p a r f s q g) = st_Timers g"
  "st_Paused (hiddenScore p a r f s q g) = st_Paused g"
  "st_Appeal (hiddenScore p a r f s q g) = st_Appeal g"
  "st_RoundTimedOut (hiddenScore p a r f s q g) = st_RoundTimedOut g"
  "st_WaitNext (hiddenScore p a r f s q g) = st_WaitNext g"
  "st_FinalGroups (hiddenScore p a r f s q g) = st_FinalGroups g"
  "st_FinalOffset (hiddenScore p a r f s q g) = st_FinalOffset g"
  "st_DeleteStep (hiddenScore p a r f s q g) = st_DeleteStep g"
  "st_DeleterID (hiddenScore p a r f s q g) = st_DeleterID g"
  "st_DeleterUsed (hiddenScore p a r f s q g) = st_DeleterUsed g"
  "st_Winner (hiddenScore p a r f s q g) = st_Winner g"
  "st_QuestionsPlayed (hiddenScore p a r f s q g) = st_QuestionsPlayed g"
  "st_Ended (hiddenScore p a r f s q g) = st_Ended g"
  "g_pack (hiddenScore p a r f s q g) = g_pack g" "g_lib (hiddenScore p a r f s q g) = g_lib g"
  "g_rng (hiddenScore p a r f s q g) = g_rng g"
  "g_rngLog (hiddenScore p a r f s q g) = g_rngLog g"
  "g_now (hiddenScore p a r f s q g) = g_now g"
  "g_timerSeq (hiddenScore p a r f s q g) = g_timerSeq g"
  by (simp_all add: hiddenScore_def Let_def)


text \<open>
  One turn of the reveal loop: \<open>Inl\<close> goes on with the next answerer, \<open>Inr\<close> waits for the showman.
  The stored verdicts come from the question as it is now (\<open>q\<close> is read anew in each turn).
\<close>

definition reveal_one :: "player \<Rightarrow> question_state \<Rightarrow> game \<Rightarrow> game + game" where
  "reveal_one p q g =
     (if \<not> p_Answered p \<and> \<not> p_Active p then Inl g
      else
        let av = (if p_Answered p then p_Answer p else no_answer\<lparr>av_Text := ''-''\<rparr>);
            text = answerText g av;
            g = ev_all (EvPlayerAnswer (p_ID p) av) g
        in if \<not> p_Answered p then Inl (hiddenScore p ''-'' False 1 ''auto'' q g)
           else case autoCheck g q av of
               Some right \<Rightarrow> Inl (hiddenScore p text right 1 ''auto'' q g)
             | None \<Rightarrow> (case map_of (q_PreVerdicts q) (p_ID p) of
                   Some v \<Rightarrow> Inl (hiddenScore p text (v_right v) (v_factor v) ''showman'' q g)
                 | None \<Rightarrow> (case map_of (q_ValidationCache q) (normAnswer g text) of
                       Some v \<Rightarrow> Inl (hiddenScore p text (v_right v) (v_factor v) ''auto'' q g)
                     | None \<Rightarrow> Inr (askValidate (p_ID p) text q g))))"

fun reveal_loop :: "nat \<Rightarrow> game \<Rightarrow> flow" where
  "reveal_loop 0 g = (g, JShowAnswer)"
| "reveal_loop (Suc n) g =
     (case st_Question g of
        None \<Rightarrow> (g, Crash)
      | Some q \<Rightarrow>
          if length (q_Answerers q) \<le> q_RevealIdx q then (g, JShowAnswer)
          else (case player g (q_Answerers q ! q_RevealIdx q) of
              None \<Rightarrow> (g, Crash)
            | Some p \<Rightarrow>
                (case reveal_one p q (upd_q (\<lambda>q. q\<lparr>q_RevealIdx := Suc (q_RevealIdx q)\<rparr>) g) of
                   Inl g \<Rightarrow> reveal_loop n g
                 | Inr g \<Rightarrow> (g, Ret))))"

text \<open>Each turn advances \<open>RevealIdx\<close>, so one turn per remaining answerer is enough.\<close>

definition hiddenRevealNext :: "game \<Rightarrow> flow" where
  "hiddenRevealNext g =
     (case st_Question g of
        None \<Rightarrow> (g, Crash)
      | Some q \<Rightarrow> reveal_loop (length (q_Answerers q) - q_RevealIdx q) g)"

lemmas hidden_defs [flow_defs] =
  forAllBegin_def stakeAllBegin_def hiddenStakesTimeout_def hiddenStakesDone_def
  hiddenAnsweringBegin_def hiddenAnsweringDone_def hiddenRevealNext_def

end
