(* ===== verification/Engine_Start.thy ===== *)
theory Engine_Start
  imports Engine_Hidden
begin

text \<open>The start of a question (\<open>question.go\<close>, \<open>startQuestion\<close>): its state and its script.\<close>

definition new_question :: "game \<Rightarrow> nat \<Rightarrow> nat \<Rightarrow> pack_question \<Rightarrow> question_state" where
  "new_question g t q pq =
     (let price = (if pq_Price pq < 0 then 0 else pq_Price pq);
          qtype = (if pq_Type pq = QUnset then defaultQuestionType g else pq_Type pq)
      in \<lparr>q_ThemeIndex = t, q_QuestionIndex = q, q_ID = pq_ID pq, q_Type = qtype,
          q_IsDefault = (pq_Type pq = QUnset), q_Known = IsKnown qtype,
          q_AnswerType = (if qp_AnswerType (pq_Params pq) = AnswerUnset then AnswerText
                          else qp_AnswerType (pq_Params pq)),
          q_Price = price, q_CurPriceRight = price,
          q_CurPriceWrong = (if r_IgnoreWrong (st_Rules g) then 0 else price),
          q_Sub = SubAnnouncing, q_Caption = th_Name (st_Table g ! t),
          q_IsFinal = (st_RoundType g = RoundFinal), q_Button = False, q_Armed = False,
          q_Direct = False, q_Hidden = False, q_HiddenAll = False, q_SecretPublic = False,
          q_NoQuestion = False, q_OptionsShown = False, q_AnswererID = [], q_Answerers = [],
          q_RevealIdx = 0, q_Groups = [], q_Cursor = 0, q_Phase = ''question'',
          q_ContentDone = False, q_WaitNext = False, q_ThinkingRemain = 0, q_Stakes = None,
          q_Options = qp_AnswerOptions (pq_Params pq), q_ExcludedOptions = [],
          q_ValidationCache = [], q_PendingAnswerID = [], q_PendingAnswer = [],
          q_PreVerdicts = [], q_History = [], q_AppealQueue = [], q_AgainstUsed = False,
          q_Rights = pq_Right pq, q_Wrongs = pq_Wrong pq, q_AnswerItems = qp_Answer (pq_Params pq),
          q_Comments = in_Comments (pq_Info pq), q_PriceChoices = [], q_AwaitingMediaIDs = False\<rparr>)"

text \<open>The comments of the theme become the first text item when the rules say so.\<close>

definition question_items :: "game \<Rightarrow> nat \<Rightarrow> pack_question \<Rightarrow> content_item list" where
  "question_items g t pq =
     (case round g of
        None \<Rightarrow> qp_Question (pq_Params pq)
      | Some r \<Rightarrow>
          let c = in_Comments (pt_Info (pr_Themes r ! t)) in
          if r_PrependThemeCommentsToQuestion (st_Rules g) \<and> c \<noteq> [] then
            \<lparr>ci_Type = ContentText, ci_Text = c, ci_MediaID = [], ci_URL = [],
             ci_Placement = PlaceUnset, ci_DurationMs = 0, ci_NoWait = False\<rparr> # qp_Question (pq_Params pq)
          else qp_Question (pq_Params pq))"

definition showmanHint :: "pack_question \<Rightarrow> game \<Rightarrow> game" where
  "showmanHint pq g =
     (if r_HintShowman (st_Rules g) \<or> in_ShowmanComments (pq_Info pq) \<noteq> [] then
        ev_showman (EvShowmanHint (if r_HintShowman (st_Rules g) then pq_Right pq else [])
            (if r_HintShowman (st_Rules g) then pq_Wrong pq else [])
            (in_ShowmanComments (pq_Info pq)) (in_Comments (pq_Info pq))) g
      else g)"

lemma showmanHint_frame [simp, frame]:
  "st_Stage (showmanHint pq g) = st_Stage g" "st_RoundIndex (showmanHint pq g) = st_RoundIndex g"
  "st_RoundName (showmanHint pq g) = st_RoundName g"
  "st_RoundType (showmanHint pq g) = st_RoundType g" "st_Table (showmanHint pq g) = st_Table g"
  "st_ChooserID (showmanHint pq g) = st_ChooserID g"
  "st_Players (showmanHint pq g) = st_Players g"
  "st_ShowmanID (showmanHint pq g) = st_ShowmanID g" "st_Rules (showmanHint pq g) = st_Rules g"
  "st_Times (showmanHint pq g) = st_Times g" "st_Question (showmanHint pq g) = st_Question g"
  "st_Pending (showmanHint pq g) = st_Pending g" "st_Timers (showmanHint pq g) = st_Timers g"
  "st_Paused (showmanHint pq g) = st_Paused g" "st_Appeal (showmanHint pq g) = st_Appeal g"
  "st_RoundTimedOut (showmanHint pq g) = st_RoundTimedOut g"
  "st_WaitNext (showmanHint pq g) = st_WaitNext g"
  "st_FinalGroups (showmanHint pq g) = st_FinalGroups g"
  "st_FinalOffset (showmanHint pq g) = st_FinalOffset g"
  "st_DeleteStep (showmanHint pq g) = st_DeleteStep g"
  "st_DeleterID (showmanHint pq g) = st_DeleterID g"
  "st_DeleterUsed (showmanHint pq g) = st_DeleterUsed g"
  "st_Winner (showmanHint pq g) = st_Winner g"
  "st_QuestionsPlayed (showmanHint pq g) = st_QuestionsPlayed g"
  "st_Ended (showmanHint pq g) = st_Ended g" "g_pack (showmanHint pq g) = g_pack g"
  "g_lib (showmanHint pq g) = g_lib g" "g_rng (showmanHint pq g) = g_rng g"
  "g_rngLog (showmanHint pq g) = g_rngLog g" "g_now (showmanHint pq g) = g_now g"
  "g_timerSeq (showmanHint pq g) = g_timerSeq g"
  by (simp_all add: showmanHint_def)


definition beginScript :: "question_type \<Rightarrow> game \<Rightarrow> flow" where
  "beginScript qtype g =
     (case qtype of
        QSimple \<Rightarrow> simpleBegin g
      | QStake \<Rightarrow> stakeBegin g
      | QSecret \<Rightarrow> secretBegin False False g
      | QSecretPublicPrice \<Rightarrow> secretBegin True False g
      | QSecretNoQuestion \<Rightarrow> secretBegin False True g
      | QNoRisk \<Rightarrow> noRiskBegin g
      | QForAll \<Rightarrow> forAllBegin g
      | QStakeAll \<Rightarrow> stakeAllBegin g
      | _ \<Rightarrow> customBegin g)"

text \<open>The question that is asked, after its cell was marked as played.\<close>

definition asked_question :: "game \<Rightarrow> nat \<Rightarrow> nat \<Rightarrow> pack_question \<Rightarrow> question_state" where
  "asked_question g t q pq =
     (new_question g t q pq)\<lparr>q_Groups := buildGroups g (question_items g t pq)\<rparr>"

definition open_question :: "nat \<Rightarrow> nat \<Rightarrow> pack_question \<Rightarrow> game \<Rightarrow> game" where
  "open_question t q pq g =
     (let g = upd_cell t q (\<lambda>c. c\<lparr>c_Played := True\<rparr>) g;
          qs = asked_question g t q pq;
          g = g\<lparr>st_Question := Some qs, st_Stage := StageQuestion, st_Pending := None,
                st_Players := map reset_for_round (st_Players g)\<rparr>;
          g = emitStage g;
          g = ev_all (EvQuestionStart (pq_ID pq) t q (th_Name (st_Table g ! t)) (q_Price qs)
                (q_Type qs) (q_IsDefault qs) (q_AnswerType qs)) g
      in emitTable (showmanHint pq g))"

lemma open_question_frame [simp, frame]:
  "st_RoundIndex (open_question t q pq g) = st_RoundIndex g"
  "st_RoundName (open_question t q pq g) = st_RoundName g"
  "st_RoundType (open_question t q pq g) = st_RoundType g"
  "st_ChooserID (open_question t q pq g) = st_ChooserID g"
  "st_ShowmanID (open_question t q pq g) = st_ShowmanID g"
  "st_Rules (open_question t q pq g) = st_Rules g"
  "st_Times (open_question t q pq g) = st_Times g"
  "st_Timers (open_question t q pq g) = st_Timers g"
  "st_Paused (open_question t q pq g) = st_Paused g"
  "st_Appeal (open_question t q pq g) = st_Appeal g"
  "st_RoundTimedOut (open_question t q pq g) = st_RoundTimedOut g"
  "st_WaitNext (open_question t q pq g) = st_WaitNext g"
  "st_FinalGroups (open_question t q pq g) = st_FinalGroups g"
  "st_FinalOffset (open_question t q pq g) = st_FinalOffset g"
  "st_DeleteStep (open_question t q pq g) = st_DeleteStep g"
  "st_DeleterID (open_question t q pq g) = st_DeleterID g"
  "st_DeleterUsed (open_question t q pq g) = st_DeleterUsed g"
  "st_Winner (open_question t q pq g) = st_Winner g"
  "st_QuestionsPlayed (open_question t q pq g) = st_QuestionsPlayed g"
  "st_Ended (open_question t q pq g) = st_Ended g" "g_pack (open_question t q pq g) = g_pack g"
  "g_lib (open_question t q pq g) = g_lib g" "g_rng (open_question t q pq g) = g_rng g"
  "g_rngLog (open_question t q pq g) = g_rngLog g" "g_now (open_question t q pq g) = g_now g"
  "g_timerSeq (open_question t q pq g) = g_timerSeq g"
  by (simp_all add: open_question_def Let_def)


lemma open_question_fields [simp]:
  "st_Table (open_question t q pq g) = st_Table (upd_cell t q (\<lambda>c. c\<lparr>c_Played := True\<rparr>) g)"
  "st_Question (open_question t q pq g) =
     Some (asked_question (upd_cell t q (\<lambda>c. c\<lparr>c_Played := True\<rparr>) g) t q pq)"
  "st_Stage (open_question t q pq g) = StageQuestion"
  "st_Pending (open_question t q pq g) = None"
  "st_Players (open_question t q pq g) = map reset_for_round (st_Players g)"
  by (simp_all add: open_question_def Let_def)

definition startQuestion :: "nat \<Rightarrow> nat \<Rightarrow> game \<Rightarrow> flow" where
  "startQuestion t q g =
     (case packQuestion g t q of
        None \<Rightarrow> (g, Crash)
      | Some pq \<Rightarrow>
          if \<not> cell_in_table g t q then (g, Crash)
          else
            let g = open_question t q pq g in
            case st_Question g of
              None \<Rightarrow> (g, Crash)
            | Some qs \<Rightarrow> beginScript (q_Type qs) g)"

lemma startQuestion_cases:
  obtains "startQuestion t q g = (g, Crash)"
  | pq ty where "packQuestion g t q = Some pq" "cell_in_table g t q"
      "startQuestion t q g = beginScript ty (open_question t q pq g)"
  by (cases "packQuestion g t q"; cases "cell_in_table g t q") (auto simp: startQuestion_def Let_def)

end
