(* ===== verification/Engine_Final.thy ===== *)
theory Engine_Final
  imports Engine_Start
begin

text \<open>
  The final round (\<open>final.go\<close>): who takes part, the order in which themes are deleted, the last theme.
\<close>

definition final_in :: "(player \<Rightarrow> bool) \<Rightarrow> game \<Rightarrow> game" where
  "final_in test g = upd_players (\<lambda>p. if p_Active p then p\<lparr>p_FinalInGame := test p\<rparr> else p) g"

text \<open>
  Stable sorting by score (\<open>sort.SliceStable\<close>) is \<open>sort_key p_Score\<close>; the groups collect runs of equal
  scores.
\<close>

fun group_runs :: "player list \<Rightarrow> string list list \<Rightarrow> player list \<Rightarrow> string list list" where
  "group_runs prev groups [] = groups"
| "group_runs prev groups (p # ps) =
     (if prev \<noteq> [] \<and> p_Score (last prev) = p_Score p
      then group_runs [p] (butlast groups @ [last groups @ [p_ID p]]) ps
      else group_runs [p] (groups @ [[p_ID p]]) ps)"

definition finalRemainingThemes :: "game \<Rightarrow> nat list" where
  "finalRemainingThemes g =
     map fst (filter (\<lambda>(t, th). \<not> th_Removed th \<and> list_ex avail (th_Questions th))
       (enumerate 0 (st_Table g)))"

definition final_players :: "game \<Rightarrow> player list" where
  "final_players g = sort_key p_Score (filter p_FinalInGame (activePlayers g))"

definition final_offset :: "nat \<Rightarrow> nat \<Rightarrow> nat" where
  "final_offset n themes = (if 0 < n \<and> 1 < themes then (n - (themes - 1) mod n) mod n else 0)"

definition finalBuildOrder :: "game \<Rightarrow> game" where
  "finalBuildOrder g =
     (let ps = final_players g in
      g\<lparr>st_FinalGroups := group_runs [] [] ps,
        st_FinalOffset := final_offset (length ps) (length (finalRemainingThemes g)),
        st_DeleteStep := 0, st_DeleterUsed := Some []\<rparr>)"

definition startFinalRound :: "game \<Rightarrow> flow" where
  "startFinalRound g =
     (let g = final_in (\<lambda>p. 0 < p_Score p) g;
          someone = list_ex p_FinalInGame (activePlayers g);
          g = (if \<not> someone \<and> r_AllowEveryoneToPlayHiddenStakes (st_Rules g)
               then final_in (\<lambda>p. True) g else g)
      in if list_ex p_FinalInGame (activePlayers g) then
           let g = fold (\<lambda>p. setPlayerState (p_ID p) PStatePass)
                     (filter (\<lambda>p. \<not> p_FinalInGame p) (activePlayers g)) g;
               g = emitPlayers g
           in if r_PlayAllQuestionsInFinal (st_Rules g) then (g, JFinalContinue)
              else (finalBuildOrder (emitStage (g\<lparr>st_Stage := StageFinalThemes\<rparr>)), JFinalNextDeleter)
         else (g, JEndRound ''noPlayers''))"

definition finalGroupOf :: "game \<Rightarrow> string \<Rightarrow> nat option" where
  "finalGroupOf g i = find_index (\<lambda>grp. i \<in> set grp) (st_FinalGroups g)"

definition deleter_key :: "nat \<Rightarrow> string \<Rightarrow> string" where
  "deleter_key gi i = show_nat gi @ CHR '':'' # i"

definition deleterUsed :: "game \<Rightarrow> string \<Rightarrow> bool" where
  "deleterUsed g k = (case st_DeleterUsed g of None \<Rightarrow> False | Some m \<Rightarrow> mget m k)"

definition slots :: "string list list \<Rightarrow> nat list" where
  "slots groups = concat (map (\<lambda>(gi, grp). replicate (length grp) gi) (enumerate 0 groups))"

text \<open>The loop over the slots; \<open>tries\<close> counts down from their number.\<close>

fun deleter_loop :: "nat \<Rightarrow> game \<Rightarrow> flow" where
  "deleter_loop 0 g = (g, JFinalDeleteTimeout)"
| "deleter_loop (Suc tries) g =
     (let sl = slots (st_FinalGroups g);
          gi = sl ! ((st_DeleteStep g + st_FinalOffset g) mod length sl);
          members = filter (isActive g) (st_FinalGroups g ! gi);
          cands = filter (\<lambda>i. \<not> deleterUsed g (deleter_key gi i)) members
      in if members = [] then deleter_loop tries (g\<lparr>st_DeleteStep := Suc (st_DeleteStep g)\<rparr>)
         else
           let g = (if cands = [] then
                      g\<lparr>st_DeleterUsed := map_option (fold (\<lambda>i. mdel (deleter_key gi i)) members)
                          (st_DeleterUsed g)\<rparr>
                    else g);
               cands = (if cands = [] then members else cands)
           in case cands of
               [c] \<Rightarrow> (g, JFinalAskDelete c)
             | _ \<Rightarrow> (askSelectPlayer PendingDeleter (st_ShowmanID g) cands g, Ret))"

definition finalNextDeleter :: "game \<Rightarrow> flow" where
  "finalNextDeleter g =
     (if length (finalRemainingThemes g) \<le> 1 then (g, JFinalPlayLastTheme)
      else deleter_loop (length (slots (st_FinalGroups g))) g)"

definition finalAskDelete :: "string \<Rightarrow> game \<Rightarrow> flow" where
  "finalAskDelete i g =
     (let g = g\<lparr>st_Pending := None\<rparr>;
          ask = (\<lambda>g. let dur = tm_ThemeSelectionMs (st_Times g);
                      e = EvAskDeleteTheme i (finalRemainingThemes g) dur;
                      g = g\<lparr>st_DeleteStep := Suc (st_DeleteStep g), st_DeleterID := i\<rparr>
                  in startTimer TimerThemeSelection dur i (ev_oral e (ev_to i e g)))
      in case finalGroupOf g i of
          None \<Rightarrow> (ask g, Ret)
        | Some gi \<Rightarrow> (case st_DeleterUsed g of
              None \<Rightarrow> (g, Crash)
            | Some m \<Rightarrow> (ask (g\<lparr>st_DeleterUsed := Some (mput (deleter_key gi i) True m)\<rparr>), Ret)))"

definition finalDelete :: "nat \<Rightarrow> string \<Rightarrow> game \<Rightarrow> flow" where
  "finalDelete t by_id g =
     (if length (st_Table g) \<le> t then (g, Crash)
      else
        let g = g\<lparr>st_Table := (st_Table g)[t := (st_Table g ! t)\<lparr>th_Removed := True\<rparr>],
                  st_DeleterID := []\<rparr>;
            g = emitTable (ev_all (EvThemeDeleted t by_id) g)
        in (g, JFinalNextDeleter))"

definition finalDeleteTimeout :: "game \<Rightarrow> flow" where
  "finalDeleteTimeout g =
     (let rem = finalRemainingThemes g in
      if length rem \<le> 1 then (g, JFinalPlayLastTheme)
      else (case randomIndex (length rem) g of
          (i, g) \<Rightarrow> if i < length rem then (g, JFinalDelete (rem ! i) (st_DeleterID g)) else (g, Crash)))"

text \<open>Of the last theme only the first available cell is played; its other cells are removed.\<close>

definition keep_first :: "theme_state \<Rightarrow> nat \<Rightarrow> theme_state" where
  "keep_first th first = th\<lparr>th_Questions :=
     map (\<lambda>(q, c). if avail c \<and> q \<noteq> first then c\<lparr>c_Removed := True\<rparr> else c)
       (enumerate 0 (th_Questions th))\<rparr>"

definition finalPlayLastTheme :: "game \<Rightarrow> flow" where
  "finalPlayLastTheme g =
     (case finalRemainingThemes g of
        [] \<Rightarrow> (g, JEndRound ''empty'')
      | t # _ \<Rightarrow> (case find_index avail (th_Questions (st_Table g ! t)) of
            None \<Rightarrow> (g, JEndRound ''empty'')
          | Some first \<Rightarrow>
              let g = g\<lparr>st_Table := (st_Table g)[t := keep_first (st_Table g ! t) first]\<rparr>
              in (ev_all (EvQuestionCaption (th_Name (st_Table g ! t)) 0) g, JStartQuestion t first)))"

definition finalContinue :: "game \<Rightarrow> flow" where
  "finalContinue g =
     (if st_RoundTimedOut g then (g, JEndRound ''timeout'')
      else if r_PlayAllQuestionsInFinal (st_Rules g) then
        (case nextSequentialCell g of
           None \<Rightarrow> (g, JEndRound ''empty'')
         | Some (t, q) \<Rightarrow>
             (ev_all (EvQuestionCaption (th_Name (st_Table g ! t)) 0) g, JStartQuestion t q))
      else if length (finalRemainingThemes g) = 1 then (g, JFinalPlayLastTheme)
      else (g, JEndRound ''empty''))"

lemmas final_defs [flow_defs] =
  startFinalRound_def finalNextDeleter_def finalAskDelete_def finalDelete_def
  finalDeleteTimeout_def finalPlayLastTheme_def finalContinue_def

lemma finalBuildOrder_frame [simp, frame]:
  "st_Stage (finalBuildOrder g) = st_Stage g"
  "st_RoundIndex (finalBuildOrder g) = st_RoundIndex g"
  "st_RoundName (finalBuildOrder g) = st_RoundName g"
  "st_RoundType (finalBuildOrder g) = st_RoundType g" "st_Table (finalBuildOrder g) = st_Table g"
  "st_ChooserID (finalBuildOrder g) = st_ChooserID g"
  "st_Players (finalBuildOrder g) = st_Players g"
  "st_ShowmanID (finalBuildOrder g) = st_ShowmanID g" "st_Rules (finalBuildOrder g) = st_Rules g"
  "st_Times (finalBuildOrder g) = st_Times g" "st_Question (finalBuildOrder g) = st_Question g"
  "st_Pending (finalBuildOrder g) = st_Pending g" "st_Timers (finalBuildOrder g) = st_Timers g"
  "st_Paused (finalBuildOrder g) = st_Paused g" "st_Appeal (finalBuildOrder g) = st_Appeal g"
  "st_RoundTimedOut (finalBuildOrder g) = st_RoundTimedOut g"
  "st_WaitNext (finalBuildOrder g) = st_WaitNext g"
  "st_DeleterID (finalBuildOrder g) = st_DeleterID g"
  "st_Winner (finalBuildOrder g) = st_Winner g"
  "st_QuestionsPlayed (finalBuildOrder g) = st_QuestionsPlayed g"
  "st_Ended (finalBuildOrder g) = st_Ended g" "g_pack (finalBuildOrder g) = g_pack g"
  "g_lib (finalBuildOrder g) = g_lib g" "g_rng (finalBuildOrder g) = g_rng g"
  "g_rngLog (finalBuildOrder g) = g_rngLog g" "g_now (finalBuildOrder g) = g_now g"
  "g_ev (finalBuildOrder g) = g_ev g" "g_timerSeq (finalBuildOrder g) = g_timerSeq g"
  by (simp_all add: finalBuildOrder_def Let_def)

lemma final_in_frame [simp, frame]:
  "st_Stage (final_in t g) = st_Stage g" "st_RoundIndex (final_in t g) = st_RoundIndex g"
  "st_RoundName (final_in t g) = st_RoundName g" "st_RoundType (final_in t g) = st_RoundType g"
  "st_Table (final_in t g) = st_Table g" "st_ChooserID (final_in t g) = st_ChooserID g"
  "st_ShowmanID (final_in t g) = st_ShowmanID g" "st_Rules (final_in t g) = st_Rules g"
  "st_Times (final_in t g) = st_Times g" "st_Question (final_in t g) = st_Question g"
  "st_Pending (final_in t g) = st_Pending g" "st_Timers (final_in t g) = st_Timers g"
  "st_Paused (final_in t g) = st_Paused g" "st_Appeal (final_in t g) = st_Appeal g"
  "st_RoundTimedOut (final_in t g) = st_RoundTimedOut g"
  "st_WaitNext (final_in t g) = st_WaitNext g" "st_FinalGroups (final_in t g) = st_FinalGroups g"
  "st_FinalOffset (final_in t g) = st_FinalOffset g"
  "st_DeleteStep (final_in t g) = st_DeleteStep g" "st_DeleterID (final_in t g) = st_DeleterID g"
  "st_DeleterUsed (final_in t g) = st_DeleterUsed g" "st_Winner (final_in t g) = st_Winner g"
  "st_QuestionsPlayed (final_in t g) = st_QuestionsPlayed g"
  "st_Ended (final_in t g) = st_Ended g" "g_pack (final_in t g) = g_pack g"
  "g_lib (final_in t g) = g_lib g" "g_rng (final_in t g) = g_rng g"
  "g_rngLog (final_in t g) = g_rngLog g" "g_now (final_in t g) = g_now g"
  "g_ev (final_in t g) = g_ev g" "g_timerSeq (final_in t g) = g_timerSeq g"
  by (simp_all add: final_in_def)


end
