(* ===== verification/Engine_Appeals.thy ===== *)
theory Engine_Appeals
  imports Engine_Final
begin

text \<open>
  Appeals (\<open>appeal.go\<close>): a player contests a rejected answer of its own or the accepted answer of
  another player, the connected players and the showman vote, the contested outcome is flipped.
\<close>

subsection \<open>The vote\<close>

definition appealCounts :: "appeal \<Rightarrow> nat \<times> nat" where
  "appealCounts a = (length (filter snd (a_Votes a)), length (filter (\<lambda>v. \<not> snd v) (a_Votes a)))"

definition appealDecided :: "appeal \<Rightarrow> bool" where
  "appealDecided a = (case appealCounts a of (f, ag) \<Rightarrow>
     a_Pending a = [] \<or> a_Total a < f * 2 \<or> a_Total a < ag * 2)"

definition appeal_accepted :: "appeal \<Rightarrow> bool" where
  "appeal_accepted a = (case appealCounts a of (f, ag) \<Rightarrow>
     if ar_Kind (a_Request a) = AppealFor then ag < f else f < ag)"

definition new_appeal :: "game \<Rightarrow> appeal_request \<Rightarrow> appeal" where
  "new_appeal g req =
     (let voters = ids (activePlayers g) @ [st_ShowmanID g];
          votes = (if ar_Kind req = AppealFor then
                     mput (st_ShowmanID g) False (mput (ar_AppellantID req) True [])
                   else
                     mput (ar_AppellantID req) False (mput (ar_AnswererID req) True
                       (mput (st_ShowmanID g) True [])))
      in \<lparr>a_Request = req, a_Voters = voters, a_Votes = votes, a_Total = length voters,
          a_Pending = filter (\<lambda>v. map_of votes v = None) voters\<rparr>)"

subsection \<open>Flipping an outcome\<close>

definition upd_outcome :: "nat \<Rightarrow> (outcome \<Rightarrow> outcome) \<Rightarrow> game \<Rightarrow> game" where
  "upd_outcome i f g = upd_q (\<lambda>q. q\<lparr>q_History := (q_History q)[i := f (q_History q ! i)]\<rparr>) g"

lemma upd_outcome_frame [simp, frame]:
  "st_Stage (upd_outcome i f g) = st_Stage g"
  "st_RoundIndex (upd_outcome i f g) = st_RoundIndex g"
  "st_RoundName (upd_outcome i f g) = st_RoundName g"
  "st_RoundType (upd_outcome i f g) = st_RoundType g" "st_Table (upd_outcome i f g) = st_Table g"
  "st_ChooserID (upd_outcome i f g) = st_ChooserID g"
  "st_Players (upd_outcome i f g) = st_Players g"
  "st_ShowmanID (upd_outcome i f g) = st_ShowmanID g" "st_Rules (upd_outcome i f g) = st_Rules g"
  "st_Times (upd_outcome i f g) = st_Times g" "st_Pending (upd_outcome i f g) = st_Pending g"
  "st_Timers (upd_outcome i f g) = st_Timers g" "st_Paused (upd_outcome i f g) = st_Paused g"
  "st_Appeal (upd_outcome i f g) = st_Appeal g"
  "st_RoundTimedOut (upd_outcome i f g) = st_RoundTimedOut g"
  "st_WaitNext (upd_outcome i f g) = st_WaitNext g"
  "st_FinalGroups (upd_outcome i f g) = st_FinalGroups g"
  "st_FinalOffset (upd_outcome i f g) = st_FinalOffset g"
  "st_DeleteStep (upd_outcome i f g) = st_DeleteStep g"
  "st_DeleterID (upd_outcome i f g) = st_DeleterID g"
  "st_DeleterUsed (upd_outcome i f g) = st_DeleterUsed g"
  "st_Winner (upd_outcome i f g) = st_Winner g"
  "st_QuestionsPlayed (upd_outcome i f g) = st_QuestionsPlayed g"
  "st_Ended (upd_outcome i f g) = st_Ended g" "g_pack (upd_outcome i f g) = g_pack g"
  "g_lib (upd_outcome i f g) = g_lib g" "g_rng (upd_outcome i f g) = g_rng g"
  "g_rngLog (upd_outcome i f g) = g_rngLog g" "g_now (upd_outcome i f g) = g_now g"
  "g_ev (upd_outcome i f g) = g_ev g" "g_timerSeq (upd_outcome i f g) = g_timerSeq g"
  by (simp_all add: upd_outcome_def)


text \<open>One later outcome is taken back when an earlier answer turns out right.\<close>

definition revert_later :: "nat \<Rightarrow> game \<Rightarrow> game" where
  "revert_later i g =
     (case st_Question g of
        None \<Rightarrow> g
      | Some q \<Rightarrow>
          let l = q_History q ! i in
          if o_Reverted l then g
          else
            let g = upd_outcome i (\<lambda>l. l\<lparr>o_Reverted := True\<rparr>) g in
            case player g (o_PersonID l) of
              None \<Rightarrow> g
            | Some lp \<Rightarrow>
                let j = o_PersonID l;
                    g = addScore j (- o_Delta l) ''appeal'' g;
                    g = upd_player j (\<lambda>p. if o_Right l then p\<lparr>p_Right := p_Right p - 1\<rparr>
                          else if \<not> o_Pass l then p\<lparr>p_Wrong := p_Wrong p - 1\<rparr> else p) g
                in setPlayerState j PStateNone g)"

lemma revert_later_frame [simp, frame]:
  "st_Stage (revert_later i g) = st_Stage g" "st_RoundIndex (revert_later i g) = st_RoundIndex g"
  "st_RoundName (revert_later i g) = st_RoundName g"
  "st_RoundType (revert_later i g) = st_RoundType g" "st_Table (revert_later i g) = st_Table g"
  "st_ChooserID (revert_later i g) = st_ChooserID g"
  "st_ShowmanID (revert_later i g) = st_ShowmanID g" "st_Rules (revert_later i g) = st_Rules g"
  "st_Times (revert_later i g) = st_Times g" "st_Pending (revert_later i g) = st_Pending g"
  "st_Timers (revert_later i g) = st_Timers g" "st_Paused (revert_later i g) = st_Paused g"
  "st_Appeal (revert_later i g) = st_Appeal g"
  "st_RoundTimedOut (revert_later i g) = st_RoundTimedOut g"
  "st_WaitNext (revert_later i g) = st_WaitNext g"
  "st_FinalGroups (revert_later i g) = st_FinalGroups g"
  "st_FinalOffset (revert_later i g) = st_FinalOffset g"
  "st_DeleteStep (revert_later i g) = st_DeleteStep g"
  "st_DeleterID (revert_later i g) = st_DeleterID g"
  "st_DeleterUsed (revert_later i g) = st_DeleterUsed g"
  "st_Winner (revert_later i g) = st_Winner g"
  "st_QuestionsPlayed (revert_later i g) = st_QuestionsPlayed g"
  "st_Ended (revert_later i g) = st_Ended g" "g_pack (revert_later i g) = g_pack g"
  "g_lib (revert_later i g) = g_lib g" "g_rng (revert_later i g) = g_rng g"
  "g_rngLog (revert_later i g) = g_rngLog g" "g_now (revert_later i g) = g_now g"
  "g_timerSeq (revert_later i g) = g_timerSeq g"
  by (simp_all add: revert_later_def Let_def split: option.split)


text \<open>
  \<open>appealApply\<close> on an outcome that exists: the game and whether the chooser changed.
\<close>

definition appeal_apply_for :: "appeal \<Rightarrow> question_state \<Rightarrow> player \<Rightarrow> outcome \<Rightarrow> game \<Rightarrow> game" where
  "appeal_apply_for a q p o' g =
     (let priceR = (if q_HiddenAll q then p_Stake p else q_CurPriceRight q);
          delta = scaled priceR (o_Factor o');
          i = p_ID p;
          g = upd_player i (\<lambda>p. p\<lparr>p_Wrong := p_Wrong p - 1, p_Right := p_Right p + 1,
                p_AcceptedAnswers := p_AcceptedAnswers p @ [o_Answer o']\<rparr>) g;
          g = ev_all (EvValidation i (o_Answer o') True (o_Factor o') ''appeal'' []) g;
          g = setPlayerState i PStateRight (addScore i delta ''appeal'' g);
          idx = ar_OutcomeIdx (a_Request a);
          g = (if \<not> q_Hidden q then fold revert_later [Suc idx ..< length (q_History q)] g else g)
      in record_outcome \<lparr>o_PersonID = i, o_Answer = o_Answer o', o_Right = True,
           o_Factor = o_Factor o', o_Delta = delta, o_Pass = False, o_Reverted = False\<rparr> g)"

definition appeal_apply_against :: "question_state \<Rightarrow> player \<Rightarrow> outcome \<Rightarrow> game \<Rightarrow> game" where
  "appeal_apply_against q p o' g =
     (let delta = - scaled (q_CurPriceWrong q) (o_Factor o');
          i = p_ID p;
          g = upd_player i (\<lambda>p. p\<lparr>p_Right := p_Right p - 1, p_Wrong := p_Wrong p + 1,
                p_RejectedAnswers := p_RejectedAnswers p @ [o_Answer o']\<rparr>) g;
          g = ev_all (EvValidation i (o_Answer o') False (o_Factor o') ''appeal'' []) g;
          g = setPlayerState i PStateWrong (addScore i delta ''appeal'' g)
      in record_outcome \<lparr>o_PersonID = i, o_Answer = o_Answer o', o_Right = False,
           o_Factor = o_Factor o', o_Delta = delta, o_Pass = False, o_Reverted = False\<rparr> g)"

definition appealApply :: "appeal \<Rightarrow> question_state \<Rightarrow> game \<Rightarrow> (game \<times> bool) option" where
  "appealApply a q g =
     (let idx = ar_OutcomeIdx (a_Request a) in
      if length (q_History q) \<le> idx then None
      else
        let o' = q_History q ! idx in
        case player g (o_PersonID o') of
          None \<Rightarrow> Some (g, False)
        | Some p \<Rightarrow>
            let g = addScore (p_ID p) (- o_Delta o') ''appeal'' (upd_outcome idx (\<lambda>l. l\<lparr>o_Reverted := True\<rparr>) g);
                isFor = (ar_Kind (a_Request a) = AppealFor);
                g = (if isFor then appeal_apply_for a q p o' g else appeal_apply_against q p o' g)
            in if isFor \<and> r_Mode (st_Rules g) = ModeClassic \<and> \<not> q_Hidden q \<and> st_ChooserID g \<noteq> p_ID p
               then Some (setChooser (p_ID p) ''appeal'' g, True)
               else Some (g, False))"

lemma appeal_apply_for_frame [simp, frame]:
  "st_Stage (appeal_apply_for a q p o' g) = st_Stage g"
  "st_RoundIndex (appeal_apply_for a q p o' g) = st_RoundIndex g"
  "st_RoundName (appeal_apply_for a q p o' g) = st_RoundName g"
  "st_RoundType (appeal_apply_for a q p o' g) = st_RoundType g"
  "st_Table (appeal_apply_for a q p o' g) = st_Table g"
  "st_ChooserID (appeal_apply_for a q p o' g) = st_ChooserID g"
  "st_ShowmanID (appeal_apply_for a q p o' g) = st_ShowmanID g"
  "st_Rules (appeal_apply_for a q p o' g) = st_Rules g"
  "st_Times (appeal_apply_for a q p o' g) = st_Times g"
  "st_Pending (appeal_apply_for a q p o' g) = st_Pending g"
  "st_Timers (appeal_apply_for a q p o' g) = st_Timers g"
  "st_Paused (appeal_apply_for a q p o' g) = st_Paused g"
  "st_Appeal (appeal_apply_for a q p o' g) = st_Appeal g"
  "st_RoundTimedOut (appeal_apply_for a q p o' g) = st_RoundTimedOut g"
  "st_WaitNext (appeal_apply_for a q p o' g) = st_WaitNext g"
  "st_FinalGroups (appeal_apply_for a q p o' g) = st_FinalGroups g"
  "st_FinalOffset (appeal_apply_for a q p o' g) = st_FinalOffset g"
  "st_DeleteStep (appeal_apply_for a q p o' g) = st_DeleteStep g"
  "st_DeleterID (appeal_apply_for a q p o' g) = st_DeleterID g"
  "st_DeleterUsed (appeal_apply_for a q p o' g) = st_DeleterUsed g"
  "st_Winner (appeal_apply_for a q p o' g) = st_Winner g"
  "st_QuestionsPlayed (appeal_apply_for a q p o' g) = st_QuestionsPlayed g"
  "st_Ended (appeal_apply_for a q p o' g) = st_Ended g"
  "g_pack (appeal_apply_for a q p o' g) = g_pack g"
  "g_lib (appeal_apply_for a q p o' g) = g_lib g" "g_rng (appeal_apply_for a q p o' g) = g_rng g"
  "g_rngLog (appeal_apply_for a q p o' g) = g_rngLog g"
  "g_now (appeal_apply_for a q p o' g) = g_now g"
  "g_timerSeq (appeal_apply_for a q p o' g) = g_timerSeq g"
  by (simp_all add: appeal_apply_for_def Let_def fold_frames)

lemma appeal_apply_against_frame [simp, frame]:
  "st_Stage (appeal_apply_against q p o' g) = st_Stage g"
  "st_RoundIndex (appeal_apply_against q p o' g) = st_RoundIndex g"
  "st_RoundName (appeal_apply_against q p o' g) = st_RoundName g"
  "st_RoundType (appeal_apply_against q p o' g) = st_RoundType g"
  "st_Table (appeal_apply_against q p o' g) = st_Table g"
  "st_ChooserID (appeal_apply_against q p o' g) = st_ChooserID g"
  "st_ShowmanID (appeal_apply_against q p o' g) = st_ShowmanID g"
  "st_Rules (appeal_apply_against q p o' g) = st_Rules g"
  "st_Times (appeal_apply_against q p o' g) = st_Times g"
  "st_Pending (appeal_apply_against q p o' g) = st_Pending g"
  "st_Timers (appeal_apply_against q p o' g) = st_Timers g"
  "st_Paused (appeal_apply_against q p o' g) = st_Paused g"
  "st_Appeal (appeal_apply_against q p o' g) = st_Appeal g"
  "st_RoundTimedOut (appeal_apply_against q p o' g) = st_RoundTimedOut g"
  "st_WaitNext (appeal_apply_against q p o' g) = st_WaitNext g"
  "st_FinalGroups (appeal_apply_against q p o' g) = st_FinalGroups g"
  "st_FinalOffset (appeal_apply_against q p o' g) = st_FinalOffset g"
  "st_DeleteStep (appeal_apply_against q p o' g) = st_DeleteStep g"
  "st_DeleterID (appeal_apply_against q p o' g) = st_DeleterID g"
  "st_DeleterUsed (appeal_apply_against q p o' g) = st_DeleterUsed g"
  "st_Winner (appeal_apply_against q p o' g) = st_Winner g"
  "st_QuestionsPlayed (appeal_apply_against q p o' g) = st_QuestionsPlayed g"
  "st_Ended (appeal_apply_against q p o' g) = st_Ended g"
  "g_pack (appeal_apply_against q p o' g) = g_pack g"
  "g_lib (appeal_apply_against q p o' g) = g_lib g"
  "g_rng (appeal_apply_against q p o' g) = g_rng g"
  "g_rngLog (appeal_apply_against q p o' g) = g_rngLog g"
  "g_now (appeal_apply_against q p o' g) = g_now g"
  "g_timerSeq (appeal_apply_against q p o' g) = g_timerSeq g"
  by (simp_all add: appeal_apply_against_def Let_def)


subsection \<open>The course of an appeal\<close>

definition processAppeals :: "game \<Rightarrow> flow" where
  "processAppeals g =
     (case st_Question g of
        None \<Rightarrow> (g, Ret)
      | Some q \<Rightarrow>
          if st_Appeal g \<noteq> None then (g, Ret)
          else (case q_AppealQueue q of
              [] \<Rightarrow> (g, Ret)
            | req # rest \<Rightarrow>
                let g = upd_q (\<lambda>q. q\<lparr>q_AppealQueue := rest\<rparr>) g in
                if length (q_History q) \<le> ar_OutcomeIdx req then (g, Crash)
                else if o_Reverted (q_History q ! ar_OutcomeIdx req) then (g, JProcessAppeals)
                else (g, JAppealStart req)))"

definition appealStart :: "appeal_request \<Rightarrow> game \<Rightarrow> flow" where
  "appealStart req g =
     (case st_Question g of
        None \<Rightarrow> (g, Crash)
      | Some q \<Rightarrow>
          let a = new_appeal g req;
              g = g\<lparr>st_Appeal := Some a\<rparr>;
              g = fold pauseTimer (st_Timers g) g
          in if length (q_History q) \<le> ar_OutcomeIdx req then (g, Crash)
             else
               let answer = o_Answer (q_History q ! ar_OutcomeIdx req);
                   dur = tm_AppellationMs (st_Times g);
                   g = ev_all (EvAppealStart (ar_Kind req) (ar_AppellantID req) (ar_AnswererID req)
                         answer (a_Voters a) dur) g;
                   g = fold (\<lambda>v. ev_to v (EvAskAppealVote (ar_Kind req) (ar_AnswererID req) answer
                         (q_Rights q))) (a_Pending a) g
               in if appealDecided a then (g, JAppealFinish)
                  else
                    let g = startTimer TimerAppellation dur [] g
                    in if st_Paused g then (g, Ret) else (resume_kind TimerAppellation g, Ret))"

text \<open>After the vote the frozen timers go on, or wait for the showman's resume.\<close>

definition thaw :: "game \<Rightarrow> game" where
  "thaw g = fold (\<lambda>t g.
     if t_Frozen t \<and> \<not> st_Paused g then resumeTimer t g
     else if t_Frozen t then upd_timer (t_ID t) (\<lambda>t. t\<lparr>t_Frozen := False\<rparr>) g
     else g) (st_Timers g) g"

lemma thaw_frame [simp, frame]:
  "st_Stage (thaw g) = st_Stage g" "st_RoundIndex (thaw g) = st_RoundIndex g"
  "st_RoundName (thaw g) = st_RoundName g" "st_RoundType (thaw g) = st_RoundType g"
  "st_Table (thaw g) = st_Table g" "st_ChooserID (thaw g) = st_ChooserID g"
  "st_Players (thaw g) = st_Players g" "st_ShowmanID (thaw g) = st_ShowmanID g"
  "st_Rules (thaw g) = st_Rules g" "st_Times (thaw g) = st_Times g"
  "st_Question (thaw g) = st_Question g" "st_Pending (thaw g) = st_Pending g"
  "st_Paused (thaw g) = st_Paused g" "st_Appeal (thaw g) = st_Appeal g"
  "st_RoundTimedOut (thaw g) = st_RoundTimedOut g" "st_WaitNext (thaw g) = st_WaitNext g"
  "st_FinalGroups (thaw g) = st_FinalGroups g" "st_FinalOffset (thaw g) = st_FinalOffset g"
  "st_DeleteStep (thaw g) = st_DeleteStep g" "st_DeleterID (thaw g) = st_DeleterID g"
  "st_DeleterUsed (thaw g) = st_DeleterUsed g" "st_Winner (thaw g) = st_Winner g"
  "st_QuestionsPlayed (thaw g) = st_QuestionsPlayed g" "st_Ended (thaw g) = st_Ended g"
  "g_pack (thaw g) = g_pack g" "g_lib (thaw g) = g_lib g" "g_rng (thaw g) = g_rng g"
  "g_rngLog (thaw g) = g_rngLog g" "g_now (thaw g) = g_now g" "g_timerSeq (thaw g) = g_timerSeq g"
  by (simp_all add: thaw_def fold_frames)


definition appealFinish :: "game \<Rightarrow> flow" where
  "appealFinish g =
     (case st_Appeal g of
        None \<Rightarrow> (g, Ret)
      | Some a \<Rightarrow> (case st_Question g of
            None \<Rightarrow> (g, Crash)
          | Some q \<Rightarrow>
              let g = stopKind TimerAppellation g;
                  accepted = appeal_accepted a
              in case (if accepted then appealApply a q g else Some (g, False)) of
                  None \<Rightarrow> (g, Crash)
                | Some (g, chooserChanged) \<Rightarrow>
                    let g = ev_all (EvAppealResult (ar_Kind (a_Request a)) (ar_AnswererID (a_Request a))
                              accepted (int (fst (appealCounts a))) (int (snd (appealCounts a)))) g;
                        g = emitSums (g\<lparr>st_Appeal := None\<rparr>)
                    in if q_AppealQueue q \<noteq> [] then (g, JProcessAppeals)
                       else
                         let g = thaw g in
                         if st_Stage g = StageQuestion \<and> q_Sub q = SubEnd then (g, JAfterQuestion)
                         else if chooserChanged \<and> st_Stage g = StageSelecting \<and> st_Pending g = None \<and>
                             \<not> sequential g
                         then (askChoose (stopKind TimerQuestionSelection g), Ret)
                         else (g, Ret)))"

lemmas appeal_defs [flow_defs] =
  processAppeals_def appealStart_def appealFinish_def

subsection \<open>Commands\<close>

definition onAppellate :: "command \<Rightarrow> game \<Rightarrow> result" where
  "onAppellate cmd g =
     (case playerActor g (cmd_Actor cmd) of
        Inl e \<Rightarrow> Fail e g
      | Inr p \<Rightarrow>
          if \<not> r_UseAppellations (st_Rules g) then Fail ErrNotAllowed g
          else case st_Question g of
              None \<Rightarrow> Fail ErrBadState g
            | Some q \<Rightarrow>
                let queue = (\<lambda>req g.
                      let g = upd_player (p_ID p) (\<lambda>p. p\<lparr>p_Appeals := p_Appeals p + 1\<rparr>) g;
                          g = upd_q (\<lambda>q. q\<lparr>q_AppealQueue := q_AppealQueue q @ [req]\<rparr>) g
                      in Go g (if q_Sub q = SubEnd \<and> st_Appeal g = None then JProcessAppeals else Ret))
                in if q_History q = [] \<or> st_Stage g = StageLobby \<or> st_Stage g = StageGameEnd
                   then Fail ErrBadState g
                   else if cmd_For cmd then
                     (case find_last (\<lambda>o'. o_PersonID o' = p_ID p \<and> \<not> o_Right o' \<and> \<not> o_Pass o' \<and>
                              \<not> o_Reverted o') (q_History q) of
                        None \<Rightarrow> Fail ErrNotAllowed g
                      | Some idx \<Rightarrow>
                          if p_AppealUsed p then Fail ErrNotAllowed g
                          else queue \<lparr>ar_Kind = AppealFor, ar_AppellantID = p_ID p,
                                 ar_AnswererID = p_ID p, ar_OutcomeIdx = idx\<rparr>
                                 (upd_player (p_ID p) (\<lambda>p. p\<lparr>p_AppealUsed := True\<rparr>) g))
                   else if length (activePlayers g) \<le> 3 \<or> q_Hidden q \<or> q_AgainstUsed q
                   then Fail ErrNotAllowed g
                   else
                     (case find_last (\<lambda>o'. o_Right o' \<and> \<not> o_Reverted o') (q_History q) of
                        None \<Rightarrow> Fail ErrNotAllowed g
                      | Some idx \<Rightarrow>
                          let answerer = o_PersonID (q_History q ! idx) in
                          if answerer = p_ID p then Fail ErrNotAllowed g
                          else queue \<lparr>ar_Kind = AppealAgainst, ar_AppellantID = p_ID p,
                                 ar_AnswererID = answerer, ar_OutcomeIdx = idx\<rparr>
                                 (upd_q (\<lambda>q. q\<lparr>q_AgainstUsed := True\<rparr>) g)))"

definition onVoteAppeal :: "command \<Rightarrow> game \<Rightarrow> result" where
  "onVoteAppeal cmd g =
     (case st_Appeal g of
        None \<Rightarrow> Fail ErrBadState g
      | Some a \<Rightarrow> (case playerActor g (cmd_Actor cmd) of
            Inl e \<Rightarrow> Fail e g
          | Inr p \<Rightarrow> (case find_last (\<lambda>v. v = p_ID p) (a_Pending a) of
                None \<Rightarrow> Fail ErrNotAllowed g
              | Some idx \<Rightarrow>
                  let a = a\<lparr>a_Pending := take idx (a_Pending a) @ drop (Suc idx) (a_Pending a),
                            a_Votes := mput (p_ID p) (cmd_Right cmd) (a_Votes a)\<rparr>;
                      g = ev_all (EvAppealVote (p_ID p) (cmd_Right cmd)) (g\<lparr>st_Appeal := Some a\<rparr>)
                  in Go g (if appealDecided a then JAppealFinish else Ret))))"

end
