(* ===== verification/Engine_Controls.thy ===== *)
theory Engine_Controls
  imports Engine_Appeals
begin

text \<open>
  The commands of the room, the showman and the host (\<open>engine.go\<close>, sections ``timeouts'' and
  ``showman / host controls''; \<open>question.go\<close>, \<open>onMediaCompleted\<close> and \<open>onButtonResult\<close>). A handler
  fails with one of the sentinel errors or ends with a tail call.
\<close>

subsection \<open>Timeouts\<close>

text \<open>A random element; \<open>None\<close> is the index panic on an empty slice.\<close>

definition random_pick :: "'a list \<Rightarrow> game \<Rightarrow> ('a \<times> game) option" where
  "random_pick xs g = (case randomIndex (length xs) g of
     (i, g) \<Rightarrow> if i < length xs then Some (xs ! i, g) else None)"

definition onShowmanDecisionTimeout :: "game \<Rightarrow> flow" where
  "onShowmanDecisionTimeout g =
     (let validation = (case st_Question g of
            None \<Rightarrow> (g, Ret)
          | Some q \<Rightarrow>
              if q_Sub q = SubValidating \<and> q_PendingAnswerID q \<noteq> [] then
                (ev_room (EvValidationTimeout (q_PendingAnswerID q) (q_PendingAnswer q) (q_Rights q)
                   (q_Wrongs q)) g, Ret)
              else (g, Ret))
      in case st_Pending g of
          None \<Rightarrow> validation
        | Some pd \<Rightarrow>
            if pd_Kind pd = PendingSecretTransfer then validation
            else (case random_pick (pd_Candidates pd) g of
                None \<Rightarrow> (g, Crash)
              | Some (i, g) \<Rightarrow> (g, JResolvePending i)))"

definition playerSelectionTimeout :: "game \<Rightarrow> flow" where
  "playerSelectionTimeout g =
     (case st_Pending g of
        None \<Rightarrow> (g, Ret)
      | Some pd \<Rightarrow>
          if pd_Kind pd \<noteq> PendingSecretTransfer then (g, Ret)
          else
            let others = filter (\<lambda>c. c \<noteq> st_ChooserID g) (pd_Candidates pd);
                cands = (if others \<noteq> [] then others else pd_Candidates pd)
            in case random_pick cands g of
                None \<Rightarrow> (g, Crash)
              | Some (i, g) \<Rightarrow> (g, JResolvePending i))"

definition stakeTimeout :: "game \<Rightarrow> flow" where
  "stakeTimeout g =
     (case st_Question g of
        None \<Rightarrow> (g, Ret)
      | Some q \<Rightarrow>
          if st_Stage g \<noteq> StageQuestion then (g, Ret)
          else if q_Sub q = SubPriceSelect then
            (case q_PriceChoices q of [] \<Rightarrow> (g, Crash) | c # _ \<Rightarrow> (g, JSecretAfterPrice c))
          else if q_Sub q = SubStakes then
            (if q_HiddenAll q then hiddenStakesTimeout g
             else case q_Stakes q of
                 None \<Rightarrow> (g, Crash)
               | Some ss \<Rightarrow> (case player g (ss_Current ss) of
                     None \<Rightarrow> (g, Ret)
                   | Some p \<Rightarrow>
                       if stakeModeAllowed ss StakePass then (g, JStakeSetPass (p_ID p))
                       else (g, JStakeApply (p_ID p) StakeNominal (ss_Nominal ss))))
          else (g, Ret))"

definition timer_fired :: "timer_kind \<Rightarrow> game \<Rightarrow> flow" where
  "timer_fired k g =
     (case k of
        TimerRound \<Rightarrow>
          (let g = g\<lparr>st_RoundTimedOut := True\<rparr> in
           (g, if st_Stage g = StageSelecting \<and> st_Pending g = None then JEndRound ''timeout'' else Ret))
      | TimerQuestionSelection \<Rightarrow>
          if st_Stage g = StageSelecting then
            (case randomCell g of
               None \<Rightarrow> (g, Crash)
             | Some ((t, q), g) \<Rightarrow> (g, JStartQuestion t q))
          else (g, Ret)
      | TimerShowmanDecision \<Rightarrow> onShowmanDecisionTimeout g
      | TimerPlayerSelection \<Rightarrow> playerSelectionTimeout g
      | TimerThemeSelection \<Rightarrow> (g, JFinalDeleteTimeout)
      | TimerContent \<Rightarrow> (g, JContentGroupDone)
      | TimerMediaFallback \<Rightarrow> (g, JContentGroupDone)
      | TimerButtonPressing \<Rightarrow> (g, JNobodyAnswered)
      | TimerAnswering \<Rightarrow> answerTimeout g
      | TimerSoloAnswering \<Rightarrow> answerTimeout g
      | TimerHiddenAnswering \<Rightarrow> (g, JHiddenAnsweringDone)
      | TimerStakeMaking \<Rightarrow> stakeTimeout g
      | TimerReflection \<Rightarrow> (g, JEndQuestion)
      | TimerAppellation \<Rightarrow> (g, JAppealFinish))"

definition go_on :: "flow \<Rightarrow> result" where
  "go_on x = (case x of (g, j) \<Rightarrow> Go g j)"

definition onTimeout :: "command \<Rightarrow> game \<Rightarrow> result" where
  "onTimeout cmd g =
     (if \<not> requireSystem (cmd_Actor cmd) then Fail ErrNotAllowed g
      else case findTimer g (cmd_TimerID cmd) of
          None \<Rightarrow> Go g Ret
        | Some t \<Rightarrow>
            if t_Paused t \<or> st_Paused g then Go g Ret
            else go_on (timer_fired (t_Kind t) (removeTimer (t_ID t) g)))"

subsection \<open>The game's course: start, pause, next, move\<close>

definition onStart :: "command \<Rightarrow> game \<Rightarrow> result" where
  "onStart cmd g =
     (if \<not> requireShowman (cmd_Actor cmd) then Fail ErrNotAllowed g
      else if st_Stage g \<noteq> StageLobby then Fail ErrBadState g
      else if activePlayers g = [] then Fail ErrBadState g
      else Go (emitPlayers (ev_all (EvOptions (st_Rules g) (st_Times g)) g)) (JStartRound 0))"

definition onPause :: "command \<Rightarrow> game \<Rightarrow> result" where
  "onPause cmd g =
     (if \<not> requireShowman (cmd_Actor cmd) then Fail ErrNotAllowed g
      else if st_Stage g = StageLobby \<or> st_Stage g = StageGameEnd then Fail ErrBadState g
      else if cmd_On cmd = st_Paused g then Go g Ret
      else
        let g = ev_all (EvPause (cmd_On cmd)) (g\<lparr>st_Paused := cmd_On cmd\<rparr>)
        in Go (if cmd_On cmd then pauseAllTimers g else resumeAllTimers g) Ret)"

definition onNext :: "command \<Rightarrow> game \<Rightarrow> result" where
  "onNext cmd g =
     (if \<not> requireShowman (cmd_Actor cmd) then Fail ErrNotAllowed g
      else if st_Stage g = StageRoundIntro then Go g JEnterRound
      else if st_Stage g = StageRoundEnd then
        Go (g\<lparr>st_WaitNext := False\<rparr>) (JStartRound (st_RoundIndex g + 1))
      else if st_Stage g = StageQuestion then
        (case st_Question g of
           None \<Rightarrow> Go g Crash
         | Some q \<Rightarrow>
             if q_Sub q = SubContent \<and> (q_WaitNext q \<or> timerOfKind g TimerContent \<noteq> None \<or>
                  timerOfKind g TimerMediaFallback \<noteq> None \<or> q_AwaitingMediaIDs q)
             then Go (upd_q (\<lambda>q. q\<lparr>q_AwaitingMediaIDs := False\<rparr>)
                    (stopKind TimerMediaFallback (stopKind TimerContent g))) JContentGroupDone
             else if q_Sub q = SubReveal then Go (stopKind TimerReflection g) JEndQuestion
             else if q_Sub q = SubAnswering \<and> \<not> q_Known q then Go g JShowAnswer
             else if q_Sub q = SubEnd \<and> q_WaitNext q then
               Go (upd_q (\<lambda>q. q\<lparr>q_WaitNext := False\<rparr>) g) JAfterQuestion
             else Fail ErrBadState g)
      else Fail ErrBadState g)"

definition abortQuestionToAnswer :: "game \<Rightarrow> flow" where
  "abortQuestionToAnswer g = (disarm ((stopAllExcept [TimerRound] g)\<lparr>st_Pending := None\<rparr>), JShowAnswer)"

text \<open>The score of one outcome of the question is taken back.\<close>

definition undo_outcome :: "outcome \<Rightarrow> game \<Rightarrow> game" where
  "undo_outcome o' g =
     (if o_Reverted o' then g
      else if player g (o_PersonID o') \<noteq> None \<and> o_Delta o' \<noteq> 0 then
        addScore (o_PersonID o') (- o_Delta o') ''correction'' g
      else g)"

lemma undo_outcome_frame [simp, frame]:
  "st_Stage (undo_outcome o' g) = st_Stage g"
  "st_RoundIndex (undo_outcome o' g) = st_RoundIndex g"
  "st_RoundName (undo_outcome o' g) = st_RoundName g"
  "st_RoundType (undo_outcome o' g) = st_RoundType g" "st_Table (undo_outcome o' g) = st_Table g"
  "st_ChooserID (undo_outcome o' g) = st_ChooserID g"
  "st_ShowmanID (undo_outcome o' g) = st_ShowmanID g" "st_Rules (undo_outcome o' g) = st_Rules g"
  "st_Times (undo_outcome o' g) = st_Times g" "st_Question (undo_outcome o' g) = st_Question g"
  "st_Pending (undo_outcome o' g) = st_Pending g" "st_Timers (undo_outcome o' g) = st_Timers g"
  "st_Paused (undo_outcome o' g) = st_Paused g" "st_Appeal (undo_outcome o' g) = st_Appeal g"
  "st_RoundTimedOut (undo_outcome o' g) = st_RoundTimedOut g"
  "st_WaitNext (undo_outcome o' g) = st_WaitNext g"
  "st_FinalGroups (undo_outcome o' g) = st_FinalGroups g"
  "st_FinalOffset (undo_outcome o' g) = st_FinalOffset g"
  "st_DeleteStep (undo_outcome o' g) = st_DeleteStep g"
  "st_DeleterID (undo_outcome o' g) = st_DeleterID g"
  "st_DeleterUsed (undo_outcome o' g) = st_DeleterUsed g"
  "st_Winner (undo_outcome o' g) = st_Winner g"
  "st_QuestionsPlayed (undo_outcome o' g) = st_QuestionsPlayed g"
  "st_Ended (undo_outcome o' g) = st_Ended g" "g_pack (undo_outcome o' g) = g_pack g"
  "g_lib (undo_outcome o' g) = g_lib g" "g_rng (undo_outcome o' g) = g_rng g"
  "g_rngLog (undo_outcome o' g) = g_rngLog g" "g_now (undo_outcome o' g) = g_now g"
  "g_timerSeq (undo_outcome o' g) = g_timerSeq g"
  by (simp_all add: undo_outcome_def)


definition returnQuestionToTable :: "game \<Rightarrow> flow" where
  "returnQuestionToTable g =
     (case st_Question g of
        None \<Rightarrow> (g, Crash)
      | Some q \<Rightarrow>
          let g = disarm ((stopAllExcept [TimerRound] g)\<lparr>st_Pending := None\<rparr>);
              g = fold undo_outcome (rev (q_History q)) g
          in if \<not> cell_in_table g (q_ThemeIndex q) (q_QuestionIndex q) then (g, Crash)
             else
               let g = upd_cell (q_ThemeIndex q) (q_QuestionIndex q) (\<lambda>c. c\<lparr>c_Played := False\<rparr>) g;
                   g = ev_all (EvQuestionEnd (q_ThemeIndex q) (q_QuestionIndex q)) g;
                   g = g\<lparr>st_Question := None\<rparr>;
                   g = upd_players (\<lambda>p. resetPlayerQuestion (p\<lparr>p_CanPress := False, p_State := PStateNone\<rparr>)) g;
                   g = emitSums (emitTable g)
               in if st_RoundType g = RoundFinal then (g, JFinalContinue) else (g, JBeginSelection False))"

definition move_forward :: "game \<Rightarrow> result" where
  "move_forward g =
     (case st_Stage g of
        StageRoundIntro \<Rightarrow> Go g JEnterRound
      | StageRoundEnd \<Rightarrow> Go (g\<lparr>st_WaitNext := False\<rparr>) (JStartRound (st_RoundIndex g + 1))
      | StageQuestion \<Rightarrow> (case st_Question g of
            None \<Rightarrow> Go g Crash
          | Some q \<Rightarrow>
              if q_Sub q = SubReveal then Go (stopKind TimerReflection g) JEndQuestion
              else if q_Sub q = SubEnd then Go (upd_q (\<lambda>q. q\<lparr>q_WaitNext := False\<rparr>) g) JAfterQuestion
              else go_on (abortQuestionToAnswer g))
      | _ \<Rightarrow> Fail ErrBadState g)"

definition onMove :: "command \<Rightarrow> game \<Rightarrow> result" where
  "onMove cmd g =
     (if \<not> requireShowman (cmd_Actor cmd) then Fail ErrNotAllowed g
      else if st_Stage g = StageLobby then Fail ErrBadState g
      else if cmd_Dir cmd = 1 then move_forward g
      else if cmd_Dir cmd = - 1 then
        (if st_Stage g \<noteq> StageQuestion then Fail ErrBadState g
         else case st_Question g of
             None \<Rightarrow> Go g Crash
           | Some q \<Rightarrow>
               if q_Sub q = SubEnd then Fail ErrBadState g else go_on (returnQuestionToTable g))
      else if cmd_Dir cmd = 2 then Go g (JEndRound ''manual'')
      else if cmd_Dir cmd = - 2 then Go (stopAllExcept [] g) (JStartRound (st_RoundIndex g - 1))
      else if cmd_Dir cmd = 3 then
        (if cmd_Round cmd < 0 \<or> int (length (pk_Rounds (g_pack g))) \<le> cmd_Round cmd
         then Fail ErrBadArgument g
         else Go (stopAllExcept [] g) (JStartRound (cmd_Round cmd)))
      else Fail ErrBadArgument g)"

subsection \<open>Table, scores, chooser, options\<close>

text \<open>The indices of a command that lie inside the table.\<close>

definition cmd_cell :: "command \<Rightarrow> game \<Rightarrow> (nat \<times> nat) option" where
  "cmd_cell cmd g =
     (if cmd_Theme cmd < 0 \<or> cmd_Q cmd < 0 \<or> \<not> cell_in_table g (nat (cmd_Theme cmd)) (nat (cmd_Q cmd))
      then None else Some (nat (cmd_Theme cmd), nat (cmd_Q cmd)))"

definition table_cell :: "game \<Rightarrow> nat \<Rightarrow> nat \<Rightarrow> cell_state" where
  "table_cell g t q = th_Questions (st_Table g ! t) ! q"

definition toggled :: "cell_state \<Rightarrow> cell_state" where
  "toggled c = (if c_Removed c \<or> c_Played c then c\<lparr>c_Removed := False, c_Played := False\<rparr>
                else c\<lparr>c_Removed := True\<rparr>)"

definition onToggle :: "command \<Rightarrow> game \<Rightarrow> result" where
  "onToggle cmd g =
     (if \<not> requireShowman (cmd_Actor cmd) then Fail ErrNotAllowed g
      else if st_Stage g = StageLobby \<or> st_Stage g = StageGameEnd then Fail ErrBadState g
      else case cmd_cell cmd g of
          None \<Rightarrow> Fail ErrBadArgument g
        | Some (t, q) \<Rightarrow>
            let c = table_cell g t q in
            if c_Price c < 0 then Fail ErrBadArgument g
            else if st_Stage g = StageQuestion \<and>
                map_option (\<lambda>s. (q_ThemeIndex s, q_QuestionIndex s)) (st_Question g) = Some (t, q)
            then Fail ErrBadState g
            else
              let g = upd_cell t q toggled g;
                  g = emitTable (ev_all (EvToggle t q (\<not> c_Removed (toggled c))) g)
              in if st_Stage g = StageSelecting \<and> st_Pending g = None \<and> \<not> hasPlayableCells g
                 then Go g (JEndRound ''empty'')
                 else Go g Ret)"

definition onChangeScore :: "command \<Rightarrow> game \<Rightarrow> result" where
  "onChangeScore cmd g =
     (if \<not> requireShowman (cmd_Actor cmd) then Fail ErrNotAllowed g
      else case player g (cmd_PersonID cmd) of
          None \<Rightarrow> Fail ErrBadArgument g
        | Some p \<Rightarrow>
            Go (emitSums (addScore (p_ID p) (cmd_NewSum cmd - p_Score p) ''correction'' g)) Ret)"

definition onSetChooser :: "command \<Rightarrow> game \<Rightarrow> result" where
  "onSetChooser cmd g =
     (if \<not> requireShowman (cmd_Actor cmd) then Fail ErrNotAllowed g
      else if \<not> isActive g (cmd_PersonID cmd) then Fail ErrBadArgument g
      else if st_Stage g = StageLobby \<or> st_Stage g = StageGameEnd then Fail ErrBadState g
      else
        let g = setChooser (cmd_PersonID cmd) ''showman'' g in
        if st_Stage g = StageSelecting \<and> map_option pd_Kind (st_Pending g) = Some PendingChooser then
          Go (askChoose (stopKind TimerShowmanDecision (g\<lparr>st_Pending := None\<rparr>))) Ret
        else if st_Stage g = StageSelecting \<and> st_Pending g = None \<and> \<not> sequential g then
          Go (askChoose (stopKind TimerQuestionSelection g)) Ret
        else Go g Ret)"

definition patched :: "'a option \<Rightarrow> 'a \<Rightarrow> 'a" where
  "patched x old = (case x of None \<Rightarrow> old | Some v \<Rightarrow> v)"

text \<open>
  \<open>onSetOptions\<close> writes the options one by one; a negative reading speed is refused after the first
  four were written.
\<close>

definition patch_before_speed :: "rules_patch \<Rightarrow> rules \<Rightarrow> rules" where
  "patch_before_speed o' r = r\<lparr>
     r_Oral := patched (rp_Oral o') (r_Oral r),
     r_Managed := patched (rp_Managed o') (r_Managed r),
     r_DisplayAnswerOptionsLabels :=
       patched (rp_DisplayAnswerOptionsLabels o') (r_DisplayAnswerOptionsLabels r),
     r_FalseStart := patched (rp_FalseStart o') (r_FalseStart r)\<rparr>"

definition patch_from_speed :: "rules_patch \<Rightarrow> rules \<Rightarrow> rules" where
  "patch_from_speed o' r = r\<lparr>
     r_ReadingSpeed := patched (rp_ReadingSpeed o') (r_ReadingSpeed r),
     r_PartialText := patched (rp_PartialText o') (r_PartialText r),
     r_UseAppellations := patched (rp_UseAppellations o') (r_UseAppellations r)\<rparr>"

definition patch_times :: "rules_patch \<Rightarrow> time_settings \<Rightarrow> time_settings" where
  "patch_times o' t = t\<lparr>
     tm_ButtonBlockingMs := patched (rp_ButtonBlockingMs o') (tm_ButtonBlockingMs t),
     tm_PartialImageMs := patched (rp_PartialImageMs o') (tm_PartialImageMs t)\<rparr>"

definition onSetOptions :: "command \<Rightarrow> game \<Rightarrow> result" where
  "onSetOptions cmd g =
     (if \<not> requireShowman (cmd_Actor cmd) then Fail ErrNotAllowed g
      else case cmd_Options cmd of
          None \<Rightarrow> Fail ErrBadArgument g
        | Some o' \<Rightarrow>
            let g = g\<lparr>st_Rules := patch_before_speed o' (st_Rules g)\<rparr> in
            if (case rp_ReadingSpeed o' of None \<Rightarrow> False | Some v \<Rightarrow> v < 0) then Fail ErrBadArgument g
            else
              let g = g\<lparr>st_Rules := patch_from_speed o' (st_Rules g), st_Times := patch_times o' (st_Times g)\<rparr>
              in Go (ev_all (EvOptions (st_Rules g) (st_Times g)) g) Ret)"

subsection \<open>Players come and go\<close>

text \<open>A player the game waits for is gone: phases that only wait for it are completed.\<close>

definition playerGone :: "string \<Rightarrow> game \<Rightarrow> flow" where
  "playerGone i g =
     (case st_Question g of
        None \<Rightarrow> (g, Ret)
      | Some q \<Rightarrow>
          if st_Stage g \<noteq> StageQuestion then (g, Ret)
          else if q_Sub q = SubHiddenAnswering then
            (if allHiddenAnswered g q then (stopKind TimerHiddenAnswering g, JHiddenAnsweringDone)
             else (g, Ret))
          else if q_Sub q = SubStakes then
            (if q_HiddenAll q then
               (if allHiddenStakesMade g q then (stopKind TimerStakeMaking g, JHiddenStakesDone)
                else (g, Ret))
             else case q_Stakes q of
                 None \<Rightarrow> (g, Ret)
               | Some ss \<Rightarrow>
                   if mget (ss_Active ss) i \<and> ss_Leader ss \<noteq> i then (g, JStakeSetPass i) else (g, Ret))
          else if q_Sub q = SubContent then
            (if q_AwaitingMediaIDs q \<and> allMediaDone g then
               (upd_q (\<lambda>q. q\<lparr>q_AwaitingMediaIDs := False\<rparr>) (stopKind TimerMediaFallback g),
                JContentGroupDone)
             else (g, Ret))
          else (g, Ret))"

definition onKick :: "command \<Rightarrow> game \<Rightarrow> result" where
  "onKick cmd g =
     (if \<not> ac_IsHost (cmd_Actor cmd) \<and> ac_Role (cmd_Actor cmd) \<noteq> RoleSystem then Fail ErrNotAllowed g
      else case player g (cmd_PersonID cmd) of
          None \<Rightarrow> Fail ErrBadArgument g
        | Some p \<Rightarrow>
            if p_Kicked p then Fail ErrBadArgument g
            else if cmd_PersonID cmd = ac_PersonID (cmd_Actor cmd) then Fail ErrNotAllowed g
            else go_on (playerGone (p_ID p) (emitPlayers
                   (upd_player (p_ID p) (\<lambda>p. p\<lparr>p_Kicked := True, p_Connected := False\<rparr>) g))))"

definition onPlayerLeft :: "command \<Rightarrow> game \<Rightarrow> result" where
  "onPlayerLeft cmd g =
     (if \<not> requireSystem (cmd_Actor cmd) then Fail ErrNotAllowed g
      else case player g (cmd_PersonID cmd) of
          None \<Rightarrow> Fail ErrBadArgument g
        | Some p \<Rightarrow>
            if \<not> p_Connected p then Go g Ret
            else go_on (playerGone (p_ID p) (emitPlayers
                   (upd_player (p_ID p) (\<lambda>p. p\<lparr>p_Connected := False\<rparr>) g))))"

definition MaxPlayers :: nat where
  "MaxPlayers = 12"

definition onPlayerJoined :: "command \<Rightarrow> game \<Rightarrow> result" where
  "onPlayerJoined cmd g =
     (if \<not> requireSystem (cmd_Actor cmd) then Fail ErrNotAllowed g
      else case player g (cmd_PersonID cmd) of
          Some p \<Rightarrow>
            if p_Kicked p then Fail ErrNotAllowed g
            else Go (emitPlayers (upd_player (p_ID p) (\<lambda>p. p\<lparr>p_Connected := True,
                   p_Name := (if cmd_Name cmd \<noteq> [] then cmd_Name cmd else p_Name p)\<rparr>) g)) Ret
        | None \<Rightarrow>
            if cmd_PersonID cmd = [] \<or> cmd_PersonID cmd = st_ShowmanID g then Fail ErrBadArgument g
            else if MaxPlayers \<le> length (filter (\<lambda>p. \<not> p_Kicked p) (st_Players g)) then Fail ErrBadState g
            else Go (emitSums (emitPlayers
                   (g\<lparr>st_Players := st_Players g @ [new_player (cmd_PersonID cmd) (cmd_Name cmd)]\<rparr>))) Ret)"

definition onPlayerReady :: "command \<Rightarrow> game \<Rightarrow> result" where
  "onPlayerReady cmd g =
     (case playerActor g (cmd_Actor cmd) of
        Inl e \<Rightarrow> Fail e g
      | Inr p \<Rightarrow> Go (emitPlayers (upd_player (p_ID p) (\<lambda>p. p\<lparr>p_Ready := \<not> p_Ready p\<rparr>) g)) Ret)"

definition onAISuggestion :: "command \<Rightarrow> game \<Rightarrow> result" where
  "onAISuggestion cmd g =
     (if ac_Role (cmd_Actor cmd) \<noteq> RoleSystem then Fail ErrNotAllowed g
      else Go (ev_showman (EvAISuggestion (cmd_PersonID cmd) (cmd_Right cmd)
             (if cmd_Factor cmd = 0 then 1 else cmd_Factor cmd) (cmd_Reason cmd)) g) Ret)"

subsection \<open>The room's reports: media and button\<close>

definition onMediaCompleted :: "command \<Rightarrow> game \<Rightarrow> result" where
  "onMediaCompleted cmd g =
     (case st_Question g of
        None \<Rightarrow> Go g Ret
      | Some q \<Rightarrow>
          if st_Stage g \<noteq> StageQuestion \<or> q_Sub q \<noteq> SubContent \<or> \<not> q_AwaitingMediaIDs q \<or> st_Paused g
          then Go g Ret
          else if ac_Role (cmd_Actor cmd) = RoleSystem \<and> cmd_PersonID cmd = [] then
            Go (stopKind TimerMediaFallback g) JContentGroupDone
          else
            let i = (if cmd_PersonID cmd = [] then ac_PersonID (cmd_Actor cmd) else cmd_PersonID cmd)
            in case player g i of
                None \<Rightarrow> Go g Ret
              | Some p \<Rightarrow>
                  let g = upd_player (p_ID p) (\<lambda>p. p\<lparr>p_MediaDone := True\<rparr>) g
                  in if allMediaDone g then Go (stopKind TimerMediaFallback g) JContentGroupDone
                     else Go g Ret)"

definition onButtonResult :: "command \<Rightarrow> game \<Rightarrow> result" where
  "onButtonResult cmd g =
     (if \<not> requireSystem (cmd_Actor cmd) then Fail ErrNotAllowed g
      else case st_Question g of
          None \<Rightarrow> Go g Ret
        | Some q \<Rightarrow>
            if st_Stage g \<noteq> StageQuestion \<or> \<not> q_Button q \<or> \<not> q_Armed q \<or> st_Paused g then Go g Ret
            else if cmd_Nobody cmd then
              (if q_Sub q = SubButtonWait then Go (stopKind TimerButtonPressing g) JNobodyAnswered
               else Go g Ret)
            else (case player g (cmd_WinnerID cmd) of
                None \<Rightarrow> Fail ErrBadArgument g
              | Some p \<Rightarrow>
                  if \<not> p_Active p \<or> \<not> p_CanPress p then Fail ErrBadArgument g
                  else
                    let g = upd_q (\<lambda>q. q\<lparr>q_Armed := False\<rparr>) g;
                        g = upd_player (p_ID p) (\<lambda>p. p\<lparr>p_CanPress := False\<rparr>) g;
                        g = (if q_Sub q = SubContent then
                               ev_all (EvContentState ''paused'')
                                 (pause_kind TimerMediaFallback (pause_kind TimerContent g))
                             else if q_Sub q = SubButtonWait then
                               (case timerOfKind g TimerButtonPressing of
                                  None \<Rightarrow> g
                                | Some t \<Rightarrow> upd_q (\<lambda>q. q\<lparr>q_ThinkingRemain := remaining (g_now g) t\<rparr>)
                                              (pauseTimer t g))
                             else g)
                    in Go (askAnswer (p_ID p) TimerAnswering (tm_AnsweringMs (st_Times g)) q g) Ret))"

end
