(* ===== verification/Engine_Play.thy ===== *)
theory Engine_Play
  imports Engine_Controls
begin

text \<open>
  The commands of the players and the showman's verdicts: choosing a cell or a player, passing,
  answering, validating, bidding, deleting a theme. They are refused while the game is paused.
\<close>

subsection \<open>Choosing\<close>

definition onSelectPlayer :: "command \<Rightarrow> game \<Rightarrow> result" where
  "onSelectPlayer cmd g =
     (case st_Pending g of
        None \<Rightarrow> Fail ErrBadState g
      | Some pd \<Rightarrow>
          if (if pd_Kind pd = PendingSecretTransfer then
                \<not> (ac_PersonID (cmd_Actor cmd) = pd_DeciderID pd \<or>
                   ac_Role (cmd_Actor cmd) = RoleShowman \<and> r_Oral (st_Rules g))
              else ac_Role (cmd_Actor cmd) \<noteq> RoleShowman)
          then Fail ErrNotAllowed g
          else if cmd_PersonID cmd \<notin> set (pd_Candidates pd) then Fail ErrBadArgument g
          else Go g (JResolvePending (cmd_PersonID cmd)))"

definition onChooseQuestion :: "command \<Rightarrow> game \<Rightarrow> result" where
  "onChooseQuestion cmd g =
     (if st_Stage g \<noteq> StageSelecting \<or> st_Pending g \<noteq> None then Fail ErrBadState g
      else if sequential g then Fail ErrBadState g
      else if \<not> (ac_PersonID (cmd_Actor cmd) = st_ChooserID g \<and> ac_Role (cmd_Actor cmd) = RolePlayer) \<and>
          \<not> (ac_Role (cmd_Actor cmd) = RoleShowman \<and> r_Oral (st_Rules g))
      then Fail ErrNotAllowed g
      else case cmd_cell cmd g of
          None \<Rightarrow> Fail ErrBadArgument g
        | Some (t, q) \<Rightarrow>
            if \<not> avail (table_cell g t q) \<or> th_Removed (st_Table g ! t) then Fail ErrBadArgument g
            else Go (stopKind TimerQuestionSelection g) (JStartQuestion t q))"

subsection \<open>Passing\<close>

definition pass_bid :: "command \<Rightarrow> stake_state \<Rightarrow> game \<Rightarrow> result" where
  "pass_bid cmd ss g =
     (case actingPlayer g cmd (ss_Current ss) of
        Inl e \<Rightarrow> Fail e g
      | Inr p \<Rightarrow>
          if \<not> mget (ss_Active ss) (p_ID p) then Fail ErrBadState g
          else if ss_Leader ss = p_ID p then Fail ErrNotAllowed g
          else if ss_Current ss = p_ID p \<and> ss_Stake ss = 0 then Fail ErrNotAllowed g
          else Go g (JStakeSetPass (p_ID p)))"

definition pass_button :: "command \<Rightarrow> question_state \<Rightarrow> game \<Rightarrow> result" where
  "pass_button cmd q g =
     (case playerActor g (cmd_Actor cmd) of
        Inl e \<Rightarrow> Fail e g
      | Inr p \<Rightarrow>
          if \<not> q_Button q \<or> \<not> (q_Sub q = SubContent \<or> q_Sub q = SubButtonWait) \<or> \<not> p_CanPress p
          then Fail ErrBadState g
          else
            let g = upd_player (p_ID p) (\<lambda>p. p\<lparr>p_CanPress := False\<rparr>) g;
                g = setPlayerState (p_ID p) PStatePass (ev_all (EvPass (p_ID p)) g)
            in if \<not> anyCanPress g then
                 (if q_Sub q = SubButtonWait then Go (stopKind TimerButtonPressing g) JNobodyAnswered
                  else Go (disarm g) Ret)
               else if q_Armed q then
                 Go (ev_room (EvButtonArmRequest (q_ID q) (eligibleIDs g) (q_ThinkingRemain q) True) g) Ret
               else Go g Ret)"

definition onPass :: "command \<Rightarrow> game \<Rightarrow> result" where
  "onPass cmd g =
     (case st_Question g of
        None \<Rightarrow> Fail ErrBadState g
      | Some q \<Rightarrow>
          if st_Stage g \<noteq> StageQuestion then Fail ErrBadState g
          else (case q_Stakes q of
              Some ss \<Rightarrow> if q_Sub q = SubStakes then pass_bid cmd ss g else pass_button cmd q g
            | None \<Rightarrow> pass_button cmd q g))"

subsection \<open>Answering\<close>

definition onAnswerDraft :: "command \<Rightarrow> game \<Rightarrow> result" where
  "onAnswerDraft cmd g =
     (case playerActor g (cmd_Actor cmd) of
        Inl e \<Rightarrow> Fail e g
      | Inr p \<Rightarrow> (case st_Question g of
            None \<Rightarrow> Fail ErrBadState g
          | Some q \<Rightarrow>
              if st_Stage g \<noteq> StageQuestion \<or> \<not> (q_Sub q = SubAnswering \<or> q_Sub q = SubHiddenAnswering)
              then Fail ErrBadState g
              else Go (ev_showman (EvAnswerDraft (p_ID p) (cmd_Text cmd)) g) Ret))"

definition answer_open :: "command \<Rightarrow> question_state \<Rightarrow> game \<Rightarrow> result" where
  "answer_open cmd q g =
     (if \<not> q_Known q then Fail ErrBadState g
      else case actingPlayer g cmd (q_AnswererID q) of
          Inl e \<Rightarrow> Fail e g
        | Inr p \<Rightarrow>
            if p_ID p \<noteq> q_AnswererID q then Fail ErrNotAllowed g
            else if q_PendingAnswerID q \<noteq> [] then
              Go (ev_all (EvPlayerAnswer (p_ID p) (answerFromCmd cmd))
                   (upd_player (p_ID p) (\<lambda>p. p\<lparr>p_Answer := answerFromCmd cmd\<rparr>) g)) Ret
            else go_on (processSingleAnswer (p_ID p) (answerFromCmd cmd)
                   (stopKind TimerSoloAnswering (stopKind TimerAnswering g))))"

definition answer_hidden :: "command \<Rightarrow> question_state \<Rightarrow> game \<Rightarrow> result" where
  "answer_hidden cmd q g =
     (case actingPlayer g cmd [] of
        Inl e \<Rightarrow> Fail e g
      | Inr p \<Rightarrow>
          if \<not> isAnswerer q (p_ID p) \<or> \<not> p_InGame p then Fail ErrNotAllowed g
          else if p_Answered p then Fail ErrBadState g
          else
            let av = answerFromCmd cmd;
                i = p_ID p;
                g = upd_player i (\<lambda>p. p\<lparr>p_Answered := True, p_Answer := av\<rparr>) g;
                g = ev_showman (EvPlayerAnswer i av) (setPlayerState i PStateHasAnswered g);
                g = (if q_AnswerType q = AnswerText then
                       ev_showman (EvAskValidate \<lparr>vl_PersonID = i, vl_Answer = answerText g av,
                         vl_Rights = q_Rights q, vl_Wrongs = q_Wrongs q, vl_AllowFactor = True,
                         vl_Oral = False, vl_AutoAfterMs = 0, vl_Preview = True\<rparr>) g
                     else g)
            in if allHiddenAnswered g q then Go (stopKind TimerHiddenAnswering g) JHiddenAnsweringDone
               else Go g Ret)"

definition onAnswer :: "command \<Rightarrow> game \<Rightarrow> result" where
  "onAnswer cmd g =
     (case st_Question g of
        None \<Rightarrow> Fail ErrBadState g
      | Some q \<Rightarrow>
          if st_Stage g \<noteq> StageQuestion then Fail ErrBadState g
          else if q_Sub q = SubAnswering then answer_open cmd q g
          else if q_Sub q = SubHiddenAnswering then answer_hidden cmd q g
          else Fail ErrBadState g)"

subsection \<open>Validating\<close>

text \<open>A factor of 0 in the command means 1 unless \<open>FactorZero\<close> is set.\<close>

definition cmd_factor :: "command \<Rightarrow> f64" where
  "cmd_factor cmd = (if cmd_FactorZero cmd then 0 else if cmd_Factor cmd = 0 then 1 else cmd_Factor cmd)"

definition validate_hidden :: "command \<Rightarrow> f64 \<Rightarrow> string \<Rightarrow> question_state \<Rightarrow> game \<Rightarrow> result" where
  "validate_hidden cmd factor source q g =
     (let i = cmd_PersonID cmd in
      if q_Sub q \<in> {SubHiddenAnswering, SubStakes, SubContent} then
        (if player g i = None \<or> \<not> isAnswerer q i then Fail ErrBadArgument g
         else Go (upd_q (\<lambda>q. q\<lparr>q_PreVerdicts := mput i \<lparr>v_right = cmd_Right cmd, v_factor = factor\<rparr>
                    (q_PreVerdicts q)\<rparr>) g) Ret)
      else if q_Sub q \<noteq> SubValidating \<or> (i \<noteq> [] \<and> i \<noteq> q_PendingAnswerID q) then Fail ErrBadState g
      else
        let g = stopKind TimerShowmanDecision g in
        case player g (q_PendingAnswerID q) of
          None \<Rightarrow> Go g Crash
        | Some p \<Rightarrow> Go (hiddenScore p (q_PendingAnswer q) (cmd_Right cmd) factor source q g) JHiddenRevealNext)"

definition validate_open :: "command \<Rightarrow> f64 \<Rightarrow> string \<Rightarrow> question_state \<Rightarrow> game \<Rightarrow> result" where
  "validate_open cmd factor source q g =
     (let i = cmd_PersonID cmd in
      if q_PendingAnswerID q = [] \<or> \<not> (q_Sub q = SubValidating \<or> q_Sub q = SubAnswering)
      then Fail ErrBadState g
      else if i \<noteq> [] \<and> i \<noteq> q_PendingAnswerID q then Fail ErrBadArgument g
      else
        let g = stopKind TimerSoloAnswering (stopKind TimerAnswering (stopKind TimerShowmanDecision g)) in
        case player g (q_PendingAnswerID q) of
          None \<Rightarrow> Go g Crash
        | Some p \<Rightarrow> Go g (JApplyVerdict (p_ID p) (q_PendingAnswer q) (cmd_Right cmd) factor source))"

definition onValidate :: "command \<Rightarrow> game \<Rightarrow> result" where
  "onValidate cmd g =
     (if ac_Role (cmd_Actor cmd) \<noteq> RoleShowman \<and> ac_Role (cmd_Actor cmd) \<noteq> RoleSystem
      then Fail ErrNotAllowed g
      else case st_Question g of
          None \<Rightarrow> Fail ErrBadState g
        | Some q \<Rightarrow>
            if st_Stage g \<noteq> StageQuestion then Fail ErrBadState g
            else if cmd_factor cmd < 0 then Fail ErrBadArgument g
            else
              let factor = cmd_factor cmd;
                  source = (if cmd_Source cmd = [] then ''showman'' else cmd_Source cmd)
              in if \<not> q_Known q \<and> q_Sub q = SubAnswering then
                   (case player g (cmd_PersonID cmd) of
                      None \<Rightarrow> Fail ErrBadArgument g
                    | Some p \<Rightarrow> Go (applyOutcome (p_ID p) (cmd_Text cmd) (cmd_Right cmd) factor source
                                  (q_CurPriceRight q) (q_CurPriceWrong q) g) Ret)
                 else if q_Hidden q then validate_hidden cmd factor source q g
                 else validate_open cmd factor source q g)"

subsection \<open>Bidding\<close>

definition hiddenSetStake :: "command \<Rightarrow> question_state \<Rightarrow> game \<Rightarrow> result" where
  "hiddenSetStake cmd q g =
     (case actingPlayer g cmd [] of
        Inl e \<Rightarrow> Fail e g
      | Inr p \<Rightarrow>
          if \<not> p_InGame p \<or> \<not> isAnswerer q (p_ID p) then Fail ErrNotAllowed g
          else if p_StakeMade p then Fail ErrBadState g
          else if cmd_StakeMode cmd \<notin> {StakeAllIn, StakeStake, StakeUnset} then Fail ErrBadArgument g
          else
            let amount = (if cmd_StakeMode cmd = StakeAllIn then p_Score p else cmd_Amount cmd);
                maxS = (if p_Score p < 1 then 1 else p_Score p)
            in if amount < 1 \<or> maxS < amount then Fail ErrBadArgument g
               else
                 let g = hiddenStakeSet (p_ID p) amount g in
                 if allHiddenStakesMade g q then Go (stopKind TimerStakeMaking g) JHiddenStakesDone
                 else Go g Ret)"

text \<open>The price choices of a secret question: nominal is the first, all-in the last.\<close>

definition price_select :: "command \<Rightarrow> question_state \<Rightarrow> game \<Rightarrow> result" where
  "price_select cmd q g =
     (case actingPlayer g cmd (q_AnswererID q) of
        Inl e \<Rightarrow> Fail e g
      | Inr p \<Rightarrow>
          if p_ID p \<noteq> q_AnswererID q then Fail ErrNotAllowed g
          else if cmd_StakeMode cmd \<notin> {StakeNominal, StakeAllIn, StakeStake, StakeUnset}
          then Fail ErrBadArgument g
          else if cmd_StakeMode cmd \<in> {StakeNominal, StakeAllIn} \<and> q_PriceChoices q = [] then Go g Crash
          else
            let amount = (if cmd_StakeMode cmd = StakeNominal then hd (q_PriceChoices q)
                          else if cmd_StakeMode cmd = StakeAllIn then last (q_PriceChoices q)
                          else cmd_Amount cmd)
            in if amount \<notin> set (q_PriceChoices q) then Fail ErrBadArgument g
               else Go (stopKind TimerStakeMaking g) (JSecretAfterPrice amount))"

definition bad_bid :: "stake_state \<Rightarrow> int \<Rightarrow> bool" where
  "bad_bid ss a \<longleftrightarrow> a < ss_Min ss \<or> ss_Max ss < a \<or>
     (go_mod (int64 (a - ss_Min ss)) (ss_Step ss) \<noteq> 0 \<and> a \<noteq> ss_Max ss)"

definition set_bid :: "command \<Rightarrow> stake_state \<Rightarrow> game \<Rightarrow> result" where
  "set_bid cmd ss g =
     (case actingPlayer g cmd (ss_Current ss) of
        Inl e \<Rightarrow> Fail e g
      | Inr p \<Rightarrow>
          if p_ID p \<noteq> ss_Current ss then Fail ErrNotAllowed g
          else if \<not> stakeModeAllowed ss (cmd_StakeMode cmd) then Fail ErrBadArgument g
          else if cmd_StakeMode cmd = StakePass then Go g (JStakeSetPass (p_ID p))
          else if cmd_StakeMode cmd = StakeStake \<and> ss_Step ss = 0 then Go g Crash
          else if cmd_StakeMode cmd = StakeStake \<and> bad_bid ss (cmd_Amount cmd) then Fail ErrBadArgument g
          else Go g (JStakeApply (p_ID p) (cmd_StakeMode cmd) (cmd_Amount cmd)))"

definition onSetStake :: "command \<Rightarrow> game \<Rightarrow> result" where
  "onSetStake cmd g =
     (case st_Question g of
        None \<Rightarrow> Fail ErrBadState g
      | Some q \<Rightarrow>
          if st_Stage g \<noteq> StageQuestion then Fail ErrBadState g
          else if q_Sub q = SubPriceSelect then price_select cmd q g
          else if q_Sub q = SubStakes then
            (if q_HiddenAll q then hiddenSetStake cmd q g
             else (case q_Stakes q of None \<Rightarrow> Go g Crash | Some ss \<Rightarrow> set_bid cmd ss g))
          else Fail ErrBadState g)"

subsection \<open>Deleting a theme of the final\<close>

definition onDeleteTheme :: "command \<Rightarrow> game \<Rightarrow> result" where
  "onDeleteTheme cmd g =
     (if st_Stage g \<noteq> StageFinalThemes \<or> st_DeleterID g = [] \<or> st_Pending g \<noteq> None then Fail ErrBadState g
      else case actingPlayer g cmd (st_DeleterID g) of
          Inl e \<Rightarrow> Fail e g
        | Inr p \<Rightarrow>
            if p_ID p \<noteq> st_DeleterID g then Fail ErrNotAllowed g
            else if cmd_Theme cmd < 0 \<or> nat (cmd_Theme cmd) \<notin> set (finalRemainingThemes g)
            then Fail ErrBadArgument g
            else Go (stopKind TimerThemeSelection g) (JFinalDelete (nat (cmd_Theme cmd)) (p_ID p)))"

end
