(* ===== verification/Engine_Machine.thy ===== *)
theory Engine_Machine
  imports Engine_Play
begin

text \<open>
  The engine as a machine (\<open>engine.go\<close>, \<open>New\<close>, \<open>Apply\<close>, \<open>dispatch\<close>). \<open>step\<close> makes one tail call,
  \<open>run\<close> follows the calls until the code returns to \<open>Apply\<close> or panics. \<open>run\<close> is a partial function:
  \<open>None\<close> would be a command that never returns.
\<close>

definition step :: "jump \<Rightarrow> game \<Rightarrow> flow" where
  "step j g = (case j of
       Ret \<Rightarrow> (g, Ret)
     | Crash \<Rightarrow> (g, Crash)
     | Spin \<Rightarrow> (g, Spin)
     | JStartRound i \<Rightarrow> startRound i g
     | JEnterRound \<Rightarrow> enterRound g
     | JBeginSelection s \<Rightarrow> beginSelection s g
     | JEndRound r \<Rightarrow> endRound r g
     | JStartQuestion t q \<Rightarrow> startQuestion t q g
     | JPlayContent \<Rightarrow> playContent g
     | JShowGroup \<Rightarrow> showGroup g
     | JContentGroupDone \<Rightarrow> contentGroupDone g
     | JContentFinished \<Rightarrow> contentFinished g
     | JNobodyAnswered \<Rightarrow> nobodyAnswered g
     | JRearm \<Rightarrow> rearm g
     | JShowAnswer \<Rightarrow> showAnswer g
     | JEndQuestion \<Rightarrow> endQuestion g
     | JAfterQuestion \<Rightarrow> afterQuestion g
     | JApplyVerdict i a r f s \<Rightarrow> applyVerdict i a r f s g
     | JSecretRecipientChosen i \<Rightarrow> secretRecipientChosen i g
     | JSecretPriceSelect \<Rightarrow> secretPriceSelect g
     | JSecretAfterPrice p \<Rightarrow> secretAfterPrice p g
     | JHiddenStakesDone \<Rightarrow> hiddenStakesDone g
     | JHiddenAnsweringBegin \<Rightarrow> hiddenAnsweringBegin g
     | JHiddenAnsweringDone \<Rightarrow> hiddenAnsweringDone g
     | JHiddenRevealNext \<Rightarrow> hiddenRevealNext g
     | JStakeAskBid i \<Rightarrow> stakeAskBid i g
     | JStakeApply i m a \<Rightarrow> stakeApply i m a g
     | JStakeSetPass i \<Rightarrow> stakeSetPass i g
     | JStakeAdvance \<Rightarrow> stakeAdvance g
     | JStakeWinner i \<Rightarrow> stakeWinner i g
     | JStartFinalRound \<Rightarrow> startFinalRound g
     | JFinalContinue \<Rightarrow> finalContinue g
     | JFinalNextDeleter \<Rightarrow> finalNextDeleter g
     | JFinalDeleteTimeout \<Rightarrow> finalDeleteTimeout g
     | JFinalDelete t i \<Rightarrow> finalDelete t i g
     | JFinalPlayLastTheme \<Rightarrow> finalPlayLastTheme g
     | JFinalAskDelete i \<Rightarrow> finalAskDelete i g
     | JProcessAppeals \<Rightarrow> processAppeals g
     | JAppealStart r \<Rightarrow> appealStart r g
     | JAppealFinish \<Rightarrow> appealFinish g
     | JResolvePending i \<Rightarrow> resolvePending i g)"

datatype halt = Halted game | Panicked game

partial_function (option) run :: "jump \<Rightarrow> game \<Rightarrow> halt option" where
  "run j g =
     (if j = Ret then Some (Halted g)
      else if j = Crash then Some (Panicked g)
      else run (snd (step j g)) (fst (step j g)))"

declare run.simps [code]

text \<open>The same with fuel, for evaluation: enough fuel gives the result of \<open>run\<close>.\<close>

fun run_fuel :: "nat \<Rightarrow> jump \<Rightarrow> game \<Rightarrow> halt option" where
  "run_fuel 0 j g = None"
| "run_fuel (Suc n) j g =
     (if j = Ret then Some (Halted g)
      else if j = Crash then Some (Panicked g)
      else case step j g of (g', j') \<Rightarrow> run_fuel n j' g')"

lemma run_Ret [simp]: "run Ret g = Some (Halted g)"
  by (subst run.simps) simp

lemma run_Crash [simp]: "run Crash g = Some (Panicked g)"
  by (subst run.simps) simp

text \<open>A loop that never ends keeps the command from returning.\<close>

lemma step_Spin [simp]: "step Spin g = (g, Spin)"
  by (simp add: step_def)

lemma run_Spin [simp]: "run Spin g = None"
proof -
  have "run j g = Some h \<Longrightarrow> j \<noteq> Spin" for j g h
  proof (rule run.raw_induct [where P = "\<lambda>j g h. j \<noteq> Spin"])
    fix f j g h
    assume IH: "\<And>j g h. f j g = Some h \<Longrightarrow> j \<noteq> Spin"
      and eq: "(if j = Ret then Some (Halted g) else if j = Crash then Some (Panicked g)
        else f (snd (step j g)) (fst (step j g))) = Some h"
    show "j \<noteq> Spin"
    proof
      assume "j = Spin"
      with eq have "f Spin g = Some h" by simp
      from IH [OF this] show False by simp
    qed
  qed
  then show ?thesis by (cases "run Spin g") auto
qed

lemma run_step: "j \<noteq> Ret \<Longrightarrow> j \<noteq> Crash \<Longrightarrow> run j g = run (snd (step j g)) (fst (step j g))"
  by (subst run.simps) simp

lemma run_fuel_run: "run_fuel n j g = Some h \<Longrightarrow> run j g = Some h"
proof (induction n arbitrary: j g)
  case (Suc n)
  then show ?case
    by (cases "step j g") (auto simp: run_step split: if_splits)
qed simp

subsection \<open>Dispatch\<close>

definition dispatch :: "command \<Rightarrow> game \<Rightarrow> result" where
  "dispatch cmd g =
     (if st_Ended g \<and> cmd_Type cmd \<noteq> CmdPlayerLeft \<and> cmd_Type cmd \<noteq> CmdPlayerJoined
      then Fail ErrBadState g
      else
        let unpaused = (\<lambda>h. if st_Paused g then Fail ErrBadState g else h cmd g) in
        case cmd_Type cmd of
          CmdTimeout \<Rightarrow> onTimeout cmd g
        | CmdButtonResult \<Rightarrow> onButtonResult cmd g
        | CmdMediaCompleted \<Rightarrow> onMediaCompleted cmd g
        | CmdMediaLoaded \<Rightarrow> Go g Ret
        | CmdPlayerLeft \<Rightarrow> onPlayerLeft cmd g
        | CmdPlayerJoined \<Rightarrow> onPlayerJoined cmd g
        | CmdAISuggestion \<Rightarrow> onAISuggestion cmd g
        | CmdStart \<Rightarrow> onStart cmd g
        | CmdPlayerReady \<Rightarrow> onPlayerReady cmd g
        | CmdShowmanPause \<Rightarrow> onPause cmd g
        | CmdMove \<Rightarrow> onMove cmd g
        | CmdToggle \<Rightarrow> onToggle cmd g
        | CmdChangeScore \<Rightarrow> onChangeScore cmd g
        | CmdSetChooser \<Rightarrow> onSetChooser cmd g
        | CmdSetOptions \<Rightarrow> onSetOptions cmd g
        | CmdKickPlayer \<Rightarrow> onKick cmd g
        | CmdNext \<Rightarrow> onNext cmd g
        | CmdChooseQuestion \<Rightarrow> unpaused onChooseQuestion
        | CmdPass \<Rightarrow> unpaused onPass
        | CmdAnswer \<Rightarrow> unpaused onAnswer
        | CmdAnswerDraft \<Rightarrow> unpaused onAnswerDraft
        | CmdValidate \<Rightarrow> unpaused onValidate
        | CmdSelectPlayer \<Rightarrow> unpaused onSelectPlayer
        | CmdSetStake \<Rightarrow> unpaused onSetStake
        | CmdDeleteTheme \<Rightarrow> unpaused onDeleteTheme
        | CmdAppellate \<Rightarrow> unpaused onAppellate
        | CmdVoteAppeal \<Rightarrow> unpaused onVoteAppeal
        | CmdOther s \<Rightarrow> unpaused (\<lambda>cmd. Fail ErrBadArgument))"

text \<open>
  \<open>Apply\<close> returns the events and the game, or an error and the game, or panics. Whoever sends the
  next command sees the game of the outcome.
\<close>

datatype applied = Events "(audience \<times> event) list" game | Error engine_error game | Panic game

definition begin_cmd :: "command \<Rightarrow> game \<Rightarrow> game" where
  "begin_cmd cmd g = g\<lparr>g_ev := [], g_now := cmd_AtMs cmd\<rparr>"

definition finish :: "halt \<Rightarrow> applied" where
  "finish h = (case h of
     Halted g \<Rightarrow> Events (g_ev g) (g\<lparr>g_ev := []\<rparr>)
   | Panicked g \<Rightarrow> Panic g)"

definition Apply :: "command \<Rightarrow> game \<Rightarrow> applied option" where
  "Apply cmd g =
     (case dispatch cmd (begin_cmd cmd g) of
        Fail e g \<Rightarrow> Some (Error e (g\<lparr>g_ev := []\<rparr>))
      | Go g j \<Rightarrow> map_option finish (run j g))"

subsection \<open>New games\<close>

definition default_rules :: "rules \<Rightarrow> rules" where
  "default_rules r = r\<lparr>
     r_Mode := (if r_Mode r = ModeUnset then ModeClassic else r_Mode r),
     r_ForYourselfFactor := (if r_ForYourselfFactor r \<le> 0 then 2 else r_ForYourselfFactor r),
     r_ButtonPenalty := (if r_ButtonPenalty r = PenaltyUnset then PenaltySubtract else r_ButtonPenalty r),
     r_ForYourselfPenalty :=
       (if r_ForYourselfPenalty r = PenaltyUnset then PenaltyNone else r_ForYourselfPenalty r),
     r_ForAllPenalty := (if r_ForAllPenalty r = PenaltyUnset then PenaltySubtract else r_ForAllPenalty r)\<rparr>"

text \<open>The loop over the player list: distinct, non-empty identifiers, none the showman's.\<close>

fun seat :: "string \<Rightarrow> player list \<Rightarrow> player_init list \<Rightarrow> player list option" where
  "seat showman seated [] = Some seated"
| "seat showman seated (p # ps) =
     (if pi_ID p = [] \<or> pi_ID p \<in> set (map p_ID seated) \<or> pi_ID p = showman then None
      else seat showman (seated @ [new_player (pi_ID p) (pi_Name p)]) ps)"

definition new_state :: "rules \<Rightarrow> time_settings \<Rightarrow> player list \<Rightarrow> string \<Rightarrow> game_state" where
  "new_state rules tms players showmanID = \<lparr>
     st_Stage = StageLobby, st_RoundIndex = - 1, st_RoundName = [], st_RoundType = RoundUnset,
     st_Table = [], st_ChooserID = [], st_Players = players, st_ShowmanID = showmanID,
     st_Rules = rules, st_Times = tms, st_Question = None, st_Pending = None, st_Timers = [],
     st_Paused = False, st_Appeal = None, st_RoundTimedOut = False, st_WaitNext = False,
     st_FinalGroups = [], st_FinalOffset = 0, st_DeleteStep = 0, st_DeleterID = [],
     st_DeleterUsed = None, st_Winner = [], st_QuestionsPlayed = 0, st_Ended = False\<rparr>"

text \<open>\<open>rng\<close> is the generator made from the seed, \<open>lib\<close> the library functions.\<close>

definition New :: "golib \<Rightarrow> (nat list \<Rightarrow> nat \<Rightarrow> nat) \<Rightarrow> pack option \<Rightarrow> rules \<Rightarrow> time_settings \<Rightarrow>
    player_init list \<Rightarrow> string \<Rightarrow> engine_error + game" where
  "New lib rng pack rules tms players showmanID =
     (case pack of
        None \<Rightarrow> Inl ErrBadArgument
      | Some pk \<Rightarrow>
          if pk_Rounds pk = [] then Inl ErrBadArgument
          else if players = [] \<or> MaxPlayers < length players then Inl ErrBadArgument
          else if showmanID = [] then Inl ErrBadArgument
          else
            let rules' = default_rules rules in
            if r_Mode rules' \<notin> {ModeClassic, ModeSimple, ModeQuiz, ModeTurnTaking} then Inl ErrBadArgument
            else (case seat showmanID [] players of
                None \<Rightarrow> Inl ErrBadArgument
              | Some ps \<Rightarrow> Inr (game_state.extend (new_state rules' tms ps showmanID)
                  \<lparr>g_pack = pk, g_lib = lib, g_rng = rng, g_rngLog = [], g_now = 0, g_ev = [],
                   g_timerSeq = 0\<rparr>)))"

end
