(* ===== verification/Engine_Invariants.thy ===== *)
theory Engine_Invariants
  imports Engine_Machine
begin

text \<open>
  Invariants of the machine. A predicate on games that every handler and every tail call keeps
  holds in every state the server can reach; the locales state what has to be shown once, and the
  components interpret them.
\<close>

subsection \<open>The game in a result\<close>

primrec result_game :: "result \<Rightarrow> game" where
  "result_game (Fail e g) = g"
| "result_game (Go g j) = g"

primrec halt_game :: "halt \<Rightarrow> game" where
  "halt_game (Halted g) = g"
| "halt_game (Panicked g) = g"

primrec applied_game :: "applied \<Rightarrow> game" where
  "applied_game (Events ev g) = g"
| "applied_game (Error e g) = g"
| "applied_game (Panic g) = g"

lemma result_game_go_on [simp]: "result_game (go_on x) = fst x"
  by (cases x) (simp add: go_on_def)

lemma finish_game: "applied_game (finish h) = halt_game h \<or> applied_game (finish h) = (halt_game h)\<lparr>g_ev := []\<rparr>"
  by (cases h) (simp_all add: finish_def)

lemma finish_simps [simp]:
  "finish h = Error e g \<longleftrightarrow> False"
  "finish h = Panic g \<longleftrightarrow> h = Panicked g"
  "finish h = Events ev g \<longleftrightarrow> (\<exists>k. h = Halted k \<and> ev = g_ev k \<and> g = k\<lparr>g_ev := []\<rparr>)"
  by (cases h; auto simp: finish_def)+

lemma Apply_EventsE:
  assumes "Apply cmd g = Some (Events ev g')"
  obtains h j k where "dispatch cmd (begin_cmd cmd g) = Go h j" "run j h = Some (Halted k)"
    "ev = g_ev k" "g' = k\<lparr>g_ev := []\<rparr>"
  using assms by (auto simp: Apply_def split: result.splits)

text \<open>A predicate kept by every handler is kept by \<open>dispatch\<close>.\<close>

definition handlers :: "(command \<Rightarrow> game \<Rightarrow> result) list" where
  "handlers = [onTimeout, onButtonResult, onMediaCompleted, onPlayerLeft, onPlayerJoined,
     onAISuggestion, onStart, onPlayerReady, onPause, onMove, onToggle, onChangeScore, onSetChooser,
     onSetOptions, onKick, onNext, onChooseQuestion, onPass, onAnswer, onAnswerDraft, onValidate,
     onSelectPlayer, onSetStake, onDeleteTheme, onAppellate, onVoteAppeal]"

lemma result_dispatch:
  assumes "I g" and "list_all (\<lambda>h. I (result_game (h cmd g))) handlers"
  shows "I (result_game (dispatch cmd g))"
  using assms
  by (cases "cmd_Type cmd") (simp_all add: dispatch_def handlers_def)

lemma stage_case_if:
  "(case s of StageLobby \<Rightarrow> a | StageRoundIntro \<Rightarrow> b | StageSelecting \<Rightarrow> c | StageQuestion \<Rightarrow> d
     | StageRoundEnd \<Rightarrow> e | StageFinalThemes \<Rightarrow> f | StageGameEnd \<Rightarrow> h) =
   (if s = StageLobby then a else if s = StageRoundIntro then b else if s = StageSelecting then c
    else if s = StageQuestion then d else if s = StageRoundEnd then e
    else if s = StageFinalThemes then f else h)"
  by (cases s) simp_all

lemma pending_case_if:
  "(case k of PendingChooser \<Rightarrow> a | PendingStaker \<Rightarrow> b | PendingDeleter \<Rightarrow> c | PendingSecretTransfer \<Rightarrow> d) =
   (if k = PendingChooser then a else if k = PendingStaker then b else if k = PendingDeleter then c else d)"
  by (cases k) simp_all

subsection \<open>Walking through a handler\<close>

text \<open>
  A predicate that the operations keep is pushed through the branches of a handler or of a tail
  call, and through its bindings: a bound game is only remembered to have the predicate, any other
  bound value is inserted. \<open>walk\<close> holds the rules, to be used with \<open>intro\<close>.
\<close>

locale game_predicate =
  fixes P :: "game \<Rightarrow> bool"
begin

lemma walk_result:
  "P g \<Longrightarrow> P (result_game (Fail e g))"
  "P g \<Longrightarrow> P (result_game (Go g j))"
  "P (fst x) \<Longrightarrow> P (result_game (go_on x))"
  "P (result_game r) \<Longrightarrow> P (result_game r') \<Longrightarrow> P (result_game (if b then r else r'))"
  "P (result_game r) \<Longrightarrow> (\<And>v. P (result_game (f v))) \<Longrightarrow> P (result_game (case_option r f m))"
  "(\<And>v. P (result_game (fl v))) \<Longrightarrow> (\<And>v. P (result_game (fr v))) \<Longrightarrow> P (result_game (case_sum fl fr s))"
  by (auto split: option.split sum.split)

lemma walk_flow:
  "P g \<Longrightarrow> P (fst (g, j))"
  "P (fst r) \<Longrightarrow> P (fst r') \<Longrightarrow> P (fst (if b then r else r'))"
  "P (fst r) \<Longrightarrow> (\<And>v. P (fst (f v))) \<Longrightarrow> P (fst (case_option r f m))"
  "P (fst r) \<Longrightarrow> (\<And>v w. P (fst (fp v w))) \<Longrightarrow> P (fst (case_list r fp xs))"
  by (auto split: option.split list.split)

lemma walk_tuple: "P (fst (ft a b)) \<Longrightarrow> P (fst (case_prod ft (a, b)))"
  by simp

lemma walk_pair:
  "(\<And>v w. P (result_game (fp v w))) \<Longrightarrow> P (result_game (case_prod fp pr))"
  "(\<And>v w. P (fst (fp' v w))) \<Longrightarrow> P (fst (case_prod fp' pr))"
  by (auto split: prod.split)

text \<open>Operations that return a value beside the game, or no game at all.\<close>

definition second_ok :: "('a \<times> game) \<Rightarrow> bool" where
  "second_ok pr \<longleftrightarrow> P (snd pr)"

definition some_second_ok :: "('a \<times> game) option \<Rightarrow> bool" where
  "some_second_ok m \<longleftrightarrow> pred_option (\<lambda>pr. P (snd pr)) m"

definition some_first_ok :: "(game \<times> 'a) option \<Rightarrow> bool" where
  "some_first_ok m \<longleftrightarrow> pred_option (\<lambda>pr. P (fst pr)) m"

definition either_ok :: "game + game \<Rightarrow> bool" where
  "either_ok s \<longleftrightarrow> (case s of Inl g \<Rightarrow> P g | Inr g \<Rightarrow> P g)"

lemma walk_beside:
  "second_ok pr \<Longrightarrow> (\<And>v g. P g \<Longrightarrow> P (fst (f v g))) \<Longrightarrow> P (fst (case_prod f pr))"
  "some_second_ok m \<Longrightarrow> P (fst r) \<Longrightarrow> (\<And>v g. P g \<Longrightarrow> P (fst (f v g))) \<Longrightarrow>
     P (fst (case_option r (case_prod f) m))"
  "some_second_ok m' \<Longrightarrow> P (fst r) \<Longrightarrow> (\<And>t q g. P g \<Longrightarrow> P (fst (f3 t q g))) \<Longrightarrow>
     P (fst (case_option r (case_prod (case_prod f3)) m'))"
  "some_first_ok m'' \<Longrightarrow> P (fst r) \<Longrightarrow> (\<And>g v. P g \<Longrightarrow> P (fst (h g v))) \<Longrightarrow>
     P (fst (case_option r (case_prod h) m''))"
  "either_ok s \<Longrightarrow> (\<And>g. P g \<Longrightarrow> P (fst (fl g))) \<Longrightarrow> (\<And>g. P g \<Longrightarrow> P (fst (fr g))) \<Longrightarrow>
     P (fst (case_sum fl fr s))"
  by (auto simp: second_ok_def some_second_ok_def some_first_ok_def either_ok_def pred_option_def
      split: option.split sum.splits prod.split)

lemma walk_beside_intros:
  "second_ok pr \<Longrightarrow> second_ok pr' \<Longrightarrow> second_ok (if b then pr else pr')"
  "P g \<Longrightarrow> second_ok (x, g)"
  "some_second_ok None"
  "P g \<Longrightarrow> some_second_ok (Some (x, g))"
  "some_second_ok m \<Longrightarrow> some_second_ok m' \<Longrightarrow> some_second_ok (if b then m else m')"
  "second_ok pr \<Longrightarrow> (\<And>v g. P g \<Longrightarrow> some_second_ok (f v g)) \<Longrightarrow> some_second_ok (case_prod f pr)"
  "some_first_ok None"
  "P g \<Longrightarrow> some_first_ok (Some (g, y))"
  "some_first_ok n \<Longrightarrow> some_first_ok n' \<Longrightarrow> some_first_ok (if b then n else n')"
  "some_first_ok n \<Longrightarrow> (\<And>p. some_first_ok (k p)) \<Longrightarrow> some_first_ok (case_option n k mp)"
  "P e \<Longrightarrow> (\<And>g. P g \<Longrightarrow> some_first_ok (l g)) \<Longrightarrow> some_first_ok (Let e l)"
  "P g \<Longrightarrow> either_ok (Inl g)"
  "P g \<Longrightarrow> either_ok (Inr g)"
  "either_ok s \<Longrightarrow> either_ok s' \<Longrightarrow> either_ok (if b then s else s')"
  "either_ok s \<Longrightarrow> (\<And>w. either_ok (m3 w)) \<Longrightarrow> either_ok (case_option s m3 mw)"
  "P e \<Longrightarrow> (\<And>g. P g \<Longrightarrow> either_ok (l2 g)) \<Longrightarrow> either_ok (Let e l2)"
  by (auto simp: second_ok_def some_second_ok_def some_first_ok_def either_ok_def Let_def
      split: option.split prod.split)

lemma walk_let_beside:
  fixes e :: 'v
  shows
  "some_second_ok (x e) \<Longrightarrow> some_second_ok (Let e x)"
  "some_first_ok (y e) \<Longrightarrow> some_first_ok (Let e y)"
  "either_ok (z e) \<Longrightarrow> either_ok (Let e z)"
  by simp_all

lemma walk_game:
  "P g \<Longrightarrow> P g' \<Longrightarrow> P (if b then g else g')"
  "P g \<Longrightarrow> (\<And>v. P (f v)) \<Longrightarrow> P (case_option g f m)"
  "(\<And>x g. P g \<Longrightarrow> P (h x g)) \<Longrightarrow> P g \<Longrightarrow> P (fold h xs g)"
proof -
  show "(\<And>x g. P g \<Longrightarrow> P (h x g)) \<Longrightarrow> P g \<Longrightarrow> P (fold h xs g)"
    by (induction xs arbitrary: g) auto
qed (auto split: option.split)

lemma walk_let_game:
  "P e \<Longrightarrow> (\<And>g. P g \<Longrightarrow> P (result_game (r g))) \<Longrightarrow> P (result_game (Let e r))"
  "P e \<Longrightarrow> (\<And>g. P g \<Longrightarrow> P (fst (x g))) \<Longrightarrow> P (fst (Let e x))"
  "P e \<Longrightarrow> (\<And>g. P g \<Longrightarrow> P (h g)) \<Longrightarrow> P (Let e h)"
  by (simp_all add: Let_def)

lemma walk_let:
  "P (result_game (r e)) \<Longrightarrow> P (result_game (Let e r))"
  "P (fst (x e)) \<Longrightarrow> P (fst (Let e x))"
  "P (h e) \<Longrightarrow> P (Let e h)"
  by (simp_all add: Let_def)

lemmas walk_pairs =
  walk_pair [where 'a = nat and 'b = nat] walk_pair [where 'a = int and 'b = int]
  walk_pair [where 'a = "stake_mode list" and 'b = "int \<times> int"]

lemmas walk_lets =
  walk_let_beside [where 'v = nat] walk_let_beside [where 'v = bool] walk_let_beside [where 'v = outcome]
  walk_let_beside [where 'v = "'b list"] walk_let_beside [where 'v = answer_view] walk_let_beside [where 'v = int]
  walk_let [where 'a = int] walk_let [where 'a = nat] walk_let [where 'a = bool]
  walk_let [where 'a = "'b list"] walk_let [where 'a = "'b option"] walk_let [where 'a = "'b \<times> 'c"]
  walk_let [where 'a = "'b \<Rightarrow> 'c"] walk_let [where 'a = event] walk_let [where 'a = outcome]
  walk_let [where 'a = answer_view] walk_let [where 'a = content_group] walk_let [where 'a = timer_kind]
  walk_let [where 'a = cell_state] walk_let [where 'a = appeal] walk_let [where 'a = stake_state]
  walk_let [where 'a = pack_round] walk_let [where 'a = question_state] walk_let [where 'a = rat]

lemmas walk = walk_tuple walk_result walk_flow walk_game walk_let_game walk_lets walk_pairs walk_beside
  walk_beside_intros

end

subsection \<open>Reachable games\<close>

text \<open>After a panic the room is closed, so no command follows one.\<close>

inductive reachable :: "game \<Rightarrow> bool" where
  start: "New lib rng pack rules tms players showmanID = Inr g \<Longrightarrow> reachable g"
| returned: "reachable g \<Longrightarrow> Apply cmd g = Some (Events ev g') \<Longrightarrow> reachable g'"
| refused: "reachable g \<Longrightarrow> Apply cmd g = Some (Error e g') \<Longrightarrow> reachable g'"

inductive_cases reachableE: "reachable g"

text \<open>The games that commands lead to from a game.\<close>

inductive leads_to :: "game \<Rightarrow> game \<Rightarrow> bool" where
  none: "leads_to g g"
| returns: "leads_to g h \<Longrightarrow> Apply cmd h = Some (Events ev g') \<Longrightarrow> leads_to g g'"
| refuses: "leads_to g h \<Longrightarrow> Apply cmd h = Some (Error e g') \<Longrightarrow> leads_to g g'"

lemma reachable_leads_to: "leads_to g g' \<Longrightarrow> reachable g \<Longrightarrow> reachable g'"
  by (induction rule: leads_to.induct) (auto intro: reachable.intros)

subsection \<open>Invariants with a condition on the pending call\<close>

locale guarded_invariant =
  fixes I :: "game \<Rightarrow> bool" and J :: "jump \<Rightarrow> game \<Rightarrow> bool"
  assumes begin_cmd: "I g \<Longrightarrow> I (begin_cmd cmd g)"
    and dispatch_keeps: "I g \<Longrightarrow> I (result_game (dispatch cmd g))"
    and dispatch_calls: "I g \<Longrightarrow> dispatch cmd g = Go g' j \<Longrightarrow> J j g'"
    and step_keeps: "I g \<Longrightarrow> J j g \<Longrightarrow> I (fst (step j g))"
    and step_calls: "I g \<Longrightarrow> J j g \<Longrightarrow> J (snd (step j g)) (fst (step j g))"
    and clear_events: "I g \<Longrightarrow> I (g\<lparr>g_ev := []\<rparr>)"
begin

lemma run_keeps: "run j g = Some h \<Longrightarrow> I g \<longrightarrow> J j g \<longrightarrow> I (halt_game h)"
proof (induction rule: run.raw_induct [rotated, consumes 1, case_names step])
  case (step run j g h)
  then show ?case
    by (auto split: if_splits dest: step_keeps step_calls)
qed

lemma Apply_keeps:
  assumes "Apply cmd g = Some r" and "I g"
  shows "I (applied_game r)"
proof (cases "dispatch cmd (begin_cmd cmd g)")
  case (Fail e g')
  have "I (result_game (dispatch cmd (begin_cmd cmd g)))"
    using assms(2) by (intro dispatch_keeps begin_cmd)
  with Fail assms(1) show ?thesis by (auto simp: Apply_def intro: clear_events)
next
  case (Go g' j)
  have "I (result_game (dispatch cmd (begin_cmd cmd g)))"
    using assms(2) by (intro dispatch_keeps begin_cmd)
  then have I': "I g'" using Go by simp
  have J': "J j g'" using Go assms(2) by (intro dispatch_calls [OF begin_cmd])
  from Go assms(1) obtain h where "run j g' = Some h" "r = finish h"
    by (auto simp: Apply_def)
  then show ?thesis
    using run_keeps [of j g' h] I' J' finish_game [of h] by (auto intro: clear_events)
qed

lemma leads_to_keeps: "leads_to g g' \<Longrightarrow> I g \<Longrightarrow> I g'"
proof (induction rule: leads_to.induct)
  case (returns g h cmd ev g')
  then show ?case using Apply_keeps by fastforce
next
  case (refuses g h cmd e g')
  then show ?case using Apply_keeps by fastforce
qed

lemma reachable_keeps:
  assumes "reachable g" and "\<And>lib rng pack rules tms players sm g.
    New lib rng pack rules tms players sm = Inr g \<Longrightarrow> I g"
  shows "I g"
  using assms(1)
proof induction
  case (start lib rng pack rules tms players showmanID g)
  then show ?case by (rule assms(2))
next
  case (returned g cmd ev g')
  then show ?case using Apply_keeps by fastforce
next
  case (refused g cmd e g')
  then show ?case using Apply_keeps by fastforce
qed

end

subsection \<open>Plain invariants\<close>

locale engine_invariant =
  fixes I :: "game \<Rightarrow> bool"
  assumes command_ok: "I g \<Longrightarrow> I (begin_cmd cmd g)"
    and handler_ok: "I g \<Longrightarrow> I (result_game (dispatch cmd g))"
    and step_ok: "I g \<Longrightarrow> I (fst (step j g))"
    and events_ok: "I g \<Longrightarrow> I (g\<lparr>g_ev := []\<rparr>)"

sublocale engine_invariant \<subseteq> guarded_invariant I "\<lambda>j g. True"
  by unfold_locales (auto intro: command_ok handler_ok step_ok events_ok)

end
