(* ===== verification/Engine_Demo.thy ===== *)
theory Engine_Demo
  imports Engine_Invariants
begin

text \<open>
  A small concrete game, for evaluation: a pack with one round of each question type and a final,
  three players and a showman. \<open>play\<close> applies a list of commands; the games it returns are reachable.
\<close>

definition demo_item :: "string \<Rightarrow> content_item" where
  "demo_item s = \<lparr>ci_Type = ContentText, ci_Text = s, ci_MediaID = [], ci_URL = [],
     ci_Placement = PlaceUnset, ci_DurationMs = 1000, ci_NoWait = False\<rparr>"

definition no_info :: info where
  "no_info = \<lparr>in_Authors = [], in_Sources = [], in_Comments = [], in_ShowmanComments = []\<rparr>"

definition demo_question :: "string \<Rightarrow> int \<Rightarrow> question_type \<Rightarrow> number_set option \<Rightarrow> pack_question" where
  "demo_question i price ty ns = \<lparr>pq_ID = i, pq_Price = price, pq_Type = ty,
     pq_Params = \<lparr>qp_Question = [demo_item ''q''], qp_Answer = [], qp_Theme = [], qp_Price = ns,
       qp_SelectionMode = SelectAny, qp_AnswerType = AnswerUnset, qp_AnswerOptions = [],
       qp_AnswerDeviation = 0, qp_AnswerDurationMs = 0\<rparr>,
     pq_Right = [''yes''], pq_Wrong = [], pq_Info = no_info, pq_Script = [], pq_Extra = []\<rparr>"

definition demo_theme :: "string \<Rightarrow> pack_question list \<Rightarrow> pack_theme" where
  "demo_theme n qs = \<lparr>pt_ID = n, pt_Name = n, pt_Info = no_info, pt_Questions = qs\<rparr>"

definition demo_round :: "round_type \<Rightarrow> pack_theme list \<Rightarrow> pack_round" where
  "demo_round ty ts = \<lparr>pr_ID = ''r'', pr_Name = ''R'', pr_Type = ty, pr_Info = no_info, pr_Themes = ts\<rparr>"

definition pack_of :: "pack_round list \<Rightarrow> pack" where
  "pack_of rs =
     \<lparr>pk_ID = ''p'', pk_Version = 1, pk_Name = ''P'', pk_Language = [], pk_Difficulty = 5, pk_Restriction = [],
      pk_Date = [], pk_Publisher = [], pk_ContactURI = [], pk_LogoMediaID = [], pk_LogoURL = [], pk_Tags = [],
      pk_Info = no_info, pk_Rounds = rs, pk_Extra = None, pk_SIQID = [], pk_CreatedAt = 0, pk_UpdatedAt = 0\<rparr>"

definition demo_pack :: pack where
  "demo_pack = pack_of
     [demo_round RoundStandard
        [demo_theme ''A'' [demo_question ''a'' 100 QSimple None, demo_question ''b'' 200 QStake None],
         demo_theme ''B'' [demo_question ''c'' 300 QSecret (Some \<lparr>ns_Min = 100, ns_Max = 300, ns_Step = 100\<rparr>),
           demo_question ''d'' 400 QSecretNoQuestion None, demo_question ''e'' 500 QForAll None]],
      demo_round RoundFinal
        [demo_theme ''X'' [demo_question ''x'' 0 QUnset None],
         demo_theme ''Y'' [demo_question ''y'' 0 QUnset None]]]"

definition demo_lib :: golib where
  "demo_lib = \<lparr>lib_ToLower = (\<lambda>s. s), lib_TrimSpace = (\<lambda>s. s), lib_EqualFold = (=),
     lib_ParseFloat = (\<lambda>s. None), lib_FormatFloat = (\<lambda>x. []), lib_FormatPoint = (\<lambda>x y. []),
     lib_Hypot = (\<lambda>x y. 0)\<rparr>"

definition demo_players :: "player_init list" where
  "demo_players = [\<lparr>pi_ID = ''A'', pi_Name = ''Ann''\<rparr>, \<lparr>pi_ID = ''B'', pi_Name = ''Bob''\<rparr>,
     \<lparr>pi_ID = ''C'', pi_Name = ''Cid''\<rparr>, \<lparr>pi_ID = ''D'', pi_Name = ''Dan''\<rparr>]"

definition new_game :: "pack \<Rightarrow> rules \<Rightarrow> game option" where
  "new_game pk rules = (case New demo_lib (\<lambda>l n. 0) (Some pk) rules DefaultTimeSettings demo_players ''S'' of
     Inl e \<Rightarrow> None | Inr g \<Rightarrow> Some g)"

subsection \<open>Commands\<close>

definition actor_of :: "role \<Rightarrow> string \<Rightarrow> actor" where
  "actor_of r i = \<lparr>ac_PersonID = i, ac_Role = r, ac_IsHost = False\<rparr>"

definition command_of :: "cmd_type \<Rightarrow> role \<Rightarrow> string \<Rightarrow> command" where
  "command_of ty r i = \<lparr>cmd_Type = ty, cmd_Actor = actor_of r i, cmd_AtMs = 0, cmd_Theme = 0, cmd_Q = 0,
     cmd_WinnerID = [], cmd_Nobody = False, cmd_Text = [], cmd_OptionLabel = [], cmd_Number = None,
     cmd_Point = None, cmd_Right = False, cmd_RightSet = False, cmd_Factor = 0, cmd_FactorZero = False,
     cmd_Source = [], cmd_Reason = [], cmd_PersonID = [], cmd_Name = [], cmd_StakeMode = StakeUnset,
     cmd_Amount = 0, cmd_For = False, cmd_TimerID = [], cmd_On = False, cmd_Dir = 0, cmd_Round = 0,
     cmd_NewSum = 0, cmd_Options = None\<rparr>"

definition by_showman :: "cmd_type \<Rightarrow> command" where
  "by_showman ty = command_of ty RoleShowman ''S''"

definition by_room :: "cmd_type \<Rightarrow> command" where
  "by_room ty = command_of ty RoleSystem []"

definition by_player :: "cmd_type \<Rightarrow> string \<Rightarrow> command" where
  "by_player ty i = command_of ty RolePlayer i"

definition fired :: "timer_kind \<Rightarrow> nat \<Rightarrow> command" where
  "fired k n = (by_room CmdTimeout)\<lparr>cmd_TimerID := timer_id k n\<rparr>"

subsection \<open>Playing\<close>

fun play :: "command list \<Rightarrow> game \<Rightarrow> game option" where
  "play [] g = Some g"
| "play (c # cs) g = (case Apply c g of Some (Events ev g') \<Rightarrow> play cs g' | _ \<Rightarrow> None)"

lemma reachable_play: "reachable g \<Longrightarrow> play cs g = Some g' \<Longrightarrow> reachable g'"
proof (induction cs arbitrary: g)
  case (Cons c cs)
  then show ?case
    by (auto split: option.splits applied.splits intro: reachable.returned)
qed simp

lemma leads_to_play: "leads_to h g \<Longrightarrow> play cs g = Some g' \<Longrightarrow> leads_to h g'"
proof (induction cs arbitrary: g)
  case (Cons c cs)
  then show ?case
    by (auto split: option.splits applied.splits intro: leads_to.returns)
qed simp

lemma reachable_new_game: "new_game pk rules = Some g \<Longrightarrow> reachable g"
  by (auto simp: new_game_def split: sum.splits intro: reachable.start)

definition played :: "pack \<Rightarrow> rules \<Rightarrow> command list \<Rightarrow> game option" where
  "played pk rules cs = Option.bind (new_game pk rules) (play cs)"

lemma reachable_played: "played pk rules cs = Some g \<Longrightarrow> reachable g"
  by (auto simp: played_def bind_eq_Some_conv intro: reachable_play reachable_new_game)

text \<open>The lobby, the first choice, the first question up to a right answer.\<close>

definition demo_lobby :: game where
  "demo_lobby = the (new_game demo_pack DefaultRules)"

definition demo_opening :: "command list" where
  "demo_opening = [by_showman CmdStart, (by_showman CmdSelectPlayer)\<lparr>cmd_PersonID := ''A''\<rparr>]"

definition demo_selecting :: game where
  "demo_selecting = the (played demo_pack DefaultRules demo_opening)"

lemma reachable_lobby: "reachable demo_lobby"
proof -
  have "\<not> Option.is_none (new_game demo_pack DefaultRules)" by code_simp
  then show ?thesis by (auto simp: demo_lobby_def Option.is_none_def intro: reachable_new_game)
qed

lemma reachable_selecting: "reachable demo_selecting"
proof -
  have "\<not> Option.is_none (played demo_pack DefaultRules demo_opening)" by code_simp
  then show ?thesis by (auto simp: demo_selecting_def Option.is_none_def intro: reachable_played)
qed

text \<open>A whole question: the content is shown, a player presses, answers and is right.\<close>

definition demo_question_won :: "command list" where
  "demo_question_won = demo_opening @ [by_player CmdChooseQuestion ''A'', fired TimerContent 4,
     (by_room CmdButtonResult)\<lparr>cmd_WinnerID := ''B''\<rparr>,
     (by_player CmdAnswer ''B'')\<lparr>cmd_Text := ''yes''\<rparr>,
     (by_showman CmdValidate)\<lparr>cmd_Right := True\<rparr>]"

lemma demo_question_scores:
  "map_option scores (played demo_pack DefaultRules demo_question_won) =
     Some [(''A'', 0), (''B'', 100), (''C'', 0), (''D'', 0)]"
  by code_simp

end
