(* ===== verification/Engine_Loops.thy ===== *)
theory Engine_Loops
  imports Engine_Demo
begin

text \<open>
  The loops over prices. Two loops of the engine count with wrapping integers: the step of an auction
  (\<open>stakeStep\<close>) and the choices of a secret question's price (\<open>secretPriceChoices\<close>). With the prices of
  usual packs both end; this theory says for which packs, and that the game keeps such prices on its
  table. With the greatest integer as a price, which the validation of packs admits, they never end.
\<close>

subsection \<open>Packs whose prices do not wrap\<close>

definition set_fits :: "number_set \<Rightarrow> bool" where
  "set_fits n \<longleftrightarrow> - (2 ^ 63) \<le> min (ns_Min n) (ns_Max n) \<and>
     (0 < ns_Step n \<longrightarrow> max (ns_Min n) (ns_Max n) + ns_Step n < 2 ^ 63)"

definition question_fits :: "pack_question \<Rightarrow> bool" where
  "question_fits q \<longleftrightarrow> pq_Price q < 10 ^ 18 \<and>
     (case qp_Price (pq_Params q) of None \<Rightarrow> True | Some n \<Rightarrow> set_fits n)"

definition pack_fits :: "pack \<Rightarrow> bool" where
  "pack_fits pk \<longleftrightarrow> list_all (\<lambda>r. list_all (\<lambda>t. list_all question_fits (pt_Questions t)) (pr_Themes r))
     (pk_Rounds pk)"

definition table_fits :: "theme_state list \<Rightarrow> bool" where
  "table_fits tb \<longleftrightarrow> list_all (\<lambda>th. list_all (\<lambda>c. c_Price c < 10 ^ 18) (th_Questions th)) tb"

text \<open>The game is played from this pack, and its table holds the prices of the pack.\<close>

definition prices_ok :: "pack \<Rightarrow> game \<Rightarrow> bool" where
  "prices_ok pk g \<longleftrightarrow> g_pack g = pk \<and> (pack_fits pk \<longrightarrow> table_fits (st_Table g))"

lemma packQuestion_fits: "packQuestion g t q = Some pq \<Longrightarrow> pack_fits (g_pack g) \<Longrightarrow> question_fits pq"
  by (auto simp: packQuestion_def round_def pack_fits_def list_all_length Let_def
      split: option.splits if_splits)

lemma min_max_below: "fst m < 10 ^ 18 \<Longrightarrow> \<forall>c \<in> set cs. c_Price c < 10 ^ 18 \<Longrightarrow> fst (fold min_max_step cs m) < 10 ^ 18"
  by (induction cs arbitrary: m) (auto simp: min_max_step_def split: prod.split)

lemma stakeStep_power:
  assumes "table_fits (st_Table g)"
  shows "\<exists>n. stakeStep g = Some (10 ^ n)"
proof (cases "fst (roundMinMax g) < 10")
  case True
  then show ?thesis by (auto simp: stakeStep_def intro!: exI [of _ 0])
next
  case False
  have "fst (roundMinMax g) < 10 ^ 18"
    using assms unfolding roundMinMax_def
    by (intro min_max_below) (auto simp: table_fits_def table_cells_def list_all_iff)
  then show ?thesis
    using False step_loop_power [of 0 "fst (roundMinMax g)"] by (auto simp: stakeStep_def Let_def)
qed

lemma secretPriceChoices_ends:
  assumes "case ns of None \<Rightarrow> True | Some n \<Rightarrow> set_fits n"
  shows "\<exists>cs. secretPriceChoices g q ns = Some cs"
proof (cases ns)
  case (Some n)
  let ?lo = "min (ns_Min n) (ns_Max n)" and ?hi = "max (ns_Min n) (ns_Max n)"
  have fits: "set_fits n" using assms Some by simp
  have "\<exists>cs. price_loop ?lo ?hi (ns_Step n) [] = Some cs" if "\<not> ns_Step n \<le> 0"
    using price_loop_closed [of "ns_Step n" ?lo ?hi "[]"] that fits by (auto simp: set_fits_def)
  then show ?thesis using Some by (auto simp: secretPriceChoices_def Let_def split: prod.split)
qed (simp add: secretPriceChoices_def)

lemma packQuestion_choices:
  "packQuestion h t i = Some pq \<Longrightarrow> pack_fits (g_pack h) \<Longrightarrow>
     \<exists>cs. secretPriceChoices g q (qp_Price (pq_Params pq)) = Some cs"
  by (intro secretPriceChoices_ends) (simp add: packQuestion_fits [unfolded question_fits_def])

subsection \<open>The table keeps such prices\<close>

lemma prices_ok_upd [simp]:
  "prices_ok pk (g\<lparr>st_Stage := v0\<rparr>) = prices_ok pk g"
  "prices_ok pk (g\<lparr>st_RoundIndex := v1\<rparr>) = prices_ok pk g"
  "prices_ok pk (g\<lparr>st_RoundName := v2\<rparr>) = prices_ok pk g"
  "prices_ok pk (g\<lparr>st_RoundType := v3\<rparr>) = prices_ok pk g"
  "prices_ok pk (g\<lparr>st_ChooserID := v5\<rparr>) = prices_ok pk g"
  "prices_ok pk (g\<lparr>st_Players := v6\<rparr>) = prices_ok pk g"
  "prices_ok pk (g\<lparr>st_ShowmanID := v7\<rparr>) = prices_ok pk g"
  "prices_ok pk (g\<lparr>st_Rules := v8\<rparr>) = prices_ok pk g"
  "prices_ok pk (g\<lparr>st_Times := v9\<rparr>) = prices_ok pk g"
  "prices_ok pk (g\<lparr>st_Question := v10\<rparr>) = prices_ok pk g"
  "prices_ok pk (g\<lparr>st_Pending := v11\<rparr>) = prices_ok pk g"
  "prices_ok pk (g\<lparr>st_Timers := v12\<rparr>) = prices_ok pk g"
  "prices_ok pk (g\<lparr>st_Paused := v13\<rparr>) = prices_ok pk g"
  "prices_ok pk (g\<lparr>st_Appeal := v14\<rparr>) = prices_ok pk g"
  "prices_ok pk (g\<lparr>st_RoundTimedOut := v15\<rparr>) = prices_ok pk g"
  "prices_ok pk (g\<lparr>st_WaitNext := v16\<rparr>) = prices_ok pk g"
  "prices_ok pk (g\<lparr>st_FinalGroups := v17\<rparr>) = prices_ok pk g"
  "prices_ok pk (g\<lparr>st_FinalOffset := v18\<rparr>) = prices_ok pk g"
  "prices_ok pk (g\<lparr>st_DeleteStep := v19\<rparr>) = prices_ok pk g"
  "prices_ok pk (g\<lparr>st_DeleterID := v20\<rparr>) = prices_ok pk g"
  "prices_ok pk (g\<lparr>st_DeleterUsed := v21\<rparr>) = prices_ok pk g"
  "prices_ok pk (g\<lparr>st_Winner := v22\<rparr>) = prices_ok pk g"
  "prices_ok pk (g\<lparr>st_QuestionsPlayed := v23\<rparr>) = prices_ok pk g"
  "prices_ok pk (g\<lparr>st_Ended := v24\<rparr>) = prices_ok pk g"
  "prices_ok pk (g\<lparr>g_lib := v26\<rparr>) = prices_ok pk g"
  "prices_ok pk (g\<lparr>g_rng := v27\<rparr>) = prices_ok pk g"
  "prices_ok pk (g\<lparr>g_rngLog := v28\<rparr>) = prices_ok pk g"
  "prices_ok pk (g\<lparr>g_now := v29\<rparr>) = prices_ok pk g"
  "prices_ok pk (g\<lparr>g_ev := v30\<rparr>) = prices_ok pk g"
  "prices_ok pk (g\<lparr>g_timerSeq := v31\<rparr>) = prices_ok pk g"
  by (simp_all add: prices_ok_def)

lemma prices_ok_ops [simp]:
  "prices_ok pk (emit aud_emit e_emit g) = prices_ok pk g"
  "prices_ok pk (ev_oral e_ev_oral g) = prices_ok pk g"
  "prices_ok pk (upd_player i_upd_player f_upd_player g) = prices_ok pk g"
  "prices_ok pk (upd_players f_upd_players g) = prices_ok pk g"
  "prices_ok pk (upd_q f_upd_q g) = prices_ok pk g" "prices_ok pk (emitStage g) = prices_ok pk g"
  "prices_ok pk (setSub sub_setSub g) = prices_ok pk g"
  "prices_ok pk (emitSums g) = prices_ok pk g" "prices_ok pk (emitPlayers g) = prices_ok pk g"
  "prices_ok pk (emitTable g) = prices_ok pk g"
  "prices_ok pk (setPlayerState i_setPlayerState s_setPlayerState g) = prices_ok pk g"
  "prices_ok pk (addScore i_addScore d_addScore r_addScore g) = prices_ok pk g"
  "prices_ok pk (setChooser i_setChooser r_setChooser g) = prices_ok pk g"
  "prices_ok pk (removeTimer i_removeTimer g) = prices_ok pk g"
  "prices_ok pk (stopTimer i_stopTimer g) = prices_ok pk g"
  "prices_ok pk (stopKind k_stopKind g) = prices_ok pk g"
  "prices_ok pk (stopAllExcept ks_stopAllExcept g) = prices_ok pk g"
  "prices_ok pk (startTimer k_startTimer d_startTimer p_startTimer g) = prices_ok pk g"
  "prices_ok pk (upd_timer i_upd_timer f_upd_timer g) = prices_ok pk g"
  "prices_ok pk (pauseTimer t_pauseTimer g) = prices_ok pk g"
  "prices_ok pk (resumeTimer t_resumeTimer g) = prices_ok pk g"
  "prices_ok pk (pauseAllTimers g) = prices_ok pk g"
  "prices_ok pk (resumeAllTimers g) = prices_ok pk g"
  "prices_ok pk (askChoose g) = prices_ok pk g"
  "prices_ok pk (askSelectPlayer k_askSelectPlayer d_askSelectPlayer c_askSelectPlayer g) = prices_ok pk g"
  "prices_ok pk (armButton r_armButton q_armButton g) = prices_ok pk g"
  "prices_ok pk (disarm g) = prices_ok pk g"
  "prices_ok pk (pause_kind k_pause_kind g) = prices_ok pk g"
  "prices_ok pk (resume_kind k_resume_kind g) = prices_ok pk g"
  "prices_ok pk (askAnswer i_askAnswer k_askAnswer d_askAnswer q_askAnswer g) = prices_ok pk g"
  "prices_ok pk (showOptions q_showOptions g) = prices_ok pk g"
  "prices_ok pk (askValidate i_askValidate x_askValidate q_askValidate g) = prices_ok pk g"
  "prices_ok pk (record_outcome o_record_outcome g) = prices_ok pk g"
  "prices_ok pk (applyOutcome i_applyOutcome x_applyOutcome r_applyOutcome f_applyOutcome s_applyOutcome a_applyOutcome b_applyOutcome g) = prices_ok pk g"
  "prices_ok pk (rotateChooser g) = prices_ok pk g"
  "prices_ok pk (announceSecretPrice cs_announceSecretPrice q_announceSecretPrice g) = prices_ok pk g"
  "prices_ok pk (upd_ss f_upd_ss g) = prices_ok pk g"
  "prices_ok pk (stakeMarkPass i_stakeMarkPass g) = prices_ok pk g"
  "prices_ok pk (hiddenStakeSet i_hiddenStakeSet a_hiddenStakeSet g) = prices_ok pk g"
  "prices_ok pk (askHiddenStake p_askHiddenStake g) = prices_ok pk g"
  "prices_ok pk (hiddenScore p_hiddenScore a_hiddenScore r_hiddenScore f_hiddenScore s_hiddenScore q_hiddenScore g) = prices_ok pk g"
  "prices_ok pk (showmanHint pq_showmanHint g) = prices_ok pk g"
  "prices_ok pk (finalBuildOrder g) = prices_ok pk g"
  "prices_ok pk (final_in t_final_in g) = prices_ok pk g"
  "prices_ok pk (upd_outcome i_upd_outcome f_upd_outcome g) = prices_ok pk g"
  "prices_ok pk (revert_later i_revert_later g) = prices_ok pk g"
  "prices_ok pk (appeal_apply_for a_appeal_apply_for q_appeal_apply_for p_appeal_apply_for o_appeal_apply_for g) = prices_ok pk g"
  "prices_ok pk (appeal_apply_against q_appeal_apply_against p_appeal_apply_against o_appeal_apply_against g) = prices_ok pk g"
  "prices_ok pk (thaw g) = prices_ok pk g"
  "prices_ok pk (undo_outcome o_undo_outcome g) = prices_ok pk g"
  by (simp_all add: prices_ok_def)


lemma table_fits_update:
  assumes "table_fits tb" and "\<And>th. th \<in> set tb \<Longrightarrow> \<forall>c \<in> set (th_Questions th). c_Price c < 10 ^ 18 \<Longrightarrow>
    \<forall>c \<in> set (th_Questions (f th)). c_Price c < 10 ^ 18"
  shows "table_fits (tb[t := f (tb ! t)])"
proof (cases "t < length tb")
  case True
  have "list_all (\<lambda>c. c_Price c < 10 ^ 18) (th_Questions (f (tb ! t)))"
    using assms nth_mem [OF True] by (auto simp: table_fits_def list_all_iff)
  then show ?thesis
    using assms(1) unfolding table_fits_def list_all_iff by (auto dest!: in_set_update_nth)
next
  case False
  with assms(1) show ?thesis by (simp add: not_less list_update_beyond)
qed

lemma prices_ok_cell:
  "(\<And>c. c_Price (f c) = c_Price c) \<Longrightarrow> prices_ok pk g \<Longrightarrow> prices_ok pk (upd_cell t q f g)"
proof -
  assume f: "\<And>c. c_Price (f c) = c_Price c"
  have "\<forall>c \<in> set (cs[q := f (cs ! q)]). c_Price c < 10 ^ 18" if "\<forall>c \<in> set cs. c_Price c < 10 ^ 18" for cs
  proof (cases "q < length cs")
    case True
    then show ?thesis using that f by (auto dest!: in_set_update_nth)
  next
    case False
    then show ?thesis using that by (simp add: not_less list_update_beyond)
  qed
  then show "prices_ok pk g \<Longrightarrow> prices_ok pk (upd_cell t q f g)"
    unfolding prices_ok_def upd_cell_def
    by (auto intro!: table_fits_update [where f = "\<lambda>th. th\<lparr>th_Questions :=
        (th_Questions th)[q := f (th_Questions th ! q)]\<rparr>"])
qed

lemma table_fits_new: "pack_fits pk \<Longrightarrow> i < length (pk_Rounds pk) \<Longrightarrow> table_fits (new_table (pk_Rounds pk ! i))"
  by (auto simp: table_fits_def new_table_def pack_fits_def question_fits_def list_all_iff dest!: nth_mem)

lemma prices_ok_clear [simp]: "prices_ok pk (clear_round g) = prices_ok pk g" "prices_ok pk (endGame g) = prices_ok pk g"
  by (simp_all add: clear_round_def endGame_def Let_def)

lemma prices_ok_startRound: "prices_ok pk g \<Longrightarrow> prices_ok pk (fst (startRound i g))"
  by (auto simp: startRound_def Let_def) (auto simp: prices_ok_def clear_round_def intro: table_fits_new)

lemma prices_ok_finals:
  assumes "prices_ok pk g"
  shows "prices_ok pk (fst (finalDelete t w g))" "prices_ok pk (fst (finalPlayLastTheme g))"
proof -
  have "prices_ok pk (g\<lparr>st_Table := (st_Table g)[t := (st_Table g ! t)\<lparr>th_Removed := True\<rparr>]\<rparr>)" for t
    using assms by (auto simp: prices_ok_def intro!: table_fits_update [where f = "\<lambda>th. th\<lparr>th_Removed := True\<rparr>"])
  then show "prices_ok pk (fst (finalDelete t w g))"
    by (simp add: finalDelete_def Let_def assms)
  have "\<forall>c \<in> set (th_Questions (keep_first th k)). c_Price c < 10 ^ 18"
    if "\<forall>c \<in> set (th_Questions th). c_Price c < 10 ^ 18" for th k
    using that by (auto simp: keep_first_def in_set_enumerate_eq)
  then have "prices_ok pk (g\<lparr>st_Table := (st_Table g)[t := keep_first (st_Table g ! t) k]\<rparr>)" for t k
    using assms by (auto simp: prices_ok_def intro!: table_fits_update [where f = "\<lambda>th. keep_first th k"])
  then show "prices_ok pk (fst (finalPlayLastTheme g))"
    by (auto simp: finalPlayLastTheme_def Let_def assms split: list.split option.split)
qed

lemma prices_ok_fold: "(\<And>x g. prices_ok pk (f x g) = prices_ok pk g) \<Longrightarrow> prices_ok pk (fold f xs g) = prices_ok pk g"
  by (induction xs arbitrary: g) auto

lemma prices_ok_undo [simp]: "prices_ok pk (fold undo_outcome os g) = prices_ok pk g"
  by (rule prices_ok_fold) simp

lemma prices_ok_random_pick: "random_pick xs g = Some (x, g') \<Longrightarrow> prices_ok pk g' = prices_ok pk g"
  by (auto simp: random_pick_def randomIndex_def split: if_splits)

interpretation prices_walk: game_predicate "prices_ok pk" for pk .

subsection \<open>The handlers\<close>

lemmas price_splits = option.split if_split list.split prod.split sum.split

lemma prices_ok_timer_fired: "prices_ok pk g \<Longrightarrow> prices_ok pk (fst (timer_fired k g))"
  by (cases k) (auto simp: timer_fired_def randomCell_def randomIndex_def onShowmanDecisionTimeout_def
      playerSelectionTimeout_def stakeTimeout_def answerTimeout_def hiddenStakesTimeout_def
      default_stakes_def prices_ok_fold Let_def prices_ok_random_pick split: price_splits)

lemma prices_ok_returned: "prices_ok pk g \<Longrightarrow> prices_ok pk (fst (returnQuestionToTable g))"
  by (auto simp: returnQuestionToTable_def Let_def disarm_def intro!: prices_ok_cell split: price_splits)

lemma prices_ok_controls:
  assumes "prices_ok pk g"
  shows "prices_ok pk (result_game (onTimeout cmd g))" "prices_ok pk (result_game (onStart cmd g))"
    "prices_ok pk (result_game (onPause cmd g))" "prices_ok pk (result_game (onNext cmd g))"
    "prices_ok pk (result_game (onToggle cmd g))" "prices_ok pk (result_game (onChangeScore cmd g))"
    "prices_ok pk (result_game (onSetChooser cmd g))" "prices_ok pk (result_game (onSetOptions cmd g))"
    "prices_ok pk (result_game (onPlayerReady cmd g))" "prices_ok pk (result_game (onAISuggestion cmd g))"
    "prices_ok pk (result_game (onPlayerJoined cmd g))"
  using assms
  by (auto simp: onTimeout_def prices_ok_timer_fired onStart_def onPause_def onNext_def onToggle_def
      onChangeScore_def onSetChooser_def onSetOptions_def onPlayerReady_def onAISuggestion_def
      onPlayerJoined_def toggled_def Let_def intro!: prices_ok_cell split: price_splits)

lemma prices_ok_playerGone: "prices_ok pk g \<Longrightarrow> prices_ok pk (fst (playerGone i g))"
  by (auto simp: playerGone_def split: price_splits)

lemma prices_ok_moves:
  assumes "prices_ok pk g"
  shows "prices_ok pk (result_game (onMove cmd g))" "prices_ok pk (result_game (onKick cmd g))"
    "prices_ok pk (result_game (onPlayerLeft cmd g))" "prices_ok pk (result_game (onMediaCompleted cmd g))"
    "prices_ok pk (result_game (onButtonResult cmd g))"
  unfolding onMove_def onKick_def onPlayerLeft_def onMediaCompleted_def onButtonResult_def
    move_forward_def abortQuestionToAnswer_def stage_case_if
  by (intro prices_walk.walk prices_ok_returned prices_ok_playerGone; simp add: assms disarm_def)+

lemma prices_ok_play:
  assumes "prices_ok pk g"
  shows "prices_ok pk (result_game (onSelectPlayer cmd g))" "prices_ok pk (result_game (onChooseQuestion cmd g))"
    "prices_ok pk (result_game (onPass cmd g))" "prices_ok pk (result_game (onAnswerDraft cmd g))"
    "prices_ok pk (result_game (onDeleteTheme cmd g))" "prices_ok pk (result_game (onVoteAppeal cmd g))"
    "prices_ok pk (result_game (onAnswer cmd g))" "prices_ok pk (result_game (onValidate cmd g))"
    "prices_ok pk (result_game (onSetStake cmd g))" "prices_ok pk (result_game (onAppellate cmd g))"
  unfolding onSelectPlayer_def onChooseQuestion_def onPass_def pass_bid_def pass_button_def
    onAnswerDraft_def onDeleteTheme_def onVoteAppeal_def onAnswer_def answer_open_def answer_hidden_def
    onValidate_def validate_hidden_def validate_open_def processSingleAnswer_def
    onSetStake_def price_select_def hiddenSetStake_def set_bid_def onAppellate_def
  by (intro prices_walk.walk; simp add: assms)+

lemma prices_ok_dispatch: "prices_ok pk g \<Longrightarrow> prices_ok pk (result_game (dispatch cmd g))"
  by (rule result_dispatch [where I = "prices_ok pk"])
    (simp_all add: handlers_def prices_ok_controls prices_ok_moves prices_ok_play)

lemma prices_ok_New: "New lib rng pack rules tms players sm = Inr g \<Longrightarrow> prices_ok (g_pack g) g"
  by (auto simp: New_def new_state_def game_state.extend_def prices_ok_def table_fits_def Let_def
      split: option.splits if_splits)

subsection \<open>Prices for which a loop never ends\<close>

definition extreme_set :: "number_set \<Rightarrow> bool" where
  "extreme_set n \<longleftrightarrow> ns_Max n = 2 ^ 63 - 1 \<and> 0 \<le> ns_Min n \<and> 0 < ns_Step n \<and> ns_Step n < ns_Max n - ns_Min n"

text \<open>
  The question costs the greatest integer (an auction in a round that has no cheaper question) or is a
  public secret whose price may go up to it.
\<close>

definition extreme_question :: "game \<Rightarrow> pack_question \<Rightarrow> bool" where
  "extreme_question g pq \<longleftrightarrow>
     pq_Type pq = QStake \<and> fst (roundMinMax g) = 2 ^ 63 - 1 \<or>
     pq_Type pq = QSecretPublicPrice \<and> (case qp_Price (pq_Params pq) of None \<Rightarrow> False | Some n \<Rightarrow> extreme_set n)"

lemma extreme_choices:
  assumes "extreme_set n"
  shows "secretPriceChoices g q (Some n) = None"
proof -
  have lo: "min (ns_Min n) (ns_Max n) = ns_Min n" "max (ns_Min n) (ns_Max n) = 2 ^ 63 - 1"
    using assms by (simp_all add: extreme_set_def)
  have "int64 (2 ^ 63 - 1 - ns_Min n) = 2 ^ 63 - 1 - ns_Min n"
    using assms by (intro int64_id) (simp_all add: extreme_set_def)
  moreover have "price_loop (ns_Min n) (2 ^ 63 - 1) (ns_Step n) [] = None"
    using assms by (intro price_loop_hangs) (simp add: extreme_set_def)
  ultimately show ?thesis
    unfolding secretPriceChoices_def Let_def option.case lo using assms by (simp add: extreme_set_def)
qed

text \<open>Playing a cell leaves the prices of the round.\<close>

lemma min_max_fold: "map c_Price cs = map c_Price cs' \<Longrightarrow> fold min_max_step cs m = fold min_max_step cs' m"
proof (induction cs arbitrary: cs' m)
  case (Cons c cs)
  then obtain c' cs'' where "cs' = c' # cs''" "c_Price c = c_Price c'" "map c_Price cs = map c_Price cs''"
    by (cases cs') auto
  moreover have "min_max_step c m = min_max_step c' m" using calculation(2) by (simp only: min_max_step_def)
  ultimately show ?case using Cons.IH [of cs''] by simp
qed simp

lemma map_update_same: "f y = f (xs ! i) \<Longrightarrow> map f (xs[i := y]) = map f xs"
  by (cases "i < length xs")
    (simp_all add: map_update list_update_beyond not_less list_update_same_conv)

lemma roundMinMax_open: "roundMinMax (open_question t i pq g) = roundMinMax g"
proof -
  have cells: "map c_Price (table_cells g) = concat (map (\<lambda>th. map c_Price (th_Questions th)) (st_Table g))" for g
    by (simp add: table_cells_def map_concat comp_def)
  have "map c_Price (table_cells (open_question t i pq g)) = map c_Price (table_cells g)"
    unfolding cells by (simp add: upd_cell_def map_update_same)
  then show ?thesis unfolding roundMinMax_def by (rule min_max_fold)
qed

lemma extreme_question_spins:
  assumes "packQuestion g t i = Some pq" and "cell_in_table g t i" and "extreme_question g pq"
  shows "snd (startQuestion t i g) = Spin"
proof -
  let ?h = "open_question t i pq g"
  let ?qs = "asked_question (upd_cell t i (\<lambda>c. c\<lparr>c_Played := True\<rparr>) g) t i pq"
  have qs: "q_ThemeIndex ?qs = t" "q_QuestionIndex ?qs = i" "pq_Type pq \<noteq> QUnset \<Longrightarrow> q_Type ?qs = pq_Type pq"
    by (simp_all add: asked_question_def new_question_def Let_def)
  have "round ?h = round g" by (simp add: Engine_Core.round_def)
  then have pq: "packQuestion ?h t i = Some pq" using assms(1) by (simp add: packQuestion_def)
  have start: "startQuestion t i g = beginScript (q_Type ?qs) ?h"
    using assms(1,2) by (simp add: startQuestion_def)
  from assms(3) show ?thesis
    unfolding extreme_question_def
  proof (elim disjE conjE)
    assume "pq_Type pq = QStake" and p: "fst (roundMinMax g) = 2 ^ 63 - 1"
    have "stakeStep ?h = None" by (simp add: stakeStep_def roundMinMax_open p step_loop_hangs [simplified])
    then show ?thesis using start qs \<open>pq_Type pq = QStake\<close> by (simp add: beginScript_def stakeBegin_def)
  next
    assume "pq_Type pq = QSecretPublicPrice"
      and n: "case qp_Price (pq_Params pq) of None \<Rightarrow> False | Some n \<Rightarrow> extreme_set n"
    then show ?thesis using start qs pq
      by (auto simp: beginScript_def secretBegin_def extreme_choices Let_def split: option.splits)
  qed
qed

lemma extreme_question_hangs:
  assumes "dispatch cmd (begin_cmd cmd g) = Go h (JStartQuestion t i)" and "packQuestion h t i = Some pq"
    and "cell_in_table h t i" and "extreme_question h pq"
  shows "Apply cmd g = None"
  using assms extreme_question_spins [OF assms(2-4)] by (simp add: Apply_def run_step step_def)

end
