(* ===== verification/Engine_Termination.thy ===== *)
theory Engine_Termination
  imports Engine_Loops
begin

text \<open>
  Every command returns: the tail calls of the engine end, from every state, and so do the loops over
  prices when the pack's prices fit. The measure is lexicographic: the rounds still to come, the cells still open, the appeals still queued, the
  bidders that can still be made to pass, and the rank of the function in the call order.
\<close>

subsection \<open>The measure\<close>

fun rank :: "jump \<Rightarrow> nat" where
  "rank Ret = 0"
| "rank Crash = 0"
| "rank Spin = 0"
| "rank (JStartRound i) = 1"
| "rank (JFinalAskDelete i) = 1"
| "rank (JEndRound r) = 2"
| "rank (JStartQuestion t q) = 3"
| "rank JFinalPlayLastTheme = 4"
| "rank (JFinalDelete t i) = 5"
| "rank JFinalDeleteTimeout = 6"
| "rank JFinalNextDeleter = 7"
| "rank JFinalContinue = 8"
| "rank JStartFinalRound = 9"
| "rank (JBeginSelection s) = 9"
| "rank JEnterRound = 10"
| "rank JAfterQuestion = 11"
| "rank JProcessAppeals = 12"
| "rank JAppealFinish = 13"
| "rank (JAppealStart r) = 14"
| "rank JEndQuestion = 15"
| "rank JShowAnswer = 16"
| "rank JNobodyAnswered = 17"
| "rank JHiddenRevealNext = 17"
| "rank JHiddenAnsweringDone = 18"
| "rank JHiddenAnsweringBegin = 18"
| "rank JContentFinished = 19"
| "rank JShowGroup = 20"
| "rank JContentGroupDone = 21"
| "rank JPlayContent = 21"
| "rank JRearm = 22"
| "rank (JSecretAfterPrice p) = 22"
| "rank JHiddenStakesDone = 22"
| "rank (JApplyVerdict i a r f s) = 23"
| "rank JSecretPriceSelect = 23"
| "rank (JSecretRecipientChosen i) = 24"
| "rank (JStakeWinner i) = 25"
| "rank (JStakeSetPass i) = 26"
| "rank (JStakeApply i m a) = 26"
| "rank (JStakeAskBid i) = 27"
| "rank JStakeAdvance = 28"
| "rank (JResolvePending i) = 29"

definition rounds_left :: "jump \<Rightarrow> game \<Rightarrow> nat" where
  "rounds_left j g = (case j of
       JStartRound i \<Rightarrow> nat (int (length (pk_Rounds (g_pack g))) - i)
     | _ \<Rightarrow> nat (int (length (pk_Rounds (g_pack g))) - st_RoundIndex g - 1))"

definition cells_left :: "jump \<Rightarrow> game \<Rightarrow> nat" where
  "cells_left j g = length (open_cells (st_Table g)) + (case j of
       JStartQuestion t q \<Rightarrow> if (t, q) \<in> set (open_cells (st_Table g)) then 0 else 1
     | JFinalDelete t i \<Rightarrow> if t \<in> set (finalRemainingThemes g) then 0 else 1
     | _ \<Rightarrow> 0)"

definition queued :: "game \<Rightarrow> nat" where
  "queued g = (case st_Question g of None \<Rightarrow> 0 | Some q \<Rightarrow> length (q_AppealQueue q))"

text \<open>
  \<open>forced\<close>: the auction acts for this bidder without asking, because the player cannot beat the
  bid or cannot even pay the nominal price.
\<close>

definition forced :: "game \<Rightarrow> stake_state \<Rightarrow> string \<Rightarrow> bool" where
  "forced g ss i \<longleftrightarrow>
     0 < ss_Stake ss \<and> player_score g i \<le> ss_Stake ss \<or>
     ss_Stake ss = 0 \<and> (player_score g i < ss_Nominal ss \<or> length (ss_Participants ss) = 1)"

definition in_auction :: "stake_state \<Rightarrow> string \<Rightarrow> bool" where
  "in_auction ss i \<longleftrightarrow> i \<in> set (ss_Participants ss) \<and> mget (ss_Active ss) i \<and>
     \<not> (mget (ss_HasBid ss) i \<and> i = ss_Leader ss)"

definition forced_bidders :: "game \<Rightarrow> stake_state \<Rightarrow> nat" where
  "forced_bidders g ss = length (filter (\<lambda>i. in_auction ss i \<and> forced g ss i) (ss_Participants ss))"

definition bids_left :: "jump \<Rightarrow> game \<Rightarrow> nat" where
  "bids_left j g = (case stakes g of None \<Rightarrow> 0 | Some ss \<Rightarrow>
     (case j of
        JStakeAdvance \<Rightarrow> forced_bidders g ss
      | JStakeAskBid i \<Rightarrow> if in_auction ss i then forced_bidders g ss else length (ss_Participants ss) + 2
      | JStakeSetPass i \<Rightarrow> if in_auction ss i \<and> forced g ss i then forced_bidders g ss
                           else length (ss_Participants ss) + 1
      | JStakeApply i m a \<Rightarrow> if m = StakeNominal \<and> in_auction ss i \<and> forced g ss i then forced_bidders g ss
                             else length (ss_Participants ss) + 1
      | JResolvePending i \<Rightarrow> length (ss_Participants ss) + 2
      | _ \<Rightarrow> 0))"

definition mu :: "jump \<Rightarrow> game \<Rightarrow> nat \<times> nat \<times> nat \<times> nat \<times> nat" where
  "mu j g = (rounds_left j g, cells_left j g, queued g, bids_left j g, rank j)"

definition call_order :: "((nat \<times> nat \<times> nat \<times> nat \<times> nat) \<times> (nat \<times> nat \<times> nat \<times> nat \<times> nat)) set" where
  "call_order = less_than <*lex*> less_than <*lex*> less_than <*lex*> less_than <*lex*> less_than"

lemma wf_call_order: "wf call_order"
  unfolding call_order_def by (intro wf_lex_prod wf_less_than)

lemma forced_bidders_le: "forced_bidders g ss \<le> length (ss_Participants ss)"
  by (simp add: forced_bidders_def)

text \<open>Where the argument of the call does not matter. \<open>Spin\<close> is no call.\<close>

definition fixed_rank :: "jump \<Rightarrow> bool" where
  "fixed_rank j \<longleftrightarrow> (case j of
      Spin \<Rightarrow> False | JStartRound i \<Rightarrow> False | JStartQuestion t q \<Rightarrow> False | JFinalDelete t i \<Rightarrow> False | _ \<Rightarrow> True)"

lemma fixed_rank_Spin [simp]: "\<not> fixed_rank Spin"
  by (simp add: fixed_rank_def)

lemma rounds_left_fixed:
  "(\<And>i. j \<noteq> JStartRound i) \<Longrightarrow>
     rounds_left j g = nat (int (length (pk_Rounds (g_pack g))) - st_RoundIndex g - 1)"
  by (cases j) (auto simp: rounds_left_def)

lemma cells_left_fixed: "fixed_rank j \<Longrightarrow> cells_left j g = length (open_cells (st_Table g))"
  by (cases j) (simp_all add: cells_left_def fixed_rank_def)

lemma cells_left_ge: "length (open_cells (st_Table g)) \<le> cells_left j g"
  by (simp add: cells_left_def)

lemma bids_left_low: "rank j \<le> 25 \<Longrightarrow> bids_left j g = 0"
  by (cases j) (simp_all add: bids_left_def split: option.split)

lemma fixed_rankD: "fixed_rank j \<Longrightarrow> j \<noteq> JStartRound i"
  by (auto simp: fixed_rank_def)

lemma high_fixed_rank: "6 \<le> rank j \<Longrightarrow> fixed_rank j"
  by (cases j) (simp_all add: fixed_rank_def)

subsection \<open>What the operations leave alone\<close>

text \<open>
  \<open>track\<close> is the part of the game the first three components of the measure read; \<open>course\<close> adds
  who takes part in the auction.
\<close>

definition track :: "game \<Rightarrow> int \<times> pack \<times> theme_state list \<times> nat" where
  "track g = (st_RoundIndex g, g_pack g, st_Table g, queued g)"

definition auction :: "game \<Rightarrow> (string list \<times> (string \<times> bool) list) option" where
  "auction g = map_option (\<lambda>ss. (ss_Participants ss, ss_Active ss)) (stakes g)"

definition course :: "game \<Rightarrow>
    (int \<times> pack \<times> theme_state list \<times> nat) \<times> (string list \<times> (string \<times> bool) list) option" where
  "course g = (track g, auction g)"

lemma track_upd [simp]:
  "track (g\<lparr>st_Stage := v0\<rparr>) = track g"
  "track (g\<lparr>st_RoundName := v2\<rparr>) = track g"
  "track (g\<lparr>st_RoundType := v3\<rparr>) = track g"
  "track (g\<lparr>st_ChooserID := v5\<rparr>) = track g"
  "track (g\<lparr>st_Players := v6\<rparr>) = track g"
  "track (g\<lparr>st_ShowmanID := v7\<rparr>) = track g"
  "track (g\<lparr>st_Rules := v8\<rparr>) = track g"
  "track (g\<lparr>st_Times := v9\<rparr>) = track g"
  "track (g\<lparr>st_Pending := v11\<rparr>) = track g"
  "track (g\<lparr>st_Timers := v12\<rparr>) = track g"
  "track (g\<lparr>st_Paused := v13\<rparr>) = track g"
  "track (g\<lparr>st_Appeal := v14\<rparr>) = track g"
  "track (g\<lparr>st_RoundTimedOut := v15\<rparr>) = track g"
  "track (g\<lparr>st_WaitNext := v16\<rparr>) = track g"
  "track (g\<lparr>st_FinalGroups := v17\<rparr>) = track g"
  "track (g\<lparr>st_FinalOffset := v18\<rparr>) = track g"
  "track (g\<lparr>st_DeleteStep := v19\<rparr>) = track g"
  "track (g\<lparr>st_DeleterID := v20\<rparr>) = track g"
  "track (g\<lparr>st_DeleterUsed := v21\<rparr>) = track g"
  "track (g\<lparr>st_Winner := v22\<rparr>) = track g"
  "track (g\<lparr>st_QuestionsPlayed := v23\<rparr>) = track g"
  "track (g\<lparr>st_Ended := v24\<rparr>) = track g"
  "track (g\<lparr>g_lib := v26\<rparr>) = track g"
  "track (g\<lparr>g_rng := v27\<rparr>) = track g"
  "track (g\<lparr>g_rngLog := v28\<rparr>) = track g"
  "track (g\<lparr>g_now := v29\<rparr>) = track g"
  "track (g\<lparr>g_ev := v30\<rparr>) = track g"
  "track (g\<lparr>g_timerSeq := v31\<rparr>) = track g"
  by (simp_all add: track_def queued_def)

lemma track_ops [simp]:
  "track (emit aud_emit e_emit g) = track g" "track (ev_oral e_ev_oral g) = track g"
  "track (upd_player i_upd_player f_upd_player g) = track g"
  "track (upd_players f_upd_players g) = track g" "track (emitStage g) = track g"
  "track (emitSums g) = track g" "track (emitPlayers g) = track g" "track (emitTable g) = track g"
  "track (setPlayerState i_setPlayerState s_setPlayerState g) = track g"
  "track (addScore i_addScore d_addScore r_addScore g) = track g"
  "track (setChooser i_setChooser r_setChooser g) = track g"
  "track (removeTimer i_removeTimer g) = track g" "track (stopTimer i_stopTimer g) = track g"
  "track (stopKind k_stopKind g) = track g" "track (stopAllExcept ks_stopAllExcept g) = track g"
  "track (startTimer k_startTimer d_startTimer p_startTimer g) = track g"
  "track (upd_timer i_upd_timer f_upd_timer g) = track g"
  "track (pauseTimer t_pauseTimer g) = track g" "track (resumeTimer t_resumeTimer g) = track g"
  "track (pauseAllTimers g) = track g" "track (resumeAllTimers g) = track g"
  "track (askChoose g) = track g"
  "track (askSelectPlayer k_askSelectPlayer d_askSelectPlayer c_askSelectPlayer g) = track g"
  "track (pause_kind k_pause_kind g) = track g" "track (resume_kind k_resume_kind g) = track g"
  "track (rotateChooser g) = track g"
  "track (announceSecretPrice cs_announceSecretPrice q_announceSecretPrice g) = track g"
  "track (hiddenStakeSet i_hiddenStakeSet a_hiddenStakeSet g) = track g"
  "track (askHiddenStake p_askHiddenStake g) = track g"
  "track (showmanHint pq_showmanHint g) = track g" "track (finalBuildOrder g) = track g"
  "track (final_in t_final_in g) = track g" "track (thaw g) = track g"
  "track (undo_outcome o_undo_outcome g) = track g"
  by (simp_all add: track_def queued_def)

lemma course_upd [simp]:
  "course (g\<lparr>st_Stage := v0\<rparr>) = course g"
  "course (g\<lparr>st_RoundName := v2\<rparr>) = course g"
  "course (g\<lparr>st_RoundType := v3\<rparr>) = course g"
  "course (g\<lparr>st_ChooserID := v5\<rparr>) = course g"
  "course (g\<lparr>st_Players := v6\<rparr>) = course g"
  "course (g\<lparr>st_ShowmanID := v7\<rparr>) = course g"
  "course (g\<lparr>st_Rules := v8\<rparr>) = course g"
  "course (g\<lparr>st_Times := v9\<rparr>) = course g"
  "course (g\<lparr>st_Pending := v11\<rparr>) = course g"
  "course (g\<lparr>st_Timers := v12\<rparr>) = course g"
  "course (g\<lparr>st_Paused := v13\<rparr>) = course g"
  "course (g\<lparr>st_Appeal := v14\<rparr>) = course g"
  "course (g\<lparr>st_RoundTimedOut := v15\<rparr>) = course g"
  "course (g\<lparr>st_WaitNext := v16\<rparr>) = course g"
  "course (g\<lparr>st_FinalGroups := v17\<rparr>) = course g"
  "course (g\<lparr>st_FinalOffset := v18\<rparr>) = course g"
  "course (g\<lparr>st_DeleteStep := v19\<rparr>) = course g"
  "course (g\<lparr>st_DeleterID := v20\<rparr>) = course g"
  "course (g\<lparr>st_DeleterUsed := v21\<rparr>) = course g"
  "course (g\<lparr>st_Winner := v22\<rparr>) = course g"
  "course (g\<lparr>st_QuestionsPlayed := v23\<rparr>) = course g"
  "course (g\<lparr>st_Ended := v24\<rparr>) = course g"
  "course (g\<lparr>g_lib := v26\<rparr>) = course g"
  "course (g\<lparr>g_rng := v27\<rparr>) = course g"
  "course (g\<lparr>g_rngLog := v28\<rparr>) = course g"
  "course (g\<lparr>g_now := v29\<rparr>) = course g"
  "course (g\<lparr>g_ev := v30\<rparr>) = course g"
  "course (g\<lparr>g_timerSeq := v31\<rparr>) = course g"
  by (simp_all add: course_def auction_def stakes_def)

lemma course_ops [simp]:
  "course (emit aud_emit e_emit g) = course g" "course (ev_oral e_ev_oral g) = course g"
  "course (upd_player i_upd_player f_upd_player g) = course g"
  "course (upd_players f_upd_players g) = course g" "course (emitStage g) = course g"
  "course (emitSums g) = course g" "course (emitPlayers g) = course g"
  "course (emitTable g) = course g"
  "course (setPlayerState i_setPlayerState s_setPlayerState g) = course g"
  "course (addScore i_addScore d_addScore r_addScore g) = course g"
  "course (setChooser i_setChooser r_setChooser g) = course g"
  "course (removeTimer i_removeTimer g) = course g" "course (stopTimer i_stopTimer g) = course g"
  "course (stopKind k_stopKind g) = course g"
  "course (stopAllExcept ks_stopAllExcept g) = course g"
  "course (startTimer k_startTimer d_startTimer p_startTimer g) = course g"
  "course (upd_timer i_upd_timer f_upd_timer g) = course g"
  "course (pauseTimer t_pauseTimer g) = course g"
  "course (resumeTimer t_resumeTimer g) = course g" "course (pauseAllTimers g) = course g"
  "course (resumeAllTimers g) = course g" "course (askChoose g) = course g"
  "course (askSelectPlayer k_askSelectPlayer d_askSelectPlayer c_askSelectPlayer g) = course g"
  "course (pause_kind k_pause_kind g) = course g"
  "course (resume_kind k_resume_kind g) = course g" "course (rotateChooser g) = course g"
  "course (announceSecretPrice cs_announceSecretPrice q_announceSecretPrice g) = course g"
  "course (hiddenStakeSet i_hiddenStakeSet a_hiddenStakeSet g) = course g"
  "course (askHiddenStake p_askHiddenStake g) = course g"
  "course (showmanHint pq_showmanHint g) = course g" "course (finalBuildOrder g) = course g"
  "course (final_in t_final_in g) = course g" "course (thaw g) = course g"
  "course (undo_outcome o_undo_outcome g) = course g"
  by (simp_all add: course_def auction_def stakes_def)


lemma track_upd_q [simp]:
  "(\<And>q. q_AppealQueue (f q) = q_AppealQueue q) \<Longrightarrow> track (upd_q f g) = track g"
  by (simp add: track_def queued_def upd_q_def split: option.split)

lemma course_upd_q [simp]:
  "(\<And>q. q_AppealQueue (f q) = q_AppealQueue q) \<Longrightarrow> (\<And>q. q_Stakes (f q) = q_Stakes q) \<Longrightarrow>
    course (upd_q f g) = course g"
  by (cases "st_Question g") (simp_all add: course_def auction_def stakes_def)

lemma track_fold: "(\<And>x g. track (f x g) = track g) \<Longrightarrow> track (fold f xs g) = track g"
  by (induction xs arbitrary: g) auto

lemma course_fold: "(\<And>x g. course (f x g) = course g) \<Longrightarrow> course (fold f xs g) = course g"
  by (induction xs arbitrary: g) auto

lemma course_question_ops [simp]:
  "course (setSub s g) = course g"
  "course (armButton r q g) = course g"
  "course (disarm g) = course g"
  "course (askAnswer i k d q g) = course g"
  "course (showOptions q g) = course g"
  "course (askValidate i x q g) = course g"
  "course (record_outcome o' g) = course g"
  "course (applyOutcome i x b f s' c d g) = course g"
  "course (hiddenScore p x b f s' q g) = course g"
  "course (upd_outcome n fo g) = course g"
  by (simp_all add: setSub_def armButton_def disarm_def askAnswer_def showOptions_def askValidate_def
      record_outcome_def applyOutcome_def hiddenScore_def upd_outcome_def cache_verdict_def
      Let_def split: option.split)

lemma course_more_ops [simp]:
  "course (revert_later n g) = course g"
  "course (default_stakes t q g) = course g"
  by (simp_all add: revert_later_def default_stakes_def course_fold Let_def split: option.split)

lemma track_more_ops [simp]:
  "track (setSub s g) = track g"
  "track (upd_ss fs g) = track g"
  "track (stakeMarkPass i g) = track g"
  by (simp_all add: setSub_def upd_ss_def stakeMarkPass_def)

subsection \<open>The plain calls\<close>

text \<open>
  Most functions leave the course alone and call a function of lower rank. \<open>quiet\<close> excludes the
  targets whose place in the measure depends on their argument.
\<close>

definition quiet :: "jump \<Rightarrow> bool" where
  "quiet j \<longleftrightarrow> fixed_rank j \<and> rank j \<le> 25"

definition goes :: "nat \<Rightarrow> game \<Rightarrow> flow \<Rightarrow> bool" where
  "goes n g x \<longleftrightarrow> course (fst x) = course g \<and> quiet (snd x) \<and> rank (snd x) < n"

lemma goes_pair [simp]: "goes n g (g', j) \<longleftrightarrow> course g' = course g \<and> quiet j \<and> rank j < n"
  by (simp add: goes_def)

lemma quiet_simps [simp]:
  "quiet Ret" "quiet Crash" "quiet (JEndRound r)" "quiet JAfterQuestion" "quiet JProcessAppeals"
  "quiet JAppealFinish" "quiet (JAppealStart a)" "quiet JEndQuestion" "quiet JShowAnswer"
  "quiet JNobodyAnswered" "quiet JHiddenRevealNext" "quiet JHiddenAnsweringDone"
  "quiet JHiddenAnsweringBegin" "quiet JContentFinished" "quiet JShowGroup" "quiet JContentGroupDone"
  "quiet JPlayContent" "quiet JRearm" "quiet (JSecretAfterPrice p)" "quiet JHiddenStakesDone"
  "quiet (JApplyVerdict i x b f s)" "quiet JSecretPriceSelect" "quiet (JSecretRecipientChosen i)"
  "quiet (JStakeWinner i)" "quiet JFinalContinue" "quiet JFinalNextDeleter"
  "quiet JFinalDeleteTimeout" "quiet JFinalPlayLastTheme" "quiet (JFinalAskDelete i)"
  "quiet (JBeginSelection s')" "quiet JStartFinalRound"
  by (simp_all add: quiet_def fixed_rank_def)

lemma quiet_Spin [simp]: "\<not> quiet Spin"
  by (simp add: quiet_def)

lemmas goes_splits = option.split if_split list.split prod.split sum.split

lemma goes_content:
  "goes 21 g (playContent g)" "goes 20 g (showGroup g)" "goes 21 g (contentGroupDone g)"
  "goes 19 g (contentFinished g)" "goes 17 g (nobodyAnswered g)" "goes 22 g (rearm g)"
  by (auto simp: content_defs Let_def split: goes_splits)

lemma goes_answers:
  "goes 23 g (applyVerdict i x b f s g)" "goes 16 g (showAnswer g)"
  by (auto simp: answer_defs Let_def split: goes_splits)

lemma goes_afterQuestion: "goes 11 g (afterQuestion g)"
  by (auto simp: afterQuestion_def Let_def split: goes_splits)

lemma goes_endQuestion: "goes 15 g (endQuestion g)"
  by (auto simp: endQuestion_def Let_def split: goes_splits)

lemma course_secret:
  "course (fst (secretRecipientChosen i g)) = course g" "course (fst (secretPriceSelect g)) = course g"
  by (auto simp: secret_defs Let_def split: goes_splits)

lemma goes_secret:
  assumes "pack_fits (g_pack g)"
  shows "goes 24 g (secretRecipientChosen i g)" "goes 23 g (secretPriceSelect g)"
proof -
  have ends: "secretPriceChoices h q (qp_Price (pq_Params pq)) \<noteq> None"
    if "packQuestion h t i = Some pq" "g_pack h = g_pack g" for h q t i pq
    using packQuestion_choices [OF that(1), of h q] that(2) assms by simp
  have ends': "secretPriceChoices h q (qp_Price (pq_Params pq)) \<noteq> None"
    if "packQuestion (setChooser i r (upd_q f g)) t k = Some pq" for h q t k pq i r f
    using packQuestion_choices [OF that, of h q] assms by simp
  show "goes 24 g (secretRecipientChosen i g)" "goes 23 g (secretPriceSelect g)"
    by (auto simp: secret_defs Let_def split: goes_splits dest: ends ends')
qed

lemma goes_secretAfterPrice: "goes 22 g (secretAfterPrice p g)"
  by (auto simp: secret_defs Let_def split: goes_splits)

lemma goes_reveal_one:
  "course (case reveal_one p q g of Inl h \<Rightarrow> h | Inr h \<Rightarrow> h) = course g"
  by (auto simp: reveal_one_def Let_def split: goes_splits)

lemma reveal_one_course:
  "reveal_one p q g = Inl h \<Longrightarrow> course h = course g" "reveal_one p q g = Inr h \<Longrightarrow> course h = course g"
  using goes_reveal_one [of p q g] by simp_all

lemma goes_reveal_loop: "goes 17 g (reveal_loop n g)"
proof (induction n arbitrary: g)
  case (Suc n)
  show ?case
    using Suc.IH by (auto simp: goes_def split: goes_splits dest!: reveal_one_course)
qed simp

lemma goes_hidden:
  "goes 22 g (hiddenStakesDone g)" "goes 18 g (hiddenAnsweringBegin g)" "goes 18 g (hiddenAnsweringDone g)"
  "goes 17 g (hiddenRevealNext g)"
  by (auto simp: hidden_defs course_fold goes_reveal_loop Let_def split: goes_splits)

lemma goes_stakeWinner: "goes 25 g (stakeWinner i g)"
  by (auto simp: stakeWinner_def Let_def split: goes_splits)

lemma goes_appeals:
  "goes 14 g (appealStart r g)"
  by (auto simp: appealStart_def Let_def course_fold split: goes_splits)

lemma course_appealApply: "appealApply a q g = Some (h, b) \<Longrightarrow> course h = course g"
  by (auto simp: appealApply_def appeal_apply_for_def appeal_apply_against_def Let_def course_fold
      split: option.splits if_splits)

lemma goes_appealFinish: "goes 13 g (appealFinish g)"
  by (auto simp: appealFinish_def Let_def split: goes_splits dest!: course_appealApply)

lemma goes_final:
  "goes 9 g (startFinalRound g)" "goes (Suc 0) g (finalAskDelete i g)"
  by (auto simp: final_defs Let_def course_fold split: goes_splits)

lemma goes_deleter_loop: "goes 7 g (deleter_loop n g)"
proof (induction n arbitrary: g)
  case (Suc n)
  show ?case
    using Suc.IH [of "g\<lparr>st_DeleteStep := Suc (st_DeleteStep g)\<rparr>"]
    by (auto simp: goes_def Let_def split: goes_splits)
qed simp

lemma goes_finalNextDeleter: "goes 7 g (finalNextDeleter g)"
  by (auto simp: finalNextDeleter_def goes_deleter_loop split: goes_splits)

lemma goes_enterRound: "goes 10 g (enterRound g)"
  by (auto simp: enterRound_def Let_def)

subsection \<open>Open cells\<close>

definition theme_count :: "theme_state \<Rightarrow> nat" where
  "theme_count th = (if th_Removed th then 0 else length (filter avail (th_Questions th)))"

lemma length_theme_cells: "length (theme_cells (t, th)) = theme_count th"
proof -
  have "length (filter (\<lambda>(q, c). avail c) (enumerate n xs)) = length (filter avail xs)" for n xs
    by (induction xs arbitrary: n) auto
  then show ?thesis by (simp add: theme_cells_def theme_count_def)
qed

lemma length_open_cells: "length (open_cells tb) = sum_list (map theme_count tb)"
proof -
  have "length (concat (map theme_cells (enumerate n tb))) = sum_list (map theme_count tb)" for n
    by (induction tb arbitrary: n) (auto simp: length_theme_cells)
  then show ?thesis by (simp add: open_cells_def)
qed

lemma in_enumerate_0: "x \<in> set (enumerate 0 xs) \<longleftrightarrow> fst x < length xs \<and> snd x = xs ! fst x"
  by (auto simp: in_set_enumerate_eq)

lemma in_theme_cells:
  "(t', q) \<in> set (theme_cells (t, th)) \<longleftrightarrow>
     t' = t \<and> \<not> th_Removed th \<and> q < length (th_Questions th) \<and> avail (th_Questions th ! q)"
  by (auto simp: theme_cells_def in_set_enumerate_eq image_iff split: prod.splits)

lemma in_open_cells:
  "(t, q) \<in> set (open_cells tb) \<longleftrightarrow>
     t < length tb \<and> \<not> th_Removed (tb ! t) \<and> q < length (th_Questions (tb ! t)) \<and>
     avail (th_Questions (tb ! t) ! q)"
proof -
  have "(t, q) \<in> set (open_cells tb) \<longleftrightarrow>
      (\<exists>i th. (i, th) \<in> set (enumerate 0 tb) \<and> (t, q) \<in> set (theme_cells (i, th)))"
    by (auto simp: open_cells_def)
  then show ?thesis
    by (auto simp: in_theme_cells in_enumerate_0)
qed

lemma in_finalRemaining:
  "t \<in> set (finalRemainingThemes g) \<longleftrightarrow>
     t < length (st_Table g) \<and> \<not> th_Removed (st_Table g ! t) \<and>
     (\<exists>q < length (th_Questions (st_Table g ! t)). avail (th_Questions (st_Table g ! t) ! q))"
proof -
  have ex: "list_ex avail cs \<longleftrightarrow> (\<exists>q < length cs. avail (cs ! q))" for cs
    by (metis in_set_conv_nth list_ex_iff)
  show ?thesis
    by (auto simp: finalRemainingThemes_def in_enumerate_0 image_iff ex)
qed

lemma count_avail_update:
  assumes "q < length cs"
  shows "length (filter avail (cs[q := c])) + (if avail (cs ! q) then 1 else 0) =
    length (filter avail cs) + (if avail c then 1 else 0)"
  using assms
proof (induction cs arbitrary: q)
  case (Cons c0 cs)
  then show ?case by (cases q) auto
qed simp

lemma length_open_cells_update:
  assumes "t < length tb"
  shows "length (open_cells (tb[t := th])) + theme_count (tb ! t) = length (open_cells tb) + theme_count th"
  using sum_list_nat_update_at [OF assms, of theme_count th] by (simp add: length_open_cells)

text \<open>Playing an open cell leaves one open cell less, playing any other cell leaves as many.\<close>

lemma open_cells_play:
  assumes "cell_in_table g t q"
  shows "length (open_cells (st_Table (upd_cell t q (\<lambda>c. c\<lparr>c_Played := True\<rparr>) g))) +
    (if (t, q) \<in> set (open_cells (st_Table g)) then 1 else 0) = length (open_cells (st_Table g))"
proof -
  let ?th = "st_Table g ! t"
  let ?cs = "th_Questions ?th"
  let ?th' = "?th\<lparr>th_Questions := ?cs[q := (?cs ! q)\<lparr>c_Played := True\<rparr>]\<rparr>"
  have t: "t < length (st_Table g)" and q: "q < length ?cs" using assms by (auto simp: cell_in_table_def)
  have "theme_count ?th' + (if (t, q) \<in> set (open_cells (st_Table g)) then 1 else 0) = theme_count ?th"
    using count_avail_update [OF q, of "(?cs ! q)\<lparr>c_Played := True\<rparr>"] t q
    by (auto simp: theme_count_def in_open_cells avail_def)
  then show ?thesis
    using length_open_cells_update [OF t, of ?th'] by (simp add: upd_cell_def)
qed

lemma open_cells_delete:
  assumes "t < length (st_Table g)"
  shows "length (open_cells ((st_Table g)[t := (st_Table g ! t)\<lparr>th_Removed := True\<rparr>])) +
    (if t \<in> set (finalRemainingThemes g) then 1 else 0) \<le> length (open_cells (st_Table g))"
proof -
  let ?th = "st_Table g ! t"
  have "(if t \<in> set (finalRemainingThemes g) then 1 else 0) \<le> theme_count ?th"
  proof (cases "t \<in> set (finalRemainingThemes g)")
    case True
    then have "\<not> th_Removed ?th" and "\<exists>q < length (th_Questions ?th). avail (th_Questions ?th ! q)"
      by (auto simp: in_finalRemaining)
    then have "filter avail (th_Questions ?th) \<noteq> []" and "\<not> th_Removed ?th"
      by (auto simp: filter_empty_conv dest: nth_mem)
    then have "0 < theme_count ?th" by (simp add: theme_count_def)
    then show ?thesis by simp
  qed simp
  moreover have "theme_count (?th\<lparr>th_Removed := True\<rparr>) = 0" by (simp add: theme_count_def)
  ultimately show ?thesis
    using length_open_cells_update [OF assms, of "?th\<lparr>th_Removed := True\<rparr>"] by linarith
qed

lemma keep_first_count: "theme_count (keep_first th first) \<le> theme_count th"
proof -
  have "length (filter avail (map (\<lambda>(q, c). if avail c \<and> q \<noteq> first then c\<lparr>c_Removed := True\<rparr> else c)
    (enumerate n cs))) \<le> length (filter avail cs)" for n cs
  proof (induction cs arbitrary: n)
    case (Cons c cs)
    then show ?case using le_SucI [OF Cons [of "Suc n"]] by (auto simp: avail_def)
  qed simp
  then show ?thesis by (simp add: theme_count_def keep_first_def)
qed

lemma keep_first_cell:
  assumes "q < length (th_Questions th)"
  shows "th_Questions (keep_first th first) ! q =
    (let c = th_Questions th ! q in if avail c \<and> q \<noteq> first then c\<lparr>c_Removed := True\<rparr> else c)"
  using assms by (simp add: keep_first_def nth_enumerate_eq Let_def)

subsection \<open>Every call decreases the measure\<close>

lemma mu_goes:
  assumes "goes (rank j) g (g', j')" and "rank j \<le> 25" and "\<And>i. j \<noteq> JStartRound i"
  shows "(mu j' g', mu j g) \<in> call_order"
proof -
  have c: "course g' = course g" "fixed_rank j'" "rank j' < rank j" "rank j' \<le> 25"
    using assms(1) by (auto simp: quiet_def)
  have "rounds_left j' g' = rounds_left j g"
    using c assms(3) fixed_rankD [OF c(2)] by (simp add: rounds_left_fixed course_def track_def)
  moreover have "cells_left j' g' \<le> cells_left j g"
    using c cells_left_ge [of g j] by (simp add: cells_left_fixed course_def track_def)
  moreover have "queued g' = queued g" using c by (simp add: course_def track_def)
  ultimately show ?thesis using c by (auto simp: mu_def call_order_def bids_left_low)
qed

text \<open>A call that ends, or goes on with a smaller one; in particular it does not spin.\<close>

definition decreases :: "jump \<Rightarrow> game \<Rightarrow> flow \<Rightarrow> bool" where
  "decreases j g x \<longleftrightarrow> (case x of (g', j') \<Rightarrow>
     j' = Ret \<or> j' = Crash \<or> j' \<noteq> Spin \<and> (mu j' g', mu j g) \<in> call_order)"

lemma decreases_goes:
  assumes "goes (rank j) g x" and "rank j \<le> 25" and "\<And>i. j \<noteq> JStartRound i"
  shows "decreases j g x"
  using assms mu_goes by (cases x) (auto simp: decreases_def quiet_def fixed_rank_def)

lemma decreases_startRound: "decreases (JStartRound i) g (startRound i g)"
  by (auto simp: decreases_def startRound_def clear_round_def Let_def mu_def call_order_def
      rounds_left_def split: if_splits)

lemma decreases_endRound: "decreases (JEndRound r) g (endRound r g)"
  by (auto simp: decreases_def endRound_def Let_def mu_def call_order_def rounds_left_def
      cells_left_def queued_def bids_left_def split: if_splits option.split)

text \<open>Going on to an open cell of the same table.\<close>

lemma mu_startQuestion:
  assumes "course g' = course g" and "(t, q) \<in> set (open_cells (st_Table g))"
    and "3 < rank j" and "\<And>i. j \<noteq> JStartRound i"
  shows "(mu (JStartQuestion t q) g', mu j g) \<in> call_order"
proof -
  have "rounds_left (JStartQuestion t q) g' = rounds_left j g"
    using assms by (simp add: rounds_left_fixed course_def track_def)
  moreover have "cells_left (JStartQuestion t q) g' \<le> cells_left j g"
    using assms by (simp add: cells_left_def course_def track_def)
  ultimately show ?thesis
    using assms by (auto simp: mu_def call_order_def course_def track_def bids_left_low)
qed

lemma nextSequentialCell_open:
  "nextSequentialCell g = Some (t, q) \<Longrightarrow> (t, q) \<in> set (open_cells (st_Table g))"
  by (auto simp: nextSequentialCell_def split: list.splits)

lemma nextSequentialCell_cong:
  "st_Table g' = st_Table g \<Longrightarrow> nextSequentialCell g' = nextSequentialCell g"
  by (simp add: nextSequentialCell_def)

lemma decreases_beginSelection: "decreases (JBeginSelection s) g (beginSelection s g)"
proof -
  have "decreases (JBeginSelection s) g (g', JEndRound r)" if "course g' = course g" for g' r
    using that by (intro decreases_goes) auto
  moreover have "decreases (JBeginSelection s) g (g', JStartQuestion t q)"
    if "course g' = course g" "nextSequentialCell g' = Some (t, q)" for g' t q
    using that mu_startQuestion [of g' g t q "JBeginSelection s"] nextSequentialCell_open [of g' t q]
    by (auto simp: decreases_def course_def track_def)
  moreover have "decreases (JBeginSelection s) g (g', Ret)" for g' by (simp add: decreases_def)
  ultimately show ?thesis
    unfolding beginSelection_def Let_def by (auto split: goes_splits)
qed

lemma decreases_finalContinue: "decreases JFinalContinue g (finalContinue g)"
proof -
  have "decreases JFinalContinue g (g', j)" if "course g' = course g" "quiet j" "rank j < 8" for g' j
    using that by (intro decreases_goes) auto
  moreover have "decreases JFinalContinue g (g', JStartQuestion t q)"
    if "course g' = course g" "nextSequentialCell g = Some (t, q)" for g' t q
    using that mu_startQuestion [of g' g t q JFinalContinue] nextSequentialCell_open [of g t q]
    by (auto simp: decreases_def course_def track_def)
  ultimately show ?thesis
    unfolding finalContinue_def by (auto split: goes_splits)
qed

lemma find_index_first: "find_index P xs = Some i \<Longrightarrow> i < length xs \<and> P (xs ! i)"
  by (rule find_index_Some)

lemma decreases_finalPlayLastTheme: "decreases JFinalPlayLastTheme g (finalPlayLastTheme g)"
proof (cases "finalRemainingThemes g")
  case Nil
  then show ?thesis by (auto simp: finalPlayLastTheme_def intro!: decreases_goes)
next
  case (Cons t ts)
  then have t: "t \<in> set (finalRemainingThemes g)" by simp
  let ?th = "st_Table g ! t"
  show ?thesis
  proof (cases "find_index avail (th_Questions ?th)")
    case None
    with Cons show ?thesis by (auto simp: finalPlayLastTheme_def intro!: decreases_goes)
  next
    case (Some first)
    then have f: "first < length (th_Questions ?th)" "avail (th_Questions ?th ! first)"
      by (auto dest: find_index_Some)
    have tl: "t < length (st_Table g)" "\<not> th_Removed ?th" using t by (auto simp: in_finalRemaining)
    let ?g = "g\<lparr>st_Table := (st_Table g)[t := keep_first ?th first]\<rparr>"
    have "(t, first) \<in> set (open_cells (st_Table ?g))"
      using tl f by (simp add: in_open_cells keep_first_cell) (simp add: keep_first_def)
    moreover have "length (open_cells (st_Table ?g)) \<le> length (open_cells (st_Table g))"
      using length_open_cells_update [OF tl(1), of "keep_first ?th first"] keep_first_count [of ?th first]
      by simp
    ultimately show ?thesis
      using Cons Some
      by (auto simp: finalPlayLastTheme_def Let_def decreases_def mu_def call_order_def rounds_left_def
          cells_left_def queued_def bids_left_def split: option.split)
  qed
qed

lemma decreases_finalDelete: "decreases (JFinalDelete t i) g (finalDelete t i g)"
proof (cases "t < length (st_Table g)")
  case True
  with open_cells_delete [OF True] show ?thesis
    by (auto simp: finalDelete_def Let_def decreases_def mu_def call_order_def rounds_left_def cells_left_def)
qed (simp add: finalDelete_def decreases_def)

lemma decreases_finalDeleteTimeout: "decreases JFinalDeleteTimeout g (finalDeleteTimeout g)"
proof -
  have "decreases JFinalDeleteTimeout g (g, JFinalPlayLastTheme)" by (rule decreases_goes) auto
  moreover have "decreases JFinalDeleteTimeout g (g', JFinalDelete t i)"
    if "course g' = course g" "t \<in> set (finalRemainingThemes g)" for g' t i
    using that
    by (auto simp: decreases_def mu_def call_order_def rounds_left_def cells_left_def course_def track_def
        bids_left_def finalRemainingThemes_def split: option.split)
  moreover have "course (snd (randomIndex n g)) = course g" for n
    by (simp add: randomIndex_def)
  ultimately show ?thesis
    by (auto simp: finalDeleteTimeout_def Let_def split: prod.splits)
      (simp_all add: decreases_def, metis nth_mem snd_conv)
qed

lemma decreases_processAppeals: "decreases JProcessAppeals g (processAppeals g)"
  by (auto simp: processAppeals_def Let_def decreases_def mu_def call_order_def rounds_left_def
      cells_left_def queued_def split: goes_splits)

text \<open>The scripts of the question types leave the course alone.\<close>

definition scripted :: "game \<Rightarrow> flow \<Rightarrow> bool" where
  "scripted g x \<longleftrightarrow> track (fst x) = track g \<and> fixed_rank (snd x)"

lemma fixed_rank_simps [simp]:
  "fixed_rank Ret" "fixed_rank Crash" "fixed_rank JPlayContent" "fixed_rank JShowAnswer"
  "fixed_rank (JSecretRecipientChosen i)" "fixed_rank (JStakeAskBid i)" "fixed_rank JHiddenStakesDone"
  by (simp_all add: fixed_rank_def)

lemma scripted_types:
  "scripted g (simpleBegin g)" "scripted g (secretTransfer m g)" "scripted g (noRiskBegin g)"
  "scripted g (customBegin g)" "scripted g (forAllBegin g)"
  by (auto simp: scripted_def content_defs secret_defs hidden_defs Let_def split: goes_splits)

lemma scripted_stakeBegin:
  assumes "table_fits (st_Table g)"
  shows "scripted g (stakeBegin g)"
  using stakeStep_power [OF assms]
  by (auto simp: scripted_def stakeBegin_def open_auction_def Let_def track_fold split: goes_splits)

lemma scripted_stakeAllBegin: "scripted g (stakeAllBegin g)"
proof -
  have "track (fold (\<lambda>p g. if p_Score p \<le> 1 then hiddenStakeSet (p_ID p) 1 g
      else askHiddenStake p g) ps h) = track h" for ps h
    by (rule track_fold) simp
  then show ?thesis
    by (simp add: scripted_def stakeAllBegin_def Let_def track_fold split: option.split)
qed

lemma scripted_cong: "track g' = track g \<Longrightarrow> scripted g' x = scripted g x"
  by (simp add: scripted_def)

lemma scripted_secretBegin:
  assumes "pack_fits (g_pack g)"
  shows "scripted g (secretBegin pub no g)"
proof (cases "st_Question g")
  case (Some q)
  show ?thesis
  proof (cases "packQuestion g (q_ThemeIndex q) (q_QuestionIndex q)")
    case (Some pq)
    let ?c = "if qp_Theme (pq_Params pq) \<noteq> [] then qp_Theme (pq_Params pq) else q_Caption q"
    let ?f = "\<lambda>q. q\<lparr>q_Direct := True, q_SecretPublic := pub, q_NoQuestion := no, q_Caption := ?c\<rparr>"
    obtain cs where cs: "secretPriceChoices (upd_q ?f g) (?f q) (qp_Price (pq_Params pq)) = Some cs"
      using packQuestion_choices [OF Some assms] by blast
    let ?h = "if pub then announceSecretPrice cs (?f q) (upd_q ?f g) else upd_q ?f g"
    have "secretBegin pub no g = secretTransfer (qp_SelectionMode (pq_Params pq)) ?h"
      using \<open>st_Question g = Some q\<close> Some cs
      by (cases pub) (simp_all only: secretBegin_def Let_def option.case if_True if_False)
    moreover have "track ?h = track g" by simp
    ultimately show ?thesis using scripted_types(2) [of ?h] scripted_cong [of ?h g] by simp
  qed (use Some in \<open>simp add: secretBegin_def scripted_def\<close>)
qed (simp add: secretBegin_def scripted_def)

lemma scripted_beginScript:
  "pack_fits (g_pack g) \<Longrightarrow> table_fits (st_Table g) \<Longrightarrow> scripted g (beginScript ty g)"
  by (cases ty) (simp_all add: beginScript_def scripted_types scripted_stakeBegin scripted_stakeAllBegin
      scripted_secretBegin)

text \<open>The prices of the game, of the pack and of the table, fit.\<close>

definition prices_fit :: "game \<Rightarrow> bool" where
  "prices_fit g \<longleftrightarrow> prices_ok (g_pack g) g \<and> pack_fits (g_pack g)"

lemma prices_fit_open: "prices_fit g \<Longrightarrow> prices_fit (open_question t q pq g)"
  using prices_ok_cell [of "\<lambda>c. c\<lparr>c_Played := True\<rparr>" "g_pack g" g t q]
  by (auto simp: prices_fit_def prices_ok_def)

lemma decreases_startQuestion:
  assumes "prices_fit g"
  shows "decreases (JStartQuestion t q) g (startQuestion t q g)"
proof (cases rule: startQuestion_cases [of t q g])
  case 1
  then show ?thesis by (simp add: decreases_def)
next
  case (2 pq ty)
  let ?h = "open_question t q pq g"
  obtain g' j' where g': "beginScript ty ?h = (g', j')" by fastforce
  from prices_fit_open [OF assms] have "pack_fits (g_pack ?h)" "table_fits (st_Table ?h)"
    by (simp_all add: prices_fit_def prices_ok_def)
  from scripted_beginScript [OF this, of ty] g' have s: "track g' = track ?h" and j': "fixed_rank j'"
    by (auto simp: scripted_def)
  have "rounds_left j' g' = rounds_left (JStartQuestion t q) g"
    using s fixed_rankD [OF j'] by (simp add: rounds_left_fixed track_def)
  moreover have "cells_left j' g' < cells_left (JStartQuestion t q) g"
    using s j' open_cells_play [OF 2(2)]
    by (simp add: cells_left_fixed track_def) (auto simp: cells_left_def split: if_splits)
  ultimately show ?thesis using 2(3) g' j' by (auto simp: decreases_def mu_def call_order_def)
qed

subsection \<open>The auction\<close>

lemma stakes_upd_ss [simp]: "stakes (upd_ss f g) = map_option f (stakes g)"
  by (cases "st_Question g") (simp_all add: stakes_def upd_ss_def)

lemma stakes_upd [simp]:
  "stakes (g\<lparr>st_Stage := v0\<rparr>) = stakes g"
  "stakes (g\<lparr>st_RoundIndex := v1\<rparr>) = stakes g"
  "stakes (g\<lparr>st_RoundName := v2\<rparr>) = stakes g"
  "stakes (g\<lparr>st_RoundType := v3\<rparr>) = stakes g"
  "stakes (g\<lparr>st_Table := v4\<rparr>) = stakes g"
  "stakes (g\<lparr>st_ChooserID := v5\<rparr>) = stakes g"
  "stakes (g\<lparr>st_Players := v6\<rparr>) = stakes g"
  "stakes (g\<lparr>st_ShowmanID := v7\<rparr>) = stakes g"
  "stakes (g\<lparr>st_Rules := v8\<rparr>) = stakes g"
  "stakes (g\<lparr>st_Times := v9\<rparr>) = stakes g"
  "stakes (g\<lparr>st_Pending := v11\<rparr>) = stakes g"
  "stakes (g\<lparr>st_Timers := v12\<rparr>) = stakes g"
  "stakes (g\<lparr>st_Paused := v13\<rparr>) = stakes g"
  "stakes (g\<lparr>st_Appeal := v14\<rparr>) = stakes g"
  "stakes (g\<lparr>st_RoundTimedOut := v15\<rparr>) = stakes g"
  "stakes (g\<lparr>st_WaitNext := v16\<rparr>) = stakes g"
  "stakes (g\<lparr>st_FinalGroups := v17\<rparr>) = stakes g"
  "stakes (g\<lparr>st_FinalOffset := v18\<rparr>) = stakes g"
  "stakes (g\<lparr>st_DeleteStep := v19\<rparr>) = stakes g"
  "stakes (g\<lparr>st_DeleterID := v20\<rparr>) = stakes g"
  "stakes (g\<lparr>st_DeleterUsed := v21\<rparr>) = stakes g"
  "stakes (g\<lparr>st_Winner := v22\<rparr>) = stakes g"
  "stakes (g\<lparr>st_QuestionsPlayed := v23\<rparr>) = stakes g"
  "stakes (g\<lparr>st_Ended := v24\<rparr>) = stakes g"
  "stakes (g\<lparr>g_pack := v25\<rparr>) = stakes g"
  "stakes (g\<lparr>g_lib := v26\<rparr>) = stakes g"
  "stakes (g\<lparr>g_rng := v27\<rparr>) = stakes g"
  "stakes (g\<lparr>g_rngLog := v28\<rparr>) = stakes g"
  "stakes (g\<lparr>g_now := v29\<rparr>) = stakes g"
  "stakes (g\<lparr>g_ev := v30\<rparr>) = stakes g"
  "stakes (g\<lparr>g_timerSeq := v31\<rparr>) = stakes g"
  by (simp_all add: stakes_def)

lemma stakes_ops [simp]:
  "stakes (emit aud_emit e_emit g) = stakes g" "stakes (ev_oral e_ev_oral g) = stakes g"
  "stakes (upd_player i_upd_player f_upd_player g) = stakes g"
  "stakes (upd_players f_upd_players g) = stakes g" "stakes (emitStage g) = stakes g"
  "stakes (emitSums g) = stakes g" "stakes (emitPlayers g) = stakes g"
  "stakes (emitTable g) = stakes g"
  "stakes (setPlayerState i_setPlayerState s_setPlayerState g) = stakes g"
  "stakes (addScore i_addScore d_addScore r_addScore g) = stakes g"
  "stakes (setChooser i_setChooser r_setChooser g) = stakes g"
  "stakes (removeTimer i_removeTimer g) = stakes g" "stakes (stopTimer i_stopTimer g) = stakes g"
  "stakes (stopKind k_stopKind g) = stakes g"
  "stakes (stopAllExcept ks_stopAllExcept g) = stakes g"
  "stakes (startTimer k_startTimer d_startTimer p_startTimer g) = stakes g"
  "stakes (upd_timer i_upd_timer f_upd_timer g) = stakes g"
  "stakes (pauseTimer t_pauseTimer g) = stakes g"
  "stakes (resumeTimer t_resumeTimer g) = stakes g" "stakes (pauseAllTimers g) = stakes g"
  "stakes (resumeAllTimers g) = stakes g"
  "stakes (upd_cell t_upd_cell q_upd_cell f_upd_cell g) = stakes g"
  "stakes (askChoose g) = stakes g"
  "stakes (askSelectPlayer k_askSelectPlayer d_askSelectPlayer c_askSelectPlayer g) = stakes g"
  "stakes (pause_kind k_pause_kind g) = stakes g"
  "stakes (resume_kind k_resume_kind g) = stakes g" "stakes (rotateChooser g) = stakes g"
  "stakes (announceSecretPrice cs_announceSecretPrice q_announceSecretPrice g) = stakes g"
  "stakes (hiddenStakeSet i_hiddenStakeSet a_hiddenStakeSet g) = stakes g"
  "stakes (askHiddenStake p_askHiddenStake g) = stakes g"
  "stakes (showmanHint pq_showmanHint g) = stakes g" "stakes (finalBuildOrder g) = stakes g"
  "stakes (final_in t_final_in g) = stakes g" "stakes (thaw g) = stakes g"
  "stakes (undo_outcome o_undo_outcome g) = stakes g"
  by (simp_all add: stakes_def)


lemma player_score_setPlayerState [simp]: "player_score (setPlayerState i s g) j = player_score g j"
  by (auto simp: player_score_def player_setPlayerState split: option.split)

lemma player_score_upd [simp]:
  "player_score (g\<lparr>st_Stage := v0\<rparr>) = player_score g"
  "player_score (g\<lparr>st_RoundIndex := v1\<rparr>) = player_score g"
  "player_score (g\<lparr>st_RoundName := v2\<rparr>) = player_score g"
  "player_score (g\<lparr>st_RoundType := v3\<rparr>) = player_score g"
  "player_score (g\<lparr>st_Table := v4\<rparr>) = player_score g"
  "player_score (g\<lparr>st_ChooserID := v5\<rparr>) = player_score g"
  "player_score (g\<lparr>st_ShowmanID := v7\<rparr>) = player_score g"
  "player_score (g\<lparr>st_Rules := v8\<rparr>) = player_score g"
  "player_score (g\<lparr>st_Times := v9\<rparr>) = player_score g"
  "player_score (g\<lparr>st_Question := v10\<rparr>) = player_score g"
  "player_score (g\<lparr>st_Pending := v11\<rparr>) = player_score g"
  "player_score (g\<lparr>st_Timers := v12\<rparr>) = player_score g"
  "player_score (g\<lparr>st_Paused := v13\<rparr>) = player_score g"
  "player_score (g\<lparr>st_Appeal := v14\<rparr>) = player_score g"
  "player_score (g\<lparr>st_RoundTimedOut := v15\<rparr>) = player_score g"
  "player_score (g\<lparr>st_WaitNext := v16\<rparr>) = player_score g"
  "player_score (g\<lparr>st_FinalGroups := v17\<rparr>) = player_score g"
  "player_score (g\<lparr>st_FinalOffset := v18\<rparr>) = player_score g"
  "player_score (g\<lparr>st_DeleteStep := v19\<rparr>) = player_score g"
  "player_score (g\<lparr>st_DeleterID := v20\<rparr>) = player_score g"
  "player_score (g\<lparr>st_DeleterUsed := v21\<rparr>) = player_score g"
  "player_score (g\<lparr>st_Winner := v22\<rparr>) = player_score g"
  "player_score (g\<lparr>st_QuestionsPlayed := v23\<rparr>) = player_score g"
  "player_score (g\<lparr>st_Ended := v24\<rparr>) = player_score g"
  "player_score (g\<lparr>g_pack := v25\<rparr>) = player_score g"
  "player_score (g\<lparr>g_lib := v26\<rparr>) = player_score g"
  "player_score (g\<lparr>g_rng := v27\<rparr>) = player_score g"
  "player_score (g\<lparr>g_rngLog := v28\<rparr>) = player_score g"
  "player_score (g\<lparr>g_now := v29\<rparr>) = player_score g"
  "player_score (g\<lparr>g_ev := v30\<rparr>) = player_score g"
  "player_score (g\<lparr>g_timerSeq := v31\<rparr>) = player_score g"
  by (simp_all add: player_score_def player_def fun_eq_iff)

lemma player_score_ops [simp]:
  "player_score (emit aud_emit e_emit g) = player_score g"
  "player_score (ev_oral e_ev_oral g) = player_score g"
  "player_score (upd_q f_upd_q g) = player_score g" "player_score (emitStage g) = player_score g"
  "player_score (setSub sub_setSub g) = player_score g"
  "player_score (emitSums g) = player_score g" "player_score (emitPlayers g) = player_score g"
  "player_score (emitTable g) = player_score g"
  "player_score (setChooser i_setChooser r_setChooser g) = player_score g"
  "player_score (removeTimer i_removeTimer g) = player_score g"
  "player_score (stopTimer i_stopTimer g) = player_score g"
  "player_score (stopKind k_stopKind g) = player_score g"
  "player_score (stopAllExcept ks_stopAllExcept g) = player_score g"
  "player_score (startTimer k_startTimer d_startTimer p_startTimer g) = player_score g"
  "player_score (upd_timer i_upd_timer f_upd_timer g) = player_score g"
  "player_score (pauseTimer t_pauseTimer g) = player_score g"
  "player_score (resumeTimer t_resumeTimer g) = player_score g"
  "player_score (pauseAllTimers g) = player_score g"
  "player_score (resumeAllTimers g) = player_score g"
  "player_score (upd_cell t_upd_cell q_upd_cell f_upd_cell g) = player_score g"
  "player_score (askChoose g) = player_score g"
  "player_score (askSelectPlayer k_askSelectPlayer d_askSelectPlayer c_askSelectPlayer g) = player_score g"
  "player_score (armButton r_armButton q_armButton g) = player_score g"
  "player_score (disarm g) = player_score g"
  "player_score (pause_kind k_pause_kind g) = player_score g"
  "player_score (resume_kind k_resume_kind g) = player_score g"
  "player_score (showOptions q_showOptions g) = player_score g"
  "player_score (askValidate i_askValidate x_askValidate q_askValidate g) = player_score g"
  "player_score (record_outcome o_record_outcome g) = player_score g"
  "player_score (rotateChooser g) = player_score g"
  "player_score (announceSecretPrice cs_announceSecretPrice q_announceSecretPrice g) = player_score g"
  "player_score (upd_ss f_upd_ss g) = player_score g"
  "player_score (askHiddenStake p_askHiddenStake g) = player_score g"
  "player_score (showmanHint pq_showmanHint g) = player_score g"
  "player_score (finalBuildOrder g) = player_score g"
  "player_score (upd_outcome i_upd_outcome f_upd_outcome g) = player_score g"
  "player_score (thaw g) = player_score g"
  by (simp_all add: player_score_def player_def fun_eq_iff)


text \<open>Only participants are active in an auction; the engine keeps this.\<close>

definition only_participants :: "string list \<Rightarrow> (string \<times> bool) list \<Rightarrow> bool" where
  "only_participants parts active \<longleftrightarrow>
     list_all (\<lambda>k. mget active k \<longrightarrow> k \<in> set parts) (map fst active)"

definition auction_ok :: "game \<Rightarrow> bool" where
  "auction_ok g \<longleftrightarrow> (case auction g of None \<Rightarrow> True
     | Some (parts, active) \<Rightarrow> only_participants parts active)"

lemma mget_key: "mget m k \<Longrightarrow> k \<in> fst ` set m"
  by (auto simp: mget_def split: option.splits dest: map_of_SomeD intro: rev_image_eqI)

lemma only_participants_iff: "only_participants parts active \<longleftrightarrow> (\<forall>k. mget active k \<longrightarrow> k \<in> set parts)"
  by (auto simp: only_participants_def list_all_iff dest: mget_key)

lemma auction_okD:
  "auction_ok g \<Longrightarrow> stakes g = Some ss \<Longrightarrow> mget (ss_Active ss) k \<Longrightarrow> k \<in> set (ss_Participants ss)"
  by (simp add: auction_ok_def auction_def only_participants_iff)

lemma auction_okI:
  "stakes g = Some ss \<Longrightarrow> (\<And>k. mget (ss_Active ss) k \<Longrightarrow> k \<in> set (ss_Participants ss)) \<Longrightarrow> auction_ok g"
  by (simp add: auction_ok_def auction_def only_participants_iff)

lemma auction_ok_None: "stakes g = None \<Longrightarrow> auction_ok g"
  by (simp add: auction_ok_def auction_def)

lemma auction_ok_course: "course g' = course g \<Longrightarrow> auction_ok g' = auction_ok g"
  by (simp add: auction_ok_def course_def)

text \<open>The bookkeeping of passes.\<close>

definition passed :: "string set \<Rightarrow> stake_state \<Rightarrow> stake_state \<Rightarrow> bool" where
  "passed is ss ss' \<longleftrightarrow>
     ss_Participants ss' = ss_Participants ss \<and> ss_Stake ss' = ss_Stake ss \<and>
     ss_Nominal ss' = ss_Nominal ss \<and> ss_Leader ss' = ss_Leader ss \<and>
     (\<forall>k. mget (ss_Active ss') k \<longleftrightarrow> mget (ss_Active ss) k \<and> k \<notin> is) \<and>
     (\<forall>k. mget (ss_HasBid ss') k \<longleftrightarrow> mget (ss_HasBid ss) k \<or> k \<in> is)"

lemma stakes_setPlayerState [simp]: "stakes (setPlayerState i s g) = stakes g"
  by (simp add: stakes_def)

lemma stakeMarkPass_passed:
  "stakes g = Some ss \<Longrightarrow> \<exists>ss'. stakes (stakeMarkPass i g) = Some ss' \<and> passed {i} ss ss'"
  by (simp add: stakeMarkPass_def passed_def)

lemma player_score_upd_ss [simp]: "player_score (upd_ss f g) = player_score g"
  by (simp add: player_score_def player_def fun_eq_iff)

lemma player_score_stakeMarkPass [simp]: "player_score (stakeMarkPass i g) = player_score g"
  by (simp add: stakeMarkPass_def fun_eq_iff)

lemma stakeMarkPass_fold:
  "stakes g = Some ss \<Longrightarrow>
     \<exists>ss'. stakes (fold stakeMarkPass is g) = Some ss' \<and> passed (set is) ss ss' \<and>
       player_score (fold stakeMarkPass is g) = player_score g \<and>
       track (fold stakeMarkPass is g) = track g"
proof (induction "is" arbitrary: g ss)
  case Nil
  then show ?case by (simp add: passed_def)
next
  case (Cons i "is")
  from stakeMarkPass_passed [OF Cons.prems] obtain ss1
    where 1: "stakes (stakeMarkPass i g) = Some ss1" "passed {i} ss ss1" by blast
  from Cons.IH [OF 1(1)] obtain ss2
    where 2: "stakes (fold stakeMarkPass (i # is) g) = Some ss2" "passed (set is) ss1 ss2"
      "player_score (fold stakeMarkPass (i # is) g) = player_score g"
      "track (fold stakeMarkPass (i # is) g) = track g" by auto
  moreover have "passed (set (i # is)) ss ss2" using 1(2) 2(2) by (auto simp: passed_def)
  ultimately show ?case by blast
qed

lemma passed_ok: "passed is ss ss' \<Longrightarrow> stakes g = Some ss \<Longrightarrow> stakes g' = Some ss' \<Longrightarrow>
  auction_ok g \<Longrightarrow> auction_ok g'"
  by (auto simp: passed_def intro!: auction_okI [of g'] dest: auction_okD)

subsection \<open>The calls of the auction\<close>

lemma mu_auction:
  assumes "track g' = track g" and "bids_left j' g' \<le> bids_left j g"
    and "bids_left j' g' < bids_left j g \<or> rank j' < rank j"
    and "26 \<le> rank j" and "quiet j' \<or> 26 \<le> rank j'"
  shows "(mu j' g', mu j g) \<in> call_order"
proof -
  have f: "fixed_rank j" "fixed_rank j'"
    using assms by (auto simp: quiet_def intro: high_fixed_rank)
  have "rounds_left j' g' = rounds_left j g"
    using assms(1) f by (simp add: rounds_left_fixed fixed_rankD track_def)
  moreover have "cells_left j' g' = cells_left j g"
    using assms(1) f by (simp add: cells_left_fixed track_def)
  moreover have "queued g' = queued g" using assms by (simp add: track_def)
  ultimately show ?thesis using assms by (auto simp: mu_def call_order_def)
qed

lemma bids_left_quiet [simp]: "quiet j \<Longrightarrow> bids_left j g = 0"
  by (simp add: quiet_def bids_left_low)

lemma decreases_stakeAskBid: "decreases (JStakeAskBid i) g (stakeAskBid i g)"
proof (cases "stakes g")
  case None
  then show ?thesis by (simp add: stakeAskBid_def decreases_def)
next
  case ss: (Some ss)
  show ?thesis
  proof (cases "player g i")
    case None
    with ss show ?thesis by (simp add: stakeAskBid_def decreases_def)
  next
    case (Some p)
    let ?f = "\<lambda>ss. ss\<lparr>ss_Current := i, ss_Order := (if \<not> mget (ss_HasBid ss) i \<and> i \<notin> set (ss_Order ss)
      then ss_Order ss @ [i] else ss_Order ss)\<rparr>"
    let ?g = "upd_ss ?f (g\<lparr>st_Pending := None\<rparr>)"
    have sc: "player_score g i = p_Score p" using Some by (simp add: player_score_def)
    have same: "forced_bidders ?g (?f ss) = forced_bidders g ss" "in_auction (?f ss) i = in_auction ss i"
      "forced ?g (?f ss) i = forced g ss i"
      by (simp_all add: forced_bidders_def in_auction_def forced_def)
    have st: "stakes ?g = Some (?f ss)" using ss by simp
    have pass: "decreases (JStakeAskBid i) g (?g, JStakeSetPass i)" if "forced g ss i"
      using same st ss that
      by (auto simp: decreases_def bids_left_def intro!: mu_auction)
    have bid: "decreases (JStakeAskBid i) g (?g, JStakeApply i StakeNominal n)" if "forced g ss i" for n
      using same st ss that
      by (auto simp: decreases_def bids_left_def intro!: mu_auction)
    show ?thesis
    proof (cases "0 < ss_Stake ss \<and> p_Score p \<le> ss_Stake ss")
      case True
      then show ?thesis using ss Some pass sc by (simp add: stakeAskBid_def Let_def forced_def)
    next
      case no_pass: False
      show ?thesis
      proof (cases "ss_Stake ss = 0 \<and> (p_Score p < ss_Nominal ss \<or> length (ss_Participants ss) = 1)")
        case True
        then have "stakeAskBid i g = (?g, JStakeApply i StakeNominal (ss_Nominal ss))"
          using ss Some no_pass by (simp add: stakeAskBid_def Let_def)
        moreover have "forced g ss i" using True sc by (auto simp: forced_def)
        ultimately show ?thesis using bid by simp
      next
        case False
        then have "snd (stakeAskBid i g) = Ret"
          using ss Some no_pass by (simp add: stakeAskBid_def Let_def split: prod.split)
        then show ?thesis by (cases "stakeAskBid i g") (simp add: decreases_def)
      qed
    qed
  qed
qed

lemma passed_forced_le:
  assumes "passed is ss ss'" and "player_score g' = player_score g"
  shows "forced_bidders g' ss' \<le> forced_bidders g ss"
    and "i \<in> is \<Longrightarrow> in_auction ss i \<Longrightarrow> forced g ss i \<Longrightarrow> forced_bidders g' ss' < forced_bidders g ss"
proof -
  have P: "ss_Participants ss' = ss_Participants ss" using assms by (simp add: passed_def)
  have imp: "in_auction ss' k \<and> forced g' ss' k \<Longrightarrow> in_auction ss k \<and> forced g ss k \<and> k \<notin> is" for k
    using assms by (auto simp: passed_def in_auction_def forced_def)
  have le: "length (filter A xs) \<le> length (filter B xs)" if "\<And>x. A x \<Longrightarrow> B x" for A B :: "string \<Rightarrow> bool" and xs
    using that by (induction xs) auto
  have less: "length (filter A xs) < length (filter B xs)"
    if "\<And>x. A x \<Longrightarrow> B x" "i \<in> set xs" "B i" "\<not> A i" for A B :: "string \<Rightarrow> bool" and xs
    using that(2)
  proof (induction xs)
    case (Cons x xs)
    then show ?case using that le [of A B xs] by (auto simp: less_Suc_eq_le)
  qed simp
  show "forced_bidders g' ss' \<le> forced_bidders g ss"
    unfolding forced_bidders_def P by (rule le) (use imp in blast)
  show "forced_bidders g' ss' < forced_bidders g ss"
    if "i \<in> is" "in_auction ss i" "forced g ss i"
  proof -
    have "i \<in> set (ss_Participants ss)" using that by (simp add: in_auction_def)
    then show ?thesis
      unfolding forced_bidders_def P by (intro less) (use imp that in blast)+
  qed
qed

lemma decreases_stakeSetPass: "decreases (JStakeSetPass i) g (stakeSetPass i g)"
proof (cases "stakes g")
  case None
  then show ?thesis by (simp add: stakeSetPass_def decreases_def)
next
  case (Some ss)
  obtain ss' where ss': "stakes (stakeMarkPass i g) = Some ss'" and p: "passed {i} ss ss'"
    using stakeMarkPass_passed [OF Some] by blast
  have n: "length (ss_Participants ss') = length (ss_Participants ss)" using p by (simp add: passed_def)
  have adv: "decreases (JStakeSetPass i) g (h, JStakeAdvance)"
    if "stakes h = Some ss'" "player_score h = player_score g" "track h = track g" for h
  proof -
    have "bids_left JStakeAdvance h < bids_left (JStakeSetPass i) g"
      using that Some passed_forced_le(1) [OF p that(2)] passed_forced_le(2) [OF p that(2), of i]
        forced_bidders_le [of h ss'] n
      by (auto simp: bids_left_def)
    then show ?thesis using that by (auto simp: decreases_def intro!: mu_auction)
  qed
  have win: "decreases (JStakeSetPass i) g (h, JStakeWinner w)" if "track h = track g" for h w
    using that by (auto simp: decreases_def intro!: mu_auction)
  have ret: "decreases (JStakeSetPass i) g (h, Ret)" for h by (simp add: decreases_def)
  have ps: "player_score (stopKind k h) = player_score h" for k h by (simp add: fun_eq_iff)
  show ?thesis
    unfolding stakeSetPass_def Some Let_def option.case using adv win ret ss' ps
    by simp
qed

lemma decreases_stakeApply:
  assumes "auction_ok g"
  shows "decreases (JStakeApply i m a) g (stakeApply i m a g)"
proof (cases "stakes g")
  case None
  then show ?thesis by (simp add: stakeApply_def decreases_def)
next
  case ss: (Some ss)
  show ?thesis
  proof (cases "player g i")
    case None
    with ss show ?thesis by (simp add: stakeApply_def decreases_def)
  next
    case (Some p)
    let ?amt = "bid_amount ss (p_Score p) m a"
    let ?ss1 = "enter_bid i m ?amt ss"
    let ?g1 = "ev_all (EvPersonStake i m ?amt False) (upd_ss (enter_bid i m ?amt) (stopKind TimerStakeMaking g))"
    let ?out = "filter (\<lambda>j. j \<noteq> i \<and> mget (ss_Active ss) j \<and> player_score ?g1 j \<le> ?amt) (ss_Participants ss)"
    have eq: "stakeApply i m a g = (fold stakeMarkPass ?out ?g1, JStakeAdvance)"
      using ss Some by (simp add: stakeApply_def Let_def)
    have st1: "stakes ?g1 = Some ?ss1" using ss by simp
    obtain ss2 where ss2: "stakes (fold stakeMarkPass ?out ?g1) = Some ss2" "passed (set ?out) ?ss1 ss2"
      and sc: "player_score (fold stakeMarkPass ?out ?g1) = player_score ?g1"
      and tr: "track (fold stakeMarkPass ?out ?g1) = track ?g1"
      using stakeMarkPass_fold [OF st1, of ?out] by blast
    let ?g2 = "fold stakeMarkPass ?out ?g1"
    have sc1: "player_score ?g1 = player_score g" by (simp add: fun_eq_iff)
    have P: "ss_Participants ss2 = ss_Participants ss" using ss2(2) by (simp add: passed_def enter_bid_def)
    have "forced_bidders ?g2 ss2 = 0" if m: "m = StakeNominal" and i: "in_auction ss i" "forced g ss i"
    proof -
      have "\<not> (in_auction ss2 k \<and> forced ?g2 ss2 k)" if "k \<in> set (ss_Participants ss)" for k
      proof
        assume k: "in_auction ss2 k \<and> forced ?g2 ss2 k"
        have lead: "ss_Leader ss2 = i" "mget (ss_HasBid ss2) i"
          and vals: "ss_Stake ss2 = ss_Nominal ss" "ss_Nominal ss2 = ss_Nominal ss"
          using ss2(2) m by (auto simp: passed_def enter_bid_def bid_amount_def)
        have ki: "k \<noteq> i" using k lead by (auto simp: in_auction_def)
        have "mget (ss_Active ss2) k" using k by (simp add: in_auction_def)
        then have "mget (ss_Active ss) k" "k \<notin> set ?out"
          using ss2(2) unfolding passed_def by (simp_all add: enter_bid_def)
        then have "ss_Nominal ss < player_score g k"
          using that ki m sc1 by (auto simp: bid_amount_def)
        moreover have "length (ss_Participants ss) \<noteq> 1"
        proof
          assume "length (ss_Participants ss) = 1"
          then obtain x where "ss_Participants ss = [x]" by (cases "ss_Participants ss") auto
          with that i ki show False by (simp add: in_auction_def)
        qed
        ultimately show False using k vals P sc sc1 by (auto simp: forced_def)
      qed
      then show ?thesis by (simp add: forced_bidders_def P filter_empty_conv)
    qed
    moreover have "0 < forced_bidders g ss" if "in_auction ss i" "forced g ss i"
    proof -
      have "i \<in> set (filter (\<lambda>i. in_auction ss i \<and> forced g ss i) (ss_Participants ss))"
        using that by (simp add: in_auction_def)
      then show ?thesis unfolding forced_bidders_def by (metis length_pos_if_in_set)
    qed
    ultimately have "bids_left JStakeAdvance ?g2 < bids_left (JStakeApply i m a) g"
      using ss2(1) ss forced_bidders_le [of ?g2 ss2] P by (auto simp: bids_left_def)
    moreover have "track ?g2 = track g" using tr by simp
    ultimately show ?thesis unfolding eq decreases_def by (auto intro!: mu_auction)
  qed
qed

lemma lowest_loop_subset: "set (lowest_loop out ps) \<subseteq> set out \<union> set ps"
  by (induction out ps rule: lowest_loop.induct) auto

lemma lowest_unbid_in_auction:
  assumes "p \<in> set (lowest_unbid g ss)"
  shows "in_auction ss (p_ID p)"
proof -
  have "p \<in> set (List.map_filter (player g) (filter (\<lambda>j. \<not> mget (ss_HasBid ss) j) (stakeActiveIDs ss)))"
    using assms lowest_loop_subset unfolding lowest_unbid_def by fastforce
  then obtain j where "player g j = Some p" "j \<in> set (stakeActiveIDs ss)" "\<not> mget (ss_HasBid ss) j"
    by (auto simp: List.map_filter_def)
  then show ?thesis by (auto simp: in_auction_def stakeActiveIDs_def dest!: player_ID)
qed

lemma decreases_stakeAdvance:
  assumes "auction_ok g"
  shows "decreases JStakeAdvance g (stakeAdvance g)"
proof (cases "stakes g")
  case None
  then show ?thesis by (simp add: stakeAdvance_def decreases_def)
next
  case (Some ss)
  have plain: "decreases JStakeAdvance g (g, j)" if "quiet j" for j
    using that by (auto simp: decreases_def quiet_def intro!: mu_auction)
  have ask: "decreases JStakeAdvance g (g, JStakeAskBid i)" if "in_auction ss i" for i
    using that Some by (auto simp: decreases_def bids_left_def intro!: mu_auction)
  have next': "in_auction ss j" if "next_in_order ss = Some j" for j
    using that auction_okD [OF assms Some, of j]
    by (auto simp: next_in_order_def Let_def find_Some_iff in_auction_def)
  have ret: "decreases JStakeAdvance g (h, Ret)" for h by (simp add: decreases_def)
  have low: "lowest_unbid g ss = [p] \<Longrightarrow> in_auction ss (p_ID p)" for p
    using lowest_unbid_in_auction [of p g ss] by simp
  show ?thesis
    unfolding stakeAdvance_def Some Let_def option.case
    by (auto simp: plain ask next' ret low split: list.split option.split)
qed

lemma decreases_resolvePending: "decreases (JResolvePending i) g (resolvePending i g)"
proof (cases "st_Pending g")
  case None
  then show ?thesis by (simp add: resolvePending_def decreases_def)
next
  case (Some pd)
  have quiet_ok: "decreases (JResolvePending i) g (h, j)" if "track h = track g" "quiet j" "rank j < 29" for h j
    using that by (auto simp: decreases_def intro!: mu_auction)
  have "decreases (JResolvePending i) g (h, JStakeAskBid i)" if "track h = track g" "stakes h = stakes g" for h
  proof -
    have "bids_left (JStakeAskBid i) h \<le> bids_left (JResolvePending i) g"
      using that by (cases "stakes g")
        (auto simp: bids_left_def intro: le_trans [OF forced_bidders_le])
    then show ?thesis using that by (auto simp: decreases_def intro!: mu_auction)
  qed
  moreover have "decreases (JResolvePending i) g (h, Ret)" for h by (simp add: decreases_def)
  ultimately show ?thesis
    using quiet_ok Some by (cases "pd_Kind pd") (simp_all add: resolvePending_def Let_def)
qed

subsection \<open>Every command returns\<close>

text \<open>The calls of the first group, and the lemma that covers them all.\<close>

definition plain :: "jump \<Rightarrow> bool" where
  "plain j \<longleftrightarrow> (case j of
       Ret \<Rightarrow> False | Crash \<Rightarrow> False | Spin \<Rightarrow> False | JStartRound i \<Rightarrow> False | JEndRound r \<Rightarrow> False
     | JBeginSelection s \<Rightarrow> False | JStartQuestion t q \<Rightarrow> False | JFinalContinue \<Rightarrow> False
     | JFinalPlayLastTheme \<Rightarrow> False | JFinalDelete t i \<Rightarrow> False | JFinalDeleteTimeout \<Rightarrow> False
     | JProcessAppeals \<Rightarrow> False | _ \<Rightarrow> rank j \<le> 25)"

lemma goes_step: "plain j \<Longrightarrow> pack_fits (g_pack g) \<Longrightarrow> goes (rank j) g (step j g)"
  by (cases j) (simp_all add: plain_def step_def goes_content goes_answers goes_afterQuestion
      goes_endQuestion goes_secret goes_secretAfterPrice goes_hidden goes_stakeWinner goes_appeals goes_appealFinish
      goes_final goes_finalNextDeleter goes_enterRound)

text \<open>Whatever the prices, these calls keep the course.\<close>

lemma course_step: "plain j \<Longrightarrow> course (fst (step j g)) = course g"
  using goes_content [of g] goes_answers [of g] goes_afterQuestion [of g] goes_endQuestion [of g]
    goes_secretAfterPrice [of g] goes_hidden [of g] goes_stakeWinner [of g] goes_appeals [of g]
    goes_appealFinish [of g] goes_final [of g] goes_finalNextDeleter [of g] goes_enterRound [of g]
  by (cases j) (simp_all add: plain_def step_def course_secret goes_def)

lemma step_decreases:
  assumes "auction_ok g" and "prices_fit g" and "j \<noteq> Ret" and "j \<noteq> Crash" and "j \<noteq> Spin"
  shows "decreases j g (step j g)"
proof (cases "plain j")
  case True
  then have "rank j \<le> 25" "\<And>i. j \<noteq> JStartRound i" by (auto simp: plain_def split: jump.splits)
  with True assms(2) show ?thesis by (intro decreases_goes goes_step) (simp_all add: prices_fit_def)
next
  case False
  with assms show ?thesis
    by (cases j) (simp_all add: plain_def step_def decreases_startRound decreases_endRound
      decreases_beginSelection decreases_startQuestion decreases_finalContinue
      decreases_finalPlayLastTheme decreases_finalDelete decreases_finalDeleteTimeout
      decreases_processAppeals decreases_stakeAskBid decreases_stakeSetPass decreases_stakeApply
      decreases_stakeAdvance decreases_resolvePending)
qed

text \<open>The engine keeps the auction's participants.\<close>

lemma auction_ok_upd_q:
  "(\<And>q. q_Stakes (f q) = q_Stakes q) \<Longrightarrow> auction_ok (upd_q f g) = auction_ok g"
  by (cases "st_Question g") (simp_all add: auction_ok_def auction_def stakes_def)

lemma auction_ok_upd [simp]:
  "auction_ok (g\<lparr>st_Stage := v0\<rparr>) = auction_ok g"
  "auction_ok (g\<lparr>st_RoundIndex := v1\<rparr>) = auction_ok g"
  "auction_ok (g\<lparr>st_RoundName := v2\<rparr>) = auction_ok g"
  "auction_ok (g\<lparr>st_RoundType := v3\<rparr>) = auction_ok g"
  "auction_ok (g\<lparr>st_Table := v4\<rparr>) = auction_ok g"
  "auction_ok (g\<lparr>st_ChooserID := v5\<rparr>) = auction_ok g"
  "auction_ok (g\<lparr>st_Players := v6\<rparr>) = auction_ok g"
  "auction_ok (g\<lparr>st_ShowmanID := v7\<rparr>) = auction_ok g"
  "auction_ok (g\<lparr>st_Rules := v8\<rparr>) = auction_ok g"
  "auction_ok (g\<lparr>st_Times := v9\<rparr>) = auction_ok g"
  "auction_ok (g\<lparr>st_Pending := v11\<rparr>) = auction_ok g"
  "auction_ok (g\<lparr>st_Timers := v12\<rparr>) = auction_ok g"
  "auction_ok (g\<lparr>st_Paused := v13\<rparr>) = auction_ok g"
  "auction_ok (g\<lparr>st_Appeal := v14\<rparr>) = auction_ok g"
  "auction_ok (g\<lparr>st_RoundTimedOut := v15\<rparr>) = auction_ok g"
  "auction_ok (g\<lparr>st_WaitNext := v16\<rparr>) = auction_ok g"
  "auction_ok (g\<lparr>st_FinalGroups := v17\<rparr>) = auction_ok g"
  "auction_ok (g\<lparr>st_FinalOffset := v18\<rparr>) = auction_ok g"
  "auction_ok (g\<lparr>st_DeleteStep := v19\<rparr>) = auction_ok g"
  "auction_ok (g\<lparr>st_DeleterID := v20\<rparr>) = auction_ok g"
  "auction_ok (g\<lparr>st_DeleterUsed := v21\<rparr>) = auction_ok g"
  "auction_ok (g\<lparr>st_Winner := v22\<rparr>) = auction_ok g"
  "auction_ok (g\<lparr>st_QuestionsPlayed := v23\<rparr>) = auction_ok g"
  "auction_ok (g\<lparr>st_Ended := v24\<rparr>) = auction_ok g"
  "auction_ok (g\<lparr>g_pack := v25\<rparr>) = auction_ok g"
  "auction_ok (g\<lparr>g_lib := v26\<rparr>) = auction_ok g"
  "auction_ok (g\<lparr>g_rng := v27\<rparr>) = auction_ok g"
  "auction_ok (g\<lparr>g_rngLog := v28\<rparr>) = auction_ok g"
  "auction_ok (g\<lparr>g_now := v29\<rparr>) = auction_ok g"
  "auction_ok (g\<lparr>g_ev := v30\<rparr>) = auction_ok g"
  "auction_ok (g\<lparr>g_timerSeq := v31\<rparr>) = auction_ok g"
  by (simp_all add: auction_ok_def auction_def stakes_def)

lemma auction_ok_ops [simp]:
  "auction_ok (emit aud_emit e_emit g) = auction_ok g"
  "auction_ok (ev_oral e_ev_oral g) = auction_ok g"
  "auction_ok (upd_player i_upd_player f_upd_player g) = auction_ok g"
  "auction_ok (upd_players f_upd_players g) = auction_ok g"
  "auction_ok (emitStage g) = auction_ok g" "auction_ok (emitSums g) = auction_ok g"
  "auction_ok (emitPlayers g) = auction_ok g" "auction_ok (emitTable g) = auction_ok g"
  "auction_ok (setPlayerState i_setPlayerState s_setPlayerState g) = auction_ok g"
  "auction_ok (addScore i_addScore d_addScore r_addScore g) = auction_ok g"
  "auction_ok (setChooser i_setChooser r_setChooser g) = auction_ok g"
  "auction_ok (removeTimer i_removeTimer g) = auction_ok g"
  "auction_ok (stopTimer i_stopTimer g) = auction_ok g"
  "auction_ok (stopKind k_stopKind g) = auction_ok g"
  "auction_ok (stopAllExcept ks_stopAllExcept g) = auction_ok g"
  "auction_ok (startTimer k_startTimer d_startTimer p_startTimer g) = auction_ok g"
  "auction_ok (upd_timer i_upd_timer f_upd_timer g) = auction_ok g"
  "auction_ok (pauseTimer t_pauseTimer g) = auction_ok g"
  "auction_ok (resumeTimer t_resumeTimer g) = auction_ok g"
  "auction_ok (pauseAllTimers g) = auction_ok g" "auction_ok (resumeAllTimers g) = auction_ok g"
  "auction_ok (upd_cell t_upd_cell q_upd_cell f_upd_cell g) = auction_ok g"
  "auction_ok (askChoose g) = auction_ok g"
  "auction_ok (askSelectPlayer k_askSelectPlayer d_askSelectPlayer c_askSelectPlayer g) = auction_ok g"
  "auction_ok (pause_kind k_pause_kind g) = auction_ok g"
  "auction_ok (resume_kind k_resume_kind g) = auction_ok g"
  "auction_ok (rotateChooser g) = auction_ok g"
  "auction_ok (announceSecretPrice cs_announceSecretPrice q_announceSecretPrice g) = auction_ok g"
  "auction_ok (hiddenStakeSet i_hiddenStakeSet a_hiddenStakeSet g) = auction_ok g"
  "auction_ok (askHiddenStake p_askHiddenStake g) = auction_ok g"
  "auction_ok (showmanHint pq_showmanHint g) = auction_ok g"
  "auction_ok (finalBuildOrder g) = auction_ok g"
  "auction_ok (final_in t_final_in g) = auction_ok g" "auction_ok (thaw g) = auction_ok g"
  "auction_ok (undo_outcome o_undo_outcome g) = auction_ok g"
  by (simp_all add: auction_ok_def auction_def stakes_def)


lemma auction_ok_setSub [simp]: "auction_ok (setSub s g) = auction_ok g"
  by (simp add: setSub_def auction_ok_upd_q)

lemma auction_ok_fold: "(\<And>x g. auction_ok (f x g) = auction_ok g) \<Longrightarrow> auction_ok (fold f xs g) = auction_ok g"
  by (induction xs arbitrary: g) auto

lemma auction_ok_upd_ss:
  "(\<And>ss. ss_Active (f ss) = ss_Active ss) \<Longrightarrow> (\<And>ss. ss_Participants (f ss) = ss_Participants ss) \<Longrightarrow>
     auction_ok (upd_ss f g) = auction_ok g"
  by (cases "stakes g") (simp_all add: auction_ok_def auction_def)

lemma auction_ok_stakeMarkPass: "auction_ok g \<Longrightarrow> auction_ok (stakeMarkPass i g)"
proof (cases "stakes g")
  case None
  then have "stakes (stakeMarkPass i g) = None" by (simp add: stakeMarkPass_def)
  then show ?thesis by (rule auction_ok_None)
next
  case (Some ss)
  then obtain ss' where "stakes (stakeMarkPass i g) = Some ss'" "passed {i} ss ss'"
    using stakeMarkPass_passed by blast
  with Some show "auction_ok g \<Longrightarrow> ?thesis" using passed_ok by blast
qed

lemma auction_ok_marked: "auction_ok g \<Longrightarrow> auction_ok (fold stakeMarkPass is g)"
  by (induction "is" arbitrary: g) (auto intro: auction_ok_stakeMarkPass)

lemma auction_ok_stake_steps:
  assumes "auction_ok g"
  shows "auction_ok (fst (stakeAskBid i g))" "auction_ok (fst (stakeApply i m a g))"
    "auction_ok (fst (stakeSetPass i g))" "auction_ok (fst (stakeAdvance g))"
    "auction_ok (fst (resolvePending i g))"
  using assms
  by (auto simp: stake_defs round_defs Let_def auction_ok_upd_ss enter_bid_def
      intro: auction_ok_stakeMarkPass auction_ok_marked split: goes_splits pending_kind.split)

lemma auction_ok_new: "st_Question g = Some q \<Longrightarrow> q_Stakes q = None \<Longrightarrow> auction_ok g"
  by (simp add: auction_ok_None stakes_def)

lemma mget_initial: "mget (fold (\<lambda>i. mput i True) is m) k \<longleftrightarrow> k \<in> set is \<or> mget m k"
  by (induction "is" arbitrary: m) auto

lemma auction_ok_begin:
  assumes "st_Question h \<noteq> None" and "\<And>k. mget (ss_Active ss) k \<Longrightarrow> k \<in> set (ss_Participants ss)"
  shows "auction_ok (upd_q (\<lambda>q. q\<lparr>q_Stakes := Some ss\<rparr>) h)"
proof -
  have "stakes (upd_q (\<lambda>q. q\<lparr>q_Stakes := Some ss\<rparr>) h) = Some ss"
    using assms(1) by (auto simp: stakes_def)
  then show ?thesis using assms(2) by (auto intro: auction_okI)
qed

lemma auction_ok_open_auction: "st_Question g \<noteq> None \<Longrightarrow> auction_ok (fst (open_auction stp q g))"
  by (simp add: open_auction_def Let_def)
    (auto simp: mget_initial fold_frame [where F = st_Question] intro!: auction_ok_begin)

lemma auction_ok_stakeBegin: "auction_ok g \<Longrightarrow> auction_ok (fst (stakeBegin g))"
  by (auto simp: stakeBegin_def auction_ok_open_auction split: option.split)

lemma auction_ok_scripts:
  assumes "auction_ok g"
  shows "auction_ok (fst (simpleBegin g))" "auction_ok (fst (noRiskBegin g))"
    "auction_ok (fst (customBegin g))" "auction_ok (fst (forAllBegin g))"
    "auction_ok (fst (secretTransfer m g))"
  using assms
  by (auto simp: content_defs secret_defs hidden_defs Let_def auction_ok_upd_q split: goes_splits)

lemma auction_ok_stakeAllBegin: "auction_ok g \<Longrightarrow> auction_ok (fst (stakeAllBegin g))"
proof -
  have "auction_ok (fold (\<lambda>p g. if p_Score p \<le> 1 then hiddenStakeSet (p_ID p) 1 g
      else askHiddenStake p g) ps h) = auction_ok h" for ps h
    by (rule auction_ok_fold) simp
  then show "auction_ok g \<Longrightarrow> ?thesis"
    by (simp add: stakeAllBegin_def Let_def auction_ok_fold auction_ok_upd_q split: option.split)
qed

lemma auction_ok_secretBegin: "auction_ok g \<Longrightarrow> auction_ok (fst (secretBegin pub no g))"
  unfolding secretBegin_def Let_def
  by (auto simp: auction_ok_upd_q intro!: auction_ok_scripts split: option.split)

lemma auction_ok_beginScript:
  "auction_ok g \<Longrightarrow> st_Question g = Some q \<Longrightarrow> auction_ok (fst (beginScript ty g))"
  by (cases ty) (simp_all add: beginScript_def auction_ok_scripts auction_ok_stakeBegin
      auction_ok_stakeAllBegin auction_ok_secretBegin)

lemma auction_ok_startQuestion: "auction_ok g \<Longrightarrow> auction_ok (fst (startQuestion t q g))"
proof (cases rule: startQuestion_cases [of t q g])
  case (2 pq ty)
  have "auction_ok (open_question t q pq g)"
    using auction_ok_new [OF open_question_fields(2)]
    by (simp add: asked_question_def new_question_def Let_def)
  then show ?thesis using 2(3) by (simp add: auction_ok_beginScript)
qed simp

lemma auction_ok_rounds:
  assumes "auction_ok g"
  shows "auction_ok (fst (startRound i g))" "auction_ok (fst (endRound r g))"
    "auction_ok (fst (beginSelection s g))" "auction_ok (fst (finalContinue g))"
    "auction_ok (fst (finalPlayLastTheme g))" "auction_ok (fst (finalDelete t w g))"
    "auction_ok (fst (finalDeleteTimeout g))" "auction_ok (fst (processAppeals g))"
proof -
  have "auction_ok (h\<lparr>st_Question := None\<rparr>)" for h
    by (rule auction_ok_None) (simp add: stakes_def)
  then show "auction_ok (fst (startRound i g))"
    by (simp add: startRound_def clear_round_def Let_def endGame_def)
  show "auction_ok (fst (endRound r g))" "auction_ok (fst (finalDelete t w g))"
    "auction_ok (fst (finalContinue g))"
    using assms by (auto simp: endRound_def finalDelete_def finalContinue_def Let_def split: goes_splits)
  show "auction_ok (fst (beginSelection s g))"
    using assms by (auto simp: beginSelection_def Let_def split: goes_splits)
  show "auction_ok (fst (finalPlayLastTheme g))" "auction_ok (fst (processAppeals g))"
    using assms by (auto simp: finalPlayLastTheme_def processAppeals_def Let_def auction_ok_upd_q
        split: goes_splits)
  show "auction_ok (fst (finalDeleteTimeout g))"
    using assms by (auto simp: finalDeleteTimeout_def randomIndex_def Let_def split: goes_splits)
qed

lemma auction_ok_step:
  assumes "auction_ok g"
  shows "auction_ok (fst (step j g))"
proof (cases "plain j")
  case True
  from auction_ok_course [OF course_step [OF this]] assms show ?thesis by simp
next
  case False
  with assms show ?thesis
    by (cases j) (simp_all add: plain_def step_def auction_ok_rounds auction_ok_stake_steps
        auction_ok_startQuestion)
qed

text \<open>The table keeps its prices.\<close>

lemma prices_ok_track: "track g' = track g \<Longrightarrow> prices_ok pk g' = prices_ok pk g"
  by (simp add: track_def prices_ok_def)

lemma track_beginScript: "track (fst (beginScript ty g)) = track g"
proof -
  have "track (fst (stakeBegin g)) = track g"
    by (auto simp: stakeBegin_def open_auction_def Let_def track_fold split: goes_splits)
  moreover have "track (fst (secretBegin pub no g)) = track g" for pub no
  proof -
    have "track (fst (secretTransfer m h)) = track h" for m h
      using scripted_types(2) [of h m] by (simp add: scripted_def)
    then show ?thesis by (simp add: secretBegin_def Let_def split: option.split)
  qed
  ultimately show ?thesis
    using scripted_types [of g] scripted_stakeAllBegin [of g]
    by (cases ty) (simp_all add: beginScript_def scripted_def)
qed

lemma prices_ok_step:
  assumes "prices_ok pk g"
  shows "prices_ok pk (fst (step j g))"
proof (cases "plain j")
  case True
  from course_step [OF this, of g] have "track (fst (step j g)) = track g" by (simp add: course_def)
  from prices_ok_track [OF this] assms show ?thesis by simp
next
  case False
  have start: "prices_ok pk (fst (startQuestion t q g))" for t q
  proof (cases rule: startQuestion_cases [of t q g])
    case (2 pq ty)
    have "prices_ok pk (open_question t q pq g)"
      using prices_ok_cell [of "\<lambda>c. c\<lparr>c_Played := True\<rparr>" pk g t q] assms by (simp add: prices_ok_def)
    then show ?thesis using 2(3) prices_ok_track [OF track_beginScript] by simp
  qed (simp add: assms)
  have "prices_ok pk (fst (endRound r g))" "prices_ok pk (fst (beginSelection s g))" "prices_ok pk (fst (finalContinue g))"
    "prices_ok pk (fst (finalDeleteTimeout g))" "prices_ok pk (fst (processAppeals g))"
    "prices_ok pk (fst (stakeAskBid i g))" "prices_ok pk (fst (stakeApply i m a g))"
    "prices_ok pk (fst (stakeSetPass i g))" "prices_ok pk (fst (stakeAdvance g))"
    "prices_ok pk (fst (resolvePending i g))" for r s i m a
    using assms
    by (auto simp: round_defs finalContinue_def finalDeleteTimeout_def processAppeals_def stake_defs
        randomIndex_def prices_ok_fold Let_def split: goes_splits pending_kind.split)
  with False show ?thesis
    by (cases j) (simp_all add: plain_def step_def assms prices_ok_startRound prices_ok_finals start)
qed

interpretation prices: engine_invariant "prices_ok pk" for pk
  by unfold_locales (auto simp: begin_cmd_def prices_ok_dispatch prices_ok_step)

lemma run_total:
  assumes "auction_ok g" and "prices_fit g" and "j \<noteq> Spin"
  shows "\<exists>h. run j g = Some h"
  using assms
proof (induction "mu j g" arbitrary: j g rule: wf_induct_rule [OF wf_call_order])
  case 1
  show ?case
  proof (cases "j = Ret \<or> j = Crash")
    case False
    obtain g' j' where s: "step j g = (g', j')" by fastforce
    have ok: "auction_ok g'" using auction_ok_step [OF "1.prems"(1), of j] s by simp
    have fit: "prices_fit g'"
      using "1.prems"(2) prices_ok_step [of "g_pack g" g j] s by (auto simp: prices_fit_def prices_ok_def)
    have d: "j' = Ret \<or> j' = Crash \<or> j' \<noteq> Spin \<and> (mu j' g', mu j g) \<in> call_order"
      using step_decreases [OF "1.prems"(1,2), of j] "1.prems"(3) False s by (auto simp: decreases_def)
    have "\<exists>h. run j' g' = Some h" using d "1.hyps" [of j' g'] ok fit by auto
    then show ?thesis using False s by (simp add: run_step)
  qed auto
qed

subsection \<open>The handlers keep the participants\<close>

lemma auction_ok_hidden_timeout [simp]: "auction_ok (fst (hiddenStakesTimeout g)) = auction_ok g"
  by (simp add: hiddenStakesTimeout_def default_stakes_def auction_ok_fold split: option.split)

lemma auction_ok_random_pick: "random_pick xs g = Some (x, g') \<Longrightarrow> auction_ok g' = auction_ok g"
  by (auto simp: random_pick_def randomIndex_def split: if_splits)

lemma auction_ok_timer_fired: "auction_ok g \<Longrightarrow> auction_ok (fst (timer_fired k g))"
  by (cases k) (auto simp: timer_fired_def randomCell_def randomIndex_def onShowmanDecisionTimeout_def
      playerSelectionTimeout_def stakeTimeout_def answerTimeout_def Let_def auction_ok_random_pick
      split: goes_splits)

lemma auction_ok_timeout: "auction_ok g \<Longrightarrow> auction_ok (result_game (onTimeout cmd g))"
  by (auto simp: onTimeout_def auction_ok_timer_fired split: option.split)

lemma auction_ok_controls:
  assumes "auction_ok g"
  shows "auction_ok (result_game (onStart cmd g))" "auction_ok (result_game (onPause cmd g))"
    "auction_ok (result_game (onNext cmd g))" "auction_ok (result_game (onToggle cmd g))"
    "auction_ok (result_game (onChangeScore cmd g))" "auction_ok (result_game (onSetChooser cmd g))"
    "auction_ok (result_game (onSetOptions cmd g))" "auction_ok (result_game (onPlayerReady cmd g))"
    "auction_ok (result_game (onAISuggestion cmd g))" "auction_ok (result_game (onPlayerJoined cmd g))"
  using assms
  by (auto simp: onStart_def onPause_def onNext_def onToggle_def onChangeScore_def onSetChooser_def
      onSetOptions_def onPlayerReady_def onAISuggestion_def onPlayerJoined_def Let_def auction_ok_upd_q
      split: goes_splits)

lemma auction_ok_undo [simp]: "auction_ok (fold undo_outcome os g) = auction_ok g"
  by (rule auction_ok_fold) simp

lemma auction_ok_returned: "auction_ok (fst (returnQuestionToTable g))" if "auction_ok g"
proof -
  have none: "auction_ok (h\<lparr>st_Question := None\<rparr>)" for h
    by (rule auction_ok_None) (simp add: stakes_def)
  then show ?thesis
    using that by (auto simp: returnQuestionToTable_def Let_def disarm_def auction_ok_upd_q split: goes_splits)
qed

lemma auction_ok_playerGone: "auction_ok g \<Longrightarrow> auction_ok (fst (playerGone i g))"
  by (auto simp: playerGone_def auction_ok_upd_q split: goes_splits)

lemma auction_ok_disarm [simp]: "auction_ok (disarm g) = auction_ok g"
  by (simp add: disarm_def auction_ok_upd_q split: option.split)

lemma auction_ok_ask_ops [simp]:
  "auction_ok (askAnswer i k d q g) = auction_ok g"
  "auction_ok (askValidate i x q g) = auction_ok g"
  "auction_ok (applyOutcome i x b f s c d g) = auction_ok g"
  "auction_ok (hiddenScore p x b f s q g) = auction_ok g"
  by (simp_all add: askAnswer_def askValidate_def applyOutcome_def hiddenScore_def cache_verdict_def
      record_outcome_def Let_def auction_ok_upd_q)

interpretation auction_walk: game_predicate auction_ok .

lemma auction_ok_moves:
  assumes "auction_ok g"
  shows "auction_ok (result_game (onMove cmd g))" "auction_ok (result_game (onKick cmd g))"
    "auction_ok (result_game (onPlayerLeft cmd g))" "auction_ok (result_game (onMediaCompleted cmd g))"
    "auction_ok (result_game (onButtonResult cmd g))"
  unfolding onMove_def onKick_def onPlayerLeft_def onMediaCompleted_def onButtonResult_def
    move_forward_def abortQuestionToAnswer_def stage_case_if
  by (intro auction_walk.walk auction_ok_returned auction_ok_playerGone;
      simp add: assms auction_ok_upd_q)+

lemma auction_ok_play:
  assumes "auction_ok g"
  shows "auction_ok (result_game (onSelectPlayer cmd g))" "auction_ok (result_game (onChooseQuestion cmd g))"
    "auction_ok (result_game (onPass cmd g))" "auction_ok (result_game (onAnswerDraft cmd g))"
    "auction_ok (result_game (onDeleteTheme cmd g))" "auction_ok (result_game (onVoteAppeal cmd g))"
  unfolding onSelectPlayer_def onChooseQuestion_def onPass_def pass_bid_def pass_button_def
    onAnswerDraft_def onDeleteTheme_def onVoteAppeal_def
  by (intro auction_walk.walk; simp add: assms auction_ok_upd_q)+

lemma auction_ok_answers:
  assumes "auction_ok g"
  shows 
    "auction_ok (result_game (onAnswer cmd g))" "auction_ok (result_game (onValidate cmd g))"
    "auction_ok (result_game (onSetStake cmd g))"
  unfolding  onAnswer_def answer_open_def answer_hidden_def
    onValidate_def validate_hidden_def validate_open_def processSingleAnswer_def
    onSetStake_def price_select_def hiddenSetStake_def set_bid_def 
  by (intro auction_walk.walk; simp add: assms auction_ok_upd_q)+

lemma auction_ok_appellate:
  assumes "auction_ok g"
  shows 
     "auction_ok (result_game (onAppellate cmd g))"
  unfolding onAppellate_def
  by (intro auction_walk.walk; simp add: assms auction_ok_upd_q)

interpretation auction: engine_invariant auction_ok
proof unfold_locales
  fix g cmd
  assume ok: "auction_ok g"
  then show "auction_ok (begin_cmd cmd g)" by (simp add: begin_cmd_def)
  show "auction_ok (result_game (dispatch cmd g))"
    by (rule result_dispatch [where I = auction_ok, OF ok]) (simp_all add: handlers_def ok auction_ok_timeout auction_ok_controls
        auction_ok_moves auction_ok_play auction_ok_answers auction_ok_appellate)
qed (simp_all add: auction_ok_step)

lemma auction_ok_New: "New lib rng pack rules tms players sm = Inr g \<Longrightarrow> auction_ok g"
  by (auto simp: New_def new_state_def game_state.extend_def stakes_def Let_def
      intro!: auction_ok_None split: option.splits if_splits)

lemma reachable_auction_ok: "reachable g \<Longrightarrow> auction_ok g"
  by (rule auction.reachable_keeps) (auto intro: auction_ok_New)

text \<open>No handler spins by itself.\<close>

definition no_spin :: "result \<Rightarrow> bool" where
  "no_spin r \<longleftrightarrow> (\<forall>g j. r = Go g j \<longrightarrow> j \<noteq> Spin)"

definition flows_on :: "flow \<Rightarrow> bool" where
  "flows_on x \<longleftrightarrow> snd x \<noteq> Spin"

lemma no_spin_intros:
  "no_spin (Fail e g)"
  "j \<noteq> Spin \<Longrightarrow> no_spin (Go g j)"
  "flows_on x \<Longrightarrow> no_spin (go_on x)"
  "no_spin r \<Longrightarrow> no_spin r' \<Longrightarrow> no_spin (if b then r else r')"
  "no_spin r \<Longrightarrow> (\<And>v. no_spin (f v)) \<Longrightarrow> no_spin (case_option r f m)"
  "(\<And>v. no_spin (fl v)) \<Longrightarrow> (\<And>v. no_spin (fr v)) \<Longrightarrow> no_spin (case_sum fl fr s)"
  "(\<And>v w. no_spin (fp v w)) \<Longrightarrow> no_spin (case_prod fp pr)"
  "(\<And>v. no_spin (l v)) \<Longrightarrow> no_spin (Let x l)"
  by (auto simp: no_spin_def flows_on_def go_on_def Let_def split: option.split sum.split prod.split)

lemma flows_on_parts:
  "flows_on (playerGone i g)" "flows_on (returnQuestionToTable g)" "flows_on (abortQuestionToAnswer g)"
  "flows_on (processSingleAnswer i x g)"
  by (auto simp: flows_on_def playerGone_def returnQuestionToTable_def abortQuestionToAnswer_def
      processSingleAnswer_def Let_def split: goes_splits)

lemma flows_on_timer_fired: "flows_on (timer_fired k g)"
  unfolding flows_on_def
  by (cases k) (simp_all add: timer_fired_def onShowmanDecisionTimeout_def playerSelectionTimeout_def
      stakeTimeout_def answerTimeout_def hiddenStakesTimeout_def Let_def split: goes_splits)

lemmas acting_defs =
  onTimeout_def onButtonResult_def onMediaCompleted_def onPlayerLeft_def onPlayerJoined_def
  onAISuggestion_def onStart_def onPlayerReady_def onPause_def onMove_def move_forward_def onToggle_def
  onChangeScore_def onSetChooser_def onSetOptions_def onKick_def onNext_def onChooseQuestion_def onPass_def
  pass_bid_def pass_button_def onAnswer_def answer_open_def answer_hidden_def onAnswerDraft_def
  onValidate_def validate_hidden_def validate_open_def onSelectPlayer_def onSetStake_def
  price_select_def hiddenSetStake_def set_bid_def onDeleteTheme_def onAppellate_def onVoteAppeal_def

lemma dispatch_no_spin: "no_spin (dispatch cmd g)"
  by (cases "cmd_Type cmd"; simp only: dispatch_def cmd_type.case Let_def acting_defs stage_case_if
      cmd_type.distinct simp_thms; intro no_spin_intros flows_on_parts flows_on_timer_fired; simp)

lemma Apply_returns:
  assumes "auction_ok g" and "prices_fit g"
  shows "\<exists>r. Apply cmd g = Some r"
proof (cases "dispatch cmd (begin_cmd cmd g)")
  case (Go g' j)
  have "auction_ok g'"
    using auction.dispatch_keeps [OF auction.begin_cmd [OF assms(1)], of cmd cmd] Go by simp
  moreover have "prices_fit g'"
    using prices.dispatch_keeps [OF prices.begin_cmd, of "g_pack g" g cmd cmd] assms(2) Go
    by (auto simp: prices_fit_def prices_ok_def)
  ultimately show ?thesis
    using run_total [of g' j] dispatch_no_spin [of cmd "begin_cmd cmd g"] Go by (auto simp: Apply_def no_spin_def)
qed (simp add: Apply_def)

lemma reachable_prices_ok: "reachable g \<Longrightarrow> prices_ok (g_pack g) g"
proof (induction rule: reachable.induct)
  case (start lib rng pack rules tms players showmanID g)
  then show ?case by (rule prices_ok_New)
next
  case (returned g cmd ev g')
  from prices.Apply_keeps [OF returned(2) returned(3)] show ?case by (simp add: prices_ok_def)
next
  case (refused g cmd e g')
  from prices.Apply_keeps [OF refused(2) refused(3)] show ?case by (simp add: prices_ok_def)
qed

subsection \<open>The property\<close>



end
