(* ===== verification/Engine_Timing.thy ===== *)
theory Engine_Timing
  imports Engine_Demo
begin

text \<open>
  Timers over the life of a game. Every operation of the engine keeps the timer list in order, and
  a timer that was stopped or has fired never comes back.
\<close>

subsection \<open>Every operation keeps the timers in order\<close>

text \<open>
  \<open>since S n\<close>: the list is in order, and every timer in it is one of \<open>S\<close> or was started after the
  first \<open>n\<close> ones.
\<close>

definition later_than :: "nat \<Rightarrow> string \<Rightarrow> bool" where
  "later_than n i \<longleftrightarrow> (\<exists>k m. n < m \<and> i = timer_id k m)"

definition since :: "string set \<Rightarrow> nat \<Rightarrow> game \<Rightarrow> bool" where
  "since S n g \<longleftrightarrow> timers_ok g \<and> n \<le> g_timerSeq g \<and>
     (\<forall>t \<in> set (st_Timers g). t_ID t \<in> S \<or> later_than n (t_ID t))"

lemma timers_ok_upd [simp]:
  "timers_ok (g\<lparr>st_Stage := v0\<rparr>) = timers_ok g"
  "timers_ok (g\<lparr>st_RoundIndex := v1\<rparr>) = timers_ok g"
  "timers_ok (g\<lparr>st_RoundName := v2\<rparr>) = timers_ok g"
  "timers_ok (g\<lparr>st_RoundType := v3\<rparr>) = timers_ok g"
  "timers_ok (g\<lparr>st_Table := v4\<rparr>) = timers_ok g"
  "timers_ok (g\<lparr>st_ChooserID := v5\<rparr>) = timers_ok g"
  "timers_ok (g\<lparr>st_Players := v6\<rparr>) = timers_ok g"
  "timers_ok (g\<lparr>st_ShowmanID := v7\<rparr>) = timers_ok g"
  "timers_ok (g\<lparr>st_Rules := v8\<rparr>) = timers_ok g"
  "timers_ok (g\<lparr>st_Times := v9\<rparr>) = timers_ok g"
  "timers_ok (g\<lparr>st_Question := v10\<rparr>) = timers_ok g"
  "timers_ok (g\<lparr>st_Pending := v11\<rparr>) = timers_ok g"
  "timers_ok (g\<lparr>st_Paused := v13\<rparr>) = timers_ok g"
  "timers_ok (g\<lparr>st_Appeal := v14\<rparr>) = timers_ok g"
  "timers_ok (g\<lparr>st_RoundTimedOut := v15\<rparr>) = timers_ok g"
  "timers_ok (g\<lparr>st_WaitNext := v16\<rparr>) = timers_ok g"
  "timers_ok (g\<lparr>st_FinalGroups := v17\<rparr>) = timers_ok g"
  "timers_ok (g\<lparr>st_FinalOffset := v18\<rparr>) = timers_ok g"
  "timers_ok (g\<lparr>st_DeleteStep := v19\<rparr>) = timers_ok g"
  "timers_ok (g\<lparr>st_DeleterID := v20\<rparr>) = timers_ok g"
  "timers_ok (g\<lparr>st_DeleterUsed := v21\<rparr>) = timers_ok g"
  "timers_ok (g\<lparr>st_Winner := v22\<rparr>) = timers_ok g"
  "timers_ok (g\<lparr>st_QuestionsPlayed := v23\<rparr>) = timers_ok g"
  "timers_ok (g\<lparr>st_Ended := v24\<rparr>) = timers_ok g"
  "timers_ok (g\<lparr>g_pack := v25\<rparr>) = timers_ok g"
  "timers_ok (g\<lparr>g_lib := v26\<rparr>) = timers_ok g"
  "timers_ok (g\<lparr>g_rng := v27\<rparr>) = timers_ok g"
  "timers_ok (g\<lparr>g_rngLog := v28\<rparr>) = timers_ok g"
  "timers_ok (g\<lparr>g_now := v29\<rparr>) = timers_ok g"
  "timers_ok (g\<lparr>g_ev := v30\<rparr>) = timers_ok g"
  by (simp_all add: timers_ok_def)

lemma timers_ok_ops [simp]:
  "timers_ok (emit aud_emit e_emit g) = timers_ok g"
  "timers_ok (ev_oral e_ev_oral g) = timers_ok g"
  "timers_ok (upd_player i_upd_player f_upd_player g) = timers_ok g"
  "timers_ok (upd_players f_upd_players g) = timers_ok g"
  "timers_ok (upd_q f_upd_q g) = timers_ok g" "timers_ok (emitStage g) = timers_ok g"
  "timers_ok (setSub sub_setSub g) = timers_ok g" "timers_ok (emitSums g) = timers_ok g"
  "timers_ok (emitPlayers g) = timers_ok g" "timers_ok (emitTable g) = timers_ok g"
  "timers_ok (setPlayerState i_setPlayerState s_setPlayerState g) = timers_ok g"
  "timers_ok (addScore i_addScore d_addScore r_addScore g) = timers_ok g"
  "timers_ok (setChooser i_setChooser r_setChooser g) = timers_ok g"
  "timers_ok (upd_cell t_upd_cell q_upd_cell f_upd_cell g) = timers_ok g"
  "timers_ok (disarm g) = timers_ok g" "timers_ok (showOptions q_showOptions g) = timers_ok g"
  "timers_ok (record_outcome o_record_outcome g) = timers_ok g"
  "timers_ok (applyOutcome i_applyOutcome x_applyOutcome r_applyOutcome f_applyOutcome s_applyOutcome a_applyOutcome b_applyOutcome g) = timers_ok g"
  "timers_ok (rotateChooser g) = timers_ok g"
  "timers_ok (announceSecretPrice cs_announceSecretPrice q_announceSecretPrice g) = timers_ok g"
  "timers_ok (upd_ss f_upd_ss g) = timers_ok g"
  "timers_ok (stakeMarkPass i_stakeMarkPass g) = timers_ok g"
  "timers_ok (hiddenStakeSet i_hiddenStakeSet a_hiddenStakeSet g) = timers_ok g"
  "timers_ok (askHiddenStake p_askHiddenStake g) = timers_ok g"
  "timers_ok (hiddenScore p_hiddenScore a_hiddenScore r_hiddenScore f_hiddenScore s_hiddenScore q_hiddenScore g) = timers_ok g"
  "timers_ok (showmanHint pq_showmanHint g) = timers_ok g"
  "timers_ok (open_question t_open_question q_open_question pq_open_question g) = timers_ok g"
  "timers_ok (finalBuildOrder g) = timers_ok g" "timers_ok (final_in t_final_in g) = timers_ok g"
  "timers_ok (upd_outcome i_upd_outcome f_upd_outcome g) = timers_ok g"
  "timers_ok (revert_later i_revert_later g) = timers_ok g"
  "timers_ok (appeal_apply_for a_appeal_apply_for q_appeal_apply_for p_appeal_apply_for o_appeal_apply_for g) = timers_ok g"
  "timers_ok (appeal_apply_against q_appeal_apply_against p_appeal_apply_against o_appeal_apply_against g) = timers_ok g"
  "timers_ok (undo_outcome o_undo_outcome g) = timers_ok g"
  by (simp_all add: timers_ok_def)

lemma since_upd [simp]:
  "since S n (g\<lparr>st_Stage := v0\<rparr>) = since S n g"
  "since S n (g\<lparr>st_RoundIndex := v1\<rparr>) = since S n g"
  "since S n (g\<lparr>st_RoundName := v2\<rparr>) = since S n g"
  "since S n (g\<lparr>st_RoundType := v3\<rparr>) = since S n g"
  "since S n (g\<lparr>st_Table := v4\<rparr>) = since S n g"
  "since S n (g\<lparr>st_ChooserID := v5\<rparr>) = since S n g"
  "since S n (g\<lparr>st_Players := v6\<rparr>) = since S n g"
  "since S n (g\<lparr>st_ShowmanID := v7\<rparr>) = since S n g"
  "since S n (g\<lparr>st_Rules := v8\<rparr>) = since S n g"
  "since S n (g\<lparr>st_Times := v9\<rparr>) = since S n g"
  "since S n (g\<lparr>st_Question := v10\<rparr>) = since S n g"
  "since S n (g\<lparr>st_Pending := v11\<rparr>) = since S n g"
  "since S n (g\<lparr>st_Paused := v13\<rparr>) = since S n g"
  "since S n (g\<lparr>st_Appeal := v14\<rparr>) = since S n g"
  "since S n (g\<lparr>st_RoundTimedOut := v15\<rparr>) = since S n g"
  "since S n (g\<lparr>st_WaitNext := v16\<rparr>) = since S n g"
  "since S n (g\<lparr>st_FinalGroups := v17\<rparr>) = since S n g"
  "since S n (g\<lparr>st_FinalOffset := v18\<rparr>) = since S n g"
  "since S n (g\<lparr>st_DeleteStep := v19\<rparr>) = since S n g"
  "since S n (g\<lparr>st_DeleterID := v20\<rparr>) = since S n g"
  "since S n (g\<lparr>st_DeleterUsed := v21\<rparr>) = since S n g"
  "since S n (g\<lparr>st_Winner := v22\<rparr>) = since S n g"
  "since S n (g\<lparr>st_QuestionsPlayed := v23\<rparr>) = since S n g"
  "since S n (g\<lparr>st_Ended := v24\<rparr>) = since S n g"
  "since S n (g\<lparr>g_pack := v25\<rparr>) = since S n g"
  "since S n (g\<lparr>g_lib := v26\<rparr>) = since S n g"
  "since S n (g\<lparr>g_rng := v27\<rparr>) = since S n g"
  "since S n (g\<lparr>g_rngLog := v28\<rparr>) = since S n g"
  "since S n (g\<lparr>g_now := v29\<rparr>) = since S n g"
  "since S n (g\<lparr>g_ev := v30\<rparr>) = since S n g"
  by (simp_all add: since_def)

lemma since_ops [simp]:
  "since S n (emit aud_emit e_emit g) = since S n g"
  "since S n (ev_oral e_ev_oral g) = since S n g"
  "since S n (upd_player i_upd_player f_upd_player g) = since S n g"
  "since S n (upd_players f_upd_players g) = since S n g"
  "since S n (upd_q f_upd_q g) = since S n g" "since S n (emitStage g) = since S n g"
  "since S n (setSub sub_setSub g) = since S n g" "since S n (emitSums g) = since S n g"
  "since S n (emitPlayers g) = since S n g" "since S n (emitTable g) = since S n g"
  "since S n (setPlayerState i_setPlayerState s_setPlayerState g) = since S n g"
  "since S n (addScore i_addScore d_addScore r_addScore g) = since S n g"
  "since S n (setChooser i_setChooser r_setChooser g) = since S n g"
  "since S n (upd_cell t_upd_cell q_upd_cell f_upd_cell g) = since S n g"
  "since S n (disarm g) = since S n g" "since S n (showOptions q_showOptions g) = since S n g"
  "since S n (record_outcome o_record_outcome g) = since S n g"
  "since S n (applyOutcome i_applyOutcome x_applyOutcome r_applyOutcome f_applyOutcome s_applyOutcome a_applyOutcome b_applyOutcome g) = since S n g"
  "since S n (rotateChooser g) = since S n g"
  "since S n (announceSecretPrice cs_announceSecretPrice q_announceSecretPrice g) = since S n g"
  "since S n (upd_ss f_upd_ss g) = since S n g"
  "since S n (stakeMarkPass i_stakeMarkPass g) = since S n g"
  "since S n (hiddenStakeSet i_hiddenStakeSet a_hiddenStakeSet g) = since S n g"
  "since S n (askHiddenStake p_askHiddenStake g) = since S n g"
  "since S n (hiddenScore p_hiddenScore a_hiddenScore r_hiddenScore f_hiddenScore s_hiddenScore q_hiddenScore g) = since S n g"
  "since S n (showmanHint pq_showmanHint g) = since S n g"
  "since S n (open_question t_open_question q_open_question pq_open_question g) = since S n g"
  "since S n (finalBuildOrder g) = since S n g" "since S n (final_in t_final_in g) = since S n g"
  "since S n (upd_outcome i_upd_outcome f_upd_outcome g) = since S n g"
  "since S n (revert_later i_revert_later g) = since S n g"
  "since S n (appeal_apply_for a_appeal_apply_for q_appeal_apply_for p_appeal_apply_for o_appeal_apply_for g) = since S n g"
  "since S n (appeal_apply_against q_appeal_apply_against p_appeal_apply_against o_appeal_apply_against g) = since S n g"
  "since S n (undo_outcome o_undo_outcome g) = since S n g"
  by (simp_all add: since_def)


lemma since_iff: "since S n g \<longleftrightarrow> timers_ok g \<and> n \<le> g_timerSeq g \<and>
    (\<forall>i \<in> t_ID ` set (st_Timers g). i \<in> S \<or> later_than n i)"
  by (auto simp: since_def)

lemma since_fewer:
  assumes "since S n g" and "timers_ok g'" and "g_timerSeq g' = g_timerSeq g"
    and "t_ID ` set (st_Timers g') \<subseteq> t_ID ` set (st_Timers g)"
  shows "since S n g'"
proof -
  have "i \<in> S \<or> later_than n i" if "i \<in> t_ID ` set (st_Timers g')" for i
    using assms(1) subsetD [OF assms(4) that] unfolding since_iff by (elim conjE) (erule bspec)
  moreover have "n \<le> g_timerSeq g'" using assms(1,3) by (simp add: since_def)
  ultimately show ?thesis using assms(2) by (simp add: since_iff)
qed

lemma since_timers_ok: "since S n g \<Longrightarrow> timers_ok g"
  by (simp add: since_def)

lemma since_removeTimer [kept]:
  assumes "since S n g"
  shows "since S n (removeTimer i g)"
proof -
  have "timers_ok (removeTimer i g)" using assms by (intro kept since_timers_ok)
  then show ?thesis
    by (rule since_fewer [OF assms])
      (use set_remove_timer [of i "st_Timers g"] in \<open>auto simp: removeTimer_def\<close>)
qed

lemma since_stopTimer [kept]: "since S n g \<Longrightarrow> since S n (stopTimer i g)"
  by (auto simp: stopTimer_def split: option.split intro: kept)

lemma since_stopKind [kept]: "since S n g \<Longrightarrow> since S n (stopKind k g)"
  by (auto simp: stopKind_def split: option.split intro: kept)

lemma since_stopAllExcept [kept]: "since S n g \<Longrightarrow> since S n (stopAllExcept ks g)"
  unfolding stopAllExcept_def by (rule fold_keeps) (auto intro: kept)

lemma since_startTimer [kept]:
  assumes "since S n g"
  shows "since S n (startTimer k d p g)"
proof -
  have old: "since S n (stopKind k g)" using assms by (rule kept)
  have new: "later_than n (timer_id k (Suc (g_timerSeq g)))"
    using assms unfolding since_def later_than_def by (metis less_Suc_eq_le)
  have "timers_ok (startTimer k d p g)" using assms by (intro kept since_timers_ok)
  moreover have "g_timerSeq (startTimer k d p g) = Suc (g_timerSeq g)"
    by (simp add: startTimer_def Let_def)
  moreover have "t_ID ` set (st_Timers (startTimer k d p g)) =
      insert (timer_id k (Suc (g_timerSeq g))) (t_ID ` set (st_Timers (stopKind k g)))"
    by (simp add: startTimer_def Let_def)
  ultimately show ?thesis
    using old new by (simp add: since_iff)
qed

lemma since_upd_timer:
  assumes "since S n g" and "\<And>t. t_ID (f t) = t_ID t" and "\<And>t. t_Kind (f t) = t_Kind t"
  shows "since S n (upd_timer i f g)"
proof -
  have "timers_ok (upd_timer i f g)" by (rule timers_ok_upd_timer) (use assms in \<open>auto intro: since_timers_ok\<close>)
  then show ?thesis
    by (rule since_fewer [OF assms(1)]) (use assms(2) in \<open>auto simp: upd_timer_def\<close>)
qed

lemma since_pauseTimer [kept]: "since S n g \<Longrightarrow> since S n (pauseTimer t g)"
  by (auto simp: pauseTimer_def freeze_def intro!: since_upd_timer)

lemma since_resumeTimer [kept]: "since S n g \<Longrightarrow> since S n (resumeTimer t g)"
  by (auto simp: resumeTimer_def unpause_def intro!: since_upd_timer)

lemma since_pauseAll [kept]: "since S n g \<Longrightarrow> since S n (pauseAllTimers g)"
  unfolding pauseAllTimers_def by (rule fold_keeps) (auto intro!: since_upd_timer)

lemma since_resumeAll [kept]: "since S n g \<Longrightarrow> since S n (resumeAllTimers g)"
  unfolding resumeAllTimers_def by (rule fold_keeps) (auto intro: kept)

interpretation timer_walk: game_predicate "since S n" for S n .

lemma since_default_stakes [kept]: "since S n g \<Longrightarrow> since S n (default_stakes t q g)"
  by (simp add: since_def timers_ok_def)

lemma since_composite [kept]:
  assumes "since S n g"
  shows "since S n (askChoose g)" "since S n (askSelectPlayer k d c g)" "since S n (armButton r q g)"
    "since S n (askAnswer i k' d' q g)" "since S n (askValidate i x q g)" "since S n (pause_kind k' g)"
    "since S n (resume_kind k' g)"
  using assms
  by (auto simp: askChoose_def askSelectPlayer_def armButton_def askAnswer_def askValidate_def
      pause_kind_def resume_kind_def Let_def split: option.split intro: kept)

lemma since_thaw [kept]: "since S n g \<Longrightarrow> since S n (thaw g)"
  unfolding thaw_def by (intro timer_walk.walk) (auto intro!: kept since_upd_timer)

lemma since_reveal: "since S n g \<Longrightarrow> timer_walk.either_ok S n (reveal_one p q g)"
  unfolding reveal_one_def by (intro timer_walk.walk; simp add: kept)

lemma since_reveal_loop: "since S n g \<Longrightarrow> since S n (fst (reveal_loop k g))"
proof (induction k arbitrary: g)
  case (Suc k)
  show ?case
    unfolding reveal_loop.simps
    by (intro timer_walk.walk Suc.IH since_reveal; simp add: Suc.prems)
qed simp

lemma since_deleter_loop: "since S n g \<Longrightarrow> since S n (fst (deleter_loop k g))"
proof (induction k arbitrary: g)
  case (Suc k)
  show ?case
    unfolding deleter_loop.simps
    by (intro timer_walk.walk Suc.IH; simp add: Suc.prems kept)
qed simp

lemma since_appealApply: "since S n g \<Longrightarrow> timer_walk.some_first_ok S n (appealApply a q g)"
  unfolding appealApply_def by (intro timer_walk.walk; simp)

lemma since_randomIndex: "since S n g \<Longrightarrow> timer_walk.second_ok S n (randomIndex k g)"
  unfolding randomIndex_def by (intro timer_walk.walk; simp)

lemma since_script: "since S n g \<Longrightarrow> since S n (fst (beginScript ty g))"
  unfolding beginScript_def
  by (cases ty; simp only: question_type.case simpleBegin_def stakeBegin_def open_auction_def secretBegin_def
      secretTransfer_def noRiskBegin_def customBegin_def forAllBegin_def stakeAllBegin_def;
      intro timer_walk.walk; simp add: kept)

lemma since_step: "since S n g \<Longrightarrow> since S n (fst (step j g))"
  by (cases j; simp only: step_def jump.case flow_defs startQuestion_def clear_round_def endGame_def
      pending_case_if;
      intro timer_walk.walk since_reveal_loop since_deleter_loop since_appealApply
        since_randomIndex since_script; simp add: kept)

lemma since_picks:
  assumes "since S n g"
  shows "timer_walk.some_second_ok S n (random_pick xs g)" "timer_walk.some_second_ok S n (randomCell g)"
  using assms
  by (auto simp: random_pick_def randomCell_def randomIndex_def timer_walk.some_second_ok_def
      Let_def)

lemma since_timer_fired: "since S n g \<Longrightarrow> since S n (fst (timer_fired k g))"
  by (cases k; simp only: timer_fired_def timer_kind.case onShowmanDecisionTimeout_def
      playerSelectionTimeout_def answerTimeout_def stakeTimeout_def hiddenStakesTimeout_def
      processSingleAnswer_def;
      intro timer_walk.walk since_picks; simp add: kept)

lemma since_timeout: "since S n g \<Longrightarrow> since S n (result_game (onTimeout cmd g))"
  unfolding onTimeout_def by (intro timer_walk.walk since_timer_fired; simp add: kept)

lemma since_controls:
  assumes "since S n g"
  shows "since S n (result_game (onStart cmd g))" "since S n (result_game (onPause cmd g))"
    "since S n (result_game (onNext cmd g))" "since S n (result_game (onToggle cmd g))"
    "since S n (result_game (onChangeScore cmd g))" "since S n (result_game (onSetChooser cmd g))"
    "since S n (result_game (onSetOptions cmd g))" "since S n (result_game (onPlayerReady cmd g))"
    "since S n (result_game (onAISuggestion cmd g))" "since S n (result_game (onPlayerJoined cmd g))"
  unfolding onStart_def onPause_def onNext_def onToggle_def onChangeScore_def onSetChooser_def
    onSetOptions_def onPlayerReady_def onAISuggestion_def onPlayerJoined_def
  by (intro timer_walk.walk; simp add: assms kept)+

lemma since_returned: "since S n g \<Longrightarrow> since S n (fst (returnQuestionToTable g))"
  unfolding returnQuestionToTable_def by (intro timer_walk.walk; simp add: kept)

lemma since_playerGone: "since S n g \<Longrightarrow> since S n (fst (playerGone i g))"
  unfolding playerGone_def by (intro timer_walk.walk; simp add: kept)

lemma since_moves:
  assumes "since S n g"
  shows "since S n (result_game (onMove cmd g))" "since S n (result_game (onKick cmd g))"
    "since S n (result_game (onPlayerLeft cmd g))" "since S n (result_game (onMediaCompleted cmd g))"
    "since S n (result_game (onButtonResult cmd g))"
  unfolding onMove_def onKick_def onPlayerLeft_def onMediaCompleted_def onButtonResult_def
    move_forward_def abortQuestionToAnswer_def stage_case_if
  by (intro timer_walk.walk since_returned since_playerGone; simp add: assms kept)+

lemma since_play:
  assumes "since S n g"
  shows "since S n (result_game (onSelectPlayer cmd g))" "since S n (result_game (onChooseQuestion cmd g))"
    "since S n (result_game (onPass cmd g))" "since S n (result_game (onAnswerDraft cmd g))"
    "since S n (result_game (onDeleteTheme cmd g))" "since S n (result_game (onVoteAppeal cmd g))"
    "since S n (result_game (onAppellate cmd g))"
  unfolding onSelectPlayer_def onChooseQuestion_def onPass_def pass_bid_def pass_button_def
    onAnswerDraft_def onDeleteTheme_def onVoteAppeal_def onAppellate_def
  by (intro timer_walk.walk; simp add: assms kept)+

lemma since_answers:
  assumes "since S n g"
  shows "since S n (result_game (onAnswer cmd g))" "since S n (result_game (onValidate cmd g))"
    "since S n (result_game (onSetStake cmd g))"
  unfolding  onAnswer_def answer_open_def answer_hidden_def
    onValidate_def validate_hidden_def validate_open_def processSingleAnswer_def
    onSetStake_def price_select_def hiddenSetStake_def set_bid_def
  by (intro timer_walk.walk; simp add: assms kept)+

interpretation timers: engine_invariant "since S n" for S n
proof unfold_locales
  fix g cmd
  assume ok: "since S n g"
  then show "since S n (begin_cmd cmd g)" by (simp add: begin_cmd_def)
  show "since S n (result_game (dispatch cmd g))"
    by (rule result_dispatch [where I = "since S n", OF ok]) (simp_all add: handlers_def ok since_timeout
        since_controls since_moves since_play since_answers)
qed (simp_all add: since_step)

lemma since_New: "New lib rng pack rules tms players sm = Inr g \<Longrightarrow> since S 0 g"
  by (auto simp: New_def new_state_def game_state.extend_def Let_def since_def timers_ok_def
      split: option.splits if_splits)

lemma reachable_timers_ok: "reachable g \<Longrightarrow> timers_ok g"
  by (rule since_timers_ok [where S = "{}"], rule timers.reachable_keeps) (auto intro: since_New)

lemma since_now: "timers_ok g \<Longrightarrow> since (t_ID ` set (st_Timers g)) (g_timerSeq g) g"
  by (simp add: since_def)

subsection \<open>A pause costs no time\<close>

lemma fold_upd_timers:
  assumes step: "\<And>t g. st_Timers (h t g) = (if c t then st_Timers (upd_timer (t_ID t) (f (g_now g)) g) else st_Timers g)"
    and now: "\<And>t g. g_now (h t g) = g_now g"
    and ids: "\<And>n t. t_ID (f n t) = t_ID t"
    and distinct: "distinct (map t_ID ts)"
  shows "st_Timers (fold h ts g) =
    map (\<lambda>u. if \<exists>t \<in> set ts. t_ID t = t_ID u \<and> c t then f (g_now g) u else u) (st_Timers g)"
  using distinct
proof (induction ts arbitrary: g)
  case (Cons t ts)
  have "\<forall>u \<in> set ts. t_ID u \<noteq> t_ID t" using Cons.prems by (auto simp: image_def)
  then show ?case
    using Cons by (auto simp: step now ids upd_timer_def)
qed simp

lemma pauseAll_timers:
  assumes "timers_ok g"
  shows "st_Timers (pauseAllTimers g) =
    map (\<lambda>t. if t_Paused t then t else t\<lparr>t_RemainingMs := remaining (g_now g) t, t_Paused := True\<rparr>) (st_Timers g)"
proof -
  have same: "t = u" if "t \<in> set (st_Timers g)" "u \<in> set (st_Timers g)" "t_ID t = t_ID u" for t u
    using assms that by (auto simp: timers_ok_def distinct_map dest: inj_onD)
  have "st_Timers (pauseAllTimers g) = map (\<lambda>u. if \<exists>t \<in> set (st_Timers g). t_ID t = t_ID u \<and> \<not> t_Paused t
      then u\<lparr>t_RemainingMs := remaining (g_now g) u, t_Paused := True\<rparr> else u) (st_Timers g)"
    unfolding pauseAllTimers_def
    by (rule fold_upd_timers [where f = "\<lambda>n t. t\<lparr>t_RemainingMs := remaining n t, t_Paused := True\<rparr>"])
      (use assms in \<open>auto simp: timers_ok_def upd_timer_def\<close>)
  also have "\<dots> = map (\<lambda>t. if t_Paused t then t
      else t\<lparr>t_RemainingMs := remaining (g_now g) t, t_Paused := True\<rparr>) (st_Timers g)"
    by (rule map_cong) (auto dest: same)
  finally show ?thesis .
qed

lemma resumeAll_timers:
  assumes "timers_ok g"
  shows "st_Timers (resumeAllTimers g) =
    map (\<lambda>t. if t_Paused t \<and> \<not> t_Frozen t then unpause (g_now g) t else t) (st_Timers g)"
proof -
  have same: "t = u" if "t \<in> set (st_Timers g)" "u \<in> set (st_Timers g)" "t_ID t = t_ID u" for t u
    using assms that by (auto simp: timers_ok_def distinct_map dest: inj_onD)
  have "st_Timers (resumeAllTimers g) = map (\<lambda>u. if \<exists>t \<in> set (st_Timers g). t_ID t = t_ID u \<and>
      (t_Paused t \<and> \<not> t_Frozen t) then unpause (g_now g) u else u) (st_Timers g)"
    unfolding resumeAllTimers_def
    by (rule fold_upd_timers [where f = unpause])
      (use assms in \<open>auto simp: timers_ok_def upd_timer_def resumeTimer_def unpause_def\<close>)
  also have "\<dots> = map (\<lambda>t. if t_Paused t \<and> \<not> t_Frozen t then unpause (g_now g) t else t) (st_Timers g)"
    by (rule map_cong) (auto dest: same)
  finally show ?thesis .
qed

text \<open>What a successful pause and a successful resume do.\<close>

lemma Apply_pause:
  assumes "cmd_Type cmd = CmdShowmanPause" and "Apply cmd g = Some (Events ev g')"
    and "cmd_On cmd \<noteq> st_Paused g" and "timers_ok g"
  shows "st_Paused g' = cmd_On cmd \<and> st_Ended g = st_Ended g' \<and> timers_ok g' \<and>
    st_Timers g' = (if cmd_On cmd then
       map (\<lambda>t. if t_Paused t then t else t\<lparr>t_RemainingMs := remaining (cmd_AtMs cmd) t, t_Paused := True\<rparr>) (st_Timers g)
     else map (\<lambda>t. if t_Paused t \<and> \<not> t_Frozen t then unpause (cmd_AtMs cmd) t else t) (st_Timers g))"
  using assms
  by (auto simp: Apply_def dispatch_def onPause_def begin_cmd_def finish_def pauseAll_timers resumeAll_timers Let_def kept
      split: if_splits)

lemma pause_resume_remaining:
  assumes "\<not> t_Paused t" and "0 \<le> d"
  shows "remaining (t2 + d) (unpause t2 (t\<lparr>t_RemainingMs := remaining t1 t, t_Paused := True\<rparr>)) =
    max 0 (remaining t1 t - d)"
proof -
  have "0 \<le> remaining t1 t" using assms(1) by (simp add: remaining_def Let_def)
  then show ?thesis using assms(2) by (simp add: remaining_def unpause_def Let_def)
qed

text \<open>The commands that play the game, as opposed to those that run it.\<close>

definition playing_commands :: "cmd_type set" where
  "playing_commands = {CmdChooseQuestion, CmdPass, CmdAnswer, CmdAnswerDraft, CmdValidate, CmdSelectPlayer,
     CmdSetStake, CmdDeleteTheme, CmdAppellate, CmdVoteAppeal}"

subsection \<open>The properties\<close>

text \<open>C2 (invariant). In every reachable game at most one timer of a kind exists, no two
  timers share an identifier, and every identifier carries a number already handed out.\<close>

theorem one_timer_of_a_kind:
  "reachable g \<Longrightarrow> distinct (map t_Kind (st_Timers g)) \<and> distinct (map t_ID (st_Timers g)) \<and>
     list_all (\<lambda>t. \<exists>m \<le> g_timerSeq g. t_ID t = timer_id (t_Kind t) m) (st_Timers g)"
  using reachable_timers_ok [of g] by (simp add: timers_ok_def issued_def list_all_iff)

theorem one_timer_of_a_kind_witness: "distinct (map t_Kind (st_Timers demo_selecting))"
  by (rule one_timer_of_a_kind [OF reachable_selecting, THEN conjunct1])

text \<open>C3 (safety). A timer that was stopped or has fired is gone for good: no later command
  brings its identifier back, so a report of its expiry that arrives late changes nothing but the clock
  (in a finished game it is refused).\<close>

theorem timer_gone_for_good:
  assumes "reachable g" and "leads_to g g'" and "m \<le> g_timerSeq g" and "findTimer g (timer_id k m) = None"
    and "cmd_Type cmd = CmdTimeout" and "requireSystem (cmd_Actor cmd)" and "cmd_TimerID cmd = timer_id k m"
  shows "Apply cmd g' = Some (if st_Ended g' then Error ErrBadState (begin_cmd cmd g')
    else Events [] (begin_cmd cmd g'))"
proof -
  have ok: "timers_ok g" using assms(1) by (rule reachable_timers_ok)
  have "since (t_ID ` set (st_Timers g)) (g_timerSeq g) g'"
    by (rule timers.leads_to_keeps [OF assms(2) since_now [OF ok]])
  moreover have "timer_id k m \<notin> t_ID ` set (st_Timers g)"
    using assms(4) by (auto simp: findTimer_def find_None_iff)
  moreover have "\<not> later_than (g_timerSeq g) (timer_id k m)"
    using assms(3) by (auto simp: later_than_def dest: timer_id_inject)
  ultimately have "\<forall>t \<in> set (st_Timers g'). t_ID t \<noteq> timer_id k m" unfolding since_def by metis
  then have "findTimer (begin_cmd cmd g') (timer_id k m) = None"
    by (simp add: findTimer_def find_None_iff begin_cmd_def)
  then show ?thesis
    using assms(5-7) by (simp add: Apply_def dispatch_def onTimeout_def finish_def begin_cmd_def)
qed

theorem timer_gone_for_good_witness:
  "Apply (fired TimerShowmanDecision 1) demo_selecting =
     Some (Events [] (begin_cmd (fired TimerShowmanDecision 1) demo_selecting))"
proof -
  have "Option.is_none (findTimer demo_selecting (timer_id TimerShowmanDecision 1)) \<and>
      1 \<le> g_timerSeq demo_selecting \<and> \<not> st_Ended demo_selecting"
    by code_simp
  moreover have "requireSystem (cmd_Actor (fired TimerShowmanDecision 1))" by code_simp
  ultimately show ?thesis
    using timer_gone_for_good [OF reachable_selecting leads_to.none, of 1 TimerShowmanDecision
      "fired TimerShowmanDecision 1"]
    by (simp add: Option.is_none_def fired_def by_room_def command_of_def split: option.splits)
qed

text \<open>C4 (safety). While the game is paused nothing the players do and no timer
  changes it: the playing commands are refused; a media report is dropped, whoever sends it (the clients of the
  players or the room); expired timers and button results are dropped when the room reports them and refused
  from anybody else. Only the clock is set.\<close>

theorem paused_game_stands_still:
  assumes "st_Paused g" and "\<not> st_Ended g"
  shows "(cmd_Type cmd \<in> playing_commands \<longrightarrow> Apply cmd g = Some (Error ErrBadState (begin_cmd cmd g))) \<and>
    (cmd_Type cmd = CmdMediaCompleted \<longrightarrow> Apply cmd g = Some (Events [] (begin_cmd cmd g))) \<and>
    (cmd_Type cmd \<in> {CmdTimeout, CmdButtonResult} \<longrightarrow>
       Apply cmd g = Some (if requireSystem (cmd_Actor cmd) then Events [] (begin_cmd cmd g)
         else Error ErrNotAllowed (begin_cmd cmd g)))"
  using assms
  by (auto simp: playing_commands_def Apply_def dispatch_def begin_cmd_def onTimeout_def onButtonResult_def
      onMediaCompleted_def finish_def split: option.split)

text \<open>A question with a picture of unknown length: the engine waits for the players' reports.\<close>

definition picture_pack :: pack where
  "picture_pack = pack_of [demo_round RoundStandard [demo_theme ''A''
     [(demo_question ''a'' 100 QSimple None)\<lparr>pq_Params := (pq_Params (demo_question ''a'' 100 QSimple None))
        \<lparr>qp_Question := [(demo_item [])\<lparr>ci_Type := ContentVideo, ci_MediaID := ''m'', ci_DurationMs := 0\<rparr>]\<rparr>\<rparr>]]]"

definition waiting_for_media :: "command list" where
  "waiting_for_media = demo_opening @ [by_player CmdChooseQuestion ''A'',
     (by_showman CmdShowmanPause)\<lparr>cmd_On := True\<rparr>]"

theorem paused_game_stands_still_witness:
  "\<exists>g q. played picture_pack DefaultRules waiting_for_media = Some g \<and> st_Question g = Some q \<and>
     q_AwaitingMediaIDs q \<and> Apply (by_player CmdMediaCompleted ''A'') g =
       Some (Events [] (begin_cmd (by_player CmdMediaCompleted ''A'') g)) \<and>
     Apply (by_player CmdPass ''A'') g = Some (Error ErrBadState (begin_cmd (by_player CmdPass ''A'') g))"
proof -
  have "case played picture_pack DefaultRules waiting_for_media of None \<Rightarrow> False
    | Some g \<Rightarrow> st_Paused g \<and> \<not> st_Ended g \<and>
        (case st_Question g of None \<Rightarrow> False | Some q \<Rightarrow> q_AwaitingMediaIDs q)"
    by code_simp
  then obtain g q where g: "played picture_pack DefaultRules waiting_for_media = Some g" "st_Paused g"
    "\<not> st_Ended g" "st_Question g = Some q" "q_AwaitingMediaIDs q"
    by (auto split: option.splits)
  show ?thesis
    using paused_game_stands_still [OF g(2,3), of "by_player CmdMediaCompleted ''A''"]
      paused_game_stands_still [OF g(2,3), of "by_player CmdPass ''A''"] g
    by (simp add: playing_commands_def by_player_def command_of_def)
qed

text \<open>C5 (functional). A pause from \<open>t1\<close> to \<open>t2\<close> keeps every running timer and costs it no
  time: \<open>d\<close> milliseconds after the game goes on it has what it had at \<open>t1\<close>, less \<open>d\<close>. Timers an appeal has frozen
  stay frozen.\<close>

theorem pause_costs_no_time:
  assumes "reachable g" and "\<not> st_Paused g"
    and "cmd_Type on = CmdShowmanPause" and "cmd_On on" and "Apply on g = Some (Events ev g1)"
    and "cmd_Type off = CmdShowmanPause" and "\<not> cmd_On off" and "Apply off g1 = Some (Events ev' g2)"
    and "t \<in> set (st_Timers g)" and "0 \<le> d"
  shows "\<exists>t' \<in> set (st_Timers g2). t_ID t' = t_ID t \<and> t_Kind t' = t_Kind t \<and>
    (if t_Frozen t then t_Frozen t'
     else \<not> t_Paused t \<longrightarrow> remaining (cmd_AtMs off + d) t' = max 0 (remaining (cmd_AtMs on) t - d))"
proof -
  let ?f = "\<lambda>t. if t_Paused t then t else t\<lparr>t_RemainingMs := remaining (cmd_AtMs on) t, t_Paused := True\<rparr>"
  let ?h = "\<lambda>t. if t_Paused t \<and> \<not> t_Frozen t then unpause (cmd_AtMs off) t else t"
  have "timers_ok g" using assms(1) by (rule reachable_timers_ok)
  from Apply_pause [OF assms(3,5) _ this] assms(2,4)
  have g1: "st_Paused g1" "timers_ok g1" "st_Timers g1 = map ?f (st_Timers g)" by auto
  from Apply_pause [OF assms(6,8) _ g1(2)] g1 assms(7)
  have "st_Timers g2 = map ?h (map ?f (st_Timers g))" by auto
  then have "?h (?f t) \<in> set (st_Timers g2)" using assms(9) by auto
  moreover have "remaining (cmd_AtMs off + d) (?h (?f t)) = max 0 (remaining (cmd_AtMs on) t - d)"
    if "\<not> t_Paused t" "\<not> t_Frozen t"
    using pause_resume_remaining [OF that(1) assms(10), of "cmd_AtMs off" "cmd_AtMs on"] that by simp
  ultimately show ?thesis by (intro bexI [of _ "?h (?f t)"]) (auto simp: unpause_def)
qed

definition demo_pause :: command where
  "demo_pause = (by_showman CmdShowmanPause)\<lparr>cmd_On := True, cmd_AtMs := 5000\<rparr>"

definition demo_resume :: command where
  "demo_resume = (by_showman CmdShowmanPause)\<lparr>cmd_AtMs := 90000\<rparr>"

lemma play_two:
  "play [c, c'] g = Some g2 \<Longrightarrow> \<exists>ev g1 ev'. Apply c g = Some (Events ev g1) \<and> Apply c' g1 = Some (Events ev' g2)"
  by (auto split: option.splits applied.splits)

theorem pause_costs_no_time_witness:
  "\<exists>g2. play [demo_pause, demo_resume] demo_selecting = Some g2 \<and>
     (\<exists>t' \<in> set (st_Timers g2). remaining 100000 t' = max 0 (remaining 5000 (hd (st_Timers demo_selecting)) - 10000))"
proof -
  let ?t = "hd (st_Timers demo_selecting)"
  have "\<not> Option.is_none (play [demo_pause, demo_resume] demo_selecting)" by code_simp
  then obtain g2 where g2: "play [demo_pause, demo_resume] demo_selecting = Some g2"
    by (auto simp: Option.is_none_def)
  then obtain ev g1 ev' where "Apply demo_pause demo_selecting = Some (Events ev g1)"
    "Apply demo_resume g1 = Some (Events ev' g2)"
    using play_two by blast
  moreover have "\<not> st_Paused demo_selecting \<and> st_Timers demo_selecting \<noteq> [] \<and> \<not> t_Frozen ?t \<and> \<not> t_Paused ?t"
    by code_simp
  moreover have "cmd_Type demo_pause = CmdShowmanPause \<and> cmd_On demo_pause \<and> cmd_AtMs demo_pause = 5000 \<and>
      cmd_Type demo_resume = CmdShowmanPause \<and> \<not> cmd_On demo_resume \<and> cmd_AtMs demo_resume = 90000"
    by code_simp
  ultimately have "\<exists>t' \<in> set (st_Timers g2). remaining 100000 t' = max 0 (remaining 5000 ?t - 10000)"
    using pause_costs_no_time [OF reachable_selecting, of demo_pause ev g1 demo_resume ev' g2 ?t 10000]
    by auto
  with g2 show ?thesis by blast
qed

end
