(* ===== verification/Engine_Refusals.thy ===== *)
theory Engine_Refusals
  imports Engine_Demo
begin

text \<open>
  Refused commands: an error leaves the game as it was (with one exception, \<open>onSetOptions\<close>), and
  nobody acts outside its role.
\<close>

subsection \<open>Errors leave the game alone\<close>

definition clean :: "game \<Rightarrow> result \<Rightarrow> bool" where
  "clean g r \<longleftrightarrow> (\<forall>e g'. r = Fail e g' \<longrightarrow> g' = g)"

lemma clean_intros:
  "clean g (Fail e g)"
  "clean g (Go h j)"
  "clean g (go_on x)"
  "clean g r \<Longrightarrow> clean g r' \<Longrightarrow> clean g (if b then r else r')"
  "clean g r \<Longrightarrow> (\<And>v. clean g (f v)) \<Longrightarrow> clean g (case_option r f m)"
  "(\<And>v. clean g (fl v)) \<Longrightarrow> (\<And>v. clean g (fr v)) \<Longrightarrow> clean g (case_sum fl fr s)"
  "(\<And>v w. clean g (fp v w)) \<Longrightarrow> clean g (case_prod fp pr)"
  "(\<And>v. clean g (l v)) \<Longrightarrow> clean g (Let x l)"
  by (auto simp: clean_def go_on_def Let_def split: option.split sum.split prod.split)

lemmas handler_defs =
  onTimeout_def onButtonResult_def onMediaCompleted_def onPlayerLeft_def onPlayerJoined_def
  onAISuggestion_def onStart_def onPlayerReady_def onPause_def onMove_def move_forward_def onToggle_def
  onChangeScore_def onSetChooser_def onKick_def onNext_def onChooseQuestion_def onPass_def
  pass_bid_def pass_button_def onAnswer_def answer_open_def answer_hidden_def onAnswerDraft_def
  onValidate_def validate_hidden_def validate_open_def onSelectPlayer_def onSetStake_def
  price_select_def hiddenSetStake_def set_bid_def onDeleteTheme_def onVoteAppeal_def

lemma clean_onAppellate: "clean g (onAppellate cmd g)"
  unfolding onAppellate_def Let_def by (intro clean_intros)

lemma clean_dispatch: "cmd_Type cmd \<noteq> CmdSetOptions \<Longrightarrow> clean g (dispatch cmd g)"
  by (cases "cmd_Type cmd"; simp only: dispatch_def cmd_type.case Let_def handler_defs stage_case_if
      cmd_type.distinct simp_thms; intro clean_intros clean_onAppellate)

lemma error_unchanged:
  assumes "Apply cmd g = Some (Error e g')" and "cmd_Type cmd \<noteq> CmdSetOptions"
  shows "g' = begin_cmd cmd g"
  using assms clean_dispatch [OF assms(2), of "begin_cmd cmd g"]
  by (cases "dispatch cmd (begin_cmd cmd g)") (auto simp: Apply_def clean_def begin_cmd_def)

text \<open>C16 (error). A command other than \<open>SET_OPTIONS\<close> that is answered with an error
  leaves the game exactly as it was; only the clock is set to the time of the command.\<close>

theorem error_changes_nothing:
  "Apply cmd g = Some (Error e g') \<Longrightarrow> cmd_Type cmd \<noteq> CmdSetOptions \<Longrightarrow> g' = begin_cmd cmd g"
  by (rule error_unchanged)

theorem error_changes_nothing_witness:
  "\<exists>e. Apply (by_player CmdStart ''A'') demo_lobby = Some (Error e (begin_cmd (by_player CmdStart ''A'') demo_lobby))"
proof -
  have "case Apply (by_player CmdStart ''A'') demo_lobby of Some (Error e g) \<Rightarrow> True | _ \<Rightarrow> False" by code_simp
  then obtain e g' where *: "Apply (by_player CmdStart ''A'') demo_lobby = Some (Error e g')"
    by (auto split: option.splits applied.splits)
  from error_changes_nothing [OF *] * show ?thesis by (simp add: by_player_def command_of_def)
qed

text \<open>Options the showman's client could send.\<close>

definition bad_options :: "rules_patch" where
  "bad_options = \<lparr>rp_Oral = Some True, rp_Managed = None, rp_DisplayAnswerOptionsLabels = None,
     rp_FalseStart = Some False, rp_ReadingSpeed = Some (- 1), rp_PartialText = None,
     rp_UseAppellations = None, rp_ButtonBlockingMs = None, rp_PartialImageMs = None\<rparr>"

text \<open>C17 (error). The exception: \<open>SET_OPTIONS\<close> with a negative reading
  speed is refused after the first options were written, so the error leaves changed rules behind and no
  event announces them, against what \<open>Apply\<close> documents.\<close>

theorem set_options_error_changes_rules:
  assumes "\<not> st_Ended g" and "cmd_Type cmd = CmdSetOptions" and "requireShowman (cmd_Actor cmd)"
    and "cmd_Options cmd = Some opts" and "rp_ReadingSpeed opts = Some v" and "v < 0"
  shows "Apply cmd g = Some (Error ErrBadArgument
    ((begin_cmd cmd g)\<lparr>st_Rules := patch_before_speed opts (st_Rules g)\<rparr>))"
  using assms
  by (simp add: Apply_def dispatch_def onSetOptions_def begin_cmd_def Let_def)

theorem set_options_error_changes_rules_witness:
  "case Apply ((by_showman CmdSetOptions)\<lparr>cmd_Options := Some bad_options\<rparr>) demo_selecting of
     Some (Error e g) \<Rightarrow> r_Oral (st_Rules g) \<and> \<not> r_Oral (st_Rules demo_selecting) | _ \<Rightarrow> False"
proof -
  have "\<not> st_Ended demo_selecting \<and> \<not> r_Oral (st_Rules demo_selecting)" by code_simp
  then show ?thesis
    using set_options_error_changes_rules [of demo_selecting
      "(by_showman CmdSetOptions)\<lparr>cmd_Options := Some bad_options\<rparr>" bad_options "- 1"]
    by (simp add: by_showman_def command_of_def actor_of_def requireShowman_def bad_options_def
        patch_before_speed_def patched_def)
qed

subsection \<open>Roles\<close>

definition showman_commands :: "cmd_type set" where
  "showman_commands = {CmdStart, CmdShowmanPause, CmdMove, CmdToggle, CmdChangeScore, CmdSetChooser,
     CmdSetOptions, CmdNext}"

definition system_commands :: "cmd_type set" where
  "system_commands = {CmdTimeout, CmdButtonResult, CmdPlayerLeft, CmdPlayerJoined, CmdAISuggestion}"

text \<open>The actor is this player, seated and not kicked; or speaks for it as the showman of an oral game.\<close>

definition is_player :: "game \<Rightarrow> actor \<Rightarrow> string \<Rightarrow> bool" where
  "is_player g a i \<longleftrightarrow> ac_Role a = RolePlayer \<and> ac_PersonID a = i \<and> (\<exists>p. player g i = Some p \<and> \<not> p_Kicked p)"

definition oral_showman :: "game \<Rightarrow> actor \<Rightarrow> bool" where
  "oral_showman g a \<longleftrightarrow> ac_Role a = RoleShowman \<and> r_Oral (st_Rules g)"

definition speaks_for :: "game \<Rightarrow> command \<Rightarrow> string \<Rightarrow> bool" where
  "speaks_for g cmd i \<longleftrightarrow> is_player g (cmd_Actor cmd) i \<or>
     oral_showman g (cmd_Actor cmd) \<and> cmd_PersonID cmd \<in> {[], i}"

text \<open>Whose turn it is to answer, to bid or to pass.\<close>

definition may_answer :: "game \<Rightarrow> command \<Rightarrow> question_state \<Rightarrow> bool" where
  "may_answer g cmd q \<longleftrightarrow>
     (if q_Sub q = SubAnswering then speaks_for g cmd (q_AnswererID q)
      else \<exists>i. speaks_for g cmd i \<and> isAnswerer q i)"

definition may_stake :: "game \<Rightarrow> command \<Rightarrow> question_state \<Rightarrow> bool" where
  "may_stake g cmd q \<longleftrightarrow>
     (if q_Sub q = SubPriceSelect then speaks_for g cmd (q_AnswererID q)
      else if q_HiddenAll q then \<exists>i. speaks_for g cmd i \<and> isAnswerer q i
      else case q_Stakes q of None \<Rightarrow> True | Some ss \<Rightarrow> speaks_for g cmd (ss_Current ss))"

definition may_pass :: "game \<Rightarrow> command \<Rightarrow> question_state \<Rightarrow> bool" where
  "may_pass g cmd q \<longleftrightarrow> (case q_Stakes q of
       Some ss \<Rightarrow> if q_Sub q = SubStakes then \<exists>i. speaks_for g cmd i \<and> mget (ss_Active ss) i \<and> i \<noteq> ss_Leader ss
                  else \<exists>i. is_player g (cmd_Actor cmd) i
     | None \<Rightarrow> \<exists>i. is_player g (cmd_Actor cmd) i)"

text \<open>What an actor may ask for. Reports that media were loaded or played through are open to everybody.\<close>

definition may_ask :: "game \<Rightarrow> command \<Rightarrow> bool" where
  "may_ask g cmd \<longleftrightarrow> (let a = cmd_Actor cmd; ty = cmd_Type cmd; asked = (\<lambda>P. pred_option P (st_Question g)) in
     if ty \<in> showman_commands then ac_Role a = RoleShowman \<or> ac_IsHost a
     else if ty \<in> system_commands then ac_Role a = RoleSystem
     else case ty of
       CmdKickPlayer \<Rightarrow> ac_IsHost a \<or> ac_Role a = RoleSystem
     | CmdValidate \<Rightarrow> ac_Role a = RoleShowman \<or> ac_Role a = RoleSystem
     | CmdPlayerReady \<Rightarrow> \<exists>i. is_player g a i
     | CmdAnswerDraft \<Rightarrow> \<exists>i. is_player g a i
     | CmdAppellate \<Rightarrow> \<exists>i. is_player g a i
     | CmdVoteAppeal \<Rightarrow> (case st_Appeal g of None \<Rightarrow> True | Some ap \<Rightarrow> \<exists>i \<in> set (a_Pending ap). is_player g a i)
     | CmdChooseQuestion \<Rightarrow> ac_Role a = RolePlayer \<and> ac_PersonID a = st_ChooserID g \<or> oral_showman g a
     | CmdSelectPlayer \<Rightarrow> (case st_Pending g of None \<Rightarrow> True | Some pd \<Rightarrow>
         if pd_Kind pd = PendingSecretTransfer then ac_PersonID a = pd_DeciderID pd \<or> oral_showman g a
         else ac_Role a = RoleShowman)
     | CmdDeleteTheme \<Rightarrow> speaks_for g cmd (st_DeleterID g)
     | CmdAnswer \<Rightarrow> asked (may_answer g cmd)
     | CmdSetStake \<Rightarrow> asked (may_stake g cmd)
     | CmdPass \<Rightarrow> asked (may_pass g cmd)
     | _ \<Rightarrow> True)"

text \<open>The clock and the events do not matter for it.\<close>

lemma may_ask_begin [simp]:
  "is_player (begin_cmd c g) = is_player g" "oral_showman (begin_cmd c g) = oral_showman g"
  "speaks_for (begin_cmd c g) = speaks_for g" "may_answer (begin_cmd c g) = may_answer g"
  "may_stake (begin_cmd c g) = may_stake g" "may_pass (begin_cmd c g) = may_pass g"
  "may_ask (begin_cmd c g) = may_ask g"
proof -
  show 1: "is_player (begin_cmd c g) = is_player g" "oral_showman (begin_cmd c g) = oral_showman g"
    by (simp_all add: fun_eq_iff is_player_def oral_showman_def begin_cmd_def player_def)
  then show 2: "speaks_for (begin_cmd c g) = speaks_for g" by (simp add: fun_eq_iff speaks_for_def)
  show 3: "may_answer (begin_cmd c g) = may_answer g" "may_stake (begin_cmd c g) = may_stake g"
    "may_pass (begin_cmd c g) = may_pass g"
    by (intro ext; simp only: may_answer_def may_stake_def may_pass_def 1 2)+
  have "st_Question (begin_cmd c g) = st_Question g" "st_Pending (begin_cmd c g) = st_Pending g"
    "st_Appeal (begin_cmd c g) = st_Appeal g" "st_ChooserID (begin_cmd c g) = st_ChooserID g"
    "st_DeleterID (begin_cmd c g) = st_DeleterID g"
    by (simp_all add: begin_cmd_def)
  then show "may_ask (begin_cmd c g) = may_ask g"
    by (intro ext; simp only: may_ask_def 1 2 3)
qed

lemma playerActor_is: "playerActor g a = Inr p \<Longrightarrow> is_player g a (p_ID p)"
  using player_ID [of g "ac_PersonID a" p]
  by (auto simp: playerActor_def is_player_def split: if_splits option.splits)

lemma actingPlayer_speaks: "actingPlayer g cmd x = Inr p \<Longrightarrow> speaks_for g cmd (p_ID p)"
  by (auto simp: actingPlayer_def speaks_for_def oral_showman_def dest: playerActor_is player_ID
      split: if_splits option.splits)

definition goes_on :: "result \<Rightarrow> bool" where
  "goes_on r \<longleftrightarrow> (\<exists>g j. r = Go g j)"

lemma find_last_member: "find_last (\<lambda>v. v = x) xs = Some i \<Longrightarrow> x \<in> set xs"
  by (auto dest!: find_last_Some)

text \<open>A handler only goes on for those who may ask.\<close>

lemma answers_allowed:
  "goes_on (onAnswer cmd g) \<Longrightarrow> pred_option (may_answer g cmd) (st_Question g)"
  "goes_on (onSetStake cmd g) \<Longrightarrow> pred_option (may_stake g cmd) (st_Question g)"
  "goes_on (onPass cmd g) \<Longrightarrow> pred_option (may_pass g cmd) (st_Question g)"
  by (auto simp: goes_on_def onAnswer_def answer_open_def answer_hidden_def may_answer_def
      onSetStake_def price_select_def hiddenSetStake_def set_bid_def may_stake_def
      onPass_def pass_bid_def pass_button_def may_pass_def
      dest!: actingPlayer_speaks playerActor_is split: option.splits if_splits sum.splits)

lemma dispatch_allowed:
  assumes "goes_on (dispatch cmd g)"
  shows "may_ask g cmd"
  using assms
  by (cases "cmd_Type cmd")
    (auto simp: dispatch_def may_ask_def showman_commands_def system_commands_def Let_def answers_allowed
      goes_on_def onStart_def onPause_def onMove_def onToggle_def onChangeScore_def onSetChooser_def
      onSetOptions_def onNext_def onTimeout_def onButtonResult_def onPlayerLeft_def onPlayerJoined_def
      onAISuggestion_def requireSystem_def requireShowman_def onKick_def onValidate_def onChooseQuestion_def
      onPlayerReady_def onAnswerDraft_def onAppellate_def onVoteAppeal_def onSelectPlayer_def onDeleteTheme_def
      oral_showman_def
      dest!: actingPlayer_speaks playerActor_is find_last_member split: option.splits if_splits sum.splits)

text \<open>C18 (safety). Nobody acts outside its role or its turn: a command its actor may not
  ask for is refused and changes nothing but the clock. The showman's commands need the showman or the host, the
  reports of the room the room, verdicts the showman or the room, a kick the host or the room. Ready marks,
  drafts and appeals need a seated player who was not kicked, a vote one who was asked to vote; a question is
  chosen by the player who has the choice, a player selected by the decider (of a secret question's transfer) or
  the showman; an answer, a bid, a pass and the deletion of a theme need the player whose turn it is, or the
  showman speaking for that player in an oral game.\<close>

theorem role_violation_refused:
  assumes "\<not> may_ask g cmd"
  shows "\<exists>e. Apply cmd g = Some (Error e (begin_cmd cmd g))"
proof -
  have "\<not> may_ask (begin_cmd cmd g) cmd"
    using assms by simp
  then obtain e g' where r: "dispatch cmd (begin_cmd cmd g) = Fail e g'"
    using dispatch_allowed [of cmd "begin_cmd cmd g"] by (cases "dispatch cmd (begin_cmd cmd g)") (auto simp: goes_on_def)
  have "g' = begin_cmd cmd g"
  proof (cases "cmd_Type cmd = CmdSetOptions")
    case True
    then show ?thesis
      using r assms by (auto simp: dispatch_def onSetOptions_def may_ask_def showman_commands_def
        requireShowman_def Let_def split: if_splits)
  next
    case False
    from clean_dispatch [OF this] r show ?thesis by (auto simp: clean_def)
  qed
  with r show ?thesis by (auto simp: Apply_def begin_cmd_def)
qed

text \<open>A is the only one who may choose; B tries, and tries to select a player as well.\<close>

theorem role_violation_refused_witness:
  "(\<exists>e. Apply (by_player CmdChooseQuestion ''B'') demo_selecting =
     Some (Error e (begin_cmd (by_player CmdChooseQuestion ''B'') demo_selecting))) \<and>
   (\<exists>g e. played demo_pack DefaultRules [by_showman CmdStart] = Some g \<and>
     Apply ((by_player CmdSelectPlayer ''B'')\<lparr>cmd_PersonID := ''B''\<rparr>) g =
     Some (Error e (begin_cmd ((by_player CmdSelectPlayer ''B'')\<lparr>cmd_PersonID := ''B''\<rparr>) g)))"
proof -
  have "st_ChooserID demo_selecting = ''A''" by code_simp
  then have b: "\<not> may_ask demo_selecting (by_player CmdChooseQuestion ''B'')"
    by (simp add: may_ask_def showman_commands_def system_commands_def oral_showman_def by_player_def
      command_of_def actor_of_def)
  have "case played demo_pack DefaultRules [by_showman CmdStart] of None \<Rightarrow> False
    | Some g \<Rightarrow> (case st_Pending g of None \<Rightarrow> False | Some pd \<Rightarrow> pd_Kind pd = PendingChooser)"
    by code_simp
  then obtain g pd where g: "played demo_pack DefaultRules [by_showman CmdStart] = Some g" "st_Pending g = Some pd"
    "pd_Kind pd = PendingChooser"
    by (auto split: option.splits)
  have "\<not> may_ask g ((by_player CmdSelectPlayer ''B'')\<lparr>cmd_PersonID := ''B''\<rparr>)"
    using g by (simp add: may_ask_def showman_commands_def system_commands_def by_player_def
      command_of_def actor_of_def)
  with role_violation_refused [OF b] role_violation_refused g(1) show ?thesis by blast
qed

end
