(* ===== verification/Engine_Secrecy.thy ===== *)
theory Engine_Secrecy
  imports Engine_Demo
begin

text \<open>
  Who is told what. Each event the engine emits names its audience; what only the showman may see goes
  to the showman, what only the room uses never leaves it, and a hidden stake is announced without its
  amount. As in protocol verification the statement is an invariant of the messages sent, shown for
  every operation that sends.
\<close>

subsection \<open>The audiences allowed\<close>

definition showman_only :: "event \<Rightarrow> bool" where
  "showman_only e = (case e of
       EvAskValidate _ \<Rightarrow> True | EvShowmanHint _ _ _ _ \<Rightarrow> True | EvAnswerDraft _ _ \<Rightarrow> True
     | EvAISuggestion _ _ _ _ \<Rightarrow> True | _ \<Rightarrow> False)"

definition room_only :: "event \<Rightarrow> bool" where
  "room_only e = (case e of
       EvValidationTimeout _ _ _ _ \<Rightarrow> True | EvButtonArmRequest _ _ _ _ \<Rightarrow> True | EvButtonDisarm _ \<Rightarrow> True
     | _ \<Rightarrow> False)"

text \<open>Requests to one person, with the person they name; the showman gets a copy in oral mode.\<close>

definition asked_person :: "event \<Rightarrow> string option" where
  "asked_person e = (case e of
       EvAskChoose i _ \<Rightarrow> Some i | EvAskSelectPlayer _ _ decider _ \<Rightarrow> Some decider
     | EvAskAnswer i _ _ _ _ \<Rightarrow> Some i | EvAskStake s \<Rightarrow> Some (as_PersonID s)
     | EvAskDeleteTheme i _ _ \<Rightarrow> Some i | _ \<Rightarrow> None)"

text \<open>The request to vote on an appeal names no voter. It carries the accepted answers.\<close>

definition vote_request :: "event \<Rightarrow> bool" where
  "vote_request e = (case e of EvAskAppealVote _ _ _ _ \<Rightarrow> True | _ \<Rightarrow> False)"

definition hidden_amount :: "event \<Rightarrow> bool" where
  "hidden_amount e = (case e of EvPersonStake _ _ amount hidden \<Rightarrow> hidden \<and> amount \<noteq> 0 | _ \<Rightarrow> False)"

text \<open>The players of the game, kicked ones included, and its showman.\<close>

definition persons :: "game \<Rightarrow> string set" where
  "persons g = insert (st_ShowmanID g) (p_ID ` set (st_Players g))"

definition discreet_event :: "string set \<Rightarrow> audience \<times> event \<Rightarrow> bool" where
  "discreet_event P x = (case x of (aud, e) \<Rightarrow>
     (showman_only e \<or> hidden_amount e \<longrightarrow> aud = AudienceRole RoleShowman) \<and>
     (room_only e \<longleftrightarrow> aud = AudienceRoom) \<and>
     (\<forall>i. asked_person e = Some i \<longrightarrow> aud = AudiencePerson i \<or> aud = AudienceRole RoleShowman) \<and>
     (vote_request e \<longrightarrow> (\<exists>v \<in> P. aud = AudiencePerson v)))"

definition discreet :: "string set \<Rightarrow> game \<Rightarrow> bool" where
  "discreet P g \<longleftrightarrow> P \<subseteq> persons g \<and> list_all (discreet_event (persons g)) (g_ev g)"

lemmas audience_defs =
  discreet_event_def showman_only_def room_only_def asked_person_def vote_request_def hidden_amount_def

subsection \<open>Every operation is discreet\<close>

lemma persons_upd [simp]:
  "persons (g\<lparr>st_Stage := v0\<rparr>) = persons g"
  "persons (g\<lparr>st_RoundIndex := v1\<rparr>) = persons g"
  "persons (g\<lparr>st_RoundName := v2\<rparr>) = persons g"
  "persons (g\<lparr>st_RoundType := v3\<rparr>) = persons g"
  "persons (g\<lparr>st_Table := v4\<rparr>) = persons g"
  "persons (g\<lparr>st_ChooserID := v5\<rparr>) = persons g"
  "persons (g\<lparr>st_Rules := v8\<rparr>) = persons g"
  "persons (g\<lparr>st_Times := v9\<rparr>) = persons g"
  "persons (g\<lparr>st_Question := v10\<rparr>) = persons g"
  "persons (g\<lparr>st_Pending := v11\<rparr>) = persons g"
  "persons (g\<lparr>st_Timers := v12\<rparr>) = persons g"
  "persons (g\<lparr>st_Paused := v13\<rparr>) = persons g"
  "persons (g\<lparr>st_Appeal := v14\<rparr>) = persons g"
  "persons (g\<lparr>st_RoundTimedOut := v15\<rparr>) = persons g"
  "persons (g\<lparr>st_WaitNext := v16\<rparr>) = persons g"
  "persons (g\<lparr>st_FinalGroups := v17\<rparr>) = persons g"
  "persons (g\<lparr>st_FinalOffset := v18\<rparr>) = persons g"
  "persons (g\<lparr>st_DeleteStep := v19\<rparr>) = persons g"
  "persons (g\<lparr>st_DeleterID := v20\<rparr>) = persons g"
  "persons (g\<lparr>st_DeleterUsed := v21\<rparr>) = persons g"
  "persons (g\<lparr>st_Winner := v22\<rparr>) = persons g"
  "persons (g\<lparr>st_QuestionsPlayed := v23\<rparr>) = persons g"
  "persons (g\<lparr>st_Ended := v24\<rparr>) = persons g"
  "persons (g\<lparr>g_pack := v25\<rparr>) = persons g"
  "persons (g\<lparr>g_lib := v26\<rparr>) = persons g"
  "persons (g\<lparr>g_rng := v27\<rparr>) = persons g"
  "persons (g\<lparr>g_rngLog := v28\<rparr>) = persons g"
  "persons (g\<lparr>g_now := v29\<rparr>) = persons g"
  "persons (g\<lparr>g_ev := v30\<rparr>) = persons g"
  "persons (g\<lparr>g_timerSeq := v31\<rparr>) = persons g"
  by (simp_all add: persons_def)

lemma persons_ops [simp]:
  "persons (emit aud_emit e_emit g) = persons g" "persons (ev_oral e_ev_oral g) = persons g"
  "persons (upd_q f_upd_q g) = persons g" "persons (emitStage g) = persons g"
  "persons (setSub sub_setSub g) = persons g" "persons (emitSums g) = persons g"
  "persons (emitPlayers g) = persons g" "persons (emitTable g) = persons g"
  "persons (setChooser i_setChooser r_setChooser g) = persons g"
  "persons (removeTimer i_removeTimer g) = persons g"
  "persons (stopTimer i_stopTimer g) = persons g" "persons (stopKind k_stopKind g) = persons g"
  "persons (stopAllExcept ks_stopAllExcept g) = persons g"
  "persons (startTimer k_startTimer d_startTimer p_startTimer g) = persons g"
  "persons (upd_timer i_upd_timer f_upd_timer g) = persons g"
  "persons (pauseTimer t_pauseTimer g) = persons g"
  "persons (resumeTimer t_resumeTimer g) = persons g" "persons (pauseAllTimers g) = persons g"
  "persons (resumeAllTimers g) = persons g"
  "persons (upd_cell t_upd_cell q_upd_cell f_upd_cell g) = persons g"
  "persons (askChoose g) = persons g"
  "persons (askSelectPlayer k_askSelectPlayer d_askSelectPlayer c_askSelectPlayer g) = persons g"
  "persons (armButton r_armButton q_armButton g) = persons g" "persons (disarm g) = persons g"
  "persons (pause_kind k_pause_kind g) = persons g"
  "persons (resume_kind k_resume_kind g) = persons g"
  "persons (showOptions q_showOptions g) = persons g"
  "persons (askValidate i_askValidate x_askValidate q_askValidate g) = persons g"
  "persons (record_outcome o_record_outcome g) = persons g"
  "persons (rotateChooser g) = persons g"
  "persons (announceSecretPrice cs_announceSecretPrice q_announceSecretPrice g) = persons g"
  "persons (upd_ss f_upd_ss g) = persons g"
  "persons (askHiddenStake p_askHiddenStake g) = persons g"
  "persons (showmanHint pq_showmanHint g) = persons g" "persons (finalBuildOrder g) = persons g"
  "persons (upd_outcome i_upd_outcome f_upd_outcome g) = persons g" "persons (thaw g) = persons g"
  by (simp_all add: persons_def)

lemma discreet_upd [simp]:
  "discreet P (g\<lparr>st_Stage := v0\<rparr>) = discreet P g"
  "discreet P (g\<lparr>st_RoundIndex := v1\<rparr>) = discreet P g"
  "discreet P (g\<lparr>st_RoundName := v2\<rparr>) = discreet P g"
  "discreet P (g\<lparr>st_RoundType := v3\<rparr>) = discreet P g"
  "discreet P (g\<lparr>st_Table := v4\<rparr>) = discreet P g"
  "discreet P (g\<lparr>st_ChooserID := v5\<rparr>) = discreet P g"
  "discreet P (g\<lparr>st_Rules := v8\<rparr>) = discreet P g"
  "discreet P (g\<lparr>st_Times := v9\<rparr>) = discreet P g"
  "discreet P (g\<lparr>st_Question := v10\<rparr>) = discreet P g"
  "discreet P (g\<lparr>st_Pending := v11\<rparr>) = discreet P g"
  "discreet P (g\<lparr>st_Timers := v12\<rparr>) = discreet P g"
  "discreet P (g\<lparr>st_Paused := v13\<rparr>) = discreet P g"
  "discreet P (g\<lparr>st_Appeal := v14\<rparr>) = discreet P g"
  "discreet P (g\<lparr>st_RoundTimedOut := v15\<rparr>) = discreet P g"
  "discreet P (g\<lparr>st_WaitNext := v16\<rparr>) = discreet P g"
  "discreet P (g\<lparr>st_FinalGroups := v17\<rparr>) = discreet P g"
  "discreet P (g\<lparr>st_FinalOffset := v18\<rparr>) = discreet P g"
  "discreet P (g\<lparr>st_DeleteStep := v19\<rparr>) = discreet P g"
  "discreet P (g\<lparr>st_DeleterID := v20\<rparr>) = discreet P g"
  "discreet P (g\<lparr>st_DeleterUsed := v21\<rparr>) = discreet P g"
  "discreet P (g\<lparr>st_Winner := v22\<rparr>) = discreet P g"
  "discreet P (g\<lparr>st_QuestionsPlayed := v23\<rparr>) = discreet P g"
  "discreet P (g\<lparr>st_Ended := v24\<rparr>) = discreet P g"
  "discreet P (g\<lparr>g_pack := v25\<rparr>) = discreet P g"
  "discreet P (g\<lparr>g_lib := v26\<rparr>) = discreet P g"
  "discreet P (g\<lparr>g_rng := v27\<rparr>) = discreet P g"
  "discreet P (g\<lparr>g_rngLog := v28\<rparr>) = discreet P g"
  "discreet P (g\<lparr>g_now := v29\<rparr>) = discreet P g"
  "discreet P (g\<lparr>g_timerSeq := v31\<rparr>) = discreet P g"
  by (simp_all add: discreet_def)

lemma discreet_ops [simp]:
  "discreet P (upd_q f_upd_q g) = discreet P g"
  "discreet P (removeTimer i_removeTimer g) = discreet P g"
  "discreet P (upd_timer i_upd_timer f_upd_timer g) = discreet P g"
  "discreet P (upd_cell t_upd_cell q_upd_cell f_upd_cell g) = discreet P g"
  "discreet P (record_outcome o_record_outcome g) = discreet P g"
  "discreet P (upd_ss f_upd_ss g) = discreet P g" "discreet P (finalBuildOrder g) = discreet P g"
  "discreet P (upd_outcome i_upd_outcome f_upd_outcome g) = discreet P g"
  by (simp_all add: discreet_def)


lemma discreet_emit: "discreet P (emit aud e g) \<longleftrightarrow> discreet P g \<and> discreet_event (persons g) (aud, e)"
  by (auto simp: discreet_def)

text \<open>Writes to players keep the identifiers.\<close>

lemma persons_map:
  "map p_ID (st_Players g') = map p_ID (st_Players g) \<Longrightarrow> st_ShowmanID g' = st_ShowmanID g \<Longrightarrow> persons g' = persons g"
  unfolding persons_def by (metis list.set_map)

lemma persons_players [simp]:
  "(\<And>p. p_ID (f p) = p_ID p) \<Longrightarrow> persons (upd_player i f g) = persons g"
  "(\<And>p. p_ID (f p) = p_ID p) \<Longrightarrow> persons (upd_players f g) = persons g"
  by (rule persons_map; simp add: upd_player_def upd_players_def)+

lemma reset_ID [simp]: "p_ID (resetPlayerQuestion p) = p_ID p"
  by (simp add: resetPlayerQuestion_def)

lemma discreet_players [simp]:
  "(\<And>p. p_ID (f p) = p_ID p) \<Longrightarrow> discreet P (upd_player i f g) = discreet P g"
  "(\<And>p. p_ID (f p) = p_ID p) \<Longrightarrow> discreet P (upd_players f g) = discreet P g"
  by (simp_all add: discreet_def)

lemma discreet_reset [simp]:
  "st_ShowmanID g' = st_ShowmanID g \<Longrightarrow> g_ev g' = g_ev g \<Longrightarrow>
     discreet P (g'\<lparr>st_Players := map reset_for_round (st_Players g)\<rparr>) = discreet P g"
  by (simp add: discreet_def persons_def reset_for_round_def resetPlayerQuestion_def image_image)

text \<open>A newcomer does not make an event less discreet.\<close>

lemma discreet_joined: "discreet P g \<Longrightarrow> discreet P (g\<lparr>st_Players := st_Players g @ [p]\<rparr>)"
  by (auto simp: discreet_def persons_def list_all_iff discreet_event_def split: prod.splits)

lemma discreet_start: "persons h = persons g \<Longrightarrow> discreet P g \<Longrightarrow> g_ev h = [] \<Longrightarrow> discreet P h"
  by (simp add: discreet_def)

lemma discreet_fold [simp]: "(\<And>x g. discreet P (f x g) = discreet P g) \<Longrightarrow> discreet P (fold f xs g) = discreet P g"
  by (induction xs arbitrary: g) auto

lemma discreet_basic [simp]:
  "discreet P (emitStage g) = discreet P g"
  "discreet P (emitSums g) = discreet P g"
  "discreet P (emitPlayers g) = discreet P g"
  "discreet P (emitTable g) = discreet P g"
  "discreet P (setSub s g) = discreet P g"
  "discreet P (setPlayerState i st g) = discreet P g"
  "discreet P (addScore i d r g) = discreet P g"
  "discreet P (setChooser i r g) = discreet P g"
  "discreet P (stopTimer j g) = discreet P g"
  "discreet P (pauseTimer t g) = discreet P g"
  "discreet P (resumeTimer t g) = discreet P g"
  by (auto simp: emitStage_def emitSums_def emitPlayers_def emitTable_def setSub_def setPlayerState_def
      addScore_def setChooser_def stopTimer_def pauseTimer_def resumeTimer_def discreet_emit audience_defs Let_def
      split: option.split)

lemma discreet_timers [simp]:
  "discreet P (stopKind k g) = discreet P g"
  "discreet P (stopAllExcept ks g) = discreet P g"
  "discreet P (startTimer k d p g) = discreet P g"
  "discreet P (pauseAllTimers g) = discreet P g"
  "discreet P (resumeAllTimers g) = discreet P g"
  "discreet P (pause_kind k g) = discreet P g"
  "discreet P (resume_kind k g) = discreet P g"
  "discreet P (thaw g) = discreet P g"
  by (auto simp: stopKind_def stopAllExcept_def startTimer_def pauseAllTimers_def resumeAllTimers_def
      pause_kind_def resume_kind_def thaw_def discreet_emit audience_defs Let_def split: option.split)

lemmas told = discreet_emit audience_defs ev_oral_def

lemma discreet_questions [simp]:
  "discreet P (askValidate i x q g) = discreet P g"
  "discreet P (rotateChooser g) = discreet P g"
  "discreet P (disarm g) = discreet P g"
  "discreet P (armButton r q g) = discreet P g"
  "discreet P (askAnswer i k d q g) = discreet P g"
  "discreet P (showOptions q g) = discreet P g"
  "discreet P (showmanHint pq g) = discreet P g"
  "discreet P (announceSecretPrice cs q g) = discreet P g"
  "discreet P (stakeMarkPass i g) = discreet P g"
  "discreet P (askChoose g) = discreet P g"
  "discreet P (askSelectPlayer k' d' c g) = discreet P g"
  by (auto simp: askValidate_def rotateChooser_def disarm_def armButton_def askAnswer_def showOptions_def
      showmanHint_def announceSecretPrice_def stakeMarkPass_def askChoose_def askSelectPlayer_def told Let_def
      split: option.split)

lemma discreet_scores [simp]:
  "discreet P (applyOutcome i x r f s a b g) = discreet P g"
  "discreet P (hiddenStakeSet i n g) = discreet P g"
  "discreet P (askHiddenStake p g) = discreet P g"
  "discreet P (undo_outcome o' g) = discreet P g"
  "discreet P (revert_later k g) = discreet P g"
  "discreet P (open_question t q pq g) = discreet P g"
  "discreet P (final_in test g) = discreet P g"
  by (auto simp: final_in_def applyOutcome_def hiddenStakeSet_def askHiddenStake_def undo_outcome_def revert_later_def
      open_question_def told Let_def split: option.split)

lemma discreet_composite [simp]:
  "discreet P (hiddenScore p x r f s q g) = discreet P g"
  "discreet P (default_stakes t q g) = discreet P g"
  "discreet P (appeal_apply_for a q p o' g) = discreet P g"
  "discreet P (appeal_apply_against q p o' g) = discreet P g"
  by (auto simp: hiddenScore_def default_stakes_def appeal_apply_for_def appeal_apply_against_def told Let_def
      split: option.split)

interpretation telling: game_predicate "discreet P" for P .

lemma discreet_reveal: "discreet P g \<Longrightarrow> telling.either_ok P (reveal_one p q g)"
  unfolding reveal_one_def by (intro telling.walk; simp add: told)

lemma discreet_reveal_loop: "discreet P g \<Longrightarrow> discreet P (fst (reveal_loop k g))"
proof (induction k arbitrary: g)
  case (Suc k)
  show ?case
    unfolding reveal_loop.simps
    by (intro telling.walk Suc.IH discreet_reveal; simp add: Suc.prems)
qed simp

lemma discreet_deleter_loop: "discreet P g \<Longrightarrow> discreet P (fst (deleter_loop k g))"
proof (induction k arbitrary: g)
  case (Suc k)
  show ?case
    unfolding deleter_loop.simps
    by (intro telling.walk Suc.IH; simp add: Suc.prems)
qed simp

lemma discreet_appealApply: "discreet P g \<Longrightarrow> telling.some_first_ok P (appealApply a q g)"
  unfolding appealApply_def by (intro telling.walk; simp)

lemma discreet_randomIndex: "discreet P g \<Longrightarrow> telling.second_ok P (randomIndex k g)"
  unfolding randomIndex_def by (intro telling.walk; simp)

lemma discreet_script: "discreet P g \<Longrightarrow> discreet P (fst (beginScript ty g))"
  unfolding beginScript_def
  by (cases ty; simp only: question_type.case simpleBegin_def stakeBegin_def open_auction_def secretBegin_def
      secretTransfer_def noRiskBegin_def customBegin_def forAllBegin_def stakeAllBegin_def;
      intro telling.walk; simp add: told)

text \<open>The vote is asked of the active players and the showman.\<close>

lemma discreet_votes:
  "discreet P (fold (\<lambda>v. ev_to v (EvAskAppealVote k i x rs)) vs g) \<longleftrightarrow> discreet P g \<and> set vs \<subseteq> persons g"
  by (induction vs arbitrary: g) (auto simp: discreet_emit audience_defs)

lemma voters_persons: "set (a_Pending (new_appeal g req)) \<subseteq> persons g"
  by (auto simp: new_appeal_def persons_def ids_def activePlayers_def Let_def)

lemma discreet_appealStart: "discreet P g \<Longrightarrow> discreet P (fst (appealStart req g))"
proof (cases "st_Question g")
  case (Some q)
  let ?h = "fold pauseTimer (st_Timers g) (g\<lparr>st_Appeal := Some (new_appeal g req)\<rparr>)"
  have "persons ?h = persons g" by (simp add: persons_def fold_frames)
  then show "discreet P g \<Longrightarrow> ?thesis"
    using Some voters_persons [of g req]
    by (simp add: appealStart_def Let_def discreet_votes discreet_emit audience_defs)
qed (simp add: appealStart_def)

lemma discreet_step:
  assumes "discreet P g"
  shows "discreet P (fst (step j g))"
proof (cases j)
  case (JAppealStart r)
  with assms show ?thesis by (simp add: step_def discreet_appealStart)
qed (simp only: step_def jump.case flow_defs startQuestion_def clear_round_def endGame_def pending_case_if;
     intro telling.walk discreet_reveal_loop discreet_deleter_loop discreet_appealApply
       discreet_randomIndex discreet_script; simp add: told assms)+

subsection \<open>Every handler is discreet\<close>

lemma discreet_picks:
  assumes "discreet P g"
  shows "telling.some_second_ok P (random_pick xs g)" "telling.some_second_ok P (randomCell g)"
  using assms
  by (auto simp: random_pick_def randomCell_def randomIndex_def telling.some_second_ok_def Let_def)

lemma discreet_timer_fired: "discreet P g \<Longrightarrow> discreet P (fst (timer_fired k g))"
  by (cases k; simp only: timer_fired_def timer_kind.case onShowmanDecisionTimeout_def
      playerSelectionTimeout_def answerTimeout_def stakeTimeout_def hiddenStakesTimeout_def
      processSingleAnswer_def;
      intro telling.walk discreet_picks; simp add: told)

lemma discreet_timeout: "discreet P g \<Longrightarrow> discreet P (result_game (onTimeout cmd g))"
  unfolding onTimeout_def by (intro telling.walk discreet_timer_fired; simp)

lemma discreet_controls:
  assumes "discreet P g"
  shows "discreet P (result_game (onStart cmd g))" "discreet P (result_game (onPause cmd g))"
    "discreet P (result_game (onNext cmd g))" "discreet P (result_game (onToggle cmd g))"
    "discreet P (result_game (onChangeScore cmd g))" "discreet P (result_game (onSetChooser cmd g))"
    "discreet P (result_game (onSetOptions cmd g))" "discreet P (result_game (onPlayerReady cmd g))"
    "discreet P (result_game (onAISuggestion cmd g))" "discreet P (result_game (onPlayerJoined cmd g))"
  unfolding onStart_def onPause_def onNext_def onToggle_def onChangeScore_def onSetChooser_def
    onSetOptions_def onPlayerReady_def onAISuggestion_def onPlayerJoined_def
  by (intro telling.walk; simp add: assms told discreet_joined)+

lemma discreet_returned: "discreet P g \<Longrightarrow> discreet P (fst (returnQuestionToTable g))"
  unfolding returnQuestionToTable_def by (intro telling.walk; simp add: told)

lemma discreet_playerGone: "discreet P g \<Longrightarrow> discreet P (fst (playerGone i g))"
  unfolding playerGone_def by (intro telling.walk; simp add: told)

lemma discreet_moves:
  assumes "discreet P g"
  shows "discreet P (result_game (onMove cmd g))" "discreet P (result_game (onKick cmd g))"
    "discreet P (result_game (onPlayerLeft cmd g))" "discreet P (result_game (onMediaCompleted cmd g))"
    "discreet P (result_game (onButtonResult cmd g))"
  unfolding onMove_def onKick_def onPlayerLeft_def onMediaCompleted_def onButtonResult_def
    move_forward_def abortQuestionToAnswer_def stage_case_if
  by (intro telling.walk discreet_returned discreet_playerGone; simp add: assms told)+

lemma discreet_play:
  assumes "discreet P g"
  shows "discreet P (result_game (onSelectPlayer cmd g))" "discreet P (result_game (onChooseQuestion cmd g))"
    "discreet P (result_game (onPass cmd g))" "discreet P (result_game (onAnswerDraft cmd g))"
    "discreet P (result_game (onDeleteTheme cmd g))" "discreet P (result_game (onVoteAppeal cmd g))"
    "discreet P (result_game (onAppellate cmd g))"
  unfolding onSelectPlayer_def onChooseQuestion_def onPass_def pass_bid_def pass_button_def
    onAnswerDraft_def onDeleteTheme_def onVoteAppeal_def onAppellate_def
  by (intro telling.walk; simp add: assms told)+

lemma discreet_answers:
  assumes "discreet P g"
  shows "discreet P (result_game (onAnswer cmd g))" "discreet P (result_game (onValidate cmd g))"
    "discreet P (result_game (onSetStake cmd g))"
  unfolding  onAnswer_def answer_open_def answer_hidden_def
    onValidate_def validate_hidden_def validate_open_def processSingleAnswer_def
    onSetStake_def price_select_def hiddenSetStake_def set_bid_def
  by (intro telling.walk; simp add: assms told)+

interpretation secrecy: engine_invariant "discreet P" for P
proof unfold_locales
  fix g cmd
  assume ok: "discreet P g"
  show "discreet P (begin_cmd cmd g)" by (rule discreet_start [OF _ ok]) (simp_all add: begin_cmd_def)
  show "discreet P (result_game (dispatch cmd g))"
    by (rule result_dispatch [where I = "discreet P", OF ok]) (simp_all add: handlers_def ok discreet_timeout
        discreet_controls discreet_moves discreet_play discreet_answers)
  show "discreet P (g\<lparr>g_ev := []\<rparr>)" by (rule discreet_start [OF _ ok]) simp_all
qed (simp_all add: discreet_step)

lemma Apply_discreet:
  assumes "Apply cmd g = Some (Events ev g')"
  shows "list_all (discreet_event (persons g')) ev"
proof -
  from assms obtain h j k where d: "dispatch cmd (begin_cmd cmd g) = Go h j"
    and r: "run j h = Some (Halted k)" and ev: "ev = g_ev k" and g': "g' = k\<lparr>g_ev := []\<rparr>"
    by (rule Apply_EventsE)
  have "discreet {} (begin_cmd cmd g)" by (simp add: discreet_def begin_cmd_def)
  then have "discreet {} h" using secrecy.dispatch_keeps [of "{}" "begin_cmd cmd g" cmd] d by simp
  with secrecy.run_keeps [OF r] have "discreet {} k" by simp
  then show ?thesis by (simp add: ev g' discreet_def)
qed

text \<open>Nobody who takes part is forgotten, not even when the code panics.\<close>

lemma Apply_persons:
  assumes "Apply cmd g = Some r"
  shows "persons g \<subseteq> persons (applied_game r)"
proof -
  have "discreet (persons g) (g\<lparr>g_ev := []\<rparr>)" by (simp add: discreet_def)
  moreover have "Apply cmd (g\<lparr>g_ev := []\<rparr>) = Apply cmd g" by (simp add: Apply_def begin_cmd_def)
  ultimately have "discreet (persons g) (applied_game r)" using secrecy.Apply_keeps assms by metis
  then show ?thesis by (simp add: discreet_def)
qed

lemma leads_to_persons: "leads_to g h \<Longrightarrow> persons g \<subseteq> persons h"
  by (induction rule: leads_to.induct) (auto dest!: Apply_persons)

subsection \<open>The property\<close>


definition demo_draft :: "command list" where
  "demo_draft = demo_opening @ [by_player CmdChooseQuestion ''A'', fired TimerContent 4,
     (by_room CmdButtonResult)\<lparr>cmd_WinnerID := ''B''\<rparr>]"


end
