(* ===== verification/Engine_Scores.thy ===== *)
theory Engine_Scores
  imports Engine_Demo
begin

text \<open>
  Bookkeeping of the scores. Every change of a score while a question is open is matched by an outcome
  in its history, so a player's score is what it was before the question plus the outcomes that still
  count; returning the question to the table takes exactly these back.
\<close>

subsection \<open>The ledger\<close>

definition outcome_sum :: "string \<Rightarrow> outcome list \<Rightarrow> int" where
  "outcome_sum i os = sum_list (map o_Delta (filter (\<lambda>o'. o_PersonID o' = i \<and> \<not> o_Reverted o') os))"

definition history :: "game \<Rightarrow> outcome list" where
  "history g = (case st_Question g of None \<Rightarrow> [] | Some q \<Rightarrow> q_History q)"

text \<open>A player's score without the outcomes of the open question.\<close>

definition ledger :: "string \<Rightarrow> game \<Rightarrow> int" where
  "ledger i g = player_score g i - outcome_sum i (history g)"

definition balanced :: "string \<Rightarrow> int \<Rightarrow> game \<Rightarrow> bool" where
  "balanced i c g \<longleftrightarrow> player g i \<noteq> None \<and> st_Question g \<noteq> None \<and> ledger i g = c"

lemma outcome_sum_simps [simp]:
  "outcome_sum i [] = 0"
  "outcome_sum i (o' # os) = (if o_PersonID o' = i \<and> \<not> o_Reverted o' then o_Delta o' else 0) + outcome_sum i os"
  "outcome_sum i (os @ os') = outcome_sum i os + outcome_sum i os'"
  by (simp_all add: outcome_sum_def)

lemma outcome_sum_update:
  "k < length os \<Longrightarrow> outcome_sum i (os[k := x]) = outcome_sum i os
     - (if o_PersonID (os ! k) = i \<and> \<not> o_Reverted (os ! k) then o_Delta (os ! k) else 0)
     + (if o_PersonID x = i \<and> \<not> o_Reverted x then o_Delta x else 0)"
proof (induction os arbitrary: k)
  case (Cons o' os)
  then show ?case by (cases k) auto
qed simp

subsection \<open>What does not touch the ledger\<close>

lemma balanced_upd [simp]:
  "balanced i c (g\<lparr>st_Stage := v0\<rparr>) = balanced i c g"
  "balanced i c (g\<lparr>st_RoundIndex := v1\<rparr>) = balanced i c g"
  "balanced i c (g\<lparr>st_RoundName := v2\<rparr>) = balanced i c g"
  "balanced i c (g\<lparr>st_RoundType := v3\<rparr>) = balanced i c g"
  "balanced i c (g\<lparr>st_Table := v4\<rparr>) = balanced i c g"
  "balanced i c (g\<lparr>st_ChooserID := v5\<rparr>) = balanced i c g"
  "balanced i c (g\<lparr>st_ShowmanID := v7\<rparr>) = balanced i c g"
  "balanced i c (g\<lparr>st_Rules := v8\<rparr>) = balanced i c g"
  "balanced i c (g\<lparr>st_Times := v9\<rparr>) = balanced i c g"
  "balanced i c (g\<lparr>st_Pending := v11\<rparr>) = balanced i c g"
  "balanced i c (g\<lparr>st_Timers := v12\<rparr>) = balanced i c g"
  "balanced i c (g\<lparr>st_Paused := v13\<rparr>) = balanced i c g"
  "balanced i c (g\<lparr>st_Appeal := v14\<rparr>) = balanced i c g"
  "balanced i c (g\<lparr>st_RoundTimedOut := v15\<rparr>) = balanced i c g"
  "balanced i c (g\<lparr>st_WaitNext := v16\<rparr>) = balanced i c g"
  "balanced i c (g\<lparr>st_FinalGroups := v17\<rparr>) = balanced i c g"
  "balanced i c (g\<lparr>st_FinalOffset := v18\<rparr>) = balanced i c g"
  "balanced i c (g\<lparr>st_DeleteStep := v19\<rparr>) = balanced i c g"
  "balanced i c (g\<lparr>st_DeleterID := v20\<rparr>) = balanced i c g"
  "balanced i c (g\<lparr>st_DeleterUsed := v21\<rparr>) = balanced i c g"
  "balanced i c (g\<lparr>st_Winner := v22\<rparr>) = balanced i c g"
  "balanced i c (g\<lparr>st_QuestionsPlayed := v23\<rparr>) = balanced i c g"
  "balanced i c (g\<lparr>st_Ended := v24\<rparr>) = balanced i c g"
  "balanced i c (g\<lparr>g_pack := v25\<rparr>) = balanced i c g"
  "balanced i c (g\<lparr>g_lib := v26\<rparr>) = balanced i c g"
  "balanced i c (g\<lparr>g_rng := v27\<rparr>) = balanced i c g"
  "balanced i c (g\<lparr>g_rngLog := v28\<rparr>) = balanced i c g"
  "balanced i c (g\<lparr>g_now := v29\<rparr>) = balanced i c g"
  "balanced i c (g\<lparr>g_ev := v30\<rparr>) = balanced i c g"
  "balanced i c (g\<lparr>g_timerSeq := v31\<rparr>) = balanced i c g"
  by (simp_all add: balanced_def ledger_def history_def player_def player_score_def)

lemma balanced_ops [simp]:
  "balanced i c (emit aud_emit e_emit g) = balanced i c g"
  "balanced i c (ev_oral e_ev_oral g) = balanced i c g"
  "balanced i c (emitStage g) = balanced i c g" "balanced i c (emitSums g) = balanced i c g"
  "balanced i c (emitPlayers g) = balanced i c g" "balanced i c (emitTable g) = balanced i c g"
  "balanced i c (setChooser i_setChooser r_setChooser g) = balanced i c g"
  "balanced i c (removeTimer i_removeTimer g) = balanced i c g"
  "balanced i c (stopTimer i_stopTimer g) = balanced i c g"
  "balanced i c (stopKind k_stopKind g) = balanced i c g"
  "balanced i c (stopAllExcept ks_stopAllExcept g) = balanced i c g"
  "balanced i c (startTimer k_startTimer d_startTimer p_startTimer g) = balanced i c g"
  "balanced i c (upd_timer i_upd_timer f_upd_timer g) = balanced i c g"
  "balanced i c (pauseTimer t_pauseTimer g) = balanced i c g"
  "balanced i c (resumeTimer t_resumeTimer g) = balanced i c g"
  "balanced i c (pauseAllTimers g) = balanced i c g"
  "balanced i c (resumeAllTimers g) = balanced i c g"
  "balanced i c (upd_cell t_upd_cell q_upd_cell f_upd_cell g) = balanced i c g"
  "balanced i c (askChoose g) = balanced i c g"
  "balanced i c (askSelectPlayer k_askSelectPlayer d_askSelectPlayer c_askSelectPlayer g) = balanced i c g"
  "balanced i c (pause_kind k_pause_kind g) = balanced i c g"
  "balanced i c (resume_kind k_resume_kind g) = balanced i c g"
  "balanced i c (rotateChooser g) = balanced i c g"
  "balanced i c (announceSecretPrice cs_announceSecretPrice q_announceSecretPrice g) = balanced i c g"
  "balanced i c (askHiddenStake p_askHiddenStake g) = balanced i c g"
  "balanced i c (showmanHint pq_showmanHint g) = balanced i c g"
  "balanced i c (finalBuildOrder g) = balanced i c g" "balanced i c (thaw g) = balanced i c g"
  by (simp_all add: balanced_def ledger_def history_def player_def player_score_def)


lemma history_upd [simp]:
  "history (g\<lparr>st_Stage := v0\<rparr>) = history g"
  "history (g\<lparr>st_RoundIndex := v1\<rparr>) = history g"
  "history (g\<lparr>st_RoundName := v2\<rparr>) = history g"
  "history (g\<lparr>st_RoundType := v3\<rparr>) = history g"
  "history (g\<lparr>st_Table := v4\<rparr>) = history g"
  "history (g\<lparr>st_ChooserID := v5\<rparr>) = history g"
  "history (g\<lparr>st_Players := v6\<rparr>) = history g"
  "history (g\<lparr>st_ShowmanID := v7\<rparr>) = history g"
  "history (g\<lparr>st_Rules := v8\<rparr>) = history g"
  "history (g\<lparr>st_Times := v9\<rparr>) = history g"
  "history (g\<lparr>st_Pending := v11\<rparr>) = history g"
  "history (g\<lparr>st_Timers := v12\<rparr>) = history g"
  "history (g\<lparr>st_Paused := v13\<rparr>) = history g"
  "history (g\<lparr>st_Appeal := v14\<rparr>) = history g"
  "history (g\<lparr>st_RoundTimedOut := v15\<rparr>) = history g"
  "history (g\<lparr>st_WaitNext := v16\<rparr>) = history g"
  "history (g\<lparr>st_FinalGroups := v17\<rparr>) = history g"
  "history (g\<lparr>st_FinalOffset := v18\<rparr>) = history g"
  "history (g\<lparr>st_DeleteStep := v19\<rparr>) = history g"
  "history (g\<lparr>st_DeleterID := v20\<rparr>) = history g"
  "history (g\<lparr>st_DeleterUsed := v21\<rparr>) = history g"
  "history (g\<lparr>st_Winner := v22\<rparr>) = history g"
  "history (g\<lparr>st_QuestionsPlayed := v23\<rparr>) = history g"
  "history (g\<lparr>st_Ended := v24\<rparr>) = history g"
  "history (g\<lparr>g_pack := v25\<rparr>) = history g"
  "history (g\<lparr>g_lib := v26\<rparr>) = history g"
  "history (g\<lparr>g_rng := v27\<rparr>) = history g"
  "history (g\<lparr>g_rngLog := v28\<rparr>) = history g"
  "history (g\<lparr>g_now := v29\<rparr>) = history g"
  "history (g\<lparr>g_ev := v30\<rparr>) = history g"
  "history (g\<lparr>g_timerSeq := v31\<rparr>) = history g"
  by (simp_all add: history_def)

lemma history_ops [simp]:
  "history (emit aud_emit e_emit g) = history g" "history (ev_oral e_ev_oral g) = history g"
  "history (upd_player i_upd_player f_upd_player g) = history g"
  "history (upd_players f_upd_players g) = history g" "history (emitStage g) = history g"
  "history (emitSums g) = history g" "history (emitPlayers g) = history g"
  "history (emitTable g) = history g"
  "history (setPlayerState i_setPlayerState s_setPlayerState g) = history g"
  "history (addScore i_addScore d_addScore r_addScore g) = history g"
  "history (setChooser i_setChooser r_setChooser g) = history g"
  "history (removeTimer i_removeTimer g) = history g"
  "history (stopTimer i_stopTimer g) = history g" "history (stopKind k_stopKind g) = history g"
  "history (stopAllExcept ks_stopAllExcept g) = history g"
  "history (startTimer k_startTimer d_startTimer p_startTimer g) = history g"
  "history (upd_timer i_upd_timer f_upd_timer g) = history g"
  "history (pauseTimer t_pauseTimer g) = history g"
  "history (resumeTimer t_resumeTimer g) = history g" "history (pauseAllTimers g) = history g"
  "history (resumeAllTimers g) = history g"
  "history (upd_cell t_upd_cell q_upd_cell f_upd_cell g) = history g"
  "history (askChoose g) = history g"
  "history (askSelectPlayer k_askSelectPlayer d_askSelectPlayer c_askSelectPlayer g) = history g"
  "history (pause_kind k_pause_kind g) = history g"
  "history (resume_kind k_resume_kind g) = history g" "history (rotateChooser g) = history g"
  "history (announceSecretPrice cs_announceSecretPrice q_announceSecretPrice g) = history g"
  "history (hiddenStakeSet i_hiddenStakeSet a_hiddenStakeSet g) = history g"
  "history (askHiddenStake p_askHiddenStake g) = history g"
  "history (showmanHint pq_showmanHint g) = history g" "history (finalBuildOrder g) = history g"
  "history (final_in t_final_in g) = history g" "history (thaw g) = history g"
  "history (undo_outcome o_undo_outcome g) = history g"
  by (simp_all add: history_def)


lemma history_upd_q [simp]:
  "(\<And>q. q_History (f q) = q_History q) \<Longrightarrow> history (upd_q f g) = history g"
  by (simp add: history_def split: option.split)

lemma player_score_upd_q [simp]: "player (upd_q f g) i = player g i" "player_score (upd_q f g) i = player_score g i"
  by (simp_all add: player_def player_score_def)

lemma balanced_upd_q [simp]:
  "(\<And>q. q_History (f q) = q_History q) \<Longrightarrow> balanced i c (upd_q f g) = balanced i c g"
  by (simp add: balanced_def ledger_def)

lemma balanced_upd_player [simp]:
  "(\<And>p. p_ID (f p) = p_ID p) \<Longrightarrow> (\<And>p. p_Score (f p) = p_Score p) \<Longrightarrow>
     balanced i c (upd_player j f g) = balanced i c g"
  by (cases "player g i") (auto simp: balanced_def ledger_def history_def player_score_def player_upd_player)

lemma balanced_upd_players [simp]:
  "(\<And>p. p_ID (f p) = p_ID p) \<Longrightarrow> (\<And>p. p_Score (f p) = p_Score p) \<Longrightarrow>
     balanced i c (upd_players f g) = balanced i c g"
  by (cases "player g i") (auto simp: balanced_def ledger_def history_def player_score_def player_upd_players)

lemma balanced_fold [simp]: "(\<And>x g. balanced i c (f x g) = balanced i c g) \<Longrightarrow> balanced i c (fold f xs g) = balanced i c g"
  by (induction xs arbitrary: g) auto

lemma balanced_ops' [simp]:
  "balanced i c (setSub s g) = balanced i c g"
  "balanced i c (setPlayerState j st g) = balanced i c g"
  "balanced i c (askValidate j x q g) = balanced i c g"
  "balanced i c (disarm g) = balanced i c g"
  "balanced i c (armButton r q g) = balanced i c g"
  "balanced i c (askAnswer j k d q g) = balanced i c g"
  "balanced i c (showOptions q g) = balanced i c g"
  "balanced i c (announceSecretPrice cs q g) = balanced i c g"
  "balanced i c (hiddenStakeSet j n g) = balanced i c g"
  "balanced i c (upd_ss fs g) = balanced i c g"
  "balanced i c (stakeMarkPass j g) = balanced i c g"
  by (simp_all add: setSub_def setPlayerState_def askValidate_def disarm_def armButton_def askAnswer_def
      showOptions_def announceSecretPrice_def hiddenStakeSet_def upd_ss_def stakeMarkPass_def Let_def
      split: option.split)

lemma balanced_default_stakes [simp]: "balanced i c (default_stakes t q g) = balanced i c g"
  by (auto simp: default_stakes_def split: option.split)

subsection \<open>Scoring an answer and reverting it\<close>

lemma player_score_addScore:
  "player_score (addScore j d r g) i = player_score g i + (if i = j \<and> player g j \<noteq> None then d else 0)"
  by (cases "player g i") (auto simp: player_score_def player_addScore)

lemma balanced_addScore [simp]:
  "balanced i c (addScore j d r g) \<longleftrightarrow> balanced i (c - (if i = j then d else 0)) g"
  by (cases "player g i") (auto simp: balanced_def ledger_def history_def player_score_addScore player_addScore)

lemma balanced_record [simp]:
  "balanced i c (record_outcome o' g) \<longleftrightarrow>
     balanced i (c + (if o_PersonID o' = i \<and> \<not> o_Reverted o' then o_Delta o' else 0)) g"
  by (cases "st_Question g") (auto simp: balanced_def ledger_def history_def record_outcome_def)

lemma balanced_revert:
  assumes "k < length (history g)" and "\<not> o_Reverted (history g ! k)"
  shows "balanced i c (upd_outcome k (\<lambda>o'. o'\<lparr>o_Reverted := True\<rparr>) g) \<longleftrightarrow>
    balanced i (c - (if o_PersonID (history g ! k) = i then o_Delta (history g ! k) else 0)) g"
  using assms
  by (cases "st_Question g") (auto simp: balanced_def ledger_def history_def upd_outcome_def outcome_sum_update)

lemma balanced_applyOutcome [simp]: "balanced i c (applyOutcome j x r f s a b g) = balanced i c g"
  by (auto simp: applyOutcome_def cache_verdict_def outcome_delta_def Let_def)

lemma balanced_hiddenScore [simp]: "balanced i c (hiddenScore p x r f s q g) = balanced i c g"
  by (simp add: hiddenScore_def Let_def)

lemma history_revert_later [simp]: "length (history (revert_later k g)) = length (history g)"
proof -
  have "length (history (upd_outcome k f g)) = length (history g)" for f
    by (simp add: upd_outcome_def history_def split: option.split)
  then show ?thesis by (simp add: revert_later_def Let_def split: option.split)
qed

lemma balanced_revert_later:
  assumes "k < length (history g)"
  shows "balanced i c (revert_later k g) = balanced i c g"
proof (cases "st_Question g")
  case (Some q)
  let ?l = "q_History q ! k"
  have hist: "history g ! k = ?l" "history g = q_History q" using Some by (simp_all add: history_def)
  show ?thesis
  proof (cases "o_Reverted ?l")
    case False
    show ?thesis
    proof (cases "player g (o_PersonID ?l)")
      case None
      have "player (upd_outcome k (\<lambda>l. l\<lparr>o_Reverted := True\<rparr>) g) (o_PersonID ?l) = None"
        using None by (simp add: upd_outcome_def)
      moreover have "i = o_PersonID ?l \<Longrightarrow> \<not> balanced i c' g" for c' using None by (simp add: balanced_def)
      ultimately show ?thesis
        using Some False assms by (auto simp: revert_later_def balanced_revert hist Let_def)
    next
      case (Some lp)
      have "player (upd_outcome k (\<lambda>l. l\<lparr>o_Reverted := True\<rparr>) g) (o_PersonID ?l) = Some lp"
        using Some by (simp add: upd_outcome_def)
      then show ?thesis
        using \<open>st_Question g = Some q\<close> False assms by (auto simp: revert_later_def balanced_revert hist Let_def)
    qed
  qed (use Some in \<open>simp add: revert_later_def\<close>)
qed (simp add: revert_later_def)

lemma balanced_revert_all:
  "(\<And>k. k \<in> set ks \<Longrightarrow> k < length (history g)) \<Longrightarrow> balanced i c (fold revert_later ks g) = balanced i c g"
  by (induction ks arbitrary: g) (simp_all add: balanced_revert_later)

lemma balanced_revert_from:
  "n \<le> length (history g) \<Longrightarrow> balanced i c (fold revert_later [m ..< n] g) = balanced i c g"
  by (rule balanced_revert_all) simp

subsection \<open>Appeals\<close>

lemma balanced_apply_for:
  assumes "length (q_History q) = length (history g)"
  shows "balanced i c (appeal_apply_for a q p o' g) = balanced i c g"
  using assms
  by (simp add: appeal_apply_for_def Let_def balanced_revert_from)

lemma balanced_apply_against [simp]: "balanced i c (appeal_apply_against q p o' g) = balanced i c g"
  by (simp add: appeal_apply_against_def Let_def)

lemma appealApply_balanced:
  assumes idx: "ar_OutcomeIdx (a_Request a) < length (q_History q)"
    and rev: "\<not> o_Reverted (q_History q ! ar_OutcomeIdx (a_Request a))"
    and hist: "history g = q_History q" and ok: "balanced i c g"
  shows "\<exists>h b. appealApply a q g = Some (h, b) \<and> balanced i c h"
proof -
  let ?k = "ar_OutcomeIdx (a_Request a)"
  let ?o = "q_History q ! ?k"
  show ?thesis
  proof (cases "player g (o_PersonID ?o)")
    case None
    then have "appealApply a q g = Some (g, False)" using idx by (simp add: appealApply_def Let_def)
    then show ?thesis using ok by blast
  next
    case (Some p)
    let ?g = "addScore (p_ID p) (- o_Delta ?o) ''appeal'' (upd_outcome ?k (\<lambda>l. l\<lparr>o_Reverted := True\<rparr>) g)"
    have "balanced i c ?g"
      using ok idx rev player_ID [OF Some] by (auto simp: balanced_revert hist)
    moreover have "length (history ?g) = length (q_History q)"
      using hist by (auto simp: upd_outcome_def history_def split: option.splits)
    ultimately show ?thesis
      using Some idx by (simp add: appealApply_def Let_def balanced_apply_for ex_bool_eq)
  qed
qed

subsection \<open>Which call may follow\<close>

text \<open>Only \<open>processAppeals\<close> starts an appeal. The jump of a handler or a call is found by walking its branches.\<close>

definition starts_appeal :: "jump \<Rightarrow> bool" where
  "starts_appeal j = (case j of JAppealStart r \<Rightarrow> True | _ \<Rightarrow> False)"

definition result_jump :: "result \<Rightarrow> jump" where
  "result_jump r = (case r of Fail e g \<Rightarrow> Ret | Go g j \<Rightarrow> j)"

lemma result_jump_simps [simp]:
  "result_jump (Fail e g) = Ret" "result_jump (Go g j) = j" "result_jump (go_on x) = snd x"
  by (simp_all add: result_jump_def go_on_def split: prod.split)

locale jump_predicate =
  fixes N :: "jump \<Rightarrow> bool"
begin

lemma walk_flow:
  "N j \<Longrightarrow> N (snd (g, j))"
  "N (snd r) \<Longrightarrow> N (snd r') \<Longrightarrow> N (snd (if b then r else r'))"
  "N (snd r) \<Longrightarrow> (\<And>v. N (snd (f v))) \<Longrightarrow> N (snd (case_option r f m))"
  "N (snd r) \<Longrightarrow> (\<And>v w. N (snd (fp v w))) \<Longrightarrow> N (snd (case_list r fp xs))"
  "(\<And>v w. N (snd (fq v w))) \<Longrightarrow> N (snd (case_prod fq pr))"
  "(\<And>v. N (snd (fl v))) \<Longrightarrow> (\<And>v. N (snd (fr v))) \<Longrightarrow> N (snd (case_sum fl fr s))"
  "N (snd (x e)) \<Longrightarrow> N (snd (Let e x))"
  by (auto split: option.split list.split sum.split prod.split)

lemma walk_result:
  "N Ret \<Longrightarrow> N (result_jump (Fail e g))"
  "N j \<Longrightarrow> N (result_jump (Go g j))"
  "N (snd x) \<Longrightarrow> N (result_jump (go_on x))"
  "N (result_jump r) \<Longrightarrow> N (result_jump r') \<Longrightarrow> N (result_jump (if b then r else r'))"
  "N (result_jump r) \<Longrightarrow> (\<And>v. N (result_jump (f v))) \<Longrightarrow> N (result_jump (case_option r f m))"
  "(\<And>v. N (result_jump (fl v))) \<Longrightarrow> (\<And>v. N (result_jump (fr v))) \<Longrightarrow> N (result_jump (case_sum fl fr s))"
  "(\<And>v w. N (result_jump (fq v w))) \<Longrightarrow> N (result_jump (case_prod fq pr))"
  "N (result_jump (y e')) \<Longrightarrow> N (result_jump (Let e' y))"
  by (auto split: option.split sum.split prod.split)

lemmas walk = walk_flow walk_result

end

interpretation calls: jump_predicate "\<lambda>j. \<not> starts_appeal j" .

lemma reveal_starts_none: "\<not> starts_appeal (snd (reveal_loop n g))"
  by (induction n arbitrary: g) (auto simp: starts_appeal_def split: option.split sum.split)

lemma deleter_starts_none: "\<not> starts_appeal (snd (deleter_loop n g))"
  by (induction n arbitrary: g) (auto simp: starts_appeal_def Let_def split: option.split list.split if_split)

lemma script_starts_none: "\<not> starts_appeal (snd (beginScript ty g))"
  unfolding beginScript_def
  by (cases ty; simp only: question_type.case simpleBegin_def stakeBegin_def open_auction_def secretBegin_def
      secretTransfer_def noRiskBegin_def customBegin_def forAllBegin_def stakeAllBegin_def;
      intro calls.walk_flow; simp add: starts_appeal_def)

lemma step_starts_none: "j \<noteq> JProcessAppeals \<Longrightarrow> \<not> starts_appeal (snd (step j g))"
  by (cases j; simp only: step_def jump.case flow_defs startQuestion_def clear_round_def endGame_def pending_case_if;
      (intro calls.walk_flow reveal_starts_none deleter_starts_none script_starts_none;
       simp add: starts_appeal_def)?)

lemma fired_starts_none: "\<not> starts_appeal (snd (timer_fired k g))"
  by (cases k; simp only: timer_fired_def timer_kind.case onShowmanDecisionTimeout_def
      playerSelectionTimeout_def answerTimeout_def stakeTimeout_def hiddenStakesTimeout_def
      processSingleAnswer_def;
      intro calls.walk_flow; simp add: starts_appeal_def)

lemmas handler_defs =
  onTimeout_def onStart_def onPause_def onNext_def onToggle_def onChangeScore_def onSetChooser_def
  onSetOptions_def onPlayerReady_def onAISuggestion_def onPlayerJoined_def onMove_def onKick_def
  onPlayerLeft_def onMediaCompleted_def onButtonResult_def move_forward_def abortQuestionToAnswer_def
  stage_case_if onSelectPlayer_def onChooseQuestion_def onPass_def pass_bid_def pass_button_def
  onAnswerDraft_def onDeleteTheme_def onVoteAppeal_def onAppellate_def onAnswer_def answer_open_def
  answer_hidden_def onValidate_def validate_hidden_def validate_open_def processSingleAnswer_def
  onSetStake_def price_select_def hiddenSetStake_def set_bid_def playerGone_def returnQuestionToTable_def

lemma dispatch_starts_none: "\<not> starts_appeal (result_jump (dispatch cmd g))"
  by (cases "cmd_Type cmd"; simp only: dispatch_def Let_def cmd_type.case; (simp only: handler_defs)?;
      (intro calls.walk fired_starts_none; simp add: starts_appeal_def)?)

subsection \<open>The appeal under way\<close>

text \<open>An appeal under way contests an outcome of the open question that still counts.\<close>

definition contested :: "game \<Rightarrow> bool" where
  "contested g \<longleftrightarrow> (case st_Appeal g of None \<Rightarrow> True | Some a \<Rightarrow>
     ar_OutcomeIdx (a_Request a) < length (history g) \<and>
     \<not> o_Reverted (history g ! ar_OutcomeIdx (a_Request a)))"

lemma contested_upd [simp]:
  "contested (g\<lparr>st_Stage := v0\<rparr>) = contested g"
  "contested (g\<lparr>st_RoundIndex := v1\<rparr>) = contested g"
  "contested (g\<lparr>st_RoundName := v2\<rparr>) = contested g"
  "contested (g\<lparr>st_RoundType := v3\<rparr>) = contested g"
  "contested (g\<lparr>st_Table := v4\<rparr>) = contested g"
  "contested (g\<lparr>st_ChooserID := v5\<rparr>) = contested g"
  "contested (g\<lparr>st_Players := v6\<rparr>) = contested g"
  "contested (g\<lparr>st_ShowmanID := v7\<rparr>) = contested g"
  "contested (g\<lparr>st_Rules := v8\<rparr>) = contested g"
  "contested (g\<lparr>st_Times := v9\<rparr>) = contested g"
  "contested (g\<lparr>st_Pending := v11\<rparr>) = contested g"
  "contested (g\<lparr>st_Timers := v12\<rparr>) = contested g"
  "contested (g\<lparr>st_Paused := v13\<rparr>) = contested g"
  "contested (g\<lparr>st_RoundTimedOut := v15\<rparr>) = contested g"
  "contested (g\<lparr>st_WaitNext := v16\<rparr>) = contested g"
  "contested (g\<lparr>st_FinalGroups := v17\<rparr>) = contested g"
  "contested (g\<lparr>st_FinalOffset := v18\<rparr>) = contested g"
  "contested (g\<lparr>st_DeleteStep := v19\<rparr>) = contested g"
  "contested (g\<lparr>st_DeleterID := v20\<rparr>) = contested g"
  "contested (g\<lparr>st_DeleterUsed := v21\<rparr>) = contested g"
  "contested (g\<lparr>st_Winner := v22\<rparr>) = contested g"
  "contested (g\<lparr>st_QuestionsPlayed := v23\<rparr>) = contested g"
  "contested (g\<lparr>st_Ended := v24\<rparr>) = contested g"
  "contested (g\<lparr>g_pack := v25\<rparr>) = contested g"
  "contested (g\<lparr>g_lib := v26\<rparr>) = contested g"
  "contested (g\<lparr>g_rng := v27\<rparr>) = contested g"
  "contested (g\<lparr>g_rngLog := v28\<rparr>) = contested g"
  "contested (g\<lparr>g_now := v29\<rparr>) = contested g"
  "contested (g\<lparr>g_ev := v30\<rparr>) = contested g"
  "contested (g\<lparr>g_timerSeq := v31\<rparr>) = contested g"
  by (simp_all add: contested_def history_def cong: option.case_cong)

lemma contested_ops [simp]:
  "contested (emit aud_emit e_emit g) = contested g"
  "contested (ev_oral e_ev_oral g) = contested g"
  "contested (upd_player i_upd_player f_upd_player g) = contested g"
  "contested (upd_players f_upd_players g) = contested g" "contested (emitStage g) = contested g"
  "contested (emitSums g) = contested g" "contested (emitPlayers g) = contested g"
  "contested (emitTable g) = contested g"
  "contested (setPlayerState i_setPlayerState s_setPlayerState g) = contested g"
  "contested (addScore i_addScore d_addScore r_addScore g) = contested g"
  "contested (setChooser i_setChooser r_setChooser g) = contested g"
  "contested (removeTimer i_removeTimer g) = contested g"
  "contested (stopTimer i_stopTimer g) = contested g"
  "contested (stopKind k_stopKind g) = contested g"
  "contested (stopAllExcept ks_stopAllExcept g) = contested g"
  "contested (startTimer k_startTimer d_startTimer p_startTimer g) = contested g"
  "contested (upd_timer i_upd_timer f_upd_timer g) = contested g"
  "contested (pauseTimer t_pauseTimer g) = contested g"
  "contested (resumeTimer t_resumeTimer g) = contested g"
  "contested (pauseAllTimers g) = contested g" "contested (resumeAllTimers g) = contested g"
  "contested (upd_cell t_upd_cell q_upd_cell f_upd_cell g) = contested g"
  "contested (askChoose g) = contested g"
  "contested (askSelectPlayer k_askSelectPlayer d_askSelectPlayer c_askSelectPlayer g) = contested g"
  "contested (pause_kind k_pause_kind g) = contested g"
  "contested (resume_kind k_resume_kind g) = contested g"
  "contested (rotateChooser g) = contested g"
  "contested (announceSecretPrice cs_announceSecretPrice q_announceSecretPrice g) = contested g"
  "contested (hiddenStakeSet i_hiddenStakeSet a_hiddenStakeSet g) = contested g"
  "contested (askHiddenStake p_askHiddenStake g) = contested g"
  "contested (showmanHint pq_showmanHint g) = contested g"
  "contested (finalBuildOrder g) = contested g" "contested (final_in t_final_in g) = contested g"
  "contested (thaw g) = contested g" "contested (undo_outcome o_undo_outcome g) = contested g"
  by (simp_all add: contested_def history_def cong: option.case_cong)


lemma contested_none [simp]: "contested (g\<lparr>st_Appeal := None\<rparr>)"
  by (simp add: contested_def cong: option.case_cong)

lemma contested_upd_q [simp]: "(\<And>q. q_History (f q) = q_History q) \<Longrightarrow> contested (upd_q f g) = contested g"
  by (simp add: contested_def cong: option.case_cong)

lemma contested_fold [simp]: "(\<And>x g. contested (f x g) = contested g) \<Longrightarrow> contested (fold f xs g) = contested g"
  by (induction xs arbitrary: g) auto

lemma contested_ops' [simp]:
  "contested (setSub s g) = contested g"
  "contested (askValidate j x q g) = contested g"
  "contested (disarm g) = contested g"
  "contested (armButton r q g) = contested g"
  "contested (askAnswer j k d q g) = contested g"
  "contested (showOptions q g) = contested g"
  "contested (announceSecretPrice cs q g) = contested g"
  "contested (hiddenStakeSet j n g) = contested g"
  "contested (upd_ss fs g) = contested g"
  "contested (stakeMarkPass j g) = contested g"
  by (simp_all add: setSub_def askValidate_def disarm_def armButton_def askAnswer_def
      showOptions_def announceSecretPrice_def hiddenStakeSet_def upd_ss_def stakeMarkPass_def Let_def
      split: option.split)

lemma contested_default_stakes [simp]: "contested (default_stakes t q g) = contested g"
  by (auto simp: default_stakes_def split: option.split)

lemma contested_record [simp]: "contested g \<Longrightarrow> contested (record_outcome o' g)"
  by (cases "st_Question g")
     (auto simp: contested_def history_def record_outcome_def nth_append split: option.splits)

lemma contested_scoring [simp]:
  "contested g \<Longrightarrow> contested (applyOutcome j x r f s a b g)"
  "contested g \<Longrightarrow> contested (hiddenScore p x r f s q g)"
  by (auto simp: hiddenScore_def applyOutcome_def cache_verdict_def outcome_delta_def Let_def)

text \<open>The invariant: the ledger stands at \<open>c\<close> and the appeal is in order.\<close>

definition booked :: "string \<Rightarrow> int \<Rightarrow> game \<Rightarrow> bool" where
  "booked i c g \<longleftrightarrow> balanced i c g \<and> contested g"

subsection \<open>Every call and every command keeps the ledger\<close>

interpretation books: game_predicate "booked i c" for i c .

lemma balanced_more_ops [simp]:
  "balanced i c (askChoose g) = balanced i c g" "contested (askChoose g) = contested g"
  "balanced i c (thaw g) = balanced i c g" "contested (thaw g) = contested g"
  by (simp_all add: balanced_def ledger_def player_score_def player_def history_def contested_def cong: option.case_cong)

declare booked_def [simp]

lemma booked_reveal: "booked i c g \<Longrightarrow> books.either_ok i c (reveal_one p q g)"
  unfolding reveal_one_def by (intro books.walk; simp)

lemma booked_reveal_loop: "booked i c g \<Longrightarrow> booked i c (fst (reveal_loop k g))"
proof (induction k arbitrary: g)
  case (Suc k)
  show ?case
    unfolding reveal_loop.simps
    by (intro books.walk Suc.IH booked_reveal; use Suc.prems in simp)
qed simp

lemma booked_deleter_loop: "booked i c g \<Longrightarrow> booked i c (fst (deleter_loop k g))"
proof (induction k arbitrary: g)
  case (Suc k)
  show ?case
    unfolding deleter_loop.simps
    by (intro books.walk Suc.IH; use Suc.prems in simp)
qed simp

lemma booked_randomIndex: "booked i c g \<Longrightarrow> books.second_ok i c (randomIndex k g)"
  unfolding randomIndex_def by (intro books.walk; simp)

lemma balanced_final_in [simp]: "balanced i c (final_in f g) = balanced i c g" "contested (final_in f g) = contested g"
  by (simp_all add: final_in_def)

lemma booked_endGame: "booked i c g \<Longrightarrow> booked i c (endGame g)"
  by (simp add: endGame_def Let_def)

lemma booked_appealFinish:
  assumes ok: "booked i c g"
  shows "booked i c (fst (appealFinish g))"
proof (cases "st_Appeal g")
  case (Some a)
  then obtain q where q: "st_Question g = Some q" using ok by (cases "st_Question g") (auto simp: booked_def balanced_def)
  then have hist: "history (stopKind TimerAppellation g) = q_History q" by (simp add: history_def)
  have "ar_OutcomeIdx (a_Request a) < length (q_History q)"
    "\<not> o_Reverted (q_History q ! ar_OutcomeIdx (a_Request a))"
    using ok Some q by (auto simp: booked_def contested_def history_def)
  from appealApply_balanced [OF this hist, of i c] ok
  obtain h b where h: "appealApply a q (stopKind TimerAppellation g) = Some (h, b)" "balanced i c h"
    by (auto simp: booked_def)
  show ?thesis
    unfolding appealFinish_def using Some q h ok by (simp add: Let_def booked_def)
qed (use ok in \<open>simp add: appealFinish_def\<close>)

text \<open>An appeal starts on an outcome that still counts.\<close>

definition in_order :: "jump \<Rightarrow> game \<Rightarrow> bool" where
  "in_order j g = (case j of
       JAppealStart r \<Rightarrow> ar_OutcomeIdx r < length (history g) \<and> \<not> o_Reverted (history g ! ar_OutcomeIdx r)
     | _ \<Rightarrow> True)"

lemma in_order_unless: "\<not> starts_appeal j \<Longrightarrow> in_order j g"
  by (cases j) (simp_all add: starts_appeal_def in_order_def)

lemma in_order_step: "in_order (snd (step j g)) (fst (step j g))"
proof (cases "j = JProcessAppeals")
  case True
  then show ?thesis
    by (auto simp: step_def processAppeals_def in_order_def history_def upd_q_def Let_def split: option.split list.split)
qed (rule in_order_unless [OF step_starts_none])

lemma booked_appealStart:
  assumes "booked i c g" and "in_order (JAppealStart r) g"
  shows "booked i c (fst (appealStart r g))"
proof (cases "st_Question g")
  case (Some q)
  let ?g = "fold pauseTimer (st_Timers g) (g\<lparr>st_Appeal := Some (new_appeal g r)\<rparr>)"
  have "st_Question ?g = Some q" "st_Appeal ?g = Some (new_appeal g r)" using Some by (simp_all add: fold_frames)
  moreover have "a_Request (new_appeal g r) = r" by (simp add: new_appeal_def Let_def)
  ultimately have "contested ?g" using assms(2) Some by (simp add: contested_def in_order_def history_def)
  moreover have "balanced i c ?g" using assms(1) by (simp add: booked_def)
  ultimately show ?thesis using Some by (simp add: appealStart_def Let_def booked_def)
qed (use assms in \<open>simp add: appealStart_def\<close>)

lemma booked_secretAfterPrice: "booked i c g \<Longrightarrow> booked i c (fst (secretAfterPrice n g))"
  by (auto simp: secretAfterPrice_def Let_def split: option.split)

text \<open>The calls that open a question or a round start a new history.\<close>

definition opens :: "jump \<Rightarrow> bool" where
  "opens j \<longleftrightarrow> (case j of JStartQuestion t q \<Rightarrow> True | JStartRound i \<Rightarrow> True | _ \<Rightarrow> False)"

lemma booked_step:
  assumes "booked i c g" and "\<not> opens j" and "in_order j g"
  shows "booked i c (fst (step j g))"
proof (cases "j = JAppealFinish \<or> (\<exists>n. j = JSecretAfterPrice n) \<or> (\<exists>r. j = JAppealStart r)")
  case True
  then show ?thesis using booked_appealFinish booked_secretAfterPrice booked_appealStart assms by (auto simp: step_def)
next
  case False
  with assms(1,2) show ?thesis
    by (cases j; simp only: step_def jump.case flow_defs opens_def pending_case_if simp_thms jump.inject jump.distinct ex_simps;
        intro books.walk booked_reveal_loop booked_deleter_loop
          booked_randomIndex; simp)
qed

lemma booked_picks:
  assumes "booked i c g"
  shows "books.some_second_ok i c (random_pick xs g)" "books.some_second_ok i c (randomCell g)"
  using assms
  by (auto simp: random_pick_def randomCell_def randomIndex_def books.some_second_ok_def Let_def)

lemma booked_timer_fired: "booked i c g \<Longrightarrow> booked i c (fst (timer_fired k g))"
  by (cases k; simp only: timer_fired_def timer_kind.case onShowmanDecisionTimeout_def
      playerSelectionTimeout_def answerTimeout_def stakeTimeout_def hiddenStakesTimeout_def
      processSingleAnswer_def;
      intro books.walk booked_picks; simp)

lemma booked_timeout: "booked i c g \<Longrightarrow> booked i c (result_game (onTimeout cmd g))"
  unfolding onTimeout_def by (intro books.walk booked_timer_fired; simp)

lemma find_append_Some: "find P xs \<noteq> None \<Longrightarrow> find P (xs @ ys) = find P xs"
  by (induction xs) auto

lemma balanced_joined: "balanced i c g \<Longrightarrow> balanced i c (g\<lparr>st_Players := st_Players g @ [p]\<rparr>)"
  by (auto simp: balanced_def ledger_def history_def player_score_def player_def find_append_Some)

lemma booked_controls:
  assumes "booked i c g"
  shows "booked i c (result_game (onStart cmd g))" "booked i c (result_game (onPause cmd g))"
    "booked i c (result_game (onNext cmd g))" "booked i c (result_game (onToggle cmd g))"
    "booked i c (result_game (onSetChooser cmd g))"
    "booked i c (result_game (onSetOptions cmd g))" "booked i c (result_game (onPlayerReady cmd g))"
    "booked i c (result_game (onAISuggestion cmd g))" "booked i c (result_game (onPlayerJoined cmd g))"
  unfolding onStart_def onPause_def onNext_def onToggle_def onSetChooser_def
    onSetOptions_def onPlayerReady_def onAISuggestion_def onPlayerJoined_def
  by (intro books.walk; use assms balanced_joined [of i c g] in simp)+

lemma booked_playerGone: "booked i c g \<Longrightarrow> booked i c (fst (playerGone j g))"
  unfolding playerGone_def by (intro books.walk; simp)

lemma booked_moves:
  assumes "booked i c g"
  shows "booked i c (result_game (onKick cmd g))"
    "booked i c (result_game (onPlayerLeft cmd g))" "booked i c (result_game (onMediaCompleted cmd g))"
    "booked i c (result_game (onButtonResult cmd g))"
  unfolding onKick_def onPlayerLeft_def onMediaCompleted_def onButtonResult_def
  by (intro books.walk booked_playerGone; use assms in simp)+

lemma booked_forward:
  assumes "booked i c g" and "cmd_Dir cmd \<noteq> - 1"
  shows "booked i c (result_game (onMove cmd g))"
  unfolding onMove_def move_forward_def abortQuestionToAnswer_def stage_case_if
  by (subst if_not_P [OF assms(2)]) (intro books.walk; use assms in simp)

lemma booked_play:
  assumes "booked i c g"
  shows "booked i c (result_game (onSelectPlayer cmd g))" "booked i c (result_game (onChooseQuestion cmd g))"
    "booked i c (result_game (onPass cmd g))" "booked i c (result_game (onAnswerDraft cmd g))"
    "booked i c (result_game (onDeleteTheme cmd g))" "booked i c (result_game (onAppellate cmd g))"
  unfolding onSelectPlayer_def onChooseQuestion_def onPass_def pass_bid_def pass_button_def
    onAnswerDraft_def onDeleteTheme_def onAppellate_def
  by (intro books.walk; use assms in simp)+

text \<open>A vote leaves the request of the appeal alone.\<close>

lemma booked_vote: "booked i c g \<Longrightarrow> booked i c (result_game (onVoteAppeal cmd g))"
  by (cases "st_Appeal g") (auto simp: onVoteAppeal_def contested_def Let_def split: option.split sum.split)

lemma booked_answers:
  assumes "booked i c g"
  shows "booked i c (result_game (onAnswer cmd g))" "booked i c (result_game (onValidate cmd g))"
    "booked i c (result_game (onSetStake cmd g))"
  unfolding  onAnswer_def answer_open_def answer_hidden_def
    onValidate_def validate_hidden_def validate_open_def processSingleAnswer_def
    onSetStake_def price_select_def hiddenSetStake_def set_bid_def
  by (intro books.walk; use assms in simp)+

declare booked_def [simp del]

definition corrects :: "command \<Rightarrow> bool" where
  "corrects cmd \<longleftrightarrow> cmd_Type cmd = CmdChangeScore \<or> cmd_Type cmd = CmdMove \<and> cmd_Dir cmd = - 1"

lemma booked_dispatch:
  assumes ok: "booked i c g" and "\<not> corrects cmd"
  shows "booked i c (result_game (dispatch cmd g))"
  using assms(2)
  by (cases "cmd_Type cmd") (simp_all add: dispatch_def corrects_def ok booked_timeout booked_controls booked_moves
      booked_forward booked_play booked_vote booked_answers)

subsection \<open>Taking a question back\<close>

lemma score_undo_outcome:
  "player g i \<noteq> None \<Longrightarrow> player_score (undo_outcome o' g) i =
     player_score g i - (if o_PersonID o' = i \<and> \<not> o_Reverted o' then o_Delta o' else 0)"
  by (auto simp: undo_outcome_def player_score_addScore)

lemma player_undo_outcome: "player (undo_outcome o' g) i = None \<longleftrightarrow> player g i = None"
  by (simp add: undo_outcome_def player_addScore)

lemma score_undo_all:
  "player g i \<noteq> None \<Longrightarrow> player_score (fold undo_outcome os g) i = player_score g i - outcome_sum i os"
proof (induction os arbitrary: g)
  case (Cons o' os)
  then have "player (undo_outcome o' g) i \<noteq> None" by (simp add: player_undo_outcome)
  with Cons show ?case by (simp add: score_undo_outcome)
qed simp

lemma fold_undo_player: "player (fold undo_outcome os g) i = None \<longleftrightarrow> player g i = None"
  by (induction os arbitrary: g) (simp_all add: player_undo_outcome)

lemma outcome_sum_rev [simp]: "outcome_sum i (rev os) = outcome_sum i os"
  by (simp add: outcome_sum_def rev_filter [symmetric] rev_map [symmetric] sum_list_rev)

lemma player_score_cong: "st_Players g = st_Players g' \<Longrightarrow> player_score g i = player_score g' i"
  by (simp add: player_score_def player_def)

lemma returned_game:
  assumes "st_Question g = Some q" and "cell_in_table g (q_ThemeIndex q) (q_QuestionIndex q)"
    and "player g i \<noteq> None"
  defines "h \<equiv> fst (returnQuestionToTable g)"
  shows "player_score h i = ledger i g"
    and "st_Question h = None"
    and "st_Table h = st_Table (upd_cell (q_ThemeIndex q) (q_QuestionIndex q) (\<lambda>c. c\<lparr>c_Played := False\<rparr>) g)"
proof -
  let ?g = "disarm ((stopAllExcept [TimerRound] g)\<lparr>st_Pending := None\<rparr>)"
  let ?u = "fold undo_outcome (rev (q_History q)) ?g"
  have frame: "st_Table ?u = st_Table g" "cell_in_table ?u = cell_in_table g"
    by (simp_all add: fold_frames cell_in_table_def fun_eq_iff)
  have same: "player ?g i = player g i" by (simp add: player_def)
  then have "player_score ?g i = player_score g i" by (simp add: player_score_def)
  then have u: "player_score ?u i = ledger i g"
    using assms(1,3) score_undo_all [of ?g i "rev (q_History q)"] same by (simp add: ledger_def history_def)
  have score: "player_score (upd_players f k) i = player_score k i"
    if "\<And>p. p_ID (f p) = p_ID p" "\<And>p. p_Score (f p) = p_Score p" for f k
    using that by (simp add: player_score_def player_upd_players split: option.split)
  have keep: "player_score (emitSums (emitTable k)) i = player_score k i"
    "player_score (ev_all e k) i = player_score k i"
    "player_score (k\<lparr>st_Question := None\<rparr>) i = player_score k i"
    "player_score (upd_cell t c f k) i = player_score k i" for k e t c f
    by (rule player_score_cong, simp)+
  show "player_score h i = ledger i g"
    using assms(1,2) u frame
    by (simp add: h_def returnQuestionToTable_def Let_def score keep resetPlayerQuestion_def)
  show "st_Question h = None"
    using assms(1,2) frame by (simp add: h_def returnQuestionToTable_def Let_def)
  show "st_Table h = st_Table (upd_cell (q_ThemeIndex q) (q_QuestionIndex q) (\<lambda>c. c\<lparr>c_Played := False\<rparr>) g)"
    using assms(1,2) frame by (simp add: h_def returnQuestionToTable_def Let_def upd_cell_def)
qed

subsection \<open>The properties\<close>

text \<open>
  One question, from its opening on: commands that neither correct a score nor take the question back, and whose
  calls open no other question and no round. \<open>plays_on n j g\<close>: the calls from \<open>j\<close> return within \<open>n\<close> of them.
\<close>

fun plays_on :: "nat \<Rightarrow> jump \<Rightarrow> game \<Rightarrow> bool" where
  "plays_on 0 j g = False"
| "plays_on (Suc n) j g =
     (j = Ret \<or> (j \<noteq> Crash \<and> \<not> opens j \<and> plays_on n (snd (step j g)) (fst (step j g))))"

definition plays_within :: "nat \<Rightarrow> command \<Rightarrow> game \<Rightarrow> bool" where
  "plays_within n cmd g \<longleftrightarrow> \<not> corrects cmd \<and>
     (case dispatch cmd (begin_cmd cmd g) of Fail e h \<Rightarrow> True | Go h j \<Rightarrow> plays_on n j h)"

inductive same_question :: "game \<Rightarrow> game \<Rightarrow> bool" for g where
  opened: "st_Question g = Some q \<Longrightarrow> q_History q = [] \<Longrightarrow> st_Appeal g = None \<Longrightarrow> same_question g g"
| goes_on: "same_question g h \<Longrightarrow> plays_within n cmd h \<Longrightarrow> Apply cmd h = Some r \<Longrightarrow> same_question g (applied_game r)"

lemma plays_on_booked:
  "plays_on n j g \<Longrightarrow> booked i c g \<Longrightarrow> in_order j g \<Longrightarrow> \<exists>h. run j g = Some (Halted h) \<and> booked i c h"
proof (induction n arbitrary: j g)
  case (Suc n)
  show ?case
  proof (cases "j = Ret")
    case False
    with Suc.prems have "plays_on n (snd (step j g)) (fst (step j g))" "booked i c (fst (step j g))" "j \<noteq> Crash"
      by (auto intro: booked_step)
    from Suc.IH [OF this(1,2) in_order_step] this(3) False show ?thesis by (simp add: run_step)
  qed (use Suc.prems in simp)
qed simp

lemma booked_Apply:
  assumes "plays_within n cmd g" and "Apply cmd g = Some r" and "booked i c g"
  shows "booked i c (applied_game r)"
proof -
  have "booked i c (begin_cmd cmd g)" using assms(3) by (simp add: begin_cmd_def booked_def)
  then have b: "booked i c (result_game (dispatch cmd (begin_cmd cmd g)))"
    using assms(1) by (intro booked_dispatch) (simp_all add: plays_within_def)
  show ?thesis
  proof (cases "dispatch cmd (begin_cmd cmd g)")
    case (Fail e h)
    then show ?thesis using assms(2) b by (auto simp: Apply_def booked_def)
  next
    case (Go h j)
    have "in_order j h" using dispatch_starts_none [of cmd "begin_cmd cmd g"] Go by (simp add: in_order_unless)
    moreover have "plays_on n j h" using assms(1) Go by (simp add: plays_within_def)
    ultimately obtain k where "run j h = Some (Halted k)" "booked i c k" using b Go plays_on_booked by force
    then show ?thesis using assms(2) Go by (auto simp: Apply_def finish_def booked_def)
  qed
qed

lemma same_question_booked: "same_question g g' \<Longrightarrow> player g i \<noteq> None \<Longrightarrow> booked i (player_score g i) g'"
proof (induction rule: same_question.induct)
  case (opened q)
  then show ?case by (simp add: booked_def balanced_def ledger_def history_def contested_def)
next
  case (goes_on h n cmd r)
  then show ?case using booked_Apply by blast
qed


text \<open>B answers wrongly, nobody else presses, B appeals and the votes of C and D decide for it.\<close>

fun plays_all :: "nat \<Rightarrow> command list \<Rightarrow> game \<Rightarrow> game option" where
  "plays_all n [] g = Some g"
| "plays_all n (cmd # cs) g =
     (if plays_within n cmd g then (case Apply cmd g of None \<Rightarrow> None | Some r \<Rightarrow> plays_all n cs (applied_game r)) else None)"

lemma plays_all_same: "same_question g h \<Longrightarrow> plays_all n cs h = Some k \<Longrightarrow> same_question g k"
  by (induction cs arbitrary: h) (auto split: if_splits option.splits intro: goes_on)

definition demo_appeal :: "command list" where
  "demo_appeal = [fired TimerContent 4, (by_room CmdButtonResult)\<lparr>cmd_WinnerID := ''B''\<rparr>,
     (by_player CmdAnswer ''B'')\<lparr>cmd_Text := ''no''\<rparr>, by_showman CmdValidate, fired TimerButtonPressing 5,
     (by_player CmdAppellate ''B'')\<lparr>cmd_For := True\<rparr>, fired TimerReflection 8,
     (by_player CmdVoteAppeal ''C'')\<lparr>cmd_Right := True\<rparr>, (by_player CmdVoteAppeal ''D'')\<lparr>cmd_Right := True\<rparr>]"


text \<open>C21 (functional). Returning the question to the table takes exactly its outcomes back:
  every player has the score it had without them, the cell can be played again, no question is open.\<close>

theorem return_takes_scores_back:
  assumes "st_Question g = Some q" and "cell_in_table g (q_ThemeIndex q) (q_QuestionIndex q)" and "player g i \<noteq> None"
  shows "player_score (fst (returnQuestionToTable g)) i = player_score g i - outcome_sum i (q_History q) \<and>
    st_Question (fst (returnQuestionToTable g)) = None \<and>
    \<not> c_Played (table_cell (fst (returnQuestionToTable g)) (q_ThemeIndex q) (q_QuestionIndex q))"
  using returned_game [OF assms] assms
  by (simp add: ledger_def history_def table_cell_def upd_cell_def cell_in_table_def)

theorem return_takes_scores_back_witness:
  "\<exists>g. played demo_pack DefaultRules demo_question_won = Some g \<and> player_score g ''B'' = 100 \<and>
     player_score (fst (returnQuestionToTable g)) ''B'' = 0"
proof -
  have "case played demo_pack DefaultRules demo_question_won of None \<Rightarrow> False
    | Some g \<Rightarrow> (case st_Question g of None \<Rightarrow> False | Some q \<Rightarrow>
        cell_in_table g (q_ThemeIndex q) (q_QuestionIndex q) \<and> \<not> Option.is_none (player g ''B'') \<and>
        player_score g ''B'' = 100 \<and> outcome_sum ''B'' (q_History q) = 100)"
    by code_simp
  then obtain g q where g: "played demo_pack DefaultRules demo_question_won = Some g" "st_Question g = Some q"
    "cell_in_table g (q_ThemeIndex q) (q_QuestionIndex q)" "player g ''B'' \<noteq> None"
    "player_score g ''B'' = 100" "outcome_sum ''B'' (q_History q) = 100"
    by (auto split: option.splits simp: Option.is_none_def)
  then show ?thesis using return_takes_scores_back [OF g(2-4)] by auto
qed

end
