(* ===== verification/Engine_Roster.thy ===== *)
theory Engine_Roster
  imports Engine_Demo
begin

text \<open>
  The players of a game. Seats are never given up or reordered, identifiers are distinct and not the
  showman's, a kicked player is out for good, and at most twelve play.
\<close>

subsection \<open>Seats\<close>

type_synonym seat_view = "string \<times> bool \<times> bool"

definition seat_of :: "player \<Rightarrow> seat_view" where
  "seat_of p = (p_ID p, p_Kicked p, p_Connected p)"

definition seats :: "game \<Rightarrow> seat_view list" where
  "seats g = map seat_of (st_Players g)"

abbreviation kicked_seat :: "seat_view \<Rightarrow> bool" where "kicked_seat s \<equiv> fst (snd s)"

definition seats_ok :: "string list \<Rightarrow> string set \<Rightarrow> string \<Rightarrow> seat_view list \<Rightarrow> bool" where
  "seats_ok L K sm S \<longleftrightarrow> distinct (map fst S) \<and> [] \<notin> fst ` set S \<and> sm \<notin> fst ` set S \<and>
     length (filter (\<lambda>s. \<not> kicked_seat s) S) \<le> MaxPlayers \<and>
     (\<forall>(i, k, c) \<in> set S. k \<longrightarrow> \<not> c) \<and> prefix L (map fst S) \<and>
     (\<forall>i \<in> K. \<exists>c. (i, True, c) \<in> set S)"

definition roster :: "string list \<Rightarrow> string set \<Rightarrow> game \<Rightarrow> bool" where
  "roster L K g \<longleftrightarrow> seats_ok L K (st_ShowmanID g) (seats g)"

lemma seats_upd [simp]:
  "seats (g\<lparr>st_Stage := v0\<rparr>) = seats g"
  "seats (g\<lparr>st_RoundIndex := v1\<rparr>) = seats g"
  "seats (g\<lparr>st_RoundName := v2\<rparr>) = seats g"
  "seats (g\<lparr>st_RoundType := v3\<rparr>) = seats g"
  "seats (g\<lparr>st_Table := v4\<rparr>) = seats g"
  "seats (g\<lparr>st_ChooserID := v5\<rparr>) = seats g"
  "seats (g\<lparr>st_ShowmanID := v7\<rparr>) = seats g"
  "seats (g\<lparr>st_Rules := v8\<rparr>) = seats g"
  "seats (g\<lparr>st_Times := v9\<rparr>) = seats g"
  "seats (g\<lparr>st_Question := v10\<rparr>) = seats g"
  "seats (g\<lparr>st_Pending := v11\<rparr>) = seats g"
  "seats (g\<lparr>st_Timers := v12\<rparr>) = seats g"
  "seats (g\<lparr>st_Paused := v13\<rparr>) = seats g"
  "seats (g\<lparr>st_Appeal := v14\<rparr>) = seats g"
  "seats (g\<lparr>st_RoundTimedOut := v15\<rparr>) = seats g"
  "seats (g\<lparr>st_WaitNext := v16\<rparr>) = seats g"
  "seats (g\<lparr>st_FinalGroups := v17\<rparr>) = seats g"
  "seats (g\<lparr>st_FinalOffset := v18\<rparr>) = seats g"
  "seats (g\<lparr>st_DeleteStep := v19\<rparr>) = seats g"
  "seats (g\<lparr>st_DeleterID := v20\<rparr>) = seats g"
  "seats (g\<lparr>st_DeleterUsed := v21\<rparr>) = seats g"
  "seats (g\<lparr>st_Winner := v22\<rparr>) = seats g"
  "seats (g\<lparr>st_QuestionsPlayed := v23\<rparr>) = seats g"
  "seats (g\<lparr>st_Ended := v24\<rparr>) = seats g"
  "seats (g\<lparr>g_pack := v25\<rparr>) = seats g"
  "seats (g\<lparr>g_lib := v26\<rparr>) = seats g"
  "seats (g\<lparr>g_rng := v27\<rparr>) = seats g"
  "seats (g\<lparr>g_rngLog := v28\<rparr>) = seats g"
  "seats (g\<lparr>g_now := v29\<rparr>) = seats g"
  "seats (g\<lparr>g_ev := v30\<rparr>) = seats g"
  "seats (g\<lparr>g_timerSeq := v31\<rparr>) = seats g"
  by (simp_all add: seats_def)

lemma seats_ops [simp]:
  "seats (emit aud_emit e_emit g) = seats g" "seats (ev_oral e_ev_oral g) = seats g"
  "seats (upd_q f_upd_q g) = seats g" "seats (emitStage g) = seats g"
  "seats (setSub sub_setSub g) = seats g" "seats (emitSums g) = seats g"
  "seats (emitPlayers g) = seats g" "seats (emitTable g) = seats g"
  "seats (setChooser i_setChooser r_setChooser g) = seats g"
  "seats (removeTimer i_removeTimer g) = seats g" "seats (stopTimer i_stopTimer g) = seats g"
  "seats (stopKind k_stopKind g) = seats g" "seats (stopAllExcept ks_stopAllExcept g) = seats g"
  "seats (startTimer k_startTimer d_startTimer p_startTimer g) = seats g"
  "seats (upd_timer i_upd_timer f_upd_timer g) = seats g"
  "seats (pauseTimer t_pauseTimer g) = seats g" "seats (resumeTimer t_resumeTimer g) = seats g"
  "seats (pauseAllTimers g) = seats g" "seats (resumeAllTimers g) = seats g"
  "seats (upd_cell t_upd_cell q_upd_cell f_upd_cell g) = seats g" "seats (askChoose g) = seats g"
  "seats (askSelectPlayer k_askSelectPlayer d_askSelectPlayer c_askSelectPlayer g) = seats g"
  "seats (armButton r_armButton q_armButton g) = seats g" "seats (disarm g) = seats g"
  "seats (pause_kind k_pause_kind g) = seats g" "seats (resume_kind k_resume_kind g) = seats g"
  "seats (showOptions q_showOptions g) = seats g"
  "seats (askValidate i_askValidate x_askValidate q_askValidate g) = seats g"
  "seats (record_outcome o_record_outcome g) = seats g" "seats (rotateChooser g) = seats g"
  "seats (announceSecretPrice cs_announceSecretPrice q_announceSecretPrice g) = seats g"
  "seats (upd_ss f_upd_ss g) = seats g" "seats (askHiddenStake p_askHiddenStake g) = seats g"
  "seats (showmanHint pq_showmanHint g) = seats g" "seats (finalBuildOrder g) = seats g"
  "seats (upd_outcome i_upd_outcome f_upd_outcome g) = seats g" "seats (thaw g) = seats g"
  by (simp_all add: seats_def)


lemma seats_upd_player [simp]:
  "(\<And>p. seat_of (f p) = seat_of p) \<Longrightarrow> seats (upd_player i f g) = seats g"
  by (simp add: seats_def upd_player_def)

lemma seats_upd_players [simp]:
  "(\<And>p. seat_of (f p) = seat_of p) \<Longrightarrow> seats (upd_players f g) = seats g"
  by (simp add: seats_def upd_players_def)

lemma seats_fold [simp]: "(\<And>x g. seats (f x g) = seats g) \<Longrightarrow> seats (fold f xs g) = seats g"
  by (induction xs arbitrary: g) auto

lemma seats_basic [simp]:
  "seats (setPlayerState j st g) = seats g"
  "seats (addScore j d r g) = seats g"
  "seats (askAnswer j k d q g) = seats g"
  "seats (hiddenStakeSet j n g) = seats g"
  "seats (stakeMarkPass j g) = seats g"
  "seats (final_in t g) = seats g"
  "seats (open_question a b pq g) = seats g"
  by (simp_all add: setPlayerState_def addScore_def askAnswer_def hiddenStakeSet_def stakeMarkPass_def
      final_in_def seat_of_def Let_def)
    (simp add: seats_def seat_of_def reset_for_round_def resetPlayerQuestion_def)

lemma seats_scores [simp]:
  "seats (applyOutcome i x r f s a b g) = seats g"
  "seats (undo_outcome o' g) = seats g"
  "seats (revert_later k g) = seats g"
  by (auto simp: applyOutcome_def undo_outcome_def revert_later_def seat_of_def Let_def split: option.split)

lemma seats_composite [simp]:
  "seats (hiddenScore p x r f s q g) = seats g"
  "seats (default_stakes t q g) = seats g"
  "seats (appeal_apply_for a q p o' g) = seats g"
  "seats (appeal_apply_against q p o' g) = seats g"
  by (auto simp: hiddenScore_def default_stakes_def appeal_apply_for_def appeal_apply_against_def seat_of_def
      Let_def split: option.split)

lemma seats_reset: "seats (g\<lparr>st_Players := map reset_for_round (st_Players g)\<rparr>) = seats g"
  by (simp add: seats_def seat_of_def reset_for_round_def resetPlayerQuestion_def)

lemma roster_upd [simp]:
  "roster L K (g\<lparr>st_Stage := v0\<rparr>) = roster L K g"
  "roster L K (g\<lparr>st_RoundIndex := v1\<rparr>) = roster L K g"
  "roster L K (g\<lparr>st_RoundName := v2\<rparr>) = roster L K g"
  "roster L K (g\<lparr>st_RoundType := v3\<rparr>) = roster L K g"
  "roster L K (g\<lparr>st_Table := v4\<rparr>) = roster L K g"
  "roster L K (g\<lparr>st_ChooserID := v5\<rparr>) = roster L K g"
  "roster L K (g\<lparr>st_Rules := v8\<rparr>) = roster L K g"
  "roster L K (g\<lparr>st_Times := v9\<rparr>) = roster L K g"
  "roster L K (g\<lparr>st_Question := v10\<rparr>) = roster L K g"
  "roster L K (g\<lparr>st_Pending := v11\<rparr>) = roster L K g"
  "roster L K (g\<lparr>st_Timers := v12\<rparr>) = roster L K g"
  "roster L K (g\<lparr>st_Paused := v13\<rparr>) = roster L K g"
  "roster L K (g\<lparr>st_Appeal := v14\<rparr>) = roster L K g"
  "roster L K (g\<lparr>st_RoundTimedOut := v15\<rparr>) = roster L K g"
  "roster L K (g\<lparr>st_WaitNext := v16\<rparr>) = roster L K g"
  "roster L K (g\<lparr>st_FinalGroups := v17\<rparr>) = roster L K g"
  "roster L K (g\<lparr>st_FinalOffset := v18\<rparr>) = roster L K g"
  "roster L K (g\<lparr>st_DeleteStep := v19\<rparr>) = roster L K g"
  "roster L K (g\<lparr>st_DeleterID := v20\<rparr>) = roster L K g"
  "roster L K (g\<lparr>st_DeleterUsed := v21\<rparr>) = roster L K g"
  "roster L K (g\<lparr>st_Winner := v22\<rparr>) = roster L K g"
  "roster L K (g\<lparr>st_QuestionsPlayed := v23\<rparr>) = roster L K g"
  "roster L K (g\<lparr>st_Ended := v24\<rparr>) = roster L K g"
  "roster L K (g\<lparr>g_pack := v25\<rparr>) = roster L K g"
  "roster L K (g\<lparr>g_lib := v26\<rparr>) = roster L K g"
  "roster L K (g\<lparr>g_rng := v27\<rparr>) = roster L K g"
  "roster L K (g\<lparr>g_rngLog := v28\<rparr>) = roster L K g"
  "roster L K (g\<lparr>g_now := v29\<rparr>) = roster L K g"
  "roster L K (g\<lparr>g_ev := v30\<rparr>) = roster L K g"
  "roster L K (g\<lparr>g_timerSeq := v31\<rparr>) = roster L K g"
  by (simp_all add: roster_def)

lemma roster_ops [simp]:
  "roster L K (emit aud_emit e_emit g) = roster L K g"
  "roster L K (ev_oral e_ev_oral g) = roster L K g" "roster L K (upd_q f_upd_q g) = roster L K g"
  "roster L K (emitStage g) = roster L K g" "roster L K (setSub sub_setSub g) = roster L K g"
  "roster L K (emitSums g) = roster L K g" "roster L K (emitPlayers g) = roster L K g"
  "roster L K (emitTable g) = roster L K g"
  "roster L K (setChooser i_setChooser r_setChooser g) = roster L K g"
  "roster L K (removeTimer i_removeTimer g) = roster L K g"
  "roster L K (stopTimer i_stopTimer g) = roster L K g"
  "roster L K (stopKind k_stopKind g) = roster L K g"
  "roster L K (stopAllExcept ks_stopAllExcept g) = roster L K g"
  "roster L K (startTimer k_startTimer d_startTimer p_startTimer g) = roster L K g"
  "roster L K (upd_timer i_upd_timer f_upd_timer g) = roster L K g"
  "roster L K (pauseTimer t_pauseTimer g) = roster L K g"
  "roster L K (resumeTimer t_resumeTimer g) = roster L K g"
  "roster L K (pauseAllTimers g) = roster L K g" "roster L K (resumeAllTimers g) = roster L K g"
  "roster L K (upd_cell t_upd_cell q_upd_cell f_upd_cell g) = roster L K g"
  "roster L K (askChoose g) = roster L K g"
  "roster L K (askSelectPlayer k_askSelectPlayer d_askSelectPlayer c_askSelectPlayer g) = roster L K g"
  "roster L K (armButton r_armButton q_armButton g) = roster L K g"
  "roster L K (disarm g) = roster L K g" "roster L K (pause_kind k_pause_kind g) = roster L K g"
  "roster L K (resume_kind k_resume_kind g) = roster L K g"
  "roster L K (showOptions q_showOptions g) = roster L K g"
  "roster L K (askValidate i_askValidate x_askValidate q_askValidate g) = roster L K g"
  "roster L K (record_outcome o_record_outcome g) = roster L K g"
  "roster L K (rotateChooser g) = roster L K g"
  "roster L K (announceSecretPrice cs_announceSecretPrice q_announceSecretPrice g) = roster L K g"
  "roster L K (upd_ss f_upd_ss g) = roster L K g"
  "roster L K (askHiddenStake p_askHiddenStake g) = roster L K g"
  "roster L K (showmanHint pq_showmanHint g) = roster L K g"
  "roster L K (finalBuildOrder g) = roster L K g"
  "roster L K (upd_outcome i_upd_outcome f_upd_outcome g) = roster L K g"
  "roster L K (thaw g) = roster L K g"
  by (simp_all add: roster_def)


lemma roster_same: "seats g' = seats g \<Longrightarrow> st_ShowmanID g' = st_ShowmanID g \<Longrightarrow> roster L K g' = roster L K g"
  by (simp add: roster_def)

lemma roster_reset [simp]:
  "st_ShowmanID g' = st_ShowmanID g \<Longrightarrow>
     roster L K (g'\<lparr>st_Players := map reset_for_round (st_Players g)\<rparr>) = roster L K g"
proof -
  have "seat_of \<circ> reset_for_round = seat_of"
    by (simp add: seat_of_def reset_for_round_def resetPlayerQuestion_def fun_eq_iff)
  then show "st_ShowmanID g' = st_ShowmanID g \<Longrightarrow>
     roster L K (g'\<lparr>st_Players := map reset_for_round (st_Players g)\<rparr>) = roster L K g"
    by (simp add: roster_def seats_def)
qed

lemma roster_upd_player [simp]:
  "(\<And>p. seat_of (f p) = seat_of p) \<Longrightarrow> roster L K (upd_player i f g) = roster L K g"
  "(\<And>p. seat_of (f p) = seat_of p) \<Longrightarrow> roster L K (upd_players f g) = roster L K g"
  by (simp_all add: roster_def)

lemma roster_players_ops [simp]:
  "roster L K (setPlayerState j st g) = roster L K g"
  "roster L K (addScore j d r g) = roster L K g"
  "roster L K (askAnswer j k d q g) = roster L K g"
  "roster L K (hiddenStakeSet j n g) = roster L K g"
  "roster L K (stakeMarkPass j g) = roster L K g"
  "roster L K (final_in t g) = roster L K g"
  "roster L K (open_question a b pq g) = roster L K g"
  "roster L K (applyOutcome i x r' f s a' b' g) = roster L K g"
  "roster L K (undo_outcome o' g) = roster L K g"
  "roster L K (hiddenScore p x r' f s q g) = roster L K g"
  "roster L K (default_stakes t' q g) = roster L K g"
  "roster L K (appeal_apply_for ap q p o' g) = roster L K g"
  "roster L K (appeal_apply_against q p o' g) = roster L K g"
  by (rule roster_same; simp)+

lemma roster_fold [simp]: "(\<And>x g. roster L K (f x g) = roster L K g) \<Longrightarrow> roster L K (fold f xs g) = roster L K g"
  by (induction xs arbitrary: g) auto

lemma seat_of_updates [simp]:
  "seat_of (p\<lparr>p_State := a\<rparr>) = seat_of p" "seat_of (p\<lparr>p_CanPress := b\<rparr>) = seat_of p"
  "seat_of (p\<lparr>p_InGame := b\<rparr>) = seat_of p" "seat_of (p\<lparr>p_Ready := b\<rparr>) = seat_of p"
  "seat_of (p\<lparr>p_MediaDone := b\<rparr>) = seat_of p" "seat_of (p\<lparr>p_Answered := b\<rparr>) = seat_of p"
  "seat_of (p\<lparr>p_Answer := av\<rparr>) = seat_of p" "seat_of (p\<lparr>p_AppealUsed := b\<rparr>) = seat_of p"
  "seat_of (p\<lparr>p_Appeals := n\<rparr>) = seat_of p" "seat_of (resetPlayerQuestion p) = seat_of p"
  by (simp_all add: seat_of_def resetPlayerQuestion_def)

subsection \<open>Every call and every command keeps the seats\<close>

interpretation seating: game_predicate "roster L K" for L K .

lemma roster_reveal: "roster L K g \<Longrightarrow> seating.either_ok L K (reveal_one p q g)"
  unfolding reveal_one_def by (intro seating.walk; simp)

lemma roster_reveal_loop: "roster L K g \<Longrightarrow> roster L K (fst (reveal_loop k g))"
proof (induction k arbitrary: g)
  case (Suc k)
  show ?case
    unfolding reveal_loop.simps
    by (intro seating.walk Suc.IH roster_reveal; simp add: Suc.prems)
qed simp

lemma roster_deleter_loop: "roster L K g \<Longrightarrow> roster L K (fst (deleter_loop k g))"
proof (induction k arbitrary: g)
  case (Suc k)
  show ?case
    unfolding deleter_loop.simps
    by (intro seating.walk Suc.IH; simp add: Suc.prems)
qed simp

lemma roster_appealApply: "roster L K g \<Longrightarrow> seating.some_first_ok L K (appealApply a q g)"
  unfolding appealApply_def by (intro seating.walk; simp)

lemma roster_randomIndex: "roster L K g \<Longrightarrow> seating.second_ok L K (randomIndex k g)"
  unfolding randomIndex_def by (intro seating.walk; simp)

lemma roster_script: "roster L K g \<Longrightarrow> roster L K (fst (beginScript ty g))"
  unfolding beginScript_def
  by (cases ty; simp only: question_type.case simpleBegin_def stakeBegin_def open_auction_def secretBegin_def
      secretTransfer_def noRiskBegin_def customBegin_def forAllBegin_def stakeAllBegin_def;
      intro seating.walk; simp)

lemma roster_step: "roster L K g \<Longrightarrow> roster L K (fst (step j g))"
  by (cases j; simp only: step_def jump.case flow_defs startQuestion_def clear_round_def endGame_def
      pending_case_if;
      intro seating.walk roster_reveal_loop roster_deleter_loop roster_appealApply
        roster_randomIndex roster_script; simp)

lemma roster_picks:
  assumes "roster L K g"
  shows "seating.some_second_ok L K (random_pick xs g)" "seating.some_second_ok L K (randomCell g)"
  using assms
  by (auto simp: random_pick_def randomCell_def randomIndex_def seating.some_second_ok_def Let_def)

lemma roster_timer_fired: "roster L K g \<Longrightarrow> roster L K (fst (timer_fired k g))"
  by (cases k; simp only: timer_fired_def timer_kind.case onShowmanDecisionTimeout_def
      playerSelectionTimeout_def answerTimeout_def stakeTimeout_def hiddenStakesTimeout_def
      processSingleAnswer_def;
      intro seating.walk roster_picks; simp)

lemma roster_timeout: "roster L K g \<Longrightarrow> roster L K (result_game (onTimeout cmd g))"
  unfolding onTimeout_def by (intro seating.walk roster_timer_fired; simp)

lemma roster_controls:
  assumes "roster L K g"
  shows "roster L K (result_game (onStart cmd g))" "roster L K (result_game (onPause cmd g))"
    "roster L K (result_game (onNext cmd g))" "roster L K (result_game (onToggle cmd g))"
    "roster L K (result_game (onChangeScore cmd g))" "roster L K (result_game (onSetChooser cmd g))"
    "roster L K (result_game (onSetOptions cmd g))" "roster L K (result_game (onPlayerReady cmd g))"
    "roster L K (result_game (onAISuggestion cmd g))"
  unfolding onStart_def onPause_def onNext_def onToggle_def onChangeScore_def onSetChooser_def
    onSetOptions_def onPlayerReady_def onAISuggestion_def
  by (intro seating.walk; simp add: assms)+

lemma roster_returned: "roster L K g \<Longrightarrow> roster L K (fst (returnQuestionToTable g))"
  unfolding returnQuestionToTable_def by (intro seating.walk; simp)

lemma roster_playerGone: "roster L K g \<Longrightarrow> roster L K (fst (playerGone i g))"
  unfolding playerGone_def by (intro seating.walk; simp)

lemma roster_moves:
  assumes "roster L K g"
  shows "roster L K (result_game (onMove cmd g))" "roster L K (result_game (onMediaCompleted cmd g))"
    "roster L K (result_game (onButtonResult cmd g))"
  unfolding onMove_def onMediaCompleted_def onButtonResult_def
    move_forward_def abortQuestionToAnswer_def stage_case_if
  by (intro seating.walk roster_returned; simp add: assms)+

lemma roster_play:
  assumes "roster L K g"
  shows "roster L K (result_game (onSelectPlayer cmd g))" "roster L K (result_game (onChooseQuestion cmd g))"
    "roster L K (result_game (onPass cmd g))" "roster L K (result_game (onAnswerDraft cmd g))"
    "roster L K (result_game (onDeleteTheme cmd g))" "roster L K (result_game (onVoteAppeal cmd g))"
    "roster L K (result_game (onAppellate cmd g))"
  unfolding onSelectPlayer_def onChooseQuestion_def onPass_def pass_bid_def pass_button_def
    onAnswerDraft_def onDeleteTheme_def onVoteAppeal_def onAppellate_def
  by (intro seating.walk; simp add: assms)+

lemma roster_answers:
  assumes "roster L K g"
  shows "roster L K (result_game (onAnswer cmd g))" "roster L K (result_game (onValidate cmd g))"
    "roster L K (result_game (onSetStake cmd g))"
  unfolding  onAnswer_def answer_open_def answer_hidden_def
    onValidate_def validate_hidden_def validate_open_def processSingleAnswer_def
    onSetStake_def price_select_def hiddenSetStake_def set_bid_def
  by (intro seating.walk; simp add: assms)+

text \<open>The commands that change a seat or add one.\<close>

lemma seats_ok_change:
  assumes ok: "seats_ok L K sm S"
    and h: "\<And>s. s \<in> set S \<Longrightarrow> fst s = i \<Longrightarrow> fst (h s) = i \<and> (kicked_seat s \<longrightarrow> kicked_seat (h s)) \<and>
      (kicked_seat (h s) \<longrightarrow> \<not> snd (snd (h s)))"
  shows "seats_ok L K sm (map (\<lambda>s. if fst s = i then h s else s) S)"
proof -
  let ?f = "\<lambda>s. if fst s = i then h s else s"
  have ids: "map fst (map ?f S) = map fst S" using h by (auto simp: comp_def)
  then have sets: "fst ` set (map ?f S) = fst ` set S" by (metis list.set_map)
  have "length (filter (\<lambda>s. \<not> kicked_seat s) (map ?f S)) \<le> length (filter (\<lambda>s. \<not> kicked_seat s) S)"
    using h by (induction S) auto
  moreover have "\<exists>c. (j, True, c) \<in> set (map ?f S)" if "j \<in> K" for j
  proof -
    obtain c where c: "(j, True, c) \<in> set S" using ok \<open>j \<in> K\<close> by (auto simp: seats_ok_def)
    have "?f (j, True, c) \<in> set (map ?f S)" using imageI [OF c, of ?f] by (simp only: set_map)
    moreover have "fst (?f (j, True, c)) = j \<and> kicked_seat (?f (j, True, c))" using h [OF c] by auto
    ultimately obtain s where s: "s \<in> set (map ?f S)" "fst s = j" "kicked_seat s" by blast
    from s(2,3) have "s = (j, True, snd (snd s))" by (simp add: prod_eq_iff)
    then have "(j, True, snd (snd s)) \<in> set (map ?f S)" using s(1) by (rule subst)
    then show ?thesis by (rule exI)
  qed
  moreover have "\<forall>(j, k, c) \<in> set (map ?f S). k \<longrightarrow> \<not> c"
  proof
    fix s
    assume "s \<in> set (map ?f S)"
    then obtain u where u: "u \<in> set S" "s = ?f u" unfolding set_map by (rule imageE) metis
    then have "kicked_seat u \<longrightarrow> \<not> snd (snd u)" using ok by (auto simp: seats_ok_def)
    then have "kicked_seat s \<longrightarrow> \<not> snd (snd s)" using u h [OF u(1)] by simp
    then show "case s of (j, k, c) \<Rightarrow> k \<longrightarrow> \<not> c" by (simp add: split_def)
  qed
  ultimately show ?thesis
    using ok unfolding seats_ok_def ids sets by (intro conjI ballI) (simp_all add: le_trans)
qed

lemma seats_changed:
  "(\<And>p. seat_of (f p) = h (seat_of p)) \<Longrightarrow>
     seats (upd_player i f g) = map (\<lambda>s. if fst s = i then h s else s) (seats g)"
  by (simp add: seats_def upd_player_def seat_of_def)

lemma roster_changed:
  assumes "roster L K g" and "\<And>p. seat_of (f p) = h (seat_of p)"
    and "\<And>s. s \<in> set (seats g) \<Longrightarrow> fst s = i \<Longrightarrow> fst (h s) = i \<and> (kicked_seat s \<longrightarrow> kicked_seat (h s)) \<and>
      (kicked_seat (h s) \<longrightarrow> \<not> snd (snd (h s)))"
  shows "roster L K (upd_player i f g)"
  using assms seats_ok_change [OF assms(1) [unfolded roster_def] assms(3)]
  by (simp add: roster_def seats_changed [where h = h])

lemma roster_kick:
  "roster L K g \<Longrightarrow> roster L K (upd_player i (\<lambda>p. p\<lparr>p_Kicked := True, p_Connected := False\<rparr>) g)"
  by (rule roster_changed [where h = "\<lambda>(i, k, c). (i, True, False)"]) (auto simp: seat_of_def)

lemma roster_leave:
  "roster L K g \<Longrightarrow> roster L K (upd_player i (\<lambda>p. p\<lparr>p_Connected := False\<rparr>) g)"
  by (rule roster_changed [where h = "\<lambda>(i, k, c). (i, k, False)"]) (auto simp: seat_of_def)

lemma seat_unique:
  assumes "roster L K g" and "player g i = Some p" and "s \<in> set (seats g)" and "fst s = i"
  shows "s = seat_of p"
proof -
  have "p \<in> set (st_Players g)" "p_ID p = i" using assms(2) by (auto simp: player_def find_Some_iff)
  moreover have "distinct (map p_ID (st_Players g))"
    using assms(1) by (simp add: roster_def seats_ok_def seats_def seat_of_def comp_def)
  ultimately show ?thesis
    using assms(3,4) by (auto simp: seats_def seat_of_def distinct_map dest: inj_onD)
qed

lemma roster_join:
  assumes "roster L K g" and "player g i = Some p" and "\<not> p_Kicked p"
    and "\<And>p. p_ID (f p) = p_ID p \<and> p_Kicked (f p) = p_Kicked p \<and> p_Connected (f p)"
  shows "roster L K (upd_player i f g)"
proof (rule roster_changed [where h = "\<lambda>(i, k, c). (i, k, True)"])
  fix s
  assume "s \<in> set (seats g)" "fst s = i"
  then have "s = seat_of p" by (rule seat_unique [OF assms(1,2)])
  with assms(3) \<open>fst s = i\<close> show "fst (case s of (i, k, c) \<Rightarrow> (i, k, True)) = i \<and>
      (kicked_seat s \<longrightarrow> kicked_seat (case s of (i, k, c) \<Rightarrow> (i, k, True))) \<and>
      (kicked_seat (case s of (i, k, c) \<Rightarrow> (i, k, True)) \<longrightarrow>
        \<not> snd (snd (case s of (i, k, c) \<Rightarrow> (i, k, True))))"
    by (simp add: seat_of_def)
qed (use assms in \<open>auto simp: seat_of_def\<close>)

lemma roster_new:
  assumes "roster L K g" and "player g i = None" and "i \<noteq> []" and "i \<noteq> st_ShowmanID g"
    and "length (filter (\<lambda>p. \<not> p_Kicked p) (st_Players g)) < MaxPlayers"
  shows "roster L K (g\<lparr>st_Players := st_Players g @ [new_player i n]\<rparr>)"
proof -
  have "i \<notin> fst ` set (seats g)"
    using assms(2) by (auto simp: player_def find_None_iff seats_def seat_of_def)
  moreover have "length (filter (\<lambda>s. \<not> kicked_seat s) (seats g)) < MaxPlayers"
    using assms(5) by (simp add: seats_def seat_of_def filter_map comp_def)
  moreover have "seats (g\<lparr>st_Players := st_Players g @ [new_player i n]\<rparr>) = seats g @ [(i, False, True)]"
    by (simp add: seats_def seat_of_def new_player_def)
  ultimately show ?thesis
    using assms(1,3,4) by (auto simp: roster_def seats_ok_def)
qed

lemma roster_people:
  assumes "roster L K g"
  shows "roster L K (result_game (onKick cmd g))" "roster L K (result_game (onPlayerLeft cmd g))"
    "roster L K (result_game (onPlayerJoined cmd g))"
proof -
  show "roster L K (result_game (onKick cmd g))" "roster L K (result_game (onPlayerLeft cmd g))"
    unfolding onKick_def onPlayerLeft_def
    by (intro seating.walk roster_playerGone; simp add: assms roster_kick roster_leave)+
  show "roster L K (result_game (onPlayerJoined cmd g))"
  proof (cases "player g (cmd_PersonID cmd)")
    case None
    then show ?thesis using assms by (simp add: onPlayerJoined_def not_le roster_new)
  next
    case (Some p)
    have "roster L K (upd_player (cmd_PersonID cmd) (\<lambda>p. p\<lparr>p_Connected := True,
        p_Name := (if cmd_Name cmd \<noteq> [] then cmd_Name cmd else p_Name p)\<rparr>) g)" if "\<not> p_Kicked p"
      using assms Some that by (rule roster_join) simp
    then show ?thesis using Some assms player_ID [OF Some] by (simp add: onPlayerJoined_def)
  qed
qed

interpretation roster: engine_invariant "roster L K" for L K
proof unfold_locales
  fix g cmd
  assume ok: "roster L K g"
  then show "roster L K (begin_cmd cmd g)" by (simp add: begin_cmd_def)
  show "roster L K (result_game (dispatch cmd g))"
    by (rule result_dispatch [where I = "roster L K", OF ok]) (simp_all add: handlers_def ok roster_timeout
        roster_controls roster_moves roster_people roster_play roster_answers)
qed (simp_all add: roster_step)

subsection \<open>New games\<close>

lemma seat_result:
  assumes "seat sm ps new = Some out" and "distinct (map p_ID ps)" and "[] \<notin> p_ID ` set ps" and "sm \<notin> p_ID ` set ps"
    and "\<forall>p \<in> set ps. \<not> p_Kicked p"
  shows "distinct (map p_ID out) \<and> [] \<notin> p_ID ` set out \<and> sm \<notin> p_ID ` set out \<and>
    (\<forall>p \<in> set out. \<not> p_Kicked p) \<and> length out = length ps + length new"
  using assms by (induction sm ps new rule: seat.induct) (auto simp: new_player_def split: if_splits)

lemma roster_New:
  assumes "New lib rng pack rules tms players sm = Inr g"
  shows "roster [] {} g"
proof -
  from assms obtain ps where ps: "seat sm [] players = Some ps" "st_Players g = ps" "st_ShowmanID g = sm"
    "length players \<le> MaxPlayers"
    by (auto simp: New_def new_state_def game_state.extend_def Let_def not_less split: option.splits if_splits)
  from seat_result [OF ps(1)] ps have "distinct (map p_ID ps)" "[] \<notin> p_ID ` set ps" "sm \<notin> p_ID ` set ps"
    "\<forall>p \<in> set ps. \<not> p_Kicked p" "length ps \<le> MaxPlayers"
    by auto
  then show ?thesis
    using ps le_trans [OF length_filter_le]
    by (auto simp: roster_def seats_ok_def seats_def seat_of_def comp_def filter_map image_iff)
qed

lemma reachable_roster: "reachable g \<Longrightarrow> roster [] {} g"
  by (rule roster.reachable_keeps) (auto intro: roster_New)

subsection \<open>The properties\<close>

text \<open>C22 (invariant). In every reachable game the identifiers of the players are distinct,
  none is empty or the showman's, at most twelve players were not kicked, and nobody kicked is connected.\<close>

theorem roster_of_reachable:
  assumes "reachable g"
  shows "distinct (map p_ID (st_Players g)) \<and> [] \<notin> p_ID ` set (st_Players g) \<and>
    st_ShowmanID g \<notin> p_ID ` set (st_Players g) \<and>
    length (filter (\<lambda>p. \<not> p_Kicked p) (st_Players g)) \<le> MaxPlayers \<and>
    (\<forall>p \<in> set (st_Players g). p_Kicked p \<longrightarrow> \<not> p_Connected p)"
  using reachable_roster [OF assms]
  by (auto simp: roster_def seats_ok_def seats_def seat_of_def comp_def filter_map image_image)

theorem roster_of_reachable_witness: "distinct (map p_ID (st_Players demo_selecting))"
  using roster_of_reachable [OF reachable_selecting] by blast

text \<open>Commands never remove or reorder players, and a kicked player is out for the
  rest of the game: it stays kicked and disconnected, and an attempt to join again is refused.\<close>

theorem seats_are_kept:
  assumes "reachable g" and "leads_to g g'"
  shows "prefix (map p_ID (st_Players g)) (map p_ID (st_Players g')) \<and>
    (\<forall>p p'. player g i = Some p \<longrightarrow> p_Kicked p \<longrightarrow> player g' i = Some p' \<longrightarrow> p_Kicked p' \<and> \<not> p_Connected p')"
proof -
  let ?L = "map p_ID (st_Players g)" and ?K = "p_ID ` {p \<in> set (st_Players g). p_Kicked p}"
  have "roster ?L ?K g"
    using reachable_roster [OF assms(1)]
    by (force simp: roster_def seats_ok_def seats_def seat_of_def comp_def)
  then have g': "roster ?L ?K g'" using roster.leads_to_keeps [OF assms(2)] by blast
  then have "prefix ?L (map p_ID (st_Players g'))"
    by (simp add: roster_def seats_ok_def seats_def seat_of_def comp_def)
  moreover have "p_Kicked p' \<and> \<not> p_Connected p'"
    if "player g i = Some p" "p_Kicked p" "player g' i = Some p'" for p p'
  proof -
    have "i \<in> ?K" using that(1,2) by (auto simp: player_def find_Some_iff)
    then obtain c where c: "(i, True, c) \<in> set (seats g')" "\<not> c"
      using g' by (fastforce simp: roster_def seats_ok_def)
    from seat_unique [OF g' that(3) c(1)] c(2) show ?thesis by (simp add: seat_of_def)
  qed
  ultimately show ?thesis by blast
qed

theorem seats_are_kept_witness:
  "\<exists>g g'. play [(by_room CmdKickPlayer)\<lparr>cmd_PersonID := ''B''\<rparr>] demo_lobby = Some g \<and>
     play [by_showman CmdStart] g = Some g' \<and> (\<forall>p'. player g' ''B'' = Some p' \<longrightarrow> p_Kicked p')"
proof -
  let ?k = "[(by_room CmdKickPlayer)\<lparr>cmd_PersonID := ''B''\<rparr>]"
  have "case play ?k demo_lobby of None \<Rightarrow> False | Some g \<Rightarrow>
      \<not> Option.is_none (play [by_showman CmdStart] g) \<and> (case player g ''B'' of None \<Rightarrow> False | Some p \<Rightarrow> p_Kicked p)"
    by code_simp
  then obtain g g' p where g: "play ?k demo_lobby = Some g" "play [by_showman CmdStart] g = Some g'"
    "player g ''B'' = Some p" "p_Kicked p"
    by (auto split: option.splits simp: Option.is_none_def)
  have "reachable g" using reachable_lobby g(1) by (rule reachable_play)
  from seats_are_kept [OF this leads_to_play [OF leads_to.none g(2)], of "''B''"] g show ?thesis by blast
qed

end
