(* ===== verification/Engine_Panics.thy ===== *)
theory Engine_Panics
  imports Engine_Demo
begin

text \<open>
  Reachable games in which a command makes the engine panic (index out of range, nil pointer). The
  room recovers from the panic and closes. Each is a short game, evaluated.
\<close>

definition panics_after :: "pack \<Rightarrow> rules \<Rightarrow> command list \<Rightarrow> command \<Rightarrow> bool" where
  "panics_after pk rules cs cmd = (case played pk rules cs of
       None \<Rightarrow> False
     | Some g \<Rightarrow> (case Apply cmd g of Some (Panic h) \<Rightarrow> True | _ \<Rightarrow> False))"

lemma panics_afterE:
  "panics_after pk rules cs cmd \<Longrightarrow>
     \<exists>g h. played pk rules cs = Some g \<and> reachable g \<and> Apply cmd g = Some (Panic h)"
  by (auto simp: panics_after_def reachable_played split: option.splits applied.splits)

subsection \<open>An empty table while the choice is pending\<close>

definition tiny_pack :: pack where
  "tiny_pack = pack_of [demo_round RoundStandard [demo_theme ''A'' [demo_question ''a'' 100 QSimple None]]]"

text \<open>
  All scores are equal, so the showman is asked who chooses; meanwhile the showman takes the only
  cell off the table, then names a player.
\<close>

definition empty_choice :: "command list" where
  "empty_choice = [by_showman CmdStart, by_showman CmdToggle, (by_showman CmdSelectPlayer)\<lparr>cmd_PersonID := ''A''\<rparr>]"


subsection \<open>An appeal that outlives its question\<close>

text \<open>B answers wrongly and nobody else presses; back at the table B appeals, and A chooses the next question.\<close>

definition late_appeal :: "command list" where
  "late_appeal = demo_opening @ [by_player CmdChooseQuestion ''A'', fired TimerContent 4,
     (by_room CmdButtonResult)\<lparr>cmd_WinnerID := ''B''\<rparr>, (by_player CmdAnswer ''B'')\<lparr>cmd_Text := ''no''\<rparr>,
     by_showman CmdValidate, fired TimerButtonPressing 5, fired TimerReflection 8,
     (by_player CmdAppellate ''B'')\<lparr>cmd_For := True\<rparr>,
     (by_player CmdChooseQuestion ''A'')\<lparr>cmd_Theme := 1\<rparr>,
     (by_player CmdVoteAppeal ''C'')\<lparr>cmd_Right := True\<rparr>]"


subsection \<open>A gift for nobody\<close>

definition gift_pack :: pack where
  "gift_pack = pack_of [demo_round RoundStandard
     [demo_theme ''A'' [demo_question ''a'' 100 QSimple None, demo_question ''b'' 200 QSecretNoQuestion None]]]"

text \<open>In the simple mode questions follow each other; everybody disconnects during the first one.\<close>

definition everyone_leaves :: "command list" where
  "everyone_leaves = by_showman CmdStart # map (\<lambda>i. (by_room CmdPlayerLeft)\<lparr>cmd_PersonID := i\<rparr>)
     [''A'', ''B'', ''C'', ''D''] @ [fired TimerContent 2]"

text \<open>When nobody is connected, a secret question without a question goes to
  the player with the empty identifier, who does not exist: the engine dereferences a nil player and
  panics, and the room is closed although the players could have come back.\<close>

theorem gift_for_nobody_panics:
  "\<exists>g h. played gift_pack (DefaultRules\<lparr>r_Mode := ModeSimple\<rparr>) everyone_leaves = Some g \<and> reachable g \<and>
     Apply (fired TimerReflection 3) g = Some (Panic h)"
  by (rule panics_afterE) code_simp

end
