(* ===== verification/Engine_Auction.thy ===== *)
theory Engine_Auction
  imports Engine_Termination
begin

text \<open>
  The auction of a stake question as an abstract auction. The abstract state is who is still in, the
  highest bid and its bidder; a bid raises the price and puts everybody out who cannot beat it, a pass
  puts one bidder out. The engine's operations refine these two.
\<close>

subsection \<open>Abstract auctions\<close>

record auction_view =
  av_In :: "string list"
  av_High :: int
  av_Leader :: string

definition auction_of :: "stake_state \<Rightarrow> auction_view" where
  "auction_of ss = \<lparr>av_In = stakeActiveIDs ss, av_High = ss_Stake ss, av_Leader = ss_Leader ss\<rparr>"

definition raise_to :: "string \<Rightarrow> int \<Rightarrow> (string \<Rightarrow> int) \<Rightarrow> auction_view \<Rightarrow> auction_view" where
  "raise_to i amount score a = a\<lparr>av_In := filter (\<lambda>j. j = i \<or> amount < score j) (av_In a),
     av_High := amount, av_Leader := i\<rparr>"

definition drop_out :: "string \<Rightarrow> auction_view \<Rightarrow> auction_view" where
  "drop_out i a = a\<lparr>av_In := filter (\<lambda>j. j \<noteq> i) (av_In a)\<rparr>"

definition bidding :: "game \<Rightarrow> auction_view option" where
  "bidding g = map_option auction_of (stakes g)"

lemma passed_auction:
  assumes "passed is ss ss'"
  shows "auction_of ss' = (auction_of ss)\<lparr>av_In := filter (\<lambda>j. j \<notin> is) (av_In (auction_of ss))\<rparr>"
proof -
  have "mget (ss_Active ss') j \<longleftrightarrow> mget (ss_Active ss) j \<and> j \<notin> is" for j
    using assms by (simp add: passed_def)
  then show ?thesis
    using assms by (simp add: auction_of_def passed_def stakeActiveIDs_def conj_commute cong: filter_cong)
qed

lemma stakes_stopKind: "stakes (stopKind k g) = stakes g" "player_score (stopKind k g) = player_score g"
  by (simp_all add: stakes_def fun_eq_iff player_score_def player_def)

lemma auction_enter_bid:
  "auction_of (enter_bid i m amount ss) = (auction_of ss)\<lparr>av_High := amount, av_Leader := i\<rparr>"
  by (simp add: auction_of_def enter_bid_def stakeActiveIDs_def)

lemma bidding_stakeApply:
  assumes "stakes g = Some ss" and "player g i = Some p"
  shows "bidding (fst (stakeApply i m amount g)) =
    Some (raise_to i (bid_amount ss (p_Score p) m amount) (player_score g) (auction_of ss))"
proof -
  let ?amt = "bid_amount ss (p_Score p) m amount"
  let ?beaten = "filter (\<lambda>j. j \<noteq> i \<and> mget (ss_Active ss) j \<and> player_score g j \<le> ?amt) (ss_Participants ss)"
  let ?g = "ev_all (EvPersonStake i m ?amt False) (upd_ss (enter_bid i m ?amt) (stopKind TimerStakeMaking g))"
  have score: "player_score ?g = player_score g" by (simp add: stakes_stopKind)
  have out: "fst (stakeApply i m amount g) = fold stakeMarkPass ?beaten ?g"
    using assms by (simp add: stakeApply_def Let_def score [simplified])
  have "stakes ?g = Some (enter_bid i m ?amt ss)"
    using assms by (simp add: stakes_stopKind)
  from stakeMarkPass_fold [OF this, of ?beaten] obtain ss' where
    ss': "stakes (fold stakeMarkPass ?beaten ?g) = Some ss'" "passed (set ?beaten) (enter_bid i m ?amt ss) ss'"
    by blast
  have "filter (\<lambda>j. j \<notin> set ?beaten) (stakeActiveIDs ss) = filter (\<lambda>j. j = i \<or> ?amt < player_score g j) (stakeActiveIDs ss)"
    by (rule filter_cong) (auto simp: stakeActiveIDs_def)
  then show ?thesis
    using ss' by (simp add: out bidding_def passed_auction [OF ss'(2)] auction_enter_bid raise_to_def)
      (simp add: auction_of_def)
qed

lemma bidding_stakeSetPass:
  assumes "stakes g = Some ss" and "mget (ss_Active ss) i"
  shows "bidding (fst (stakeSetPass i g)) = Some (drop_out i (auction_of ss))"
proof -
  obtain ss' where ss': "stakes (stakeMarkPass i g) = Some ss'" "passed {i} ss ss'"
    using stakeMarkPass_passed [OF assms(1)] by blast
  then show ?thesis
    using assms by (simp add: stakeSetPass_def Let_def bidding_def stakes_stopKind passed_auction [OF ss'(2)]
        drop_out_def)
qed

lemma bidding_stakeAskBid: "bidding (fst (stakeAskBid i g)) = bidding g"
  by (cases "stakes g"; cases "player g i"; cases "bid_offer (the (stakes g)) (p_Score (the (player g i)))")
    (simp_all add: stakeAskBid_def bidding_def auction_of_def stakeActiveIDs_def ev_oral_def Let_def)

lemma bidding_stakeAdvance: "bidding (fst (stakeAdvance g)) = bidding g"
  by (auto simp: stakeAdvance_def bidding_def Let_def split: option.split list.split)

subsection \<open>Steps and minimal bids\<close>

lemma go_mod_0_dvd: "0 \<le> v \<Longrightarrow> 0 < s \<Longrightarrow> go_mod v s = 0 \<longleftrightarrow> s dvd v"
  by (simp add: go_mod_nonneg dvd_eq_mod_eq_0)

lemma roundUp_bounds:
  assumes "0 \<le> v" and "0 < s" and "v + s < 2 ^ 63"
  shows "v \<le> roundUp v s \<and> roundUp v s < v + s \<and> s dvd roundUp v s"
proof (cases "s \<le> 1 \<or> go_mod v s = 0")
  case True
  with assms have "s = 1 \<or> s dvd v" by (auto simp: go_mod_0_dvd)
  with True assms show ?thesis by (auto simp: roundUp_def)
next
  case False
  have "v = s * (v div s) + v mod s" "0 \<le> v mod s" "v mod s < s" using assms by simp_all
  moreover have "v mod s \<noteq> 0" using False assms by (simp add: go_mod_nonneg)
  moreover have round: "roundUp v s = s * (v div s) + s"
  proof -
    have "0 \<le> s * (v div s)" using assms by (simp add: pos_imp_zdiv_nonneg_iff)
    then have "int64 (s * (v div s) + s) = s * (v div s) + s"
      using calculation(1,2) assms by (intro int64_id) linarith+
    then show ?thesis using False assms by (simp add: roundUp_def go_div_nonneg algebra_simps)
  qed
  ultimately have "v \<le> roundUp v s" "roundUp v s < v + s" by linarith+
  moreover have "s dvd roundUp v s" using round by simp
  ultimately show ?thesis by blast
qed

subsection \<open>The properties\<close>

text \<open>C25 (refinement). The engine's auction implements the abstract one: an entered bid raises
  the price to its amount, makes the bidder the leader and puts out exactly those who cannot beat it; a pass
  puts out the bidder; asking for a bid and choosing the next bidder change nothing.\<close>

theorem auction_refines:
  assumes "stakes g = Some ss" and "player g i = Some p" and "mget (ss_Active ss) i"
  shows "bidding (fst (stakeApply i m amount g)) =
      Some (raise_to i (bid_amount ss (p_Score p) m amount) (player_score g) (auction_of ss)) \<and>
    bidding (fst (stakeSetPass i g)) = Some (drop_out i (auction_of ss)) \<and>
    bidding (fst (stakeAskBid j g)) = Some (auction_of ss) \<and>
    bidding (fst (stakeAdvance g)) = Some (auction_of ss)"
proof -
  have "bidding g = Some (auction_of ss)" using assms(1) by (simp add: bidding_def)
  then show ?thesis
    using assms by (simp add: bidding_stakeApply bidding_stakeSetPass bidding_stakeAskBid bidding_stakeAdvance)
qed

definition demo_auction :: "command list" where
  "demo_auction = demo_opening @ map (\<lambda>(i, n). (by_showman CmdChangeScore)\<lparr>cmd_PersonID := i, cmd_NewSum := n\<rparr>)
     [(''A'', 1000), (''B'', 700), (''C'', 300), (''D'', 100)] @ [(by_player CmdChooseQuestion ''A'')\<lparr>cmd_Q := 1\<rparr>]"

definition the_auction :: "pack \<Rightarrow> command list \<Rightarrow> (game \<times> stake_state) option" where
  "the_auction pk cs = (case played pk DefaultRules cs of None \<Rightarrow> None
     | Some g \<Rightarrow> map_option (\<lambda>ss. (g, ss)) (stakes g))"

theorem auction_refines_witness:
  "\<exists>g ss. the_auction demo_pack demo_auction = Some (g, ss) \<and> av_In (auction_of ss) = [''A'', ''B'', ''C''] \<and>
     map_option av_In (bidding (fst (stakeApply ''A'' StakeStake 500 g))) = Some [''A'', ''B'']"
proof -
  have "case the_auction demo_pack demo_auction of None \<Rightarrow> False
    | Some (g, ss) \<Rightarrow> \<not> Option.is_none (player g ''A'') \<and> mget (ss_Active ss) ''A'' \<and>
        stakeActiveIDs ss = [''A'', ''B'', ''C''] \<and> map (player_score g) [''A'', ''B'', ''C''] = [1000, 700, 300]"
    by code_simp
  then obtain g ss p where g: "the_auction demo_pack demo_auction = Some (g, ss)" "player g ''A'' = Some p"
    "mget (ss_Active ss) ''A''" "stakeActiveIDs ss = [''A'', ''B'', ''C'']"
    "player_score g ''B'' = 700" "player_score g ''C'' = 300"
    by (auto split: option.splits simp: Option.is_none_def)
  then have "stakes g = Some ss" by (auto simp: the_auction_def split: option.splits)
  from auction_refines [OF this g(2,3), of StakeStake 500] g show ?thesis
    by (simp add: raise_to_def auction_of_def bid_amount_def)
qed

text \<open>The bid a bidder is offered, and what is accepted of it.\<close>

lemma asked_to_bid:
  assumes "stakes g = Some ss" and "player g i = Some p" and "stakeAskBid i g = (g', Ret)"
    and "bid_offer ss (p_Score p) = (modes, lo, hi)" and "0 \<le> ss_Stake ss"
  shows "player g' i = Some p \<and> (ss_Stake ss = 0 \<or> ss_Stake ss < p_Score p) \<and>
    (ss_Stake ss = 0 \<longrightarrow> ss_Nominal ss \<le> p_Score p) \<and>
    (\<exists>ss'. stakes g' = Some ss' \<and> ss_Current ss' = i \<and> ss_AllowedModes ss' = modes \<and> ss_Min ss' = lo \<and>
      ss_Max ss' = hi \<and> ss_Nominal ss' = ss_Nominal ss)"
proof -
  have "player g' i = player g i" using assms(1-4) by (auto simp: stakeAskBid_def Let_def player_def split: if_splits)
  then show ?thesis
    using assms by (auto simp: stakeAskBid_def Let_def ev_oral_def split: if_splits)
qed

lemma accepted_bid:
  assumes "onSetStake cmd g = Go h (JStakeApply j m a)" and "stakes g = Some ss"
  shows "h = g \<and> j = ss_Current ss \<and> stakeModeAllowed ss m \<and> m \<noteq> StakePass \<and> (m = StakeStake \<longrightarrow> \<not> bad_bid ss a)"
  using assms
  by (auto simp: onSetStake_def price_select_def hiddenSetStake_def set_bid_def stakes_def Let_def
      split: option.splits if_splits sum.splits)


text \<open>A bids 400; C, D cannot beat it, and B, who has 700, bids 600.\<close>

definition first_bid :: "command list" where
  "first_bid = demo_auction @ [(by_player CmdSetStake ''A'')\<lparr>cmd_StakeMode := StakeStake, cmd_Amount := 400\<rparr>]"


text \<open>The step of the bids follows the prices of the round: 1 when the least price is
  below ten, otherwise the largest power of ten not above the least price, if that is below \<open>10 ^ 18\<close>.\<close>

theorem stake_step:
  assumes "fst (roundMinMax g) < 10 ^ 18"
  shows "\<exists>n. stakeStep g = Some (10 ^ n) \<and> (let lowest = fst (roundMinMax g) in
     if lowest < 10 then n = 0 else 10 ^ n \<le> lowest \<and> lowest < 10 ^ Suc n)"
proof (cases "fst (roundMinMax g) < 10")
  case True
  then have "stakeStep g = Some (10 ^ 0)" by (simp add: stakeStep_def)
  with True show ?thesis by (intro exI [of _ 0]) simp
next
  case False
  then obtain n where "step_loop (fst (roundMinMax g)) (10 ^ 0) = Some (10 ^ n)" "10 ^ n \<le> fst (roundMinMax g)"
    "fst (roundMinMax g) < 10 ^ Suc n"
    using step_loop_power [of 0 "fst (roundMinMax g)"] assms by auto
  with False show ?thesis by (intro exI [of _ n]) (simp add: stakeStep_def Let_def)
qed

end
