(* ===== verification/Engine_Facts.thy ===== *)
theory Engine_Facts
  imports Engine_Demo
begin

text \<open>
  The helpers of the engine against their specifications: the winner, the cells of the table, the
  groups of content, the choice of a secret price, the count of an appeal, the order of the final, the
  media of a pack.
\<close>

subsection \<open>The winner\<close>

definition in_play :: "player list \<Rightarrow> player list" where
  "in_play ps = filter (\<lambda>p. \<not> p_Kicked p) ps"

lemma in_play_simps [simp]:
  "in_play [] = []"
  "in_play (ps @ qs) = in_play ps @ in_play qs"
  "in_play (p # ps) = (if p_Kicked p then in_play ps else p # in_play ps)"
  by (simp_all add: in_play_def)

text \<open>What the winner loop knows after the players in play \<open>L\<close>.\<close>

definition winner_inv :: "player list \<Rightarrow> int \<times> string \<times> bool \<times> bool \<Rightarrow> bool" where
  "winner_inv L acc = (case acc of (best, w, first, tie) \<Rightarrow>
     (first \<longleftrightarrow> L = []) \<and> (first \<longrightarrow> \<not> tie \<and> w = []) \<and>
     (\<not> first \<longrightarrow> (\<exists>p \<in> set L. p_ID p = w \<and> p_Score p = best) \<and> (\<forall>p \<in> set L. p_Score p \<le> best) \<and>
        (tie \<longleftrightarrow> 1 < length (filter (\<lambda>p. p_Score p = best) L))))"

lemma winner_inv_step:
  assumes inv: "winner_inv L acc" and "\<not> p_Kicked p"
  shows "winner_inv (L @ [p]) (winner_step p acc)"
proof -
  obtain best w first tie where acc: "acc = (best, w, first, tie)" by (cases acc) auto
  show ?thesis
  proof (cases first)
    case True
    with inv have "L = []" by (simp add: winner_inv_def acc)
    with True assms show ?thesis by (simp add: winner_inv_def winner_step_def acc)
  next
    case False
    have low: "filter (\<lambda>q. p_Score q = p_Score p) L = []" if "best < p_Score p"
      using inv that False by (force simp: winner_inv_def acc filter_empty_conv)
    have top: "filter (\<lambda>q. p_Score q = best) L \<noteq> []"
      using inv False by (auto simp: winner_inv_def acc filter_empty_conv)
    show ?thesis
      using inv low top False assms(2) by (auto simp: winner_inv_def winner_step_def acc)
  qed
qed

lemma winner_inv_fold: "winner_inv (in_play ps) acc \<Longrightarrow> winner_inv (in_play ps @ in_play qs) (fold winner_step qs acc)"
proof (induction qs arbitrary: ps acc)
  case (Cons q qs)
  show ?case
  proof (cases "p_Kicked q")
    case True
    then have "winner_step q acc = acc" by (cases acc) (simp add: winner_step_def)
    with True Cons show ?thesis by simp
  next
    case False
    with Cons.IH [of "ps @ [q]"] winner_inv_step [OF Cons.prems False] show ?thesis by simp
  qed
qed simp

lemma winner_loop: "winner_inv (in_play ps) (fold winner_step ps (0, [], True, False))"
  using winner_inv_fold [of "[]" "(0, [], True, False)" ps] by (simp add: winner_inv_def)

text \<open>The winner of a game is the one player with the highest score among
  those not kicked; when the highest score is shared, or nobody is left, there is none.\<close>

theorem winner_is_unique_best:
  assumes "[] \<notin> p_ID ` set ps"
  shows "winner_of ps = w \<and> w \<noteq> [] \<longleftrightarrow>
    (\<exists>p \<in> set (in_play ps). p_ID p = w \<and> (\<forall>q \<in> set (in_play ps). p_Score q \<le> p_Score p) \<and>
       length (filter (\<lambda>q. p_Score q = p_Score p) (in_play ps)) = 1)"
proof -
  obtain best v first tie where r: "fold winner_step ps (0, [], True, False) = (best, v, first, tie)"
    by (cases "fold winner_step ps (0, [], True, False)") auto
  have inv: "winner_inv (in_play ps) (best, v, first, tie)" using winner_loop [of ps] r by simp
  have w: "winner_of ps = (if tie then [] else v)" using r by (simp add: winner_of_def)
  show ?thesis
  proof (cases first)
    case True
    with inv show ?thesis by (simp add: w winner_inv_def)
  next
    case False
    then obtain p where p: "p \<in> set (in_play ps)" "p_ID p = v" "p_Score p = best"
      and le: "\<forall>q \<in> set (in_play ps). p_Score q \<le> best"
      and tie: "tie \<longleftrightarrow> 1 < length (filter (\<lambda>q. p_Score q = best) (in_play ps))"
      using inv by (auto simp: winner_inv_def)
    have "p \<in> set ps" using p(1) by (simp add: in_play_def)
    then have v: "v \<noteq> []" using p(2) assms by (metis imageI)
    have "filter (\<lambda>q. p_Score q = best) (in_play ps) \<noteq> []" using p by (auto simp: filter_empty_conv)
    then have one: "\<not> tie \<longleftrightarrow> length (filter (\<lambda>q. p_Score q = best) (in_play ps)) = 1"
      unfolding tie by (cases "filter (\<lambda>q. p_Score q = best) (in_play ps)") auto
    have best: "p_Score q = best" if "q \<in> set (in_play ps)" "\<forall>x \<in> set (in_play ps). p_Score x \<le> p_Score q" for q
      using p le that by (force intro: antisym)
    have same: "q = p" if h: "q \<in> set (in_play ps)" "p_Score q = best" "\<not> tie" for q
    proof -
      have "q \<in> set (filter (\<lambda>q. p_Score q = best) (in_play ps))" "p \<in> set (filter (\<lambda>q. p_Score q = best) (in_play ps))"
        using h p by auto
      moreover obtain x where "filter (\<lambda>q. p_Score q = best) (in_play ps) = [x]"
        using one h(3) by (auto simp: length_Suc_conv)
      ultimately show ?thesis by simp
    qed
    show ?thesis
    proof
      assume "winner_of ps = w \<and> w \<noteq> []"
      then have "\<not> tie" "w = v" by (auto simp: w split: if_splits)
      with p le one show "\<exists>p \<in> set (in_play ps). p_ID p = w \<and> (\<forall>q \<in> set (in_play ps). p_Score q \<le> p_Score p) \<and>
          length (filter (\<lambda>q. p_Score q = p_Score p) (in_play ps)) = 1"
        by (intro bexI [of _ p]) auto
    next
      assume "\<exists>p \<in> set (in_play ps). p_ID p = w \<and> (\<forall>q \<in> set (in_play ps). p_Score q \<le> p_Score p) \<and>
          length (filter (\<lambda>q. p_Score q = p_Score p) (in_play ps)) = 1"
      then obtain q where q: "q \<in> set (in_play ps)" "p_ID q = w" "\<forall>x \<in> set (in_play ps). p_Score x \<le> p_Score q"
        "length (filter (\<lambda>x. p_Score x = p_Score q) (in_play ps)) = 1"
        by blast
      with best have "p_Score q = best" by blast
      with q(4) one have "\<not> tie" by simp
      with same [OF q(1)] \<open>p_Score q = best\<close> q(2) p(2) v show "winner_of ps = w \<and> w \<noteq> []" by (simp add: w)
    qed
  qed
qed

theorem winner_is_unique_best_witness:
  "winner_of [(new_player ''A'' ''Ann'')\<lparr>p_Score := 5\<rparr>, (new_player ''B'' ''Bob'')\<lparr>p_Score := 9\<rparr>] = ''B''"
  using winner_is_unique_best [of "[(new_player ''A'' ''Ann'')\<lparr>p_Score := 5\<rparr>, (new_player ''B'' ''Bob'')\<lparr>p_Score := 9\<rparr>]" "''B''"]
  by (auto simp: in_play_def new_player_def)

subsection \<open>The cells of the table\<close>

lemma theme_cells_iff:
  "(t', q) \<in> set (theme_cells (t, th)) \<longleftrightarrow>
     t' = t \<and> \<not> th_Removed th \<and> q < length (th_Questions th) \<and> avail (th_Questions th ! q)"
  by (auto simp: theme_cells_def in_set_enumerate_eq)

lemma open_cells_set:
  "(t, q) \<in> set (open_cells table) \<longleftrightarrow> t < length table \<and> \<not> th_Removed (table ! t) \<and>
     q < length (th_Questions (table ! t)) \<and> avail (th_Questions (table ! t) ! q)"
proof -
  have "(t, q) \<in> set (open_cells table) \<longleftrightarrow>
      (\<exists>x \<in> set (enumerate 0 table). (t, q) \<in> set (theme_cells x))"
    by (simp add: open_cells_def)
  also have "\<dots> \<longleftrightarrow> (\<exists>i th. (i, th) \<in> set (enumerate 0 table) \<and> (t, q) \<in> set (theme_cells (i, th)))" by auto
  finally show ?thesis by (auto simp: in_set_enumerate_eq theme_cells_iff)
qed

lemma hasPlayableCells_open: "hasPlayableCells g \<longleftrightarrow> open_cells (st_Table g) \<noteq> []"
proof -
  have "hasPlayableCells g \<longleftrightarrow> (\<exists>t q. (t, q) \<in> set (open_cells (st_Table g)))"
    unfolding hasPlayableCells_def open_cells_set list_ex_iff by (metis in_set_conv_nth)
  also have "\<dots> \<longleftrightarrow> open_cells (st_Table g) \<noteq> []"
    by (cases "open_cells (st_Table g)") auto
  finally show ?thesis .
qed

definition before :: "nat \<times> nat \<Rightarrow> nat \<times> nat \<Rightarrow> bool" where
  "before c d \<longleftrightarrow> fst c < fst d \<or> fst c = fst d \<and> snd c < snd d"

lemma theme_cells_sorted: "sorted_wrt before (theme_cells (t, th))"
proof -
  have "sorted_wrt (\<lambda>x y. fst x < fst y) (enumerate n xs)" for n and xs :: "'a list"
  proof (induction xs arbitrary: n)
    case (Cons x xs)
    then show ?case by (auto simp: in_set_enumerate_eq)
  qed simp
  then have "sorted_wrt (\<lambda>x y. fst x < fst y) (filter (\<lambda>(q, c). avail c) (enumerate 0 (th_Questions th)))"
    by (rule sorted_wrt_filter)
  then show ?thesis
    by (auto simp: theme_cells_def sorted_wrt_map before_def split_def)
qed

lemma sorted_concat:
  assumes "\<forall>xs \<in> set xss. sorted_wrt R xs"
    and "sorted_wrt (\<lambda>xs ys. \<forall>x \<in> set xs. \<forall>y \<in> set ys. R x y) xss"
  shows "sorted_wrt R (concat xss)"
  using assms by (induction xss) (auto simp: sorted_wrt_append)

lemma open_cells_sorted: "sorted_wrt before (open_cells table)"
  unfolding open_cells_def
proof (rule sorted_concat)
  have "sorted_wrt (\<lambda>x y. fst x < fst y) (enumerate n table)" for n
  proof (induction table arbitrary: n)
    case (Cons x xs)
    then show ?case by (auto simp: in_set_enumerate_eq)
  qed simp
  then show "sorted_wrt (\<lambda>xs ys. \<forall>x \<in> set xs. \<forall>y \<in> set ys. before x y) (map theme_cells (enumerate 0 table))"
    unfolding sorted_wrt_map
    by (rule sorted_wrt_mono_rel [rotated]) (auto simp: theme_cells_iff before_def)
qed (auto simp: theme_cells_sorted)

text \<open>The loops over the table agree with their specification: there are
  playable cells exactly when some cell is neither played nor removed in a theme that was not removed; the
  next cell of a sequential game is the first such cell in the order of themes and questions; a random cell
  is such a cell when the generator keeps its bound.\<close>

theorem next_cell_is_first_open:
  "(hasPlayableCells g \<longleftrightarrow> (\<exists>t q. cell_in_table g t q \<and> \<not> th_Removed (st_Table g ! t) \<and> avail (table_cell g t q))) \<and>
   (nextSequentialCell g = Some c \<longrightarrow> c \<in> set (open_cells (st_Table g)) \<and>
      (\<forall>d \<in> set (open_cells (st_Table g)). d = c \<or> before c d)) \<and>
   (nextSequentialCell g = None \<longleftrightarrow> \<not> hasPlayableCells g) \<and>
   (rng_ok g \<longrightarrow> hasPlayableCells g \<longrightarrow> (\<exists>d h. randomCell g = Some (d, h) \<and> d \<in> set (open_cells (st_Table g))))"
proof (intro conjI)
  have some: "hasPlayableCells g \<longleftrightarrow> (\<exists>t q. (t, q) \<in> set (open_cells (st_Table g)))"
    by (cases "open_cells (st_Table g)") (auto simp: hasPlayableCells_open)
  then show "hasPlayableCells g \<longleftrightarrow> (\<exists>t q. cell_in_table g t q \<and> \<not> th_Removed (st_Table g ! t) \<and> avail (table_cell g t q))"
    by (auto simp: open_cells_set cell_in_table_def table_cell_def)
  show "nextSequentialCell g = Some c \<longrightarrow> c \<in> set (open_cells (st_Table g)) \<and>
      (\<forall>d \<in> set (open_cells (st_Table g)). d = c \<or> before c d)"
    using open_cells_sorted [of "st_Table g"] by (auto simp: nextSequentialCell_def split: list.splits)
  show "nextSequentialCell g = None \<longleftrightarrow> \<not> hasPlayableCells g"
    by (auto simp: nextSequentialCell_def hasPlayableCells_open split: list.split)
  let ?n = "length (open_cells (st_Table g))"
  have pick: "fst (randomIndex ?n g) < ?n" if "rng_ok g" "0 < ?n"
    using that by (auto simp: rng_ok_def randomIndex_def)
  have "randomCell g = Some (open_cells (st_Table g) ! fst (randomIndex ?n g), snd (randomIndex ?n g))"
    if "rng_ok g" "0 < ?n"
    using pick [OF that] by (cases "randomIndex ?n g") (simp add: randomCell_def)
  with pick show "rng_ok g \<longrightarrow> hasPlayableCells g \<longrightarrow> (\<exists>d h. randomCell g = Some (d, h) \<and> d \<in> set (open_cells (st_Table g)))"
    by (auto simp: hasPlayableCells_open)
qed

theorem next_cell_is_first_open_witness:
  "\<exists>d h. randomCell (demo_selecting\<lparr>g_rng := \<lambda>l n. 0\<rparr>) = Some (d, h) \<and>
     d \<in> set (open_cells (st_Table demo_selecting))"
proof -
  have "hasPlayableCells demo_selecting" by code_simp
  then show ?thesis
    using next_cell_is_first_open [of "demo_selecting\<lparr>g_rng := \<lambda>l n. 0\<rparr>"]
    by (auto simp: rng_ok_def hasPlayableCells_def)
qed

end
