(* ===== verification/Engine_Specs.thy ===== *)
theory Engine_Specs
  imports Engine_Facts Engine_Loops
begin

text \<open>
  More helpers against their specifications: groups of content, the prices of a secret question and of
  a round, the count of an appeal, the order of the final, the media of a pack.
\<close>

subsection \<open>Groups of content\<close>

lemma group_time_fold:
  assumes "0 \<le> cg_WaitMs grp"
  shows "cg_WaitMs (fold (group_time g) its grp) = Max (insert (cg_WaitMs grp) (itemDuration g ` set its)) \<and>
    (cg_MediaWait (fold (group_time g) its grp) \<longleftrightarrow> cg_MediaWait grp \<or> (\<exists>it \<in> set its. itemDuration g it < 0))"
  using assms
proof (induction its arbitrary: grp)
  case (Cons it its)
  let ?d = "itemDuration g it" and ?grp = "group_time g it grp"
  have wait: "cg_WaitMs ?grp = max (cg_WaitMs grp) ?d" "cg_MediaWait ?grp \<longleftrightarrow> cg_MediaWait grp \<or> ?d < 0"
    using Cons.prems by (auto simp: group_time_def Let_def max_def)
  moreover have "0 \<le> cg_WaitMs ?grp" using Cons.prems wait by simp
  moreover have "Max (insert (max w d) A) = Max (insert w (insert d A))" if "finite A" for w d :: int and A
    using that by (cases "A = {}") (simp_all add: max.assoc)
  ultimately show ?case using Cons.IH [of ?grp] by auto
qed simp

definition sealed :: "content_item list \<Rightarrow> bool" where
  "sealed its \<longleftrightarrow> its \<noteq> [] \<and> \<not> ci_NoWait (last its)"

lemma group_loop_sealed:
  assumes "is_open \<longrightarrow> groups \<noteq> []" and "list_all sealed (if is_open then butlast groups else groups)"
  shows "list_all sealed (butlast (group_loop groups is_open items))"
  using assms
proof (induction items arbitrary: groups is_open)
  case Nil
  then show ?case by (auto simp: list_all_iff dest: in_set_butlastD split: if_splits)
next
  case (Cons it items)
  let ?gs = "if is_open then groups else groups @ [[]]"
  let ?new = "butlast ?gs @ [last ?gs @ [it]]"
  have "list_all sealed (butlast ?gs)" using Cons.prems(2) by (auto split: if_splits)
  then have "list_all sealed (if ci_NoWait it then butlast ?new else ?new)"
    by (simp add: sealed_def)
  then show ?case using Cons.IH [of "ci_NoWait it" ?new] by (simp add: Let_def)
qed

lemma map_cg_Items: "map cg_Items (buildGroups g items) = group_loop [] False items"
  by (simp add: buildGroups_def comp_def)

text \<open>Content is shown in groups: together they are all items in order, a group ends
  exactly with an item that is waited for (or with the last item), it lasts as long as its longest item, and it
  waits for the players' media when the length of one of its items is unknown.\<close>

theorem content_groups:
  "concat (map cg_Items (buildGroups g items)) = items \<and>
   list_all (\<lambda>grp. chained (cg_Items grp) \<and>
     cg_WaitMs grp = Max (insert 0 (itemDuration g ` set (cg_Items grp))) \<and>
     cg_MediaWait grp = (\<exists>it \<in> set (cg_Items grp). itemDuration g it < 0)) (buildGroups g items) \<and>
   list_all (\<lambda>grp. \<not> ci_NoWait (last (cg_Items grp))) (butlast (buildGroups g items))"
proof (intro conjI)
  show "concat (map cg_Items (buildGroups g items)) = items" by (rule buildGroups_items)
  have "list_all chained (group_loop [] False items)" using group_loop_chained [of False "[]" items] by simp
  then show "list_all (\<lambda>grp. chained (cg_Items grp) \<and>
     cg_WaitMs grp = Max (insert 0 (itemDuration g ` set (cg_Items grp))) \<and>
     cg_MediaWait grp = (\<exists>it \<in> set (cg_Items grp). itemDuration g it < 0)) (buildGroups g items)"
    using group_time_fold [where grp = "empty_group\<lparr>cg_Items := its\<rparr>" for its]
    by (auto simp: buildGroups_def list_all_iff empty_group_def)
  have "list_all sealed (butlast (map cg_Items (buildGroups g items)))"
    unfolding map_cg_Items using group_loop_sealed [of False "[]" items] by simp
  then show "list_all (\<lambda>grp. \<not> ci_NoWait (last (cg_Items grp))) (butlast (buildGroups g items))"
    by (simp add: map_butlast [symmetric] list.pred_map comp_def sealed_def list_all_iff)
qed

subsection \<open>Prices\<close>

text \<open>The least and the greatest positive price of the cells seen so far.\<close>

definition price_range :: "cell_state list \<Rightarrow> int \<times> int \<Rightarrow> bool" where
  "price_range cells m = (case m of (lo, hi) \<Rightarrow>
     (\<forall>c \<in> set cells. 0 < c_Price c \<longrightarrow> lo \<le> c_Price c \<and> c_Price c \<le> hi) \<and>
     (if \<exists>c \<in> set cells. 0 < c_Price c
      then 0 < lo \<and> lo \<in> c_Price ` set cells \<and> hi \<in> c_Price ` set cells
      else lo = 0 \<and> hi = 0))"

lemma price_range_fold: "price_range cells (fold min_max_step cells (0, 0))"
proof (induction cells rule: rev_induct)
  case (snoc c cells)
  obtain lo hi where m: "fold min_max_step cells (0, 0) = (lo, hi)" by (cases "fold min_max_step cells (0, 0)")
  have inv: "price_range cells (lo, hi)" using snoc m by simp
  have "fold min_max_step (cells @ [c]) (0, 0) = min_max_step c (lo, hi)" using m by simp
  moreover have "price_range (cells @ [c]) (min_max_step c (lo, hi))"
  proof (cases "\<exists>c \<in> set cells. 0 < c_Price c")
    case True
    with inv have r: "0 < lo" "lo \<in> c_Price ` set cells" "hi \<in> c_Price ` set cells"
      "\<forall>c \<in> set cells. 0 < c_Price c \<longrightarrow> lo \<le> c_Price c \<and> c_Price c \<le> hi"
      by (simp_all add: price_range_def)
    then show ?thesis using True by (auto simp: price_range_def min_max_step_def)
  next
    case False
    with inv have "lo = 0 \<and> hi = 0" by (simp add: price_range_def)
    then show ?thesis using False by (auto simp: price_range_def min_max_step_def)
  qed
  ultimately show ?case by (simp only:)
qed (simp add: price_range_def)

text \<open>The nested loops over the table find the least and the greatest positive
  price of the round; a round without one has (0, 0).\<close>

theorem round_price_range:
  "let P = {x \<in> c_Price ` set (table_cells g). 0 < x} in
     roundMinMax g = (if P = {} then (0, 0) else (Min P, Max P))"
proof -
  let ?P = "{x \<in> c_Price ` set (table_cells g). 0 < x}"
  obtain lo hi where m: "roundMinMax g = (lo, hi)" by (cases "roundMinMax g")
  then have r: "price_range (table_cells g) (lo, hi)"
    using price_range_fold [of "table_cells g"] by (simp add: roundMinMax_def)
  show ?thesis
  proof (cases "?P = {}")
    case True
    with r m show ?thesis by (auto simp: price_range_def)
  next
    case False
    then have "\<exists>c \<in> set (table_cells g). 0 < c_Price c" by auto
    with r have b: "0 < lo" "lo \<in> c_Price ` set (table_cells g)" "hi \<in> c_Price ` set (table_cells g)"
      "\<forall>c \<in> set (table_cells g). 0 < c_Price c \<longrightarrow> lo \<le> c_Price c \<and> c_Price c \<le> hi"
      by (auto simp: price_range_def)
    have "lo \<in> ?P" using b by simp
    moreover have "hi \<in> ?P" using b by force
    moreover have "finite ?P" by simp
    ultimately have "Min ?P = lo" "Max ?P = hi"
      using b by (auto intro!: Min_eqI Max_eqI)
    with False have "(if ?P = {} then (0, 0) else (Min ?P, Max ?P)) = (lo, hi)" by (simp only: if_False)
    with m show ?thesis by (simp only: Let_def)
  qed
qed

text \<open>The prices offered for a secret question: never none; for a set with a
  step, the prices from the lower bound by that step up to the upper bound; otherwise its two bounds, its
  only price, the question's own, or, for the empty set, the least and greatest price of the round.\<close>

theorem secret_price_choices:
  assumes "\<forall>n. ns = Some n \<longrightarrow> set_fits n \<and> 0 \<le> ns_Min n \<and> ns_Min n < 2 ^ 63 \<and> 0 \<le> ns_Max n \<and> ns_Max n < 2 ^ 63"
  shows "\<exists>cs. secretPriceChoices g q ns = Some cs \<and> cs \<noteq> [] \<and>
   (case ns of None \<Rightarrow> cs = [q_Price q]
    | Some n \<Rightarrow> let lo = min (ns_Min n) (ns_Max n); hi = max (ns_Min n) (ns_Max n); s = ns_Step n in
       if 0 < s \<and> s < hi - lo then cs = map (\<lambda>k. lo + int k * s) [0 ..< nat ((hi - lo) div s + 1)]
       else if lo < hi then cs = [lo, hi]
       else if lo \<noteq> 0 then cs = [lo]
       else set cs = {fst (roundMinMax g), snd (roundMinMax g)})"
proof (cases ns)
  case (Some n)
  let ?lo = "min (ns_Min n) (ns_Max n)" and ?hi = "max (ns_Min n) (ns_Max n)"
  have fits: "set_fits n" "0 \<le> ?lo" "?hi < 2 ^ 63" using assms Some by auto
  have wrap: "int64 (?hi - ?lo) = ?hi - ?lo" using fits by (intro int64_id) linarith+
  show ?thesis
  proof (cases "0 < ns_Step n \<and> ns_Step n < ?hi - ?lo")
    case True
    then have "0 \<le> (?hi - ?lo) div ns_Step n" by (intro pos_imp_zdiv_nonneg_iff [THEN iffD2]) auto
    moreover have "price_loop ?lo ?hi (ns_Step n) [] =
        Some (map (\<lambda>k. ?lo + int k * ns_Step n) [0 ..< nat ((?hi - ?lo) div ns_Step n + 1)])"
      using True fits by (subst price_loop_closed) (auto simp: set_fits_def)
    moreover have "secretPriceChoices g q ns = price_loop ?lo ?hi (ns_Step n) []"
      using Some True unfolding secretPriceChoices_def Let_def option.case Some wrap by auto
    ultimately show ?thesis using Some True by simp
  next
    case False
    show ?thesis
    proof (cases "ns_Min n = ns_Max n")
      case True
      then show ?thesis using Some by (cases "roundMinMax g") (simp add: secretPriceChoices_def Let_def)
    next
      case distinct: False
      then have "?lo < ?hi" by (simp add: min_def max_def)
      moreover have "secretPriceChoices g q ns = Some [?lo, ?hi]"
        using Some distinct False unfolding secretPriceChoices_def Let_def option.case Some wrap by (simp add: not_less)
      ultimately show ?thesis using Some False by (simp only: option.case Let_def if_True if_False) simp
    qed
  qed
qed (simp add: secretPriceChoices_def)

subsection \<open>The count of an appeal\<close>

text \<open>The votes that may still come in.\<close>

definition votes_later :: "appeal \<Rightarrow> appeal \<Rightarrow> bool" where
  "votes_later a b \<longleftrightarrow> a_Request b = a_Request a \<and> a_Total b = a_Total a \<and>
     (\<exists>vs. a_Votes b = a_Votes a @ vs \<and> length vs \<le> length (a_Pending a))"

lemma count_votes: "length (filter snd vs) + length (filter (\<lambda>v. \<not> snd v) vs) = length vs"
  by (induction vs) auto

text \<open>Stopping the vote early is right: once an appeal counts as decided, no
  votes still outstanding could change whether it is accepted, as long as every vote was cast by one of the voters.\<close>

theorem early_decision_stands:
  assumes "appealDecided a" and "length (a_Votes a) + length (a_Pending a) = a_Total a" and "votes_later a b"
  shows "appeal_accepted b = appeal_accepted a"
proof -
  obtain vs where vs: "a_Votes b = a_Votes a @ vs" "length vs \<le> length (a_Pending a)" "a_Request b = a_Request a"
    using assms(3) by (auto simp: votes_later_def)
  have counts: "length (filter snd (a_Votes a)) + length (filter (\<lambda>v. \<not> snd v) (a_Votes a)) = length (a_Votes a)"
    "length (filter snd vs) + length (filter (\<lambda>v. \<not> snd v) vs) = length vs"
    by (rule count_votes)+
  show ?thesis
  proof (cases "a_Pending a = []")
    case True
    with vs show ?thesis by (simp add: appeal_accepted_def appealCounts_def)
  next
    case False
    with assms(1) have "a_Total a < length (filter snd (a_Votes a)) * 2 \<or>
        a_Total a < length (filter (\<lambda>v. \<not> snd v) (a_Votes a)) * 2"
      by (simp add: appealDecided_def appealCounts_def)
    with assms(2) vs counts show ?thesis by (auto simp: appeal_accepted_def appealCounts_def)
  qed
qed

definition demo_appeal :: appeal where
  "demo_appeal = \<lparr>a_Request = \<lparr>ar_Kind = AppealFor, ar_AppellantID = ''B'', ar_AnswererID = ''B'', ar_OutcomeIdx = 0\<rparr>,
     a_Voters = [''A'', ''B'', ''C'', ''D'', ''S''],
     a_Votes = [(''B'', True), (''S'', False), (''A'', True), (''C'', True)], a_Total = 5, a_Pending = [''D'']\<rparr>"

theorem early_decision_stands_witness:
  "appealDecided demo_appeal \<and>
     appeal_accepted (demo_appeal\<lparr>a_Votes := a_Votes demo_appeal @ [(''D'', False)], a_Pending := []\<rparr>) = True"
proof -
  have "appealDecided demo_appeal" "appeal_accepted demo_appeal" by code_simp+
  then show ?thesis
    using early_decision_stands [of demo_appeal "demo_appeal\<lparr>a_Votes := a_Votes demo_appeal @ [(''D'', False)], a_Pending := []\<rparr>"]
    by (auto simp: votes_later_def demo_appeal_def)
qed

subsection \<open>The order of the final\<close>

definition score_run :: "player list \<Rightarrow> bool" where
  "score_run ps \<longleftrightarrow> ps \<noteq> [] \<and> (\<exists>s. \<forall>p \<in> set ps. p_Score p = s)"

definition rising_runs :: "player list list \<Rightarrow> bool" where
  "rising_runs gs \<longleftrightarrow> list_all score_run gs \<and> sorted_wrt (\<lambda>g h. p_Score (hd g) < p_Score (hd h)) gs"

lemma rising_runs_snoc:
  "rising_runs (xs @ [l]) \<longleftrightarrow> rising_runs xs \<and> score_run l \<and> (\<forall>g \<in> set xs. p_Score (hd g) < p_Score (hd l))"
  by (auto simp: rising_runs_def sorted_wrt_append)

lemma score_run_last: "score_run l \<Longrightarrow> p_Score (last l) = p_Score (hd l)"
  unfolding score_run_def by (metis last_in_set list.set_sel(1))

lemma score_run_snoc: "score_run l \<Longrightarrow> p_Score p = p_Score (hd l) \<Longrightarrow> score_run (l @ [p]) \<and> hd (l @ [p]) = hd l"
  by (cases l) (auto simp: score_run_def)

lemma group_runs_spec:
  assumes "sorted (map p_Score (concat gs @ ps))" and "rising_runs gs"
    and "prev = (if gs = [] then [] else [last (last gs)])"
  shows "\<exists>hs. group_runs prev (map (map p_ID) gs) ps = map (map p_ID) hs \<and> concat hs = concat gs @ ps \<and> rising_runs hs"
  using assms
proof (induction ps arbitrary: gs prev)
  case Nil
  then show ?case by auto
next
  case (Cons p ps)
  show ?case
  proof (cases gs rule: rev_cases)
    case Nil
    have "rising_runs [[p]]" by (simp add: rising_runs_def score_run_def)
    then show ?thesis using Cons.IH [of "[[p]]" "[p]"] Cons.prems Nil by simp
  next
    case (snoc xs l)
    have l: "score_run l" "rising_runs xs" "\<forall>g \<in> set xs. p_Score (hd g) < p_Score (hd l)"
      using Cons.prems(2) by (simp_all add: snoc rising_runs_snoc)
    have prev: "prev = [last l]" using Cons.prems(3) snoc by simp
    have "last l \<in> set l" using l(1) by (auto simp: score_run_def)
    then have le: "p_Score (last l) \<le> p_Score p"
      using Cons.prems(1) by (auto simp: snoc sorted_append)
    show ?thesis
    proof (cases "p_Score (last l) = p_Score p")
      case True
      then have run: "score_run (l @ [p]) \<and> hd (l @ [p]) = hd l"
        using score_run_last [OF l(1)] by (intro score_run_snoc [OF l(1)]) simp
      then have "rising_runs (xs @ [l @ [p]])" using l by (simp add: rising_runs_snoc)
      then show ?thesis
        using Cons.IH [of "xs @ [l @ [p]]" "[p]"] Cons.prems(1) True prev by (simp add: snoc)
    next
      case False
      with le score_run_last [OF l(1)] have "p_Score (hd l) < p_Score p" by simp
      moreover have "p_Score (hd g) < p_Score p" if "g \<in> set xs" for g
        using bspec [OF l(3) that] \<open>p_Score (hd l) < p_Score p\<close> by (rule less_trans)
      ultimately have "\<forall>g \<in> set (xs @ [l]). p_Score (hd g) < p_Score p" by simp
      with Cons.prems(2) have "rising_runs (gs @ [[p]])"
        unfolding snoc rising_runs_snoc [of "xs @ [l]" "[p]"] by (simp add: score_run_def)
      then show ?thesis
        using Cons.IH [of "gs @ [[p]]" "[p]"] Cons.prems(1) False prev by (simp add: snoc)
    qed
  qed
qed

lemma mod_pred: "Suc x mod n = 0 \<Longrightarrow> 0 < n \<Longrightarrow> x mod n = n - 1"
  by (simp add: mod_Suc split: if_splits)

lemma final_offset_last:
  assumes "0 < n" and "1 < themes"
  shows "(themes - 2 + final_offset n themes) mod n = n - 1"
proof -
  define k where "k = (themes - 1) mod n"
  have k: "k < n" using assms(1) by (simp add: k_def)
  have off: "final_offset n themes = (n - k) mod n" using assms by (simp add: final_offset_def k_def)
  have "(themes - 1 + (n - k)) mod n = (k + (n - k)) mod n" unfolding k_def by (rule mod_add_left_eq [symmetric])
  also have "\<dots> = 0" using k by simp
  finally have zero: "(themes - 1 + (n - k)) mod n = 0" .
  have "(themes - 2 + final_offset n themes) mod n = (themes - 2 + (n - k)) mod n" by (simp add: off mod_add_right_eq)
  moreover have "Suc (themes - 2 + (n - k)) = themes - 1 + (n - k)" using assms(2) by simp
  ultimately show ?thesis using zero mod_pred [of "themes - 2 + (n - k)" n] assms(1) by (simp only:)
qed

text \<open>The themes of the final are deleted in rounds over the players from the lowest score
  up: the groups of the order are exactly the players who take part, by score, players of equal score in one
  group and the groups by rising score; and the first deletion is shifted so that the last one falls to the last
  place in the order, a player with the highest score.\<close>

theorem final_order:
  "(\<exists>gs. st_FinalGroups (finalBuildOrder g) = map (map p_ID) gs \<and> concat gs = final_players g \<and> rising_runs gs) \<and>
   (let n = length (final_players g); themes = length (finalRemainingThemes g) in
     0 < n \<longrightarrow> 1 < themes \<longrightarrow> (themes - 2 + st_FinalOffset (finalBuildOrder g)) mod n = n - 1)"
  using group_runs_spec [of "[]" "final_players g" "[]"] final_offset_last
  by (simp add: finalBuildOrder_def Let_def final_players_def rising_runs_def)

theorem final_order_witness: "(3 - 2 + st_FinalOffset (finalBuildOrder (demo_selecting\<lparr>st_Players :=
    map (\<lambda>p. p\<lparr>p_FinalInGame := True\<rparr>) (st_Players demo_selecting),
    st_Table := replicate 3 (hd (st_Table demo_selecting))\<rparr>))) mod 4 = (3::nat)"
proof -
  let ?g = "demo_selecting\<lparr>st_Players := map (\<lambda>p. p\<lparr>p_FinalInGame := True\<rparr>) (st_Players demo_selecting),
    st_Table := replicate 3 (hd (st_Table demo_selecting))\<rparr>"
  have "length (final_players ?g) = 4 \<and> length (finalRemainingThemes ?g) = 3" by code_simp
  then show ?thesis using final_order [of ?g] by (simp add: Let_def)
qed

subsection \<open>The media of a pack\<close>

text \<open>A reference: all identifiers a pack mentions, in any position.\<close>

primrec param_media :: "param \<Rightarrow> string set" where
  "param_media (Param nm ty ref val items params ns) =
     ci_MediaID ` set items \<union> \<Union> (set (map param_media params))"

definition items_media :: "content_item list \<Rightarrow> string set" where
  "items_media items = ci_MediaID ` set items"

definition question_media :: "pack_question \<Rightarrow> string set" where
  "question_media q = items_media (qp_Question (pq_Params q)) \<union> items_media (qp_Answer (pq_Params q)) \<union>
     (\<Union>o' \<in> set (qp_AnswerOptions (pq_Params q)). items_media (ao_Content o')) \<union>
     (\<Union>p \<in> set (pq_Extra q). param_media p) \<union>
     (\<Union>s \<in> set (pq_Script q). \<Union>p \<in> set (ss_Params s). param_media p)"

definition pack_media :: "pack \<Rightarrow> string set" where
  "pack_media p = {pk_LogoMediaID p} \<union>
     (\<Union>r \<in> set (pk_Rounds p). \<Union>t \<in> set (pr_Themes r). \<Union>q \<in> set (pt_Questions t). question_media q)"

lemma set_fold_collect:
  assumes "\<And>x out. x \<in> set xs \<Longrightarrow> set (f x out) = set out \<union> (M x - {[]})"
  shows "set (fold f xs out) = set out \<union> ((\<Union>x \<in> set xs. M x) - {[]})"
  using assms
proof (induction xs arbitrary: out)
  case (Cons x xs)
  then show ?case by (auto simp: Cons.IH)
qed simp

lemma set_walk_items: "set (walk_items items out) = set out \<union> (items_media items - {[]})"
proof -
  have "set (fold (\<lambda>it. add_media (ci_MediaID it)) items out) = set out \<union> ((\<Union>it \<in> set items. {ci_MediaID it}) - {[]})"
    by (rule set_fold_collect) (auto simp: add_media_def)
  then show ?thesis by (auto simp: walk_items_def items_media_def)
qed

lemma set_walk_param: "set (walk_param p out) = set out \<union> (param_media p - {[]})"
proof (induction p arbitrary: out)
  case (Param nm ty ref val items params ns)
  have "set (fold walk_param params (walk_items items out)) =
      set (walk_items items out) \<union> ((\<Union>p \<in> set params. param_media p) - {[]})"
    by (rule set_fold_collect) (rule Param.IH)
  then show ?case by (auto simp: set_walk_items items_media_def fold_map comp_def)
qed

lemma set_walk_params: "set (walk_params ps out) = set out \<union> ((\<Union>p \<in> set ps. param_media p) - {[]})"
  unfolding walk_params_def by (rule set_fold_collect) (rule set_walk_param)

lemma set_walk_question: "set (walk_question q out) = set out \<union> (question_media q - {[]})"
proof -
  have "set (fold (\<lambda>s. walk_params (ss_Params s)) (pq_Script q) xs) =
      set xs \<union> ((\<Union>s \<in> set (pq_Script q). \<Union>p \<in> set (ss_Params s). param_media p) - {[]})" for xs
    by (rule set_fold_collect) (rule set_walk_params)
  moreover have "set (fold (\<lambda>o'. walk_items (ao_Content o')) (qp_AnswerOptions (pq_Params q)) xs) =
      set xs \<union> ((\<Union>o' \<in> set (qp_AnswerOptions (pq_Params q)). items_media (ao_Content o')) - {[]})" for xs
    by (rule set_fold_collect) (rule set_walk_items)
  ultimately show ?thesis
    by (auto simp: walk_question_def question_media_def set_walk_items set_walk_params)
qed

text \<open>\<open>MediaIDs\<close> lists every media file the pack mentions, in its logo, its
  questions, answers, options, extra parameters and scripts however nested, and nothing else, each once.\<close>

theorem media_ids_exact: "set (MediaIDs p) = pack_media p - {[]} \<and> distinct (MediaIDs p)"
proof
  have themes: "set (fold (\<lambda>t. fold walk_question (pt_Questions t)) ts xs) =
      set xs \<union> ((\<Union>t \<in> set ts. \<Union>q \<in> set (pt_Questions t). question_media q) - {[]})" for ts xs
    by (intro set_fold_collect set_walk_question)
  have rounds: "set (fold (\<lambda>r. fold (\<lambda>t. fold walk_question (pt_Questions t)) (pr_Themes r)) rs xs) =
      set xs \<union> ((\<Union>r \<in> set rs. \<Union>t \<in> set (pr_Themes r). \<Union>q \<in> set (pt_Questions t). question_media q) - {[]})" for rs xs
    by (intro set_fold_collect themes)
  show "set (MediaIDs p) = pack_media p - {[]}"
    unfolding MediaIDs_def rounds by (auto simp: pack_media_def add_media_def)
  show "distinct (MediaIDs p)" using media_ok_MediaIDs [of p] by (simp add: media_ok_def)
qed

end
