(* ===== verification/Float_Order.thy ===== *)
theory Float_Order
  imports Float64
begin

text \<open>
  The order of float64: rounding is monotone, leaves the numbers float64 can represent alone, and
  errs by at most half a unit in the last place. These facts turn the bounds the code establishes
  by \<open>clamp\<close>, \<open>min\<close> and \<open>max\<close> into bounds on the numbers it computes with.
\<close>

definition f64_add :: "f64 \<Rightarrow> f64 \<Rightarrow> f64" where
  "f64_add x y = f64_round (x + y)"

subsection \<open>Powers of two\<close>

lemma pow2_powi: "pow2 k = 2 powi k"
  by (auto simp: pow2_def power_int_def power_one_over inverse_eq_divide)

lemma pow2_add: "pow2 (j + k) = pow2 j * pow2 k"
  by (simp add: pow2_powi power_int_add)

lemma pow2_mono: "j \<le> k \<Longrightarrow> pow2 j \<le> pow2 k"
  by (simp add: pow2_powi power_int_increasing)

lemma pow2_less_iff: "pow2 j < pow2 k \<longleftrightarrow> j < k"
proof -
  have "j < k \<Longrightarrow> pow2 j < pow2 k" for j k
    by (simp add: pow2_powi power_int_strict_increasing)
  moreover have "k \<le> j \<Longrightarrow> pow2 k \<le> pow2 j" by (rule pow2_mono)
  ultimately show ?thesis by (meson linorder_not_less)
qed

lemma pow2_le_iff: "pow2 j \<le> pow2 k \<longleftrightarrow> j \<le> k"
  by (meson linorder_not_less pow2_less_iff)

lemma pow2_nonzero [simp]: "pow2 k \<noteq> 0"
  using pow2_pos [of k] by linarith

lemma pow2_quotient: "pow2 j / pow2 k = pow2 (j - k)"
  using pow2_add [of "j - k" k] by simp

lemma pow2_quotient_int: "k \<le> j \<Longrightarrow> \<exists>n. pow2 j / pow2 k = of_int n \<and> 0 < n"
  unfolding pow2_quotient by (intro exI [of _ "2 ^ nat (j - k)"]) (simp add: pow2_def)

lemma pow2_nat [simp]: "pow2 (int n) = 2 ^ n"
  by (simp add: pow2_def)

lemma f64_exponent_bounds:
  assumes "0 < x"
  shows "pow2 (f64_exponent x) \<le> x" and "x < pow2 (f64_exponent x + 1)"
proof -
  obtain a b where ab: "quotient_of x = (a, b)" by fastforce
  then have b: "0 < b" and x: "x = of_int a / of_int b"
    by (auto simp: quotient_of_denom_pos quotient_of_div)
  with assms have a: "0 < a" by (simp add: zero_less_divide_iff)
  define la lb where "la = bit_len (nat a)" and "lb = bit_len (nat b)"
  have bounds: "pow2 (int (bit_len (nat c)) - 1) \<le> of_int c \<and> of_int c < pow2 (int (bit_len (nat c)))"
    if "0 < c" for c :: int
  proof -
    let ?l = "bit_len (nat c)"
    from that have *: "2 ^ (?l - 1) \<le> nat c" "nat c < 2 ^ ?l" "0 < ?l"
      using bit_len_bounds [of "nat c"] by auto
    then have "(2::int) ^ (?l - 1) \<le> c" "c < 2 ^ ?l"
      using that by (simp_all add: nat_less_iff le_nat_iff)
    then have "(of_int (2 ^ (?l - 1)) :: rat) \<le> of_int c" "(of_int c :: rat) < of_int (2 ^ ?l)"
      by (simp_all only: of_int_le_iff of_int_less_iff)
    moreover have "pow2 (int ?l - 1) = 2 ^ (?l - 1)"
      using *(3) pow2_nat [of "?l - 1"] by (simp add: of_nat_diff)
    ultimately show ?thesis by simp
  qed
  have A: "pow2 (int la - 1) \<le> of_int a" "of_int a < pow2 (int la)"
    using bounds [OF a] by (simp_all add: la_def)
  have B: "pow2 (int lb - 1) \<le> of_int b" "of_int b < pow2 (int lb)"
    using bounds [OF b] by (simp_all add: lb_def)
  define k where "k = int la - int lb"
  have low: "pow2 (k - 1) \<le> x"
  proof -
    have "pow2 (k - 1) * of_int b \<le> pow2 (k - 1) * pow2 (int lb)"
      using B(2) by (intro mult_left_mono) (auto intro: less_imp_le)
    also have "\<dots> = pow2 (int la - 1)" by (simp add: k_def flip: pow2_add del: pow2_nat)
    also have "\<dots> \<le> of_int a" by (rule A)
    finally show ?thesis using b by (simp add: x pos_le_divide_eq)
  qed
  have high: "x < pow2 (k + 1)"
  proof -
    have "(of_int a :: rat) < pow2 (int la)" by (rule A)
    also have "\<dots> = pow2 (k + 1) * pow2 (int lb - 1)" by (simp add: k_def flip: pow2_add del: pow2_nat)
    also have "\<dots> \<le> pow2 (k + 1) * of_int b" using B(1) by (intro mult_left_mono) (auto intro: less_imp_le)
    finally show ?thesis using b by (simp add: x pos_divide_less_eq)
  qed
  have e: "f64_exponent x = (if pow2 k \<le> x then k else k - 1)"
    by (simp add: f64_exponent_def ab la_def lb_def k_def)
  show "pow2 (f64_exponent x) \<le> x" using low by (simp add: e)
  show "x < pow2 (f64_exponent x + 1)" using high by (simp add: e)
qed

subsection \<open>Rounding\<close>

lemma round_half_even_cases:
  "(round_half_even z = \<lfloor>z\<rfloor> \<and> z - of_int \<lfloor>z\<rfloor> \<le> 1 / 2) \<or>
   (round_half_even z = \<lfloor>z\<rfloor> + 1 \<and> 1 / 2 \<le> z - of_int \<lfloor>z\<rfloor>)"
  unfolding round_half_even_def Let_def by auto

lemma round_half_even_err: "\<bar>of_int (round_half_even z) - z\<bar> \<le> 1 / 2"
proof -
  have "of_int \<lfloor>z\<rfloor> \<le> z" and "z < of_int \<lfloor>z\<rfloor> + 1" by linarith+
  with round_half_even_cases [of z] show ?thesis by (elim disjE conjE) simp_all
qed

lemma round_half_even_mono: "y \<le> z \<Longrightarrow> round_half_even y \<le> round_half_even z"
proof -
  assume "y \<le> z"
  then have "\<lfloor>y\<rfloor> \<le> \<lfloor>z\<rfloor>" by (rule floor_mono)
  then consider "\<lfloor>y\<rfloor> = \<lfloor>z\<rfloor>" | "\<lfloor>y\<rfloor> + 1 \<le> \<lfloor>z\<rfloor>" by linarith
  then show ?thesis
  proof cases
    case 1
    with \<open>y \<le> z\<close> show ?thesis unfolding round_half_even_def Let_def by auto
  next
    case 2
    have "round_half_even y \<le> \<lfloor>y\<rfloor> + 1" and "\<lfloor>z\<rfloor> \<le> round_half_even z"
      unfolding round_half_even_def Let_def by auto
    with 2 show ?thesis by linarith
  qed
qed

lemma round_half_even_le_int: "z \<le> of_int n \<Longrightarrow> round_half_even z \<le> n"
  using round_half_even_mono [of z "of_int n"] by simp

lemma round_half_even_ge_int: "of_int n \<le> z \<Longrightarrow> n \<le> round_half_even z"
  using round_half_even_mono [of "of_int n" z] by simp

lemma round_half_even_minus: "round_half_even (- z) = - round_half_even z"
proof (cases "of_int \<lfloor>z\<rfloor> = z")
  case True
  then show ?thesis by (metis of_int_minus round_half_even_of_int)
next
  case False
  then have lt: "of_int \<lfloor>z\<rfloor> < z" using of_int_floor_le [of z] by linarith
  then have "\<lfloor>- z\<rfloor> = - \<lfloor>z\<rfloor> - 1"
    by (intro floor_unique) (simp_all, linarith)
  then show ?thesis unfolding round_half_even_def Let_def by auto
qed

definition f64_quantum :: "rat \<Rightarrow> int" where
  "f64_quantum x = max (f64_exponent \<bar>x\<bar> - 52) (-1074)"

lemma f64_round_eq:
  "f64_round x = (if x = 0 then 0 else of_int (round_half_even (x / pow2 (f64_quantum x))) * pow2 (f64_quantum x))"
  by (simp add: f64_round_def f64_quantum_def Let_def)

lemma f64_round_zero [simp]: "f64_round 0 = 0"
  by (simp add: f64_round_def)

lemma f64_round_minus: "f64_round (- x) = - f64_round x"
  by (simp add: f64_round_eq f64_quantum_def round_half_even_minus)

lemma f64_round_nonneg: "0 \<le> x \<Longrightarrow> 0 \<le> f64_round x"
  unfolding f64_round_eq using round_half_even_ge_int [of 0 "x / pow2 (f64_quantum x)"]
  by (auto simp: less_imp_le)

text \<open>The error is at most half a unit in the last place.\<close>

lemma f64_round_err: "x \<noteq> 0 \<Longrightarrow> \<bar>f64_round x - x\<bar> \<le> pow2 (f64_quantum x) / 2"
proof -
  assume "x \<noteq> 0"
  let ?q = "pow2 (f64_quantum x)"
  have "f64_round x - x = (of_int (round_half_even (x / ?q)) - x / ?q) * ?q"
    using \<open>x \<noteq> 0\<close> by (simp add: f64_round_eq left_diff_distrib)
  then have "\<bar>f64_round x - x\<bar> = \<bar>of_int (round_half_even (x / ?q)) - x / ?q\<bar> * ?q"
    using pow2_pos [of "f64_quantum x"] by (simp add: abs_mult less_imp_le)
  also have "\<dots> \<le> 1 / 2 * ?q"
    using round_half_even_err by (rule mult_right_mono) (simp add: less_imp_le)
  finally show ?thesis by simp
qed

lemma f64_round_le_multiple:
  assumes "0 < x" and "x \<le> pow2 k" and "f64_quantum x \<le> k"
  shows "f64_round x \<le> pow2 k"
proof -
  let ?q = "pow2 (f64_quantum x)"
  obtain n where n: "pow2 k / ?q = of_int n" using pow2_quotient_int [OF assms(3)] by blast
  have "x / ?q \<le> pow2 k / ?q" using assms(2) by (simp add: divide_right_mono less_imp_le)
  with n have "round_half_even (x / ?q) \<le> n" by (simp add: round_half_even_le_int)
  then have "of_int (round_half_even (x / ?q)) * ?q \<le> of_int n * ?q"
    by (simp add: less_imp_le)
  also have "\<dots> = pow2 k" by (simp flip: n)
  finally show ?thesis using assms(1) by (simp add: f64_round_eq)
qed

lemma f64_round_ge_multiple:
  assumes "0 < x" and "pow2 k \<le> x" and "f64_quantum x \<le> k"
  shows "pow2 k \<le> f64_round x"
proof -
  let ?q = "pow2 (f64_quantum x)"
  obtain n where n: "pow2 k / ?q = of_int n" using pow2_quotient_int [OF assms(3)] by blast
  have "pow2 k / ?q \<le> x / ?q" using assms(2) by (simp add: divide_right_mono less_imp_le)
  with n have "n \<le> round_half_even (x / ?q)" by (simp add: round_half_even_ge_int)
  then have "of_int n * ?q \<le> of_int (round_half_even (x / ?q)) * ?q"
    by (simp add: less_imp_le)
  moreover have "of_int n * ?q = pow2 k" by (simp flip: n)
  ultimately show ?thesis using assms(1) by (simp add: f64_round_eq)
qed

lemma f64_round_mono_pos:
  assumes "0 < x" and "x \<le> y"
  shows "f64_round x \<le> f64_round y"
proof -
  have "0 < y" using assms by linarith
  let ?ex = "f64_exponent x" and ?ey = "f64_exponent y"
  have "pow2 ?ex \<le> x" "x \<le> y" "y < pow2 (?ey + 1)"
    using f64_exponent_bounds \<open>0 < x\<close> \<open>0 < y\<close> assms(2) by blast+
  then have le: "?ex \<le> ?ey" by (metis (no_types) linorder_not_less order.strict_trans1 order.trans pow2_less_iff zless_add1_eq zle_add1_eq_le)
  show ?thesis
  proof (cases "f64_quantum x = f64_quantum y")
    case True
    have "x / pow2 (f64_quantum y) \<le> y / pow2 (f64_quantum y)"
      using assms(2) by (simp add: divide_right_mono less_imp_le)
    then have "round_half_even (x / pow2 (f64_quantum y)) \<le> round_half_even (y / pow2 (f64_quantum y))"
      by (rule round_half_even_mono)
    with True \<open>0 < x\<close> \<open>0 < y\<close> show ?thesis
      by (simp add: f64_round_eq less_imp_le)
  next
    case False
    with le have qy: "f64_quantum y = ?ey - 52" and lt: "?ex < ?ey" and qx: "f64_quantum x \<le> ?ey"
      using \<open>0 < x\<close> \<open>0 < y\<close> by (auto simp: f64_quantum_def max_def split: if_splits)
    have "x < pow2 (?ex + 1)" using f64_exponent_bounds \<open>0 < x\<close> by blast
    also have "\<dots> \<le> pow2 ?ey" using lt by (intro pow2_mono) simp
    finally have "f64_round x \<le> pow2 ?ey" using \<open>0 < x\<close> qx by (intro f64_round_le_multiple) auto
    also have "\<dots> \<le> f64_round y"
      using \<open>0 < y\<close> qy f64_exponent_bounds(1) [OF \<open>0 < y\<close>] by (intro f64_round_ge_multiple) auto
    finally show ?thesis .
  qed
qed

lemma f64_round_mono: "x \<le> y \<Longrightarrow> f64_round x \<le> f64_round y"
proof -
  assume "x \<le> y"
  then consider "0 < x" | "x \<le> 0" "0 \<le> y" | "y < 0" by linarith
  then show ?thesis
  proof cases
    case 1
    then show ?thesis using f64_round_mono_pos \<open>x \<le> y\<close> by blast
  next
    case 2
    then have "0 \<le> f64_round (- x)" and "0 \<le> f64_round y" by (auto intro: f64_round_nonneg)
    then show ?thesis by (simp add: f64_round_minus)
  next
    case 3
    then have "f64_round (- y) \<le> f64_round (- x)" using \<open>x \<le> y\<close> by (intro f64_round_mono_pos) auto
    then show ?thesis by (simp add: f64_round_minus)
  qed
qed

subsection \<open>The numbers float64 represents\<close>

definition is_f64 :: "rat \<Rightarrow> bool" where
  "is_f64 x \<longleftrightarrow> f64_round x = x"

definition f64_grid :: "rat \<Rightarrow> bool" where
  "f64_grid x \<longleftrightarrow> (\<exists>m t. x = of_int m * pow2 t \<and> \<bar>m\<bar> \<le> 2 ^ 53 \<and> -1074 \<le> t)"

lemma f64_grid_minus: "f64_grid x \<Longrightarrow> f64_grid (- x)"
  unfolding f64_grid_def by (metis abs_minus_cancel mult_minus_left of_int_minus)

lemma f64_round_grid_pos: "0 < x \<Longrightarrow> f64_grid (f64_round x)"
proof -
  assume "0 < x"
  let ?t = "f64_quantum x"
  have "x < pow2 (f64_exponent x + 1)" using f64_exponent_bounds \<open>0 < x\<close> by blast
  also have "\<dots> \<le> pow2 (53 + ?t)" using \<open>0 < x\<close> by (intro pow2_mono) (simp add: f64_quantum_def)
  also have "\<dots> = 2 ^ 53 * pow2 ?t" using pow2_nat [of 53] by (simp add: pow2_add)
  finally have "x / pow2 ?t \<le> of_int (2 ^ 53)" by (simp add: pos_divide_le_eq)
  then have "round_half_even (x / pow2 ?t) \<le> 2 ^ 53" by (rule round_half_even_le_int)
  moreover have "0 \<le> round_half_even (x / pow2 ?t)"
    using \<open>0 < x\<close> by (intro round_half_even_ge_int) (simp add: less_imp_le)
  ultimately show ?thesis
    unfolding f64_grid_def using \<open>0 < x\<close>
    by (intro exI [of _ "round_half_even (x / pow2 ?t)"] exI [of _ ?t])
       (simp add: f64_round_eq f64_quantum_def)
qed

lemma f64_grid_round_pos:
  assumes "f64_grid y" and "0 < y"
  shows "f64_round y = y"
proof -
  obtain m t where y: "y = of_int m * pow2 t" and m: "\<bar>m\<bar> \<le> 2 ^ 53" and t: "-1074 \<le> t"
    using assms(1) f64_grid_def by blast
  let ?e = "f64_exponent y" and ?q = "f64_quantum y"
  have e: "pow2 ?e \<le> y" using f64_exponent_bounds assms(2) by blast
  have "of_int m \<le> (of_int (2 ^ 53) :: rat)" using m unfolding of_int_le_iff by linarith
  then have le: "y \<le> pow2 (53 + t)"
    using pow2_nat [of 53] by (simp add: y pow2_add less_imp_le)
  with e have "pow2 ?e \<le> pow2 (53 + t)" by linarith
  then have et: "?e \<le> 53 + t" by (simp add: pow2_le_iff)
  have "\<exists>n. y / pow2 ?q = of_int n"
  proof (cases "?e = 53 + t")
    case True
    with e le have "y = pow2 (53 + t)" by simp
    moreover have "?q \<le> 53 + t" using True t assms(2) by (simp add: f64_quantum_def)
    ultimately show ?thesis using pow2_quotient_int by metis
  next
    case False
    with et t assms(2) have "?q \<le> t" by (simp add: f64_quantum_def)
    then obtain n where "pow2 t / pow2 ?q = of_int n" using pow2_quotient_int by blast
    then have "y / pow2 ?q = of_int (m * n)" by (simp add: y flip: times_divide_eq_right)
    then show ?thesis by blast
  qed
  then obtain n where n: "y / pow2 ?q = of_int n" by blast
  then have "f64_round y = of_int n * pow2 ?q" using assms(2) by (simp add: f64_round_eq)
  also have "\<dots> = y" by (simp flip: n)
  finally show ?thesis .
qed

lemma is_f64_round [simp]: "is_f64 (f64_round x)"
proof -
  consider "x = 0" | "0 < x" | "0 < - x" by linarith
  then show ?thesis
  proof cases
    case 2
    then have g: "f64_grid (f64_round x)" by (rule f64_round_grid_pos)
    show ?thesis
      using f64_grid_round_pos [OF g] f64_round_nonneg [of x] 2
      by (cases "f64_round x = 0") (auto simp: is_f64_def)
  next
    case 3
    then have g: "f64_grid (f64_round (- x))" by (rule f64_round_grid_pos)
    have "f64_round (f64_round (- x)) = f64_round (- x)"
      using f64_grid_round_pos [OF g] f64_round_nonneg [of "- x"] 3
      by (cases "f64_round (- x) = 0") auto
    then show ?thesis by (simp add: is_f64_def f64_round_minus)
  qed (simp add: is_f64_def)
qed

lemma is_f64_int: "\<bar>n\<bar> < 2 ^ 53 \<Longrightarrow> is_f64 (of_int n)"
  by (simp add: is_f64_def f64_round_int)

lemma is_f64_numeral [simp]: "(numeral n :: int) < 2 ^ 53 \<Longrightarrow> is_f64 (numeral n)"
  using is_f64_int [of "numeral n"] by simp

lemma is_f64_01 [simp]: "is_f64 0" "is_f64 1"
  using is_f64_int [of 1] by (simp_all add: is_f64_def)

lemma f64_round_numeral [simp]:
  "(numeral n :: int) < 2 ^ 53 \<Longrightarrow> f64_round (numeral n) = numeral n"
  "(numeral n :: int) < 2 ^ 53 \<Longrightarrow> f64_round (- numeral n) = - numeral n"
  "f64_round 1 = 1" "f64_round (- 1) = - 1"
  using is_f64_numeral [of n] is_f64_01(2) by (simp_all add: is_f64_def f64_round_minus)

lemma is_f64_minus [simp]: "is_f64 (- x) \<longleftrightarrow> is_f64 x"
  by (simp add: is_f64_def f64_round_minus)

lemma is_f64_of_int [simp]: "is_f64 (f64_of_int n)"
  by (simp add: f64_of_int_def)

lemma is_f64_min [intro]: "is_f64 x \<Longrightarrow> is_f64 y \<Longrightarrow> is_f64 (min x y)"
  by (simp add: min_def)

lemma is_f64_max [intro]: "is_f64 x \<Longrightarrow> is_f64 y \<Longrightarrow> is_f64 (max x y)"
  by (simp add: max_def)

lemma is_f64_ops [simp]:
  "is_f64 (f64_add x y)" "is_f64 (f64_sub x y)" "is_f64 (f64_mul x y)" "is_f64 (f64_div x y)"
  by (simp_all add: f64_add_def f64_sub_def f64_mul_def f64_div_def)

text \<open>A bound that float64 represents survives rounding.\<close>

lemma f64_round_le: "is_f64 b \<Longrightarrow> x \<le> b \<Longrightarrow> f64_round x \<le> b"
  using f64_round_mono [of x b] by (simp add: is_f64_def)

lemma f64_round_ge: "is_f64 b \<Longrightarrow> b \<le> x \<Longrightarrow> b \<le> f64_round x"
  using f64_round_mono [of b x] by (simp add: is_f64_def)

lemma f64_of_int_mono: "m \<le> n \<Longrightarrow> f64_of_int m \<le> f64_of_int n"
  by (simp add: f64_of_int_def f64_round_mono)

lemma f64_of_int_eq: "\<bar>n\<bar> < 2 ^ 53 \<Longrightarrow> f64_of_int n = of_int n"
  by (simp add: f64_of_int_def f64_round_int)

subsection \<open>Scaling a random number of [0, 1)\<close>

text \<open>
  The code picks an entry of a list of \<open>n\<close> as \<open>int(u * float64(n))\<close> with \<open>u\<close> a multiple of
  \<open>2 ^ -53\<close> below 1. The product is rounded, yet it never reaches \<open>n\<close>: the distance of \<open>u * n\<close> to
  \<open>n\<close> is more than half a unit in the last place.
\<close>

lemma unit_scale_less:
  assumes "0 \<le> u" and "u \<le> 1 - 1 / 2 ^ 53" and "0 < n" and "n < 2 ^ 53"
  shows "f64_mul u (f64_of_int n) < of_int n"
proof (cases "u = 0")
  case True
  with assms show ?thesis by (simp add: f64_mul_def)
next
  case False
  define x :: rat where "x = u * of_int n"
  have x: "0 < x" "x < of_int n" using assms False by (simp_all add: x_def)
  have gap: "of_int n / 2 ^ 53 \<le> of_int n - x"
  proof -
    have "x \<le> (1 - 1 / 2 ^ 53) * of_int n" unfolding x_def using assms by (intro mult_right_mono) auto
    then show ?thesis by (simp add: left_diff_distrib)
  qed
  have "f64_round x < of_int n"
  proof (rule ccontr)
    assume "\<not> f64_round x < of_int n"
    then have "of_int n - x \<le> pow2 (f64_quantum x) / 2"
      using f64_round_err [of x] x by linarith
    with gap have le: "of_int n / 2 ^ 53 \<le> pow2 (f64_quantum x) / 2" by linarith
    show False
    proof (cases "f64_exponent x - 52 \<le> -1074")
      case True
      have "pow2 (f64_quantum x) \<le> pow2 (-53)"
        using True x by (intro pow2_mono) (simp add: f64_quantum_def)
      moreover have "pow2 (-53) = 1 / 2 ^ 53" by (simp add: pow2_def)
      ultimately have "of_int n / 2 ^ 53 \<le> (1 / 2 ^ 53) / (2 :: rat)" using le by simp
      moreover have "(1 :: rat) / 2 ^ 53 \<le> of_int n / 2 ^ 53" using assms(3) by (simp add: divide_right_mono)
      ultimately show False by simp
    next
      case False
      then have "f64_quantum x = f64_exponent x - 52" using x by (simp add: f64_quantum_def)
      then have "pow2 (f64_quantum x) / 2 = pow2 (f64_exponent x) / 2 ^ 53"
        using pow2_quotient [of "f64_exponent x" 52] pow2_nat [of 52] by simp
      with le have "(of_int n :: rat) \<le> pow2 (f64_exponent x)" by (simp add: divide_le_cancel)
      with f64_exponent_bounds(1) [OF x(1)] x(2) show False by linarith
    qed
  qed
  with assms(3,4) show ?thesis by (simp add: f64_mul_def f64_of_int_eq x_def)
qed

end
