(* ===== verification/Buzzer_Settings.thy ===== *)
theory Buzzer_Settings
  imports Float_Order
begin

text \<open>
  The buzzer's settings (\<open>internal/buzzer/settings.go\<close>): algorithm modes, tie rules, network
  profiles, the named presets and the validation every settings update passes. The string-typed
  enums keep a constructor for values \<open>Validate\<close> refuses. An error is a value that carries what its
  message prints.
\<close>

datatype buzz_mode =
    ModeAnchoredHybrid | ModeServerArrival | ModeRandomWindow | ModeClientReaction | ModeWrittenAll
  | ModeOther string

datatype tie_mode = TieResolution | TieUncertainty | TieModeOther string

datatype tie_break =
    TieBreakLikelihood | TieBreakMostLikely | TieBreakRandom | TieBreakLowestScore
  | TieBreakFewestButtonsWon | TieBreakRotate | TieBreakAllPlay | TieBreakOther string

datatype net_profile = NetLAN | NetWiFi | NetWAN | NetOther string

record settings =
  bs_Mode :: buzz_mode
  bs_NetProfile :: net_profile
  bs_TieMode :: tie_mode
  bs_TieBreak :: tie_break
  bs_ArmJitterMinMs :: int
  bs_ArmJitterMaxMs :: int
  bs_PressWindowMs :: int
  bs_MaxCollectMs :: int
  bs_TieMs :: int
  bs_TieMinMs :: int
  bs_TieMaxMs :: int
  bs_TolCapMs :: int
  bs_LateLightCreditMs :: int
  bs_MinHumanMs :: int
  bs_FalseStartLockoutMs :: int
  bs_LockoutGrowth :: f64
  bs_LockoutCapMs :: int
  bs_MaxRttMs :: int
  bs_AutoTrust :: bool
  bs_StrictTrust :: bool
  bs_ShowPing :: bool
  bs_RandomWindowMs :: int
  bs_AcceptWindowMs :: int

subsection \<open>Presets\<close>

definition PresetLANWired :: string where "PresetLANWired = ''lanWired''"
definition PresetWiFiParty :: string where "PresetWiFiParty = ''wifiParty''"
definition PresetInternetFair :: string where "PresetInternetFair = ''internetFair''"
definition PresetTournament :: string where "PresetTournament = ''tournament''"
definition PresetNoRace :: string where "PresetNoRace = ''noRace''"

definition PresetNames :: "string list" where
  "PresetNames =
     [PresetLANWired, PresetWiFiParty, PresetInternetFair, PresetTournament, PresetNoRace]"

lemmas preset_names =
  PresetLANWired_def PresetWiFiParty_def PresetInternetFair_def PresetTournament_def
  PresetNoRace_def

definition preset_base :: settings where
  "preset_base =
     \<lparr>bs_Mode = ModeAnchoredHybrid, bs_NetProfile = NetWiFi, bs_TieMode = TieUncertainty,
      bs_TieBreak = TieBreakLikelihood, bs_ArmJitterMinMs = 200, bs_ArmJitterMaxMs = 1200,
      bs_PressWindowMs = 5000, bs_MaxCollectMs = 400, bs_TieMs = 2, bs_TieMinMs = 3,
      bs_TieMaxMs = 40, bs_TolCapMs = 60, bs_LateLightCreditMs = 20, bs_MinHumanMs = 100,
      bs_FalseStartLockoutMs = 3000, bs_LockoutGrowth = 2, bs_LockoutCapMs = 6000,
      bs_MaxRttMs = 200, bs_AutoTrust = True, bs_StrictTrust = False, bs_ShowPing = True,
      bs_RandomWindowMs = 300, bs_AcceptWindowMs = 300\<rparr>"

definition Preset :: "string \<Rightarrow> settings option" where
  "Preset name =
     (if name = PresetWiFiParty then Some preset_base
      else if name = PresetLANWired then
        Some (preset_base\<lparr>bs_NetProfile := NetLAN, bs_TieMode := TieResolution,
          bs_TieBreak := TieBreakMostLikely, bs_ArmJitterMinMs := 300, bs_ArmJitterMaxMs := 800,
          bs_MaxCollectMs := 200, bs_TieMinMs := 2, bs_TolCapMs := 40,
          bs_FalseStartLockoutMs := 1000, bs_MaxRttMs := 80\<rparr>)
      else if name = PresetInternetFair then
        Some (preset_base\<lparr>bs_NetProfile := NetWAN, bs_MaxCollectMs := 600, bs_TieMaxMs := 60,
          bs_TolCapMs := 80, bs_MaxRttMs := 350\<rparr>)
      else if name = PresetTournament then
        Some (preset_base\<lparr>bs_NetProfile := NetLAN, bs_TieMode := TieResolution,
          bs_TieBreak := TieBreakMostLikely, bs_ArmJitterMinMs := 300, bs_ArmJitterMaxMs := 1200,
          bs_MaxCollectMs := 200, bs_TieMinMs := 2, bs_TolCapMs := 40,
          bs_LateLightCreditMs := 0, bs_FalseStartLockoutMs := 1000, bs_MaxRttMs := 80,
          bs_StrictTrust := True\<rparr>)
      else if name = PresetNoRace then
        Some (preset_base\<lparr>bs_Mode := ModeWrittenAll, bs_TieBreak := TieBreakAllPlay\<rparr>)
      else None)"

definition DefaultSettings :: settings where
  "DefaultSettings = the (Preset PresetWiFiParty)"

definition DefaultMaxCollectMs :: "net_profile \<Rightarrow> int" where
  "DefaultMaxCollectMs p = (case p of NetLAN \<Rightarrow> 200 | NetWAN \<Rightarrow> 600 | _ \<Rightarrow> 400)"

definition DefaultTolCapForProfile :: "net_profile \<Rightarrow> int" where
  "DefaultTolCapForProfile p = (case p of NetLAN \<Rightarrow> 40 | NetWAN \<Rightarrow> 80 | _ \<Rightarrow> 60)"

subsection \<open>Validation\<close>

datatype settings_error =
    BadMode string | BadNetProfile string | BadTieMode string | BadTieBreak string
  | BadArmJitter int int | BadPressWindow int | BadMaxCollect int | BadTieMs int
  | BadTieWindow int int | BadTolCap int | BadLateLightCredit int | BadMinHuman int
  | BadFalseStartLockout int | BadLockoutGrowth f64 | BadLockoutCap int | BadMaxRtt int
  | BadRandomWindow int | BadAcceptWindow int

definition TolMinMs :: f64 where "TolMinMs = 5"

definition Validate :: "settings \<Rightarrow> settings_error option" where
  "Validate s =
     (case bs_Mode s of ModeOther x \<Rightarrow> Some (BadMode x) | _ \<Rightarrow>
      case bs_NetProfile s of NetOther x \<Rightarrow> Some (BadNetProfile x) | _ \<Rightarrow>
      case bs_TieMode s of TieModeOther x \<Rightarrow> Some (BadTieMode x) | _ \<Rightarrow>
      case bs_TieBreak s of TieBreakOther x \<Rightarrow> Some (BadTieBreak x) | _ \<Rightarrow>
      if bs_ArmJitterMinMs s < 0 \<or> bs_ArmJitterMaxMs s < bs_ArmJitterMinMs s \<or> 10000 < bs_ArmJitterMaxMs s
      then Some (BadArmJitter (bs_ArmJitterMinMs s) (bs_ArmJitterMaxMs s))
      else if bs_PressWindowMs s < 500 \<or> 60000 < bs_PressWindowMs s
      then Some (BadPressWindow (bs_PressWindowMs s))
      else if bs_MaxCollectMs s < 50 \<or> 2000 < bs_MaxCollectMs s
      then Some (BadMaxCollect (bs_MaxCollectMs s))
      else if bs_TieMs s < 0 \<or> 1000 < bs_TieMs s then Some (BadTieMs (bs_TieMs s))
      else if bs_TieMinMs s < 0 \<or> bs_TieMaxMs s < bs_TieMinMs s \<or> 1000 < bs_TieMaxMs s
      then Some (BadTieWindow (bs_TieMinMs s) (bs_TieMaxMs s))
      else if of_int (bs_TolCapMs s) < TolMinMs \<or> 200 < bs_TolCapMs s then Some (BadTolCap (bs_TolCapMs s))
      else if bs_LateLightCreditMs s < 0 \<or> 200 < bs_LateLightCreditMs s
      then Some (BadLateLightCredit (bs_LateLightCreditMs s))
      else if bs_Mode s = ModeAnchoredHybrid \<and> (bs_MinHumanMs s < 100 \<or> 300 < bs_MinHumanMs s)
      then Some (BadMinHuman (bs_MinHumanMs s))
      else if bs_FalseStartLockoutMs s < 0 \<or> 60000 < bs_FalseStartLockoutMs s
      then Some (BadFalseStartLockout (bs_FalseStartLockoutMs s))
      else if bs_LockoutGrowth s < 1 \<or> 10 < bs_LockoutGrowth s
      then Some (BadLockoutGrowth (bs_LockoutGrowth s))
      else if bs_LockoutCapMs s < bs_FalseStartLockoutMs s \<or> 120000 < bs_LockoutCapMs s
      then Some (BadLockoutCap (bs_LockoutCapMs s))
      else if bs_MaxRttMs s < 20 \<or> 5000 < bs_MaxRttMs s then Some (BadMaxRtt (bs_MaxRttMs s))
      else if bs_Mode s = ModeRandomWindow \<and> (bs_RandomWindowMs s < 50 \<or> 2000 < bs_RandomWindowMs s)
      then Some (BadRandomWindow (bs_RandomWindowMs s))
      else if bs_Mode s = ModeClientReaction \<and> (bs_AcceptWindowMs s < 50 \<or> 2000 < bs_AcceptWindowMs s)
      then Some (BadAcceptWindow (bs_AcceptWindowMs s))
      else None)"

text \<open>A chain of early returns passes when none of them is taken.\<close>

lemma no_early_return:
  "(if c then Some e else r) = None \<longleftrightarrow> \<not> c \<and> r = None"
  "(case m of ModeOther x \<Rightarrow> Some (E x) | _ \<Rightarrow> r) = None \<longleftrightarrow> (\<forall>x. m \<noteq> ModeOther x) \<and> r = None"
  "(case n of NetOther x \<Rightarrow> Some (E x) | _ \<Rightarrow> r) = None \<longleftrightarrow> (\<forall>x. n \<noteq> NetOther x) \<and> r = None"
  "(case t of TieModeOther x \<Rightarrow> Some (E x) | _ \<Rightarrow> r) = None \<longleftrightarrow> (\<forall>x. t \<noteq> TieModeOther x) \<and> r = None"
  "(case b of TieBreakOther x \<Rightarrow> Some (E x) | _ \<Rightarrow> r) = None \<longleftrightarrow> (\<forall>x. b \<noteq> TieBreakOther x) \<and> r = None"
  by (simp, (cases m; simp), (cases n; simp), (cases t; simp), (cases b; simp))

text \<open>What the operations of an arm may rely on after the validation.\<close>

lemma Validate_ranges:
  assumes "Validate s = None"
  shows "0 \<le> bs_ArmJitterMinMs s" "bs_ArmJitterMinMs s \<le> bs_ArmJitterMaxMs s" "bs_ArmJitterMaxMs s \<le> 10000"
    and "500 \<le> bs_PressWindowMs s" "bs_PressWindowMs s \<le> 60000"
    and "50 \<le> bs_MaxCollectMs s" "bs_MaxCollectMs s \<le> 2000"
    and "0 \<le> bs_TieMs s" "bs_TieMs s \<le> 1000"
    and "0 \<le> bs_TieMinMs s" "bs_TieMinMs s \<le> bs_TieMaxMs s" "bs_TieMaxMs s \<le> 1000"
    and "5 \<le> bs_TolCapMs s" "bs_TolCapMs s \<le> 200"
    and "0 \<le> bs_LateLightCreditMs s" "bs_LateLightCreditMs s \<le> 200"
    and "0 \<le> bs_FalseStartLockoutMs s" "bs_FalseStartLockoutMs s \<le> 60000"
    and "1 \<le> bs_LockoutGrowth s" "bs_LockoutGrowth s \<le> 10"
    and "bs_FalseStartLockoutMs s \<le> bs_LockoutCapMs s" "bs_LockoutCapMs s \<le> 120000"
    and "20 \<le> bs_MaxRttMs s" "bs_MaxRttMs s \<le> 5000"
  using assms unfolding Validate_def TolMinMs_def no_early_return de_Morgan_disj not_less
  by (elim conjE; simp)+

end
