(* ===== verification/Buzzer_Ring.thy ===== *)
theory Buzzer_Ring
  imports Prelude
begin

text \<open>
  The fixed-size rings that hold a connection's measurements (\<open>internal/buzzer/conn.go\<close>): a buffer,
  the number of values held and the slot written next. The abstract view is the list of the values
  held, newest first; pushing adds a value in front and forgets what exceeds the size.
\<close>

record 'a ring =
  r_buf :: "'a list"
  r_n :: nat
  r_head :: nat

definition newRing :: "'a \<Rightarrow> nat \<Rightarrow> 'a ring" where
  "newRing z size' = \<lparr>r_buf = replicate size' z, r_n = 0, r_head = 0\<rparr>"

definition ring_push :: "'a \<Rightarrow> 'a ring \<Rightarrow> 'a ring" where
  "ring_push v r =
     \<lparr>r_buf = (r_buf r)[r_head r := v],
      r_n = (if r_n r < length (r_buf r) then r_n r + 1 else r_n r),
      r_head = (r_head r + 1) mod length (r_buf r)\<rparr>"

definition ring_newest :: "'a ring \<Rightarrow> nat \<Rightarrow> 'a" where
  "ring_newest r i =
     (let idx = go_mod (int (r_head r) - 1 - int i) (int (length (r_buf r)));
          idx = (if idx < 0 then idx + int (length (r_buf r)) else idx)
      in r_buf r ! nat idx)"

definition ring_reset :: "'a ring \<Rightarrow> 'a ring" where
  "ring_reset r = r\<lparr>r_n := 0, r_head := 0\<rparr>"

text \<open>The values a loop \<open>for i := 0; i < r.n; i++ { r.newest(i) }\<close> sees.\<close>

definition ring_list :: "'a ring \<Rightarrow> 'a list" where
  "ring_list r = map (ring_newest r) [0..<r_n r]"

text \<open>Writing the \<open>i\<close>-th newest value in place, as \<open>OnSync\<close> does with its own index.\<close>

definition ring_update :: "nat \<Rightarrow> ('a \<Rightarrow> 'a) \<Rightarrow> 'a ring \<Rightarrow> 'a ring" where
  "ring_update i f r =
     (let k = nat (go_mod (int (r_head r) - 1 - int i + 2 * int (length (r_buf r))) (int (length (r_buf r))))
      in r\<lparr>r_buf := (r_buf r)[k := f (r_buf r ! k)]\<rparr>)"

definition ring_ok :: "nat \<Rightarrow> 'a ring \<Rightarrow> bool" where
  "ring_ok size' r \<longleftrightarrow> 0 < size' \<and> length (r_buf r) = size' \<and> r_n r \<le> size' \<and> r_head r < size'"

subsection \<open>The abstract view\<close>

lemma go_mod_congr: "go_mod a b mod b = a mod b"
  by (simp add: go_mod_def mod_mult_self2 flip: mod_diff_right_eq)

lemma go_mod_less: "0 < b \<Longrightarrow> - b < go_mod a b \<and> go_mod a b < b"
proof (cases "0 \<le> a")
  case True
  assume b: "0 < b"
  with True have "go_mod a b = a mod b" by (rule go_mod_nonneg)
  then show ?thesis using b pos_mod_sign [OF b, of a] pos_mod_bound [OF b, of a] by linarith
next
  case False
  assume b: "0 < b"
  with False have "go_mod a b = - ((- a) mod b)"
    by (simp add: go_mod_def go_div_def minus_mult_div_eq_mod [symmetric])
  then show ?thesis using b pos_mod_sign [OF b, of "- a"] pos_mod_bound [OF b, of "- a"] by linarith
qed

lemma go_mod_wrap: "0 < b \<Longrightarrow> (if go_mod a b < 0 then go_mod a b + b else go_mod a b) = a mod b"
  using go_mod_congr [of a b] go_mod_less [of b a]
  by (smt (verit) mod_add_self2 mod_pos_pos_trivial)

lemma ring_newest_mod:
  assumes "ring_ok size' r"
  shows "ring_newest r i = r_buf r ! nat ((int (r_head r) - 1 - int i) mod int size')"
  using assms unfolding ring_newest_def Let_def ring_ok_def
  by (simp only: go_mod_wrap of_nat_0_less_iff)

lemma ring_slot_less: "ring_ok size' r \<Longrightarrow> nat (a mod int size') < size'"
  by (simp add: ring_ok_def nat_less_iff)

lemma newRing_ok [simp]: "ring_ok size' (newRing z size') \<longleftrightarrow> 0 < size'"
  by (simp add: ring_ok_def newRing_def)

lemma ring_reset_ok: "ring_ok size' r \<Longrightarrow> ring_ok size' (ring_reset r)"
  by (simp add: ring_ok_def ring_reset_def)

lemma ring_push_ok: "ring_ok size' r \<Longrightarrow> ring_ok size' (ring_push v r)"
  by (simp add: ring_ok_def ring_push_def)

lemma ring_update_ok: "ring_ok size' r \<Longrightarrow> ring_ok size' (ring_update i f r)"
  by (simp add: ring_ok_def ring_update_def Let_def)

lemma ring_newest_push_0:
  assumes "ring_ok size' r"
  shows "ring_newest (ring_push v r) 0 = v"
proof -
  let ?h = "r_head r"
  have h: "?h < size'" and len: "length (r_buf r) = size'" using assms by (simp_all add: ring_ok_def)
  have "nat ((int ((?h + 1) mod size') - 1 - int 0) mod int size') = ?h"
  proof (cases "?h + 1 = size'")
    case True
    then show ?thesis using h by (simp add: zmod_minus1 flip: True)
  next
    case False
    then show ?thesis using h by simp
  qed
  moreover have "r_head (ring_push v r) = (?h + 1) mod size'"
    and "r_buf (ring_push v r) = (r_buf r)[?h := v]" by (simp_all add: ring_push_def len)
  ultimately show ?thesis using h len by (simp add: ring_newest_mod [OF ring_push_ok [OF assms]])
qed

lemma ring_newest_push_Suc:
  assumes "ring_ok size' r" and "Suc i < size'"
  shows "ring_newest (ring_push v r) (Suc i) = ring_newest r i"
proof -
  let ?h = "r_head r"
  have h: "?h < size'" and len: "length (r_buf r) = size'" using assms by (simp_all add: ring_ok_def)
  have "(int ((?h + 1) mod size') - 1 - int (Suc i)) mod int size'
      = (int (?h + 1) mod int size' - (2 + int i)) mod int size'"
    by (simp add: of_nat_mod diff_diff_eq)
  also have "\<dots> = (int (?h + 1) - (2 + int i)) mod int size'" by (rule mod_diff_left_eq)
  also have "\<dots> = (int ?h - 1 - int i) mod int size'" (is "_ = ?s") by (simp add: algebra_simps)
  finally have slot: "(int ((?h + 1) mod size') - 1 - int (Suc i)) mod int size' = ?s" .
  have "nat ?s \<noteq> ?h"
  proof
    assume "nat ?s = ?h"
    moreover have "0 \<le> ?s" using h by simp
    ultimately have "int ?h - ?s = 0" by linarith
    then have "(int ?h - (int ?h - 1 - int i)) mod int size' = 0"
      by (metis mod_0 mod_diff_right_eq)
    then have "int (Suc i) mod int size' = 0" by (simp add: algebra_simps)
    with assms(2) show False by (simp flip: of_nat_mod)
  qed
  moreover have "r_head (ring_push v r) = (?h + 1) mod size'"
    and "r_buf (ring_push v r) = (r_buf r)[?h := v]" by (simp_all add: ring_push_def len)
  ultimately show ?thesis
    using slot by (simp add: ring_newest_mod [OF ring_push_ok [OF assms(1)]] ring_newest_mod [OF assms(1)])
qed

lemma ring_list_length [simp]: "length (ring_list r) = r_n r"
  by (simp add: ring_list_def)

lemma ring_list_push:
  assumes "ring_ok size' r"
  shows "ring_list (ring_push v r) = take size' (v # ring_list r)"
proof (rule nth_equalityI)
  have n: "r_n r \<le> size'" and len: "length (r_buf r) = size'" and pos: "0 < size'"
    using assms by (simp_all add: ring_ok_def)
  have n': "r_n (ring_push v r) = min size' (Suc (r_n r))"
    using n by (simp add: ring_push_def len)
  then show "length (ring_list (ring_push v r)) = length (take size' (v # ring_list r))" by simp
  fix i assume "i < length (ring_list (ring_push v r))"
  then have i: "i < size'" "i < Suc (r_n r)" by (simp_all add: n')
  show "ring_list (ring_push v r) ! i = take size' (v # ring_list r) ! i"
  proof (cases i)
    case 0
    then show ?thesis using i by (simp add: ring_list_def n' ring_newest_push_0 [OF assms] nth_append)
  next
    case (Suc j)
    then show ?thesis using i by (simp add: ring_list_def n' ring_newest_push_Suc [OF assms])
  qed
qed

lemma ring_list_new [simp]: "ring_list (newRing z size') = []"
  by (simp add: ring_list_def newRing_def)

lemma ring_list_reset [simp]: "ring_list (ring_reset r) = []"
  by (simp add: ring_list_def ring_reset_def)

subsection \<open>The interface the measurements rely on\<close>

text \<open>
  A window keeps the last values pushed. Whatever the representation, the values held are among
  the last ones pushed, newest first.
\<close>

locale window =
  fixes empty :: 'w and push :: "'a \<Rightarrow> 'w \<Rightarrow> 'w" and items :: "'w \<Rightarrow> 'a list"
    and ok :: "'w \<Rightarrow> bool" and size' :: nat
  assumes ok_empty: "ok empty" and items_empty: "items empty = []"
    and ok_push: "ok w \<Longrightarrow> ok (push v w)"
    and items_push: "ok w \<Longrightarrow> items (push v w) = take size' (v # items w)"
begin

lemma after: "ok (fold push vs empty) \<and> items (fold push vs empty) = take size' (rev vs)"
proof (induction vs rule: rev_induct)
  case Nil
  then show ?case by (simp add: ok_empty items_empty)
next
  case (snoc v vs)
  then show ?case by (cases size') (simp_all add: ok_push items_push)
qed

lemma bounded: "length (items (fold push vs empty)) \<le> size'"
  by (simp add: after)

end

interpretation samples: window "newRing z (Suc k)" ring_push ring_list "ring_ok (Suc k)" "Suc k"
  for z :: 'a and k
  by unfold_locales (simp_all add: ring_push_ok ring_list_push)

text \<open>A ring implements the window of the last values: after any sequence of
  pushes into a new ring, reading it from the newest gives the last values pushed, newest first, as
  many as it has slots, whatever the slots held before.\<close>

theorem ring_keeps_last:
  "ring_list (fold ring_push vs (newRing z (Suc k))) = take (Suc k) (rev vs)"
  using samples.after [of k vs z] by blast

end
