(* ===== verification/Buzzer_Conn.thy ===== *)
theory Buzzer_Conn
  imports Buzzer_Settings Buzzer_Ring
begin

text \<open>
  One connection's measurements (\<open>internal/buzzer/conn.go\<close>): the clock model fed by \<open>SYNC\<close>
  exchanges, the transport anchors, the integrity flags with the trust ladder, and the lockouts.
  Times are float64 milliseconds. The infinities the code uses as "no value yet" are \<open>None\<close>:
  \<open>None\<close> is minus infinity for a lower anchor and for "never", plus infinity for an upper anchor,
  a missing jitter anchor and the minimum over nothing.
\<close>

subsection \<open>Constants\<close>

definition AppRingSize :: nat where "AppRingSize = 64"
definition PendingSyncs :: nat where "PendingSyncs = 8"
definition WSRingSize :: nat where "WSRingSize = 32"
definition MADWindow :: nat where "MADWindow = 16"
definition RttMinWindowMs :: f64 where "RttMinWindowMs = 30000"
definition EwmaAlpha :: f64 where "EwmaAlpha = 1 / 8"
definition RttVarBeta :: f64 where "RttVarBeta = 1 / 4"
definition MADScale :: f64 where "MADScale = f64_round (14826 / 10000)"
definition MaxSampleRttMs :: f64 where "MaxSampleRttMs = 10000"
definition AnchorSlackWSMs :: f64 where "AnchorSlackWSMs = 15"
definition AnchorSlackKernelMs :: f64 where "AnchorSlackKernelMs = 10"
definition AnchorFloorMarginMs :: f64 where "AnchorFloorMarginMs = 1"
definition WSFloorMinSamples :: nat where "WSFloorMinSamples = 8"
definition SigmaSlackMs :: f64 where "SigmaSlackMs = 3"
definition SigmaMinMs :: f64 where "SigmaMinMs = 1 / 2"
definition SigmaMaxMs :: f64 where "SigmaMaxMs = 30"
definition SigmaColdMs :: f64 where "SigmaColdMs = 20"
definition ResidFrac :: f64 where "ResidFrac = f64_round (1 / 10)"
definition ResidMinMs :: f64 where "ResidMinMs = 2"
definition ResidMaxMs :: f64 where "ResidMaxMs = 10"
definition EpsInputMs :: f64 where "EpsInputMs = 2"
definition DefaultTolCapMs :: f64 where "DefaultTolCapMs = 60"
definition LeadBaseMs :: f64 where "LeadBaseMs = 20"
definition LeadMinMs :: f64 where "LeadMinMs = 25"
definition LeadMaxMs :: f64 where "LeadMaxMs = 400"
definition StepMarginMs :: f64 where "StepMarginMs = 5"
definition StepRun :: nat where "StepRun = 3"
definition UnsyncedWindowMs :: f64 where "UnsyncedWindowMs = 10000"
definition UnsyncedMinSamples :: nat where "UnsyncedMinSamples = 5"
definition QualityGoodRttMs :: f64 where "QualityGoodRttMs = 30"
definition QualityGoodSigmaMs :: f64 where "QualityGoodSigmaMs = 5"
definition QualityFairSigmaMs :: f64 where "QualityFairSigmaMs = 20"
definition InflationWindowMs :: f64 where "InflationWindowMs = 6000"
definition JitterInflFactor :: f64 where "JitterInflFactor = 2"
definition JitterInflMarginMs :: f64 where "JitterInflMarginMs = 5"
definition SyncLieMinGapMs :: f64 where "SyncLieMinGapMs = 2000"
definition WaitPerPlayerMaxMs :: f64 where "WaitPerPlayerMaxMs = 200"
definition EarlyBiasWindow :: nat where "EarlyBiasWindow = 16"
definition ClampRatioRepeat :: int where "ClampRatioRepeat = 10"
definition BotRepeat :: int where "BotRepeat = 8"
definition BotMinPresses :: int where "BotMinPresses = 8"
definition BotMedianMs :: f64 where "BotMedianMs = 170"
definition BotMADMs :: f64 where "BotMADMs = 25"
definition ClampRatioWindow :: nat where "ClampRatioWindow = 10"
definition ClampRatioMinPresses :: nat where "ClampRatioMinPresses = 5"
definition ClampRatio :: f64 where "ClampRatio = f64_round (3 / 10)"
definition OutOfBoundsMinMs :: f64 where "OutOfBoundsMinMs = 5"
definition AckLateWindow :: nat where "AckLateWindow = 5"
definition AckLateCount :: nat where "AckLateCount = 4"
definition RateLimitPresses :: nat where "RateLimitPresses = 5"
definition RateLimitWindowMs :: f64 where "RateLimitWindowMs = 1000"
definition LockoutRepeatWindowMs :: f64 where "LockoutRepeatWindowMs = 10000"
definition ReactionHistory :: nat where "ReactionHistory = 16"
definition TrustCleanStreak :: nat where "TrustCleanStreak = 5"
definition ThresholdConservative :: int where "ThresholdConservative = -2"
definition ThresholdServerOnly :: int where "ThresholdServerOnly = -4"
definition ThresholdArrivalOnly :: int where "ThresholdArrivalOnly = -6"
definition ThresholdStrictConservative :: int where "ThresholdStrictConservative = -1"
definition ThresholdStrictServerOnly :: int where "ThresholdStrictServerOnly = -2"
definition ThresholdStrictArrivalOnly :: int where "ThresholdStrictArrivalOnly = -3"

lemmas ring_sizes =
  AppRingSize_def PendingSyncs_def WSRingSize_def EarlyBiasWindow_def ReactionHistory_def
  ClampRatioWindow_def AckLateWindow_def RateLimitPresses_def

subsection \<open>Flags\<close>

text \<open>The names of the flags, in the alphabetical order \<open>sort.Strings\<close> puts them in.\<close>

datatype flag =
    FlagAckLate | FlagBotLike | FlagClampRatio | FlagDuplicate | FlagEarlyBias
  | FlagJitterInflated | FlagLateBeat | FlagOutOfBounds | FlagRateLimit | FlagRttInflated
  | FlagStale | FlagSyncLie | FlagTooEarly

primrec flag_rank :: "flag \<Rightarrow> nat" where
  "flag_rank FlagAckLate = 0"
| "flag_rank FlagBotLike = 1"
| "flag_rank FlagClampRatio = 2"
| "flag_rank FlagDuplicate = 3"
| "flag_rank FlagEarlyBias = 4"
| "flag_rank FlagJitterInflated = 5"
| "flag_rank FlagLateBeat = 6"
| "flag_rank FlagOutOfBounds = 7"
| "flag_rank FlagRateLimit = 8"
| "flag_rank FlagRttInflated = 9"
| "flag_rank FlagStale = 10"
| "flag_rank FlagSyncLie = 11"
| "flag_rank FlagTooEarly = 12"

lemma flag_rank_inject: "flag_rank a = flag_rank b \<longleftrightarrow> a = b"
  by (cases a; cases b) simp_all

instantiation flag :: linorder
begin

definition less_eq_flag :: "flag \<Rightarrow> flag \<Rightarrow> bool" where
  "less_eq_flag a b \<longleftrightarrow> flag_rank a \<le> flag_rank b"

definition less_flag :: "flag \<Rightarrow> flag \<Rightarrow> bool" where
  "less_flag a b \<longleftrightarrow> flag_rank a < flag_rank b"

instance
  by standard (auto simp: less_eq_flag_def less_flag_def flag_rank_inject)

end

definition scoringFlags :: "flag list" where
  "scoringFlags =
     [FlagSyncLie, FlagRttInflated, FlagJitterInflated, FlagClampRatio, FlagTooEarly,
      FlagEarlyBias, FlagBotLike, FlagAckLate, FlagRateLimit]"

definition is_scoring :: "flag \<Rightarrow> bool" where
  "is_scoring f \<longleftrightarrow> f \<in> set scoringFlags"

subsection \<open>Data\<close>

datatype quality = QualityUnsynced | QualityGood | QualityFair | QualityPoor

record model =
  m_OffsetMs :: f64
  m_RttRefMs :: f64
  m_RttWsMs :: f64
  m_RttKernelMs :: f64
  m_SigmaMs :: f64
  m_TolMs :: f64
  m_UMs :: f64
  m_LeadMs :: f64
  m_Quality :: quality
  m_Flags :: "flag list"
  m_Samples :: nat

record snapshot = model +
  sn_resid :: f64
  sn_rttMin :: f64
  sn_rttMax16 :: f64
  sn_rttMinRef :: f64
  sn_sigmaApp :: f64
  sn_sigmaAnchor :: "f64 option"
  sn_anchorLo :: "f64 option"
  sn_anchorHi :: "f64 option"
  sn_anchored :: bool

datatype trust_level = TrustFull | TrustConservative | TrustServerOnly | TrustArrivalOnly

record trust =
  tr_Score :: int
  tr_Level :: trust_level
  tr_Flags :: "(flag \<times> nat) list"

record sync_in =
  si_Seq :: int
  si_C1 :: f64
  si_PrevSeq :: int
  si_PrevC4 :: f64
  si_HasPrev :: bool

record sync_out =
  so_Seq :: int
  so_C1 :: f64
  so_S2 :: f64
  so_S3 :: f64
  so_Model :: model

record sample =
  sa_rtt :: f64
  sa_off :: f64
  sa_at :: f64

record pendingSync =
  ps_seq :: int
  ps_c1 :: f64
  ps_s2 :: f64
  ps_s3 :: f64
  ps_ok :: bool

definition zero_sample :: sample where
  "zero_sample = \<lparr>sa_rtt = 0, sa_off = 0, sa_at = 0\<rparr>"

definition zero_sync :: pendingSync where
  "zero_sync = \<lparr>ps_seq = 0, ps_c1 = 0, ps_s2 = 0, ps_s3 = 0, ps_ok = False\<rparr>"

record conn =
  cn_TolCapMs :: f64
  cn_AutoTrust :: bool
  cn_StrictTrust :: bool
  cn_ForceLevel :: "trust_level option"
  cn_createdAt :: f64
  cn_pend :: "pendingSync ring"
  cn_app :: "sample ring"
  cn_ewma :: f64
  cn_rttvar :: f64
  cn_ewmaN :: nat
  cn_ws :: "sample ring"
  cn_wsEwma :: f64
  cn_wsEwmaN :: nat
  cn_lastPong :: f64
  cn_kern_srtt :: f64
  cn_kern_rttvar :: f64
  cn_kern_at :: f64
  cn_kern_ok :: bool
  cn_offset :: f64
  cn_offsetOK :: bool
  cn_stepDir :: int
  cn_stepRun :: nat
  cn_cold :: bool
  cn_sinceCold :: nat
  cn_flags :: "(flag \<times> nat) list"
  cn_score :: int
  cn_cleanStreak :: nat
  cn_rttInflSince :: f64
  cn_jitInflSince :: f64
  cn_wsInflSince :: f64
  cn_rttInflFlag :: bool
  cn_jitInflFlag :: bool
  cn_wsInflFlag :: bool
  cn_lastSyncLie :: "f64 option"
  cn_lastRateFlag :: "f64 option"
  cn_bias :: "f64 ring"
  cn_react :: "f64 ring"
  cn_presses :: int
  cn_botFlag :: bool
  cn_botFlagAt :: int
  cn_clampFlagAt :: int
  cn_biasActive :: bool
  cn_biasFlagAt :: int
  cn_clampHist :: "bool ring"
  cn_clampFlag :: bool
  cn_ackLate :: "bool ring"
  cn_ackLateFlag :: bool
  cn_pressTimes :: "f64 ring"
  cn_lockedUntil :: f64
  cn_falseStarts :: "f64 ring"

definition NewConn :: "f64 \<Rightarrow> conn" where
  "NewConn now =
     \<lparr>cn_TolCapMs = DefaultTolCapMs, cn_AutoTrust = True, cn_StrictTrust = False,
      cn_ForceLevel = None, cn_createdAt = now,
      cn_pend = newRing zero_sync PendingSyncs,
      cn_app = newRing zero_sample AppRingSize, cn_ewma = 0, cn_rttvar = 0, cn_ewmaN = 0,
      cn_ws = newRing zero_sample WSRingSize, cn_wsEwma = 0, cn_wsEwmaN = 0, cn_lastPong = 0,
      cn_kern_srtt = 0, cn_kern_rttvar = 0, cn_kern_at = 0, cn_kern_ok = False,
      cn_offset = 0, cn_offsetOK = False, cn_stepDir = 0, cn_stepRun = 0, cn_cold = False,
      cn_sinceCold = 0, cn_flags = [], cn_score = 0, cn_cleanStreak = 0,
      cn_rttInflSince = -1, cn_jitInflSince = -1, cn_wsInflSince = -1,
      cn_rttInflFlag = False, cn_jitInflFlag = False, cn_wsInflFlag = False,
      cn_lastSyncLie = None, cn_lastRateFlag = None,
      cn_bias = newRing 0 EarlyBiasWindow, cn_react = newRing 0 ReactionHistory,
      cn_presses = 0, cn_botFlag = False, cn_botFlagAt = 0, cn_clampFlagAt = 0,
      cn_biasActive = False, cn_biasFlagAt = 0,
      cn_clampHist = newRing False ClampRatioWindow, cn_clampFlag = False,
      cn_ackLate = newRing False AckLateWindow, cn_ackLateFlag = False,
      cn_pressTimes = newRing 0 (RateLimitPresses + 3), cn_lockedUntil = 0,
      cn_falseStarts = newRing 0 8\<rparr>"

subsection \<open>Order statistics\<close>

definition median :: "f64 list \<Rightarrow> f64" where
  "median xs =
     (let n = length xs; ys = sort xs in
      if n = 0 then 0
      else if n mod 2 = 1 then ys ! (n div 2)
      else f64_div (f64_add (ys ! (n div 2 - 1)) (ys ! (n div 2))) 2)"

definition madRaw :: "f64 list \<Rightarrow> f64" where
  "madRaw xs =
     (if xs = [] then 0
      else let m = median xs in median (map (\<lambda>x. \<bar>f64_sub x m\<bar>) xs))"

definition madApp :: "conn \<Rightarrow> f64" where
  "madApp c = madRaw (map sa_rtt (take MADWindow (ring_list (cn_app c))))"

definition madWS :: "conn \<Rightarrow> f64" where
  "madWS c = madRaw (map sa_rtt (take MADWindow (ring_list (cn_ws c))))"

definition clamp :: "f64 \<Rightarrow> f64 \<Rightarrow> f64 \<Rightarrow> f64" where
  "clamp x lo hi = (if x < lo then lo else if hi < x then hi else x)"

text \<open>\<open>clamp\<close> where a bound may be an infinity.\<close>

definition clamp_opt :: "f64 \<Rightarrow> f64 option \<Rightarrow> f64 option \<Rightarrow> f64" where
  "clamp_opt x lo hi =
     (case lo of Some l \<Rightarrow> (if x < l then l else case hi of Some h \<Rightarrow> if h < x then h else x | None \<Rightarrow> x)
      | None \<Rightarrow> (case hi of Some h \<Rightarrow> if h < x then h else x | None \<Rightarrow> x))"

text \<open>The loops that keep the least round trip seen so far; \<open>None\<close> is the initial infinity.\<close>

definition least_step :: "f64 \<Rightarrow> f64 option \<Rightarrow> f64 option" where
  "least_step x acc = (case acc of None \<Rightarrow> Some x | Some m \<Rightarrow> Some (if x < m then x else m))"

definition least_rtt :: "sample list \<Rightarrow> f64 option" where
  "least_rtt ss = fold (\<lambda>s. least_step (sa_rtt s)) ss None"

definition rtt_max :: "sample list \<Rightarrow> f64" where
  "rtt_max ss = fold (\<lambda>s acc. if acc < sa_rtt s then sa_rtt s else acc) ss 0"

text \<open>The samples of the last \<open>w\<close> milliseconds.\<close>

definition recent :: "f64 \<Rightarrow> f64 \<Rightarrow> sample list \<Rightarrow> sample list" where
  "recent now w ss = filter (\<lambda>s. f64_sub now w \<le> sa_at s) ss"

definition wsMin :: "f64 \<Rightarrow> conn \<Rightarrow> f64 option" where
  "wsMin now c =
     (let ss = ring_list (cn_ws c) in
      case least_rtt (recent now RttMinWindowMs ss) of None \<Rightarrow> least_rtt ss | Some m \<Rightarrow> Some m)"

subsection \<open>Flags and trust\<close>

definition flag_count :: "conn \<Rightarrow> flag \<Rightarrow> nat" where
  "flag_count c f = (case map_of (cn_flags c) f of None \<Rightarrow> 0 | Some n \<Rightarrow> n)"

definition softFlag :: "flag \<Rightarrow> conn \<Rightarrow> conn" where
  "softFlag f c = c\<lparr>cn_flags := mput f (flag_count c f + 1) (cn_flags c)\<rparr>"

definition AddFlag :: "flag \<Rightarrow> f64 \<Rightarrow> conn \<Rightarrow> conn" where
  "AddFlag f now c =
     (let c = c\<lparr>cn_flags := mput f (flag_count c f + 1) (cn_flags c)\<rparr>
      in if is_scoring f then c\<lparr>cn_score := cn_score c - 1, cn_cleanStreak := 0\<rparr> else c)"

definition flagList :: "conn \<Rightarrow> flag list" where
  "flagList c = sort (map fst (filter (\<lambda>(f, n). 0 < n) (cn_flags c)))"

definition Trust :: "conn \<Rightarrow> trust" where
  "Trust c =
     (let t = \<lparr>tr_Score = cn_score c, tr_Level = TrustFull, tr_Flags = cn_flags c\<rparr> in
      case cn_ForceLevel c of
        Some l \<Rightarrow> t\<lparr>tr_Level := l\<rparr>
      | None \<Rightarrow>
          if \<not> cn_AutoTrust c then t
          else
            let t1 = (if cn_StrictTrust c then ThresholdStrictConservative else ThresholdConservative);
                t2 = (if cn_StrictTrust c then ThresholdStrictServerOnly else ThresholdServerOnly);
                t3 = (if cn_StrictTrust c then ThresholdStrictArrivalOnly else ThresholdArrivalOnly)
            in if cn_score c \<le> t3 then t\<lparr>tr_Level := TrustArrivalOnly\<rparr>
               else if cn_score c \<le> t2 then t\<lparr>tr_Level := TrustServerOnly\<rparr>
               else if cn_score c \<le> t1 then t\<lparr>tr_Level := TrustConservative\<rparr>
               else t)"

definition syncLie :: "f64 \<Rightarrow> conn \<Rightarrow> conn" where
  "syncLie now c =
     (if (case cn_lastSyncLie c of None \<Rightarrow> True | Some l \<Rightarrow> SyncLieMinGapMs \<le> f64_sub now l)
      then (AddFlag FlagSyncLie now c)\<lparr>cn_lastSyncLie := Some now\<rparr> else c)"

subsection \<open>The snapshot\<close>

definition hasWS :: "conn \<Rightarrow> bool" where
  "hasWS c \<longleftrightarrow> 3 \<le> r_n (cn_ws c)"

definition snap_anchorHi :: "conn \<Rightarrow> f64 option" where
  "snap_anchorHi c =
     (if cn_kern_ok c then Some (f64_add (cn_kern_srtt c) AnchorSlackKernelMs)
      else if hasWS c then Some (f64_add (cn_wsEwma c) AnchorSlackWSMs) else None)"

definition kernel_floor :: "conn \<Rightarrow> f64" where
  "kernel_floor c = f64_sub (f64_sub (cn_kern_srtt c) (f64_mul 2 (cn_kern_rttvar c))) 2"

text \<open>\<open>wsMin(now) - AnchorFloorMarginMs - MADScale*madWS()\<close>; the ring holds a sample here.\<close>

definition ws_floor :: "f64 \<Rightarrow> conn \<Rightarrow> f64 option" where
  "ws_floor now c =
     map_option (\<lambda>m. f64_sub (f64_sub m AnchorFloorMarginMs) (f64_mul MADScale (madWS c))) (wsMin now c)"

definition snap_anchorLo :: "f64 \<Rightarrow> conn \<Rightarrow> f64 option" where
  "snap_anchorLo now c =
     (if cn_kern_ok c then Some (kernel_floor c) else if hasWS c then ws_floor now c else None)"

definition snap_sigmaAnchor :: "conn \<Rightarrow> f64 option" where
  "snap_sigmaAnchor c =
     (let kern = (if cn_kern_ok c then Some (cn_kern_rttvar c) else None) in
      if hasWS c then
        let s = f64_mul MADScale (madWS c)
        in Some (case kern of None \<Rightarrow> s | Some k \<Rightarrow> min k s)
      else kern)"

definition conn_floor :: "f64 \<Rightarrow> conn \<Rightarrow> f64 option" where
  "conn_floor now c =
     (if cn_kern_ok c then Some (kernel_floor c)
      else if WSFloorMinSamples \<le> r_n (cn_ws c) then ws_floor now c
      else None)"

definition snap :: "f64 \<Rightarrow> conn \<Rightarrow> snapshot" where
  "snap now c =
     (let app = ring_list (cn_app c);
          least = least_rtt (recent now RttMinWindowMs app);
          n10 = length (recent now UnsyncedWindowMs app);
          sigmaApp = (if 0 < cn_ewmaN c then max (cn_rttvar c) (f64_mul MADScale (madApp c)) else SigmaColdMs);
          anchored = (cn_kern_ok c \<or> hasWS c);
          anchorLo = snap_anchorLo now c;
          anchorHi = snap_anchorHi c;
          sigmaAnchor = snap_sigmaAnchor c;
          rttRef = (if 0 < cn_ewmaN c then cn_ewma c else if hasWS c then cn_wsEwma c
                    else if cn_kern_ok c then cn_kern_srtt c else 0);
          sigma = (if 0 < cn_ewmaN c then sigmaApp else SigmaColdMs);
          rttRef = (if anchored then clamp_opt rttRef anchorLo anchorHi else rttRef);
          sigma = (case sigmaAnchor of Some a \<Rightarrow> min sigma (f64_add a SigmaSlackMs) | None \<Rightarrow> sigma);
          rttRef = (if rttRef < 0 then 0 else rttRef);
          sigma = clamp sigma SigmaMinMs SigmaMaxMs;
          rttMin = (case least of None \<Rightarrow> rttRef | Some m \<Rightarrow> m);
          resid = clamp (f64_mul ResidFrac rttMin) ResidMinMs ResidMaxMs;
          tolCap = (if cn_TolCapMs c \<le> 0 then DefaultTolCapMs else cn_TolCapMs c);
          tol = clamp (f64_add (f64_add resid (f64_mul 3 sigma)) EpsInputMs) TolMinMs (max TolMinMs tolCap);
          u = f64_add (f64_add resid (f64_mul 2 sigma)) 1;
          lead = clamp (f64_add (f64_add (f64_div rttRef 2) (f64_mul 3 sigma)) LeadBaseMs) LeadMinMs LeadMaxMs;
          q = (if cn_ewmaN c = 0 \<or> n10 < UnsyncedMinSamples \<or> cn_cold c then QualityUnsynced
               else if rttRef < QualityGoodRttMs \<and> sigma < QualityGoodSigmaMs then QualityGood
               else if sigma < QualityFairSigmaMs then QualityFair else QualityPoor);
          max16 = rtt_max (take MADWindow app);
          wsMax16 = rtt_max (take MADWindow (ring_list (cn_ws c)));
          max16 = (if max16 < wsMax16 then wsMax16 else max16);
          max16 = (if max16 = 0 then rttRef else max16);
          minRef = (case anchorLo of Some lo \<Rightarrow> if anchored \<and> rttMin < lo then lo else rttMin | None \<Rightarrow> rttMin);
          minRef = (if rttRef < minRef then rttRef else minRef)
      in \<lparr>m_OffsetMs = cn_offset c, m_RttRefMs = rttRef,
          m_RttWsMs = (if 0 < cn_wsEwmaN c then cn_wsEwma c else 0),
          m_RttKernelMs = (if cn_kern_ok c then cn_kern_srtt c else 0),
          m_SigmaMs = sigma, m_TolMs = tol, m_UMs = u, m_LeadMs = lead, m_Quality = q,
          m_Flags = flagList c, m_Samples = r_n (cn_app c),
          sn_resid = resid, sn_rttMin = rttMin, sn_rttMax16 = max16, sn_rttMinRef = minRef,
          sn_sigmaApp = sigmaApp, sn_sigmaAnchor = sigmaAnchor, sn_anchorLo = anchorLo,
          sn_anchorHi = anchorHi, sn_anchored = anchored\<rparr>)"

definition Model :: "f64 \<Rightarrow> conn \<Rightarrow> model" where
  "Model now c = model.truncate (snap now c)"

subsection \<open>Clock samples\<close>

definition resetModel :: "conn \<Rightarrow> conn" where
  "resetModel c =
     c\<lparr>cn_app := ring_reset (cn_app c), cn_ewmaN := 0, cn_ewma := 0, cn_rttvar := 0,
       cn_offsetOK := False, cn_stepDir := 0, cn_stepRun := 0\<rparr>"

text \<open>The offsets the median is taken over: the samples near the least round trip, or the fastest
  quarter when there are fewer than three of them. \<open>sort.Slice\<close> is modelled as a stable sort.\<close>

definition offset_candidates :: "f64 \<Rightarrow> sample list \<Rightarrow> f64 list" where
  "offset_candidates rttMin win =
     (let thr = f64_add rttMin (max 2 (f64_mul ResidFrac rttMin));
          cand = map sa_off (filter (\<lambda>s. sa_rtt s \<le> thr) win)
      in if length cand < 3 then
           (let q = (length win + 3) div 4; q = (if q < 1 then 1 else q)
            in map sa_off (take q (sort_key sa_rtt win)))
         else cand)"

definition recomputeOffset :: "f64 \<Rightarrow> conn \<Rightarrow> conn" where
  "recomputeOffset now c =
     (let win = recent now RttMinWindowMs (ring_list (cn_app c)) in
      case least_rtt win of
        None \<Rightarrow> c
      | Some rttMin \<Rightarrow>
          c\<lparr>cn_offset := median (offset_candidates rttMin win), cn_offsetOK := True\<rparr>)"

text \<open>\<open>track\<close>: a condition that lasts \<open>InflationWindowMs\<close> is flagged once.\<close>

definition track :: "f64 \<times> bool \<Rightarrow> bool \<Rightarrow> f64 \<Rightarrow> flag \<Rightarrow> conn \<Rightarrow> (f64 \<times> bool) \<times> conn" where
  "track st cond now f c =
     (case st of (since, flagged) \<Rightarrow>
        if \<not> cond then ((-1, False), c)
        else if since < 0 then ((now, flagged), c)
        else if \<not> flagged \<and> InflationWindowMs \<le> f64_sub now since then ((since, True), AddFlag f now c)
        else ((since, flagged), c))"

definition checkInflation :: "f64 \<Rightarrow> conn \<Rightarrow> conn" where
  "checkInflation now c =
     (let s = snap now c;
          rttInfl = (sn_anchored s \<and> UnsyncedMinSamples \<le> cn_ewmaN c \<and>
                     (case sn_anchorHi s of None \<Rightarrow> False | Some hi \<Rightarrow> hi < cn_ewma c));
          jitInfl = (case sn_sigmaAnchor s of
                       None \<Rightarrow> False
                     | Some a \<Rightarrow> UnsyncedMinSamples \<le> cn_ewmaN c \<and>
                         f64_add (f64_mul JitterInflFactor a) JitterInflMarginMs < sn_sigmaApp s);
          wsInfl = (cn_kern_ok c \<and> 3 \<le> r_n (cn_ws c) \<and>
                    f64_add (f64_add (cn_kern_srtt c) AnchorSlackKernelMs) 5 < cn_wsEwma c);
          (rt, c) = track (cn_rttInflSince c, cn_rttInflFlag c) rttInfl now FlagRttInflated c;
          c = c\<lparr>cn_rttInflSince := fst rt, cn_rttInflFlag := snd rt\<rparr>;
          (jt, c) = track (cn_jitInflSince c, cn_jitInflFlag c) jitInfl now FlagJitterInflated c;
          c = c\<lparr>cn_jitInflSince := fst jt, cn_jitInflFlag := snd jt\<rparr>;
          (wt, c) = track (cn_wsInflSince c, cn_wsInflFlag c) wsInfl now FlagRttInflated c
      in c\<lparr>cn_wsInflSince := fst wt, cn_wsInflFlag := snd wt\<rparr>)"

text \<open>The step detector of \<open>acceptSample\<close>: three deviations in one direction reset the model.\<close>

definition detect_step :: "f64 \<Rightarrow> f64 \<Rightarrow> conn \<Rightarrow> conn" where
  "detect_step off now c =
     (if cn_offsetOK c \<and> UnsyncedMinSamples \<le> r_n (cn_app c) then
        let lim = f64_add (m_UMs (snap now c)) StepMarginMs;
            dev = f64_sub off (cn_offset c);
            dir = (if lim < dev then 1 else if dev < - lim then -1 else 0);
            c = (if dir \<noteq> 0 \<and> dir = cn_stepDir c then c\<lparr>cn_stepRun := cn_stepRun c + 1\<rparr>
                 else c\<lparr>cn_stepDir := dir, cn_stepRun := (if dir \<noteq> 0 then 1 else 0)\<rparr>)
        in if StepRun \<le> cn_stepRun c then (resetModel c)\<lparr>cn_cold := True, cn_sinceCold := 0\<rparr> else c
      else c)"

definition smooth_rtt :: "f64 \<Rightarrow> conn \<Rightarrow> conn" where
  "smooth_rtt rtt c =
     (let c = (if cn_ewmaN c = 0 then c\<lparr>cn_ewma := rtt, cn_rttvar := f64_div rtt 2\<rparr>
               else
                 let err = f64_sub rtt (cn_ewma c)
                 in c\<lparr>cn_rttvar := f64_add (f64_mul (1 - RttVarBeta) (cn_rttvar c)) (f64_mul RttVarBeta \<bar>err\<bar>),
                      cn_ewma := f64_add (cn_ewma c) (f64_mul EwmaAlpha err)\<rparr>)
      in c\<lparr>cn_ewmaN := cn_ewmaN c + 1\<rparr>)"

definition warm_up :: "conn \<Rightarrow> conn" where
  "warm_up c =
     (if cn_cold c then
        let c = c\<lparr>cn_sinceCold := cn_sinceCold c + 1\<rparr>
        in if UnsyncedMinSamples \<le> cn_sinceCold c then c\<lparr>cn_cold := False\<rparr> else c
      else c)"

definition sync_rtt :: "pendingSync \<Rightarrow> f64 \<Rightarrow> f64" where
  "sync_rtt p c4 = f64_sub (f64_sub c4 (ps_c1 p)) (f64_sub (ps_s3 p) (ps_s2 p))"

definition sync_off :: "pendingSync \<Rightarrow> f64 \<Rightarrow> f64" where
  "sync_off p c4 = f64_div (f64_add (f64_sub (ps_s2 p) (ps_c1 p)) (f64_sub (ps_s3 p) c4)) 2"

definition acceptSample :: "pendingSync \<Rightarrow> f64 \<Rightarrow> f64 \<Rightarrow> conn \<Rightarrow> conn" where
  "acceptSample p c4 now c =
     (let rtt = sync_rtt p c4; off = sync_off p c4 in
      if rtt < 0 \<or> MaxSampleRttMs < rtt then syncLie now c
      else if (case conn_floor now c of Some fl \<Rightarrow> rtt < fl | None \<Rightarrow> False) then syncLie now c
      else
        let c = detect_step off now c;
            c = c\<lparr>cn_app := ring_push \<lparr>sa_rtt = rtt, sa_off = off, sa_at = now\<rparr> (cn_app c)\<rparr>;
            c = warm_up (smooth_rtt rtt c)
        in checkInflation now (recomputeOffset now c))"

definition OnSync :: "sync_in \<Rightarrow> f64 \<Rightarrow> f64 \<Rightarrow> conn \<Rightarrow> sync_out \<times> conn" where
  "OnSync inp s2 s3 c =
     (let pend = ring_list (cn_pend c);
          c = (if si_HasPrev inp then
                 case find_index (\<lambda>p. ps_ok p \<and> ps_seq p = si_PrevSeq inp) pend of
                   None \<Rightarrow> c
                 | Some i \<Rightarrow>
                     let c = acceptSample (pend ! i) (si_PrevC4 inp) s2 c
                     in c\<lparr>cn_pend := ring_update i (\<lambda>p. p\<lparr>ps_ok := False\<rparr>) (cn_pend c)\<rparr>
               else c);
          c = c\<lparr>cn_pend := ring_push \<lparr>ps_seq = si_Seq inp, ps_c1 = si_C1 inp, ps_s2 = s2,
                                      ps_s3 = s3, ps_ok = True\<rparr> (cn_pend c)\<rparr>
      in (\<lparr>so_Seq = si_Seq inp, so_C1 = si_C1 inp, so_S2 = s2, so_S3 = s3, so_Model = Model s3 c\<rparr>, c))"

definition OnWSPong :: "f64 \<Rightarrow> f64 \<Rightarrow> conn \<Rightarrow> conn" where
  "OnWSPong rttMs now c =
     (if rttMs < 0 \<or> MaxSampleRttMs < rttMs then c
      else
        let c = c\<lparr>cn_ws := ring_push \<lparr>sa_rtt = rttMs, sa_off = 0, sa_at = now\<rparr> (cn_ws c)\<rparr>;
            c = (if cn_wsEwmaN c = 0 then c\<lparr>cn_wsEwma := rttMs\<rparr>
                 else c\<lparr>cn_wsEwma := f64_add (cn_wsEwma c) (f64_mul EwmaAlpha (f64_sub rttMs (cn_wsEwma c)))\<rparr>);
            c = c\<lparr>cn_wsEwmaN := cn_wsEwmaN c + 1, cn_lastPong := now\<rparr>
        in checkInflation now c)"

definition OnKernelRTT :: "f64 \<Rightarrow> f64 \<Rightarrow> f64 \<Rightarrow> conn \<Rightarrow> conn" where
  "OnKernelRTT srttMs rttvarMs now c =
     (if srttMs \<le> 0 then c
      else checkInflation now
        (c\<lparr>cn_kern_srtt := srttMs, cn_kern_rttvar := max 0 rttvarMs, cn_kern_at := now,
           cn_kern_ok := True\<rparr>))"

definition OnVisible :: "f64 \<Rightarrow> conn \<Rightarrow> conn" where
  "OnVisible now c = c\<lparr>cn_cold := True, cn_sinceCold := 0\<rparr>"

subsection \<open>Presses\<close>

text \<open>The duration of a lockout: the base, grown once per recent false start, up to the cap.\<close>

definition lockout_ms :: "f64 \<Rightarrow> f64 \<Rightarrow> f64 \<Rightarrow> f64 \<Rightarrow> conn \<Rightarrow> f64" where
  "lockout_ms now baseMs growth capMs c =
     (let k = length (filter (\<lambda>t. f64_sub now LockoutRepeatWindowMs \<le> t) (ring_list (cn_falseStarts c)));
          d = ((\<lambda>d. f64_mul d growth) ^^ k) baseMs
      in if 0 < capMs \<and> capMs < d then capMs else d)"

definition lockout :: "f64 \<Rightarrow> f64 \<Rightarrow> f64 \<Rightarrow> f64 \<Rightarrow> conn \<Rightarrow> f64 \<times> conn" where
  "lockout now baseMs growth capMs c =
     (let until = f64_add now (lockout_ms now baseMs growth capMs c);
          c = (if cn_lockedUntil c < until then c\<lparr>cn_lockedUntil := until\<rparr> else c);
          c = c\<lparr>cn_falseStarts := ring_push now (cn_falseStarts c)\<rparr>
      in (cn_lockedUntil c, c))"

definition notePress :: "f64 \<Rightarrow> conn \<Rightarrow> bool \<times> conn" where
  "notePress now c =
     (let c = c\<lparr>cn_pressTimes := ring_push now (cn_pressTimes c)\<rparr>;
          cnt = length (filter (\<lambda>t. f64_sub now RateLimitWindowMs \<le> t) (ring_list (cn_pressTimes c)))
      in if RateLimitPresses < cnt then
           (False,
            if (case cn_lastRateFlag c of None \<Rightarrow> True | Some l \<Rightarrow> RateLimitWindowMs \<le> f64_sub now l)
            then (AddFlag FlagRateLimit now c)\<lparr>cn_lastRateFlag := Some now\<rparr> else c)
         else (True, c))"

definition recover_trust :: "bool \<Rightarrow> conn \<Rightarrow> conn" where
  "recover_trust clean c =
     (if clean \<and> \<not> cn_biasActive c \<and> \<not> cn_clampFlag c \<and> \<not> cn_botFlag c then
        let c = c\<lparr>cn_cleanStreak := cn_cleanStreak c + 1\<rparr>
        in if TrustCleanStreak \<le> cn_cleanStreak c then
             c\<lparr>cn_cleanStreak := 0, cn_score := (if cn_score c < 0 then cn_score c + 1 else cn_score c)\<rparr>
           else c
      else c)"

definition clamp_ratio_high :: "conn \<Rightarrow> bool" where
  "clamp_ratio_high c =
     (let hist = ring_list (cn_clampHist c); k = length (filter id hist)
      in ClampRatio < f64_div (f64_of_int (int k)) (f64_of_int (int (length hist))))"

definition check_clamp_ratio :: "f64 \<Rightarrow> conn \<Rightarrow> flag list \<times> conn" where
  "check_clamp_ratio now c =
     (if ClampRatioMinPresses \<le> r_n (cn_clampHist c) then
        if clamp_ratio_high c then
          if \<not> cn_clampFlag c \<or> ClampRatioRepeat \<le> cn_presses c - cn_clampFlagAt c then
            ([FlagClampRatio],
             (AddFlag FlagClampRatio now c)\<lparr>cn_clampFlag := True, cn_clampFlagAt := cn_presses c\<rparr>)
          else ([], c)
        else ([], c\<lparr>cn_clampFlag := False\<rparr>)
      else ([], c))"

definition check_bot :: "f64 \<Rightarrow> conn \<Rightarrow> flag list \<times> conn" where
  "check_bot now c =
     (if BotMinPresses \<le> cn_presses c then
        let xs = ring_list (cn_react c) in
        if median xs < BotMedianMs \<and> madRaw xs < BotMADMs then
          if \<not> cn_botFlag c \<or> BotRepeat \<le> cn_presses c - cn_botFlagAt c then
            ([FlagBotLike],
             (AddFlag FlagBotLike now c)\<lparr>cn_botFlag := True, cn_botFlagAt := cn_presses c\<rparr>)
          else ([], c)
        else ([], c\<lparr>cn_botFlag := False\<rparr>)
      else ([], c))"

definition noteReaction :: "f64 \<Rightarrow> bool \<Rightarrow> bool \<Rightarrow> f64 \<Rightarrow> conn \<Rightarrow> flag list \<times> conn" where
  "noteReaction reaction clean clamped now c =
     (let c = c\<lparr>cn_presses := cn_presses c + 1, cn_react := ring_push reaction (cn_react c),
                cn_clampHist := ring_push clamped (cn_clampHist c)\<rparr>;
          c = recover_trust clean c;
          (r1, c) = check_clamp_ratio now c;
          (r2, c) = check_bot now c
      in (r1 @ r2, c))"

definition noteBias :: "f64 \<Rightarrow> snapshot \<Rightarrow> f64 \<Rightarrow> conn \<Rightarrow> bool \<times> conn" where
  "noteBias v m now c =
     (let c = c\<lparr>cn_bias := ring_push v (cn_bias c)\<rparr> in
      if r_n (cn_bias c) < EarlyBiasWindow then (False, c)
      else
        let sum = fold (\<lambda>x acc. f64_add acc x) (ring_list (cn_bias c)) 0
        in if f64_div sum (f64_of_int (int (r_n (cn_bias c))))
              < - f64_add (f64_add (m_SigmaMs m) (sn_resid m)) EpsInputMs
           then (True, let c = AddFlag FlagEarlyBias now c in c\<lparr>cn_bias := ring_reset (cn_bias c)\<rparr>)
           else (False, c))"

definition noteAck :: "f64 \<Rightarrow> f64 \<Rightarrow> f64 \<Rightarrow> f64 \<Rightarrow> conn \<Rightarrow> conn" where
  "noteAck excess allow sigma now c =
     (let c = c\<lparr>cn_ackLate := ring_push (f64_add (f64_add allow (f64_mul 2 sigma)) 5 < excess) (cn_ackLate c)\<rparr>;
          k = length (filter id (ring_list (cn_ackLate c)))
      in if AckLateCount \<le> k then
           if \<not> cn_ackLateFlag c then (AddFlag FlagAckLate now c)\<lparr>cn_ackLateFlag := True\<rparr> else c
         else c\<lparr>cn_ackLateFlag := False\<rparr>)"

end
