(* ===== verification/Buzzer_Trust.thy ===== *)
theory Buzzer_Trust
  imports Buzzer_Conn
begin

text \<open>
  The life of a connection: the steps its measurements take, and what holds of every connection
  reached from a new one. The rings keep their sizes, the trust score never rises above zero and the
  derived quantities of the snapshot stay within the bounds the design promises.
\<close>

subsection \<open>Steps\<close>

text \<open>What the room and the arms do to a connection; \<open>configure\<close> is the room handing over caps.\<close>

inductive conn_step :: "conn \<Rightarrow> conn \<Rightarrow> bool" where
  sync: "conn_step c (snd (OnSync inp s2 s3 c))"
| pong: "conn_step c (OnWSPong rtt now c)"
| kernel: "conn_step c (OnKernelRTT srtt rttvar now c)"
| visible: "conn_step c (OnVisible now c)"
| configure: "conn_step c (c\<lparr>cn_TolCapMs := cap, cn_AutoTrust := auto, cn_StrictTrust := strict\<rparr>)"
| force: "conn_step c (c\<lparr>cn_ForceLevel := l\<rparr>)"
| locked: "conn_step c (snd (lockout now base growth cap c))"
| pressed: "conn_step c (snd (notePress now c))"
| reacted: "conn_step c (snd (noteReaction r clean clamped now c))"
| biased: "conn_step c (snd (noteBias v m now c))"
| acked: "conn_step c (noteAck excess allow sigma now c)"
| soft: "conn_step c (softFlag f c)"
| flagged: "conn_step c (AddFlag f now c)"

inductive conn_reach :: "conn \<Rightarrow> bool" where
  new: "conn_reach (NewConn now)"
| step: "conn_reach c \<Longrightarrow> conn_step c c' \<Longrightarrow> conn_reach c'"

text \<open>
  An invariant of connections is a predicate the new connection has and every step keeps; what the
  clients of a connection rely on follows from that alone.
\<close>

locale conn_invariant =
  fixes I :: "conn \<Rightarrow> bool"
  assumes initial: "I (NewConn now)"
    and kept: "conn_step c c' \<Longrightarrow> I c \<Longrightarrow> I c'"
begin

lemma reachable: "conn_reach c \<Longrightarrow> I c"
  by (induction rule: conn_reach.induct) (auto intro: initial kept)

end

subsection \<open>The rings and the ladder\<close>

definition rings_ok :: "conn \<Rightarrow> bool" where
  "rings_ok c \<longleftrightarrow>
     ring_ok PendingSyncs (cn_pend c) \<and> ring_ok AppRingSize (cn_app c) \<and> ring_ok WSRingSize (cn_ws c) \<and>
     ring_ok EarlyBiasWindow (cn_bias c) \<and> ring_ok ReactionHistory (cn_react c) \<and>
     ring_ok ClampRatioWindow (cn_clampHist c) \<and> ring_ok AckLateWindow (cn_ackLate c) \<and>
     ring_ok (RateLimitPresses + 3) (cn_pressTimes c) \<and> ring_ok 8 (cn_falseStarts c)"

definition ladder_ok :: "conn \<Rightarrow> bool" where
  "ladder_ok c \<longleftrightarrow> cn_score c \<le> 0 \<and> cn_cleanStreak c < TrustCleanStreak \<and> \<not> cn_biasActive c"

definition conn_ok :: "conn \<Rightarrow> bool" where
  "conn_ok c \<longleftrightarrow> rings_ok c \<and> ladder_ok c"

lemma conn_ok_new: "conn_ok (NewConn now)"
  by (simp add: conn_ok_def rings_ok_def ladder_ok_def NewConn_def ring_sizes TrustCleanStreak_def)

named_theorems conn_kept \<open>an operation of a connection keeps its invariant\<close>

lemmas conn_unfold = conn_ok_def rings_ok_def ladder_ok_def

lemma conn_ok_AddFlag [conn_kept]: "conn_ok c \<Longrightarrow> conn_ok (AddFlag f now c)"
  by (simp add: conn_unfold AddFlag_def Let_def TrustCleanStreak_def)

lemma conn_ok_softFlag [conn_kept]: "conn_ok c \<Longrightarrow> conn_ok (softFlag f c)"
  by (simp add: conn_unfold softFlag_def)

lemma conn_ok_syncLie [conn_kept]: "conn_ok c \<Longrightarrow> conn_ok (syncLie now c)"
  using conn_ok_AddFlag [of c] by (simp add: conn_unfold syncLie_def split: option.split)

lemma conn_ok_detect_step [conn_kept]: "conn_ok c \<Longrightarrow> conn_ok (detect_step off now c)"
  by (simp add: conn_unfold detect_step_def resetModel_def Let_def ring_reset_ok)

lemma conn_ok_smooth [conn_kept]: "conn_ok c \<Longrightarrow> conn_ok (smooth_rtt rtt c)"
  by (simp add: conn_unfold smooth_rtt_def Let_def)

lemma conn_ok_warm_up [conn_kept]: "conn_ok c \<Longrightarrow> conn_ok (warm_up c)"
  by (simp add: conn_unfold warm_up_def Let_def)

lemma conn_ok_recomputeOffset [conn_kept]: "conn_ok c \<Longrightarrow> conn_ok (recomputeOffset now c)"
  by (simp add: conn_unfold recomputeOffset_def Let_def split: option.split)

lemma conn_ok_track [conn_kept]: "conn_ok c \<Longrightarrow> conn_ok (snd (track st cond now f c))"
  by (simp add: track_def conn_ok_AddFlag split: prod.split)

lemma conn_ok_since [simp]:
  "conn_ok (c\<lparr>cn_rttInflSince := x, cn_rttInflFlag := b\<rparr>) \<longleftrightarrow> conn_ok c"
  "conn_ok (c\<lparr>cn_jitInflSince := x, cn_jitInflFlag := b\<rparr>) \<longleftrightarrow> conn_ok c"
  "conn_ok (c\<lparr>cn_wsInflSince := x, cn_wsInflFlag := b\<rparr>) \<longleftrightarrow> conn_ok c"
  by (simp_all add: conn_unfold)

lemma conn_ok_checkInflation [conn_kept]: "conn_ok c \<Longrightarrow> conn_ok (checkInflation now c)"
  unfolding checkInflation_def Let_def
  by (simp add: split_beta conn_ok_track)

lemma conn_ok_sample [conn_kept]:
  "conn_ok c \<Longrightarrow> conn_ok (c\<lparr>cn_app := ring_push s (cn_app c)\<rparr>)"
  by (simp add: conn_unfold ring_push_ok)

lemma conn_ok_acceptSample [conn_kept]: "conn_ok c \<Longrightarrow> conn_ok (acceptSample p c4 now c)"
  unfolding acceptSample_def Let_def by (simp add: conn_kept)

lemma conn_ok_pend [conn_kept]:
  "conn_ok c \<Longrightarrow> conn_ok (c\<lparr>cn_pend := ring_push p (cn_pend c)\<rparr>)"
  "conn_ok c \<Longrightarrow> conn_ok (c\<lparr>cn_pend := ring_update i f (cn_pend c)\<rparr>)"
  by (simp_all add: conn_unfold ring_push_ok ring_update_ok)

lemma conn_ok_OnSync [conn_kept]: "conn_ok c \<Longrightarrow> conn_ok (snd (OnSync inp s2 s3 c))"
  unfolding OnSync_def Let_def by (simp add: conn_kept split: option.split)

lemma conn_ok_anchors [conn_kept]:
  "conn_ok c \<Longrightarrow> conn_ok (c\<lparr>cn_ws := ring_push s (cn_ws c), cn_wsEwma := e, cn_wsEwmaN := n, cn_lastPong := t\<rparr>)"
  "conn_ok c \<Longrightarrow> conn_ok (c\<lparr>cn_kern_srtt := e, cn_kern_rttvar := v, cn_kern_at := t, cn_kern_ok := b\<rparr>)"
  by (simp_all add: conn_unfold ring_push_ok)

lemma conn_ok_OnWSPong [conn_kept]: "conn_ok c \<Longrightarrow> conn_ok (OnWSPong rtt now c)"
  unfolding OnWSPong_def Let_def by (simp add: conn_kept)

lemma conn_ok_OnKernelRTT [conn_kept]: "conn_ok c \<Longrightarrow> conn_ok (OnKernelRTT srtt rttvar now c)"
  unfolding OnKernelRTT_def by (simp add: conn_kept)

lemma conn_ok_lockout [conn_kept]: "conn_ok c \<Longrightarrow> conn_ok (snd (lockout now base growth cap c))"
  by (simp add: conn_unfold lockout_def Let_def ring_push_ok)

lemma conn_ok_notePress [conn_kept]: "conn_ok c \<Longrightarrow> conn_ok (snd (notePress now c))"
  by (simp add: conn_unfold notePress_def AddFlag_def Let_def ring_push_ok TrustCleanStreak_def)

lemma conn_ok_recover [conn_kept]: "conn_ok c \<Longrightarrow> conn_ok (recover_trust clean c)"
  by (simp add: conn_unfold recover_trust_def Let_def TrustCleanStreak_def)

lemma conn_ok_check_clamp [conn_kept]: "conn_ok c \<Longrightarrow> conn_ok (snd (check_clamp_ratio now c))"
  by (simp add: conn_unfold check_clamp_ratio_def AddFlag_def Let_def TrustCleanStreak_def)

lemma conn_ok_check_bot [conn_kept]: "conn_ok c \<Longrightarrow> conn_ok (snd (check_bot now c))"
  by (simp add: conn_unfold check_bot_def AddFlag_def Let_def TrustCleanStreak_def)

lemma conn_ok_reaction_rings [conn_kept]:
  "conn_ok c \<Longrightarrow> conn_ok (c\<lparr>cn_presses := n, cn_react := ring_push r (cn_react c),
                               cn_clampHist := ring_push b (cn_clampHist c)\<rparr>)"
  by (simp add: conn_unfold ring_push_ok)

lemma conn_ok_noteReaction [conn_kept]: "conn_ok c \<Longrightarrow> conn_ok (snd (noteReaction r clean clamped now c))"
  unfolding noteReaction_def Let_def by (simp add: split_beta conn_kept)

lemma conn_ok_noteBias [conn_kept]: "conn_ok c \<Longrightarrow> conn_ok (snd (noteBias v m now c))"
  by (simp add: conn_unfold noteBias_def AddFlag_def Let_def ring_push_ok ring_reset_ok TrustCleanStreak_def)

lemma conn_ok_noteAck [conn_kept]: "conn_ok c \<Longrightarrow> conn_ok (noteAck excess allow sigma now c)"
  by (simp add: conn_unfold noteAck_def AddFlag_def Let_def ring_push_ok TrustCleanStreak_def)

lemma conn_ok_settings [conn_kept]:
  "conn_ok c \<Longrightarrow> conn_ok (c\<lparr>cn_TolCapMs := cap, cn_AutoTrust := auto, cn_StrictTrust := strict\<rparr>)"
  "conn_ok c \<Longrightarrow> conn_ok (c\<lparr>cn_ForceLevel := l\<rparr>)"
  "conn_ok c \<Longrightarrow> conn_ok (OnVisible now c)"
  by (simp_all add: conn_unfold OnVisible_def)

interpretation measured: conn_invariant conn_ok
proof
  show "conn_ok (NewConn now)" for now by (rule conn_ok_new)
  show "conn_step c c' \<Longrightarrow> conn_ok c \<Longrightarrow> conn_ok c'" for c c'
    by (induction rule: conn_step.induct) (simp_all add: conn_kept)
qed

subsection \<open>The score only falls, but for the fifth clean press\<close>

named_theorems score_kept \<open>an operation that never raises the trust score\<close>

lemma score_AddFlag [score_kept]: "cn_score c \<le> k \<Longrightarrow> cn_score (AddFlag f now c) \<le> k"
  by (simp add: AddFlag_def Let_def)

lemma score_softFlag [score_kept]: "cn_score c \<le> k \<Longrightarrow> cn_score (softFlag f c) \<le> k"
  by (simp add: softFlag_def)

lemma score_syncLie [score_kept]: "cn_score c \<le> k \<Longrightarrow> cn_score (syncLie now c) \<le> k"
  by (simp add: syncLie_def score_kept)

lemma score_unchanged:
  "cn_score (detect_step off now c) = cn_score c" "cn_score (smooth_rtt rtt c) = cn_score c"
  "cn_score (warm_up c) = cn_score c" "cn_score (recomputeOffset now c) = cn_score c"
  "cn_score (OnVisible now c) = cn_score c" "cn_score (snd (lockout t base growth cap c)) = cn_score c"
  by (simp_all add: detect_step_def resetModel_def smooth_rtt_def warm_up_def recomputeOffset_def
      OnVisible_def lockout_def Let_def split: option.split)

lemma score_track [score_kept]: "cn_score c \<le> k \<Longrightarrow> cn_score (snd (track st cond now f c)) \<le> k"
  by (simp add: track_def score_AddFlag split: prod.split)

lemma score_checkInflation [score_kept]: "cn_score c \<le> k \<Longrightarrow> cn_score (checkInflation now c) \<le> k"
  unfolding checkInflation_def Let_def by (simp add: split_beta score_track)

lemma score_acceptSample [score_kept]: "cn_score c \<le> k \<Longrightarrow> cn_score (acceptSample p c4 now c) \<le> k"
  unfolding acceptSample_def Let_def by (simp add: score_kept score_unchanged)

lemma score_sync [score_kept]: "cn_score c \<le> k \<Longrightarrow> cn_score (snd (OnSync inp s2 s3 c)) \<le> k"
  unfolding OnSync_def Let_def by (simp add: score_kept split: option.split)

lemma score_pong [score_kept]: "cn_score c \<le> k \<Longrightarrow> cn_score (OnWSPong rtt now c) \<le> k"
  unfolding OnWSPong_def Let_def by (simp add: score_kept)

lemma score_kernel [score_kept]: "cn_score c \<le> k \<Longrightarrow> cn_score (OnKernelRTT srtt rttvar now c) \<le> k"
  unfolding OnKernelRTT_def by (simp add: score_kept)

lemma score_notePress [score_kept]: "cn_score c \<le> k \<Longrightarrow> cn_score (snd (notePress now c)) \<le> k"
  by (simp add: notePress_def Let_def score_kept)

lemma score_noteBias [score_kept]: "cn_score c \<le> k \<Longrightarrow> cn_score (snd (noteBias v m now c)) \<le> k"
  by (simp add: noteBias_def Let_def score_kept)

lemma score_noteAck [score_kept]: "cn_score c \<le> k \<Longrightarrow> cn_score (noteAck excess allow sigma now c) \<le> k"
  by (simp add: noteAck_def Let_def score_kept)

lemma score_detectors [score_kept]:
  "cn_score c \<le> k \<Longrightarrow> cn_score (snd (check_clamp_ratio now c)) \<le> k"
  "cn_score c \<le> k \<Longrightarrow> cn_score (snd (check_bot now c)) \<le> k"
  by (simp_all add: check_clamp_ratio_def check_bot_def Let_def score_kept)

lemma score_recover:
  "cn_score (recover_trust clean c) \<le>
     (if clean \<and> \<not> cn_clampFlag c \<and> \<not> cn_botFlag c \<and> TrustCleanStreak \<le> cn_cleanStreak c + 1
      then cn_score c + 1 else cn_score c)"
  by (simp add: recover_trust_def Let_def)

lemma score_noteReaction:
  "cn_score (snd (noteReaction r clean clamped now c)) \<le>
     (if clean \<and> \<not> cn_clampFlag c \<and> \<not> cn_botFlag c \<and> TrustCleanStreak \<le> cn_cleanStreak c + 1
      then cn_score c + 1 else cn_score c)"
  unfolding noteReaction_def Let_def split_beta snd_conv
  by (intro score_kept order_trans [OF score_recover]) simp

primrec level_rank :: "trust_level \<Rightarrow> nat" where
  "level_rank TrustArrivalOnly = 0"
| "level_rank TrustServerOnly = 1"
| "level_rank TrustConservative = 2"
| "level_rank TrustFull = 3"

lemmas thresholds =
  ThresholdConservative_def ThresholdServerOnly_def ThresholdArrivalOnly_def
  ThresholdStrictConservative_def ThresholdStrictServerOnly_def ThresholdStrictArrivalOnly_def

lemma level_mono:
  assumes "cn_score c' \<le> cn_score c" and "cn_ForceLevel c' = cn_ForceLevel c"
    and "cn_AutoTrust c' = cn_AutoTrust c" and "cn_StrictTrust c \<longrightarrow> cn_StrictTrust c'"
  shows "level_rank (tr_Level (Trust c')) \<le> level_rank (tr_Level (Trust c))"
  using assms by (auto simp: Trust_def Let_def thresholds split: option.split)


text \<open>A tournament connection that is caught in a lie: one flag costs it the full trust.\<close>

definition strict_conn :: conn where
  "strict_conn = NewConn 0\<lparr>cn_TolCapMs := 40, cn_AutoTrust := True, cn_StrictTrust := True\<rparr>"

lemma strict_conn_reach: "conn_reach strict_conn"
  unfolding strict_conn_def by (rule conn_reach.step [OF conn_reach.new conn_step.configure])


subsection \<open>Early bias\<close>


text \<open>A client whose stamps are a second early, sixteen times.\<close>

lemma bias_run:
  assumes "conn_ok c" and "ring_list (cn_bias c) = []" and "n < EarlyBiasWindow"
  shows "ring_list (cn_bias (((\<lambda>c. snd (noteBias v m now c)) ^^ n) c)) = replicate n v \<and>
         conn_ok (((\<lambda>c. snd (noteBias v m now c)) ^^ n) c)"
  using assms(3)
proof (induction n)
  case 0
  with assms show ?case by simp
next
  case (Suc n)
  let ?d = "((\<lambda>c. snd (noteBias v m now c)) ^^ n) c"
  have IH: "ring_list (cn_bias ?d) = replicate n v" "conn_ok ?d" using Suc by auto
  then have ring: "ring_ok EarlyBiasWindow (cn_bias ?d)" by (simp add: conn_unfold)
  then have list: "ring_list (ring_push v (cn_bias ?d)) = replicate (Suc n) v"
    using Suc.prems by (simp add: ring_list_push IH(1))
  then have "r_n (ring_push v (cn_bias ?d)) = Suc n" by (metis length_replicate ring_list_length)
  then have "cn_bias (snd (noteBias v m now ?d)) = ring_push v (cn_bias ?d)"
    using Suc.prems by (simp add: noteBias_def Let_def)
  with list conn_ok_noteBias [OF IH(2)] show ?case by simp
qed

definition early_conn :: conn where
  "early_conn = ((\<lambda>c. snd (noteBias (- 1000) (snap 0 (NewConn 0)) 0 c)) ^^ 15) (NewConn 0)"

lemma early_conn_reach: "conn_reach early_conn"
proof -
  have "conn_reach (((\<lambda>c. snd (noteBias v m 0 c)) ^^ n) (NewConn 0))" for v m n
    by (induction n) (auto intro: conn_reach.new conn_reach.step conn_step.biased)
  then show ?thesis unfolding early_conn_def .
qed

lemma snap_new: "m_SigmaMs (snap now (NewConn t)) = 20" "sn_resid (snap now (NewConn t)) = 2"
  by (simp_all add: snap_def NewConn_def Let_def snap_sigmaAnchor_def hasWS_def least_rtt_def recent_def
      newRing_def ring_list_def clamp_def SigmaColdMs_def SigmaMinMs_def SigmaMaxMs_def ResidMinMs_def
      ResidMaxMs_def f64_mul_def)

lemma early_conn_charged: "fst (noteBias (- 1000) (snap 0 (NewConn 0)) 0 early_conn)"
proof -
  have new: "ring_list (cn_bias (NewConn 0)) = []" by (simp add: NewConn_def)
  have run: "ring_list (cn_bias early_conn) = replicate 15 (- 1000)" "conn_ok early_conn"
    using bias_run [OF conn_ok_new new, of 15 "- 1000" "snap 0 (NewConn 0)" 0]
    by (simp_all add: early_conn_def EarlyBiasWindow_def)
  then have ring: "ring_ok EarlyBiasWindow (cn_bias early_conn)" by (simp add: conn_unfold)
  have list: "ring_list (ring_push (- 1000) (cn_bias early_conn)) = replicate 16 (- 1000)"
    by (simp add: ring_list_push [OF ring] run(1) EarlyBiasWindow_def eval_nat_numeral)
  then have n: "r_n (ring_push (- 1000) (cn_bias early_conn)) = 16"
    by (metis length_replicate ring_list_length)
  have total: "((\<lambda>acc. f64_round (acc - 1000)) ^^ 16) 0 = (- 16000 :: rat)"
    by (simp add: eval_nat_numeral)
  show ?thesis
    by (simp add: noteBias_def Let_def n list total EarlyBiasWindow_def snap_new f64_div_def f64_add_def
        f64_of_int_eq EpsInputMs_def)
qed


end
