(* ===== verification/Buzzer_Rng.thy ===== *)
theory Buzzer_Rng
  imports Float_Order "HOL-Library.Word"
begin

text \<open>
  Randomness and numeric helpers of the buzzer (\<open>internal/buzzer/rng.go\<close>). HMAC-SHA256, the
  complementary error function and the hypotenuse are the functions of Go's standard library the
  code calls; they are a parameter of the model, so what is proved holds whatever they return.
\<close>

unbundle bit_operations_syntax

type_synonym byte = "8 word"

record buzz_lib =
  lib_hmac :: "byte list \<Rightarrow> string \<Rightarrow> byte list"
  lib_erfc :: "f64 \<Rightarrow> f64"
  lib_hypot :: "f64 \<Rightarrow> f64 \<Rightarrow> f64"

definition hmacBytes :: "buzz_lib \<Rightarrow> byte list \<Rightarrow> string \<Rightarrow> byte list" where
  "hmacBytes lib seed label = lib_hmac lib seed label"

definition be_uint64 :: "byte list \<Rightarrow> 64 word" where
  "be_uint64 bs = fold (\<lambda>b acc. push_bit 8 acc OR ucast b) bs 0"

definition unitFloat :: "buzz_lib \<Rightarrow> byte list \<Rightarrow> string \<Rightarrow> f64" where
  "unitFloat lib seed label =
     (let b = hmacBytes lib seed label; v = drop_bit 11 (be_uint64 (take 8 b))
      in f64_div (f64_of_int (uint v)) (2 ^ 53))"

definition hex_digit :: "nat \<Rightarrow> char" where
  "hex_digit n = ''0123456789abcdef'' ! n"

definition hex_encode :: "byte list \<Rightarrow> string" where
  "hex_encode bs = concat (map (\<lambda>b. [hex_digit (unat b div 16), hex_digit (unat b mod 16)]) bs)"

definition armID :: "buzz_lib \<Rightarrow> byte list \<Rightarrow> string" where
  "armID lib seed = hex_encode (take 16 (hmacBytes lib seed ''armId''))"

definition math_Sqrt2 :: f64 where
  "math_Sqrt2 = f64_round (141421356237309504880168872420969807856967187537694807317667974
                           / 10 ^ 62)"

definition phi :: "buzz_lib \<Rightarrow> f64 \<Rightarrow> f64" where
  "phi lib x = f64_mul (1 / 2) (lib_erfc lib (f64_div (- x) math_Sqrt2))"

text \<open>\<open>int(x)\<close> truncates towards zero; the values converted here are not negative.\<close>

definition go_int :: "f64 \<Rightarrow> int" where
  "go_int x = (if 0 \<le> x then \<lfloor>x\<rfloor> else \<lceil>x\<rceil>)"

text \<open>\<open>int(u * float64(n))\<close>\<close>

definition lottery :: "f64 \<Rightarrow> nat \<Rightarrow> nat" where
  "lottery u n = nat (go_int (f64_mul u (f64_of_int (int n))))"

fun weighted_loop :: "f64 \<Rightarrow> f64 \<Rightarrow> f64 \<Rightarrow> nat \<Rightarrow> f64 list \<Rightarrow> nat option" where
  "weighted_loop tot u acc i [] = None"
| "weighted_loop tot u acc i (w # ws) =
     (let acc = f64_add acc (f64_div w tot)
      in if u < acc then Some i else weighted_loop tot u acc (Suc i) ws)"

definition weightedPick :: "f64 list \<Rightarrow> f64 \<Rightarrow> nat" where
  "weightedPick weights u =
     (let tot = fold (\<lambda>w acc. f64_add acc w) weights 0 in
      if tot \<le> 0 then lottery u (length weights)
      else case weighted_loop tot u 0 0 weights of
          Some i \<Rightarrow> i
        | None \<Rightarrow> length weights - 1)"

subsection \<open>Ranges\<close>

lemma unitFloat_range: "0 \<le> unitFloat lib seed label" "unitFloat lib seed label \<le> 1 - 1 / 2 ^ 53"
proof -
  define v where "v = drop_bit 11 (be_uint64 (take 8 (hmacBytes lib seed label)))"
  have "uint v = uint (be_uint64 (take 8 (hmacBytes lib seed label))) div 2 ^ 11"
    by (simp add: v_def drop_bit_eq_div uint_div)
  moreover have "uint (be_uint64 (take 8 (hmacBytes lib seed label))) < 2 ^ 64"
    using uint_lt2p [of "be_uint64 (take 8 (hmacBytes lib seed label))"] by simp
  ultimately have v: "0 \<le> uint v" "uint v \<le> 2 ^ 53 - 1"
    using uint_ge_0 [of v] by (blast, simp)
  then have "\<bar>uint v\<bar> < 2 ^ 53" by simp
  then have conv: "f64_of_int (uint v) = of_int (uint v)" by (rule f64_of_int_eq)
  have u: "unitFloat lib seed label = f64_round (of_int (uint v) / 2 ^ 53)"
    by (simp add: unitFloat_def Let_def f64_div_def v_def [symmetric] conv)
  have "pow2 (-53) = 1 / 2 ^ 53" by (simp add: pow2_def)
  then have "1 - 1 / 2 ^ 53 = of_int (2 ^ 53 - 1) * pow2 (-53)" by simp
  moreover have "\<bar>2 ^ 53 - 1\<bar> \<le> (2 ^ 53 :: int)" and "- 1074 \<le> (- 53 :: int)" by simp_all
  ultimately have "f64_grid (1 - 1 / 2 ^ 53)" unfolding f64_grid_def by blast
  then have top: "is_f64 (1 - 1 / 2 ^ 53)"
    unfolding is_f64_def by (rule f64_grid_round_pos) simp
  have le: "(of_int (uint v) :: rat) / 2 ^ 53 \<le> 1 - 1 / 2 ^ 53"
  proof -
    have "(of_int (uint v) :: rat) \<le> of_int (2 ^ 53 - 1)" using v(2) by (simp only: of_int_le_iff)
    then show ?thesis by simp
  qed
  have "0 \<le> (of_int (uint v) :: rat)" using v(1) by (simp only: of_int_0_le_iff)
  then show "0 \<le> unitFloat lib seed label"
    unfolding u by (intro f64_round_nonneg divide_nonneg_nonneg) (assumption, simp)
  show "unitFloat lib seed label \<le> 1 - 1 / 2 ^ 53" unfolding u by (rule f64_round_le [OF top le])
qed

lemma lottery_less:
  assumes "0 \<le> u" and "u \<le> 1 - 1 / 2 ^ 53" and "0 < n" and "n < 2 ^ 53"
  shows "lottery u n < n"
proof -
  have i: "0 < int n" "int n < 2 ^ 53" using assms by (simp_all add: zless_nat_eq_int_zless [symmetric] nat_less_iff)
  then have "f64_mul u (f64_of_int (int n)) < of_int (int n)"
    using unit_scale_less [OF assms(1,2)] by blast
  moreover have "0 \<le> f64_mul u (f64_of_int (int n))"
    using assms(1) f64_round_nonneg [of "of_int (int n)"]
    unfolding f64_mul_def f64_of_int_def by (intro f64_round_nonneg mult_nonneg_nonneg) auto
  ultimately have "go_int (f64_mul u (f64_of_int (int n))) < int n"
    by (simp add: go_int_def floor_less_iff)
  then show ?thesis using i by (simp add: lottery_def nat_less_iff)
qed

lemma weighted_loop_range:
  "weighted_loop tot u acc i ws = Some j \<Longrightarrow> i \<le> j \<and> j < i + length ws"
  by (induction ws arbitrary: acc i) (fastforce simp: Let_def split: if_splits)+

lemma weightedPick_less:
  assumes "0 \<le> u" and "u \<le> 1 - 1 / 2 ^ 53" and "ws \<noteq> []" and "length ws < 2 ^ 53"
  shows "weightedPick ws u < length ws"
  using assms lottery_less [OF assms(1,2), of "length ws"] weighted_loop_range
  unfolding weightedPick_def Let_def by (fastforce split: option.splits)

end
