(* ===== verification/Buzzer_Arm.thy ===== *)
theory Buzzer_Arm
  imports Buzzer_Conn Buzzer_Rng
begin

text \<open>
  One armed button (\<open>internal/buzzer/arm.go\<close>): the plan of the light, the scoring of presses, the
  collection window and the decision. The connections the players point to are a store from
  addresses to \<open>conn\<close> values, since an arm updates them in place; \<open>None\<close> is the nil pointer.
  Players are entries of the arm's list, and a press refers to its player by index.
\<close>

subsection \<open>Data\<close>

type_synonym conns = "nat \<Rightarrow> conn"

record bz_player =
  pl_ID :: string
  pl_Score :: int
  pl_ButtonsWon :: int
  pl_Conn :: "nat option"
  pl_Eligible :: bool
  pl_Seat :: int

datatype arm_mode = Scheduled | OnReceipt

record arm_msg =
  am_ArmID :: string
  am_ArmAt :: f64
  am_ArmAtLocal :: f64
  am_Mode :: arm_mode
  am_DeadlineAt :: f64
  am_LockoutMs :: int

record arm_plan =
  apl_PlayerID :: string
  apl_SendAt :: f64
  apl_Msg :: arm_msg

record press_in =
  pi_PlayerID :: string
  pi_Seq :: int
  pi_PressLocal :: f64
  pi_LitLocal :: f64

datatype press_status =
    StatusPending | StatusRejected | StatusDuplicate | StatusLate | StatusStale | StatusLockedOut
  | StatusTooEarly | StatusFalseStart

record press_ack =
  pa_Status :: press_status
  pa_Reason :: string
  pa_LockoutUntil :: f64
  pa_ReactionMs :: f64

definition ack_of :: "press_status \<Rightarrow> press_ack" where
  "ack_of st = \<lparr>pa_Status = st, pa_Reason = [], pa_LockoutUntil = 0, pa_ReactionMs = 0\<rparr>"

datatype press_source = SourceNone | SourceClient | SourceClamped | SourceServer | SourceArrival

datatype arm_state = StateArmed | StateCollecting | StateDraining | StateResolved | StateDisarmed

datatype result_kind = KindWinner | KindNobody | KindAllPlay

record ranking =
  rk_PlayerID :: string
  rk_ReactionMs :: f64
  rk_ErrMs :: f64
  rk_RttMs :: f64
  rk_UMs :: f64
  rk_Source :: press_source
  rk_Flags :: "flag list"

record arm_result =
  rs_ArmID :: string
  rs_WinnerID :: string
  rs_Kind :: result_kind
  rs_Contested :: bool
  rs_TieBreak :: tie_break
  rs_Rule :: string
  rs_MarginMs :: f64
  rs_Ranking :: "ranking list"
  rs_Tie :: "string list"
  rs_ResolvedAt :: f64
  rs_CollectMs :: f64
  rs_Seed :: string

record audit_entry =
  au_PlayerID :: string
  au_Status :: press_status
  au_TRecv :: f64
  au_TArr :: f64
  au_TClient :: f64
  au_Lo :: f64
  au_Hi :: f64
  au_Credit :: f64
  au_TFinal :: f64
  au_Reaction :: f64
  au_Source :: press_source
  au_Flags :: "flag list"
  au_Model :: model

record arm_player =
  ap_id :: string
  ap_score :: int
  ap_buttonsWon :: int
  ap_seat :: int
  ap_conn :: "nat option"
  ap_m :: snapshot
  ap_level :: trust_level
  ap_mode :: arm_mode
  ap_eligible :: bool
  ap_armAtLocal :: f64
  ap_sendAt :: f64
  ap_tSend :: f64
  ap_lateAllow :: f64
  ap_lateCreditMax :: f64
  ap_acked :: bool
  ap_ackExcess :: f64
  ap_pressed :: bool

record press =
  pr_pid :: string
  pr_seq :: int
  pr_tRecv :: f64
  pr_tArr :: f64
  pr_tClient :: f64
  pr_lo :: f64
  pr_hi :: f64
  pr_credit :: f64
  pr_tEst :: f64
  pr_tFinal :: f64
  pr_reaction :: f64
  pr_err :: f64
  pr_source :: press_source
  pr_clampDir :: int
  pr_flags :: "flag list"
  pr_clean :: bool
  pr_ap :: nat

record arm =
  ar_s :: settings
  ar_seed :: "byte list"
  ar_id :: string
  ar_created :: f64
  ar_tArm :: f64
  ar_disarmAt :: f64
  ar_drainEnd :: f64
  ar_state :: arm_state
  ar_players :: "arm_player list"
  ar_byID :: "(string \<times> nat) list"
  ar_plans :: "arm_plan list"
  ar_presses :: "press list"
  ar_audit :: "audit_entry list"
  ar_hasFirst :: bool
  ar_firstRecv :: f64
  ar_bestT :: f64
  ar_closeAt :: f64
  ar_result :: arm_result
  ar_rotateAfter :: int

definition zero_result :: arm_result where
  "zero_result =
     \<lparr>rs_ArmID = [], rs_WinnerID = [], rs_Kind = KindNobody, rs_Contested = False,
      rs_TieBreak = TieBreakOther [], rs_Rule = [], rs_MarginMs = 0, rs_Ranking = [], rs_Tie = [],
      rs_ResolvedAt = 0, rs_CollectMs = 0, rs_Seed = []\<rparr>"

primrec tie_break_name :: "tie_break \<Rightarrow> string" where
  "tie_break_name TieBreakLikelihood = ''likelihood''"
| "tie_break_name TieBreakMostLikely = ''mostLikely''"
| "tie_break_name TieBreakRandom = ''random''"
| "tie_break_name TieBreakLowestScore = ''lowestScore''"
| "tie_break_name TieBreakFewestButtonsWon = ''fewestButtonsWon''"
| "tie_break_name TieBreakRotate = ''rotate''"
| "tie_break_name TieBreakAllPlay = ''allPlay''"
| "tie_break_name (TieBreakOther x) = x"

subsection \<open>Arming\<close>

text \<open>\<open>strconv.FormatFloat(x, 'f', 3, 64)\<close>, used for the seed when the caller gives none.\<close>

definition format_f3 :: "f64 \<Rightarrow> string" where
  "format_f3 x =
     (let n = nat (round_half_even (\<bar>x\<bar> * 1000)); frac = n mod 1000
      in (if x < 0 then ''-'' else []) @ show_nat (n div 1000) @ ''.'' @
         [digit_char (frac div 100), digit_char (frac div 10 mod 10), digit_char (frac mod 10)])"

definition string_bytes :: "string \<Rightarrow> byte list" where
  "string_bytes s = map of_char s"

definition default_seed :: "f64 \<Rightarrow> byte list" where
  "default_seed now = string_bytes (''sigame-buzzer:'' @ format_f3 now)"

definition recomputeCredit :: "f64 \<Rightarrow> arm_player \<Rightarrow> arm_player" where
  "recomputeCredit tArm ap =
     ap\<lparr>ap_lateCreditMax :=
          f64_add
            (max 0 (f64_sub (f64_add (f64_add (ap_tSend ap) (f64_div (m_RttRefMs (ap_m ap)) 2))
                                     (f64_mul 3 (m_SigmaMs (ap_m ap)))) tArm))
            (ap_lateAllow ap)\<rparr>"

text \<open>The settings an arm hands to a connection.\<close>

definition set_caps :: "settings \<Rightarrow> conn \<Rightarrow> conn" where
  "set_caps s c =
     c\<lparr>cn_TolCapMs := f64_of_int (bs_TolCapMs s), cn_AutoTrust := bs_AutoTrust s,
       cn_StrictTrust := bs_StrictTrust s\<rparr>"

definition caps_store :: "settings \<Rightarrow> bz_player \<Rightarrow> conns \<Rightarrow> conns" where
  "caps_store s p cs =
     (case pl_Conn p of None \<Rightarrow> cs | Some k \<Rightarrow> cs(k := set_caps s (cs k)))"

definition freeze_player :: "f64 \<Rightarrow> f64 \<Rightarrow> settings \<Rightarrow> bz_player \<Rightarrow> conns \<Rightarrow> arm_player" where
  "freeze_player now tArm s p cs =
     (let m = (case pl_Conn p of Some k \<Rightarrow> snap now (cs k) | None \<Rightarrow> snap now (NewConn now));
          level = (case pl_Conn p of Some k \<Rightarrow> tr_Level (Trust (cs k)) | None \<Rightarrow> TrustFull);
          synced = (m_Quality m \<noteq> QualityUnsynced \<and> m_RttRefMs m \<le> f64_of_int (bs_MaxRttMs s));
          mode = (if bs_Mode s = ModeAnchoredHybrid \<and> synced then Scheduled else OnReceipt);
          sendAt = (if mode = Scheduled then f64_sub tArm (m_LeadMs m)
                    else if bs_Mode s = ModeAnchoredHybrid then f64_sub tArm (f64_div (m_RttRefMs m) 2)
                    else tArm);
          sendAt = (if sendAt < now then now else sendAt)
      in recomputeCredit tArm
         \<lparr>ap_id = pl_ID p, ap_score = pl_Score p, ap_buttonsWon = pl_ButtonsWon p, ap_seat = pl_Seat p,
          ap_conn = pl_Conn p, ap_m = m, ap_level = level, ap_mode = mode, ap_eligible = True,
          ap_armAtLocal = f64_sub tArm (m_OffsetMs m), ap_sendAt = sendAt, ap_tSend = sendAt,
          ap_lateAllow = min (f64_add (f64_mul 2 (m_SigmaMs m)) 10) (f64_of_int (bs_LateLightCreditMs s)),
          ap_lateCreditMax = 0, ap_acked = False, ap_ackExcess = 0, ap_pressed = False\<rparr>)"

definition drain_of :: "arm_player \<Rightarrow> f64" where
  "drain_of ap =
     f64_add (f64_add (m_RttRefMs (ap_m ap)) (f64_mul 3 (m_SigmaMs (ap_m ap)))) (m_TolMs (ap_m ap))"

definition plan_of :: "arm \<Rightarrow> arm_player \<Rightarrow> arm_plan" where
  "plan_of a ap =
     \<lparr>apl_PlayerID = ap_id ap, apl_SendAt = ap_sendAt ap,
      apl_Msg = \<lparr>am_ArmID = ar_id a, am_ArmAt = ar_tArm a, am_ArmAtLocal = ap_armAtLocal ap,
                 am_Mode = ap_mode ap, am_DeadlineAt = ar_disarmAt a,
                 am_LockoutMs = bs_FalseStartLockoutMs (ar_s a)\<rparr>\<rparr>"

text \<open>One turn of the loop over the players.\<close>

definition arm_player_step :: "f64 \<Rightarrow> bz_player \<Rightarrow> f64 \<times> arm \<times> conns \<Rightarrow> f64 \<times> arm \<times> conns" where
  "arm_player_step now p st =
     (case st of (drain, a, cs) \<Rightarrow>
        if \<not> pl_Eligible p then (drain, a, cs)
        else
          let cs = caps_store (ar_s a) p cs;
              ap = freeze_player now (ar_tArm a) (ar_s a) p cs;
              drain = (if drain < drain_of ap then drain_of ap else drain)
          in (drain,
              a\<lparr>ar_players := ar_players a @ [ap],
                ar_byID := mput (ap_id ap) (length (ar_players a)) (ar_byID a),
                ar_plans := ar_plans a @ [plan_of a ap]\<rparr>,
              cs))"

text \<open>The arm before any player is added: the light is drawn from the seed.\<close>

definition blank_arm :: "buzz_lib \<Rightarrow> f64 \<Rightarrow> f64 \<Rightarrow> settings \<Rightarrow> byte list \<Rightarrow> arm" where
  "blank_arm lib now readEnd s seed =
     (let jitter = f64_add (f64_of_int (bs_ArmJitterMinMs s))
                     (f64_mul (unitFloat lib seed ''tArm'')
                              (f64_of_int (bs_ArmJitterMaxMs s - bs_ArmJitterMinMs s)));
          tArm = f64_add (max readEnd now) jitter
      in \<lparr>ar_s = s, ar_seed = seed, ar_id = armID lib seed, ar_created = now, ar_tArm = tArm,
          ar_disarmAt = f64_add tArm (f64_of_int (bs_PressWindowMs s)), ar_drainEnd = 0,
          ar_state = StateArmed, ar_players = [], ar_byID = [], ar_plans = [], ar_presses = [],
          ar_audit = [], ar_hasFirst = False, ar_firstRecv = 0, ar_bestT = 0, ar_closeAt = 0,
          ar_result = zero_result, ar_rotateAfter = -1\<rparr>)"

text \<open>In \<open>writtenAll\<close> mode there is no race: the arm is resolved at once.\<close>

definition written_all :: "f64 \<Rightarrow> arm \<Rightarrow> arm" where
  "written_all now a =
     a\<lparr>ar_state := StateResolved, ar_plans := [],
       ar_result := zero_result\<lparr>rs_ArmID := ar_id a, rs_Kind := KindAllPlay, rs_Contested := True,
         rs_TieBreak := TieBreakAllPlay, rs_Rule := tie_break_name TieBreakAllPlay,
         rs_ResolvedAt := now, rs_Seed := hex_encode (ar_seed a),
         rs_Tie := map ap_id (ar_players a)\<rparr>\<rparr>"

definition NewArm :: "buzz_lib \<Rightarrow> f64 \<Rightarrow> f64 \<Rightarrow> bz_player list \<Rightarrow> settings \<Rightarrow> byte list \<Rightarrow> conns \<Rightarrow> arm \<times> conns" where
  "NewArm lib now readEnd players s seed cs =
     (let seed = (if seed = [] then default_seed now else seed);
          (drain, a, cs) = fold (arm_player_step now) players (0, blank_arm lib now readEnd s seed, cs);
          a = a\<lparr>ar_plans := sort_key apl_SendAt (ar_plans a),
                ar_drainEnd := f64_add (ar_disarmAt a) drain\<rparr>
      in (if bs_Mode s = ModeWrittenAll then written_all now a else a, cs))"

definition SetRotateAfter :: "int \<Rightarrow> arm \<Rightarrow> arm" where
  "SetRotateAfter seat a = a\<lparr>ar_rotateAfter := seat\<rparr>"

definition upd_ap :: "nat \<Rightarrow> (arm_player \<Rightarrow> arm_player) \<Rightarrow> arm \<Rightarrow> arm" where
  "upd_ap i f a = a\<lparr>ar_players := (ar_players a)[i := f (ar_players a ! i)]\<rparr>"

text \<open>An update of a connection through a pointer that may be nil.\<close>

definition upd_conn :: "nat option \<Rightarrow> (conn \<Rightarrow> conn) \<Rightarrow> conns \<Rightarrow> conns" where
  "upd_conn k f cs = (case k of None \<Rightarrow> cs | Some k \<Rightarrow> cs(k := f (cs k)))"

subsection \<open>The collection window\<close>

text \<open>\<open>c != nil && c.lockedUntil > now\<close>\<close>

definition locked_at :: "nat option \<Rightarrow> f64 \<Rightarrow> conns \<Rightarrow> bool" where
  "locked_at k now cs = (case k of None \<Rightarrow> False | Some k \<Rightarrow> now < cn_lockedUntil (cs k))"

definition pending_players :: "f64 \<Rightarrow> arm \<Rightarrow> conns \<Rightarrow> arm_player list" where
  "pending_players now a cs =
     filter (\<lambda>p. \<not> ap_pressed p \<and> ap_eligible p \<and>
                 \<not> locked_at (ap_conn p) now cs)
            (ar_players a)"

definition wait_of :: "arm_player \<Rightarrow> f64" where
  "wait_of p = min (f64_add (f64_div (m_RttRefMs (ap_m p)) 2) (m_TolMs (ap_m p))) WaitPerPlayerMaxMs"

definition reschedule :: "f64 \<Rightarrow> conns \<Rightarrow> arm \<Rightarrow> arm" where
  "reschedule now cs a =
     (let pend = pending_players now a cs;
          waitFor = fold (\<lambda>p w. if w < wait_of p then wait_of p else w) pend 0
      in if pend = [] then a\<lparr>ar_closeAt := now\<rparr>
         else
           let s = ar_s a;
               deadline =
                 (case bs_Mode s of
                    ModeServerArrival \<Rightarrow> ar_firstRecv a
                  | ModeRandomWindow \<Rightarrow> f64_add (ar_firstRecv a) (f64_of_int (bs_RandomWindowMs s))
                  | ModeClientReaction \<Rightarrow> f64_add (ar_firstRecv a) (f64_of_int (bs_AcceptWindowMs s))
                  | _ \<Rightarrow>
                      let wMax = (if bs_TieMode s = TieUncertainty then f64_of_int (bs_TieMaxMs s)
                                  else f64_of_int (bs_TieMs s))
                      in min (f64_add (f64_add (ar_bestT a) wMax) waitFor)
                             (f64_add (ar_firstRecv a) (f64_of_int (bs_MaxCollectMs s))))
           in a\<lparr>ar_closeAt := min deadline (ar_drainEnd a)\<rparr>)"

definition SetEligible :: "string \<Rightarrow> bool \<Rightarrow> f64 \<Rightarrow> conns \<Rightarrow> arm \<Rightarrow> arm" where
  "SetEligible playerID eligible now cs a =
     (case map_of (ar_byID a) playerID of
        None \<Rightarrow> a
      | Some i \<Rightarrow>
          let a = upd_ap i (\<lambda>ap. ap\<lparr>ap_eligible := eligible\<rparr>) a
          in if ar_state a = StateCollecting then reschedule now cs a else a)"

definition OnSent :: "string \<Rightarrow> f64 \<Rightarrow> arm \<Rightarrow> arm" where
  "OnSent playerID tSend a =
     (case map_of (ar_byID a) playerID of
        None \<Rightarrow> a
      | Some i \<Rightarrow> upd_ap i (\<lambda>ap. recomputeCredit (ar_tArm a) (ap\<lparr>ap_tSend := tSend\<rparr>)) a)"

definition OnArmAck :: "string \<Rightarrow> f64 \<Rightarrow> arm \<times> conns \<Rightarrow> arm \<times> conns" where
  "OnArmAck playerID tRecv st =
     (case st of (a, cs) \<Rightarrow>
        case map_of (ar_byID a) playerID of
          None \<Rightarrow> (a, cs)
        | Some i \<Rightarrow>
            let ap = ar_players a ! i in
            if ap_acked ap then (a, cs)
            else
              let excess = max 0 (f64_sub (f64_sub tRecv (ap_tSend ap)) (m_RttRefMs (ap_m ap)))
              in (upd_ap i (\<lambda>ap. ap\<lparr>ap_acked := True, ap_ackExcess := excess\<rparr>) a,
                  upd_conn (ap_conn ap)
                    (noteAck excess (ap_lateAllow ap) (m_SigmaMs (ap_m ap)) tRecv) cs))"

subsection \<open>Scoring\<close>

definition new_press :: "arm_player \<Rightarrow> nat \<Rightarrow> press_in \<Rightarrow> f64 \<Rightarrow> press" where
  "new_press ap i inp tRecv =
     \<lparr>pr_pid = ap_id ap, pr_seq = pi_Seq inp, pr_tRecv = tRecv, pr_tArr = 0, pr_tClient = 0,
      pr_lo = 0, pr_hi = 0, pr_credit = 0, pr_tEst = 0, pr_tFinal = 0, pr_reaction = 0, pr_err = 0,
      pr_source = SourceNone, pr_clampDir = 0, pr_flags = [], pr_clean = False, pr_ap = i\<rparr>"

definition arm_lockout :: "settings \<Rightarrow> f64 \<Rightarrow> conn \<Rightarrow> f64 \<times> conn" where
  "arm_lockout s now c =
     lockout now (f64_of_int (bs_FalseStartLockoutMs s)) (bs_LockoutGrowth s)
       (f64_of_int (bs_LockoutCapMs s)) c"

text \<open>The closure \<open>lockout\<close> of \<open>score\<close>.\<close>

definition press_lockout ::
    "settings \<Rightarrow> nat option \<Rightarrow> press \<Rightarrow> press_status \<Rightarrow> conns \<Rightarrow> press \<times> press_ack \<times> conns" where
  "press_lockout s k pr status cs =
     (case k of
        None \<Rightarrow> (pr, (ack_of status)\<lparr>pa_ReactionMs := pr_reaction pr\<rparr>, cs)
      | Some k \<Rightarrow>
          let (until, c) = arm_lockout s (pr_tRecv pr) (cs k);
              c = (if status = StatusTooEarly then AddFlag FlagTooEarly (pr_tRecv pr) c else c);
              flags = (if status = StatusTooEarly then pr_flags pr @ [FlagTooEarly] else pr_flags pr)
          in (pr\<lparr>pr_flags := flags\<rparr>,
              (ack_of status)\<lparr>pa_LockoutUntil := until, pa_ReactionMs := pr_reaction pr\<rparr>,
              cs(k := c)))"

text \<open>The server times and the generous reaction bound at the head of \<open>scoreAnchored\<close>.\<close>

definition arrival_time :: "arm_player \<Rightarrow> f64 \<Rightarrow> f64" where
  "arrival_time ap tRecv = f64_sub tRecv (f64_div (m_RttRefMs (ap_m ap)) 2)"

definition react_bound :: "arm \<Rightarrow> arm_player \<Rightarrow> f64 \<Rightarrow> f64" where
  "react_bound a ap tRecv =
     (let halfMin = f64_div (sn_rttMinRef (ap_m ap)) 2
      in f64_sub (f64_sub tRecv halfMin) (max (ar_tArm a) (f64_add (ap_tSend ap) halfMin)))"

text \<open>The client path: the stamp, less the credit for a late light, clamped to the trust radius.\<close>

definition client_press :: "arm_player \<Rightarrow> press_in \<Rightarrow> press \<Rightarrow> press" where
  "client_press ap inp pr =
     (let m = ap_m ap;
          tClient = f64_add (pi_PressLocal inp) (m_OffsetMs m);
          credit = clamp (min (f64_sub (pi_LitLocal inp) (ap_armAtLocal ap)) (ap_ackExcess ap)) 0
                         (ap_lateCreditMax ap);
          tEst = f64_sub tClient credit;
          lo = f64_sub (pr_tArr pr) (m_TolMs m);
          hi = min (pr_tRecv pr) (f64_add (pr_tArr pr) (m_TolMs m));
          tFinal = clamp tEst lo hi;
          pr = pr\<lparr>pr_tClient := tClient, pr_credit := credit, pr_tEst := tEst, pr_lo := lo,
                  pr_hi := hi, pr_tFinal := tFinal\<rparr>
      in if tFinal = tEst then pr\<lparr>pr_source := SourceClient, pr_err := EpsInputMs\<rparr>
         else
           let pr = pr\<lparr>pr_source := SourceClamped, pr_err := m_TolMs m,
                       pr_clampDir := (if tEst < lo then -1 else 1)\<rparr>
           in if OutOfBoundsMinMs < \<bar>f64_sub tFinal tEst\<bar>
              then pr\<lparr>pr_flags := pr_flags pr @ [FlagOutOfBounds]\<rparr> else pr)"

definition client_path :: "arm_player \<Rightarrow> press_in \<Rightarrow> press \<Rightarrow> conns \<Rightarrow> press \<times> conns" where
  "client_path ap inp pr cs =
     (let pr = client_press ap inp pr;
          cs = (if FlagOutOfBounds \<in> set (pr_flags pr)
                then upd_conn (ap_conn ap) (AddFlag FlagOutOfBounds (pr_tRecv pr)) cs else cs);
          (biased, cs) =
            (case ap_conn ap of
               None \<Rightarrow> (False, cs)
             | Some k \<Rightarrow>
                 let (b, c) = noteBias (f64_sub (pr_tClient pr) (pr_tArr pr)) (ap_m ap) (pr_tRecv pr) (cs k)
                 in (b, cs(k := c)));
          pr = (if biased then pr\<lparr>pr_flags := pr_flags pr @ [FlagEarlyBias]\<rparr> else pr);
          pr = (if ap_level ap = TrustConservative then pr\<lparr>pr_err := max (pr_err pr) (m_UMs (ap_m ap))\<rparr>
                else pr)
      in (pr, cs))"

text \<open>The time a press is ranked by, chosen by trust level and arming mode.\<close>

definition anchored_time :: "arm \<Rightarrow> arm_player \<Rightarrow> press_in \<Rightarrow> press \<Rightarrow> conns \<Rightarrow> press \<times> conns" where
  "anchored_time a ap inp pr cs =
     (let m = ap_m ap in
      if ap_level ap = TrustArrivalOnly then
        (pr\<lparr>pr_tFinal := pr_tRecv pr, pr_source := SourceArrival,
            pr_err := f64_add (f64_add (f64_div (m_RttRefMs m) 2) (f64_mul 2 (m_SigmaMs m))) EpsInputMs\<rparr>, cs)
      else if ap_mode ap = OnReceipt then
        let tSeen = f64_add (f64_add (ap_tSend ap) (f64_div (m_RttRefMs m) 2))
                      (clamp (ap_ackExcess ap) 0 (f64_add (f64_mul 2 (m_SigmaMs m)) 10))
        in (pr\<lparr>pr_tFinal := f64_add (ar_tArm a) (f64_sub (pr_tArr pr) tSeen), pr_source := SourceServer,
               pr_err := f64_add (f64_add (sn_resid m) (f64_mul 2 (m_SigmaMs m))) EpsInputMs\<rparr>, cs)
      else if ap_level ap = TrustServerOnly then
        (pr\<lparr>pr_tFinal := pr_tArr pr, pr_source := SourceServer,
            pr_err := f64_add (f64_add (f64_div (m_RttRefMs m) 4) (f64_mul 2 (m_SigmaMs m))) EpsInputMs\<rparr>, cs)
      else client_path ap inp pr cs)"

definition presumed_clean :: "arm_player \<Rightarrow> press \<Rightarrow> bool" where
  "presumed_clean ap pr \<longleftrightarrow>
     ap_level ap = TrustFull \<and> (pr_source pr = SourceClient \<or> pr_source pr = SourceClamped) \<and>
     \<not> list_ex is_scoring (pr_flags pr)"

text \<open>The bookkeeping of an accepted press: the detectors, then the clean-first presumption.\<close>

definition accept_press :: "arm_player \<Rightarrow> press \<Rightarrow> conns \<Rightarrow> press \<times> press_ack \<times> conns" where
  "accept_press ap pr cs =
     (let (raised, cs) =
            (case ap_conn ap of
               None \<Rightarrow> ([], cs)
             | Some k \<Rightarrow>
                 let (fs, c) = noteReaction (pr_reaction pr) (pr_flags pr = [])
                                 (pr_source pr = SourceClamped) (pr_tRecv pr) (cs k)
                 in (fs, cs(k := c)));
          pr = pr\<lparr>pr_flags := pr_flags pr @ raised\<rparr>;
          pr = pr\<lparr>pr_clean := presumed_clean ap pr\<rparr>;
          pr = (if pr_clean pr \<and> pr_clampDir pr < 0 then pr\<lparr>pr_err := EpsInputMs\<rparr> else pr)
      in (pr, (ack_of StatusPending)\<lparr>pa_ReactionMs := pr_reaction pr\<rparr>, cs))"

text \<open>
  \<open>scoreAnchored\<close> works on its own copy of the press, while the closure \<open>lockout\<close> it is handed
  returns the press of its caller \<open>score\<close>: a press refused here carries none of the times computed
  for it.
\<close>

definition scoreAnchored ::
    "arm \<Rightarrow> arm_player \<Rightarrow> press_in \<Rightarrow> press \<Rightarrow> conns \<Rightarrow> press \<times> press_ack \<times> conns" where
  "scoreAnchored a ap inp callers cs =
     (let m = ap_m ap;
          minHuman = f64_of_int (bs_MinHumanMs (ar_s a));
          tRecv = pr_tRecv callers;
          lock = press_lockout (ar_s a) (ap_conn ap) callers;
          reactUB = react_bound a ap tRecv;
          pr = callers\<lparr>pr_tArr := arrival_time ap tRecv, pr_reaction := reactUB\<rparr>
      in if reactUB < - m_UMs m then lock StatusFalseStart cs
         else if reactUB < minHuman then lock StatusTooEarly cs
         else
           let (pr, cs) = anchored_time a ap inp pr cs;
               pr = pr\<lparr>pr_reaction := f64_sub (pr_tFinal pr) (ar_tArm a)\<rparr>
           in if pr_reaction pr < - m_UMs m then lock StatusFalseStart cs
              else if pr_reaction pr < minHuman then lock StatusTooEarly cs
              else accept_press ap pr cs)"

text \<open>The end of \<open>score\<close> for the modes that do not anchor.\<close>

definition accept_unanchored :: "arm_player \<Rightarrow> press \<Rightarrow> conns \<Rightarrow> press \<times> press_ack \<times> conns" where
  "accept_unanchored ap pr cs =
     (let pr = pr\<lparr>pr_clean := True\<rparr>;
          ack = (ack_of StatusPending)\<lparr>pa_ReactionMs := pr_reaction pr\<rparr>
      in case ap_conn ap of
           None \<Rightarrow> (pr, ack, cs)
         | Some k \<Rightarrow>
             let (fs, c) = noteReaction (pr_reaction pr) True False (pr_tRecv pr) (cs k)
             in (pr\<lparr>pr_flags := pr_flags pr @ fs\<rparr>, ack, cs(k := c)))"

definition client_reaction :: "settings \<Rightarrow> press_in \<Rightarrow> f64" where
  "client_reaction s inp =
     (let r = f64_sub (pi_PressLocal inp) (pi_LitLocal inp); w = f64_of_int (bs_AcceptWindowMs s)
      in if pi_LitLocal inp = 0 \<or> r \<le> 0 \<or> w < r then w else r)"

definition score_press :: "arm \<Rightarrow> nat \<Rightarrow> press_in \<Rightarrow> f64 \<Rightarrow> conns \<Rightarrow> press \<times> press_ack \<times> conns" where
  "score_press a i inp tRecv cs =
     (let ap = ar_players a ! i; pr = new_press ap i inp tRecv; s = ar_s a in
      case bs_Mode s of
        ModeServerArrival \<Rightarrow>
          let pr = pr\<lparr>pr_tArr := tRecv, pr_tFinal := tRecv, pr_source := SourceArrival,
                      pr_reaction := f64_sub tRecv (ar_tArm a)\<rparr>
          in if tRecv < ar_tArm a then press_lockout s (ap_conn ap) pr StatusFalseStart cs
             else accept_unanchored ap pr cs
      | ModeRandomWindow \<Rightarrow>
          let pr = pr\<lparr>pr_tArr := tRecv, pr_tFinal := tRecv, pr_source := SourceArrival,
                      pr_reaction := f64_sub tRecv (ar_tArm a)\<rparr>
          in if tRecv < ar_tArm a then press_lockout s (ap_conn ap) pr StatusFalseStart cs
             else accept_unanchored ap pr cs
      | ModeClientReaction \<Rightarrow>
          let pr = pr\<lparr>pr_tArr := tRecv\<rparr> in
          if tRecv < ar_tArm a then
            press_lockout s (ap_conn ap) (pr\<lparr>pr_reaction := f64_sub tRecv (ar_tArm a)\<rparr>) StatusFalseStart cs
          else
            let r = client_reaction s inp
            in accept_unanchored ap
                 (pr\<lparr>pr_tClient := f64_add (pi_PressLocal inp) (m_OffsetMs (ap_m ap)),
                     pr_reaction := r, pr_tFinal := f64_add (ar_tArm a) r, pr_source := SourceClient\<rparr>) cs
      | _ \<Rightarrow> scoreAnchored a ap inp pr cs)"

text \<open>\<open>record\<close>\<close>

definition audit_of :: "arm \<Rightarrow> press \<Rightarrow> press_status \<Rightarrow> audit_entry" where
  "audit_of a pr status =
     \<lparr>au_PlayerID = pr_pid pr, au_Status = status, au_TRecv = pr_tRecv pr, au_TArr = pr_tArr pr,
      au_TClient = pr_tClient pr, au_Lo = pr_lo pr, au_Hi = pr_hi pr, au_Credit = pr_credit pr,
      au_TFinal = pr_tFinal pr, au_Reaction = pr_reaction pr, au_Source = pr_source pr,
      au_Flags = pr_flags pr, au_Model = model.truncate (ap_m (ar_players a ! pr_ap pr))\<rparr>"

definition record_press :: "press \<Rightarrow> press_status \<Rightarrow> arm \<Rightarrow> arm" where
  "record_press pr status a = a\<lparr>ar_audit := ar_audit a @ [audit_of a pr status]\<rparr>"

subsection \<open>Presses\<close>

definition late_beats :: "arm \<Rightarrow> press \<Rightarrow> press" where
  "late_beats a pr =
     (if rs_Kind (ar_result a) = KindWinner then
        fold (\<lambda>w pr. if pr_pid w = rs_WinnerID (ar_result a) \<and> pr_tFinal pr < f64_sub (pr_tFinal w) EpsInputMs
                     then pr\<lparr>pr_flags := pr_flags pr @ [FlagLateBeat]\<rparr> else pr)
             (ar_presses a) pr
      else pr)"

definition latePress :: "nat \<Rightarrow> press_in \<Rightarrow> f64 \<Rightarrow> arm \<times> conns \<Rightarrow> press_ack \<times> arm \<times> conns" where
  "latePress i inp tRecv st =
     (case st of (a, cs) \<Rightarrow>
        if ap_pressed (ar_players a ! i) then
          (ack_of StatusDuplicate, a, upd_conn (ap_conn (ar_players a ! i)) (softFlag FlagDuplicate) cs)
        else
          let (pr, ack, cs) = score_press a i inp tRecv cs;
              late = (pa_Status ack = StatusPending);
              status = (if late then StatusLate else pa_Status ack);
              ack = (if late then (ack_of StatusLate)\<lparr>pa_ReactionMs := pr_reaction pr\<rparr> else ack);
              pr = (if late then late_beats a pr else pr);
              a = upd_ap i (\<lambda>ap. ap\<lparr>ap_pressed := True\<rparr>) a
          in (ack, record_press pr status a, cs))"

text \<open>A press that counts: it joins the collection and moves its deadline.\<close>

definition collect_press :: "nat \<Rightarrow> press \<Rightarrow> f64 \<Rightarrow> conns \<Rightarrow> arm \<Rightarrow> arm" where
  "collect_press i pr tRecv cs a =
     (let a = upd_ap i (\<lambda>ap. ap\<lparr>ap_pressed := True\<rparr>) a;
          a = a\<lparr>ar_presses := ar_presses a @ [pr]\<rparr>;
          a = (if \<not> ar_hasFirst a then
                 a\<lparr>ar_hasFirst := True, ar_firstRecv := tRecv, ar_bestT := pr_tFinal pr\<rparr>
               else if pr_tFinal pr < ar_bestT a then a\<lparr>ar_bestT := pr_tFinal pr\<rparr>
               else a)
      in reschedule tRecv cs (a\<lparr>ar_state := StateCollecting\<rparr>))"

text \<open>\<open>c == nil || c.notePress(tRecv)\<close>\<close>

definition note_press :: "nat option \<Rightarrow> f64 \<Rightarrow> conns \<Rightarrow> bool \<times> conns" where
  "note_press k tRecv cs =
     (case k of None \<Rightarrow> (True, cs)
      | Some k \<Rightarrow> let (ok, c) = notePress tRecv (cs k) in (ok, cs(k := c)))"

definition OnPress :: "press_in \<Rightarrow> f64 \<Rightarrow> arm \<times> conns \<Rightarrow> press_ack \<times> arm \<times> conns" where
  "OnPress inp tRecv st =
     (case st of (a, cs) \<Rightarrow>
        case map_of (ar_byID a) (pi_PlayerID inp) of
          None \<Rightarrow> ((ack_of StatusStale)\<lparr>pa_Reason := ''notEligible''\<rparr>, a, cs)
        | Some i \<Rightarrow>
            let ap = ar_players a ! i in
            if \<not> ap_eligible ap then ((ack_of StatusStale)\<lparr>pa_Reason := ''notEligible''\<rparr>, a, cs)
            else
              let (ok, cs) = note_press (ap_conn ap) tRecv cs
              in if \<not> ok then ((ack_of StatusRejected)\<lparr>pa_Reason := ''rateLimit''\<rparr>, a, cs)
                 else if ar_state a = StateDisarmed then
                   ((ack_of StatusStale)\<lparr>pa_Reason := ''disarmed''\<rparr>, a, upd_conn (ap_conn ap) (softFlag FlagStale) cs)
                 else if ar_state a = StateResolved then latePress i inp tRecv (a, cs)
                 else if ap_pressed ap then
                   (ack_of StatusDuplicate, a, upd_conn (ap_conn ap) (softFlag FlagDuplicate) cs)
                 else if locked_at (ap_conn ap) tRecv cs then
                   ((ack_of StatusLockedOut)\<lparr>pa_LockoutUntil :=
                      (case ap_conn ap of None \<Rightarrow> 0 | Some k \<Rightarrow> cn_lockedUntil (cs k))\<rparr>, a, cs)
                 else
                   let (pr, ack, cs) = score_press a i inp tRecv cs;
                       ack = (if pa_Status ack = StatusPending \<and> ar_disarmAt a < pr_tFinal pr
                              then (ack_of StatusLate)\<lparr>pa_Reason := ''afterDisarm'', pa_ReactionMs := pr_reaction pr\<rparr>
                              else ack);
                       a = record_press pr (pa_Status ack) a
                   in if pa_Status ack \<noteq> StatusPending then (ack, a, cs)
                      else (ack, collect_press i pr tRecv cs a, cs))"

definition OnMisfire :: "string \<Rightarrow> f64 \<Rightarrow> arm \<times> conns \<Rightarrow> f64 \<times> arm \<times> conns" where
  "OnMisfire playerID now st =
     (case st of (a, cs) \<Rightarrow>
        case map_of (ar_byID a) playerID of
          None \<Rightarrow> (0, a, cs)
        | Some i \<Rightarrow>
            (case ap_conn (ar_players a ! i) of
               None \<Rightarrow> (0, a, cs)
             | Some k \<Rightarrow> let (until, c) = arm_lockout (ar_s a) now (cs k) in (until, a, cs(k := c))))"

subsection \<open>The decision\<close>

definition NextDeadline :: "arm \<Rightarrow> f64 option" where
  "NextDeadline a =
     (case ar_state a of
        StateArmed \<Rightarrow> Some (ar_disarmAt a)
      | StateCollecting \<Rightarrow> Some (ar_closeAt a)
      | StateDraining \<Rightarrow> Some (ar_drainEnd a)
      | _ \<Rightarrow> None)"

definition tieWindow :: "buzz_lib \<Rightarrow> settings \<Rightarrow> press \<Rightarrow> press \<Rightarrow> f64" where
  "tieWindow lib s lead x =
     (if bs_TieMode s = TieResolution then f64_of_int (bs_TieMs s)
      else clamp (f64_add (f64_mul 2 (lib_hypot lib (pr_err lead) (pr_err x))) 2)
                 (f64_of_int (bs_TieMinMs s)) (f64_of_int (bs_TieMaxMs s)))"

text \<open>The weight of press \<open>i\<close>: the product over the others, in their order.\<close>

definition likelihood_weight :: "buzz_lib \<Rightarrow> press list \<Rightarrow> nat \<Rightarrow> f64" where
  "likelihood_weight lib tie i =
     (let p = tie ! i in
      fold (\<lambda>j w. if j = i then w
                  else let q = tie ! j;
                           d = lib_hypot lib (pr_err p) (pr_err q);
                           d = (if d \<le> 0 then EpsInputMs else d)
                       in f64_mul w (phi lib (f64_div (f64_sub (pr_tFinal q) (pr_tFinal p)) d)))
           [0..<length tie] 1)"

definition likelihood :: "buzz_lib \<Rightarrow> press list \<Rightarrow> f64 list" where
  "likelihood lib tie = map (likelihood_weight lib tie) [0..<length tie]"

text \<open>The loop that keeps the first greatest weight.\<close>

definition argmax :: "f64 list \<Rightarrow> nat" where
  "argmax w = fold (\<lambda>i best. if w ! best < w ! i then i else best) [0..<length w] 0"

definition min_step :: "(press \<Rightarrow> int) \<Rightarrow> press \<Rightarrow> int \<times> press list \<Rightarrow> int \<times> press list" where
  "min_step key p st =
     (case st of (best, cands) \<Rightarrow>
        if key p < best then (key p, [p])
        else if key p = best then (best, cands @ [p])
        else (best, cands))"

definition pickMin :: "press list \<Rightarrow> f64 \<Rightarrow> (press \<Rightarrow> int) \<Rightarrow> string" where
  "pickMin tie u key =
     (let cands = snd (fold (min_step key) tie (key (hd tie), []))
      in pr_pid (cands ! lottery u (length cands)))"

definition rotate_key :: "arm \<Rightarrow> press \<Rightarrow> int" where
  "rotate_key a p =
     (let maxSeat = fold (\<lambda>p m. if m < ap_seat p then ap_seat p else m) (ar_players a) 0;
          n = maxSeat + 1
      in go_mod (go_mod (ap_seat (ar_players a ! pr_ap p) - ar_rotateAfter a - 1) n + n) n)"

text \<open>The switch of \<open>decide\<close> over the tie-break rules, for the presses still in the tie.\<close>

definition break_tie :: "buzz_lib \<Rightarrow> arm \<Rightarrow> press list \<Rightarrow> arm_result \<Rightarrow> arm_result" where
  "break_tie lib a tie res =
     (let u = unitFloat lib (ar_seed a) ''tie''; tb = bs_TieBreak (ar_s a);
          res = res\<lparr>rs_Rule := tie_break_name tb\<rparr>
      in case tb of
           TieBreakAllPlay \<Rightarrow> res\<lparr>rs_Kind := KindAllPlay, rs_WinnerID := [], rs_Tie := map pr_pid tie\<rparr>
         | TieBreakRandom \<Rightarrow> res\<lparr>rs_WinnerID := pr_pid (tie ! lottery u (length tie))\<rparr>
         | TieBreakMostLikely \<Rightarrow> res\<lparr>rs_WinnerID := pr_pid (tie ! argmax (likelihood lib tie))\<rparr>
         | TieBreakLowestScore \<Rightarrow>
             res\<lparr>rs_WinnerID := pickMin tie u (\<lambda>p. ap_score (ar_players a ! pr_ap p))\<rparr>
         | TieBreakFewestButtonsWon \<Rightarrow>
             res\<lparr>rs_WinnerID := pickMin tie u (\<lambda>p. ap_buttonsWon (ar_players a ! pr_ap p))\<rparr>
         | TieBreakRotate \<Rightarrow> res\<lparr>rs_WinnerID := pickMin tie u (rotate_key a)\<rparr>
         | _ \<Rightarrow> res\<lparr>rs_WinnerID := pr_pid (tie ! weightedPick (likelihood lib tie) u)\<rparr>)"

definition tie_set :: "buzz_lib \<Rightarrow> settings \<Rightarrow> press list \<Rightarrow> press list" where
  "tie_set lib s ranked =
     hd ranked #
     filter (\<lambda>p. f64_sub (pr_tFinal p) (pr_tFinal (hd ranked)) \<le> tieWindow lib s (hd ranked) p) (tl ranked)"

definition decide :: "buzz_lib \<Rightarrow> arm \<Rightarrow> press list \<Rightarrow> arm_result \<Rightarrow> arm_result" where
  "decide lib a ranked res =
     (let lead = hd ranked; tie = tie_set lib (ar_s a) ranked;
          res = res\<lparr>rs_Rule := ''single''\<rparr>
      in if length tie = 1 then res\<lparr>rs_WinnerID := pr_pid lead\<rparr>
         else
           let res = res\<lparr>rs_Contested := True, rs_Tie := map pr_pid tie\<rparr>;
               clean = filter pr_clean tie
           in if 0 < length clean \<and> length clean < length tie then
                let res = res\<lparr>rs_Rule := ''cleanFirst''\<rparr>
                in if length clean = 1 then res\<lparr>rs_WinnerID := pr_pid (hd clean)\<rparr>
                   else break_tie lib a clean res
              else break_tie lib a tie res)"

definition ranking_of :: "arm \<Rightarrow> press \<Rightarrow> ranking" where
  "ranking_of a p =
     (let m = ap_m (ar_players a ! pr_ap p)
      in \<lparr>rk_PlayerID = pr_pid p, rk_ReactionMs = pr_reaction p, rk_ErrMs = pr_err p,
          rk_RttMs = m_RttRefMs m, rk_UMs = m_UMs m, rk_Source = pr_source p, rk_Flags = pr_flags p\<rparr>)"

definition ranked_presses :: "arm \<Rightarrow> press list" where
  "ranked_presses a = sort_key pr_tFinal (ar_presses a)"

text \<open>The switch of \<open>ForceResolve\<close> over the modes.\<close>

definition pick_winner :: "buzz_lib \<Rightarrow> arm \<Rightarrow> press list \<Rightarrow> arm_result \<Rightarrow> arm_result" where
  "pick_winner lib a ranked res =
     (case bs_Mode (ar_s a) of
        ModeServerArrival \<Rightarrow> res\<lparr>rs_WinnerID := pr_pid (hd ranked), rs_Rule := ''first''\<rparr>
      | ModeRandomWindow \<Rightarrow>
          res\<lparr>rs_TieBreak := TieBreakRandom, rs_Rule := tie_break_name TieBreakRandom,
              rs_Contested := (1 < length ranked),
              rs_WinnerID := pr_pid (ranked ! lottery (unitFloat lib (ar_seed a) ''tie'') (length ranked)),
              rs_Tie := map pr_pid ranked\<rparr>
      | ModeClientReaction \<Rightarrow>
          (let tie = hd ranked # filter (\<lambda>p. pr_tFinal p = pr_tFinal (hd ranked)) (tl ranked);
               res = res\<lparr>rs_Rule := ''first''\<rparr>;
               res = (if 1 < length tie then
                        res\<lparr>rs_Contested := True, rs_TieBreak := TieBreakRandom,
                            rs_Rule := tie_break_name TieBreakRandom, rs_Tie := map pr_pid tie\<rparr>
                      else res)
           in res\<lparr>rs_WinnerID := pr_pid (tie ! lottery (unitFloat lib (ar_seed a) ''tie'') (length tie))\<rparr>)
      | _ \<Rightarrow> decide lib a ranked res)"

definition ForceResolve :: "buzz_lib \<Rightarrow> f64 \<Rightarrow> arm \<Rightarrow> arm_result \<times> arm" where
  "ForceResolve lib now a =
     (if ar_state a = StateResolved \<or> ar_state a = StateDisarmed then (ar_result a, a)
      else
        let a = a\<lparr>ar_state := StateResolved\<rparr>;
            ranked = ranked_presses a;
            res = zero_result
              \<lparr>rs_ArmID := ar_id a, rs_Kind := KindNobody, rs_TieBreak := bs_TieBreak (ar_s a),
               rs_ResolvedAt := now, rs_Seed := hex_encode (ar_seed a),
               rs_CollectMs := (if ar_hasFirst a then f64_sub now (ar_firstRecv a) else 0),
               rs_Ranking := map (ranking_of a) ranked\<rparr>
        in if ranked = [] then (res, a\<lparr>ar_result := res\<rparr>)
           else
             let res = (if 2 \<le> length ranked
                        then res\<lparr>rs_MarginMs := f64_sub (pr_tFinal (ranked ! 1)) (pr_tFinal (ranked ! 0))\<rparr>
                        else res);
                 res = pick_winner lib a ranked (res\<lparr>rs_Kind := KindWinner\<rparr>)
             in (res, a\<lparr>ar_result := res\<rparr>))"

definition Resolve :: "buzz_lib \<Rightarrow> f64 \<Rightarrow> arm \<Rightarrow> arm_result option \<times> arm" where
  "Resolve lib now a =
     (let force = (\<lambda>a. let (r, a) = ForceResolve lib now a in (Some r, a)) in
      case ar_state a of
        StateResolved \<Rightarrow> (Some (ar_result a), a)
      | StateDisarmed \<Rightarrow> (Some (ar_result a), a)
      | StateArmed \<Rightarrow>
          if now < ar_disarmAt a then (None, a)
          else
            let a = a\<lparr>ar_state := StateDraining\<rparr>
            in if now < ar_drainEnd a then (None, a) else force a
      | StateDraining \<Rightarrow> if now < ar_drainEnd a then (None, a) else force a
      | StateCollecting \<Rightarrow> if now < ar_closeAt a then (None, a) else force a)"

definition Disarm :: "f64 \<Rightarrow> string \<Rightarrow> arm \<Rightarrow> arm" where
  "Disarm now reason a =
     (if ar_state a = StateResolved \<or> ar_state a = StateDisarmed then a
      else a\<lparr>ar_state := StateDisarmed,
             ar_result := zero_result\<lparr>rs_ArmID := ar_id a, rs_Kind := KindNobody, rs_Rule := reason,
               rs_TieBreak := bs_TieBreak (ar_s a), rs_ResolvedAt := now,
               rs_Seed := hex_encode (ar_seed a)\<rparr>\<rparr>)"

end
