(* ===== verification/Buzzer_Bounds.thy ===== *)
theory Buzzer_Bounds
  imports Buzzer_Trust Buzzer_Arm
begin

text \<open>
  Bounds on what the measurements contribute to a decision: the derived quantities of a snapshot, the
  length of a lockout, and the trust radius a client's stamp is held to.
\<close>

subsection \<open>Clamping\<close>

lemma clamp_range: "lo \<le> hi \<Longrightarrow> lo \<le> clamp x lo hi \<and> clamp x lo hi \<le> hi"
  by (simp add: clamp_def)

lemma is_f64_clamp: "is_f64 x \<Longrightarrow> is_f64 lo \<Longrightarrow> is_f64 hi \<Longrightarrow> is_f64 (clamp x lo hi)"
  by (simp add: clamp_def)

subsection \<open>Snapshots\<close>

text \<open>The last step of each derived quantity.\<close>

lemma snap_shapes:
  "\<exists>x. m_RttRefMs (snap now c) = (if x < 0 then 0 else x)"
  "\<exists>x. m_SigmaMs (snap now c) = clamp x SigmaMinMs SigmaMaxMs"
  "\<exists>x. sn_resid (snap now c) = clamp x ResidMinMs ResidMaxMs"
  "\<exists>x. m_TolMs (snap now c) =
     clamp x TolMinMs (max TolMinMs (if cn_TolCapMs c \<le> 0 then DefaultTolCapMs else cn_TolCapMs c))"
  "m_UMs (snap now c) = f64_add (f64_add (sn_resid (snap now c)) (f64_mul 2 (m_SigmaMs (snap now c)))) 1"
  "\<exists>x. m_LeadMs (snap now c) = clamp x LeadMinMs LeadMaxMs"
  "\<exists>x. sn_rttMinRef (snap now c) = (if m_RttRefMs (snap now c) < x then m_RttRefMs (snap now c) else x)"
  by (simp_all only: snap_def Let_def snapshot.simps model.simps snapshot.select_convs model.select_convs) blast+

lemma sigma_range: "1 / 2 \<le> m_SigmaMs (snap now c) \<and> m_SigmaMs (snap now c) \<le> 30"
  using snap_shapes(2) [of now c] by (auto simp: clamp_def SigmaMinMs_def SigmaMaxMs_def)

lemma resid_range: "2 \<le> sn_resid (snap now c) \<and> sn_resid (snap now c) \<le> 10"
  using snap_shapes(3) [of now c] by (auto simp: clamp_def ResidMinMs_def ResidMaxMs_def)

lemma rttRef_nonneg: "0 \<le> m_RttRefMs (snap now c)"
  using snap_shapes(1) [of now c] by auto

lemma tol_range:
  "5 \<le> m_TolMs (snap now c) \<and>
   m_TolMs (snap now c) \<le> max 5 (if cn_TolCapMs c \<le> 0 then 60 else cn_TolCapMs c)"
  using snap_shapes(4) [of now c] clamp_range [of TolMinMs "max TolMinMs (if cn_TolCapMs c \<le> 0 then DefaultTolCapMs else cn_TolCapMs c)"]
  by (auto simp: TolMinMs_def DefaultTolCapMs_def)

lemma u_range: "4 \<le> m_UMs (snap now c) \<and> m_UMs (snap now c) \<le> 71"
proof -
  let ?s = "m_SigmaMs (snap now c)" and ?r = "sn_resid (snap now c)"
  have twice: "1 \<le> f64_mul 2 ?s" "f64_mul 2 ?s \<le> 60"
    using sigma_range [of now c] unfolding f64_mul_def by (auto intro: f64_round_ge f64_round_le)
  have plus: "3 \<le> f64_add ?r (f64_mul 2 ?s)" "f64_add ?r (f64_mul 2 ?s) \<le> 70"
    using twice resid_range [of now c] unfolding f64_add_def by (auto intro!: f64_round_ge f64_round_le)
  then show ?thesis
    unfolding snap_shapes(5) f64_add_def [of _ 1] by (auto intro!: f64_round_ge f64_round_le)
qed

text \<open>Whatever a client and its network report, the model of a connection
  stays within the design's limits: the reference round trip is not negative, the jitter is in
  \<open>[0.5, 30]\<close>, the residual in \<open>[2, 10]\<close>, the displayed uncertainty in \<open>[4, 71]\<close>, the lead in
  \<open>[25, 400]\<close>, and the trust radius is at least 5 and at most the cap in force. The fastest
  round trip the server believes never exceeds the reference.\<close>

theorem snapshot_bounds:
  "0 \<le> m_RttRefMs (snap now c) \<and>
   1 / 2 \<le> m_SigmaMs (snap now c) \<and> m_SigmaMs (snap now c) \<le> 30 \<and>
   2 \<le> sn_resid (snap now c) \<and> sn_resid (snap now c) \<le> 10 \<and>
   4 \<le> m_UMs (snap now c) \<and> m_UMs (snap now c) \<le> 71 \<and>
   25 \<le> m_LeadMs (snap now c) \<and> m_LeadMs (snap now c) \<le> 400 \<and>
   5 \<le> m_TolMs (snap now c) \<and>
   m_TolMs (snap now c) \<le> max 5 (if cn_TolCapMs c \<le> 0 then 60 else cn_TolCapMs c) \<and>
   sn_rttMinRef (snap now c) \<le> m_RttRefMs (snap now c)"
proof -
  have "25 \<le> m_LeadMs (snap now c) \<and> m_LeadMs (snap now c) \<le> 400"
    using snap_shapes(6) [of now c] by (auto simp: clamp_def LeadMinMs_def LeadMaxMs_def)
  moreover have "sn_rttMinRef (snap now c) \<le> m_RttRefMs (snap now c)"
    using snap_shapes(7) [of now c] by auto
  ultimately show ?thesis
    using sigma_range [of now c] resid_range [of now c] rttRef_nonneg [of now c] tol_range [of now c]
      u_range [of now c] by blast
qed

subsection \<open>Lockouts\<close>

lemma grown_ge:
  assumes "is_f64 d" and "0 \<le> d" and "1 \<le> g"
  shows "d \<le> ((\<lambda>d. f64_mul d g) ^^ k) d \<and> is_f64 (((\<lambda>d. f64_mul d g) ^^ k) d)"
proof (induction k)
  case 0
  with assms show ?case by simp
next
  case (Suc k)
  let ?x = "((\<lambda>d. f64_mul d g) ^^ k) d"
  have "?x * 1 \<le> ?x * g" using Suc assms by (intro mult_left_mono) auto
  then have "?x \<le> f64_mul ?x g" using Suc unfolding f64_mul_def by (intro f64_round_ge) auto
  then show ?case using Suc by auto
qed

text \<open>Under validated settings a false start at \<open>now\<close> locks the player until at
  least the base lockout from now and, beyond a lockout already running, at most the cap from now;
  the end of a lockout never moves back.\<close>

theorem lockout_bounds:
  assumes "Validate s = None" and "arm_lockout s now c = (until, c')"
  shows "until = cn_lockedUntil c' \<and> cn_lockedUntil c \<le> until \<and>
    f64_add now (of_int (bs_FalseStartLockoutMs s)) \<le> until \<and>
    until \<le> max (cn_lockedUntil c) (f64_add now (of_int (bs_LockoutCapMs s)))"
proof -
  let ?b = "bs_FalseStartLockoutMs s" and ?cap = "bs_LockoutCapMs s"
  note r = Validate_ranges [OF assms(1)]
  have conv: "f64_of_int ?b = of_int ?b" "f64_of_int ?cap = of_int ?cap"
    using r(17,18,21,22) by (simp_all add: f64_of_int_eq)
  define d where "d = lockout_ms now (of_int ?b) (bs_LockoutGrowth s) (of_int ?cap) c"
  have b: "is_f64 (of_int ?b)" "0 \<le> (of_int ?b :: rat)" using r(17,18) by (simp_all add: is_f64_int)
  have cap: "0 \<le> ?cap" "(of_int ?b :: rat) \<le> of_int ?cap" using r(17,21) by simp_all
  have low: "of_int ?b \<le> d"
    using grown_ge [OF b r(19)] cap unfolding d_def lockout_ms_def Let_def by auto
  have grown0: "((\<lambda>d. f64_mul d g) ^^ k) 0 = 0" for g k by (induction k) (simp_all add: f64_mul_def)
  have high: "d \<le> of_int ?cap"
  proof (cases "?cap = 0")
    case True
    with r(17,21) have "?b = 0" by simp
    with True show ?thesis by (simp add: d_def lockout_ms_def Let_def grown0)
  next
    case False
    with cap show ?thesis by (simp add: d_def lockout_ms_def Let_def)
  qed
  have eq: "until = (if cn_lockedUntil c < f64_add now d then f64_add now d else cn_lockedUntil c)"
    "until = cn_lockedUntil c'"
    using assms(2) by (auto simp: arm_lockout_def lockout_def Let_def conv d_def)
  have "f64_add now (of_int ?b) \<le> f64_add now d" "f64_add now d \<le> f64_add now (of_int ?cap)"
    using low high by (simp_all add: f64_add_def f64_round_mono)
  then show ?thesis using eq by (simp add: max_def split: if_splits)
qed

theorem lockout_bounds_witness:
  "Validate DefaultSettings = None \<and>
   f64_add 500 3000 \<le> fst (arm_lockout DefaultSettings 500 (NewConn 0))"
proof -
  have v: "Validate DefaultSettings = None"
    by (simp add: DefaultSettings_def Preset_def preset_names preset_base_def Validate_def TolMinMs_def)
  obtain u c' where "arm_lockout DefaultSettings 500 (NewConn 0) = (u, c')" by fastforce
  then show ?thesis using v lockout_bounds [OF v, of 500 "NewConn 0" u c']
    by (simp add: DefaultSettings_def Preset_def preset_names preset_base_def)
qed

end
