(* ===== verification/Buzzer_Collect.thy ===== *)
theory Buzzer_Collect
  imports Buzzer_Bounds
begin

text \<open>
  The collection of presses: the steps of an armed button and of the connections it reads, and the
  invariant of every button reached from a new one. Each player has at most one press in the
  collection, every press in it is scored by the rules of its mode, and the connections stay
  reachable however presses and measurements interleave.
\<close>

subsection \<open>Steps\<close>

inductive arm_step :: "buzz_lib \<Rightarrow> arm \<times> conns \<Rightarrow> arm \<times> conns \<Rightarrow> bool" for lib where
  press: "is_f64 t \<Longrightarrow> arm_step lib st (snd (OnPress inp t st))"
| armAck: "arm_step lib st (OnArmAck pid t st)"
| sent: "arm_step lib (a, cs) (OnSent pid t a, cs)"
| eligible: "arm_step lib (a, cs) (SetEligible pid b now cs a, cs)"
| rotate: "arm_step lib (a, cs) (SetRotateAfter seat a, cs)"
| misfire: "arm_step lib st (snd (OnMisfire pid now st))"
| resolve: "arm_step lib (a, cs) (snd (Resolve lib now a), cs)"
| force: "arm_step lib (a, cs) (snd (ForceResolve lib now a), cs)"
| disarm: "arm_step lib (a, cs) (Disarm now reason a, cs)"
| measure: "conn_step (cs k) c \<Longrightarrow> arm_step lib (a, cs) (a, cs(k := c))"

inductive arm_reach :: "buzz_lib \<Rightarrow> arm \<times> conns \<Rightarrow> bool" for lib where
  arm: "\<forall>k. conn_reach (cs k) \<Longrightarrow> arm_reach lib (NewArm lib now readEnd players s seed cs)"
| step: "arm_reach lib st \<Longrightarrow> arm_step lib st st' \<Longrightarrow> arm_reach lib st'"

text \<open>An invariant of an armed button, over the connections it was armed with.\<close>

locale arm_invariant =
  fixes lib :: buzz_lib and I :: "arm \<times> conns \<Rightarrow> bool"
  assumes armed: "\<forall>k. conn_reach (cs k) \<Longrightarrow> I (NewArm lib now readEnd players s seed cs)"
    and kept: "arm_step lib st st' \<Longrightarrow> I st \<Longrightarrow> I st'"
begin

lemma reachable: "arm_reach lib st \<Longrightarrow> I st"
  by (induction rule: arm_reach.induct) (auto intro: armed kept)

end

subsection \<open>The connections stay reachable\<close>

definition conns_ok :: "conns \<Rightarrow> bool" where
  "conns_ok cs \<longleftrightarrow> (\<forall>k. conn_reach (cs k))"

named_theorems conns_kept \<open>an operation of an arm that drives connections by their own steps\<close>

lemma conns_ok_step: "conns_ok cs \<Longrightarrow> conn_step (cs k) c \<Longrightarrow> conns_ok (cs(k := c))"
  by (auto simp: conns_ok_def intro: conn_reach.step)

lemma conns_ok_upd [conns_kept]:
  "conns_ok cs \<Longrightarrow> conns_ok (upd_conn k (AddFlag f now) cs)"
  "conns_ok cs \<Longrightarrow> conns_ok (upd_conn k (softFlag f) cs)"
  "conns_ok cs \<Longrightarrow> conns_ok (upd_conn k (noteAck e al sg now) cs)"
  by (auto simp: upd_conn_def intro: conns_ok_step conn_step.intros split: option.split)

lemma conns_ok_results [conns_kept]:
  "conns_ok cs \<Longrightarrow> conns_ok (cs(k := snd (notePress now (cs k))))"
  "conns_ok cs \<Longrightarrow> conns_ok (cs(k := snd (noteReaction r b1 b2 now (cs k))))"
  "conns_ok cs \<Longrightarrow> conns_ok (cs(k := snd (noteBias v m now (cs k))))"
  "conns_ok cs \<Longrightarrow> conns_ok (cs(k := snd (arm_lockout s now (cs k))))"
  by (auto simp: arm_lockout_def intro: conns_ok_step conn_step.intros)

lemma conns_ok_caps [conns_kept]: "conns_ok cs \<Longrightarrow> conns_ok (caps_store s p cs)"
  unfolding caps_store_def set_caps_def
  by (auto intro: conns_ok_step conn_step.configure split: option.split)

lemma conns_ok_lockout [conns_kept]:
  "conns_ok cs \<Longrightarrow> conns_ok (snd (snd (press_lockout s k pr status cs)))"
proof (cases k)
  case (Some i)
  assume ok: "conns_ok cs"
  have "conn_reach (snd (arm_lockout s (pr_tRecv pr) (cs i)))"
    using conns_ok_results(4) [OF ok, of i s "pr_tRecv pr"] by (simp add: conns_ok_def) (metis fun_upd_same)
  then show ?thesis
    using Some ok conn_reach.step [OF _ conn_step.flagged]
    by (simp add: press_lockout_def Let_def split_beta conns_ok_def)
qed (simp add: press_lockout_def)

lemma conns_ok_client_path [conns_kept]:
  "conns_ok cs \<Longrightarrow> conns_ok (snd (client_path ap inp pr cs))"
  by (simp add: client_path_def Let_def split_beta conns_kept split: option.split)

lemma conns_ok_anchored_time [conns_kept]:
  "conns_ok cs \<Longrightarrow> conns_ok (snd (anchored_time a ap inp pr cs))"
  by (simp add: anchored_time_def Let_def conns_kept)

lemma conns_ok_accept [conns_kept]:
  "conns_ok cs \<Longrightarrow> conns_ok (snd (snd (accept_press ap pr cs)))"
  "conns_ok cs \<Longrightarrow> conns_ok (snd (snd (accept_unanchored ap pr cs)))"
  by (simp_all add: accept_press_def accept_unanchored_def Let_def split_beta conns_kept split: option.split)

lemma conns_ok_scoreAnchored [conns_kept]:
  "conns_ok cs \<Longrightarrow> conns_ok (snd (snd (scoreAnchored a ap inp pr cs)))"
  by (simp add: scoreAnchored_def Let_def split_beta conns_kept)

lemma conns_ok_score [conns_kept]:
  "conns_ok cs \<Longrightarrow> conns_ok (snd (snd (score_press a i inp t cs)))"
  by (simp add: score_press_def Let_def conns_kept split: buzz_mode.split)

lemma conns_ok_latePress [conns_kept]:
  "conns_ok cs \<Longrightarrow> conns_ok (snd (snd (latePress i inp t (a, cs))))"
  by (simp add: latePress_def Let_def split_beta conns_kept)

lemma conns_ok_note_press [conns_kept]: "conns_ok cs \<Longrightarrow> conns_ok (snd (note_press k t cs))"
  by (simp add: note_press_def split_beta conns_kept split: option.split)

lemma conns_ok_OnPress [conns_kept]: "conns_ok cs \<Longrightarrow> conns_ok (snd (snd (OnPress inp t (a, cs))))"
  unfolding OnPress_def Let_def split_beta prod.case
  by (simp add: conns_kept split: option.split)

lemma conns_ok_NewArm: "conns_ok cs \<Longrightarrow> conns_ok (snd (NewArm lib now readEnd players s seed cs))"
proof -
  have "conns_ok (snd (snd st)) \<Longrightarrow> conns_ok (snd (snd (fold (arm_player_step now) players st)))" for st
    by (induction players arbitrary: st) (simp_all add: arm_player_step_def Let_def split_beta conns_kept)
  then show "conns_ok cs \<Longrightarrow> ?thesis" by (simp add: NewArm_def Let_def split_beta)
qed

interpretation driven: arm_invariant lib "\<lambda>st. conns_ok (snd st)" for lib
proof
  show "\<forall>k. conn_reach (cs k) \<Longrightarrow> conns_ok (snd (NewArm lib now readEnd players s seed cs))"
    for cs now readEnd players s seed
    by (rule conns_ok_NewArm) (simp add: conns_ok_def)
  show "arm_step lib st st' \<Longrightarrow> conns_ok (snd st) \<Longrightarrow> conns_ok (snd st')" for st st'
    by (induction rule: arm_step.induct)
       (auto simp: OnArmAck_def OnMisfire_def Let_def split_beta conns_kept intro: conns_ok_step split: option.split)
qed

subsection \<open>The collection\<close>

text \<open>What a collected press of the anchored mode satisfies: no faster than a human, and a client's
  stamp moved into the trust radius around the arrival the server saw.\<close>

definition fair_press :: "arm \<Rightarrow> press \<Rightarrow> bool" where
  "fair_press a p \<longleftrightarrow>
     (let m = ap_m (ar_players a ! pr_ap p) in
      f64_of_int (bs_MinHumanMs (ar_s a)) \<le> pr_reaction p \<and>
      pr_reaction p = f64_sub (pr_tFinal p) (ar_tArm a) \<and>
      (pr_source p = SourceClient \<or> pr_source p = SourceClamped \<longrightarrow>
         f64_sub (pr_tArr p) (m_TolMs m) \<le> pr_tFinal p \<and>
         pr_tFinal p \<le> f64_add (pr_tArr p) (m_TolMs m) \<and> pr_tFinal p \<le> pr_tRecv p \<and>
         pr_tArr p = f64_sub (pr_tRecv p) (f64_div (m_RttRefMs m) 2)))"

definition anchors :: "buzz_mode \<Rightarrow> bool" where
  "anchors m \<longleftrightarrow> m \<noteq> ModeServerArrival \<and> m \<noteq> ModeRandomWindow \<and> m \<noteq> ModeClientReaction"

text \<open>How a collected press is ranked in each mode.\<close>

definition press_rule :: "arm \<Rightarrow> press \<Rightarrow> bool" where
  "press_rule a p \<longleftrightarrow>
     pr_tFinal p \<le> ar_disarmAt a \<and>
     (anchors (bs_Mode (ar_s a)) \<longrightarrow> fair_press a p) \<and>
     (bs_Mode (ar_s a) = ModeServerArrival \<or> bs_Mode (ar_s a) = ModeRandomWindow \<longrightarrow>
        pr_tFinal p = pr_tRecv p \<and> ar_tArm a \<le> pr_tRecv p)"

definition arm_ok :: "arm \<Rightarrow> bool" where
  "arm_ok a \<longleftrightarrow>
     (\<forall>x i. map_of (ar_byID a) x = Some i \<longrightarrow> i < length (ar_players a) \<and> ap_id (ar_players a ! i) = x) \<and>
     (\<forall>ap \<in> set (ar_players a). \<exists>now c. ap_m ap = snap now c) \<and>
     (\<forall>p \<in> set (ar_presses a). map_of (ar_byID a) (pr_pid p) = Some (pr_ap p) \<and>
        ap_pressed (ar_players a ! pr_ap p) \<and> press_rule a p) \<and>
     distinct (map pr_pid (ar_presses a)) \<and>
     (ar_hasFirst a \<longleftrightarrow> ar_presses a \<noteq> []) \<and>
     (ar_state a = StateArmed \<or> ar_state a = StateDraining \<longrightarrow> ar_presses a = [])"

lemma arm_okD:
  assumes "arm_ok a"
  shows "map_of (ar_byID a) x = Some i \<Longrightarrow> i < length (ar_players a) \<and> ap_id (ar_players a ! i) = x"
    and "ap \<in> set (ar_players a) \<Longrightarrow> \<exists>now c. ap_m ap = snap now c"
    and "p \<in> set (ar_presses a) \<Longrightarrow> map_of (ar_byID a) (pr_pid p) = Some (pr_ap p)"
    and "p \<in> set (ar_presses a) \<Longrightarrow> ap_pressed (ar_players a ! pr_ap p)"
    and "p \<in> set (ar_presses a) \<Longrightarrow> press_rule a p"
    and "distinct (map pr_pid (ar_presses a))"
    and "ar_hasFirst a \<longleftrightarrow> ar_presses a \<noteq> []"
    and "ar_state a = StateArmed \<or> ar_state a = StateDraining \<Longrightarrow> ar_presses a = []"
  using assms by (auto simp: arm_ok_def)

text \<open>The updates of a player that the collection does not notice.\<close>

definition same_player :: "arm_player \<Rightarrow> arm_player \<Rightarrow> bool" where
  "same_player p q \<longleftrightarrow> ap_id p = ap_id q \<and> ap_m p = ap_m q \<and> (ap_pressed q \<longrightarrow> ap_pressed p)"

lemma upd_ap_fields [simp]:
  "ar_s (upd_ap i f a) = ar_s a" "ar_seed (upd_ap i f a) = ar_seed a" "ar_id (upd_ap i f a) = ar_id a"
  "ar_tArm (upd_ap i f a) = ar_tArm a" "ar_disarmAt (upd_ap i f a) = ar_disarmAt a"
  "ar_drainEnd (upd_ap i f a) = ar_drainEnd a" "ar_state (upd_ap i f a) = ar_state a"
  "ar_byID (upd_ap i f a) = ar_byID a" "ar_presses (upd_ap i f a) = ar_presses a"
  "ar_hasFirst (upd_ap i f a) = ar_hasFirst a" "ar_result (upd_ap i f a) = ar_result a"
  "ar_firstRecv (upd_ap i f a) = ar_firstRecv a" "ar_bestT (upd_ap i f a) = ar_bestT a"
  "length (ar_players (upd_ap i f a)) = length (ar_players a)"
  by (simp_all add: upd_ap_def)

lemma upd_ap_same:
  assumes "\<And>ap. same_player (f ap) ap"
  shows "same_player (ar_players (upd_ap i f a) ! j) (ar_players a ! j)"
  using assms by (cases "i < length (ar_players a)") (auto simp: upd_ap_def nth_list_update same_player_def list_update_beyond not_less)

lemma press_rule_same:
  assumes "\<And>j. same_player (ar_players a' ! j) (ar_players a ! j)"
    and "ar_s a' = ar_s a" "ar_tArm a' = ar_tArm a" "ar_disarmAt a' = ar_disarmAt a"
  shows "press_rule a' p = press_rule a p"
  using assms(1) [of "pr_ap p"] assms(2-) by (simp add: press_rule_def fair_press_def same_player_def)

text \<open>An arm whose players are the same and whose collection is untouched is as good as before.\<close>

lemma arm_ok_same:
  assumes ok: "arm_ok a" and same: "\<And>j. same_player (ar_players a' ! j) (ar_players a ! j)"
    and len: "length (ar_players a') = length (ar_players a)"
    and eq: "ar_s a' = ar_s a" "ar_tArm a' = ar_tArm a" "ar_disarmAt a' = ar_disarmAt a"
      "ar_byID a' = ar_byID a" "ar_presses a' = ar_presses a" "ar_hasFirst a' = ar_hasFirst a"
    and state: "ar_state a' = StateArmed \<or> ar_state a' = StateDraining \<Longrightarrow> ar_presses a = []"
  shows "arm_ok a'"
proof -
  have rule: "press_rule a' p = press_rule a p" for p
    by (rule press_rule_same [OF same eq(1-3)])
  have "\<exists>now c. ap_m ap = snap now c" if h: "ap \<in> set (ar_players a')" for ap
  proof -
    obtain j where j: "j < length (ar_players a')" "ap = ar_players a' ! j"
      using h by (auto simp: in_set_conv_nth)
    then have "ar_players a ! j \<in> set (ar_players a)" by (simp add: len)
    then obtain now c where "ap_m (ar_players a ! j) = snap now c" using arm_okD(2) [OF ok] by blast
    then show ?thesis using same [of j] j(2) by (auto simp: same_player_def)
  qed
  moreover have "ap_id (ar_players a' ! j) = ap_id (ar_players a ! j)"
    "ap_pressed (ar_players a ! j) \<Longrightarrow> ap_pressed (ar_players a' ! j)" for j
    using same [of j] by (auto simp: same_player_def)
  ultimately show ?thesis
    using ok state unfolding arm_ok_def rule len eq by auto
qed

lemma arm_ok_upd_ap:
  assumes "arm_ok a" and "\<And>ap. same_player (f ap) ap"
  shows "arm_ok (upd_ap i f a)"
  using assms(1) upd_ap_same [OF assms(2)]
  by (rule arm_ok_same) (use arm_okD(8) [OF assms(1)] in auto)

lemma arm_ok_fields [simp]:
  "arm_ok (a\<lparr>ar_closeAt := x\<rparr>) = arm_ok a" "arm_ok (a\<lparr>ar_audit := l\<rparr>) = arm_ok a"
  "arm_ok (a\<lparr>ar_result := r\<rparr>) = arm_ok a" "arm_ok (a\<lparr>ar_rotateAfter := n\<rparr>) = arm_ok a"
  "arm_ok (a\<lparr>ar_bestT := x\<rparr>) = arm_ok a" "arm_ok (a\<lparr>ar_plans := ps\<rparr>) = arm_ok a"
  "arm_ok (a\<lparr>ar_drainEnd := x\<rparr>) = arm_ok a"
  by (simp_all add: arm_ok_def press_rule_def fair_press_def)

lemma arm_ok_eq:
  assumes "ar_s a' = ar_s a" "ar_tArm a' = ar_tArm a" "ar_disarmAt a' = ar_disarmAt a"
    "ar_byID a' = ar_byID a" "ar_players a' = ar_players a" "ar_presses a' = ar_presses a"
    "ar_hasFirst a' = ar_hasFirst a" "ar_state a' = ar_state a"
  shows "arm_ok a \<longleftrightarrow> arm_ok a'"
  using assms by (simp add: arm_ok_def press_rule_def fair_press_def)

named_theorems arm_kept \<open>an operation of an arm keeps its invariant\<close>

lemma arm_ok_reschedule [arm_kept, simp]: "arm_ok (reschedule now cs a) = arm_ok a"
  by (simp add: reschedule_def Let_def)

lemma arm_ok_record [arm_kept, simp]: "arm_ok (record_press pr status a) = arm_ok a"
  by (simp add: record_press_def)

lemma arm_ok_SetEligible [arm_kept]: "arm_ok a \<Longrightarrow> arm_ok (SetEligible pid b now cs a)"
  by (simp add: SetEligible_def Let_def arm_ok_upd_ap same_player_def split: option.split)

lemma arm_ok_OnSent [arm_kept]: "arm_ok a \<Longrightarrow> arm_ok (OnSent pid t a)"
  by (simp add: OnSent_def arm_ok_upd_ap same_player_def recomputeCredit_def split: option.split)

lemma arm_ok_OnArmAck [arm_kept]: "arm_ok a \<Longrightarrow> arm_ok (fst (OnArmAck pid t (a, cs)))"
  by (simp add: OnArmAck_def Let_def arm_ok_upd_ap same_player_def split: option.split)

lemma arm_ok_SetRotateAfter [arm_kept]: "arm_ok a \<Longrightarrow> arm_ok (SetRotateAfter seat a)"
  by (simp add: SetRotateAfter_def)

lemma arm_ok_OnMisfire [arm_kept]: "arm_ok a \<Longrightarrow> arm_ok (fst (snd (OnMisfire pid now (a, cs))))"
  by (simp add: OnMisfire_def split_beta split: option.split)

lemma arm_ok_state:
  "arm_ok a \<Longrightarrow> st = StateArmed \<or> st = StateDraining \<longrightarrow> ar_presses a = [] \<Longrightarrow> arm_ok (a\<lparr>ar_state := st\<rparr>)"
  by (rule arm_ok_same) (auto simp: same_player_def)

lemma arm_ok_ForceResolve [arm_kept]: "arm_ok a \<Longrightarrow> arm_ok (snd (ForceResolve lib now a))"
  by (simp add: ForceResolve_def Let_def arm_ok_state)

lemma arm_ok_Resolve [arm_kept]: "arm_ok a \<Longrightarrow> arm_ok (snd (Resolve lib now a))"
  by (auto simp: Resolve_def Let_def split_beta arm_ok_ForceResolve arm_ok_state arm_okD(8) split: arm_state.split)

lemma arm_ok_Disarm [arm_kept]: "arm_ok a \<Longrightarrow> arm_ok (Disarm now reason a)"
  by (simp add: Disarm_def arm_ok_state)

subsection \<open>Scored presses\<close>

lemma lockout_press:
  "pr_pid (fst (press_lockout s k pr status cs)) = pr_pid pr"
  "pr_ap (fst (press_lockout s k pr status cs)) = pr_ap pr"
  "pa_Status (fst (snd (press_lockout s k pr status cs))) = status"
  by (simp_all add: press_lockout_def ack_of_def Let_def split_beta split: option.split)

lemma client_press_same:
  "pr_pid (client_press ap inp pr) = pr_pid pr" "pr_ap (client_press ap inp pr) = pr_ap pr"
  "pr_tRecv (client_press ap inp pr) = pr_tRecv pr" "pr_tArr (client_press ap inp pr) = pr_tArr pr"
  by (simp_all add: client_press_def Let_def)

lemma client_press_time:
  "pr_tFinal (client_press ap inp pr) =
     clamp (pr_tEst (client_press ap inp pr)) (f64_sub (pr_tArr pr) (m_TolMs (ap_m ap)))
             (min (pr_tRecv pr) (f64_add (pr_tArr pr) (m_TolMs (ap_m ap))))"
  by (simp add: client_press_def Let_def)

lemma client_path_same:
  "pr_pid (fst (client_path ap inp pr cs)) = pr_pid pr" "pr_ap (fst (client_path ap inp pr cs)) = pr_ap pr"
  "pr_tRecv (fst (client_path ap inp pr cs)) = pr_tRecv pr" "pr_tArr (fst (client_path ap inp pr cs)) = pr_tArr pr"
  "pr_tFinal (fst (client_path ap inp pr cs)) = pr_tFinal (client_press ap inp pr)"
  by (simp_all add: client_path_def Let_def split_beta client_press_same)

lemma anchored_time_same:
  "pr_pid (fst (anchored_time a ap inp pr cs)) = pr_pid pr" "pr_ap (fst (anchored_time a ap inp pr cs)) = pr_ap pr"
  "pr_tRecv (fst (anchored_time a ap inp pr cs)) = pr_tRecv pr" "pr_tArr (fst (anchored_time a ap inp pr cs)) = pr_tArr pr"
  by (simp_all add: anchored_time_def Let_def client_path_same)

text \<open>Only the client path leaves a press with a client source.\<close>

lemma anchored_time_client:
  assumes "pr_source (fst (anchored_time a ap inp pr cs)) = SourceClient \<or>
           pr_source (fst (anchored_time a ap inp pr cs)) = SourceClamped"
  shows "anchored_time a ap inp pr cs = client_path ap inp pr cs"
  using assms by (simp add: anchored_time_def Let_def split: if_splits)

lemma accept_press_same:
  "pr_pid (fst (accept_press ap pr cs)) = pr_pid pr" "pr_ap (fst (accept_press ap pr cs)) = pr_ap pr"
  "pr_tRecv (fst (accept_press ap pr cs)) = pr_tRecv pr" "pr_tArr (fst (accept_press ap pr cs)) = pr_tArr pr"
  "pr_tFinal (fst (accept_press ap pr cs)) = pr_tFinal pr" "pr_source (fst (accept_press ap pr cs)) = pr_source pr"
  "pr_reaction (fst (accept_press ap pr cs)) = pr_reaction pr"
  by (simp_all add: accept_press_def Let_def split_beta)

lemma accept_unanchored_same:
  "pr_pid (fst (accept_unanchored ap pr cs)) = pr_pid pr" "pr_ap (fst (accept_unanchored ap pr cs)) = pr_ap pr"
  "pr_tRecv (fst (accept_unanchored ap pr cs)) = pr_tRecv pr" "pr_tFinal (fst (accept_unanchored ap pr cs)) = pr_tFinal pr"
  by (simp_all add: accept_unanchored_def Let_def split_beta split: option.split)

lemma new_press_fields [simp]:
  "pr_pid (new_press ap i inp t) = ap_id ap" "pr_ap (new_press ap i inp t) = i"
  "pr_tRecv (new_press ap i inp t) = t"
  by (simp_all add: new_press_def)

text \<open>The trust radius around the arrival is never empty and ends at the receipt.\<close>

lemma trust_radius:
  assumes "is_f64 t" and "0 \<le> d" and "0 \<le> tol" and "tArr = f64_sub t d"
  shows "f64_sub tArr tol \<le> min t (f64_add tArr tol)"
proof -
  have arr: "is_f64 tArr" and le: "tArr \<le> t"
    using assms unfolding f64_sub_def by (auto intro: f64_round_le)
  have "f64_sub tArr tol \<le> tArr" "tArr \<le> f64_add tArr tol"
    using arr assms(3) unfolding f64_sub_def f64_add_def by (auto intro: f64_round_le f64_round_ge)
  with le show ?thesis by simp
qed

lemma scoreAnchored_same:
  "pr_pid (fst (scoreAnchored a ap inp pr cs)) = pr_pid pr" "pr_ap (fst (scoreAnchored a ap inp pr cs)) = pr_ap pr"
  by (simp_all add: scoreAnchored_def Let_def split_beta lockout_press accept_press_same anchored_time_same)

lemma scoreAnchored_fair:
  assumes t: "is_f64 (pr_tRecv pr)" and m: "ap_m ap = snap now c"
    and pending: "pa_Status (fst (snd (scoreAnchored a ap inp pr cs))) = StatusPending"
    and pr': "pr' = fst (scoreAnchored a ap inp pr cs)"
  shows "f64_of_int (bs_MinHumanMs (ar_s a)) \<le> pr_reaction pr' \<and>
    pr_reaction pr' = f64_sub (pr_tFinal pr') (ar_tArm a) \<and>
    (pr_source pr' = SourceClient \<or> pr_source pr' = SourceClamped \<longrightarrow>
       f64_sub (pr_tArr pr') (m_TolMs (ap_m ap)) \<le> pr_tFinal pr' \<and>
       pr_tFinal pr' \<le> f64_add (pr_tArr pr') (m_TolMs (ap_m ap)) \<and> pr_tFinal pr' \<le> pr_tRecv pr' \<and>
       pr_tArr pr' = f64_sub (pr_tRecv pr') (f64_div (m_RttRefMs (ap_m ap)) 2))"
proof -
  define pr0 where "pr0 = pr\<lparr>pr_tArr := arrival_time ap (pr_tRecv pr), pr_reaction := react_bound a ap (pr_tRecv pr)\<rparr>"
  define q where "q = fst (anchored_time a ap inp pr0 cs)"
  define cs' where "cs' = snd (anchored_time a ap inp pr0 cs)"
  define q' where "q' = q\<lparr>pr_reaction := f64_sub (pr_tFinal q) (ar_tArm a)\<rparr>"
  have acc: "scoreAnchored a ap inp pr cs = accept_press ap q' cs'"
    and human: "\<not> pr_reaction q' < f64_of_int (bs_MinHumanMs (ar_s a))"
    using pending
    by (auto simp: scoreAnchored_def Let_def split_beta lockout_press pr0_def q_def q'_def cs'_def split: if_splits)
  have q: "pr_tRecv q = pr_tRecv pr" "pr_tArr q = arrival_time ap (pr_tRecv pr)"
    by (simp_all add: q_def anchored_time_same pr0_def)
  have "f64_sub (pr_tArr q) (m_TolMs (ap_m ap)) \<le> pr_tFinal q \<and>
        pr_tFinal q \<le> min (pr_tRecv q) (f64_add (pr_tArr q) (m_TolMs (ap_m ap)))"
    if h: "pr_source q = SourceClient \<or> pr_source q = SourceClamped"
  proof -
    have "anchored_time a ap inp pr0 cs = client_path ap inp pr0 cs"
      using anchored_time_client h unfolding q_def by blast
    then have "pr_tFinal q = pr_tFinal (client_press ap inp pr0)" by (simp add: q_def client_path_same)
    then obtain x where x: "pr_tFinal q =
        clamp x (f64_sub (pr_tArr q) (m_TolMs (ap_m ap))) (min (pr_tRecv q) (f64_add (pr_tArr q) (m_TolMs (ap_m ap))))"
      using client_press_time [of ap inp pr0] by (auto simp: q pr0_def)
    have "0 \<le> f64_div (m_RttRefMs (ap_m ap)) 2"
      using rttRef_nonneg unfolding m f64_div_def by (simp add: f64_round_nonneg)
    moreover have "0 \<le> m_TolMs (ap_m ap)" using tol_range [of now c] unfolding m by linarith
    ultimately have "f64_sub (pr_tArr q) (m_TolMs (ap_m ap)) \<le> min (pr_tRecv q) (f64_add (pr_tArr q) (m_TolMs (ap_m ap)))"
      using trust_radius [OF t] unfolding q arrival_time_def by blast
    then show ?thesis unfolding x by (rule clamp_range)
  qed
  then show ?thesis
    using human q unfolding pr' acc accept_press_same by (simp add: q'_def arrival_time_def not_less)
qed

lemma score_press_same:
  "pr_pid (fst (score_press a i inp t cs)) = ap_id (ar_players a ! i)"
  "pr_ap (fst (score_press a i inp t cs)) = i"
  by (simp_all add: score_press_def Let_def lockout_press accept_unanchored_same scoreAnchored_same
      split: buzz_mode.split)

lemma score_press_rule:
  assumes ok: "arm_ok a" and i: "i < length (ar_players a)" and t: "is_f64 t"
    and pending: "pa_Status (fst (snd (score_press a i inp t cs))) = StatusPending"
    and due: "pr_tFinal (fst (score_press a i inp t cs)) \<le> ar_disarmAt a"
  shows "press_rule a (fst (score_press a i inp t cs))"
proof (cases "anchors (bs_Mode (ar_s a))")
  case True
  let ?ap = "ar_players a ! i" and ?pr = "new_press (ar_players a ! i) i inp t"
  have eq: "score_press a i inp t cs = scoreAnchored a ?ap inp ?pr cs"
    using True by (simp add: score_press_def anchors_def Let_def split: buzz_mode.split)
  obtain now c where m: "ap_m ?ap = snap now c" using arm_okD(2) [OF ok nth_mem [OF i]] by blast
  have "is_f64 (pr_tRecv ?pr)" using t by simp
  from scoreAnchored_fair [OF this m _ refl, of a inp cs] pending
  have "fair_press a (fst (score_press a i inp t cs))"
    unfolding fair_press_def Let_def score_press_same unfolding eq by blast
  with True due show ?thesis by (auto simp: press_rule_def anchors_def)
next
  case False
  with pending due show ?thesis
    by (auto simp: press_rule_def anchors_def score_press_def Let_def lockout_press accept_unanchored_same
        not_less split: if_splits)
qed

lemma arm_ok_collect [arm_kept]:
  assumes ok: "arm_ok a" and i: "map_of (ar_byID a) x = Some i" and fresh: "\<not> ap_pressed (ar_players a ! i)"
    and pr: "pr_pid pr = x" "pr_ap pr = i" "press_rule a pr"
  shows "arm_ok (collect_press i pr t cs a)"
proof -
  let ?b = "upd_ap i (\<lambda>ap. ap\<lparr>ap_pressed := True\<rparr>) a"
  have okb: "arm_ok ?b" by (rule arm_ok_upd_ap [OF ok]) (simp add: same_player_def)
  have len: "i < length (ar_players a)" using arm_okD(1) [OF ok i] by blast
  have new: "x \<notin> pr_pid ` set (ar_presses a)"
    using arm_okD(3,4) [OF ok] i fresh by fastforce
  have rule: "press_rule ?b p = press_rule a p" for p
    by (rule press_rule_same) (rule upd_ap_same, simp_all add: same_player_def)
  have "arm_ok (?b\<lparr>ar_presses := ar_presses ?b @ [pr], ar_hasFirst := True, ar_state := StateCollecting\<rparr>)"
    (is "arm_ok ?c")
  proof -
    have "press_rule ?c p = press_rule ?b p" for p by (simp add: press_rule_def fair_press_def)
    moreover have "ap_pressed (ar_players ?b ! i)" using len by (simp add: upd_ap_def)
    ultimately show ?thesis
      using okb pr i new rule unfolding arm_ok_def by auto
  qed
  then show ?thesis
    unfolding collect_press_def Let_def
    by (simp only: arm_ok_reschedule) (erule arm_ok_eq [THEN iffD1, rotated -1]; simp add: upd_ap_def)
qed

lemma arm_ok_latePress [arm_kept]: "arm_ok a \<Longrightarrow> arm_ok (fst (snd (latePress i inp t (a, cs))))"
  by (simp add: latePress_def Let_def split_beta arm_ok_upd_ap same_player_def)

text \<open>What a press does, as the cases of its outcome.\<close>

lemma OnPress_cases:
  obtains (other) "fst (snd (OnPress inp t (a, cs))) = a"
  | (late) i cs' where "ar_state a = StateResolved" "OnPress inp t (a, cs) = latePress i inp t (a, cs')"
  | (recorded) pr status where "fst (snd (OnPress inp t (a, cs))) = record_press pr status a"
  | (collected) i pr cs' where "map_of (ar_byID a) (pi_PlayerID inp) = Some i"
      "\<not> ap_pressed (ar_players a ! i)" "ar_state a \<noteq> StateDisarmed" "ar_state a \<noteq> StateResolved"
      "pr = fst (score_press a i inp t cs')"
      "pa_Status (fst (snd (score_press a i inp t cs'))) = StatusPending"
      "pr_tFinal pr \<le> ar_disarmAt a"
      "fst (snd (OnPress inp t (a, cs))) =
         collect_press i pr t (snd (snd (score_press a i inp t cs'))) (record_press pr StatusPending a)"
proof (cases "map_of (ar_byID a) (pi_PlayerID inp)")
  case None
  then show ?thesis by (intro other) (simp add: OnPress_def)
next
  case (Some i)
  let ?ap = "ar_players a ! i"
  define noted where "noted = note_press (ap_conn ?ap) t cs"
  let ?cs = "snd noted"
  note unf = OnPress_def Let_def split_beta prod.case Some option.case noted_def [symmetric]
  consider "\<not> ap_eligible ?ap" | "ap_eligible ?ap" "\<not> fst noted"
    | "ap_eligible ?ap" "fst noted" "ar_state a = StateDisarmed"
    | "ap_eligible ?ap" "fst noted" "ar_state a = StateResolved"
    | "ap_eligible ?ap" "fst noted" "ar_state a \<noteq> StateDisarmed" "ar_state a \<noteq> StateResolved"
      "ap_pressed ?ap \<or> locked_at (ap_conn ?ap) t ?cs"
    | "ap_eligible ?ap" "fst noted" "ar_state a \<noteq> StateDisarmed" "ar_state a \<noteq> StateResolved"
      "\<not> ap_pressed ?ap" "\<not> locked_at (ap_conn ?ap) t ?cs"
    by blast
  then show ?thesis
  proof cases
    case 4
    then show ?thesis by (intro late [of i ?cs]) (simp_all add: unf)
  next
    case 6
    let ?sc = "score_press a i inp t ?cs"
    show ?thesis
    proof (cases "pa_Status (fst (snd ?sc)) = StatusPending \<and> pr_tFinal (fst ?sc) \<le> ar_disarmAt a")
      case True
      with 6 Some show ?thesis
        by (intro collected [of i "fst ?sc" ?cs]) (simp_all add: unf not_less)
    next
      case False
      with 6 show ?thesis
        by (intro recorded [of "fst ?sc" "if pa_Status (fst (snd ?sc)) = StatusPending then StatusLate
              else pa_Status (fst (snd ?sc))"]) (auto simp: unf ack_of_def not_less)
    qed
  qed (intro other; auto simp: unf)+
qed

lemma arm_ok_OnPress [arm_kept]:
  assumes ok: "arm_ok a" and t: "is_f64 t"
  shows "arm_ok (fst (snd (OnPress inp t (a, cs))))"
proof (cases rule: OnPress_cases [of inp t a cs])
  case (collected i pr cs')
  have i: "i < length (ar_players a)" "ap_id (ar_players a ! i) = pi_PlayerID inp"
    using arm_okD(1) [OF ok collected(1)] by auto
  have "press_rule a pr"
    using score_press_rule [OF ok i(1) t] collected by blast
  then have rule: "press_rule (record_press pr StatusPending a) pr"
    by (simp add: record_press_def press_rule_def fair_press_def)
  show ?thesis
    unfolding collected(8)
    by (rule arm_ok_collect [where x = "pi_PlayerID inp"])
       (use ok collected i rule score_press_same in \<open>auto simp: record_press_def\<close>)
qed (use ok in \<open>simp_all add: arm_ok_latePress\<close>)

subsection \<open>Every reachable button\<close>

lemma freeze_player_frozen:
  "ap_id (freeze_player now tArm s p cs) = pl_ID p"
  "\<exists>now' c. ap_m (freeze_player now tArm s p cs) = snap now' c"
  by (auto simp: freeze_player_def recomputeCredit_def Let_def split: option.split)

lemma arm_ok_step:
  assumes "arm_ok a" and "ar_state a = StateArmed"
  shows "arm_ok (fst (snd (arm_player_step now p (d, a, cs)))) \<and>
         ar_state (fst (snd (arm_player_step now p (d, a, cs)))) = StateArmed"
proof (cases "pl_Eligible p")
  case True
  let ?ap = "freeze_player now (ar_tArm a) (ar_s a) p (caps_store (ar_s a) p cs)"
  have none: "ar_presses a = []" using arm_okD(8) [OF assms(1)] assms(2) by blast
  have "\<exists>now' c. ap_m ?ap = snap now' c" by (rule freeze_player_frozen)
  then show ?thesis
    using assms True none
    by (auto simp: arm_player_step_def Let_def arm_ok_def nth_append less_Suc_eq split: if_splits)
qed (use assms in \<open>simp add: arm_player_step_def\<close>)

lemma arm_ok_NewArm: "arm_ok (fst (NewArm lib now readEnd players s seed cs))"
proof -
  have loop: "arm_ok a \<and> ar_state a = StateArmed \<Longrightarrow>
    arm_ok (fst (snd (fold (arm_player_step now) players (d, a, cs)))) \<and>
    ar_state (fst (snd (fold (arm_player_step now) players (d, a, cs)))) = StateArmed" for d a cs
  proof (induction players arbitrary: d a cs)
    case (Cons p players)
    obtain d' a' cs' where st: "arm_player_step now p (d, a, cs) = (d', a', cs')" by (rule prod_cases3)
    have "arm_ok a' \<and> ar_state a' = StateArmed"
      using arm_ok_step [of a now p d cs] Cons.prems by (simp add: st)
    from Cons.IH [OF this] show ?case by (simp add: st)
  qed simp
  have "arm_ok (blank_arm lib now readEnd s seed) \<and> ar_state (blank_arm lib now readEnd s seed) = StateArmed" for seed
    by (simp add: blank_arm_def arm_ok_def Let_def)
  from loop [OF this, where d = 0 and cs = cs]
  show ?thesis
    by (simp add: NewArm_def Let_def split_beta written_all_def arm_ok_state)
qed

interpretation collects: arm_invariant lib "\<lambda>st. arm_ok (fst st)" for lib
proof
  show "arm_ok (fst (NewArm lib now readEnd players s seed cs))" for cs now readEnd players s seed
    by (rule arm_ok_NewArm)
  show "arm_step lib st st' \<Longrightarrow> arm_ok (fst st) \<Longrightarrow> arm_ok (fst st')" for st st'
    by (induction rule: arm_step.induct) (auto simp: arm_kept)
qed

end
