(* ===== verification/Buzzer_Demo.thy ===== *)
theory Buzzer_Demo
  imports Buzzer_Collect
begin

text \<open>
  A concrete button the witnesses use: two players without measurements, \<open>ann\<close> and \<open>bob\<close>, armed at
  time 0 with the default settings in a given mode. The light is at 200, the deadline at 5200.
\<close>

definition demo_lib :: buzz_lib where
  "demo_lib = \<lparr>lib_hmac = \<lambda>_ _. replicate 32 0, lib_erfc = \<lambda>_. 1, lib_hypot = max\<rparr>"

definition demo_player :: "string \<Rightarrow> int \<Rightarrow> bz_player" where
  "demo_player x seat =
     \<lparr>pl_ID = x, pl_Score = 0, pl_ButtonsWon = 0, pl_Conn = None, pl_Eligible = True, pl_Seat = seat\<rparr>"

definition demo_press :: "string \<Rightarrow> press_in" where
  "demo_press x = \<lparr>pi_PlayerID = x, pi_Seq = 1, pi_PressLocal = 0, pi_LitLocal = 0\<rparr>"

definition demo_settings :: "buzz_mode \<Rightarrow> settings" where
  "demo_settings m = DefaultSettings\<lparr>bs_Mode := m\<rparr>"

definition demo_armed :: "buzz_mode \<Rightarrow> arm \<times> conns" where
  "demo_armed m =
     NewArm demo_lib 0 0 [demo_player ''ann'' 0, demo_player ''bob'' 1] (demo_settings m) [1] (\<lambda>_. NewConn 0)"

definition demo_pressed :: "buzz_mode \<Rightarrow> arm \<times> conns" where
  "demo_pressed m = snd (OnPress (demo_press ''ann'') 600 (demo_armed m))"

lemma demo_pressed_reach: "arm_reach demo_lib (demo_pressed m)"
  unfolding demo_pressed_def demo_armed_def
  by (rule arm_reach.step [OF arm_reach.arm arm_step.press]) (auto intro: conn_reach.new)

subsection \<open>What the button evaluates to\<close>

lemmas buzz_consts =
  SigmaSlackMs_def SigmaMinMs_def SigmaMaxMs_def SigmaColdMs_def ResidMinMs_def ResidMaxMs_def
  EpsInputMs_def TolMinMs_def DefaultTolCapMs_def LeadBaseMs_def LeadMinMs_def LeadMaxMs_def
  MADWindow_def UnsyncedMinSamples_def

lemmas f64_eval = f64_add_def f64_sub_def f64_mul_def f64_div_def f64_of_int_def

lemma snap_fresh:
  "snap t (NewConn t) =
    \<lparr>m_OffsetMs = 0, m_RttRefMs = 0, m_RttWsMs = 0, m_RttKernelMs = 0, m_SigmaMs = 20, m_TolMs = 60,
     m_UMs = 43, m_LeadMs = 80, m_Quality = QualityUnsynced, m_Flags = [], m_Samples = 0,
     sn_resid = 2, sn_rttMin = 0, sn_rttMax16 = 0, sn_rttMinRef = 0, sn_sigmaApp = 20,
     sn_sigmaAnchor = None, sn_anchorLo = None, sn_anchorHi = None, sn_anchored = False\<rparr>"
  by (simp add: snap_def NewConn_def Let_def snap_sigmaAnchor_def snap_anchorLo_def snap_anchorHi_def
      hasWS_def least_rtt_def recent_def rtt_max_def flagList_def newRing_def ring_list_def clamp_def
      buzz_consts f64_eval)

lemma demo_unit: "unitFloat demo_lib seed label = 0"
  by (simp add: unitFloat_def hmacBytes_def demo_lib_def be_uint64_def Let_def f64_eval eval_nat_numeral)

lemma demo_settings_fields:
  "bs_Mode (demo_settings m) = m" "bs_MinHumanMs (demo_settings m) = 100"
  "bs_ArmJitterMinMs (demo_settings m) = 200" "bs_ArmJitterMaxMs (demo_settings m) = 1200"
  "bs_PressWindowMs (demo_settings m) = 5000" "bs_MaxRttMs (demo_settings m) = 200"
  "bs_LateLightCreditMs (demo_settings m) = 20"
  by (simp_all add: demo_settings_def DefaultSettings_def Preset_def preset_names preset_base_def)

definition demo_ap :: "string \<Rightarrow> int \<Rightarrow> arm_player" where
  "demo_ap x seat =
     \<lparr>ap_id = x, ap_score = 0, ap_buttonsWon = 0, ap_seat = seat, ap_conn = None,
      ap_m = snap 0 (NewConn 0), ap_level = TrustFull, ap_mode = OnReceipt, ap_eligible = True,
      ap_armAtLocal = 200, ap_sendAt = 200, ap_tSend = 200, ap_lateAllow = 20, ap_lateCreditMax = 80,
      ap_acked = False, ap_ackExcess = 0, ap_pressed = False\<rparr>"

lemma demo_freeze: "freeze_player 0 200 (demo_settings m) (demo_player x seat) cs = demo_ap x seat"
  by (simp add: freeze_player_def demo_player_def Let_def snap_fresh demo_settings_fields
      recomputeCredit_def demo_ap_def f64_eval)

lemma demo_blank:
  "blank_arm demo_lib 0 0 (demo_settings m) [1] =
    \<lparr>ar_s = demo_settings m, ar_seed = [1], ar_id = armID demo_lib [1], ar_created = 0, ar_tArm = 200,
     ar_disarmAt = 5200, ar_drainEnd = 0, ar_state = StateArmed, ar_players = [], ar_byID = [],
     ar_plans = [], ar_presses = [], ar_audit = [], ar_hasFirst = False, ar_firstRecv = 0,
     ar_bestT = 0, ar_closeAt = 0, ar_result = zero_result, ar_rotateAfter = -1\<rparr>"
  by (simp add: blank_arm_def Let_def demo_unit demo_settings_fields f64_eval)

lemma demo_player_fields: "pl_Eligible (demo_player x seat)" "caps_store s (demo_player x seat) cs = cs"
  by (simp_all add: demo_player_def caps_store_def)

lemma demo_armed_fields:
  assumes "m \<noteq> ModeWrittenAll"
  shows "ar_tArm (fst (demo_armed m)) = 200" "ar_disarmAt (fst (demo_armed m)) = 5200"
    "ar_state (fst (demo_armed m)) = StateArmed" "ar_s (fst (demo_armed m)) = demo_settings m"
    "ar_players (fst (demo_armed m)) = [demo_ap ''ann'' 0, demo_ap ''bob'' 1]"
    "ar_byID (fst (demo_armed m)) = [(''ann'', 0), (''bob'', 1)]"
    "ar_presses (fst (demo_armed m)) = []" "ar_hasFirst (fst (demo_armed m)) = False"
    "ar_seed (fst (demo_armed m)) = [1]"
  using assms
  by (simp_all add: demo_armed_def NewArm_def demo_blank arm_player_step_def demo_player_fields demo_freeze
      demo_settings_fields demo_ap_def mput_def Let_def)

lemmas demo_press_unfold =
  demo_pressed_def OnPress_def split_beta demo_press_def Let_def note_press_def locked_at_def demo_ap_def
  score_press_def demo_settings_fields scoreAnchored_def react_bound_def arrival_time_def snap_fresh
  new_press_def anchored_time_def accept_press_def accept_unanchored_def clamp_def collect_press_def
  reschedule_def record_press_def upd_ap_def ack_of_def pending_players_def presumed_clean_def
  EpsInputMs_def f64_eval

lemma demo_pressed_anchored:
  "map pr_pid (ar_presses (fst (demo_pressed ModeAnchoredHybrid))) = [''ann'']"
  "map pr_reaction (ar_presses (fst (demo_pressed ModeAnchoredHybrid))) = [400]"
  "ar_state (fst (demo_pressed ModeAnchoredHybrid)) = StateCollecting"
  "bs_Mode (ar_s (fst (demo_pressed ModeAnchoredHybrid))) = ModeAnchoredHybrid"
  by (simp_all add: demo_press_unfold demo_armed_fields)

lemma demo_pressed_arrival:
  "map pr_pid (ar_presses (fst (demo_pressed ModeServerArrival))) = [''ann'']"
  "ar_state (fst (demo_pressed ModeServerArrival)) = StateCollecting"
  "bs_Mode (ar_s (fst (demo_pressed ModeServerArrival))) = ModeServerArrival"
  by (simp_all add: demo_press_unfold demo_armed_fields)

end
