(* ===== verification/Buzzer_Decision.thy ===== *)
theory Buzzer_Decision
  imports Buzzer_Demo
begin

text \<open>
  The decision: what the random choices, the tie-break rules and the modes make of a collection, and
  that a decision once taken stands. What is stated holds for every HMAC, error function and
  hypotenuse the standard library may provide.
\<close>

subsection \<open>Choices stay within the tie\<close>

text \<open>The rounding of \<open>int(u * float64(n))\<close> never turns a random number
  below 1 into the index \<open>n\<close>: every lottery picks an entry of its list, whatever bytes the HMAC
  returned.\<close>

theorem lottery_in_range:
  assumes "0 < n" and "n < 2 ^ 53"
  shows "lottery (unitFloat lib seed label) n < n"
  using unitFloat_range assms by (intro lottery_less)

theorem lottery_in_range_witness: "lottery (unitFloat demo_lib [1] ''tie'') 3 < 3"
  by (rule lottery_in_range) simp_all

lemma lottery_pick:
  "xs \<noteq> [] \<Longrightarrow> length xs < 2 ^ 53 \<Longrightarrow> xs ! lottery (unitFloat lib seed label) (length xs) \<in> set xs"
  using lottery_less [OF unitFloat_range, of "length xs" lib seed label] by simp

lemma argmax_less: "w \<noteq> [] \<Longrightarrow> argmax w < length w"
proof -
  assume "w \<noteq> []"
  have "fold (\<lambda>i best. if w ! best < w ! i then i else best) [0..<n] 0 < length w" if "n \<le> length w" for n
    using that \<open>w \<noteq> []\<close> by (induction n) auto
  then show ?thesis unfolding argmax_def by blast
qed

lemma min_fold:
  "fold (min_step key) xs (b, []) =
     (Min (insert b (key ` set xs)), filter (\<lambda>p. key p = Min (insert b (key ` set xs))) xs)"
proof (induction xs rule: rev_induct)
  case (snoc x xs)
  define m where "m = Min (insert b (key ` set xs))"
  have fin: "finite (insert b (key ` set xs))" "insert b (key ` set xs) \<noteq> {}" by simp_all
  have ins: "insert b (key ` set (xs @ [x])) = insert (key x) (insert b (key ` set xs))" by auto
  have m': "Min (insert b (key ` set (xs @ [x]))) = min (key x) m"
    unfolding ins m_def by (rule Min_insert [OF fin])
  have le: "p \<in> set xs \<Longrightarrow> m \<le> key p" for p by (simp add: m_def fin)
  have step: "fold (min_step key) (xs @ [x]) (b, []) = min_step key x (m, filter (\<lambda>p. key p = m) xs)"
    by (simp add: snoc.IH m_def)
  have "key x < m \<Longrightarrow> filter (\<lambda>p. key p = key x) xs = []" using le by (fastforce simp: filter_empty_conv)
  then show ?case unfolding step m' by (auto simp: min_step_def min_def)
qed simp

text \<open>\<open>pickMin\<close> is a lottery among the presses with the least key.\<close>

lemma pickMin_pick:
  assumes "tie \<noteq> []" and "length tie < 2 ^ 53"
  shows "\<exists>p \<in> set tie. pickMin tie (unitFloat lib seed label) key = pr_pid p \<and> (\<forall>q \<in> set tie. key p \<le> key q)"
proof -
  let ?m = "Min (key ` set tie)"
  have "insert (key (hd tie)) (key ` set tie) = key ` set tie" using assms(1) by (simp add: insert_absorb)
  then have c: "snd (fold (min_step key) tie (key (hd tie), [])) = filter (\<lambda>p. key p = ?m) tie"
    by (simp add: min_fold)
  have "?m \<in> key ` set tie" using assms(1) by (intro Min_in) auto
  then have "filter (\<lambda>p. key p = ?m) tie \<noteq> []" by (fastforce simp: filter_empty_conv)
  moreover have "length (filter (\<lambda>p. key p = ?m) tie) < 2 ^ 53"
    using assms(2) length_filter_le [of "\<lambda>p. key p = ?m" tie] by linarith
  ultimately have "filter (\<lambda>p. key p = ?m) tie !
      lottery (unitFloat lib seed label) (length (filter (\<lambda>p. key p = ?m) tie)) \<in> set (filter (\<lambda>p. key p = ?m) tie)"
    by (rule lottery_pick)
  then show ?thesis unfolding pickMin_def c Let_def by force
qed

lemma likelihood_length [simp]: "length (likelihood lib tie) = length tie"
  by (simp add: likelihood_def)

lemma break_tie_pick:
  assumes "tie \<noteq> []" and "length tie < 2 ^ 53" and "rs_Kind res = KindWinner"
  shows "(rs_Kind (break_tie lib a tie res) = KindWinner \<and>
          (\<exists>p \<in> set tie. rs_WinnerID (break_tie lib a tie res) = pr_pid p)) \<or>
         (rs_Kind (break_tie lib a tie res) = KindAllPlay \<and> bs_TieBreak (ar_s a) = TieBreakAllPlay \<and>
          rs_WinnerID (break_tie lib a tie res) = [] \<and> rs_Tie (break_tie lib a tie res) = map pr_pid tie)"
proof -
  let ?u = "unitFloat lib (ar_seed a) ''tie''"
  have "likelihood lib tie \<noteq> []" using assms(1) by (simp add: likelihood_def)
  then have "tie ! argmax (likelihood lib tie) \<in> set tie"
    "tie ! weightedPick (likelihood lib tie) ?u \<in> set tie"
    using assms argmax_less [of "likelihood lib tie"]
      weightedPick_less [OF unitFloat_range, of "likelihood lib tie" lib "ar_seed a" "''tie''"] by auto
  moreover have "tie ! lottery ?u (length tie) \<in> set tie" using assms by (intro lottery_pick)
  moreover have "\<exists>p \<in> set tie. pickMin tie ?u key = pr_pid p" for key
    using pickMin_pick [OF assms(1,2)] by blast
  ultimately show ?thesis
    by (cases "bs_TieBreak (ar_s a)") (auto simp: break_tie_def Let_def assms(3))
qed

subsection \<open>The winner\<close>

lemma ranked_presses_set [simp]: "set (ranked_presses a) = set (ar_presses a)"
  and ranked_presses_length [simp]: "length (ranked_presses a) = length (ar_presses a)"
  and ranked_presses_sorted: "sorted (map pr_tFinal (ranked_presses a))"
  by (simp_all add: ranked_presses_def)

lemma ranked_presses_Nil [simp]: "ranked_presses a = [] \<longleftrightarrow> ar_presses a = []"
  by (metis length_0_conv ranked_presses_length)

lemma hd_sorted_least:
  fixes f :: "'a \<Rightarrow> 'b :: linorder"
  shows "sorted (map f xs) \<Longrightarrow> x \<in> set xs \<Longrightarrow> f (hd xs) \<le> f x"
  by (cases xs) auto

lemma tie_set_facts:
  assumes "ranked \<noteq> []"
  shows "set (tie_set lib s ranked) \<subseteq> set ranked" "tie_set lib s ranked \<noteq> []"
    and "length (tie_set lib s ranked) \<le> length ranked"
  using assms length_filter_le [of _ "tl ranked"] by (cases ranked; auto simp: tie_set_def)+

text \<open>What \<open>decide\<close> answers: a press of the tie, a clean one if there is any, or a written duel.\<close>

definition best_of_tie :: "press list \<Rightarrow> press \<Rightarrow> bool" where
  "best_of_tie tie p \<longleftrightarrow> p \<in> set tie \<and> ((\<exists>q \<in> set tie. pr_clean q) \<longrightarrow> pr_clean p)"

lemma decide_pick:
  assumes "ranked \<noteq> []" and "length ranked < 2 ^ 53" and "rs_Kind res = KindWinner"
  shows "(rs_Kind (decide lib a ranked res) = KindWinner \<and>
          (\<exists>p. best_of_tie (tie_set lib (ar_s a) ranked) p \<and> rs_WinnerID (decide lib a ranked res) = pr_pid p)) \<or>
         (rs_Kind (decide lib a ranked res) = KindAllPlay \<and> bs_TieBreak (ar_s a) = TieBreakAllPlay \<and>
          rs_WinnerID (decide lib a ranked res) = [] \<and> 2 \<le> length (rs_Tie (decide lib a ranked res)))"
proof -
  let ?tie = "tie_set lib (ar_s a) ranked"
  let ?clean = "filter pr_clean ?tie"
  have len: "length ?tie < 2 ^ 53" "length ?clean < 2 ^ 53"
    using tie_set_facts(3) [OF assms(1), of lib "ar_s a"] length_filter_le [of pr_clean ?tie] assms(2) by linarith+
  consider (single) "length ?tie = 1"
    | (one) "1 < length ?tie" "length ?clean = 1"
    | (some) "1 < length ?tie" "1 < length ?clean" "length ?clean < length ?tie"
    | (all) "1 < length ?tie" "length ?clean = 0 \<or> length ?clean = length ?tie"
  proof -
    have "0 < length ?tie" using tie_set_facts(2) [OF assms(1), of lib "ar_s a"] by blast
    moreover have "length ?clean \<le> length ?tie" by (rule length_filter_le)
    ultimately show thesis using that by linarith
  qed
  then show ?thesis
  proof cases
    case single
    then have "?tie = [hd ranked]" by (simp add: tie_set_def)
    with single show ?thesis by (simp add: decide_def Let_def best_of_tie_def assms(3))
  next
    case one
    then have "hd ?clean \<in> set ?clean" by (metis hd_in_set length_0_conv zero_neq_one)
    then have "best_of_tie ?tie (hd ?clean)" by (simp add: best_of_tie_def)
    with one show ?thesis by (auto simp: decide_def Let_def assms(3))
  next
    case some
    let ?res = "res\<lparr>rs_Contested := True, rs_Tie := map pr_pid ?tie, rs_Rule := ''cleanFirst''\<rparr>"
    have eq: "decide lib a ranked res = break_tie lib a ?clean ?res"
      using some by (auto simp: decide_def Let_def)
    have "?clean \<noteq> []" and "rs_Kind ?res = KindWinner" using some assms(3) by auto
    moreover have "\<forall>p \<in> set ?clean. best_of_tie ?tie p" by (simp add: best_of_tie_def)
    moreover have "2 \<le> length ?clean" using some by simp
    ultimately show ?thesis unfolding eq using break_tie_pick [OF _ len(2), of ?res lib a] by (metis length_map)
  next
    case all
    let ?res = "res\<lparr>rs_Rule := ''single'', rs_Contested := True, rs_Tie := map pr_pid ?tie\<rparr>"
    have eq: "decide lib a ranked res = break_tie lib a ?tie ?res"
      using all by (auto simp: decide_def Let_def)
    have "\<forall>p \<in> set ?tie. pr_clean p" if h: "length ?clean = length ?tie"
      using length_filter_less [of _ ?tie pr_clean] h by fastforce
    then have "\<forall>p \<in> set ?tie. best_of_tie ?tie p"
      using all by (auto simp: best_of_tie_def filter_empty_conv)
    moreover have "2 \<le> length ?tie" and "rs_Kind ?res = KindWinner" using all assms(3) by simp_all
    ultimately show ?thesis
      unfolding eq using break_tie_pick [OF tie_set_facts(2) [OF assms(1)] len(1), of ?res lib a] by (metis length_map)
  qed
qed

lemma arm_ok_reach: "arm_reach lib (a, cs) \<Longrightarrow> arm_ok a"
  using collects.reachable [of lib "(a, cs)"] by simp

lemma ForceResolve_live:
  assumes "ar_state a \<noteq> StateResolved" "ar_state a \<noteq> StateDisarmed" "ar_presses a \<noteq> []"
  shows "\<exists>r. fst (ForceResolve lib now a) = pick_winner lib (a\<lparr>ar_state := StateResolved\<rparr>) (ranked_presses a) r \<and>
    rs_Kind r = KindWinner \<and> rs_Ranking r = map (ranking_of a) (ranked_presses a)"
proof -
  let ?a = "a\<lparr>ar_state := StateResolved\<rparr>"
  have same: "ranked_presses ?a = ranked_presses a" "ranking_of ?a = ranking_of a"
    by (simp_all add: ranked_presses_def ranking_of_def fun_eq_iff)
  have ne: "ranked_presses a \<noteq> []" using assms(3) by simp
  show ?thesis
    unfolding ForceResolve_def Let_def same
    by (simp only: assms(1,2) ne if_False simp_thms fst_conv) (rule exI, rule conjI, rule refl, simp)
qed

text \<open>C7 (functional). Deciding a reachable button with presses names a winner among those who
  pressed, or sends the tie to a written duel when the host chose that rule. In the modes that anchor
  stamps the winner is inside the tie window of the fastest press and, if any press in that window is
  presumed clean, the winner's is; where presses are ranked without a window (arrival, client
  reaction) nobody was faster.\<close>

theorem winner_is_best_of_tie:
  assumes "arm_reach lib (a, cs)" and "ar_presses a \<noteq> []" and "length (ar_presses a) < 2 ^ 53"
    and "ar_state a \<noteq> StateResolved" and "ar_state a \<noteq> StateDisarmed"
    and "fst (ForceResolve lib now a) = res"
  shows "(rs_Kind res = KindWinner \<and>
          (\<exists>p \<in> set (ar_presses a). rs_WinnerID res = pr_pid p \<and>
             (anchors (bs_Mode (ar_s a)) \<longrightarrow> best_of_tie (tie_set lib (ar_s a) (ranked_presses a)) p) \<and>
             (bs_Mode (ar_s a) = ModeServerArrival \<or> bs_Mode (ar_s a) = ModeClientReaction \<longrightarrow>
                (\<forall>q \<in> set (ar_presses a). pr_tFinal p \<le> pr_tFinal q)))) \<or>
         (rs_Kind res = KindAllPlay \<and> anchors (bs_Mode (ar_s a)) \<and> bs_TieBreak (ar_s a) = TieBreakAllPlay \<and>
          rs_WinnerID res = [] \<and> 2 \<le> length (rs_Tie res))"
proof -
  let ?r = "ranked_presses a" and ?u = "unitFloat lib (ar_seed a) ''tie''"
  obtain r where r: "rs_Kind r = KindWinner" "res = pick_winner lib (a\<lparr>ar_state := StateResolved\<rparr>) ?r r"
    using ForceResolve_live [OF assms(4,5,2)] assms(6) by blast
  have ne: "?r \<noteq> []" and len: "length ?r < 2 ^ 53" using assms(2,3) by simp_all
  then have hd: "hd ?r \<in> set (ar_presses a)" by (metis hd_in_set ranked_presses_set)
  have least: "\<forall>q \<in> set (ar_presses a). pr_tFinal (hd ?r) \<le> pr_tFinal q"
    using hd_sorted_least [OF ranked_presses_sorted] by simp
  show ?thesis
  proof (cases "bs_Mode (ar_s a)")
    case ModeServerArrival
    then show ?thesis using r hd least by (auto simp: pick_winner_def anchors_def)
  next
    case ModeRandomWindow
    have "?r ! lottery ?u (length ?r) \<in> set ?r" by (rule lottery_pick [OF ne len])
    then show ?thesis using ModeRandomWindow r by (auto simp: pick_winner_def anchors_def)
  next
    case ModeClientReaction
    let ?tie = "hd ?r # filter (\<lambda>p. pr_tFinal p = pr_tFinal (hd ?r)) (tl ?r)"
    have "length ?tie \<le> length ?r" using ne by (cases ?r) simp_all
    then have "length ?tie < 2 ^ 53" using len by linarith
    then have "?tie ! lottery ?u (length ?tie) \<in> set ?tie" by (intro lottery_pick) simp_all
    moreover have "\<forall>p \<in> set ?tie. p \<in> set (ar_presses a) \<and> pr_tFinal p = pr_tFinal (hd ?r)"
      using hd list.set_sel(2) [OF ne] by auto
    ultimately obtain p where p: "p = ?tie ! lottery ?u (length ?tie)"
      "p \<in> set (ar_presses a)" "pr_tFinal p = pr_tFinal (hd ?r)" by blast
    have "rs_WinnerID res = pr_pid p" "rs_Kind res = KindWinner"
      unfolding r(2) p(1) by (simp_all add: pick_winner_def ModeClientReaction Let_def r(1))
    then show ?thesis using ModeClientReaction p(2,3) least by (auto simp: anchors_def)
  next
    case ModeAnchoredHybrid
    then show ?thesis using r decide_pick [OF ne len r(1), of lib "a\<lparr>ar_state := StateResolved\<rparr>"]
        tie_set_facts(1) [OF ne, of lib "ar_s a"]
      by (auto simp: pick_winner_def anchors_def best_of_tie_def)
  next
    case ModeWrittenAll
    then show ?thesis using r decide_pick [OF ne len r(1), of lib "a\<lparr>ar_state := StateResolved\<rparr>"]
        tie_set_facts(1) [OF ne, of lib "ar_s a"]
      by (auto simp: pick_winner_def anchors_def best_of_tie_def)
  next
    case (ModeOther x)
    then show ?thesis using r decide_pick [OF ne len r(1), of lib "a\<lparr>ar_state := StateResolved\<rparr>"]
        tie_set_facts(1) [OF ne, of lib "ar_s a"]
      by (auto simp: pick_winner_def anchors_def best_of_tie_def)
  qed
qed

theorem winner_is_best_of_tie_witness:
  "rs_WinnerID (fst (ForceResolve demo_lib 900 (fst (demo_pressed ModeAnchoredHybrid)))) = ''ann''"
proof -
  let ?a = "fst (demo_pressed ModeAnchoredHybrid)"
  have reach: "arm_reach demo_lib (?a, snd (demo_pressed ModeAnchoredHybrid))" by (simp add: demo_pressed_reach)
  have pids: "pr_pid ` set (ar_presses ?a) = {''ann''}"
    using demo_pressed_anchored(1) by (metis list.set(1) list.set(2) set_map)
  have ne: "ar_presses ?a \<noteq> []" "length (ar_presses ?a) < 2 ^ 53"
    using demo_pressed_anchored(1) by (auto dest: arg_cong [where f = length])
  have tb: "bs_TieBreak (ar_s ?a) \<noteq> TieBreakAllPlay"
    by (simp add: demo_press_unfold demo_armed_fields demo_settings_def DefaultSettings_def Preset_def
        preset_names preset_base_def)
  from winner_is_best_of_tie [OF reach ne _ _ refl, of 900] demo_pressed_anchored(3) tb
  obtain p where "p \<in> set (ar_presses ?a)" "rs_WinnerID (fst (ForceResolve demo_lib 900 ?a)) = pr_pid p"
    by auto
  with pids show ?thesis by auto
qed

lemma hd_sort_key:
  assumes "xs \<noteq> []"
  shows "hd (sort_key f xs) = hd (filter (\<lambda>x. \<forall>y \<in> set xs. f x \<le> f y) xs)"
proof -
  let ?ys = "sort_key f xs" and ?k = "f (hd (sort_key f xs))"
  have ne: "?ys \<noteq> []" using assms by (metis length_0_conv length_sort)
  have least: "y \<in> set xs \<Longrightarrow> ?k \<le> f y" for y using hd_sorted_least [of f ?ys y] by simp
  have "filter (\<lambda>x. f x = ?k) ?ys = hd ?ys # filter (\<lambda>x. f x = ?k) (tl ?ys)"
    using ne by (cases ?ys) auto
  moreover have "filter (\<lambda>x. f x = ?k) ?ys = filter (\<lambda>x. f x = ?k) xs" by (rule sort_key_stable)
  moreover have "filter (\<lambda>x. f x = ?k) xs = filter (\<lambda>x. \<forall>y \<in> set xs. f x \<le> f y) xs"
  proof (rule filter_cong [OF refl])
    fix x assume x: "x \<in> set xs"
    have "hd ?ys \<in> set xs" using ne hd_in_set [of ?ys] by simp
    then show "f x = ?k \<longleftrightarrow> (\<forall>y \<in> set xs. f x \<le> f y)" using least x by (auto intro: order_antisym)
  qed
  ultimately show ?thesis by (metis list.sel(1))
qed

text \<open>Without a race for fairness (\<open>serverArrival\<close>) the button goes to the press
  that reached the server first; of presses received at the same instant, to the one handled first.\<close>

theorem first_arrival_wins:
  assumes "arm_reach lib (a, cs)" and "bs_Mode (ar_s a) = ModeServerArrival" and "ar_presses a \<noteq> []"
    and "ar_state a \<noteq> StateResolved" and "ar_state a \<noteq> StateDisarmed"
  shows "rs_WinnerID (fst (ForceResolve lib now a)) =
    pr_pid (hd (filter (\<lambda>p. \<forall>q \<in> set (ar_presses a). pr_tRecv p \<le> pr_tRecv q) (ar_presses a)))"
proof -
  have recv: "p \<in> set (ar_presses a) \<Longrightarrow> pr_tFinal p = pr_tRecv p" for p
    using arm_okD(5) [OF arm_ok_reach [OF assms(1)]] assms(2) by (simp add: press_rule_def)
  obtain r where "fst (ForceResolve lib now a) =
      pick_winner lib (a\<lparr>ar_state := StateResolved\<rparr>) (ranked_presses a) r"
    using ForceResolve_live [OF assms(4,5,3)] by blast
  then have "rs_WinnerID (fst (ForceResolve lib now a)) = pr_pid (hd (sort_key pr_tFinal (ar_presses a)))"
    using assms(2) by (simp add: pick_winner_def ranked_presses_def)
  also have "hd (sort_key pr_tFinal (ar_presses a)) =
      hd (filter (\<lambda>p. \<forall>q \<in> set (ar_presses a). pr_tFinal p \<le> pr_tFinal q) (ar_presses a))"
    by (rule hd_sort_key [OF assms(3)])
  also have "filter (\<lambda>p. \<forall>q \<in> set (ar_presses a). pr_tFinal p \<le> pr_tFinal q) (ar_presses a) =
      filter (\<lambda>p. \<forall>q \<in> set (ar_presses a). pr_tRecv p \<le> pr_tRecv q) (ar_presses a)"
    by (rule filter_cong [OF refl]) (simp add: recv)
  finally show ?thesis .
qed

theorem first_arrival_wins_witness:
  "rs_WinnerID (fst (ForceResolve demo_lib 600 (fst (demo_pressed ModeServerArrival)))) = ''ann''"
proof -
  let ?a = "fst (demo_pressed ModeServerArrival)"
  have reach: "arm_reach demo_lib (?a, snd (demo_pressed ModeServerArrival))" by (simp add: demo_pressed_reach)
  obtain p where p: "ar_presses ?a = [p]" "pr_pid p = ''ann''" using demo_pressed_arrival(1) by auto
  from first_arrival_wins [OF reach demo_pressed_arrival(3)] show ?thesis
    using p demo_pressed_arrival(2) by simp
qed

subsection \<open>The collection is fair and the decision stands\<close>

text \<open>C6 (invariant). In every reachable button each player has at most one press in the
  collection, pressed before the button disarmed. In the modes that anchor stamps no collected press
  is faster than the human floor, and a time taken from a client's stamp lies within the trust radius
  of the arrival the server saw and never after the receipt, whatever the client claims.\<close>

theorem presses_are_fair:
  assumes "arm_reach lib (a, cs)"
  shows "distinct (map pr_pid (ar_presses a)) \<and>
    (\<forall>p \<in> set (ar_presses a). pr_tFinal p \<le> ar_disarmAt a \<and>
       (anchors (bs_Mode (ar_s a)) \<longrightarrow> fair_press a p))"
  using arm_okD(5,6) [OF arm_ok_reach [OF assms]] by (simp add: press_rule_def)

theorem presses_are_fair_witness:
  "\<exists>p \<in> set (ar_presses (fst (demo_pressed ModeAnchoredHybrid))).
     pr_reaction p = 400 \<and> fair_press (fst (demo_pressed ModeAnchoredHybrid)) p"
proof -
  let ?a = "fst (demo_pressed ModeAnchoredHybrid)"
  have reach: "arm_reach demo_lib (?a, snd (demo_pressed ModeAnchoredHybrid))" by (simp add: demo_pressed_reach)
  obtain p where p: "ar_presses ?a = [p]" "pr_reaction p = 400" using demo_pressed_anchored(2) by auto
  with presses_are_fair [OF reach] demo_pressed_anchored(4) show ?thesis by (simp add: anchors_def)
qed

lemma decided_step:
  assumes "arm_step lib st st'" and "ar_state (fst st) = StateResolved \<or> ar_state (fst st) = StateDisarmed"
  shows "ar_result (fst st') = ar_result (fst st) \<and> ar_state (fst st') = ar_state (fst st) \<and>
    ar_presses (fst st') = ar_presses (fst st)"
  using assms
proof (induction rule: arm_step.induct)
  case (press t st inp)
  obtain a cs where st: "st = (a, cs)" by (cases st)
  show ?case
  proof (cases rule: OnPress_cases [of inp t a cs])
    case (late i cs')
    then show ?thesis by (simp add: st latePress_def Let_def split_beta record_press_def)
  qed (use press st in \<open>auto simp: record_press_def\<close>)
qed (auto simp: OnArmAck_def OnSent_def SetEligible_def SetRotateAfter_def OnMisfire_def Resolve_def
    ForceResolve_def Disarm_def Let_def split_beta split: option.split)

text \<open>C8 (safety). Once a button is resolved or disarmed nothing changes the answer: no later press,
  acknowledgement, disconnection, measurement, deadline or host action alters the result, the state or
  the collection, and asking again returns the same result.\<close>

theorem decision_stands:
  assumes "(arm_step lib)\<^sup>*\<^sup>* (a, cs) (a', cs')"
    and "ar_state a = StateResolved \<or> ar_state a = StateDisarmed"
  shows "ar_result a' = ar_result a \<and> ar_state a' = ar_state a \<and> ar_presses a' = ar_presses a \<and>
    Resolve lib now a' = (Some (ar_result a), a')"
proof -
  have "ar_result (fst st) = ar_result a \<and> ar_state (fst st) = ar_state a \<and> ar_presses (fst st) = ar_presses a"
    if h: "(arm_step lib)\<^sup>*\<^sup>* (a, cs) st" for st
    using h
  proof (induction rule: rtranclp_induct)
    case (step st st')
    then show ?case using decided_step [OF step.hyps(2)] assms(2) by auto
  qed simp
  from this [OF assms(1)] show ?thesis using assms(2) by (auto simp: Resolve_def)
qed

theorem decision_stands_witness:
  "fst (Resolve demo_lib 9 (fst (snd (OnPress (demo_press ''ann'') 600
      (Disarm 5 ''skip'' (fst (demo_armed ModeAnchoredHybrid)), \<lambda>_. NewConn 0))))) =
   Some (ar_result (Disarm 5 ''skip'' (fst (demo_armed ModeAnchoredHybrid))))"
proof -
  let ?a = "Disarm 5 ''skip'' (fst (demo_armed ModeAnchoredHybrid))"
  have "arm_step demo_lib (?a, \<lambda>_. NewConn 0) (snd (OnPress (demo_press ''ann'') 600 (?a, \<lambda>_. NewConn 0)))"
    by (rule arm_step.press) simp
  then have "(arm_step demo_lib)\<^sup>*\<^sup>* (?a, \<lambda>_. NewConn 0)
      (fst (snd (OnPress (demo_press ''ann'') 600 (?a, \<lambda>_. NewConn 0))),
       snd (snd (OnPress (demo_press ''ann'') 600 (?a, \<lambda>_. NewConn 0))))" by simp
  then show ?thesis using decision_stands [where now = 9]
    by (fastforce simp: Disarm_def demo_armed_fields)
qed

subsection \<open>Refused presses\<close>

lemma lockout_press_blank:
  "pr_tArr (fst (press_lockout s k pr status cs)) = pr_tArr pr"
  "pr_tFinal (fst (press_lockout s k pr status cs)) = pr_tFinal pr"
  "pr_reaction (fst (press_lockout s k pr status cs)) = pr_reaction pr"
  "pa_ReactionMs (fst (snd (press_lockout s k pr status cs))) = pr_reaction pr"
  by (simp_all add: press_lockout_def Let_def split_beta split: option.split)

lemma accept_press_pending: "pa_Status (fst (snd (accept_press ap pr cs))) = StatusPending"
  by (simp add: accept_press_def Let_def split_beta ack_of_def)

text \<open>C27 (error). In the modes that anchor stamps, a press refused as a false start or as faster
  than a human is acknowledged and audited without its evidence: arrival, final time and reaction are
  zero, because the refusal returns the press as it was before it was scored.\<close>

theorem refusal_is_recorded_blank:
  assumes "anchors (bs_Mode (ar_s a))" and "score_press a i inp t cs = (pr, ack, cs')"
    and "pa_Status ack \<noteq> StatusPending"
  shows "pr_tArr pr = 0 \<and> pr_tFinal pr = 0 \<and> pr_reaction pr = 0 \<and> pa_ReactionMs ack = 0 \<and>
    au_TArr (audit_of a pr (pa_Status ack)) = 0 \<and> au_Reaction (audit_of a pr (pa_Status ack)) = 0"
proof -
  let ?ap = "ar_players a ! i" and ?new = "new_press (ar_players a ! i) i inp t"
  have eq: "score_press a i inp t cs = scoreAnchored a ?ap inp ?new cs"
    using assms(1) by (simp add: score_press_def anchors_def Let_def split: buzz_mode.split)
  have "\<exists>status cs0. (pr, ack, cs') = press_lockout (ar_s a) (ap_conn ?ap) ?new status cs0"
    using assms(2,3) accept_press_pending unfolding eq scoreAnchored_def Let_def split_beta
    by (auto split: if_splits dest: sym) (metis fst_conv snd_conv)+
  then obtain status cs0 where "(pr, ack, cs') = press_lockout (ar_s a) (ap_conn ?ap) ?new status cs0" by blast
  then have "pr = fst (press_lockout (ar_s a) (ap_conn ?ap) ?new status cs0)"
    "ack = fst (snd (press_lockout (ar_s a) (ap_conn ?ap) ?new status cs0))" by (metis fst_conv, metis fst_conv snd_conv)
  then show ?thesis by (simp add: lockout_press_blank new_press_def audit_of_def)
qed

theorem refusal_is_recorded_blank_witness:
  "\<exists>pr ack. fst (score_press (fst (demo_armed ModeAnchoredHybrid)) 0 (demo_press ''ann'') 250 (\<lambda>_. NewConn 0)) = pr \<and>
     fst (snd (score_press (fst (demo_armed ModeAnchoredHybrid)) 0 (demo_press ''ann'') 250 (\<lambda>_. NewConn 0))) = ack \<and>
     pa_Status ack = StatusTooEarly \<and> pr_tRecv pr = 250 \<and> pr_reaction pr = 0"
proof -
  let ?a = "fst (demo_armed ModeAnchoredHybrid)"
  obtain pr ack cs' where sc: "score_press ?a 0 (demo_press ''ann'') 250 (\<lambda>_. NewConn 0) = (pr, ack, cs')"
    by (rule prod_cases3)
  have early: "pa_Status (fst (snd (score_press ?a 0 (demo_press ''ann'') 250 (\<lambda>_. NewConn 0)))) = StatusTooEarly"
    "pr_tRecv (fst (score_press ?a 0 (demo_press ''ann'') 250 (\<lambda>_. NewConn 0))) = 250"
    by (simp_all add: demo_press_unfold demo_armed_fields press_lockout_def)
  have "anchors (bs_Mode (ar_s ?a))" by (simp add: demo_armed_fields demo_settings_fields anchors_def)
  from refusal_is_recorded_blank [OF this sc] early sc show ?thesis by simp
qed

end
