(* ===== verification/Go_Strings.thy ===== *)
theory Go_Strings
  imports Float64
begin

text \<open>
  Go strings and what the program uses of \<open>strings\<close>, \<open>unicode/utf8\<close> and \<open>strconv\<close>. A string is a
  list of bytes. UTF-8 is decoded the way \<open>utf8.DecodeRune\<close> does it: an invalid byte is a rune of its
  own. \<open>TrimSpace\<close> is exact (Unicode's White Space). Case mapping is exact for ASCII strings, which
  Go treats apart; the Unicode tables behind it are the parameter \<open>go_lib\<close>, as are the normalisation
  forms, the parsing of URLs and the parsing and printing of floating point numbers.
\<close>

record go_lib =
  gl_upper :: "string \<Rightarrow> string"
  gl_lower :: "string \<Rightarrow> string"
  gl_fold :: "string \<Rightarrow> string \<Rightarrow> bool"
  gl_nfc :: "string \<Rightarrow> string"
  gl_nfd :: "string \<Rightarrow> string"
  gl_ParseFloat :: "string \<Rightarrow> f64 option"
  gl_FormatFloat :: "f64 \<Rightarrow> string"
  gl_ParseURL :: "string \<Rightarrow> (string \<times> string) option"

abbreviation byte :: "char \<Rightarrow> nat" where
  "byte c \<equiv> of_char c"

subsection \<open>Runes\<close>

definition in_range :: "nat \<Rightarrow> nat \<Rightarrow> char \<Rightarrow> bool" where
  "in_range lo hi c \<longleftrightarrow> lo \<le> byte c \<and> byte c \<le> hi"

abbreviation cont_byte :: "char \<Rightarrow> bool" where
  "cont_byte \<equiv> in_range 128 191"

text \<open>How many bytes the rune at the front of a string takes; 1 for an invalid byte.\<close>

definition at_is :: "(char \<Rightarrow> bool) \<Rightarrow> nat \<Rightarrow> string \<Rightarrow> bool" where
  "at_is P i t \<longleftrightarrow> i < length t \<and> P (t ! i)"

definition lead3 :: "char \<Rightarrow> string \<Rightarrow> bool" where
  "lead3 c t \<longleftrightarrow>
     in_range 224 224 c \<and> at_is (in_range 160 191) 0 t \<or>
     in_range 237 237 c \<and> at_is (in_range 128 159) 0 t \<or>
     (in_range 225 236 c \<or> in_range 238 239 c) \<and> at_is cont_byte 0 t"

definition lead4 :: "char \<Rightarrow> string \<Rightarrow> bool" where
  "lead4 c t \<longleftrightarrow>
     in_range 240 240 c \<and> at_is (in_range 144 191) 0 t \<or>
     in_range 244 244 c \<and> at_is (in_range 128 143) 0 t \<or>
     in_range 241 243 c \<and> at_is cont_byte 0 t"

definition rune_len :: "string \<Rightarrow> nat" where
  "rune_len s =
     (case s of
        [] \<Rightarrow> 0
      | c # t \<Rightarrow>
          if in_range 194 223 c \<and> at_is cont_byte 0 t then 2
          else if lead3 c t \<and> at_is cont_byte 1 t then 3
          else if lead4 c t \<and> at_is cont_byte 1 t \<and> at_is cont_byte 2 t then 4
          else 1)"

lemma rune_len_pos: "s \<noteq> [] \<Longrightarrow> 0 < rune_len s"
  by (auto simp: rune_len_def split: list.split)

text \<open>A string as the sequence of the encodings of its runes.\<close>

function runes :: "string \<Rightarrow> string list" where
  "runes s = (if s = [] then [] else take (rune_len s) s # runes (drop (rune_len s) s))"
  by auto
termination
  by (relation "measure length") (auto simp: rune_len_pos)

declare runes.simps [simp del]

definition RuneCount :: "string \<Rightarrow> nat" where
  "RuneCount s = length (runes s)"

lemma runes_Nil [simp]: "runes [] = []"
  by (simp add: runes.simps)

lemma runes_ne: "s \<noteq> [] \<Longrightarrow> runes s = take (rune_len s) s # runes (drop (rune_len s) s)"
  by (simp add: runes.simps [of s])

lemma concat_runes [simp]: "concat (runes s) = s"
proof (induction s rule: runes.induct)
  case (1 s)
  then show ?case by (cases "s = []") (simp_all add: runes_ne)
qed

lemma at_is_length: "at_is P i t \<Longrightarrow> i < length t"
  by (simp add: at_is_def)

lemma rune_len_le: "rune_len s \<le> length s"
  by (auto simp: rune_len_def Suc_le_eq dest: at_is_length split: list.split)

lemma RuneCount_le: "RuneCount s \<le> length s"
proof (induction s rule: runes.induct)
  case (1 s)
  show ?case
  proof (cases "s = []")
    case False
    then show ?thesis
      using "1" rune_len_pos [of s] rune_len_le [of s] by (auto simp: RuneCount_def runes_ne)
  qed (simp add: RuneCount_def)
qed

lemma runes_eq_Nil [simp]: "runes s = [] \<longleftrightarrow> s = []"
  by (cases "s = []") (simp_all add: runes_ne)

text \<open>No rune reaches across a byte that is no continuation.\<close>

definition starts_rune :: "string \<Rightarrow> bool" where
  "starts_rune w \<longleftrightarrow> w = [] \<or> \<not> cont_byte (hd w)"

lemma at_is_append:
  assumes "starts_rune w" and "i \<le> length t" and "\<And>c. P c \<Longrightarrow> cont_byte c"
  shows "at_is P i (t @ w) = at_is P i t"
  using assms by (cases "i = length t") (auto simp: at_is_def starts_rune_def nth_append hd_conv_nth)

lemma cont_ranges:
  "in_range 160 191 c \<Longrightarrow> cont_byte c" "in_range 128 159 c \<Longrightarrow> cont_byte c"
  "in_range 144 191 c \<Longrightarrow> cont_byte c" "in_range 128 143 c \<Longrightarrow> cont_byte c"
  by (auto simp: in_range_def)

lemma lead_append:
  assumes "starts_rune w"
  shows "lead3 c (t @ w) = lead3 c t" and "lead4 c (t @ w) = lead4 c t"
  using at_is_append [OF assms, of 0 t] cont_ranges by (simp_all add: lead3_def lead4_def)

lemma lead_length: "lead3 c t \<Longrightarrow> 1 \<le> length t" "lead4 c t \<Longrightarrow> 1 \<le> length t"
  by (auto simp: lead3_def lead4_def Suc_le_eq dest: at_is_length)

lemma rune_len_append:
  assumes "s \<noteq> []" and "starts_rune w"
  shows "rune_len (s @ w) = rune_len s"
proof -
  obtain c t where s: "s = c # t" using assms(1) by (cases s) auto
  note app = at_is_append [OF assms(2), of _ t cont_byte]
  have "at_is cont_byte 0 (t @ w) = at_is cont_byte 0 t" by (rule app) auto
  moreover have "lead3 c t \<Longrightarrow> at_is cont_byte 1 (t @ w) = at_is cont_byte 1 t"
    by (rule app) (auto dest: lead_length)
  moreover have "lead4 c t \<Longrightarrow> at_is cont_byte 1 (t @ w) = at_is cont_byte 1 t"
    by (rule app) (auto dest: lead_length)
  moreover have "at_is cont_byte 1 t \<Longrightarrow> at_is cont_byte 2 (t @ w) = at_is cont_byte 2 t"
    by (rule app) (auto dest: at_is_length)
  ultimately show ?thesis by (auto simp: s rune_len_def lead_append [OF assms(2)])
qed

lemma runes_append: "starts_rune w \<Longrightarrow> runes (s @ w) = runes s @ runes w"
proof (induction s rule: runes.induct)
  case (1 s)
  show ?case
  proof (cases "s = []")
    case False
    then have "runes (s @ w) = take (rune_len s) (s @ w) # runes (drop (rune_len s) (s @ w))"
      using rune_len_append [OF False "1.prems"] by (subst runes_ne) simp_all
    with False show ?thesis
      using "1.IH" [OF False "1.prems"] rune_len_le [of s] by (simp add: runes_ne)
  qed simp
qed

subsection \<open>White space\<close>

text \<open>The UTF-8 encodings of the runes with the property White Space.\<close>

definition bytes :: "nat list \<Rightarrow> string" where
  "bytes ns = map char_of ns"

definition white_runes :: "string list" where
  "white_runes =
     map (\<lambda>n. bytes [n]) [9, 10, 11, 12, 13, 32] @
     [bytes [194, 133], bytes [194, 160], bytes [225, 154, 128]] @
     map (\<lambda>n. bytes [226, 128, n]) ([128..<139] @ [168, 169, 175]) @
     [bytes [226, 129, 159], bytes [227, 128, 128]]"

definition at_front :: "string list \<Rightarrow> string \<Rightarrow> string option" where
  "at_front ws s = List.find (\<lambda>w. prefix w s) ws"

lemma at_front_Some: "at_front ws s = Some w \<Longrightarrow> w \<in> set ws \<and> prefix w s"
  by (auto simp: at_front_def find_Some_iff)

function strip :: "string list \<Rightarrow> string \<Rightarrow> string" where
  "strip ws s =
     (case at_front ws s of
        None \<Rightarrow> s
      | Some w \<Rightarrow> if w = [] then s else strip ws (drop (length w) s))"
  by pat_completeness auto
termination
  by (relation "measure (\<lambda>(ws, s). length s)")
     (auto dest!: at_front_Some simp: prefix_def)

declare strip.simps [simp del]

definition TrimLeft :: "string \<Rightarrow> string" where
  "TrimLeft s = strip white_runes s"

definition TrimRight :: "string \<Rightarrow> string" where
  "TrimRight s = rev (strip (map rev white_runes) (rev s))"

definition TrimSpace :: "string \<Rightarrow> string" where
  "TrimSpace s = TrimRight (TrimLeft s)"

definition trimmed :: "string \<Rightarrow> bool" where
  "trimmed s \<longleftrightarrow> (\<forall>w \<in> set white_runes. \<not> prefix w s \<and> \<not> suffix w s)"

lemma white_runes_ne: "w \<in> set white_runes \<Longrightarrow> w \<noteq> []"
  by (auto simp: white_runes_def bytes_def)

lemma strip_id: "(\<And>w. w \<in> set ws \<Longrightarrow> \<not> prefix w s) \<Longrightarrow> strip ws s = s"
  by (subst strip.simps) (auto dest: at_front_Some split: option.split)

lemma strip_done: "[] \<notin> set ws \<Longrightarrow> w \<in> set ws \<Longrightarrow> \<not> prefix w (strip ws s)"
proof (induction ws s rule: strip.induct)
  case (1 ws s)
  show ?case
  proof (cases "at_front ws s")
    case None
    then have "\<not> prefix w s" using "1.prems" by (auto simp: at_front_def find_None_iff)
    with None show ?thesis by (subst strip.simps) simp
  next
    case (Some v)
    with "1.prems" have "v \<noteq> []" by (auto dest: at_front_Some)
    with Some "1" show ?thesis by (subst strip.simps) simp
  qed
qed

lemma strip_split: "\<exists>ps. set ps \<subseteq> set ws \<and> s = concat ps @ strip ws s"
proof (induction ws s rule: strip.induct)
  case (1 ws s)
  show ?case
  proof (cases "\<exists>v. at_front ws s = Some v \<and> v \<noteq> []")
    case True
    then obtain v where v: "at_front ws s = Some v" "v \<noteq> []" by blast
    from "1.IH" [OF v] obtain ps
      where ps: "set ps \<subseteq> set ws" "drop (length v) s = concat ps @ strip ws (drop (length v) s)" by blast
    have "strip ws s = strip ws (drop (length v) s)" using v by (subst strip.simps) simp
    with ps have "drop (length v) s = concat ps @ strip ws s" by simp
    moreover have "v \<in> set ws" "s = v @ drop (length v) s"
      using at_front_Some [OF v(1)] by (auto simp: prefix_def)
    ultimately have "set (v # ps) \<subseteq> set ws \<and> s = concat (v # ps) @ strip ws s" using ps(1) by auto
    then show ?thesis by blast
  next
    case False
    then have "strip ws s = s" by (subst strip.simps) (auto split: option.split)
    then show ?thesis by (intro exI [of _ "[]"]) simp
  qed
qed

lemma TrimRight_split: "\<exists>qs. set qs \<subseteq> set white_runes \<and> s = TrimRight s @ concat qs"
proof -
  obtain ps where ps: "set ps \<subseteq> rev ` set white_runes"
    "rev s = concat ps @ strip (map rev white_runes) (rev s)"
    using strip_split [of "map rev white_runes" "rev s"] by auto
  then have "s = TrimRight s @ rev (concat ps)"
    unfolding TrimRight_def by (metis rev_append rev_rev_ident)
  moreover have "rev (concat ps) = concat (map rev (rev ps))" by (simp add: rev_concat rev_map)
  moreover have "set (map rev (rev ps)) \<subseteq> set white_runes" using ps(1) by force
  ultimately show ?thesis by metis
qed

lemma TrimSpace_split:
  "\<exists>ps qs. set ps \<subseteq> set white_runes \<and> set qs \<subseteq> set white_runes \<and> s = concat ps @ TrimSpace s @ concat qs"
  using strip_split [of white_runes s] TrimRight_split [of "TrimLeft s"]
  unfolding TrimSpace_def TrimLeft_def by metis

lemma trimmed_id [simp]:
  assumes "trimmed s"
  shows "TrimSpace s = s"
proof -
  have "strip white_runes s = s" "strip (map rev white_runes) (rev s) = rev s"
    using assms by (auto intro!: strip_id simp: trimmed_def suffix_to_prefix)
  then show ?thesis by (simp add: TrimSpace_def TrimLeft_def TrimRight_def)
qed

lemma trimmed_TrimSpace [simp]: "trimmed (TrimSpace s)"
proof -
  have ne: "[] \<notin> set white_runes" "[] \<notin> set (map rev white_runes)" using white_runes_ne by auto
  have "\<not> prefix w (TrimSpace s)" if "w \<in> set white_runes" for w
  proof
    assume "prefix w (TrimSpace s)"
    moreover have "prefix (TrimSpace s) (TrimLeft s)"
      using TrimRight_split [of "TrimLeft s"] by (metis TrimSpace_def prefixI)
    ultimately have "prefix w (strip white_runes s)" using TrimLeft_def prefix_order.trans by metis
    with strip_done [OF ne(1) that] show False by blast
  qed
  moreover have "\<not> suffix w (TrimSpace s)" if "w \<in> set white_runes" for w
    using strip_done [OF ne(2), of "rev w" "rev (TrimLeft s)"] that
    by (auto simp: TrimSpace_def TrimRight_def suffix_to_prefix)
  ultimately show ?thesis by (auto simp: trimmed_def)
qed

lemma TrimSpace_idem [simp]: "TrimSpace (TrimSpace s) = TrimSpace s"
  by simp

lemma trimmed_Nil [simp]: "trimmed []"
  using white_runes_ne by (auto simp: trimmed_def)

lemma TrimSpace_eq_iff: "TrimSpace s = s \<longleftrightarrow> trimmed s"
  by (metis trimmed_TrimSpace trimmed_id)

lemma set_TrimSpace: "set (TrimSpace s) \<subseteq> set s"
proof -
  obtain ps qs where "s = concat ps @ TrimSpace s @ concat qs" using TrimSpace_split by blast
  then have "set s = set (concat ps) \<union> set (TrimSpace s) \<union> set (concat qs)" by (metis set_append sup_assoc)
  then show ?thesis by blast
qed

text \<open>A string that begins and ends with ASCII characters other than white space is trimmed.\<close>

definition ink :: "char \<Rightarrow> bool" where
  "ink c \<longleftrightarrow> byte c < 128 \<and> \<not> (9 \<le> byte c \<and> byte c \<le> 13) \<and> byte c \<noteq> 32"

lemma white_runes_no_ink: "w \<in> set white_runes \<Longrightarrow> \<not> ink (hd w) \<and> \<not> ink (last w)"
  by (auto simp: white_runes_def bytes_def ink_def)

lemma ink_trimmed: "s \<noteq> [] \<Longrightarrow> ink (hd s) \<Longrightarrow> ink (last s) \<Longrightarrow> trimmed s"
  using white_runes_no_ink white_runes_ne
  by (fastforce simp: trimmed_def prefix_def suffix_def)

text \<open>Trimming takes whole runes away.\<close>

lemma white_rune_len: "w \<in> set white_runes \<Longrightarrow> rune_len (w @ r) = length w"
  by (auto simp: white_runes_def bytes_def rune_len_def lead3_def lead4_def at_is_def in_range_def
      nth_append)

lemma white_starts_rune: "w \<in> set white_runes \<Longrightarrow> starts_rune (w @ r)"
  by (auto simp: white_runes_def bytes_def starts_rune_def in_range_def)

lemma runes_white: "set ps \<subseteq> set white_runes \<Longrightarrow> runes (concat ps @ r) = ps @ runes r"
proof (induction ps)
  case (Cons w ps)
  then have w: "w \<in> set white_runes" by simp
  then have "runes (w @ (concat ps @ r)) = w # runes (concat ps @ r)"
    using white_rune_len [OF w] white_runes_ne by (subst runes_ne) auto
  with Cons show ?case by simp
qed simp

lemma runes_split_white:
  assumes "set ps \<subseteq> set white_runes" and "set qs \<subseteq> set white_runes"
  shows "runes (concat ps @ s @ concat qs) = ps @ runes s @ qs"
proof -
  have "starts_rune (concat qs)"
    using assms(2) by (cases qs) (auto intro: white_starts_rune simp: starts_rune_def [of "[]"])
  then show ?thesis
    using runes_white [OF assms(1)] runes_white [OF assms(2), of "[]"] by (simp add: runes_append)
qed

lemma RuneCount_TrimSpace: "RuneCount (TrimSpace s) \<le> RuneCount s"
proof -
  obtain ps qs where pq: "set ps \<subseteq> set white_runes" "set qs \<subseteq> set white_runes"
    "s = concat ps @ TrimSpace s @ concat qs" using TrimSpace_split by blast
  have "runes s = ps @ runes (TrimSpace s) @ qs" using runes_split_white [OF pq(1,2)] pq(3) by metis
  then show ?thesis by (simp add: RuneCount_def)
qed

subsection \<open>Trimming is unique\<close>

lemma prefix_without:
  assumes "prefix w (a @ c # b)" and "c \<notin> set w"
  shows "prefix w a"
proof -
  have "\<not> length a < length w"
  proof
    assume l: "length a < length w"
    then have "w ! length a = (a @ c # b) ! length a" using assms(1) by (metis nth_append prefix_def)
    with l assms(2) show False by (metis nth_append_length nth_mem)
  qed
  then show ?thesis using prefix_length_prefix [OF assms(1), of a] by simp
qed

definition inner :: "('a \<Rightarrow> bool) \<Rightarrow> 'a list \<Rightarrow> 'a list" where
  "inner W xs = rev (dropWhile W (rev (dropWhile W xs)))"

lemma inner_split:
  assumes "\<forall>x \<in> set ps. W x" and "\<forall>x \<in> set qs. W x"
    and "rs = [] \<or> \<not> W (hd rs) \<and> \<not> W (last rs)"
  shows "inner W (ps @ rs @ qs) = rs"
proof (cases "rs = []")
  case True
  have none: "dropWhile W (ps @ qs) = []"
    using assms(1,2) unfolding dropWhile_eq_Nil_conv by auto
  show ?thesis unfolding inner_def True append_Nil none by simp
next
  case False
  with assms have "dropWhile W (ps @ rs @ qs) = rs @ qs"
    by (cases rs) (simp_all add: dropWhile_append)
  moreover have "dropWhile W (rev qs @ rev rs) = rev rs"
    using False assms by (cases rs rule: rev_cases) (simp_all add: dropWhile_append)
  ultimately show ?thesis by (simp add: inner_def)
qed

lemma trimmed_runes:
  assumes "trimmed s"
  shows "runes s = [] \<or> hd (runes s) \<notin> set white_runes \<and> last (runes s) \<notin> set white_runes"
proof (cases "runes s")
  case (Cons r rs)
  have s: "s = concat (runes s)" by simp
  then have "prefix (hd (runes s)) s" using Cons by (metis concat.simps(2) list.sel(1) prefixI)
  moreover have "suffix (last (runes s)) s"
  proof -
    have "runes s = butlast (runes s) @ [last (runes s)]" using Cons by simp
    then have "s = concat (butlast (runes s)) @ last (runes s)"
      by (metis append_Nil2 concat.simps concat_append s)
    then show ?thesis by (metis suffixI)
  qed
  ultimately show ?thesis using assms by (auto simp: trimmed_def)
qed simp

lemma TrimSpace_unique:
  assumes "set ps \<subseteq> set white_runes" and "set qs \<subseteq> set white_runes" and "trimmed t"
  shows "TrimSpace (concat ps @ t @ concat qs) = t"
proof -
  let ?s = "concat ps @ t @ concat qs" and ?W = "\<lambda>x. x \<in> set white_runes"
  obtain ps' qs' where *: "set ps' \<subseteq> set white_runes" "set qs' \<subseteq> set white_runes"
    "?s = concat ps' @ TrimSpace ?s @ concat qs'" using TrimSpace_split by blast
  have "inner ?W (runes ?s) = runes t"
    unfolding runes_split_white [OF assms(1,2)]
    using assms trimmed_runes [OF assms(3)] by (intro inner_split) auto
  moreover have "runes ?s = ps' @ runes (TrimSpace ?s) @ qs'"
    using runes_split_white [OF *(1,2)] *(3) by metis
  then have "inner ?W (runes ?s) = runes (TrimSpace ?s)"
    using * trimmed_runes [of "TrimSpace ?s"] by (auto intro!: inner_split)
  ultimately have "runes (TrimSpace ?s) = runes t" by simp
  then show ?thesis by (metis concat_runes)
qed

text \<open>
  What \<open>range\<close>, \<open>[]rune(s)\<close> and \<open>strings.Map\<close> see: an invalid byte as U+FFFD. And what
  \<open>strings.FieldsFunc\<close> makes of it: the maximal runs of runes that are no separators.
\<close>

definition invalid_rune :: "string \<Rightarrow> bool" where
  "invalid_rune r \<longleftrightarrow> length r = 1 \<and> 128 \<le> byte (hd r)"

definition replacement :: string where
  "replacement = bytes [239, 191, 189]"

definition decode :: "string \<Rightarrow> string list" where
  "decode s = map (\<lambda>r. if invalid_rune r then replacement else r) (runes s)"

function fields :: "('a \<Rightarrow> bool) \<Rightarrow> 'a list \<Rightarrow> 'a list list" where
  "fields P rs =
     (case dropWhile P rs of
        [] \<Rightarrow> []
      | r # t \<Rightarrow> (r # takeWhile (Not \<circ> P) t) # fields P (dropWhile (Not \<circ> P) t))"
  by pat_completeness auto
termination
proof (relation "measure (\<lambda>(P, rs). length rs)")
  fix P :: "'a \<Rightarrow> bool" and rs r t
  assume "dropWhile P rs = r # t"
  then have "Suc (length t) \<le> length rs" by (metis length_Cons length_dropWhile_le)
  moreover have "length (dropWhile (Not \<circ> P) t) \<le> length t" by (rule length_dropWhile_le)
  ultimately show "((P, dropWhile (Not \<circ> P) t), (P, rs)) \<in> measure (\<lambda>(P, rs). length rs)" by simp
qed simp

declare fields.simps [simp del]

definition FieldsFunc :: "(string \<Rightarrow> bool) \<Rightarrow> string \<Rightarrow> string list" where
  "FieldsFunc P s = map concat (fields P (runes s))"

definition Fields :: "string \<Rightarrow> string list" where
  "Fields = FieldsFunc (\<lambda>r. r \<in> set white_runes)"

subsection \<open>Case\<close>

definition ascii :: "string \<Rightarrow> bool" where
  "ascii s \<longleftrightarrow> (\<forall>c \<in> set s. byte c < 128)"

definition lower_char :: "char \<Rightarrow> char" where
  "lower_char c = (if 65 \<le> byte c \<and> byte c \<le> 90 then char_of (byte c + 32) else c)"

definition upper_char :: "char \<Rightarrow> char" where
  "upper_char c = (if 97 \<le> byte c \<and> byte c \<le> 122 then char_of (byte c - 32) else c)"

definition ToLower :: "go_lib \<Rightarrow> string \<Rightarrow> string" where
  "ToLower lib s = (if ascii s then map lower_char s else gl_lower lib s)"

definition ToUpper :: "go_lib \<Rightarrow> string \<Rightarrow> string" where
  "ToUpper lib s = (if ascii s then map upper_char s else gl_upper lib s)"

definition EqualFold :: "go_lib \<Rightarrow> string \<Rightarrow> string \<Rightarrow> bool" where
  "EqualFold lib s t =
     (if ascii s \<and> ascii t then map lower_char s = map lower_char t else gl_fold lib s t)"

lemma byte_char_of: "n < 256 \<Longrightarrow> byte (char_of n) = n"
  by (simp add: of_char_of take_bit_eq_mod)

lemma byte_lower: "byte (lower_char c) = (if 65 \<le> byte c \<and> byte c \<le> 90 then byte c + 32 else byte c)"
  by (simp add: lower_char_def byte_char_of)

lemma byte_less: "byte c < 256"
  using nat_of_char_less_256 [of c] by simp

lemma byte_upper: "byte (upper_char c) = (if 97 \<le> byte c \<and> byte c \<le> 122 then byte c - 32 else byte c)"
proof -
  have "byte c - 32 < 256" using byte_less [of c] by linarith
  then show ?thesis unfolding upper_char_def by (simp add: byte_char_of)
qed

lemma lower_char_idem [simp]: "lower_char (lower_char c) = lower_char c"
proof -
  have "\<not> (65 \<le> byte (lower_char c) \<and> byte (lower_char c) \<le> 90)" unfolding byte_lower by simp
  then show ?thesis by (subst lower_char_def) (simp only: if_False)
qed

lemma upper_char_idem [simp]: "upper_char (upper_char c) = upper_char c"
proof -
  have "\<not> (97 \<le> byte (upper_char c) \<and> byte (upper_char c) \<le> 122)" unfolding byte_upper by auto
  then show ?thesis by (subst upper_char_def) (simp only: if_False)
qed

lemma byte_case_less: "byte (lower_char c) < 128 \<longleftrightarrow> byte c < 128" "byte (upper_char c) < 128 \<longleftrightarrow> byte c < 128"
  unfolding byte_lower byte_upper by auto

lemma ascii_map_lower [simp]: "ascii (map lower_char s) = ascii s"
  by (simp add: ascii_def byte_case_less)

lemma ascii_map_upper [simp]: "ascii (map upper_char s) = ascii s"
  by (simp add: ascii_def byte_case_less)

lemma ascii_Nil [simp]: "ascii []"
  by (simp add: ascii_def)

lemma ToLower_Nil [simp]: "ToLower lib [] = []"
  by (simp add: ToLower_def)

lemma ToUpper_Nil [simp]: "ToUpper lib [] = []"
  by (simp add: ToUpper_def)

lemma ink_case [simp]: "ink (lower_char c) = ink c" "ink (upper_char c) = ink c"
  unfolding ink_def byte_lower byte_upper by auto

subsection \<open>ASCII strings\<close>

text \<open>On ASCII strings the operations are simple; the equations also make them quick to evaluate.\<close>

lemma runes_ascii: "ascii s \<Longrightarrow> runes s = map (\<lambda>c. [c]) s"
proof (induction s)
  case (Cons c s)
  then have "rune_len (c # s) = 1" by (simp add: rune_len_def lead3_def lead4_def in_range_def ascii_def)
  with Cons show ?case by (simp add: runes_ne ascii_def)
qed simp

lemma runes_code [code]:
  "runes s =
     (if ascii s then map (\<lambda>c. [c]) s else take (rune_len s) s # runes (drop (rune_len s) s))"
proof (cases "ascii s")
  case False
  then have "s \<noteq> []" by (auto simp: ascii_def)
  from runes_ne [OF this] False show ?thesis by simp
qed (simp add: runes_ascii)

lemma white_ascii: "byte c < 128 \<Longrightarrow> \<not> ink c \<Longrightarrow> [c] \<in> set white_runes"
proof -
  assume "byte c < 128" and "\<not> ink c"
  then have "byte c \<in> {9, 10, 11, 12, 13, 32}" by (auto simp: ink_def)
  moreover have "bytes [n] \<in> set white_runes" if "n \<in> {9, 10, 11, 12, 13, 32}" for n
    using that by (auto simp: white_runes_def)
  ultimately have "bytes [byte c] \<in> set white_runes" by blast
  then show ?thesis by (simp add: bytes_def)
qed

lemma trimmed_ascii: "ascii s \<Longrightarrow> trimmed s \<longleftrightarrow> s = [] \<or> ink (hd s) \<and> ink (last s)"
proof
  assume a: "ascii s" and t: "trimmed s"
  show "s = [] \<or> ink (hd s) \<and> ink (last s)"
  proof (cases "s = []")
    case False
    then have "prefix [hd s] s" "suffix [last s] s"
      by (cases s, simp_all) (metis append_butlast_last_id suffixI)
    then have "[hd s] \<notin> set white_runes" "[last s] \<notin> set white_runes" using t by (auto simp: trimmed_def)
    moreover have "byte (hd s) < 128" "byte (last s) < 128" using a False by (simp_all add: ascii_def)
    ultimately show ?thesis using white_ascii by blast
  qed simp
qed (cases "s = []", auto simp: ink_trimmed)

definition ascii_trim :: "string \<Rightarrow> string" where
  "ascii_trim s = rev (dropWhile (Not \<circ> ink) (rev (dropWhile (Not \<circ> ink) s)))"

lemma white_list:
  assumes "\<forall>c \<in> set s. byte c < 128 \<and> \<not> ink c"
  shows "set (map (\<lambda>c. [c]) s) \<subseteq> set white_runes"
  using assms white_ascii by auto

lemma TrimSpace_ascii:
  assumes "ascii s"
  shows "TrimSpace s = ascii_trim s"
proof -
  let ?out = "Not \<circ> ink"
  define u where "u = dropWhile ?out s"
  define ps where "ps = takeWhile ?out s"
  define qs where "qs = rev (takeWhile ?out (rev u))"
  have s: "s = ps @ u" by (simp add: u_def ps_def)
  have "rev u = takeWhile ?out (rev u) @ dropWhile ?out (rev u)" by simp
  then have u: "u = ascii_trim s @ qs" unfolding ascii_trim_def u_def [symmetric] qs_def by (metis rev_append rev_rev_ident)
  have "set u \<subseteq> set s" by (metis s set_append Un_upper2)
  moreover have "set ps \<subseteq> set s" by (metis s set_append Un_upper1)
  moreover have "set qs \<subseteq> set u" by (metis u set_append Un_upper2)
  moreover have "\<forall>c \<in> set ps \<union> set qs. \<not> ink c" by (auto simp: ps_def qs_def dest: set_takeWhileD)
  ultimately have "\<forall>c \<in> set ps. byte c < 128 \<and> \<not> ink c" "\<forall>c \<in> set qs. byte c < 128 \<and> \<not> ink c"
    using assms unfolding ascii_def by blast+
  note blank = this [THEN white_list]
  have "trimmed (ascii_trim s)"
  proof (cases "ascii_trim s = []")
    case False
    then have ne: "dropWhile ?out (rev u) \<noteq> []" by (simp add: ascii_trim_def u_def)
    then have "ink (last (ascii_trim s))"
      using hd_dropWhile [OF ne] by (simp add: ascii_trim_def u_def last_rev)
    moreover have "u \<noteq> []" using ne by auto
    then have "ink (hd u)" using hd_dropWhile [of ?out s] by (simp add: u_def)
    then have "ink (hd (ascii_trim s))" using u False by simp
    ultimately show ?thesis using False by (simp add: ink_trimmed)
  qed simp
  from TrimSpace_unique [OF blank this] have "TrimSpace (ps @ ascii_trim s @ qs) = ascii_trim s" by simp
  with s u show ?thesis by metis
qed

lemma TrimSpace_code [code]:
  "TrimSpace s = (if ascii s then ascii_trim s else TrimRight (TrimLeft s))"
  using TrimSpace_ascii by (simp add: TrimSpace_def)

lemma RuneCount_code [code]: "RuneCount s = (if ascii s then length s else length (runes s))"
  by (simp add: RuneCount_def runes_ascii)

subsection \<open>Numbers\<close>

definition Itoa :: "int \<Rightarrow> string" where
  "Itoa n = (if n < 0 then CHR ''-'' # show_nat (nat (- n)) else show_nat (nat n))"

definition is_digit :: "char \<Rightarrow> bool" where
  "is_digit c \<longleftrightarrow> 48 \<le> byte c \<and> byte c \<le> 57"

definition digits_value :: "string \<Rightarrow> nat" where
  "digits_value ds = foldl (\<lambda>n c. 10 * n + (byte c - 48)) 0 ds"

definition int64 :: "int \<Rightarrow> bool" where
  "int64 n \<longleftrightarrow> - (2 ^ 63) \<le> n \<and> n < 2 ^ 63"

definition Atoi :: "string \<Rightarrow> int option" where
  "Atoi s =
     (let (neg, ds) = (case s of
            c # t \<Rightarrow> if c = CHR ''-'' then (True, t) else if c = CHR ''+'' then (False, t) else (False, s)
          | [] \<Rightarrow> (False, []));
          v = (if neg then - int (digits_value ds) else int (digits_value ds))
      in if ds = [] \<or> \<not> list_all is_digit ds \<or> \<not> int64 v then None else Some v)"

lemma is_digit_char: "d < 10 \<Longrightarrow> is_digit (digit_char d)"
  by (simp add: is_digit_def of_char_digit_char)

lemma show_nat_digits: "list_all is_digit (show_nat n)"
proof (induction n rule: show_nat.induct)
  case (1 n)
  then show ?case
    by (cases "n < 10") (simp_all add: show_nat_small show_nat_large is_digit_char)
qed

lemma digits_value_show [simp]: "digits_value (show_nat n) = n"
proof (induction n rule: show_nat.induct)
  case (1 n)
  then show ?case
    by (cases "n < 10")
      (simp_all add: show_nat_small show_nat_large digits_value_def of_char_digit_char)
qed

lemma hd_show_nat: "hd (show_nat n) \<noteq> CHR ''-''" "hd (show_nat n) \<noteq> CHR ''+''"
proof -
  have "is_digit (hd (show_nat n))"
    using show_nat_digits [of n] show_nat_nonempty [of n] by (metis hd_in_set list_all_iff)
  then show "hd (show_nat n) \<noteq> CHR ''-''" "hd (show_nat n) \<noteq> CHR ''+''" by (auto simp: is_digit_def)
qed

lemma Atoi_Itoa [simp]:
  assumes "int64 n"
  shows "Atoi (Itoa n) = Some n"
proof (cases "n < 0")
  case True
  with assms show ?thesis by (simp add: Atoi_def Itoa_def show_nat_digits)
next
  case False
  obtain c t where ct: "show_nat (nat n) = c # t" using show_nat_nonempty by (cases "show_nat (nat n)") auto
  with hd_show_nat [of "nat n"] have "c \<noteq> CHR ''-''" "c \<noteq> CHR ''+''" by auto
  then show ?thesis
    using assms False show_nat_digits [of "nat n"] digits_value_show [of "nat n"]
    by (simp add: Atoi_def Itoa_def ct Let_def)
qed

lemma Itoa_ink: "ink (hd (Itoa n))" "ink (last (Itoa n))"
proof -
  have "is_digit c \<Longrightarrow> ink c" for c by (auto simp: is_digit_def ink_def)
  then have "c \<in> set (show_nat m) \<Longrightarrow> ink c" for c m
    using show_nat_digits [of m] by (auto simp: list_all_iff)
  then have "ink (hd (show_nat m)) \<and> ink (last (show_nat m))" for m
    by (meson hd_in_set last_in_set show_nat_nonempty)
  moreover have "ink (CHR ''-'')" by (simp add: ink_def)
  ultimately show "ink (hd (Itoa n))" "ink (last (Itoa n))" by (auto simp: Itoa_def)
qed

lemma Itoa_ne [simp]: "Itoa n \<noteq> []"
  by (simp add: Itoa_def)

lemma trimmed_Itoa [simp]: "trimmed (Itoa n)"
  by (simp add: ink_trimmed Itoa_ink)

subsection \<open>Searching and splitting\<close>

definition replace_byte :: "char \<Rightarrow> char \<Rightarrow> string \<Rightarrow> string" where
  "replace_byte a b s = map (\<lambda>c. if c = a then b else c) s"

text \<open>The part before the last occurrence of a byte and the part after it.\<close>

definition split_last :: "(char \<Rightarrow> bool) \<Rightarrow> string \<Rightarrow> (string \<times> string) option" where
  "split_last P s =
     (case find_last P s of None \<Rightarrow> None | Some i \<Rightarrow> Some (take i s, drop (Suc i) s))"

fun contains :: "string \<Rightarrow> string \<Rightarrow> bool" where
  "contains s [] = (s = [])"
| "contains s (c # b) = (prefix s (c # b) \<or> contains s b)"

text \<open>\<open>strings.ReplaceAll\<close> for a non-empty pattern.\<close>

function replace_all :: "string \<Rightarrow> string \<Rightarrow> string \<Rightarrow> string" where
  "replace_all a b [] = []"
| "replace_all a b (c # s) =
     (if a \<noteq> [] \<and> prefix a (c # s) then b @ replace_all a b (drop (length a) (c # s))
      else c # replace_all a b s)"
  by pat_completeness auto
termination
proof (relation "measure (\<lambda>(a, b, s). length s)")
  fix a b :: string and c s
  assume "a \<noteq> [] \<and> prefix a (c # s)"
  then have "0 < length a" by simp
  then show "((a, b, drop (length a) (c # s)), (a, b, c # s)) \<in> measure (\<lambda>(a, b, s). length s)" by simp
qed simp_all

fun split_on :: "char \<Rightarrow> string \<Rightarrow> string list" where
  "split_on c [] = [[]]"
| "split_on c (d # s) =
     (if d = c then [] # split_on c s
      else case split_on c s of [] \<Rightarrow> [[d]] | p # ps \<Rightarrow> (d # p) # ps)"

end
