(* ===== verification/Pack_Normalize.thy ===== *)
theory Pack_Normalize
  imports Pack_Model Go_Strings
begin

text \<open>
  The canonical form of a pack (\<open>internal/packs/normalize.go\<close>), the identifiers of its parts
  (\<open>ids.go\<close>) and its summary (\<open>summary.go\<close>). String-typed enums are converted from and to the
  strings the code holds. A nil slice is an empty list, so filling it in shows only in JSON.
\<close>

subsection \<open>String-typed enums\<close>

definition round_type_of :: "string \<Rightarrow> round_type" where
  "round_type_of s =
     (if s = [] then RoundUnset else if s = ''standard'' then RoundStandard
      else if s = ''final'' then RoundFinal else RoundOther s)"

fun question_type_string :: "question_type \<Rightarrow> string" where
  "question_type_string QUnset = []"
| "question_type_string QSimple = ''simple''"
| "question_type_string QStake = ''stake''"
| "question_type_string QStakeAll = ''stakeAll''"
| "question_type_string QSecret = ''secret''"
| "question_type_string QSecretPublicPrice = ''secretPublicPrice''"
| "question_type_string QSecretNoQuestion = ''secretNoQuestion''"
| "question_type_string QNoRisk = ''noRisk''"
| "question_type_string QForAll = ''forAll''"
| "question_type_string QCustom = ''custom''"
| "question_type_string (QOther s) = s"

definition named_question_types :: "question_type list" where
  "named_question_types =
     [QUnset, QSimple, QStake, QStakeAll, QSecret, QSecretPublicPrice, QSecretNoQuestion, QNoRisk,
      QForAll, QCustom]"

text \<open>The value whose string is \<open>s\<close>: a named one if there is one.\<close>

definition named_of :: "('a \<Rightarrow> string) \<Rightarrow> 'a list \<Rightarrow> (string \<Rightarrow> 'a) \<Rightarrow> string \<Rightarrow> 'a" where
  "named_of str named other s =
     (case List.find (\<lambda>t. str t = s) named of Some t \<Rightarrow> t | None \<Rightarrow> other s)"

lemma string_named_of: "(\<And>s. str (other s) = s) \<Longrightarrow> str (named_of str named other s) = s"
  by (auto simp: named_of_def find_Some_iff split: option.split)

definition question_type_of :: "string \<Rightarrow> question_type" where
  "question_type_of = named_of question_type_string named_question_types QOther"

lemma question_type_string_of [simp]: "question_type_string (question_type_of s) = s"
  by (simp add: question_type_of_def string_named_of)

text \<open>A value that stands for its string: none of the named ones written as another.\<close>

definition canonical_type :: "question_type \<Rightarrow> bool" where
  "canonical_type t \<longleftrightarrow> question_type_of (question_type_string t) = t"

lemma canonical_type_of [simp]: "canonical_type (question_type_of s)"
  by (simp add: canonical_type_def)

subsection \<open>Normalisation\<close>

definition DefaultDifficulty :: int where
  "DefaultDifficulty = 5"

definition cleanList :: "string list \<Rightarrow> string list" where
  "cleanList xs = filter (\<lambda>s. s \<noteq> []) (map TrimSpace xs)"

definition cleanListKeepNil :: "string list \<Rightarrow> string list" where
  "cleanListKeepNil xs = (if xs = [] then [] else cleanList xs)"

definition normalizeInfo :: "info \<Rightarrow> info" where
  "normalizeInfo i =
     i\<lparr>in_Authors := cleanListKeepNil (in_Authors i), in_Sources := cleanListKeepNil (in_Sources i)\<rparr>"

definition normalizeItem :: "go_lib \<Rightarrow> content_item \<Rightarrow> content_item" where
  "normalizeItem lib it =
     it\<lparr>ci_MediaID := ToLower lib (TrimSpace (ci_MediaID it)), ci_URL := TrimSpace (ci_URL it)\<rparr>"

definition normalizeItems :: "go_lib \<Rightarrow> content_item list \<Rightarrow> content_item list" where
  "normalizeItems lib = map (normalizeItem lib)"

primrec normalizeParam :: "go_lib \<Rightarrow> param \<Rightarrow> param" where
  "normalizeParam lib (Param nm ty ref val items params ns) =
     Param nm ty ref val (normalizeItems lib items) (map (normalizeParam lib) params) ns"

definition normalizeParams :: "go_lib \<Rightarrow> param list \<Rightarrow> param list" where
  "normalizeParams lib = map (normalizeParam lib)"

definition normalizeOption :: "go_lib \<Rightarrow> answer_option \<Rightarrow> answer_option" where
  "normalizeOption lib o' =
     o'\<lparr>ao_Label := ToUpper lib (TrimSpace (ao_Label o')), ao_Content := normalizeItems lib (ao_Content o')\<rparr>"

definition normalize_params :: "go_lib \<Rightarrow> question_params \<Rightarrow> question_params" where
  "normalize_params lib pp =
     pp\<lparr>qp_Question := normalizeItems lib (qp_Question pp), qp_Answer := normalizeItems lib (qp_Answer pp),
        qp_Theme := TrimSpace (qp_Theme pp), qp_AnswerOptions := map (normalizeOption lib) (qp_AnswerOptions pp)\<rparr>"

definition normalizeQuestion :: "go_lib \<Rightarrow> pack_question \<Rightarrow> pack_question" where
  "normalizeQuestion lib q =
     (let t = question_type_of (TrimSpace (question_type_string (pq_Type q)));
          right = map TrimSpace (pq_Right q)
      in q\<lparr>pq_Type := (if t = QUnset then QSimple else t),
           pq_Info := normalizeInfo (pq_Info q),
           pq_Params := normalize_params lib (pq_Params q),
           pq_Right := (if right = [] then [[]] else right),
           pq_Wrong := map TrimSpace (pq_Wrong q),
           pq_Script := map (\<lambda>s. s\<lparr>ss_Params := normalizeParams lib (ss_Params s)\<rparr>) (pq_Script q),
           pq_Extra := normalizeParams lib (pq_Extra q)\<rparr>)"

definition normalizeTheme :: "go_lib \<Rightarrow> pack_theme \<Rightarrow> pack_theme" where
  "normalizeTheme lib t =
     t\<lparr>pt_Name := TrimSpace (pt_Name t), pt_Info := normalizeInfo (pt_Info t),
       pt_Questions := map (normalizeQuestion lib) (pt_Questions t)\<rparr>"

definition normalizeRound :: "go_lib \<Rightarrow> pack_round \<Rightarrow> pack_round" where
  "normalizeRound lib r =
     r\<lparr>pr_Name := TrimSpace (pr_Name r),
       pr_Type := (if pr_Type r = RoundUnset then RoundStandard else pr_Type r),
       pr_Info := normalizeInfo (pr_Info r),
       pr_Themes := map (normalizeTheme lib) (pr_Themes r)\<rparr>"

definition Normalize_pack :: "go_lib \<Rightarrow> pack \<Rightarrow> pack" where
  "Normalize_pack lib p =
     p\<lparr>pk_Name := TrimSpace (pk_Name p), pk_Language := TrimSpace (pk_Language p),
       pk_Restriction := TrimSpace (pk_Restriction p), pk_Date := TrimSpace (pk_Date p),
       pk_Publisher := TrimSpace (pk_Publisher p), pk_ContactURI := TrimSpace (pk_ContactURI p),
       pk_LogoMediaID := ToLower lib (TrimSpace (pk_LogoMediaID p)),
       pk_LogoURL := TrimSpace (pk_LogoURL p),
       pk_Tags := cleanList (pk_Tags p),
       pk_Difficulty := (if pk_Difficulty p = 0 \<and> pk_Version p = 0 \<and> pk_CreatedAt p = 0
                         then DefaultDifficulty else pk_Difficulty p),
       pk_Info := normalizeInfo (pk_Info p),
       pk_Rounds := map (normalizeRound lib) (pk_Rounds p)\<rparr>"

subsection \<open>Normalising twice changes nothing more\<close>

text \<open>What the Unicode case tables promise: mapping to one case once is enough, and no letter maps
  to white space.\<close>

definition unicode_case :: "go_lib \<Rightarrow> bool" where
  "unicode_case lib \<longleftrightarrow>
     (\<forall>s. ToLower lib (ToLower lib s) = ToLower lib s \<and> ToUpper lib (ToUpper lib s) = ToUpper lib s \<and>
          (trimmed s \<longrightarrow> trimmed (ToLower lib s) \<and> trimmed (ToUpper lib s)) \<and>
          RuneCount (ToUpper lib s) = RuneCount s)"

lemma unicode_caseD:
  assumes "unicode_case lib"
  shows "ToLower lib (ToLower lib s) = ToLower lib s" "ToUpper lib (ToUpper lib s) = ToUpper lib s"
    "trimmed s \<Longrightarrow> trimmed (ToLower lib s)" "trimmed s \<Longrightarrow> trimmed (ToUpper lib s)"
    "RuneCount (ToUpper lib s) = RuneCount s"
  using assms by (auto simp: unicode_case_def)

lemma lower_trim_idem:
  "unicode_case lib \<Longrightarrow> ToLower lib (TrimSpace (ToLower lib (TrimSpace s))) = ToLower lib (TrimSpace s)"
  by (simp add: unicode_caseD)

lemma upper_trim_idem:
  "unicode_case lib \<Longrightarrow> ToUpper lib (TrimSpace (ToUpper lib (TrimSpace s))) = ToUpper lib (TrimSpace s)"
  by (simp add: unicode_caseD)

lemma cleanList_idem [simp]: "cleanList (cleanList xs) = cleanList xs"
  by (induction xs) (auto simp: cleanList_def)

lemma cleanList_Nil [simp]: "cleanList [] = []"
  by (simp add: cleanList_def)

lemma cleanListKeepNil_eq [simp]: "cleanListKeepNil xs = cleanList xs"
  by (simp add: cleanListKeepNil_def)

lemma normalizeInfo_idem [simp]: "normalizeInfo (normalizeInfo i) = normalizeInfo i"
  by (simp add: normalizeInfo_def)

lemma question_type_of_simple [simp]:
  "question_type_of [] = QUnset" "question_type_of ''simple'' = QSimple"
  by (simp_all add: question_type_of_def named_of_def named_question_types_def)

lemma trimmed_simple: "trimmed ''simple''"
  by (simp add: ink_trimmed ink_def)

lemma normalizeItem_idem [simp]:
  "unicode_case lib \<Longrightarrow> normalizeItem lib (normalizeItem lib it) = normalizeItem lib it"
  by (simp add: normalizeItem_def lower_trim_idem)

lemma normalizeItems_idem [simp]:
  "unicode_case lib \<Longrightarrow> normalizeItems lib (normalizeItems lib is) = normalizeItems lib is"
  by (simp add: normalizeItems_def)

lemma normalizeParam_idem [simp]:
  "unicode_case lib \<Longrightarrow> normalizeParam lib (normalizeParam lib p) = normalizeParam lib p"
  by (induction p) simp

lemma normalizeParams_idem [simp]:
  "unicode_case lib \<Longrightarrow> normalizeParams lib (normalizeParams lib ps) = normalizeParams lib ps"
  by (simp add: normalizeParams_def)

lemma normalizeOption_idem [simp]:
  "unicode_case lib \<Longrightarrow> normalizeOption lib (normalizeOption lib o') = normalizeOption lib o'"
  by (simp add: normalizeOption_def upper_trim_idem)

lemma normalize_params_idem [simp]:
  "unicode_case lib \<Longrightarrow> normalize_params lib (normalize_params lib pp) = normalize_params lib pp"
  by (simp add: normalize_params_def)

lemma normalizeQuestion_idem [simp]:
  "unicode_case lib \<Longrightarrow> normalizeQuestion lib (normalizeQuestion lib q) = normalizeQuestion lib q"
  by (simp add: normalizeQuestion_def Let_def trimmed_simple comp_def)

lemma normalizeTheme_idem [simp]:
  "unicode_case lib \<Longrightarrow> normalizeTheme lib (normalizeTheme lib t) = normalizeTheme lib t"
  by (simp add: normalizeTheme_def)

lemma normalizeRound_idem [simp]:
  "unicode_case lib \<Longrightarrow> normalizeRound lib (normalizeRound lib r) = normalizeRound lib r"
  by (simp add: normalizeRound_def)

text \<open>A normalised pack is in canonical form: normalising it again changes
  nothing, so a pack read back from the store and saved again stays as it is.\<close>

theorem Normalize_idem:
  assumes "unicode_case lib"
  shows "Normalize_pack lib (Normalize_pack lib p) = Normalize_pack lib p"
  using assms by (auto simp: Normalize_pack_def lower_trim_idem DefaultDifficulty_def)

subsection \<open>Identifiers\<close>

text \<open>
  \<open>NewID\<close> draws the next identifier from a stream. \<open>EnsureIDs\<close> fills the empty ones in the order of
  the pack, \<open>ResetIDs\<close> empties all of them.
\<close>

type_synonym id_stream = "nat \<Rightarrow> string"

definition ensure :: "id_stream \<Rightarrow> string \<Rightarrow> nat \<Rightarrow> string \<times> nat" where
  "ensure ids x n = (if x = [] then (ids n, Suc n) else (x, n))"

fun thread :: "('a \<Rightarrow> 's \<Rightarrow> 'b \<times> 's) \<Rightarrow> 'a list \<Rightarrow> 's \<Rightarrow> 'b list \<times> 's" where
  "thread f [] s = ([], s)"
| "thread f (x # xs) s = (let (y, s) = f x s; (ys, s) = thread f xs s in (y # ys, s))"

definition ensure_question :: "id_stream \<Rightarrow> pack_question \<Rightarrow> nat \<Rightarrow> pack_question \<times> nat" where
  "ensure_question ids q n = (let (i, n) = ensure ids (pq_ID q) n in (q\<lparr>pq_ID := i\<rparr>, n))"

definition ensure_theme :: "id_stream \<Rightarrow> pack_theme \<Rightarrow> nat \<Rightarrow> pack_theme \<times> nat" where
  "ensure_theme ids t n =
     (let (i, n) = ensure ids (pt_ID t) n; (qs, n) = thread (ensure_question ids) (pt_Questions t) n
      in (t\<lparr>pt_ID := i, pt_Questions := qs\<rparr>, n))"

definition ensure_round :: "id_stream \<Rightarrow> pack_round \<Rightarrow> nat \<Rightarrow> pack_round \<times> nat" where
  "ensure_round ids r n =
     (let (i, n) = ensure ids (pr_ID r) n; (ts, n) = thread (ensure_theme ids) (pr_Themes r) n
      in (r\<lparr>pr_ID := i, pr_Themes := ts\<rparr>, n))"

definition EnsureIDs :: "id_stream \<Rightarrow> pack \<Rightarrow> nat \<Rightarrow> pack \<times> nat" where
  "EnsureIDs ids p n =
     (let (i, n) = ensure ids (pk_ID p) n; (rs, n) = thread (ensure_round ids) (pk_Rounds p) n
      in (p\<lparr>pk_ID := i, pk_Rounds := rs\<rparr>, n))"

definition ResetIDs :: "pack \<Rightarrow> pack" where
  "ResetIDs p =
     p\<lparr>pk_ID := [],
       pk_Rounds := map (\<lambda>r. r\<lparr>pr_ID := [],
         pr_Themes := map (\<lambda>t. t\<lparr>pt_ID := [],
           pt_Questions := map (\<lambda>q. q\<lparr>pq_ID := []\<rparr>) (pt_Questions t)\<rparr>) (pr_Themes r)\<rparr>) (pk_Rounds p)\<rparr>"

text \<open>Every identifier of a pack, in order.\<close>

definition theme_ids :: "pack_theme \<Rightarrow> string list" where
  "theme_ids t = pt_ID t # map pq_ID (pt_Questions t)"

definition round_ids :: "pack_round \<Rightarrow> string list" where
  "round_ids r = pr_ID r # concat (map theme_ids (pr_Themes r))"

definition pack_ids :: "pack \<Rightarrow> string list" where
  "pack_ids p = pk_ID p # concat (map round_ids (pk_Rounds p))"

text \<open>Filling in a list of identifiers, and its effect on all of them at once.\<close>

definition fill :: "id_stream \<Rightarrow> string list \<Rightarrow> nat \<Rightarrow> string list \<times> nat" where
  "fill ids = thread (ensure ids)"

lemma fill_Nil [simp]: "fill ids [] n = ([], n)"
  by (simp add: fill_def)

lemma fill_Cons: "fill ids (x # xs) n =
  (let (y, n) = ensure ids x n; (ys, n) = fill ids xs n in (y # ys, n))"
  by (simp add: fill_def)

lemma fill_append: "fill ids (xs @ ys) n =
  (let (xs', n) = fill ids xs n; (ys', n) = fill ids ys n in (xs' @ ys', n))"
  by (induction xs arbitrary: n) (simp_all add: fill_Cons split_beta Let_def)

lemma fill_thread:
  assumes "\<And>x n. fill ids (g x) n = (g (fst (f x n)), snd (f x n))"
  shows "fill ids (concat (map g xs)) n = (concat (map g (fst (thread f xs n))), snd (thread f xs n))"
  by (induction xs arbitrary: n) (simp_all add: fill_append assms split_beta Let_def)

lemma fill_questions:
  "fill ids (map pq_ID qs) n =
     (map pq_ID (fst (thread (ensure_question ids) qs n)), snd (thread (ensure_question ids) qs n))"
  by (induction qs arbitrary: n) (simp_all add: fill_Cons ensure_question_def split_beta Let_def)

lemma fill_theme:
  "fill ids (theme_ids t) n = (theme_ids (fst (ensure_theme ids t n)), snd (ensure_theme ids t n))"
  by (simp add: theme_ids_def ensure_theme_def fill_Cons fill_questions split_beta Let_def)

lemma fill_round:
  "fill ids (round_ids r) n = (round_ids (fst (ensure_round ids r n)), snd (ensure_round ids r n))"
  by (simp add: round_ids_def ensure_round_def fill_Cons fill_thread [OF fill_theme] split_beta Let_def)

lemma fill_pack:
  "fill ids (pack_ids p) n = (pack_ids (fst (EnsureIDs ids p n)), snd (EnsureIDs ids p n))"
  by (simp add: pack_ids_def EnsureIDs_def fill_Cons fill_thread [OF fill_round] split_beta Let_def)

lemma fill_spec:
  "length (fst (fill ids xs n)) = length xs \<and>
   (\<forall>i < length xs. xs ! i \<noteq> [] \<longrightarrow> fst (fill ids xs n) ! i = xs ! i) \<and>
   (\<forall>i < length xs. xs ! i = [] \<longrightarrow> (\<exists>m \<ge> n. fst (fill ids xs n) ! i = ids m))"
proof (induction xs arbitrary: n)
  case (Cons x xs)
  have *: "n \<le> snd (ensure ids x n)" by (simp add: ensure_def)
  show ?case
    using Cons.IH [of "snd (ensure ids x n)"] *
    by (auto simp: fill_Cons split_beta Let_def nth_Cons ensure_def split: nat.split) (meson Suc_leD le_trans)+
qed simp

lemma fill_fresh: "set xs \<subseteq> {[]} \<Longrightarrow> fst (fill ids xs n) = map ids [n..<n + length xs]"
proof (induction xs arbitrary: n)
  case (Cons x xs)
  have "[n..<n + length (x # xs)] = n # [Suc n..<Suc n + length xs]" by (subst upt_conv_Cons) auto
  with Cons show ?case by (simp add: fill_Cons ensure_def split_beta Let_def)
qed simp

lemma ResetIDs_ids: "set (pack_ids (ResetIDs p)) \<subseteq> {[]}"
  by (auto simp: pack_ids_def ResetIDs_def round_ids_def theme_ids_def)

text \<open>A duplicate gets new identifiers throughout: after \<open>ResetIDs\<close> and
  \<open>EnsureIDs\<close> they are the next ones of the stream, distinct when the stream never repeats. \<open>EnsureIDs\<close>
  alone leaves no identifier empty and keeps those that were set.\<close>

theorem duplicate_ids_fresh:
  assumes "inj ids" and "[] \<notin> range ids"
  shows "distinct (pack_ids (fst (EnsureIDs ids (ResetIDs p) n))) \<and>
    [] \<notin> set (pack_ids (fst (EnsureIDs ids p n))) \<and>
    (\<forall>i < length (pack_ids p). pack_ids p ! i \<noteq> [] \<longrightarrow>
       pack_ids (fst (EnsureIDs ids p n)) ! i = pack_ids p ! i)"
proof (intro conjI)
  have fst_fill: "pack_ids (fst (EnsureIDs ids q n)) = fst (fill ids (pack_ids q) n)" for q
    by (simp add: fill_pack)
  have "fst (fill ids (pack_ids (ResetIDs p)) n) = map ids [n..<n + length (pack_ids (ResetIDs p))]"
    by (rule fill_fresh [OF ResetIDs_ids])
  then show "distinct (pack_ids (fst (EnsureIDs ids (ResetIDs p) n)))"
    using assms(1) by (simp add: fst_fill distinct_map inj_on_def inj_def)
  note spec = fill_spec [of ids "pack_ids p" n]
  show "[] \<notin> set (pack_ids (fst (EnsureIDs ids p n)))"
    unfolding fst_fill
  proof
    assume "[] \<in> set (fst (fill ids (pack_ids p) n))"
    then obtain i where i: "i < length (pack_ids p)" "fst (fill ids (pack_ids p) n) ! i = []"
      using spec by (auto simp: in_set_conv_nth)
    then have "pack_ids p ! i = []" using spec by metis
    with i spec obtain m where "ids m = []" by metis
    with assms(2) show False by (metis rangeI)
  qed
  show "\<forall>i < length (pack_ids p). pack_ids p ! i \<noteq> [] \<longrightarrow>
       pack_ids (fst (EnsureIDs ids p n)) ! i = pack_ids p ! i"
    using spec by (simp add: fst_fill)
qed

subsection \<open>Summaries\<close>

record summary =
  sm_ID :: string
  sm_Version :: int
  sm_Name :: string
  sm_Language :: string
  sm_Difficulty :: int
  sm_Restriction :: string
  sm_Tags :: "string list"
  sm_Authors :: "string list"
  sm_RoundCount :: nat
  sm_ThemeCount :: nat
  sm_QuestionCount :: nat
  sm_HasMedia :: bool
  sm_LogoMediaID :: string
  sm_CreatedAt :: int
  sm_UpdatedAt :: int

definition itemsHaveMedia :: "content_item list \<Rightarrow> bool" where
  "itemsHaveMedia items = list_ex IsMedia items"

definition questionHasMedia :: "pack_question \<Rightarrow> bool" where
  "questionHasMedia q \<longleftrightarrow>
     itemsHaveMedia (qp_Question (pq_Params q)) \<or> itemsHaveMedia (qp_Answer (pq_Params q)) \<or>
     list_ex (\<lambda>o'. itemsHaveMedia (ao_Content o')) (qp_AnswerOptions (pq_Params q))"

definition count_question :: "pack_question \<Rightarrow> summary \<Rightarrow> summary" where
  "count_question q s =
     (let s = (if \<not> IsEmpty q then s\<lparr>sm_QuestionCount := Suc (sm_QuestionCount s)\<rparr> else s)
      in if \<not> sm_HasMedia s \<and> questionHasMedia q then s\<lparr>sm_HasMedia := True\<rparr> else s)"

definition count_round :: "pack_round \<Rightarrow> summary \<Rightarrow> summary" where
  "count_round r s =
     fold (\<lambda>t. fold count_question (pt_Questions t)) (pr_Themes r)
       (s\<lparr>sm_ThemeCount := sm_ThemeCount s + length (pr_Themes r)\<rparr>)"

definition Summarize :: "pack \<Rightarrow> summary" where
  "Summarize p =
     fold count_round (pk_Rounds p)
       \<lparr>sm_ID = pk_ID p, sm_Version = pk_Version p, sm_Name = pk_Name p, sm_Language = pk_Language p,
        sm_Difficulty = pk_Difficulty p, sm_Restriction = pk_Restriction p, sm_Tags = pk_Tags p,
        sm_Authors = in_Authors (pk_Info p), sm_RoundCount = length (pk_Rounds p), sm_ThemeCount = 0,
        sm_QuestionCount = 0, sm_HasMedia = False, sm_LogoMediaID = pk_LogoMediaID p,
        sm_CreatedAt = pk_CreatedAt p, sm_UpdatedAt = pk_UpdatedAt p\<rparr>"

definition pack_questions :: "pack \<Rightarrow> pack_question list" where
  "pack_questions p = concat (map (\<lambda>r. concat (map pt_Questions (pr_Themes r))) (pk_Rounds p))"

lemma fold_concat: "fold f (concat xss) s = fold (fold f) xss s"
  by (induction xss arbitrary: s) simp_all

lemma count_questions:
  "sm_QuestionCount (fold count_question qs s) = sm_QuestionCount s + length (filter (\<lambda>q. \<not> IsEmpty q) qs) \<and>
   (sm_HasMedia (fold count_question qs s) \<longleftrightarrow> sm_HasMedia s \<or> list_ex questionHasMedia qs) \<and>
   sm_ThemeCount (fold count_question qs s) = sm_ThemeCount s \<and>
   sm_RoundCount (fold count_question qs s) = sm_RoundCount s"
proof (induction qs arbitrary: s)
  case (Cons q qs)
  show ?case by (simp add: Cons.IH) (simp add: count_question_def Let_def)
qed simp

text \<open>The counts of a summary are the counts of the pack.\<close>

lemma Summarize_counts:
  "sm_QuestionCount (Summarize p) = length (filter (\<lambda>q. \<not> IsEmpty q) (pack_questions p)) \<and>
   sm_HasMedia (Summarize p) = list_ex questionHasMedia (pack_questions p) \<and>
   sm_ThemeCount (Summarize p) = sum_list (map (\<lambda>r. length (pr_Themes r)) (pk_Rounds p)) \<and>
   sm_RoundCount (Summarize p) = length (pk_Rounds p)"
proof -
  have "sm_QuestionCount (fold count_round rs s) = sm_QuestionCount s +
      length (filter (\<lambda>q. \<not> IsEmpty q) (concat (map (\<lambda>r. concat (map pt_Questions (pr_Themes r))) rs))) \<and>
    (sm_HasMedia (fold count_round rs s) \<longleftrightarrow> sm_HasMedia s \<or>
      list_ex questionHasMedia (concat (map (\<lambda>r. concat (map pt_Questions (pr_Themes r))) rs))) \<and>
    sm_ThemeCount (fold count_round rs s) = sm_ThemeCount s + sum_list (map (\<lambda>r. length (pr_Themes r)) rs) \<and>
    sm_RoundCount (fold count_round rs s) = sm_RoundCount s" for rs s
  proof (induction rs arbitrary: s)
    case (Cons r rs)
    have "count_round r s = fold count_question (concat (map pt_Questions (pr_Themes r)))
        (s\<lparr>sm_ThemeCount := sm_ThemeCount s + length (pr_Themes r)\<rparr>)"
      by (simp add: count_round_def fold_concat fold_map comp_def)
    then show ?case by (simp add: Cons.IH count_questions)
  qed simp
  then show ?thesis by (simp add: Summarize_def pack_questions_def)
qed

end
