(* ===== verification/Pack_Validate.thy ===== *)
theory Pack_Validate
  imports Pack_Normalize
begin

text \<open>
  The validation of packs (\<open>internal/packs/validate.go\<close>, \<open>errors.go\<close>). \<open>Validate_pack\<close> gives the
  problems in the order the code adds them, each with its JSON pointer and its code; a pack is valid
  when there are none. The human-readable messages are left out.
\<close>

definition MaxRounds :: nat where "MaxRounds = 50"
definition MaxThemesPerRound :: nat where "MaxThemesPerRound = 30"
definition MaxQuestionsPerTheme :: nat where "MaxQuestionsPerTheme = 30"
definition MaxItemsPerParam :: nat where "MaxItemsPerParam = 30"
definition MaxScriptSteps :: nat where "MaxScriptSteps = 30"
definition MaxTextLen :: nat where "MaxTextLen = 350"
definition MaxContentValueLen :: nat where "MaxContentValueLen = 1500"
definition MaxListItems :: nat where "MaxListItems = 10"
definition MaxAnswers :: nat where "MaxAnswers = 30"
definition MaxShortLen :: nat where "MaxShortLen = 16"
definition MaxDateLen :: nat where "MaxDateLen = 64"
definition MaxLabelLen :: nat where "MaxLabelLen = 8"
definition MaxDifficulty :: int where "MaxDifficulty = 10"
definition MaxAnswerLen :: nat where "MaxAnswerLen = 1500"
definition SHA256HexLength :: nat where "SHA256HexLength = 64"
definition maxParamDepth :: nat where "maxParamDepth = 8"

datatype problem_code =
    CodeRequired | CodeTooLong | CodeTooMany | CodeTooFew | CodeInvalidValue | CodeOutOfRange
  | CodeUnexpected | CodeDuplicate | CodeMismatch | CodeMediaNotFound

record problem =
  pb_Path :: string
  pb_Code :: problem_code

text \<open>A guarded \<open>v.add\<close>, and the problems of the elements of a list.\<close>

definition complain :: "bool \<Rightarrow> string \<Rightarrow> problem_code \<Rightarrow> problem list" where
  "complain b path code = (if b then [\<lparr>pb_Path = path, pb_Code = code\<rparr>] else [])"

definition each :: "(nat \<Rightarrow> 'a \<Rightarrow> problem list) \<Rightarrow> 'a list \<Rightarrow> problem list" where
  "each f xs = concat (map2 f [0..<length xs] xs)"

definition sub :: "string \<Rightarrow> nat \<Rightarrow> string" where
  "sub path i = path @ ''/'' @ show_nat i"

definition checkStr :: "string \<Rightarrow> string \<Rightarrow> bool \<Rightarrow> nat \<Rightarrow> problem list" where
  "checkStr path s required maxLen =
     (if required \<and> TrimSpace s = [] then complain True path CodeRequired
      else complain (maxLen < RuneCount s) path CodeTooLong)"

definition checkCount :: "string \<Rightarrow> nat \<Rightarrow> nat \<Rightarrow> problem list" where
  "checkCount path n maxItems = complain (maxItems < n) path CodeTooMany"

definition checkStrList :: "string \<Rightarrow> string list \<Rightarrow> nat \<Rightarrow> nat \<Rightarrow> problem list" where
  "checkStrList path xs maxItems maxLen =
     checkCount path (length xs) maxItems @ each (\<lambda>i s. checkStr (sub path i) s False maxLen) xs"

definition checkInfo :: "string \<Rightarrow> info \<Rightarrow> problem list" where
  "checkInfo path i =
     checkStrList (path @ ''/authors'') (in_Authors i) MaxListItems MaxTextLen @
     checkStrList (path @ ''/sources'') (in_Sources i) MaxListItems MaxTextLen @
     checkStr (path @ ''/comments'') (in_Comments i) False MaxContentValueLen @
     checkStr (path @ ''/showmanComments'') (in_ShowmanComments i) False MaxContentValueLen"

definition checkURL :: "go_lib \<Rightarrow> string \<Rightarrow> string \<Rightarrow> problem list" where
  "checkURL lib path s =
     (if MaxContentValueLen < RuneCount s then complain True path CodeTooLong
      else complain (case gl_ParseURL lib s of
                       None \<Rightarrow> True
                     | Some (scheme, host) \<Rightarrow> scheme \<noteq> ''http'' \<and> scheme \<noteq> ''https'' \<or> host = [])
             path CodeInvalidValue)"

definition isSHA256Hex :: "string \<Rightarrow> bool" where
  "isSHA256Hex s \<longleftrightarrow>
     length s = SHA256HexLength \<and>
     list_all (\<lambda>c. 48 \<le> byte c \<and> byte c \<le> 57 \<or> 97 \<le> byte c \<and> byte c \<le> 102) s"

text \<open>A number with a decimal comma.\<close>

fun replace_first :: "char \<Rightarrow> char \<Rightarrow> string \<Rightarrow> string" where
  "replace_first a b [] = []"
| "replace_first a b (c # s) = (if c = a then b # s else c # replace_first a b s)"

definition parseNumber :: "go_lib \<Rightarrow> string \<Rightarrow> f64 option" where
  "parseNumber lib s = gl_ParseFloat lib (TrimSpace (replace_first (CHR '','') (CHR ''.'') s))"

definition checkNumberSet :: "string \<Rightarrow> number_set \<Rightarrow> problem list" where
  "checkNumberSet path ns =
     complain (ns_Min ns < 0) (path @ ''/min'') CodeOutOfRange @
     complain (ns_Max ns < 0) (path @ ''/max'') CodeOutOfRange @
     complain (ns_Step ns < 0) (path @ ''/step'') CodeOutOfRange @
     complain (ns_Max ns < ns_Min ns) (path @ ''/min'') CodeMismatch"

definition checkItem :: "go_lib \<Rightarrow> string \<Rightarrow> content_item \<Rightarrow> problem list" where
  "checkItem lib path it =
     (case ci_Type it of
        ContentText \<Rightarrow>
          (if TrimSpace (ci_Text it) = [] then complain True (path @ ''/text'') CodeRequired
           else complain (MaxContentValueLen < RuneCount (ci_Text it)) (path @ ''/text'') CodeTooLong) @
          complain (ci_MediaID it \<noteq> []) (path @ ''/mediaId'') CodeUnexpected @
          complain (ci_URL it \<noteq> []) (path @ ''/url'') CodeUnexpected
      | ContentOther _ \<Rightarrow> complain True (path @ ''/type'') CodeInvalidValue
      | _ \<Rightarrow>
          (if ci_MediaID it = [] \<and> ci_URL it = [] then complain True (path @ ''/mediaId'') CodeRequired
           else complain (ci_MediaID it \<noteq> [] \<and> ci_URL it \<noteq> []) (path @ ''/url'') CodeUnexpected) @
          complain (ci_MediaID it \<noteq> [] \<and> \<not> isSHA256Hex (ci_MediaID it)) (path @ ''/mediaId'') CodeInvalidValue @
          (if ci_URL it \<noteq> [] then checkURL lib (path @ ''/url'') (ci_URL it) else []) @
          complain (ci_Text it \<noteq> []) (path @ ''/text'') CodeUnexpected) @
     (case ci_Placement it of
        PlaceUnset \<Rightarrow> []
      | PlaceScreen \<Rightarrow> []
      | PlaceReplic \<Rightarrow> complain (ci_Type it \<noteq> ContentText) (path @ ''/placement'') CodeMismatch
      | PlaceBackground \<Rightarrow> complain (ci_Type it \<noteq> ContentAudio) (path @ ''/placement'') CodeMismatch
      | PlaceOther _ \<Rightarrow> complain True (path @ ''/placement'') CodeInvalidValue) @
     complain (ci_DurationMs it < 0) (path @ ''/durationMs'') CodeOutOfRange"

definition checkItems :: "go_lib \<Rightarrow> string \<Rightarrow> content_item list \<Rightarrow> problem list" where
  "checkItems lib path items = each (\<lambda>i. checkItem lib (sub path i)) items"

text \<open>The recursion into nested parameters, over the checks of the parameters of one level.\<close>

definition params_check :: "string \<Rightarrow> nat \<Rightarrow> (string \<Rightarrow> nat \<Rightarrow> problem list) list \<Rightarrow> problem list" where
  "params_check path depth fs =
     checkCount path (length fs) MaxItemsPerParam @
     (if maxParamDepth < depth then complain True path CodeInvalidValue
      else each (\<lambda>i f. f (sub path i) depth) fs)"

primrec checkParam :: "go_lib \<Rightarrow> param \<Rightarrow> string \<Rightarrow> nat \<Rightarrow> problem list" where
  "checkParam lib (Param nm ty ref val items params ns) =
     (\<lambda>pp depth.
       complain (TrimSpace nm = []) (pp @ ''/name'') CodeRequired @
       checkCount (pp @ ''/items'') (length items) MaxItemsPerParam @
       checkItems lib (pp @ ''/items'') items @
       (case ns of None \<Rightarrow> [] | Some n \<Rightarrow> checkNumberSet (pp @ ''/numberSet'') n) @
       params_check (pp @ ''/params'') (depth + 1) (map (checkParam lib) params))"

definition checkParams :: "go_lib \<Rightarrow> string \<Rightarrow> param list \<Rightarrow> nat \<Rightarrow> problem list" where
  "checkParams lib path params depth = params_check path depth (map (checkParam lib) params)"

text \<open>The labels seen so far and the problems of the options.\<close>

definition option_label :: "go_lib \<Rightarrow> answer_option \<Rightarrow> string" where
  "option_label lib o' = ToUpper lib (TrimSpace (ao_Label o'))"

definition checkOption :: "go_lib \<Rightarrow> string \<Rightarrow> string list \<Rightarrow> answer_option \<Rightarrow> problem list" where
  "checkOption lib op labels o' =
     (let label = option_label lib o'
      in (if label = [] then complain True (op @ ''/label'') CodeRequired
          else if MaxLabelLen < RuneCount label then complain True (op @ ''/label'') CodeTooLong
          else complain (label \<in> set labels) (op @ ''/label'') CodeDuplicate) @
         checkCount (op @ ''/content'') (length (ao_Content o')) MaxItemsPerParam @
         checkItems lib (op @ ''/content'') (ao_Content o'))"

fun checkOptions :: "go_lib \<Rightarrow> string \<Rightarrow> nat \<Rightarrow> string list \<Rightarrow> answer_option list \<Rightarrow> problem list" where
  "checkOptions lib path i labels [] = []"
| "checkOptions lib path i labels (o' # os) =
     checkOption lib (sub path i) labels o' @
     checkOptions lib path (Suc i) (option_label lib o' # labels) os"

definition checkAnswers :: "string \<Rightarrow> string list \<Rightarrow> problem list" where
  "checkAnswers path xs =
     checkCount path (length xs) MaxAnswers @ each (\<lambda>i s. checkStr (sub path i) s False MaxAnswerLen) xs"

definition checkRight :: "go_lib \<Rightarrow> string \<Rightarrow> pack_question \<Rightarrow> problem list" where
  "checkRight lib path q =
     (let pp = pq_Params q in
      case pq_Right q of
        [] \<Rightarrow> complain True (path @ ''/right'') CodeTooFew
      | r # _ \<Rightarrow>
          (if qp_AnswerType pp = AnswerSelect then
             complain (length (qp_AnswerOptions pp) < 2) (path @ ''/params/answerOptions'') CodeTooFew @
             complain (ToUpper lib (TrimSpace r) \<notin> option_label lib ` set (qp_AnswerOptions pp))
               (path @ ''/right/0'') CodeMismatch
           else if qp_AnswerType pp = AnswerNumber then
             complain (parseNumber lib r = None) (path @ ''/right/0'') CodeInvalidValue
           else []))"

definition checkScript :: "go_lib \<Rightarrow> string \<Rightarrow> script_step list \<Rightarrow> problem list" where
  "checkScript lib path steps =
     checkCount path (length steps) MaxScriptSteps @
     each (\<lambda>i s. complain (TrimSpace (ss_Type s) = []) (sub path i @ ''/type'') CodeRequired @
                 checkParams lib (sub path i @ ''/params'') (ss_Params s) 0) steps"

definition answerless :: "pack_question \<Rightarrow> bool" where
  "answerless q \<longleftrightarrow> IsEmpty q \<or> EffectiveType q = QSecretNoQuestion"

definition checkContent :: "go_lib \<Rightarrow> string \<Rightarrow> pack_question \<Rightarrow> problem list" where
  "checkContent lib pp q =
     (let p = pq_Params q
      in checkCount (pp @ ''/question'') (length (qp_Question p)) MaxItemsPerParam @
         complain (qp_Question p = [] \<and> \<not> answerless q) (pp @ ''/question'') CodeTooFew @
         checkItems lib (pp @ ''/question'') (qp_Question p) @
         checkCount (pp @ ''/answer'') (length (qp_Answer p)) MaxItemsPerParam @
         checkItems lib (pp @ ''/answer'') (qp_Answer p) @
         checkStr (pp @ ''/theme'') (qp_Theme p) False MaxTextLen)"

definition checkSecret :: "string \<Rightarrow> question_params \<Rightarrow> problem list" where
  "checkSecret pp p =
     (case qp_Price p of None \<Rightarrow> [] | Some ns \<Rightarrow> checkNumberSet (pp @ ''/price'') ns) @
     (case qp_SelectionMode p of
        SelectOther _ \<Rightarrow> complain True (pp @ ''/selectionMode'') CodeInvalidValue
      | _ \<Rightarrow> [])"

definition checkAnswerKind :: "string \<Rightarrow> question_params \<Rightarrow> problem list" where
  "checkAnswerKind pp p =
     (case qp_AnswerType p of
        AnswerOther _ \<Rightarrow> complain True (pp @ ''/answerType'') CodeInvalidValue
      | _ \<Rightarrow> []) @
     complain (qp_AnswerDeviation p < 0) (pp @ ''/answerDeviation'') CodeOutOfRange @
     complain (qp_AnswerDurationMs p < 0) (pp @ ''/answerDurationMs'') CodeOutOfRange"

definition checkQuestion :: "go_lib \<Rightarrow> string \<Rightarrow> pack_question \<Rightarrow> problem list" where
  "checkQuestion lib path q =
     (let p = pq_Params q; pp = path @ ''/params''
      in complain (pq_Price q < -1) (path @ ''/price'') CodeOutOfRange @
         checkStr (path @ ''/type'') (question_type_string (pq_Type q)) False MaxTextLen @
         checkInfo (path @ ''/info'') (pq_Info q) @
         checkContent lib pp q @
         checkSecret pp p @
         checkAnswerKind pp p @
         checkCount (pp @ ''/answerOptions'') (length (qp_AnswerOptions p)) MaxAnswers @
         checkOptions lib (pp @ ''/answerOptions'') 0 [] (qp_AnswerOptions p) @
         checkAnswers (path @ ''/right'') (pq_Right q) @
         checkAnswers (path @ ''/wrong'') (pq_Wrong q) @
         (if answerless q then [] else checkRight lib path q) @
         checkScript lib (path @ ''/script'') (pq_Script q) @
         checkParams lib (path @ ''/extraParams'') (pq_Extra q) 0)"

definition checkTheme :: "go_lib \<Rightarrow> bool \<Rightarrow> string \<Rightarrow> pack_theme \<Rightarrow> problem list" where
  "checkTheme lib final tp t =
     checkStr (tp @ ''/name'') (pt_Name t) False MaxTextLen @
     checkInfo (tp @ ''/info'') (pt_Info t) @
     checkCount (tp @ ''/questions'') (length (pt_Questions t)) MaxQuestionsPerTheme @
     complain (final \<and> pt_Questions t = []) (tp @ ''/questions'') CodeTooFew @
     each (\<lambda>j. checkQuestion lib (sub (tp @ ''/questions'') j)) (pt_Questions t)"

definition checkRound :: "go_lib \<Rightarrow> string \<Rightarrow> pack_round \<Rightarrow> problem list" where
  "checkRound lib path r =
     checkStr (path @ ''/name'') (pr_Name r) False MaxTextLen @
     (case pr_Type r of RoundOther _ \<Rightarrow> complain True (path @ ''/type'') CodeInvalidValue | _ \<Rightarrow> []) @
     checkInfo (path @ ''/info'') (pr_Info r) @
     checkCount (path @ ''/themes'') (length (pr_Themes r)) MaxThemesPerRound @
     each (\<lambda>i. checkTheme lib (pr_Type r = RoundFinal) (sub (path @ ''/themes'') i)) (pr_Themes r)"

definition checkLogo :: "go_lib \<Rightarrow> pack \<Rightarrow> problem list" where
  "checkLogo lib p =
     complain (pk_LogoMediaID p \<noteq> [] \<and> \<not> isSHA256Hex (pk_LogoMediaID p)) ''/logoMediaId'' CodeInvalidValue @
     (if pk_LogoURL p \<noteq> [] then
        checkURL lib ''/logoUrl'' (pk_LogoURL p) @
        complain (pk_LogoMediaID p \<noteq> []) ''/logoUrl'' CodeUnexpected
      else [])"

definition Validate_pack :: "go_lib \<Rightarrow> pack \<Rightarrow> problem list" where
  "Validate_pack lib p =
     checkStr ''/name'' (pk_Name p) True MaxTextLen @
     checkStr ''/language'' (pk_Language p) False MaxShortLen @
     checkStr ''/restriction'' (pk_Restriction p) False MaxShortLen @
     checkStr ''/date'' (pk_Date p) False MaxDateLen @
     checkStr ''/publisher'' (pk_Publisher p) False MaxTextLen @
     checkStr ''/contactUri'' (pk_ContactURI p) False MaxContentValueLen @
     complain (pk_Difficulty p < 0 \<or> MaxDifficulty < pk_Difficulty p) ''/difficulty'' CodeOutOfRange @
     checkLogo lib p @
     checkStrList ''/tags'' (pk_Tags p) MaxListItems MaxTextLen @
     checkInfo ''/info'' (pk_Info p) @
     checkCount ''/rounds'' (length (pk_Rounds p)) MaxRounds @
     each (\<lambda>i. checkRound lib (sub ''/rounds'' i)) (pk_Rounds p)"

end
