(* ===== verification/Pack_Canonical.thy ===== *)
theory Pack_Canonical
  imports Pack_Validate
begin

text \<open>
  Validation and normalisation together: a valid pack stays valid when it is normalised, so the code may
  do the two in either order.
\<close>

subsection \<open>Numbers with a decimal comma\<close>

lemma replace_first_id: "a \<notin> set s \<Longrightarrow> replace_first a b s = s"
  by (induction s) auto

lemma replace_first_at: "a \<notin> set s \<Longrightarrow> replace_first a b (s @ a # t) = s @ b # t"
  by (induction s) auto

lemma white_runes_bytes:
  assumes "w \<in> set white_runes"
  shows "CHR '','' \<notin> set w \<and> CHR ''.'' \<notin> set w"
proof -
  have "\<forall>c \<in> set w. byte c \<noteq> 44 \<and> byte c \<noteq> 46"
    using assms by (auto simp: white_runes_def bytes_def)
  moreover have "byte (CHR '','') = 44" "byte (CHR ''.'') = 46" by simp_all
  ultimately show ?thesis by metis
qed

lemma trimmed_replace:
  assumes "trimmed s"
  shows "trimmed (replace_first (CHR '','') (CHR ''.'') s)"
proof (cases "CHR '','' \<in> set s")
  case True
  then obtain a b where s: "s = a @ CHR '','' # b" "CHR '','' \<notin> set a" by (metis split_list_first)
  have "\<not> prefix w (a @ CHR ''.'' # b) \<and> \<not> suffix w (a @ CHR ''.'' # b)" if w: "w \<in> set white_runes" for w
  proof (intro conjI notI)
    assume "prefix w (a @ CHR ''.'' # b)"
    then have "prefix w a" by (rule prefix_without) (use white_runes_bytes [OF w] in simp)
    then have "prefix w s" by (simp add: s prefix_append)
    with assms w show False by (auto simp: trimmed_def)
  next
    assume "suffix w (a @ CHR ''.'' # b)"
    then have "prefix (rev w) (rev b @ CHR ''.'' # rev a)" by (simp add: suffix_to_prefix)
    then have "prefix (rev w) (rev b)"
      by (rule prefix_without) (use white_runes_bytes [OF w] in simp)
    then have "suffix w b" by (simp add: suffix_to_prefix)
    then have "suffix w s" by (metis s(1) suffix_ConsI suffix_appendI)
    with assms w show False by (auto simp: trimmed_def)
  qed
  moreover have "replace_first (CHR '','') (CHR ''.'') s = a @ CHR ''.'' # b"
    using replace_first_at [OF s(2)] s(1) by simp
  ultimately show ?thesis unfolding trimmed_def by metis
qed (simp add: assms replace_first_id)

lemma replace_first_append:
  "a \<notin> set s \<Longrightarrow> replace_first a b (s @ t) = s @ replace_first a b t"
  "a \<notin> set t \<Longrightarrow> replace_first a b (s @ t) = replace_first a b s @ t"
  by (induction s) (auto simp: replace_first_id)

lemma parseNumber_TrimSpace [simp]: "parseNumber lib (TrimSpace s) = parseNumber lib s"
proof -
  let ?r = "replace_first (CHR '','') (CHR ''.'')"
  obtain ps qs where *: "set ps \<subseteq> set white_runes" "set qs \<subseteq> set white_runes"
    "s = concat ps @ TrimSpace s @ concat qs" using TrimSpace_split by blast
  have no: "CHR '','' \<notin> set (concat ps)" "CHR '','' \<notin> set (concat qs)"
    using * white_runes_bytes by fastforce+
  have "?r s = concat ps @ ?r (TrimSpace s) @ concat qs"
    using no by (subst *(3)) (simp add: replace_first_append)
  moreover have "trimmed (?r (TrimSpace s))" by (rule trimmed_replace) simp
  ultimately show ?thesis using TrimSpace_unique [OF *(1,2)] by (simp add: parseNumber_def)
qed

subsection \<open>Nothing to complain about\<close>

named_theorems valid \<open>when a check finds no problem\<close>

lemma complain_Nil [valid]: "complain b p c = [] \<longleftrightarrow> \<not> b"
  by (simp add: complain_def)

lemma each_Nil: "each f xs = [] \<longleftrightarrow> (\<forall>i < length xs. f i (xs ! i) = [])"
proof -
  have "each f xs = [] \<longleftrightarrow> (\<forall>y \<in> set (map2 f [0..<length xs] xs). y = [])"
    unfolding each_def by (rule concat_eq_Nil_conv)
  also have "\<dots> \<longleftrightarrow> (\<forall>i < length xs. f i (xs ! i) = [])"
    unfolding all_set_conv_all_nth by simp
  finally show ?thesis .
qed

lemma each_map [simp]: "each f (map g xs) = each (\<lambda>i x. f i (g x)) xs"
proof -
  have "map2 f [0..<length (map g xs)] (map g xs) = map2 (\<lambda>i x. f i (g x)) [0..<length xs] xs"
    by (rule nth_equalityI) simp_all
  then show ?thesis by (simp only: each_def)
qed

lemma each_uniform: "(\<And>i x. f i x = [] \<longleftrightarrow> P x) \<Longrightarrow> each f xs = [] \<longleftrightarrow> (\<forall>x \<in> set xs. P x)"
  by (simp add: each_Nil all_set_conv_all_nth)

lemma each_mono:
  "each f xs = [] \<Longrightarrow> (\<And>i x. x \<in> set xs \<Longrightarrow> f i x = [] \<Longrightarrow> g i x = []) \<Longrightarrow> each g xs = []"
  by (simp add: each_Nil)

lemma checkStr_Nil [valid]:
  "checkStr path s required n = [] \<longleftrightarrow> RuneCount s \<le> n \<and> (required \<longrightarrow> TrimSpace s \<noteq> [])"
  by (auto simp: checkStr_def complain_Nil RuneCount_def)

lemma checkCount_Nil [valid]: "checkCount path n m = [] \<longleftrightarrow> n \<le> m"
  by (simp add: checkCount_def complain_Nil linorder_not_less)

lemma checkStrList_Nil [valid]:
  "checkStrList path xs n m = [] \<longleftrightarrow> length xs \<le> n \<and> (\<forall>s \<in> set xs. RuneCount s \<le> m)"
  unfolding checkStrList_def append_is_Nil_conv checkCount_Nil
  by (subst each_uniform) (auto simp: checkStr_Nil)

lemma checkAnswers_Nil [valid]:
  "checkAnswers path xs = [] \<longleftrightarrow> length xs \<le> MaxAnswers \<and> (\<forall>s \<in> set xs. RuneCount s \<le> MaxAnswerLen)"
  unfolding checkAnswers_def append_is_Nil_conv checkCount_Nil
  by (subst each_uniform) (auto simp: checkStr_Nil)

subsection \<open>Normalisation keeps validity\<close>

text \<open>
  What \<open>url.Parse\<close> promises: nothing is no absolute URL, and ASCII space around one is not part of it.
  (A no-break space could be all there is of a host.) So the packs below have ASCII URLs.
\<close>

definition http_url :: "go_lib \<Rightarrow> string \<Rightarrow> bool" where
  "http_url lib s \<longleftrightarrow>
     (case gl_ParseURL lib s of
        None \<Rightarrow> False
      | Some (scheme, host) \<Rightarrow> (scheme = ''http'' \<or> scheme = ''https'') \<and> host \<noteq> [])"

definition url_laws :: "go_lib \<Rightarrow> bool" where
  "url_laws lib \<longleftrightarrow> \<not> http_url lib [] \<and> (\<forall>s. ascii s \<and> http_url lib s \<longrightarrow> http_url lib (TrimSpace s))"

definition plain_items :: "content_item list \<Rightarrow> bool" where
  "plain_items items \<longleftrightarrow> (\<forall>it \<in> set items. ascii (ci_URL it))"

fun plain_param :: "param \<Rightarrow> bool" where
  "plain_param (Param nm ty ref val items params ns) \<longleftrightarrow>
     plain_items items \<and> (\<forall>p \<in> set params. plain_param p)"

definition plain_params :: "param list \<Rightarrow> bool" where
  "plain_params ps \<longleftrightarrow> (\<forall>x \<in> set ps. plain_param x)"

definition plain_question :: "pack_question \<Rightarrow> bool" where
  "plain_question q \<longleftrightarrow>
     plain_items (qp_Question (pq_Params q)) \<and> plain_items (qp_Answer (pq_Params q)) \<and>
     (\<forall>o' \<in> set (qp_AnswerOptions (pq_Params q)). plain_items (ao_Content o')) \<and>
     (\<forall>s \<in> set (pq_Script q). plain_params (ss_Params s)) \<and> plain_params (pq_Extra q)"

definition plain_urls :: "pack \<Rightarrow> bool" where
  "plain_urls p \<longleftrightarrow>
     ascii (pk_LogoURL p) \<and>
     (\<forall>r \<in> set (pk_Rounds p). \<forall>t \<in> set (pr_Themes r). \<forall>q \<in> set (pt_Questions t). plain_question q)"

lemma checkURL_Nil [valid]:
  "checkURL lib path s = [] \<longleftrightarrow> RuneCount s \<le> MaxContentValueLen \<and> http_url lib s"
  by (auto simp: checkURL_def complain_def http_url_def split: option.splits)

lemma RuneCount_Nil [simp]: "RuneCount [] = 0"
  by (simp add: RuneCount_def)

lemma RuneCount_TrimSpace_le: "RuneCount s \<le> n \<Longrightarrow> RuneCount (TrimSpace s) \<le> n"
  using RuneCount_TrimSpace le_trans by blast

lemma hex_ink: "isSHA256Hex s \<Longrightarrow> ascii s \<and> map lower_char s = s \<and> trimmed s"
proof
  assume s: "isSHA256Hex s"
  then have *: "c \<in> set s \<Longrightarrow> byte c < 128 \<and> lower_char c = c \<and> ink c" for c
    by (auto simp: isSHA256Hex_def list_all_iff lower_char_def ink_def)
  then show "ascii s" by (simp add: ascii_def)
  have "s \<noteq> []" using s by (auto simp: isSHA256Hex_def SHA256HexLength_def)
  with * have "trimmed s" by (simp add: ink_trimmed)
  moreover have "map lower_char s = s" using * by (simp add: map_idI)
  ultimately show "map lower_char s = s \<and> trimmed s" by simp
qed

lemma hex_canonical: "isSHA256Hex s \<Longrightarrow> ToLower lib (TrimSpace s) = s"
  using hex_ink [of s] by (simp add: ToLower_def)

lemma url_trim: "url_laws lib \<Longrightarrow> ascii s \<Longrightarrow> http_url lib s \<Longrightarrow> http_url lib (TrimSpace s) \<and> TrimSpace s \<noteq> []"
  by (metis url_laws_def)

lemma cleanList_valid:
  "\<forall>s \<in> set xs. RuneCount s \<le> m \<Longrightarrow> \<forall>s \<in> set (cleanList xs). RuneCount s \<le> m"
  by (auto simp: cleanList_def RuneCount_TrimSpace_le)

lemma length_cleanList: "length (cleanList xs) \<le> length xs"
  unfolding cleanList_def by (metis length_filter_le length_map)

lemma checkInfo_normalize: "checkInfo path i = [] \<Longrightarrow> checkInfo path (normalizeInfo i) = []"
  using length_cleanList [of "in_Authors i"] length_cleanList [of "in_Sources i"]
  by (auto simp: checkInfo_def valid normalizeInfo_def cleanList_valid)

lemma checkItem_normalize:
  assumes "url_laws lib" and "ascii (ci_URL it)" and "checkItem lib path it = []"
  shows "checkItem lib path (normalizeItem lib it) = []"
proof (cases "ci_Type it = ContentText")
  case True
  with assms(3) show ?thesis by (simp add: checkItem_def normalizeItem_def valid split: if_splits placement.splits)
next
  case False
  with assms have *: "ci_MediaID it = [] \<or> isSHA256Hex (ci_MediaID it) \<and> ci_URL it = []"
    "ci_URL it = [] \<or> http_url lib (ci_URL it) \<and> RuneCount (ci_URL it) \<le> MaxContentValueLen"
    by (auto simp: checkItem_def valid split: content_type.splits if_splits)
  then have "normalizeItem lib it = it\<lparr>ci_URL := TrimSpace (ci_URL it)\<rparr>"
    by (auto simp: normalizeItem_def hex_canonical)
  with * show ?thesis
    using assms False url_trim [OF assms(1,2)] RuneCount_TrimSpace_le [of "ci_URL it"]
    by (auto simp: checkItem_def valid split: content_type.splits if_splits placement.splits)
qed

lemma checkItems_normalize:
  "url_laws lib \<Longrightarrow> plain_items items \<Longrightarrow> checkItems lib path items = [] \<Longrightarrow>
   checkItems lib path (normalizeItems lib items) = []"
  unfolding checkItems_def normalizeItems_def each_map
  by (erule each_mono) (simp add: checkItem_normalize plain_items_def)

lemma length_normalizeItems [simp]: "length (normalizeItems lib items) = length items"
  by (simp add: normalizeItems_def)

lemma normalizeItems_eq_Nil [simp]: "normalizeItems lib items = [] \<longleftrightarrow> items = []"
  by (simp add: normalizeItems_def)

lemma params_check_mono:
  "params_check path depth (map f xs) = [] \<Longrightarrow>
   (\<And>x pp d. x \<in> set xs \<Longrightarrow> f x pp d = [] \<Longrightarrow> g x pp d = []) \<Longrightarrow>
   params_check path depth (map g xs) = []"
  by (auto simp: params_check_def each_Nil valid split: if_splits)

lemma checkParam_normalize:
  "url_laws lib \<Longrightarrow> plain_param p \<Longrightarrow> checkParam lib p pp d = [] \<Longrightarrow>
   checkParam lib (normalizeParam lib p) pp d = []"
proof (induction p arbitrary: pp d)
  case (Param nm ty ref val items params ns)
  from Param.prems(3) have "params_check (pp @ ''/params'') (d + 1) (map (checkParam lib) params) = []"
    by simp
  then have "params_check (pp @ ''/params'') (d + 1) (map (\<lambda>p. checkParam lib (normalizeParam lib p)) params) = []"
    by (rule params_check_mono) (use Param in auto)
  with Param.prems show ?case by (auto simp: comp_def checkItems_normalize)
qed

lemma checkParams_normalize:
  "url_laws lib \<Longrightarrow> plain_params ps \<Longrightarrow> checkParams lib path ps d = [] \<Longrightarrow>
   checkParams lib path (normalizeParams lib ps) d = []"
  unfolding checkParams_def normalizeParams_def map_map comp_def
  by (erule params_check_mono) (simp add: checkParam_normalize plain_params_def)

lemma option_label_normalize:
  "unicode_case lib \<Longrightarrow> option_label lib (normalizeOption lib o') = option_label lib o'"
  by (simp add: option_label_def normalizeOption_def upper_trim_idem)

lemma ao_Content_normalize: "ao_Content (normalizeOption lib o') = normalizeItems lib (ao_Content o')"
  by (simp add: normalizeOption_def)

lemma checkOptions_normalize:
  "unicode_case lib \<Longrightarrow> url_laws lib \<Longrightarrow> \<forall>o' \<in> set os. plain_items (ao_Content o') \<Longrightarrow>
   checkOptions lib path i labels os = [] \<Longrightarrow>
   checkOptions lib path i labels (map (normalizeOption lib) os) = []"
proof (induction os arbitrary: i labels)
  case (Cons o' os)
  then show ?case
    by (auto simp: checkOption_def Let_def option_label_normalize valid checkItems_normalize
        ao_Content_normalize split: if_splits)
qed simp

lemma answerless_normalize: "answerless q \<Longrightarrow> answerless (normalizeQuestion lib q)"
proof -
  have "trimmed ''secretNoQuestion''" by (simp add: ink_trimmed ink_def)
  moreover have "question_type_of ''secretNoQuestion'' = QSecretNoQuestion"
    by (simp add: question_type_of_def named_of_def named_question_types_def)
  ultimately show "answerless q \<Longrightarrow> answerless (normalizeQuestion lib q)"
    by (auto simp: answerless_def IsEmpty_def EffectiveType_def normalizeQuestion_def Let_def split: if_splits)
qed

lemma normalizeQuestion_fields [simp]:
  "pq_Price (normalizeQuestion lib q) = pq_Price q"
  "pq_Params (normalizeQuestion lib q) = normalize_params lib (pq_Params q)"
  "pq_Info (normalizeQuestion lib q) = normalizeInfo (pq_Info q)"
  "pq_Wrong (normalizeQuestion lib q) = map TrimSpace (pq_Wrong q)"
  "pq_Right (normalizeQuestion lib q) = (if pq_Right q = [] then [[]] else map TrimSpace (pq_Right q))"
  "pq_Extra (normalizeQuestion lib q) = normalizeParams lib (pq_Extra q)"
  "pq_Script (normalizeQuestion lib q) =
     map (\<lambda>s. s\<lparr>ss_Params := normalizeParams lib (ss_Params s)\<rparr>) (pq_Script q)"
  by (simp_all add: normalizeQuestion_def Let_def)

lemma normalize_params_fields [simp]:
  "qp_Question (normalize_params lib p) = normalizeItems lib (qp_Question p)"
  "qp_Answer (normalize_params lib p) = normalizeItems lib (qp_Answer p)"
  "qp_Theme (normalize_params lib p) = TrimSpace (qp_Theme p)"
  "qp_AnswerOptions (normalize_params lib p) = map (normalizeOption lib) (qp_AnswerOptions p)"
  "qp_Price (normalize_params lib p) = qp_Price p"
  "qp_SelectionMode (normalize_params lib p) = qp_SelectionMode p"
  "qp_AnswerType (normalize_params lib p) = qp_AnswerType p"
  "qp_AnswerDeviation (normalize_params lib p) = qp_AnswerDeviation p"
  "qp_AnswerDurationMs (normalize_params lib p) = qp_AnswerDurationMs p"
  by (simp_all add: normalize_params_def)

lemma checkStr_TrimSpace:
  "checkStr path s r n = [] \<Longrightarrow> checkStr path (TrimSpace s) r n = []"
  by (simp add: checkStr_Nil RuneCount_TrimSpace_le)

lemma checkAnswers_TrimSpace:
  "checkAnswers path xs = [] \<Longrightarrow> checkAnswers path (map TrimSpace xs) = []"
  by (simp add: checkAnswers_Nil RuneCount_TrimSpace_le)

lemma type_normalize:
  "checkStr path (question_type_string (pq_Type q)) False MaxTextLen = [] \<Longrightarrow>
   checkStr path (question_type_string (pq_Type (normalizeQuestion lib q))) False MaxTextLen = []"
  using RuneCount_le [of "''simple''"]
  by (auto simp: checkStr_Nil normalizeQuestion_def Let_def RuneCount_TrimSpace_le MaxTextLen_def)

lemma checkRight_normalize:
  assumes "unicode_case lib" and "checkRight lib path q = []"
  shows "checkRight lib path (normalizeQuestion lib q) = []"
proof -
  from assms(2) obtain r rs where "pq_Right q = r # rs"
    by (auto simp: checkRight_def valid Let_def split: list.splits)
  moreover have "option_label lib ` normalizeOption lib ` set os = option_label lib ` set os" for os
    by (simp add: image_comp option_label_normalize [OF assms(1)] comp_def)
  ultimately show ?thesis
    using assms(2) by (simp add: checkRight_def valid Let_def split: if_splits)
qed

lemma checkScript_normalize:
  "url_laws lib \<Longrightarrow> \<forall>s \<in> set ss. plain_params (ss_Params s) \<Longrightarrow> checkScript lib path ss = [] \<Longrightarrow>
   checkScript lib path (map (\<lambda>s. s\<lparr>ss_Params := normalizeParams lib (ss_Params s)\<rparr>) ss) = []"
  by (auto simp: checkScript_def valid checkParams_normalize elim!: each_mono)

lemma checkContent_normalize:
  "url_laws lib \<Longrightarrow> plain_question q \<Longrightarrow> checkContent lib pp q = [] \<Longrightarrow>
   checkContent lib pp (normalizeQuestion lib q) = []"
  using answerless_normalize [of q lib]
  by (auto simp: checkContent_def Let_def valid checkItems_normalize RuneCount_TrimSpace_le plain_question_def)

lemma checkQuestion_normalize:
  assumes "unicode_case lib" and "url_laws lib" and "plain_question q" and "checkQuestion lib path q = []"
  shows "checkQuestion lib path (normalizeQuestion lib q) = []"
proof -
  note parts = assms(4) [unfolded checkQuestion_def Let_def append_is_Nil_conv]
  have "checkSecret pp (normalize_params lib p) = checkSecret pp p"
    "checkAnswerKind pp (normalize_params lib p) = checkAnswerKind pp p" for pp p
    by (simp_all add: checkSecret_def checkAnswerKind_def)
  moreover have "checkAnswers (path @ ''/right'') (pq_Right (normalizeQuestion lib q)) = []"
    using parts by (simp add: checkAnswers_TrimSpace) (simp add: checkAnswers_Nil MaxAnswers_def)
  ultimately show ?thesis
    unfolding checkQuestion_def Let_def append_is_Nil_conv
    using parts assms(1-3) answerless_normalize [of q lib] assms(3) [unfolded plain_question_def]
    by (auto simp: checkInfo_normalize type_normalize checkContent_normalize checkOptions_normalize
        checkAnswers_TrimSpace checkRight_normalize checkScript_normalize checkParams_normalize valid
        simp del: normalizeQuestion_fields(5) split: if_splits)
qed

lemma checkTheme_normalize:
  "unicode_case lib \<Longrightarrow> url_laws lib \<Longrightarrow> \<forall>q \<in> set (pt_Questions t). plain_question q \<Longrightarrow>
   checkTheme lib final tp t = [] \<Longrightarrow>
   checkTheme lib final tp (normalizeTheme lib t) = []"
  by (auto simp: checkTheme_def normalizeTheme_def valid checkInfo_normalize RuneCount_TrimSpace_le
      checkQuestion_normalize elim!: each_mono)

lemma checkRound_normalize:
  "unicode_case lib \<Longrightarrow> url_laws lib \<Longrightarrow>
   \<forall>t \<in> set (pr_Themes r). \<forall>q \<in> set (pt_Questions t). plain_question q \<Longrightarrow> checkRound lib path r = [] \<Longrightarrow>
   checkRound lib path (normalizeRound lib r) = []"
  by (auto simp: checkRound_def normalizeRound_def valid checkInfo_normalize RuneCount_TrimSpace_le
      checkTheme_normalize split: round_type.splits elim!: each_mono)

lemma checkLogo_normalize:
  assumes "url_laws lib" and "ascii (pk_LogoURL p)" and "checkLogo lib p = []"
  shows "checkLogo lib (Normalize_pack lib p) = []"
proof -
  have *: "pk_LogoMediaID p = [] \<or> isSHA256Hex (pk_LogoMediaID p)"
    "pk_LogoURL p \<noteq> [] \<Longrightarrow> http_url lib (pk_LogoURL p) \<and> RuneCount (pk_LogoURL p) \<le> MaxContentValueLen \<and>
       pk_LogoMediaID p = []"
    using assms(3) by (auto simp: checkLogo_def valid)
  then have "pk_LogoMediaID (Normalize_pack lib p) = pk_LogoMediaID p"
    by (auto simp: Normalize_pack_def hex_canonical)
  moreover have "pk_LogoURL (Normalize_pack lib p) = TrimSpace (pk_LogoURL p)"
    by (simp add: Normalize_pack_def)
  ultimately show ?thesis
    using * url_trim [OF assms(1,2)] RuneCount_TrimSpace_le [of "pk_LogoURL p"]
    by (cases "pk_LogoURL p = []") (auto simp: checkLogo_def valid)
qed

text \<open>C33 (invariant). A valid pack whose URLs are ASCII is still valid after
  normalisation, whatever its identifiers, labels and texts look like.\<close>

theorem Normalize_keeps_valid:
  assumes "unicode_case lib" and "url_laws lib" and "plain_urls p" and "Validate_pack lib p = []"
  shows "Validate_pack lib (Normalize_pack lib p) = []"
proof -
  note parts = assms(4) [unfolded Validate_pack_def append_is_Nil_conv]
  have "checkLogo lib (Normalize_pack lib p) = []" using parts assms by (simp only: checkLogo_normalize plain_urls_def)
  moreover have "each (\<lambda>i. checkRound lib (sub ''/rounds'' i)) (map (normalizeRound lib) (pk_Rounds p)) = []"
    unfolding each_map by (rule each_mono [where f = "\<lambda>i. checkRound lib (sub ''/rounds'' i)"])
      (use parts assms(1-3) checkRound_normalize in \<open>(unfold plain_urls_def, blast)+\<close>)
  moreover have "checkInfo ''/info'' (normalizeInfo (pk_Info p)) = []"
    using parts by (blast intro: checkInfo_normalize)
  moreover have "checkStrList ''/tags'' (cleanList (pk_Tags p)) MaxListItems MaxTextLen = []"
    using parts length_cleanList [of "pk_Tags p"] cleanList_valid [of "pk_Tags p"]
    unfolding checkStrList_Nil by (meson le_trans)
  ultimately show ?thesis
    using parts unfolding Validate_pack_def append_is_Nil_conv
    by (simp add: Normalize_pack_def checkStr_TrimSpace complain_Nil DefaultDifficulty_def MaxDifficulty_def)
qed

end
