(* ===== verification/Pack_Demo.thy ===== *)
theory Pack_Demo
  imports Pack_Canonical
begin

text \<open>
  A concrete library (case mapping for ASCII only) and a concrete pack, at which the properties of
  packs are evaluated.
\<close>

definition parse_whole :: "string \<Rightarrow> f64 option" where
  "parse_whole s = (if s = ''3.5'' then Some (7 / 2) else map_option of_int (Atoi s))"

definition print_whole :: "f64 \<Rightarrow> string" where
  "print_whole x = Itoa \<lfloor>x\<rfloor>"

definition parse_http :: "string \<Rightarrow> (string \<times> string) option" where
  "parse_http s =
     (if TrimSpace s = s \<and> take 7 s = ''http://'' then Some (''http'', drop 7 s) else None)"

definition same_text :: "string \<Rightarrow> string \<Rightarrow> bool" where
  "same_text s t \<longleftrightarrow> s = t"

definition plain_lib :: go_lib where
  "plain_lib =
     \<lparr>gl_upper = id, gl_lower = id, gl_fold = same_text, gl_nfc = id, gl_nfd = id,
      gl_ParseFloat = parse_whole, gl_FormatFloat = print_whole, gl_ParseURL = parse_http\<rparr>"

lemma unicode_case_plain: "unicode_case plain_lib"
proof -
  have "trimmed (map lower_char s) \<and> trimmed (map upper_char s)" if "ascii s" "trimmed s" for s
    using that by (auto simp: trimmed_ascii last_map hd_map)
  moreover have "RuneCount (map upper_char s) = RuneCount s" if "ascii s" for s
    using that by (simp add: RuneCount_def runes_ascii)
  ultimately show ?thesis
    by (auto simp: unicode_case_def ToLower_def ToUpper_def plain_lib_def)
qed

lemma url_laws_plain: "url_laws plain_lib"
  by (auto simp: url_laws_def http_url_def plain_lib_def parse_http_def split: if_splits)

definition plain_info :: info where
  "plain_info = \<lparr>in_Authors = ['' Ann ''], in_Sources = [], in_Comments = [], in_ShowmanComments = []\<rparr>"

definition text_item :: "string \<Rightarrow> content_item" where
  "text_item s =
     \<lparr>ci_Type = ContentText, ci_Text = s, ci_MediaID = [], ci_URL = [], ci_Placement = PlaceUnset,
      ci_DurationMs = 0, ci_NoWait = False\<rparr>"

definition image_item :: content_item where
  "image_item = (text_item [])\<lparr>ci_Type := ContentImage, ci_URL := ''http://x/a.png''\<rparr>"

definition select_question :: pack_question where
  "select_question =
     \<lparr>pq_ID = [], pq_Price = 100, pq_Type = question_type_of [],
      pq_Params = \<lparr>qp_Question = [text_item ''Pick'', image_item], qp_Answer = [], qp_Theme = [], qp_Price = None,
        qp_SelectionMode = SelectUnset, qp_AnswerType = AnswerSelect,
        qp_AnswerOptions = [\<lparr>ao_Label = ''a '', ao_Content = [text_item ''1'']\<rparr>,
                            \<lparr>ao_Label = ''b'', ao_Content = [text_item ''2'']\<rparr>],
        qp_AnswerDeviation = 0, qp_AnswerDurationMs = 0\<rparr>,
      pq_Right = ['' A''], pq_Wrong = [], pq_Info = plain_info, pq_Script = [], pq_Extra = []\<rparr>"

definition plain_pack :: pack where
  "plain_pack =
     \<lparr>pk_ID = [], pk_Version = 0, pk_Name = '' Plain '', pk_Language = ''en'', pk_Difficulty = 0,
      pk_Restriction = [], pk_Date = [], pk_Publisher = [], pk_ContactURI = [], pk_LogoMediaID = [],
      pk_LogoURL = [], pk_Tags = ['' quiz ''], pk_Info = plain_info,
      pk_Rounds = [\<lparr>pr_ID = ''r'', pr_Name = ''Round '', pr_Type = RoundUnset, pr_Info = plain_info,
        pr_Themes = [\<lparr>pt_ID = ''t'', pt_Name = ''Theme'', pt_Info = plain_info,
                      pt_Questions = [select_question]\<rparr>]\<rparr>],
      pk_Extra = None, pk_SIQID = [], pk_CreatedAt = 0, pk_UpdatedAt = 0\<rparr>"

lemma plain_pack_valid: "Validate_pack plain_lib plain_pack = []"
  by code_simp

lemma plain_pack_plain: "plain_urls plain_pack"
  by code_simp

theorem Normalize_idem_witness:
  "Normalize_pack plain_lib (Normalize_pack plain_lib plain_pack) = Normalize_pack plain_lib plain_pack \<and>
   pk_Name (Normalize_pack plain_lib plain_pack) = ''Plain'' \<and> pk_Tags (Normalize_pack plain_lib plain_pack) = [''quiz'']"
proof -
  have "pk_Name (Normalize_pack plain_lib plain_pack) = ''Plain''"
    "pk_Tags (Normalize_pack plain_lib plain_pack) = [''quiz'']" by code_simp+
  with Normalize_idem [OF unicode_case_plain] show ?thesis by simp
qed

theorem Normalize_keeps_valid_witness:
  "Normalize_pack plain_lib plain_pack \<noteq> plain_pack \<and>
   Validate_pack plain_lib (Normalize_pack plain_lib plain_pack) = []"
proof -
  have "pk_Name (Normalize_pack plain_lib plain_pack) \<noteq> pk_Name plain_pack" by code_simp
  with Normalize_keeps_valid [OF unicode_case_plain url_laws_plain plain_pack_plain plain_pack_valid] show ?thesis by auto
qed

theorem duplicate_ids_fresh_witness:
  "distinct (pack_ids (fst (EnsureIDs (\<lambda>n. show_nat n) (ResetIDs plain_pack) 7))) \<and>
   pack_ids (fst (EnsureIDs (\<lambda>n. show_nat n) plain_pack 7)) = [''7'', ''r'', ''t'', ''8'']"
proof -
  have "inj show_nat" "[] \<notin> range show_nat" by (auto simp: inj_def) (metis show_nat_nonempty)
  note * = duplicate_ids_fresh [OF this, of plain_pack 7]
  have "pack_ids (fst (EnsureIDs show_nat plain_pack 7)) = [''7'', ''r'', ''t'', ''8'']" by code_simp
  with * show ?thesis by simp
qed

end
