(* ===== verification/Pack_Play.thy ===== *)
theory Pack_Play
  imports Pack_Demo Engine_Demo
begin

text \<open>
  What the validation of a pack is worth to the engine that plays it: which questions can be answered
  right. The two components take their library as parameters of their own; \<open>same_library\<close> says that
  they are the same one, and that \<open>strconv.ParseFloat\<close> knows no comma.
\<close>

definition same_library :: "go_lib \<Rightarrow> golib \<Rightarrow> bool" where
  "same_library lib l \<longleftrightarrow>
     lib_TrimSpace l = TrimSpace \<and> lib_ParseFloat l = gl_ParseFloat lib \<and>
     lib_EqualFold l = EqualFold lib \<and>
     (\<forall>s. CHR '','' \<in> set s \<longrightarrow> gl_ParseFloat lib s = None)"

lemma packQuestion_in:
  assumes "packQuestion g t i = Some pq"
  shows "pq \<in> set (pack_questions (g_pack g))"
proof -
  from assms obtain r where r: "Engine_Core.round g = Some r" "t < length (pr_Themes r)"
    "i < length (pt_Questions (pr_Themes r ! t))" "pq = pt_Questions (pr_Themes r ! t) ! i"
    by (auto simp: packQuestion_def split: option.splits if_splits)
  from r(1) have "r \<in> set (pk_Rounds (g_pack g))" by (auto simp: Engine_Core.round_def split: if_splits)
  moreover from r have "pr_Themes r ! t \<in> set (pr_Themes r)" "pq \<in> set (pt_Questions (pr_Themes r ! t))" by simp_all
  ultimately show ?thesis by (force simp: pack_questions_def)
qed

lemma valid_question:
  assumes "Validate_pack lib p = []" and "q \<in> set (pack_questions p)"
  shows "\<exists>path. checkQuestion lib path q = []"
proof -
  from assms(2) obtain r t where *: "r \<in> set (pk_Rounds p)" "t \<in> set (pr_Themes r)" "q \<in> set (pt_Questions t)"
    by (auto simp: pack_questions_def)
  from assms(1) *(1) obtain i where "checkRound lib (sub ''/rounds'' i) r = []"
    by (auto simp: Validate_pack_def each_Nil in_set_conv_nth)
  with *(2) obtain path where "checkTheme lib (pr_Type r = RoundFinal) path t = []"
    by (auto simp: checkRound_def each_Nil in_set_conv_nth)
  with *(3) show ?thesis by (auto simp: checkTheme_def each_Nil in_set_conv_nth)
qed

lemma valid_right:
  assumes "checkQuestion lib path q = []" and "\<not> answerless q"
  shows "checkRight lib path q = [] \<and> 0 \<le> qp_AnswerDeviation (pq_Params q)"
  using assms by (simp add: checkQuestion_def Let_def checkAnswerKind_def valid not_less)

text \<open>Folding and the upper case form agree on ASCII (not on the dotless i, say).\<close>

lemma lower_upper_char: "lower_char (upper_char c) = lower_char c"
proof -
  have "byte (lower_char (upper_char c)) = byte (lower_char c)" unfolding byte_lower byte_upper by auto
  then show ?thesis by (simp only: of_char_eq_iff)
qed

lemma EqualFold_upper:
  assumes "ascii s" "ascii t" "ToUpper lib s = ToUpper lib t"
  shows "EqualFold lib s t"
proof -
  have "map lower_char (map upper_char s) = map lower_char (map upper_char t)"
    using assms by (simp add: ToUpper_def)
  then show ?thesis using assms(1,2) by (simp add: EqualFold_def lower_upper_char comp_def)
qed

lemma ascii_TrimSpace: "ascii s \<Longrightarrow> ascii (TrimSpace s)"
  using TrimSpace_split [of s] by (metis Un_iff ascii_def set_append)

lemma comma_TrimSpace: "CHR '','' \<in> set (TrimSpace s) \<longleftrightarrow> CHR '','' \<in> set s"
proof -
  obtain ps qs where *: "set ps \<subseteq> set white_runes" "set qs \<subseteq> set white_runes"
    "s = concat ps @ TrimSpace s @ concat qs" using TrimSpace_split by blast
  then have "CHR '','' \<notin> set (concat ps)" "CHR '','' \<notin> set (concat qs)" using white_runes_bytes by fastforce+
  then show ?thesis by (subst (2) *(3)) simp
qed

text \<open>In a game with a valid pack every select question with ASCII labels
  has an option that the engine judges right, and every number question whose answer is written without
  a comma has a number that it judges right.\<close>

theorem valid_answers_playable:
  assumes "Validate_pack lib (g_pack g) = []" and "same_library lib (g_lib g)"
    and "packQuestion g t i = Some pq" and "\<not> answerless pq"
  shows "(qp_AnswerType (pq_Params pq) = AnswerSelect \<and> ascii (hd (pq_Right pq)) \<and>
      (\<forall>o' \<in> set (qp_AnswerOptions (pq_Params pq)). ascii (ao_Label o')) \<longrightarrow>
      (\<exists>o' \<in> set (qp_AnswerOptions (pq_Params pq)).
         autoCheck g (new_question g t i pq) (av\<lparr>av_OptionLabel := ao_Label o'\<rparr>) = Some True)) \<and>
    (qp_AnswerType (pq_Params pq) = AnswerNumber \<and> CHR '','' \<notin> set (hd (pq_Right pq)) \<longrightarrow>
      (\<exists>n. autoCheck g (new_question g t i pq) (av\<lparr>av_Number := Some n\<rparr>) = Some True))"
proof -
  from valid_question [OF assms(1) packQuestion_in [OF assms(3)]] obtain path
    where *: "checkRight lib path pq = []" "0 \<le> qp_AnswerDeviation (pq_Params pq)"
    using valid_right [OF _ assms(4)] by blast
  then obtain r rs where r: "pq_Right pq = r # rs" by (auto simp: checkRight_def valid Let_def split: list.splits)
  show ?thesis
  proof (intro conjI impI)
    assume a: "qp_AnswerType (pq_Params pq) = AnswerSelect \<and> ascii (hd (pq_Right pq)) \<and>
      (\<forall>o' \<in> set (qp_AnswerOptions (pq_Params pq)). ascii (ao_Label o'))"
    then have "qp_AnswerType (pq_Params pq) = AnswerSelect" by blast
    moreover from this * r obtain o' where "o' \<in> set (qp_AnswerOptions (pq_Params pq))"
      "ToUpper lib (TrimSpace r) = ToUpper lib (TrimSpace (ao_Label o'))"
      by (auto simp: checkRight_def valid Let_def option_label_def)
    moreover from this a r have "EqualFold lib (TrimSpace (ao_Label o')) (TrimSpace r)"
      by (intro EqualFold_upper) (auto intro: ascii_TrimSpace)
    ultimately show "\<exists>o' \<in> set (qp_AnswerOptions (pq_Params pq)).
         autoCheck g (new_question g t i pq) (av\<lparr>av_OptionLabel := ao_Label o'\<rparr>) = Some True"
      using assms(2) r by (intro bexI [of _ o']) (auto simp: autoCheck_def new_question_def same_library_def Let_def)
  next
    assume n: "qp_AnswerType (pq_Params pq) = AnswerNumber \<and> CHR '','' \<notin> set (hd (pq_Right pq))"
    with r have "parseNumber lib r = gl_ParseFloat lib (TrimSpace r)"
      by (simp add: parseNumber_def replace_first_id)
    with n * r obtain x where "gl_ParseFloat lib (TrimSpace r) = Some x"
      by (auto simp: checkRight_def valid Let_def)
    then show "\<exists>n. autoCheck g (new_question g t i pq) (av\<lparr>av_Number := Some n\<rparr>) = Some True"
      using n * r assms(2,3)
      by (intro exI [of _ x]) (simp add: autoCheck_def checkNumber_def new_question_def same_library_def
          answerDeviation_def f64_sub_def f64_round_def Let_def)
  qed
qed

text \<open>C40 (error). The validation accepts a number with a decimal comma, the engine does not:
  a number question of a valid pack whose answer is written that way judges every answer wrong.\<close>

theorem comma_answer_never_right:
  assumes "same_library lib (g_lib g)" and "qp_AnswerType (pq_Params pq) = AnswerNumber"
    and "pq_Right pq = r # rs" and "CHR '','' \<in> set r"
  shows "autoCheck g (new_question g t i pq) av = Some False"
  using assms comma_TrimSpace [of r]
  by (auto simp: autoCheck_def checkNumber_def new_question_def same_library_def Let_def split: option.split)

subsection \<open>Witnesses\<close>

definition shared_lib :: golib where
  "shared_lib = demo_lib\<lparr>lib_TrimSpace := TrimSpace, lib_ParseFloat := parse_whole,
     lib_EqualFold := EqualFold plain_lib\<rparr>"

lemma Atoi_no_comma: "CHR '','' \<in> set s \<Longrightarrow> Atoi s = None"
proof -
  assume "CHR '','' \<in> set s"
  moreover have "\<not> is_digit (CHR '','')" by (simp add: is_digit_def)
  ultimately show ?thesis by (auto simp: Atoi_def Let_def list_all_iff split: list.splits if_splits)
qed

lemma same_library_shared: "same_library plain_lib shared_lib"
  by (auto simp: same_library_def shared_lib_def plain_lib_def parse_whole_def Atoi_no_comma)

definition number_question :: pack_question where
  "number_question = select_question\<lparr>
     pq_Params := (pq_Params select_question)\<lparr>qp_AnswerType := AnswerNumber, qp_AnswerOptions := []\<rparr>,
     pq_Right := [''3,5'']\<rparr>"

definition mixed_pack :: pack where
  "mixed_pack = plain_pack\<lparr>pk_Rounds := map (\<lambda>r. r\<lparr>pr_Themes := map (\<lambda>t. t\<lparr>pt_Questions :=
     [select_question, number_question]\<rparr>) (pr_Themes r)\<rparr>) (pk_Rounds plain_pack)\<rparr>"

lemma mixed_pack_valid: "Validate_pack plain_lib mixed_pack = []"
  by code_simp

definition mixed_game :: game where
  "mixed_game = demo_selecting\<lparr>g_pack := mixed_pack, g_lib := shared_lib, st_RoundIndex := 0\<rparr>"

lemma mixed_questions:
  "packQuestion mixed_game 0 0 = Some select_question" "packQuestion mixed_game 0 1 = Some number_question"
  by (simp_all add: packQuestion_def Engine_Core.round_def mixed_game_def mixed_pack_def plain_pack_def)

theorem valid_answers_playable_witness:
  "\<exists>o' \<in> set (qp_AnswerOptions (pq_Params select_question)).
     autoCheck mixed_game (new_question mixed_game 0 0 select_question) (no_answer\<lparr>av_OptionLabel := ao_Label o'\<rparr>) =
     Some True"
proof -
  have "\<not> answerless select_question" "qp_AnswerType (pq_Params select_question) = AnswerSelect"
    "ascii (hd (pq_Right select_question))"
    "\<forall>o' \<in> set (qp_AnswerOptions (pq_Params select_question)). ascii (ao_Label o')" by code_simp+
  then show ?thesis
    using valid_answers_playable [of plain_lib mixed_game 0 0 select_question no_answer]
      mixed_pack_valid same_library_shared mixed_questions(1) by (simp add: mixed_game_def)
qed

theorem comma_answer_never_right_witness:
  "Validate_pack plain_lib (g_pack mixed_game) = [] \<and>
   autoCheck mixed_game (new_question mixed_game 0 1 number_question) (no_answer\<lparr>av_Number := Some (7 / 2)\<rparr>) =
   Some False"
proof -
  have "g_lib mixed_game = shared_lib" "g_pack mixed_game = mixed_pack" by (simp_all add: mixed_game_def)
  then show ?thesis
    using comma_answer_never_right [of plain_lib mixed_game number_question "''3,5''" "[]"]
      mixed_pack_valid same_library_shared by (simp add: number_question_def select_question_def)
qed

end
