(* ===== verification/Media_Sniff.thy ===== *)
theory Media_Sniff
  imports Go_Strings
begin

text \<open>
  The classification of uploaded media by their first bytes (\<open>internal/media/sniff.go\<close>) and the size
  limits (\<open>limits.go\<close>). \<open>http.DetectContentType\<close> of the standard library, a table of signatures, is a
  parameter.
\<close>

unbundle bit_operations_syntax

datatype kind = KindAny | KindImage | KindAudio | KindVideo | KindHTML

definition SniffLen :: nat where
  "SniffLen = 4096"

type_synonym sniffed = "kind \<times> string \<times> string"

subsection \<open>Bytes\<close>

definition at_offset :: "nat \<Rightarrow> string \<Rightarrow> string \<Rightarrow> bool" where
  "at_offset off s b \<longleftrightarrow> off + length s \<le> length b \<and> take (length s) (drop off b) = s"

definition byte_at :: "string \<Rightarrow> nat \<Rightarrow> nat" where
  "byte_at b i = byte (b ! i)"

definition little_endian32 :: "string \<Rightarrow> nat \<Rightarrow> nat" where
  "little_endian32 b i =
     byte_at b i + 256 * byte_at b (i + 1) + 65536 * byte_at b (i + 2) + 16777216 * byte_at b (i + 3)"

definition big_endian32 :: "string \<Rightarrow> nat \<Rightarrow> nat" where
  "big_endian32 b i =
     byte_at b (i + 3) + 256 * byte_at b (i + 2) + 65536 * byte_at b (i + 1) + 16777216 * byte_at b i"

text \<open>\<open>path.Ext\<close>: from the last dot of the last element.\<close>

definition path_ext :: "string \<Rightarrow> string" where
  "path_ext s =
     (let tail = rev (takeWhile (\<lambda>c. c \<noteq> CHR ''/'') (rev s))
      in case split_last (\<lambda>c. c = CHR ''.'') tail of None \<Rightarrow> [] | Some (_, e) \<Rightarrow> CHR ''.'' # e)"

subsection \<open>Binary formats\<close>

definition isBMP :: "string \<Rightarrow> bool" where
  "isBMP b \<longleftrightarrow> \<not> length b < 18 \<and> little_endian32 b 14 \<in> {12, 40, 52, 56, 64, 108, 124}"

definition isMP3Frame :: "string \<Rightarrow> bool" where
  "isMP3Frame b \<longleftrightarrow>
     \<not> (length b < 3 \<or> byte_at b 0 \<noteq> 255) \<and>
     byte_at b 1 AND 230 = 226 \<and>
     (let bitrate = byte_at b 2 div 16; sample = (byte_at b 2 div 4) AND 3
      in bitrate \<noteq> 0 \<and> bitrate \<noteq> 15 \<and> sample \<noteq> 3)"

definition mp4AudioBrands :: "string list" where
  "mp4AudioBrands = [''M4A '', ''M4B '', ''M4P '']"

definition isMP4Audio :: "string \<Rightarrow> string \<Rightarrow> bool" where
  "isMP4Audio b nameExt =
     (if length b < 12 then False
      else
        let major = take 4 (drop 8 b) in
        if major \<in> set mp4AudioBrands then True
        else if prefix ''qt'' major \<or> major = ''M4V '' then False
        else
          let e = big_endian32 b 0; e = (if e < 16 \<or> length b < e then length b else e) in
          if list_ex (\<lambda>i. i + 4 \<le> e \<and> take 4 (drop i b) \<in> set mp4AudioBrands)
               (map (\<lambda>k. 16 + 4 * k) [0..<e div 4]) then True
          else nameExt = ''m4a'')"

text \<open>A variable-size integer of EBML: its value and its width, which is 0 when there is none.\<close>

definition ebmlVint :: "string \<Rightarrow> bool \<Rightarrow> nat \<times> nat" where
  "ebmlVint b keepMarker =
     (if b = [] \<or> byte (hd b) = 0 then (0, 0)
      else
        let n = 8 - bit_len (byte (hd b)) + 1 in
        if length b < n then (0, 0)
        else
          let v = (if keepMarker then byte (hd b) else byte (hd b) mod 2 ^ (8 - n))
          in (foldl (\<lambda>v c. v * 256 + byte c) v (take (n - 1) (tl b)), n))"

lemma ebmlVint_width: "snd (ebmlVint b k) \<le> length b"
  by (simp add: ebmlVint_def Let_def)

function ebml_elements :: "string \<Rightarrow> nat \<Rightarrow> nat \<Rightarrow> string" where
  "ebml_elements b pos e =
     (if \<not> pos < e then []
      else
        let (i, n) = ebmlVint (drop pos b) True in
        if n = 0 then []
        else
          let pos = pos + n; (sz, n) = ebmlVint (drop pos b) False in
          if n = 0 \<or> length b < sz \<or> length b < pos + n + sz then []
          else
            let pos = pos + n in
            if i = 17026 then take sz (drop pos b) else ebml_elements b (pos + sz) e)"
  by pat_completeness auto
termination
  by (relation "measure (\<lambda>(b, pos, e). e - pos)") auto

definition ebmlDocType :: "string \<Rightarrow> string" where
  "ebmlDocType b =
     (let (size, n) = ebmlVint (drop 4 b) False in
      if n = 0 then []
      else
        let pos = 4 + n;
            e = (if length b < size \<or> length b < pos + size then length b else pos + size)
        in ebml_elements b pos e)"

definition sniffBinary :: "go_lib \<Rightarrow> string \<Rightarrow> string \<Rightarrow> sniffed option" where
  "sniffBinary lib b nameExt =
     (if prefix (bytes [137] @ ''PNG'' @ bytes [13, 10, 26, 10]) b then Some (KindImage, ''image/png'', ''png'')
      else if prefix (bytes [255, 216, 255]) b then Some (KindImage, ''image/jpeg'', ''jpg'')
      else if prefix ''GIF87a'' b \<or> prefix ''GIF89a'' b then Some (KindImage, ''image/gif'', ''gif'')
      else if prefix ''RIFF'' b \<and> at_offset 8 ''WEBP'' b then Some (KindImage, ''image/webp'', ''webp'')
      else if prefix ''RIFF'' b \<and> at_offset 8 ''WAVE'' b then Some (KindAudio, ''audio/wav'', ''wav'')
      else if prefix ''BM'' b \<and> isBMP b then Some (KindImage, ''image/bmp'', ''bmp'')
      else if prefix ''fLaC'' b then Some (KindAudio, ''audio/flac'', ''flac'')
      else if prefix ''ID3'' b \<or> isMP3Frame b then Some (KindAudio, ''audio/mpeg'', ''mp3'')
      else if prefix ''OggS'' b then
        (if contains ''theora'' b \<or> nameExt = ''ogv'' then Some (KindVideo, ''video/ogg'', ''ogg'')
         else Some (KindAudio, ''audio/ogg'', ''ogg''))
      else if at_offset 4 ''ftyp'' b then
        (if isMP4Audio b nameExt then Some (KindAudio, ''audio/mp4'', ''m4a'')
         else Some (KindVideo, ''video/mp4'', ''mp4''))
      else if prefix (bytes [26, 69, 223, 163]) b then
        (if EqualFold lib (ebmlDocType b) ''matroska'' then Some (KindVideo, ''video/x-matroska'', ''mkv'')
         else Some (KindVideo, ''video/webm'', ''webm''))
      else None)"

subsection \<open>Text formats\<close>

definition isSVG :: "string \<Rightarrow> bool" where
  "isSVG l \<longleftrightarrow>
     prefix ''<svg'' l \<or> (prefix ''<?xml'' l \<or> prefix ''<!doctype svg'' l) \<and> contains ''<svg'' l"

definition utf8BOM :: string where
  "utf8BOM = bytes [239, 187, 191]"

definition trim_prefix :: "string \<Rightarrow> string \<Rightarrow> string" where
  "trim_prefix p s = (if prefix p s then drop (length p) s else s)"

definition sniffText :: "go_lib \<Rightarrow> (string \<Rightarrow> string) \<Rightarrow> string \<Rightarrow> string \<Rightarrow> sniffed option" where
  "sniffText lib detect b nameExt =
     (let trimmed = dropWhile (\<lambda>c. byte c \<in> {32, 9, 13, 10, 12}) (trim_prefix utf8BOM b) in
      if trimmed = [] \<or> hd trimmed \<noteq> CHR ''<'' then None
      else if isSVG (ToLower lib trimmed) then Some (KindImage, ''image/svg+xml'', ''svg'')
      else
        let ct = detect b in
        if prefix ''text/html'' ct then Some (KindHTML, ''text/html; charset=utf-8'', ''html'')
        else if (nameExt = ''html'' \<or> nameExt = ''htm'') \<and> (prefix ''text/plain'' ct \<or> prefix ''text/xml'' ct)
        then Some (KindHTML, ''text/html; charset=utf-8'', ''html'')
        else None)"

definition Sniff :: "go_lib \<Rightarrow> (string \<Rightarrow> string) \<Rightarrow> string \<Rightarrow> string \<Rightarrow> sniffed option" where
  "Sniff lib detect head originalName =
     (let head = take SniffLen head in
      if head = [] then None
      else
        let nameExt = ToLower lib (trim_prefix ''.'' (path_ext (replace_byte (CHR 0x5C) (CHR ''/'') originalName)))
        in case sniffBinary lib head nameExt of
             Some r \<Rightarrow> Some r
           | None \<Rightarrow> sniffText lib detect head nameExt)"

subsection \<open>Limits\<close>

record limits =
  li_MaxImage :: int
  li_MaxAudio :: int
  li_MaxVideo :: int
  li_MaxHTML :: int
  li_AllowSVG :: bool

definition DefaultLimits :: limits where
  "DefaultLimits =
     \<lparr>li_MaxImage = 20 * 2 ^ 20, li_MaxAudio = 100 * 2 ^ 20, li_MaxVideo = 512 * 2 ^ 20,
      li_MaxHTML = 2 ^ 20, li_AllowSVG = False\<rparr>"

definition Max_kind :: "limits \<Rightarrow> kind \<Rightarrow> int" where
  "Max_kind l k =
     (case k of
        KindImage \<Rightarrow> li_MaxImage l
      | KindAudio \<Rightarrow> li_MaxAudio l
      | KindVideo \<Rightarrow> li_MaxVideo l
      | KindHTML \<Rightarrow> li_MaxHTML l
      | KindAny \<Rightarrow> 0)"

subsection \<open>What is sniffed\<close>

text \<open>The kind of an object is the first half of its MIME type; the extension is one that goes with it.\<close>

definition known_formats :: "sniffed list" where
  "known_formats =
     [(KindImage, ''image/png'', ''png''), (KindImage, ''image/jpeg'', ''jpg''), (KindImage, ''image/gif'', ''gif''),
      (KindImage, ''image/webp'', ''webp''), (KindAudio, ''audio/wav'', ''wav''), (KindImage, ''image/bmp'', ''bmp''),
      (KindAudio, ''audio/flac'', ''flac''), (KindAudio, ''audio/mpeg'', ''mp3''), (KindVideo, ''video/ogg'', ''ogg''),
      (KindAudio, ''audio/ogg'', ''ogg''), (KindAudio, ''audio/mp4'', ''m4a''), (KindVideo, ''video/mp4'', ''mp4''),
      (KindVideo, ''video/x-matroska'', ''mkv''), (KindVideo, ''video/webm'', ''webm''),
      (KindImage, ''image/svg+xml'', ''svg''), (KindHTML, ''text/html; charset=utf-8'', ''html'')]"

lemma Sniff_known: "Sniff lib detect head name = Some r \<Longrightarrow> r \<in> set known_formats"
  by (auto simp: Sniff_def sniffBinary_def sniffText_def known_formats_def Let_def
      split: if_splits option.splits)

end
