(* ===== verification/Media_Store.thy ===== *)
theory Media_Store
  imports Media_Sniff Pack_Validate
begin

text \<open>
  The content-addressed media store (\<open>internal/media/store.go\<close>): the table of metadata and the files,
  \<open>Put\<close>, \<open>Stat\<close>, \<open>Open\<close>, \<open>Delete\<close> and \<open>Sweep\<close>. An upload is the bytes its reader delivers and whether the
  reader then fails. SHA-256, \<open>http.DetectContentType\<close>, the decoding of image headers and the external
  prober are parameters. The file system and the database are taken to work: their own failures end an operation
  with an error and are left out.
\<close>

record meta =
  me_ID :: string
  me_Kind :: kind
  me_MIME :: string
  me_Ext :: string
  me_Size :: nat
  me_DurationMs :: int
  me_Width :: int
  me_Height :: int
  me_OriginalName :: string
  me_RefCount :: int
  me_CreatedAt :: int

datatype media_error =
  MediaNotFound | MediaUnsupported | MediaTooLarge | MediaInUse | MediaKindMismatch | MediaReadFailed

record media_cfg =
  mc_lib :: go_lib
  mc_detect :: "string \<Rightarrow> string"
  mc_sha256 :: "string \<Rightarrow> string"
  mc_imageSize :: "string \<Rightarrow> string \<Rightarrow> (int \<times> int) option"
  mc_prober :: "(string \<Rightarrow> (int \<times> int \<times> int) option) option"
  mc_limits :: limits

record disk =
  dk_rows :: "(string \<times> meta) list"
  dk_files :: "(string \<times> string) list"

record upload =
  ul_bytes :: string
  ul_fails :: bool

definition maxOriginalName :: nat where
  "maxOriginalName = 255"

definition IsValidID :: "string \<Rightarrow> bool" where
  "IsValidID i \<longleftrightarrow>
     length i = 64 \<and> list_all (\<lambda>c. 48 \<le> byte c \<and> byte c \<le> 57 \<or> 97 \<le> byte c \<and> byte c \<le> 102) i"

definition filePath :: "string \<Rightarrow> string \<Rightarrow> string" where
  "filePath i ext = take 2 i @ ''/'' @ i @ ''.'' @ ext"

subsection \<open>Names\<close>

definition control_rune :: "string \<Rightarrow> bool" where
  "control_rune r \<longleftrightarrow> length r = 1 \<and> (byte (hd r) < 32 \<or> byte (hd r) = 127)"

definition cleanOriginalName :: "string \<Rightarrow> string" where
  "cleanOriginalName name =
     (let name = replace_byte (CHR 0x5C) (CHR ''/'') name;
          name = (case split_last (\<lambda>c. c = CHR ''/'') name of None \<Rightarrow> name | Some (_, b) \<Rightarrow> b);
          rs = filter (Not \<circ> control_rune) (decode name);
          name = TrimSpace (concat rs)
      in if maxOriginalName < RuneCount name then concat (take maxOriginalName (runes name)) else name)"

subsection \<open>Reading the table\<close>

definition Stat :: "string \<Rightarrow> disk \<Rightarrow> meta option" where
  "Stat i dk = (if IsValidID i then map_of (dk_rows dk) i else None)"

definition Open_media :: "string \<Rightarrow> disk \<Rightarrow> (string \<times> meta) option" where
  "Open_media i dk =
     (case Stat i dk of
        None \<Rightarrow> None
      | Some m \<Rightarrow> (case map_of (dk_files dk) (filePath i (me_Ext m)) of
            None \<Rightarrow> None
          | Some c \<Rightarrow> Some (c, m)))"

subsection \<open>Put\<close>

text \<open>What was received: the content, its classification and its identifier.\<close>

record received =
  rc_content :: string
  rc_kind :: kind
  rc_mime :: string
  rc_ext :: string
  rc_name :: string

definition receive :: "media_cfg \<Rightarrow> string \<Rightarrow> kind \<Rightarrow> upload \<Rightarrow> media_error + received" where
  "receive cfg originalName expected up =
     (let name = cleanOriginalName originalName;
          head = take SniffLen (ul_bytes up); rest = drop SniffLen (ul_bytes up)
      in if ul_fails up \<and> length (ul_bytes up) < SniffLen then Inl MediaReadFailed
         else
           case Sniff (mc_lib cfg) (mc_detect cfg) head name of
             None \<Rightarrow> Inl MediaUnsupported
           | Some (kind, mime, ext) \<Rightarrow>
               let limit = Max_kind (mc_limits cfg) kind; size = int (length head) in
               if ext = ''svg'' \<and> \<not> li_AllowSVG (mc_limits cfg) then Inl MediaUnsupported
               else if expected \<noteq> KindAny \<and> expected \<noteq> kind then Inl MediaKindMismatch
               else if 0 < limit \<and> limit < size then Inl MediaTooLarge
               else
                 let copied = (if 0 < limit then take (nat (limit - size + 1)) rest else rest);
                     size = size + int (length copied)
                 in if ul_fails up \<and> (0 < limit \<longrightarrow> size \<le> limit) then Inl MediaReadFailed
                    else if 0 < limit \<and> limit < size then Inl MediaTooLarge
                    else Inr \<lparr>rc_content = head @ copied, rc_kind = kind, rc_mime = mime, rc_ext = ext,
                              rc_name = name\<rparr>)"

text \<open>
  Duration, width and height. \<open>mc_imageSize\<close> decodes image headers, \<open>mc_prober\<close> is the external prober
  (\<open>None\<close> for \<open>NopProber\<close>), which may fail.
\<close>

definition probe_media :: "media_cfg \<Rightarrow> string \<Rightarrow> kind \<Rightarrow> string \<Rightarrow> int \<times> int \<times> int" where
  "probe_media cfg content kind mime =
     (if kind = KindHTML then (0, 0, 0)
      else
        case (if kind = KindImage then mc_imageSize cfg content mime else None) of
          Some (w, h) \<Rightarrow> (0, w, h)
        | None \<Rightarrow>
            (case mc_prober cfg of
               None \<Rightarrow> (0, 0, 0)
             | Some probe \<Rightarrow>
                 (case probe content of
                    None \<Rightarrow> (0, 0, 0)
                  | Some (d, w, h) \<Rightarrow> (if kind = KindImage then 0 else d, w, h))))"

definition new_meta :: "media_cfg \<Rightarrow> int \<Rightarrow> received \<Rightarrow> meta" where
  "new_meta cfg now r =
     (let (d, w, h) = probe_media cfg (rc_content r) (rc_kind r) (rc_mime r)
      in \<lparr>me_ID = mc_sha256 cfg (rc_content r), me_Kind = rc_kind r, me_MIME = rc_mime r, me_Ext = rc_ext r,
          me_Size = length (rc_content r), me_DurationMs = d, me_Width = w, me_Height = h,
          me_OriginalName = rc_name r, me_RefCount = 0, me_CreatedAt = now\<rparr>)"

definition place_file :: "meta \<Rightarrow> string \<Rightarrow> disk \<Rightarrow> disk" where
  "place_file m c dk = dk\<lparr>dk_files := mput (filePath (me_ID m) (me_Ext m)) c (dk_files dk)\<rparr>"

text \<open>\<open>INSERT ... ON CONFLICT(id) DO NOTHING\<close>.\<close>

definition insert_row :: "meta \<Rightarrow> disk \<Rightarrow> disk" where
  "insert_row m dk =
     (if map_of (dk_rows dk) (me_ID m) = None then dk\<lparr>dk_rows := mput (me_ID m) m (dk_rows dk)\<rparr> else dk)"

definition Put_media :: "media_cfg \<Rightarrow> int \<Rightarrow> string \<Rightarrow> kind \<Rightarrow> upload \<Rightarrow> disk \<Rightarrow> (media_error + meta) \<times> disk" where
  "Put_media cfg now originalName expected up dk =
     (case receive cfg originalName expected up of
        Inl e \<Rightarrow> (Inl e, dk)
      | Inr r \<Rightarrow>
          (case Stat (mc_sha256 cfg (rc_content r)) dk of
             Some m \<Rightarrow> (Inr m, dk)
           | None \<Rightarrow>
               let m = new_meta cfg now r; dk = place_file m (rc_content r) dk;
                   known = map_of (dk_rows dk) (me_ID m) \<noteq> None; dk = insert_row m dk
               in if known then (case Stat (me_ID m) dk of None \<Rightarrow> Inl MediaNotFound | Some m \<Rightarrow> Inr m, dk)
                  else (Inr m, dk)))"

subsection \<open>Delete and Sweep\<close>

definition delete_row :: "string \<Rightarrow> disk \<Rightarrow> disk" where
  "delete_row i dk = dk\<lparr>dk_rows := mdel i (dk_rows dk)\<rparr>"

definition remove_file :: "string \<Rightarrow> string \<Rightarrow> disk \<Rightarrow> disk" where
  "remove_file i ext dk = dk\<lparr>dk_files := mdel (filePath i ext) (dk_files dk)\<rparr>"

definition Delete_media :: "string \<Rightarrow> disk \<Rightarrow> media_error option \<times> disk" where
  "Delete_media i dk =
     (if \<not> IsValidID i then (Some MediaNotFound, dk)
      else case map_of (dk_rows dk) i of
             None \<Rightarrow> (Some MediaNotFound, dk)
           | Some m \<Rightarrow>
               if 0 < me_RefCount m then (Some MediaInUse, dk)
               else (None, remove_file i (me_Ext m) (delete_row i dk)))"

definition sweep_one :: "string \<Rightarrow> nat \<times> disk \<Rightarrow> nat \<times> disk" where
  "sweep_one i s =
     (case Delete_media i (snd s) of
        (None, dk) \<Rightarrow> (Suc (fst s), dk)
      | (Some _, dk) \<Rightarrow> (fst s, dk))"

definition Sweep :: "int \<Rightarrow> disk \<Rightarrow> nat \<times> disk" where
  "Sweep cutoff dk =
     fold sweep_one
       (map fst (filter (\<lambda>(i, m). me_RefCount m = 0 \<and> me_CreatedAt m < cutoff) (dk_rows dk))) (0, dk)"

text \<open>The pack repository counts references in its own transactions.\<close>

definition upd_row :: "string \<Rightarrow> (meta \<Rightarrow> meta) \<Rightarrow> disk \<Rightarrow> disk" where
  "upd_row i f dk = dk\<lparr>dk_rows := map (\<lambda>(j, m). (j, if j = i then f m else m)) (dk_rows dk)\<rparr>"

definition inc_ref :: "string \<Rightarrow> disk \<Rightarrow> disk" where
  "inc_ref i = upd_row i (\<lambda>m. m\<lparr>me_RefCount := me_RefCount m + 1\<rparr>)"

definition dec_ref :: "string \<Rightarrow> disk \<Rightarrow> disk" where
  "dec_ref i = upd_row i (\<lambda>m. if 0 < me_RefCount m then m\<lparr>me_RefCount := me_RefCount m - 1\<rparr> else m)"

end
