(* ===== verification/Pack_Repo.thy ===== *)
theory Pack_Repo
  imports Media_Store "HOL-Library.Product_Lexorder" "HOL-Library.List_Lexorder" "HOL-Library.Char_ord"
begin

text \<open>
  The repository of packs (\<open>internal/packs/repo.go\<close>) over three tables: \<open>packs\<close>, \<open>pack_media\<close> and the
  media table of the media store. An operation is a transaction of the single database connection: on
  an error nothing is written. Encoding a pack as JSON and decoding it again is the parameter
  \<open>rc_json\<close>; new identifiers come from the stream \<open>rc_ids\<close>, of which \<open>rp_drawn\<close> have been drawn.
\<close>

record pack_row =
  pw_Version :: int
  pw_Name :: string
  pw_Language :: string
  pw_Difficulty :: int
  pw_Authors :: string
  pw_Tags :: string
  pw_RoundCount :: nat
  pw_ThemeCount :: nat
  pw_QuestionCount :: nat
  pw_HasMedia :: bool
  pw_LogoMediaID :: string
  pw_Doc :: pack
  pw_CreatedAt :: int
  pw_UpdatedAt :: int

record repo =
  rp_packs :: "(string \<times> pack_row) list"
  rp_refs :: "(string \<times> string) list"
  rp_disk :: disk
  rp_drawn :: nat

record repo_cfg =
  rc_lib :: go_lib
  rc_json :: "pack \<Rightarrow> pack"
  rc_ids :: id_stream

datatype repo_error =
  RepoNotFound | RepoAlreadyExists | RepoVersionConflict | RepoInvalid "problem list" | RepoConstraint

subsection \<open>Columns\<close>

definition newline :: char where
  "newline = char_of (10 :: nat)"

fun joinList :: "string list \<Rightarrow> string" where
  "joinList [] = []"
| "joinList [x] = x"
| "joinList (x # xs) = x @ newline # joinList xs"

definition splitList :: "string \<Rightarrow> string list" where
  "splitList s = (if s = [] then [] else split_on newline s)"

definition row_of :: "pack \<Rightarrow> pack_row" where
  "row_of p =
     (let s = Summarize p
      in \<lparr>pw_Version = sm_Version s, pw_Name = sm_Name s, pw_Language = sm_Language s,
          pw_Difficulty = sm_Difficulty s, pw_Authors = joinList (sm_Authors s), pw_Tags = joinList (sm_Tags s),
          pw_RoundCount = sm_RoundCount s, pw_ThemeCount = sm_ThemeCount s,
          pw_QuestionCount = sm_QuestionCount s, pw_HasMedia = sm_HasMedia s,
          pw_LogoMediaID = sm_LogoMediaID s, pw_Doc = p, pw_CreatedAt = sm_CreatedAt s,
          pw_UpdatedAt = sm_UpdatedAt s\<rparr>)"

definition scanSummary :: "repo_cfg \<Rightarrow> string \<Rightarrow> pack_row \<Rightarrow> summary" where
  "scanSummary cfg i w =
     \<lparr>sm_ID = i, sm_Version = pw_Version w, sm_Name = pw_Name w, sm_Language = pw_Language w,
      sm_Difficulty = pw_Difficulty w, sm_Restriction = pk_Restriction (rc_json cfg (pw_Doc w)),
      sm_Tags = splitList (pw_Tags w), sm_Authors = splitList (pw_Authors w),
      sm_RoundCount = pw_RoundCount w, sm_ThemeCount = pw_ThemeCount w,
      sm_QuestionCount = pw_QuestionCount w, sm_HasMedia = pw_HasMedia w,
      sm_LogoMediaID = pw_LogoMediaID w, sm_CreatedAt = pw_CreatedAt w, sm_UpdatedAt = pw_UpdatedAt w\<rparr>"

subsection \<open>References\<close>

text \<open>\<open>mediaRefPaths\<close>: every reference with the JSON pointer of its place.\<close>

definition indexed :: "(nat \<Rightarrow> 'a \<Rightarrow> 'b list) \<Rightarrow> 'a list \<Rightarrow> 'b list" where
  "indexed f xs = concat (map2 f [0..<length xs] xs)"

definition item_refs :: "string \<Rightarrow> content_item list \<Rightarrow> (string \<times> string) list" where
  "item_refs path items =
     indexed (\<lambda>i it. if ci_MediaID it \<noteq> [] then [(sub path i @ ''/mediaId'', ci_MediaID it)] else []) items"

primrec param_refs :: "param \<Rightarrow> string \<Rightarrow> (string \<times> string) list" where
  "param_refs (Param nm ty ref val items params ns) path =
     item_refs (path @ ''/items'') items @
     indexed (\<lambda>i f. f (sub (path @ ''/params'') i)) (map param_refs params)"

definition params_refs :: "string \<Rightarrow> param list \<Rightarrow> (string \<times> string) list" where
  "params_refs path ps = indexed (\<lambda>i p. param_refs p (sub path i)) ps"

definition question_refs :: "string \<Rightarrow> pack_question \<Rightarrow> (string \<times> string) list" where
  "question_refs qp q =
     item_refs (qp @ ''/params/question'') (qp_Question (pq_Params q)) @
     item_refs (qp @ ''/params/answer'') (qp_Answer (pq_Params q)) @
     indexed (\<lambda>o' opt. item_refs (sub (qp @ ''/params/answerOptions'') o' @ ''/content'') (ao_Content opt))
       (qp_AnswerOptions (pq_Params q)) @
     params_refs (qp @ ''/extraParams'') (pq_Extra q) @
     indexed (\<lambda>s st. params_refs (sub (qp @ ''/script'') s @ ''/params'') (ss_Params st)) (pq_Script q)"

definition mediaRefPaths :: "pack \<Rightarrow> (string \<times> string) list" where
  "mediaRefPaths p =
     (if pk_LogoMediaID p \<noteq> [] then [(''/logoMediaId'', pk_LogoMediaID p)] else []) @
     indexed (\<lambda>i r. indexed (\<lambda>j t. indexed (\<lambda>k q.
         question_refs (sub (sub (sub ''/rounds'' i @ ''/themes'') j @ ''/questions'') k) q)
       (pt_Questions t)) (pr_Themes r)) (pk_Rounds p)"

definition mediaRefsTx :: "string \<Rightarrow> repo \<Rightarrow> string list" where
  "mediaRefsTx pid s = map snd (filter (\<lambda>r. fst r = pid) (rp_refs s))"

definition diffRefs :: "string list \<Rightarrow> string list \<Rightarrow> string list \<times> string list" where
  "diffRefs oldRefs newRefs =
     (fold (\<lambda>i out. if i \<in> set oldRefs \<or> i \<in> set out then out else out @ [i]) newRefs [],
      fold (\<lambda>i out. if i \<in> set newRefs \<or> i \<in> set out then out else out @ [i]) oldRefs [])"

definition checkMediaExist :: "pack \<Rightarrow> string list \<Rightarrow> repo \<Rightarrow> problem list option" where
  "checkMediaExist p ids s =
     (let missing = filter (\<lambda>i. map_of (dk_rows (rp_disk s)) i = None) ids
      in if missing = [] then None
         else Some (map (\<lambda>r. \<lparr>pb_Path = fst r, pb_Code = CodeMediaNotFound\<rparr>)
                     (filter (\<lambda>r. snd r \<in> set missing) (mediaRefPaths p))))"

text \<open>
  \<open>INSERT INTO pack_media\<close> fails when the primary key is taken or when the pack or the medium of the
  foreign keys does not exist.
\<close>

definition addMediaRef :: "string \<Rightarrow> string \<Rightarrow> repo \<Rightarrow> repo option" where
  "addMediaRef pid i s =
     (if (pid, i) \<in> set (rp_refs s) \<or> map_of (rp_packs s) pid = None \<or> map_of (dk_rows (rp_disk s)) i = None
      then None
      else Some (s\<lparr>rp_refs := rp_refs s @ [(pid, i)], rp_disk := inc_ref i (rp_disk s)\<rparr>))"

fun addMediaRefs :: "string \<Rightarrow> string list \<Rightarrow> repo \<Rightarrow> repo option" where
  "addMediaRefs pid [] s = Some s"
| "addMediaRefs pid (i # is) s =
     (case addMediaRef pid i s of None \<Rightarrow> None | Some s \<Rightarrow> addMediaRefs pid is s)"

definition removeMediaRef :: "string \<Rightarrow> string \<Rightarrow> repo \<Rightarrow> repo" where
  "removeMediaRef pid i s =
     s\<lparr>rp_refs := filter (\<lambda>r. r \<noteq> (pid, i)) (rp_refs s), rp_disk := dec_ref i (rp_disk s)\<rparr>"

definition removeMediaRefs :: "string \<Rightarrow> string list \<Rightarrow> repo \<Rightarrow> repo" where
  "removeMediaRefs pid is s = fold (removeMediaRef pid) is s"

subsection \<open>Create, Get, Update, Delete, Duplicate\<close>

definition Create_pack :: "repo_cfg \<Rightarrow> int \<Rightarrow> pack \<Rightarrow> repo \<Rightarrow> (repo_error + pack) \<times> repo" where
  "Create_pack cfg now p s =
     (let (p, drawn) = EnsureIDs (rc_ids cfg) p (rp_drawn s);
          p = Normalize_pack (rc_lib cfg) p; s = s\<lparr>rp_drawn := drawn\<rparr>
      in if Validate_pack (rc_lib cfg) p \<noteq> [] then (Inl (RepoInvalid (Validate_pack (rc_lib cfg) p)), s)
         else
           let p = p\<lparr>pk_Version := 1, pk_CreatedAt := now, pk_UpdatedAt := now\<rparr>; refs = MediaIDs p
           in if map_of (rp_packs s) (pk_ID p) \<noteq> None then (Inl RepoAlreadyExists, s)
              else
                case checkMediaExist p refs s of
                  Some problems \<Rightarrow> (Inl (RepoInvalid problems), s)
                | None \<Rightarrow>
                    (case addMediaRefs (pk_ID p) refs (s\<lparr>rp_packs := mput (pk_ID p) (row_of p) (rp_packs s)\<rparr>) of
                       None \<Rightarrow> (Inl RepoConstraint, s)
                     | Some s' \<Rightarrow> (Inr p, s')))"

definition Get_pack :: "repo_cfg \<Rightarrow> string \<Rightarrow> repo \<Rightarrow> repo_error + pack" where
  "Get_pack cfg i s =
     (case map_of (rp_packs s) i of None \<Rightarrow> Inl RepoNotFound | Some w \<Rightarrow> Inr (rc_json cfg (pw_Doc w)))"

definition GetSummary :: "repo_cfg \<Rightarrow> string \<Rightarrow> repo \<Rightarrow> repo_error + summary" where
  "GetSummary cfg i s =
     (case map_of (rp_packs s) i of None \<Rightarrow> Inl RepoNotFound | Some w \<Rightarrow> Inr (scanSummary cfg i w))"

text \<open>\<open>Update\<close> after the checks: the new row, the references that go and those that come.\<close>

definition write_update :: "int \<Rightarrow> int \<Rightarrow> pack \<Rightarrow> repo \<Rightarrow> (repo_error + pack) \<times> repo" where
  "write_update now storedVersion p s =
     (let (added, removed) = diffRefs (mediaRefsTx (pk_ID p) s) (MediaIDs p)
      in case checkMediaExist p added s of
           Some problems \<Rightarrow> (Inl (RepoInvalid problems), s)
         | None \<Rightarrow>
             let p = p\<lparr>pk_Version := storedVersion + 1, pk_UpdatedAt := now\<rparr>;
                 s' = s\<lparr>rp_packs := mput (pk_ID p) ((row_of p)\<lparr>pw_CreatedAt :=
                        (case map_of (rp_packs s) (pk_ID p) of None \<Rightarrow> 0 | Some w \<Rightarrow> pw_CreatedAt w)\<rparr>) (rp_packs s)\<rparr>
             in case addMediaRefs (pk_ID p) added (removeMediaRefs (pk_ID p) removed s') of
                  None \<Rightarrow> (Inl RepoConstraint, s)
                | Some s' \<Rightarrow> (Inr p, s'))"

definition Update_pack :: "repo_cfg \<Rightarrow> int \<Rightarrow> pack \<Rightarrow> int \<Rightarrow> repo \<Rightarrow> (repo_error + pack) \<times> repo" where
  "Update_pack cfg now p expectedVersion s =
     (if pk_ID p = [] then (Inl RepoNotFound, s)
      else
        case map_of (rp_packs s) (pk_ID p) of
          None \<Rightarrow> (Inl RepoNotFound, s)
        | Some w \<Rightarrow>
            if expectedVersion \<noteq> 0 \<and> pw_Version w \<noteq> expectedVersion then (Inl RepoVersionConflict, s)
            else
              let p = p\<lparr>pk_Version := pw_Version w, pk_CreatedAt := pw_CreatedAt w\<rparr>;
                  (p, drawn) = EnsureIDs (rc_ids cfg) p (rp_drawn s);
                  p = Normalize_pack (rc_lib cfg) p; s = s\<lparr>rp_drawn := drawn\<rparr>
              in if Validate_pack (rc_lib cfg) p \<noteq> [] then (Inl (RepoInvalid (Validate_pack (rc_lib cfg) p)), s)
                 else write_update now (pw_Version w) p s)"

text \<open>The references of a deleted pack go with its row (\<open>ON DELETE CASCADE\<close>).\<close>

definition Delete_pack :: "string \<Rightarrow> repo \<Rightarrow> repo_error option \<times> repo" where
  "Delete_pack i s =
     (let s' = removeMediaRefs i (mediaRefsTx i s) s
      in if map_of (rp_packs s') i = None then (Some RepoNotFound, s)
         else (None, s'\<lparr>rp_packs := mdel i (rp_packs s'), rp_refs := filter (\<lambda>r. fst r \<noteq> i) (rp_refs s')\<rparr>))"

definition Duplicate_pack :: "repo_cfg \<Rightarrow> int \<Rightarrow> string \<Rightarrow> string \<Rightarrow> repo \<Rightarrow> (repo_error + pack) \<times> repo" where
  "Duplicate_pack cfg now i newName s =
     (case Get_pack cfg i s of
        Inl e \<Rightarrow> (Inl e, s)
      | Inr src \<Rightarrow>
          let cp = (ResetIDs (rc_json cfg src))\<lparr>pk_SIQID := []\<rparr>; newName = TrimSpace newName
          in Create_pack cfg now
               (cp\<lparr>pk_Name := (if newName \<noteq> [] then newName else pk_Name src @ '' (copy)'')\<rparr>) s)"

definition MediaRefs :: "string \<Rightarrow> repo \<Rightarrow> repo_error + string list" where
  "MediaRefs i s = (if map_of (rp_packs s) i = None then Inl RepoNotFound else Inr (sort (mediaRefsTx i s)))"

subsection \<open>Listing\<close>

record list_filter =
  lf_Query :: string
  lf_Language :: string
  lf_Tag :: string
  lf_MinDifficulty :: int
  lf_MaxDifficulty :: int
  lf_HasMedia :: "bool option"
  lf_Sort :: string
  lf_Order :: string
  lf_Limit :: int
  lf_Offset :: int

definition DefaultListLimit :: int where "DefaultListLimit = 50"
definition MaxListLimit :: int where "MaxListLimit = 200"

text \<open>
  The \<open>WHERE\<close> clause. Both sides of \<open>LIKE\<close> are in lower case and its wildcards are escaped, so it
  searches for a substring.
\<close>

definition list_matches :: "repo_cfg \<Rightarrow> list_filter \<Rightarrow> pack_row \<Rightarrow> bool" where
  "list_matches cfg f w \<longleftrightarrow>
     (let lower = ToLower (rc_lib cfg); q = TrimSpace (lf_Query f); tag = TrimSpace (lf_Tag f)
      in (q = [] \<or> list_ex (\<lambda>t. contains (lower q) (lower t)) [pw_Name w, pw_Authors w, pw_Tags w]) \<and>
         (lf_Language f = [] \<or> pw_Language w = lf_Language f) \<and>
         (tag = [] \<or>
          contains (newline # lower tag @ [newline]) (newline # lower (pw_Tags w) @ [newline])) \<and>
         (0 < lf_MinDifficulty f \<longrightarrow> lf_MinDifficulty f \<le> pw_Difficulty w) \<and>
         (0 < lf_MaxDifficulty f \<longrightarrow> pw_Difficulty w \<le> lf_MaxDifficulty f) \<and>
         (case lf_HasMedia f of None \<Rightarrow> True | Some b \<Rightarrow> pw_HasMedia w = b))"

definition directed :: "bool \<Rightarrow> 'a list \<Rightarrow> 'a list" where
  "directed descending xs = (if descending then rev xs else xs)"

text \<open>\<open>ORDER BY\<close>: ascending by the key and the identifier, or the reverse; \<open>None\<close> for a bad filter.\<close>

definition list_order :: "repo_cfg \<Rightarrow> list_filter \<Rightarrow> ((string \<times> pack_row) list \<Rightarrow> (string \<times> pack_row) list) option" where
  "list_order cfg f =
     (let order = ToLower (rc_lib cfg) (lf_Order f)
      in if order \<notin> {''asc'', ''desc'', []} then None
         else if lf_Sort f = [] \<or> lf_Sort f = ''updatedAt'' then
           Some (directed (order \<noteq> ''asc'') \<circ> sort_key (\<lambda>(i, w). (pw_UpdatedAt w, i)))
         else if lf_Sort f = ''createdAt'' then
           Some (directed (order \<noteq> ''asc'') \<circ> sort_key (\<lambda>(i, w). (pw_CreatedAt w, i)))
         else if lf_Sort f = ''name'' then
           Some (directed (order = ''desc'') \<circ>
             sort_key (\<lambda>(i, w). (ToLower (rc_lib cfg) (pw_Name w), pw_Name w, i)))
         else None)"

definition list_limit :: "list_filter \<Rightarrow> nat" where
  "list_limit f = nat (if lf_Limit f \<le> 0 then DefaultListLimit else min (lf_Limit f) MaxListLimit)"

definition List_packs :: "repo_cfg \<Rightarrow> list_filter \<Rightarrow> repo \<Rightarrow> (summary list \<times> nat) option" where
  "List_packs cfg f s =
     (case list_order cfg f of
        None \<Rightarrow> None
      | Some ordered \<Rightarrow>
          let found = filter (\<lambda>(i, w). list_matches cfg f w) (rp_packs s)
          in Some (map (\<lambda>(i, w). scanSummary cfg i w)
                     (take (list_limit f) (drop (nat (lf_Offset f)) (ordered found))), length found))"

end
