(* ===== verification/Media_Safety.thy ===== *)
theory Media_Safety
  imports Media_Store
begin

text \<open>
  What the media store promises: the rows and the files belong together after any sequence of
  operations, what was put can be opened, a sweep takes exactly the old unreferenced objects. Two
  operations at the same time can break the first promise, which is shown as well.
\<close>

subsection \<open>Rows and files\<close>

text \<open>SHA-256 printed by \<open>hex.EncodeToString\<close> is a valid identifier.\<close>

definition sha_hex :: "media_cfg \<Rightarrow> bool" where
  "sha_hex cfg \<longleftrightarrow> (\<forall>c. IsValidID (mc_sha256 cfg c))"

definition row_ok :: "media_cfg \<Rightarrow> disk \<Rightarrow> string \<Rightarrow> meta \<Rightarrow> bool" where
  "row_ok cfg dk i m \<longleftrightarrow>
     me_ID m = i \<and> IsValidID i \<and> 0 \<le> me_RefCount m \<and>
     (me_Kind m, me_MIME m, me_Ext m) \<in> set known_formats \<and>
     (0 < Max_kind (mc_limits cfg) (me_Kind m) \<longrightarrow> int (me_Size m) \<le> Max_kind (mc_limits cfg) (me_Kind m)) \<and>
     (\<exists>c. map_of (dk_files dk) (filePath i (me_Ext m)) = Some c \<and> mc_sha256 cfg c = i \<and> length c = me_Size m)"

definition store_ok :: "media_cfg \<Rightarrow> disk \<Rightarrow> bool" where
  "store_ok cfg dk \<longleftrightarrow>
     distinct (map fst (dk_rows dk)) \<and> (\<forall>i m. map_of (dk_rows dk) i = Some m \<longrightarrow> row_ok cfg dk i m)"

lemma filePath_inject:
  assumes "length i = length j"
  shows "filePath i e = filePath j f \<longleftrightarrow> i = j \<and> e = f"
  using assms by (auto simp: filePath_def)

lemma valid_paths:
  assumes "IsValidID i" "IsValidID j"
  shows "filePath i e = filePath j f \<longleftrightarrow> i = j \<and> e = f"
  using assms by (simp add: filePath_inject IsValidID_def)

lemma map_of_mdel: "map_of (mdel k m) = (map_of m)(k := None)"
  by (simp add: mdel_def delete_conv')

lemma distinct_keys_mdel: "distinct (map fst m) \<Longrightarrow> distinct (map fst (mdel k m))"
  by (simp add: mdel_def distinct_delete)

lemma row_ok_files:
  assumes "row_ok cfg dk i m"
    and "map_of (dk_files dk') (filePath i (me_Ext m)) = map_of (dk_files dk) (filePath i (me_Ext m))"
  shows "row_ok cfg dk' i m"
  using assms by (simp add: row_ok_def)

subsection \<open>The operations\<close>

lemma receive_ok:
  assumes "receive cfg nm ex up = Inr r"
  shows "rc_content r = ul_bytes up \<and> \<not> ul_fails up \<and> (rc_kind r, rc_mime r, rc_ext r) \<in> set known_formats \<and>
    (ex = KindAny \<or> rc_kind r = ex) \<and>
    (0 < Max_kind (mc_limits cfg) (rc_kind r) \<longrightarrow>
       int (length (rc_content r)) \<le> Max_kind (mc_limits cfg) (rc_kind r))"
proof -
  let ?head = "take SniffLen (ul_bytes up)" and ?rest = "drop SniffLen (ul_bytes up)"
  obtain kind mime ext where s: "Sniff (mc_lib cfg) (mc_detect cfg) ?head (cleanOriginalName nm) = Some (kind, mime, ext)"
    using assms by (auto simp: receive_def Let_def split: if_splits option.splits)
  define L where "L = Max_kind (mc_limits cfg) kind"
  have split_up: "?head @ ?rest = ul_bytes up" by simp
  define copied where "copied = (if 0 < L then take (nat (L - int (length ?head) + 1)) ?rest else ?rest)"
  have r: "r = \<lparr>rc_content = ?head @ copied, rc_kind = kind, rc_mime = mime, rc_ext = ext,
      rc_name = cleanOriginalName nm\<rparr>"
    and ex: "ex = KindAny \<or> kind = ex"
    and nofail: "\<not> (ul_fails up \<and> (0 < L \<longrightarrow> int (length ?head) + int (length copied) \<le> L))"
    and size: "\<not> (0 < L \<and> L < int (length ?head) + int (length copied))"
    and head: "\<not> (0 < L \<and> L < int (length ?head))"
    using assms s by (auto simp: receive_def Let_def copied_def L_def split: if_splits)
  have "copied = ?rest"
    using size head by (auto simp: copied_def nat_less_iff split: if_splits)
  then show ?thesis
    using r ex nofail size Sniff_known [OF s] split_up by (auto simp: L_def)
qed

lemma row_ok_new:
  assumes "sha_hex cfg" "receive cfg nm ex up = Inr r"
  shows "row_ok cfg (insert_row (new_meta cfg now r) (place_file (new_meta cfg now r) (rc_content r) dk))
    (mc_sha256 cfg (rc_content r)) (new_meta cfg now r)"
  using assms receive_ok [OF assms(2)]
  by (auto simp: row_ok_def sha_hex_def new_meta_def insert_row_def place_file_def split: prod.splits)

lemma store_ok_insert:
  assumes ok: "store_ok cfg dk" and sha: "sha_hex cfg" and r: "receive cfg nm ex up = Inr r"
    and new: "map_of (dk_rows dk) (mc_sha256 cfg (rc_content r)) = None"
  shows "store_ok cfg (insert_row (new_meta cfg now r) (place_file (new_meta cfg now r) (rc_content r) dk))"
    (is "store_ok cfg ?dk")
proof -
  let ?m = "new_meta cfg now r" and ?i = "mc_sha256 cfg (rc_content r)"
  have id: "me_ID ?m = ?i" and ref: "me_Ext ?m = rc_ext r"
    by (auto simp: new_meta_def split: prod.splits)
  have rows: "dk_rows ?dk = mput ?i ?m (dk_rows dk)"
    using new by (simp add: insert_row_def place_file_def id)
  have files: "dk_files ?dk = mput (filePath ?i (me_Ext ?m)) (rc_content r) (dk_files dk)"
    by (simp add: insert_row_def place_file_def id)
  have "row_ok cfg ?dk i m" if "map_of (dk_rows ?dk) i = Some m" for i m
  proof (cases "i = ?i")
    case True
    then have m: "m = ?m" using that by (simp add: rows)
    show ?thesis unfolding m True by (rule row_ok_new [OF sha r])
  next
    case False
    then have old: "row_ok cfg dk i m" using that ok by (simp add: rows store_ok_def)
    then have "filePath i (me_Ext m) \<noteq> filePath ?i (me_Ext ?m)"
      using False sha by (simp add: row_ok_def sha_hex_def valid_paths)
    then show ?thesis using row_ok_files [OF old] by (simp add: files)
  qed
  then show ?thesis using ok by (simp add: store_ok_def rows)
qed

lemma store_ok_Put:
  assumes "store_ok cfg dk" "sha_hex cfg"
  shows "store_ok cfg (snd (Put_media cfg now nm ex up dk))"
  using assms store_ok_insert [OF assms]
  by (auto simp: Put_media_def Let_def Stat_def sha_hex_def split: sum.split option.split)

lemma store_ok_remove:
  assumes ok: "store_ok cfg dk" and m: "map_of (dk_rows dk) i = Some m"
  shows "store_ok cfg (remove_file i (me_Ext m) (delete_row i dk))"
proof -
  have "row_ok cfg (remove_file i (me_Ext m) (delete_row i dk)) j n"
    if n: "map_of (dk_rows dk) j = Some n" "j \<noteq> i" for j n
  proof -
    have old: "row_ok cfg dk j n" using ok n by (simp add: store_ok_def del: map_of_eq_Some_iff)
    moreover have "row_ok cfg dk i m" using ok m by (simp add: store_ok_def del: map_of_eq_Some_iff)
    ultimately have "IsValidID i" "IsValidID j" by (simp_all add: row_ok_def)
    then have "filePath j (me_Ext n) \<noteq> filePath i (me_Ext m)" using n by (simp add: valid_paths)
    then show ?thesis using row_ok_files [OF old] by (simp add: remove_file_def delete_row_def map_of_mdel)
  qed
  then show ?thesis
    using ok unfolding store_ok_def
    by (simp add: remove_file_def delete_row_def map_of_mdel distinct_keys_mdel del: map_of_eq_Some_iff)
qed

lemma store_ok_Delete: "store_ok cfg dk \<Longrightarrow> store_ok cfg (snd (Delete_media i dk))"
  by (auto simp: Delete_media_def store_ok_remove split: option.splits)

lemma store_ok_sweep_one: "store_ok cfg (snd s) \<Longrightarrow> store_ok cfg (snd (sweep_one i s))"
  using store_ok_Delete [of cfg "snd s" i] by (auto simp: sweep_one_def split: prod.splits option.splits)

lemma store_ok_Sweep: "store_ok cfg dk \<Longrightarrow> store_ok cfg (snd (Sweep cutoff dk))"
proof -
  have "store_ok cfg (snd s) \<Longrightarrow> store_ok cfg (snd (fold sweep_one is s))" for "is" s
  proof (induction "is" arbitrary: s)
    case (Cons i "is")
    show ?case using Cons.IH [OF store_ok_sweep_one [OF Cons.prems]] by simp
  qed simp
  then show "store_ok cfg dk \<Longrightarrow> store_ok cfg (snd (Sweep cutoff dk))" by (simp add: Sweep_def)
qed

lemma map_of_upd_row: "map_of (dk_rows (upd_row i f dk)) j =
    map_option (\<lambda>m. if j = i then f m else m) (map_of (dk_rows dk) j)"
proof -
  have "map_of (map (\<lambda>(j, m). (j, h j m)) xs) k = map_option (h k) (map_of xs k)" for h :: "string \<Rightarrow> meta \<Rightarrow> meta" and xs k
    by (induction xs) auto
  then show ?thesis by (simp add: upd_row_def)
qed

lemma upd_row_frame [simp]:
  "map fst (dk_rows (upd_row i f dk)) = map fst (dk_rows dk)" "dk_files (upd_row i f dk) = dk_files dk"
  by (auto simp: upd_row_def)

lemma row_ok_count: "row_ok cfg dk i m \<Longrightarrow> 0 \<le> n \<Longrightarrow> row_ok cfg dk i (m\<lparr>me_RefCount := n\<rparr>)"
  by (simp add: row_ok_def)

lemma store_ok_upd_row:
  assumes "store_ok cfg dk" and "\<And>m. row_ok cfg dk i m \<Longrightarrow> row_ok cfg dk i (f m)"
  shows "store_ok cfg (upd_row i f dk)"
proof -
  have "row_ok cfg (upd_row i f dk) j m" if "map_of (dk_rows (upd_row i f dk)) j = Some m" for j m
  proof -
    obtain m0 where m0: "map_of (dk_rows dk) j = Some m0" "m = (if j = i then f m0 else m0)"
      using \<open>map_of (dk_rows (upd_row i f dk)) j = Some m\<close> by (auto simp: map_of_upd_row)
    then have "row_ok cfg dk j m0" using assms(1) by (simp add: store_ok_def del: map_of_eq_Some_iff)
    then have "row_ok cfg dk j m" using assms(2) m0(2) by auto
    then show ?thesis by (rule row_ok_files) simp
  qed
  then show ?thesis using assms(1) unfolding store_ok_def by (simp del: map_of_eq_Some_iff)
qed

lemma store_ok_inc: "store_ok cfg dk \<Longrightarrow> store_ok cfg (inc_ref i dk)"
  unfolding inc_ref_def by (erule store_ok_upd_row) (simp add: row_ok_count row_ok_def)

lemma store_ok_dec: "store_ok cfg dk \<Longrightarrow> store_ok cfg (dec_ref i dk)"
  unfolding dec_ref_def by (erule store_ok_upd_row) (simp add: row_ok_count)

subsection \<open>Stores that are reached\<close>

datatype media_op =
    PutOp int string kind upload
  | DeleteOp string
  | SweepOp int
  | IncOp string
  | DecOp string

fun media_step :: "media_cfg \<Rightarrow> media_op \<Rightarrow> disk \<Rightarrow> disk" where
  "media_step cfg (PutOp now nm ex up) dk = snd (Put_media cfg now nm ex up dk)"
| "media_step cfg (DeleteOp i) dk = snd (Delete_media i dk)"
| "media_step cfg (SweepOp cutoff) dk = snd (Sweep cutoff dk)"
| "media_step cfg (IncOp i) dk = inc_ref i dk"
| "media_step cfg (DecOp i) dk = dec_ref i dk"

definition empty_disk :: disk where
  "empty_disk = \<lparr>dk_rows = [], dk_files = []\<rparr>"

lemma store_ok_step: "store_ok cfg dk \<Longrightarrow> sha_hex cfg \<Longrightarrow> store_ok cfg (media_step cfg opn dk)"
  by (cases opn) (simp_all add: store_ok_Put store_ok_Delete store_ok_Sweep store_ok_inc store_ok_dec)

lemma store_ok_steps: "sha_hex cfg \<Longrightarrow> store_ok cfg dk \<Longrightarrow> store_ok cfg (fold (media_step cfg) ops dk)"
  by (induction ops arbitrary: dk) (auto intro: store_ok_step)

lemma store_ok_reached: "sha_hex cfg \<Longrightarrow> store_ok cfg (fold (media_step cfg) ops empty_disk)"
  by (rule store_ok_steps) (simp_all add: store_ok_def empty_disk_def)

text \<open>
  After any sequence of uploads, deletions, sweeps and changes of references, every row of
  the store has its file, whose content has the row's identifier as its hash and the row's size; the
  kind, the MIME type and the extension are one of the accepted combinations, the size respects the
  limit of the kind, and no reference count is negative.
\<close>

theorem store_keeps_bytes:
  assumes "sha_hex cfg"
  shows "\<forall>i m. map_of (dk_rows (fold (media_step cfg) ops empty_disk)) i = Some m \<longrightarrow>
    row_ok cfg (fold (media_step cfg) ops empty_disk) i m"
  using store_ok_reached [OF assms] by (simp add: store_ok_def)

subsection \<open>Put, then open\<close>

lemma Put_opens:
  assumes ok: "store_ok cfg dk" and sha: "sha_hex cfg"
    and put: "Put_media cfg now nm ex up dk = (Inr m, dk')"
    and inj: "\<forall>c \<in> snd ` set (dk_files dk). mc_sha256 cfg c = mc_sha256 cfg (ul_bytes up) \<longrightarrow> c = ul_bytes up"
  shows "Open_media (me_ID m) dk' = Some (ul_bytes up, m)"
proof -
  obtain r where r: "receive cfg nm ex up = Inr r"
    using put by (auto simp: Put_media_def split: sum.splits)
  then have c: "rc_content r = ul_bytes up" using receive_ok by blast
  have v: "IsValidID (mc_sha256 cfg (ul_bytes up))" using sha by (simp add: sha_hex_def)
  let ?i = "mc_sha256 cfg (ul_bytes up)"
  show ?thesis
  proof (cases "map_of (dk_rows dk) ?i")
    case (Some m0)
    then have m: "m = m0" "dk' = dk" using put r c v by (auto simp: Put_media_def Stat_def)
    have "row_ok cfg dk ?i m0" using ok Some by (simp add: store_ok_def)
    then obtain x where x: "me_ID m0 = ?i" "map_of (dk_files dk) (filePath ?i (me_Ext m0)) = Some x"
      "mc_sha256 cfg x = ?i" by (auto simp: row_ok_def)
    then have "x = ul_bytes up" using inj by (force dest: map_of_SomeD)
    then show ?thesis using x m v Some by (simp add: Open_media_def Stat_def)
  next
    case None
    have id: "me_ID (new_meta cfg now r) = ?i" using c by (auto simp: new_meta_def split: prod.splits)
    have m: "m = new_meta cfg now r" "dk' = insert_row m (place_file m (ul_bytes up) dk)"
      using put r c v None by (auto simp: Put_media_def Stat_def Let_def id place_file_def)
    then show ?thesis using None v id by (simp add: Open_media_def Stat_def insert_row_def place_file_def)
  qed
qed

text \<open>
  C34: whatever happened to the store before, a successful upload stores all bytes of the body: opening
  the returned identifier gives them back with the returned metadata, unless a file of the store has
  another content with the same SHA-256.
\<close>

theorem put_then_open:
  assumes "sha_hex cfg" and "dk = fold (media_step cfg) ops empty_disk"
    and "Put_media cfg now nm ex up dk = (Inr m, dk')"
    and "\<forall>c \<in> snd ` set (dk_files dk). mc_sha256 cfg c = mc_sha256 cfg (ul_bytes up) \<longrightarrow> c = ul_bytes up"
  shows "Open_media (me_ID m) dk' = Some (ul_bytes up, m)"
  using Put_opens [OF _ assms(1) assms(3) assms(4)] store_ok_reached [OF assms(1)] assms(2) by blast

subsection \<open>Sweep\<close>

text \<open>The objects a sweep takes.\<close>

definition stale :: "int \<Rightarrow> meta \<Rightarrow> bool" where
  "stale cutoff m \<longleftrightarrow> me_RefCount m = 0 \<and> me_CreatedAt m < cutoff"

lemma Delete_stale:
  assumes "IsValidID i" "map_of (dk_rows dk) i = Some m" "me_RefCount m = 0"
  shows "Delete_media i dk = (None, remove_file i (me_Ext m) (delete_row i dk))"
  using assms by (simp add: Delete_media_def)

lemma sweep_all:
  assumes "distinct is" "\<forall>i \<in> set is. IsValidID i \<and> (\<exists>m. map_of (dk_rows dk) i = Some m \<and> me_RefCount m = 0)"
  shows "fst (fold sweep_one is (n, dk)) = n + length is \<and>
    map_of (dk_rows (snd (fold sweep_one is (n, dk)))) =
      (\<lambda>i. if i \<in> set is then None else map_of (dk_rows dk) i)"
  using assms
proof (induction "is" arbitrary: n dk)
  case Nil
  then show ?case by simp
next
  case (Cons i "is")
  obtain m where m: "map_of (dk_rows dk) i = Some m" "me_RefCount m = 0" "IsValidID i"
    using Cons.prems by auto
  let ?dk = "remove_file i (me_Ext m) (delete_row i dk)"
  have one: "sweep_one i (n, dk) = (Suc n, ?dk)"
    using Delete_stale [OF m(3,1,2)] by (simp add: sweep_one_def)
  have rows: "map_of (dk_rows ?dk) = (map_of (dk_rows dk))(i := None)"
    by (simp add: remove_file_def delete_row_def map_of_mdel)
  have "\<forall>j \<in> set is. IsValidID j \<and> (\<exists>m. map_of (dk_rows ?dk) j = Some m \<and> me_RefCount m = 0)"
    using Cons.prems by (auto simp: rows)
  with Cons.IH [of ?dk "Suc n"] Cons.prems show ?case by (auto simp: one rows)
qed

text \<open>
  A sweep of a store that was reached removes exactly the objects that nobody references and
  that were created before the cutoff, leaves every other row as it is, and reports their number.
\<close>

theorem sweep_takes_stale:
  assumes "sha_hex cfg" and dk: "dk = fold (media_step cfg) ops empty_disk"
  shows "map_of (dk_rows (snd (Sweep cutoff dk))) i =
      (case map_of (dk_rows dk) i of None \<Rightarrow> None | Some m \<Rightarrow> if stale cutoff m then None else Some m) \<and>
    fst (Sweep cutoff dk) = card {i. \<exists>m. map_of (dk_rows dk) i = Some m \<and> stale cutoff m}"
proof -
  have ok: "store_ok cfg dk" using store_ok_reached [OF assms(1)] dk by simp
  then have d: "distinct (map fst (dk_rows dk))" by (simp add: store_ok_def)
  define js where "js = map fst (filter (\<lambda>(i, m). me_RefCount m = 0 \<and> me_CreatedAt m < cutoff) (dk_rows dk))"
  have set_js: "set js = {i. \<exists>m. map_of (dk_rows dk) i = Some m \<and> stale cutoff m}"
    using d by (force simp: js_def stale_def)
  have dj: "distinct js" using d unfolding js_def by (simp add: distinct_map_filter)
  have "\<forall>i \<in> set js. IsValidID i \<and> (\<exists>m. map_of (dk_rows dk) i = Some m \<and> me_RefCount m = 0)"
    using ok set_js by (auto simp: store_ok_def row_ok_def stale_def)
  note s = sweep_all [OF dj this, of 0]
  show ?thesis
    using s distinct_card [OF dj] set_js
    by (auto simp: Sweep_def js_def [symmetric] simp del: map_of_eq_Some_iff split: option.splits)
qed

subsection \<open>A deletion and an upload at the same time\<close>

text \<open>
  C35: \<open>Delete\<close> removes the row first and the file afterwards. An upload of the same content that runs
  between the two finds no row, stores file and row and succeeds; then the deletion removes the file.
  The row that remains has no bytes, so the object that was just stored cannot be opened, and no
  further upload of the content repairs it.
\<close>

theorem delete_races_put:
  assumes "sha_hex cfg" "map_of (dk_rows dk) i = Some m" "mc_sha256 cfg (ul_bytes up) = i"
    and "distinct (map fst (dk_rows dk))"
    and "Put_media cfg now nm ex up (delete_row i dk) = (Inr m', dk')" and "me_Ext m' = me_Ext m"
  shows "Stat i (remove_file i (me_Ext m) dk') = Some m' \<and>
    Open_media i (remove_file i (me_Ext m) dk') = None \<and>
    (\<forall>now nm ex m'' dk''.
       Put_media cfg now nm ex up (remove_file i (me_Ext m) dk') = (Inr m'', dk'') \<longrightarrow> Open_media i dk'' = None)"
proof -
  obtain r where r: "receive cfg nm ex up = Inr r"
    using assms(5) by (auto simp: Put_media_def split: sum.splits)
  then have c: "rc_content r = ul_bytes up" using receive_ok by blast
  have v: "IsValidID i" using assms(1,3) by (auto simp: sha_hex_def)
  have gone: "map_of (dk_rows (delete_row i dk)) i = None" by (simp add: delete_row_def map_of_mdel)
  have id: "me_ID (new_meta cfg now r) = i" using c assms(3) by (auto simp: new_meta_def split: prod.splits)
  have m: "m' = new_meta cfg now r" "dk' = insert_row m' (place_file m' (ul_bytes up) (delete_row i dk))"
    using assms(3,5) r c gone v by (auto simp: Put_media_def Stat_def Let_def id place_file_def)
  let ?dk = "remove_file i (me_Ext m) dk'"
  have stat: "Stat i ?dk = Some m'"
    using v gone id m by (simp add: Stat_def remove_file_def insert_row_def place_file_def delete_row_def)
  then have lost: "Open_media i ?dk = None"
    using assms(6) by (simp add: Open_media_def remove_file_def map_of_mdel)
  have "dk'' = ?dk" if p: "Put_media cfg now nm ex up ?dk = (Inr m'', dk'')" for now nm ex m'' dk''
  proof -
    obtain r where r: "receive cfg nm ex up = Inr r"
      using p by (auto simp: Put_media_def split: sum.splits)
    then have "rc_content r = ul_bytes up" using receive_ok by blast
    then show ?thesis using p r stat assms(3) by (simp add: Put_media_def)
  qed
  then show ?thesis using stat lost by blast
qed

end
