(* ===== verification/Pack_Refs.thy ===== *)
theory Pack_Refs
  imports Pack_Repo Media_Safety
begin

text \<open>
  The repository and the media store together: the reference counts are exact, a stored pack never
  loses its media, no write fails half-way, and of two writers who read the same version one loses.
\<close>

subsection \<open>What holds between the tables\<close>

definition uses :: "(string \<times> string) list \<Rightarrow> string \<Rightarrow> nat" where
  "uses refs i = length (filter (\<lambda>r. snd r = i) refs)"

text \<open>The counts agree with \<open>pack_media\<close>, whose foreign keys hold.\<close>

definition counted :: "(string \<times> string) list \<Rightarrow> disk \<Rightarrow> bool" where
  "counted refs dk \<longleftrightarrow>
     distinct refs \<and>
     (\<forall>i m. map_of (dk_rows dk) i = Some m \<longrightarrow> me_RefCount m = int (uses refs i)) \<and>
     (\<forall>r \<in> set refs. map_of (dk_rows dk) (snd r) \<noteq> None)"

text \<open>\<open>pack_media\<close> holds the media of the stored documents.\<close>

definition pack_uses :: "(string \<times> pack_row) list \<Rightarrow> string \<Rightarrow> string set" where
  "pack_uses ps pid = (case map_of ps pid of None \<Rightarrow> {} | Some w \<Rightarrow> set (MediaIDs (pw_Doc w)))"

definition referenced :: "(string \<times> string) list \<Rightarrow> (string \<times> pack_row) list \<Rightarrow> bool" where
  "referenced refs ps \<longleftrightarrow> (\<forall>pid i. (pid, i) \<in> set refs \<longleftrightarrow> i \<in> pack_uses ps pid)"

definition repo_ok :: "media_cfg \<Rightarrow> repo \<Rightarrow> bool" where
  "repo_ok mcfg s \<longleftrightarrow>
     store_ok mcfg (rp_disk s) \<and> counted (rp_refs s) (rp_disk s) \<and> referenced (rp_refs s) (rp_packs s)"

lemmas no_members = map_of_eq_Some_iff

lemma uses_simps [simp]:
  "uses [] i = 0" "uses (r # refs) i = (if snd r = i then Suc (uses refs i) else uses refs i)"
  "uses (xs @ ys) i = uses xs i + uses ys i"
  by (simp_all add: uses_def)

lemma uses_remove:
  "distinct refs \<Longrightarrow> r \<in> set refs \<Longrightarrow>
     uses (filter (\<lambda>x. x \<noteq> r) refs) i = (if snd r = i then uses refs i - 1 else uses refs i)"
proof (induction refs)
  case (Cons x refs)
  show ?case
  proof (cases "x = r")
    case True
    then have "filter (\<lambda>y. y \<noteq> r) refs = refs" using Cons.prems(1) by (intro filter_True) auto
    with True show ?thesis by simp
  next
    case False
    then have r: "r \<in> set refs" using Cons.prems(2) by simp
    then have "snd r = i \<Longrightarrow> 0 < uses refs i" by (auto simp: uses_def filter_empty_conv)
    with False r Cons show ?thesis by auto
  qed
qed simp

lemma uses_pos: "r \<in> set refs \<Longrightarrow> 0 < uses refs (snd r)"
  by (auto simp: uses_def filter_empty_conv)

lemma uses_zero: "uses refs i = 0 \<longleftrightarrow> i \<notin> snd ` set refs"
  by (auto simp: uses_def filter_empty_conv)

subsection \<open>Adding and removing references\<close>

text \<open>What the reference operations leave alone.\<close>

definition same_media :: "disk \<Rightarrow> disk \<Rightarrow> bool" where
  "same_media dk dk' \<longleftrightarrow> (\<forall>i. map_of (dk_rows dk') i = None \<longleftrightarrow> map_of (dk_rows dk) i = None)"

lemma same_media_refl [simp]: "same_media dk dk"
  by (simp add: same_media_def)

lemma same_media_trans: "same_media a b \<Longrightarrow> same_media b c \<Longrightarrow> same_media a c"
  by (simp add: same_media_def)

lemma same_media_upd [simp]: "same_media dk (inc_ref i dk)" "same_media dk (dec_ref i dk)"
  by (simp_all add: same_media_def inc_ref_def dec_ref_def map_of_upd_row)

lemma counted_inc:
  assumes "counted refs dk" "(pid, i) \<notin> set refs" "map_of (dk_rows dk) i \<noteq> None"
  shows "counted (refs @ [(pid, i)]) (inc_ref i dk)"
  using assms unfolding counted_def
  by (auto simp: inc_ref_def map_of_upd_row simp del: no_members)

lemma counted_dec:
  assumes "counted refs dk" "(pid, i) \<in> set refs"
  shows "counted (filter (\<lambda>x. x \<noteq> (pid, i)) refs) (dec_ref i dk)"
  unfolding counted_def
proof (intro conjI allI impI ballI)
  show "distinct (filter (\<lambda>x. x \<noteq> (pid, i)) refs)" using assms(1) by (simp add: counted_def)
next
  fix j m assume j: "map_of (dk_rows (dec_ref i dk)) j = Some m"
  then obtain m0 where m0: "map_of (dk_rows dk) j = Some m0"
    "m = (if j = i then if 0 < me_RefCount m0 then m0\<lparr>me_RefCount := me_RefCount m0 - 1\<rparr> else m0 else m0)"
    by (auto simp: dec_ref_def map_of_upd_row)
  then have "me_RefCount m0 = int (uses refs j)" using assms(1) by (simp add: counted_def del: no_members)
  moreover have "0 < uses refs i" using uses_pos [OF assms(2)] by simp
  moreover have "distinct refs" using assms(1) by (simp add: counted_def)
  ultimately show "me_RefCount m = int (uses (filter (\<lambda>x. x \<noteq> (pid, i)) refs) j)"
    using m0(2) assms(2) by (auto simp: uses_remove)
next
  fix r assume "r \<in> set (filter (\<lambda>x. x \<noteq> (pid, i)) refs)"
  then have "map_of (dk_rows dk) (snd r) \<noteq> None" using assms(1) unfolding counted_def by simp
  then show "map_of (dk_rows (dec_ref i dk)) (snd r) \<noteq> None" by (simp add: dec_ref_def map_of_upd_row)
qed

lemma addMediaRefs_ok:
  assumes "counted (rp_refs s) (rp_disk s)" "store_ok mcfg (rp_disk s)" "map_of (rp_packs s) pid \<noteq> None" "distinct is"
    and "\<forall>i \<in> set is. (pid, i) \<notin> set (rp_refs s) \<and> map_of (dk_rows (rp_disk s)) i \<noteq> None"
  shows "\<exists>dk. addMediaRefs pid is s = Some (s\<lparr>rp_refs := rp_refs s @ map (Pair pid) is, rp_disk := dk\<rparr>) \<and>
    counted (rp_refs s @ map (Pair pid) is) dk \<and> store_ok mcfg dk \<and> same_media (rp_disk s) dk"
  using assms
proof (induction "is" arbitrary: s)
  case Nil
  then show ?case by (intro exI [of _ "rp_disk s"]) simp
next
  case (Cons i "is")
  let ?s = "s\<lparr>rp_refs := rp_refs s @ [(pid, i)], rp_disk := inc_ref i (rp_disk s)\<rparr>"
  have add: "addMediaRef pid i s = Some ?s" using Cons.prems by (simp add: addMediaRef_def)
  have "\<exists>dk. addMediaRefs pid is ?s = Some (?s\<lparr>rp_refs := rp_refs ?s @ map (Pair pid) is, rp_disk := dk\<rparr>) \<and>
    counted (rp_refs ?s @ map (Pair pid) is) dk \<and> store_ok mcfg dk \<and> same_media (rp_disk ?s) dk"
  proof (rule Cons.IH)
    show "counted (rp_refs ?s) (rp_disk ?s)" using Cons.prems by (simp add: counted_inc)
    show "store_ok mcfg (rp_disk ?s)" using Cons.prems by (simp add: store_ok_inc)
    show "\<forall>j \<in> set is. (pid, j) \<notin> set (rp_refs ?s) \<and> map_of (dk_rows (rp_disk ?s)) j \<noteq> None"
      using Cons.prems by (auto simp: inc_ref_def map_of_upd_row)
  qed (use Cons.prems in simp_all)
  then show ?case using add same_media_trans [OF same_media_upd(1)] by fastforce
qed

lemma removeMediaRefs_ok:
  assumes "counted (rp_refs s) (rp_disk s)" "store_ok mcfg (rp_disk s)" "distinct is"
    and "\<forall>i \<in> set is. (pid, i) \<in> set (rp_refs s)"
  shows "\<exists>refs dk. removeMediaRefs pid is s = s\<lparr>rp_refs := refs, rp_disk := dk\<rparr> \<and>
    set refs = set (rp_refs s) - Pair pid ` set is \<and> counted refs dk \<and> store_ok mcfg dk \<and> same_media (rp_disk s) dk"
  using assms
proof (induction "is" arbitrary: s)
  case Nil
  then show ?case by (intro exI [of _ "rp_refs s"] exI [of _ "rp_disk s"]) (simp add: removeMediaRefs_def)
next
  case (Cons i "is")
  let ?s = "removeMediaRef pid i s"
  have "\<exists>refs dk. removeMediaRefs pid is ?s = ?s\<lparr>rp_refs := refs, rp_disk := dk\<rparr> \<and>
    set refs = set (rp_refs ?s) - Pair pid ` set is \<and> counted refs dk \<and> store_ok mcfg dk \<and> same_media (rp_disk ?s) dk"
  proof (rule Cons.IH)
    show "counted (rp_refs ?s) (rp_disk ?s)" using Cons.prems by (simp add: removeMediaRef_def counted_dec)
    show "store_ok mcfg (rp_disk ?s)" using Cons.prems by (simp add: removeMediaRef_def store_ok_dec)
    show "\<forall>j \<in> set is. (pid, j) \<in> set (rp_refs ?s)" using Cons.prems by (auto simp: removeMediaRef_def)
  qed (use Cons.prems in simp)
  then obtain refs dk where r: "removeMediaRefs pid is ?s = ?s\<lparr>rp_refs := refs, rp_disk := dk\<rparr>"
    "set refs = set (rp_refs ?s) - Pair pid ` set is" "counted refs dk" "store_ok mcfg dk" "same_media (rp_disk ?s) dk"
    by blast
  have "removeMediaRefs pid (i # is) s = s\<lparr>rp_refs := refs, rp_disk := dk\<rparr>"
    using r(1) by (simp add: removeMediaRefs_def removeMediaRef_def)
  moreover have "set refs = set (rp_refs s) - Pair pid ` set (i # is)" using r(2) by (auto simp: removeMediaRef_def)
  moreover have "same_media (rp_disk s) dk"
    using r(5) same_media_trans [OF same_media_upd(2)] by (auto simp: removeMediaRef_def)
  ultimately show ?case using r(3,4) by blast
qed

lemma collect_new:
  "distinct out \<Longrightarrow> set out \<inter> B = {} \<Longrightarrow>
     distinct (fold (\<lambda>i out. if i \<in> B \<or> i \<in> set out then out else out @ [i]) xs out) \<and>
     set (fold (\<lambda>i out. if i \<in> B \<or> i \<in> set out then out else out @ [i]) xs out) = set out \<union> (set xs - B)"
  by (induction xs arbitrary: out) auto

lemma diffRefs_ok:
  assumes "diffRefs old new = (added, removed)"
  shows "distinct added \<and> distinct removed \<and> set added = set new - set old \<and> set removed = set old - set new"
  using assms collect_new [of "[]" "set old" new] collect_new [of "[]" "set new" old]
  by (auto simp: diffRefs_def)

lemma checked_media:
  "checkMediaExist p is s = None \<Longrightarrow> \<forall>i \<in> set is. map_of (dk_rows (rp_disk s)) i \<noteq> None"
  by (auto simp: checkMediaExist_def Let_def filter_empty_conv split: if_splits)

subsection \<open>The operations\<close>

lemma pack_uses_mput [simp]:
  "pack_uses (mput pid w ps) j = (if j = pid then set (MediaIDs (pw_Doc w)) else pack_uses ps j)"
  by (simp add: pack_uses_def)

lemma row_of_doc [simp]: "pw_Doc (row_of p) = p"
  by (simp add: row_of_def Let_def)

lemma Summarize_version [simp]: "sm_Version (Summarize p) = pk_Version p"
proof -
  have q: "sm_Version (fold count_question qs s) = sm_Version s" for qs s
    by (induction qs arbitrary: s) (simp_all add: count_question_def Let_def)
  have t: "sm_Version (fold (\<lambda>t. fold count_question (pt_Questions t)) ts s) = sm_Version s" for ts s
    by (induction ts arbitrary: s) (simp_all add: q)
  have "sm_Version (fold count_round rs s) = sm_Version s" for rs s
    by (induction rs arbitrary: s) (simp_all add: count_round_def t)
  then show ?thesis by (simp add: Summarize_def)
qed

lemma row_of_version [simp]: "pw_Version (row_of p) = pk_Version p"
  by (simp add: row_of_def Let_def)

lemma MediaIDs_stamps [simp]:
  "MediaIDs (p\<lparr>pk_Version := v\<rparr>) = MediaIDs p" "MediaIDs (p\<lparr>pk_CreatedAt := c\<rparr>) = MediaIDs p"
  "MediaIDs (p\<lparr>pk_UpdatedAt := u\<rparr>) = MediaIDs p"
  by (simp_all add: MediaIDs_def)

lemma distinct_MediaIDs: "distinct (MediaIDs p)"
  using media_ok_MediaIDs by (simp add: media_ok_def)

lemma repo_ok_drawn [simp]: "repo_ok mcfg (s\<lparr>rp_drawn := n\<rparr>) = repo_ok mcfg s"
  by (simp add: repo_ok_def)

text \<open>A transaction either leaves the tables alone or ends in a consistent state.\<close>

lemma Create_cases:
  assumes "repo_ok mcfg s" "Create_pack cfg now p s = (r, s')"
  shows "repo_ok mcfg s' \<and> r \<noteq> Inl RepoConstraint \<and> (isl r \<longrightarrow> rp_packs s' = rp_packs s \<and> rp_refs s' = rp_refs s \<and> rp_disk s' = rp_disk s)"
proof -
  obtain q drawn where e: "EnsureIDs (rc_ids cfg) p (rp_drawn s) = (q, drawn)" by fastforce
  let ?q = "(Normalize_pack (rc_lib cfg) q)\<lparr>pk_Version := 1, pk_CreatedAt := now, pk_UpdatedAt := now\<rparr>"
  let ?s = "s\<lparr>rp_drawn := drawn\<rparr>"
  let ?w = "?s\<lparr>rp_packs := mput (pk_ID ?q) (row_of ?q) (rp_packs s)\<rparr>"
  consider (stop) "isl r" "s' = ?s" "r \<noteq> Inl RepoConstraint"
    | (wrote) "map_of (rp_packs s) (pk_ID ?q) = None" "checkMediaExist ?q (MediaIDs ?q) ?s = None"
      "(r, s') = (case addMediaRefs (pk_ID ?q) (MediaIDs ?q) ?w of None \<Rightarrow> (Inl RepoConstraint, ?s) | Some s' \<Rightarrow> (Inr ?q, s'))"
    using assms(2) by (auto simp: Create_pack_def Let_def e split: if_splits option.splits)
  then show ?thesis
  proof cases
    case stop
    then show ?thesis using assms(1) by auto
  next
    case wrote
    have ok: "store_ok mcfg (rp_disk s)" "counted (rp_refs s) (rp_disk s)" "referenced (rp_refs s) (rp_packs s)"
      using assms(1) by (simp_all add: repo_ok_def)
    have none: "(pk_ID ?q, i) \<notin> set (rp_refs s)" for i
      using ok(3) wrote(1) by (simp add: referenced_def pack_uses_def)
    have "\<exists>dk. addMediaRefs (pk_ID ?q) (MediaIDs ?q) ?w =
        Some (?w\<lparr>rp_refs := rp_refs ?w @ map (Pair (pk_ID ?q)) (MediaIDs ?q), rp_disk := dk\<rparr>) \<and>
      counted (rp_refs ?w @ map (Pair (pk_ID ?q)) (MediaIDs ?q)) dk \<and> store_ok mcfg dk \<and> same_media (rp_disk ?w) dk"
      using ok none checked_media [OF wrote(2)] distinct_MediaIDs [of ?q] by (intro addMediaRefs_ok) auto
    then obtain dk where w: "r = Inr ?q"
      "s' = ?w\<lparr>rp_refs := rp_refs s @ map (Pair (pk_ID ?q)) (MediaIDs ?q), rp_disk := dk\<rparr>"
      "counted (rp_refs s @ map (Pair (pk_ID ?q)) (MediaIDs ?q)) dk" "store_ok mcfg dk"
      using wrote(3) by auto
    have "referenced (rp_refs s @ map (Pair (pk_ID ?q)) (MediaIDs ?q)) (mput (pk_ID ?q) (row_of ?q) (rp_packs s))"
      using ok(3) none by (auto simp: referenced_def)
    then show ?thesis using w by (simp add: repo_ok_def)
  qed
qed

lemma set_mediaRefsTx: "set (mediaRefsTx pid s) = {i. (pid, i) \<in> set (rp_refs s)}"
  by (force simp: mediaRefsTx_def)

lemma write_cases:
  assumes ok: "repo_ok mcfg s" and w: "map_of (rp_packs s) (pk_ID p) = Some w"
    and wr: "write_update now v p s = (r, s')"
  shows "repo_ok mcfg s' \<and> r \<noteq> Inl RepoConstraint \<and> (isl r \<longrightarrow> s' = s) \<and>
    (\<not> isl r \<longrightarrow> (\<exists>w'. map_of (rp_packs s') (pk_ID p) = Some w' \<and> pw_Version w' = v + 1))"
proof -
  let ?pid = "pk_ID p" and ?q = "p\<lparr>pk_Version := v + 1, pk_UpdatedAt := now\<rparr>"
  obtain added removed where d: "diffRefs (mediaRefsTx ?pid s) (MediaIDs p) = (added, removed)" by fastforce
  note diff = diffRefs_ok [OF d]
  show ?thesis
  proof (cases "checkMediaExist p added s")
    case (Some problems)
    then have "r = Inl (RepoInvalid problems)" "s' = s" using wr d by (auto simp: write_update_def)
    with ok show ?thesis by simp
  next
    case None
    define row where "row = (row_of ?q)\<lparr>pw_CreatedAt := pw_CreatedAt w\<rparr>"
    define t where "t = s\<lparr>rp_packs := mput ?pid row (rp_packs s)\<rparr>"
    have parts: "store_ok mcfg (rp_disk s)" "counted (rp_refs s) (rp_disk s)" "referenced (rp_refs s) (rp_packs s)"
      using ok by (simp_all add: repo_ok_def)
    have "\<exists>refs dk. removeMediaRefs ?pid removed t = t\<lparr>rp_refs := refs, rp_disk := dk\<rparr> \<and>
      set refs = set (rp_refs t) - Pair ?pid ` set removed \<and> counted refs dk \<and> store_ok mcfg dk \<and> same_media (rp_disk t) dk"
      using parts diff by (intro removeMediaRefs_ok) (auto simp: t_def set_mediaRefsTx)
    then obtain refs dk where rm: "removeMediaRefs ?pid removed t = t\<lparr>rp_refs := refs, rp_disk := dk\<rparr>"
      "set refs = set (rp_refs s) - Pair ?pid ` set removed" "counted refs dk" "store_ok mcfg dk" "same_media (rp_disk s) dk"
      by (auto simp: t_def)
    let ?t = "t\<lparr>rp_refs := refs, rp_disk := dk\<rparr>"
    have "\<exists>dk'. addMediaRefs ?pid added ?t = Some (?t\<lparr>rp_refs := rp_refs ?t @ map (Pair ?pid) added, rp_disk := dk'\<rparr>) \<and>
      counted (rp_refs ?t @ map (Pair ?pid) added) dk' \<and> store_ok mcfg dk' \<and> same_media (rp_disk ?t) dk'"
    proof (rule addMediaRefs_ok)
      show "\<forall>i \<in> set added. (?pid, i) \<notin> set (rp_refs ?t) \<and> map_of (dk_rows (rp_disk ?t)) i \<noteq> None"
        using diff rm(2,5) checked_media [OF None] by (auto simp: set_mediaRefsTx same_media_def)
    qed (use rm diff in \<open>simp_all add: t_def\<close>)
    then obtain dk' where add: "addMediaRefs ?pid added ?t = Some (?t\<lparr>rp_refs := refs @ map (Pair ?pid) added, rp_disk := dk'\<rparr>)"
      "counted (refs @ map (Pair ?pid) added) dk'" "store_ok mcfg dk'" by auto
    have "(r, s') = (Inr ?q, ?t\<lparr>rp_refs := refs @ map (Pair ?pid) added, rp_disk := dk'\<rparr>)"
      using wr d None w rm(1) add(1) by (simp add: write_update_def t_def row_def Let_def)
    moreover have "referenced (refs @ map (Pair ?pid) added) (mput ?pid row (rp_packs s))"
      unfolding referenced_def
    proof (intro allI)
      fix pid i
      have "(?pid, i) \<in> set (rp_refs s) \<longleftrightarrow> i \<in> set (mediaRefsTx ?pid s)" by (simp add: set_mediaRefsTx)
      then show "(pid, i) \<in> set (refs @ map (Pair ?pid) added) \<longleftrightarrow> i \<in> pack_uses (mput ?pid row (rp_packs s)) pid"
        using rm(2) diff parts(3) by (cases "pid = ?pid") (auto simp: row_def referenced_def)
    qed
    moreover have "pw_Version row = v + 1" by (simp add: row_def)
    ultimately show ?thesis using add(2,3) by (simp add: repo_ok_def t_def)
  qed
qed

lemma EnsureIDs_pack_id: "pk_ID p \<noteq> [] \<Longrightarrow> EnsureIDs ids p n = (q, m) \<Longrightarrow> pk_ID q = pk_ID p"
  by (auto simp: EnsureIDs_def ensure_def split: prod.splits)

lemma Normalize_pack_id [simp]: "pk_ID (Normalize_pack lib p) = pk_ID p"
  by (simp add: Normalize_pack_def)

lemma Update_cases:
  assumes ok: "repo_ok mcfg s" and up: "Update_pack cfg now p v s = (r, s')"
  shows "repo_ok mcfg s' \<and> r \<noteq> Inl RepoConstraint \<and>
    (isl r \<longrightarrow> rp_packs s' = rp_packs s \<and> rp_refs s' = rp_refs s \<and> rp_disk s' = rp_disk s) \<and>
    (\<not> isl r \<longrightarrow> pk_ID p \<noteq> [] \<and> (\<exists>w w'. map_of (rp_packs s) (pk_ID p) = Some w \<and> (v = 0 \<or> pw_Version w = v) \<and>
       map_of (rp_packs s') (pk_ID p) = Some w' \<and> pw_Version w' = pw_Version w + 1))"
proof (cases "isl r \<and> rp_packs s' = rp_packs s \<and> rp_refs s' = rp_refs s \<and> rp_disk s' = rp_disk s \<and> r \<noteq> Inl RepoConstraint")
  case True
  then have "repo_ok mcfg s' = repo_ok mcfg s" by (simp add: repo_ok_def)
  with True ok show ?thesis by auto
next
  case False
  have id: "pk_ID p \<noteq> []" using False up by (auto simp: Update_pack_def)
  then obtain w where w: "map_of (rp_packs s) (pk_ID p) = Some w"
    using False up by (auto simp: Update_pack_def split: option.splits)
  have v: "v = 0 \<or> pw_Version w = v" using False up id w by (auto simp: Update_pack_def split: if_splits)
  let ?p = "p\<lparr>pk_Version := pw_Version w, pk_CreatedAt := pw_CreatedAt w\<rparr>"
  obtain q drawn where e: "EnsureIDs (rc_ids cfg) ?p (rp_drawn s) = (q, drawn)" by fastforce
  let ?q = "Normalize_pack (rc_lib cfg) q" and ?s = "s\<lparr>rp_drawn := drawn\<rparr>"
  have qid: "pk_ID ?q = pk_ID p" using EnsureIDs_pack_id [OF _ e] id by simp
  have wr: "write_update now (pw_Version w) ?q ?s = (r, s')"
    using False up id w v e by (auto simp: Update_pack_def Let_def split: if_splits)
  have "repo_ok mcfg s' \<and> r \<noteq> Inl RepoConstraint \<and> (isl r \<longrightarrow> s' = ?s) \<and>
    (\<not> isl r \<longrightarrow> (\<exists>w'. map_of (rp_packs s') (pk_ID ?q) = Some w' \<and> pw_Version w' = pw_Version w + 1))"
    by (rule write_cases [OF _ _ wr]) (use ok w qid in simp_all)
  with qid id w v show ?thesis by auto
qed

lemma distinct_mediaRefsTx: "distinct (rp_refs s) \<Longrightarrow> distinct (mediaRefsTx pid s)"
  by (auto simp: mediaRefsTx_def distinct_map inj_on_def)

lemma Delete_pack_ok:
  assumes ok: "repo_ok mcfg s"
  shows "repo_ok mcfg (snd (Delete_pack pid s))"
proof (cases "map_of (rp_packs s) pid")
  case None
  have "rp_packs (removeMediaRefs pid is s) = rp_packs s" for "is"
    by (induction "is" arbitrary: s) (simp_all add: removeMediaRefs_def removeMediaRef_def)
  with None ok show ?thesis by (simp add: Delete_pack_def Let_def)
next
  case (Some w)
  have parts: "store_ok mcfg (rp_disk s)" "counted (rp_refs s) (rp_disk s)" "referenced (rp_refs s) (rp_packs s)"
    using ok by (simp_all add: repo_ok_def)
  have "\<exists>refs dk. removeMediaRefs pid (mediaRefsTx pid s) s = s\<lparr>rp_refs := refs, rp_disk := dk\<rparr> \<and>
      set refs = set (rp_refs s) - Pair pid ` set (mediaRefsTx pid s) \<and> counted refs dk \<and> store_ok mcfg dk \<and>
      same_media (rp_disk s) dk"
    using parts by (intro removeMediaRefs_ok) (auto simp: set_mediaRefsTx counted_def distinct_mediaRefsTx)
  then obtain refs dk where rm: "removeMediaRefs pid (mediaRefsTx pid s) s = s\<lparr>rp_refs := refs, rp_disk := dk\<rparr>"
      "set refs = set (rp_refs s) - Pair pid ` set (mediaRefsTx pid s)" "counted refs dk" "store_ok mcfg dk" by blast
  have none: "\<forall>r \<in> set refs. fst r \<noteq> pid" using rm(2) by (auto simp: set_mediaRefsTx)
  then have "filter (\<lambda>r. fst r \<noteq> pid) refs = refs" by (intro filter_True) auto
  moreover have "referenced refs (mdel pid (rp_packs s))"
    using parts(3) rm(2) by (auto simp: referenced_def pack_uses_def map_of_mdel set_mediaRefsTx)
  ultimately show ?thesis using Some rm by (simp add: Delete_pack_def Let_def repo_ok_def)
qed

lemma Duplicate_ok:
  assumes "repo_ok mcfg s" "Duplicate_pack cfg now i nm s = (r, s')"
  shows "repo_ok mcfg s' \<and> r \<noteq> Inl RepoConstraint"
  using assms Create_cases [OF assms(1)]
  by (auto simp: Duplicate_pack_def Get_pack_def Let_def split: option.splits sum.splits)

subsection \<open>Media operations next to the repository\<close>

lemma counted_insert:
  assumes "counted refs dk" "map_of (dk_rows dk) i = None" "me_RefCount m = 0" "dk_rows dk' = mput i m (dk_rows dk)"
  shows "counted refs dk'"
proof -
  have "uses refs i = 0" using assms(1,2) by (auto simp: uses_zero counted_def simp del: no_members)
  then show ?thesis using assms unfolding counted_def by (auto simp del: no_members)
qed

lemma counted_Put:
  assumes "counted refs dk"
  shows "counted refs (snd (Put_media mcfg now nm ex up dk))"
proof (cases "snd (Put_media mcfg now nm ex up dk) = dk")
  case False
  then obtain r where r: "receive mcfg nm ex up = Inr r" "Stat (mc_sha256 mcfg (rc_content r)) dk = None"
    by (auto simp: Put_media_def split: sum.splits option.splits)
  let ?m = "new_meta mcfg now r" and ?dk = "place_file (new_meta mcfg now r) (rc_content r) dk"
  have put: "snd (Put_media mcfg now nm ex up dk) = insert_row ?m ?dk"
    using r by (auto simp: Put_media_def Let_def split: option.split)
  have rows: "dk_rows ?dk = dk_rows dk" by (simp add: place_file_def)
  have zero: "me_RefCount ?m = 0" by (auto simp: new_meta_def split: prod.split)
  show ?thesis
  proof (cases "map_of (dk_rows dk) (me_ID ?m)")
    case None
    then show ?thesis using counted_insert [OF assms None zero] rows by (simp add: put insert_row_def)
  next
    case (Some x)
    then show ?thesis using assms rows by (simp add: put insert_row_def counted_def del: no_members)
  qed
qed (simp add: assms)

lemma counted_delete_row:
  assumes "counted refs dk" "map_of (dk_rows dk) i = Some m" "me_RefCount m = 0" "dk_rows dk' = mdel i (dk_rows dk)"
  shows "counted refs dk'"
proof -
  have "uses refs i = 0" using assms(1,2,3) by (auto simp: counted_def simp del: no_members)
  then have "i \<notin> snd ` set refs" by (simp add: uses_zero)
  then show ?thesis using assms unfolding counted_def by (auto simp: map_of_mdel simp del: no_members)
qed

lemma nonneg_counts: "store_ok mcfg dk \<Longrightarrow> map_of (dk_rows dk) i = Some m \<Longrightarrow> 0 \<le> me_RefCount m"
  by (simp add: store_ok_def row_ok_def del: no_members)

lemma counted_Delete:
  assumes "counted refs dk" "store_ok mcfg dk"
  shows "counted refs (snd (Delete_media i dk))"
proof (cases "snd (Delete_media i dk) = dk")
  case False
  then obtain m where m: "map_of (dk_rows dk) i = Some m" "\<not> 0 < me_RefCount m"
    "snd (Delete_media i dk) = remove_file i (me_Ext m) (delete_row i dk)"
    by (auto simp: Delete_media_def split: if_splits option.splits)
  then have "me_RefCount m = 0" using nonneg_counts [OF assms(2) m(1)] by simp
  then show ?thesis
    using counted_delete_row [OF assms(1) m(1)] by (simp add: m(3) remove_file_def delete_row_def)
qed (simp add: assms)

lemma counted_Sweep:
  assumes "counted refs dk" "store_ok mcfg dk"
  shows "counted refs (snd (Sweep cutoff dk))"
proof -
  have "counted refs (snd s) \<Longrightarrow> store_ok mcfg (snd s) \<Longrightarrow> counted refs (snd (fold sweep_one is s))" for "is" s
  proof (induction "is" arbitrary: s)
    case (Cons i "is")
    have one: "snd (sweep_one i s) = snd (Delete_media i (snd s))"
      by (auto simp: sweep_one_def split: prod.splits option.splits)
    have "counted refs (snd (sweep_one i s))" using counted_Delete [OF Cons.prems] unfolding one .
    moreover have "store_ok mcfg (snd (sweep_one i s))" using Cons.prems(2) by (rule store_ok_sweep_one)
    ultimately show ?case using Cons.IH [of "sweep_one i s"] by simp
  qed simp
  from this [of "(0, dk)"] show ?thesis using assms by (simp add: Sweep_def)
qed

subsection \<open>The server's store\<close>

datatype store_op =
    CreateOp int pack
  | UpdateOp int pack int
  | DropOp string
  | CopyOp int string string
  | UploadOp int string kind upload
  | RemoveOp string
  | SweepOldOp int

fun store_step :: "repo_cfg \<Rightarrow> media_cfg \<Rightarrow> store_op \<Rightarrow> repo \<Rightarrow> repo" where
  "store_step cfg mcfg (CreateOp now p) s = snd (Create_pack cfg now p s)"
| "store_step cfg mcfg (UpdateOp now p v) s = snd (Update_pack cfg now p v s)"
| "store_step cfg mcfg (DropOp i) s = snd (Delete_pack i s)"
| "store_step cfg mcfg (CopyOp now i nm) s = snd (Duplicate_pack cfg now i nm s)"
| "store_step cfg mcfg (UploadOp now nm ex up) s =
     s\<lparr>rp_disk := snd (Put_media mcfg now nm ex up (rp_disk s))\<rparr>"
| "store_step cfg mcfg (RemoveOp i) s = s\<lparr>rp_disk := snd (Delete_media i (rp_disk s))\<rparr>"
| "store_step cfg mcfg (SweepOldOp cutoff) s = s\<lparr>rp_disk := snd (Sweep cutoff (rp_disk s))\<rparr>"

definition empty_repo :: repo where
  "empty_repo = \<lparr>rp_packs = [], rp_refs = [], rp_disk = empty_disk, rp_drawn = 0\<rparr>"

lemma repo_ok_step:
  assumes "repo_ok mcfg s" "sha_hex mcfg"
  shows "repo_ok mcfg (store_step cfg mcfg x s)"
proof (cases x)
  case (CreateOp now p)
  then show ?thesis using Create_cases [OF assms(1)] by (metis prod.collapse store_step.simps(1))
next
  case (UpdateOp now p v)
  then show ?thesis using Update_cases [OF assms(1)] by (metis prod.collapse store_step.simps(2))
next
  case (CopyOp now i nm)
  then show ?thesis using Duplicate_ok [OF assms(1)] by (metis prod.collapse store_step.simps(4))
next
  case (DropOp i)
  then show ?thesis using Delete_pack_ok [OF assms(1)] by simp
next
  case (UploadOp now nm ex up)
  then show ?thesis using assms by (simp add: repo_ok_def store_ok_Put counted_Put)
next
  case (RemoveOp i)
  then show ?thesis using assms(1) counted_Delete [of "rp_refs s" "rp_disk s"] by (auto simp: repo_ok_def store_ok_Delete)
next
  case (SweepOldOp cutoff)
  then show ?thesis using assms(1) counted_Sweep [of "rp_refs s" "rp_disk s"] by (auto simp: repo_ok_def store_ok_Sweep)
qed

lemma repo_ok_reached:
  assumes "sha_hex mcfg"
  shows "repo_ok mcfg (fold (store_step cfg mcfg) ops empty_repo)"
proof -
  have "repo_ok mcfg s \<Longrightarrow> repo_ok mcfg (fold (store_step cfg mcfg) ops s)" for s
    by (induction ops arbitrary: s) (simp_all add: repo_ok_step assms)
  moreover have "repo_ok mcfg empty_repo"
    by (auto simp: repo_ok_def empty_repo_def empty_disk_def store_ok_def counted_def referenced_def pack_uses_def)
  ultimately show ?thesis by blast
qed

text \<open>
  C30: after any sequence of operations on packs (creating, updating, deleting, duplicating) and on
  media (uploading, deleting, sweeping), every medium a stored pack mentions can be opened, and no
  deletion or sweep can take it away.
\<close>

theorem packs_keep_their_media:
  assumes "sha_hex mcfg" and s: "s = fold (store_step cfg mcfg) ops empty_repo"
    and w: "map_of (rp_packs s) pid = Some w" and i: "i \<in> set (MediaIDs (pw_Doc w))"
  shows "Open_media i (rp_disk s) \<noteq> None \<and> Delete_media i (rp_disk s) = (Some MediaInUse, rp_disk s) \<and>
    Open_media i (snd (Sweep cutoff (rp_disk s))) \<noteq> None"
proof -
  have ok: "repo_ok mcfg s" using repo_ok_reached [OF assms(1)] s by simp
  have ref: "(pid, i) \<in> set (rp_refs s)" using ok w i by (simp add: repo_ok_def referenced_def pack_uses_def)
  have opens: "\<exists>m. map_of (dk_rows dk) i = Some m \<and> IsValidID i \<and> 0 < me_RefCount m \<and> Open_media i dk \<noteq> None"
    if dk: "store_ok mcfg dk" "counted (rp_refs s) dk" for dk
  proof -
    obtain m where m: "map_of (dk_rows dk) i = Some m" using dk(2) ref unfolding counted_def by fastforce
    then have "row_ok mcfg dk i m" using dk(1) by (simp add: store_ok_def del: no_members)
    moreover have "me_RefCount m = int (uses (rp_refs s) i)" using dk(2) m by (simp add: counted_def del: no_members)
    moreover have "0 < uses (rp_refs s) i" using uses_pos [OF ref] by simp
    ultimately show ?thesis using m by (auto simp: row_ok_def Open_media_def Stat_def)
  qed
  have parts: "store_ok mcfg (rp_disk s)" "counted (rp_refs s) (rp_disk s)" using ok by (simp_all add: repo_ok_def)
  then show ?thesis
    using opens [OF parts] opens [OF store_ok_Sweep [OF parts(1)] counted_Sweep [OF parts(2,1)]]
    by (auto simp: Delete_media_def)
qed

text \<open>
  C31: the reference count of every medium is the number of stored packs that mention it, and no
  operation on packs ever violates a constraint of the database.
\<close>

theorem reference_counts_exact:
  assumes "sha_hex mcfg" and s: "s = fold (store_step cfg mcfg) ops empty_repo"
    and m: "map_of (dk_rows (rp_disk s)) i = Some m"
  shows "me_RefCount m = int (card {pid. \<exists>w. map_of (rp_packs s) pid = Some w \<and> i \<in> set (MediaIDs (pw_Doc w))}) \<and>
    fst (Create_pack cfg now p s) \<noteq> Inl RepoConstraint \<and> fst (Update_pack cfg now p v s) \<noteq> Inl RepoConstraint"
proof -
  have ok: "repo_ok mcfg s" using repo_ok_reached [OF assms(1)] s by simp
  have d: "distinct (rp_refs s)" and c: "me_RefCount m = int (uses (rp_refs s) i)"
    using ok m by (simp_all add: repo_ok_def counted_def del: no_members)
  let ?P = "{pid. \<exists>w. map_of (rp_packs s) pid = Some w \<and> i \<in> set (MediaIDs (pw_Doc w))}"
  have "?P = fst ` {r \<in> set (rp_refs s). snd r = i}"
    using ok by (force simp: repo_ok_def referenced_def pack_uses_def split: option.splits)
  then have "card ?P = card {r \<in> set (rp_refs s). snd r = i}"
    by (simp add: card_image inj_on_def prod_eq_iff)
  also have "\<dots> = uses (rp_refs s) i"
    using distinct_card [of "filter (\<lambda>r. snd r = i) (rp_refs s)"] d by (simp add: uses_def)
  finally have "me_RefCount m = int (card ?P)" using c by simp
  then show ?thesis
    using Create_cases [OF ok, of cfg now p] Update_cases [OF ok, of cfg now p v]
    by (metis prod.collapse)
qed

text \<open>
  C32: of two writers who read the same version of a pack only the first succeeds: after a successful
  update the version is one more, and every further update that expects the version read before is
  refused and writes nothing.
\<close>

theorem second_writer_loses:
  assumes "sha_hex mcfg" and s: "s = fold (store_step cfg mcfg) ops empty_repo"
    and up: "Update_pack cfg now p v s = (Inr p', s')" and v: "v \<noteq> 0"
    and other: "pk_ID q = pk_ID p"
  shows "Update_pack cfg now' q v s' = (Inl RepoVersionConflict, s')"
proof -
  have ok: "repo_ok mcfg s" using repo_ok_reached [OF assms(1)] s by simp
  obtain w' where "pk_ID p \<noteq> []" "map_of (rp_packs s') (pk_ID p) = Some w'" "pw_Version w' = v + 1"
    using Update_cases [OF ok up] v by auto
  with other v show ?thesis by (simp add: Update_pack_def)
qed

subsection \<open>Columns and pages\<close>

lemma split_on_single: "c \<notin> set s \<Longrightarrow> split_on c s = [s]"
  by (induction s) auto

lemma split_on_sep: "c \<notin> set x \<Longrightarrow> split_on c (x @ c # s) = x # split_on c s"
  by (induction x) auto

lemma split_joinList: "xs \<noteq> [] \<Longrightarrow> \<forall>x \<in> set xs. newline \<notin> set x \<Longrightarrow> split_on newline (joinList xs) = xs"
  by (induction xs rule: joinList.induct) (auto simp: split_on_single split_on_sep)

lemma joinList_eq_Nil: "joinList xs = [] \<longleftrightarrow> xs = [] \<or> xs = [[]]"
  by (induction xs rule: joinList.induct) auto

lemma split_join:
  assumes "\<forall>x \<in> set xs. newline \<notin> set x" "[] \<notin> set xs"
  shows "splitList (joinList xs) = xs"
  using assms split_joinList [of xs] by (auto simp: splitList_def joinList_eq_Nil)

lemma cleanList_no_empty: "[] \<notin> set (cleanList xs)"
  by (auto simp: cleanList_def)

lemma Summarize_fields [simp]:
  "sm_ID (Summarize p) = pk_ID p" "sm_Restriction (Summarize p) = pk_Restriction p"
  "sm_Tags (Summarize p) = pk_Tags p" "sm_Authors (Summarize p) = in_Authors (pk_Info p)"
proof -
  let ?f = "\<lambda>s. (sm_ID s, sm_Restriction s, sm_Tags s, sm_Authors s)"
  have q: "?f (fold count_question qs s) = ?f s" for qs s
    by (induction qs arbitrary: s) (simp_all add: count_question_def Let_def)
  have t: "?f (fold (\<lambda>t. fold count_question (pt_Questions t)) ts s) = ?f s" for ts s
    by (induction ts arbitrary: s) (simp_all add: q del: prod.inject)
  have "?f (fold count_round rs s) = ?f s" for rs s
    by (induction rs arbitrary: s) (simp_all add: count_round_def t del: prod.inject)
  then have "?f (Summarize p) = (pk_ID p, pk_Restriction p, pk_Tags p, in_Authors (pk_Info p))"
    by (simp add: Summarize_def del: prod.inject)
  then show "sm_ID (Summarize p) = pk_ID p" "sm_Restriction (Summarize p) = pk_Restriction p"
    "sm_Tags (Summarize p) = pk_Tags p" "sm_Authors (Summarize p) = in_Authors (pk_Info p)" by simp_all
qed

lemma addMediaRefs_packs: "addMediaRefs pid is s = Some s' \<Longrightarrow> rp_packs s' = rp_packs s"
  by (induction "is" arbitrary: s) (auto simp: addMediaRef_def split: option.splits if_splits)

lemma Create_row:
  assumes "Create_pack cfg now p s = (Inr p', s')"
  shows "map_of (rp_packs s') (pk_ID p') = Some (row_of p') \<and>
    pk_Tags p' = cleanList (pk_Tags p) \<and> in_Authors (pk_Info p') = cleanList (in_Authors (pk_Info p))"
proof -
  obtain q drawn where e: "EnsureIDs (rc_ids cfg) p (rp_drawn s) = (q, drawn)" by fastforce
  have q: "pk_Tags q = pk_Tags p" "pk_Info q = pk_Info p" using e by (auto simp: EnsureIDs_def split: prod.splits)
  have "\<exists>s0. p' = (Normalize_pack (rc_lib cfg) q)\<lparr>pk_Version := 1, pk_CreatedAt := now, pk_UpdatedAt := now\<rparr> \<and>
      addMediaRefs (pk_ID p') (MediaIDs p') (s0\<lparr>rp_packs := mput (pk_ID p') (row_of p') (rp_packs s)\<rparr>) = Some s'"
    using assms by (auto simp: Create_pack_def Let_def e split: if_splits option.splits)
  then show ?thesis using q by (auto dest!: addMediaRefs_packs simp: Normalize_pack_def normalizeInfo_def)
qed

text \<open>
  The summary read back from the columns of a new pack is the summary of the pack that was written,
  for tags and authors without line breaks (the separator of their columns).
\<close>

theorem summary_roundtrip:
  assumes "Create_pack cfg now p s = (Inr p', s')"
    and "\<forall>x \<in> set (pk_Tags p') \<union> set (in_Authors (pk_Info p')). newline \<notin> set x"
    and "pk_Restriction (rc_json cfg p') = pk_Restriction p'"
  shows "GetSummary cfg (pk_ID p') s' = Inr (Summarize p')"
proof -
  note r = Create_row [OF assms(1)]
  have "splitList (joinList (pk_Tags p')) = pk_Tags p'" "splitList (joinList (in_Authors (pk_Info p'))) = in_Authors (pk_Info p')"
    using assms(2) r cleanList_no_empty by (intro split_join; simp)+
  then show ?thesis using r assms(3) by (simp add: GetSummary_def scanSummary_def row_of_def Let_def)
qed

definition found_rows :: "repo_cfg \<Rightarrow> list_filter \<Rightarrow> repo \<Rightarrow> (string \<times> pack_row) list" where
  "found_rows cfg f s = filter (\<lambda>(i, w). list_matches cfg f w) (rp_packs s)"

definition list_page :: "repo_cfg \<Rightarrow> list_filter \<Rightarrow> repo \<Rightarrow> nat \<Rightarrow> nat \<Rightarrow> summary list \<times> nat" where
  "list_page cfg f s l k = the (List_packs cfg (f\<lparr>lf_Limit := int l, lf_Offset := int (k * l)\<rparr>) s)"

lemma concat_pages: "concat (map (\<lambda>k. take l (drop (k * l) xs)) [0..<n]) = take (n * l) xs"
proof (induction n)
  case (Suc n)
  then show ?case using take_add [of "n * l" l xs] by (simp add: add.commute)
qed simp

lemma ordered_mset: "list_order cfg f = Some ordered \<Longrightarrow> mset (ordered xs) = mset xs"
  by (auto simp: list_order_def Let_def directed_def split: if_splits)

text \<open>
  The pages of a listing, put together, are the packs that match the filter, each once, in the
  order asked for, and every page reports their number.
\<close>

theorem pages_cover_the_list:
  assumes "list_order cfg f = Some ordered" "0 < l" "l \<le> 200" "length (found_rows cfg f s) \<le> n * l"
  shows "concat (map (\<lambda>k. fst (list_page cfg f s l k)) [0..<n]) =
      map (\<lambda>(i, w). scanSummary cfg i w) (ordered (found_rows cfg f s)) \<and>
    mset (ordered (found_rows cfg f s)) = mset (found_rows cfg f s) \<and>
    (\<forall>k. snd (list_page cfg f s l k) = length (found_rows cfg f s))"
proof -
  have "list_order cfg (f\<lparr>lf_Limit := a, lf_Offset := b\<rparr>) = list_order cfg f" for a b
    by (simp add: list_order_def Let_def)
  then have order: "list_order cfg (f\<lparr>lf_Limit := a, lf_Offset := b\<rparr>) = Some ordered" for a b
    using assms(1) by simp
  have match: "list_matches cfg (f\<lparr>lf_Limit := a, lf_Offset := b\<rparr>) = list_matches cfg f" for a b
    by (simp add: fun_eq_iff list_matches_def)
  have lim: "list_limit (f\<lparr>lf_Limit := int l, lf_Offset := b\<rparr>) = l" for b
    using assms(2,3) by (simp add: list_limit_def MaxListLimit_def)
  let ?found = "found_rows cfg f s"
  have page: "list_page cfg f s l k =
      (map (\<lambda>(i, w). scanSummary cfg i w) (take l (drop (k * l) (ordered ?found))), length ?found)" for k
    unfolding list_page_def found_rows_def List_packs_def order match lim by (simp add: Let_def del: of_nat_mult)
  have perm: "mset (ordered ?found) = mset ?found" by (rule ordered_mset [OF assms(1)])
  have "length (ordered ?found) \<le> n * l"
    using assms(4) mset_eq_length [OF perm] by simp
  then have "concat (map (\<lambda>k. take l (drop (k * l) (ordered ?found))) [0..<n]) = ordered ?found"
    by (simp add: concat_pages)
  then have "map (\<lambda>(i, w). scanSummary cfg i w) (ordered ?found) =
      concat (map (map (\<lambda>(i, w). scanSummary cfg i w)) (map (\<lambda>k. take l (drop (k * l) (ordered ?found))) [0..<n]))"
    by (simp only: map_concat [symmetric])
  then show ?thesis using perm by (simp add: page comp_def)
qed

end
