(* ===== verification/Media_Demo.thy ===== *)
theory Media_Demo
  imports Media_Safety Pack_Demo
begin

text \<open>
  A concrete media store, whose hash is the length of the content, at which the properties of the
  store are evaluated.
\<close>

definition toy_hash :: "string \<Rightarrow> string" where
  "toy_hash c = replicate 63 (CHR ''a'') @ [digit_char (length c mod 10)]"

definition demo_cfg :: media_cfg where
  "demo_cfg =
     \<lparr>mc_lib = plain_lib, mc_detect = (\<lambda>_. ''text/plain; charset=utf-8''), mc_sha256 = toy_hash,
      mc_imageSize = (\<lambda>_ _. Some (4, 3)), mc_prober = None, mc_limits = DefaultLimits\<rparr>"

definition png :: "string \<Rightarrow> upload" where
  "png body = \<lparr>ul_bytes = bytes [137] @ ''PNG'' @ bytes [13, 10, 26, 10] @ body, ul_fails = False\<rparr>"

lemma sha_hex_demo: "sha_hex demo_cfg"
proof -
  have "(of_char (digit_char (n mod 10)) :: nat) = 48 + n mod 10" for n
    by (rule of_char_digit_char) simp
  moreover have "k mod 10 \<le> 9" for k :: nat by (simp add: less_Suc_eq_le [symmetric])
  ultimately show ?thesis
    by (simp add: sha_hex_def demo_cfg_def toy_hash_def IsValidID_def list_all_iff)
qed

definition png_meta :: "int \<Rightarrow> string \<Rightarrow> string \<Rightarrow> meta" where
  "png_meta now nm body =
     \<lparr>me_ID = toy_hash (ul_bytes (png body)), me_Kind = KindImage, me_MIME = ''image/png'', me_Ext = ''png'',
      me_Size = 8 + length body, me_DurationMs = 0, me_Width = 4, me_Height = 3,
      me_OriginalName = cleanOriginalName nm, me_RefCount = 0, me_CreatedAt = now\<rparr>"

lemma receive_png:
  assumes "length body \<le> 100" "ex = KindAny \<or> ex = KindImage"
  shows "receive demo_cfg nm ex (png body) =
    Inr \<lparr>rc_content = ul_bytes (png body), rc_kind = KindImage, rc_mime = ''image/png'', rc_ext = ''png'',
         rc_name = cleanOriginalName nm\<rparr>"
proof -
  have short: "take SniffLen (ul_bytes (png body)) = ul_bytes (png body)" "drop SniffLen (ul_bytes (png body)) = []"
    using assms(1) by (simp_all add: SniffLen_def png_def bytes_def)
  have "Sniff lib detect (ul_bytes (png body)) n = Some (KindImage, ''image/png'', ''png'')" for lib detect n
  proof -
    have "prefix (bytes [137] @ ''PNG'' @ bytes [13, 10, 26, 10]) (ul_bytes (png body))"
      by (simp add: png_def)
    then have "sniffBinary lib (ul_bytes (png body)) e = Some (KindImage, ''image/png'', ''png'')" for e
      unfolding sniffBinary_def by (simp only: if_True)
    moreover have "ul_bytes (png body) \<noteq> []" by (simp add: png_def)
    ultimately show ?thesis by (simp add: Sniff_def Let_def short)
  qed
  then show ?thesis
    using assms by (auto simp: receive_def short Let_def demo_cfg_def DefaultLimits_def Max_kind_def)
      (simp_all add: png_def bytes_def)
qed

lemma Put_png:
  assumes "length body \<le> 100" "ex = KindAny \<or> ex = KindImage"
    and "map_of (dk_rows dk) (toy_hash (ul_bytes (png body))) = None"
  shows "Put_media demo_cfg now nm ex (png body) dk =
    (Inr (png_meta now nm body),
     insert_row (png_meta now nm body) (place_file (png_meta now nm body) (ul_bytes (png body)) dk))"
proof -
  let ?r = "\<lparr>rc_content = ul_bytes (png body), rc_kind = KindImage, rc_mime = ''image/png'', rc_ext = ''png'',
         rc_name = cleanOriginalName nm\<rparr>"
  have "new_meta demo_cfg now ?r = png_meta now nm body"
    by (simp add: new_meta_def png_meta_def demo_cfg_def probe_media_def) (simp add: png_def bytes_def)
  moreover have "mc_sha256 demo_cfg = toy_hash" by (simp add: demo_cfg_def)
  moreover have "me_ID (png_meta now nm body) = toy_hash (ul_bytes (png body))" by (simp add: png_meta_def)
  ultimately show ?thesis
    using assms(3) by (simp add: Put_media_def receive_png [OF assms(1,2)] Stat_def Let_def place_file_def)
qed

abbreviation demo_ops :: "media_op list" where
  "demo_ops \<equiv>
     [PutOp 100 ''pics/cat.png'' KindAny (png ''a''), PutOp 200 ''dog.png'' KindImage (png ''bb''),
      IncOp (toy_hash (ul_bytes (png ''bb'')))]"

definition demo_disk :: disk where
  "demo_disk = fold (media_step demo_cfg) demo_ops empty_disk"

abbreviation id_of :: "string \<Rightarrow> string" where
  "id_of body \<equiv> toy_hash (ul_bytes (png body))"

lemma demo_ids: "id_of ''a'' \<noteq> id_of ''bb''" "id_of ''dddd'' \<notin> {id_of ''a'', id_of ''bb''}"
  by code_simp+

lemma demo_disk_eq:
  "demo_disk =
     \<lparr>dk_rows = [(id_of ''a'', png_meta 100 ''pics/cat.png'' ''a''),
                (id_of ''bb'', (png_meta 200 ''dog.png'' ''bb'')\<lparr>me_RefCount := 1\<rparr>)],
      dk_files = [(filePath (id_of ''a'') ''png'', ul_bytes (png ''a'')),
                  (filePath (id_of ''bb'') ''png'', ul_bytes (png ''bb''))]\<rparr>"
proof -
  let ?one = "\<lparr>dk_rows = [(id_of ''a'', png_meta 100 ''pics/cat.png'' ''a'')],
      dk_files = [(filePath (id_of ''a'') ''png'', ul_bytes (png ''a''))]\<rparr>"
  have id: "me_ID (png_meta now nm body) = id_of body" "me_Ext (png_meta now nm body) = ''png''" for now nm body
    by (simp_all add: png_meta_def)
  have one: "snd (Put_media demo_cfg 100 ''pics/cat.png'' KindAny (png ''a'') empty_disk) = ?one"
    by (subst Put_png) (simp_all add: empty_disk_def insert_row_def place_file_def id mput_def)
  have len: "length (id_of ''a'') = length (id_of ''bb'')" by (simp add: toy_hash_def)
  have two: "snd (Put_media demo_cfg 200 ''dog.png'' KindImage (png ''bb'') ?one) =
    \<lparr>dk_rows = [(id_of ''a'', png_meta 100 ''pics/cat.png'' ''a''), (id_of ''bb'', png_meta 200 ''dog.png'' ''bb'')],
      dk_files = [(filePath (id_of ''a'') ''png'', ul_bytes (png ''a'')),
                  (filePath (id_of ''bb'') ''png'', ul_bytes (png ''bb''))]\<rparr>"
    using demo_ids(1) by (subst Put_png) (simp_all add: insert_row_def place_file_def id mput_def filePath_inject [OF len])
  show ?thesis
    using demo_ids(1) by (simp add: demo_disk_def one two inc_ref_def upd_row_def) (simp add: png_meta_def)
qed

theorem store_keeps_bytes_witness:
  "map_of (dk_rows demo_disk) (id_of ''bb'') \<noteq> None \<and>
   (\<forall>m. map_of (dk_rows demo_disk) (id_of ''bb'') = Some m \<longrightarrow> row_ok demo_cfg demo_disk (id_of ''bb'') m)"
proof -
  have "map_of (dk_rows demo_disk) (id_of ''bb'') \<noteq> None"
    by (simp add: demo_disk_eq)
  with store_keeps_bytes [OF sha_hex_demo, of demo_ops, folded demo_disk_def] show ?thesis by blast
qed

theorem put_then_open_witness:
  "\<exists>dk. Put_media demo_cfg 400 ''new.png'' KindAny (png ''dddd'') demo_disk = (Inr (png_meta 400 ''new.png'' ''dddd''), dk) \<and>
     Open_media (id_of ''dddd'') dk = Some (ul_bytes (png ''dddd''), png_meta 400 ''new.png'' ''dddd'')"
proof -
  have new: "map_of (dk_rows demo_disk) (id_of ''dddd'') = None" using demo_ids by (simp add: demo_disk_eq)
  obtain dk where put: "Put_media demo_cfg 400 ''new.png'' KindAny (png ''dddd'') demo_disk =
      (Inr (png_meta 400 ''new.png'' ''dddd''), dk)"
    using Put_png [of "''dddd''" KindAny, OF _ _ new] by simp
  have "\<forall>c \<in> snd ` set (dk_files demo_disk). mc_sha256 demo_cfg c = mc_sha256 demo_cfg (ul_bytes (png ''dddd'')) \<longrightarrow>
      c = ul_bytes (png ''dddd'')"
    using demo_ids by (simp add: demo_disk_eq demo_cfg_def) metis
  from put_then_open [OF sha_hex_demo demo_disk_def put this] put show ?thesis by (simp add: png_meta_def)
qed

theorem sweep_takes_stale_witness:
  "map_of (dk_rows (snd (Sweep 250 demo_disk))) (id_of ''a'') = None \<and>
   map_of (dk_rows (snd (Sweep 250 demo_disk))) (id_of ''bb'') \<noteq> None \<and> map_of (dk_rows demo_disk) (id_of ''a'') \<noteq> None"
  using sweep_takes_stale [OF sha_hex_demo demo_disk_def, of 250] demo_ids
  by (simp add: demo_disk_eq stale_def png_meta_def)

theorem delete_races_put_witness:
  "\<exists>dk. Put_media demo_cfg 400 ''cat2.png'' KindAny (png ''a'') (delete_row (id_of ''a'') demo_disk) =
       (Inr (png_meta 400 ''cat2.png'' ''a''), dk) \<and>
     Stat (id_of ''a'') (remove_file (id_of ''a'') ''png'' dk) = Some (png_meta 400 ''cat2.png'' ''a'') \<and>
     Open_media (id_of ''a'') (remove_file (id_of ''a'') ''png'' dk) = None"
proof -
  have gone: "map_of (dk_rows (delete_row (id_of ''a'') demo_disk)) (id_of ''a'') = None"
    by (simp add: delete_row_def map_of_mdel)
  obtain dk where put: "Put_media demo_cfg 400 ''cat2.png'' KindAny (png ''a'') (delete_row (id_of ''a'') demo_disk) =
      (Inr (png_meta 400 ''cat2.png'' ''a''), dk)"
    using Put_png [of "''a''" KindAny, OF _ _ gone] by simp
  have m: "map_of (dk_rows demo_disk) (id_of ''a'') = Some (png_meta 100 ''pics/cat.png'' ''a'')"
    and d: "distinct (map fst (dk_rows demo_disk))"
    using demo_ids by (simp_all add: demo_disk_eq)
  have h: "mc_sha256 demo_cfg (ul_bytes (png ''a'')) = id_of ''a''" by (simp add: demo_cfg_def)
  have e: "me_Ext (png_meta 400 ''cat2.png'' ''a'') = me_Ext (png_meta 100 ''pics/cat.png'' ''a'')"
    "me_Ext (png_meta 100 ''pics/cat.png'' ''a'') = ''png''" by (simp_all add: png_meta_def)
  from delete_races_put [OF sha_hex_demo m h d put e(1)] put e(2) show ?thesis by simp
qed

end
