(* ===== verification/Pack_Store_Demo.thy ===== *)
theory Pack_Store_Demo
  imports Pack_Refs Media_Demo
begin

text \<open>A store with one picture and one pack that uses it, at which the properties are evaluated.\<close>

definition logo_pack :: pack where
  "logo_pack = plain_pack\<lparr>pk_LogoMediaID := id_of ''a''\<rparr>"

definition demo_repo_cfg :: repo_cfg where
  "demo_repo_cfg = \<lparr>rc_lib = plain_lib, rc_json = (\<lambda>p. p), rc_ids = (\<lambda>n. ''id'' @ show_nat n)\<rparr>"

definition saved_pack :: pack where
  "saved_pack =
     (Normalize_pack plain_lib (fst (EnsureIDs (rc_ids demo_repo_cfg) logo_pack 0)))
       \<lparr>pk_Version := 1, pk_CreatedAt := 500, pk_UpdatedAt := 500\<rparr>"

lemma saved_facts:
  "Validate_pack plain_lib (Normalize_pack plain_lib (fst (EnsureIDs (rc_ids demo_repo_cfg) logo_pack 0))) = []"
  "MediaIDs saved_pack = [id_of ''a'']" "pk_ID saved_pack = ''id0''"
  by code_simp+

lemma saved_names: "pk_Tags saved_pack = [''quiz'']" "in_Authors (pk_Info saved_pack) = [''Ann'']"
  by code_simp+

definition picture_disk :: disk where
  "picture_disk = snd (Put_media demo_cfg 100 ''pics/cat.png'' KindAny (png ''a'') empty_disk)"

lemma picture_row: "map_of (dk_rows picture_disk) (id_of ''a'') = Some (png_meta 100 ''pics/cat.png'' ''a'')"
proof -
  have id: "me_ID (png_meta 100 ''pics/cat.png'' ''a'') = id_of ''a''" by (simp add: png_meta_def)
  show ?thesis
    unfolding picture_disk_def
    by (subst Put_png) (simp_all add: empty_disk_def insert_row_def place_file_def id)
qed

lemma Create_demo:
  assumes "rp_drawn s = 0" "map_of (rp_packs s) ''id0'' = None" "rp_disk s = picture_disk" "(''id0'', id_of ''a'') \<notin> set (rp_refs s)"
  shows "\<exists>s'. Create_pack demo_repo_cfg 500 logo_pack s = (Inr saved_pack, s') \<and>
    rp_packs s' = mput ''id0'' (row_of saved_pack) (rp_packs s)"
proof -
  obtain q n where e: "EnsureIDs (rc_ids demo_repo_cfg) logo_pack 0 = (q, n)" by fastforce
  have saved: "(Normalize_pack plain_lib q)\<lparr>pk_Version := 1, pk_CreatedAt := 500, pk_UpdatedAt := 500\<rparr> = saved_pack"
    by (simp add: saved_pack_def e)
  have valid: "Validate_pack plain_lib (Normalize_pack plain_lib q) = []" using saved_facts(1) by (simp add: e)
  have lib: "rc_lib demo_repo_cfg = plain_lib" by (simp add: demo_repo_cfg_def)
  have id: "pk_ID (Normalize_pack plain_lib q) = ''id0''" using saved_facts(3) by (simp flip: saved)
  show ?thesis
    using assms picture_row
    by (simp add: Create_pack_def Let_def e lib valid saved saved_facts(2,3) checkMediaExist_def addMediaRef_def
        id del: Normalize_pack_id)
qed

abbreviation store_ops :: "store_op list" where
  "store_ops \<equiv> [UploadOp 100 ''pics/cat.png'' KindAny (png ''a''), CreateOp 500 logo_pack]"

definition demo_store :: repo where
  "demo_store = fold (store_step demo_repo_cfg demo_cfg) store_ops empty_repo"

lemma demo_store_row: "map_of (rp_packs demo_store) ''id0'' = Some (row_of saved_pack)"
proof -
  let ?s = "empty_repo\<lparr>rp_disk := picture_disk\<rparr>"
  obtain s' where "Create_pack demo_repo_cfg 500 logo_pack ?s = (Inr saved_pack, s')"
    "rp_packs s' = mput ''id0'' (row_of saved_pack) (rp_packs ?s)"
    using Create_demo [of ?s] by (auto simp: empty_repo_def)
  then show ?thesis by (simp add: demo_store_def empty_repo_def picture_disk_def)
qed

theorem packs_keep_their_media_witness:
  "Open_media (id_of ''a'') (rp_disk demo_store) \<noteq> None \<and>
   Delete_media (id_of ''a'') (rp_disk demo_store) = (Some MediaInUse, rp_disk demo_store) \<and>
   Open_media (id_of ''a'') (snd (Sweep 1000 (rp_disk demo_store))) \<noteq> None"
  by (rule packs_keep_their_media [OF sha_hex_demo demo_store_def demo_store_row]) (simp add: saved_facts)

theorem reference_counts_exact_witness:
  "\<exists>m. map_of (dk_rows (rp_disk demo_store)) (id_of ''a'') = Some m \<and>
     me_RefCount m = int (card {pid. \<exists>w. map_of (rp_packs demo_store) pid = Some w \<and> id_of ''a'' \<in> set (MediaIDs (pw_Doc w))}) \<and>
     0 < me_RefCount m"
proof -
  have "repo_ok demo_cfg demo_store" unfolding demo_store_def by (rule repo_ok_reached [OF sha_hex_demo])
  moreover have "id_of ''a'' \<in> pack_uses (rp_packs demo_store) ''id0''"
    by (simp add: pack_uses_def demo_store_row saved_facts)
  ultimately have ref: "(''id0'', id_of ''a'') \<in> set (rp_refs demo_store)"
    and c: "counted (rp_refs demo_store) (rp_disk demo_store)" by (auto simp: repo_ok_def referenced_def)
  then obtain m where m: "map_of (dk_rows (rp_disk demo_store)) (id_of ''a'') = Some m"
    unfolding counted_def by fastforce
  then have "me_RefCount m = int (uses (rp_refs demo_store) (id_of ''a''))" using c by (simp add: counted_def del: no_members)
  with uses_pos [OF ref] have "0 < me_RefCount m" by simp
  then show ?thesis using reference_counts_exact [OF sha_hex_demo demo_store_def m] m by blast
qed

lemma thread_same: "(\<And>x n. x \<in> set xs \<Longrightarrow> f x n = (x, n)) \<Longrightarrow> thread f xs n = (xs, n)"
  by (induction xs) simp_all

lemma EnsureIDs_same: "[] \<notin> set (pack_ids p) \<Longrightarrow> EnsureIDs ids p n = (p, n)"
proof -
  assume ids: "[] \<notin> set (pack_ids p)"
  have q: "pq_ID q \<noteq> [] \<Longrightarrow> ensure_question ids q n = (q, n)" for q n
    by (simp add: ensure_question_def ensure_def)
  have t: "[] \<notin> set (theme_ids t) \<Longrightarrow> ensure_theme ids t n = (t, n)" for t n
    by (subst ensure_theme_def, subst thread_same) (auto simp: theme_ids_def ensure_def q image_iff)
  have r: "[] \<notin> set (round_ids r) \<Longrightarrow> ensure_round ids r n = (r, n)" for r n
    by (subst ensure_round_def, subst thread_same) (auto simp: round_ids_def ensure_def t)
  show ?thesis
    using ids by (subst EnsureIDs_def, subst thread_same) (auto simp: pack_ids_def ensure_def r)
qed

lemma saved_again:
  "[] \<notin> set (pack_ids saved_pack)" "Normalize_pack plain_lib saved_pack = saved_pack"
  "Validate_pack plain_lib saved_pack = []"
proof -
  show "[] \<notin> set (pack_ids saved_pack)" by code_simp
  let ?n = "Normalize_pack plain_lib (fst (EnsureIDs (rc_ids demo_repo_cfg) logo_pack 0))"
  have "pk_Difficulty saved_pack = 5" by code_simp
  then have "pk_Difficulty ?n \<noteq> 0" by (simp add: saved_pack_def)
  then have "Normalize_pack plain_lib saved_pack = (Normalize_pack plain_lib ?n)\<lparr>pk_Version := 1, pk_CreatedAt := 500, pk_UpdatedAt := 500\<rparr>"
    unfolding saved_pack_def by (subst (1 3) Normalize_pack_def) simp
  then show "Normalize_pack plain_lib saved_pack = saved_pack"
    by (simp only: Normalize_idem [OF unicode_case_plain] saved_pack_def)
  have "Validate_pack plain_lib saved_pack = Validate_pack plain_lib ?n"
    unfolding saved_pack_def by (simp add: Validate_pack_def checkLogo_def)
  then show "Validate_pack plain_lib saved_pack = []" using saved_facts(1) by simp
qed

lemma saved_stamps: "saved_pack\<lparr>pk_Version := 1, pk_CreatedAt := 500\<rparr> = saved_pack"
  by (simp add: saved_pack_def)

lemma Update_demo: "\<exists>p s'. Update_pack demo_repo_cfg 600 saved_pack 1 demo_store = (Inr p, s')"
proof -
  let ?s = "demo_store\<lparr>rp_drawn := rp_drawn demo_store\<rparr>"
  have ok: "repo_ok demo_cfg demo_store" unfolding demo_store_def by (rule repo_ok_reached [OF sha_hex_demo])
  have row: "pk_Version saved_pack = 1" "pw_CreatedAt (row_of saved_pack) = 500"
    by (simp add: saved_pack_def) code_simp
  have lib: "rc_lib demo_repo_cfg = plain_lib" by (simp add: demo_repo_cfg_def)
  have up: "Update_pack demo_repo_cfg 600 saved_pack 1 demo_store = write_update 600 1 saved_pack demo_store"
    by (simp add: Update_pack_def saved_facts(3) demo_store_row row saved_stamps EnsureIDs_same saved_again lib)
  have "set (mediaRefsTx ''id0'' demo_store) = {id_of ''a''}"
    using ok by (auto simp: set_mediaRefsTx repo_ok_def referenced_def pack_uses_def demo_store_row saved_facts(2))
  then have "fst (diffRefs (mediaRefsTx ''id0'' demo_store) (MediaIDs saved_pack)) = []"
    by (simp add: diffRefs_def saved_facts(2))
  then obtain removed where d: "diffRefs (mediaRefsTx ''id0'' demo_store) (MediaIDs saved_pack) = ([], removed)"
    by (metis prod.collapse)
  show ?thesis unfolding up
    by (simp add: write_update_def saved_facts(3) d checkMediaExist_def Let_def)
qed

theorem second_writer_loses_witness:
  "\<exists>p s'. Update_pack demo_repo_cfg 600 saved_pack 1 demo_store = (Inr p, s') \<and>
     Update_pack demo_repo_cfg 601 (saved_pack\<lparr>pk_Name := ''other''\<rparr>) 1 s' = (Inl RepoVersionConflict, s')"
proof -
  obtain p s' where up: "Update_pack demo_repo_cfg 600 saved_pack 1 demo_store = (Inr p, s')" using Update_demo by blast
  have "Update_pack demo_repo_cfg 601 (saved_pack\<lparr>pk_Name := ''other''\<rparr>) 1 s' = (Inl RepoVersionConflict, s')"
    by (rule second_writer_loses [OF sha_hex_demo demo_store_def up]) simp_all
  with up show ?thesis by blast
qed

theorem summary_roundtrip_witness:
  "\<exists>s. GetSummary demo_repo_cfg ''id0'' s = Inr (Summarize saved_pack) \<and> sm_Tags (Summarize saved_pack) = [''quiz'']"
proof -
  let ?s = "empty_repo\<lparr>rp_disk := picture_disk\<rparr>"
  obtain s' where "Create_pack demo_repo_cfg 500 logo_pack ?s = (Inr saved_pack, s')"
    using Create_demo [of ?s] by (auto simp: empty_repo_def)
  from summary_roundtrip [OF this] show ?thesis
    by (intro exI [of _ s']) (simp add: saved_names saved_facts(3) newline_def char_of_def demo_repo_cfg_def)
qed

theorem pages_cover_the_list_witness:
  "\<exists>f ordered. list_order demo_repo_cfg f = Some ordered \<and>
     concat (map (\<lambda>k. fst (list_page demo_repo_cfg f demo_store 7 k)) [0..<length (found_rows demo_repo_cfg f demo_store)]) =
       map (\<lambda>(i, w). scanSummary demo_repo_cfg i w) (ordered (found_rows demo_repo_cfg f demo_store))"
proof -
  let ?f = "\<lparr>lf_Query = [], lf_Language = [], lf_Tag = [], lf_MinDifficulty = 0, lf_MaxDifficulty = 0,
      lf_HasMedia = None, lf_Sort = ''name'', lf_Order = [], lf_Limit = 7, lf_Offset = 0\<rparr>"
  let ?o = "directed False \<circ> sort_key (\<lambda>(i, w). (ToLower (rc_lib demo_repo_cfg) (pw_Name w), pw_Name w, i))"
  have o: "list_order demo_repo_cfg ?f = Some ?o" by (simp add: list_order_def Let_def)
  show ?thesis
    using pages_cover_the_list [OF o, of 7 demo_store "length (found_rows demo_repo_cfg ?f demo_store)"] o
    by (intro exI [of _ ?f] exI [of _ ?o]) simp
qed

end
