(* ===== verification/Judge_Text.thy ===== *)
theory Judge_Text
  imports Go_Strings Float_Order "HOL-Library.Char_ord" "HOL-Library.List_Lexorder"
begin

text \<open>
  The comparison of answers (\<open>internal/ai/normalize.go\<close>) and the deterministic judge
  (\<open>fuzzy.go\<close>, \<open>judge.go\<close>). The Unicode tables of the \<open>unicode\<close> package, the verbs of \<open>fmt\<close> for
  floating point numbers and \<open>math.Hypot\<close> are the parameter \<open>text_lib\<close>.
\<close>

record text_lib =
  tx_go :: go_lib
  tx_mark :: "string \<Rightarrow> bool"
  tx_letter :: "string \<Rightarrow> bool"
  tx_digit :: "string \<Rightarrow> bool"
  tx_f2 :: "f64 \<Rightarrow> string"
  tx_f3 :: "f64 \<Rightarrow> string"
  tx_g :: "f64 \<Rightarrow> string"
  tx_hypot :: "f64 \<Rightarrow> f64 \<Rightarrow> f64"

subsection \<open>Normalisation\<close>

text \<open>The letters U+0451 and U+0435.\<close>

definition yo :: string where
  "yo = bytes [209, 145]"

definition ye :: string where
  "ye = bytes [208, 181]"

fun norm_loop :: "text_lib \<Rightarrow> string list \<Rightarrow> bool \<Rightarrow> string \<Rightarrow> string" where
  "norm_loop tx [] pending b = b"
| "norm_loop tx (r # rs) pending b =
     (if r \<noteq> yo \<and> tx_mark tx r then norm_loop tx rs pending b
      else if r = yo \<or> tx_letter tx r \<or> tx_digit tx r then
        norm_loop tx rs False
          (b @ (if pending \<and> b \<noteq> [] then '' '' else []) @ (if r = yo then ye else r))
      else norm_loop tx rs True b)"

definition Normalize :: "text_lib \<Rightarrow> string \<Rightarrow> string" where
  "Normalize tx s = norm_loop tx (decode (ToLower (tx_go tx) (gl_nfc (tx_go tx) s))) False []"

fun is_digits_loop :: "text_lib \<Rightarrow> string list \<Rightarrow> bool \<Rightarrow> bool" where
  "is_digits_loop tx [] seen = seen"
| "is_digits_loop tx (r # rs) seen =
     (if tx_digit tx r then is_digits_loop tx rs True
      else if r = '' '' then is_digits_loop tx rs seen else False)"

definition IsDigits :: "text_lib \<Rightarrow> string \<Rightarrow> bool" where
  "IsDigits tx s = is_digits_loop tx (decode s) False"

definition tokens :: "string \<Rightarrow> string list" where
  "tokens s = Fields s"

fun strip_parens_loop :: "string list \<Rightarrow> nat \<Rightarrow> string" where
  "strip_parens_loop [] depth = []"
| "strip_parens_loop (r # rs) depth =
     (if r = ''('' \<or> r = ''['' then strip_parens_loop rs (depth + 1)
      else if r = '')'' \<or> r = '']'' then strip_parens_loop rs (if 0 < depth then depth - 1 else depth)
      else (if depth = 0 then r else []) @ strip_parens_loop rs depth)"

definition stripParens :: "string \<Rightarrow> string" where
  "stripParens s =
     (if \<not> list_ex (\<lambda>c. c = CHR ''('' \<or> c = CHR ''['') s then s else strip_parens_loop (decode s) 0)"

subsection \<open>Edit distance\<close>

text \<open>
  One row of the table: \<open>left\<close> is the cell to the left, \<open>prev\<close> the previous row from the cell above it on.
\<close>

fun lev_cells :: "'a \<Rightarrow> nat \<Rightarrow> nat list \<Rightarrow> 'a list \<Rightarrow> nat list" where
  "lev_cells a left (p # q # prev) (b # bs) =
     (let cost = (if a = b then 0 else 1); v = min (q + 1) (min (left + 1) (p + cost))
      in v # lev_cells a v (q # prev) bs)"
| "lev_cells a left prev bs = []"

fun lev_rows :: "nat \<Rightarrow> 'a list \<Rightarrow> 'a list \<Rightarrow> nat list \<Rightarrow> nat list" where
  "lev_rows i [] bs prev = prev"
| "lev_rows i (a # as) bs prev = lev_rows (i + 1) as bs (i # lev_cells a i prev bs)"

definition levenshtein :: "'a list \<Rightarrow> 'a list \<Rightarrow> nat" where
  "levenshtein as bs =
     (if as = [] then length bs
      else if bs = [] then length as
      else lev_rows 1 as bs [0..<length bs + 1] ! length bs)"

definition Similarity :: "string \<Rightarrow> string \<Rightarrow> f64" where
  "Similarity a b =
     (let ra = decode a; rb = decode b; n = max (length ra) (length rb)
      in if n = 0 then 1
         else f64_sub 1 (f64_div (f64_of_int (int (levenshtein ra rb))) (f64_of_int (int n))))"

subsection \<open>Numbers\<close>

definition minus_sign :: string where
  "minus_sign = bytes [226, 136, 146]"

definition ParseNumber :: "text_lib \<Rightarrow> string \<Rightarrow> f64 option" where
  "ParseNumber tx s =
     (let s = concat (filter (\<lambda>r. \<not> (r \<in> set white_runes \<or> r = ''_'')) (decode (TrimSpace s)));
          s = replace_all minus_sign ''-'' s;
          head = takeWhile (\<lambda>c. c \<noteq> CHR '','') s; tail = tl (dropWhile (\<lambda>c. c \<noteq> CHR '','') s);
          s = (if CHR '','' \<in> set s \<and> CHR ''.'' \<notin> set s \<and> length (filter (\<lambda>c. c = CHR '','') s) = 1
               then if length tail = 3 \<and> IsDigits tx tail then head @ tail else head @ ''.'' @ tail
               else s)
      in if s = [] then None else gl_ParseFloat (tx_go tx) s)"

definition tolerance :: f64 where
  "tolerance = f64_round (1 / 1000000000)"

definition NumbersEqual :: "text_lib \<Rightarrow> string \<Rightarrow> string \<Rightarrow> f64 \<Rightarrow> bool" where
  "NumbersEqual tx a b deviation =
     (case (ParseNumber tx a, ParseNumber tx b) of
        (Some x, Some y) \<Rightarrow> \<bar>f64_sub x y\<bar> \<le> f64_add (max deviation 0) tolerance
      | _ \<Rightarrow> False)"

subsection \<open>Verdicts\<close>

datatype source = SourceExact | SourceNumber | SourceSelect | SourceFuzzy | SourceAI | SourceFallback | SourceOther string

record verdict =
  vd_Right :: bool
  vd_Factor :: f64
  vd_Uncertain :: bool
  vd_Reason :: string
  vd_Source :: source

record request =
  rq_QuestionID :: string
  rq_Language :: string
  rq_Theme :: string
  rq_QuestionText :: string
  rq_Right :: "string list"
  rq_Wrong :: "string list"
  rq_AnswerType :: string
  rq_Deviation :: f64
  rq_PlayerAnswer :: string
  rq_ShowmanComments :: string

definition rightVerdict :: "source \<Rightarrow> string \<Rightarrow> verdict" where
  "rightVerdict src reason =
     \<lparr>vd_Right = True, vd_Factor = 1, vd_Uncertain = False, vd_Reason = reason, vd_Source = src\<rparr>"

definition wrongVerdict :: "source \<Rightarrow> string \<Rightarrow> verdict" where
  "wrongVerdict src reason =
     \<lparr>vd_Right = False, vd_Factor = 0, vd_Uncertain = False, vd_Reason = reason, vd_Source = src\<rparr>"

definition uncertainVerdict :: "source \<Rightarrow> string \<Rightarrow> verdict" where
  "uncertainVerdict src reason =
     \<lparr>vd_Right = False, vd_Factor = 0, vd_Uncertain = True, vd_Reason = reason, vd_Source = src\<rparr>"

definition IsText :: "string \<Rightarrow> bool" where
  "IsText answerType \<longleftrightarrow> answerType = [] \<or> answerType = ''text''"

text \<open>Quotation marks U+00AB and U+00BB.\<close>

definition quoted :: "string \<Rightarrow> string" where
  "quoted s = bytes [194, 171] @ s @ bytes [194, 187]"

subsection \<open>Text answers\<close>

definition answerVariants :: "text_lib \<Rightarrow> string \<Rightarrow> string list" where
  "answerVariants tx answer =
     (let full = Normalize tx answer; short = Normalize tx (stripParens answer)
      in if full = [] then [] else if short \<noteq> [] \<and> short \<noteq> full then [full, short] else [full])"

definition ExactMatch :: "text_lib \<Rightarrow> request \<Rightarrow> verdict option" where
  "ExactMatch tx req =
     (let player = Normalize tx (rq_PlayerAnswer req); same = (\<lambda>c. player \<in> set (answerVariants tx c))
      in if player = [] then Some (wrongVerdict SourceExact ''empty answer'')
         else
           case List.find same (rq_Right req) of
             Some r \<Rightarrow> Some (rightVerdict SourceExact (''matches accepted answer '' @ quoted r))
           | None \<Rightarrow>
               (case List.find same (rq_Wrong req) of
                  Some w \<Rightarrow> Some (wrongVerdict SourceExact (''matches known wrong answer '' @ quoted w))
                | None \<Rightarrow> None))"

definition sortedWords :: "string \<Rightarrow> string list" where
  "sortedWords s = sort (tokens s)"

definition variant_similarity :: "text_lib \<Rightarrow> string \<Rightarrow> string \<Rightarrow> f64" where
  "variant_similarity tx player v =
     (if v = player then 1
      else if IsDigits tx v \<or> IsDigits tx player then 0
      else if sortedWords player = sortedWords v then 1
      else Similarity player v)"

definition better_match :: "text_lib \<Rightarrow> string \<Rightarrow> string \<times> string \<Rightarrow> f64 \<times> string \<Rightarrow> f64 \<times> string" where
  "better_match tx player cv best =
     (let sim = variant_similarity tx player (snd cv)
      in if fst best < sim \<or> snd best = [] then (sim, fst cv) else best)"

definition bestMatch :: "text_lib \<Rightarrow> string \<Rightarrow> string list \<Rightarrow> f64 \<times> string" where
  "bestMatch tx player candidates =
     fold (better_match tx player)
       (concat (map (\<lambda>c. map (\<lambda>v. (c, v)) (answerVariants tx c)) candidates)) (0, [])"

definition wordMatch :: "text_lib \<Rightarrow> string \<Rightarrow> string \<Rightarrow> f64 \<Rightarrow> bool" where
  "wordMatch tx a b threshold =
     (if a = b then True
      else if IsDigits tx a \<or> IsDigits tx b \<or> RuneCount a < 4 \<or> RuneCount b < 4 then False
      else threshold \<le> Similarity a b)"

definition wordsSubset :: "text_lib \<Rightarrow> string \<Rightarrow> string list \<Rightarrow> f64 \<Rightarrow> bool" where
  "wordsSubset tx player candidates threshold =
     (let pw = tokens player
      in if pw = [] \<or> \<not> list_ex (\<lambda>w. 3 \<le> RuneCount w) pw then False
         else
           list_ex
             (\<lambda>c. let cw = tokens (Normalize tx c)
                   in \<not> length cw \<le> length pw \<and>
                      list_all (\<lambda>w. list_ex (\<lambda>cwd. wordMatch tx w cwd threshold) cw) pw)
             candidates)"

definition DefaultThreshold :: f64 where
  "DefaultThreshold = f64_round (81 / 100)"

definition UncertainFloor :: f64 where
  "UncertainFloor = f64_round (6 / 10)"

definition DefaultPointDeviation :: f64 where
  "DefaultPointDeviation = f64_round (2 / 100)"

text \<open>The struct \<open>FuzzyJudge\<close> has one field, its \<open>Threshold\<close>.\<close>

definition threshold_of :: "f64 \<Rightarrow> f64" where
  "threshold_of t = (if t \<le> 0 \<or> 1 < t then DefaultThreshold else t)"

definition judgeText :: "text_lib \<Rightarrow> f64 \<Rightarrow> request \<Rightarrow> verdict" where
  "judgeText tx f req =
     (case ExactMatch tx req of
        Some v \<Rightarrow> v
      | None \<Rightarrow>
          let th = threshold_of f; player = Normalize tx (rq_PlayerAnswer req);
              (bestRight, rightText) = bestMatch tx player (rq_Right req);
              (bestWrong, wrongText) = bestMatch tx player (rq_Wrong req)
          in if th \<le> bestRight \<and> bestWrong < bestRight then
               rightVerdict SourceFuzzy (''similar to '' @ quoted rightText @ '' ('' @ tx_f2 tx bestRight @ '')'')
             else if th \<le> bestRight \<and> bestRight = bestWrong then
               uncertainVerdict SourceFuzzy
                 (''equally similar to '' @ quoted rightText @ '' and known wrong '' @ quoted wrongText)
             else if th \<le> bestWrong \<and> bestRight < bestWrong then
               wrongVerdict SourceFuzzy
                 (''similar to known wrong answer '' @ quoted wrongText @ '' ('' @ tx_f2 tx bestWrong @ '')'')
             else if wordsSubset tx player (rq_Right req) th then
               uncertainVerdict SourceFuzzy ''partial answer: every word occurs in an accepted answer''
             else if UncertainFloor \<le> bestRight \<and> bestWrong \<le> bestRight then
               uncertainVerdict SourceFuzzy
                 (''weakly similar to '' @ quoted rightText @ '' ('' @ tx_f2 tx bestRight @ '')'')
             else if rightText = [] then wrongVerdict SourceFuzzy ''no accepted answers to compare with''
             else
               wrongVerdict SourceFuzzy (''best similarity to '' @ quoted rightText @ '' is '' @ tx_f2 tx bestRight))"

subsection \<open>Answers of the other types\<close>

definition plus_minus :: string where
  "plus_minus = bytes [194, 177]"

definition judgeNumber :: "text_lib \<Rightarrow> request \<Rightarrow> verdict" where
  "judgeNumber tx req =
     (if ParseNumber tx (rq_PlayerAnswer req) = None then wrongVerdict SourceNumber ''not a number''
      else
        case List.find (\<lambda>r. NumbersEqual tx (rq_PlayerAnswer req) r (rq_Deviation req)) (rq_Right req) of
          Some r \<Rightarrow>
            rightVerdict SourceNumber
              (''within '' @ plus_minus @ tx_g tx (max (rq_Deviation req) 0) @ '' of '' @ TrimSpace r)
        | None \<Rightarrow>
            wrongVerdict SourceNumber
              (''outside '' @ plus_minus @ tx_g tx (max (rq_Deviation req) 0) @ '' of the accepted number''))"

definition judgeSelect :: "text_lib \<Rightarrow> request \<Rightarrow> verdict" where
  "judgeSelect tx req =
     (let player = TrimSpace (rq_PlayerAnswer req)
      in if player = [] then wrongVerdict SourceSelect ''no option selected''
         else
           case List.find (\<lambda>r. EqualFold (tx_go tx) player (TrimSpace r)) (rq_Right req) of
             Some r \<Rightarrow> rightVerdict SourceSelect (''option '' @ TrimSpace r)
           | None \<Rightarrow> wrongVerdict SourceSelect (''option '' @ player @ '' is not the right one''))"

definition parsePoint :: "text_lib \<Rightarrow> string \<Rightarrow> (f64 \<times> f64) option" where
  "parsePoint tx s =
     (case FieldsFunc (\<lambda>r. r = '','' \<or> r = '';'' \<or> r = '' '') s of
        px # py # _ \<Rightarrow>
          (case (ParseNumber tx px, ParseNumber tx py) of (Some x, Some y) \<Rightarrow> Some (x, y) | _ \<Rightarrow> None)
      | _ \<Rightarrow> None)"

definition point_distance :: "text_lib \<Rightarrow> f64 \<times> f64 \<Rightarrow> string \<Rightarrow> f64 option" where
  "point_distance tx p r =
     map_option (\<lambda>q. tx_hypot tx (f64_sub (fst p) (fst q)) (f64_sub (snd p) (snd q))) (parsePoint tx r)"

definition judgePoint :: "text_lib \<Rightarrow> request \<Rightarrow> verdict" where
  "judgePoint tx req =
     (case parsePoint tx (rq_PlayerAnswer req) of
        None \<Rightarrow> wrongVerdict SourceNumber ''not a point''
      | Some p \<Rightarrow>
          let tol = max (rq_Deviation req) DefaultPointDeviation
          in case List.find (\<lambda>r. case point_distance tx p r of None \<Rightarrow> False | Some d \<Rightarrow> d \<le> f64_add tol tolerance)
                 (rq_Right req) of
               Some r \<Rightarrow>
                 rightVerdict SourceNumber
                   (''distance '' @ tx_f3 tx (the (point_distance tx p r)) @ '' '' @ bytes [226, 137, 164] @ '' '' @ tx_g tx tol)
             | None \<Rightarrow> wrongVerdict SourceNumber (''farther than '' @ tx_g tx tol @ '' from the accepted point''))"

definition judgeClient :: "text_lib \<Rightarrow> request \<Rightarrow> verdict" where
  "judgeClient tx req =
     (let a = ToLower (tx_go tx) (TrimSpace (rq_PlayerAnswer req))
      in if a \<in> {''+'', ''right'', ''true'', ''1'', ''yes'', ''correct''} then
           rightVerdict SourceExact ''client reported a right answer''
         else if a \<in> {''-'', ''wrong'', ''false'', ''0'', ''no'', ''incorrect'', []} then
           wrongVerdict SourceExact ''client reported a wrong answer''
         else uncertainVerdict SourceExact (''unrecognized client verdict '' @ quoted (TrimSpace (rq_PlayerAnswer req))))"

text \<open>\<open>FuzzyJudge.Judge\<close>, which never fails.\<close>

definition fuzzy_Judge :: "text_lib \<Rightarrow> f64 \<Rightarrow> request \<Rightarrow> verdict" where
  "fuzzy_Judge tx f req =
     (if rq_AnswerType req = ''number'' then judgeNumber tx req
      else if rq_AnswerType req = ''select'' then judgeSelect tx req
      else if rq_AnswerType req = ''point'' then judgePoint tx req
      else if rq_AnswerType req = ''client'' then judgeClient tx req
      else judgeText tx f req)"

end
