(* ===== verification/Judge_Distance.thy ===== *)
theory Judge_Distance
  imports Judge_Text
begin

text \<open>
  The two-row loop of \<open>levenshtein\<close> computes the least number of single insertions, deletions and
  substitutions, and the similarity made from it lies between 0 and 1 and is 1 for equal texts only.
\<close>

subsection \<open>The recursive edit distance\<close>

fun edit :: "'a list \<Rightarrow> 'a list \<Rightarrow> nat" where
  "edit [] bs = length bs"
| "edit (a # as) [] = Suc (length as)"
| "edit (a # as) (b # bs) =
     min (edit as (b # bs) + 1) (min (edit (a # as) bs + 1) (edit as bs + (if a = b then 0 else 1)))"

lemma edit_Nil_right [simp]: "edit as [] = length as"
  by (cases as) auto

text \<open>The table is filled from the front, so that its cells are distances of prefixes.\<close>

definition prefix_edit :: "'a list \<Rightarrow> 'a list \<Rightarrow> nat" where
  "prefix_edit as bs = edit (rev as) (rev bs)"

lemma prefix_edit_simps [simp]:
  "prefix_edit [] bs = length bs"
  "prefix_edit as [] = length as"
  "prefix_edit (as @ [a]) (bs @ [b]) =
     min (prefix_edit as (bs @ [b]) + 1)
       (min (prefix_edit (as @ [a]) bs + 1) (prefix_edit as bs + (if a = b then 0 else 1)))"
  by (simp_all add: prefix_edit_def)

fun table_row :: "('a list \<Rightarrow> nat) \<Rightarrow> 'a list \<Rightarrow> 'a list \<Rightarrow> nat list" where
  "table_row f ds [] = [f ds]"
| "table_row f ds (e # es) = f ds # table_row f (ds @ [e]) es"

lemma table_row_ne: "table_row f ds es = f ds # tl (table_row f ds es)"
  by (cases es) auto

lemma table_row_nth [simp]: "table_row f ds es ! length es = f (ds @ es)"
  by (induction es arbitrary: ds) auto

lemma first_row: "table_row (prefix_edit []) ds es = [length ds..<length ds + length es + 1]"
  by (induction es arbitrary: ds) (auto simp: upt_conv_Cons simp del: upt.simps)

lemma next_cells:
  "lev_cells a (prefix_edit (as @ [a]) ds) (table_row (prefix_edit as) ds es) es =
     tl (table_row (prefix_edit (as @ [a])) ds es)"
proof (induction es arbitrary: ds)
  case (Cons e es)
  obtain R where R: "table_row (prefix_edit as) (ds @ [e]) es = prefix_edit as (ds @ [e]) # R"
    using table_row_ne by blast
  obtain S where S: "table_row (prefix_edit (as @ [a])) (ds @ [e]) es = prefix_edit (as @ [a]) (ds @ [e]) # S"
    using table_row_ne by blast
  show ?case using Cons.IH [of "ds @ [e]"] by (simp add: R S Let_def)
qed simp

lemma lev_rows_table:
  "lev_rows (length pre + 1) as bs (table_row (prefix_edit pre) [] bs) = table_row (prefix_edit (pre @ as)) [] bs"
proof (induction as arbitrary: pre)
  case (Cons a as)
  have "(length pre + 1) # lev_cells a (length pre + 1) (table_row (prefix_edit pre) [] bs) bs =
      table_row (prefix_edit (pre @ [a])) [] bs"
    using next_cells [of a pre "[]" bs] by (subst (2) table_row_ne) simp
  then show ?case using Cons.IH [of "pre @ [a]"] by simp
qed simp

lemma levenshtein_prefix_edit: "levenshtein as bs = prefix_edit as bs"
  using lev_rows_table [of "[]" as bs] first_row [of "[]" bs]
  by (auto simp: levenshtein_def)

subsection \<open>Single edits\<close>

inductive one_edit :: "'a list \<Rightarrow> 'a list \<Rightarrow> bool" where
  delete: "one_edit (x @ [c] @ y) (x @ y)"
| insert: "one_edit (x @ y) (x @ [c] @ y)"
| substitute: "one_edit (x @ [c] @ y) (x @ [d] @ y)"

lemma edit_Cons_le: "edit (c # s) bs \<le> edit s bs + 1"
  by (cases bs) auto

lemma edit_Cons_right_le: "edit s (b # bs) \<le> edit s bs + 1"
  by (cases s) auto

lemma edit_Cons_ge: "edit s bs \<le> edit (c # s) bs + 1"
proof (induction bs)
  case (Cons b bs)
  have "edit s (b # bs) \<le> edit s bs + 1" by (rule edit_Cons_right_le)
  with Cons show ?case by auto
qed simp

lemma edit_Cons_cong:
  assumes "\<And>bs. edit s bs \<le> edit t bs + 1"
  shows "edit (a # s) bs \<le> edit (a # t) bs + 1"
proof (induction bs)
  case Nil
  then show ?case using assms [of "[]"] by simp
next
  case (Cons b bs)
  then show ?case using assms [of "b # bs"] assms [of bs] by auto
qed

lemma edit_append_cong:
  assumes "\<And>bs. edit s bs \<le> edit t bs + 1"
  shows "edit (x @ s) bs \<le> edit (x @ t) bs + 1"
proof (induction x arbitrary: bs)
  case (Cons a x)
  show ?case unfolding append_Cons by (rule edit_Cons_cong) (rule Cons.IH)
qed (simp only: append_Nil assms)

lemma edit_subst_le: "edit (c # s) bs \<le> edit (d # s) bs + 1"
proof (induction bs)
  case (Cons b bs)
  then show ?case by auto
qed simp

lemma one_edit_step: "one_edit as as' \<Longrightarrow> edit as bs \<le> edit as' bs + 1"
proof (induction rule: one_edit.induct)
  case (delete x c y)
  show ?case by (simp only: append_Cons append_Nil) (rule edit_append_cong, rule edit_Cons_le)
next
  case (insert x y c)
  show ?case by (simp only: append_Cons append_Nil) (rule edit_append_cong, rule edit_Cons_ge)
next
  case (substitute x c y d)
  show ?case by (simp only: append_Cons append_Nil) (rule edit_append_cong, rule edit_subst_le)
qed

lemma edit_at_front:
  "one_edit (c # y) y" "one_edit y (c # y)" "one_edit (c # y) (d # y)"
  using one_edit.delete [of "[]" c y] one_edit.insert [of "[]" y c] one_edit.substitute [of "[]" c y d]
  by simp_all

lemma edits_bound: "(one_edit ^^ k) as bs \<Longrightarrow> edit as bs \<le> k"
proof (induction k arbitrary: as)
  case 0
  have "edit xs xs = 0" for xs :: "'a list" by (induction xs) auto
  with 0 show ?case by simp
next
  case (Suc k)
  then obtain as' where "one_edit as as'" "(one_edit ^^ k) as' bs" by (blast elim: relpowp_Suc_E2)
  with Suc.IH one_edit_step [of as as' bs] show ?case by fastforce
qed

lemma one_edit_Cons: "one_edit s t \<Longrightarrow> one_edit (a # s) (a # t)"
proof (induction rule: one_edit.induct)
  case (delete x c y)
  then show ?case using one_edit.delete [of "a # x" c y] by simp
next
  case (insert x y c)
  then show ?case using one_edit.insert [of "a # x" y c] by simp
next
  case (substitute x c y d)
  then show ?case using one_edit.substitute [of "a # x" c y d] by simp
qed

lemma edits_Cons: "(one_edit ^^ k) s t \<Longrightarrow> (one_edit ^^ k) (a # s) (a # t)"
  by (induction k arbitrary: t) (auto intro: one_edit_Cons)

lemma edits_first: "one_edit s t \<Longrightarrow> (one_edit ^^ k) t u \<Longrightarrow> (one_edit ^^ Suc k) s u"
  by (rule relpowp_Suc_I2)

lemma edits_exist: "(one_edit ^^ edit as bs) as bs"
proof (induction as bs rule: edit.induct)
  case (1 bs)
  show ?case
  proof (induction bs)
    case (Cons b bs)
    show ?case using edits_first [OF edit_at_front(2) edits_Cons [OF Cons]] by simp
  qed simp
next
  case (2 a as)
  have "(one_edit ^^ length xs) xs []" for xs :: "'a list"
  proof (induction xs)
    case (Cons x xs)
    show ?case using edits_first [OF edit_at_front(1) Cons] by simp
  qed simp
  from this [of "a # as"] show ?case by simp
next
  case (3 a as b bs)
  have del: "(one_edit ^^ (edit as (b # bs) + 1)) (a # as) (b # bs)"
    using edits_first [OF edit_at_front(1) "3.IH"(1)] by simp
  have ins: "(one_edit ^^ (edit (a # as) bs + 1)) (a # as) (b # bs)"
    using edits_first [OF edit_at_front(2) edits_Cons [OF "3.IH"(2)]] by simp
  have sub: "(one_edit ^^ (edit as bs + (if a = b then 0 else 1))) (a # as) (b # bs)"
    using edits_first [OF edit_at_front(3) edits_Cons [OF "3.IH"(3)]]
      edits_Cons [OF "3.IH"(3)] by (cases "a = b") simp_all
  show ?case unfolding edit.simps min_def using del ins sub by simp
qed

lemma edit_least: "edit as bs \<le> n \<longleftrightarrow> (\<exists>k \<le> n. (one_edit ^^ k) as bs)"
  using edits_exist edits_bound order_trans by blast

lemma one_edit_rev: "one_edit s t \<Longrightarrow> one_edit (rev s) (rev t)"
  by (induction rule: one_edit.induct)
    (auto intro: one_edit.delete [of _ _, simplified] one_edit.insert [of _ _, simplified]
      one_edit.substitute [of _ _ _, simplified])

lemma edits_rev: "(one_edit ^^ k) s t \<Longrightarrow> (one_edit ^^ k) (rev s) (rev t)"
  by (induction k arbitrary: t) (auto intro: one_edit_rev)

text \<open>
  C38: the two-row loop computes the edit distance: it is at most \<open>n\<close> exactly when at most \<open>n\<close>
  insertions, deletions and substitutions of single runes lead from one text to the other.
\<close>

theorem levenshtein_is_least:
  "levenshtein as bs \<le> n \<longleftrightarrow> (\<exists>k \<le> n. (one_edit ^^ k) as bs)"
  using edits_rev [of _ as bs] edits_rev [of _ "rev as" "rev bs"]
  by (auto simp: levenshtein_prefix_edit prefix_edit_def edit_least)

subsection \<open>Similarity\<close>

lemma edit_le_max: "edit as bs \<le> max (length as) (length bs)"
  by (induction as bs rule: edit.induct) auto

lemma edit_eq_0: "edit as bs = 0 \<longleftrightarrow> as = bs"
proof
  assume "edit as bs = 0"
  then have "(one_edit ^^ 0) as bs" using edits_exist [of as bs] by simp
  then show "as = bs" by simp
next
  assume "as = bs"
  then show "edit as bs = 0" using edits_bound [of 0 as bs] by simp
qed

lemma levenshtein_le_max: "levenshtein as bs \<le> max (length as) (length bs)"
  using edit_le_max [of "rev as" "rev bs"] by (simp add: levenshtein_prefix_edit prefix_edit_def)

lemma levenshtein_eq_0: "levenshtein as bs = 0 \<longleftrightarrow> as = bs"
  by (simp add: levenshtein_prefix_edit prefix_edit_def edit_eq_0)

lemma is_f64_below_one: "is_f64 (1 - 1 / 2 ^ 53)"
proof -
  have pow: "pow2 (- 53) = 1 / 2 ^ 53" unfolding pow2_def by simp
  have "(1::rat) - 1 / 2 ^ n = (2 ^ n - 1) * (1 / 2 ^ n)" for n :: nat by (simp add: field_simps)
  from this [of 53] have "(1::rat) - 1 / 2 ^ 53 = of_int (2 ^ 53 - 1) * pow2 (- 53)"
    unfolding pow of_int_diff of_int_power of_int_numeral of_int_1 .
  moreover have "\<bar>(2 ^ 53 - 1 :: int)\<bar> \<le> 2 ^ 53 \<and> (-1074 :: int) \<le> - 53" by simp
  ultimately have "f64_grid (1 - 1 / 2 ^ 53)" unfolding f64_grid_def by blast
  then show ?thesis unfolding is_f64_def by (intro f64_grid_round_pos) simp_all
qed

lemma is_f64_smallest: "is_f64 (1 / 2 ^ 53)"
proof -
  have "f64_grid (1 / 2 ^ 53)"
    unfolding f64_grid_def by (intro exI [of _ 1] exI [of _ "- 53"]) (simp add: pow2_def)
  then show ?thesis unfolding is_f64_def by (intro f64_grid_round_pos) simp_all
qed

lemma ratio_below:
  assumes "0 < d" "d \<le> n" "n < 2 ^ 53"
  shows "f64_sub 1 (f64_div (f64_of_int (int d)) (f64_of_int (int n))) \<le> 1 - 1 / 2 ^ 53"
proof -
  have eq: "f64_of_int (int d) = rat_of_nat d" "f64_of_int (int n) = rat_of_nat n"
    using assms by (simp_all add: f64_of_int_eq)
  have "1 / 2 ^ 53 \<le> rat_of_nat d / rat_of_nat n"
  proof -
    have "rat_of_nat n \<le> rat_of_nat (2 ^ 53 * d)"
      using assms by (intro of_nat_mono) (metis (no_types) One_nat_def Suc_leI less_imp_le_nat mult.right_neutral mult_le_mono2 order_trans)
    then show ?thesis using assms by (simp add: field_simps)
  qed
  then have "1 / 2 ^ 53 \<le> f64_div (f64_of_int (int d)) (f64_of_int (int n))"
    unfolding eq f64_div_def by (rule f64_round_ge [OF is_f64_smallest])
  then show ?thesis
    unfolding f64_sub_def by (intro f64_round_le is_f64_below_one) simp
qed

lemma ratio_unit:
  assumes "d \<le> n" "0 < n" "n < 2 ^ 53"
  shows "0 \<le> f64_sub 1 (f64_div (f64_of_int (int d)) (f64_of_int (int n)))"
proof -
  have eq: "f64_of_int (int d) = rat_of_nat d" "f64_of_int (int n) = rat_of_nat n"
    using assms by (simp_all add: f64_of_int_eq)
  have "rat_of_nat d / rat_of_nat n \<le> 1" using assms by simp
  then have "f64_div (f64_of_int (int d)) (f64_of_int (int n)) \<le> 1"
    unfolding eq f64_div_def by (intro f64_round_le) simp_all
  then show ?thesis unfolding f64_sub_def by (intro f64_round_nonneg) simp
qed

text \<open>
  The similarity of two texts of fewer than \<open>2 ^ 53\<close> runes lies between 0 and 1, and rounding
  never makes it 1 unless the texts have the same runes.
\<close>

theorem similarity_scale:
  assumes "RuneCount a < 2 ^ 53" "RuneCount b < 2 ^ 53"
  shows "0 \<le> Similarity a b \<and> Similarity a b \<le> 1 \<and> (Similarity a b = 1 \<longleftrightarrow> decode a = decode b)"
proof -
  let ?d = "levenshtein (decode a) (decode b)" and ?n = "max (length (decode a)) (length (decode b))"
  have n: "?n < 2 ^ 53" using assms by (simp add: decode_def RuneCount_def)
  have d: "?d \<le> ?n" by (rule levenshtein_le_max)
  show ?thesis
  proof (cases "?n = 0")
    case True
    then show ?thesis by (simp add: Similarity_def)
  next
    case False
    then have sim: "Similarity a b = f64_sub 1 (f64_div (f64_of_int (int ?d)) (f64_of_int (int ?n)))"
      by (simp only: Similarity_def Let_def if_False)
    show ?thesis
    proof (cases "?d = 0")
      case True
      then have "Similarity a b = 1" unfolding sim by (simp add: f64_sub_def f64_div_def f64_of_int_def is_f64_01 [unfolded is_f64_def])
      then show ?thesis using True levenshtein_eq_0 [of "decode a" "decode b"] by simp
    next
      case nz: False
      then have "Similarity a b \<le> 1 - 1 / 2 ^ 53" unfolding sim using d n by (intro ratio_below) auto
      then show ?thesis using ratio_unit [OF d _ n] False nz sim levenshtein_eq_0 [of "decode a" "decode b"] by simp
    qed
  qed
qed

theorem similarity_scale_witness:
  "0 \<le> Similarity ''pushkin'' ''puskin'' \<and> Similarity ''pushkin'' ''puskin'' < 1"
proof -
  have "decode ''pushkin'' \<noteq> decode ''puskin''" by code_simp
  moreover have "RuneCount ''pushkin'' < 2 ^ 53" "RuneCount ''puskin'' < 2 ^ 53"
    by (simp_all add: RuneCount_def runes_ascii ascii_def)
  ultimately show ?thesis using similarity_scale [of "''pushkin''" "''puskin''"] by auto
qed

end
