(* ===== verification/Judge_Cache.thy ===== *)
theory Judge_Cache
  imports Judge_Text
begin

text \<open>
  The composite judge and its cache of verdicts (\<open>internal/ai/composite.go\<close>). The cache is the code's
  doubly linked list with an index into it: list elements have addresses, \<open>ca_ll\<close> is their order from
  front to back. Whether a remote model is configured is \<open>cp_AI\<close>; what it replies to a call (an error,
  or a verdict) is an argument of the call.
\<close>

record cache =
  ca_cap :: int
  ca_ll :: "nat list"
  ca_items :: "(string \<times> nat) list"
  ca_entries :: "(nat \<times> string \<times> verdict) list"
  ca_fresh :: nat

definition DefaultCacheSize :: int where
  "DefaultCacheSize = 10000"

definition NewCache :: "int \<Rightarrow> cache" where
  "NewCache capacity =
     \<lparr>ca_cap = (if capacity \<le> 0 then DefaultCacheSize else capacity), ca_ll = [], ca_items = [],
      ca_entries = [], ca_fresh = 0\<rparr>"

definition entry_at :: "cache \<Rightarrow> nat \<Rightarrow> string \<times> verdict" where
  "entry_at c a = the (map_of (ca_entries c) a)"

definition MoveToFront :: "nat \<Rightarrow> cache \<Rightarrow> cache" where
  "MoveToFront a c = c\<lparr>ca_ll := a # filter (\<lambda>x. x \<noteq> a) (ca_ll c)\<rparr>"

definition cache_Get :: "string \<Rightarrow> cache \<Rightarrow> verdict option \<times> cache" where
  "cache_Get key c =
     (case map_of (ca_items c) key of
        None \<Rightarrow> (None, c)
      | Some el \<Rightarrow> (Some (snd (entry_at c el)), MoveToFront el c))"

function evict :: "cache \<Rightarrow> cache" where
  "evict c =
     (if ca_ll c \<noteq> [] \<and> ca_cap c < int (length (ca_ll c)) then
        let back = last (ca_ll c)
        in evict (c\<lparr>ca_ll := butlast (ca_ll c), ca_items := mdel (fst (entry_at c back)) (ca_items c)\<rparr>)
      else c)"
  by pat_completeness auto
termination
  by (relation "measure (\<lambda>c. length (ca_ll c))") auto

declare evict.simps [simp del]

definition push_entry :: "string \<Rightarrow> verdict \<Rightarrow> cache \<Rightarrow> cache" where
  "push_entry key v c =
     c\<lparr>ca_entries := mput (ca_fresh c) (key, v) (ca_entries c), ca_ll := ca_fresh c # ca_ll c,
       ca_items := mput key (ca_fresh c) (ca_items c), ca_fresh := ca_fresh c + 1\<rparr>"

definition cache_Put :: "string \<Rightarrow> verdict \<Rightarrow> cache \<Rightarrow> cache" where
  "cache_Put key v c =
     (let c = (if ca_cap c \<le> 0 then c\<lparr>ca_cap := DefaultCacheSize\<rparr> else c)
      in case map_of (ca_items c) key of
           Some el \<Rightarrow>
             MoveToFront el (c\<lparr>ca_entries := mput el (fst (entry_at c el), v) (ca_entries c)\<rparr>)
         | None \<Rightarrow> evict (push_entry key v c))"

definition Len :: "cache \<Rightarrow> nat" where
  "Len c = length (ca_items c)"

subsection \<open>The composite judge\<close>

record composite =
  cp_Threshold :: f64
  cp_AI :: bool

definition CacheKey :: "text_lib \<Rightarrow> string \<Rightarrow> string \<Rightarrow> string" where
  "CacheKey tx questionID answer =
     (if questionID = [] then [] else questionID @ bytes [0] @ Normalize tx answer)"

definition judgeAI :: "text_lib \<Rightarrow> composite \<Rightarrow> string + verdict \<Rightarrow> request \<Rightarrow> verdict" where
  "judgeAI tx cp reply req =
     (case reply of
        Inl err \<Rightarrow>
          let fb = fuzzy_Judge tx (cp_Threshold cp) req
          in fb\<lparr>vd_Source := SourceFallback, vd_Reason := ''AI unavailable ('' @ err @ ''); '' @ vd_Reason fb\<rparr>
      | Inr v \<Rightarrow>
          let v = v\<lparr>vd_Source := SourceAI\<rparr>;
              v = (if vd_Uncertain v then v\<lparr>vd_Right := False, vd_Factor := 0\<rparr> else v);
              v = (if vd_Right v \<and> (vd_Factor v \<le> 0 \<or> 1 < vd_Factor v) then v\<lparr>vd_Factor := 1\<rparr> else v)
          in if \<not> vd_Right v then v\<lparr>vd_Factor := 0\<rparr> else v)"

definition composite_Judge ::
  "text_lib \<Rightarrow> composite \<Rightarrow> string + verdict \<Rightarrow> request \<Rightarrow> cache \<Rightarrow> verdict \<times> cache" where
  "composite_Judge tx cp reply req c =
     (if \<not> IsText (rq_AnswerType req) then (fuzzy_Judge tx (cp_Threshold cp) req, c)
      else
        case ExactMatch tx req of
          Some v \<Rightarrow> (v, c)
        | None \<Rightarrow>
            if \<not> cp_AI cp then (fuzzy_Judge tx (cp_Threshold cp) req, c)
            else
              let key = CacheKey tx (rq_QuestionID req) (rq_PlayerAnswer req);
                  (hit, c) = (if key \<noteq> [] then cache_Get key c else (None, c))
              in case hit of
                   Some v \<Rightarrow> (v, c)
                 | None \<Rightarrow>
                     let v = judgeAI tx cp reply req
                     in (v, if key \<noteq> [] then cache_Put key v c else c))"

fun judge_all ::
  "text_lib \<Rightarrow> composite \<Rightarrow> ((string + verdict) \<times> request) list \<Rightarrow> cache \<Rightarrow> verdict list \<times> cache" where
  "judge_all tx cp [] c = ([], c)"
| "judge_all tx cp ((reply, req) # calls) c =
     (let (v, c) = composite_Judge tx cp reply req c; (vs, c) = judge_all tx cp calls c in (v # vs, c))"

subsection \<open>The cache as a list of entries, most recently used first\<close>

type_synonym entries = "(string \<times> verdict) list"

definition without :: "string \<Rightarrow> entries \<Rightarrow> entries" where
  "without k l = filter (\<lambda>e. fst e \<noteq> k) l"

definition lru_get :: "string \<Rightarrow> entries \<Rightarrow> verdict option \<times> entries" where
  "lru_get k l = (case map_of l k of None \<Rightarrow> (None, l) | Some v \<Rightarrow> (Some v, (k, v) # without k l))"

definition lru_put :: "nat \<Rightarrow> string \<Rightarrow> verdict \<Rightarrow> entries \<Rightarrow> entries" where
  "lru_put cap k v l = take cap ((k, v) # without k l)"

definition cache_abs :: "cache \<Rightarrow> entries" where
  "cache_abs c = map (entry_at c) (ca_ll c)"

definition cache_wf :: "cache \<Rightarrow> bool" where
  "cache_wf c \<longleftrightarrow>
     0 < ca_cap c \<and> distinct (ca_ll c) \<and>
     (\<forall>a \<in> set (ca_ll c). a < ca_fresh c) \<and>
     distinct (map fst (cache_abs c)) \<and>
     set (ca_items c) = (\<lambda>a. (fst (entry_at c a), a)) ` set (ca_ll c) \<and>
     distinct (map fst (ca_items c))"

definition cache_inv :: "cache \<Rightarrow> bool" where
  "cache_inv c \<longleftrightarrow> cache_wf c \<and> int (length (ca_ll c)) \<le> ca_cap c"

lemma cache_new [simp]: "cache_inv (NewCache n)" "cache_abs (NewCache n) = []"
  by (auto simp: cache_inv_def cache_wf_def cache_abs_def NewCache_def DefaultCacheSize_def)

lemma item_entry:
  assumes "cache_wf c" "map_of (ca_items c) k = Some a"
  shows "a \<in> set (ca_ll c)" "fst (entry_at c a) = k"
proof -
  have "(k, a) \<in> set (ca_items c)" using assms(2) by (rule map_of_SomeD)
  then show "a \<in> set (ca_ll c)" "fst (entry_at c a) = k" using assms(1) by (auto simp: cache_wf_def)
qed

lemma no_item_entry:
  assumes "cache_wf c" "map_of (ca_items c) k = None"
  shows "k \<notin> fst ` set (cache_abs c)"
proof -
  have "k \<notin> fst ` set (ca_items c)" using assms(2) by (simp add: map_of_eq_None_iff)
  moreover have "fst ` set (ca_items c) = fst ` set (cache_abs c)"
    using assms(1) by (simp add: cache_wf_def cache_abs_def image_image)
  ultimately show ?thesis by simp
qed

lemma abs_lookup:
  assumes "cache_wf c"
  shows "map_of (cache_abs c) k = map_option (snd \<circ> entry_at c) (map_of (ca_items c) k)"
proof (cases "map_of (ca_items c) k")
  case None
  have "map_of (cache_abs c) k = None" using no_item_entry [OF assms None] by (simp add: map_of_eq_None_iff)
  with None show ?thesis by (simp only: option.map)
next
  case (Some a)
  have "(k, snd (entry_at c a)) \<in> set (cache_abs c)" using item_entry [OF assms Some] by (force simp: cache_abs_def)
  then have "map_of (cache_abs c) k = Some (snd (entry_at c a))" using assms by (simp add: cache_wf_def)
  with Some show ?thesis by (simp only: option.map comp_def)
qed

lemma set_mput_new: "k \<notin> fst ` set m \<Longrightarrow> set (mput k v m) = insert (k, v) (set m)"
  unfolding mput_def by (induction m) auto

lemma set_mdel: "set (mdel k m) = {e \<in> set m. fst e \<noteq> k}"
  by (auto simp: mdel_def AList.delete_eq)

lemma same_key:
  assumes "cache_wf c" "a \<in> set (ca_ll c)" "b \<in> set (ca_ll c)" "fst (entry_at c a) = fst (entry_at c b)"
  shows "a = b"
  using assms inj_onD [of "fst \<circ> entry_at c" "set (ca_ll c)"]
  by (auto simp: cache_wf_def cache_abs_def distinct_map)

lemma without_abs:
  assumes "cache_wf c" "a \<in> set (ca_ll c)"
  shows "map (entry_at c) (filter (\<lambda>x. x \<noteq> a) (ca_ll c)) = without (fst (entry_at c a)) (cache_abs c)"
proof -
  have "filter (\<lambda>x. x \<noteq> a) (ca_ll c) = filter (\<lambda>x. fst (entry_at c x) \<noteq> fst (entry_at c a)) (ca_ll c)"
    using same_key [OF assms(1) _ assms(2)] by (intro filter_cong) auto
  then show ?thesis by (simp add: without_def cache_abs_def filter_map comp_def)
qed

lemma distinct_without: "distinct (map fst l) \<Longrightarrow> distinct (map fst ((k, v) # without k l))"
  by (auto simp: without_def distinct_map_filter)

lemma length_move:
  assumes "distinct xs" "a \<in> set xs"
  shows "length (a # filter (\<lambda>x. x \<noteq> a) xs) = length xs"
proof -
  have "set (a # filter (\<lambda>x. x \<noteq> a) xs) = set xs" "distinct (a # filter (\<lambda>x. x \<noteq> a) xs)"
    using assms by auto
  then show ?thesis using assms(1) by (metis distinct_card)
qed

lemma move_front:
  assumes "cache_inv c" "map_of (ca_items c) k = Some a"
  shows "cache_inv (MoveToFront a c) \<and>
    cache_abs (MoveToFront a c) = (k, snd (entry_at c a)) # without k (cache_abs c)"
proof -
  have wf: "cache_wf c" using assms(1) by (simp add: cache_inv_def)
  note a = item_entry [OF wf assms(2)]
  have e: "entry_at (MoveToFront a c) = entry_at c" by (simp add: fun_eq_iff entry_at_def MoveToFront_def)
  have "entry_at c a = (k, snd (entry_at c a))" using a(2) by (simp add: prod_eq_iff)
  then have abs: "cache_abs (MoveToFront a c) = (k, snd (entry_at c a)) # without k (cache_abs c)"
    using without_abs [OF wf a(1)] a(2) unfolding cache_abs_def e by (simp add: MoveToFront_def)
  have "length (ca_ll (MoveToFront a c)) = length (ca_ll c)"
    using length_move [of "ca_ll c" a] wf a(1) by (simp add: MoveToFront_def cache_wf_def)
  moreover have "set (ca_ll (MoveToFront a c)) = set (ca_ll c)" "distinct (ca_ll (MoveToFront a c))"
    using wf a(1) by (auto simp: MoveToFront_def cache_wf_def)
  moreover have "distinct (map fst (cache_abs (MoveToFront a c)))"
    unfolding abs by (rule distinct_without) (use wf in \<open>simp add: cache_wf_def\<close>)
  ultimately show ?thesis
    using assms(1) abs unfolding cache_inv_def cache_wf_def e by (simp add: MoveToFront_def)
qed

lemma Get_refines:
  assumes "cache_inv c"
  shows "cache_inv (snd (cache_Get k c)) \<and> ca_cap (snd (cache_Get k c)) = ca_cap c \<and>
    lru_get k (cache_abs c) = (fst (cache_Get k c), cache_abs (snd (cache_Get k c)))"
  using assms move_front [OF assms, of k] abs_lookup [of c k]
  by (auto simp: cache_Get_def lru_get_def cache_inv_def MoveToFront_def split: option.splits)

lemma Put_existing:
  assumes "cache_inv c" "map_of (ca_items c) k = Some a"
  shows "cache_inv (cache_Put k v c) \<and> cache_abs (cache_Put k v c) = lru_put (nat (ca_cap c)) k v (cache_abs c)"
proof -
  let ?c = "c\<lparr>ca_entries := mput a (fst (entry_at c a), v) (ca_entries c)\<rparr>"
  have wf: "cache_wf c" using assms(1) by (simp add: cache_inv_def)
  note a = item_entry [OF wf assms(2)]
  have e: "entry_at ?c x = (if x = a then (k, v) else entry_at c x)" for x
    using a(2) by (simp add: entry_at_def)
  have f: "fst (entry_at ?c x) = fst (entry_at c x)" for x unfolding e using a(2) by simp
  have keys: "map fst (cache_abs ?c) = map fst (cache_abs c)" unfolding cache_abs_def by (simp add: f)
  have inv: "cache_inv ?c" using assms(1) unfolding cache_inv_def cache_wf_def keys f by simp
  have m: "map_of (ca_items ?c) k = Some a" using assms(2) by simp
  have put: "cache_Put k v c = MoveToFront a ?c"
    using assms(1) by (simp add: cache_Put_def cache_inv_def cache_wf_def assms(2) del: map_of_eq_Some_iff)
  have "map (entry_at ?c) (filter (\<lambda>x. x \<noteq> a) (ca_ll c)) = map (entry_at c) (filter (\<lambda>x. x \<noteq> a) (ca_ll c))"
    by (rule map_cong) (auto simp: entry_at_def)
  then have rest: "without k (cache_abs ?c) = without k (cache_abs c)"
    using without_abs [of ?c a] without_abs [OF wf a(1)] inv a f [of a] by (simp add: cache_inv_def)
  have "length ((k, v) # without k (cache_abs c)) = length (ca_ll c)"
    using length_move [of "ca_ll c" a] without_abs [OF wf a(1)] a wf
    by (metis cache_wf_def length_Cons length_map)
  then have "length ((k, v) # without k (cache_abs c)) \<le> nat (ca_cap c)"
    using assms(1) unfolding cache_inv_def by linarith
  then show ?thesis using move_front [OF inv m] unfolding put rest e by (simp add: lru_put_def)
qed

lemma push_wf:
  assumes "cache_wf c" "map_of (ca_items c) k = None"
  shows "cache_wf (push_entry k v c) \<and> cache_abs (push_entry k v c) = (k, v) # cache_abs c"
proof -
  let ?c = "push_entry k v c"
  have new: "ca_fresh c \<notin> set (ca_ll c)" using assms(1) by (auto simp: cache_wf_def)
  have e: "entry_at ?c x = (if x = ca_fresh c then (k, v) else entry_at c x)" for x
    by (simp add: entry_at_def push_entry_def)
  have "map (entry_at ?c) (ca_ll c) = map (entry_at c) (ca_ll c)" using new by (intro map_cong) (auto simp: e)
  then have abs: "cache_abs ?c = (k, v) # cache_abs c"
    unfolding cache_abs_def by (simp add: push_entry_def) (simp add: entry_at_def)
  moreover have "distinct (map fst (cache_abs ?c))"
    using assms(1) no_item_entry [OF assms] unfolding abs by (auto simp: cache_wf_def)
  moreover have "k \<notin> fst ` set (ca_items c)" using assms(2) by (simp add: map_of_eq_None_iff)
  then have "set (ca_items ?c) = insert (k, ca_fresh c) (set (ca_items c))"
    by (simp add: push_entry_def set_mput_new)
  then have "set (ca_items ?c) = (\<lambda>x. (fst (entry_at ?c x), x)) ` set (ca_ll ?c)"
  proof -
    have "(\<lambda>x. (fst (entry_at ?c x), x)) ` set (ca_ll c) = (\<lambda>x. (fst (entry_at c x), x)) ` set (ca_ll c)"
      using new by (intro image_cong) (auto simp: e)
    moreover have "set (ca_ll ?c) = insert (ca_fresh c) (set (ca_ll c))" by (simp add: push_entry_def)
    ultimately show ?thesis
      using assms(1) \<open>set (ca_items ?c) = insert (k, ca_fresh c) (set (ca_items c))\<close>
      by (simp add: cache_wf_def e [of "ca_fresh c"])
  qed
  moreover have "distinct (map fst (ca_items ?c))" using assms(1) by (simp add: cache_wf_def push_entry_def)
  ultimately show ?thesis
    using assms(1) new unfolding cache_wf_def by (simp add: push_entry_def less_Suc_eq)
qed

lemma drop_back_wf:
  assumes "cache_wf c" "ca_ll c \<noteq> []"
  defines "d \<equiv> c\<lparr>ca_ll := butlast (ca_ll c), ca_items := mdel (fst (entry_at c (last (ca_ll c)))) (ca_items c)\<rparr>"
  shows "cache_wf d \<and> cache_abs d = butlast (cache_abs c)"
proof -
  let ?b = "last (ca_ll c)"
  have e: "entry_at d = entry_at c" by (simp add: fun_eq_iff entry_at_def d_def)
  have abs: "cache_abs d = butlast (cache_abs c)"
    unfolding cache_abs_def e by (simp add: d_def map_butlast)
  obtain l where l: "ca_ll c = l @ [?b]" using assms(2) by (metis append_butlast_last_id)
  then have dl: "distinct (l @ [?b])" using assms(1) by (metis cache_wf_def)
  then have ll: "set (ca_ll d) = set (ca_ll c) - {?b}" "distinct (ca_ll d)"
    using arg_cong [OF l, of butlast] arg_cong [OF l, of set] by (auto simp: d_def)
  have "set (ca_items d) = {e \<in> set (ca_items c). fst e \<noteq> fst (entry_at c ?b)}"
    by (simp add: d_def set_mdel)
  also have "\<dots> = (\<lambda>a. (fst (entry_at c a), a)) ` (set (ca_ll c) - {?b})"
    using assms(1) same_key [OF assms(1) _ last_in_set [OF assms(2)]] by (auto simp: cache_wf_def)
  finally have items: "set (ca_items d) = (\<lambda>a. (fst (entry_at d a), a)) ` set (ca_ll d)" by (simp add: e ll)
  have keys: "distinct (map fst (cache_abs d))" "distinct (map fst (ca_items d))"
    using assms(1) unfolding abs cache_wf_def
    by (simp_all add: map_butlast distinct_butlast d_def mdel_def distinct_delete)
  have "ca_cap d = ca_cap c" "ca_fresh d = ca_fresh c" by (simp_all add: d_def)
  then show ?thesis using assms(1) items keys ll abs unfolding cache_wf_def by auto
qed

lemma evict_wf:
  assumes "cache_wf c"
  shows "cache_inv (evict c) \<and> ca_cap (evict c) = ca_cap c \<and>
    cache_abs (evict c) = take (nat (ca_cap c)) (cache_abs c)"
  using assms
proof (induction c rule: evict.induct)
  case (1 c)
  show ?case
  proof (cases "ca_ll c \<noteq> [] \<and> ca_cap c < int (length (ca_ll c))")
    case True
    let ?d = "c\<lparr>ca_ll := butlast (ca_ll c), ca_items := mdel (fst (entry_at c (last (ca_ll c)))) (ca_items c)\<rparr>"
    have d: "cache_wf ?d" "cache_abs ?d = butlast (cache_abs c)" using drop_back_wf [OF "1.prems"] True by auto
    have "take (nat (ca_cap c)) (butlast (cache_abs c)) = take (nat (ca_cap c)) (cache_abs c)"
    proof -
      have "nat (ca_cap c) \<le> length (ca_ll c) - 1" using True "1.prems" by (auto simp: cache_wf_def)
      then show ?thesis by (simp add: butlast_conv_take cache_abs_def min_def)
    qed
    moreover have "evict c = evict ?d" using True by (subst evict.simps) (simp add: Let_def)
    ultimately show ?thesis using "1.IH" [OF True refl d(1)] d(2) by simp
  next
    case False
    then have "evict c = c" by (subst evict.simps) (simp only: if_False)
    with False "1.prems" show ?thesis by (auto simp: cache_inv_def cache_abs_def cache_wf_def)
  qed
qed

lemma Put_refines:
  assumes "cache_inv c"
  shows "cache_inv (cache_Put k v c) \<and> ca_cap (cache_Put k v c) = ca_cap c \<and>
    cache_abs (cache_Put k v c) = lru_put (nat (ca_cap c)) k v (cache_abs c)"
proof (cases "map_of (ca_items c) k")
  case None
  have wf: "cache_wf c" using assms by (simp add: cache_inv_def)
  have "k \<notin> fst ` set (cache_abs c)" by (rule no_item_entry [OF wf None])
  then have "without k (cache_abs c) = cache_abs c" unfolding without_def by (intro filter_True) force
  moreover have "cache_Put k v c = evict (push_entry k v c)"
    using wf by (simp add: cache_Put_def cache_wf_def None)
  moreover have "ca_cap (push_entry k v c) = ca_cap c" by (simp add: push_entry_def)
  ultimately show ?thesis using push_wf [OF wf None] evict_wf by (simp add: lru_put_def)
next
  case (Some a)
  have "ca_cap (cache_Put k v c) = ca_cap c"
    using assms by (simp add: cache_Put_def cache_inv_def cache_wf_def Some MoveToFront_def del: map_of_eq_Some_iff)
  then show ?thesis using Put_existing [OF assms Some] by simp
qed

subsection \<open>Refinement\<close>

datatype cache_op = GetOp string | PutOp string verdict

fun cache_run :: "cache_op list \<Rightarrow> cache \<Rightarrow> verdict option list \<times> cache" where
  "cache_run [] c = ([], c)"
| "cache_run (GetOp k # ops) c = (let (r, c) = cache_Get k c; (rs, c) = cache_run ops c in (r # rs, c))"
| "cache_run (PutOp k v # ops) c = cache_run ops (cache_Put k v c)"

fun lru_run :: "nat \<Rightarrow> cache_op list \<Rightarrow> entries \<Rightarrow> verdict option list \<times> entries" where
  "lru_run cap [] l = ([], l)"
| "lru_run cap (GetOp k # ops) l = (let (r, l) = lru_get k l; (rs, l) = lru_run cap ops l in (r # rs, l))"
| "lru_run cap (PutOp k v # ops) l = lru_run cap ops (lru_put cap k v l)"

lemma run_refines:
  "cache_inv c \<Longrightarrow>
     lru_run (nat (ca_cap c)) ops (cache_abs c) = (fst (cache_run ops c), cache_abs (snd (cache_run ops c))) \<and>
     cache_inv (snd (cache_run ops c))"
proof (induction ops arbitrary: c)
  case (Cons x ops)
  show ?case
  proof (cases x)
    case (GetOp k)
    have g: "cache_inv (snd (cache_Get k c))" "ca_cap (snd (cache_Get k c)) = ca_cap c"
      "lru_get k (cache_abs c) = (fst (cache_Get k c), cache_abs (snd (cache_Get k c)))"
      using Get_refines [OF Cons.prems, of k] by auto
    obtain r c1 where gc: "cache_Get k c = (r, c1)" by fastforce
    obtain rs c2 where rc: "cache_run ops c1 = (rs, c2)" by fastforce
    show ?thesis using Cons.IH [OF g(1)] g by (simp add: GetOp gc rc)
  next
    case (PutOp k v)
    have p: "cache_inv (cache_Put k v c)" "ca_cap (cache_Put k v c) = ca_cap c"
      "cache_abs (cache_Put k v c) = lru_put (nat (ca_cap c)) k v (cache_abs c)"
      using Put_refines [OF Cons.prems, of k v] by auto
    then show ?thesis using Cons.IH [OF p(1)] by (simp add: PutOp)
  qed
qed simp

text \<open>
  C37: the linked list with its index implements a list of at most \<open>capacity\<close> entries in order of their
  last use: any sequence of \<open>Get\<close> and \<open>Put\<close> on a new cache gives the same answers and ends with the
  same entries, and never more than the capacity.
\<close>

theorem cache_is_lru:
  "lru_run (nat (ca_cap (NewCache capacity))) ops [] =
     (fst (cache_run ops (NewCache capacity)), cache_abs (snd (cache_run ops (NewCache capacity)))) \<and>
   int (Len (snd (cache_run ops (NewCache capacity)))) \<le> ca_cap (snd (cache_run ops (NewCache capacity)))"
proof -
  have run: "lru_run (nat (ca_cap (NewCache capacity))) ops [] =
      (fst (cache_run ops (NewCache capacity)), cache_abs (snd (cache_run ops (NewCache capacity))))"
    and inv: "cache_inv (snd (cache_run ops (NewCache capacity)))" (is "cache_inv ?c")
    using run_refines [of "NewCache capacity" ops] by simp_all
  have "distinct (ca_items ?c)" using inv by (auto simp: cache_inv_def cache_wf_def distinct_map)
  then have "length (ca_items ?c) = card (set (ca_items ?c))" by (simp add: distinct_card)
  also have "\<dots> = card (set (ca_ll ?c))"
    using inv by (simp add: cache_inv_def cache_wf_def card_image inj_on_def)
  also have "\<dots> = length (ca_ll ?c)" using inv by (simp add: cache_inv_def cache_wf_def distinct_card)
  finally show ?thesis using run inv by (simp add: Len_def cache_inv_def)
qed

end
