(* ===== verification/Judge_Verdicts.thy ===== *)
theory Judge_Verdicts
  imports Judge_Cache Pack_Demo
begin

text \<open>
  What the judges promise: verdicts are well formed whatever the remote model replies, an accepted
  answer is right without asking anybody, equal answers to one question get equal verdicts.
\<close>

definition verdict_ok :: "verdict \<Rightarrow> bool" where
  "verdict_ok v \<longleftrightarrow>
     (if vd_Right v then 0 < vd_Factor v \<and> vd_Factor v \<le> 1 \<and> \<not> vd_Uncertain v else vd_Factor v = 0)"

lemma verdict_ok_basic [simp]:
  "verdict_ok (rightVerdict src r)" "verdict_ok (wrongVerdict src r)" "verdict_ok (uncertainVerdict src r)"
  by (simp_all add: verdict_ok_def rightVerdict_def wrongVerdict_def uncertainVerdict_def)

lemma ExactMatch_ok: "ExactMatch tx req = Some v \<Longrightarrow> verdict_ok v"
  by (auto simp: ExactMatch_def Let_def split: if_splits option.splits)

lemma judgeText_ok: "verdict_ok (judgeText tx f req)"
  by (cases "ExactMatch tx req")
    (simp_all add: judgeText_def Let_def ExactMatch_ok case_prod_unfold if_distrib [of verdict_ok])

lemma typed_ok [simp]:
  "verdict_ok (judgeNumber tx req)" "verdict_ok (judgeSelect tx req)" "verdict_ok (judgePoint tx req)"
  "verdict_ok (judgeClient tx req)"
  by (simp_all add: judgeNumber_def judgeSelect_def judgePoint_def judgeClient_def Let_def split: option.split)

lemma fuzzy_ok: "verdict_ok (fuzzy_Judge tx f req)"
  by (simp add: fuzzy_Judge_def judgeText_ok)

lemma judgeAI_ok: "verdict_ok (judgeAI tx cp reply req)"
proof (cases reply)
  case (Inl e)
  then show ?thesis using fuzzy_ok [of tx "cp_Threshold cp" req] by (simp add: judgeAI_def Let_def verdict_ok_def)
next
  case (Inr v)
  then show ?thesis by (auto simp: judgeAI_def Let_def verdict_ok_def)
qed

definition entries_ok :: "cache \<Rightarrow> bool" where
  "entries_ok c \<longleftrightarrow> cache_inv c \<and> (\<forall>e \<in> set (cache_abs c). verdict_ok (snd e))"

lemma entries_ok_Get:
  assumes "entries_ok c" "cache_Get k c = (r, c')"
  shows "entries_ok c' \<and> (\<forall>v. r = Some v \<longrightarrow> verdict_ok v)"
proof -
  have ci: "cache_inv c'" and l: "lru_get k (cache_abs c) = (r, cache_abs c')"
    using Get_refines [of c k] assms by (auto simp: entries_ok_def)
  have "verdict_ok v" if "map_of (cache_abs c) k = Some v" for v
    using map_of_SomeD [OF that] assms(1) by (auto simp: entries_ok_def)
  then show ?thesis
    using ci l assms(1) unfolding entries_ok_def
    by (auto simp: lru_get_def without_def split: option.splits) (metis (mono_tags, lifting) mem_Collect_eq set_ConsD set_filter snd_conv)
qed

lemma entries_ok_Put:
  assumes "entries_ok c" "verdict_ok v"
  shows "entries_ok (cache_Put k v c)"
  using Put_refines [of c k v] assms
  by (auto simp: entries_ok_def lru_put_def without_def dest!: in_set_takeD)

lemma composite_ok:
  assumes "entries_ok c" "composite_Judge tx cp reply req c = (v, c')"
  shows "verdict_ok v \<and> entries_ok c'"
  using assms
  by (auto simp: composite_Judge_def Let_def fuzzy_ok judgeAI_ok entries_ok_Put
      dest: ExactMatch_ok entries_ok_Get split: if_splits option.splits prod.splits)

lemma judge_all_ok: "entries_ok c \<Longrightarrow> \<forall>v \<in> set (fst (judge_all tx cp calls c)). verdict_ok v"
proof (induction calls arbitrary: c)
  case (Cons call calls)
  obtain reply req where call: "call = (reply, req)" by fastforce
  obtain v c1 where j: "composite_Judge tx cp reply req c = (v, c1)" by fastforce
  then have "verdict_ok v" "entries_ok c1" using composite_ok [OF Cons.prems] by blast+
  with Cons.IH [of c1] show ?case by (auto simp: call j split: prod.split)
qed simp

text \<open>
  C39: every verdict of the composite judge is well formed, whatever the remote model replied: a
  right answer has a factor above 0 and at most 1 and is not uncertain, any other has the factor 0.
\<close>

theorem verdicts_well_formed:
  "\<forall>v \<in> set (fst (judge_all tx cp calls (NewCache capacity))).
     (vd_Right v \<longrightarrow> 0 < vd_Factor v \<and> vd_Factor v \<le> 1 \<and> \<not> vd_Uncertain v) \<and>
     (\<not> vd_Right v \<longrightarrow> vd_Factor v = 0)"
proof -
  have "entries_ok (NewCache capacity)" by (simp add: entries_ok_def)
  from judge_all_ok [OF this, of tx cp calls] show ?thesis by (auto simp: verdict_ok_def split: if_splits)
qed

text \<open>A demonstration library: ASCII letters and digits.\<close>

definition ascii_tx :: text_lib where
  "ascii_tx =
     \<lparr>tx_go = plain_lib, tx_mark = (\<lambda>_. False),
      tx_letter = (\<lambda>r. length r = 1 \<and> 97 \<le> byte (hd r) \<and> byte (hd r) \<le> 122),
      tx_digit = (\<lambda>r. length r = 1 \<and> is_digit (hd r)),
      tx_f2 = print_whole, tx_f3 = print_whole, tx_g = print_whole, tx_hypot = (\<lambda>x y. max \<bar>x\<bar> \<bar>y\<bar>)\<rparr>"

definition text_request :: "string list \<Rightarrow> string list \<Rightarrow> string \<Rightarrow> request" where
  "text_request right wrong answer =
     \<lparr>rq_QuestionID = ''q'', rq_Language = ''en'', rq_Theme = ''t'', rq_QuestionText = ''?'', rq_Right = right,
      rq_Wrong = wrong, rq_AnswerType = ''text'', rq_Deviation = 0, rq_PlayerAnswer = answer,
      rq_ShowmanComments = []\<rparr>"

lemmas judge_eval =
  Normalize_def decode_def runes_ascii ascii_def invalid_rune_def ascii_tx_def plain_lib_def ToLower_def
  lower_char_def yo_def ye_def bytes_def is_digit_def stripParens_def char_of_def bit_iff_odd

theorem verdicts_well_formed_witness:
  "let v = hd (fst (judge_all ascii_tx \<lparr>cp_Threshold = 0, cp_AI = True\<rparr>
       [(Inl ''down'', text_request [''Gogol (N)''] [] '' GOGOL!'')] (NewCache 0)))
   in vd_Right v \<and> 0 < vd_Factor v \<and> vd_Factor v \<le> 1 \<and> \<not> vd_Uncertain v"
proof -
  let ?r = "text_request [''Gogol (N)''] [] '' GOGOL!''" and ?cp = "\<lparr>cp_Threshold = 0, cp_AI = True\<rparr>"
  obtain v where v: "composite_Judge ascii_tx ?cp (Inl ''down'') ?r (NewCache 0) = (v, NewCache 0)" "vd_Right v"
    by (simp add: composite_Judge_def ExactMatch_def answerVariants_def Let_def text_request_def IsText_def
        rightVerdict_def judge_eval)
  then show ?thesis
    using verdicts_well_formed [of ascii_tx ?cp "[(Inl ''down'', ?r)]" 0] by (simp add: Let_def)
qed

subsection \<open>Accepted and known answers\<close>

text \<open>
  A text answer with the normal form of an accepted answer is right at full price and
  leaves the cache alone, whatever the remote model would say and whatever is cached.
\<close>

theorem accepted_answer_is_right:
  assumes "IsText (rq_AnswerType req)" "r \<in> set (rq_Right req)"
    and "Normalize tx (rq_PlayerAnswer req) \<in> {Normalize tx r, Normalize tx (stripParens r)}"
    and "Normalize tx r \<noteq> []" "Normalize tx (rq_PlayerAnswer req) \<noteq> []"
  shows "\<exists>v. composite_Judge tx cp reply req c = (v, c) \<and> vd_Right v \<and> vd_Factor v = 1"
proof -
  let ?player = "Normalize tx (rq_PlayerAnswer req)"
  have "?player \<in> set (answerVariants tx r)" using assms by (auto simp: answerVariants_def Let_def)
  then obtain s where "List.find (\<lambda>c. ?player \<in> set (answerVariants tx c)) (rq_Right req) = Some s"
    using assms(2) by (cases "List.find (\<lambda>c. ?player \<in> set (answerVariants tx c)) (rq_Right req)")
      (auto simp: find_None_iff)
  then show ?thesis
    using assms by (simp add: composite_Judge_def ExactMatch_def Let_def rightVerdict_def)
qed

theorem accepted_answer_is_right_witness:
  "\<exists>v. composite_Judge ascii_tx \<lparr>cp_Threshold = 0, cp_AI = True\<rparr> (Inl ''down'')
       (text_request [''Gogol (N)''] [''Bely''] '' GOGOL!'') (NewCache 0) = (v, NewCache 0) \<and>
     vd_Right v \<and> vd_Factor v = 1"
proof -
  let ?r = "text_request [''Gogol (N)''] [''Bely''] '' GOGOL!''"
  have "Normalize ascii_tx (rq_PlayerAnswer ?r) = Normalize ascii_tx (stripParens ''Gogol (N)'')"
    "Normalize ascii_tx (rq_PlayerAnswer ?r) \<noteq> []" "Normalize ascii_tx ''Gogol (N)'' \<noteq> []"
    by (simp_all add: text_request_def judge_eval)
  moreover have "IsText (rq_AnswerType ?r)" "''Gogol (N)'' \<in> set (rq_Right ?r)"
    by (simp_all add: text_request_def IsText_def)
  ultimately show ?thesis by (intro accepted_answer_is_right [where r = "''Gogol (N)''"]) simp_all
qed

text \<open>
  An answer without letters and digits is judged wrong, as an empty answer, even when it is
  literally the accepted answer (a mathematical sign, say).
\<close>

lemma norm_loop_symbols:
  "list_all (\<lambda>r. r \<noteq> yo \<and> \<not> tx_letter tx r \<and> \<not> tx_digit tx r) rs \<Longrightarrow> norm_loop tx rs p b = b"
  by (induction rs arbitrary: p) auto

theorem symbols_never_right:
  assumes "IsText (rq_AnswerType req)"
    and "list_all (\<lambda>r. r \<noteq> yo \<and> \<not> tx_letter tx r \<and> \<not> tx_digit tx r)
      (decode (ToLower (tx_go tx) (gl_nfc (tx_go tx) (rq_PlayerAnswer req))))"
  shows "composite_Judge tx cp reply req c = (wrongVerdict SourceExact ''empty answer'', c)"
  using assms by (simp add: composite_Judge_def ExactMatch_def Normalize_def norm_loop_symbols)

theorem symbols_never_right_witness:
  "composite_Judge ascii_tx \<lparr>cp_Threshold = 0, cp_AI = False\<rparr> (Inl []) (text_request [''+''] [] ''+'') (NewCache 0) =
     (wrongVerdict SourceExact ''empty answer'', NewCache 0)"
proof (rule symbols_never_right)
  show "IsText (rq_AnswerType (text_request [''+''] [] ''+''))" by (simp add: text_request_def IsText_def)
  show "list_all (\<lambda>r. r \<noteq> yo \<and> \<not> tx_letter ascii_tx r \<and> \<not> tx_digit ascii_tx r)
      (decode (ToLower (tx_go ascii_tx) (gl_nfc (tx_go ascii_tx) (rq_PlayerAnswer (text_request [''+''] [] ''+'')))))"
    by (simp add: text_request_def judge_eval)
qed

subsection \<open>Equal answers, equal verdicts\<close>

text \<open>Before the entry of a key only entries of a given set of keys have been used.\<close>

definition recently_judged :: "string \<Rightarrow> verdict \<Rightarrow> string set \<Rightarrow> entries \<Rightarrow> bool" where
  "recently_judged k v T l \<longleftrightarrow>
     distinct (map fst l) \<and> (\<exists>xs ys. l = xs @ (k, v) # ys \<and> fst ` set xs \<subseteq> T)"

lemma recently_judged_mono: "recently_judged k v T l \<Longrightarrow> T \<subseteq> U \<Longrightarrow> recently_judged k v U l"
  unfolding recently_judged_def by blast

lemma recently_judged_lookup: "recently_judged k v T l \<Longrightarrow> map_of l k = Some v"
  unfolding recently_judged_def by (auto simp: map_of_append map_add_Some_iff)

lemma recently_judged_touch:
  assumes "recently_judged k v T l" "j \<noteq> k" "j \<in> T"
  shows "recently_judged k v T ((j, w) # without j l)"
proof -
  obtain xs ys where l: "l = xs @ (k, v) # ys" and xs: "fst ` set xs \<subseteq> T" using assms(1) by (auto simp: recently_judged_def)
  have "(j, w) # without j l = ((j, w) # without j xs) @ (k, v) # without j ys"
    using assms(2) by (simp add: l without_def)
  moreover have "fst ` set ((j, w) # without j xs) \<subseteq> T" using xs assms(3) by (auto simp: without_def)
  moreover have "distinct (map fst ((j, w) # without j l))"
    using assms(1) by (intro distinct_without) (simp add: recently_judged_def)
  ultimately show ?thesis unfolding recently_judged_def by metis
qed

lemma recently_judged_take:
  assumes "recently_judged k v T l" "finite T" "card T < cap" "k \<notin> T"
  shows "recently_judged k v T (take cap l)"
proof -
  obtain xs ys where l: "l = xs @ (k, v) # ys" and xs: "fst ` set xs \<subseteq> T" and d: "distinct (map fst l)"
    using assms(1) by (auto simp: recently_judged_def)
  have "length xs = card (fst ` set xs)"
    using d distinct_card [of "map fst xs"] by (simp add: l)
  also have "\<dots> \<le> card T" using xs assms(2) by (rule card_mono [rotated])
  finally have "length xs < cap" using assms(3) by simp
  then have "take cap l = xs @ (k, v) # take (cap - length xs - 1) ys"
    by (cases "cap - length xs") (auto simp: l)
  moreover have "distinct (map fst (take cap l))" using d by (simp add: take_map [symmetric])
  ultimately show ?thesis using xs unfolding recently_judged_def by metis
qed

lemma recently_judged_front:
  assumes "distinct (map fst l)" "0 < cap"
  shows "recently_judged k v {} ((k, v) # without k l)" "recently_judged k v {} (take cap ((k, v) # without k l))"
proof -
  have d: "distinct (map fst ((k, v) # without k l))" using assms(1) by (rule distinct_without)
  then show f: "recently_judged k v {} ((k, v) # without k l)" unfolding recently_judged_def by fastforce
  show "recently_judged k v {} (take cap ((k, v) # without k l))"
    by (rule recently_judged_take [OF f]) (use assms(2) in simp_all)
qed

definition cached :: "string \<Rightarrow> verdict \<Rightarrow> string set \<Rightarrow> cache \<Rightarrow> bool" where
  "cached k v T c \<longleftrightarrow> cache_inv c \<and> recently_judged k v T (cache_abs c)"

lemma cached_Get:
  assumes "cached k v T c" "j = k \<or> j \<in> T"
  shows "cached k v T (snd (cache_Get j c))" and "j = k \<Longrightarrow> fst (cache_Get j c) = Some v"
proof -
  have inv: "cache_inv c" and r: "recently_judged k v T (cache_abs c)" using assms(1) by (simp_all add: cached_def)
  note g = Get_refines [OF inv, of j]
  have "recently_judged k v T (snd (lru_get j (cache_abs c)))"
  proof (cases "j = k")
    case True
    have "recently_judged k v {} ((k, v) # without k (cache_abs c))"
      using r by (intro recently_judged_front(1) [of _ 1]) (simp_all add: recently_judged_def)
    then show ?thesis using recently_judged_lookup [OF r] True by (auto simp: lru_get_def intro: recently_judged_mono)
  next
    case False
    then show ?thesis using r assms(2) recently_judged_touch by (auto simp: lru_get_def split: option.split)
  qed
  then show "cached k v T (snd (cache_Get j c))" using g by (simp add: cached_def)
  show "fst (cache_Get j c) = Some v" if "j = k"
    using g recently_judged_lookup [OF r] that by (simp add: lru_get_def)
qed

lemma cached_Put:
  assumes "cached k v T c" "j \<noteq> k" "j \<in> T" "finite T" "card T < nat (ca_cap c)" "k \<notin> T"
  shows "cached k v T (cache_Put j w c)"
  using assms Put_refines [of c j w] recently_judged_take [OF recently_judged_touch [of k v T "cache_abs c" j w]]
  by (simp add: cached_def lru_put_def)

definition call_key :: "text_lib \<Rightarrow> request \<Rightarrow> string" where
  "call_key tx req = CacheKey tx (rq_QuestionID req) (rq_PlayerAnswer req)"

lemma composite_cap:
  assumes "cache_inv c" "composite_Judge tx cp reply req c = (v, c')"
  shows "cache_inv c' \<and> ca_cap c' = ca_cap c"
proof -
  note g = Get_refines [OF assms(1), of "call_key tx req"]
  note p = Put_refines [of "snd (cache_Get (call_key tx req) c)" "call_key tx req"] Put_refines [OF assms(1), of "call_key tx req"]
  show ?thesis
    using assms g p by (auto simp: composite_Judge_def Let_def call_key_def case_prod_unfold split: if_splits option.splits)
qed

lemma composite_keeps_cached:
  assumes "cached k v T c" "call_key tx req = k \<or> call_key tx req \<in> T \<or> call_key tx req = []"
    and "finite T" "card T < nat (ca_cap c)" "k \<notin> T" "k \<noteq> []"
    and "composite_Judge tx cp reply req c = (w, c')"
  shows "cached k v T c'"
proof -
  let ?j = "call_key tx req"
  have cap: "ca_cap (snd (cache_Get ?j c)) = ca_cap c"
    using assms(1) Get_refines [of c ?j] by (simp add: cached_def)
  have get: "cached k v T (snd (cache_Get ?j c)) \<and> (?j = k \<longrightarrow> fst (cache_Get ?j c) = Some v)" if "?j \<noteq> []"
    using cached_Get [OF assms(1), of ?j] assms(2) that by blast
  have put: "cached k v T (cache_Put ?j x (snd (cache_Get ?j c)))" if "?j \<noteq> []" "fst (cache_Get ?j c) = None" for x
    using get that assms cap by (intro cached_Put) auto
  show ?thesis
    using assms(1,7) get put
    by (auto simp: composite_Judge_def Let_def call_key_def [symmetric] case_prod_unfold split: if_splits option.splits)
qed

lemma judge_all_append:
  "judge_all tx cp (xs @ ys) c =
     (let (vs, c) = judge_all tx cp xs c; (ws, c) = judge_all tx cp ys c in (vs @ ws, c))"
  by (induction xs arbitrary: c) (auto simp: case_prod_unfold Let_def)

lemma judge_all_length: "length (fst (judge_all tx cp xs c)) = length xs"
  by (induction xs arbitrary: c) (auto simp: case_prod_unfold Let_def)

lemma judge_all_cap:
  assumes "cache_inv c"
  shows "cache_inv (snd (judge_all tx cp xs c)) \<and> ca_cap (snd (judge_all tx cp xs c)) = ca_cap c"
  using assms
proof (induction xs arbitrary: c)
  case (Cons x xs)
  obtain reply req v c1 where x: "x = (reply, req)" "composite_Judge tx cp reply req c = (v, c1)"
    by (metis surj_pair)
  with Cons.IH [of c1] composite_cap [OF Cons.prems x(2)] show ?case by (simp add: case_prod_unfold Let_def)
qed simp

lemma judge_all_keeps_cached:
  assumes "cached k v T c" "finite T" "card T < nat (ca_cap c)" "k \<notin> T" "k \<noteq> []"
    and "\<forall>(reply, req) \<in> set xs. call_key tx req = k \<or> call_key tx req \<in> T \<or> call_key tx req = []"
  shows "cached k v T (snd (judge_all tx cp xs c))"
  using assms
proof (induction xs arbitrary: c)
  case (Cons x xs)
  obtain reply req w c1 where x: "x = (reply, req)" "composite_Judge tx cp reply req c = (w, c1)"
    by (metis surj_pair)
  have "cached k v T c1" using Cons.prems x by (intro composite_keeps_cached [OF Cons.prems(1) _ _ _ _ _ x(2)]) auto
  moreover have "ca_cap c1 = ca_cap c" using composite_cap [OF _ x(2)] Cons.prems(1) by (simp add: cached_def)
  ultimately show ?case using Cons.IH [of c1] Cons.prems x by (simp add: case_prod_unfold Let_def)
qed simp

definition same_answer :: "text_lib \<Rightarrow> request \<Rightarrow> request \<Rightarrow> bool" where
  "same_answer tx p q \<longleftrightarrow>
     rq_QuestionID p = rq_QuestionID q \<and> rq_Right p = rq_Right q \<and> rq_Wrong p = rq_Wrong q \<and>
     IsText (rq_AnswerType p) \<and> IsText (rq_AnswerType q) \<and>
     Normalize tx (rq_PlayerAnswer p) = Normalize tx (rq_PlayerAnswer q)"

lemma same_answer_fields:
  assumes "same_answer tx p q"
  shows "rq_Right p = rq_Right q" "rq_Wrong p = rq_Wrong q"
    "Normalize tx (rq_PlayerAnswer p) = Normalize tx (rq_PlayerAnswer q)"
    "IsText (rq_AnswerType p)" "IsText (rq_AnswerType q)"
  using assms by (simp_all add: same_answer_def)

lemma same_answer_exact:
  assumes "same_answer tx p q"
  shows "ExactMatch tx p = ExactMatch tx q"
  unfolding ExactMatch_def same_answer_fields [OF assms] by (rule refl)

lemma fuzzy_text: "IsText (rq_AnswerType r) \<Longrightarrow> fuzzy_Judge tx f r = judgeText tx f r"
  by (auto simp: fuzzy_Judge_def IsText_def)

lemma same_answer_fuzzy:
  assumes "same_answer tx p q"
  shows "fuzzy_Judge tx f p = fuzzy_Judge tx f q"
  unfolding fuzzy_text [OF same_answer_fields(4) [OF assms]] fuzzy_text [OF same_answer_fields(5) [OF assms]]
    judgeText_def same_answer_exact [OF assms] same_answer_fields [OF assms] by (rule refl)

text \<open>
  C36: two text answers to the same question that are equal after normalisation get the same
  verdict, whatever the remote model replied the second time, as long as fewer other answers were judged
  in between than the cache has places.
\<close>

theorem equal_answers_equal_verdicts:
  assumes same: "same_answer tx p q" and id: "rq_QuestionID p \<noteq> []"
    and few: "card (call_key tx ` snd ` set mid - {[], call_key tx p}) < nat (ca_cap (NewCache capacity))"
    and vs_def: "vs = fst (judge_all tx cp (prior @ (reply, p) # mid @ [(reply', q)]) (NewCache capacity))"
  shows "vs ! length prior = last vs"
proof -
  let ?k = "call_key tx p" and ?c = "snd (judge_all tx cp prior (NewCache capacity))"
  let ?T = "call_key tx ` snd ` set mid - {[], ?k}"
  obtain v c1 where first: "composite_Judge tx cp reply p ?c = (v, c1)" by fastforce
  let ?d = "snd (judge_all tx cp mid c1)"
  obtain w c2 where second: "composite_Judge tx cp reply' q ?d = (w, c2)" by fastforce
  have vs: "vs = fst (judge_all tx cp prior (NewCache capacity)) @ v # fst (judge_all tx cp mid c1) @ [w]"
    by (simp add: vs_def judge_all_append case_prod_unfold Let_def first second)
  have k: "?k \<noteq> []" "call_key tx q = ?k" using same id by (auto simp: call_key_def CacheKey_def same_answer_def)
  have free: "IsText (rq_AnswerType p)" "IsText (rq_AnswerType q)" using same by (simp_all add: same_answer_def)
  have inv: "cache_inv ?c" "ca_cap ?c = ca_cap (NewCache capacity)"
    using judge_all_cap [of "NewCache capacity" tx cp prior] by simp_all
  have "v = w"
  proof (cases "ExactMatch tx p = None \<and> cp_AI cp")
    case False
    then show ?thesis
      using first second free same_answer_exact [OF same] same_answer_fuzzy [OF same]
      by (auto simp: composite_Judge_def split: option.splits if_splits)
  next
    case True
    have "cached ?k v {} c1"
    proof -
      obtain r d where g: "cache_Get ?k ?c = (r, d)" by fastforce
      have lru: "cache_inv d" "ca_cap d = ca_cap ?c" "lru_get ?k (cache_abs ?c) = (r, cache_abs d)"
        using Get_refines [OF inv(1), of ?k] g by auto
      have dist: "distinct (map fst (cache_abs ?c))" "distinct (map fst (cache_abs d))" "0 < nat (ca_cap d)"
        using inv(1) lru(1) by (simp_all add: cache_inv_def cache_wf_def)
      have c1: "if r = None then c1 = cache_Put ?k v d else c1 = d \<and> r = Some v"
        using first True free k(1) by (auto simp: composite_Judge_def Let_def call_key_def [symmetric] g split: option.splits)
      show ?thesis
      proof (cases r)
        case None
        then show ?thesis
          using c1 Put_refines [OF lru(1), of ?k v] recently_judged_front(2) [OF dist(2,3)] by (simp add: cached_def lru_put_def)
      next
        case (Some x)
        then have "cache_abs c1 = (?k, v) # without ?k (cache_abs ?c)" "cache_inv c1"
          using c1 lru by (auto simp: lru_get_def split: option.splits)
        then show ?thesis using recently_judged_front(1) [OF dist(1), of 1] by (simp add: cached_def)
      qed
    qed
    then have "cached ?k v ?T c1" by (auto simp: cached_def intro: recently_judged_mono)
    moreover have "ca_cap c1 = ca_cap (NewCache capacity)"
      using composite_cap [OF inv(1) first] inv(2) by simp
    moreover have "finite ?T" by simp
    ultimately have "cached ?k v ?T ?d"
      using k(1) few by (intro judge_all_keeps_cached) (auto simp: image_image, force)
    then have "fst (cache_Get ?k ?d) = Some v" by (rule cached_Get(2)) simp_all
    then show ?thesis
      using second True free k same_answer_exact [OF same]
      by (cases "cache_Get ?k ?d") (simp add: composite_Judge_def Let_def call_key_def)
  qed
  then show ?thesis using judge_all_length [of tx cp prior "NewCache capacity"] by (simp add: vs nth_append)
qed

theorem equal_answers_equal_verdicts_witness:
  "let vs = fst (judge_all ascii_tx \<lparr>cp_Threshold = 0, cp_AI = True\<rparr>
       ([] @ (Inl ''down'', text_request [''x''] [] ''Cat'') # [(Inl ''down'', text_request [''x''] [] ''dog'')] @
        [(Inr (rightVerdict SourceAI []), text_request [''x''] [] ''cat!'')]) (NewCache 2))
   in vs ! length ([] :: ((string + verdict) \<times> request) list) = last vs"
  unfolding Let_def
proof (rule equal_answers_equal_verdicts [OF _ _ _ refl])
  show "same_answer ascii_tx (text_request [''x''] [] ''Cat'') (text_request [''x''] [] ''cat!'')"
    by (simp add: same_answer_def text_request_def IsText_def judge_eval)
  show "rq_QuestionID (text_request [''x''] [] ''Cat'') \<noteq> []" by (simp add: text_request_def)
  let ?S = "call_key ascii_tx ` snd ` set [(Inl ''down'' :: string + verdict, text_request [''x''] [] ''dog'')] -
      {[], call_key ascii_tx (text_request [''x''] [] ''Cat'')}"
  have "card ?S \<le> card {call_key ascii_tx (text_request [''x''] [] ''dog'')}" by (rule card_mono) auto
  then show "card ?S < nat (ca_cap (NewCache 2))" by (simp add: NewCache_def)
qed

end
