(* ===== verification/Engine_Snapshot.thy ===== *)
theory Engine_Snapshot
  imports Engine_Demo
begin

text \<open>
  The projection of the game that a client gets when it connects (\<open>internal/engine/snapshot.go\<close>). An
  outstanding prompt is given as the event that carried it. \<open>None\<close> is a panic: an appeal that points
  outside the history of the question. The property says what the projection does not depend on: a
  person that is not the showman gets the same snapshot of a game from which everything it must not
  see has been erased.
\<close>

subsection \<open>Views\<close>

record appeal_view =
  av_Kind :: appeal_kind
  av_AppellantID :: string
  av_AnswererID :: string
  av_Answer :: string
  av_For :: nat
  av_Against :: nat
  av_Pending :: "string list"

record outcome_view =
  ov_PersonID :: string
  ov_Answer :: string
  ov_Right :: bool
  ov_Factor :: f64
  ov_Delta :: int
  ov_Reverted :: bool

record stakes_view =
  sv_Nominal :: int
  sv_Step :: int
  sv_Stake :: int
  sv_Leader :: string
  sv_Current :: string
  sv_Bids :: "(string \<times> int) list"
  sv_Passed :: "string list"
  sv_AllIn :: "string list"

record question_view =
  qv_QuestionID :: string
  qv_ThemeIndex :: nat
  qv_QuestionIndex :: nat
  qv_Theme :: string
  qv_Price :: int
  qv_CurPrice :: int
  qv_Type :: question_type
  qv_IsDefault :: bool
  qv_AnswerType :: answer_type
  qv_Sub :: qsub
  qv_AnswererID :: string
  qv_Answerers :: "string list"
  qv_Content :: "event list"
  qv_Options :: "event option"
  qv_Excluded :: "string list"
  qv_RightAnswer :: "event option"
  qv_Stakes :: "stakes_view option"
  qv_HiddenStakes :: "(string \<times> int) list"
  qv_HiddenAnswers :: "(string \<times> answer_view) list"
  qv_Rights :: "string list"
  qv_Wrongs :: "string list"
  qv_History :: "outcome_view list"
  qv_Armed :: bool
  qv_ThinkingMs :: int
  qv_Eligible :: "string list"

record game_snapshot =
  sn_Role :: role
  sn_PersonID :: string
  sn_Stage :: stage
  sn_Sub :: "qsub option"
  sn_RoundIndex :: int
  sn_RoundName :: string
  sn_RoundType :: round_type
  sn_Table :: table_view
  sn_ChooserID :: string
  sn_Players :: "player_info list"
  sn_Scores :: "score_entry list"
  sn_Rules :: rules
  sn_Times :: time_settings
  sn_Paused :: bool
  sn_WaitNext :: bool
  sn_Timers :: "timer list"
  sn_Winner :: string
  sn_Ended :: bool
  sn_Question :: "question_view option"
  sn_Pending :: "pending option"
  sn_Appeal :: "appeal_view option"
  sn_AskChoose :: "event option"
  sn_AskAnswer :: "event option"
  sn_AskStake :: "event option"
  sn_AskValidate :: "event option"
  sn_AskDeleteTheme :: "event option"
  sn_AskAppealVote :: "event option"

subsection \<open>The parts of a snapshot\<close>

text \<open>A timer's view leaves out the frozen flag.\<close>

definition timer_views :: "game \<Rightarrow> timer list" where
  "timer_views g = map (\<lambda>t. t\<lparr>t_Frozen := False\<rparr>) (st_Timers g)"

definition base_snapshot :: "role \<Rightarrow> string \<Rightarrow> game \<Rightarrow> game_snapshot" where
  "base_snapshot rl i g =
     \<lparr>sn_Role = rl, sn_PersonID = i, sn_Stage = st_Stage g, sn_Sub = None, sn_RoundIndex = st_RoundIndex g,
      sn_RoundName = st_RoundName g, sn_RoundType = st_RoundType g, sn_Table = tablePayload g,
      sn_ChooserID = st_ChooserID g, sn_Players = playerInfos g, sn_Scores = scores g, sn_Rules = st_Rules g,
      sn_Times = st_Times g, sn_Paused = st_Paused g, sn_WaitNext = st_WaitNext g, sn_Timers = timer_views g,
      sn_Winner = st_Winner g, sn_Ended = st_Ended g, sn_Question = None, sn_Pending = st_Pending g,
      sn_Appeal = None, sn_AskChoose = None, sn_AskAnswer = None, sn_AskStake = None, sn_AskValidate = None,
      sn_AskDeleteTheme = None, sn_AskAppealVote = None\<rparr>"

text \<open>The appeal, and the vote it waits for from this person.\<close>

definition with_appeal :: "string \<Rightarrow> game \<Rightarrow> game_snapshot \<Rightarrow> game_snapshot option" where
  "with_appeal i g s =
     (case st_Appeal g of
        None \<Rightarrow> Some s
      | Some a \<Rightarrow> (case st_Question g of
            None \<Rightarrow> None
          | Some q \<Rightarrow>
              let rq = a_Request a in
              if length (q_History q) \<le> ar_OutcomeIdx rq then None
              else
                let answer = o_Answer (q_History q ! ar_OutcomeIdx rq)
                in Some (s\<lparr>
                     sn_Appeal := Some \<lparr>av_Kind = ar_Kind rq, av_AppellantID = ar_AppellantID rq,
                       av_AnswererID = ar_AnswererID rq, av_Answer = answer, av_For = fst (appealCounts a),
                       av_Against = snd (appealCounts a), av_Pending = a_Pending a\<rparr>,
                     sn_AskAppealVote := (if i \<in> set (a_Pending a)
                       then Some (EvAskAppealVote (ar_Kind rq) (ar_AnswererID rq) answer (q_Rights q))
                       else None)\<rparr>)))"

definition with_choices :: "string \<Rightarrow> game \<Rightarrow> game_snapshot \<Rightarrow> game_snapshot" where
  "with_choices i g s =
     s\<lparr>sn_AskChoose := (if st_Stage g = StageSelecting \<and> st_Pending g = None \<and> i = st_ChooserID g \<and> \<not> sequential g
         then Some (EvAskChoose (st_ChooserID g) (tm_QuestionSelectionMs (st_Times g))) else None),
       sn_AskDeleteTheme := (if st_Stage g = StageFinalThemes \<and> st_DeleterID g = i
         then Some (EvAskDeleteTheme i (finalRemainingThemes g) (tm_ThemeSelectionMs (st_Times g))) else None)\<rparr>"

definition before_content :: "qsub \<Rightarrow> bool" where
  "before_content s \<longleftrightarrow> s \<in> {SubAnnouncing, SubSecretTransfer, SubPriceSelect, SubStakes}"

definition shown_groups :: "question_state \<Rightarrow> content_group list" where
  "shown_groups q = (if before_content (q_Sub q) then [] else take (Suc (q_Cursor q)) (q_Groups q))"

definition options_view :: "game \<Rightarrow> question_state \<Rightarrow> event" where
  "options_view g q =
     EvAnswerOptions (map (\<lambda>o'. (ao_Label o', viewItems (ao_Content o'))) (q_Options q))
       (r_DisplayAnswerOptionsLabels (st_Rules g)) (r_DisplayAnswerOptionsOneByOne (st_Rules g))"

definition right_answer_view :: "question_state \<Rightarrow> event option" where
  "right_answer_view q =
     (if q_Sub q = SubReveal \<or> q_Sub q = SubEnd
      then Some (EvRightAnswer (case q_Rights q of [] \<Rightarrow> [] | r # _ \<Rightarrow> r) (viewItems (q_AnswerItems q)) (q_Comments q))
      else None)"

definition outcome_view_of :: "bool \<Rightarrow> outcome \<Rightarrow> outcome_view" where
  "outcome_view_of answer o' =
     \<lparr>ov_PersonID = o_PersonID o', ov_Answer = (if answer then o_Answer o' else []), ov_Right = o_Right o',
      ov_Factor = o_Factor o', ov_Delta = o_Delta o', ov_Reverted = o_Reverted o'\<rparr>"

definition history_view :: "bool \<Rightarrow> string \<Rightarrow> question_state \<Rightarrow> outcome_view list" where
  "history_view showman i q =
     map (\<lambda>o'. outcome_view_of (showman \<or> \<not> q_Hidden q \<or> o_PersonID o' = i) o') (q_History q)"

definition stakes_view_of :: "stake_state \<Rightarrow> stakes_view" where
  "stakes_view_of ss =
     \<lparr>sv_Nominal = ss_Nominal ss, sv_Step = ss_Step ss, sv_Stake = ss_Stake ss, sv_Leader = ss_Leader ss,
      sv_Current = ss_Current ss,
      sv_Bids = concat (map (\<lambda>i. case map_of (ss_Bids ss) i of None \<Rightarrow> [] | Some b \<Rightarrow> [(i, b)]) (ss_Participants ss)),
      sv_Passed = filter (\<lambda>i. \<not> mget (ss_Active ss) i) (ss_Participants ss),
      sv_AllIn = filter (mget (ss_AllIn ss)) (ss_Participants ss)\<rparr>"

definition revealed_ids :: "question_state \<Rightarrow> string list" where
  "revealed_ids q = take (q_RevealIdx q) (q_Answerers q)"

definition visible_answerers :: "bool \<Rightarrow> string \<Rightarrow> game \<Rightarrow> question_state \<Rightarrow> (string \<times> player) list" where
  "visible_answerers showman i g q =
     concat (map (\<lambda>j. case player g j of None \<Rightarrow> []
                       | Some p \<Rightarrow> if showman \<or> j = i \<or> j \<in> set (revealed_ids q) then [(j, p)] else [])
       (q_Answerers q))"

definition hidden_stakes_view :: "bool \<Rightarrow> string \<Rightarrow> game \<Rightarrow> question_state \<Rightarrow> (string \<times> int) list" where
  "hidden_stakes_view showman i g q =
     (if q_Hidden q \<and> q_HiddenAll q
      then map (\<lambda>(j, p). (j, p_Stake p)) (filter (\<lambda>(j, p). p_StakeMade p) (visible_answerers showman i g q))
      else [])"

definition hidden_answers_view :: "bool \<Rightarrow> string \<Rightarrow> game \<Rightarrow> question_state \<Rightarrow> (string \<times> answer_view) list" where
  "hidden_answers_view showman i g q =
     (if q_Hidden q
      then map (\<lambda>(j, p). (j, p_Answer p)) (filter (\<lambda>(j, p). p_Answered p) (visible_answerers showman i g q))
      else [])"

definition question_view_of :: "bool \<Rightarrow> string \<Rightarrow> game \<Rightarrow> question_state \<Rightarrow> question_view" where
  "question_view_of showman i g q =
     \<lparr>qv_QuestionID = q_ID q, qv_ThemeIndex = q_ThemeIndex q, qv_QuestionIndex = q_QuestionIndex q,
      qv_Theme = q_Caption q, qv_Price = q_Price q, qv_CurPrice = q_CurPriceRight q, qv_Type = q_Type q,
      qv_IsDefault = q_IsDefault q, qv_AnswerType = q_AnswerType q, qv_Sub = q_Sub q,
      qv_AnswererID = q_AnswererID q, qv_Answerers = q_Answerers q,
      qv_Content = map (\<lambda>(k, grp). EvContent ''question'' k (viewItems (cg_Items grp)) (cg_WaitMs grp))
        (enumerate 0 (shown_groups q)),
      qv_Options = (if q_OptionsShown q then Some (options_view g q) else None),
      qv_Excluded = (if q_OptionsShown q then map fst (q_ExcludedOptions q) else []),
      qv_RightAnswer = right_answer_view q,
      qv_Stakes = map_option stakes_view_of (q_Stakes q),
      qv_HiddenStakes = hidden_stakes_view showman i g q,
      qv_HiddenAnswers = hidden_answers_view showman i g q,
      qv_Rights = (if showman then q_Rights q else []), qv_Wrongs = (if showman then q_Wrongs q else []),
      qv_History = history_view showman i q, qv_Armed = q_Armed q, qv_ThinkingMs = q_ThinkingRemain q,
      qv_Eligible = (if q_Armed q then eligibleIDs g else [])\<rparr>"

text \<open>The prompts that wait for this person while a question is played; a later one replaces an earlier one.\<close>

definition ask_stake_view :: "string \<Rightarrow> stake_mode list \<Rightarrow> int \<Rightarrow> int \<Rightarrow> int \<Rightarrow> string \<Rightarrow> game \<Rightarrow> event" where
  "ask_stake_view i modes lo hi st reason g =
     EvAskStake \<lparr>as_PersonID = i, as_Modes = modes, as_Min = lo, as_Max = hi, as_Step = st, as_Reason = reason,
       as_DurationMs = tm_StakeMakingMs (st_Times g)\<rparr>"

definition hidden_player :: "string \<Rightarrow> game \<Rightarrow> question_state \<Rightarrow> player option" where
  "hidden_player i g q =
     (if q_Hidden q \<and> isAnswerer q i
      then (case player g i of None \<Rightarrow> None | Some p \<Rightarrow> if p_InGame p then Some p else None)
      else None)"

definition bid_prompt :: "string \<Rightarrow> game \<Rightarrow> question_state \<Rightarrow> event option" where
  "bid_prompt i g q =
     (case q_Stakes q of
        None \<Rightarrow> None
      | Some ss \<Rightarrow>
          if q_Sub q = SubStakes \<and> ss_Current ss = i
          then Some (ask_stake_view i (ss_AllowedModes ss) (ss_Min ss) (ss_Max ss) (ss_Step ss) ''stake'' g)
          else None)"

definition ask_stake_prompt :: "string \<Rightarrow> game \<Rightarrow> question_state \<Rightarrow> event option" where
  "ask_stake_prompt i g q =
     (if q_Sub q = SubPriceSelect \<and> q_AnswererID q = i \<and> 1 < length (q_PriceChoices q) then
        Some (ask_stake_view i [StakeStake] (q_PriceChoices q ! 0) (last (q_PriceChoices q))
          (int64 (q_PriceChoices q ! 1 - q_PriceChoices q ! 0)) ''secretPrice'' g)
      else case hidden_player i g q of
          Some p \<Rightarrow>
            if q_Sub q = SubStakes \<and> q_HiddenAll q \<and> \<not> p_StakeMade p
            then Some (ask_stake_view i [StakeStake, StakeAllIn] 1 (p_Score p) 1 ''hiddenStake'' g)
            else bid_prompt i g q
        | None \<Rightarrow> bid_prompt i g q)"

definition ask_answer_prompt :: "string \<Rightarrow> game \<Rightarrow> question_state \<Rightarrow> event option" where
  "ask_answer_prompt i g q =
     (if q_Sub q = SubAnswering \<and> q_AnswererID q = i \<and> q_Known q then
        Some (EvAskAnswer i (q_AnswerType q)
          (answerDuration g (if q_Button q then tm_AnsweringMs (st_Times g) else tm_SoloAnsweringMs (st_Times g)))
          False (q_PendingAnswerID q \<noteq> []))
      else case hidden_player i g q of
          Some p \<Rightarrow>
            if q_Sub q = SubHiddenAnswering \<and> \<not> p_Answered p \<and> p_Active p
            then Some (EvAskAnswer i (q_AnswerType q) (answerDuration g (tm_HiddenAnsweringMs (st_Times g))) True False)
            else None
        | None \<Rightarrow> None)"

definition ask_validate_prompt :: "bool \<Rightarrow> game \<Rightarrow> question_state \<Rightarrow> event option" where
  "ask_validate_prompt showman g q =
     (if showman \<and> q_PendingAnswerID q \<noteq> [] \<and> (q_Sub q = SubValidating \<or> q_Sub q = SubAnswering)
      then Some (EvAskValidate \<lparr>vl_PersonID = q_PendingAnswerID q, vl_Answer = q_PendingAnswer q,
             vl_Rights = q_Rights q, vl_Wrongs = q_Wrongs q, vl_AllowFactor = True,
             vl_Oral = (q_Sub q = SubAnswering), vl_AutoAfterMs = tm_ShowmanDecisionMs (st_Times g),
             vl_Preview = False\<rparr>)
      else None)"

definition Snapshot :: "role \<Rightarrow> string \<Rightarrow> game \<Rightarrow> game_snapshot option" where
  "Snapshot rl i g =
     (case with_appeal i g (base_snapshot rl i g) of
        None \<Rightarrow> None
      | Some s \<Rightarrow>
          let s = with_choices i g s; showman = (rl = RoleShowman)
          in case st_Question g of
               None \<Rightarrow> Some s
             | Some q \<Rightarrow>
                 if st_Stage g \<noteq> StageQuestion then Some s
                 else Some (s\<lparr>sn_Sub := Some (q_Sub q), sn_Question := Some (question_view_of showman i g q),
                        sn_AskStake := ask_stake_prompt i g q, sn_AskAnswer := ask_answer_prompt i g q,
                        sn_AskValidate := ask_validate_prompt showman g q\<rparr>))"

subsection \<open>What a snapshot does not depend on\<close>

text \<open>
  \<open>erased i g\<close> is the game without what a person \<open>i\<close> that is not the showman must not see: the pack's
  questions, the expected answers (until the first of them is revealed), content not shown yet, the answers and stakes other players keep hidden and the answer that waits for a verdict.
\<close>

definition erased_question :: "pack_question \<Rightarrow> pack_question" where
  "erased_question pq =
     pq\<lparr>pq_Params := (pq_Params pq)\<lparr>qp_Question := [], qp_Answer := [], qp_AnswerOptions := []\<rparr>,
        pq_Right := [], pq_Wrong := [], pq_Info := no_info, pq_Script := [], pq_Extra := []\<rparr>"

definition erased_round :: "pack_round \<Rightarrow> pack_round" where
  "erased_round r =
     r\<lparr>pr_Themes := map (\<lambda>t. t\<lparr>pt_Questions := map erased_question (pt_Questions t)\<rparr>) (pr_Themes r)\<rparr>"

definition erased_pack :: "pack \<Rightarrow> pack" where
  "erased_pack pk = pk\<lparr>pk_Rounds := map erased_round (pk_Rounds pk)\<rparr>"

definition asked_to_vote :: "string \<Rightarrow> game \<Rightarrow> bool" where
  "asked_to_vote i g \<longleftrightarrow> (case st_Appeal g of None \<Rightarrow> False | Some a \<Rightarrow> i \<in> set (a_Pending a))"

definition erased_outcome :: "string \<Rightarrow> game \<Rightarrow> question_state \<Rightarrow> nat \<times> outcome \<Rightarrow> outcome" where
  "erased_outcome i g q x = (case x of (k, o') \<Rightarrow>
     if q_Hidden q \<and> o_PersonID o' \<noteq> i \<and> map_option (\<lambda>a. ar_OutcomeIdx (a_Request a)) (st_Appeal g) \<noteq> Some k
     then o'\<lparr>o_Answer := []\<rparr> else o')"

definition erased_state :: "string \<Rightarrow> game \<Rightarrow> question_state \<Rightarrow> question_state" where
  "erased_state i g q =
     (let over = q_Sub q = SubReveal \<or> q_Sub q = SubEnd
      in q\<lparr>q_Rights := (if over then take 1 (q_Rights q) else []),
           q_Wrongs := [], q_AnswerItems := (if over then q_AnswerItems q else []),
           q_Comments := (if over then q_Comments q else []), q_Groups := shown_groups q,
           q_Options := (if q_OptionsShown q then q_Options q else []), q_PendingAnswer := [],
           q_ValidationCache := [], q_PreVerdicts := [],
           q_History := map (erased_outcome i g q) (enumerate 0 (q_History q))\<rparr>)"

definition erased_player :: "string \<Rightarrow> question_state \<Rightarrow> player \<Rightarrow> player" where
  "erased_player i q p =
     (if p_ID p = i \<or> p_ID p \<in> set (revealed_ids q) then p else p\<lparr>p_Answer := no_answer, p_Stake := 0\<rparr>)"

definition erased :: "string \<Rightarrow> game \<Rightarrow> game" where
  "erased i g =
     (case st_Question g of
        None \<Rightarrow> g\<lparr>g_pack := erased_pack (g_pack g)\<rparr>
      | Some q \<Rightarrow> g\<lparr>g_pack := erased_pack (g_pack g), st_Question := Some (erased_state i g q),
           st_Players := map (erased_player i q) (st_Players g)\<rparr>)"

lemma erased_player_fields [simp]:
  "p_ID (erased_player i q p) = p_ID p" "p_Name (erased_player i q p) = p_Name p"
  "p_Score (erased_player i q p) = p_Score p" "p_Connected (erased_player i q p) = p_Connected p"
  "p_Ready (erased_player i q p) = p_Ready p" "p_Kicked (erased_player i q p) = p_Kicked p"
  "p_State (erased_player i q p) = p_State p" "p_CanPress (erased_player i q p) = p_CanPress p"
  "p_InGame (erased_player i q p) = p_InGame p" "p_StakeMade (erased_player i q p) = p_StakeMade p"
  "p_Answered (erased_player i q p) = p_Answered p" "p_Active (erased_player i q p) = p_Active p"
  by (simp_all add: erased_player_def p_Active_def)

lemma find_map_same: "(\<And>x. P (f x) = P x) \<Longrightarrow> List.find P (map f xs) = map_option f (List.find P xs)"
  by (induction xs) auto

lemma erased_fields [simp]:
  "st_Stage (erased i g) = st_Stage g" "st_RoundIndex (erased i g) = st_RoundIndex g"
  "st_RoundName (erased i g) = st_RoundName g" "st_RoundType (erased i g) = st_RoundType g"
  "st_Table (erased i g) = st_Table g" "st_ChooserID (erased i g) = st_ChooserID g"
  "st_Rules (erased i g) = st_Rules g" "st_Times (erased i g) = st_Times g"
  "st_Paused (erased i g) = st_Paused g" "st_WaitNext (erased i g) = st_WaitNext g"
  "st_Timers (erased i g) = st_Timers g" "st_Winner (erased i g) = st_Winner g"
  "st_Ended (erased i g) = st_Ended g" "st_Pending (erased i g) = st_Pending g"
  "st_Appeal (erased i g) = st_Appeal g" "st_DeleterID (erased i g) = st_DeleterID g"
  "g_pack (erased i g) = erased_pack (g_pack g)"
  "st_Question (erased i g) = map_option (erased_state i g) (st_Question g)"
  by (simp_all add: erased_def split: option.split)

lemma erased_players:
  "st_Players (erased i g) =
     (case st_Question g of None \<Rightarrow> st_Players g | Some q \<Rightarrow> map (erased_player i q) (st_Players g))"
  by (simp add: erased_def split: option.split)

lemma filter_map_same: "(\<And>x. P (f x) = P x) \<Longrightarrow> filter P (map f xs) = map f (filter P xs)"
  by (induction xs) auto

lemma erased_views [simp]:
  "playerInfos (erased i g) = playerInfos g" "scores (erased i g) = scores g"
  "tablePayload (erased i g) = tablePayload g" "timer_views (erased i g) = timer_views g"
  "sequential (erased i g) = sequential g" "finalRemainingThemes (erased i g) = finalRemainingThemes g"
  "eligibleIDs (erased i g) = eligibleIDs g"
  by (simp_all add: playerInfos_def scores_def tablePayload_def timer_views_def sequential_def
      finalRemainingThemes_def eligibleIDs_def activePlayers_def erased_players filter_map_same comp_def
      split: option.split)

lemma erased_state_fields [simp]:
  "q_ID (erased_state i g q) = q_ID q" "q_ThemeIndex (erased_state i g q) = q_ThemeIndex q"
  "q_QuestionIndex (erased_state i g q) = q_QuestionIndex q" "q_Sub (erased_state i g q) = q_Sub q"
  "q_Hidden (erased_state i g q) = q_Hidden q" "q_HiddenAll (erased_state i g q) = q_HiddenAll q"
  "q_Answerers (erased_state i g q) = q_Answerers q" "q_RevealIdx (erased_state i g q) = q_RevealIdx q"
  "q_Stakes (erased_state i g q) = q_Stakes q" "q_OptionsShown (erased_state i g q) = q_OptionsShown q"
  "q_AnswererID (erased_state i g q) = q_AnswererID q" "q_Known (erased_state i g q) = q_Known q"
  "q_Button (erased_state i g q) = q_Button q" "q_PriceChoices (erased_state i g q) = q_PriceChoices q"
  "q_PendingAnswerID (erased_state i g q) = q_PendingAnswerID q"
  "q_AnswerType (erased_state i g q) = q_AnswerType q"
  "q_Cursor (erased_state i g q) = q_Cursor q" "q_Groups (erased_state i g q) = shown_groups q"
  "q_History (erased_state i g q) = map (erased_outcome i g q) (enumerate 0 (q_History q))"
  by (simp_all add: erased_state_def Let_def)

lemma erased_player_of:
  "st_Question g = Some q \<Longrightarrow> player (erased i g) j = map_option (erased_player i q) (player g j)"
  by (simp add: player_def erased_players find_map_same)

lemma erased_packQuestion: "packQuestion (erased i g) t k = map_option erased_question (packQuestion g t k)"
proof -
  have "Engine_Core.round (erased i g) = map_option erased_round (Engine_Core.round g)"
    by (auto simp: Engine_Core.round_def erased_pack_def)
  then show ?thesis by (auto simp: packQuestion_def erased_round_def split: option.split)
qed

lemma erased_answerDuration [simp]: "answerDuration (erased i g) d = answerDuration g d"
  by (auto simp: answerDuration_def erased_packQuestion erased_question_def split: option.split)

lemma erased_history:
  "map (\<lambda>o'. outcome_view_of (q_Hidden q \<longrightarrow> o_PersonID o' = i) o') (map (erased_outcome i g q) (enumerate n os)) =
   map (\<lambda>o'. outcome_view_of (q_Hidden q \<longrightarrow> o_PersonID o' = i) o') os"
  by (induction os arbitrary: n) (simp_all add: erased_outcome_def outcome_view_of_def)

text \<open>Only the request for a vote tells the expected answers.\<close>

definition without_vote :: "game_snapshot \<Rightarrow> game_snapshot" where
  "without_vote s = s\<lparr>sn_AskAppealVote := None\<rparr>"

lemma erased_appeal:
  "map_option without_vote (with_appeal i (erased i g) s) = map_option without_vote (with_appeal i g s)"
  "\<not> asked_to_vote i g \<Longrightarrow> with_appeal i (erased i g) s = with_appeal i g s"
proof -
  have same: "o_Answer (erased_outcome i g q (k, q_History q ! k)) = o_Answer (q_History q ! k)"
    if "st_Appeal g = Some a" "k = ar_OutcomeIdx (a_Request a)" for a q k
    using that by (simp add: erased_outcome_def)
  show "map_option without_vote (with_appeal i (erased i g) s) = map_option without_vote (with_appeal i g s)"
    "\<not> asked_to_vote i g \<Longrightarrow> with_appeal i (erased i g) s = with_appeal i g s"
    using same
    by (auto simp: with_appeal_def Let_def nth_enumerate_eq without_vote_def asked_to_vote_def split: option.split)
qed

lemma erased_question_view:
  assumes "st_Question g = Some q"
  shows "question_view_of False i (erased i g) (erased_state i g q) = question_view_of False i g q"
proof -
  have groups: "shown_groups (erased_state i g q) = shown_groups q"
    by (simp add: shown_groups_def)
  have options: "q_OptionsShown q \<Longrightarrow> options_view (erased i g) (erased_state i g q) = options_view g q"
    "q_ExcludedOptions (erased_state i g q) = q_ExcludedOptions q"
    by (simp_all add: options_view_def erased_state_def Let_def)
  have right: "right_answer_view (erased_state i g q) = right_answer_view q"
    by (cases "q_Rights q") (auto simp: right_answer_view_def erased_state_def Let_def)
  have history: "history_view False i (erased_state i g q) = history_view False i q"
    by (simp add: history_view_def erased_history del: map_map)
  have players: "visible_answerers False i (erased i g) (erased_state i g q) =
      map (\<lambda>(j, p). (j, erased_player i q p)) (visible_answerers False i g q)"
    by (simp add: visible_answerers_def erased_player_of [OF assms] map_concat comp_def revealed_ids_def
        if_distrib option.case_distrib cong: option.case_cong if_cong)
  have seen: "erased_player i q p = p" if "(j, p) \<in> set (visible_answerers False i g q)" for j p
    using that player_ID [of g j p]
    by (auto simp: visible_answerers_def erased_player_def split: option.splits if_splits)
  have "visible_answerers False i (erased i g) (erased_state i g q) = visible_answerers False i g q"
    unfolding players by (rule map_idI) (auto simp: seen)
  then have "hidden_stakes_view False i (erased i g) (erased_state i g q) = hidden_stakes_view False i g q"
    "hidden_answers_view False i (erased i g) (erased_state i g q) = hidden_answers_view False i g q"
    by (simp_all add: hidden_stakes_view_def hidden_answers_view_def)
  moreover have "q_Caption (erased_state i g q) = q_Caption q" "q_Price (erased_state i g q) = q_Price q"
    "q_CurPriceRight (erased_state i g q) = q_CurPriceRight q" "q_Type (erased_state i g q) = q_Type q"
    "q_IsDefault (erased_state i g q) = q_IsDefault q" "q_Armed (erased_state i g q) = q_Armed q"
    "q_ThinkingRemain (erased_state i g q) = q_ThinkingRemain q"
    by (simp_all add: erased_state_def Let_def)
  ultimately show ?thesis
    unfolding question_view_of_def by (simp add: groups options right history)
qed

lemma erased_prompts:
  assumes "st_Question g = Some q"
  shows "ask_stake_prompt i (erased i g) (erased_state i g q) = ask_stake_prompt i g q"
    "ask_answer_prompt i (erased i g) (erased_state i g q) = ask_answer_prompt i g q"
proof -
  have "hidden_player i (erased i g) (erased_state i g q) = map_option (erased_player i q) (hidden_player i g q)"
    by (simp add: hidden_player_def isAnswerer_def erased_player_of [OF assms] split: option.split)
  then show "ask_stake_prompt i (erased i g) (erased_state i g q) = ask_stake_prompt i g q"
    "ask_answer_prompt i (erased i g) (erased_state i g q) = ask_answer_prompt i g q"
    by (simp_all add: ask_stake_prompt_def ask_answer_prompt_def bid_prompt_def ask_stake_view_def
        split: option.split)
qed

text \<open>A snapshot is its appeal part with the rest written over it.\<close>

definition with_rest :: "role \<Rightarrow> string \<Rightarrow> game \<Rightarrow> game_snapshot \<Rightarrow> game_snapshot" where
  "with_rest rl i g s =
     (let s = with_choices i g s; showman = (rl = RoleShowman)
      in case st_Question g of
           None \<Rightarrow> s
         | Some q \<Rightarrow>
             if st_Stage g \<noteq> StageQuestion then s
             else s\<lparr>sn_Sub := Some (q_Sub q), sn_Question := Some (question_view_of showman i g q),
                    sn_AskStake := ask_stake_prompt i g q, sn_AskAnswer := ask_answer_prompt i g q,
                    sn_AskValidate := ask_validate_prompt showman g q\<rparr>)"

lemma Snapshot_parts: "Snapshot rl i g = map_option (with_rest rl i g) (with_appeal i g (base_snapshot rl i g))"
  by (simp add: Snapshot_def with_rest_def Let_def split: option.split)

lemma with_rest_vote: "without_vote (with_rest rl i g s) = with_rest rl i g (without_vote s)"
  by (simp add: with_rest_def without_vote_def with_choices_def Let_def split: option.split)

lemma with_rest_erased: "rl \<noteq> RoleShowman \<Longrightarrow> with_rest rl i (erased i g) = with_rest rl i g"
  using erased_question_view [of g _ i] erased_prompts [of g _ i]
  by (simp add: with_rest_def fun_eq_iff with_choices_def ask_validate_prompt_def Let_def split: option.split)


text \<open>B is answering; the expected answer is in the game, but not in what C is shown.\<close>

definition demo_answering :: game where
  "demo_answering = the (played demo_pack DefaultRules (demo_opening @
     [by_player CmdChooseQuestion ''A'', fired TimerContent 4, (by_room CmdButtonResult)\<lparr>cmd_WinnerID := ''B''\<rparr>]))"


subsection \<open>Appeals tell the answers of a live question\<close>

lemma new_appeal_cong:
  "st_Players g' = st_Players g \<Longrightarrow> st_ShowmanID g' = st_ShowmanID g \<Longrightarrow> new_appeal g' req = new_appeal g req"
  by (simp add: new_appeal_def activePlayers_def ids_def)

lemma told_votes:
  "v \<in> set vs \<Longrightarrow> (AudiencePerson v, e) \<in> set (g_ev (fold (\<lambda>v. ev_to v e) vs g))"
  "set (g_ev g) \<subseteq> set (g_ev (fold (\<lambda>v. ev_to v e) vs g))"
proof -
  show mono: "set (g_ev g) \<subseteq> set (g_ev (fold (\<lambda>v. ev_to v e) vs g))" for g vs
    by (induction vs arbitrary: g) fastforce+
  show "v \<in> set vs \<Longrightarrow> (AudiencePerson v, e) \<in> set (g_ev (fold (\<lambda>v. ev_to v e) vs g))"
  proof (induction vs arbitrary: g)
    case (Cons w vs)
    then show ?case using mono [of "ev_to v e g" vs] by (cases "v \<in> set vs") auto
  qed simp
qed

lemma timers_tell:
  "set (g_ev g) \<subseteq> set (g_ev (startTimer k d p g))" "set (g_ev g) \<subseteq> set (g_ev (resume_kind k g))"
  by (auto simp: startTimer_def stopKind_def stopTimer_def resume_kind_def resumeTimer_def Let_def
      split: option.split)

lemma appealStart_tells:
  assumes "st_Question g = Some q" and "ar_OutcomeIdx req < length (q_History q)"
    and "\<not> appealDecided (new_appeal g req)" and "v \<in> set (a_Pending (new_appeal g req))"
  shows "snd (appealStart req g) = Ret \<and> st_Question (fst (appealStart req g)) = Some q \<and>
    (AudiencePerson v, EvAskAppealVote (ar_Kind req) (ar_AnswererID req)
       (o_Answer (q_History q ! ar_OutcomeIdx req)) (q_Rights q)) \<in> set (g_ev (fst (appealStart req g)))"
proof -
  let ?e = "EvAskAppealVote (ar_Kind req) (ar_AnswererID req) (o_Answer (q_History q ! ar_OutcomeIdx req)) (q_Rights q)"
  obtain h where h: "h = ev_all (EvAppealStart (ar_Kind req) (ar_AppellantID req) (ar_AnswererID req)
      (o_Answer (q_History q ! ar_OutcomeIdx req)) (a_Voters (new_appeal g req)) (tm_AppellationMs (st_Times g)))
      (fold pauseTimer (st_Timers g) (g\<lparr>st_Appeal := Some (new_appeal g req)\<rparr>))" by simp
  let ?k = "fold (\<lambda>v. ev_to v ?e) (a_Pending (new_appeal g req)) h"
  let ?t = "startTimer TimerAppellation (tm_AppellationMs (st_Times g)) [] ?k"
  have "st_Question h = Some q" by (simp add: h assms(1) fold_frames)
  then have q: "st_Question ?t = Some q" "st_Question (resume_kind TimerAppellation ?t) = Some q"
    by (simp_all add: fold_frames resume_kind_def split: option.split)
  have "appealStart req g = (if st_Paused ?t then (?t, Ret) else (resume_kind TimerAppellation ?t, Ret))"
    using assms(1-3) by (simp add: appealStart_def Let_def h fold_frames)
  moreover have "(AudiencePerson v, ?e) \<in> set (g_ev ?k)" by (rule told_votes(1) [OF assms(4)])
  ultimately show ?thesis
    using q timers_tell(1) [of ?k TimerAppellation "tm_AppellationMs (st_Times g)" "[]"] timers_tell(2) [of ?t TimerAppellation]
    by (auto simp del: startTimer_frame)
qed

text \<open>
  An appeal may outlive its question: it can be made at the table, and
  the next question starts while it is voted on. If that vote rejects it and an appeal against an outcome of the
  question being played is queued, the vote on the queued appeal starts at once, whatever the stage of that
  question: every player asked to vote gets its expected answers, although it may still be open for the others.
\<close>

theorem queued_appeal_tells_answers:
  assumes "st_Appeal g = Some a" and "\<not> appeal_accepted a" and "st_Question g = Some q"
    and "q_AppealQueue q = req # rest" and "ar_OutcomeIdx req < length (q_History q)"
    and "\<not> o_Reverted (q_History q ! ar_OutcomeIdx req)"
    and "\<not> appealDecided (new_appeal g req)" and "v \<in> set (a_Pending (new_appeal g req))"
  shows "\<exists>h. run JAppealFinish g = Some (Halted h) \<and> map_option q_Sub (st_Question h) = Some (q_Sub q) \<and>
    (AudiencePerson v, EvAskAppealVote (ar_Kind req) (ar_AnswererID req)
       (o_Answer (q_History q ! ar_OutcomeIdx req)) (q_Rights q)) \<in> set (g_ev h)"
proof -
  let ?g = "emitSums ((ev_all (EvAppealResult (ar_Kind (a_Request a)) (ar_AnswererID (a_Request a)) False
      (int (fst (appealCounts a))) (int (snd (appealCounts a)))) (stopKind TimerAppellation g))\<lparr>st_Appeal := None\<rparr>)"
  let ?h = "upd_q (\<lambda>q. q\<lparr>q_AppealQueue := rest\<rparr>) ?g"
  have 1: "step JAppealFinish g = (?g, JProcessAppeals)"
    using assms(1-4) by (simp add: step_def appealFinish_def Let_def)
  have 2: "step JProcessAppeals ?g = (?h, JAppealStart req)"
    using assms(3-6) by (simp add: step_def processAppeals_def Let_def)
  have same: "new_appeal ?h req = new_appeal g req" by (rule new_appeal_cong) simp_all
  have q: "st_Question ?h = Some (q\<lparr>q_AppealQueue := rest\<rparr>)" using assms(3) by simp
  have t: "snd (appealStart req ?h) = Ret \<and> st_Question (fst (appealStart req ?h)) = Some (q\<lparr>q_AppealQueue := rest\<rparr>) \<and>
    (AudiencePerson v, EvAskAppealVote (ar_Kind req) (ar_AnswererID req)
       (o_Answer (q_History q ! ar_OutcomeIdx req)) (q_Rights q)) \<in> set (g_ev (fst (appealStart req ?h)))"
    using appealStart_tells [OF q, of req v] assms(5,7,8) by (simp add: same)
  have "run JAppealFinish g = Some (Halted (fst (appealStart req ?h)))"
    using t by (simp add: run_step 1 2) (simp add: step_def)
  then show ?thesis using t by simp
qed

text \<open>
  B appeals at the table; A opens the second question, C answers it wrongly and appeals at once. B's appeal is
  rejected by C and D; the button of the second question is still open for A, B and D, who now learn the answer.
\<close>

definition two_questions :: pack where
  "two_questions = pack_of [demo_round RoundStandard
     [demo_theme ''A'' [demo_question ''a'' 100 QSimple None, demo_question ''b'' 200 QSimple None]]]"

definition appeals_queued :: "command list" where
  "appeals_queued = demo_opening @ [by_player CmdChooseQuestion ''A'', fired TimerContent 4,
     (by_room CmdButtonResult)\<lparr>cmd_WinnerID := ''B''\<rparr>, (by_player CmdAnswer ''B'')\<lparr>cmd_Text := ''no''\<rparr>,
     by_showman CmdValidate, fired TimerButtonPressing 5, fired TimerReflection 8,
     (by_player CmdAppellate ''B'')\<lparr>cmd_For := True\<rparr>,
     (by_player CmdChooseQuestion ''A'')\<lparr>cmd_Q := 1\<rparr>, fired TimerContent 11,
     (by_room CmdButtonResult)\<lparr>cmd_WinnerID := ''C''\<rparr>, (by_player CmdAnswer ''C'')\<lparr>cmd_Text := ''no''\<rparr>,
     by_showman CmdValidate, (by_player CmdAppellate ''C'')\<lparr>cmd_For := True\<rparr>, by_player CmdVoteAppeal ''C'']"

theorem queued_appeal_tells_answers_witness:
  "\<exists>g ev g'. played two_questions DefaultRules appeals_queued = Some g \<and>
     Apply (by_player CmdVoteAppeal ''D'') g = Some (Events ev g') \<and>
     map_option q_Sub (st_Question g') = Some SubButtonWait \<and>
     (AudiencePerson ''A'', EvAskAppealVote AppealFor ''C'' ''no'' [''yes'']) \<in> set ev"
proof -
  let ?cmd = "by_player CmdVoteAppeal ''D''"
  have "case played two_questions DefaultRules appeals_queued of None \<Rightarrow> False
    | Some g \<Rightarrow> (case dispatch ?cmd (begin_cmd ?cmd g) of Fail e h \<Rightarrow> False | Go h j \<Rightarrow> j = JAppealFinish \<and>
        (case st_Appeal h of None \<Rightarrow> False | Some a \<Rightarrow> \<not> appeal_accepted a) \<and>
        (case st_Question h of None \<Rightarrow> False | Some q \<Rightarrow> q_Sub q = SubButtonWait \<and> q_Rights q = [''yes''] \<and>
          (case q_AppealQueue q of [] \<Rightarrow> False | req # rest \<Rightarrow> ar_Kind req = AppealFor \<and> ar_AnswererID req = ''C'' \<and>
            ar_OutcomeIdx req < length (q_History q) \<and> \<not> o_Reverted (q_History q ! ar_OutcomeIdx req) \<and>
            o_Answer (q_History q ! ar_OutcomeIdx req) = ''no'' \<and> \<not> appealDecided (new_appeal h req) \<and>
            ''A'' \<in> set (a_Pending (new_appeal h req)))))"
    by code_simp
  then obtain g h a q req rest where g: "played two_questions DefaultRules appeals_queued = Some g"
    "dispatch ?cmd (begin_cmd ?cmd g) = Go h JAppealFinish" and
    h: "st_Appeal h = Some a" "\<not> appeal_accepted a" "st_Question h = Some q" "q_AppealQueue q = req # rest"
      "ar_OutcomeIdx req < length (q_History q)" "\<not> o_Reverted (q_History q ! ar_OutcomeIdx req)"
      "\<not> appealDecided (new_appeal h req)" "''A'' \<in> set (a_Pending (new_appeal h req))"
    and q: "q_Sub q = SubButtonWait" "q_Rights q = [''yes'']" "ar_Kind req = AppealFor" "ar_AnswererID req = ''C''"
      "o_Answer (q_History q ! ar_OutcomeIdx req) = ''no''"
    by (auto split: option.splits result.splits list.splits)
  from queued_appeal_tells_answers [OF h] obtain k where k: "run JAppealFinish h = Some (Halted k)"
    "map_option q_Sub (st_Question k) = Some SubButtonWait"
    "(AudiencePerson ''A'', EvAskAppealVote AppealFor ''C'' ''no'' [''yes'']) \<in> set (g_ev k)"
    unfolding q by blast
  then have "Apply ?cmd g = Some (Events (g_ev k) (k\<lparr>g_ev := []\<rparr>))" using g(2) by (simp add: Apply_def finish_def)
  with g(1) k(2,3) show ?thesis by auto
qed

end
