(* ===== verification/Room_State.thy ===== *)
theory Room_State
  imports Engine_Snapshot Buzzer_Arm Judge_Text
begin

text \<open>
  The data of a room (\<open>internal/room\<close>: \<open>room.go\<close>, \<open>session.go\<close>, \<open>messages.go\<close>, \<open>errors.go\<close>, the types of
  \<open>manager.go\<close> and \<open>persist.go\<close>). A message is a constructor with the fields of its payload struct;
  its JSON is not modelled, a payload that does not decode is \<open>InMalformed\<close>. Persons are an association
  list with the join order beside it, as in the code; a pointer to a person is its identifier (a person
  that was removed has no connection, so a stale pointer finds nothing to do). The connections the
  buzzer measures live in the store \<open>rm_conns\<close>. Everything a room does to the world outside is an
  entry of its log.
\<close>

subsection \<open>Modes, errors, constants\<close>

datatype showman_mode = ShowmanUnset | ShowmanHuman | ShowmanAI | ShowmanHybrid | ShowmanOther string

datatype join_mode = JoinAny | JoinViewersOnly | JoinClosed | JoinOther string

datatype room_status = StatusLobby | StatusPlaying | StatusFinished | StatusClosed

datatype room_error =
    ErrRoomClosed | ErrBadPassword | ErrRoomFull | ErrNameTaken | ErrJoinClosed | ErrBadRole
  | ErrInvalidHostToken | ErrBadSession | ErrPersonNotFound | ErrBanned | ErrInvalidParams
  | ErrUnsupportedBuzzerMode | ErrRoomBadState | EngineErr engine_error

datatype error_code =
  ErrCodeNotAllowed | ErrCodeBadState | ErrCodeBadArgument | ErrCodeUnknownType | ErrCodeRateLimited
| ErrCodeBadPayload

definition MaxChatLen :: nat where "MaxChatLen = 500"

definition AIShowmanID :: string where "AIShowmanID = ''ai-showman''"

definition CloseNormal :: nat where "CloseNormal = 1000"
definition CloseGoingAway :: nat where "CloseGoingAway = 1001"
definition CloseSessionReplaced :: nat where "CloseSessionReplaced = 4001"
definition CloseKicked :: nat where "CloseKicked = 4002"

definition maxArmRecords :: nat where "maxArmRecords = 200"

definition defaultMediaFallbackMs :: int where "defaultMediaFallbackMs = 60000"
definition defaultHybridConfirmMs :: int where "defaultHybridConfirmMs = 8000"

subsection \<open>Messages of clients\<close>

record answer_in =
  an_PersonID :: string
  an_Text :: string
  an_OptionLabel :: string
  an_Number :: "f64 option"
  an_Point :: "(f64 \<times> f64) option"
  an_Right :: "bool option"

record validate_in =
  vi_PersonID :: string
  vi_Right :: bool
  vi_Factor :: f64
  vi_FactorZero :: bool

record sync_msg =
  sy_Seq :: int
  sy_C1 :: f64
  sy_PrevSeq :: int
  sy_PrevC4 :: f64

record press_msg =
  pm_ArmID :: string
  pm_Seq :: int
  pm_PressLocal :: f64
  pm_LitLocal :: f64

datatype (plugins only: code) in_msg =
    InHello int
  | InSync sync_msg
  | InArmAck string f64
  | InPress press_msg
  | InMisfire string
  | InVisible
  | InChat string
  | InReady
  | InStart
  | InKick string bool
  | InSetHost string
  | InButtonReopen string
  | InSetTrust string string
  | InMediaComplete
  | InChooseQuestion int int
  | InPass
  | InAnswer answer_in
  | InAnswerDraft string
  | InValidate validate_in
  | InSelectPlayer string
  | InSetStake stake_mode int
  | InDeleteTheme int
  | InAppellate bool
  | InVoteAppeal bool
  | InMediaLoaded
  | InPause bool
  | InMove int int
  | InToggle int int
  | InChangeScore string int
  | InSetChooser string
  | InSetOptions rules_patch
  | InNext
  | InUnknown string
  | InMalformed string

subsection \<open>Public views\<close>

record person_view =
  pv_ID :: string
  pv_Name :: string
  pv_Role :: role
  pv_Connected :: bool
  pv_Score :: int
  pv_IsHost :: bool

record room_info =
  ri_ID :: string
  ri_Code :: string
  ri_Name :: string
  ri_PackID :: string
  ri_PackName :: string
  ri_Status :: room_status
  ri_Showman :: showman_mode
  ri_HasPassword :: bool
  ri_Players :: "person_view list"
  ri_Viewers :: nat
  ri_MaxPlayers :: nat
  ri_AllowViewers :: bool
  ri_Language :: string
  ri_HybridConfirmMs :: int
  ri_CreatedAt :: int
  ri_UpdatedAt :: int
  ri_Rules :: rules
  ri_Times :: time_settings
  ri_Buzzer :: settings
  ri_JoinMode :: join_mode

record session =
  se_Token :: string
  se_PersonID :: string
  se_Role :: role
  se_IsHost :: bool
  se_RoomCode :: string

record join_params =
  jp_Name :: string
  jp_Role :: role
  jp_Password :: string

text \<open>The role a request leaves out, the empty string of the code.\<close>

definition RoleUnset :: role where "RoleUnset = RoleOther []"

record settings_patch =
  sp_Rules :: "rules_patch option"
  sp_Times :: "time_settings option"
  sp_Buzzer :: "settings option"
  sp_Showman :: "showman_mode option"
  sp_JoinMode :: "join_mode option"
  sp_Name :: "string option"
  sp_Password :: "string option"

record create_params =
  cp_PackID :: string
  cp_Name :: string
  cp_Password :: string
  cp_Rules :: rules
  cp_Times :: "time_settings option"
  cp_Buzzer :: settings
  cp_Showman :: showman_mode
  cp_HybridConfirmMs :: int
  cp_MaxPlayers :: int
  cp_AllowViewers :: bool
  cp_Language :: string

subsection \<open>Messages to clients\<close>

record buzzer_snapshot =
  bn_State :: "arm_state option"
  bn_ArmID :: string
  bn_ArmAt :: f64
  bn_DeadlineAt :: f64
  bn_LockedUntil :: f64

record button_result_public =
  br_ArmID :: string
  br_WinnerID :: string
  br_Kind :: result_kind
  br_Contested :: bool
  br_MarginMs :: f64
  br_Rule :: string
  br_ReactionMs :: f64
  br_Source :: press_source

record lockout_payload =
  lo_PlayerID :: string
  lo_UntilAt :: f64
  lo_DurationMs :: int
  lo_Reason :: string

record conn_quality_entry =
  cq_PlayerID :: string
  cq_RttMs :: f64
  cq_JitterMs :: f64
  cq_UMs :: f64
  cq_Quality :: quality
  cq_Connected :: bool
  cq_Flags :: "flag list"
  cq_Trust :: "trust option"

record button_audit =
  ba_ArmID :: string
  ba_QuestionID :: string
  ba_Seed :: string
  ba_TArm :: f64
  ba_Entries :: "audit_entry list"

record ai_verdict =
  aiv_PersonID :: string
  aiv_Right :: bool
  aiv_Factor :: f64
  aiv_Uncertain :: bool
  aiv_Reason :: string
  aiv_Source :: source
  aiv_Applied :: bool

datatype (plugins only: code) out_msg =
    MsgWelcome string string role bool showman_mode f64 int settings
  | MsgSnapshot room_info "game_snapshot option" buzzer_snapshot int
  | MsgResume int nat bool
  | MsgRoomPersons "person_view list"
  | MsgRoomSettings room_info
  | MsgChat string string string int
  | MsgRoomClosed string
  | MsgSessionReplaced
  | MsgKicked bool
  | MsgError error_code int
  | MsgSyncAck int f64 f64 f64 model
  | MsgButtonArm arm_msg
  | MsgPressAck string press_ack
  | MsgPressPending string string
  | MsgButtonResult arm_result
  | MsgButtonResultPublic button_result_public
  | MsgLockout lockout_payload
  | MsgConnQuality "conn_quality_entry list"
  | MsgButtonAudit button_audit
  | MsgAIVerdict ai_verdict
  | MsgAIVerdictPublic string source
  | MsgHostChanged string
  | MsgEvent event

subsection \<open>Persons\<close>

record ring_entry =
  re_gen :: nat
  re_seq :: int
  re_msg :: "out_msg option"

record person =
  pe_ID :: string
  pe_Name :: string
  pe_Role :: role
  pe_IsHost :: bool
  pe_IsAI :: bool
  pe_tokenHash :: string
  pe_kicked :: bool
  pe_joinedAt :: int
  pe_conn :: "nat option"
  pe_gen :: nat
  pe_connected :: bool
  pe_anchored :: bool
  pe_bconn :: "nat option"
  pe_lastSeq :: int
  pe_prevLastSeq :: int
  pe_ring :: "ring_entry ring"
  pe_lastChatAt :: f64
  pe_buttonsWon :: int
  pe_lockedUntil :: f64
  pe_lockoutSent :: f64

definition newResumeRing :: "nat \<Rightarrow> ring_entry ring" where
  "newResumeRing size' = newRing \<lparr>re_gen = 0, re_seq = 0, re_msg = None\<rparr> (if size' = 0 then 1 else size')"

text \<open>A person as \<open>join\<close> makes it; all other fields are zero values.\<close>

definition new_person :: "string \<Rightarrow> string \<Rightarrow> role \<Rightarrow> bool \<Rightarrow> string \<Rightarrow> int \<Rightarrow> nat \<Rightarrow> person" where
  "new_person i name rl ai h joined ringSize =
     \<lparr>pe_ID = i, pe_Name = name, pe_Role = rl, pe_IsHost = False, pe_IsAI = ai, pe_tokenHash = h,
      pe_kicked = False, pe_joinedAt = joined, pe_conn = None, pe_gen = 0, pe_connected = False,
      pe_anchored = False, pe_bconn = None, pe_lastSeq = 0, pe_prevLastSeq = 0,
      pe_ring = newResumeRing ringSize, pe_lastChatAt = 0, pe_buttonsWon = 0, pe_lockedUntil = 0,
      pe_lockoutSent = 0\<rparr>"

definition pe_actor :: "person \<Rightarrow> actor" where
  "pe_actor p = \<lparr>ac_PersonID = pe_ID p, ac_Role = pe_Role p, ac_IsHost = pe_IsHost p\<rparr>"

definition systemActor :: actor where
  "systemActor = \<lparr>ac_PersonID = [], ac_Role = RoleSystem, ac_IsHost = False\<rparr>"

definition pe_view :: "int \<Rightarrow> person \<Rightarrow> person_view" where
  "pe_view score p =
     \<lparr>pv_ID = pe_ID p, pv_Name = pe_Name p, pv_Role = pe_Role p, pv_Connected = (pe_connected p \<or> pe_IsAI p),
      pv_Score = score, pv_IsHost = pe_IsHost p\<rparr>"

text \<open>The buffered envelopes, oldest first.\<close>

definition entries :: "ring_entry ring \<Rightarrow> ring_entry list" where
  "entries r =
     (let size' = length (r_buf r); start = (r_head r + size' - r_n r) mod size'
      in map (\<lambda>i. r_buf r ! ((start + i) mod size')) [0..<r_n r])"

definition replayable :: "out_msg \<Rightarrow> bool" where
  "replayable m = (case m of
       MsgChat _ _ _ _ \<Rightarrow> True | MsgLockout _ \<Rightarrow> True
     | MsgEvent e \<Rightarrow> IsTimer e
     | _ \<Rightarrow> False)"

subsection \<open>The room\<close>

record room_arm =
  ra_arm :: arm
  ra_gen :: nat
  ra_questionID :: string
  ra_sends :: "(f64 \<times> arm_plan) list"
  ra_deadline :: "f64 option"
  ra_msgs :: "(string \<times> arm_msg) list"
  ra_rearm :: bool

record arm_record =
  rc_ArmID :: string
  rc_QuestionID :: string
  rc_TArm :: f64
  rc_Result :: arm_result
  rc_Audit :: "audit_entry list"
  rc_ResolvedAt :: int

record stored_settings =
  sd_Name :: string
  sd_HasPassword :: bool
  sd_Rules :: rules
  sd_Times :: time_settings
  sd_Buzzer :: settings
  sd_Showman :: showman_mode
  sd_HybridConfirmMs :: int
  sd_MaxPlayers :: nat
  sd_AllowViewers :: bool
  sd_Language :: string
  sd_JoinMode :: join_mode

record game_result =
  gr_RoomCode :: string
  gr_RoomName :: string
  gr_PackID :: string
  gr_PackName :: string
  gr_Showman :: showman_mode
  gr_Players :: "person_view list"
  gr_Scores :: "score_entry list"
  gr_WinnerID :: string
  gr_WinnerName :: string
  gr_QuestionsPlayed :: int
  gr_Statistics :: "player_stats list"
  gr_Rules :: rules
  gr_Times :: time_settings
  gr_Buzzer :: settings
  gr_StartedAt :: int
  gr_FinishedAt :: int

text \<open>
  What a room does to the outside. \<open>Sent\<close> keeps who the receiver was: identifier, role, host, socket.
\<close>

datatype (plugins only: code) effect =
    Sent string role bool nat out_msg
  | ClosedSocket nat nat
  | AnchorsStarted string nat
  | SavedRoom string stored_settings room_status int
  | SavedResult string game_result
  | Judging ask_validate request
  | RemovedRoom string

text \<open>
  What a room uses and does not define. \<open>ev_send s n\<close> is the sequence number the \<open>n\<close>-th message on the socket
  \<open>s\<close> got, \<open>None\<close> an error; \<open>ev_id\<close>, \<open>ev_token\<close>, \<open>ev_seed\<close>, \<open>ev_pick\<close> and \<open>ev_rng\<close> are the draws of the random
  sources, by the number of earlier draws; \<open>ev_media\<close> is the duration the media store knows, \<open>ev_db\<close> tells
  whether there is a database.
\<close>

record room_env =
  ev_text :: text_lib
  ev_lib :: golib
  ev_buzz :: buzz_lib
  ev_hash :: "string \<Rightarrow> string"
  ev_send :: "nat \<Rightarrow> nat \<Rightarrow> int option"
  ev_id :: "nat \<Rightarrow> string"
  ev_token :: "nat \<Rightarrow> string"
  ev_seed :: "nat \<Rightarrow> byte list"
  ev_pick :: "nat \<Rightarrow> nat \<Rightarrow> nat"
  ev_rng :: "nat \<Rightarrow> nat list \<Rightarrow> nat \<Rightarrow> nat"
  ev_media :: "string \<Rightarrow> int option"
  ev_db :: bool
  ev_MaxPlayers :: nat
  ev_MediaFallbackMaxMs :: int
  ev_ConnQualityEveryMs :: int
  ev_ResumeBufferSize :: nat
  ev_AIShowmanName :: string
  ev_FuzzyUncertainAsWrong :: bool

text \<open>
  The room: the fields of the struct, the clock (\<open>rm_mono\<close> and \<open>rm_wall\<close> are what its readings return while one
  message is handled), the numbers of draws and of messages sent on each socket, and the log. A
  runtime timer is the delay it was started with; it is gone when it was stopped.
\<close>

record room =
  rm_id :: string
  rm_code :: string
  rm_createdAt :: int
  rm_updatedAt :: int
  rm_startedAt :: int
  rm_name :: string
  rm_password :: string
  rm_hostHash :: string
  rm_packID :: string
  rm_pack :: pack
  rm_rules :: rules
  rm_times :: time_settings
  rm_bz :: settings
  rm_showman :: showman_mode
  rm_hybridConfirmMs :: int
  rm_maxPlayers :: nat
  rm_allowViewers :: bool
  rm_language :: string
  rm_joinMode :: join_mode
  rm_status :: room_status
  rm_persons :: "(string \<times> person) list"
  rm_order :: "string list"
  rm_bannedNames :: "(string \<times> bool) list"
  rm_bannedIDs :: "(string \<times> string) list"
  rm_game :: "game option"
  rm_followUps :: "command list"
  rm_dispatchDepth :: nat
  rm_timers :: "(string \<times> int) list"
  rm_arm :: "room_arm option"
  rm_armGen :: nat
  rm_lastWinnerSeat :: "nat option"
  rm_records :: "arm_record list"
  rm_hybridTimer :: "int option"
  rm_hybridKey :: string
  rm_qualityTimer :: "int option"
  rm_closing :: bool
  rm_lastActivity :: int
  rm_info :: room_info
  rm_armActive :: bool
  rm_conns :: conns
  rm_nextConn :: nat
  rm_mono :: f64
  rm_wall :: int
  rm_draws :: nat
  rm_sends :: "nat \<Rightarrow> nat"
  rm_log :: "effect list"

text \<open>
  A function that calls the engine returns a value, or panics with the engine (and the room as it
  was then), or never returns.
\<close>

type_synonym 'a outcome = "('a + room) option"

definition returns :: "'a \<Rightarrow> 'a outcome" where
  "returns a = Some (Inl a)"

definition panics :: "room \<Rightarrow> 'a outcome" where
  "panics r = Some (Inr r)"

definition and_then :: "'a outcome \<Rightarrow> ('a \<Rightarrow> 'b outcome) \<Rightarrow> 'b outcome" where
  "and_then m f = (case m of None \<Rightarrow> None | Some (Inl a) \<Rightarrow> f a | Some (Inr r) \<Rightarrow> Some (Inr r))"

lemma and_then_simps [simp]:
  "and_then (returns a) f = f a" "and_then (panics r) f = panics r" "and_then None f = None"
  by (simp_all add: and_then_def returns_def panics_def)

end
