(* ===== verification/Room_Core.thy ===== *)
theory Room_Core
  imports Room_State
begin

text \<open>
  Persons, views, sending, storing and the engine's timers as timers of the runtime (\<open>room.go\<close>,
  \<open>session.go\<close>, \<open>persist.go\<close>, \<open>timers.go\<close>): the functions of a room that never call the engine.
\<close>

subsection \<open>The clock and persons\<close>

definition monoInt :: "room \<Rightarrow> int" where
  "monoInt r = go_int (rm_mono r)"

definition touch :: "room \<Rightarrow> room" where
  "touch r = r\<lparr>rm_lastActivity := rm_wall r\<rparr>"

definition person_of :: "room \<Rightarrow> string \<Rightarrow> person option" where
  "person_of r i = map_of (rm_persons r) i"

text \<open>A write through a person pointer.\<close>

definition upd_person :: "string \<Rightarrow> (person \<Rightarrow> person) \<Rightarrow> room \<Rightarrow> room" where
  "upd_person i f r = r\<lparr>rm_persons := map (\<lambda>(k, p). (k, if k = i then f p else p)) (rm_persons r)\<rparr>"

text \<open>The persons in join order, as the loops over \<open>r.order\<close> see them.\<close>

definition ordered_persons :: "room \<Rightarrow> person list" where
  "ordered_persons r = List.map_filter (person_of r) (rm_order r)"

definition addPerson :: "person \<Rightarrow> room \<Rightarrow> room" where
  "addPerson p r = r\<lparr>rm_persons := mput (pe_ID p) p (rm_persons r), rm_order := rm_order r @ [pe_ID p]\<rparr>"

fun remove_first :: "string \<Rightarrow> string list \<Rightarrow> string list" where
  "remove_first i [] = []"
| "remove_first i (k # ks) = (if k = i then ks else k # remove_first i ks)"

definition removePerson :: "string \<Rightarrow> room \<Rightarrow> room" where
  "removePerson i r = r\<lparr>rm_persons := mdel i (rm_persons r), rm_order := remove_first i (rm_order r)\<rparr>"

text \<open>The loop of the code runs over a map; token hashes of different persons differ.\<close>

definition personByToken :: "room_env \<Rightarrow> string \<Rightarrow> room \<Rightarrow> string option" where
  "personByToken ev token r =
     map_option fst (List.find (\<lambda>(k, p). pe_tokenHash p = ev_hash ev token) (rm_persons r))"

definition hostPerson :: "room \<Rightarrow> person option" where
  "hostPerson r = List.find pe_IsHost (ordered_persons r)"

definition humanShowman :: "room \<Rightarrow> person option" where
  "humanShowman r = List.find (\<lambda>p. pe_Role p = RoleShowman \<and> \<not> pe_IsAI p) (ordered_persons r)"

definition countRole :: "role \<Rightarrow> room \<Rightarrow> nat" where
  "countRole rl r = length (filter (\<lambda>p. pe_Role p = rl \<and> \<not> pe_IsAI p) (ordered_persons r))"

definition isStaff :: "person \<Rightarrow> bool" where
  "isStaff p \<longleftrightarrow> pe_Role p = RoleShowman \<or> pe_IsHost p"

definition isShowmanRole :: "person \<Rightarrow> bool" where
  "isShowmanRole p \<longleftrightarrow> pe_Role p = RoleShowman"

definition gamePlayer :: "room \<Rightarrow> string \<Rightarrow> player option" where
  "gamePlayer r i = (case rm_game r of None \<Rightarrow> None | Some g \<Rightarrow> player g i)"

subsection \<open>Public information\<close>

definition score_of :: "room \<Rightarrow> string \<Rightarrow> int" where
  "score_of r i =
     (case rm_game r of
        None \<Rightarrow> 0
      | Some g \<Rightarrow> (case map_of (rev (map (\<lambda>p. (p_ID p, p_Score p)) (st_Players g))) i of None \<Rightarrow> 0 | Some s \<Rightarrow> s))"

definition personViews :: "room \<Rightarrow> person_view list" where
  "personViews r = map (\<lambda>p. pe_view (score_of r (pe_ID p)) p) (ordered_persons r)"

definition buildInfo :: "room \<Rightarrow> room_info" where
  "buildInfo r =
     \<lparr>ri_ID = rm_id r, ri_Code = rm_code r, ri_Name = rm_name r, ri_PackID = rm_packID r,
      ri_PackName = pk_Name (rm_pack r), ri_Status = rm_status r, ri_Showman = rm_showman r,
      ri_HasPassword = (rm_password r \<noteq> []), ri_Players = personViews r,
      ri_Viewers = length (filter (\<lambda>v. pv_Role v = RoleViewer) (personViews r)),
      ri_MaxPlayers = rm_maxPlayers r, ri_AllowViewers = rm_allowViewers r, ri_Language = rm_language r,
      ri_HybridConfirmMs = rm_hybridConfirmMs r, ri_CreatedAt = rm_createdAt r, ri_UpdatedAt = rm_updatedAt r,
      ri_Rules = rm_rules r, ri_Times = rm_times r, ri_Buzzer = rm_bz r, ri_JoinMode = rm_joinMode r\<rparr>"

definition publishInfo :: "room \<Rightarrow> room" where
  "publishInfo r = r\<lparr>rm_info := buildInfo r\<rparr>"

subsection \<open>Sending\<close>

definition log_effect :: "effect \<Rightarrow> room \<Rightarrow> room" where
  "log_effect x r = r\<lparr>rm_log := rm_log r @ [x]\<rparr>"

text \<open>
  \<open>sendRaw\<close>: nothing happens without a connection; a message the socket takes is recorded in the
  person's resume ring.
\<close>

definition sendRaw :: "room_env \<Rightarrow> string \<Rightarrow> out_msg \<Rightarrow> room \<Rightarrow> room" where
  "sendRaw ev i m r =
     (case person_of r i of
        None \<Rightarrow> r
      | Some p \<Rightarrow> (case pe_conn p of
            None \<Rightarrow> r
          | Some s \<Rightarrow>
              let n = rm_sends r s; r = r\<lparr>rm_sends := (rm_sends r)(s := Suc n)\<rparr>
              in case ev_send ev s n of
                   None \<Rightarrow> r
                 | Some seq \<Rightarrow>
                     log_effect (Sent i (pe_Role p) (pe_IsHost p) s m)
                       (upd_person i (\<lambda>p. p\<lparr>pe_lastSeq := seq,
                          pe_ring := ring_push \<lparr>re_gen = pe_gen p, re_seq = seq, re_msg = Some m\<rparr> (pe_ring p)\<rparr>) r)))"

definition broadcastRaw :: "room_env \<Rightarrow> out_msg \<Rightarrow> (person \<Rightarrow> bool) \<Rightarrow> room \<Rightarrow> room" where
  "broadcastRaw ev m to r =
     fold (\<lambda>i r. case person_of r i of
              None \<Rightarrow> r
            | Some p \<Rightarrow> if pe_conn p = None \<or> \<not> to p then r else sendRaw ev i m r) (rm_order r) r"

definition broadcast :: "room_env \<Rightarrow> out_msg \<Rightarrow> room \<Rightarrow> room" where
  "broadcast ev m = broadcastRaw ev m (\<lambda>p. True)"

definition broadcastPersons :: "room_env \<Rightarrow> room \<Rightarrow> room" where
  "broadcastPersons ev r = broadcast ev (MsgRoomPersons (personViews r)) r"

definition sendError :: "room_env \<Rightarrow> string \<Rightarrow> error_code \<Rightarrow> int \<Rightarrow> room \<Rightarrow> room" where
  "sendError ev i c ref r = sendRaw ev i (MsgError c ref) r"

definition sendWelcome :: "room_env \<Rightarrow> string \<Rightarrow> room \<Rightarrow> room" where
  "sendWelcome ev i r =
     (case person_of r i of
        None \<Rightarrow> r
      | Some p \<Rightarrow>
          sendRaw ev i (MsgWelcome (pe_ID p) (pe_Name p) (pe_Role p) (pe_IsHost p) (rm_showman r) (rm_mono r)
            (rm_wall r) (rm_bz r)) r)"

text \<open>\<open>forward\<close> sends an event to its audience. Events for the room alone never get here.\<close>

definition forward :: "room_env \<Rightarrow> audience \<Rightarrow> event \<Rightarrow> room \<Rightarrow> room" where
  "forward ev aud e r =
     (case aud of
        AudienceAll \<Rightarrow> broadcast ev (MsgEvent e) r
      | AudienceRole rl \<Rightarrow> broadcastRaw ev (MsgEvent e) (\<lambda>p. pe_Role p = rl) r
      | AudiencePerson i \<Rightarrow> sendRaw ev i (MsgEvent e) r
      | AudienceExcept i \<Rightarrow> broadcastRaw ev (MsgEvent e) (\<lambda>p. pe_ID p \<noteq> i) r
      | AudienceRoom \<Rightarrow> r)"

definition engineErrorCode :: "room_error \<Rightarrow> error_code" where
  "engineErrorCode e =
     (case e of
        EngineErr ErrNotAllowed \<Rightarrow> ErrCodeNotAllowed
      | EngineErr ErrBadState \<Rightarrow> ErrCodeBadState
      | ErrRoomBadState \<Rightarrow> ErrCodeBadState
      | EngineErr ErrBadArgument \<Rightarrow> ErrCodeBadArgument
      | ErrInvalidParams \<Rightarrow> ErrCodeBadArgument
      | ErrPersonNotFound \<Rightarrow> ErrCodeBadArgument
      | _ \<Rightarrow> ErrCodeBadState)"

subsection \<open>Storing\<close>

definition settingsDoc :: "room \<Rightarrow> stored_settings" where
  "settingsDoc r =
     \<lparr>sd_Name = rm_name r, sd_HasPassword = (rm_password r \<noteq> []), sd_Rules = rm_rules r, sd_Times = rm_times r,
      sd_Buzzer = rm_bz r, sd_Showman = rm_showman r, sd_HybridConfirmMs = rm_hybridConfirmMs r,
      sd_MaxPlayers = rm_maxPlayers r, sd_AllowViewers = rm_allowViewers r, sd_Language = rm_language r,
      sd_JoinMode = rm_joinMode r\<rparr>"

definition persistRoom :: "room_env \<Rightarrow> room \<Rightarrow> room" where
  "persistRoom ev r =
     (if \<not> ev_db ev then r
      else log_effect (SavedRoom (rm_name r) (settingsDoc r) (rm_status r) (rm_updatedAt r)) r)"

definition persistResult :: "room_env \<Rightarrow> score_entry list \<Rightarrow> string \<Rightarrow> int \<Rightarrow> player_stats list \<Rightarrow> room \<Rightarrow> room" where
  "persistResult ev scs winner questions stats r =
     (if \<not> ev_db ev then r
      else
        let doc = \<lparr>gr_RoomCode = rm_code r, gr_RoomName = rm_name r, gr_PackID = rm_packID r,
                   gr_PackName = pk_Name (rm_pack r), gr_Showman = rm_showman r, gr_Players = personViews r,
                   gr_Scores = scs, gr_WinnerID = winner,
                   gr_WinnerName = (case person_of r winner of None \<Rightarrow> [] | Some w \<Rightarrow> pe_Name w),
                   gr_QuestionsPlayed = questions, gr_Statistics = stats, gr_Rules = rm_rules r,
                   gr_Times = rm_times r, gr_Buzzer = rm_bz r, gr_StartedAt = rm_startedAt r,
                   gr_FinishedAt = rm_wall r\<rparr>
        in log_effect (SavedResult (ev_id ev (rm_draws r)) doc) (r\<lparr>rm_draws := Suc (rm_draws r)\<rparr>))"

subsection \<open>Timers\<close>

definition stop_timer :: "string \<Rightarrow> room \<Rightarrow> room" where
  "stop_timer i r = r\<lparr>rm_timers := mdel i (rm_timers r)\<rparr>"

definition scheduleTimer :: "string \<Rightarrow> int \<Rightarrow> room \<Rightarrow> room" where
  "scheduleTimer i ms r =
     (let r = stop_timer i r in r\<lparr>rm_timers := mput i (if ms < 0 then 0 else ms) (rm_timers r)\<rparr>)"

text \<open>The durations the media store knows of the current content group, in order; the items without one are skipped.\<close>

definition group_media :: "room_env \<Rightarrow> room \<Rightarrow> int list" where
  "group_media ev r =
     (case rm_game r of
        None \<Rightarrow> []
      | Some g \<Rightarrow> (case st_Question g of
            None \<Rightarrow> []
          | Some q \<Rightarrow>
              if length (q_Groups q) \<le> q_Cursor q then []
              else List.map_filter (\<lambda>it.
                     if ci_MediaID it = [] then None
                     else case ev_media ev (ci_MediaID it) of
                            None \<Rightarrow> None
                          | Some d \<Rightarrow> if d \<le> 0 then None else Some d)
                     (cg_Items (q_Groups q ! q_Cursor q))))"

definition mediaFallbackMs :: "room_env \<Rightarrow> int \<Rightarrow> room \<Rightarrow> int" where
  "mediaFallbackMs ev known r =
     (let ds = group_media ev r; best = fold max ds known;
          best = (if ds = [] \<and> best \<le> 0 then ev_MediaFallbackMaxMs ev else best)
      in if best \<le> 0 then defaultMediaFallbackMs else best)"

definition handleTimerEvent :: "room_env \<Rightarrow> event \<Rightarrow> room \<Rightarrow> event \<times> room" where
  "handleTimerEvent ev e r =
     (case e of
        EvTimerStart i k d pid \<Rightarrow>
          let d = (if k = TimerMediaFallback then mediaFallbackMs ev d r else d)
          in (EvTimerStart i k d pid, scheduleTimer i d r)
      | EvTimerStop i \<Rightarrow> (e, stop_timer i r)
      | EvTimerPause i k d \<Rightarrow> (e, stop_timer i r)
      | EvTimerResume i k d \<Rightarrow> (e, scheduleTimer i d r)
      | _ \<Rightarrow> (e, r))"

end
