(* ===== verification/Room_Buzzer.thy ===== *)
theory Room_Buzzer
  imports Room_Core
begin

text \<open>
  The room around a buzzer arm (\<open>internal/room/buzzer.go\<close>): who takes part, the plan of the light, presses,
  misfires, lockouts, the buzz log and the quality report. What reports a decision to the engine is
  in \<open>Room_Game\<close>. A runtime timer of the arm is its delay: \<open>ra_sends\<close> for the lights, \<open>ra_deadline\<close> for the next
  deadline.
\<close>

subsection \<open>Who takes part\<close>

definition engineEligible :: "room \<Rightarrow> string list" where
  "engineEligible r =
     (case rm_game r of
        None \<Rightarrow> []
      | Some g \<Rightarrow> map p_ID (filter (\<lambda>p. p_Active p \<and> p_CanPress p) (st_Players g)))"

definition bconn_of :: "room \<Rightarrow> person \<Rightarrow> conn option" where
  "bconn_of r p = map_option (rm_conns r) (pe_bconn p)"

definition lockedUntil :: "room \<Rightarrow> person \<Rightarrow> f64" where
  "lockedUntil r p =
     (case bconn_of r p of
        None \<Rightarrow> pe_lockedUntil p
      | Some c \<Rightarrow> if pe_lockedUntil p < cn_lockedUntil c then cn_lockedUntil c else pe_lockedUntil p)"

definition buzzerPlayers :: "string list \<Rightarrow> room \<Rightarrow> bz_player list" where
  "buzzerPlayers eligible r =
     (case rm_game r of
        None \<Rightarrow> []
      | Some g \<Rightarrow>
          List.map_filter (\<lambda>(k, gp).
            case person_of r (p_ID gp) of
              None \<Rightarrow> None
            | Some p \<Rightarrow>
                if p_Kicked gp then None
                else Some \<lparr>pl_ID = p_ID gp, pl_Score = p_Score gp, pl_ButtonsWon = pe_buttonsWon p,
                       pl_Conn = pe_bconn p,
                       pl_Eligible = (pe_connected p \<and> pe_bconn p \<noteq> None \<and> p_ID gp \<in> set eligible \<and>
                         lockedUntil r p \<le> rm_mono r),
                       pl_Seat = int k\<rparr>)
            (enumerate 0 (st_Players g)))"

subsection \<open>Arms\<close>

definition upd_arm :: "(room_arm \<Rightarrow> room_arm) \<Rightarrow> room \<Rightarrow> room" where
  "upd_arm f r = r\<lparr>rm_arm := map_option f (rm_arm r)\<rparr>"

text \<open>An operation of the arm that also writes to the measured connections.\<close>

definition arm_and_conns :: "room_arm \<Rightarrow> arm \<times> conns \<Rightarrow> room \<Rightarrow> room" where
  "arm_and_conns st x r = r\<lparr>rm_arm := Some (st\<lparr>ra_arm := fst x\<rparr>), rm_conns := snd x\<rparr>"

definition scheduleResolve :: "room \<Rightarrow> room" where
  "scheduleResolve r =
     upd_arm (\<lambda>st. st\<lparr>ra_deadline :=
       map_option (\<lambda>t. max 0 (f64_sub t (rm_mono r))) (NextDeadline (ra_arm st))\<rparr>) r"

definition SetEligible_arm :: "string \<Rightarrow> room \<Rightarrow> room" where
  "SetEligible_arm i r =
     upd_arm (\<lambda>st. st\<lparr>ra_arm := SetEligible i False (rm_mono r) (rm_conns r) (ra_arm st)\<rparr>) r"

definition stopArmTimers :: "room_arm \<Rightarrow> room_arm" where
  "stopArmTimers st = st\<lparr>ra_sends := [], ra_deadline := None\<rparr>"

definition recordArm :: "room_env \<Rightarrow> room_arm \<Rightarrow> arm_result \<Rightarrow> room \<Rightarrow> room" where
  "recordArm ev st res r =
     (let audit = ar_audit (ra_arm st);
          rec = \<lparr>rc_ArmID = rs_ArmID res, rc_QuestionID = ra_questionID st, rc_TArm = ar_tArm (ra_arm st),
                 rc_Result = res, rc_Audit = audit, rc_ResolvedAt = rm_wall r\<rparr>;
          recs = rm_records r @ [rec];
          r = r\<lparr>rm_records := (if maxArmRecords < length recs then drop (length recs - maxArmRecords) recs else recs)\<rparr>
      in case hostPerson r of
           None \<Rightarrow> r
         | Some h \<Rightarrow>
             sendRaw ev (pe_ID h) (MsgButtonAudit \<lparr>ba_ArmID = rs_ArmID res, ba_QuestionID = ra_questionID st,
               ba_Seed = rs_Seed res, ba_TArm = ar_tArm (ra_arm st), ba_Entries = audit\<rparr>) r)"

definition cancelArm :: "room_env \<Rightarrow> string \<Rightarrow> room \<Rightarrow> room" where
  "cancelArm ev reason r =
     (case rm_arm r of
        None \<Rightarrow> r
      | Some st \<Rightarrow>
          let st = stopArmTimers st; r = r\<lparr>rm_arm := None, rm_armActive := False\<rparr>;
              st = st\<lparr>ra_arm := Disarm (rm_mono r) reason (ra_arm st)\<rparr>
          in if ar_audit (ra_arm st) = [] then r
             else
               let (res, a) = ForceResolve (ev_buzz ev) (rm_mono r) (ra_arm st)
               in recordArm ev (st\<lparr>ra_arm := a\<rparr>) res r)"

definition startArm :: "room_env \<Rightarrow> string \<Rightarrow> string list \<Rightarrow> bool \<Rightarrow> room \<Rightarrow> room" where
  "startArm ev questionID eligible again r =
     (let r = cancelArm ev ''rearm'' r; now = rm_mono r;
          (a, cs) = NewArm (ev_buzz ev) now now (buzzerPlayers eligible r) (rm_bz r) (ev_seed ev (rm_draws r)) (rm_conns r);
          a = (case rm_lastWinnerSeat r of None \<Rightarrow> a | Some ws \<Rightarrow> SetRotateAfter (int ws) a);
          st = \<lparr>ra_arm = a, ra_gen = Suc (rm_armGen r), ra_questionID = questionID,
                ra_sends = map (\<lambda>pl. (max 0 (f64_sub (apl_SendAt pl) now), pl)) (ar_plans a),
                ra_deadline = None,
                ra_msgs = fold (\<lambda>pl m. mput (apl_PlayerID pl) (apl_Msg pl) m) (ar_plans a) [],
                ra_rearm = again\<rparr>
      in scheduleResolve (r\<lparr>rm_arm := Some st, rm_armGen := Suc (rm_armGen r), rm_armActive := True,
           rm_conns := cs, rm_draws := Suc (rm_draws r)\<rparr>))"

definition onArmSend :: "room_env \<Rightarrow> nat \<Rightarrow> arm_plan \<Rightarrow> room \<Rightarrow> room" where
  "onArmSend ev gen plan r =
     (case rm_arm r of
        None \<Rightarrow> r
      | Some st \<Rightarrow>
          if ra_gen st \<noteq> gen then r
          else case person_of r (apl_PlayerID plan) of
              None \<Rightarrow> r
            | Some p \<Rightarrow>
                if pe_conn p = None then r
                else upd_arm (\<lambda>st. st\<lparr>ra_arm := OnSent (apl_PlayerID plan) (rm_mono r) (ra_arm st)\<rparr>)
                       (sendRaw ev (apl_PlayerID plan) (MsgButtonArm (apl_Msg plan)) r))"

subsection \<open>Presses and lockouts\<close>

definition pressIsMisfire :: "room \<Rightarrow> bool" where
  "pressIsMisfire r =
     (case rm_game r of
        None \<Rightarrow> False
      | Some g \<Rightarrow> (case st_Question g of
            None \<Rightarrow> False
          | Some q \<Rightarrow> st_Stage g = StageQuestion \<and> q_Button q \<and> \<not> q_Armed q \<and>
              (q_Sub q = SubContent \<or> q_Sub q = SubButtonWait)))"

definition roomLockout :: "string \<Rightarrow> f64 \<Rightarrow> room \<Rightarrow> f64 \<times> room" where
  "roomLockout i now r =
     (let dur = (case rm_game r of None \<Rightarrow> tm_ButtonBlockingMs (rm_times r)
                 | Some g \<Rightarrow> tm_ButtonBlockingMs (st_Times g));
          dur = (if dur \<le> 0 then 3000 else dur); until = f64_add now (f64_of_int dur)
      in case person_of r i of
           None \<Rightarrow> (until, r)
         | Some p \<Rightarrow>
             let locked = (if pe_lockedUntil p < until then until else pe_lockedUntil p)
             in (locked, upd_person i (\<lambda>p. p\<lparr>pe_lockedUntil := locked\<rparr>) r))"

definition announceLockout :: "room_env \<Rightarrow> string \<Rightarrow> f64 \<Rightarrow> f64 \<Rightarrow> string \<Rightarrow> room \<Rightarrow> room" where
  "announceLockout ev i until now reason r =
     (case person_of r i of
        None \<Rightarrow> r
      | Some p \<Rightarrow>
          if until \<le> f64_add (pe_lockoutSent p) 1 then r
          else broadcast ev (MsgLockout \<lparr>lo_PlayerID = i, lo_UntilAt = until,
                 lo_DurationMs = go_int (f64_sub until now), lo_Reason = reason\<rparr>)
                 (upd_person i (\<lambda>p. p\<lparr>pe_lockoutSent := until\<rparr>) r))"

definition stale_ack :: press_ack where
  "stale_ack = (ack_of StatusStale)\<lparr>pa_Reason := ''noArm''\<rparr>"

definition press_without_arm :: "room_env \<Rightarrow> string \<Rightarrow> press_msg \<Rightarrow> f64 \<Rightarrow> room \<Rightarrow> room" where
  "press_without_arm ev i inp tRecv r =
     (let (ack, r) =
            (if rm_arm r = None \<and> pressIsMisfire r then
               let (until, r) = roomLockout i tRecv r
               in ((ack_of StatusFalseStart)\<lparr>pa_Reason := ''misfire'', pa_LockoutUntil := until\<rparr>,
                   announceLockout ev i until tRecv ''misfire'' r)
             else (stale_ack, r))
      in sendRaw ev i (MsgPressAck (pm_ArmID inp) ack) r)"

definition lockout_reason :: "press_status \<Rightarrow> string" where
  "lockout_reason s = (if s = StatusFalseStart then ''falseStart'' else ''tooEarly'')"

definition lockout_told :: "room_env \<Rightarrow> string \<Rightarrow> press_ack \<Rightarrow> f64 \<Rightarrow> room \<Rightarrow> room" where
  "lockout_told ev i ack tRecv r =
     broadcast ev (MsgLockout \<lparr>lo_PlayerID = i, lo_UntilAt = pa_LockoutUntil ack,
       lo_DurationMs = go_int (f64_sub (pa_LockoutUntil ack) tRecv), lo_Reason = lockout_reason (pa_Status ack)\<rparr>) r"

definition onPress_room :: "room_env \<Rightarrow> string \<Rightarrow> press_msg \<Rightarrow> f64 \<Rightarrow> room \<Rightarrow> room" where
  "onPress_room ev i inp tRecv r =
     (case rm_arm r of
        None \<Rightarrow> press_without_arm ev i inp tRecv r
      | Some st \<Rightarrow>
          if pm_ArmID inp \<noteq> ar_id (ra_arm st) then press_without_arm ev i inp tRecv r
          else
            let (ack, x) = OnPress \<lparr>pi_PlayerID = i, pi_Seq = pm_Seq inp, pi_PressLocal = pm_PressLocal inp,
                             pi_LitLocal = pm_LitLocal inp\<rparr> tRecv (ra_arm st, rm_conns r);
                r = sendRaw ev i (MsgPressAck (pm_ArmID inp) ack) (arm_and_conns st x r);
                r = (case pa_Status ack of
                       StatusPending \<Rightarrow> broadcast ev (MsgPressPending (pm_ArmID inp) i) r
                     | StatusFalseStart \<Rightarrow> lockout_told ev i ack tRecv r
                     | StatusTooEarly \<Rightarrow> lockout_told ev i ack tRecv r
                     | _ \<Rightarrow> r)
            in scheduleResolve r)"

definition onArmAck_room :: "string \<Rightarrow> string \<Rightarrow> f64 \<Rightarrow> room \<Rightarrow> room" where
  "onArmAck_room i aid tRecv r =
     (case rm_arm r of
        None \<Rightarrow> r
      | Some st \<Rightarrow>
          if aid \<noteq> ar_id (ra_arm st) then r
          else arm_and_conns st (OnArmAck i tRecv (ra_arm st, rm_conns r)) r)"

definition onMisfire_room :: "room_env \<Rightarrow> string \<Rightarrow> string \<Rightarrow> f64 \<Rightarrow> room \<Rightarrow> room" where
  "onMisfire_room ev i aid now r =
     (let (until, r) =
            (case rm_arm r of
               None \<Rightarrow> (0, r)
             | Some st \<Rightarrow>
                 if aid = [] \<or> aid = ar_id (ra_arm st) then
                   let (until, x) = OnMisfire i now (ra_arm st, rm_conns r); r = arm_and_conns st x r
                   in (until, if ar_state (fst x) = StateCollecting then scheduleResolve r else r)
                 else (0, r));
          (until, r) = (if until \<le> 0 then roomLockout i now r else (until, r))
      in announceLockout ev i until now ''misfire'' r)"

definition buzzerSnapshot :: "person \<Rightarrow> room \<Rightarrow> buzzer_snapshot" where
  "buzzerSnapshot p r =
     (case rm_arm r of
        None \<Rightarrow> \<lparr>bn_State = None, bn_ArmID = [], bn_ArmAt = 0, bn_DeadlineAt = 0, bn_LockedUntil = lockedUntil r p\<rparr>
      | Some st \<Rightarrow>
          \<lparr>bn_State = Some (ar_state (ra_arm st)), bn_ArmID = ar_id (ra_arm st), bn_ArmAt = ar_tArm (ra_arm st),
           bn_DeadlineAt = (case ra_msgs st of
               [] \<Rightarrow> f64_add (ar_tArm (ra_arm st)) (f64_of_int (bs_PressWindowMs (rm_bz r)))
             | (_, m) # _ \<Rightarrow> am_DeadlineAt m),
           bn_LockedUntil = lockedUntil r p\<rparr>)"

subsection \<open>The quality report\<close>

definition quality_entry :: "bool \<Rightarrow> bool \<Rightarrow> room \<Rightarrow> person \<Rightarrow> conn \<Rightarrow> conn_quality_entry" where
  "quality_entry staff ping r p c =
     (let m = Model (rm_mono r) c
      in \<lparr>cq_PlayerID = pe_ID p, cq_RttMs = (if ping then m_RttRefMs m else 0),
          cq_JitterMs = (if ping then m_SigmaMs m else 0), cq_UMs = (if ping then m_UMs m else 0),
          cq_Quality = m_Quality m, cq_Connected = pe_connected p,
          cq_Flags = (if staff then m_Flags m else []), cq_Trust = (if staff then Some (Trust c) else None)\<rparr>)"

definition quality_entries :: "bool \<Rightarrow> bool \<Rightarrow> room \<Rightarrow> conn_quality_entry list" where
  "quality_entries staff ping r =
     List.map_filter (\<lambda>p. if pe_Role p \<noteq> RolePlayer then None
                         else map_option (quality_entry staff ping r p) (bconn_of r p)) (ordered_persons r)"

definition broadcastConnQuality :: "room_env \<Rightarrow> room \<Rightarrow> room" where
  "broadcastConnQuality ev r =
     (if \<not> list_ex (\<lambda>p. pe_conn p \<noteq> None) (ordered_persons r) then r
      else
        let staff = quality_entries True True r; pub = quality_entries False (bs_ShowPing (rm_bz r)) r;
            r = broadcastRaw ev (MsgConnQuality staff) isStaff r
        in broadcastRaw ev (MsgConnQuality pub) (\<lambda>p. \<not> isStaff p) r)"

definition startQualityTicker :: "room_env \<Rightarrow> room \<Rightarrow> room" where
  "startQualityTicker ev r =
     r\<lparr>rm_qualityTimer := Some (if ev_ConnQualityEveryMs ev \<le> 0 then 5000 else ev_ConnQualityEveryMs ev)\<rparr>"

definition tickQuality :: "room_env \<Rightarrow> room \<Rightarrow> room" where
  "tickQuality ev r = (if rm_closing r then r else startQualityTicker ev (broadcastConnQuality ev r))"

end
