(* ===== verification/Room_Game.thy ===== *)
theory Room_Game
  imports Room_Buzzer
begin

text \<open>
  The room and the engine (\<open>room.go\<close>, \<open>judge.go\<close>, the end of \<open>buzzer.go\<close>): commands the room sends itself,
  the handling of the engine's events, automatic judging, the end of an arm, the start of a game and
  the end of a room. \<open>None\<close> would be a chain of follow-up commands that never ends, the right
  component a panic.
\<close>

subsection \<open>Commands of the room\<close>

definition command_by :: "actor \<Rightarrow> cmd_type \<Rightarrow> command" where
  "command_by a ty =
     \<lparr>cmd_Type = ty, cmd_Actor = a, cmd_AtMs = 0, cmd_Theme = 0, cmd_Q = 0, cmd_WinnerID = [],
      cmd_Nobody = False, cmd_Text = [], cmd_OptionLabel = [], cmd_Number = None, cmd_Point = None,
      cmd_Right = False, cmd_RightSet = False, cmd_Factor = 0, cmd_FactorZero = False, cmd_Source = [],
      cmd_Reason = [], cmd_PersonID = [], cmd_Name = [], cmd_StakeMode = StakeUnset, cmd_Amount = 0,
      cmd_For = False, cmd_TimerID = [], cmd_On = False, cmd_Dir = 0, cmd_Round = 0, cmd_NewSum = 0,
      cmd_Options = None\<rparr>"

definition enqueue :: "command \<Rightarrow> room \<Rightarrow> room" where
  "enqueue cmd r = r\<lparr>rm_followUps := rm_followUps r @ [cmd]\<rparr>"

subsection \<open>Requests to the judge\<close>

definition judgesAutomatically :: "room \<Rightarrow> bool" where
  "judgesAutomatically r \<longleftrightarrow> rm_showman r = ShowmanAI \<or> rm_showman r = ShowmanHybrid"

definition validationPending :: "string \<Rightarrow> string \<Rightarrow> bool \<Rightarrow> room \<Rightarrow> bool" where
  "validationPending i answer preview r =
     (case rm_game r of
        None \<Rightarrow> False
      | Some g \<Rightarrow> (case st_Question g of
            None \<Rightarrow> False
          | Some q \<Rightarrow>
              if st_Stage g \<noteq> StageQuestion then False
              else if preview then
                if \<not> q_Hidden q \<or> q_Sub q \<notin> {SubHiddenAnswering, SubStakes, SubContent} then False
                else case gamePlayer r i of
                       None \<Rightarrow> False
                     | Some gp \<Rightarrow> p_Answered gp \<and> av_Text (p_Answer gp) = answer
              else q_PendingAnswerID q = i \<and> q_PendingAnswer q = answer \<and>
                     (q_Sub q = SubValidating \<or> q_Sub q = SubAnswering)))"

definition packQuestion_room :: "room \<Rightarrow> pack_question option" where
  "packQuestion_room r =
     (case rm_game r of
        None \<Rightarrow> None
      | Some g \<Rightarrow> (case st_Question g of
            None \<Rightarrow> None
          | Some q \<Rightarrow>
              if st_RoundIndex g < 0 \<or> int (length (pk_Rounds (rm_pack r))) \<le> st_RoundIndex g then None
              else
                let rd = pk_Rounds (rm_pack r) ! nat (st_RoundIndex g)
                in if length (pr_Themes rd) \<le> q_ThemeIndex q then None
                   else
                     let th = pr_Themes rd ! q_ThemeIndex q
                     in if length (pt_Questions th) \<le> q_QuestionIndex q then None
                        else
                          let pq = pt_Questions th ! q_QuestionIndex q
                          in if pq_ID pq \<noteq> [] \<and> q_ID q \<noteq> [] \<and> pq_ID pq \<noteq> q_ID q then None else Some pq))"

primrec answer_type_name :: "answer_type \<Rightarrow> string" where
  "answer_type_name AnswerUnset = []"
| "answer_type_name AnswerText = ''text''"
| "answer_type_name AnswerSelect = ''select''"
| "answer_type_name AnswerNumber = ''number''"
| "answer_type_name AnswerPoint = ''point''"
| "answer_type_name AnswerClient = ''client''"
| "answer_type_name (AnswerOther s) = s"

fun join_lines :: "string list \<Rightarrow> string" where
  "join_lines [] = []"
| "join_lines [x] = x"
| "join_lines (x # xs) = x @ CHR 0x0A # join_lines xs"

definition question_text :: "question_state \<Rightarrow> string" where
  "question_text q =
     join_lines (map (\<lambda>it. TrimSpace (ci_Text it))
       (filter (\<lambda>it. ci_Type it = ContentText \<and> TrimSpace (ci_Text it) \<noteq> []) (concat (map cg_Items (q_Groups q)))))"

definition judgeRequest :: "string \<Rightarrow> string list \<Rightarrow> string list \<Rightarrow> room \<Rightarrow> request" where
  "judgeRequest answer rights wrongs r =
     (let req = \<lparr>rq_QuestionID = [], rq_Language = (if rm_language r = [] then pk_Language (rm_pack r) else rm_language r),
                 rq_Theme = [], rq_QuestionText = [], rq_Right = rights, rq_Wrong = wrongs, rq_AnswerType = [],
                 rq_Deviation = 0, rq_PlayerAnswer = answer, rq_ShowmanComments = []\<rparr>
      in case rm_game r of
           None \<Rightarrow> req
         | Some g \<Rightarrow> (case st_Question g of
               None \<Rightarrow> req
             | Some q \<Rightarrow>
                 let req = req\<lparr>rq_QuestionID := q_ID q, rq_Theme := q_Caption q,
                             rq_AnswerType := answer_type_name (q_AnswerType q), rq_QuestionText := question_text q\<rparr>
                 in case packQuestion_room r of
                      None \<Rightarrow> req
                    | Some pq \<Rightarrow> req\<lparr>rq_Deviation := qp_AnswerDeviation (pq_Params pq),
                                   rq_ShowmanComments := in_ShowmanComments (pq_Info pq)\<rparr>))"

text \<open>The call of the judge runs beside the room; its answer comes back as a message of its own.\<close>

definition onAskValidate :: "ask_validate \<Rightarrow> room \<Rightarrow> room" where
  "onAskValidate ask r =
     (if vl_Oral ask then r
      else log_effect (Judging ask (judgeRequest (vl_Answer ask) (vl_Rights ask) (vl_Wrongs ask) r)) r)"

text \<open>What the goroutine makes of the judge's answer: an error (its text) falls back to the fuzzy judge.\<close>

definition judge_reply :: "text_lib \<Rightarrow> request \<Rightarrow> string + verdict \<Rightarrow> verdict" where
  "judge_reply tx req reply =
     (case reply of
        Inr v \<Rightarrow> v
      | Inl err \<Rightarrow>
          let v = fuzzy_Judge tx 0 req
          in v\<lparr>vd_Source := SourceFallback, vd_Reason := ''judge unavailable ('' @ err @ ''); '' @ vd_Reason v\<rparr>)"

subsection \<open>Verdicts\<close>

definition normaliseVerdict :: "room_env \<Rightarrow> verdict \<Rightarrow> bool \<times> f64" where
  "normaliseVerdict ev v =
     (if vd_Uncertain v then (False, if ev_FuzzyUncertainAsWrong ev then 1 else 0)
      else if vd_Right v then (True, if vd_Factor v \<le> 0 \<or> 1 < vd_Factor v then 1 else vd_Factor v)
      else (False, 1))"

definition validateCmd :: "string \<Rightarrow> bool \<Rightarrow> f64 \<Rightarrow> string \<Rightarrow> command" where
  "validateCmd i right factor src =
     (command_by systemActor CmdValidate)\<lparr>cmd_PersonID := i, cmd_Right := right, cmd_Factor := factor,
       cmd_FactorZero := (\<not> right \<and> factor = 0), cmd_Source := src\<rparr>"

definition announceVerdict :: "room_env \<Rightarrow> string \<Rightarrow> bool \<Rightarrow> f64 \<Rightarrow> verdict \<Rightarrow> bool \<Rightarrow> bool \<Rightarrow> room \<Rightarrow> room" where
  "announceVerdict ev i right factor v applied preview r =
     (let r = broadcastRaw ev (MsgAIVerdict \<lparr>aiv_PersonID = i, aiv_Right = right, aiv_Factor = factor,
                aiv_Uncertain = vd_Uncertain v, aiv_Reason = vd_Reason v, aiv_Source = vd_Source v,
                aiv_Applied = applied\<rparr>) isShowmanRole r
      in if \<not> applied \<or> preview then r
         else broadcastRaw ev (MsgAIVerdictPublic i (vd_Source v)) (\<lambda>p. \<not> isShowmanRole p) r)"

definition validationKey :: "string \<Rightarrow> string \<Rightarrow> room \<Rightarrow> string" where
  "validationKey i answer r =
     (case rm_game r of
        None \<Rightarrow> []
      | Some g \<Rightarrow> (case st_Question g of None \<Rightarrow> [] | Some q \<Rightarrow> q_ID q))
     @ CHR 0x00 # i @ CHR 0x00 # answer"

definition cancelHybrid :: "room \<Rightarrow> room" where
  "cancelHybrid r = r\<lparr>rm_hybridTimer := None, rm_hybridKey := []\<rparr>"

definition onValidationTimeout_room :: "room_env \<Rightarrow> string \<Rightarrow> string \<Rightarrow> string list \<Rightarrow> string list \<Rightarrow> room \<Rightarrow> room" where
  "onValidationTimeout_room ev i answer rights wrongs r =
     (let r = cancelHybrid r;
          v = fuzzy_Judge (ev_text ev) 0 (judgeRequest answer rights wrongs r);
          (right, factor) = normaliseVerdict ev v
      in announceVerdict ev i right factor v True False (enqueue (validateCmd i right factor ''auto'') r))"

subsection \<open>Events of the engine\<close>

definition ai_selects :: "room_env \<Rightarrow> string list \<Rightarrow> room \<Rightarrow> room" where
  "ai_selects ev cands r =
     enqueue ((command_by \<lparr>ac_PersonID = AIShowmanID, ac_Role = RoleShowman, ac_IsHost = False\<rparr> CmdSelectPlayer)
        \<lparr>cmd_PersonID := cands ! ev_pick ev (rm_draws r) (length cands)\<rparr>) (r\<lparr>rm_draws := Suc (rm_draws r)\<rparr>)"

definition question_over :: "room_env \<Rightarrow> string \<Rightarrow> room \<Rightarrow> room" where
  "question_over ev reason r = cancelArm ev reason (cancelHybrid r)"

definition observe :: "room_env \<Rightarrow> event \<Rightarrow> room \<Rightarrow> room" where
  "observe ev e r =
     (case e of
        EvAskValidate ask \<Rightarrow> if judgesAutomatically r then onAskValidate ask r else r
      | EvAskSelectPlayer k cands decider t \<Rightarrow>
          if decider = AIShowmanID \<and> cands \<noteq> [] then ai_selects ev cands r else r
      | EvValidation a b c d f h \<Rightarrow> cancelHybrid r
      | EvQuestionEnd t q \<Rightarrow> question_over ev ''questionEnd'' r
      | EvRoundEnd i s \<Rightarrow> question_over ev ''questionEnd'' r
      | EvGameEnd scs winner n stats \<Rightarrow>
          let r = question_over ev ''gameEnd'' r;
              r = r\<lparr>rm_status := StatusFinished, rm_updatedAt := rm_wall r\<rparr>
          in publishInfo (persistRoom ev (persistResult ev scs winner n stats r))
      | EvPlayers ps \<Rightarrow> publishInfo r
      | EvSums ss \<Rightarrow> publishInfo r
      | EvPersonScore a b c d \<Rightarrow> publishInfo r
      | _ \<Rightarrow> r)"

definition handleInternal :: "room_env \<Rightarrow> event \<Rightarrow> room \<Rightarrow> room" where
  "handleInternal ev e r =
     (case e of
        EvButtonArmRequest qid eligible t again \<Rightarrow> startArm ev qid eligible again r
      | EvButtonDisarm s \<Rightarrow> cancelArm ev ''engine'' r
      | EvValidationTimeout i answer rights wrongs \<Rightarrow> onValidationTimeout_room ev i answer rights wrongs r
      | _ \<Rightarrow> r)"

definition dispatch_event :: "room_env \<Rightarrow> audience \<times> event \<Rightarrow> room \<Rightarrow> room" where
  "dispatch_event ev x r =
     (let (aud, e) = x; (e, r) = (if IsTimer e then handleTimerEvent ev e r else (e, r))
      in if IsRoomOnly aud then handleInternal ev e r else forward ev aud e (observe ev e r))"

definition dispatch_room :: "room_env \<Rightarrow> (audience \<times> event) list \<Rightarrow> room \<Rightarrow> room" where
  "dispatch_room ev evs r =
     (let r = fold (dispatch_event ev) evs (r\<lparr>rm_dispatchDepth := Suc (rm_dispatchDepth r)\<rparr>)
      in r\<lparr>rm_dispatchDepth := rm_dispatchDepth r - 1\<rparr>)"

text \<open>
  The loop of \<open>runFollowUps\<close>. A refused follow-up is dropped; the game of a refused command is the one
  the engine left.
\<close>

partial_function (option) runFollowUps :: "room_env \<Rightarrow> room \<Rightarrow> room outcome" where
  "runFollowUps ev r =
     (if 0 < rm_dispatchDepth r then returns r
      else case rm_followUps r of
          [] \<Rightarrow> returns r
        | cmd # rest \<Rightarrow> (case rm_game r of
              None \<Rightarrow> returns r
            | Some g \<Rightarrow> (case Apply (cmd\<lparr>cmd_AtMs := monoInt r\<rparr>) g of
                  None \<Rightarrow> None
                | Some (Panic g) \<Rightarrow> panics (r\<lparr>rm_followUps := rest, rm_game := Some g\<rparr>)
                | Some (Error e g) \<Rightarrow> runFollowUps ev (r\<lparr>rm_followUps := rest, rm_game := Some g\<rparr>)
                | Some (Events evs g) \<Rightarrow>
                    runFollowUps ev (dispatch_room ev evs (r\<lparr>rm_followUps := rest, rm_game := Some g\<rparr>)))))"

declare runFollowUps.simps [code]

definition submit :: "room_env \<Rightarrow> command \<Rightarrow> room \<Rightarrow> room outcome" where
  "submit ev cmd r =
     (let r = enqueue cmd r in if rm_dispatchDepth r = 0 then runFollowUps ev r else returns r)"

definition apply_room :: "room_env \<Rightarrow> command \<Rightarrow> room \<Rightarrow> (room_error option \<times> room) outcome" where
  "apply_room ev cmd r =
     (case rm_game r of
        None \<Rightarrow> returns (Some ErrRoomBadState, r)
      | Some g \<Rightarrow> (case Apply (cmd\<lparr>cmd_AtMs := monoInt r\<rparr>) g of
            None \<Rightarrow> None
          | Some (Panic g) \<Rightarrow> panics (r\<lparr>rm_game := Some g\<rparr>)
          | Some (Error e g) \<Rightarrow> returns (Some (EngineErr e), r\<lparr>rm_game := Some g\<rparr>)
          | Some (Events evs g) \<Rightarrow>
              and_then (runFollowUps ev (dispatch_room ev evs (r\<lparr>rm_game := Some g\<rparr>))) (\<lambda>r. returns (None, r))))"

definition onTimeout_room :: "room_env \<Rightarrow> string \<Rightarrow> room \<Rightarrow> room outcome" where
  "onTimeout_room ev i r =
     (if map_of (rm_timers r) i = None then returns r
      else
        let r = stop_timer i r
        in if rm_game r = None \<or> rm_closing r then returns r
           else and_then (apply_room ev ((command_by systemActor CmdTimeout)\<lparr>cmd_TimerID := i\<rparr>) r)
                  (\<lambda>(e, r). returns r))"

subsection \<open>The end of an arm\<close>

text \<open>The loop over the ranking keeps the last entry of the person.\<close>

definition own_reaction :: "string \<Rightarrow> arm_result \<Rightarrow> f64 \<times> press_source" where
  "own_reaction i res =
     fold (\<lambda>rk x. if rk_PlayerID rk = i then (rk_ReactionMs rk, rk_Source rk) else x) (rs_Ranking res) (0, SourceNone)"

definition public_result :: "string \<Rightarrow> arm_result \<Rightarrow> button_result_public" where
  "public_result i res =
     \<lparr>br_ArmID = rs_ArmID res, br_WinnerID = rs_WinnerID res, br_Kind = rs_Kind res, br_Contested = rs_Contested res,
      br_MarginMs = rs_MarginMs res, br_Rule = rs_Rule res, br_ReactionMs = fst (own_reaction i res),
      br_Source = snd (own_reaction i res)\<rparr>"

definition result_told :: "room_env \<Rightarrow> arm_result \<Rightarrow> room \<Rightarrow> room" where
  "result_told ev res r =
     fold (\<lambda>i r. case person_of r i of
              None \<Rightarrow> r
            | Some p \<Rightarrow> if pe_conn p = None \<or> isStaff p then r
                       else sendRaw ev i (MsgButtonResultPublic (public_result i res)) r)
       (rm_order r) (broadcastRaw ev (MsgButtonResult res) isStaff r)"

definition winner_seat :: "string \<Rightarrow> game \<Rightarrow> nat option \<Rightarrow> nat option" where
  "winner_seat i g old =
     fold (\<lambda>(k, gp) x. if p_ID gp = i then Some k else x) (enumerate 0 (st_Players g)) old"

definition finishArm :: "room_env \<Rightarrow> room_arm \<Rightarrow> arm_result \<Rightarrow> room \<Rightarrow> room outcome" where
  "finishArm ev st res r =
     (let st = stopArmTimers st;
          r = recordArm ev st res (result_told ev res (r\<lparr>rm_arm := None, rm_armActive := False\<rparr>))
      in case rm_game r of
           None \<Rightarrow> returns r
         | Some g \<Rightarrow>
             if rm_closing r then returns r
             else if rs_Kind res = KindWinner then
               let r = upd_person (rs_WinnerID res) (\<lambda>p. p\<lparr>pe_buttonsWon := pe_buttonsWon p + 1\<rparr>) r;
                   r = r\<lparr>rm_lastWinnerSeat := winner_seat (rs_WinnerID res) g (rm_lastWinnerSeat r)\<rparr>
               in submit ev ((command_by systemActor CmdButtonResult)\<lparr>cmd_WinnerID := rs_WinnerID res\<rparr>) r
             else
               if (case st_Question g of
                     None \<Rightarrow> False
                   | Some q \<Rightarrow> st_Stage g = StageQuestion \<and> q_Armed q \<and> q_Sub q = SubContent \<and> \<not> st_Paused g)
               then returns (startArm ev (ra_questionID st) (engineEligible r) True r)
               else submit ev ((command_by systemActor CmdButtonResult)\<lparr>cmd_Nobody := True\<rparr>) r)"

definition onArmResolve :: "room_env \<Rightarrow> nat \<Rightarrow> room \<Rightarrow> room outcome" where
  "onArmResolve ev gen r =
     (case rm_arm r of
        None \<Rightarrow> returns r
      | Some st \<Rightarrow>
          if ra_gen st \<noteq> gen then returns r
          else case Resolve (ev_buzz ev) (rm_mono r) (ra_arm st) of
              (None, a) \<Rightarrow> returns (scheduleResolve (r\<lparr>rm_arm := Some (st\<lparr>ra_arm := a\<rparr>)\<rparr>))
            | (Some res, a) \<Rightarrow> finishArm ev (st\<lparr>ra_arm := a\<rparr>) res (r\<lparr>rm_arm := Some (st\<lparr>ra_arm := a\<rparr>)\<rparr>))"

definition reopenButton :: "room_env \<Rightarrow> string \<Rightarrow> room \<Rightarrow> room_error option \<times> room" where
  "reopenButton ev aid r =
     (case rm_game r of
        None \<Rightarrow> (Some ErrRoomBadState, r)
      | Some g \<Rightarrow> (case st_Question g of
            None \<Rightarrow> (Some ErrRoomBadState, r)
          | Some q \<Rightarrow>
              if st_Stage g \<noteq> StageQuestion \<or> \<not> q_Armed q then (Some ErrRoomBadState, r)
              else if aid \<noteq> [] \<and> (case rm_arm r of None \<Rightarrow> True | Some st \<Rightarrow> ar_id (ra_arm st) \<noteq> aid)
              then (Some ErrInvalidParams, r)
              else
                let r = cancelArm ev ''reopen'' r
                in (None, startArm ev (q_ID q) (engineEligible r) True r)))"

subsection \<open>Verdicts of the judge\<close>

definition onAIVerdict :: "room_env \<Rightarrow> ask_validate \<Rightarrow> verdict \<Rightarrow> room \<Rightarrow> room outcome" where
  "onAIVerdict ev ask v r =
     (let i = vl_PersonID ask; (right, factor) = normaliseVerdict ev v
      in if rm_closing r \<or> \<not> validationPending i (vl_Answer ask) (vl_Preview ask) r then returns r
         else if rm_showman r = ShowmanHybrid \<and> humanShowman r \<noteq> None then
           and_then (submit ev ((command_by systemActor CmdAISuggestion)\<lparr>cmd_PersonID := i, cmd_Right := right,
                       cmd_Factor := factor, cmd_Reason := vd_Reason v\<rparr>) r)
             (\<lambda>r. let r = announceVerdict ev i right factor v False (vl_Preview ask) r
                  in if vl_Preview ask then returns r
                     else
                       let key = validationKey i (vl_Answer ask) r
                       in returns ((cancelHybrid r)\<lparr>rm_hybridKey := key, rm_hybridTimer :=
                            Some (if rm_hybridConfirmMs r \<le> 0 then defaultHybridConfirmMs else rm_hybridConfirmMs r)\<rparr>))
         else
           and_then (submit ev (validateCmd i right factor ''ai'') r)
             (\<lambda>r. returns (announceVerdict ev i right factor v True (vl_Preview ask) r)))"

text \<open>The timer of a hybrid verdict, with what its closure keeps.\<close>

definition applyHybrid :: "room_env \<Rightarrow> string \<Rightarrow> ask_validate \<Rightarrow> verdict \<Rightarrow> room \<Rightarrow> room outcome" where
  "applyHybrid ev key ask v r =
     (let i = vl_PersonID ask; (right, factor) = normaliseVerdict ev v
      in if rm_hybridKey r \<noteq> key then returns r
         else
           let r = cancelHybrid r
           in if rm_closing r \<or> \<not> validationPending i (vl_Answer ask) False r then returns r
              else and_then (submit ev (validateCmd i right factor ''ai'') r)
                     (\<lambda>r. returns (announceVerdict ev i right factor v True False r)))"

subsection \<open>Begin and end\<close>

definition connected_players :: "room \<Rightarrow> player_init list" where
  "connected_players r =
     map (\<lambda>p. \<lparr>pi_ID = pe_ID p, pi_Name = pe_Name p\<rparr>)
       (filter (\<lambda>p. pe_Role p = RolePlayer \<and> pe_connected p) (ordered_persons r))"

definition startGame :: "room_env \<Rightarrow> person \<Rightarrow> room \<Rightarrow> (room_error option \<times> room) outcome" where
  "startGame ev p r =
     (if rm_game r \<noteq> None then returns (Some ErrRoomBadState, r)
      else if pe_Role p \<noteq> RoleShowman \<and> \<not> pe_IsHost p then returns (Some (EngineErr ErrNotAllowed), r)
      else if connected_players r = [] then returns (Some ErrRoomBadState, r)
      else if humanShowman r = None \<and> rm_showman r = ShowmanHuman then returns (Some ErrRoomBadState, r)
      else
        let showmanID = (case humanShowman r of None \<Rightarrow> AIShowmanID | Some sm \<Rightarrow> pe_ID sm)
        in case New (ev_lib ev) (ev_rng ev (rm_draws r)) (Some (rm_pack r)) (rm_rules r) (rm_times r)
               (connected_players r) showmanID of
             Inl e \<Rightarrow> returns (Some ErrRoomBadState, r\<lparr>rm_draws := Suc (rm_draws r)\<rparr>)
           | Inr g \<Rightarrow>
               let r = r\<lparr>rm_draws := Suc (rm_draws r), rm_game := Some g, rm_status := StatusPlaying,
                         rm_startedAt := rm_wall r, rm_updatedAt := rm_wall r\<rparr>
               in apply_room ev (command_by (pe_actor p) CmdStart) (publishInfo (persistRoom ev r)))"

text \<open>A connection is dropped: \<open>conn = nil\<close>, \<open>connected = false\<close>, then the socket is closed.\<close>

definition drop_conn :: "string \<Rightarrow> (person \<Rightarrow> person) \<Rightarrow> nat \<Rightarrow> room \<Rightarrow> room" where
  "drop_conn i f code r =
     (case person_of r i of
        None \<Rightarrow> r
      | Some p \<Rightarrow> (case pe_conn p of
            None \<Rightarrow> r
          | Some s \<Rightarrow>
              log_effect (ClosedSocket s code)
                (upd_person i (\<lambda>p. f (p\<lparr>pe_anchored := False, pe_conn := None, pe_connected := False\<rparr>)) r)))"

definition closeRoom :: "room_env \<Rightarrow> string \<Rightarrow> room \<Rightarrow> room" where
  "closeRoom ev reason r =
     (if rm_closing r then r
      else
        let r = cancelArm ev ''roomClosed'' (cancelHybrid (r\<lparr>rm_closing := True\<rparr>));
            r = broadcast ev (MsgRoomClosed reason) (r\<lparr>rm_timers := [], rm_qualityTimer := None\<rparr>);
            code = (if reason = ''shutdown'' then CloseGoingAway else CloseNormal);
            r = fold (\<lambda>i. drop_conn i (\<lambda>p. p) code) (rm_order r) r;
            r = persistRoom ev (r\<lparr>rm_status := StatusClosed, rm_updatedAt := rm_wall r\<rparr>)
        in log_effect (RemovedRoom (rm_code r)) (publishInfo r))"

end
