(* ===== verification/Room_Session.thy ===== *)
theory Room_Session
  imports Room_Game
begin

text \<open>
  Joining, leaving, connections, resuming, what the host does and the settings of a room (\<open>room.go\<close>).
  A reference to a person that was removed reads as a person that does not exist: the code clears the
  connection of a person before it removes it, and every handler that keeps such a pointer checks that
  connection first.
\<close>

definition zero_hash :: string where
  "zero_hash = replicate 32 (CHR 0x00)"

subsection \<open>Joining and leaving\<close>

definition session_of :: "string \<Rightarrow> person \<Rightarrow> room \<Rightarrow> session" where
  "session_of tok p r =
     \<lparr>se_Token = tok, se_PersonID = pe_ID p, se_Role = pe_Role p, se_IsHost = pe_IsHost p, se_RoomCode = rm_code r\<rparr>"

text \<open>A host token makes its bearer the host while there is none.\<close>

definition becomes_host :: "bool \<Rightarrow> room \<Rightarrow> bool" where
  "becomes_host isHostToken r \<longleftrightarrow> isHostToken \<and> hostPerson r = None"

definition join_check :: "room_env \<Rightarrow> join_params \<Rightarrow> string \<Rightarrow> room \<Rightarrow> room_error + string \<times> role \<times> bool" where
  "join_check ev jp hostToken r =
     (let name = TrimSpace (jp_Name jp); rl = (if jp_Role jp = RoleUnset then RolePlayer else jp_Role jp);
          isHostToken = (hostToken \<noteq> [])
      in if rm_closing r then Inl ErrRoomClosed
         else if name = [] \<or> 64 < RuneCount name then Inl ErrInvalidParams
         else if rl \<notin> {RoleShowman, RolePlayer, RoleViewer} then Inl ErrInvalidParams
         else if isHostToken \<and> ev_hash ev hostToken \<noteq> rm_hostHash r then Inl ErrInvalidHostToken
         else if mget (rm_bannedNames r) (ToLower (tx_go (ev_text ev)) name) then Inl ErrBanned
         else if rm_password r \<noteq> [] \<and> \<not> isHostToken \<and> jp_Password jp \<noteq> rm_password r then Inl ErrBadPassword
         else Inr (name, rl, isHostToken))"

definition join_known :: "room_env \<Rightarrow> person \<Rightarrow> role \<Rightarrow> bool \<Rightarrow> room \<Rightarrow> (room_error + session) \<times> room" where
  "join_known ev p rl isHostToken r =
     (if pe_Role p \<noteq> rl \<or> pe_connected p then (Inl ErrNameTaken, r)
      else if map_of (rm_bannedIDs r) (pe_ID p) \<noteq> None then (Inl ErrBanned, r)
      else if (pe_Role p = RoleShowman \<or> pe_IsHost p) \<and> \<not> isHostToken then (Inl ErrNameTaken, r)
      else
        let tok = ev_token ev (rm_draws r);
            h = becomes_host isHostToken r;
            r = publishInfo (upd_person (pe_ID p) (\<lambda>p. p\<lparr>pe_tokenHash := ev_hash ev tok, pe_IsHost := pe_IsHost p \<or> h\<rparr>)
                  (r\<lparr>rm_draws := Suc (rm_draws r)\<rparr>))
        in (Inr (session_of tok (p\<lparr>pe_IsHost := pe_IsHost p \<or> h\<rparr>) r), r))"

text \<open>Why a new person may not take a role.\<close>

definition join_refused :: "role \<Rightarrow> bool \<Rightarrow> room \<Rightarrow> room_error option" where
  "join_refused rl isHostToken r =
     (if \<not> isHostToken \<and> (rm_joinMode r = JoinClosed \<or> rm_joinMode r = JoinViewersOnly \<and> rl \<noteq> RoleViewer)
      then Some ErrJoinClosed
      else case rl of
          RoleShowman \<Rightarrow> if rm_showman r = ShowmanAI \<or> humanShowman r \<noteq> None then Some ErrBadRole else None
        | RolePlayer \<Rightarrow>
            if rm_maxPlayers r \<le> countRole RolePlayer r then Some ErrRoomFull
            else (case rm_game r of
                None \<Rightarrow> None
              | Some g \<Rightarrow>
                  if rm_status r \<noteq> StatusLobby \<and> MaxPlayers \<le> length (filter (\<lambda>gp. \<not> p_Kicked gp) (st_Players g))
                  then Some ErrRoomFull else None)
        | RoleViewer \<Rightarrow> if \<not> rm_allowViewers r \<and> \<not> isHostToken then Some ErrBadRole else None
        | _ \<Rightarrow> None)"

definition newcomer :: "room_env \<Rightarrow> string \<Rightarrow> role \<Rightarrow> bool \<Rightarrow> room \<Rightarrow> person" where
  "newcomer ev name rl isHostToken r =
     (new_person (ev_id ev (Suc (rm_draws r))) name rl False (ev_hash ev (ev_token ev (rm_draws r))) (rm_wall r)
        (ev_ResumeBufferSize ev))\<lparr>pe_IsHost := becomes_host isHostToken r\<rparr>"

definition join_new :: "room_env \<Rightarrow> string \<Rightarrow> role \<Rightarrow> bool \<Rightarrow> room \<Rightarrow> (room_error + session) \<times> room" where
  "join_new ev name rl isHostToken r =
     (let tok = ev_token ev (rm_draws r); p = newcomer ev name rl isHostToken r;
          r = broadcastPersons ev (publishInfo (touch (addPerson p (r\<lparr>rm_draws := Suc (Suc (rm_draws r))\<rparr>))))
      in (Inr (session_of tok p r), r))"

definition join :: "room_env \<Rightarrow> join_params \<Rightarrow> string \<Rightarrow> room \<Rightarrow> (room_error + session) \<times> room" where
  "join ev jp hostToken r =
     (case join_check ev jp hostToken r of
        Inl e \<Rightarrow> (Inl e, r)
      | Inr (name, rl, isHostToken) \<Rightarrow>
          (case List.find (\<lambda>p. \<not> pe_IsAI p \<and> EqualFold (tx_go (ev_text ev)) (pe_Name p) name) (ordered_persons r) of
             Some p \<Rightarrow> join_known ev p rl isHostToken r
           | None \<Rightarrow> (case join_refused rl isHostToken r of
                 Some e \<Rightarrow> (Inl e, r)
               | None \<Rightarrow> join_new ev name rl isHostToken r)))"

definition no_press :: "string \<Rightarrow> room \<Rightarrow> room" where
  "no_press i r = (if rm_arm r = None then r else scheduleResolve (SetEligible_arm i r))"

text \<open>The player is told to the engine as gone and may not press in the open arm.\<close>

definition player_gone :: "room_env \<Rightarrow> string \<Rightarrow> bool \<Rightarrow> room \<Rightarrow> room outcome" where
  "player_gone ev i tells r =
     and_then (if rm_game r \<noteq> None \<and> tells
               then submit ev ((command_by systemActor CmdPlayerLeft)\<lparr>cmd_PersonID := i\<rparr>) r else returns r)
       (\<lambda>r. returns (no_press i r))"

definition forget_seq :: "person \<Rightarrow> person" where
  "forget_seq p = p\<lparr>pe_prevLastSeq := pe_lastSeq p\<rparr>"

definition disconnect :: "room_env \<Rightarrow> string \<Rightarrow> nat \<Rightarrow> room \<Rightarrow> room outcome" where
  "disconnect ev i code r =
     (case person_of r i of
        None \<Rightarrow> returns r
      | Some p \<Rightarrow>
          if pe_conn p = None then returns r
          else player_gone ev i (pe_Role p = RolePlayer) (drop_conn i forget_seq code r))"

definition leave :: "room_env \<Rightarrow> string \<Rightarrow> room \<Rightarrow> (room_error option \<times> room) outcome" where
  "leave ev token r =
     (case personByToken ev token r of
        None \<Rightarrow> returns (Some ErrBadSession, r)
      | Some i \<Rightarrow>
          and_then (disconnect ev i CloseNormal r)
            (\<lambda>r. let player' = (case person_of r i of None \<Rightarrow> False | Some p \<Rightarrow> pe_Role p = RolePlayer);
                     r = (if player' \<and> rm_game r \<noteq> None then upd_person i (\<lambda>p. p\<lparr>pe_tokenHash := zero_hash\<rparr>) r
                          else removePerson i r)
                 in returns (None, broadcastPersons ev (publishInfo r))))"

subsection \<open>Connections\<close>

definition sendSnapshot :: "room_env \<Rightarrow> string \<Rightarrow> room \<Rightarrow> room outcome" where
  "sendSnapshot ev i r =
     (case person_of r i of
        None \<Rightarrow> returns r
      | Some p \<Rightarrow>
          let told = (\<lambda>s. returns (sendRaw ev i (MsgSnapshot (buildInfo r) s (buzzerSnapshot p r) (pe_prevLastSeq p)) r))
          in case rm_game r of
               None \<Rightarrow> told None
             | Some g \<Rightarrow> (case Snapshot (pe_Role p) i g of None \<Rightarrow> panics r | Some s \<Rightarrow> told (Some s)))"

text \<open>A new generation of the person's connection, with a fresh measurement.\<close>

definition new_generation :: "string \<Rightarrow> room \<Rightarrow> room" where
  "new_generation i r =
     (let n = rm_nextConn r
      in upd_person i (\<lambda>p. p\<lparr>pe_gen := Suc (pe_gen p), pe_prevLastSeq := pe_lastSeq p, pe_lastSeq := 0, pe_bconn := Some n\<rparr>)
           (r\<lparr>rm_conns := (rm_conns r)(n := set_caps (rm_bz r) (NewConn (rm_mono r))), rm_nextConn := Suc n\<rparr>))"

definition connected :: "room_env \<Rightarrow> string \<Rightarrow> nat \<Rightarrow> room \<Rightarrow> room outcome" where
  "connected ev i s r =
     (let r = touch (upd_person i (\<lambda>p. p\<lparr>pe_conn := Some s, pe_connected := True\<rparr>) r)
      in and_then (sendSnapshot ev i (sendWelcome ev i r))
           (\<lambda>r. let r = SetEligible_arm i (broadcastPersons ev (publishInfo r))
                in returns (log_effect (AnchorsStarted i s) (upd_person i (\<lambda>p. p\<lparr>pe_anchored := True\<rparr>) r))))"

definition attach :: "room_env \<Rightarrow> string \<Rightarrow> nat \<Rightarrow> room \<Rightarrow> ((room_error + session) \<times> room) outcome" where
  "attach ev token s r =
     (if rm_closing r then returns (Inl ErrRoomClosed, r)
      else case personByToken ev token r of
          None \<Rightarrow> returns (Inl ErrBadSession, r)
        | Some i \<Rightarrow> (case person_of r i of
              None \<Rightarrow> returns (Inl ErrBadSession, r)
            | Some p \<Rightarrow>
                if pe_kicked p then returns (Inl ErrBadSession, r)
                else
                  let r = (if pe_conn p = None then r
                           else drop_conn i (\<lambda>p. p) CloseSessionReplaced (sendRaw ev i MsgSessionReplaced r));
                      r = new_generation i r
                  in and_then (if rm_game r \<noteq> None \<and> pe_Role p = RolePlayer
                               then submit ev ((command_by systemActor CmdPlayerJoined)
                                      \<lparr>cmd_PersonID := i, cmd_Name := pe_Name p\<rparr>) r
                               else returns r)
                       (\<lambda>r. and_then (connected ev i s r) (\<lambda>r. returns (Inr (session_of [] p r), r)))))"

definition live :: "room \<Rightarrow> string \<Rightarrow> nat \<Rightarrow> bool" where
  "live r i gen = (case person_of r i of None \<Rightarrow> False | Some p \<Rightarrow> pe_gen p = gen \<and> pe_conn p \<noteq> None)"

definition detach :: "room_env \<Rightarrow> string \<Rightarrow> nat \<Rightarrow> room \<Rightarrow> room outcome" where
  "detach ev i gen r =
     (case person_of r i of
        None \<Rightarrow> returns r
      | Some p \<Rightarrow>
          if \<not> live r i gen then returns r
          else
            let r = upd_person i (\<lambda>p. forget_seq (p\<lparr>pe_anchored := False, pe_conn := None, pe_connected := False\<rparr>)) r
            in and_then (player_gone ev i (pe_Role p = RolePlayer \<and> \<not> pe_kicked p) r)
                 (\<lambda>r. returns (broadcastPersons ev (publishInfo r))))"

text \<open>A sample of the anchor loop of a generation.\<close>

definition anchor_sample :: "string \<Rightarrow> nat \<Rightarrow> (conn \<Rightarrow> conn) \<Rightarrow> room \<Rightarrow> room" where
  "anchor_sample i gen f r =
     (case person_of r i of
        None \<Rightarrow> r
      | Some p \<Rightarrow> (case pe_bconn p of
            None \<Rightarrow> r
          | Some n \<Rightarrow> if pe_gen p \<noteq> gen then r else r\<lparr>rm_conns := (rm_conns r)(n := f (rm_conns r n))\<rparr>))"

subsection \<open>Resuming\<close>

definition previous_entries :: "person \<Rightarrow> ring_entry list" where
  "previous_entries p = filter (\<lambda>e. int (re_gen e) = int (pe_gen p) - 1) (entries (pe_ring p))"

definition covered :: "person \<Rightarrow> int \<Rightarrow> bool" where
  "covered p lastSeq =
     (case previous_entries p of
        [] \<Rightarrow> lastSeq = 0 \<and> pe_prevLastSeq p = 0
      | e # es \<Rightarrow>
          if pe_prevLastSeq p \<le> lastSeq then True
          else if lastSeq = 0 then re_seq e = 1
          else lastSeq \<in> re_seq ` set (e # es))"

definition replayed :: "person \<Rightarrow> int \<Rightarrow> out_msg list" where
  "replayed p lastSeq =
     (if covered p lastSeq
      then filter replayable (List.map_filter re_msg (filter (\<lambda>e. lastSeq < re_seq e) (previous_entries p)))
      else [])"

definition replay :: "room_env \<Rightarrow> string \<Rightarrow> int \<Rightarrow> room \<Rightarrow> room" where
  "replay ev i lastSeq r =
     (case person_of r i of
        None \<Rightarrow> r
      | Some p \<Rightarrow>
          fold (sendRaw ev i) (replayed p lastSeq)
            (sendRaw ev i (MsgResume lastSeq (length (replayed p lastSeq)) (covered p lastSeq)) r))"

subsection \<open>What the host does\<close>

definition mark_kicked :: "room_env \<Rightarrow> string \<Rightarrow> person \<Rightarrow> bool \<Rightarrow> room \<Rightarrow> room" where
  "mark_kicked ev i p ban r =
     (let r = upd_person i (\<lambda>p. p\<lparr>pe_kicked := True\<rparr>) r; low = ToLower (tx_go (ev_text ev)) (pe_Name p)
      in if ban then r\<lparr>rm_bannedNames := mput low True (rm_bannedNames r), rm_bannedIDs := mput i low (rm_bannedIDs r)\<rparr>
         else r)"

definition show_out :: "room_env \<Rightarrow> string \<Rightarrow> person \<Rightarrow> bool \<Rightarrow> room \<Rightarrow> room" where
  "show_out ev i p ban r =
     (if pe_conn p = None then r else drop_conn i (\<lambda>p. p) CloseKicked (sendRaw ev i (MsgKicked ban) r))"

definition in_game :: "string \<Rightarrow> room \<Rightarrow> bool" where
  "in_game i r = (case gamePlayer r i of None \<Rightarrow> False | Some gp \<Rightarrow> \<not> p_Kicked gp)"

definition kick :: "room_env \<Rightarrow> string \<Rightarrow> bool \<Rightarrow> room \<Rightarrow> (room_error option \<times> room) outcome" where
  "kick ev i ban r =
     (case person_of r i of
        None \<Rightarrow> returns (Some ErrPersonNotFound, r)
      | Some p \<Rightarrow>
          if pe_IsAI p then returns (Some ErrPersonNotFound, r)
          else if pe_IsHost p then returns (Some (EngineErr ErrNotAllowed), r)
          else
            let r = show_out ev i p ban (mark_kicked ev i p ban r)
            in and_then (if pe_Role p = RolePlayer \<and> in_game i r
                         then submit ev ((command_by systemActor CmdKickPlayer)\<lparr>cmd_PersonID := i\<rparr>) r
                         else returns r)
                 (\<lambda>r. returns (None, broadcastPersons ev (publishInfo (removePerson i (no_press i r))))))"

definition hand_over :: "string \<Rightarrow> room \<Rightarrow> room" where
  "hand_over i r =
     upd_person i (\<lambda>p. p\<lparr>pe_IsHost := True\<rparr>)
       (case hostPerson r of None \<Rightarrow> r | Some h \<Rightarrow> upd_person (pe_ID h) (\<lambda>p. p\<lparr>pe_IsHost := False\<rparr>) r)"

definition transferHost :: "room_env \<Rightarrow> string \<Rightarrow> room \<Rightarrow> room_error option \<times> room" where
  "transferHost ev i r =
     (case person_of r i of
        None \<Rightarrow> (Some ErrPersonNotFound, r)
      | Some p \<Rightarrow>
          if pe_IsAI p then (Some ErrPersonNotFound, r)
          else (None, broadcastPersons ev (broadcast ev (MsgHostChanged i) (publishInfo (hand_over i r)))))"

definition trust_of :: "string \<Rightarrow> trust_level option option" where
  "trust_of s =
     (if s = [] then Some None
      else if s = ''full'' then Some (Some TrustFull)
      else if s = ''conservative'' then Some (Some TrustConservative)
      else if s = ''serverOnly'' then Some (Some TrustServerOnly)
      else if s = ''arrivalOnly'' then Some (Some TrustArrivalOnly)
      else None)"

definition setTrust :: "string \<Rightarrow> string \<Rightarrow> room \<Rightarrow> room_error option \<times> room" where
  "setTrust i level r =
     (case Option.bind (person_of r i) pe_bconn of
        None \<Rightarrow> (Some ErrPersonNotFound, r)
      | Some n \<Rightarrow> (case trust_of level of
            None \<Rightarrow> (Some ErrInvalidParams, r)
          | Some l \<Rightarrow> (None, r\<lparr>rm_conns := (rm_conns r)(n := (rm_conns r n)\<lparr>cn_ForceLevel := l\<rparr>)\<rparr>)))"

definition unban :: "string \<Rightarrow> room \<Rightarrow> room_error option \<times> room" where
  "unban i r =
     (case map_of (rm_bannedIDs r) i of
        None \<Rightarrow> (Some ErrPersonNotFound, r)
      | Some name \<Rightarrow>
          (None, r\<lparr>rm_bannedIDs := mdel i (rm_bannedIDs r), rm_bannedNames := mdel name (rm_bannedNames r)\<rparr>))"

definition buzzLog :: "string \<Rightarrow> room \<Rightarrow> arm_record list" where
  "buzzLog qid r = filter (\<lambda>rec. qid = [] \<or> rc_QuestionID rec = qid) (rm_records r)"

subsection \<open>Settings\<close>

definition checkBuzzer :: "settings \<Rightarrow> room_error option" where
  "checkBuzzer s =
     (if Validate s \<noteq> None then Some ErrInvalidParams
      else if bs_Mode s = ModeWrittenAll \<or> bs_TieBreak s = TieBreakAllPlay then Some ErrUnsupportedBuzzerMode
      else None)"

definition syncAIShowman :: "room_env \<Rightarrow> room \<Rightarrow> room" where
  "syncAIShowman ev r =
     (let ai = person_of r AIShowmanID
      in if rm_showman r = ShowmanAI then
           if ai = None
           then addPerson (new_person AIShowmanID (ev_AIShowmanName ev) RoleShowman True zero_hash (rm_wall r) 1) r
           else r
         else if ai = None then r else removePerson AIShowmanID r)"

definition applyRulesPatch :: "rules_patch \<Rightarrow> rules \<Rightarrow> rules" where
  "applyRulesPatch pt ru = ru\<lparr>
     r_Oral := patched (rp_Oral pt) (r_Oral ru),
     r_Managed := patched (rp_Managed pt) (r_Managed ru),
     r_DisplayAnswerOptionsLabels := patched (rp_DisplayAnswerOptionsLabels pt) (r_DisplayAnswerOptionsLabels ru),
     r_FalseStart := patched (rp_FalseStart pt) (r_FalseStart ru),
     r_ReadingSpeed := (case rp_ReadingSpeed pt of None \<Rightarrow> r_ReadingSpeed ru | Some v \<Rightarrow> if 0 \<le> v then v else r_ReadingSpeed ru),
     r_PartialText := patched (rp_PartialText pt) (r_PartialText ru),
     r_UseAppellations := patched (rp_UseAppellations pt) (r_UseAppellations ru)\<rparr>"

definition running :: "room \<Rightarrow> bool" where
  "running r \<longleftrightarrow> rm_game r \<noteq> None \<and> rm_status r = StatusPlaying"

definition bad_showman :: "showman_mode \<Rightarrow> room \<Rightarrow> room_error option" where
  "bad_showman sm r =
     (if sm \<notin> {ShowmanHuman, ShowmanAI, ShowmanHybrid} then Some ErrInvalidParams
      else if running r then Some ErrRoomBadState
      else if sm = ShowmanAI \<and> humanShowman r \<noteq> None then Some ErrRoomBadState
      else None)"

definition bad_join_mode :: "join_mode \<Rightarrow> room_error option" where
  "bad_join_mode jm = (if jm \<in> {JoinAny, JoinViewersOnly, JoinClosed} then None else Some ErrInvalidParams)"

definition bad_room_name :: "string \<Rightarrow> room_error option" where
  "bad_room_name n = (if TrimSpace n = [] \<or> 100 < RuneCount (TrimSpace n) then Some ErrInvalidParams else None)"

text \<open>The first complaint of the checks, which all come before the first write.\<close>

definition settings_refused :: "settings_patch \<Rightarrow> room \<Rightarrow> room_error option" where
  "settings_refused pt r =
     (let orelse = (\<lambda>a b. case a of None \<Rightarrow> b | Some e \<Rightarrow> Some e)
      in orelse (if rm_closing r then Some ErrRoomClosed else None)
        (orelse (Option.bind (sp_Buzzer pt) checkBuzzer)
        (orelse (Option.bind (sp_Showman pt) (\<lambda>sm. bad_showman sm r))
        (orelse (Option.bind (sp_JoinMode pt) bad_join_mode)
        (orelse (if sp_Times pt \<noteq> None \<and> running r then Some ErrRoomBadState else None)
          (Option.bind (sp_Name pt) bad_room_name))))))"

definition patch_buzzer :: "settings \<Rightarrow> room \<Rightarrow> room" where
  "patch_buzzer s r =
     r\<lparr>rm_bz := s, rm_conns :=
        fold (\<lambda>(k, p) cs. case pe_bconn p of None \<Rightarrow> cs | Some n \<Rightarrow> cs(n := set_caps s (cs n))) (rm_persons r) (rm_conns r)\<rparr>"

definition patch_room :: "room_env \<Rightarrow> settings_patch \<Rightarrow> room \<Rightarrow> room" where
  "patch_room ev pt r =
     (let r = (case sp_Name pt of None \<Rightarrow> r | Some n \<Rightarrow> r\<lparr>rm_name := TrimSpace n\<rparr>);
          r = (case sp_Password pt of None \<Rightarrow> r | Some w \<Rightarrow> r\<lparr>rm_password := w\<rparr>);
          r = (case sp_JoinMode pt of None \<Rightarrow> r | Some jm \<Rightarrow> r\<lparr>rm_joinMode := jm\<rparr>);
          r = (case sp_Showman pt of None \<Rightarrow> r | Some sm \<Rightarrow> syncAIShowman ev (r\<lparr>rm_showman := sm\<rparr>));
          r = (case sp_Buzzer pt of None \<Rightarrow> r | Some s \<Rightarrow> patch_buzzer s r)
      in (case sp_Times pt of None \<Rightarrow> r | Some t \<Rightarrow> r\<lparr>rm_times := t\<rparr>))"

definition options_actor :: "room \<Rightarrow> actor" where
  "options_actor r =
     (case hostPerson r of
        None \<Rightarrow> \<lparr>ac_PersonID = [], ac_Role = RoleShowman, ac_IsHost = True\<rparr>
      | Some h \<Rightarrow> (pe_actor h)\<lparr>ac_IsHost := True\<rparr>)"

definition settings_told :: "room_env \<Rightarrow> room \<Rightarrow> room" where
  "settings_told ev r =
     (let r = publishInfo (persistRoom ev (r\<lparr>rm_updatedAt := rm_wall r\<rparr>))
      in broadcast ev (MsgRoomSettings (rm_info r)) r)"

definition updateSettings :: "room_env \<Rightarrow> settings_patch \<Rightarrow> room \<Rightarrow> (room_error option \<times> room) outcome" where
  "updateSettings ev pt r =
     (case settings_refused pt r of
        Some e \<Rightarrow> returns (Some e, r)
      | None \<Rightarrow>
          let was_running = running r; r = patch_room ev pt r
          in case sp_Rules pt of
               None \<Rightarrow> returns (None, settings_told ev r)
             | Some o' \<Rightarrow>
                 if \<not> was_running
                 then returns (None, settings_told ev (r\<lparr>rm_rules := applyRulesPatch o' (rm_rules r),
                        rm_times := patch_times o' (rm_times r)\<rparr>))
                 else
                   and_then (apply_room ev ((command_by (options_actor r) CmdSetOptions)\<lparr>cmd_Options := Some o'\<rparr>) r)
                     (\<lambda>(e, r). case e of
                         Some x \<Rightarrow> returns (Some x, r)
                       | None \<Rightarrow>
                           let r = (case rm_game r of None \<Rightarrow> r
                                    | Some g \<Rightarrow> r\<lparr>rm_rules := st_Rules g, rm_times := st_Times g\<rparr>)
                           in returns (None, settings_told ev r)))"

end
