(* ===== verification/Room_Inbox.thy ===== *)
theory Room_Inbox
  imports Room_Session
begin

text \<open>
  The mailbox of a room: client messages (\<open>handleInbound\<close>, \<open>clientCommand\<close>), the timers of the runtime, samples,
  verdicts and the calls of the manager, each as one input of a machine. An input that panics closes the
  room (\<open>runGuarded\<close>).
\<close>

subsection \<open>Client messages\<close>

definition engine_command :: "person \<Rightarrow> in_msg \<Rightarrow> command option" where
  "engine_command p m =
     (let cmd = command_by (pe_actor p)
      in case m of
        InReady \<Rightarrow> Some (cmd CmdPlayerReady)
      | InChooseQuestion t q \<Rightarrow> Some ((cmd CmdChooseQuestion)\<lparr>cmd_Theme := t, cmd_Q := q\<rparr>)
      | InPass \<Rightarrow> Some (cmd CmdPass)
      | InAnswer a \<Rightarrow>
          Some ((cmd CmdAnswer)\<lparr>cmd_PersonID := an_PersonID a, cmd_Text := an_Text a,
            cmd_OptionLabel := an_OptionLabel a, cmd_Number := an_Number a, cmd_Point := an_Point a,
            cmd_Right := (an_Right a = Some True), cmd_RightSet := (an_Right a \<noteq> None)\<rparr>)
      | InAnswerDraft s \<Rightarrow> Some ((cmd CmdAnswerDraft)\<lparr>cmd_Text := s\<rparr>)
      | InValidate v \<Rightarrow>
          Some ((cmd CmdValidate)\<lparr>cmd_PersonID := vi_PersonID v, cmd_Right := vi_Right v,
            cmd_Factor := vi_Factor v, cmd_FactorZero := vi_FactorZero v, cmd_Source := ''showman''\<rparr>)
      | InSelectPlayer i \<Rightarrow> Some ((cmd CmdSelectPlayer)\<lparr>cmd_PersonID := i\<rparr>)
      | InSetStake sm a \<Rightarrow> Some ((cmd CmdSetStake)\<lparr>cmd_StakeMode := sm, cmd_Amount := a\<rparr>)
      | InDeleteTheme t \<Rightarrow> Some ((cmd CmdDeleteTheme)\<lparr>cmd_Theme := t\<rparr>)
      | InAppellate b \<Rightarrow> Some ((cmd CmdAppellate)\<lparr>cmd_For := b\<rparr>)
      | InVoteAppeal b \<Rightarrow> Some ((cmd CmdVoteAppeal)\<lparr>cmd_Right := b\<rparr>)
      | InMediaLoaded \<Rightarrow> Some (cmd CmdMediaLoaded)
      | InMediaComplete \<Rightarrow> Some ((cmd CmdMediaCompleted)\<lparr>cmd_PersonID := pe_ID p\<rparr>)
      | InPause b \<Rightarrow> Some ((cmd CmdShowmanPause)\<lparr>cmd_On := b\<rparr>)
      | InMove d k \<Rightarrow> Some ((cmd CmdMove)\<lparr>cmd_Dir := d, cmd_Round := k\<rparr>)
      | InToggle t q \<Rightarrow> Some ((cmd CmdToggle)\<lparr>cmd_Theme := t, cmd_Q := q\<rparr>)
      | InChangeScore i n \<Rightarrow> Some ((cmd CmdChangeScore)\<lparr>cmd_PersonID := i, cmd_NewSum := n\<rparr>)
      | InSetChooser i \<Rightarrow> Some ((cmd CmdSetChooser)\<lparr>cmd_PersonID := i\<rparr>)
      | InSetOptions o' \<Rightarrow> Some ((cmd CmdSetOptions)\<lparr>cmd_Options := Some o'\<rparr>)
      | InNext \<Rightarrow> Some (cmd CmdNext)
      | _ \<Rightarrow> None)"

text \<open>A host who plays loses the showman's controls while a human showman is seated.\<close>

definition showman_controls :: "cmd_type list" where
  "showman_controls = [CmdChangeScore, CmdSetChooser, CmdToggle, CmdMove]"

definition clientCommand :: "person \<Rightarrow> in_msg \<Rightarrow> room \<Rightarrow> command option" where
  "clientCommand p m r =
     map_option (\<lambda>cmd.
         if ac_IsHost (cmd_Actor cmd) \<and> pe_Role p \<noteq> RoleShowman \<and> humanShowman r \<noteq> None \<and>
            cmd_Type cmd \<in> set showman_controls
         then cmd\<lparr>cmd_Actor := (cmd_Actor cmd)\<lparr>ac_IsHost := False\<rparr>\<rparr> else cmd)
       (engine_command p m)"

definition answered :: "room_env \<Rightarrow> string \<Rightarrow> int \<Rightarrow> room_error option \<times> room \<Rightarrow> room" where
  "answered ev i ref x =
     (case x of (None, r) \<Rightarrow> r | (Some e, r) \<Rightarrow> sendError ev i (engineErrorCode e) ref r)"

definition applyClient :: "room_env \<Rightarrow> string \<Rightarrow> command \<Rightarrow> int \<Rightarrow> room \<Rightarrow> room outcome" where
  "applyClient ev i cmd ref r =
     (if rm_game r = None then returns (sendError ev i ErrCodeBadState ref r)
      else and_then (apply_room ev cmd r) (\<lambda>x. returns (answered ev i ref x)))"

definition on_conn :: "string \<Rightarrow> (conn \<Rightarrow> 'a \<times> conn) \<Rightarrow> room \<Rightarrow> ('a \<times> room) option" where
  "on_conn i f r =
     map_option (\<lambda>n. let (a, c) = f (rm_conns r n) in (a, r\<lparr>rm_conns := (rm_conns r)(n := c)\<rparr>))
       (Option.bind (person_of r i) pe_bconn)"

definition sync_room :: "room_env \<Rightarrow> string \<Rightarrow> sync_msg \<Rightarrow> f64 \<Rightarrow> room \<Rightarrow> room outcome" where
  "sync_room ev i s tRecv r =
     (case on_conn i (OnSync \<lparr>si_Seq = sy_Seq s, si_C1 = sy_C1 s, si_PrevSeq = sy_PrevSeq s,
             si_PrevC4 = sy_PrevC4 s, si_HasPrev = (0 < sy_PrevSeq s)\<rparr> tRecv (rm_mono r)) r of
        None \<Rightarrow> panics r
      | Some (out, r) \<Rightarrow>
          returns (sendRaw ev i (MsgSyncAck (so_Seq out) (so_C1 out) (so_S2 out) (so_S3 out)
            ((so_Model out)\<lparr>m_Flags := []\<rparr>)) r))"

definition chat_room :: "room_env \<Rightarrow> string \<Rightarrow> string \<Rightarrow> int \<Rightarrow> room \<Rightarrow> room" where
  "chat_room ev i text ref r =
     (case person_of r i of
        None \<Rightarrow> r
      | Some p \<Rightarrow>
          let text = TrimSpace text
          in if text = [] \<or> MaxChatLen < RuneCount text then sendError ev i ErrCodeBadArgument ref r
             else if 0 < pe_lastChatAt p \<and> f64_sub (rm_mono r) (pe_lastChatAt p) < 1000
             then sendError ev i ErrCodeRateLimited ref r
             else broadcast ev (MsgChat (pe_ID p) (pe_Name p) text (rm_wall r))
                    (upd_person i (\<lambda>p. p\<lparr>pe_lastChatAt := rm_mono r\<rparr>) r))"

definition host_only :: "room_env \<Rightarrow> person \<Rightarrow> int \<Rightarrow> (room \<Rightarrow> (room_error option \<times> room) outcome) \<Rightarrow> room \<Rightarrow> room outcome" where
  "host_only ev p ref f r =
     (if \<not> pe_IsHost p then returns (sendError ev (pe_ID p) ErrCodeNotAllowed ref r)
      else and_then (f r) (\<lambda>x. returns (answered ev (pe_ID p) ref x)))"

definition handleInbound :: "room_env \<Rightarrow> string \<Rightarrow> nat \<Rightarrow> in_msg \<Rightarrow> int \<Rightarrow> f64 \<Rightarrow> room \<Rightarrow> room outcome" where
  "handleInbound ev i gen m ref tRecv r =
     (case person_of r i of
        None \<Rightarrow> returns r
      | Some p \<Rightarrow>
          if \<not> live r i gen then returns r
          else
            let r = touch r; now = rm_mono r
            in case m of
                 InHello lastSeq \<Rightarrow> returns (replay ev i lastSeq r)
               | InSync s \<Rightarrow> sync_room ev i s tRecv r
               | InArmAck aid recvLocal \<Rightarrow> returns (onArmAck_room i aid tRecv r)
               | InPress pr \<Rightarrow> returns (onPress_room ev i pr tRecv r)
               | InMisfire aid \<Rightarrow> returns (onMisfire_room ev i aid now r)
               | InVisible \<Rightarrow>
                   (case on_conn i (\<lambda>c. ((), OnVisible now c)) r of None \<Rightarrow> panics r | Some (u, r) \<Rightarrow> returns r)
               | InChat text \<Rightarrow> returns (chat_room ev i text ref r)
               | InStart \<Rightarrow>
                   (if rm_game r = None then and_then (startGame ev p r) (\<lambda>x. returns (answered ev i ref x))
                    else applyClient ev i (command_by (pe_actor p) CmdStart) ref r)
               | InKick j ban \<Rightarrow> host_only ev p ref (kick ev j ban) r
               | InSetHost j \<Rightarrow> host_only ev p ref (\<lambda>r. returns (transferHost ev j r)) r
               | InButtonReopen aid \<Rightarrow> host_only ev p ref (\<lambda>r. returns (reopenButton ev aid r)) r
               | InSetTrust j level \<Rightarrow> host_only ev p ref (\<lambda>r. returns (setTrust j level r)) r
               | InMalformed s \<Rightarrow> returns (sendError ev i ErrCodeBadPayload ref r)
               | _ \<Rightarrow> (case clientCommand p m r of
                     None \<Rightarrow> returns (sendError ev i ErrCodeUnknownType ref r)
                   | Some cmd \<Rightarrow> applyClient ev i cmd ref r))"

subsection \<open>The mailbox\<close>

datatype (plugins only: code) room_input =
    Inbound string nat in_msg int f64
  | Detached string nat
  | TimerFired string
  | ArmLight nat arm_plan
  | ArmDeadline nat
  | HybridFired string ask_validate verdict
  | QualityFired
  | PongSample string nat f64
  | KernelSample string nat f64 f64
  | VerdictArrived ask_validate verdict
  | JoinCall join_params string
  | LeaveCall string
  | AttachCall string nat
  | SettingsCall settings_patch
  | KickCall string bool
  | UnbanCall string
  | HostCall string
  | BuzzLogCall string
  | CloseCall string
  | QualityStart

datatype (plugins only: code) room_reply =
    NoReply
  | Failed room_error
  | JoinedAs session
  | InfoReply room_info
  | LogReply "arm_record list"

definition plain :: "room \<Rightarrow> (room_reply \<times> room) outcome" where
  "plain r = returns (NoReply, r)"

definition quiet :: "room outcome \<Rightarrow> (room_reply \<times> room) outcome" where
  "quiet m = and_then m plain"

definition reply_of :: "room_error option \<Rightarrow> room_reply" where
  "reply_of e = (case e of None \<Rightarrow> NoReply | Some x \<Rightarrow> Failed x)"

definition session_reply :: "room_error + session \<Rightarrow> room_reply" where
  "session_reply x = (case x of Inl e \<Rightarrow> Failed e | Inr s \<Rightarrow> JoinedAs s)"

definition room_step :: "room_env \<Rightarrow> room_input \<Rightarrow> room \<Rightarrow> (room_reply \<times> room) outcome" where
  "room_step ev x r =
     (case x of
        Inbound i gen m ref tRecv \<Rightarrow> quiet (handleInbound ev i gen m ref tRecv r)
      | Detached i gen \<Rightarrow> quiet (detach ev i gen r)
      | TimerFired i \<Rightarrow> quiet (onTimeout_room ev i r)
      | ArmLight gen plan \<Rightarrow> plain (onArmSend ev gen plan r)
      | ArmDeadline gen \<Rightarrow> quiet (onArmResolve ev gen r)
      | HybridFired key ask v \<Rightarrow> quiet (applyHybrid ev key ask v r)
      | QualityFired \<Rightarrow> plain (tickQuality ev r)
      | PongSample i gen rtt \<Rightarrow> plain (anchor_sample i gen (OnWSPong rtt (rm_mono r)) r)
      | KernelSample i gen srtt rttvar \<Rightarrow> plain (anchor_sample i gen (OnKernelRTT srtt rttvar (rm_mono r)) r)
      | VerdictArrived ask v \<Rightarrow> quiet (onAIVerdict ev ask v r)
      | JoinCall jp tok \<Rightarrow> (case join ev jp tok r of (s, r) \<Rightarrow> returns (session_reply s, r))
      | LeaveCall tok \<Rightarrow> and_then (leave ev tok r) (\<lambda>(e, r). returns (reply_of e, r))
      | AttachCall tok s \<Rightarrow> and_then (attach ev tok s r) (\<lambda>(a, r). returns (session_reply a, r))
      | SettingsCall pt \<Rightarrow>
          and_then (updateSettings ev pt r)
            (\<lambda>(e, r). returns (case e of None \<Rightarrow> InfoReply (rm_info r) | Some x \<Rightarrow> Failed x, r))
      | KickCall i ban \<Rightarrow> and_then (kick ev i ban r) (\<lambda>(e, r). returns (reply_of e, r))
      | UnbanCall i \<Rightarrow> (case unban i r of (e, r) \<Rightarrow> returns (reply_of e, r))
      | HostCall i \<Rightarrow> (case transferHost ev i r of (e, r) \<Rightarrow> returns (reply_of e, r))
      | BuzzLogCall q \<Rightarrow> returns (LogReply (buzzLog q r), r)
      | CloseCall reason \<Rightarrow> plain (closeRoom ev reason r)
      | QualityStart \<Rightarrow> plain (startQualityTicker ev r))"

text \<open>One turn of the actor: the clock is read, the input runs, a panic closes the room.\<close>

definition clocked :: "f64 \<Rightarrow> int \<Rightarrow> room \<Rightarrow> room" where
  "clocked now wall r = r\<lparr>rm_mono := now, rm_wall := wall\<rparr>"

definition runGuarded :: "room_env \<Rightarrow> (room_reply \<times> room) outcome \<Rightarrow> (room_reply \<times> room) option" where
  "runGuarded ev m =
     (case m of
        None \<Rightarrow> None
      | Some (Inl x) \<Rightarrow> Some x
      | Some (Inr r) \<Rightarrow> Some (Failed ErrRoomClosed, closeRoom ev ''internalError'' r))"

definition turn :: "room_env \<Rightarrow> f64 \<Rightarrow> int \<Rightarrow> room_input \<Rightarrow> room \<Rightarrow> (room_reply \<times> room) option" where
  "turn ev now wall x r = runGuarded ev (room_step ev x (clocked now wall r))"

end
