(* ===== verification/Room_Manager.thy ===== *)
theory Room_Manager
  imports Room_Inbox "HOL-Library.Product_Lexorder" "HOL-Library.List_Lexorder" "HOL-Library.Char_ord"
begin

text \<open>
  The manager of the rooms (\<open>manager.go\<close>): room codes, creation and its limits, the calls that find a room
  by its code, the sweeper and the end of the server. A call runs as one turn of the room's actor; a room
  that closed is gone from the map, as \<open>closeRoom\<close> takes it out.
\<close>

datatype manager_error =
    ErrRoomNotFound | ErrTooManyRooms | ErrPackNotFound | ErrPackLoad | ErrRoomInsert | RoomErr room_error

text \<open>
  The manager's surroundings: \<open>mv_room\<close> of the rooms, the limits after the defaults of \<open>NewManager\<close>, the packs
  (\<open>Inl True\<close> is the error not found), the random bytes of the n-th code draw and whether the insert of a
  room into the database works.
\<close>

record manager_env =
  mv_room :: room_env
  mv_MaxRooms :: nat
  mv_RoomTTLMs :: int
  mv_pack :: "string \<Rightarrow> bool + pack"
  mv_code_bytes :: "nat \<Rightarrow> nat list"
  mv_insert :: "stored_settings \<Rightarrow> bool"

record manager =
  mg_rooms :: "(string \<times> room) list"
  mg_stopped :: bool
  mg_draws :: nat
  mg_codes :: nat

definition newManager :: manager where
  "newManager = \<lparr>mg_rooms = [], mg_stopped = False, mg_draws = 0, mg_codes = 0\<rparr>"

subsection \<open>Codes\<close>

definition codeAlphabet :: string where
  "codeAlphabet = ''ABCDEFGHJKLMNPQRSTUVWXYZ23456789''"

definition code_of :: "nat list \<Rightarrow> string" where
  "code_of bs = map (\<lambda>b. codeAlphabet ! (b mod length codeAlphabet)) bs"

text \<open>The loop runs until a draw is free; the result carries the number of the next draw.\<close>

partial_function (option) newCode :: "(nat \<Rightarrow> nat list) \<Rightarrow> string list \<Rightarrow> nat \<Rightarrow> (string \<times> nat) option" where
  "newCode draw taken n =
     (let code = code_of (draw n) in if code \<in> set taken then newCode draw taken (Suc n) else Some (code, Suc n))"

declare newCode.simps [code]

subsection \<open>Creating a room\<close>

definition with_defaults :: "manager_env \<Rightarrow> create_params \<Rightarrow> create_params" where
  "with_defaults mv p =
     p\<lparr>cp_Rules := (if r_Mode (cp_Rules p) = ModeUnset then DefaultRules else cp_Rules p),
       cp_Times := Some (case cp_Times p of None \<Rightarrow> DefaultTimeSettings | Some t \<Rightarrow> t),
       cp_Buzzer := (if bs_Mode (cp_Buzzer p) = ModeOther [] then DefaultSettings else cp_Buzzer p),
       cp_Showman := (if cp_Showman p = ShowmanUnset then ShowmanHuman else cp_Showman p),
       cp_HybridConfirmMs := (if cp_HybridConfirmMs p \<le> 0 then defaultHybridConfirmMs else cp_HybridConfirmMs p),
       cp_MaxPlayers := (if cp_MaxPlayers p \<le> 0 \<or> int (ev_MaxPlayers (mv_room mv)) < cp_MaxPlayers p
                         then int (ev_MaxPlayers (mv_room mv)) else cp_MaxPlayers p),
       cp_Name := TrimSpace (cp_Name p)\<rparr>"

definition create_check :: "manager_env \<Rightarrow> create_params \<Rightarrow> manager_error + pack" where
  "create_check mv p =
     (if cp_Showman p \<notin> {ShowmanHuman, ShowmanAI, ShowmanHybrid} then Inl (RoomErr ErrInvalidParams)
      else if 100 < RuneCount (cp_Name p) then Inl (RoomErr ErrInvalidParams)
      else case checkBuzzer (cp_Buzzer p) of
          Some e \<Rightarrow> Inl (RoomErr e)
        | None \<Rightarrow> (case mv_pack mv (cp_PackID p) of
              Inl True \<Rightarrow> Inl ErrPackNotFound
            | Inl False \<Rightarrow> Inl ErrPackLoad
            | Inr pk \<Rightarrow> if pk_Rounds pk = [] then Inl (RoomErr ErrInvalidParams) else Inr pk))"

text \<open>The literal of \<open>Create\<close>; what it does not name is a zero value.\<close>

definition new_room :: "create_params \<Rightarrow> pack \<Rightarrow> string \<Rightarrow> string \<Rightarrow> string \<Rightarrow> f64 \<Rightarrow> int \<Rightarrow> room" where
  "new_room p pk i code hostHash now wall =
     (let tms = (case cp_Times p of None \<Rightarrow> DefaultTimeSettings | Some t \<Rightarrow> t);
          name = (if cp_Name p = [] then pk_Name pk else cp_Name p)
      in \<lparr>rm_id = i, rm_code = code, rm_createdAt = wall, rm_updatedAt = wall, rm_startedAt = 0, rm_name = name,
          rm_password = cp_Password p, rm_hostHash = hostHash, rm_packID = pk_ID pk, rm_pack = pk,
          rm_rules = cp_Rules p, rm_times = tms, rm_bz = cp_Buzzer p, rm_showman = cp_Showman p,
          rm_hybridConfirmMs = cp_HybridConfirmMs p, rm_maxPlayers = nat (cp_MaxPlayers p),
          rm_allowViewers = cp_AllowViewers p, rm_language = cp_Language p, rm_joinMode = JoinAny,
          rm_status = StatusLobby, rm_persons = [], rm_order = [], rm_bannedNames = [], rm_bannedIDs = [],
          rm_game = None, rm_followUps = [], rm_dispatchDepth = 0, rm_timers = [], rm_arm = None, rm_armGen = 0,
          rm_lastWinnerSeat = None, rm_records = [], rm_hybridTimer = None, rm_hybridKey = [],
          rm_qualityTimer = None, rm_closing = False, rm_lastActivity = wall,
          rm_info = \<lparr>ri_ID = [], ri_Code = [], ri_Name = [], ri_PackID = [], ri_PackName = [], ri_Status = StatusLobby,
             ri_Showman = ShowmanUnset, ri_HasPassword = False, ri_Players = [], ri_Viewers = 0, ri_MaxPlayers = 0,
             ri_AllowViewers = False, ri_Language = [], ri_HybridConfirmMs = 0, ri_CreatedAt = 0, ri_UpdatedAt = 0,
             ri_Rules = cp_Rules p, ri_Times = tms, ri_Buzzer = cp_Buzzer p, ri_JoinMode = JoinAny\<rparr>,
          rm_armActive = False, rm_conns = (\<lambda>_. NewConn 0), rm_nextConn = 0, rm_mono = now, rm_wall = wall,
          rm_draws = 0, rm_sends = (\<lambda>_. 0), rm_log = []\<rparr>)"

definition put_room :: "room \<Rightarrow> manager \<Rightarrow> manager" where
  "put_room r m = m\<lparr>mg_rooms := mput (rm_code r) r (mg_rooms m)\<rparr>"

definition Create :: "manager_env \<Rightarrow> create_params \<Rightarrow> f64 \<Rightarrow> int \<Rightarrow> manager \<Rightarrow>
    ((manager_error + room_info \<times> string) \<times> manager) option" where
  "Create mv p now wall m =
     (let ev = mv_room mv; p = with_defaults mv p
      in if mg_stopped m then Some (Inl (RoomErr ErrRoomClosed), m)
         else case create_check mv p of
             Inl e \<Rightarrow> Some (Inl e, m)
           | Inr pk \<Rightarrow>
               let token = ev_token ev (mg_draws m); m = m\<lparr>mg_draws := Suc (mg_draws m)\<rparr>
               in if mv_MaxRooms mv \<le> length (mg_rooms m) then Some (Inl ErrTooManyRooms, m)
                  else
                    let i = ev_id ev (mg_draws m)
                    in case newCode (mv_code_bytes mv) (map fst (mg_rooms m)) (mg_codes m) of
                         None \<Rightarrow> None
                       | Some (code, n) \<Rightarrow>
                           let r = publishInfo (syncAIShowman ev (new_room p pk i code (ev_hash ev token) now wall));
                               m' = m\<lparr>mg_draws := Suc (mg_draws m), mg_codes := n\<rparr>
                           in if ev_db ev \<and> \<not> mv_insert mv (settingsDoc r) then Some (Inl ErrRoomInsert, m')
                              else Some (Inr (rm_info r, token), put_room (startQualityTicker ev r) m'))"

subsection \<open>Finding rooms\<close>

definition lookup :: "manager_env \<Rightarrow> string \<Rightarrow> manager \<Rightarrow> room option" where
  "lookup mv code m = map_of (mg_rooms m) (ToUpper (tx_go (ev_text (mv_room mv))) (TrimSpace code))"

definition Get :: "manager_env \<Rightarrow> string \<Rightarrow> manager \<Rightarrow> room_info option" where
  "Get mv code m = map_option rm_info (lookup mv code m)"

definition List_rooms :: "manager \<Rightarrow> room_info list" where
  "List_rooms m = sort_key (\<lambda>i. (- ri_CreatedAt i, ri_Code i)) (map (\<lambda>(k, r). rm_info r) (mg_rooms m))"

subsection \<open>Calls\<close>

text \<open>A turn of the room with this code; a room that closed leaves the map.\<close>

definition after_turn :: "room \<Rightarrow> manager \<Rightarrow> manager" where
  "after_turn r m = (if rm_closing r then m\<lparr>mg_rooms := mdel (rm_code r) (mg_rooms m)\<rparr> else put_room r m)"

definition room_turn :: "manager_env \<Rightarrow> f64 \<Rightarrow> int \<Rightarrow> room_input \<Rightarrow> room \<Rightarrow> manager \<Rightarrow> (room_reply \<times> manager) option" where
  "room_turn mv now wall x r m =
     (case turn (mv_room mv) now wall x r of
        None \<Rightarrow> None
      | Some (reply, r) \<Rightarrow> Some (reply, after_turn r m))"

definition call :: "manager_env \<Rightarrow> f64 \<Rightarrow> int \<Rightarrow> string \<Rightarrow> room_input \<Rightarrow> manager \<Rightarrow>
    ((manager_error + room_reply) \<times> manager) option" where
  "call mv now wall code x m =
     (case lookup mv code m of
        None \<Rightarrow> Some (Inl ErrRoomNotFound, m)
      | Some r \<Rightarrow> map_option (\<lambda>(reply, m). (Inr reply, m)) (room_turn mv now wall x r m))"

definition hostCall :: "manager_env \<Rightarrow> f64 \<Rightarrow> int \<Rightarrow> string \<Rightarrow> string \<Rightarrow> room_input \<Rightarrow> manager \<Rightarrow>
    ((manager_error + room_reply) \<times> manager) option" where
  "hostCall mv now wall code token x m =
     (case lookup mv code m of
        None \<Rightarrow> Some (Inl ErrRoomNotFound, m)
      | Some r \<Rightarrow>
          if ev_hash (mv_room mv) token \<noteq> rm_hostHash r then Some (Inl (RoomErr ErrInvalidHostToken), m)
          else map_option (\<lambda>(reply, m). (Inr reply, m)) (room_turn mv now wall x r m))"

text \<open>The calls of the manager, with their tokens.\<close>

datatype (plugins only: code) manager_call =
    Join_call join_params string
  | Leave_call string
  | Attach_call string nat
  | UpdateSettings_call string settings_patch
  | Kick_call string string bool
  | Unban_call string string
  | TransferHost_call string string
  | BuzzLog_call string string
  | Close_call string

definition manager_step :: "manager_env \<Rightarrow> f64 \<Rightarrow> int \<Rightarrow> string \<Rightarrow> manager_call \<Rightarrow> manager \<Rightarrow>
    ((manager_error + room_reply) \<times> manager) option" where
  "manager_step mv now wall code c m =
     (case c of
        Join_call jp tok \<Rightarrow> call mv now wall code (JoinCall jp tok) m
      | Leave_call tok \<Rightarrow> call mv now wall code (LeaveCall tok) m
      | Attach_call tok s \<Rightarrow> call mv now wall code (AttachCall tok s) m
      | UpdateSettings_call tok pt \<Rightarrow> hostCall mv now wall code tok (SettingsCall pt) m
      | Kick_call tok i ban \<Rightarrow> hostCall mv now wall code tok (KickCall i ban) m
      | Unban_call tok i \<Rightarrow> hostCall mv now wall code tok (UnbanCall i) m
      | TransferHost_call tok i \<Rightarrow> hostCall mv now wall code tok (HostCall i) m
      | BuzzLog_call tok q \<Rightarrow> hostCall mv now wall code tok (BuzzLogCall q) m
      | Close_call tok \<Rightarrow> hostCall mv now wall code tok (CloseCall ''host'') m)"

subsection \<open>The sweeper and the end\<close>

definition close_where :: "manager_env \<Rightarrow> f64 \<Rightarrow> int \<Rightarrow> (room \<Rightarrow> bool) \<Rightarrow> string \<Rightarrow> manager \<Rightarrow> manager" where
  "close_where mv now wall which reason m =
     fold (\<lambda>(k, r) m. if which r then after_turn (closeRoom (mv_room mv) reason (clocked now wall r)) m else m)
       (mg_rooms m) m"

definition sweep :: "manager_env \<Rightarrow> f64 \<Rightarrow> int \<Rightarrow> manager \<Rightarrow> manager" where
  "sweep mv now wall = close_where mv now wall (\<lambda>r. rm_lastActivity r < wall - mv_RoomTTLMs mv) ''ttl''"

definition Shutdown :: "manager_env \<Rightarrow> f64 \<Rightarrow> int \<Rightarrow> manager \<Rightarrow> manager" where
  "Shutdown mv now wall m =
     (if mg_stopped m then m
      else close_where mv now wall (\<lambda>r. True) ''shutdown'' (m\<lparr>mg_stopped := True\<rparr>))"

end
