(* ===== verification/Room_Frame.thy ===== *)
theory Room_Frame
  imports Room_Inbox Engine_Secrecy
begin

text \<open>
  What the inner functions of a room leave alone. \<open>proceeds r r'\<close>: from \<open>r\<close> to \<open>r'\<close> the people, their connections
  and the rules of the house stay the same, and every message sent meanwhile went to somebody connected
  who may hear it. It holds for everything below the functions that let people in, out or change their
  rights, so those need no second look at what is sent.
\<close>

subsection \<open>Who may hear what\<close>

text \<open>
  Who may receive a message, by identifier, role and being host: what is for the showman goes to showmen, a request
  to one person to that person or to a showman who gets the copy, full button results to the staff, audits to the host.
\<close>

definition may_hear :: "out_msg \<Rightarrow> string \<Rightarrow> role \<Rightarrow> bool \<Rightarrow> bool" where
  "may_hear m i rl h = (case m of
       MsgEvent e \<Rightarrow> \<not> room_only e \<and> (showman_only e \<or> hidden_amount e \<longrightarrow> rl = RoleShowman) \<and>
       (\<forall>j. asked_person e = Some j \<longrightarrow> i = j \<or> rl = RoleShowman)
     | MsgSnapshot pub s b n \<Rightarrow> (case s of None \<Rightarrow> True | Some s \<Rightarrow> \<exists>g. Snapshot rl i g = Some s)
     | MsgButtonResult res \<Rightarrow> rl = RoleShowman \<or> h
     | MsgButtonAudit a \<Rightarrow> h
     | MsgConnQuality es \<Rightarrow> rl = RoleShowman \<or> h \<or> list_all (\<lambda>e. cq_Flags e = [] \<and> cq_Trust e = None) es
     | MsgAIVerdict v \<Rightarrow> rl = RoleShowman
     | MsgSyncAck a b c d md \<Rightarrow> m_Flags md = []
     | _ \<Rightarrow> True)"

lemma may_hear_simps [simp]:
  "may_hear (MsgWelcome a1 a2 a3 a4 a5 a6 a7 a8) i rl h" "may_hear (MsgResume n k c) i rl h"
  "may_hear (MsgRoomPersons vs) i rl h" "may_hear (MsgRoomSettings pub) i rl h" "may_hear (MsgChat b1 b2 b3 b4) i rl h"
  "may_hear (MsgRoomClosed s) i rl h" "may_hear MsgSessionReplaced i rl h" "may_hear (MsgKicked b) i rl h"
  "may_hear (MsgError ec ref) i rl h" "may_hear (MsgButtonArm am) i rl h" "may_hear (MsgPressAck s ack) i rl h"
  "may_hear (MsgPressPending s s') i rl h" "may_hear (MsgButtonResultPublic br) i rl h"
  "may_hear (MsgLockout lo) i rl h" "may_hear (MsgAIVerdictPublic s src) i rl h" "may_hear (MsgHostChanged s) i rl h"
  "may_hear (MsgEvent e) i rl h \<longleftrightarrow> \<not> room_only e \<and> (showman_only e \<or> hidden_amount e \<longrightarrow> rl = RoleShowman) \<and>
       (\<forall>j. asked_person e = Some j \<longrightarrow> i = j \<or> rl = RoleShowman)"
  "may_hear (MsgSnapshot pub None bn seq) i rl h"
  "may_hear (MsgButtonResult res) i rl h \<longleftrightarrow> rl = RoleShowman \<or> h"
  "may_hear (MsgButtonAudit ba) i rl h \<longleftrightarrow> h"
  "may_hear (MsgAIVerdict v) i rl h \<longleftrightarrow> rl = RoleShowman"
  "may_hear (MsgSyncAck c1 c2 c3 c4 md) i rl h \<longleftrightarrow> m_Flags md = []"
  by (simp_all add: may_hear_def)

subsection \<open>What stays\<close>

text \<open>A person without what sending, pressing, chatting and resuming change.\<close>

definition shape :: "person \<Rightarrow> person" where
  "shape p = p\<lparr>pe_tokenHash := [], pe_kicked := False, pe_anchored := False, pe_lastSeq := 0, pe_prevLastSeq := 0,
     pe_ring := newResumeRing 0, pe_lastChatAt := 0, pe_buttonsWon := 0, pe_lockedUntil := 0, pe_lockoutSent := 0\<rparr>"

definition people :: "room \<Rightarrow> (string \<times> person) list" where
  "people r = map (\<lambda>(k, p). (k, shape p)) (rm_persons r)"

definition house :: "room \<Rightarrow> (string \<times> person) list \<times> string list \<times> showman_mode \<times> nat \<times> bool \<times> string" where
  "house r = (people r, rm_order r, rm_showman r, rm_maxPlayers r, rm_closing r, rm_code r)"

lemma shape_sel [simp]:
  "pe_ID (shape p) = pe_ID p" "pe_Name (shape p) = pe_Name p" "pe_Role (shape p) = pe_Role p"
  "pe_IsHost (shape p) = pe_IsHost p" "pe_IsAI (shape p) = pe_IsAI p"
  "pe_conn (shape p) = pe_conn p" "pe_connected (shape p) = pe_connected p" "pe_bconn (shape p) = pe_bconn p"
  "pe_gen (shape p) = pe_gen p"
  by (simp_all add: shape_def)

lemma shape_upd [simp]:
  "shape (p\<lparr>pe_lastSeq := a\<rparr>) = shape p" "shape (p\<lparr>pe_ring := b\<rparr>) = shape p" "shape (p\<lparr>pe_lastChatAt := c\<rparr>) = shape p"
  "shape (p\<lparr>pe_buttonsWon := d\<rparr>) = shape p" "shape (p\<lparr>pe_lockedUntil := e\<rparr>) = shape p"
  "shape (p\<lparr>pe_lockoutSent := f\<rparr>) = shape p" "shape (p\<lparr>pe_tokenHash := g\<rparr>) = shape p"
  "shape (p\<lparr>pe_kicked := h\<rparr>) = shape p" "shape (p\<lparr>pe_anchored := j\<rparr>) = shape p"
  "shape (p\<lparr>pe_prevLastSeq := k\<rparr>) = shape p"
  by (simp_all add: shape_def)

lemma people_person: "map_of (people r) i = map_option shape (person_of r i)"
  unfolding people_def person_of_def by (simp add: map_of_map comp_def)

lemma people_upd_person [simp]: "(\<And>p. shape (f p) = shape p) \<Longrightarrow> people (upd_person i f r) = people r"
  by (auto simp: people_def upd_person_def)

lemma house_upd_person [simp]: "(\<And>p. shape (f p) = shape p) \<Longrightarrow> house (upd_person i f r) = house r"
  by (simp add: house_def) (simp add: upd_person_def)

lemma upd_person_rest [simp]:
  "rm_log (upd_person i f r) = rm_log r" "rm_order (upd_person i f r) = rm_order r"
  "rm_game (upd_person i f r) = rm_game r" "rm_closing (upd_person i f r) = rm_closing r"
  "rm_followUps (upd_person i f r) = rm_followUps r" "rm_dispatchDepth (upd_person i f r) = rm_dispatchDepth r"
  "rm_showman (upd_person i f r) = rm_showman r" "rm_maxPlayers (upd_person i f r) = rm_maxPlayers r"
  "rm_code (upd_person i f r) = rm_code r" "rm_arm (upd_person i f r) = rm_arm r"
  "rm_draws (upd_person i f r) = rm_draws r"
  by (simp_all add: upd_person_def)

lemma house_same_person:
  "house r' = house r \<Longrightarrow> map_option shape (person_of r' i) = map_option shape (person_of r i)"
  by (metis house_def people_person prod.inject)

definition heard :: "room \<Rightarrow> effect \<Rightarrow> bool" where
  "heard r x = (case x of
       Sent i rl h s m \<Rightarrow>
         (case person_of r i of
            None \<Rightarrow> False
          | Some p \<Rightarrow> pe_Role p = rl \<and> pe_IsHost p = h \<and> pe_conn p = Some s \<and> may_hear m i rl h)
     | _ \<Rightarrow> True)"

text \<open>
  The request to vote on an appeal carries accepted answers and names no voter. It is asked of those who take
  part in the room's game: of its players and its showman.
\<close>

definition takes_part :: "game option \<Rightarrow> string \<Rightarrow> bool" where
  "takes_part a i = (case a of None \<Rightarrow> False | Some g \<Rightarrow> i \<in> persons g)"

definition is_vote :: "out_msg \<Rightarrow> bool" where
  "is_vote m = (case m of MsgEvent e \<Rightarrow> vote_request e | _ \<Rightarrow> False)"

definition vote_sent :: "effect \<Rightarrow> string \<Rightarrow> bool" where
  "vote_sent x i = (case x of Sent j rl h s m \<Rightarrow> j = i \<and> is_vote m | _ \<Rightarrow> False)"

lemma is_vote_simps [simp]:
  "is_vote (MsgEvent e) = vote_request e"
  "\<not> is_vote (MsgWelcome a1 a2 a3 a4 a5 a6 a7 a8)" "\<not> is_vote (MsgResume n k c)"
  "\<not> is_vote (MsgRoomPersons vs)" "\<not> is_vote (MsgRoomSettings pub)" "\<not> is_vote (MsgChat b1 b2 b3 b4)"
  "\<not> is_vote (MsgRoomClosed s)" "\<not> is_vote MsgSessionReplaced" "\<not> is_vote (MsgKicked b)"
  "\<not> is_vote (MsgError ec ref)" "\<not> is_vote (MsgButtonArm am)" "\<not> is_vote (MsgPressAck s ack)"
  "\<not> is_vote (MsgPressPending s s')" "\<not> is_vote (MsgButtonResultPublic br)"
  "\<not> is_vote (MsgLockout lo)" "\<not> is_vote (MsgAIVerdictPublic s src)" "\<not> is_vote (MsgHostChanged s)"
  "\<not> is_vote (MsgSnapshot pub sn bn seq)" "\<not> is_vote (MsgButtonResult res)" "\<not> is_vote (MsgButtonAudit ba)"
  "\<not> is_vote (MsgAIVerdict v)" "\<not> is_vote (MsgSyncAck c1 c2 c3 c4 md)" "\<not> is_vote (MsgConnQuality es)"
  by (simp_all add: is_vote_def)

lemma vote_sent_simps [simp]:
  "vote_sent (Sent j rl h s m) i \<longleftrightarrow> j = i \<and> is_vote m"
  by (simp add: vote_sent_def)

definition polled :: "game option \<Rightarrow> effect \<Rightarrow> bool" where
  "polled a x \<longleftrightarrow> (\<forall>i. vote_sent x i \<longrightarrow> takes_part a i)"

definition game_keeps :: "game option \<Rightarrow> game option \<Rightarrow> bool" where
  "game_keeps a b \<longleftrightarrow> (\<forall>i. takes_part a i \<longrightarrow> takes_part b i)"

lemma game_keeps_simps [simp]:
  "game_keeps a a" "game_keeps None b" "game_keeps (Some g) (Some h) \<longleftrightarrow> persons g \<subseteq> persons h"
  by (auto simp: game_keeps_def takes_part_def)

lemma game_keeps_trans: "game_keeps a b \<Longrightarrow> game_keeps b c \<Longrightarrow> game_keeps a c"
  by (simp add: game_keeps_def)

lemma polled_simps [simp]:
  "polled a (Sent j rl h s m) \<longleftrightarrow> (is_vote m \<longrightarrow> takes_part a j)"
  "polled a (ClosedSocket n k)" "polled a (AnchorsStarted t n)" "polled a (SavedRoom t st rs z)"
  "polled a (SavedResult t gr)" "polled a (Judging av req)" "polled a (RemovedRoom t)"
  by (simp_all add: polled_def vote_sent_def)

lemma polled_keeps: "game_keeps a b \<Longrightarrow> polled a x \<Longrightarrow> polled b x"
  by (auto simp: polled_def game_keeps_def)

lemma heard_cong: "house r' = house r \<Longrightarrow> heard r' = heard r"
proof
  fix x
  assume h: "house r' = house r"
  show "heard r' x = heard r x"
  proof (cases x)
    case (Sent i rl hst s m)
    from house_same_person [OF h, of i] show ?thesis
      by (cases "person_of r i"; cases "person_of r' i")
         (simp_all add: heard_def Sent, metis shape_sel)
  qed (simp_all add: heard_def)
qed

text \<open>
  \<open>rm_draws\<close> grows, so that identifiers drawn later are new. The game may be swapped for another one as long
  as nobody who takes part is forgotten.
\<close>

definition same_house :: "room \<Rightarrow> room \<Rightarrow> bool" where
  "same_house r r' \<longleftrightarrow> house r' = house r \<and> rm_draws r \<le> rm_draws r' \<and> game_keeps (rm_game r) (rm_game r') \<and>
     (\<exists>xs. rm_log r' = rm_log r @ xs \<and> list_all (heard r) xs \<and> list_all (polled (rm_game r')) xs)"

text \<open>The game, if there is one, goes on by commands that return or are refused.\<close>

definition game_moves :: "game option \<Rightarrow> game option \<Rightarrow> bool" where
  "game_moves a b = (case a of None \<Rightarrow> b = None | Some g \<Rightarrow> (case b of None \<Rightarrow> False | Some h \<Rightarrow> leads_to g h))"

definition proceeds :: "room \<Rightarrow> room \<Rightarrow> bool" where
  "proceeds r r' \<longleftrightarrow> same_house r r' \<and> game_moves (rm_game r) (rm_game r')"

lemma game_moves_keeps: "game_moves a b \<Longrightarrow> game_keeps a b"
  by (auto simp: game_moves_def dest: leads_to_persons split: option.splits)

lemma leads_to_trans: "leads_to h k \<Longrightarrow> leads_to g h \<Longrightarrow> leads_to g k"
  by (induction rule: leads_to.induct) (auto intro: leads_to.intros)

lemma game_moves_refl [simp]: "game_moves a a"
  by (simp add: game_moves_def leads_to.none split: option.split)

lemma game_moves_Some [simp]: "game_moves (Some g) (Some h) = leads_to g h"
  by (simp add: game_moves_def)

lemma game_moves_trans: "game_moves a b \<Longrightarrow> game_moves b c \<Longrightarrow> game_moves a c"
  by (auto simp: game_moves_def leads_to_trans split: option.splits)

lemma house_upd [simp]:
  "house (r\<lparr>rm_id := v0\<rparr>) = house r"
  "house (r\<lparr>rm_createdAt := v1\<rparr>) = house r"
  "house (r\<lparr>rm_updatedAt := v2\<rparr>) = house r"
  "house (r\<lparr>rm_startedAt := v3\<rparr>) = house r"
  "house (r\<lparr>rm_name := v4\<rparr>) = house r"
  "house (r\<lparr>rm_password := v5\<rparr>) = house r"
  "house (r\<lparr>rm_hostHash := v6\<rparr>) = house r"
  "house (r\<lparr>rm_packID := v7\<rparr>) = house r"
  "house (r\<lparr>rm_pack := v8\<rparr>) = house r"
  "house (r\<lparr>rm_rules := v9\<rparr>) = house r"
  "house (r\<lparr>rm_times := v10\<rparr>) = house r"
  "house (r\<lparr>rm_bz := v11\<rparr>) = house r"
  "house (r\<lparr>rm_hybridConfirmMs := v12\<rparr>) = house r"
  "house (r\<lparr>rm_allowViewers := v13\<rparr>) = house r"
  "house (r\<lparr>rm_language := v14\<rparr>) = house r"
  "house (r\<lparr>rm_joinMode := v15\<rparr>) = house r"
  "house (r\<lparr>rm_status := v16\<rparr>) = house r"
  "house (r\<lparr>rm_bannedNames := v17\<rparr>) = house r"
  "house (r\<lparr>rm_bannedIDs := v18\<rparr>) = house r"
  "house (r\<lparr>rm_game := v19\<rparr>) = house r"
  "house (r\<lparr>rm_followUps := v20\<rparr>) = house r"
  "house (r\<lparr>rm_dispatchDepth := v21\<rparr>) = house r"
  "house (r\<lparr>rm_timers := v22\<rparr>) = house r"
  "house (r\<lparr>rm_arm := v23\<rparr>) = house r"
  "house (r\<lparr>rm_armGen := v24\<rparr>) = house r"
  "house (r\<lparr>rm_lastWinnerSeat := v25\<rparr>) = house r"
  "house (r\<lparr>rm_records := v26\<rparr>) = house r"
  "house (r\<lparr>rm_hybridTimer := v27\<rparr>) = house r"
  "house (r\<lparr>rm_hybridKey := v28\<rparr>) = house r"
  "house (r\<lparr>rm_qualityTimer := v29\<rparr>) = house r"
  "house (r\<lparr>rm_lastActivity := v30\<rparr>) = house r"
  "house (r\<lparr>rm_info := v31\<rparr>) = house r"
  "house (r\<lparr>rm_armActive := v32\<rparr>) = house r"
  "house (r\<lparr>rm_conns := v33\<rparr>) = house r"
  "house (r\<lparr>rm_nextConn := v34\<rparr>) = house r"
  "house (r\<lparr>rm_mono := v35\<rparr>) = house r"
  "house (r\<lparr>rm_wall := v36\<rparr>) = house r"
  "house (r\<lparr>rm_draws := v37\<rparr>) = house r"
  "house (r\<lparr>rm_sends := v38\<rparr>) = house r"
  "house (r\<lparr>rm_log := v39\<rparr>) = house r"
  by (simp_all add: house_def people_def)

lemma house_closing: "house r' = house r \<Longrightarrow> rm_closing r' = rm_closing r"
  by (simp add: house_def)

lemma house_order: "house r' = house r \<Longrightarrow> rm_order r' = rm_order r"
  by (simp add: house_def)

subsection \<open>Rules for \<open>proceeds\<close>\<close>

lemma same_house_refl [simp, intro]: "same_house r r"
  by (simp add: same_house_def)

lemma same_house_trans: "same_house r s \<Longrightarrow> same_house s t \<Longrightarrow> same_house r t"
  using heard_cong [of s r] polled_keeps [of "rm_game s" "rm_game t"] game_keeps_trans
  by (auto simp: same_house_def list_all_iff)

lemma same_house_same:
  "same_house r s \<Longrightarrow> house t = house s \<Longrightarrow> rm_log t = rm_log s \<Longrightarrow> rm_draws s \<le> rm_draws t \<Longrightarrow>
     game_keeps (rm_game s) (rm_game t) \<Longrightarrow> same_house r t"
  using polled_keeps [of "rm_game s" "rm_game t"] game_keeps_trans by (auto simp: same_house_def list_all_iff)

lemma proceeds_refl [simp, intro]: "proceeds r r"
  by (simp add: proceeds_def)

lemma proceeds_trans: "proceeds r s \<Longrightarrow> proceeds s t \<Longrightarrow> proceeds r t"
  using same_house_trans game_moves_trans by (auto simp: proceeds_def)

lemma proceeds_same:
  "proceeds r s \<Longrightarrow> house t = house s \<Longrightarrow> rm_log t = rm_log s \<Longrightarrow> rm_draws s \<le> rm_draws t \<Longrightarrow>
     rm_game t = rm_game s \<Longrightarrow> proceeds r t"
  using same_house_same [of r s t] by (simp add: proceeds_def)

lemma proceeds_draws: "proceeds r s \<Longrightarrow> rm_draws s \<le> n \<Longrightarrow> proceeds r (s\<lparr>rm_draws := n\<rparr>)"
  by (rule proceeds_same) simp_all

lemma proceeds_game:
  "proceeds r s \<Longrightarrow> game_moves (rm_game s) a \<Longrightarrow> proceeds r (s\<lparr>rm_game := a\<rparr>)"
  using same_house_same [of r s "s\<lparr>rm_game := a\<rparr>"] game_moves_keeps game_moves_trans by (auto simp: proceeds_def)

lemma proceeds_same_house: "proceeds r s \<Longrightarrow> same_house r s"
  by (simp add: proceeds_def)

lemma same_house_house: "same_house r s \<Longrightarrow> house s = house r"
  by (simp add: same_house_def)

lemma proceeds_house: "proceeds r s \<Longrightarrow> house s = house r"
  by (simp add: proceeds_def same_house_def)

lemma proceeds_log:
  "proceeds r s \<Longrightarrow> heard s x \<Longrightarrow> polled (rm_game s) x \<Longrightarrow> proceeds r (log_effect x s)"
  using heard_cong [of s r] by (auto simp: proceeds_def same_house_def log_effect_def)

lemma proceeds_upd_person: "proceeds r s \<Longrightarrow> (\<And>p. shape (f p) = shape p) \<Longrightarrow> proceeds r (upd_person i f s)"
  by (erule proceeds_same) simp_all

lemma proceeds_fold:
  assumes "proceeds r s" and "\<And>x t. x \<in> set xs \<Longrightarrow> proceeds s t \<Longrightarrow> proceeds s (f x t)"
  shows "proceeds r (fold f xs s)"
proof -
  have "proceeds s t \<Longrightarrow> proceeds s (fold f xs t)" for t
    using assms(2) by (induction xs arbitrary: t) auto
  then show ?thesis by (meson assms(1) proceeds_refl proceeds_trans)
qed

text \<open>Rules for the plain updates, applied as the simplifier rewrites the frame.\<close>

lemma proceeds_upd [simp]:
  assumes "proceeds r s"
  shows
    "proceeds r (s\<lparr>rm_id := w0\<rparr>)"
    "proceeds r (s\<lparr>rm_createdAt := w1\<rparr>)"
    "proceeds r (s\<lparr>rm_updatedAt := w2\<rparr>)"
    "proceeds r (s\<lparr>rm_startedAt := w3\<rparr>)"
    "proceeds r (s\<lparr>rm_name := w4\<rparr>)"
    "proceeds r (s\<lparr>rm_password := w5\<rparr>)"
    "proceeds r (s\<lparr>rm_hostHash := w6\<rparr>)"
    "proceeds r (s\<lparr>rm_packID := w7\<rparr>)"
    "proceeds r (s\<lparr>rm_pack := w8\<rparr>)"
    "proceeds r (s\<lparr>rm_rules := w9\<rparr>)"
    "proceeds r (s\<lparr>rm_times := w10\<rparr>)"
    "proceeds r (s\<lparr>rm_bz := w11\<rparr>)"
    "proceeds r (s\<lparr>rm_hybridConfirmMs := w12\<rparr>)"
    "proceeds r (s\<lparr>rm_allowViewers := w13\<rparr>)"
    "proceeds r (s\<lparr>rm_language := w14\<rparr>)"
    "proceeds r (s\<lparr>rm_joinMode := w15\<rparr>)"
    "proceeds r (s\<lparr>rm_status := w16\<rparr>)"
    "proceeds r (s\<lparr>rm_bannedNames := w17\<rparr>)"
    "proceeds r (s\<lparr>rm_bannedIDs := w18\<rparr>)"
    "proceeds r (s\<lparr>rm_followUps := w20\<rparr>)"
    "proceeds r (s\<lparr>rm_dispatchDepth := w21\<rparr>)"
    "proceeds r (s\<lparr>rm_timers := w22\<rparr>)"
    "proceeds r (s\<lparr>rm_arm := w23\<rparr>)"
    "proceeds r (s\<lparr>rm_armGen := w24\<rparr>)"
    "proceeds r (s\<lparr>rm_lastWinnerSeat := w25\<rparr>)"
    "proceeds r (s\<lparr>rm_records := w26\<rparr>)"
    "proceeds r (s\<lparr>rm_hybridTimer := w27\<rparr>)"
    "proceeds r (s\<lparr>rm_hybridKey := w28\<rparr>)"
    "proceeds r (s\<lparr>rm_qualityTimer := w29\<rparr>)"
    "proceeds r (s\<lparr>rm_lastActivity := w30\<rparr>)"
    "proceeds r (s\<lparr>rm_info := w31\<rparr>)"
    "proceeds r (s\<lparr>rm_armActive := w32\<rparr>)"
    "proceeds r (s\<lparr>rm_conns := w33\<rparr>)"
    "proceeds r (s\<lparr>rm_nextConn := w34\<rparr>)"
    "proceeds r (s\<lparr>rm_mono := w35\<rparr>)"
    "proceeds r (s\<lparr>rm_wall := w36\<rparr>)"
    "proceeds r (s\<lparr>rm_sends := w38\<rparr>)"
  by (rule proceeds_same [OF assms]; simp)+

subsection \<open>Sending\<close>

lemma map_of_one_changed:
  "map_of (map (\<lambda>(k, p). (k, if k = i then f p else p)) ps) j =
     (if j = i then map_option f (map_of ps j) else map_of ps j)"
  by (induction ps) auto

lemma person_of_upd_person:
  "person_of (upd_person i f r) j = (if j = i then map_option f (person_of r j) else person_of r j)"
  by (simp add: person_of_def upd_person_def map_of_one_changed)

lemma person_of_rest [simp]:
  "person_of (r\<lparr>rm_sends := a\<rparr>) i = person_of r i" "person_of (log_effect x r) i = person_of r i"
  by (simp_all add: person_of_def log_effect_def)

lemma proceeds_sendRaw:
  assumes "proceeds r s"
    and "\<And>p. person_of s i = Some p \<Longrightarrow> may_hear m i (pe_Role p) (pe_IsHost p)"
    and "is_vote m \<Longrightarrow> takes_part (rm_game s) i"
  shows "proceeds r (sendRaw ev i m s)"
proof (cases "person_of s i")
  case None
  with assms(1) show ?thesis by (simp add: sendRaw_def)
next
  case (Some p)
  then show ?thesis
    unfolding sendRaw_def Let_def using assms
    by (auto split: option.split intro!: proceeds_log proceeds_upd_person simp: heard_def polled_def person_of_upd_person)
qed

lemma proceeds_broadcastRaw:
  assumes "proceeds r s"
    and "\<And>i p. to p \<Longrightarrow> may_hear m i (pe_Role p) (pe_IsHost p)"
    and "\<not> is_vote m"
  shows "proceeds r (broadcastRaw ev m to s)"
  unfolding broadcastRaw_def
  by (rule proceeds_fold [OF assms(1)]) (auto split: option.split intro!: proceeds_sendRaw assms(2) dest: notE [OF assms(3)])

lemma proceeds_broadcast:
  "proceeds r s \<Longrightarrow> (\<And>i rl h. may_hear m i rl h) \<Longrightarrow> \<not> is_vote m \<Longrightarrow> proceeds r (broadcast ev m s)"
  unfolding broadcast_def by (rule proceeds_broadcastRaw)

end
