(* ===== verification/Room_Proceeds.thy ===== *)
theory Room_Proceeds
  imports Room_Frame
begin

text \<open>
  Every function below the door of a room proceeds (see \<open>Room_Frame\<close>): timers, the buzzer, the judge, the
  engine's events, the follow-up commands. The rules are collected as \<open>proceeding\<close>; the one assumption is that
  persons are kept under their own identifiers.
\<close>

named_theorems proceeding

lemmas proceeds_basic [proceeding] =
  proceeds_refl proceeds_upd proceeds_draws proceeds_game proceeds_sendRaw proceeds_broadcastRaw proceeds_broadcast proceeds_upd_person

definition keyed :: "room \<Rightarrow> bool" where
  "keyed r \<longleftrightarrow> list_all (\<lambda>(k, p). pe_ID p = k) (people r)"

lemma keyed_cong: "house r' = house r \<Longrightarrow> keyed r' = keyed r"
  by (simp add: keyed_def house_def)

lemma keyed_proceeds: "proceeds r s \<Longrightarrow> keyed r \<Longrightarrow> keyed s"
  using keyed_cong proceeds_house by blast

lemma keyed_person: "keyed r \<Longrightarrow> person_of r i = Some p \<Longrightarrow> pe_ID p = i"
  by (fastforce simp: keyed_def people_def list_all_iff person_of_def dest: map_of_SomeD)

lemma ordered_persons_iff: "p \<in> set (ordered_persons r) \<longleftrightarrow> (\<exists>i \<in> set (rm_order r). person_of r i = Some p)"
  by (auto simp: ordered_persons_def map_filter_def image_iff)

lemma find_SomeD: "List.find P xs = Some x \<Longrightarrow> x \<in> set xs \<and> P x"
  by (auto simp: find_Some_iff)

lemma hostPersonD: "keyed r \<Longrightarrow> hostPerson r = Some h \<Longrightarrow> person_of r (pe_ID h) = Some h \<and> pe_IsHost h"
  by (fastforce simp: hostPerson_def ordered_persons_iff dest!: find_SomeD dest: keyed_person)

subsection \<open>Core\<close>

lemma proceeds_touch [proceeding]: "proceeds r s \<Longrightarrow> proceeds r (touch s)"
  unfolding touch_def by (intro proceeding)

lemma proceeds_publishInfo [proceeding]: "proceeds r s \<Longrightarrow> proceeds r (publishInfo s)"
  unfolding publishInfo_def by (intro proceeding)

lemma proceeds_broadcastPersons [proceeding]: "proceeds r s \<Longrightarrow> proceeds r (broadcastPersons ev s)"
  unfolding broadcastPersons_def by (intro proceeding) simp_all

lemma proceeds_sendError [proceeding]: "proceeds r s \<Longrightarrow> proceeds r (sendError ev i c ref s)"
  unfolding sendError_def by (intro proceeding) simp_all

lemma proceeds_sendWelcome [proceeding]: "proceeds r s \<Longrightarrow> proceeds r (sendWelcome ev i s)"
  unfolding sendWelcome_def by (auto split: option.split intro!: proceeding)

lemma proceeds_forward [proceeding]:
  assumes "proceeds r s" and "discreet_event P (aud, e)" and "\<forall>v \<in> P. takes_part (rm_game s) v" and "\<not> IsRoomOnly aud"
  shows "proceeds r (forward ev aud e s)"
  using assms(2-4) unfolding forward_def discreet_event_def IsRoomOnly_def
  by (cases aud) (auto intro!: proceeding assms(1))

lemma proceeds_persistRoom [proceeding]: "proceeds r s \<Longrightarrow> proceeds r (persistRoom ev s)"
  unfolding persistRoom_def by (auto intro!: proceeds_log simp: heard_def)

lemma proceeds_persistResult [proceeding]: "proceeds r s \<Longrightarrow> proceeds r (persistResult ev a b c d s)"
  unfolding persistResult_def Let_def by (auto intro!: proceeds_log proceeding simp: heard_def)

lemma proceeds_timers [proceeding]:
  assumes "proceeds r s"
  shows "proceeds r (stop_timer i s)" "proceeds r (scheduleTimer i ms s)" "proceeds r (snd (handleTimerEvent ev e s))"
  using assms unfolding handleTimerEvent_def scheduleTimer_def stop_timer_def Let_def
  by (cases e; simp add: proceeding)+

subsection \<open>The buzzer\<close>

lemma proceeds_arms [proceeding]:
  assumes "proceeds r s"
  shows "proceeds r (upd_arm f s)" "proceeds r (arm_and_conns st x s)" "proceeds r (scheduleResolve s)"
    "proceeds r (SetEligible_arm i s)"
  unfolding upd_arm_def arm_and_conns_def scheduleResolve_def SetEligible_arm_def by (intro proceeding assms)+

lemma proceeds_recordArm [proceeding]:
  assumes "proceeds r s" and "keyed r"
  shows "proceeds r (recordArm ev st res s)"
proof -
  have k: "keyed (s\<lparr>rm_records := a\<rparr>)" for a
    using assms proceeds_house [OF assms(1)] keyed_cong [of "s\<lparr>rm_records := a\<rparr>" r] by simp
  show ?thesis
    unfolding recordArm_def Let_def
    by (auto split: option.split intro!: proceeding assms(1) dest!: hostPersonD [OF k])
qed

lemma proceeds_cancelArm [proceeding]:
  "proceeds r s \<Longrightarrow> keyed r \<Longrightarrow> proceeds r (cancelArm ev reason s)"
  unfolding cancelArm_def Let_def by (auto split: option.split prod.split intro!: proceeding)

lemma proceeds_startArm [proceeding]:
  "proceeds r s \<Longrightarrow> keyed r \<Longrightarrow> proceeds r (startArm ev q el again s)"
  unfolding startArm_def Let_def by (auto split: option.split prod.split intro!: proceeding)

lemma proceeds_onArmSend [proceeding]: "proceeds r s \<Longrightarrow> proceeds r (onArmSend ev gen plan s)"
  unfolding onArmSend_def by (auto split: option.split intro!: proceeding)

lemma proceeds_roomLockout [proceeding]: "proceeds r s \<Longrightarrow> proceeds r (snd (roomLockout i now s))"
  by (simp add: roomLockout_def Let_def proceeding split: option.split)

lemma proceeds_announceLockout [proceeding]: "proceeds r s \<Longrightarrow> proceeds r (announceLockout ev i u now reason s)"
  by (simp add: announceLockout_def proceeding split: option.split)

lemma proceeds_presses [proceeding]:
  assumes "proceeds r s"
  shows "proceeds r (press_without_arm ev i pr t s)" "proceeds r (lockout_told ev i ack t s)"
  using assms unfolding press_without_arm_def lockout_told_def Let_def
  by (auto simp: split_def intro!: proceeding)

lemma proceeds_onPress [proceeding]: "proceeds r s \<Longrightarrow> proceeds r (onPress_room ev i pr t s)"
  unfolding onPress_room_def Let_def
  by (auto split: option.split press_status.split prod.split intro!: proceeding)

lemma proceeds_onArmAck [proceeding]: "proceeds r s \<Longrightarrow> proceeds r (onArmAck_room i aid t s)"
  unfolding onArmAck_room_def by (auto split: option.split intro!: proceeding)

lemma proceeds_onMisfire [proceeding]: "proceeds r s \<Longrightarrow> proceeds r (onMisfire_room ev i aid now s)"
  unfolding onMisfire_room_def Let_def
  by (auto simp: split_def split: option.split intro!: proceeding)

lemma public_quality: "list_all (\<lambda>e. cq_Flags e = [] \<and> cq_Trust e = None) (quality_entries False ping r)"
  by (auto simp: quality_entries_def quality_entry_def list_all_iff map_filter_def Let_def split: if_splits)

lemma proceeds_quality [proceeding]:
  assumes "proceeds r s"
  shows "proceeds r (broadcastConnQuality ev s)" "proceeds r (startQualityTicker ev s)" "proceeds r (tickQuality ev s)"
  using assms public_quality
  by (auto simp: broadcastConnQuality_def startQualityTicker_def tickQuality_def Let_def isStaff_def may_hear_def
      intro!: proceeding)

subsection \<open>The judge and the engine's events\<close>

lemma proceeds_judge [proceeding]:
  assumes "proceeds r s"
  shows "proceeds r (enqueue cmd s)" "proceeds r (cancelHybrid s)" "proceeds r (onAskValidate ask s)"
    "proceeds r (announceVerdict ev i b f v applied preview s)" "proceeds r (ai_selects ev cands s)"
  using assms unfolding enqueue_def cancelHybrid_def onAskValidate_def announceVerdict_def ai_selects_def Let_def
  by (auto simp: heard_def isShowmanRole_def intro!: proceeding proceeds_log)

lemma proceeds_validationTimeout [proceeding]:
  "proceeds r s \<Longrightarrow> proceeds r (onValidationTimeout_room ev i a rights wrongs s)"
  unfolding onValidationTimeout_room_def Let_def by (auto split: prod.split intro!: proceeding)

lemma proceeds_question_over [proceeding]:
  "proceeds r s \<Longrightarrow> keyed r \<Longrightarrow> proceeds r (question_over ev reason s)"
  unfolding question_over_def by (intro proceeding)

lemma proceeds_observe [proceeding]:
  assumes "proceeds r s" and "keyed r"
  shows "proceeds r (observe ev e s)"
  unfolding observe_def by (cases e; simp add: proceeding assms Let_def)

lemma proceeds_handleInternal [proceeding]:
  assumes "proceeds r s" and "keyed r"
  shows "proceeds r (handleInternal ev e s)"
  unfolding handleInternal_def by (cases e; simp add: proceeding assms)

lemma timer_event_discreet:
  "discreet_event P (aud, e) \<Longrightarrow> discreet_event P (aud, fst (handleTimerEvent ev e s))"
  by (cases e) (auto simp: handleTimerEvent_def audience_defs Let_def)

lemma proceeds_dispatch_event [proceeding]:
  assumes "proceeds r s" and "keyed r" and "discreet_event P x" and "\<forall>v \<in> P. takes_part (rm_game s) v"
  shows "proceeds r (dispatch_event ev x s)"
proof (cases x)
  case (Pair aud e)
  define y where "y = (if IsTimer e then handleTimerEvent ev e s else (e, s))"
  have d: "discreet_event P (aud, fst y)"
    using assms(3) timer_event_discreet by (simp add: y_def Pair)
  have p: "proceeds r (snd y)"
    using assms(1) by (simp add: y_def proceeding)
  have "proceeds s (snd y)" by (simp add: y_def proceeding)
  moreover have "keyed s" using assms(1,2) by (rule keyed_proceeds)
  ultimately have "proceeds s (observe ev (fst y) (snd y))" by (intro proceeding)
  then have v: "\<forall>v \<in> P. takes_part (rm_game (observe ev (fst y) (snd y))) v"
    using assms(4) by (auto simp: proceeds_def same_house_def game_keeps_def)
  have "dispatch_event ev x s =
      (if IsRoomOnly aud then handleInternal ev (fst y) (snd y) else forward ev aud (fst y) (observe ev (fst y) (snd y)))"
    by (simp add: dispatch_event_def Pair y_def split_def Let_def)
  then show ?thesis using d p v assms(2) by (simp add: proceeding)
qed

lemma proceeds_dispatch [proceeding]:
  assumes "proceeds r s" and "keyed r" and "list_all (discreet_event P) evs" and v: "\<forall>v \<in> P. takes_part (rm_game s) v"
  shows "proceeds r (dispatch_room ev evs s)"
proof -
  let ?s = "s\<lparr>rm_dispatchDepth := Suc (rm_dispatchDepth s)\<rparr>"
  have p: "proceeds r ?s" using assms(1) by (intro proceeding)
  have "proceeds ?s (dispatch_event ev x t)" if "x \<in> set evs" "proceeds ?s t" for x t
  proof (rule proceeds_dispatch_event [OF that(2)])
    show "keyed ?s" using assms(2) p keyed_proceeds by blast
    show "discreet_event P x" using assms(3) that(1) by (simp add: list_all_iff)
    show "\<forall>v \<in> P. takes_part (rm_game t) v"
      using v that(2) by (auto simp: proceeds_def same_house_def game_keeps_def)
  qed
  then have "proceeds r (fold (dispatch_event ev) evs ?s)" by (rule proceeds_fold [OF p])
  then show ?thesis unfolding dispatch_room_def Let_def by (intro proceeding)
qed

subsection \<open>Commands to the engine\<close>

text \<open>The result of a function that may panic or never return: \<open>Q\<close> of what it returns, \<open>R\<close> of the room at a panic.\<close>

definition ends :: "('a \<Rightarrow> bool) \<Rightarrow> (room \<Rightarrow> bool) \<Rightarrow> 'a outcome \<Rightarrow> bool" where
  "ends Q R m = (case m of None \<Rightarrow> True | Some (Inl a) \<Rightarrow> Q a | Some (Inr r) \<Rightarrow> R r)"

lemma ends_simps [simp]:
  "ends Q R (returns a) = Q a" "ends Q R (panics r) = R r" "ends Q R None"
  "ends Q R (Some (Inl a)) = Q a" "ends Q R (Some (Inr r)) = R r"
  by (simp_all add: ends_def returns_def panics_def)

lemma ends_then: "ends P R m \<Longrightarrow> (\<And>a. P a \<Longrightarrow> ends Q R (f a)) \<Longrightarrow> ends Q R (and_then m f)"
  by (auto simp: ends_def [of P R m] ends_def [of Q R "Some (Inr r)" for r] and_then_def split: option.splits sum.splits)

lemma ends_mono: "ends P R m \<Longrightarrow> (\<And>a. P a \<Longrightarrow> Q a) \<Longrightarrow> ends Q R m"
  by (auto simp: ends_def split: option.splits sum.splits)

abbreviation stays :: "room \<Rightarrow> room outcome \<Rightarrow> bool" where
  "stays r \<equiv> ends (proceeds r) (same_house r)"

abbreviation stays_with :: "room \<Rightarrow> ('a \<times> room) outcome \<Rightarrow> bool" where
  "stays_with r \<equiv> ends (\<lambda>x. proceeds r (snd x)) (same_house r)"

lemma Apply_EventsD:
  "Apply cmd g = Some (Events evs h) \<Longrightarrow> leads_to g h \<and> list_all (discreet_event (persons h)) evs"
  by (auto intro: leads_to.intros dest: Apply_discreet)

lemma Apply_PanicD: "Apply cmd g = Some (Panic h) \<Longrightarrow> persons g \<subseteq> persons h"
  using Apply_persons [of cmd g "Panic h"] by simp

lemma takes_part_all [simp]: "\<forall>v \<in> persons h. takes_part (Some h) v"
  by (simp add: takes_part_def)

lemma Apply_ErrorD: "Apply cmd g = Some (Error e h) \<Longrightarrow> leads_to g h"
  by (auto intro: leads_to.intros)

lemma same_house_crashed [proceeding]:
  "proceeds r s \<Longrightarrow> game_keeps (rm_game s) a \<Longrightarrow> same_house r (s\<lparr>rm_game := a\<rparr>)"
  by (rule same_house_same, erule proceeds_same_house) simp_all

lemma stays_runFollowUps_aux:
  "runFollowUps ev s = Some x \<Longrightarrow> keyed r \<longrightarrow> proceeds r s \<longrightarrow> stays r (Some x)"
proof (induction rule: runFollowUps.raw_induct [rotated, consumes 1, case_names step])
  case (step run ev s x)
  show ?case
  proof (intro impI)
    assume k: "keyed r" and p: "proceeds r s"
    note IH = step(1) [rule_format, OF _ k]
    from step(2) show "stays r (Some x)"
      by (auto split: if_splits list.splits option.splits applied.splits simp: returns_def panics_def
          dest!: Apply_EventsD Apply_ErrorD Apply_PanicD intro!: proceeding p k intro: IH)
  qed
qed

lemma stays_runFollowUps: "keyed r \<Longrightarrow> proceeds r s \<Longrightarrow> stays r (runFollowUps ev s)"
  using stays_runFollowUps_aux [of ev s _ r] by (cases "runFollowUps ev s") auto

lemma stays_submit: "keyed r \<Longrightarrow> proceeds r s \<Longrightarrow> stays r (submit ev cmd s)"
  unfolding submit_def Let_def by (auto intro!: stays_runFollowUps proceeding)

lemma stays_apply: "keyed r \<Longrightarrow> proceeds r s \<Longrightarrow> stays_with r (apply_room ev cmd s)"
  unfolding apply_room_def
  by (auto split: option.split applied.split dest!: Apply_EventsD Apply_ErrorD Apply_PanicD intro!: ends_then stays_runFollowUps proceeding)

lemma stays_onTimeout: "keyed r \<Longrightarrow> proceeds r s \<Longrightarrow> stays r (onTimeout_room ev i s)"
  unfolding onTimeout_room_def Let_def
  by (auto intro!: ends_then [OF stays_apply] proceeding)

lemma proceeds_result_told [proceeding]: "proceeds r s \<Longrightarrow> proceeds r (result_told ev res s)"
  unfolding result_told_def
  by (rule proceeds_fold) (auto simp: isStaff_def split: option.split intro!: proceeding)

lemma stays_finishArm: "keyed r \<Longrightarrow> proceeds r s \<Longrightarrow> stays r (finishArm ev st res s)"
  unfolding finishArm_def Let_def
  by (auto split: option.split intro!: stays_submit proceeding)

lemma stays_onArmResolve: "keyed r \<Longrightarrow> proceeds r s \<Longrightarrow> stays r (onArmResolve ev gen s)"
  unfolding onArmResolve_def
  by (auto split: option.split prod.split intro!: stays_finishArm proceeding)

lemma proceeds_reopenButton: "keyed r \<Longrightarrow> proceeds r s \<Longrightarrow> proceeds r (snd (reopenButton ev aid s))"
  unfolding reopenButton_def Let_def by (auto split: option.split intro!: proceeding)

lemma stays_onAIVerdict: "keyed r \<Longrightarrow> proceeds r s \<Longrightarrow> stays r (onAIVerdict ev ask v s)"
  unfolding onAIVerdict_def Let_def
  by (auto simp: split_def intro!: ends_then [OF stays_submit] proceeding)

lemma stays_applyHybrid: "keyed r \<Longrightarrow> proceeds r s \<Longrightarrow> stays r (applyHybrid ev key ask v s)"
  unfolding applyHybrid_def Let_def
  by (auto simp: split_def intro!: ends_then [OF stays_submit] proceeding)

text \<open>A start opens a new game and plays in it.\<close>

lemma startGame_cases:
  assumes "keyed r" and "proceeds r s"
  shows "ends (\<lambda>x. proceeds r (snd x) \<or>
      (\<exists>t g. same_house r t \<and> rm_game s = None \<and> rm_game t = Some g \<and> reachable g \<and> proceeds t (snd x)))
    (same_house r) (startGame ev p s)"
proof -
  let ?id = "case humanShowman s of None \<Rightarrow> AIShowmanID | Some sm \<Rightarrow> pe_ID sm"
  show ?thesis
  proof (cases "rm_game s")
    case (Some h)
    then show ?thesis unfolding startGame_def using assms(2) by simp
  next
    case None
    show ?thesis
    proof (cases "New (ev_lib ev) (ev_rng ev (rm_draws s)) (Some (rm_pack s)) (rm_rules s) (rm_times s)
        (connected_players s) ?id")
      case (Inl e)
      then show ?thesis
        unfolding startGame_def Let_def by (auto intro!: proceeding assms(2))
    next
      case (Inr g)
      define t where "t = s\<lparr>rm_draws := Suc (rm_draws s), rm_game := Some g, rm_status := StatusPlaying,
        rm_startedAt := rm_wall s, rm_updatedAt := rm_wall s\<rparr>"
      have t: "same_house r t" "rm_game t = Some g"
        unfolding t_def by (auto intro!: same_house_same [OF proceeds_same_house [OF assms(2)]] simp: None)
      have g: "reachable g" using Inr by (rule reachable.start)
      have "keyed t" using t(1) assms(1) keyed_cong same_house_house by blast
      then have "stays_with t (apply_room ev (command_by (pe_actor p) CmdStart) (publishInfo (persistRoom ev t)))"
        by (intro stays_apply proceeding)
      then have *: "ends (\<lambda>x. proceeds t (snd x)) (same_house r)
          (apply_room ev (command_by (pe_actor p) CmdStart) (publishInfo (persistRoom ev t)))"
        using t(1) by (auto simp: ends_def split: option.splits sum.splits intro: same_house_trans)
      show ?thesis
        unfolding startGame_def Let_def Inr sum.case t_def [symmetric]
        using assms(2) t g None
        by (auto intro!: ends_mono [OF *])
    qed
  qed
qed

subsection \<open>Persons who are there\<close>

lemma proceeds_no_press [proceeding]: "proceeds r s \<Longrightarrow> proceeds r (no_press i s)"
  unfolding no_press_def by (auto intro!: proceeding)

lemma proceeds_mark_kicked [proceeding]: "proceeds r s \<Longrightarrow> proceeds r (mark_kicked ev i p ban s)"
  unfolding mark_kicked_def Let_def by (auto intro!: proceeding)

lemma stays_player_gone: "keyed r \<Longrightarrow> proceeds r s \<Longrightarrow> stays r (player_gone ev i tells s)"
  unfolding player_gone_def by (rule ends_then [where P = "proceeds r"]) (auto intro!: stays_submit proceeding)

lemma stays_sendSnapshot: "proceeds r s \<Longrightarrow> stays r (sendSnapshot ev i s)"
  unfolding sendSnapshot_def Let_def
  by (auto split: option.split simp: may_hear_def intro!: proceeding proceeds_same_house)

lemma proceeds_anchor_sample: "proceeds r s \<Longrightarrow> proceeds r (anchor_sample i gen f s)"
  unfolding anchor_sample_def by (auto split: option.split intro!: proceeding)

lemma replayable_heard: "replayable m \<Longrightarrow> may_hear m i rl h" "replayable m \<Longrightarrow> \<not> is_vote m"
  by (cases m; auto simp: replayable_def IsTimer_def audience_defs split: event.splits)+

lemma proceeds_replay: "proceeds r s \<Longrightarrow> proceeds r (replay ev i n s)"
  unfolding replay_def
  by (auto split: option.split intro!: proceeds_fold proceeding simp: replayed_def replayable_heard)

lemma proceeds_setTrust: "proceeds r s \<Longrightarrow> proceeds r (snd (setTrust i l s))"
  unfolding setTrust_def by (auto split: option.split intro!: proceeding)

lemma proceeds_settings_told [proceeding]: "proceeds r s \<Longrightarrow> proceeds r (settings_told ev s)"
  unfolding settings_told_def Let_def by (auto intro!: proceeding)

lemma proceeds_answered: "proceeds r (snd x) \<Longrightarrow> proceeds r (answered ev i ref x)"
  unfolding answered_def by (auto split: prod.split option.split intro!: proceeding)

lemma stays_applyClient: "keyed r \<Longrightarrow> proceeds r s \<Longrightarrow> stays r (applyClient ev i cmd ref s)"
  unfolding applyClient_def by (auto intro!: ends_then [OF stays_apply] proceeds_answered proceeding)

lemma on_connD: "on_conn i f s = Some (a, s') \<Longrightarrow> proceeds r s \<Longrightarrow> proceeds r s'"
  by (auto simp: on_conn_def split_def Let_def intro!: proceeding)

lemma stays_sync: "proceeds r s \<Longrightarrow> stays r (sync_room ev i sy t s)"
  unfolding sync_room_def by (auto split: option.split dest: on_connD intro!: proceeding proceeds_same_house)

lemma proceeds_chat: "proceeds r s \<Longrightarrow> proceeds r (chat_room ev i text ref s)"
  unfolding chat_room_def Let_def by (auto split: option.split intro!: proceeding)

end
