(* ===== verification/Room_People.thy ===== *)
theory Room_People
  imports Room_Proceeds
begin

text \<open>
  The door of a room: who may come in, and what stays true of the people inside. The locale
  \<open>room_invariant\<close> states what an invariant of a room has to survive, one law for each change the inner
  functions (\<open>Room_Proceeds\<close>) cannot make, and derives that every turn keeps it.
\<close>

subsection \<open>The people in order\<close>

definition crowd :: "room \<Rightarrow> person list" where
  "crowd r = map shape (ordered_persons r)"

text \<open>Keys are identifiers, and the join order lists every person once.\<close>

definition seated :: "room \<Rightarrow> bool" where
  "seated r \<longleftrightarrow> keyed r \<and> distinct (map fst (people r)) \<and> distinct (rm_order r) \<and>
     set (rm_order r) = fst ` set (people r)"

lemma crowd_people: "crowd r = List.map_filter (map_of (people r)) (rm_order r)"
proof -
  have "map shape (List.map_filter (person_of r) xs) = List.map_filter (map_of (people r)) xs" for xs
    by (induction xs) (auto simp: people_person map_filter_simps split: option.splits)
  then show ?thesis by (simp add: crowd_def ordered_persons_def)
qed

lemma crowd_cong: "house r' = house r \<Longrightarrow> crowd r' = crowd r"
  by (simp add: crowd_people house_def)

lemma seated_cong: "house r' = house r \<Longrightarrow> seated r' = seated r"
  by (simp add: seated_def house_def keyed_def)

lemma seated_keyed: "seated r \<Longrightarrow> keyed r"
  by (simp add: seated_def)

lemma seated_key: "seated r \<Longrightarrow> person_of r i \<noteq> None \<longleftrightarrow> i \<in> set (rm_order r)"
  by (auto simp: seated_def people_def person_of_def image_iff map_of_eq_None_iff split_def)

lemma map_filter_append: "List.map_filter f (xs @ ys) = List.map_filter f xs @ List.map_filter f ys"
  by (simp add: map_filter_def)

lemma map_filter_cong: "(\<And>x. x \<in> set xs \<Longrightarrow> f x = g x) \<Longrightarrow> List.map_filter f xs = List.map_filter g xs"
  by (induction xs) (auto simp: map_filter_simps split: option.split)

text \<open>A newcomer is last, somebody removed is missing, a change of one person is in its place.\<close>

lemma update_new: "k \<notin> fst ` set m \<Longrightarrow> mput k v m = m @ [(k, v)]"
  by (induction m) (auto simp: mput_def)

lemma people_addPerson:
  "person_of r (pe_ID p) = None \<Longrightarrow> people (addPerson p r) = people r @ [(pe_ID p, shape p)]"
  by (simp add: people_def addPerson_def person_of_def map_of_eq_None_iff update_new)

lemma person_key: "person_of r i = None \<longleftrightarrow> i \<notin> fst ` set (people r)"
  by (simp add: person_of_def people_def map_of_eq_None_iff image_image split_def)

lemma order_addPerson [simp]: "rm_order (addPerson p r) = rm_order r @ [pe_ID p]"
  by (simp add: addPerson_def)

lemma seated_addPerson: "seated r \<Longrightarrow> person_of r (pe_ID p) = None \<Longrightarrow> seated (addPerson p r)"
  by (simp add: seated_def keyed_def people_addPerson) (simp add: person_key)

lemma crowd_addPerson:
  assumes "seated r" and "person_of r (pe_ID p) = None"
  shows "crowd (addPerson p r) = crowd r @ [shape p]"
proof -
  have new: "pe_ID p \<notin> set (rm_order r)" using assms by (simp add: seated_def person_key)
  have "List.map_filter (map_of (people (addPerson p r))) (rm_order r) = List.map_filter (map_of (people r)) (rm_order r)"
    using new assms(2) by (intro map_filter_cong) (auto simp: people_addPerson map_add_def split: option.split)
  moreover have "map_of (people (addPerson p r)) (pe_ID p) = Some (shape p)"
    using assms(2) by (auto simp: people_addPerson person_key map_add_def split: option.split dest!: map_of_SomeD intro: rev_image_eqI)
  ultimately show ?thesis by (simp add: crowd_people map_filter_append map_filter_simps)
qed

lemma remove_first_distinct: "distinct ks \<Longrightarrow> remove_first i ks = filter (\<lambda>k. k \<noteq> i) ks"
  by (induction ks) (auto intro!: filter_True [symmetric])

lemma people_removePerson: "people (removePerson i r) = filter (\<lambda>x. fst x \<noteq> i) (people r)"
  by (auto simp: people_def removePerson_def mdel_def AList.delete_eq filter_map comp_def split_def
      intro!: arg_cong [where f = "map (\<lambda>p. (fst p, shape (snd p)))"] filter_cong)

lemma order_removePerson: "seated r \<Longrightarrow> rm_order (removePerson i r) = filter (\<lambda>k. k \<noteq> i) (rm_order r)"
  by (simp add: removePerson_def seated_def remove_first_distinct)

lemma seated_removePerson: "seated r \<Longrightarrow> seated (removePerson i r)"
  unfolding seated_def [of "removePerson i r"] keyed_def people_removePerson
  by (auto simp: order_removePerson seated_def keyed_def list_all_iff distinct_map_filter image_iff)

lemma map_of_filter_key: "map_of (filter (\<lambda>x. fst x \<noteq> i) xs) k = (if k = i then None else map_of xs k)"
  by (induction xs) auto

lemma crowd_removePerson:
  assumes "seated r"
  shows "crowd (removePerson i r) = filter (\<lambda>p. pe_ID p \<noteq> i) (crowd r)"
proof -
  have key: "map_of (people r) k = Some p \<Longrightarrow> pe_ID p = k" for k p
    using assms by (auto simp: seated_def keyed_def list_all_iff dest: map_of_SomeD)
  have "List.map_filter (map_of (filter (\<lambda>x. fst x \<noteq> i) (people r))) (filter (\<lambda>k. k \<noteq> i) ks) =
      filter (\<lambda>p. pe_ID p \<noteq> i) (List.map_filter (map_of (people r)) ks)" for ks
    by (induction ks) (auto simp: map_filter_simps map_of_filter_key dest: key split: option.split)
  then show ?thesis by (simp add: crowd_people people_removePerson order_removePerson [OF assms])
qed

lemma people_upd_mapped:
  "(\<And>p. shape (f p) = h (shape p)) \<Longrightarrow>
     people (upd_person i f r) = map (\<lambda>(k, p). (k, if k = i then h p else p)) (people r)"
  by (auto simp: people_def upd_person_def)

lemma seated_upd_person:
  assumes "seated r" and "\<And>p. pe_ID (f p) = pe_ID p"
  shows "seated (upd_person i f r)"
proof -
  have keys: "map fst (people (upd_person i f r)) = map fst (people r)"
    by (simp add: people_def upd_person_def comp_def split_def)
  have "keyed (upd_person i f r)"
    using assms by (auto simp: seated_def keyed_def people_def upd_person_def list_all_iff)
  then show ?thesis using assms(1) keys by (simp add: seated_def) (metis list.set_map)
qed

lemma crowd_upd_person:
  assumes "seated r" and "\<And>p. shape (f p) = h (shape p)"
  shows "crowd (upd_person i f r) = map (\<lambda>p. if pe_ID p = i then h p else p) (crowd r)"
proof -
  have key: "map_of (people r) k = Some p \<Longrightarrow> pe_ID p = k" for k p
    using assms(1) by (auto simp: seated_def keyed_def list_all_iff dest: map_of_SomeD)
  have "List.map_filter (map_of (map (\<lambda>(k, p). (k, if k = i then h p else p)) (people r))) ks =
      map (\<lambda>p. if pe_ID p = i then h p else p) (List.map_filter (map_of (people r)) ks)" for ks
    by (induction ks) (auto simp: map_filter_simps map_of_one_changed dest: key split: option.split)
  then show ?thesis by (simp add: crowd_people people_upd_mapped [of f h, OF assms(2)])
qed

text \<open>The questions about the people, asked of the crowd.\<close>

definition human_showman :: "person \<Rightarrow> bool" where
  "human_showman p \<longleftrightarrow> pe_Role p = RoleShowman \<and> \<not> pe_IsAI p"

lemma humanShowman_crowd: "humanShowman r = None \<longleftrightarrow> filter human_showman (crowd r) = []"
  by (auto simp: humanShowman_def crowd_def human_showman_def find_None_iff filter_empty_conv)

lemma hostPerson_crowd: "hostPerson r = None \<longleftrightarrow> filter pe_IsHost (crowd r) = []"
  by (auto simp: hostPerson_def crowd_def find_None_iff filter_empty_conv)

lemma countRole_crowd: "countRole rl r = length (filter (\<lambda>p. pe_Role p = rl \<and> \<not> pe_IsAI p) (crowd r))"
  by (simp add: countRole_def crowd_def filter_map comp_def)

lemma bad_showman_cong: "house s = house r \<Longrightarrow> running s = running r \<Longrightarrow> bad_showman sm s = bad_showman sm r"
  using crowd_cong [of s r] by (auto simp: bad_showman_def humanShowman_crowd)

subsection \<open>Invariants of a room\<close>

locale room_invariant =
  fixes ev :: room_env and I :: "room \<Rightarrow> bool"
  assumes seats: "I r \<Longrightarrow> seated r"
    and inside: "I r \<Longrightarrow> proceeds r s \<Longrightarrow> I s"
    and starts: "I r \<Longrightarrow> rm_game r = None \<Longrightarrow> same_house r s \<Longrightarrow> rm_game s = Some g \<Longrightarrow> reachable g \<Longrightarrow> I s"
    and shuts: "I r \<Longrightarrow> same_house r s \<Longrightarrow> I (closeRoom ev reason s)"
    and enters: "I r \<Longrightarrow> \<not> rm_closing r \<Longrightarrow> rl \<in> {RoleShowman, RolePlayer, RoleViewer} \<Longrightarrow>
      \<not> list_ex (\<lambda>p. \<not> pe_IsAI p \<and> EqualFold (tx_go (ev_text ev)) (pe_Name p) name) (ordered_persons r) \<Longrightarrow>
      join_refused rl b r = None \<Longrightarrow>
      I (addPerson (newcomer ev name rl b r) (r\<lparr>rm_draws := Suc (Suc (rm_draws r))\<rparr>))"
    and returns_to_seat: "I r \<Longrightarrow> (h \<Longrightarrow> hostPerson r = None) \<Longrightarrow>
      I (upd_person i (\<lambda>p. p\<lparr>pe_tokenHash := t, pe_IsHost := pe_IsHost p \<or> h\<rparr>) r)"
    and goes: "I r \<Longrightarrow> I (removePerson i r)"
    and hangs_up: "I r \<Longrightarrow> I (upd_person i (\<lambda>p. p\<lparr>pe_anchored := False, pe_conn := None, pe_connected := False\<rparr>) r)"
    and renews: "I r \<Longrightarrow> I (new_generation i r)"
    and connects: "I r \<Longrightarrow> \<not> rm_closing r \<Longrightarrow> person_of r i = Some p \<Longrightarrow> pe_bconn p \<noteq> None \<Longrightarrow>
      I (upd_person i (\<lambda>p. p\<lparr>pe_conn := Some k, pe_connected := True\<rparr>) r)"
    and hands_over: "I r \<Longrightarrow> person_of r i = Some p \<Longrightarrow> \<not> pe_IsAI p \<Longrightarrow> I (hand_over i r)"
    and mode: "I r \<Longrightarrow> \<not> rm_closing r \<Longrightarrow> bad_showman sm r = None \<Longrightarrow> I (syncAIShowman ev (r\<lparr>rm_showman := sm\<rparr>))"

lemma hostPerson_draws [simp]: "hostPerson (r\<lparr>rm_draws := n\<rparr>) = hostPerson r"
proof -
  have "person_of (r\<lparr>rm_draws := n\<rparr>) = person_of r" by (rule ext) (simp add: person_of_def)
  then show ?thesis by (simp add: hostPerson_def ordered_persons_def)
qed

lemma upd_person_twice: "upd_person i g (upd_person i f r) = upd_person i (\<lambda>p. g (f p)) r"
  by (simp add: upd_person_def comp_def split_def)

lemma hang_up_twice:
  "upd_person i (\<lambda>p. forget_seq (p\<lparr>pe_anchored := False, pe_conn := None, pe_connected := False\<rparr>)) r =
   upd_person i forget_seq (upd_person i (\<lambda>p. p\<lparr>pe_anchored := False, pe_conn := None, pe_connected := False\<rparr>) r)"
  by (simp only: upd_person_twice)

lemma shape_forget [simp]: "shape (forget_seq p) = shape p"
  by (simp add: forget_seq_def)

context room_invariant
begin

abbreviation kept :: "room outcome \<Rightarrow> bool" where
  "kept \<equiv> ends I (\<lambda>r. I (closeRoom ev ''internalError'' r))"

abbreviation kept_with :: "('a \<times> room) outcome \<Rightarrow> bool" where
  "kept_with \<equiv> ends (\<lambda>x. I (snd x)) (\<lambda>r. I (closeRoom ev ''internalError'' r))"

lemma kept_keyed: "I r \<Longrightarrow> keyed r"
  using seats seated_keyed by blast

lemma kept_stays: "I r \<Longrightarrow> stays r m \<Longrightarrow> kept m"
  by (auto simp: ends_def intro: inside shuts split: option.splits sum.splits)

lemma kept_stays_with: "I r \<Longrightarrow> stays_with r m \<Longrightarrow> kept_with m"
  by (auto simp: ends_def intro: inside shuts split: option.splits sum.splits)

lemma crash_closes: "I r \<Longrightarrow> stays_with r m \<Longrightarrow> ends (\<lambda>x. proceeds r (snd x)) (\<lambda>r. I (closeRoom ev ''internalError'' r)) m"
  by (auto simp: ends_def intro: shuts split: option.splits sum.splits)

lemma kept_drop: 
  assumes "I r" and "\<And>p. shape (f p) = shape p"
  shows "I (drop_conn i f code r)"
proof -
  let ?r = "upd_person i (\<lambda>p. p\<lparr>pe_anchored := False, pe_conn := None, pe_connected := False\<rparr>) r"
  have "I ?r" using assms(1) by (rule hangs_up)
  then have "I (log_effect (ClosedSocket s code) (upd_person i f ?r))" for s
    by (rule inside) (auto intro!: proceeds_log proceeding assms(2) simp: heard_def)
  then show ?thesis
    using assms(1) unfolding drop_conn_def by (auto simp: upd_person_twice split: option.split)
qed

lemma kept_player_gone: "I r \<Longrightarrow> kept (player_gone ev i b r)"
  by (rule kept_stays [OF _ stays_player_gone]) (auto intro: kept_keyed)

lemma kept_submit: "I r \<Longrightarrow> kept (submit ev cmd r)"
  by (rule kept_stays [OF _ stays_submit]) (auto intro: kept_keyed)

lemma kept_disconnect: "I r \<Longrightarrow> kept (disconnect ev i code r)"
  unfolding disconnect_def by (auto split: option.split intro!: kept_player_gone kept_drop)

lemma kept_upd: "I r \<Longrightarrow> (\<And>p. shape (f p) = shape p) \<Longrightarrow> I (upd_person i f r)"
  by (rule inside) (auto intro!: proceeds_upd_person)

lemma kept_told: "I r \<Longrightarrow> I (broadcastPersons ev (publishInfo r))"
  by (rule inside) (auto intro!: proceeding)

lemma kept_join_known:
  assumes "I r"
  shows "I (snd (join_known ev p rl b r))"
proof -
  let ?f = "\<lambda>q. q\<lparr>pe_tokenHash := ev_hash ev (ev_token ev (rm_draws r)), pe_IsHost := pe_IsHost q \<or> becomes_host b r\<rparr>"
  have "I (r\<lparr>rm_draws := Suc (rm_draws r)\<rparr>)"
    using assms by (rule inside) (auto intro!: proceeding)
  then have "I (upd_person (pe_ID p) ?f (r\<lparr>rm_draws := Suc (rm_draws r)\<rparr>))"
    by (rule returns_to_seat) (simp add: becomes_host_def)
  then have "I (publishInfo (upd_person (pe_ID p) ?f (r\<lparr>rm_draws := Suc (rm_draws r)\<rparr>)))"
    by (rule inside) (auto intro!: proceeding)
  then show ?thesis using assms by (simp add: join_known_def Let_def)
qed

lemma kept_join_new:
  assumes "I r" and "\<not> rm_closing r" and "rl \<in> {RoleShowman, RolePlayer, RoleViewer}"
    and "\<not> list_ex (\<lambda>p. \<not> pe_IsAI p \<and> EqualFold (tx_go (ev_text ev)) (pe_Name p) name) (ordered_persons r)"
    and "join_refused rl b r = None"
  shows "I (snd (join_new ev name rl b r))"
proof -
  have "I (touch (addPerson (newcomer ev name rl b r) (r\<lparr>rm_draws := Suc (Suc (rm_draws r))\<rparr>)))"
    using enters [OF assms] by (rule inside) (auto intro!: proceeding)
  then show ?thesis by (simp add: join_new_def Let_def kept_told)
qed

lemma join_check_open:
  "join_check ev jp tok r = Inr (name, rl, b) \<Longrightarrow> \<not> rm_closing r \<and> rl \<in> {RoleShowman, RolePlayer, RoleViewer}"
  by (auto simp: join_check_def Let_def split: if_splits)

lemma kept_join: "I r \<Longrightarrow> I (snd (join ev jp tok r))"
  using kept_join_known kept_join_new join_check_open [of jp tok r]
  by (auto simp: join_def find_None_iff list_ex_iff split: sum.split option.split)

lemma kept_leave: "I r \<Longrightarrow> kept_with (leave ev tok r)"
  unfolding leave_def Let_def
  by (auto split: option.split intro!: ends_then [OF kept_disconnect] kept_told goes kept_upd)

lemma kept_connected:
  assumes "I r" and "\<not> rm_closing r" and "person_of r i = Some p" and "pe_bconn p \<noteq> None"
  shows "kept (connected ev i s r)"
proof -
  let ?r = "touch (upd_person i (\<lambda>p. p\<lparr>pe_conn := Some s, pe_connected := True\<rparr>) r)"
  have "I ?r" using connects [OF assms, of s] by (rule inside) (rule proceeds_touch [OF proceeds_refl])
  then have "kept (sendSnapshot ev i (sendWelcome ev i ?r))"
    by (rule kept_stays) (auto intro!: stays_sendSnapshot proceeding)
  then show ?thesis
    unfolding connected_def Let_def
    by (rule ends_then) (auto intro: inside intro!: proceeds_log proceeding simp: heard_def)
qed

lemma new_generation_bconn:
  "person_of r i = Some p \<Longrightarrow> \<exists>q. person_of (new_generation i r) i = Some q \<and> pe_bconn q \<noteq> None"
  by (simp add: new_generation_def Let_def person_of_upd_person) (simp add: person_of_def)

lemma same_person_bconn:
  "proceeds r s \<Longrightarrow> person_of r i = Some p \<Longrightarrow> pe_bconn p \<noteq> None \<Longrightarrow> \<exists>q. person_of s i = Some q \<and> pe_bconn q \<noteq> None"
  using house_same_person [OF proceeds_house, of r s i] by (cases "person_of s i") (auto, metis shape_sel(8))

lemma kept_attached:
  assumes "I r" and "\<not> rm_closing r" and "person_of r i \<noteq> None"
  shows "kept (and_then (if b then submit ev cmd (new_generation i r) else returns (new_generation i r)) (connected ev i s))"
proof -
  let ?r = "new_generation i r"
  have I: "I ?r" using assms(1) by (rule renews)
  obtain q where q: "person_of ?r i = Some q" "pe_bconn q \<noteq> None"
    using assms(3) new_generation_bconn by fastforce
  have c: "\<not> rm_closing ?r" using assms(2) by (simp add: new_generation_def Let_def)
  have "stays ?r (if b then submit ev cmd ?r else returns ?r)"
    using I by (auto intro!: stays_submit kept_keyed)
  moreover have "kept (connected ev i s t)" if pt: "proceeds ?r t" for t
  proof -
    have "I t" using I pt by (rule inside)
    moreover have "\<not> rm_closing t" using c house_closing [OF proceeds_house [OF pt]] by simp
    moreover obtain p where "person_of t i = Some p" "pe_bconn p \<noteq> None"
      using same_person_bconn [OF pt q(1) q(2)] by blast
    ultimately show ?thesis by (rule kept_connected)
  qed
  ultimately have "ends (proceeds ?r) (\<lambda>r. I (closeRoom ev ''internalError'' r))
      (if b then submit ev cmd ?r else returns ?r)"
    using I shuts by (auto simp: ends_def split: option.splits sum.splits)
  then show ?thesis
    by (rule ends_then) (rule \<open>\<And>t. proceeds ?r t \<Longrightarrow> kept (connected ev i s t)\<close>)
qed

lemma and_then_assoc: "and_then (and_then m f) g = and_then m (\<lambda>a. and_then (f a) g)"
  by (auto simp: and_then_def split: option.splits sum.splits)

lemma drop_conn_keeps [simp]:
  "rm_closing (drop_conn i f code r) = rm_closing r" "person_of (drop_conn i f code r) j = None \<longleftrightarrow> person_of r j = None"
  by (auto simp: drop_conn_def log_effect_def person_of_upd_person split: option.split)
     (auto simp: person_of_def upd_person_def map_of_one_changed split: if_splits)

lemma kept_attach:
  assumes "I r"
  shows "kept_with (attach ev tok s r)"
proof (cases "\<exists>i p. personByToken ev tok r = Some i \<and> person_of r i = Some p \<and> \<not> pe_kicked p \<and> \<not> rm_closing r")
  case False
  then show ?thesis using assms by (auto simp: attach_def split: option.split)
next
  case True
  then obtain i p where i: "personByToken ev tok r = Some i" "person_of r i = Some p" "\<not> pe_kicked p" "\<not> rm_closing r"
    by blast
  define r1 where "r1 = (if pe_conn p = None then r
    else drop_conn i (\<lambda>p. p) CloseSessionReplaced (sendRaw ev i MsgSessionReplaced r))"
  have sent: "proceeds r (sendRaw ev i MsgSessionReplaced r)" by (auto intro!: proceeding)
  have "I r1" using assms inside [OF assms sent] unfolding r1_def by (auto intro!: kept_drop)
  moreover have "\<not> rm_closing r1"
    using i(4) house_closing [OF proceeds_house [OF sent]] by (simp add: r1_def)
  moreover have "person_of r1 i \<noteq> None"
    using i(2) house_same_person [OF proceeds_house [OF sent], of i]
    by (cases "person_of (sendRaw ev i MsgSessionReplaced r) i") (auto simp: r1_def simp del: not_None_eq)
  ultimately have "kept (and_then (if b then submit ev cmd (new_generation i r1) else returns (new_generation i r1))
      (connected ev i s))" for b cmd
    by (rule kept_attached)
  then have all: "kept_with (and_then (and_then (if b then submit ev cmd (new_generation i r1) else returns (new_generation i r1))
      (connected ev i s)) (\<lambda>r. returns (Inr (session_of [] p r), r)))" for b cmd
    by (rule ends_then) simp
  show ?thesis
    using i all [of True] all [of False] by (auto simp: attach_def r1_def [symmetric] and_then_assoc Let_def)
qed

lemma kept_detach: "I r \<Longrightarrow> kept (detach ev i gen r)"
  unfolding detach_def Let_def hang_up_twice
  by (auto split: option.split intro!: ends_then [OF kept_player_gone] kept_told kept_upd hangs_up)

lemma kept_no_press: "I r \<Longrightarrow> I (no_press i r)"
  by (rule inside) (auto intro!: proceeding)

lemma kept_mark_kicked: "I r \<Longrightarrow> I (mark_kicked ev i p ban r)"
  by (rule inside) (auto intro!: proceeding)

lemma kept_show_out: 
  assumes "I r"
  shows "I (show_out ev i p ban r)"
proof -
  have "proceeds r (sendRaw ev i (MsgKicked ban) r)" by (auto intro!: proceeding)
  with assms have "I (sendRaw ev i (MsgKicked ban) r)" by (rule inside)
  with assms show ?thesis by (auto simp: show_out_def intro!: kept_drop)
qed

lemma kept_kick: "I r \<Longrightarrow> kept_with (kick ev i ban r)"
  unfolding kick_def Let_def
  by (auto split: option.split intro!: ends_then [where P = I] kept_submit kept_show_out kept_told goes
      kept_mark_kicked kept_no_press)

lemma kept_transfer: 
  assumes "I r"
  shows "I (snd (transferHost ev i r))"
proof -
  have "proceeds t (broadcastPersons ev (broadcast ev (MsgHostChanged i) (publishInfo t)))" for t
    by (auto intro!: proceeding)
  then have "I (broadcastPersons ev (broadcast ev (MsgHostChanged i) (publishInfo (hand_over i r))))"
    if "person_of r i = Some p" "\<not> pe_IsAI p" for p
    using inside [OF hands_over [OF assms that]] by blast
  then show ?thesis using assms by (auto simp: transferHost_def split: option.split)
qed

text \<open>Settings: the patch of the showman's mode is the only part that changes who is in the room.\<close>

lemma settings_refused_None:
  "settings_refused pt r = None \<Longrightarrow> \<not> rm_closing r \<and> (\<forall>sm. sp_Showman pt = Some sm \<longrightarrow> bad_showman sm r = None)"
  by (auto simp: settings_refused_def Let_def split: option.splits if_splits)

lemma kept_patch_room:
  assumes "I r" and "settings_refused pt r = None"
  shows "I (patch_room ev pt r)"
proof -
  define r1 where "r1 = (case sp_Name pt of None \<Rightarrow> r | Some n \<Rightarrow> r\<lparr>rm_name := TrimSpace n\<rparr>)"
  define r2 where "r2 = (case sp_Password pt of None \<Rightarrow> r1 | Some w \<Rightarrow> r1\<lparr>rm_password := w\<rparr>)"
  define r3 where "r3 = (case sp_JoinMode pt of None \<Rightarrow> r2 | Some jm \<Rightarrow> r2\<lparr>rm_joinMode := jm\<rparr>)"
  define r4 where "r4 = (case sp_Showman pt of None \<Rightarrow> r3 | Some sm \<Rightarrow> syncAIShowman ev (r3\<lparr>rm_showman := sm\<rparr>))"
  have p: "proceeds r r3" by (auto simp: r3_def r2_def r1_def split: option.split intro!: proceeding)
  have run: "running r3 = running r" by (auto simp: r3_def r2_def r1_def running_def split: option.split)
  have "I r3" using assms(1) p by (rule inside)
  moreover have "\<not> rm_closing r3"
    using settings_refused_None [OF assms(2)] house_closing [OF proceeds_house [OF p]] by simp
  moreover have "bad_showman sm r3 = None" if "sp_Showman pt = Some sm" for sm
    using settings_refused_None [OF assms(2)] that bad_showman_cong [OF proceeds_house [OF p] run] by simp
  ultimately have "I r4" by (auto simp: r4_def split: option.split intro: mode)
  then show ?thesis
    unfolding patch_room_def Let_def r1_def [symmetric] r2_def [symmetric] r3_def [symmetric] r4_def [symmetric]
    by (rule inside) (auto simp: patch_buzzer_def split: option.split intro!: proceeding)
qed

lemma kept_settings: 
  assumes "I r"
  shows "kept_with (updateSettings ev pt r)"
proof (cases "settings_refused pt r")
  case (Some e)
  then show ?thesis using assms by (simp add: updateSettings_def)
next
  case None
  let ?r = "patch_room ev pt r"
  have I: "I ?r" using assms None by (rule kept_patch_room)
  have told: "I (settings_told ev t)" if "proceeds ?r t" for t
    using inside [OF I, of "settings_told ev t"] that by (simp add: proceeding)
  show ?thesis
    unfolding updateSettings_def Let_def None
    using I kept_keyed [OF I]
    by (auto split: option.split intro!: told inside [OF I] ends_then [OF crash_closes [OF I stays_apply]] proceeding)
qed

lemma kept_startGame: 
  assumes "I r"
  shows "kept_with (startGame ev p r)"
proof -
  have "I t" if "same_house r s" "rm_game r = None" "rm_game s = Some g" "reachable g" "proceeds s t" for s t g
    using inside [OF starts [OF assms that(2,1,3,4)] that(5)] .
  then show ?thesis
    using startGame_cases [OF kept_keyed [OF assms], of r ev p] inside [OF assms] shuts [OF assms]
    by (auto simp: ends_def split: option.splits sum.splits)
qed

lemma kept_answered: "I (snd x) \<Longrightarrow> I (answered ev i ref x)"
  by (rule inside, assumption) (rule proceeds_answered [OF proceeds_refl])

lemma kept_host_only: "I r \<Longrightarrow> (\<And>t. I t \<Longrightarrow> kept_with (f t)) \<Longrightarrow> kept (host_only ev p ref f r)"
  unfolding host_only_def
  by (auto intro!: ends_then [where P = "\<lambda>x. I (snd x)"] kept_answered intro: inside proceeding)

lemma kept_reopen: "I r \<Longrightarrow> I (snd (reopenButton ev aid r))"
  by (rule inside, assumption) (rule proceeds_reopenButton [OF kept_keyed proceeds_refl])

lemma kept_setTrust: "I r \<Longrightarrow> I (snd (setTrust j l r))"
  by (rule inside, assumption) (rule proceeds_setTrust [OF proceeds_refl])

lemma kept_inbound: 
  assumes "I r"
  shows "kept (handleInbound ev i gen m ref t r)"
proof -
  have I: "I (touch r)" using assms by (rule inside) (auto intro!: proceeding)
  note k = kept_keyed [OF I]
  have err: "I (sendError ev j c ref (touch r))" for j c
    using I by (rule inside) (auto intro!: proceeding)
  have cmd: "kept (applyClient ev i c ref (touch r))" for c
    by (rule kept_stays [OF I stays_applyClient]) (auto intro: k)
  have inner: "I (replay ev i n (touch r))" "I (onArmAck_room i aid t (touch r))" "I (onPress_room ev i pr t (touch r))"
      "I (onMisfire_room ev i aid now (touch r))" "I (chat_room ev i w ref (touch r))" for n aid pr now w
    by (rule inside [OF I], auto intro!: proceeding proceeds_replay proceeds_chat)+
  have sync: "kept (sync_room ev i sy t (touch r))" for sy
    using I by (rule kept_stays) (auto intro: stays_sync)
  have seen: "kept (case on_conn i f (touch r) of None \<Rightarrow> panics (touch r) | Some (u, r) \<Rightarrow> returns r)"
    for f :: "conn \<Rightarrow> unit \<times> conn"
    using shuts [OF I same_house_refl] inside [OF I]
    by (auto split: option.split dest: on_connD [OF _ proceeds_refl])
  have start: "kept (and_then (startGame ev p (touch r)) (\<lambda>x. returns (answered ev i ref x)))" for p
    by (auto intro!: ends_then [OF kept_startGame] kept_answered I)
  have host: "kept (host_only ev p ref (kick ev j b) (touch r))"
      "kept (host_only ev p ref (\<lambda>r. returns (transferHost ev j r)) (touch r))"
      "kept (host_only ev p ref (\<lambda>r. returns (reopenButton ev j r)) (touch r))"
      "kept (host_only ev p ref (\<lambda>r. returns (setTrust j l r)) (touch r))" for p j b l
    using I by (auto intro!: kept_host_only kept_kick kept_transfer kept_reopen kept_setTrust)
  show ?thesis
    using assms unfolding handleInbound_def Let_def
    by (cases m) (auto split: option.split simp: inner sync seen start host err cmd)
qed

lemma kept_unban: "I r \<Longrightarrow> I (snd (unban i r))"
  unfolding unban_def by (auto split: option.split intro: inside intro!: proceeding)

lemma kept_step: 
  assumes "I r"
  shows "kept_with (room_step ev x r)"
proof -
  note k = kept_keyed [OF assms]
  have plain: "kept_with (plain s)" if "proceeds r s" for s
    using inside [OF assms that] by (simp add: plain_def)
  have quiet: "kept_with (quiet m)" if "kept m" for m
    unfolding quiet_def by (rule ends_then [OF that]) (simp add: plain_def)
  have replied: "kept_with (and_then m (\<lambda>(e, r). returns (f e r, r)))" if "kept_with m" for m :: "('c \<times> room) outcome" and f :: "'c \<Rightarrow> room \<Rightarrow> room_reply"
    by (rule ends_then [OF that]) (auto simp: split_def)
  show ?thesis
  proof (cases x)
    case (Inbound i gen m ref t)
    then show ?thesis by (simp add: room_step_def quiet kept_inbound assms)
  next
    case (JoinCall jp tok)
    then show ?thesis using kept_join [OF assms, of jp tok] by (simp add: room_step_def split_def)
  next
    case (UnbanCall i)
    then show ?thesis using kept_unban [OF assms, of i] by (simp add: room_step_def split_def)
  next
    case (HostCall i)
    then show ?thesis using kept_transfer [OF assms, of i] by (simp add: room_step_def split_def)
  next
    case (CloseCall reason)
    then show ?thesis using shuts [OF assms same_house_refl] by (simp add: room_step_def plain_def)
  next
    case (TimerFired i)
    then show ?thesis using kept_stays [OF assms stays_onTimeout [OF k proceeds_refl]] by (simp add: room_step_def quiet)
  next
    case (ArmDeadline gen)
    then show ?thesis using kept_stays [OF assms stays_onArmResolve [OF k proceeds_refl]] by (simp add: room_step_def quiet)
  next
    case (HybridFired key ask v)
    then show ?thesis using kept_stays [OF assms stays_applyHybrid [OF k proceeds_refl]] by (simp add: room_step_def quiet)
  next
    case (VerdictArrived ask v)
    then show ?thesis using kept_stays [OF assms stays_onAIVerdict [OF k proceeds_refl]] by (simp add: room_step_def quiet)
  next
    case (Detached i gen)
    then show ?thesis by (simp add: room_step_def quiet kept_detach assms)
  next
    case (LeaveCall tok)
    then show ?thesis
      using replied [OF kept_leave [OF assms, of tok], of "\<lambda>e r. reply_of e"] by (simp add: room_step_def)
  next
    case (AttachCall tok s)
    then show ?thesis
      using replied [OF kept_attach [OF assms, of tok s], of "\<lambda>e r. session_reply e"] by (simp add: room_step_def)
  next
    case (SettingsCall pt)
    then show ?thesis
      using replied [OF kept_settings [OF assms, of pt], of "\<lambda>e r. case e of None \<Rightarrow> InfoReply (rm_info r) | Some x \<Rightarrow> Failed x"]
      by (simp add: room_step_def)
  next
    case (KickCall i ban)
    then show ?thesis
      using replied [OF kept_kick [OF assms, of i ban], of "\<lambda>e r. reply_of e"] by (simp add: room_step_def)
  qed (use assms in \<open>auto simp: room_step_def intro!: plain proceeding proceeds_anchor_sample\<close>)
qed

lemma clock_proceeds: "proceeds r (clocked now wall r)"
  unfolding clocked_def by (intro proceeding)

theorem turn_keeps: "I r \<Longrightarrow> turn ev now wall x r = Some (reply, r') \<Longrightarrow> I r'"
  using kept_step [OF inside [OF _ clock_proceeds], of r x now wall]
  by (auto simp: turn_def runGuarded_def ends_def split: option.splits sum.splits)

end

end
