(* ===== verification/Room_Order.thy ===== *)
theory Room_Order
  imports Room_People
begin

text \<open>
  The order of a room: at most one host and one human showman (none beside the AI), no more players than
  seats, different names, a measured connection behind every socket, nobody connected to a closed room, and
  identifiers that were drawn before. The law of the surroundings is that drawn identifiers are new ones.
\<close>

definition fresh_ids :: "room_env \<Rightarrow> bool" where
  "fresh_ids ev \<longleftrightarrow> inj (ev_id ev) \<and> AIShowmanID \<notin> range (ev_id ev)"

definition seated_player :: "person \<Rightarrow> bool" where
  "seated_player p \<longleftrightarrow> pe_Role p = RolePlayer \<and> \<not> pe_IsAI p"

definition wired :: "person \<Rightarrow> bool" where
  "wired p \<longleftrightarrow> (pe_connected p \<longleftrightarrow> pe_conn p \<noteq> None) \<and> (pe_conn p \<noteq> None \<longrightarrow> pe_bconn p \<noteq> None)"

definition different_names :: "room_env \<Rightarrow> person list \<Rightarrow> bool" where
  "different_names ev ps \<longleftrightarrow>
     sorted_wrt (\<lambda>p q. \<not> EqualFold (tx_go (ev_text ev)) (pe_Name p) (pe_Name q)) (filter (\<lambda>p. \<not> pe_IsAI p) ps)"

definition good_crowd :: "room_env \<Rightarrow> showman_mode \<Rightarrow> nat \<Rightarrow> person list \<Rightarrow> bool" where
  "good_crowd ev sm mx ps \<longleftrightarrow>
     length (filter pe_IsHost ps) \<le> 1 \<and>
     length (filter human_showman ps) \<le> (if sm = ShowmanAI then 0 else 1) \<and>
     length (filter seated_player ps) \<le> mx \<and> different_names ev ps \<and> list_all wired ps"

definition known_ids :: "room_env \<Rightarrow> room \<Rightarrow> bool" where
  "known_ids ev r \<longleftrightarrow> (\<forall>k \<in> set (rm_order r). k = AIShowmanID \<or> (\<exists>n < rm_draws r. k = ev_id ev n))"

definition orderly :: "room_env \<Rightarrow> room \<Rightarrow> bool" where
  "orderly ev r \<longleftrightarrow> seated r \<and> known_ids ev r \<and> good_crowd ev (rm_showman r) (rm_maxPlayers r) (crowd r) \<and>
     (rm_closing r \<longrightarrow> list_all (\<lambda>p. pe_conn p = None) (crowd r))"

subsection \<open>Changes of the crowd\<close>

lemma good_crowd_map:
  assumes "good_crowd ev sm mx ps"
    and "\<And>p. pe_Name (h p) = pe_Name p \<and> pe_Role (h p) = pe_Role p \<and> pe_IsHost (h p) = pe_IsHost p \<and>
           pe_IsAI (h p) = pe_IsAI p"
    and "\<And>p. p \<in> set ps \<Longrightarrow> wired p \<Longrightarrow> wired (h p)"
  shows "good_crowd ev sm mx (map h ps)"
proof -
  have "human_showman (h p) = human_showman p" "seated_player (h p) = seated_player p" for p
    using assms(2) [of p] by (simp_all add: human_showman_def seated_player_def)
  then show ?thesis
    using assms by (simp add: good_crowd_def filter_map comp_def different_names_def sorted_wrt_map list_all_iff)
qed

lemma filter_less: "length (filter Q (filter P xs)) \<le> length (filter Q xs)"
  by (induction xs) auto

lemma good_crowd_filter:
  assumes "good_crowd ev sm mx ps"
  shows "good_crowd ev sm mx (filter P ps)"
proof -
  have "filter (\<lambda>p. \<not> pe_IsAI p) (filter P ps) = filter P (filter (\<lambda>p. \<not> pe_IsAI p) ps)"
    by (simp add: conj_commute)
  then have "different_names ev (filter P ps)"
    using assms unfolding good_crowd_def different_names_def by (metis sorted_wrt_filter)
  then show ?thesis
    using assms le_trans [OF filter_less [of _ P ps]] unfolding good_crowd_def by (simp add: list_all_iff del: filter_filter length_0_conv)
qed

lemma good_crowd_append:
  "good_crowd ev sm mx ps \<Longrightarrow> (pe_IsHost p \<Longrightarrow> filter pe_IsHost ps = []) \<Longrightarrow>
     (human_showman p \<Longrightarrow> filter human_showman ps = [] \<and> sm \<noteq> ShowmanAI) \<Longrightarrow>
     (seated_player p \<Longrightarrow> length (filter seated_player ps) < mx) \<Longrightarrow>
     (\<not> pe_IsAI p \<Longrightarrow> \<forall>q \<in> set ps. pe_IsAI q \<or> \<not> EqualFold (tx_go (ev_text ev)) (pe_Name q) (pe_Name p)) \<Longrightarrow>
     wired p \<Longrightarrow> good_crowd ev sm mx (ps @ [p])"
  by (auto simp: good_crowd_def different_names_def sorted_wrt_append)

lemma crowd_ids: "seated r \<Longrightarrow> map pe_ID (crowd r) = rm_order r"
proof -
  assume s: "seated r"
  have "\<exists>p. map_of (people r) k = Some p \<and> pe_ID p = k" if "k \<in> set (rm_order r)" for k
  proof -
    from that s obtain p where p: "map_of (people r) k = Some p"
      by (cases "map_of (people r) k") (auto simp: seated_def map_of_eq_None_iff)
    then have "pe_ID p = k" using s by (auto simp: seated_def keyed_def list_all_iff dest: map_of_SomeD)
    with p show ?thesis by blast
  qed
  then have "set ks \<subseteq> set (rm_order r) \<Longrightarrow> map pe_ID (List.map_filter (map_of (people r)) ks) = ks" for ks
    by (induction ks) (fastforce simp: map_filter_simps)+
  then show ?thesis by (simp add: crowd_people)
qed

lemma orderly_house:
  "orderly ev r \<Longrightarrow> house s = house r \<Longrightarrow> rm_draws r \<le> rm_draws s \<Longrightarrow> orderly ev s"
  using seated_cong [of s r] crowd_cong [of s r]
  by (auto simp: orderly_def known_ids_def house_def dest: less_le_trans)

text \<open>The same while a room is being closed: everything but the silence.\<close>

definition orderly_but_open :: "room_env \<Rightarrow> room \<Rightarrow> bool" where
  "orderly_but_open ev r \<longleftrightarrow> seated r \<and> known_ids ev r \<and> good_crowd ev (rm_showman r) (rm_maxPlayers r) (crowd r)"

lemma orderly_open: "orderly ev r \<longleftrightarrow>
    orderly_but_open ev r \<and> (rm_closing r \<longrightarrow> list_all (\<lambda>p. pe_conn p = None) (crowd r))"
  by (auto simp: orderly_def orderly_but_open_def)

lemma open_map:
  assumes "orderly_but_open ev r" and "\<And>p. shape (f p) = h (shape p)"
    and "\<And>p. pe_ID (f p) = pe_ID p"
    and "\<And>p. pe_Name (h p) = pe_Name p \<and> pe_Role (h p) = pe_Role p \<and> pe_IsHost (h p) = pe_IsHost p \<and>
           pe_IsAI (h p) = pe_IsAI p"
    and "\<And>p. p \<in> set (crowd r) \<Longrightarrow> pe_ID p = i \<Longrightarrow> wired p \<Longrightarrow> wired (h p)"
  shows "orderly_but_open ev (upd_person i f r)"
    and "crowd (upd_person i f r) = map (\<lambda>p. if pe_ID p = i then h p else p) (crowd r)"
proof -
  show c: "crowd (upd_person i f r) = map (\<lambda>p. if pe_ID p = i then h p else p) (crowd r)"
    using assms(1,2) by (intro crowd_upd_person) (auto simp: orderly_but_open_def)
  have "good_crowd ev (rm_showman r) (rm_maxPlayers r) (crowd (upd_person i f r))"
    unfolding c using assms by (intro good_crowd_map) (auto simp: orderly_but_open_def)
  then show "orderly_but_open ev (upd_person i f r)"
    using assms by (simp add: orderly_but_open_def known_ids_def seated_upd_person)
qed

lemma orderly_map:
  assumes "orderly ev r" and "\<And>p. shape (f p) = h (shape p)"
    and "\<And>p. pe_ID (f p) = pe_ID p"
    and "\<And>p. pe_Name (h p) = pe_Name p \<and> pe_Role (h p) = pe_Role p \<and> pe_IsHost (h p) = pe_IsHost p \<and>
           pe_IsAI (h p) = pe_IsAI p"
    and "\<And>p. p \<in> set (crowd r) \<Longrightarrow> pe_ID p = i \<Longrightarrow> wired p \<Longrightarrow> wired (h p) \<and> (rm_closing r \<longrightarrow> pe_conn (h p) = None)"
  shows "orderly ev (upd_person i f r)"
proof -
  have o': "orderly_but_open ev r" using assms(1) by (simp add: orderly_open)
  have w: "\<And>p. p \<in> set (crowd r) \<Longrightarrow> wired p"
    using o' by (simp add: orderly_but_open_def good_crowd_def list_all_iff)
  have m: "orderly_but_open ev (upd_person i f r)"
    "crowd (upd_person i f r) = map (\<lambda>p. if pe_ID p = i then h p else p) (crowd r)"
    using open_map [OF o' assms(2,3,4), of i] assms(5) by blast+
  show ?thesis
    unfolding orderly_open m(2) using m(1) w assms(1,5) by (auto simp: list_all_iff orderly_open)
qed

lemma crowd_person:
  "seated r \<Longrightarrow> p \<in> set (crowd r) \<Longrightarrow> \<exists>q. person_of r (pe_ID p) = Some q \<and> p = shape q"
  using seated_keyed keyed_person by (fastforce simp: crowd_def ordered_persons_iff)

lemma orderly_proceeds: "orderly ev r \<Longrightarrow> proceeds r s \<Longrightarrow> orderly ev s"
  by (rule orderly_house) (auto simp: proceeds_def same_house_def)

subsection \<open>Closing\<close>

definition hung :: "person \<Rightarrow> person" where
  "hung p = p\<lparr>pe_conn := None, pe_connected := False\<rparr>"

lemma shape_hung: "shape (p\<lparr>pe_anchored := False, pe_conn := None, pe_connected := False\<rparr>) = hung (shape p)"
  by (simp add: shape_def hung_def)

lemma hung_sel [simp]:
  "pe_Name (hung p) = pe_Name p" "pe_Role (hung p) = pe_Role p" "pe_IsHost (hung p) = pe_IsHost p"
  "pe_IsAI (hung p) = pe_IsAI p" "pe_ID (hung p) = pe_ID p" "wired (hung p)" "pe_conn (hung p) = None"
  by (simp_all add: hung_def wired_def)

lemma hung_id: "wired p \<Longrightarrow> pe_conn p = None \<Longrightarrow> hung p = p"
  by (cases p) (simp add: hung_def wired_def)

lemma orderly_hangs_up:
  "orderly ev r \<Longrightarrow> orderly ev (upd_person i (\<lambda>p. p\<lparr>pe_anchored := False, pe_conn := None, pe_connected := False\<rparr>) r)"
  by (rule orderly_map [where h = hung]) (simp_all add: shape_hung)

lemma open_drop:
  assumes "orderly_but_open ev r"
  shows "orderly_but_open ev (drop_conn i (\<lambda>p. p) code r)"
    and "crowd (drop_conn i (\<lambda>p. p) code r) = map (\<lambda>p. if pe_ID p = i then hung p else p) (crowd r)"
    and "rm_order (drop_conn i (\<lambda>p. p) code r) = rm_order r"
proof -
  let ?f = "\<lambda>p. p\<lparr>pe_anchored := False, pe_conn := None, pe_connected := False\<rparr>"
  have same: "crowd (log_effect x t) = crowd t" "orderly_but_open ev (log_effect x t) = orderly_but_open ev t" for x t
    using crowd_cong [of "log_effect x t" t] seated_cong [of "log_effect x t" t]
    by (simp_all add: orderly_but_open_def known_ids_def) (simp_all add: log_effect_def)
  have stay: "map (\<lambda>p. if pe_ID p = i then hung p else p) (crowd r) = crowd r"
    if "\<And>q. person_of r i = Some q \<Longrightarrow> pe_conn q = None"
  proof (rule map_idI)
    fix p assume p: "p \<in> set (crowd r)"
    then have w: "wired p" using assms by (auto simp: orderly_but_open_def good_crowd_def list_all_iff)
    have s: "seated r" using assms by (simp add: orderly_but_open_def)
    show "(if pe_ID p = i then hung p else p) = p"
      using that crowd_person [OF s p] w by (auto intro: hung_id)
  qed
  show "orderly_but_open ev (drop_conn i (\<lambda>p. p) code r)"
    "crowd (drop_conn i (\<lambda>p. p) code r) = map (\<lambda>p. if pe_ID p = i then hung p else p) (crowd r)"
    using assms stay open_map [OF assms, of ?f hung i] unfolding drop_conn_def
    by (auto simp: same shape_hung split: option.split)
  show "rm_order (drop_conn i (\<lambda>p. p) code r) = rm_order r"
    by (auto simp: drop_conn_def log_effect_def split: option.split)
qed

lemma open_drop_all:
  "orderly_but_open ev r \<Longrightarrow> orderly_but_open ev (fold (\<lambda>i. drop_conn i (\<lambda>p. p) code) ks r) \<and>
     crowd (fold (\<lambda>i. drop_conn i (\<lambda>p. p) code) ks r) = map (\<lambda>p. if pe_ID p \<in> set ks then hung p else p) (crowd r) \<and>
     rm_order (fold (\<lambda>i. drop_conn i (\<lambda>p. p) code) ks r) = rm_order r"
proof (induction ks arbitrary: r)
  case (Cons k ks)
  have "map (\<lambda>p. if pe_ID p \<in> set ks then hung p else p) (map (\<lambda>p. if pe_ID p = k then hung p else p) ps) =
      map (\<lambda>p. if pe_ID p \<in> set (k # ks) then hung p else p) ps" for ps
    by (auto simp: hung_def)
  then show ?case using Cons open_drop [of ev r k code] by simp
qed simp

text \<open>The three parts of \<open>closeRoom\<close>: the farewell, the sockets, the books.\<close>

lemma closeRoom_parts:
  assumes "seated r" and "\<not> rm_closing r"
  obtains s code where "proceeds (r\<lparr>rm_closing := True\<rparr>) s"
    and "proceeds (fold (\<lambda>i. drop_conn i (\<lambda>p. p) code) (rm_order s) s) (closeRoom ev reason r)"
proof
  let ?r = "r\<lparr>rm_closing := True\<rparr>"
  let ?s = "broadcast ev (MsgRoomClosed reason)
    ((cancelArm ev ''roomClosed'' (cancelHybrid ?r))\<lparr>rm_timers := [], rm_qualityTimer := None\<rparr>)"
  let ?code = "if reason = ''shutdown'' then CloseGoingAway else CloseNormal"
  let ?t = "fold (\<lambda>i. drop_conn i (\<lambda>p. p) ?code) (rm_order ?s) ?s"
  have "keyed ?r" using assms(1) by (simp add: seated_def keyed_def people_def)
  then show "proceeds ?r ?s" by (auto intro!: proceeding)
  have "proceeds ?t (log_effect (RemovedRoom c) (publishInfo (persistRoom ev (?t\<lparr>rm_status := StatusClosed, rm_updatedAt := w\<rparr>))))"
    for c w by (auto intro!: proceeds_log proceeding simp: heard_def)
  then show "proceeds ?t (closeRoom ev reason r)"
    using assms(2) by (simp add: closeRoom_def Let_def)
qed

lemma orderly_close:
  assumes "orderly ev r"
  shows "orderly ev (closeRoom ev reason r)"
proof (cases "rm_closing r")
  case True
  with assms show ?thesis by (simp add: closeRoom_def)
next
  case False
  define r0 where "r0 = r\<lparr>rm_closing := True\<rparr>"
  have "seated r" using assms by (simp add: orderly_def)
  then obtain r1 code where p: "proceeds r0 r1"
    and last': "proceeds (fold (\<lambda>i. drop_conn i (\<lambda>p. p) code) (rm_order r1) r1) (closeRoom ev reason r)"
    using False closeRoom_parts unfolding r0_def by metis
  define r2 where "r2 = fold (\<lambda>i. drop_conn i (\<lambda>p. p) code) (rm_order r1) r1"
  have "people r0 = people r" "rm_order r0 = rm_order r" "rm_showman r0 = rm_showman r"
    "rm_maxPlayers r0 = rm_maxPlayers r" "rm_draws r0 = rm_draws r"
    by (simp_all add: r0_def people_def)
  then have "orderly_but_open ev r0"
    using assms by (simp add: orderly_def orderly_but_open_def seated_def keyed_def known_ids_def crowd_people)
  then have o1: "orderly_but_open ev r1"
    using seated_cong [OF proceeds_house [OF p]] crowd_cong [OF proceeds_house [OF p]] p
    by (auto simp: orderly_but_open_def known_ids_def proceeds_def same_house_def house_def dest: less_le_trans)
  have o2: "orderly_but_open ev r2" and c2: "crowd r2 = map (\<lambda>p. if pe_ID p \<in> set (rm_order r1) then hung p else p) (crowd r1)"
    using open_drop_all [OF o1, of code "rm_order r1"] by (simp_all add: r2_def)
  have "map pe_ID (crowd r1) = rm_order r1" using o1 by (simp add: orderly_but_open_def crowd_ids)
  then have "pe_ID p \<in> set (rm_order r1)" if "p \<in> set (crowd r1)" for p
    using that by (metis list.set_map image_eqI)
  then have "list_all (\<lambda>p. pe_conn p = None) (crowd r2)" by (simp add: c2 list_all_iff)
  with o2 have "orderly ev r2" by (simp add: orderly_open)
  then show ?thesis using last' unfolding r2_def by (rule orderly_proceeds)
qed

subsection \<open>Entering, going, taking over\<close>

lemma known_ids_mono:
  "known_ids ev r \<Longrightarrow> rm_order s = rm_order r \<Longrightarrow> rm_draws r \<le> rm_draws s \<Longrightarrow> known_ids ev s"
  unfolding known_ids_def by (metis less_le_trans)

lemma becomes_host_sole: "becomes_host b r \<Longrightarrow> filter pe_IsHost (crowd r) = []"
  by (simp add: becomes_host_def hostPerson_crowd)

lemma orderly_enters:
  assumes "orderly ev r" and "fresh_ids ev" and "\<not> rm_closing r" and "rl \<in> {RoleShowman, RolePlayer, RoleViewer}"
    and other: "\<not> list_ex (\<lambda>p. \<not> pe_IsAI p \<and> EqualFold (tx_go (ev_text ev)) (pe_Name p) name) (ordered_persons r)"
    and ok: "join_refused rl b r = None"
  shows "orderly ev (addPerson (newcomer ev name rl b r) (r\<lparr>rm_draws := Suc (Suc (rm_draws r))\<rparr>))"
proof -
  define p where "p = newcomer ev name rl b r"
  define s where "s = r\<lparr>rm_draws := Suc (Suc (rm_draws r))\<rparr>"
  have p: "pe_ID p = ev_id ev (Suc (rm_draws r))" "pe_Name p = name" "pe_Role p = rl" "\<not> pe_IsAI p"
    "pe_IsHost p = becomes_host b r" "pe_conn p = None" "\<not> pe_connected p"
    by (simp_all add: p_def newcomer_def new_person_def)
  have s: "seated s" "crowd s = crowd r" "rm_order s = rm_order r" "house s = house r" "known_ids ev s"
    using assms(1) seated_cong [of s r] crowd_cong [of s r] known_ids_mono [of ev r s]
    by (simp_all add: s_def orderly_def)
  have "pe_ID p \<notin> set (rm_order r)"
  proof
    assume "pe_ID p \<in> set (rm_order r)"
    then consider "pe_ID p = AIShowmanID" | n where "n < rm_draws r" "pe_ID p = ev_id ev n"
      using assms(1) by (auto simp: orderly_def known_ids_def)
    then show False
    proof cases
      case 1
      then show False using assms(2) by (simp add: p fresh_ids_def) (metis rangeI)
    next
      case 2
      then have "Suc (rm_draws r) = n" using assms(2) by (simp add: p fresh_ids_def inj_eq)
      then show False using 2 by simp
    qed
  qed
  then have new: "person_of s (pe_ID p) = None" using seated_key [OF s(1), of "pe_ID p"] s(3) by auto
  have sh: "pe_Role (shape p) = rl" "\<not> pe_IsAI (shape p)" "pe_IsHost (shape p) = becomes_host b r"
    "pe_Name (shape p) = name" "wired (shape p)"
    using p by (simp_all add: wired_def)
  have "good_crowd ev (rm_showman r) (rm_maxPlayers r) (crowd r @ [shape p])"
  proof (rule good_crowd_append)
    show "good_crowd ev (rm_showman r) (rm_maxPlayers r) (crowd r)" using assms(1) by (simp add: orderly_def)
    show "pe_IsHost (shape p) \<Longrightarrow> filter pe_IsHost (crowd r) = []" using sh becomes_host_sole by blast
    show "human_showman (shape p) \<Longrightarrow> filter human_showman (crowd r) = [] \<and> rm_showman r \<noteq> ShowmanAI"
      using ok sh by (auto simp: human_showman_def join_refused_def humanShowman_crowd split: if_splits)
    show "seated_player (shape p) \<Longrightarrow> length (filter seated_player (crowd r)) < rm_maxPlayers r"
      using ok sh by (auto simp: seated_player_def [abs_def] join_refused_def countRole_crowd split: if_splits)
    show "\<forall>q \<in> set (crowd r). pe_IsAI q \<or> \<not> EqualFold (tx_go (ev_text ev)) (pe_Name q) (pe_Name (shape p))"
      using other sh by (auto simp: crowd_def list_ex_iff)
    show "wired (shape p)" by (rule sh)
  qed
  moreover have "known_ids ev (addPerson p s)"
    using s(5) by (auto simp: known_ids_def p) (auto simp: addPerson_def s_def)
  ultimately show ?thesis
    using assms(3) seated_addPerson [OF s(1) new] crowd_addPerson [OF s(1) new] s
    unfolding p_def [symmetric] s_def [symmetric]
    by (simp add: orderly_def) (simp add: addPerson_def s_def)
qed

lemma remove_sel:
  "rm_showman (removePerson i r) = rm_showman r" "rm_maxPlayers (removePerson i r) = rm_maxPlayers r"
  "rm_closing (removePerson i r) = rm_closing r" "rm_draws (removePerson i r) = rm_draws r"
  by (simp_all add: removePerson_def)

lemma orderly_goes: "orderly ev r \<Longrightarrow> orderly ev (removePerson i r)"
  using seated_removePerson [of r i] crowd_removePerson [of r i] order_removePerson [of r i]
    remove_sel [of i r] good_crowd_filter [of ev "rm_showman r" "rm_maxPlayers r" "crowd r"]
  by (auto simp: orderly_def known_ids_def list_all_iff)

lemma orderly_mild:
  "orderly ev r \<Longrightarrow> (\<And>p. shape (f p) = shape p) \<Longrightarrow> orderly ev (upd_person i f r)"
  by (rule orderly_proceeds, assumption) (auto intro!: proceeds_upd_person)

lemma orderly_renews:
  assumes "orderly ev r"
  shows "orderly ev (new_generation i r)"
proof -
  let ?h = "\<lambda>p. p\<lparr>pe_gen := Suc (pe_gen p), pe_bconn := Some (rm_nextConn r)\<rparr>"
  define s where "s = r\<lparr>rm_conns := (rm_conns r)(rm_nextConn r := set_caps (rm_bz r) (NewConn (rm_mono r))),
    rm_nextConn := Suc (rm_nextConn r)\<rparr>"
  have o': "orderly ev s" using assms by (rule orderly_proceeds) (auto simp: s_def intro!: proceeding)
  then have "orderly ev (upd_person i (\<lambda>p. p\<lparr>pe_gen := Suc (pe_gen p), pe_prevLastSeq := pe_lastSeq p,
      pe_lastSeq := 0, pe_bconn := Some (rm_nextConn r)\<rparr>) s)"
  proof (rule orderly_map [where h = ?h])
    fix p assume "p \<in> set (crowd s)" "pe_ID p = i" "wired p"
    then show "wired (?h p) \<and> (rm_closing s \<longrightarrow> pe_conn (?h p) = None)"
      using o' by (auto simp: wired_def orderly_def list_all_iff)
  qed (simp_all add: shape_def)
  then show ?thesis by (simp add: new_generation_def Let_def s_def)
qed

lemma orderly_connects:
  assumes "orderly ev r" and "\<not> rm_closing r" and "person_of r i = Some p" and "pe_bconn p \<noteq> None"
  shows "orderly ev (upd_person i (\<lambda>p. p\<lparr>pe_conn := Some k, pe_connected := True\<rparr>) r)"
proof (rule orderly_map [OF assms(1), where h = "\<lambda>p. p\<lparr>pe_conn := Some k, pe_connected := True\<rparr>"])
  fix q assume "q \<in> set (crowd r)" "pe_ID q = i" "wired q"
  then show "wired (q\<lparr>pe_conn := Some k, pe_connected := True\<rparr>) \<and>
      (rm_closing r \<longrightarrow> pe_conn (q\<lparr>pe_conn := Some k, pe_connected := True\<rparr>) = None)"
    using crowd_person [of r q] assms by (auto simp: wired_def orderly_def)
qed (simp_all add: shape_def)

lemma sole_length: "distinct (map f xs) \<Longrightarrow> length (filter (\<lambda>x. f x = k) xs) \<le> 1"
  by (induction xs) (auto simp: filter_empty_conv, metis image_eqI)

lemma good_crowd_hosted:
  assumes "good_crowd ev sm mx ps" and "filter pe_IsHost ps = []" and "distinct (map pe_ID ps)"
  shows "good_crowd ev sm mx (map (\<lambda>p. if pe_ID p = i then p\<lparr>pe_IsHost := True\<rparr> else p) ps)"
proof -
  let ?h = "\<lambda>p. if pe_ID p = i then p\<lparr>pe_IsHost := True\<rparr> else p"
  have kinds: "human_showman (?h p) = human_showman p" "seated_player (?h p) = seated_player p" "wired (?h p) = wired p"
    "pe_IsAI (?h p) = pe_IsAI p" "pe_Name (?h p) = pe_Name p" for p
    by (simp_all add: human_showman_def seated_player_def wired_def)
  have "filter (\<lambda>p. pe_IsHost (?h p)) ps = filter (\<lambda>p. pe_ID p = i) ps"
    using assms(2) by (intro filter_cong) (auto simp: filter_empty_conv)
  then have "length (filter pe_IsHost (map ?h ps)) \<le> 1"
    using sole_length [OF assms(3), of i] by (simp add: filter_map comp_def)
  moreover have "list_all wired (map ?h ps)"
    using assms(1) by (simp only: good_crowd_def list.pred_map comp_def kinds)
  ultimately show ?thesis
    using assms(1) unfolding good_crowd_def different_names_def filter_map sorted_wrt_map length_map comp_def kinds by simp
qed

lemma orderly_crowd_change:
  assumes "orderly ev r" and "\<And>p. shape (f p) = h (shape p)" and "\<And>p. pe_ID (f p) = pe_ID p"
    and "good_crowd ev (rm_showman r) (rm_maxPlayers r) (map (\<lambda>p. if pe_ID p = i then h p else p) (crowd r))"
    and "\<And>p. pe_conn (h p) = pe_conn p"
  shows "orderly ev (upd_person i f r)"
proof -
  have "crowd (upd_person i f r) = map (\<lambda>p. if pe_ID p = i then h p else p) (crowd r)"
    using assms(1,2) by (intro crowd_upd_person) (auto simp: orderly_def)
  then show ?thesis
    using assms by (auto simp: orderly_def known_ids_def seated_upd_person list_all_iff)
qed

lemma orderly_hosted:
  assumes "orderly ev r" and "filter pe_IsHost (crowd r) = []"
  shows "orderly ev (upd_person i (\<lambda>p. p\<lparr>pe_IsHost := True\<rparr>) r)"
proof (rule orderly_crowd_change [where h = "\<lambda>p. p\<lparr>pe_IsHost := True\<rparr>"])
  have "distinct (map pe_ID (crowd r))" using assms(1) by (simp add: orderly_def crowd_ids) (simp add: seated_def)
  then show "good_crowd ev (rm_showman r) (rm_maxPlayers r) (map (\<lambda>p. if pe_ID p = i then p\<lparr>pe_IsHost := True\<rparr> else p) (crowd r))"
    using assms by (intro good_crowd_hosted) (auto simp: orderly_def)
qed (simp_all add: assms(1) shape_def)

lemma orderly_returns:
  assumes "orderly ev r" and "h \<Longrightarrow> hostPerson r = None"
  shows "orderly ev (upd_person i (\<lambda>p. p\<lparr>pe_tokenHash := t, pe_IsHost := pe_IsHost p \<or> h\<rparr>) r)"
proof (cases h)
  case True
  let ?r = "upd_person i (\<lambda>p. p\<lparr>pe_tokenHash := t\<rparr>) r"
  have "orderly ev ?r" using assms(1) by (rule orderly_mild) simp
  moreover have "filter pe_IsHost (crowd ?r) = []"
    using assms(2) True crowd_cong [of ?r r] by (simp add: hostPerson_crowd)
  ultimately have "orderly ev (upd_person i (\<lambda>p. p\<lparr>pe_IsHost := True\<rparr>) ?r)"
    by (rule orderly_hosted)
  then show ?thesis using True by (simp add: upd_person_twice)
next
  case False
  then show ?thesis using assms(1) by (auto intro: orderly_mild)
qed

lemma orderly_unhosted:
  assumes "orderly ev r" and "hostPerson r = Some p"
  shows "orderly ev (upd_person (pe_ID p) (\<lambda>p. p\<lparr>pe_IsHost := False\<rparr>) r)"
    and "filter pe_IsHost (crowd (upd_person (pe_ID p) (\<lambda>p. p\<lparr>pe_IsHost := False\<rparr>) r)) = []"
proof -
  let ?f = "\<lambda>q :: person. q\<lparr>pe_IsHost := False\<rparr>"
  let ?m = "\<lambda>q. if pe_ID q = pe_ID p then q\<lparr>pe_IsHost := False\<rparr> else q"
  have good: "good_crowd ev (rm_showman r) (rm_maxPlayers r) (crowd r)" and s: "seated r"
    using assms(1) by (simp_all add: orderly_def)
  have p: "p \<in> set (ordered_persons r)" "pe_IsHost p" using assms(2) by (auto simp: hostPerson_def dest: find_SomeD)
  then have "shape p \<in> set (filter pe_IsHost (crowd r))" by (simp add: crowd_def)
  moreover have "length (filter pe_IsHost (crowd r)) \<le> 1" using good by (simp add: good_crowd_def)
  ultimately have "filter pe_IsHost (crowd r) = [shape p]"
    by (cases "filter pe_IsHost (crowd r)") auto
  then have sole: "q = shape p" if "q \<in> set (crowd r)" "pe_IsHost q" for q
  proof -
    have "q \<in> set (filter pe_IsHost (crowd r))" using that by simp
    then show ?thesis unfolding \<open>filter pe_IsHost (crowd r) = [shape p]\<close> by simp
  qed
  have none: "filter pe_IsHost (map ?m (crowd r)) = []"
    using sole by (fastforce simp: filter_empty_conv)
  have kinds: "human_showman (?m q) = human_showman q" "seated_player (?m q) = seated_player q" "wired (?m q) = wired q"
    "pe_IsAI (?m q) = pe_IsAI q" "pe_Name (?m q) = pe_Name q" for q
    by (simp_all add: human_showman_def seated_player_def wired_def)
  have "list_all wired (map ?m (crowd r))"
    using good by (simp only: good_crowd_def list.pred_map comp_def kinds)
  then have "good_crowd ev (rm_showman r) (rm_maxPlayers r) (map ?m (crowd r))"
    using good none
    unfolding good_crowd_def different_names_def filter_map sorted_wrt_map length_map comp_def kinds by simp
  then show "orderly ev (upd_person (pe_ID p) ?f r)"
    by (intro orderly_crowd_change [where h = ?f]) (simp_all add: assms(1) shape_def)
  have "crowd (upd_person (pe_ID p) ?f r) = map ?m (crowd r)"
    using s by (intro crowd_upd_person) (simp_all add: shape_def)
  then show "filter pe_IsHost (crowd (upd_person (pe_ID p) ?f r)) = []" using none by simp
qed

lemma orderly_hands_over:
  assumes "orderly ev r"
  shows "orderly ev (hand_over i r)"
  using assms orderly_hosted orderly_unhosted hostPerson_crowd
  by (auto simp: hand_over_def split: option.split)

lemma bad_showman_AI: "bad_showman ShowmanAI r = None \<Longrightarrow> humanShowman r = None"
  by (auto simp: bad_showman_def split: if_splits)

lemma orderly_mode:
  assumes "orderly ev r" and "\<not> rm_closing r" and "sm = ShowmanAI \<Longrightarrow> humanShowman r = None"
  shows "orderly ev (syncAIShowman ev (r\<lparr>rm_showman := sm\<rparr>))"
proof -
  define s where "s = r\<lparr>rm_showman := sm\<rparr>"
  have same: "people s = people r" "rm_order s = rm_order r" by (simp_all add: s_def people_def)
  have c: "crowd s = crowd r" by (simp add: crowd_people same)
  have "sm = ShowmanAI \<Longrightarrow> filter human_showman (crowd r) = []"
    using assms(3) by (simp add: humanShowman_crowd)
  then have "good_crowd ev sm (rm_maxPlayers r) (crowd r)"
    using assms(1) by (auto simp: orderly_def good_crowd_def split: if_splits)
  then have o': "orderly ev s"
    using assms(1,2) by (simp add: orderly_def seated_def keyed_def same c) (simp add: s_def known_ids_def)
  have fresh: "orderly ev (addPerson (new_person AIShowmanID nm RoleShowman True h t 1) s)"
    if "person_of s AIShowmanID = None" for nm h t
  proof -
    let ?p = "new_person AIShowmanID nm RoleShowman True h t 1"
    have p: "pe_ID ?p = AIShowmanID" "pe_IsAI ?p" "\<not> pe_IsHost ?p" "wired ?p"
      by (simp_all add: new_person_def wired_def)
    have "seated s" using o' by (simp add: orderly_def)
    moreover have "good_crowd ev (rm_showman s) (rm_maxPlayers s) (crowd s @ [shape ?p])"
      using o' p by (intro good_crowd_append)
        (auto simp: orderly_def human_showman_def seated_player_def wired_def)
    ultimately show ?thesis
      using o' assms(2) that p(1) seated_addPerson [of s ?p] crowd_addPerson [of s ?p]
      by (simp add: orderly_def known_ids_def) (simp add: addPerson_def s_def)
  qed
  show ?thesis
    using o' fresh orderly_goes [OF o'] unfolding s_def [symmetric]
    by (simp add: syncAIShowman_def Let_def)
qed

interpretation order: room_invariant ev "\<lambda>r. fresh_ids ev \<and> orderly ev r" for ev
proof unfold_locales
  fix r s g reason
  show "fresh_ids ev \<and> orderly ev r \<Longrightarrow> same_house r s \<Longrightarrow> fresh_ids ev \<and> orderly ev (closeRoom ev reason s)"
    by (auto simp: same_house_def intro!: orderly_close orderly_house [of ev r])
qed (auto simp: orderly_def [THEN iffD1, THEN conjunct1] intro: orderly_proceeds orderly_house orderly_enters orderly_returns orderly_goes
      orderly_hangs_up orderly_renews orderly_connects orderly_hands_over orderly_mode bad_showman_AI simp: same_house_def)

end
