(* ===== verification/Room_Laws.thy ===== *)
theory Room_Laws
  imports Room_Manager Room_Order
begin

text \<open>
  What holds in every room the manager created, whatever its clients, timers and judges sent: the rooms of
  \<open>room_runs\<close>. The invariants are interpretations of \<open>room_invariant\<close>.
\<close>

text \<open>A message to somebody who may hear it.\<close>

definition fair :: "effect \<Rightarrow> bool" where
  "fair x = (case x of Sent i rl h s m \<Rightarrow> may_hear m i rl h | _ \<Rightarrow> True)"

definition is_sent :: "effect \<Rightarrow> bool" where
  "is_sent x = (case x of Sent i rl h s m \<Rightarrow> True | _ \<Rightarrow> False)"

lemma heard_fair: "heard r x \<Longrightarrow> fair x"
  by (auto simp: heard_def fair_def split: effect.splits option.splits)

lemma heard_connected:
  "heard r x \<Longrightarrow> is_sent x \<Longrightarrow> \<exists>i p. person_of r i = Some p \<and> pe_conn p \<noteq> None"
  by (auto simp: heard_def is_sent_def split: effect.splits option.splits)

definition fair_log :: "room \<Rightarrow> bool" where
  "fair_log r \<longleftrightarrow> list_all fair (rm_log r) \<and> list_all (polled (rm_game r)) (rm_log r)"

definition game_ok :: "room \<Rightarrow> bool" where
  "game_ok r \<longleftrightarrow> rm_closing r \<or> (\<forall>g. rm_game r = Some g \<longrightarrow> reachable g)"

definition sound :: "room_env \<Rightarrow> room \<Rightarrow> bool" where
  "sound ev r \<longleftrightarrow> fresh_ids ev \<and> orderly ev r \<and> fair_log r \<and> game_ok r"

lemma fair_same_house: "fair_log r \<Longrightarrow> same_house r s \<Longrightarrow> fair_log s"
  using polled_keeps [of "rm_game r" "rm_game s"]
  by (auto simp: fair_log_def same_house_def list_all_iff dest: heard_fair)

lemma game_ok_proceeds: "game_ok r \<Longrightarrow> proceeds r s \<Longrightarrow> game_ok s"
  using house_closing [OF proceeds_house, of r s]
  by (auto simp: game_ok_def proceeds_def game_moves_def intro: reachable_leads_to split: option.splits)

lemma game_ok_same: "game_ok r \<Longrightarrow> rm_closing s = rm_closing r \<Longrightarrow> rm_game s = rm_game r \<Longrightarrow> game_ok s"
  by (simp add: game_ok_def)

lemma fair_same: "fair_log r \<Longrightarrow> rm_log s = rm_log r \<Longrightarrow> rm_game s = rm_game r \<Longrightarrow> fair_log s"
  by (simp add: fair_log_def)

lemma door_keeps [simp]:
  "rm_log (addPerson p r) = rm_log r" "rm_closing (addPerson p r) = rm_closing r" "rm_game (addPerson p r) = rm_game r"
  "rm_log (removePerson i r) = rm_log r" "rm_closing (removePerson i r) = rm_closing r" "rm_game (removePerson i r) = rm_game r"
  "rm_log (new_generation i r) = rm_log r" "rm_closing (new_generation i r) = rm_closing r" "rm_game (new_generation i r) = rm_game r"
  "rm_log (hand_over i r) = rm_log r" "rm_closing (hand_over i r) = rm_closing r" "rm_game (hand_over i r) = rm_game r"
  "rm_log (syncAIShowman ev r) = rm_log r" "rm_closing (syncAIShowman ev r) = rm_closing r" "rm_game (syncAIShowman ev r) = rm_game r"
  by (simp_all add: addPerson_def removePerson_def new_generation_def hand_over_def syncAIShowman_def Let_def split: option.split)

lemma dropped_rest:
  "rm_closing (fold (\<lambda>i. drop_conn i (\<lambda>p. p) code) ks r) = rm_closing r"
  "fair_log (fold (\<lambda>i. drop_conn i (\<lambda>p. p) code) ks r) = fair_log r"
proof -
  have "fair_log (drop_conn i f code r) = fair_log r" for i f code r
    by (auto simp: drop_conn_def fair_log_def log_effect_def fair_def split: option.split)
  then show "rm_closing (fold (\<lambda>i. drop_conn i (\<lambda>p. p) code) ks r) = rm_closing r"
    "fair_log (fold (\<lambda>i. drop_conn i (\<lambda>p. p) code) ks r) = fair_log r"
    by (induction ks arbitrary: r) simp_all
qed

lemma fair_proceeds: "fair_log r \<Longrightarrow> proceeds r s \<Longrightarrow> fair_log s"
  using fair_same_house proceeds_same_house by blast

lemma closed_fairly:
  assumes "seated r" and "fair_log r"
  shows "rm_closing (closeRoom ev reason r)" and "fair_log (closeRoom ev reason r)"
proof -
  have "rm_closing (closeRoom ev reason r) \<and> fair_log (closeRoom ev reason r)"
  proof (cases "rm_closing r")
    case True
    then show ?thesis using assms by (simp add: closeRoom_def)
  next
    case False
    then obtain s code where s: "proceeds (r\<lparr>rm_closing := True\<rparr>) s"
      and l: "proceeds (fold (\<lambda>i. drop_conn i (\<lambda>p. p) code) (rm_order s) s) (closeRoom ev reason r)"
      using closeRoom_parts [OF assms(1)] by metis
    have "fair_log (r\<lparr>rm_closing := True\<rparr>)" using assms(2) by (simp add: fair_log_def)
    then show ?thesis
      using fair_proceeds [OF _ s] fair_proceeds [OF _ l] house_closing [OF proceeds_house [OF s]]
        house_closing [OF proceeds_house [OF l]] by (simp add: dropped_rest)
  qed
  then show "rm_closing (closeRoom ev reason r)" "fair_log (closeRoom ev reason r)" by simp_all
qed

interpretation law: room_invariant ev "sound ev" for ev
proof unfold_locales
  fix r s :: room and g reason
  assume r: "sound ev r"
  then have o': "fresh_ids ev \<and> orderly ev r" and fair: "fair_log r" and ok: "game_ok r" by (simp_all add: sound_def)
  show "seated r" using order.seats [OF o'] .
  show "proceeds r s \<Longrightarrow> sound ev s"
    using order.inside [OF o'] fair_proceeds [OF fair] game_ok_proceeds [OF ok] by (simp add: sound_def)
  show "rm_game r = None \<Longrightarrow> same_house r s \<Longrightarrow> rm_game s = Some g \<Longrightarrow> reachable g \<Longrightarrow> sound ev s"
    using order.starts [OF o'] fair_same_house [OF fair] by (simp add: sound_def game_ok_def)
  show "sound ev (closeRoom ev reason s)" if h: "same_house r s"
  proof -
    have "seated s" using order.seats [OF o'] seated_cong [OF same_house_house [OF h]] by simp
    then show ?thesis
      using order.shuts [OF o' h] closed_fairly [OF _ fair_same_house [OF fair h]] by (simp add: sound_def game_ok_def)
  qed
next
  fix r rl name b
  assume "sound ev r" "\<not> rm_closing r" "rl \<in> {RoleShowman, RolePlayer, RoleViewer}"
    "\<not> list_ex (\<lambda>p. \<not> pe_IsAI p \<and> EqualFold (tx_go (ev_text ev)) (pe_Name p) name) (ordered_persons r)"
    "join_refused rl b r = None"
  then show "sound ev (addPerson (newcomer ev name rl b r) (r\<lparr>rm_draws := Suc (Suc (rm_draws r))\<rparr>))"
    using order.enters [of ev r rl name b] by (simp add: sound_def fair_log_def game_ok_def)
next
  fix r sm
  assume "sound ev r" "\<not> rm_closing r" "bad_showman sm r = None"
  then show "sound ev (syncAIShowman ev (r\<lparr>rm_showman := sm\<rparr>))"
    using order.mode [of ev r sm] by (simp add: sound_def fair_log_def game_ok_def)
qed (auto simp: sound_def fair_log_def game_ok_def intro: orderly_returns orderly_goes orderly_hangs_up orderly_renews
    orderly_connects orderly_hands_over)

text \<open>In a closed room nobody is told anything.\<close>

definition silent :: "room_env \<Rightarrow> effect list \<Rightarrow> room \<Rightarrow> bool" where
  "silent ev sent r \<longleftrightarrow> fresh_ids ev \<and> orderly ev r \<and> rm_closing r \<and> filter is_sent (rm_log r) = sent"

lemma silent_same_house:
  assumes "silent ev sent r" and "same_house r s"
  shows "silent ev sent s"
proof -
  obtain xs where xs: "rm_log s = rm_log r @ xs" "list_all (heard r) xs" using assms(2) by (auto simp: same_house_def)
  have none: "pe_conn p = None" if p: "person_of r i = Some p" for i p
  proof -
    have "seated r" using assms(1) by (simp add: silent_def orderly_def)
    then have "i \<in> set (rm_order r)" using seated_key [of r i] p by simp
    then have "shape p \<in> set (crowd r)" using p ordered_persons_iff [of p r] by (auto simp: crowd_def)
    then show ?thesis using assms(1) by (auto simp: silent_def orderly_def list_all_iff)
  qed
  have "filter is_sent xs = []"
    using xs(2) none heard_connected by (fastforce simp: filter_empty_conv list_all_iff)
  then show ?thesis
    using assms xs(1) orderly_house [of ev r s] house_closing [of s r] by (simp add: silent_def same_house_def)
qed

interpretation hush: room_invariant ev "silent ev sent" for ev sent
proof unfold_locales
  fix r s :: room and g reason
  assume r: "silent ev sent r"
  show "seated r" using r by (simp add: silent_def orderly_def)
  show "proceeds r s \<Longrightarrow> silent ev sent s" using silent_same_house [OF r] proceeds_same_house by blast
  show "same_house r s \<Longrightarrow> silent ev sent s" using silent_same_house [OF r] .
  show "silent ev sent (closeRoom ev reason s)" if h: "same_house r s"
    using silent_same_house [OF r h] by (simp add: closeRoom_def silent_def)
qed (auto simp: silent_def intro: orderly_returns orderly_goes orderly_hangs_up orderly_renews
    orderly_hands_over)

subsection \<open>Rooms as they come\<close>

inductive room_runs :: "room_env \<Rightarrow> room \<Rightarrow> bool" for ev where
  created: "room_runs ev (startQualityTicker ev (publishInfo (syncAIShowman ev (new_room p pk i code h now wall))))"
| turned: "room_runs ev r \<Longrightarrow> turn ev now wall x r = Some (reply, r') \<Longrightarrow> room_runs ev r'"

lemma sound_created:
  "fresh_ids ev \<Longrightarrow> sound ev (startQualityTicker ev (publishInfo (syncAIShowman ev (new_room p pk i code h now wall))))"
proof -
  assume f: "fresh_ids ev"
  let ?r = "new_room p pk i code h now wall"
  have "orderly ev ?r"
    by (simp add: orderly_def seated_def keyed_def people_def known_ids_def good_crowd_def different_names_def crowd_def
        ordered_persons_def map_filter_simps new_room_def Let_def)
  moreover have "humanShowman ?r = None" "\<not> rm_closing ?r"
    by (simp_all add: humanShowman_def ordered_persons_def map_filter_simps new_room_def Let_def)
  ultimately have "orderly ev (syncAIShowman ev (?r\<lparr>rm_showman := rm_showman ?r\<rparr>))"
    by (intro orderly_mode)
  moreover have "fair_log (syncAIShowman ev ?r)" "game_ok (syncAIShowman ev ?r)"
    by (simp_all add: fair_log_def game_ok_def) (simp_all add: new_room_def Let_def)
  ultimately have "sound ev (syncAIShowman ev ?r)" using f by (simp add: sound_def)
  then show ?thesis by (rule law.inside) (auto intro!: proceeding)
qed

lemma runs_sound: "room_runs ev r \<Longrightarrow> fresh_ids ev \<Longrightarrow> sound ev r"
  by (induction rule: room_runs.induct) (auto intro: sound_created law.turn_keeps)

subsection \<open>What every room keeps\<close>

lemma good_crowd_shape: "good_crowd ev sm mx (map shape ps) = good_crowd ev sm mx ps"
proof -
  have kinds: "human_showman (shape p) = human_showman p" "seated_player (shape p) = seated_player p" "wired (shape p) = wired p" for p
    by (simp_all add: human_showman_def seated_player_def wired_def)
  show ?thesis
    by (simp add: good_crowd_def different_names_def filter_map comp_def kinds sorted_wrt_map list.pred_map)
qed

lemma runs_orderly: "fresh_ids ev \<Longrightarrow> room_runs ev r \<Longrightarrow> orderly ev r"
  using runs_sound by (simp add: sound_def)

text \<open>
  C10: in every room, after any sequence of calls, messages, timers and verdicts, there is at most one
  host and at most one human showman (none in a room the AI conducts), no more players than seats, no two
  people share a name, everybody connected has a socket whose measurements exist, and nobody is connected
  to a room that closed.
\<close>

theorem rooms_are_orderly:
  assumes "fresh_ids ev" and "room_runs ev r"
  shows "distinct (rm_order r) \<and>
    length (filter pe_IsHost (ordered_persons r)) \<le> 1 \<and>
    length (filter human_showman (ordered_persons r)) \<le> (if rm_showman r = ShowmanAI then 0 else 1) \<and>
    countRole RolePlayer r \<le> rm_maxPlayers r \<and>
    different_names ev (ordered_persons r) \<and>
    (\<forall>p \<in> set (ordered_persons r). (pe_connected p \<longleftrightarrow> pe_conn p \<noteq> None) \<and>
       (pe_conn p \<noteq> None \<longrightarrow> pe_bconn p \<noteq> None) \<and> (rm_closing r \<longrightarrow> pe_conn p = None))"
proof -
  have o': "orderly ev r" using runs_orderly [OF assms] .
  then have good: "good_crowd ev (rm_showman r) (rm_maxPlayers r) (ordered_persons r)"
    by (simp add: orderly_def crowd_def good_crowd_shape)
  have "seated r" using o' by (simp add: orderly_def)
  moreover have "rm_closing r \<longrightarrow> (\<forall>p \<in> set (ordered_persons r). pe_conn p = None)"
    using o' by (simp add: orderly_def crowd_def list.pred_map list_all_iff)
  ultimately show ?thesis
    using good by (simp add: good_crowd_def countRole_def seated_player_def [abs_def] wired_def [abs_def] seated_def list_all_iff)
qed


text \<open>
  C11: the game of an open room is always one that the engine's own commands lead to from a new game,
  so that every property of reachable games holds for the games that rooms play.
\<close>

theorem room_game_reachable:
  assumes "fresh_ids ev" and "room_runs ev r" and "\<not> rm_closing r" and "rm_game r = Some g"
  shows "reachable g"
  using runs_sound [OF assms(2,1)] assms(3,4) by (simp add: sound_def game_ok_def)

text \<open>
  C12: a room that closed stays closed and sends nothing, whatever still arrives in its mailbox:
  late messages, timers, verdicts, joins.
\<close>

theorem closed_room_is_silent:
  assumes "fresh_ids ev" and "room_runs ev r" and "rm_closing r" and "turn ev now wall x r = Some (reply, r')"
  shows "rm_closing r' \<and> filter is_sent (rm_log r') = filter is_sent (rm_log r)"
proof -
  have "silent ev (filter is_sent (rm_log r)) r"
    using runs_orderly [OF assms(1,2)] assms(1,3) by (simp add: silent_def)
  then have "silent ev (filter is_sent (rm_log r)) r'" using assms(4) by (rule hush.turn_keeps)
  then show ?thesis by (simp add: silent_def)
qed

subsection \<open>Settings refused half way\<close>

lemma patch_room_rest:
  "rm_log (patch_room ev pt r) = rm_log r" "rm_info (patch_room ev pt r) = rm_info r"
  "rm_game (patch_room ev pt r) = rm_game r"
  "rm_name (patch_room ev pt r) = (case sp_Name pt of None \<Rightarrow> rm_name r | Some n \<Rightarrow> TrimSpace n)"
proof -
  have sync: "rm_info (syncAIShowman ev s) = rm_info s" "rm_name (syncAIShowman ev s) = rm_name s" for s
    by (simp_all add: syncAIShowman_def addPerson_def removePerson_def Let_def)
  have bz: "rm_log (patch_buzzer b s) = rm_log s" "rm_info (patch_buzzer b s) = rm_info s"
    "rm_game (patch_buzzer b s) = rm_game s" "rm_name (patch_buzzer b s) = rm_name s" for b s
    by (simp_all add: patch_buzzer_def)
  define r1 where "r1 = (case sp_Name pt of None \<Rightarrow> r | Some n \<Rightarrow> r\<lparr>rm_name := TrimSpace n\<rparr>)"
  define r2 where "r2 = (case sp_Password pt of None \<Rightarrow> r1 | Some w \<Rightarrow> r1\<lparr>rm_password := w\<rparr>)"
  define r3 where "r3 = (case sp_JoinMode pt of None \<Rightarrow> r2 | Some jm \<Rightarrow> r2\<lparr>rm_joinMode := jm\<rparr>)"
  define r4 where "r4 = (case sp_Showman pt of None \<Rightarrow> r3 | Some sm \<Rightarrow> syncAIShowman ev (r3\<lparr>rm_showman := sm\<rparr>))"
  define r5 where "r5 = (case sp_Buzzer pt of None \<Rightarrow> r4 | Some s \<Rightarrow> patch_buzzer s r4)"
  define fields where "fields s = (rm_log s, rm_info s, rm_game s, rm_name s)" for s :: room
  have "patch_room ev pt r = (case sp_Times pt of None \<Rightarrow> r5 | Some t \<Rightarrow> r5\<lparr>rm_times := t\<rparr>)"
    unfolding patch_room_def Let_def r5_def r4_def r3_def r2_def r1_def ..
  then have "fields (patch_room ev pt r) = fields r5" by (simp add: fields_def split: option.split)
  also have "\<dots> = fields r4" by (simp add: fields_def r5_def bz split: option.split)
  also have "\<dots> = fields r3" by (simp add: fields_def r4_def sync split: option.split)
  also have "\<dots> = fields r2" by (simp add: fields_def r3_def split: option.split)
  also have "\<dots> = fields r1" by (simp add: fields_def r2_def split: option.split)
  finally have "fields (patch_room ev pt r) = fields r1" .
  moreover have "fields r1 = (rm_log r, rm_info r, rm_game r, case sp_Name pt of None \<Rightarrow> rm_name r | Some n \<Rightarrow> TrimSpace n)"
    by (simp add: fields_def r1_def split: option.split)
  ultimately show "rm_log (patch_room ev pt r) = rm_log r" "rm_info (patch_room ev pt r) = rm_info r"
    "rm_game (patch_room ev pt r) = rm_game r"
    "rm_name (patch_room ev pt r) = (case sp_Name pt of None \<Rightarrow> rm_name r | Some n \<Rightarrow> TrimSpace n)"
    by (simp_all add: fields_def)
qed

lemma refused_options:
  assumes "rm_game r = Some g" and "\<not> st_Ended g" and "requireShowman a" and "rp_ReadingSpeed o' = Some v" and "v < 0"
  shows "\<exists>h. apply_room ev ((command_by a CmdSetOptions)\<lparr>cmd_Options := Some o'\<rparr>) r =
    returns (Some (EngineErr ErrBadArgument), r\<lparr>rm_game := Some h\<rparr>)"
  by (rule exI) (simp add: assms apply_room_def Apply_def dispatch_def onSetOptions_def begin_cmd_def command_by_def Let_def)

text \<open>
  C14: a change of the settings of a running room whose rules the engine refuses reports an error
  after the room's name was already changed; nobody is told, nothing is stored and the public information
  keeps the old name.
\<close>

theorem settings_half_applied:
  assumes "settings_refused pt r = None" and "running r" and "rm_game r = Some g" and "\<not> st_Ended g"
    and "sp_Rules pt = Some o'" and "rp_ReadingSpeed o' = Some v" and "v < 0" and "sp_Name pt = Some n"
  shows "\<exists>s. updateSettings ev pt r = returns (Some (EngineErr ErrBadArgument), s) \<and> rm_name s = TrimSpace n \<and>
    rm_log s = rm_log r \<and> rm_info s = rm_info r"
proof -
  let ?r = "patch_room ev pt r"
  have "requireShowman (options_actor ?r)"
    by (simp add: options_actor_def requireShowman_def pe_actor_def split: option.split)
  then obtain h where "apply_room ev ((command_by (options_actor ?r) CmdSetOptions)\<lparr>cmd_Options := Some o'\<rparr>) ?r =
      returns (Some (EngineErr ErrBadArgument), ?r\<lparr>rm_game := Some h\<rparr>)"
    using refused_options [of ?r g "options_actor ?r" o' v ev] assms(3,4,6,7) patch_room_rest(3) by metis
  then have "updateSettings ev pt r = returns (Some (EngineErr ErrBadArgument), ?r\<lparr>rm_game := Some h\<rparr>)"
    using assms(1,2,5) by (simp add: updateSettings_def Let_def)
  moreover have "rm_name (?r\<lparr>rm_game := Some h\<rparr>) = TrimSpace n" "rm_log (?r\<lparr>rm_game := Some h\<rparr>) = rm_log r"
    "rm_info (?r\<lparr>rm_game := Some h\<rparr>) = rm_info r"
    using assms(8) by (simp_all add: patch_room_rest)
  ultimately show ?thesis by blast
qed

end
