(* ===== verification/Room_Demo.thy ===== *)
theory Room_Demo
  imports Room_Laws Pack_Demo
begin

text \<open>
  A concrete room, for evaluation: its surroundings, a script of calls and messages, and the rooms they lead to.
\<close>

definition demo_tx :: text_lib where
  "demo_tx =
     \<lparr>tx_go = plain_lib, tx_mark = (\<lambda>_. False), tx_letter = (\<lambda>r. True), tx_digit = (\<lambda>r. False),
      tx_f2 = (\<lambda>x. []), tx_f3 = (\<lambda>x. []), tx_g = (\<lambda>x. []), tx_hypot = (\<lambda>x y. 0)\<rparr>"

definition demo_env :: room_env where
  "demo_env =
     \<lparr>ev_text = demo_tx, ev_lib = Engine_Demo.demo_lib,
      ev_buzz = \<lparr>lib_hmac = (\<lambda>_ _. replicate 32 0), lib_erfc = (\<lambda>_. 1), lib_hypot = max\<rparr>,
      ev_hash = (\<lambda>s. s), ev_send = (\<lambda>s n. Some (int (Suc n))), ev_id = (\<lambda>n. replicate n (CHR ''p'')),
      ev_token = (\<lambda>n. replicate n (CHR ''t'')), ev_seed = (\<lambda>n. [1]), ev_pick = (\<lambda>n k. 0), ev_rng = (\<lambda>d l n. 0),
      ev_media = (\<lambda>i. None), ev_db = True, ev_MaxPlayers = 12, ev_MediaFallbackMaxMs = 60000,
      ev_ConnQualityEveryMs = 5000, ev_ResumeBufferSize = 3, ev_AIShowmanName = ''AI'', ev_FuzzyUncertainAsWrong = False\<rparr>"

definition demo_params :: create_params where
  "demo_params =
     \<lparr>cp_PackID = ''p'', cp_Name = ''Quiz'', cp_Password = [], cp_Rules = DefaultRules, cp_Times = None,
      cp_Buzzer = DefaultSettings, cp_Showman = ShowmanHuman, cp_HybridConfirmMs = 8000, cp_MaxPlayers = 2,
      cp_AllowViewers = False, cp_Language = []\<rparr>"

definition demo_room :: room where
  "demo_room = startQualityTicker demo_env (publishInfo (syncAIShowman demo_env
     (new_room demo_params demo_pack ''room'' ''AAAAA'' ''key'' 0 0)))"

text \<open>A script: what arrives, one turn after the other, all at the same time.\<close>

fun goes_on :: "room_env \<Rightarrow> room_input list \<Rightarrow> room \<Rightarrow> room option" where
  "goes_on ev [] r = Some r"
| "goes_on ev (x # xs) r = (case turn ev 1000 1000 x r of None \<Rightarrow> None | Some (reply, r) \<Rightarrow> goes_on ev xs r)"

lemma goes_on_runs: "room_runs ev r \<Longrightarrow> goes_on ev xs r = Some r' \<Longrightarrow> room_runs ev r'"
proof (induction xs arbitrary: r)
  case (Cons x xs)
  show ?case
  proof (cases "turn ev 1000 1000 x r")
    case (Some y)
    obtain reply s where y: "y = (reply, s)" by (cases y)
    have "room_runs ev s" using Cons.prems(1) Some y by (blast intro: room_runs.turned)
    moreover have "goes_on ev xs s = Some r'" using Cons.prems(2) by (simp add: Some y)
    ultimately show ?thesis by (rule Cons.IH)
  qed (use Cons.prems(2) in simp)
qed simp

definition demo_script :: "room_input list" where
  "demo_script =
     [JoinCall \<lparr>jp_Name = ''Ann'', jp_Role = RoleShowman, jp_Password = []\<rparr> ''key'',
      JoinCall \<lparr>jp_Name = ''Bob'', jp_Role = RoleUnset, jp_Password = []\<rparr> [],
      AttachCall [] 0, AttachCall ''tt'' 1, Inbound ''p'' 1 InStart 1 1000]"

lemma fresh_demo: "fresh_ids demo_env"
proof -
  have "inj (\<lambda>n. replicate n (CHR ''p''))" by (rule injI) (metis length_replicate)
  moreover have "AIShowmanID \<noteq> replicate n (CHR ''p'')" for n
    by (cases n) (simp_all add: AIShowmanID_def)
  ultimately show ?thesis by (auto simp: fresh_ids_def demo_env_def)
qed

lemma demo_room_runs: "room_runs demo_env demo_room"
  unfolding demo_room_def by (rule room_runs.created)

text \<open>Ann opens the room as its host and showman, Bob takes a seat, both connect and Ann starts the game.\<close>

definition demo_played :: room where
  "demo_played = the (goes_on demo_env demo_script demo_room)"

definition told_player :: "effect \<Rightarrow> bool" where
  "told_player x = (case x of Sent i rl h s m \<Rightarrow> rl = RolePlayer | _ \<Rightarrow> False)"

definition demo_fact :: "room \<Rightarrow> bool" where
  "demo_fact r \<longleftrightarrow> running r \<and> \<not> rm_closing r \<and> rm_name r = ''Quiz'' \<and>
     (case rm_game r of None \<Rightarrow> False | Some g \<Rightarrow> \<not> st_Ended g) \<and>
     length (filter pe_IsHost (ordered_persons r)) = 1 \<and> countRole RolePlayer r = 1 \<and> list_ex told_player (rm_log r)"

lemma demo_facts: "goes_on demo_env demo_script demo_room = Some demo_played" "demo_fact demo_played"
proof -
  have "case goes_on demo_env demo_script demo_room of None \<Rightarrow> False | Some r \<Rightarrow> demo_fact r" by code_simp
  then show "goes_on demo_env demo_script demo_room = Some demo_played" "demo_fact demo_played"
    by (auto simp: demo_played_def split: option.splits)
qed

lemma demo_played_runs: "room_runs demo_env demo_played"
  using goes_on_runs [OF demo_room_runs demo_facts(1)] .

theorem rooms_are_orderly_witness:
  "countRole RolePlayer demo_played = 1 \<and> countRole RolePlayer demo_played \<le> rm_maxPlayers demo_played \<and>
   length (filter pe_IsHost (ordered_persons demo_played)) = 1 \<and> different_names demo_env (ordered_persons demo_played)"
  using rooms_are_orderly [OF fresh_demo demo_played_runs] demo_facts(2) by (simp add: demo_fact_def)


theorem room_game_reachable_witness: "\<exists>g. rm_game demo_played = Some g \<and> \<not> st_Ended g \<and> reachable g"
proof -
  obtain g where g: "rm_game demo_played = Some g" "\<not> st_Ended g" and o': "\<not> rm_closing demo_played"
    using demo_facts(2) by (auto simp: demo_fact_def split: option.splits)
  from room_game_reachable [OF fresh_demo demo_played_runs o' g(1)] g show ?thesis by blast
qed

text \<open>The host closes the room; somebody still wants to come in.\<close>

definition demo_closed :: room where
  "demo_closed = closeRoom demo_env ''host'' (clocked 2000 2000 demo_played)"

lemma demo_closes: "room_runs demo_env demo_closed" "rm_closing demo_closed"
proof -
  have "turn demo_env 2000 2000 (CloseCall ''host'') demo_played = Some (NoReply, demo_closed)"
    by (simp add: turn_def room_step_def plain_def returns_def runGuarded_def demo_closed_def)
  then show r: "room_runs demo_env demo_closed" by (rule room_runs.turned [OF demo_played_runs])
  have o': "orderly demo_env demo_played" using runs_orderly [OF fresh_demo demo_played_runs] .
  have "people (clocked 2000 2000 demo_played) = people demo_played" "rm_order (clocked 2000 2000 demo_played) = rm_order demo_played"
    by (simp_all add: clocked_def people_def)
  then have s: "seated (clocked 2000 2000 demo_played)" using o' by (simp add: orderly_def seated_def keyed_def)
  have "fair_log (clocked 2000 2000 demo_played)"
    using runs_sound [OF demo_played_runs fresh_demo] by (simp add: sound_def fair_log_def clocked_def)
  with s show "rm_closing demo_closed" unfolding demo_closed_def by (rule closed_fairly(1))
qed

definition latecomer :: join_params where
  "latecomer = \<lparr>jp_Name = ''Cid'', jp_Role = RolePlayer, jp_Password = []\<rparr>"

theorem closed_room_is_silent_witness:
  "\<exists>r'. turn demo_env 3000 3000 (JoinCall latecomer []) demo_closed = Some (Failed ErrRoomClosed, r') \<and>
     rm_closing r' \<and> filter is_sent (rm_log r') = filter is_sent (rm_log demo_closed)"
proof -
  have t: "turn demo_env 3000 3000 (JoinCall latecomer []) demo_closed =
      Some (Failed ErrRoomClosed, clocked 3000 3000 demo_closed)"
    using demo_closes(2) by (simp add: turn_def room_step_def join_def join_check_def session_reply_def returns_def
        runGuarded_def clocked_def Let_def)
  from closed_room_is_silent [OF fresh_demo demo_closes t] t show ?thesis by blast
qed

text \<open>A patch with a new name and a reading speed the engine refuses.\<close>

definition slow_rules :: rules_patch where
  "slow_rules = \<lparr>rp_Oral = None, rp_Managed = None, rp_DisplayAnswerOptionsLabels = None, rp_FalseStart = None,
     rp_ReadingSpeed = Some (- 1), rp_PartialText = None, rp_UseAppellations = None, rp_ButtonBlockingMs = None,
     rp_PartialImageMs = None\<rparr>"

definition demo_patch :: settings_patch where
  "demo_patch = \<lparr>sp_Rules = Some slow_rules, sp_Times = None, sp_Buzzer = None, sp_Showman = None, sp_JoinMode = None,
     sp_Name = Some ''Final'', sp_Password = None\<rparr>"

theorem settings_half_applied_witness:
  "\<exists>s. updateSettings demo_env demo_patch demo_played = returns (Some (EngineErr ErrBadArgument), s) \<and>
     rm_name demo_played = ''Quiz'' \<and> rm_name s = ''Final'' \<and> rm_log s = rm_log demo_played \<and> rm_info s = rm_info demo_played"
proof -
  obtain g where g: "rm_game demo_played = Some g" "\<not> st_Ended g"
    using demo_facts(2) by (auto simp: demo_fact_def split: option.splits)
  have r: "running demo_played" "\<not> rm_closing demo_played" "rm_name demo_played = ''Quiz''"
    using demo_facts(2) by (simp_all add: demo_fact_def)
  have n: "TrimSpace ''Final'' = ''Final''" "bad_room_name ''Final'' = None" by code_simp+
  have "settings_refused demo_patch demo_played = None"
    using r(2) n(2) by (simp add: settings_refused_def demo_patch_def)
  from settings_half_applied [OF this r(1) g, of slow_rules "- 1" "''Final''" demo_env] r(3) n(1) show ?thesis
    by (simp add: demo_patch_def slow_rules_def)
qed

end
