(* ===== verification/Room_Ring.thy ===== *)
theory Room_Ring
  imports Room_State
begin

text \<open>
  The ring of envelopes a person may ask for again (\<open>session.go\<close>), against the list of what was sent. The code
  has two rings of the same make; reading this one starts at the oldest entry.
\<close>

lemma mod_shift: "i < n \<Longrightarrow> n \<le> k \<Longrightarrow> h < k \<Longrightarrow>
    ((h + k - n) mod k + i) mod k = nat ((int h - 1 - int (n - 1 - i)) mod int k)"
proof -
  assume le: "i < n" "n \<le> k" "h < k"
  then have "int (h + k - n + i) = (int h - 1 - int (n - 1 - i)) + int k" by auto
  then have "int (h + k - n + i) mod int k = (int h - 1 - int (n - 1 - i)) mod int k" by (metis mod_add_self2)
  then have "int ((h + k - n + i) mod k) = (int h - 1 - int (n - 1 - i)) mod int k" by (simp add: zmod_int)
  then show ?thesis by (simp add: mod_add_left_eq flip: nat_int)
qed

lemma entries_ring_list:
  assumes "ring_ok k r"
  shows "entries r = rev (ring_list r)"
proof (rule nth_equalityI)
  show "length (entries r) = length (rev (ring_list r))" by (simp add: entries_def Let_def)
next
  fix i assume "i < length (entries r)"
  then have i: "i < r_n r" by (simp add: entries_def Let_def)
  have k: "length (r_buf r) = k" "r_n r \<le> k" "r_head r < k" using assms by (simp_all add: ring_ok_def)
  have "entries r ! i = r_buf r ! (((r_head r + k - r_n r) mod k + i) mod k)"
    using i by (simp add: entries_def Let_def k)
  also have "\<dots> = ring_newest r (r_n r - 1 - i)"
    using mod_shift [OF i k(2,3)] by (simp add: ring_newest_mod [OF assms])
  also have "\<dots> = rev (ring_list r) ! i"
    using i by (simp add: rev_nth ring_list_def)
  finally show "entries r ! i = rev (ring_list r) ! i" .
qed

text \<open>
  C15: what was pushed into a person's ring comes out in the order it was sent, all of it as long as
  it fits, the latest entries when it does not; a size of zero is a size of one.
\<close>

theorem resume_ring_roundtrip:
  "entries (fold ring_push es (newResumeRing n)) = drop (length es - max 1 n) es"
proof -
  obtain k where k: "(if n = 0 then 1 else n) = Suc k" by (cases n) auto
  let ?r = "fold ring_push es (newRing \<lparr>re_gen = 0, re_seq = 0, re_msg = None\<rparr> (Suc k))"
  have "ring_ok (Suc k) ?r" "ring_list ?r = take (Suc k) (rev es)"
    using samples.after [of k es] by blast+
  then have "entries ?r = rev (take (Suc k) (rev es))" by (simp add: entries_ring_list)
  also have "\<dots> = drop (length es - Suc k) es" by (simp add: rev_take)
  finally show ?thesis using k by (simp add: newResumeRing_def max_def split: if_splits)
qed

end
